(* ===== verification/Prelude.thy ===== *)
theory Prelude
  imports Main "HOL-Library.Word" "HOL-Library.Sublist" "HOL-Library.Signed_Division"
begin

text \<open>
  Shared vocabulary of the development.  The theory fixes the names of the machine types, the
  two's complement reading of C \<open>int\<close> arithmetic, the operations of C and C++ strings that the
  sources use (\<open>std::string::find\<close>, \<open>substr\<close>, \<open>std::to_string\<close>, splitting and joining), and the
  little-endian byte codecs of the two wire protocols.  Every lemma that more than one component
  needs lives here; the collection \<open>string_simps\<close> carries the string facts.
\<close>

unbundle bit_operations_syntax

named_theorems string_simps \<open>equations for the C++ string operations\<close>
named_theorems inv_intros \<open>preservation lemmas of the component invariants\<close>

type_synonym u8 = "8 word"
type_synonym u16 = "16 word"
type_synonym u32 = "32 word"
type_synonym u64 = "64 word"

text \<open>A fallible operation of the sources: \<open>Inl\<close> is the error, \<open>Inr\<close> the value.\<close>

type_synonym ('e, 'a) result = "'e + 'a"

text \<open>
  An error is returned at once (\<open>OR_RETURN\<close>, \<open>CF_EXPECT\<close>); \<open>res_fold\<close> is a loop whose body may return one.
\<close>

definition or_return ::
  "('e, 'a) result \<times> 'w \<Rightarrow> ('a \<Rightarrow> 'w \<Rightarrow> ('e, 'b) result \<times> 'w) \<Rightarrow> ('e, 'b) result \<times> 'w" where
  "or_return p f = (case p of (Inl e, w) \<Rightarrow> (Inl e, w) | (Inr x, w) \<Rightarrow> f x w)"

fun res_fold :: "('a \<Rightarrow> 'w \<Rightarrow> ('e, unit) result \<times> 'w) \<Rightarrow> 'a list \<Rightarrow> 'w \<Rightarrow> ('e, unit) result \<times> 'w" where
  "res_fold f [] w = (Inr (), w)"
| "res_fold f (x # xs) w = or_return (f x w) (\<lambda>_. res_fold f xs)"

text \<open>An operation that may end the process: \<open>LOG(FATAL)\<close> aborts.\<close>

datatype 'a outcome = Returns 'a | Aborts

fun out_bind :: "'a outcome \<Rightarrow> ('a \<Rightarrow> 'b outcome) \<Rightarrow> 'b outcome" where
  "out_bind (Returns x) f = f x"
| "out_bind Aborts f = Aborts"

fun out_fold :: "('a \<Rightarrow> 's \<Rightarrow> 's outcome) \<Rightarrow> 'a list \<Rightarrow> 's \<Rightarrow> 's outcome" where
  "out_fold f [] s = Returns s"
| "out_fold f (x # xs) s = out_bind (f x s) (out_fold f xs)"

text \<open>A step that may abort, or, with the value \<open>None\<close>, not return at all.\<close>

definition step_bind :: "'a outcome option \<Rightarrow> ('a \<Rightarrow> 'b outcome option) \<Rightarrow> 'b outcome option" where
  "step_bind m f = Option.bind m (\<lambda>r. case r of Returns x \<Rightarrow> f x | Aborts \<Rightarrow> Some Aborts)"

lemma step_bind_simps [simp]:
  "step_bind None f = None" "step_bind (Some Aborts) f = Some Aborts" "step_bind (Some (Returns x)) f = f x"
  by (simp_all add: step_bind_def)

lemma step_bind_Returns:
  "step_bind m f = Some (Returns y) \<longleftrightarrow> (\<exists>x. m = Some (Returns x) \<and> f x = Some (Returns y))"
proof (cases m)
  case (Some r)
  then show ?thesis by (cases r) auto
qed simp

lemma step_bind_mono [partial_function_mono]:
  assumes "mono_option B" and "\<And>y. mono_option (\<lambda>f. C y f)"
  shows "mono_option (\<lambda>f. step_bind (B f) (\<lambda>y. C y f))"
  unfolding step_bind_def
proof (rule bind_mono [OF assms(1)])
  fix r
  show "mono_option (\<lambda>f. case r of Returns x \<Rightarrow> C x f | Aborts \<Rightarrow> Some Aborts)"
    using assms(2) by (cases r) (auto intro: partial_function_mono)
qed

lemma out_bind_Returns: "out_bind x f = Returns y \<longleftrightarrow> (\<exists>z. x = Returns z \<and> f z = Returns y)"
  by (cases x) auto

section \<open>C integers\<close>

text \<open>
  \<open>i32\<close> and \<open>i64\<close> reduce a mathematical integer to the value a two's complement register of that
  width holds.  C division and remainder truncate towards zero: \<open>sdiv\<close> and \<open>smod\<close>.
\<close>

definition i32 :: "int \<Rightarrow> int" where
  "i32 x = (x + 2 ^ 31) mod 2 ^ 32 - 2 ^ 31"

definition i64 :: "int \<Rightarrow> int" where
  "i64 x = (x + 2 ^ 63) mod 2 ^ 64 - 2 ^ 63"

lemma i32_id: "- (2 ^ 31) \<le> x \<Longrightarrow> x < 2 ^ 31 \<Longrightarrow> i32 x = x"
  by (simp add: i32_def mod_pos_pos_trivial)

lemma i64_id: "- (2 ^ 63) \<le> x \<Longrightarrow> x < 2 ^ 63 \<Longrightarrow> i64 x = x"
  by (simp add: i64_def mod_pos_pos_trivial)

lemma i32_range: "- (2 ^ 31) \<le> i32 x \<and> i32 x < 2 ^ 31"
proof -
  have "0 \<le> (x + 2 ^ 31) mod 2 ^ 32" and "(x + 2 ^ 31) mod 2 ^ 32 < (2 ^ 32 :: int)"
    by simp_all
  then show ?thesis by (simp add: i32_def)
qed

lemma sdiv_nonneg: "0 \<le> (a :: int) \<Longrightarrow> 0 < b \<Longrightarrow> a sdiv b = a div b"
  by (simp add: signed_divide_int_def sgn_if)

lemma sdiv_minus_nonneg: "0 \<le> (a :: int) \<Longrightarrow> 0 < b \<Longrightarrow> (- a) sdiv b = - (a div b)"
  by (simp add: signed_divide_int_def sgn_if)

lemma abs_sdiv_le: "0 < (b :: int) \<Longrightarrow> \<bar>a sdiv b\<bar> \<le> \<bar>a\<bar>"
proof -
  assume b: "0 < b"
  have "\<bar>a sdiv b\<bar> = \<bar>sgn a\<bar> * (\<bar>a\<bar> div b)"
    using b by (simp add: signed_divide_int_def abs_mult sgn_if pos_imp_zdiv_nonneg_iff)
  also have "\<dots> \<le> \<bar>a\<bar> div b"
    using b by (simp add: sgn_if pos_imp_zdiv_nonneg_iff)
  also have "\<dots> \<le> \<bar>a\<bar>"
    using b zdiv_mono2 [of "\<bar>a\<bar>" 1 b] by simp
  finally show ?thesis .
qed

section \<open>Strings\<close>

text \<open>
  \<open>find_char c s\<close> and \<open>find_str n s\<close> are \<open>std::string::find\<close>: the least position of the
  character or of the substring, \<open>None\<close> for \<open>npos\<close>.  \<open>rfind_char\<close> and \<open>rfind_str\<close> are
  \<open>std::string::rfind\<close>, the greatest position.
\<close>

fun find_char :: "char \<Rightarrow> string \<Rightarrow> nat option" where
  "find_char c [] = None"
| "find_char c (x # xs) = (if x = c then Some 0 else map_option Suc (find_char c xs))"

fun find_str :: "string \<Rightarrow> string \<Rightarrow> nat option" where
  "find_str n [] = (if n = [] then Some 0 else None)"
| "find_str n (x # xs) =
     (if take (length n) (x # xs) = n then Some 0 else map_option Suc (find_str n xs))"

definition rfind_char :: "char \<Rightarrow> string \<Rightarrow> nat option" where
  "rfind_char c s = map_option (\<lambda>i. length s - Suc i) (find_char c (rev s))"

definition rfind_str :: "string \<Rightarrow> string \<Rightarrow> nat option" where
  "rfind_str n s = map_option (\<lambda>i. length s - length n - i) (find_str (rev n) (rev s))"

definition find_char_from :: "char \<Rightarrow> string \<Rightarrow> nat \<Rightarrow> nat option" where
  "find_char_from c s p = map_option (\<lambda>i. p + i) (find_char c (drop p s))"

definition substr :: "string \<Rightarrow> nat \<Rightarrow> nat \<Rightarrow> string" where
  "substr s p n = take n (drop p s)"

lemma find_char_None [simp]: "find_char c s = None \<longleftrightarrow> c \<notin> set s"
  by (induction s) auto

lemma find_char_SomeD:
  "find_char c s = Some i \<Longrightarrow> i < length s \<and> s ! i = c \<and> c \<notin> set (take i s)"
  by (induction s arbitrary: i) (auto split: if_splits simp: nth_Cons' take_Cons')

lemma rfind_char_SomeD: "rfind_char c s = Some i \<Longrightarrow> i < length s \<and> s ! i = c"
  by (auto simp: rfind_char_def rev_nth dest!: find_char_SomeD)

lemma rfind_char_None [simp]: "rfind_char c s = None \<longleftrightarrow> c \<notin> set s"
  by (simp add: rfind_char_def)

lemma find_char_append:
  "c \<notin> set p \<Longrightarrow> find_char c (p @ c # r) = Some (length p)"
  by (induction p) auto

lemma find_str_SomeD:
  "find_str n s = Some i \<Longrightarrow> i \<le> length s \<and> take (length n) (drop i s) = n"
  by (induction n s arbitrary: i rule: find_str.induct) (auto split: if_splits)

lemma find_str_None:
  "find_str n s = None \<longleftrightarrow> (\<nexists>p q. s = p @ n @ q)"
proof (induction n s rule: find_str.induct)
  case (1 n)
  then show ?case by auto
next
  case (2 n x xs)
  show ?case
  proof (cases "take (length n) (x # xs) = n")
    case True
    then have "x # xs = [] @ n @ drop (length n) (x # xs)"
      by (metis append_Nil append_take_drop_id)
    then have "\<exists>p q. x # xs = p @ n @ q" by blast
    with True show ?thesis by simp
  next
    case False
    then have "(\<exists>p q. x # xs = p @ n @ q) \<longleftrightarrow> (\<exists>p q. xs = p @ n @ q)"
      by (metis append_Cons append_Nil append_eq_conv_conj list.exhaust list.sel(3) tl_append2)
    with 2 False show ?thesis by simp
  qed
qed

text \<open>Splitting at every occurrence of a delimiter, and joining with a separator.\<close>

fun split_any :: "char set \<Rightarrow> string \<Rightarrow> string list" where
  "split_any ds [] = [[]]"
| "split_any ds (c # cs) =
     (if c \<in> ds then [] # split_any ds cs
      else (case split_any ds cs of [] \<Rightarrow> [[c]] | w # ws \<Rightarrow> (c # w) # ws))"

fun intercalate :: "string \<Rightarrow> string list \<Rightarrow> string" where
  "intercalate sep [] = []"
| "intercalate sep [w] = w"
| "intercalate sep (w # v # ws) = w @ sep @ intercalate sep (v # ws)"

lemma split_any_nonempty [simp]: "split_any ds s \<noteq> []"
  by (induction s) (auto split: list.splits)

lemma split_any_pieces: "w \<in> set (split_any ds s) \<Longrightarrow> set w \<inter> ds = {}"
  by (induction s arbitrary: w) (fastforce split: list.splits if_splits)+

lemma intercalate_split_any: "intercalate [d] (split_any {d} s) = s"
proof (induction s)
  case Nil
  then show ?case by simp
next
  case (Cons c cs)
  obtain w ws where w: "split_any {d} cs = w # ws"
    by (cases "split_any {d} cs") auto
  with Cons show ?case by (cases ws) auto
qed

lemma split_any_no_delim: "set s \<inter> ds = {} \<Longrightarrow> split_any ds s = [s]"
  by (induction s) auto

lemma split_any_append:
  "set w \<inter> ds = {} \<Longrightarrow> d \<in> ds \<Longrightarrow> split_any ds (w @ d # s) = w # split_any ds s"
  by (induction w) auto

lemma split_any_intercalate:
  assumes "ws \<noteq> []" and "\<And>w. w \<in> set ws \<Longrightarrow> d \<notin> set w"
  shows "split_any {d} (intercalate [d] ws) = ws"
  using assms
proof (induction "[d]" ws rule: intercalate.induct)
  case (3 w v ws)
  then have "split_any {d} (intercalate [d] (v # ws)) = v # ws" by simp
  with 3 show ?case by (simp add: split_any_append)
qed (auto simp: split_any_no_delim)

lemma split_any_length_le: "length s < n \<Longrightarrow> length (split_any ds s) \<le> n"
  by (induction s arbitrary: n) (fastforce split: list.splits)+

text \<open>Decimal rendering of a natural number, and its inverse on digit strings.\<close>

definition digit :: "nat \<Rightarrow> char" where
  "digit d = (char_of (48 + d) :: char)"

definition digit_val :: "char \<Rightarrow> nat" where
  "digit_val c = (of_char c :: nat) - 48"

fun dec :: "nat \<Rightarrow> string" where
  "dec n = (if n < 10 then [digit n] else dec (n div 10) @ [digit (n mod 10)])"

declare dec.simps [simp del]

definition undec :: "string \<Rightarrow> nat" where
  "undec s = fold (\<lambda>c v. 10 * v + digit_val c) s 0"

lemma digit_val_digit: "d < 10 \<Longrightarrow> digit_val (digit d) = d"
  by (simp add: digit_val_def digit_def of_char_of)

lemma undec_dec: "undec (dec n) = n"
proof (induction n rule: dec.induct)
  case (1 n)
  show ?case
  proof (cases "n < 10")
    case True
    then show ?thesis by (simp add: undec_def dec.simps digit_val_digit)
  next
    case False
    with 1 show ?thesis by (simp add: undec_def dec.simps [of n] digit_val_digit)
  qed
qed

lemma dec_nonempty [simp]: "dec n \<noteq> []"
  by (simp add: dec.simps [of n])

lemma dec_digits: "c \<in> set (dec n) \<Longrightarrow> \<exists>d < 10. c = digit d"
proof (induction n rule: dec.induct)
  case (1 n)
  have "\<exists>d < 10. digit (n mod 10) = digit d"
    by (rule exI [of _ "n mod 10"]) simp
  then show ?case using 1 by (auto simp: dec.simps [of n] split: if_splits)
qed

lemma length_dec: "n < 10 ^ k \<Longrightarrow> 0 < k \<Longrightarrow> length (dec n) \<le> k"
proof (induction n arbitrary: k rule: dec.induct)
  case (1 n)
  show ?case
  proof (cases "n < 10")
    case True
    with 1 show ?thesis by (simp add: dec.simps)
  next
    case False
    then have k: "1 < k"
      using "1.prems" by (metis One_nat_def less_one linorder_neqE_nat power_one_right not_less_eq less_Suc0)
    then have "n div 10 < 10 ^ (k - 1)"
      using 1 by (cases k) (auto simp: less_mult_imp_div_less mult.commute)
    then have "length (dec (n div 10)) \<le> k - 1" using 1 False k by simp
    with False k show ?thesis by (simp add: dec.simps [of n])
  qed
qed

text \<open>\<open>std::to_string\<close> on a signed integer.\<close>

definition to_string :: "int \<Rightarrow> string" where
  "to_string v = (if v < 0 then CHR ''-'' # dec (nat (- v)) else dec (nat v))"

section \<open>Little-endian bytes\<close>

definition le16 :: "u16 \<Rightarrow> u8 list" where
  "le16 v = [ucast v, ucast (drop_bit 8 v)]"

definition le32 :: "u32 \<Rightarrow> u8 list" where
  "le32 v = [ucast v, ucast (drop_bit 8 v), ucast (drop_bit 16 v), ucast (drop_bit 24 v)]"

definition bytes_of_string :: "string \<Rightarrow> u8 list" where
  "bytes_of_string s = map (\<lambda>c. of_nat (of_char c)) s"

definition un_le32 :: "u8 list \<Rightarrow> u32" where
  "un_le32 bs = ucast (bs ! 0) OR push_bit 8 (ucast (bs ! 1)) OR push_bit 16 (ucast (bs ! 2)) OR
     push_bit 24 (ucast (bs ! 3))"

definition string_of_bytes :: "u8 list \<Rightarrow> string" where
  "string_of_bytes bs = map (\<lambda>b. char_of (unat b)) bs"

lemma string_of_bytes_of_string [simp]: "string_of_bytes (bytes_of_string s) = s"
proof -
  have "char_of (unat (of_nat (of_char c) :: u8)) = (c :: char)" for c
    by (simp add: unat_of_nat)
  then show ?thesis by (induction s) (simp_all add: string_of_bytes_def bytes_of_string_def)
qed

lemma bytes_of_string_Nil [simp]: "bytes_of_string [] = []"
  by (simp add: bytes_of_string_def)

lemma length_bytes_of_string [simp]: "length (bytes_of_string s) = length s"
  by (simp add: bytes_of_string_def)

lemma length_le16 [simp]: "length (le16 v) = 2"
  by (simp add: le16_def)

lemma length_le32 [simp]: "length (le32 v) = 4"
  by (simp add: le32_def)

lemma un_le32_le32 [simp]: "un_le32 (le32 v @ r) = v"
proof (rule bit_word_eqI)
  fix n
  assume "n < LENGTH(32)"
  then consider "n < 8" | "8 \<le> n" "n < 16" | "16 \<le> n" "n < 24" | "24 \<le> n" "n < 32" by force
  then show "bit (un_le32 (le32 v @ r)) n = bit v n"
    by cases (auto simp: un_le32_def le32_def bit_simps)
qed

end
