(* ===== verification/Kernel_Io.thy ===== *)
theory Kernel_Io
  imports Prelude
begin

text \<open>
  The byte-stream contract between the guest programs and the kernel.  The programs issue raw
  \<open>read\<close> and \<open>write\<close> system calls on a connected socket; the kernel is a parameter of their
  models.  The locales state what the manual pages of \<open>read(2)\<close> and \<open>write(2)\<close> promise, and the
  record \<open>sock\<close> is a concrete socket (received chunks, bytes sent, a limit on what one write
  accepts) on which they are interpreted.
\<close>

type_synonym 's reader = "nat \<Rightarrow> 's \<Rightarrow> int \<times> u8 list \<times> 's"
type_synonym 's writer = "u8 list \<Rightarrow> 's \<Rightarrow> int \<times> 's"

text \<open>
  \<open>rd n s\<close> is \<open>read(fd, buf, n)\<close>: the returned count, the bytes stored, the new state.  A positive
  count is the number of bytes stored, at most \<open>n\<close>, and they are the next bytes of the stream;
  a count that is not positive is reported only once the stream is exhausted.
\<close>

locale byte_stream =
  fixes rd :: "'s reader" and pending :: "'s \<Rightarrow> u8 list"
  assumes rd_pos: "rd n s = (r, bs, s') \<Longrightarrow> 0 < n \<Longrightarrow> 0 < r \<Longrightarrow>
      length bs = nat r \<and> nat r \<le> n \<and> pending s = bs @ pending s'"
    and rd_end: "rd n s = (r, bs, s') \<Longrightarrow> 0 < n \<Longrightarrow> r \<le> 0 \<Longrightarrow> pending s = []"

text \<open>
  \<open>wr bs s\<close> is \<open>write(fd, bs, length bs)\<close>: a positive count is the length of the prefix of \<open>bs\<close>
  that was sent.
\<close>

locale byte_sink =
  fixes wr :: "'s writer" and sent :: "'s \<Rightarrow> u8 list"
  assumes wr_pos: "wr bs s = (r, s') \<Longrightarrow> bs \<noteq> [] \<Longrightarrow> 0 < r \<Longrightarrow>
      nat r \<le> length bs \<and> sent s' = sent s @ take (nat r) bs"
    and wr_fail: "wr bs s = (r, s') \<Longrightarrow> r \<le> 0 \<Longrightarrow> sent s' = sent s"

locale tcp_conn = byte_stream rd pending + byte_sink wr sent
  for rd :: "'s reader" and pending and wr :: "'s writer" and sent +
  assumes rd_sent: "rd n s = (r, bs, s') \<Longrightarrow> sent s' = sent s"

text \<open>
  A sink that always makes progress, and a connection whose peer has already decided what it will
  send: the setting of a complete, undisturbed run.
\<close>

locale reliable_sink = byte_sink wr sent for wr :: "'s writer" and sent +
  assumes wr_progress: "bs \<noteq> [] \<Longrightarrow> 0 < fst (wr bs s)"

locale reliable_conn =
  tcp_conn rd pending wr sent + reliable_sink wr sent
  for rd :: "'s reader" and pending and wr :: "'s writer" and sent +
  assumes wr_pending: "wr bs s = (r, s') \<Longrightarrow> pending s' = pending s"

section \<open>A concrete socket\<close>

record sock =
  rx :: "u8 list list"
  tx :: "u8 list"
  wcap :: nat

fun sock_read :: "sock reader" where
  "sock_read n s =
     (case dropWhile (\<lambda>c. c = []) (rx s) of
        [] \<Rightarrow> (0, [], s)
      | c # cs \<Rightarrow> (int (min n (length c)), take n c, s\<lparr>rx := drop n c # cs\<rparr>))"

definition sock_write :: "sock writer" where
  "sock_write bs s =
     (let k = min (max 1 (wcap s)) (length bs) in (int k, s\<lparr>tx := tx s @ take k bs\<rparr>))"

definition sock_pending :: "sock \<Rightarrow> u8 list" where
  "sock_pending s = concat (rx s)"

lemma concat_dropWhile_empty: "concat (dropWhile (\<lambda>c. c = []) xs) = concat xs"
  by (induction xs) auto

lemma dropWhile_empty_Cons: "dropWhile (\<lambda>c. c = []) xs = c # cs \<Longrightarrow> c \<noteq> []"
  by (induction xs) (auto split: if_splits)

interpretation sock: reliable_conn sock_read sock_pending sock_write tx
proof unfold_locales
  fix n s r bs s'
  assume r: "sock_read n s = (r, bs, s')" and n: "0 < n" and pos: "0 < r"
  then obtain c cs where c: "dropWhile (\<lambda>c. c = []) (rx s) = c # cs"
    by (auto split: list.splits)
  then have "sock_pending s = c @ concat cs"
    by (metis concat.simps(2) concat_dropWhile_empty sock_pending_def)
  then show "length bs = nat r \<and> nat r \<le> n \<and> sock_pending s = bs @ sock_pending s'"
    using r c by (auto simp: sock_pending_def)
next
  fix n s r bs s'
  assume r: "sock_read n s = (r, bs, s')" and n: "0 < n" and nonpos: "r \<le> 0"
  have "dropWhile (\<lambda>c. c = []) (rx s) = []"
  proof (rule ccontr)
    assume "dropWhile (\<lambda>c. c = []) (rx s) \<noteq> []"
    then obtain c cs where c: "dropWhile (\<lambda>c. c = []) (rx s) = c # cs"
      by (meson neq_Nil_conv)
    then have "c \<noteq> []" by (rule dropWhile_empty_Cons)
    with c r n nonpos show False by (auto simp: min_def split: if_splits)
  qed
  then show "sock_pending s = []"
    by (metis concat.simps(1) concat_dropWhile_empty sock_pending_def)
qed (auto simp: sock_write_def sock_pending_def Let_def min_def max_def
  split: list.splits if_splits)

end
