(* ===== verification/Touch_Daemon.thy ===== *)
theory Touch_Daemon
  imports Kernel_Io
begin

text \<open>
  \<open>tools/touch_daemon.c\<close>: the guest process that turns 14-byte TCP packets into input events.
  The model keeps the daemon's global \<open>evfd\<close> and records the system calls that matter to an
  observer: the \<open>input_event\<close> structures written to the device and the sleeps between them.  The
  clock and the results of \<open>open\<close> and of the name \<open>ioctl\<close> are parameters.  The lemmas show that
  coordinate scaling never overflows a C \<open>int\<close>, that every command emits exactly the gesture it
  stands for, and that the packet loop does not depend on how TCP cuts the stream.
\<close>

section \<open>Constants and structures\<close>

abbreviation EV_SYN :: u16 where "EV_SYN \<equiv> 0"
abbreviation EV_KEY :: u16 where "EV_KEY \<equiv> 1"
abbreviation EV_ABS :: u16 where "EV_ABS \<equiv> 3"
abbreviation SYN_REPORT :: u16 where "SYN_REPORT \<equiv> 0"
abbreviation ABS_X :: u16 where "ABS_X \<equiv> 0"
abbreviation ABS_Y :: u16 where "ABS_Y \<equiv> 1"
abbreviation BTN_LEFT :: u16 where "BTN_LEFT \<equiv> 0x110"
abbreviation BTN_TOUCH :: u16 where "BTN_TOUCH \<equiv> 0x14a"
abbreviation SCREEN_W :: int where "SCREEN_W \<equiv> 1280"
abbreviation SCREEN_H :: int where "SCREEN_H \<equiv> 800"
abbreviation ABS_MAX :: int where "ABS_MAX \<equiv> 32767"

record input_event =
  ev_sec :: int
  ev_usec :: int
  ev_type :: u16
  ev_code :: u16
  ev_value :: int

datatype td_action = WriteEvent input_event | NanoSleep int int

record touch =
  evfd :: int
  clock_calls :: nat
  actions :: "td_action list"

text \<open>The realtime clock: seconds and nanoseconds of the \<open>k\<close>-th call of \<open>clock_gettime\<close>.\<close>

type_synonym clock = "nat \<Rightarrow> int \<times> int"

section \<open>Event output\<close>

definition write_ev :: "clock \<Rightarrow> u16 \<Rightarrow> u16 \<Rightarrow> int \<Rightarrow> touch \<Rightarrow> touch" where
  "write_ev clk ty code v st =
     (if evfd st < 0 then st
      else
        (let (sec, nsec) = clk (clock_calls st);
             ev = \<lparr>ev_sec = sec, ev_usec = nsec sdiv 1000, ev_type = ty, ev_code = code,
                   ev_value = v\<rparr>
         in st\<lparr>clock_calls := Suc (clock_calls st), actions := actions st @ [WriteEvent ev]\<rparr>))"

definition syn :: "clock \<Rightarrow> touch \<Rightarrow> touch" where
  "syn clk st = write_ev clk EV_SYN SYN_REPORT 0 st"

definition usleep_us :: "int \<Rightarrow> touch \<Rightarrow> touch" where
  "usleep_us us st =
     st\<lparr>actions := actions st @ [NanoSleep (us sdiv 1000000) ((us smod 1000000) * 1000)]\<rparr>"

definition scale_x :: "int \<Rightarrow> int" where
  "scale_x x = i32 (x * ABS_MAX) sdiv SCREEN_W"

definition scale_y :: "int \<Rightarrow> int" where
  "scale_y y = i32 (y * ABS_MAX) sdiv SCREEN_H"

definition ev_down :: "clock \<Rightarrow> int \<Rightarrow> int \<Rightarrow> touch \<Rightarrow> touch" where
  "ev_down clk x y st =
     (let ax = scale_x x; ay = scale_y y;
          st = write_ev clk EV_ABS ABS_X ax st;
          st = write_ev clk EV_ABS ABS_Y ay st;
          st = write_ev clk EV_KEY BTN_TOUCH 1 st;
          st = write_ev clk EV_KEY BTN_LEFT 1 st
      in syn clk st)"

definition ev_move :: "clock \<Rightarrow> int \<Rightarrow> int \<Rightarrow> touch \<Rightarrow> touch" where
  "ev_move clk x y st =
     (let ax = scale_x x; ay = scale_y y;
          st = write_ev clk EV_ABS ABS_X ax st;
          st = write_ev clk EV_ABS ABS_Y ay st
      in syn clk st)"

definition ev_up :: "clock \<Rightarrow> touch \<Rightarrow> touch" where
  "ev_up clk st =
     (let st = write_ev clk EV_KEY BTN_TOUCH 0 st;
          st = write_ev clk EV_KEY BTN_LEFT 0 st
      in syn clk st)"

definition ev_tap :: "clock \<Rightarrow> int \<Rightarrow> int \<Rightarrow> touch \<Rightarrow> touch" where
  "ev_tap clk x y st = ev_up clk (usleep_us 20000 (ev_down clk x y st))"

text \<open>\<open>ev_swipe\<close>: the duration and step computations, one iteration, and the whole gesture.\<close>

definition swipe_dur :: "int \<Rightarrow> int" where
  "swipe_dur dur_ms = (if dur_ms \<le> 0 then 200 else dur_ms)"

definition swipe_steps :: "int \<Rightarrow> int" where
  "swipe_steps dur_ms =
     (let steps = i32 (dur_ms * 60) sdiv 1000;
          steps = (if steps < 5 then 5 else steps)
      in (if steps > 60 then 60 else steps))"

definition swipe_at :: "int \<Rightarrow> int \<Rightarrow> int \<Rightarrow> int \<Rightarrow> int" where
  "swipe_at a b steps i = i32 (a + i32 (i32 (b - a) * i) sdiv steps)"

definition swipe_step ::
    "clock \<Rightarrow> int \<Rightarrow> int \<Rightarrow> int \<Rightarrow> int \<Rightarrow> int \<Rightarrow> int \<Rightarrow> int \<Rightarrow> touch \<Rightarrow> touch" where
  "swipe_step clk x1 y1 x2 y2 steps step_us i st =
     ev_move clk (swipe_at x1 x2 steps i) (swipe_at y1 y2 steps i) (usleep_us step_us st)"

definition ev_swipe ::
    "clock \<Rightarrow> int \<Rightarrow> int \<Rightarrow> int \<Rightarrow> int \<Rightarrow> int \<Rightarrow> touch \<Rightarrow> touch" where
  "ev_swipe clk x1 y1 x2 y2 dur_ms st =
     (let dur_ms = swipe_dur dur_ms;
          steps = swipe_steps dur_ms;
          step_us = i32 (dur_ms * 1000) sdiv steps;
          st = ev_down clk x1 y1 st;
          st = fold (swipe_step clk x1 y1 x2 y2 steps step_us) [1..steps] st
      in ev_up clk (usleep_us 8000 st))"

section \<open>Packets\<close>

record packet =
  p_cmd :: u8
  p_x1 :: u16
  p_y1 :: u16
  p_x2 :: u16
  p_y2 :: u16
  p_dur :: u16

definition u16_at :: "u8 list \<Rightarrow> nat \<Rightarrow> u16" where
  "u16_at buf i = ucast (buf ! i) OR push_bit 8 (ucast (buf ! (i + 1)))"

definition decode_packet :: "u8 list \<Rightarrow> packet" where
  "decode_packet buf =
     \<lparr>p_cmd = buf ! 0, p_x1 = u16_at buf 2, p_y1 = u16_at buf 4, p_x2 = u16_at buf 6,
      p_y2 = u16_at buf 8, p_dur = u16_at buf 10\<rparr>"

definition dispatch :: "clock \<Rightarrow> u8 list \<Rightarrow> touch \<Rightarrow> touch" where
  "dispatch clk buf st =
     (let p = decode_packet buf;
          x1 = uint (p_x1 p); y1 = uint (p_y1 p); x2 = uint (p_x2 p); y2 = uint (p_y2 p);
          dur = uint (p_dur p)
      in if p_cmd p = 1 then ev_tap clk x1 y1 st
         else if p_cmd p = 2 then ev_down clk x1 y1 st
         else if p_cmd p = 3 then ev_move clk x1 y1 st
         else if p_cmd p = 4 then ev_up clk st
         else if p_cmd p = 5 then ev_swipe clk x1 y1 x2 y2 dur st
         else st)"

text \<open>
  The inner loop reads until 14 bytes are there; \<open>None\<close> is the exit of the child on a count that
  is not positive.  The outer loop runs until that exit; its fuel bounds the number of packets.
\<close>

function fill_buf :: "'s reader \<Rightarrow> nat \<Rightarrow> u8 list \<Rightarrow> 's \<Rightarrow> (u8 list \<times> 's) option" where
  "fill_buf rd got buf s =
     (if got < 14 then
        (case rd (14 - got) s of
           (n, bs, s') \<Rightarrow>
             if n \<le> 0 then None else fill_buf rd (got + nat n) (buf @ bs) s')
      else Some (buf, s))"
  by pat_completeness auto
termination
  by (relation "measure (\<lambda>(rd, got, buf, s). 14 - got)") auto

declare fill_buf.simps [simp del]

fun handle_client :: "'s reader \<Rightarrow> clock \<Rightarrow> nat \<Rightarrow> 's \<Rightarrow> touch \<Rightarrow> touch option" where
  "handle_client rd clk 0 s st = None"
| "handle_client rd clk (Suc k) s st =
     (case fill_buf rd 0 [] s of
        None \<Rightarrow> Some st
      | Some (buf, s') \<Rightarrow> handle_client rd clk k s' (dispatch clk buf st))"

section \<open>Device discovery\<close>

text \<open>\<open>strstr_simple\<close> on NUL-terminated strings: the inner loop compares, the outer advances.\<close>

fun strstr_at :: "string \<Rightarrow> string \<Rightarrow> bool" where
  "strstr_at h [] = True"
| "strstr_at [] (n # ns) = False"
| "strstr_at (h # hs) (n # ns) = (h = n \<and> strstr_at hs ns)"

fun strstr_simple :: "string \<Rightarrow> string \<Rightarrow> bool" where
  "strstr_simple [] n = False"
| "strstr_simple (h # hs) n = (if strstr_at (h # hs) n then True else strstr_simple hs n)"

definition is_touch_name :: "string \<Rightarrow> bool" where
  "is_touch_name name \<longleftrightarrow>
     strstr_simple name ''Tablet'' \<or> strstr_simple name ''tablet'' \<or>
     strstr_simple name ''Touch'' \<or> strstr_simple name ''touch'' \<or>
     strstr_simple name ''Virtio'' \<or> strstr_simple name ''virtio''"

definition event_path :: "nat \<Rightarrow> string" where
  "event_path i = ''/dev/input/event'' @ [digit i]"

text \<open>
  The scan over \<open>event0 .. event9\<close>: \<open>openf k path\<close> is the result of the \<open>k\<close>-th \<open>openat\<close>, \<open>devname\<close>
  the name the \<open>EVIOCGNAME\<close> call leaves in the zeroed buffer.  The scan returns the chosen
  descriptor, if any, the number of opens so far and the descriptors it closed.
\<close>

type_synonym opener = "nat \<Rightarrow> string \<Rightarrow> int"

fun scan_devices ::
    "opener \<Rightarrow> (int \<Rightarrow> string) \<Rightarrow> nat list \<Rightarrow> nat \<Rightarrow> int list \<Rightarrow> int option \<times> nat \<times> int list" where
  "scan_devices openf devname [] k closed = (None, k, closed)"
| "scan_devices openf devname (i # is) k closed =
     (let fd = openf k (event_path i)
      in if fd \<ge> 0 then
           (if is_touch_name (devname fd) then (Some fd, Suc k, closed)
            else scan_devices openf devname is (Suc k) (closed @ [fd]))
         else scan_devices openf devname is (Suc k) closed)"

definition find_device ::
    "opener \<Rightarrow> (int \<Rightarrow> string) \<Rightarrow> int \<Rightarrow> int \<times> int list" where
  "find_device openf devname fd0 =
     (if fd0 \<ge> 0 then (fd0, [])
      else
        (case scan_devices openf devname [0..<10] 0 [] of
           (Some fd, _, closed) \<Rightarrow> (fd, closed)
         | (None, k, closed) \<Rightarrow>
             (let fd = openf k (event_path 1)
              in if fd < 0 then (openf (Suc k) (event_path 0), closed) else (fd, closed))))"

section \<open>The listening process\<close>

definition htons16 :: "u16 \<Rightarrow> u16" where
  "htons16 v = drop_bit 8 v OR push_bit 8 v"

record sockaddr_in =
  sin_family :: u16
  sin_port :: u16
  sin_addr :: u32

definition listen_addr :: sockaddr_in where
  "listen_addr = \<lparr>sin_family = 2, sin_port = htons16 6666, sin_addr = 0\<rparr>"

text \<open>
  \<open>start_listening\<close>: the setup part of \<open>_start\<close> from the results of \<open>socket\<close>, \<open>bind\<close> and
  \<open>listen\<close>; \<open>Inl\<close> is the exit status.  \<open>accept_loop\<close>: the parent's loop over the results of
  \<open>accept\<close> and of \<open>clone\<close>.
\<close>

definition start_listening :: "int \<Rightarrow> (sockaddr_in \<Rightarrow> int) \<Rightarrow> int \<Rightarrow> (int, int) result" where
  "start_listening sfd bind_rc listen_rc =
     (if sfd < 0 then Inl 1
      else if bind_rc listen_addr < 0 then Inl 2
      else if listen_rc < 0 then Inl 3
      else Inr sfd)"

datatype server_action = ServeInChild int | CloseClient int

fun accept_loop :: "(int \<times> int) list \<Rightarrow> server_action list" where
  "accept_loop [] = []"
| "accept_loop ((cfd, pid) # rest) =
     (if cfd < 0 then accept_loop rest
      else (if pid < 0 then [] else [ServeInChild cfd]) @ [CloseClient cfd] @ accept_loop rest)"

section \<open>Scaling and interpolation stay inside a C int\<close>

lemma scale_x_nat: "0 \<le> x \<Longrightarrow> x \<le> 65535 \<Longrightarrow> scale_x x = x * ABS_MAX div SCREEN_W"
  by (simp add: scale_x_def i32_id sdiv_nonneg)

lemma scale_y_nat: "0 \<le> y \<Longrightarrow> y \<le> 65535 \<Longrightarrow> scale_y y = y * ABS_MAX div SCREEN_H"
  by (simp add: scale_y_def i32_id sdiv_nonneg)

lemma uint_u16_le: "uint (x :: u16) \<le> 65535"
  using uint_lt2p [of x] by simp

lemma sdiv_mult_self: "0 < (n :: int) \<Longrightarrow> (d * n) sdiv n = d"
proof (cases "0 \<le> d")
  case True
  then show "0 < n \<Longrightarrow> (d * n) sdiv n = d" by (simp add: sdiv_nonneg)
next
  case False
  then show "0 < n \<Longrightarrow> (d * n) sdiv n = d"
    using sdiv_minus_nonneg [of "- d * n" n] nonzero_mult_div_cancel_right [of n "- d"]
    by (simp add: mult_nonpos_nonneg)
qed

text \<open>The mathematical interpolation point of step \<open>i\<close>, which the C expression computes.\<close>

definition interp :: "int \<Rightarrow> int \<Rightarrow> int \<Rightarrow> int \<Rightarrow> int" where
  "interp a b n i = a + ((b - a) * i) sdiv n"

lemma interp_last: "0 < n \<Longrightarrow> interp a b n n = b"
  by (simp add: interp_def sdiv_mult_self)

lemma sdiv_between:
  assumes "0 \<le> (i :: int)" and "i \<le> n" and "0 < n"
  shows "min 0 d \<le> (d * i) sdiv n \<and> (d * i) sdiv n \<le> max 0 d"
proof (cases "0 \<le> d")
  case True
  then have "d * i div n \<le> d * n div n"
    using assms by (intro zdiv_mono1) (simp_all add: mult_left_mono)
  with True assms show ?thesis
    by (simp add: sdiv_nonneg pos_imp_zdiv_nonneg_iff)
next
  case False
  then have "(- d) * i div n \<le> (- d) * n div n"
    using assms by (intro zdiv_mono1 mult_left_mono) simp_all
  moreover have "0 \<le> (- d) * i div n"
    using False assms by (intro div_int_pos_iff [THEN iffD2]) (simp add: mult_nonpos_nonneg)
  ultimately show ?thesis
    using False assms sdiv_minus_nonneg [of "(- d) * i" n]
      nonzero_mult_div_cancel_right [of n "- d"]
    by (simp add: mult_nonpos_nonneg)
qed

lemma interp_between:
  "0 \<le> i \<Longrightarrow> i \<le> n \<Longrightarrow> 0 < n \<Longrightarrow> min a b \<le> interp a b n i \<and> interp a b n i \<le> max a b"
  using sdiv_between [of i n "b - a"] by (auto simp: interp_def)

lemma swipe_at_interp:
  assumes "0 \<le> a" "a \<le> 65535" "0 \<le> b" "b \<le> 65535" "1 \<le> i" "i \<le> n" "n \<le> 60"
  shows "swipe_at a b n i = interp a b n i"
proof -
  have d: "\<bar>(b - a) * i\<bar> \<le> 65535 * 60"
    unfolding abs_mult using assms by (intro mult_mono) auto
  then have "i32 ((b - a) * i) = (b - a) * i" by (intro i32_id) auto
  moreover have "i32 (b - a) = b - a" using assms by (intro i32_id) auto
  moreover have "i32 (interp a b n i) = interp a b n i"
    using interp_between [of i n a b] assms by (intro i32_id) (auto simp: min_def max_def split: if_splits)
  ultimately show ?thesis by (simp add: swipe_at_def interp_def)
qed

lemma swipe_steps_range: "5 \<le> swipe_steps d \<and> swipe_steps d \<le> 60"
  by (simp add: swipe_steps_def Let_def)

text \<open>The number of moves of a swipe: sixty per second, between five and sixty.\<close>

definition spec_steps :: "int \<Rightarrow> int" where
  "spec_steps dur = max 5 (min 60 ((if dur = 0 then 200 else dur) * 60 div 1000))"

lemma swipe_steps_spec:
  assumes "0 \<le> dur" and "dur \<le> 65535"
  shows "swipe_steps (swipe_dur dur) = spec_steps dur"
proof -
  have "0 \<le> swipe_dur dur" and "swipe_dur dur \<le> 65535"
    using assms by (auto simp: swipe_dur_def)
  then have "i32 (swipe_dur dur * 60) sdiv 1000 = swipe_dur dur * 60 div 1000"
    by (simp add: i32_id sdiv_nonneg)
  moreover have "swipe_dur dur = (if dur = 0 then 200 else dur)"
    using assms by (auto simp: swipe_dur_def)
  ultimately show ?thesis
    by (simp add: swipe_steps_def spec_steps_def Let_def max_def min_def)
qed

section \<open>What the device sees\<close>

text \<open>
  The abstract view drops time stamps and sleeps.  A gesture stands for the group of events that
  one helper of the daemon emits; \<open>gestures_of\<close> is the specification of the protocol's commands.
\<close>

datatype gesture = GDown int int | GMove int int | GUp

fun events_of :: "td_action list \<Rightarrow> (u16 \<times> u16 \<times> int) list" where
  "events_of [] = []"
| "events_of (WriteEvent e # as) = (ev_type e, ev_code e, ev_value e) # events_of as"
| "events_of (NanoSleep s n # as) = events_of as"

fun enc :: "gesture \<Rightarrow> (u16 \<times> u16 \<times> int) list" where
  "enc (GDown x y) =
     [(EV_ABS, ABS_X, x * ABS_MAX div SCREEN_W), (EV_ABS, ABS_Y, y * ABS_MAX div SCREEN_H),
      (EV_KEY, BTN_TOUCH, 1), (EV_KEY, BTN_LEFT, 1), (EV_SYN, SYN_REPORT, 0)]"
| "enc (GMove x y) =
     [(EV_ABS, ABS_X, x * ABS_MAX div SCREEN_W), (EV_ABS, ABS_Y, y * ABS_MAX div SCREEN_H),
      (EV_SYN, SYN_REPORT, 0)]"
| "enc GUp =
     [(EV_KEY, BTN_TOUCH, 0), (EV_KEY, BTN_LEFT, 0), (EV_SYN, SYN_REPORT, 0)]"

definition swipe_gestures :: "int \<Rightarrow> int \<Rightarrow> int \<Rightarrow> int \<Rightarrow> int \<Rightarrow> gesture list" where
  "swipe_gestures x1 y1 x2 y2 n =
     GDown x1 y1 # map (\<lambda>i. GMove (interp x1 x2 n i) (interp y1 y2 n i)) [1..n] @ [GUp]"

definition gestures_of :: "packet \<Rightarrow> gesture list" where
  "gestures_of p =
     (let x1 = uint (p_x1 p); y1 = uint (p_y1 p); x2 = uint (p_x2 p); y2 = uint (p_y2 p)
      in if p_cmd p = 1 then [GDown x1 y1, GUp]
         else if p_cmd p = 2 then [GDown x1 y1]
         else if p_cmd p = 3 then [GMove x1 y1]
         else if p_cmd p = 4 then [GUp]
         else if p_cmd p = 5 then swipe_gestures x1 y1 x2 y2 (spec_steps (uint (p_dur p)))
         else [])"

lemma events_of_append [simp]: "events_of (xs @ ys) = events_of xs @ events_of ys"
  by (induction xs rule: events_of.induct) auto

lemma evfd_simps [simp]:
  "evfd (write_ev clk t c v st) = evfd st"
  "evfd (usleep_us us st) = evfd st"
  "evfd (syn clk st) = evfd st"
  by (simp_all add: write_ev_def usleep_us_def syn_def Let_def split: prod.split)

lemma events_write_ev [simp]:
  "0 \<le> evfd st \<Longrightarrow>
   events_of (actions (write_ev clk t c v st)) = events_of (actions st) @ [(t, c, v)]"
  by (simp add: write_ev_def Let_def split: prod.split)

lemma events_usleep [simp]: "events_of (actions (usleep_us us st)) = events_of (actions st)"
  by (simp add: usleep_us_def)

lemma evfd_gesture [simp]:
  "evfd (ev_down clk x y st) = evfd st"
  "evfd (ev_move clk x y st) = evfd st"
  "evfd (ev_up clk st) = evfd st"
  by (simp_all add: ev_down_def ev_move_def ev_up_def)

text \<open>A coordinate that fits sixteen bits, the range of the wire format.\<close>

definition coord :: "int \<Rightarrow> bool" where
  "coord x \<longleftrightarrow> 0 \<le> x \<and> x \<le> 65535"

lemma coord_uint [simp]: "coord (uint (x :: u16))"
  by (simp add: coord_def uint_u16_le)

lemma events_gesture [simp]:
  assumes "0 \<le> evfd st"
  shows "coord x \<Longrightarrow> coord y \<Longrightarrow>
      events_of (actions (ev_down clk x y st)) = events_of (actions st) @ enc (GDown x y)"
    and "coord x \<Longrightarrow> coord y \<Longrightarrow>
      events_of (actions (ev_move clk x y st)) = events_of (actions st) @ enc (GMove x y)"
    and "events_of (actions (ev_up clk st)) = events_of (actions st) @ enc GUp"
  using assms
  by (simp_all add: ev_down_def ev_move_def ev_up_def syn_def scale_x_nat scale_y_nat coord_def)

lemma coord_interp:
  "coord a \<Longrightarrow> coord b \<Longrightarrow> 1 \<le> i \<Longrightarrow> i \<le> n \<Longrightarrow> coord (interp a b n i)"
  using interp_between [of i n a b] by (auto simp: coord_def min_def max_def split: if_splits)

lemma events_swipe_loop:
  assumes fd: "0 \<le> evfd st" and c: "coord x1" "coord y1" "coord x2" "coord y2"
    and n: "n \<le> 60" and js: "\<And>i. i \<in> set js \<Longrightarrow> 1 \<le> i \<and> i \<le> n"
  shows "evfd (fold (swipe_step clk x1 y1 x2 y2 n us) js st) = evfd st \<and>
    events_of (actions (fold (swipe_step clk x1 y1 x2 y2 n us) js st)) =
      events_of (actions st) @
      concat (map (\<lambda>i. enc (GMove (interp x1 x2 n i) (interp y1 y2 n i))) js)"
  using fd js
proof (induction js arbitrary: st)
  case Nil
  then show ?case by simp
next
  case (Cons i js)
  have i: "1 \<le> i" "i \<le> n" using Cons.prems by auto
  have at: "swipe_at x1 x2 n i = interp x1 x2 n i" "swipe_at y1 y2 n i = interp y1 y2 n i"
    using c i n by (simp_all add: coord_def swipe_at_interp)
  let ?st = "swipe_step clk x1 y1 x2 y2 n us i st"
  have "evfd ?st = evfd st" by (simp add: swipe_step_def)
  moreover have "events_of (actions ?st) =
      events_of (actions st) @ enc (GMove (interp x1 x2 n i) (interp y1 y2 n i))"
    using Cons.prems(1) c i by (simp add: swipe_step_def at coord_interp del: enc.simps)
  ultimately show ?case
    using Cons.IH [of ?st] Cons.prems by simp
qed

lemma events_swipe:
  assumes "0 \<le> evfd st" "coord x1" "coord y1" "coord x2" "coord y2" "coord dur"
  shows "events_of (actions (ev_swipe clk x1 y1 x2 y2 dur st)) =
    events_of (actions st) @ concat (map enc (swipe_gestures x1 y1 x2 y2 (spec_steps dur)))"
proof -
  have steps: "swipe_steps (swipe_dur dur) = spec_steps dur"
    using assms(6) by (simp add: coord_def swipe_steps_spec)
  have "spec_steps dur \<le> 60" by (simp add: spec_steps_def)
  note loop = events_swipe_loop [OF _ assms(2-5) this, where clk = clk and js = "[1..spec_steps dur]"]
  show ?thesis
    using assms loop
    by (simp add: ev_swipe_def Let_def steps swipe_gestures_def comp_def del: enc.simps)
qed

lemma dispatch_events:
  "0 \<le> evfd st \<Longrightarrow>
   events_of (actions (dispatch clk buf st)) =
     events_of (actions st) @ concat (map enc (gestures_of (decode_packet buf)))"
  by (simp add: dispatch_def gestures_of_def Let_def ev_tap_def events_swipe del: enc.simps)

section \<open>The packet loop does not depend on how the stream is cut\<close>

function packets :: "u8 list \<Rightarrow> u8 list list" where
  "packets bs = (if length bs < 14 then [] else take 14 bs # packets (drop 14 bs))"
  by pat_completeness auto
termination
  by (relation "measure length") auto

declare packets.simps [simp del]

context byte_stream
begin

lemma fill_buf_full:
  "got \<le> 14 \<Longrightarrow> 14 \<le> got + length (pending s) \<Longrightarrow>
   \<exists>s'. fill_buf rd got buf s = Some (buf @ take (14 - got) (pending s), s') \<and>
        pending s' = drop (14 - got) (pending s)"
proof (induction "14 - got" arbitrary: got buf s rule: less_induct)
  case less
  show ?case
  proof (cases "got < 14")
    case True
    obtain r bs s' where r: "rd (14 - got) s = (r, bs, s')" by (metis prod_cases3)
    have pos: "0 < r"
      using rd_end [OF r] less.prems True by (cases "0 < r") auto
    with rd_pos [OF r] True have split:
        "length bs = nat r" "nat r \<le> 14 - got" "pending s = bs @ pending s'"
      by auto
    then have "\<exists>s''. fill_buf rd (got + nat r) (buf @ bs) s' =
          Some ((buf @ bs) @ take (14 - (got + nat r)) (pending s'), s'') \<and>
        pending s'' = drop (14 - (got + nat r)) (pending s')"
      using less.prems True pos by (intro less.hyps) auto
    then show ?thesis
      using True r pos split by (auto simp: fill_buf.simps [of rd got])
  next
    case False
    with less.prems show ?thesis by (simp add: fill_buf.simps)
  qed
qed

lemma fill_buf_short:
  "got + length (pending s) < 14 \<Longrightarrow> fill_buf rd got buf s = None"
proof (induction "14 - got" arbitrary: got buf s rule: less_induct)
  case less
  obtain r bs s' where r: "rd (14 - got) s = (r, bs, s')" by (metis prod_cases3)
  show ?case
  proof (cases "0 < r")
    case True
    with rd_pos [OF r] less.prems have
        "length bs = nat r" "pending s = bs @ pending s'" by auto
    with less True have "fill_buf rd (got + nat r) (buf @ bs) s' = None" by simp
    with r True less.prems show ?thesis by (simp add: fill_buf.simps [of rd got])
  next
    case False
    with r less.prems show ?thesis by (simp add: fill_buf.simps [of rd got])
  qed
qed

lemma handle_client_packets:
  "length (pending s) < fuel \<Longrightarrow>
   handle_client rd clk fuel s st = Some (fold (dispatch clk) (packets (pending s)) st)"
proof (induction fuel arbitrary: s st)
  case 0
  then show ?case by simp
next
  case (Suc k)
  show ?case
  proof (cases "length (pending s) < 14")
    case True
    then show ?thesis by (simp add: fill_buf_short packets.simps)
  next
    case False
    then obtain s' where s': "fill_buf rd 0 [] s = Some (take 14 (pending s), s')"
        "pending s' = drop 14 (pending s)"
      using fill_buf_full [of 0 s "[]"] by auto
    then have "length (pending s') < k" using Suc.prems False by simp
    then have "handle_client rd clk k s' (dispatch clk (take 14 (pending s)) st) =
        Some (fold (dispatch clk) (packets (pending s')) (dispatch clk (take 14 (pending s)) st))"
      by (rule Suc.IH)
    with s' False show ?thesis by (simp add: packets.simps [of "pending s"])
  qed
qed

end

lemma evfd_swipe_loop: "evfd (fold (swipe_step clk x1 y1 x2 y2 n us) js st) = evfd st"
  by (induction js arbitrary: st) (simp_all add: swipe_step_def)

lemma evfd_dispatch [simp]: "evfd (dispatch clk buf st) = evfd st"
  by (simp add: dispatch_def Let_def ev_tap_def ev_swipe_def evfd_swipe_loop)

lemma events_fold_dispatch:
  "0 \<le> evfd st \<Longrightarrow>
   events_of (actions (fold (dispatch clk) bufs st)) =
     events_of (actions st) @ concat (map enc (concat (map (gestures_of \<circ> decode_packet) bufs)))"
  by (induction bufs arbitrary: st) (simp_all add: dispatch_events)

section \<open>Properties\<close>

text \<open>
  C6 (touch_client_refines): the child that serves a connection, given a stream of bytes cut into
  reads in any way, processes exactly the complete 14-byte packets of the stream, in order, and the
  events it writes to the device are those of the gestures the packets ask for; it exits at the end
  of the stream, so a fuel beyond the length of the stream is enough.
\<close>

theorem touch_client_refines:
  assumes "byte_stream rd pending" and "0 \<le> evfd st" and "length (pending s) < fuel"
  shows "\<exists>st'. handle_client rd clk fuel s st = Some st' \<and>
    events_of (actions st') = events_of (actions st) @
      concat (map enc (concat (map (gestures_of \<circ> decode_packet) (packets (pending s)))))"
  using byte_stream.handle_client_packets [OF assms(1,3)] events_fold_dispatch [OF assms(2)]
  by simp

definition demo_touch :: touch where
  "demo_touch = \<lparr>evfd = 3, clock_calls = 0, actions = []\<rparr>"

text \<open>A tap at (640, 400) in three reads, followed by two stray bytes.\<close>

definition demo_sock :: sock where
  "demo_sock = \<lparr>rx = [[1, 0, 0x80], [2, 0x90, 1, 0, 0], [0, 0, 0, 0, 0, 0, 9, 9]], tx = [],
     wcap = 0\<rparr>"

theorem touch_client_refines_witness:
  "\<exists>st'. handle_client sock_read (\<lambda>k. (0, 0)) 20 demo_sock demo_touch = Some st' \<and>
     events_of (actions st') = concat (map enc [GDown 640 400, GUp])"
proof -
  have p: "sock_pending demo_sock = [1, 0, 0x80, 2, 0x90, 1, 0, 0, 0, 0, 0, 0, 0, 0, 9, 9]"
    by (simp add: sock_pending_def demo_sock_def)
  have g: "concat (map (gestures_of \<circ> decode_packet) (packets (sock_pending demo_sock))) =
      [GDown 640 400, GUp]"
    unfolding p by (simp add: packets.simps decode_packet_def u16_at_def gestures_of_def)
  have "length (sock_pending demo_sock) < 20" and "0 \<le> evfd demo_touch"
    by (simp_all add: p demo_touch_def)
  from touch_client_refines [OF sock.byte_stream_axioms this(2,1), of "\<lambda>k. (0, 0)"]
  show ?thesis unfolding g by (simp add: demo_touch_def del: enc.simps)
qed

lemma scaled_le_iff:
  assumes "0 < S" and "S \<le> (M :: int)"
  shows "v * M div S \<le> M \<longleftrightarrow> v \<le> S"
proof
  assume "v \<le> S"
  then have "v * M div S \<le> S * M div S"
    using assms by (intro zdiv_mono1 mult_right_mono) auto
  with assms show "v * M div S \<le> M" by simp
next
  assume le: "v * M div S \<le> M"
  show "v \<le> S"
  proof (rule ccontr)
    assume "\<not> v \<le> S"
    then have "(S + 1) * M \<le> v * M" using assms by (intro mult_right_mono) auto
    then have "(M + 1) * S \<le> v * M" using assms by (simp add: algebra_simps)
    then have "(M + 1) * S div S \<le> v * M div S" using assms by (intro zdiv_mono1) auto
    with le assms show False by simp
  qed
qed

text \<open>
  For every sixteen-bit coordinate the products of \<open>ev_down\<close> and
  \<open>ev_move\<close> fit a C \<open>int\<close>, so scaling is the exact quotient; the result lies in the device's
  absolute range exactly when the coordinate lies on the screen.
\<close>

theorem touch_scaling_exact:
  "i32 (uint (x :: u16) * ABS_MAX) = uint x * ABS_MAX \<and>
   scale_x (uint x) = uint x * ABS_MAX div SCREEN_W \<and>
   scale_y (uint x) = uint x * ABS_MAX div SCREEN_H \<and>
   0 \<le> scale_x (uint x) \<and> 0 \<le> scale_y (uint x) \<and>
   (scale_x (uint x) \<le> ABS_MAX) = (uint x \<le> SCREEN_W) \<and>
   (scale_y (uint x) \<le> ABS_MAX) = (uint x \<le> SCREEN_H)"
proof -
  have x: "uint x * ABS_MAX div SCREEN_W \<le> ABS_MAX \<longleftrightarrow> uint x \<le> SCREEN_W"
    and y: "uint x * ABS_MAX div SCREEN_H \<le> ABS_MAX \<longleftrightarrow> uint x \<le> SCREEN_H"
    by (simp_all add: scaled_le_iff)
  have "i32 (uint x * ABS_MAX) = uint x * ABS_MAX"
  proof (rule i32_id)
    have "0 \<le> uint x * ABS_MAX" by simp
    then show "- (2 ^ 31) \<le> uint x * ABS_MAX" by (rule order_trans [rotated]) simp
    show "uint x * ABS_MAX < 2 ^ 31" using uint_u16_le [of x] by simp
  qed
  moreover have "scale_x (uint x) = uint x * ABS_MAX div SCREEN_W"
    and "scale_y (uint x) = uint x * ABS_MAX div SCREEN_H"
    by (simp_all add: scale_x_nat scale_y_nat uint_u16_le)
  ultimately show ?thesis
    by (simp add: x y pos_imp_zdiv_nonneg_iff)
qed

lemma last_upto: "(1 :: int) \<le> n \<Longrightarrow> last [1..n] = n"
  by (subst upto_rec2) simp_all

text \<open>
  A swipe presses at the start point, makes between five and sixty moves
  inside the box spanned by its end points, the last of them exactly at the end point, and
  releases.
\<close>

theorem touch_swipe_shape:
  assumes "0 \<le> evfd st"
  shows "\<exists>ms. events_of (actions (ev_swipe clk (uint (x1 :: u16)) (uint (y1 :: u16))
            (uint (x2 :: u16)) (uint (y2 :: u16)) (uint (dur :: u16)) st)) =
        events_of (actions st) @ enc (GDown (uint x1) (uint y1)) @
        concat (map (\<lambda>(x, y). enc (GMove x y)) ms) @ enc GUp \<and>
      5 \<le> length ms \<and> length ms \<le> 60 \<and> last ms = (uint x2, uint y2) \<and>
      (\<forall>(x, y) \<in> set ms. min (uint x1) (uint x2) \<le> x \<and> x \<le> max (uint x1) (uint x2) \<and>
         min (uint y1) (uint y2) \<le> y \<and> y \<le> max (uint y1) (uint y2))"
proof -
  define n where "n = spec_steps (uint dur)"
  define ms where
    "ms = map (\<lambda>i. (interp (uint x1) (uint x2) n i, interp (uint y1) (uint y2) n i)) [1..n]"
  have n: "5 \<le> n" "n \<le> 60" by (simp_all add: n_def spec_steps_def)
  then have "last ms = (uint x2, uint y2)"
    by (simp add: ms_def last_map interp_last last_upto)
  moreover have "\<forall>(x, y) \<in> set ms. min (uint x1) (uint x2) \<le> x \<and> x \<le> max (uint x1) (uint x2) \<and>
         min (uint y1) (uint y2) \<le> y \<and> y \<le> max (uint y1) (uint y2)"
    using interp_between [of _ n "uint x1" "uint x2"] interp_between [of _ n "uint y1" "uint y2"]
    by (fastforce simp: ms_def)
  moreover have "events_of (actions (ev_swipe clk (uint x1) (uint y1) (uint x2) (uint y2)
        (uint dur) st)) = events_of (actions st) @ enc (GDown (uint x1) (uint y1)) @
        concat (map (\<lambda>(x, y). enc (GMove x y)) ms) @ enc GUp"
    using assms by (simp add: events_swipe swipe_gestures_def n_def ms_def comp_def del: enc.simps)
  moreover have "5 \<le> length ms" and "length ms \<le> 60"
    using n by (simp_all add: ms_def le_nat_iff nat_le_iff)
  ultimately show ?thesis by (intro exI [of _ ms]) blast
qed

theorem touch_swipe_shape_witness:
  "0 \<le> evfd demo_touch \<and>
   (\<exists>ms. events_of (actions (ev_swipe (\<lambda>k. (0, 0)) 10 20 300 5 100 demo_touch)) =
        enc (GDown 10 20) @ concat (map (\<lambda>(x, y). enc (GMove x y)) ms) @ enc GUp \<and>
      5 \<le> length ms \<and> last ms = (300, 5))"
proof -
  have fd: "0 \<le> evfd demo_touch" by (simp add: demo_touch_def)
  from touch_swipe_shape [OF fd, of "\<lambda>k. (0, 0)" 10 20 300 5 100] fd
  show ?thesis by (auto simp: demo_touch_def simp del: enc.simps)
qed

lemma strstr_at_prefix: "strstr_at h n = prefix n h"
  by (induction h n rule: strstr_at.induct) auto

lemma strstr_simple_sublist: "strstr_simple h n \<longleftrightarrow> h \<noteq> [] \<and> sublist n h"
proof (induction h)
  case Nil
  then show ?case by simp
next
  case (Cons c h)
  then show ?case
    by (cases "h = []") (auto simp: strstr_at_prefix sublist_Cons_right simp del: strstr_at.simps)
qed

text \<open>The descriptor the \<open>k\<close>-th open of the scan yields, and whether the scan accepts it.\<close>

definition scan_fd :: "opener \<Rightarrow> nat \<Rightarrow> int" where
  "scan_fd openf k = openf k (event_path k)"

definition scan_hit :: "opener \<Rightarrow> (int \<Rightarrow> string) \<Rightarrow> nat \<Rightarrow> bool" where
  "scan_hit openf devname k \<longleftrightarrow>
     0 \<le> scan_fd openf k \<and> is_touch_name (devname (scan_fd openf k))"

lemma scan_devices_spec:
  "scan_devices openf devname [k..<n] k closed =
     (case find (scan_hit openf devname) [k..<n] of
        Some j \<Rightarrow> (Some (scan_fd openf j), Suc j,
                    closed @ filter (\<lambda>fd. 0 \<le> fd) (map (scan_fd openf) [k..<j]))
      | None \<Rightarrow> (None, max k n, closed @ filter (\<lambda>fd. 0 \<le> fd) (map (scan_fd openf) [k..<n])))"
proof (induction "n - k" arbitrary: k closed)
  case 0
  then show ?case by (simp add: max_def)
next
  case (Suc m)
  then have k: "k < n" "m = n - Suc k" by auto
  have more: "j \<ge> Suc k" if "find (scan_hit openf devname) [Suc k..<n] = Some j" for j
    using that by (auto simp: find_Some_iff)
  have rest: "[k..<j] = k # [Suc k..<j]" if "Suc k \<le> j" for j
    using that by (simp add: upt_conv_Cons)
  show ?case
    using k Suc.hyps(1) [OF k(2)]
    by (auto simp: upt_conv_Cons [OF k(1)] Let_def scan_fd_def [symmetric] scan_hit_def rest
             dest!: more split: option.split)
qed

text \<open>
  the scan takes the first of \<open>event0 .. event9\<close> that opens and whose
  name contains one of the six words, and closes every other descriptor it opened; without a hit
  it closes all of them and falls back to \<open>event1\<close>, then \<open>event0\<close>.
\<close>

theorem touch_find_device:
  assumes "fd0 < 0"
  shows "find_device openf devname fd0 =
     (case find (scan_hit openf devname) [0..<10] of
        Some j \<Rightarrow> (scan_fd openf j, filter (\<lambda>fd. 0 \<le> fd) (map (scan_fd openf) [0..<j]))
      | None \<Rightarrow> (if openf 10 (event_path 1) < 0 then openf 11 (event_path 0)
                  else openf 10 (event_path 1),
                  filter (\<lambda>fd. 0 \<le> fd) (map (scan_fd openf) [0..<10])))"
  using assms scan_devices_spec [of openf devname 0 10 "[]"]
  by (simp add: find_device_def Let_def split: option.splits)

theorem touch_find_device_witness:
  "(-1 :: int) < 0 \<and>
   find_device (\<lambda>k p. int k + 5) (\<lambda>fd. if fd = 7 then ''QEMU Virtio Tablet'' else ''Power'') (-1) =
     (7, [5, 6])"
proof -
  have "find (scan_hit (\<lambda>k p. int k + 5)
      (\<lambda>fd. if fd = 7 then ''QEMU Virtio Tablet'' else ''Power'')) [0..<10] = Some 2"
    by (simp add: upt_conv_Cons scan_hit_def scan_fd_def is_touch_name_def)
  then show ?thesis
    using touch_find_device [of "-1" "\<lambda>k p. int k + 5"
        "\<lambda>fd. if fd = 7 then ''QEMU Virtio Tablet'' else ''Power''"]
    by (simp add: scan_fd_def upt_conv_Cons)
qed

text \<open>The parent closes every accepted socket exactly once and serves no other.\<close>

lemma accept_loop_closes:
  "[fd. CloseClient fd \<leftarrow> accept_loop rs] = filter (\<lambda>fd. 0 \<le> fd) (map fst rs)"
  by (induction rs rule: accept_loop.induct) auto

lemma accept_loop_children:
  "[fd. ServeInChild fd \<leftarrow> accept_loop rs] = map fst (filter (\<lambda>(fd, pid). 0 \<le> fd \<and> 0 \<le> pid) rs)"
  by (induction rs rule: accept_loop.induct) auto

text \<open>The wire format that the host side writes.\<close>

definition encode_packet :: "packet \<Rightarrow> u8 \<Rightarrow> u16 \<Rightarrow> u8 list" where
  "encode_packet p pad key =
     [p_cmd p, pad] @ le16 (p_x1 p) @ le16 (p_y1 p) @ le16 (p_x2 p) @ le16 (p_y2 p) @
     le16 (p_dur p) @ le16 key"

lemma u16_of_le16: "ucast (ucast v :: u8) OR push_bit 8 (ucast (ucast (drop_bit 8 v) :: u8)) = (v :: u16)"
  by (rule bit_word_eqI) (auto simp: bit_simps)

lemma htons16_le16: "le16 (htons16 v) = rev (le16 v)"
proof -
  have "ucast (htons16 v) = (ucast (drop_bit 8 v) :: u8)"
    and "ucast (drop_bit 8 (htons16 v)) = (ucast v :: u8)"
    by (rule bit_word_eqI; auto simp: htons16_def bit_simps)+
  then show ?thesis by (simp add: le16_def)
qed

text \<open>
  decoding the fourteen bytes of a packet as the daemon does gives
  back the command and the five little-endian fields, whatever the padding and the key field hold.
\<close>

theorem touch_packet_roundtrip:
  "length (encode_packet p pad key) = 14 \<and> decode_packet (encode_packet p pad key) = p"
  by (simp add: encode_packet_def decode_packet_def u16_at_def le16_def u16_of_le16)

end
