(* ===== verification/Vk_Client.thy ===== *)
theory Vk_Client
  imports Kernel_Io
begin

text \<open>
  \<open>tools/vk_guest_client.c\<close>: the guest program that drives the host's Vulkan daemon over TCP.
  The model has the byte codecs, the send and receive loops, one request/response exchange with
  every early return (\<open>call\<close>), the log line formatter and the whole of \<open>vk_main\<close> with its seven
  requests and the write of the frame.  The kernel's \<open>read\<close> and \<open>write\<close> are parameters, under the
  contract of \<open>Kernel_Io\<close>.
\<close>

section \<open>Byte codecs\<close>

definition rd_u32 :: "u8 list \<Rightarrow> u32" where
  "rd_u32 p = ucast (p ! 0) OR push_bit 8 (ucast (p ! 1)) OR push_bit 16 (ucast (p ! 2)) OR
     push_bit 24 (ucast (p ! 3))"

definition rd_u64 :: "u8 list \<Rightarrow> u64" where
  "rd_u64 p = ucast (rd_u32 p) OR push_bit 32 (ucast (rd_u32 (drop 4 p)))"

definition wr_u32 :: "u32 \<Rightarrow> u8 list" where
  "wr_u32 v = [ucast v, ucast (drop_bit 8 v), ucast (drop_bit 16 v), ucast (drop_bit 24 v)]"

definition wr_u64 :: "u64 \<Rightarrow> u8 list" where
  "wr_u64 v = wr_u32 (ucast v) @ wr_u32 (ucast (drop_bit 32 v))"

abbreviation MAGIC_REQ :: u32 where "MAGIC_REQ \<equiv> 0x514B5641"
abbreviation MAGIC_RSP :: u32 where "MAGIC_RSP \<equiv> 0x41564B41"

section \<open>Connecting\<close>

definition htonl32 :: "u32 \<Rightarrow> u32" where
  "htonl32 x = rd_u32 (rev (wr_u32 x))"

text \<open>
  \<open>tcp_connect\<close> from the results of \<open>socket\<close> and of \<open>connect\<close> on the given address (network
  order) and port; the second component lists the descriptors it closed.
\<close>

definition tcp_connect :: "int \<Rightarrow> (u32 \<Rightarrow> u16 \<Rightarrow> int) \<Rightarrow> u32 \<Rightarrow> u16 \<Rightarrow> int \<times> int list" where
  "tcp_connect sfd connect_rc addr_be port_be =
     (if sfd < 0 then (sfd, [])
      else if connect_rc addr_be port_be \<noteq> 0 then (-1, [sfd])
      else (sfd, []))"

section \<open>Transfer loops\<close>

text \<open>
  \<open>send_all\<close> returns whether every byte was written; \<open>recv_all\<close> returns whether all \<open>len\<close> bytes
  arrived and the bytes that did.
\<close>

function send_all :: "'s writer \<Rightarrow> u8 list \<Rightarrow> 's \<Rightarrow> bool \<times> 's" where
  "send_all wr bs s =
     (if bs = [] then (True, s)
      else (case wr bs s of
              (r, s') \<Rightarrow> if r \<le> 0 then (False, s') else send_all wr (drop (nat r) bs) s'))"
  by pat_completeness auto
termination
  by (relation "measure (\<lambda>(wr, bs, s). length bs)") auto

declare send_all.simps [simp del]

function recv_all :: "'s reader \<Rightarrow> nat \<Rightarrow> u8 list \<Rightarrow> 's \<Rightarrow> bool \<times> u8 list \<times> 's" where
  "recv_all rd len buf s =
     (if len = 0 then (True, buf, s)
      else (case rd len s of
              (r, bs, s') \<Rightarrow>
                if r \<le> 0 then (False, buf, s') else recv_all rd (len - nat r) (buf @ bs) s'))"
  by pat_completeness auto
termination
  by (relation "measure (\<lambda>(rd, len, buf, s). len)") auto

declare recv_all.simps [simp del]

section \<open>One exchange\<close>

text \<open>
  The buffers \<open>detail\<close> and \<open>data\<close> of \<open>struct resp\<close> start zeroed; the model keeps the prefix that
  has been written, and \<open>overwrite\<close> stores bytes at its start.
\<close>

record resp =
  status :: u32
  handles :: "u64 list"
  detail :: "u8 list"
  data_len :: u32
  data :: "u8 list"
  data_cap :: u32

definition overwrite :: "u8 list \<Rightarrow> u8 list \<Rightarrow> u8 list" where
  "overwrite old new = new @ drop (length new) old"

definition request_header :: "u32 \<Rightarrow> u32 \<Rightarrow> u32 \<Rightarrow> u8 list" where
  "request_header opcode seq plen =
     wr_u32 MAGIC_REQ @ wr_u32 opcode @ wr_u32 seq @ wr_u32 plen"

text \<open>The part of \<open>call\<close> after the fixed response header, with the clamps on both lengths.\<close>

definition recv_data :: "'s reader \<Rightarrow> resp \<Rightarrow> 's \<Rightarrow> int \<times> resp \<times> 's" where
  "recv_data rd out s =
     (case recv_all rd 4 [] s of
        (False, _, s) \<Rightarrow> (-1, out, s)
      | (True, lenb, s) \<Rightarrow>
          (let n = rd_u32 lenb;
               n = (if n > data_cap out then data_cap out else n);
               out = out\<lparr>data_len := n\<rparr>
           in if n = 0 then (0, out, s)
              else (case recv_all rd (unat n) [] s of
                      (ok, bs, s) \<Rightarrow>
                        (if ok then 0 else -1, out\<lparr>data := overwrite (data out) bs\<rparr>, s))))"

definition recv_detail :: "'s reader \<Rightarrow> u32 \<Rightarrow> resp \<Rightarrow> 's \<Rightarrow> int \<times> resp \<times> 's" where
  "recv_detail rd dlen out s =
     (let dlen = (if dlen > 255 then 255 else dlen)
      in case (if dlen = 0 then (True, [], s) else recv_all rd (unat dlen) [] s) of
           (False, bs, s) \<Rightarrow> (-1, out\<lparr>detail := overwrite (detail out) bs\<rparr>, s)
         | (True, bs, s) \<Rightarrow>
             recv_data rd (out\<lparr>detail := overwrite (detail out) (bs @ [0])\<rparr>) s)"

definition recv_response :: "'s reader \<Rightarrow> resp \<Rightarrow> 's \<Rightarrow> int \<times> resp \<times> 's" where
  "recv_response rd out s =
     (case recv_all rd 52 [] s of
        (False, _, s) \<Rightarrow> (-1, out, s)
      | (True, rsp, s) \<Rightarrow>
          (let out = out\<lparr>status := rd_u32 (drop 12 rsp),
                         handles := [rd_u64 (drop 16 rsp), rd_u64 (drop 24 rsp),
                                     rd_u64 (drop 32 rsp), rd_u64 (drop 40 rsp)]\<rparr>
           in if rd_u32 rsp \<noteq> MAGIC_RSP then (-1, out, s)
              else recv_detail rd (rd_u32 (drop 48 rsp)) out s))"

definition call ::
    "'s reader \<Rightarrow> 's writer \<Rightarrow> u32 \<Rightarrow> u8 list \<Rightarrow> resp \<Rightarrow> u32 \<Rightarrow> 's \<Rightarrow> int \<times> resp \<times> u32 \<times> 's" where
  "call rd wr opcode payload out seq s =
     (let seq = seq + 1
      in case send_all wr (request_header opcode seq (of_nat (length payload))) s of
           (False, s) \<Rightarrow> (-1, out, seq, s)
         | (True, s) \<Rightarrow>
             (case (if payload = [] then (True, s) else send_all wr payload s) of
                (False, s) \<Rightarrow> (-1, out, seq, s)
              | (True, s) \<Rightarrow>
                  (case recv_response rd out s of (rc, out, s) \<Rightarrow> (rc, out, seq, s))))"

section \<open>Logging\<close>

text \<open>
  \<open>itoa\<close> writes the sign, then the digits in reverse through \<open>tmp\<close>; \<open>logline\<close> appends to a
  160-byte buffer and stops at 159 so that the newline always fits.
\<close>

fun rev_digits :: "nat \<Rightarrow> string" where
  "rev_digits u = (if u = 0 then [] else digit (u mod 10) # rev_digits (u div 10))"

declare rev_digits.simps [simp del]

definition itoa :: "int \<Rightarrow> string" where
  "itoa v =
     (let u = nat \<bar>v\<bar>; tmp = (if u = 0 then [digit 0] else rev_digits u)
      in (if v < 0 then ''-'' else []) @ rev tmp)"

fun append_bounded :: "nat \<Rightarrow> string \<Rightarrow> string \<Rightarrow> string" where
  "append_bounded cap buf [] = buf"
| "append_bounded cap buf (c # cs) =
     (if length buf < cap then append_bounded cap (buf @ [c]) cs else buf)"

definition logline :: "string \<Rightarrow> int \<Rightarrow> string option \<Rightarrow> string" where
  "logline tag v dtl =
     (let buf = append_bounded 159 [] tag;
          buf = append_bounded 159 buf (if v \<ge> 0 then itoa v else ''(n/a)'');
          buf = (case dtl of None \<Rightarrow> buf | Some d \<Rightarrow> append_bounded 159 buf d)
      in buf @ [CHR ''\<newline>''])"

section \<open>The main program\<close>

definition parse_arg :: "string \<Rightarrow> int" where
  "parse_arg s = fold (\<lambda>c w. i64 (i64 (w * 10) + (int (of_char c) - 48))) s 0"

definition frame_dims :: "string list \<Rightarrow> int \<times> int" where
  "frame_dims argv =
     (if length argv \<ge> 4 then (parse_arg (argv ! 1), parse_arg (argv ! 2)) else (256, 256))"

definition c_string :: "u8 list \<Rightarrow> string" where
  "c_string bs = map (\<lambda>b. char_of (unat b)) (takeWhile (\<lambda>b. b \<noteq> 0) bs)"

record 's vk =
  vk_resp :: resp
  vk_seq :: u32
  vk_conn :: 's
  vk_log :: "string list"

text \<open>One step of \<open>vk_main\<close>: \<open>Inl\<close> is the jump to \<open>out\<close> with \<open>rc = 1\<close>.\<close>

definition vk_request ::
    "'s reader \<Rightarrow> 's writer \<Rightarrow> u32 \<Rightarrow> u8 list \<Rightarrow> string \<Rightarrow> (resp \<Rightarrow> string) \<Rightarrow> 's vk \<Rightarrow>
     ('s vk, 's vk) result" where
  "vk_request rd wr opcode payload failed ok st =
     (case call rd wr opcode payload (vk_resp st) (vk_seq st) (vk_conn st) of
        (rc, r, seq, s) \<Rightarrow>
          (let st = st\<lparr>vk_resp := r, vk_seq := seq, vk_conn := s\<rparr>
           in if rc \<noteq> 0 \<or> status r \<noteq> 0
              then Inl (st\<lparr>vk_log := vk_log st @
                         [logline failed (uint (status r)) (Some (c_string (detail r)))]\<rparr>)
              else Inr (st\<lparr>vk_log := vk_log st @ [ok r]\<rparr>)))"

definition bind_r :: "('e, 'a) result \<Rightarrow> ('a \<Rightarrow> ('e, 'b) result) \<Rightarrow> ('e, 'b) result" where
  "bind_r m f = (case m of Inl e \<Rightarrow> Inl e | Inr x \<Rightarrow> f x)"

definition say :: "string \<Rightarrow> resp \<Rightarrow> string" where
  "say tag r = logline tag 0 None"

definition vk_requests ::
    "'s reader \<Rightarrow> 's writer \<Rightarrow> int \<Rightarrow> int \<Rightarrow> 's vk \<Rightarrow> ('s vk, 's vk) result" where
  "vk_requests rd wr w h st =
     (let frame_size = (word_of_int (w * h * 4) :: u32) in
      bind_r (vk_request rd wr 1 [] ''[vk_guest] CreateInstance FAILED status=''
                (say ''[vk_guest] CreateInstance ok'') st) (\<lambda>st.
      bind_r (vk_request rd wr 2 [] ''[vk_guest] CreateDevice FAILED status=''
                (say ''[vk_guest] CreateDevice ok (device=0x'') st) (\<lambda>st.
      bind_r (vk_request rd wr 5 (wr_u64 (ucast frame_size) @ wr_u32 0)
                ''[vk_guest] CreateBuffer FAILED status=''
                (say ''[vk_guest] CreateBuffer ok'') st) (\<lambda>st.
      let buffer_handle = handles (vk_resp st) ! 0 in
      bind_r (vk_request rd wr 3 (wr_u64 (ucast frame_size) @ wr_u32 1)
                ''[vk_guest] AllocateMemory FAILED status=''
                (say ''[vk_guest] AllocateMemory ok'') st) (\<lambda>st.
      let memory_handle = handles (vk_resp st) ! 0 in
      bind_r (vk_request rd wr 9 (wr_u64 buffer_handle @ wr_u64 memory_handle)
                ''[vk_guest] BindRenderBuffer FAILED status=''
                (say ''[vk_guest] BindRenderBuffer ok'') st) (\<lambda>st.
      bind_r (vk_request rd wr 10 (wr_u32 (word_of_int w) @ wr_u32 (word_of_int h))
                ''[vk_guest] RenderFrame FAILED status=''
                (say ''[vk_guest] RenderFrame ok (host GPU dispatched)'') st) (\<lambda>st.
      vk_request rd wr 11 (wr_u64 (ucast frame_size))
                ''[vk_guest] ReadPixels FAILED status=''
                (\<lambda>r. logline ''[vk_guest] ReadPixels ok bytes='' (uint (data_len r)) None) st)))))))"

text \<open>The loop that writes the frame to the opened file; a count that is not positive ends it.\<close>

function write_frame :: "'f writer \<Rightarrow> u8 list \<Rightarrow> int \<Rightarrow> 'f \<Rightarrow> int \<times> 'f" where
  "write_frame wfile rest acc f =
     (if rest = [] then (acc, f)
      else (case wfile rest f of
              (n, f') \<Rightarrow> if n \<le> 0 then (acc, f')
                         else write_frame wfile (drop (nat n) rest) (acc + n) f'))"
  by pat_completeness auto
termination
  by (relation "measure (\<lambda>(wfile, rest, acc, f). length rest)") auto

declare write_frame.simps [simp del]

definition initial_resp :: resp where
  "initial_resp =
     \<lparr>status = 0, handles = [0, 0, 0, 0], detail = [], data_len = 0, data = [],
      data_cap = 512 * 1024\<rparr>"

text \<open>
  \<open>vk_main\<close>: \<open>fd\<close> is the result of \<open>tcp_connect\<close>, \<open>open_frame\<close> that of \<open>openat\<close> on \<open>argv[3]\<close>.  The
  value is the exit status, the log, the connection (\<open>None\<close> before it exists) and the file.
\<close>

definition vk_main ::
    "'s reader \<Rightarrow> 's writer \<Rightarrow> 'f writer \<Rightarrow> string list \<Rightarrow> (int \<times> 's) \<Rightarrow> (int \<times> 'f) \<Rightarrow>
     int \<times> string list \<times> 's \<times> 'f" where
  "vk_main rd wr wfile argv connection file =
     (let (w, h) = frame_dims argv; (fd, s) = connection; (of_fd, f) = file;
          log = [logline ''[vk_guest] argc='' (int (length argv)) None,
                 logline ''[vk_guest] width='' w None, logline ''[vk_guest] height='' h None]
      in if fd < 0
         then (1, log @ [logline ''[vk_guest] connect 10.0.2.2:6520 FAILED rc='' fd None], s, f)
         else
           (case vk_requests rd wr w h
                   \<lparr>vk_resp = initial_resp, vk_seq = 0, vk_conn = s,
                    vk_log = log @ [say ''[vk_guest] connected to host passthrough daemon''
                                      initial_resp]\<rparr> of
              Inl st \<Rightarrow>
                (1, vk_log st @ [logline ''[vk_guest] done rc='' 1 None], vk_conn st, f)
            | Inr st \<Rightarrow>
                (let log = vk_log st @ [say ''[vk_guest] opening frame file'' initial_resp,
                                        logline ''[vk_guest] openat rc='' of_fd None]
                 in if of_fd < 0
                    then (1, log @ [logline ''[vk_guest] open output FAILED rc='' of_fd None,
                                    logline ''[vk_guest] done rc='' 1 None], vk_conn st, f)
                    else
                      (case write_frame wfile
                              (take (unat (data_len (vk_resp st))) (data (vk_resp st))) 0 f of
                         (n, f) \<Rightarrow>
                           (0, log @ [say ''[vk_guest] writing frame'' initial_resp,
                                      logline ''[vk_guest] wrote frame bytes='' n None,
                                      logline ''[vk_guest] done rc='' 0 None],
                            vk_conn st, f)))))"

section \<open>Codecs\<close>

lemma length_wr [simp]: "length (wr_u32 v) = 4" "length (wr_u64 w) = 8"
  by (simp_all add: wr_u32_def wr_u64_def)

lemma rd_wr_u32 [simp]: "rd_u32 (wr_u32 v @ r) = v"
proof (rule bit_word_eqI)
  fix n assume "n < LENGTH(32)"
  then consider "n < 8" | "8 \<le> n" "n < 16" | "16 \<le> n" "n < 24" | "24 \<le> n" "n < 32"
    by force
  then show "bit (rd_u32 (wr_u32 v @ r)) n = bit v n"
    by cases (auto simp: rd_u32_def wr_u32_def bit_simps)
qed

lemma drop_wr_u32 [simp]: "drop 4 (wr_u32 v @ r) = r"
  by (simp add: wr_u32_def)

lemma rd_wr_u64 [simp]: "rd_u64 (wr_u64 v @ r) = v"
proof -
  have "rd_u64 (wr_u64 v @ r) = ucast (ucast v :: u32) OR push_bit 32 (ucast (ucast (drop_bit 32 v) :: u32))"
    by (simp add: rd_u64_def wr_u64_def)
  also have "\<dots> = v"
    by (rule bit_word_eqI) (auto simp: bit_simps)
  finally show ?thesis .
qed

section \<open>Transfers\<close>

context byte_sink
begin

lemma send_all_sent:
  "send_all wr bs s = (True, s') \<Longrightarrow> sent s' = sent s @ bs"
proof (induction bs arbitrary: s rule: length_induct)
  case (1 bs)
  show ?case
  proof (cases "bs = []")
    case True
    with "1.prems" show ?thesis by (simp add: send_all.simps)
  next
    case False
    obtain r s1 where r: "wr bs s = (r, s1)" by fastforce
    with False "1.prems" have pos: "0 < r" and
        rest: "send_all wr (drop (nat r) bs) s1 = (True, s')"
      by (auto simp: send_all.simps [of wr bs] split: if_splits)
    have len: "length (drop (nat r) bs) < length bs" using False pos by simp
    then have "sent s' = sent s1 @ drop (nat r) bs" using "1.IH" rest by blast
    with wr_pos [OF r False pos] show ?thesis by simp
  qed
qed

end

context reliable_sink
begin

lemma send_all_ok: "\<exists>s'. send_all wr bs s = (True, s')"
proof (induction bs arbitrary: s rule: length_induct)
  case (1 bs)
  obtain r s1 where r: "wr bs s = (r, s1)" by fastforce
  show ?case
  proof (cases "bs = []")
    case True
    then show ?thesis by (simp add: send_all.simps)
  next
    case False
    then have "0 < r" using wr_progress [of bs s] r by simp
    with False have "length (drop (nat r) bs) < length bs" by simp
    with "1.IH" obtain s' where "send_all wr (drop (nat r) bs) s1 = (True, s')" by blast
    with False \<open>0 < r\<close> r show ?thesis by (auto simp: send_all.simps [of wr bs])
  qed
qed

end

context reliable_conn
begin

lemma send_all_pending: "send_all wr bs s = (ok, s') \<Longrightarrow> pending s' = pending s"
proof (induction bs arbitrary: s rule: length_induct)
  case (1 bs)
  obtain r s1 where r: "wr bs s = (r, s1)" by fastforce
  have "bs \<noteq> [] \<Longrightarrow> 0 < r \<Longrightarrow> length (drop (nat r) bs) < length bs" by simp
  then have "bs \<noteq> [] \<Longrightarrow> 0 < r \<Longrightarrow> send_all wr (drop (nat r) bs) s1 = (ok, s') \<Longrightarrow>
      pending s' = pending s1"
    using "1.IH" by blast
  with "1.prems" wr_pending [OF r] r show ?case
    by (auto simp: send_all.simps [of wr bs] not_le split: if_splits)
qed

end

context byte_stream
begin

lemma recv_all_ok:
  "len \<le> length (pending s) \<Longrightarrow>
   \<exists>s'. recv_all rd len buf s = (True, buf @ take len (pending s), s') \<and>
        pending s' = drop len (pending s)"
proof (induction len arbitrary: buf s rule: less_induct)
  case (less len)
  show ?case
  proof (cases "len = 0")
    case True
    then show ?thesis by (simp add: recv_all.simps)
  next
    case False
    obtain r bs s1 where r: "rd len s = (r, bs, s1)" by (metis prod_cases3)
    have pos: "0 < r" using rd_end [OF r] less.prems False by (cases "0 < r") auto
    with rd_pos [OF r] False have split:
        "length bs = nat r" "nat r \<le> len" "pending s = bs @ pending s1" by auto
    then have "\<exists>s'. recv_all rd (len - nat r) (buf @ bs) s1 =
          (True, (buf @ bs) @ take (len - nat r) (pending s1), s') \<and>
        pending s' = drop (len - nat r) (pending s1)"
      using less.prems pos False by (intro less.IH) auto
    then show ?thesis
      using False r pos split by (auto simp: recv_all.simps [of rd len])
  qed
qed

lemma recv_all_take:
  assumes "pending s = xs @ ys" and "length xs = len"
  shows "\<exists>s'. recv_all rd len [] s = (True, xs, s') \<and> pending s' = ys"
  using recv_all_ok [of len s "[]"] assms by simp

end

context tcp_conn
begin

lemma recv_all_sent: "recv_all rd len buf s = (ok, bs, s') \<Longrightarrow> sent s' = sent s"
proof (induction len arbitrary: buf s rule: less_induct)
  case (less len)
  obtain r bs1 s1 where r: "rd len s = (r, bs1, s1)" by (metis prod_cases3)
  show ?case
    using less.IH [of "len - nat r" "buf @ bs1" s1] less.prems rd_sent [OF r] r
    by (auto simp: recv_all.simps [of rd len] split: if_splits)
qed

end

section \<open>The exchange\<close>

text \<open>The response format of the protocol, as the header comment of the source states it.\<close>

definition response_header :: "u32 \<Rightarrow> u32 \<Rightarrow> u32 \<Rightarrow> u64 list \<Rightarrow> u32 \<Rightarrow> u8 list" where
  "response_header op seq st hs dlen =
     wr_u32 MAGIC_RSP @ wr_u32 op @ wr_u32 seq @ wr_u32 st @
     wr_u64 (hs ! 0) @ wr_u64 (hs ! 1) @ wr_u64 (hs ! 2) @ wr_u64 (hs ! 3) @ wr_u32 dlen"

definition response_bytes ::
    "u32 \<Rightarrow> u32 \<Rightarrow> u32 \<Rightarrow> u64 list \<Rightarrow> u8 list \<Rightarrow> u8 list \<Rightarrow> u8 list" where
  "response_bytes op seq st hs det dat =
     response_header op seq st hs (of_nat (length det)) @ det @
     wr_u32 (of_nat (length dat)) @ dat"

lemma length_response_header [simp]: "length (response_header op seq st hs dlen) = 52"
  by (simp add: response_header_def)

lemma response_header_fields:
  "rd_u32 (response_header op seq st hs dlen) = MAGIC_RSP"
  "rd_u32 (drop 12 (response_header op seq st hs dlen)) = st"
  "rd_u64 (drop 16 (response_header op seq st hs dlen)) = hs ! 0"
  "rd_u64 (drop 24 (response_header op seq st hs dlen)) = hs ! 1"
  "rd_u64 (drop 32 (response_header op seq st hs dlen)) = hs ! 2"
  "rd_u64 (drop 40 (response_header op seq st hs dlen)) = hs ! 3"
  "rd_u32 (drop 48 (response_header op seq st hs dlen)) = dlen"
  using rd_wr_u32 [of dlen "[]"] by (simp_all add: response_header_def)

text \<open>What a successful exchange leaves in the caller's \<open>struct resp\<close>.\<close>

definition filled :: "resp \<Rightarrow> u32 \<Rightarrow> u64 list \<Rightarrow> u8 list \<Rightarrow> u8 list \<Rightarrow> resp" where
  "filled out st hs det dat =
     out\<lparr>status := st, handles := [hs ! 0, hs ! 1, hs ! 2, hs ! 3],
         detail := overwrite (detail out) (det @ [0]), data_len := of_nat (length dat),
         data := overwrite (data out) dat\<rparr>"

lemma overwrite_Nil [simp]: "overwrite old [] = old"
  by (simp add: overwrite_def)

context byte_stream
begin

lemma recv_data_ok:
  assumes "pending s = wr_u32 (of_nat (length dat)) @ dat @ rest"
    and "length dat \<le> unat (data_cap out)"
  shows "\<exists>s'. recv_data rd out s =
      (0, out\<lparr>data_len := of_nat (length dat), data := overwrite (data out) dat\<rparr>, s') \<and>
    pending s' = rest"
proof -
  have "unat (data_cap out) < 2 ^ LENGTH(32)" by (rule unsigned_less)
  then have dl: "length dat < 2 ^ 32" using assms(2) by simp
  then have u: "unat (of_nat (length dat) :: u32) = length dat"
    by (simp add: unat_of_nat)
  then have cap: "\<not> data_cap out < of_nat (length dat)"
    using assms(2) by (simp add: word_less_nat_alt)
  obtain s1 where s1: "recv_all rd 4 [] s = (True, wr_u32 (of_nat (length dat)), s1)"
      "pending s1 = dat @ rest"
    using recv_all_take [OF assms(1)] by auto
  obtain s2 where s2: "recv_all rd (length dat) [] s1 = (True, dat, s2)" "pending s2 = rest"
    using recv_all_take [OF s1(2)] by auto
  show ?thesis
  proof (cases "(of_nat (length dat) :: u32) = 0")
    case True
    then have "dat = []" using u by (metis length_0_conv unsigned_0)
    with s1 show ?thesis
      using rd_wr_u32 [of 0 "[]"] by (simp add: recv_data_def Let_def)
  next
    case False
    with s1 s2 cap u show ?thesis
      using rd_wr_u32 [of "of_nat (length dat)" "[]"] by (simp add: recv_data_def Let_def)
  qed
qed

lemma recv_response_ok:
  assumes p: "pending s = response_bytes op seq st hs det dat @ rest"
    and det: "length det \<le> 255" and dat: "length dat \<le> unat (data_cap out)"
  shows "\<exists>s'. recv_response rd out s = (0, filled out st hs det dat, s') \<and> pending s' = rest"
proof -
  let ?h = "response_header op seq st hs (of_nat (length det))"
  have u: "unat (of_nat (length det) :: u32) = length det"
    using det by (simp add: unat_of_nat)
  then have clamp: "\<not> (255 :: u32) < of_nat (length det)"
    using det by (simp add: word_less_nat_alt)
  obtain s1 where s1: "recv_all rd 52 [] s = (True, ?h, s1)"
      "pending s1 = det @ wr_u32 (of_nat (length dat)) @ dat @ rest"
    using recv_all_take [of s ?h] p by (auto simp: response_bytes_def)
  obtain s2 where s2: "recv_all rd (length det) [] s1 = (True, det, s2)"
      "pending s2 = wr_u32 (of_nat (length dat)) @ dat @ rest"
    using recv_all_take [OF s1(2)] by auto
  let ?out = "out\<lparr>status := st, handles := [hs ! 0, hs ! 1, hs ! 2, hs ! 3],
      detail := overwrite (detail out) (det @ [0])\<rparr>"
  have "length dat \<le> unat (data_cap ?out)" using dat by simp
  then obtain s3 where s3: "recv_data rd ?out s2 =
        (0, ?out\<lparr>data_len := of_nat (length dat), data := overwrite (data ?out) dat\<rparr>, s3)"
      "pending s3 = rest"
    using recv_data_ok [OF s2(2)] by blast
  show ?thesis
  proof (cases "det = []")
    case True
    with s1 s2 s3 recv_data_ok [of s1 dat rest ?out] dat show ?thesis
      by (simp add: recv_response_def response_header_fields recv_detail_def Let_def filled_def)
  next
    case False
    then have nz: "(of_nat (length det) :: u32) \<noteq> 0" using u by (metis length_0_conv unsigned_0)
    from s1 s2 s3 clamp u nz show ?thesis
      by (simp add: recv_response_def response_header_fields recv_detail_def Let_def filled_def)
  qed
qed

end

context tcp_conn
begin

lemma recv_data_sent: "recv_data rd out s = (rc, out', s') \<Longrightarrow> sent s' = sent s"
  by (auto simp: recv_data_def Let_def split: prod.splits bool.splits if_splits
           dest!: recv_all_sent)

lemma recv_response_sent: "recv_response rd out s = (rc, out', s') \<Longrightarrow> sent s' = sent s"
  by (auto simp: recv_response_def recv_detail_def Let_def
           split: prod.splits bool.splits if_splits dest!: recv_all_sent recv_data_sent)

lemma call_sent:
  assumes "call rd wr opcode payload out seq s = (0, out', seq', s')"
  shows "seq' = seq + 1 \<and> sent s' = sent s @
    request_header opcode (seq + 1) (of_nat (length payload)) @ payload"
proof -
  obtain s1 where s1: "send_all wr (request_header opcode (seq + 1) (of_nat (length payload))) s =
      (True, s1)"
    using assms by (auto simp: call_def Let_def split: prod.splits bool.splits)
  obtain s2 where s2: "(if payload = [] then (True, s1) else send_all wr payload s1) = (True, s2)"
    using assms s1 by (auto simp: call_def Let_def split: prod.splits bool.splits if_splits)
  have "sent s2 = sent s1 @ payload"
    using s2 send_all_sent by (auto split: if_splits)
  moreover have "sent s1 = sent s @ request_header opcode (seq + 1) (of_nat (length payload))"
    using s1 by (rule send_all_sent)
  moreover have "sent s' = sent s2 \<and> seq' = seq + 1"
    using assms s1 s2
    by (auto simp: call_def Let_def simp del: if_split split: prod.splits dest!: recv_response_sent)
  ultimately show ?thesis by simp
qed

lemma call_ok:
  assumes "send_all wr (request_header opcode (seq + 1) (of_nat (length payload))) s = (True, s1)"
    and "send_all wr payload s1 = (True, s2)"
    and "pending s2 = response_bytes op sq st hs det dat @ rest"
    and "length det \<le> 255" and "length dat \<le> unat (data_cap out)"
  shows "\<exists>s3. call rd wr opcode payload out seq s = (0, filled out st hs det dat, seq + 1, s3) \<and>
    pending s3 = rest \<and> sent s3 = sent s @
      request_header opcode (seq + 1) (of_nat (length payload)) @ payload"
proof -
  obtain s3 where s3: "recv_response rd out s2 = (0, filled out st hs det dat, s3)"
      "pending s3 = rest"
    using recv_response_ok [OF assms(3-5)] by blast
  have "(if payload = [] then (True, s1) else send_all wr payload s1) = (True, s2)"
    using assms(2) by (auto simp: send_all.simps [of wr "[]"])
  then have c: "call rd wr opcode payload out seq s = (0, filled out st hs det dat, seq + 1, s3)"
    using assms(1) s3 by (simp add: call_def Let_def del: if_split)
  with call_sent [OF c] s3 show ?thesis by simp
qed

end

text \<open>A request of the protocol with its header.\<close>

definition request_bytes :: "u32 \<Rightarrow> u32 \<Rightarrow> u8 list \<Rightarrow> u8 list" where
  "request_bytes opcode seq payload =
     request_header opcode seq (of_nat (length payload)) @ payload"

lemma data_cap_filled [simp]: "data_cap (filled out st hs det dat) = data_cap out"
  by (simp add: filled_def)

context reliable_conn
begin

lemma vk_request_ok:
  assumes "pending (vk_conn st) = response_bytes op sq 0 hs det dat @ rest"
    and "length det \<le> 255" and "length dat \<le> unat (data_cap (vk_resp st))"
  shows "\<exists>st'. vk_request rd wr opcode payload failed ok st = Inr st' \<and>
    vk_resp st' = filled (vk_resp st) 0 hs det dat \<and> vk_seq st' = vk_seq st + 1 \<and>
    pending (vk_conn st') = rest \<and>
    sent (vk_conn st') = sent (vk_conn st) @ request_bytes opcode (vk_seq st + 1) payload"
proof -
  let ?h = "request_header opcode (vk_seq st + 1) (of_nat (length payload))"
  obtain s1 where s1: "send_all wr ?h (vk_conn st) = (True, s1)" using send_all_ok by blast
  obtain s2 where s2: "send_all wr payload s1 = (True, s2)" using send_all_ok by blast
  have "pending s2 = response_bytes op sq 0 hs det dat @ rest"
    using send_all_pending [OF s1] send_all_pending [OF s2] assms(1) by simp
  from call_ok [OF s1 s2 this assms(2,3)] show ?thesis
    by (auto simp: vk_request_def Let_def filled_def request_bytes_def)
qed

end

section \<open>Logging lemmas\<close>

lemma append_bounded_take:
  "length buf \<le> cap \<Longrightarrow> append_bounded cap buf xs = take cap (buf @ xs)"
  by (induction cap buf xs rule: append_bounded.induct) (auto simp: not_less)

lemma rev_rev_digits: "0 < u \<Longrightarrow> rev (rev_digits u) = dec u"
proof (induction u rule: rev_digits.induct)
  case (1 u)
  show ?case
  proof (cases "u < 10")
    case True
    with "1.prems" show ?thesis
      by (simp add: rev_digits.simps [of u] rev_digits.simps [of 0] dec.simps)
  next
    case False
    then have "rev (rev_digits (u div 10)) = dec (u div 10)" using 1 by simp
    with False show ?thesis by (simp add: rev_digits.simps [of u] dec.simps [of u])
  qed
qed

lemma itoa_to_string: "itoa v = to_string v"
  by (cases "v = 0") (auto simp: itoa_def to_string_def Let_def rev_rev_digits dec.simps [of 0])

section \<open>Properties\<close>

text \<open>
  When the two sends of \<open>call\<close> succeed and the daemon answers with a
  response in the protocol's format whose detail and data fit the client's buffers, \<open>call\<close> returns
  0, the bytes sent are the request in the protocol's format with the next sequence number, the
  caller's structure holds exactly the answer's fields, and the rest of the stream is untouched.
\<close>

theorem vk_call_roundtrip:
  assumes "tcp_conn rd pending wr sent"
    and "send_all wr (request_header opcode (seq + 1) (of_nat (length payload))) s = (True, s1)"
    and "send_all wr payload s1 = (True, s2)"
    and "pending s2 = response_bytes op sq st hs det dat @ rest"
    and "length det \<le> 255" and "length dat \<le> unat (data_cap out)"
  shows "\<exists>s3. call rd wr opcode payload out seq s = (0, filled out st hs det dat, seq + 1, s3) \<and>
    pending s3 = rest \<and> sent s3 = sent s @
      request_header opcode (seq + 1) (of_nat (length payload)) @ payload"
  by (rule tcp_conn.call_ok [OF assms])

text \<open>A socket with the answer to a request in three pieces; one write accepts at most five bytes.\<close>

definition demo_answer :: "u8 list" where
  "demo_answer = response_bytes 5 1 0 [7, 0, 0, 0] [111, 107] [1, 2, 3]"

definition demo_conn :: sock where
  "demo_conn = \<lparr>rx = [take 10 demo_answer, take 40 (drop 10 demo_answer), drop 50 demo_answer],
     tx = [], wcap = 5\<rparr>"

definition demo_payload :: "u8 list" where
  "demo_payload = [1, 2, 3, 4, 5, 6, 7, 8, 9, 10, 11, 12]"

lemma demo_pending: "sock_pending demo_conn = demo_answer"
proof -
  have "drop 50 demo_answer = drop 40 (drop 10 demo_answer)" by simp
  then show ?thesis by (simp only: sock_pending_def demo_conn_def sock.simps concat.simps
    append_take_drop_id append_Nil2)
qed

theorem vk_call_roundtrip_witness:
  "\<exists>s3. call sock_read sock_write 5 demo_payload initial_resp 0 demo_conn =
     (0, filled initial_resp 0 [7, 0, 0, 0] [111, 107] [1, 2, 3], 1, s3) \<and> sock_pending s3 = [] \<and>
     tx s3 = request_header 5 1 12 @ demo_payload"
proof -
  obtain s1 where s1: "send_all sock_write
      (request_header 5 (0 + 1) (of_nat (length demo_payload))) demo_conn = (True, s1)"
    using sock.send_all_ok by blast
  obtain s2 where s2: "send_all sock_write demo_payload s1 = (True, s2)"
    using sock.send_all_ok by blast
  have "sock_pending s2 = response_bytes 5 1 0 [7, 0, 0, 0] [111, 107] [1, 2, 3] @ []"
    using sock.send_all_pending [OF s1] sock.send_all_pending [OF s2] demo_pending
    by (simp add: demo_answer_def)
  from vk_call_roundtrip [OF sock.tcp_conn_axioms s1 s2 this, of initial_resp]
  show ?thesis by (simp add: initial_resp_def demo_conn_def demo_payload_def)
qed

lemma bind_r_Inr [simp]: "bind_r (Inr x) f = f x"
  by (simp add: bind_r_def)

text \<open>An answer of the daemon: handles, detail and data, with status 0.\<close>

type_synonym answer = "u32 \<times> u32 \<times> u64 list \<times> u8 list \<times> u8 list"

definition answer_handle :: "answer \<Rightarrow> u64" where
  "answer_handle a = (case a of (op, sq, hs, det, dat) \<Rightarrow> hs ! 0)"

definition answer_data :: "answer \<Rightarrow> u8 list" where
  "answer_data a = (case a of (op, sq, hs, det, dat) \<Rightarrow> dat)"

definition answer_bytes :: "answer \<Rightarrow> u8 list" where
  "answer_bytes a = (case a of (op, sq, hs, det, dat) \<Rightarrow> response_bytes op sq 0 hs det dat)"

definition answer_fits :: "answer \<Rightarrow> bool" where
  "answer_fits a \<longleftrightarrow> (case a of (op, sq, hs, det, dat) \<Rightarrow> length det \<le> 255 \<and> length dat \<le> 512 * 1024)"

text \<open>What one answered request does to the client's state.\<close>

definition served ::
    "('s \<Rightarrow> u8 list) \<Rightarrow> ('s \<Rightarrow> u8 list) \<Rightarrow> answer \<Rightarrow> u8 list \<Rightarrow> u8 list \<Rightarrow> 's vk \<Rightarrow> 's vk \<Rightarrow> bool" where
  "served pending sent a rest request st st' \<longleftrightarrow>
     data_cap (vk_resp st') = 512 * 1024 \<and> handles (vk_resp st') ! 0 = answer_handle a \<and>
     take (unat (data_len (vk_resp st'))) (data (vk_resp st')) = answer_data a \<and>
     vk_seq st' = vk_seq st + 1 \<and> pending (vk_conn st') = rest \<and>
     sent (vk_conn st') = sent (vk_conn st) @ request"

context reliable_conn
begin

lemma vk_request_answer:
  assumes "pending (vk_conn st) = answer_bytes a @ rest" and "answer_fits a"
    and "data_cap (vk_resp st) = 512 * 1024"
  obtains st' where "vk_request rd wr opcode payload failed ok st = Inr st'"
    and "served pending sent a rest (request_bytes opcode (vk_seq st + 1) payload) st st'"
proof -
  obtain op sq hs det dat where a: "a = (op, sq, hs, det, dat)" by (metis prod_cases5)
  have p: "pending (vk_conn st) = response_bytes op sq 0 hs det dat @ rest"
    using assms(1) by (simp add: a answer_bytes_def)
  have l: "length det \<le> 255" "length dat \<le> unat (data_cap (vk_resp st))"
    using assms(2,3) by (simp_all add: a answer_fits_def)
  have "unat (of_nat (length dat) :: u32) = length dat"
    using l assms(3) by (simp add: unat_of_nat)
  with vk_request_ok [OF p l, of opcode payload failed ok] assms(3) that show ?thesis
    by (auto simp: a served_def answer_handle_def answer_data_def filled_def overwrite_def)
qed

lemma servedD:
  assumes "served pending sent a rest request st st'"
  shows "pending (vk_conn st') = rest" and "data_cap (vk_resp st') = 512 * 1024"
    and "handles (vk_resp st') ! 0 = answer_handle a"
  using assms by (simp_all add: served_def)

lemma vk_requests_ok:
  assumes p: "pending (vk_conn st) = answer_bytes a1 @ answer_bytes a2 @ answer_bytes a3 @
      answer_bytes a4 @ answer_bytes a5 @ answer_bytes a6 @ answer_bytes a7 @ rest"
    and fits: "answer_fits a1" "answer_fits a2" "answer_fits a3" "answer_fits a4" "answer_fits a5"
      "answer_fits a6" "answer_fits a7" and cap: "data_cap (vk_resp st) = 512 * 1024"
  shows "\<exists>st'. vk_requests rd wr w h st = Inr st' \<and>
    take (unat (data_len (vk_resp st'))) (data (vk_resp st')) = answer_data a7 \<and>
    pending (vk_conn st') = rest \<and>
    sent (vk_conn st') = sent (vk_conn st) @
     (let fs = ucast (word_of_int (w * h * 4) :: u32); q = vk_seq st
      in request_bytes 1 (q + 1) [] @ request_bytes 2 (q + 2) [] @
         request_bytes 5 (q + 3) (wr_u64 fs @ wr_u32 0) @
         request_bytes 3 (q + 4) (wr_u64 fs @ wr_u32 1) @
         request_bytes 9 (q + 5) (wr_u64 (answer_handle a3) @ wr_u64 (answer_handle a4)) @
         request_bytes 10 (q + 6) (wr_u32 (word_of_int w) @ wr_u32 (word_of_int h)) @
         request_bytes 11 (q + 7) (wr_u64 fs))"
proof -
  let ?fs = "ucast (word_of_int (w * h * 4) :: u32) :: u64"
  let ?r6 = "answer_bytes a7 @ rest"
  let ?r5 = "answer_bytes a6 @ ?r6"
  let ?r4 = "answer_bytes a5 @ ?r5"
  let ?r3 = "answer_bytes a4 @ ?r4"
  let ?r2 = "answer_bytes a3 @ ?r3"
  let ?r1 = "answer_bytes a2 @ ?r2"
  note step = vk_request_answer
  obtain s1 where s1: "vk_request rd wr 1 [] ''[vk_guest] CreateInstance FAILED status=''
      (say ''[vk_guest] CreateInstance ok'') st = Inr s1"
      "served pending sent a1 ?r1
        (request_bytes 1 (vk_seq st + 1) []) st s1"
    using step [OF p fits(1) cap] .
  obtain s2 where s2: "vk_request rd wr 2 [] ''[vk_guest] CreateDevice FAILED status=''
      (say ''[vk_guest] CreateDevice ok (device=0x'') s1 = Inr s2"
      "served pending sent a2 ?r2
        (request_bytes 2 (vk_seq s1 + 1) []) s1 s2"
    using step [OF servedD(1) [OF s1(2)] fits(2) servedD(2) [OF s1(2)]] .
  obtain s3 where s3: "vk_request rd wr 5 (wr_u64 ?fs @ wr_u32 0)
      ''[vk_guest] CreateBuffer FAILED status='' (say ''[vk_guest] CreateBuffer ok'') s2 = Inr s3"

      "served pending sent a3 ?r3
        (request_bytes 5 (vk_seq s2 + 1) (wr_u64 ?fs @ wr_u32 0)) s2 s3"
    using step [OF servedD(1) [OF s2(2)] fits(3) servedD(2) [OF s2(2)]] .
  obtain s4 where s4: "vk_request rd wr 3 (wr_u64 ?fs @ wr_u32 1)
      ''[vk_guest] AllocateMemory FAILED status='' (say ''[vk_guest] AllocateMemory ok'') s3 = Inr s4"

      "served pending sent a4 ?r4
        (request_bytes 3 (vk_seq s3 + 1) (wr_u64 ?fs @ wr_u32 1)) s3 s4"
    using step [OF servedD(1) [OF s3(2)] fits(4) servedD(2) [OF s3(2)]] .
  obtain s5 where s5: "vk_request rd wr 9 (wr_u64 (answer_handle a3) @ wr_u64 (answer_handle a4))
      ''[vk_guest] BindRenderBuffer FAILED status='' (say ''[vk_guest] BindRenderBuffer ok'') s4 =
      Inr s5"
      "served pending sent a5 ?r5
        (request_bytes 9 (vk_seq s4 + 1) (wr_u64 (answer_handle a3) @ wr_u64 (answer_handle a4))) s4 s5"
    using step [OF servedD(1) [OF s4(2)] fits(5) servedD(2) [OF s4(2)]] .
  obtain s6 where s6: "vk_request rd wr 10 (wr_u32 (word_of_int w) @ wr_u32 (word_of_int h))
      ''[vk_guest] RenderFrame FAILED status=''
      (say ''[vk_guest] RenderFrame ok (host GPU dispatched)'') s5 = Inr s6"

      "served pending sent a6 ?r6
        (request_bytes 10 (vk_seq s5 + 1) (wr_u32 (word_of_int w) @ wr_u32 (word_of_int h))) s5 s6"
    using step [OF servedD(1) [OF s5(2)] fits(6) servedD(2) [OF s5(2)]] .
  obtain s7 where s7: "vk_request rd wr 11 (wr_u64 ?fs) ''[vk_guest] ReadPixels FAILED status=''
      (\<lambda>r. logline ''[vk_guest] ReadPixels ok bytes='' (uint (data_len r)) None) s6 = Inr s7"

      "served pending sent a7 rest
        (request_bytes 11 (vk_seq s6 + 1) (wr_u64 ?fs)) s6 s7"
    using step [OF servedD(1) [OF s6(2)] fits(7) servedD(2) [OF s6(2)]] .
  have "vk_requests rd wr w h st = Inr s7"
    using s1 s2 s3 s4 s5 s6 s7 by (simp add: vk_requests_def Let_def servedD(3))
  with s1(2) s2(2) s3(2) s4(2) s5(2) s6(2) s7(2) show ?thesis
    by (simp add: served_def Let_def add.assoc)
qed

end

context reliable_sink
begin

lemma write_frame_ok:
  "\<exists>f'. write_frame wr bs acc f = (acc + int (length bs), f') \<and> sent f' = sent f @ bs"
proof (induction bs arbitrary: acc f rule: length_induct)
  case (1 bs)
  obtain n f1 where n: "wr bs f = (n, f1)" by fastforce
  show ?case
  proof (cases "bs = []")
    case True
    then show ?thesis by (simp add: write_frame.simps)
  next
    case False
    then have pos: "0 < n" using wr_progress [of bs f] n by simp
    note w = wr_pos [OF n False pos]
    from pos False have "length (drop (nat n) bs) < length bs" by simp
    then obtain f' where f': "write_frame wr (drop (nat n) bs) (acc + n) f1 =
        (acc + n + int (length (drop (nat n) bs)), f')" "sent f' = sent f1 @ drop (nat n) bs"
      using "1.IH" by blast
    moreover have "n + int (length (drop (nat n) bs)) = int (length bs)"
      using w pos by auto
    ultimately show ?thesis
      using False pos n w by (auto simp: write_frame.simps [of wr bs] add.assoc)
  qed
qed

end

text \<open>The requests of a session, given the handles that the third and fourth answers return.\<close>

definition session_requests :: "int \<Rightarrow> int \<Rightarrow> u64 \<Rightarrow> u64 \<Rightarrow> u8 list" where
  "session_requests w h buffer memory =
     (let fs = ucast (word_of_int (w * h * 4) :: u32)
      in request_bytes 1 1 [] @ request_bytes 2 2 [] @
         request_bytes 5 3 (wr_u64 fs @ wr_u32 0) @ request_bytes 3 4 (wr_u64 fs @ wr_u32 1) @
         request_bytes 9 5 (wr_u64 buffer @ wr_u64 memory) @
         request_bytes 10 6 (wr_u32 (word_of_int w) @ wr_u32 (word_of_int h)) @
         request_bytes 11 7 (wr_u64 fs))"

text \<open>
  C7 (vk_session_end_to_end): on a connection that accepts every byte and on which the daemon's
  seven answers arrive (in any segmentation, each with a detail of at most 255 bytes and data of at
  most 512 KiB), \<open>vk_main\<close> exits with 0, has sent exactly the seven requests of the session in
  order, with the buffer and memory handles of the third and fourth answer in the bind request, and
  has written to the frame file exactly the bytes of the last answer.
\<close>

theorem vk_session_end_to_end:
  assumes conn: "reliable_conn rd pending wr sent" and disk: "reliable_sink wfile stored"
    and fds: "0 \<le> fd" "0 \<le> of_fd"
    and p: "pending s = concat (map answer_bytes [a1, a2, a3, a4, a5, a6, a7])"
    and fits: "list_all answer_fits [a1, a2, a3, a4, a5, a6, a7]"
    and dims: "frame_dims argv = (w, h)"
  shows "\<exists>log s' f'. vk_main rd wr wfile argv (fd, s) (of_fd, f) = (0, log, s', f') \<and>
    pending s' = [] \<and>
    sent s' = sent s @ session_requests w h (answer_handle a3) (answer_handle a4) \<and>
    stored f' = stored f @ answer_data a7"
proof -
  let ?log = "[logline ''[vk_guest] argc='' (int (length argv)) None,
     logline ''[vk_guest] width='' w None, logline ''[vk_guest] height='' h None,
     say ''[vk_guest] connected to host passthrough daemon'' initial_resp]"
  let ?st = "\<lparr>vk_resp = initial_resp, vk_seq = 0, vk_conn = s, vk_log = ?log\<rparr>"
  have "pending (vk_conn ?st) = answer_bytes a1 @ answer_bytes a2 @ answer_bytes a3 @
      answer_bytes a4 @ answer_bytes a5 @ answer_bytes a6 @ answer_bytes a7 @ []"
    using p by simp
  from reliable_conn.vk_requests_ok [OF conn this, of w h] fits
  obtain st where st: "vk_requests rd wr w h ?st = Inr st"
      "take (unat (data_len (vk_resp st))) (data (vk_resp st)) = answer_data a7"
      "pending (vk_conn st) = []"
      "sent (vk_conn st) = sent s @ session_requests w h (answer_handle a3) (answer_handle a4)"
    by (auto simp: initial_resp_def session_requests_def Let_def)
  obtain f' where "write_frame wfile (answer_data a7) 0 f = (int (length (answer_data a7)), f')"
      "stored f' = stored f @ answer_data a7"
    using reliable_sink.write_frame_ok [OF disk, of "answer_data a7" 0 f] by auto
  with st fds dims show ?thesis by (simp add: vk_main_def Let_def)
qed

definition demo_handle_answer :: "u64 \<Rightarrow> u8 list \<Rightarrow> answer" where
  "demo_handle_answer h0 dat = (0, 0, [h0, 0, 0, 0], [111, 107], dat)"

definition demo_session :: "answer list" where
  "demo_session = [demo_handle_answer 1 [], demo_handle_answer 2 [], demo_handle_answer 3 [],
     demo_handle_answer 4 [], demo_handle_answer 0 [], demo_handle_answer 0 [],
     demo_handle_answer 0 [10, 20, 30, 40]]"

theorem vk_session_end_to_end_witness:
  "\<exists>log s' f'. vk_main sock_read sock_write sock_write [''vk'', ''1'', ''1'', ''out'']
       (3, \<lparr>rx = map answer_bytes demo_session, tx = [], wcap = 7\<rparr>)
       (4, \<lparr>rx = [], tx = [], wcap = 1\<rparr>) = (0, log, s', f') \<and>
     sock_pending s' = [] \<and> tx s' = session_requests 1 1 3 4 \<and> tx f' = [10, 20, 30, 40]"
proof -
  have dims: "frame_dims [''vk'', ''1'', ''1'', ''out''] = (1, 1)"
    by (simp add: frame_dims_def parse_arg_def i64_def)
  show ?thesis
    using vk_session_end_to_end [OF sock.reliable_conn_axioms sock.reliable_sink_axioms _ _ _ _ dims,
        where fd = 3 and of_fd = 4 and s = "\<lparr>rx = map answer_bytes demo_session, tx = [], wcap = 7\<rparr>"
        and f = "\<lparr>rx = [], tx = [], wcap = 1\<rparr>" and ?a1.0 = "demo_handle_answer 1 []"
        and ?a2.0 = "demo_handle_answer 2 []" and ?a3.0 = "demo_handle_answer 3 []"
        and ?a4.0 = "demo_handle_answer 4 []" and ?a5.0 = "demo_handle_answer 0 []"
        and ?a6.0 = "demo_handle_answer 0 []" and ?a7.0 = "demo_handle_answer 0 [10, 20, 30, 40]"]
    by (simp add: sock_pending_def demo_session_def demo_handle_answer_def answer_fits_def
        answer_handle_def answer_data_def)
qed

text \<open>
  The clamp on the detail length does not drain the rest of the detail: the four bytes that follow
  the first 255 are read as the length of the data.  The handles and the status are still right, but
  the position of the stream is wrong for every later request.
\<close>

lemma vk_long_detail_desync:
  assumes "byte_stream rd pending"
    and "pending s = response_header op seq st hs (of_nat (length det)) @ det @ rest"
    and "259 \<le> length det" and "length det < 2 ^ 32"
    and "take 4 (drop 255 det) = wr_u32 0"
  shows "\<exists>out' s'. recv_response rd out s = (0, out', s') \<and> data_len out' = 0 \<and>
    pending s' = drop 259 det @ rest"
proof -
  let ?h = "response_header op seq st hs (of_nat (length det))"
  have det: "det = take 255 det @ wr_u32 0 @ drop 259 det"
  proof -
    have "drop 259 det = drop 4 (drop 255 det)" by simp
    then show ?thesis using assms(5) by (metis append_take_drop_id)
  qed
  have u: "unat (of_nat (length det) :: u32) = length det"
    using assms(4) by (simp add: unat_of_nat)
  then have clamp: "(255 :: u32) < of_nat (length det)"
    using assms(3) by (simp add: word_less_nat_alt)
  obtain s1 where s1: "recv_all rd 52 [] s = (True, ?h, s1)" "pending s1 = det @ rest"
    using byte_stream.recv_all_take [OF assms(1), of s ?h] assms(2) by auto
  have "pending s1 = take 255 det @ (wr_u32 0 @ drop 259 det @ rest)"
    using s1(2) det by (metis append_assoc)
  then obtain s2 where s2: "recv_all rd 255 [] s1 = (True, take 255 det, s2)"
      "pending s2 = wr_u32 (of_nat (length ([] :: u8 list))) @ [] @ drop 259 det @ rest"
    using byte_stream.recv_all_take [OF assms(1), of s1 "take 255 det"] assms(3) by auto
  let ?out = "out\<lparr>status := st, handles := [hs ! 0, hs ! 1, hs ! 2, hs ! 3],
      detail := overwrite (detail out) (take 255 det @ [0])\<rparr>"
  obtain s3 where "recv_data rd ?out s2 = (0, ?out\<lparr>data_len := 0, data := data ?out\<rparr>, s3)"
      "pending s3 = drop 259 det @ rest"
    using byte_stream.recv_data_ok [OF assms(1) s2(2), of ?out] by auto
  with s1 s2 clamp show ?thesis
    by (simp add: recv_response_def response_header_fields recv_detail_def Let_def)
qed

text \<open>
  a log line is the tag, the decimal number (or \<open>(n/a)\<close> when it is
  negative) and the detail, cut to 159 characters, and a newline: the 160-byte buffer never
  overflows and the newline is never lost.
\<close>

theorem vk_logline_bounded:
  "logline tag v dtl =
     take 159 (tag @ (if v \<ge> 0 then to_string v else ''(n/a)'') @ (case dtl of None \<Rightarrow> [] | Some d \<Rightarrow> d))
       @ [CHR ''\<newline>''] \<and>
   length (logline tag v dtl) \<le> 160"
proof -
  have step: "append_bounded 159 (take 159 a) b = take 159 (a @ b)" for a b
    by (subst append_bounded_take) (auto simp: min_def)
  have start: "append_bounded 159 [] b = take 159 b" for b
    using step [of "[]" b] by simp
  have eq: "logline tag v dtl = take 159 (tag @ (if v \<ge> 0 then to_string v else ''(n/a)'') @
      (case dtl of None \<Rightarrow> [] | Some d \<Rightarrow> d)) @ [CHR ''\<newline>'']"
    by (cases dtl) (simp_all add: logline_def Let_def start step itoa_to_string del: take_append)
  then show ?thesis by (simp del: take_append)
qed

end
