(* ===== verification/Init_Wrapper.thy ===== *)
theory Init_Wrapper
  imports Prelude
begin

text \<open>
  \<open>tools/init_wrapper.c\<close>: the program that replaces \<open>/init\<close> in the guest's ramdisk.  It creates the console
  nodes, starts the touch daemon, starts a watchdog that configures \<open>eth0\<close> and repairs it, and hands over
  to the real init.  The kernel is a parameter \<open>kern\<close>: one function for each system call, on a state
  that the model passes along.  The static variables of the file are fields of \<open>wst\<close>.
\<close>

section \<open>Structures\<close>

record in_addr =
  sin_family :: u16
  sin_addr :: u32

record rtentry =
  rt_dst :: in_addr
  rt_gateway :: in_addr
  rt_genmask :: in_addr
  rt_flags :: u16
  rt_dev :: string

abbreviation AF_UNSPEC :: u16 where "AF_UNSPEC \<equiv> 0"
abbreviation AF_INET :: u16 where "AF_INET \<equiv> 2"
abbreviation IFF_UP :: u16 where "IFF_UP \<equiv> 1"
abbreviation RTF_UP :: u16 where "RTF_UP \<equiv> 1"
abbreviation RTF_GATEWAY :: u16 where "RTF_GATEWAY \<equiv> 2"

text \<open>A request to \<open>ioctl\<close> with the part of its argument that the kernel reads.\<close>

datatype ioreq =
    SIOCSIFADDR string in_addr
  | SIOCSIFNETMASK string in_addr
  | SIOCGIFFLAGS string
  | SIOCSIFFLAGS string u16
  | SIOCGIFADDR string in_addr
  | SIOCGIFNAME int
  | SIOCADDRT rtentry

text \<open>What \<open>ioctl\<close> writes back: the flags, the address or the name.\<close>

record ioret =
  io_flags :: u16
  io_addr :: u32
  io_name :: string

record 's kern =
  k_openat :: "string \<Rightarrow> nat \<Rightarrow> 's \<Rightarrow> int \<times> 's"
  k_write :: "int \<Rightarrow> string \<Rightarrow> 's \<Rightarrow> int \<times> 's"
  k_close :: "int \<Rightarrow> 's \<Rightarrow> 's"
  k_ioctl :: "int \<Rightarrow> ioreq \<Rightarrow> 's \<Rightarrow> int \<times> ioret \<times> 's"
  k_socket :: "'s \<Rightarrow> int \<times> 's"
  k_connect :: "int \<Rightarrow> in_addr \<Rightarrow> u16 \<Rightarrow> 's \<Rightarrow> int \<times> 's"
  k_ppoll :: "int \<Rightarrow> int \<Rightarrow> 's \<Rightarrow> int \<times> 's"
  k_read :: "int \<Rightarrow> 's \<Rightarrow> int \<times> 's"
  k_mount :: "string \<Rightarrow> string \<Rightarrow> nat \<Rightarrow> 's \<Rightarrow> int \<times> 's"
  k_nanosleep :: "int \<Rightarrow> int \<Rightarrow> 's \<Rightarrow> int \<times> 's"
  k_clock :: "'s \<Rightarrow> (int \<times> int) option \<times> 's"
  k_block_signals :: "'s \<Rightarrow> 's"
  k_spawn :: "string list \<Rightarrow> 's \<Rightarrow> 's"
  k_mkdirat :: "string \<Rightarrow> nat \<Rightarrow> 's \<Rightarrow> 's"
  k_mknodat :: "string \<Rightarrow> nat \<Rightarrow> nat \<Rightarrow> 's \<Rightarrow> 's"
  k_execve :: "string \<Rightarrow> string list \<Rightarrow> 's \<Rightarrow> bool \<times> 's"

record 's wst =
  kfd :: int
  serial_fd :: int
  reported :: int
  stubbed :: bool
  serial_stopped :: bool
  ks :: 's

definition lift_k :: "('s \<Rightarrow> 'r \<times> 's) \<Rightarrow> 's wst \<Rightarrow> 'r \<times> 's wst" where
  "lift_k f w = (case f (ks w) of (r, s) \<Rightarrow> (r, w\<lparr>ks := s\<rparr>))"

section \<open>Logging and time\<close>

definition htonl32 :: "u32 \<Rightarrow> u32" where
  "htonl32 x = (push_bit 24 (x AND 0xff)) OR (push_bit 8 (x AND 0xff00)) OR
     (drop_bit 8 x AND 0xff00) OR (drop_bit 24 x AND 0xff)"

definition serial_tee_open :: "'s kern \<Rightarrow> 's wst \<Rightarrow> 's wst" where
  "serial_tee_open k w =
     (if serial_fd w \<ge> 0 then w
      else (case lift_k (k_openat k ''/dev/ttyAMA0'' (1 + 2048)) w of (fd, w) \<Rightarrow> w\<lparr>serial_fd := fd\<rparr>))"

definition serial_tee :: "'s kern \<Rightarrow> string \<Rightarrow> 's wst \<Rightarrow> 's wst" where
  "serial_tee k buf w = (if serial_fd w \<ge> 0 then snd (lift_k (k_write k (serial_fd w) buf) w) else w)"

definition klog :: "'s kern \<Rightarrow> string \<Rightarrow> 's wst \<Rightarrow> 's wst" where
  "klog k msg w =
     (let w = serial_tee k msg w in if kfd w < 0 then w else snd (lift_k (k_write k (kfd w) msg) w))"

definition klog_num :: "'s kern \<Rightarrow> string \<Rightarrow> int \<Rightarrow> 's wst \<Rightarrow> 's wst" where
  "klog_num k msg v w =
     (let buf = msg @ to_string v @ ''\<newline>''; w = serial_tee k buf w
      in if kfd w \<ge> 0 then snd (lift_k (k_write k (kfd w) buf) w) else w)"

definition mono_ms :: "'s kern \<Rightarrow> 's wst \<Rightarrow> int \<times> 's wst" where
  "mono_ms k w =
     (case lift_k (k_clock k) w of
        (None, w) \<Rightarrow> (-1, w)
      | (Some (sec, nsec), w) \<Rightarrow> (sec * 1000 + nsec sdiv 1000000, w))"

text \<open>The busy wait may never end, so it takes fuel; \<open>None\<close> is a wait that is still running.\<close>

fun busy_wait :: "'s kern \<Rightarrow> nat \<Rightarrow> int \<Rightarrow> 's wst \<Rightarrow> 's wst option" where
  "busy_wait k 0 deadline w = None"
| "busy_wait k (Suc n) deadline w =
     (case mono_ms k w of (t, w) \<Rightarrow> if t < deadline then busy_wait k n deadline w else Some w)"

definition msleep :: "'s kern \<Rightarrow> nat \<Rightarrow> int \<Rightarrow> 's wst \<Rightarrow> 's wst option" where
  "msleep k fuel ms w =
     (let sec = ms sdiv 1000; nsec = (ms smod 1000) * 1000000 in
      case lift_k (k_nanosleep k sec nsec) w of
        (r, w) \<Rightarrow>
          if r = 0 then Some w
          else
            (let w = (if reported w < 3
                      then klog_num k ''arm64droid-init:   ts.nsec='' nsec
                             (klog_num k ''arm64droid-init:   ts.sec='' sec
                               (klog_num k ''arm64droid-init: nanosleep rc='' r w))
                      else w);
                 w = w\<lparr>reported := reported w + 1\<rparr>
             in if r = -4 then Some (snd (lift_k (k_nanosleep k sec nsec) w))
                else (case mono_ms k w of
                        (t, w) \<Rightarrow> if t < 0 then Some w else busy_wait k fuel (t + ms) w)))"

section \<open>Network configuration\<close>

definition no_addr :: in_addr where
  "no_addr = \<lparr>sin_family = AF_UNSPEC, sin_addr = 0\<rparr>"

definition inet :: "u32 \<Rightarrow> in_addr" where
  "inet a = \<lparr>sin_family = AF_INET, sin_addr = htonl32 a\<rparr>"

definition subnet_route :: rtentry where
  "subnet_route = \<lparr>rt_dst = inet 0x0a000200, rt_gateway = no_addr, rt_genmask = inet 0xffffff00,
     rt_flags = RTF_UP, rt_dev = ''eth0''\<rparr>"

definition default_route :: rtentry where
  "default_route = \<lparr>rt_dst = inet 0, rt_gateway = inet 0x0a000202, rt_genmask = inet 0,
     rt_flags = RTF_UP OR RTF_GATEWAY, rt_dev = ''eth0''\<rparr>"

definition do_ioctl :: "'s kern \<Rightarrow> int \<Rightarrow> ioreq \<Rightarrow> 's wst \<Rightarrow> (int \<times> ioret) \<times> 's wst" where
  "do_ioctl k s req w = (case k_ioctl k s req (ks w) of (r, ret, st) \<Rightarrow> ((r, ret), w\<lparr>ks := st\<rparr>))"

definition setup_routes :: "'s kern \<Rightarrow> int \<Rightarrow> 's wst \<Rightarrow> nat \<times> 's wst" where
  "setup_routes k s w =
     (case do_ioctl k s (SIOCADDRT subnet_route) w of
        ((r, _), w) \<Rightarrow>
          (let w = (if r \<noteq> 0 \<and> r \<noteq> -17 then klog_num k ''arm64droid-init: subnet route rc='' r w else w) in
           case do_ioctl k s (SIOCADDRT default_route) w of
             ((r, _), w) \<Rightarrow>
               if r \<noteq> 0 \<and> r \<noteq> -17 then
                 (let w = klog_num k ''arm64droid-init: SIOCADDRT rc='' r w in
                  case do_ioctl k s (SIOCGIFFLAGS ''eth0'') w of
                    ((rf, ret), w) \<Rightarrow>
                      (let w = klog_num k ''arm64droid-init: post-fail flags=''
                                 (if rf = 0 then sint (io_flags ret) else rf) w in
                       case do_ioctl k s (SIOCGIFADDR ''eth0'' \<lparr>sin_family = AF_INET, sin_addr = 0\<rparr>) w of
                         ((ra, ret), w) \<Rightarrow>
                           (5, klog_num k ''arm64droid-init: post-fail addr=''
                                 (if ra = 0 then uint (io_addr ret) else ra) w)))
               else (0, w)))"

definition setup_eth0 :: "'s kern \<Rightarrow> int \<Rightarrow> 's wst \<Rightarrow> nat \<times> 's wst" where
  "setup_eth0 k s w =
     (case do_ioctl k s (SIOCSIFADDR ''eth0'' (inet 0x0a00020f)) w of
        ((r, _), w) \<Rightarrow>
          if r \<noteq> 0 then (1, klog_num k ''arm64droid-init: SIOCSIFADDR rc='' r w)
          else
            (case do_ioctl k s (SIOCSIFNETMASK ''eth0'' (inet 0xffffff00)) w of
               ((r, _), w) \<Rightarrow>
                 if r \<noteq> 0 then (2, klog_num k ''arm64droid-init: SIOCSIFNETMASK rc='' r w)
                 else
                   (case do_ioctl k s (SIOCGIFFLAGS ''eth0'') w of
                      ((r, ret), w) \<Rightarrow>
                        if r \<noteq> 0 then (3, klog_num k ''arm64droid-init: SIOCGIFFLAGS rc='' r w)
                        else
                          (case do_ioctl k s (SIOCSIFFLAGS ''eth0'' (io_flags ret OR IFF_UP)) w of
                             ((r, _), w) \<Rightarrow>
                               if r \<noteq> 0 then (4, klog_num k ''arm64droid-init: SIOCSIFFLAGS rc='' r w)
                               else setup_routes k s w))))"

definition enum_iface :: "'s kern \<Rightarrow> int \<Rightarrow> nat \<Rightarrow> 's wst \<Rightarrow> 's wst" where
  "enum_iface k s idx w =
     (case do_ioctl k s (SIOCGIFNAME (int idx)) w of
        ((r, ret), w) \<Rightarrow>
          if r = 0
          then (let line = ''arm64droid-init: iface '' @ dec idx @ ''=''
                in klog k (line @ take (58 - length line) (io_name ret) @ ''\<newline>'') w)
          else w)"

definition enum_ifaces :: "'s kern \<Rightarrow> int \<Rightarrow> 's wst \<Rightarrow> 's wst" where
  "enum_ifaces k s w = fold (enum_iface k s) [1..<9] w"

text \<open>\<open>path_alive\<close>: True is the 1 of the code.\<close>

definition path_alive :: "'s kern \<Rightarrow> 's wst \<Rightarrow> bool \<times> 's wst" where
  "path_alive k w =
     (case lift_k (k_socket k) w of
        (s, w) \<Rightarrow>
          if s < 0 then (True, w)
          else
            (case lift_k (k_connect k s (inet 0x0a000202) 0x0100) w of
               (r, w) \<Rightarrow>
                 (let (alive, w) =
                    (if r = 0 then
                       (case lift_k (k_write k s ''X'') w of
                          (r, w) \<Rightarrow>
                            if r = 1 then
                              (case lift_k (k_ppoll k s 2) w of
                                 (r, w) \<Rightarrow> if r > 0 then (True, snd (lift_k (k_read k s) w)) else (False, w))
                            else (False, w))
                     else (r = -111 \<or> r = -13, w))
                  in (alive, w\<lparr>ks := k_close k s (ks w)\<rparr>))))"

definition stub_crashing_services :: "'s kern \<Rightarrow> 's wst \<Rightarrow> 's wst" where
  "stub_crashing_services k w =
     (if stubbed w then w
      else
        (case lift_k (k_mount k ''/stub_daemon'' ''/vendor/bin/hw/android.hardware.uwb-service'' 4096) w of
           (r, w) \<Rightarrow>
             if r = 0 then
               (let w = snd (lift_k (k_mount k ''/stub_daemon'' ''/vendor/bin/hw/android.hardware.nfc-service'' 4096) w);
                    w = snd (lift_k (k_mount k ''/stub_daemon'' ''/vendor/etc/init/seriallogging.rc'' 4096) w);
                    w = klog k (''arm64droid-init: stubbed crashing vendor HAL services and seriallogging '' @
                                ''with /stub_daemon\<newline>'') w
                in w\<lparr>stubbed := True\<rparr>)
             else w))"

section \<open>The watchdog\<close>

record wloop =
  w_sock :: int
  w_t0 :: int
  w_configured :: bool
  w_last_hb :: int

definition child_start :: "'s kern \<Rightarrow> 's wst \<Rightarrow> wloop \<times> 's wst" where
  "child_start k w =
     (let w = (if kfd w < 0
               then (case lift_k (k_openat k ''/dev/kmsg'' (1 + 2048)) w of (fd, w) \<Rightarrow> w\<lparr>kfd := fd\<rparr>) else w);
          w = serial_tee_open k w;
          w = w\<lparr>ks := k_block_signals k (ks w)\<rparr>
      in case mono_ms k w of
           (t0, w) \<Rightarrow>
             (case lift_k (k_socket k) w of
                (s, w) \<Rightarrow>
                  (\<lparr>w_sock = s, w_t0 = (if t0 < 0 then 0 else t0), w_configured = False, w_last_hb = 0\<rparr>,
                   if s < 0 then klog k ''arm64droid-init: failed to create dgram socket\<newline>'' w else w)))"

definition configure :: "'s kern \<Rightarrow> wloop \<Rightarrow> 's wst \<Rightarrow> wloop \<times> 's wst" where
  "configure k l w =
     (if w_sock l \<ge> 0 \<and> \<not> w_configured l then
        (case setup_eth0 k (w_sock l) w of
           (r, w) \<Rightarrow>
             if r = 0
             then (l\<lparr>w_configured := True\<rparr>,
                   klog k ''arm64droid-init: eth0 configured successfully (10.0.2.15/24, gw 10.0.2.2)\<newline>'' w)
             else (l, w))
      else (l, w))"

definition stop_serial :: "'s kern \<Rightarrow> wloop \<Rightarrow> 's wst \<Rightarrow> 's wst" where
  "stop_serial k l w =
     (if w_configured l \<and> \<not> serial_stopped w
      then w\<lparr>ks := k_spawn k [''/system/bin/setprop'', ''ctl.stop'', ''seriallogging''] (ks w), serial_stopped := True\<rparr>
      else w)"

fun reconfigure :: "'s kern \<Rightarrow> nat \<Rightarrow> int \<Rightarrow> nat \<Rightarrow> 's wst \<Rightarrow> 's wst option" where
  "reconfigure k fuel s 0 w = Some w"
| "reconfigure k fuel s (Suc n) w =
     (case setup_eth0 k s w of
        (r, w) \<Rightarrow>
          if r = 0 then Some (klog k ''arm64droid-init: eth0 reconfigured successfully\<newline>'' w)
          else (case msleep k fuel 1000 w of None \<Rightarrow> None | Some w \<Rightarrow> reconfigure k fuel s n w))"

definition heartbeat :: "'s kern \<Rightarrow> nat \<Rightarrow> int \<Rightarrow> wloop \<Rightarrow> 's wst \<Rightarrow> (wloop \<times> 's wst) option" where
  "heartbeat k fuel now l w =
     (if now - w_last_hb l > 30000 then
        (let l = l\<lparr>w_last_hb := now\<rparr>; w = klog k ''arm64droid-init: watchdog heartbeat\<newline>'' w in
         if w_sock l \<ge> 0 \<and> w_configured l then
           (case path_alive k w of
              (alive, w) \<Rightarrow>
                if alive then Some (l, w)
                else map_option (\<lambda>w. (l, w))
                       (reconfigure k fuel (w_sock l) 6
                          (klog k ''arm64droid-init: network path lost, reconfiguring eth0\<newline>'' w)))
         else Some (l, w))
      else Some (l, w))"

definition pace :: "'s kern \<Rightarrow> wloop \<Rightarrow> 's wst \<Rightarrow> 's wst" where
  "pace k l w =
     (let (alive, w) = (if w_sock l \<ge> 0 \<and> w_configured l then path_alive k w else (True, w)) in
      if \<not> alive then snd (lift_k (k_nanosleep k 0 500000000) w)
      else snd (lift_k (k_nanosleep k (if w_configured l then 1 else 0)
                          (if w_configured l then 0 else 50000000)) w))"

text \<open>One round of \<open>while (1)\<close>, and \<open>n\<close> rounds.\<close>

definition child_round :: "'s kern \<Rightarrow> nat \<Rightarrow> wloop \<times> 's wst \<Rightarrow> (wloop \<times> 's wst) option" where
  "child_round k fuel lw =
     (case lw of
        (l, w) \<Rightarrow>
          (case mono_ms k w of
             (now, w) \<Rightarrow>
               (let now = (if now < 0 then w_t0 l else now);
                    w = stub_crashing_services k w;
                    (l, w) = configure k l w;
                    w = stop_serial k l w
                in map_option (\<lambda>(l, w). (l, pace k l w)) (heartbeat k fuel now l w))))"

fun child_rounds :: "'s kern \<Rightarrow> nat \<Rightarrow> nat \<Rightarrow> wloop \<times> 's wst \<Rightarrow> (wloop \<times> 's wst) option" where
  "child_rounds k fuel 0 lw = Some lw"
| "child_rounds k fuel (Suc n) lw = Option.bind (child_round k fuel lw) (child_rounds k fuel n)"

section \<open>Start\<close>

definition hvc_path :: "nat \<Rightarrow> string" where
  "hvc_path i = ''/dev/hvc'' @ (if i < 10 then [digit i] else [CHR ''1'', digit (i - 10)])"

definition ensure_hvc_nodes :: "'s kern \<Rightarrow> 's wst \<Rightarrow> 's wst" where
  "ensure_hvc_nodes k w =
     fold (\<lambda>i w. w\<lparr>ks := k_mknodat k (hvc_path i) (8192 + 438) (229 * 256 + i) (ks w)\<rparr>) [0..<16]
       (w\<lparr>ks := k_mkdirat k ''/dev'' 493 (ks w)\<rparr>)"

text \<open>
  The parent: console nodes, touch daemon, watchdog, then the real init.  \<open>True\<close> when \<open>execve\<close> replaced
  the program; after a failure the code logs and sleeps forever.
\<close>

definition wrapper_start :: "'s kern \<Rightarrow> 's wst \<Rightarrow> bool \<times> 's wst" where
  "wrapper_start k w =
     (let w = ensure_hvc_nodes k w;
          w = w\<lparr>ks := k_spawn k [''/touch_daemon''] (ks w)\<rparr>;
          w = w\<lparr>ks := k_spawn k [''child_loop''] (ks w)\<rparr>
      in case lift_k (k_execve k ''/init.orig'' [''/init'']) w of
           (ok, w) \<Rightarrow> (ok, if ok then w else klog k ''arm64droid-init: execve /init.orig failed\<newline>'' w))"


section \<open>The network as the kernel keeps it\<close>

text \<open>
  What \<open>netdevice(7)\<close> and the routing requests promise: a request that returns 0 took effect and left the
  rest alone; a route that is refused as existing has a route with its destination and mask in the
  table; writing to a log changes nothing.
\<close>

record net =
  n_addr :: u32
  n_mask :: u32
  n_flags :: u16
  n_routes :: "rtentry set"

text \<open>The interface is up with its address and mask, and there is a default route.\<close>

definition eth0_up :: "net \<Rightarrow> bool" where
  "eth0_up n \<longleftrightarrow> n_addr n = htonl32 0x0a00020f \<and> n_mask n = htonl32 0xffffff00 \<and> bit (n_flags n) 0 \<and>
     (\<exists>rt \<in> n_routes n. rt_dst rt = inet 0 \<and> rt_genmask rt = inet 0)"

text \<open>One configuration pass and the sleep after it.\<close>

definition failed_pass :: "'s kern \<Rightarrow> int \<Rightarrow> 's wst \<Rightarrow> 's wst" where
  "failed_pass k s w = snd (lift_k (k_nanosleep k 1 0) (snd (setup_eth0 k s w)))"

lemma log_off:
  "kfd w < 0 \<Longrightarrow> serial_fd w < 0 \<Longrightarrow> klog_num k msg v w = w"
  "kfd w < 0 \<Longrightarrow> serial_fd w < 0 \<Longrightarrow> klog k msg w = w"
  by (simp_all add: klog_num_def klog_def serial_tee_def)

locale net_kernel =
  fixes k :: "'s kern" and net :: "'s \<Rightarrow> net"
  assumes set_addr: "k_ioctl k s (SIOCSIFADDR n a) st = (0, ret, st') \<Longrightarrow> n_addr (net st') = sin_addr a"
    and set_mask: "k_ioctl k s (SIOCSIFNETMASK n a) st = (0, ret, st') \<Longrightarrow> net st' = (net st)\<lparr>n_mask := sin_addr a\<rparr>"
    and get_flags: "k_ioctl k s (SIOCGIFFLAGS n) st = (0, ret, st') \<Longrightarrow> io_flags ret = n_flags (net st) \<and> net st' = net st"
    and set_flags: "k_ioctl k s (SIOCSIFFLAGS n f) st = (0, ret, st') \<Longrightarrow> net st' = (net st)\<lparr>n_flags := f\<rparr>"
    and add_route: "k_ioctl k s (SIOCADDRT rt) st = (r, ret, st') \<Longrightarrow>
      net st' = (if r = 0 then (net st)\<lparr>n_routes := insert rt (n_routes (net st))\<rparr> else net st)"
    and route_exists: "k_ioctl k s (SIOCADDRT rt) st = (-17, ret, st') \<Longrightarrow>
      \<exists>rt' \<in> n_routes (net st). rt_dst rt' = rt_dst rt \<and> rt_genmask rt' = rt_genmask rt"
    and write_net: "k_write k fd buf st = (r, st') \<Longrightarrow> net st' = net st"
begin

lemma klog_num_net [simp]: "net (ks (klog_num k msg v w)) = net (ks w)"
  using write_net by (auto simp: klog_num_def serial_tee_def lift_k_def Let_def split: prod.split)

lemma klog_net [simp]: "net (ks (klog k msg w)) = net (ks w)"
  using write_net by (auto simp: klog_def serial_tee_def lift_k_def Let_def split: prod.split)

lemma setup_routes_net:
  assumes "setup_routes k s w = (0, w')"
  shows "\<exists>rts. net (ks w') = (net (ks w))\<lparr>n_routes := rts\<rparr> \<and>
    (\<exists>rt \<in> rts. rt_dst rt = inet 0 \<and> rt_genmask rt = inet 0)"
proof -
  obtain r1 ret1 s1 where 1: "k_ioctl k s (SIOCADDRT subnet_route) (ks w) = (r1, ret1, s1)" by (metis prod_cases3)
  let ?w = "if r1 \<noteq> 0 \<and> r1 \<noteq> -17 then klog_num k ''arm64droid-init: subnet route rc='' r1 (w\<lparr>ks := s1\<rparr>) else w\<lparr>ks := s1\<rparr>"
  obtain r2 ret2 s2 where 2: "k_ioctl k s (SIOCADDRT default_route) (ks ?w) = (r2, ret2, s2)" by (metis prod_cases3)
  have r2: "r2 = 0 \<or> r2 = -17" and w': "w' = ?w\<lparr>ks := s2\<rparr>"
    using assms 1 2 by (auto simp: setup_routes_def do_ioctl_def Let_def split: if_splits prod.splits)
  have "net (ks ?w) = net s1" by simp
  then obtain rts where rts: "net (ks ?w) = (net (ks w))\<lparr>n_routes := rts\<rparr>"
    using add_route [OF 1] by (cases "net (ks w)") (auto split: if_splits)
  show ?thesis
    using r2
  proof
    assume "r2 = 0"
    then show ?thesis using add_route [OF 2] rts w' by (auto simp: default_route_def)
  next
    assume r: "r2 = -17"
    then show ?thesis
      using add_route [OF 2] route_exists [of s default_route "ks ?w" ret2 s2] 2 rts w'
      by (auto simp: default_route_def)
  qed
qed

lemma setup_eth0_net:
  assumes "setup_eth0 k s w = (0, w')"
  shows "eth0_up (net (ks w'))"
proof -
  obtain ret1 s1 where 1: "k_ioctl k s (SIOCSIFADDR ''eth0'' (inet 0x0a00020f)) (ks w) = (0, ret1, s1)"
    using assms by (auto simp: setup_eth0_def do_ioctl_def split: if_splits prod.splits)
  obtain ret2 s2 where 2: "k_ioctl k s (SIOCSIFNETMASK ''eth0'' (inet 0xffffff00)) s1 = (0, ret2, s2)"
    using assms 1 by (auto simp: setup_eth0_def do_ioctl_def split: if_splits prod.splits)
  obtain ret3 s3 where 3: "k_ioctl k s (SIOCGIFFLAGS ''eth0'') s2 = (0, ret3, s3)"
    using assms 1 2 by (auto simp: setup_eth0_def do_ioctl_def split: if_splits prod.splits)
  obtain ret4 s4 where 4: "k_ioctl k s (SIOCSIFFLAGS ''eth0'' (io_flags ret3 OR IFF_UP)) s3 = (0, ret4, s4)"
    using assms 1 2 3 by (auto simp: setup_eth0_def do_ioctl_def split: if_splits prod.splits)
  have "setup_routes k s (w\<lparr>ks := s4\<rparr>) = (0, w')"
    using assms 1 2 3 4 by (simp add: setup_eth0_def do_ioctl_def)
  then obtain rts where "net (ks w') = (net s4)\<lparr>n_routes := rts\<rparr>"
    "\<exists>rt \<in> rts. rt_dst rt = inet 0 \<and> rt_genmask rt = inet 0"
    using setup_routes_net by fastforce
  moreover have "net s4 = (net s1)\<lparr>n_mask := htonl32 0xffffff00, n_flags := n_flags (net s1) OR IFF_UP\<rparr>"
    using set_mask [OF 2] get_flags [OF 3] set_flags [OF 4] by (simp add: inet_def)
  moreover have "n_addr (net s1) = htonl32 0x0a00020f" using set_addr [OF 1] by (simp add: inet_def)
  ultimately show ?thesis by (auto simp: eth0_up_def bit_simps)
qed

lemma msleep_ok: "fst (k_nanosleep k 1 0 (ks w)) = 0 \<Longrightarrow> msleep k fuel 1000 w = Some (snd (lift_k (k_nanosleep k 1 0) w))"
  by (auto simp: msleep_def lift_k_def Let_def signed_divide_int_def signed_modulo_int_def split: prod.splits)

lemma reconfigure_up:
  assumes "\<And>st. fst (k_nanosleep k 1 0 st) = 0" and "j < n" and "fst (setup_eth0 k s ((failed_pass k s ^^ j) w)) = 0"
  shows "\<exists>w'. reconfigure k fuel s n w = Some w' \<and> eth0_up (net (ks w'))"
  using assms(2,3)
proof (induction n arbitrary: j w)
  case (Suc n)
  obtain r w1 where r: "setup_eth0 k s w = (r, w1)" by fastforce
  show ?case
  proof (cases "r = 0")
    case True
    then show ?thesis using r setup_eth0_net [of s w w1] by simp
  next
    case False
    then obtain i where j: "j = Suc i" using Suc.prems(2) r by (cases j) auto
    have pass: "failed_pass k s w = snd (lift_k (k_nanosleep k 1 0) w1)" by (simp add: failed_pass_def r)
    have "\<exists>w'. reconfigure k fuel s n (failed_pass k s w) = Some w' \<and> eth0_up (net (ks w'))"
      using Suc.prems j by (intro Suc.IH [of i]) (simp_all add: funpow_swap1)
    then show ?thesis using False r msleep_ok [of w1 fuel] assms(1) pass by simp
  qed
qed simp

end

section \<open>A concrete kernel\<close>

text \<open>The network, the clock in milliseconds, and how many route requests still fail.\<close>

record sim =
  sim_net :: net
  sim_now :: int
  sim_fail :: nat

definition sim_ret :: "u16 \<Rightarrow> ioret" where
  "sim_ret f = \<lparr>io_flags = f, io_addr = 0, io_name = ''eth0''\<rparr>"

fun sim_ioctl :: "int \<Rightarrow> ioreq \<Rightarrow> sim \<Rightarrow> int \<times> ioret \<times> sim" where
  "sim_ioctl s (SIOCSIFADDR n a) st = (0, sim_ret 0, st\<lparr>sim_net := (sim_net st)\<lparr>n_addr := sin_addr a\<rparr>\<rparr>)"
| "sim_ioctl s (SIOCSIFNETMASK n a) st = (0, sim_ret 0, st\<lparr>sim_net := (sim_net st)\<lparr>n_mask := sin_addr a\<rparr>\<rparr>)"
| "sim_ioctl s (SIOCGIFFLAGS n) st = (0, sim_ret (n_flags (sim_net st)), st)"
| "sim_ioctl s (SIOCSIFFLAGS n f) st = (0, sim_ret 0, st\<lparr>sim_net := (sim_net st)\<lparr>n_flags := f\<rparr>\<rparr>)"
| "sim_ioctl s (SIOCADDRT rt) st =
     (if sim_fail st > 0 then (-101, sim_ret 0, st\<lparr>sim_fail := sim_fail st - 1\<rparr>)
      else if rt \<in> n_routes (sim_net st) then (-17, sim_ret 0, st)
      else (0, sim_ret 0, st\<lparr>sim_net := (sim_net st)\<lparr>n_routes := insert rt (n_routes (sim_net st))\<rparr>\<rparr>))"
| "sim_ioctl s req st = (0, sim_ret 0, st)"

definition sim_kern :: "sim kern" where
  "sim_kern =
     \<lparr>k_openat = (\<lambda>p f st. (3, st)), k_write = (\<lambda>fd b st. (int (length b), st)), k_close = (\<lambda>fd st. st),
      k_ioctl = sim_ioctl, k_socket = (\<lambda>st. (4, st)), k_connect = (\<lambda>s a p st. (0, st)),
      k_ppoll = (\<lambda>s t st. (0, st)), k_read = (\<lambda>s st. (1, st)), k_mount = (\<lambda>a b f st. (0, st)),
      k_nanosleep = (\<lambda>sec ns st. (0, st\<lparr>sim_now := sim_now st + sec * 1000\<rparr>)),
      k_clock = (\<lambda>st. (Some (sim_now st div 1000, (sim_now st mod 1000) * 1000000), st)),
      k_block_signals = (\<lambda>st. st), k_spawn = (\<lambda>a st. st), k_mkdirat = (\<lambda>p m st. st),
      k_mknodat = (\<lambda>p m d st. st), k_execve = (\<lambda>p a st. (True, st))\<rparr>"

interpretation sim: net_kernel sim_kern sim_net
  by unfold_locales (auto simp: sim_kern_def sim_ret_def split: if_splits)

definition demo_wst :: "nat \<Rightarrow> sim wst" where
  "demo_wst f = \<lparr>kfd = -1, serial_fd = -1, reported = 0, stubbed = False, serial_stopped = False,
     ks = \<lparr>sim_net = \<lparr>n_addr = 0, n_mask = 0, n_flags = 2, n_routes = {}\<rparr>, sim_now = 40000, sim_fail = f\<rparr>\<rparr>"

section \<open>Properties of the wrapper\<close>



text \<open>The flags that the calls of a round may change.\<close>

definition flags_of :: "'s wst \<Rightarrow> bool \<times> bool" where
  "flags_of w = (stubbed w, serial_stopped w)"

lemma flags_ks [simp]: "flags_of (w\<lparr>ks := x\<rparr>) = flags_of w" "flags_of (w\<lparr>reported := n\<rparr>) = flags_of w"
  by (simp_all add: flags_of_def)

lemma flags_lift [simp]: "flags_of (snd (lift_k f w)) = flags_of w"
  by (simp add: lift_k_def split: prod.split)

lemma lift_flags: "lift_k f w = (r, w') \<Longrightarrow> flags_of w' = flags_of w"
  using flags_lift [of f w] by simp

lemma ioctl_flags: "do_ioctl k s req w = (r, w') \<Longrightarrow> flags_of w' = flags_of w"
  by (auto simp: do_ioctl_def split: prod.splits)

lemma log_flags [simp]: "flags_of (klog k m w) = flags_of w" "flags_of (klog_num k m v w) = flags_of w"
  by (simp_all add: klog_def klog_num_def serial_tee_def Let_def)

lemma mono_flags: "mono_ms k w = (t, w') \<Longrightarrow> flags_of w' = flags_of w"
  by (auto simp: mono_ms_def split: option.splits prod.splits dest: lift_flags)

lemma setup_flags: "setup_eth0 k s w = (r, w') \<Longrightarrow> flags_of w' = flags_of w"
  by (auto simp: setup_eth0_def setup_routes_def Let_def split: prod.splits if_splits dest!: ioctl_flags)

lemma path_flags: "path_alive k w = (r, w') \<Longrightarrow> flags_of w' = flags_of w"
  by (auto simp: path_alive_def Let_def split: prod.splits if_splits dest!: lift_flags)

lemma busy_flags: "busy_wait k n d w = Some w' \<Longrightarrow> flags_of w' = flags_of w"
  by (induction n arbitrary: w) (auto split: prod.splits if_splits dest!: mono_flags)

lemma msleep_flags: "msleep k fuel ms w = Some w' \<Longrightarrow> flags_of w' = flags_of w"
  by (auto simp: msleep_def Let_def split: prod.splits if_splits dest!: lift_flags mono_flags busy_flags)

lemma reconfigure_flags: "reconfigure k fuel s n w = Some w' \<Longrightarrow> flags_of w' = flags_of w"
  by (induction n arbitrary: w) (auto split: prod.splits if_splits option.splits dest!: setup_flags msleep_flags)

lemma heartbeat_flags:
  "heartbeat k fuel now l w = Some (l', w') \<Longrightarrow> flags_of w' = flags_of w \<and> w_configured l' = w_configured l \<and>
     (w_last_hb l' = w_last_hb l \<or> w_last_hb l' = now \<and> now - w_last_hb l > 30000)"
  by (auto simp: heartbeat_def Let_def split: prod.splits if_splits dest!: path_flags reconfigure_flags)

lemma pace_flags [simp]: "flags_of (pace k l w) = flags_of w"
proof -
  obtain alive w1 where a: "(if w_sock l \<ge> 0 \<and> w_configured l then path_alive k w else (True, w)) = (alive, w1)"
    by fastforce
  then have "flags_of w1 = flags_of w" using path_flags by (fastforce split: if_splits)
  then show ?thesis by (simp add: pace_def a)
qed

lemma configure_flags:
  "configure k l w = (l', w') \<Longrightarrow> flags_of w' = flags_of w \<and> (w_configured l \<longrightarrow> w_configured l') \<and>
     w_last_hb l' = w_last_hb l"
  by (auto simp: configure_def split: prod.splits if_splits dest!: setup_flags)

lemma stub_flags:
  "serial_stopped (stub_crashing_services k w) = serial_stopped w"
  "stubbed w \<Longrightarrow> stubbed (stub_crashing_services k w)"
proof -
  obtain r w1 where m: "lift_k (k_mount k ''/stub_daemon'' ''/vendor/bin/hw/android.hardware.uwb-service'' 4096) w = (r, w1)"
    by fastforce
  have "serial_stopped w1 = serial_stopped w" using lift_flags [OF m] by (simp add: flags_of_def)
  moreover have "serial_stopped (klog k msg (snd (lift_k f (snd (lift_k g w1))))) = serial_stopped w1"
    for msg and f g :: "_ \<Rightarrow> int \<times> _"
    using log_flags(1) [of k msg "snd (lift_k f (snd (lift_k g w1)))"] by (simp add: flags_of_def lift_k_def split: prod.split)
  ultimately show "serial_stopped (stub_crashing_services k w) = serial_stopped w"
    by (simp add: stub_crashing_services_def m Let_def)
qed (simp add: stub_crashing_services_def)

lemma round_inv:
  assumes "child_round k fuel (l, w) = Some (l', w')"
  shows "(w_configured l \<longrightarrow> w_configured l') \<and> (stubbed w \<longrightarrow> stubbed w') \<and>
    (serial_stopped w' \<longleftrightarrow> serial_stopped w \<or> w_configured l') \<and>
    (w_last_hb l' = w_last_hb l \<or> w_last_hb l' - w_last_hb l > 30000)"
proof -
  obtain t w1 where 1: "mono_ms k w = (t, w1)" by fastforce
  let ?w2 = "stub_crashing_services k w1"
  obtain l3 w3 where 3: "configure k l ?w2 = (l3, w3)" by fastforce
  let ?w4 = "stop_serial k l3 w3"
  obtain w5 where 5: "heartbeat k fuel (if t < 0 then w_t0 l else t) l3 ?w4 = Some (l', w5)" and w': "w' = pace k l' w5"
    using assms 1 3 by (auto simp: child_round_def Let_def)
  have "stubbed ?w4 = stubbed w3" "serial_stopped ?w4 \<longleftrightarrow> serial_stopped w3 \<or> w_configured l3"
    by (auto simp: stop_serial_def)
  moreover have "flags_of w' = flags_of ?w4" using heartbeat_flags [OF 5] w' by simp
  ultimately have "stubbed w' = stubbed w3" "serial_stopped w' \<longleftrightarrow> serial_stopped w3 \<or> w_configured l3"
    by (simp_all add: flags_of_def)
  then show ?thesis
    using heartbeat_flags [OF 5] configure_flags [OF 3] stub_flags [where w = w1] mono_flags [OF 1]
    by (auto simp: flags_of_def)
qed

text \<open>
  However many rounds the watchdog runs, and whatever the kernel answers: once
  configured it stays configured, the vendor services are stubbed at most once, and serial logging is
  stopped exactly when the network was configured in some round (so the helper is started once and
  never before); two heartbeats are more than thirty seconds of the monotonic clock apart.
\<close>

theorem wrapper_watchdog:
  assumes "child_rounds k fuel n (l, w) = Some (l', w')" and "serial_stopped w \<longleftrightarrow> w_configured l"
  shows "(w_configured l \<longrightarrow> w_configured l') \<and> (stubbed w \<longrightarrow> stubbed w') \<and>
    (serial_stopped w' \<longleftrightarrow> w_configured l') \<and>
    (w_last_hb l' = w_last_hb l \<or> w_last_hb l' - w_last_hb l > 30000)"
  using assms
proof (induction n arbitrary: l w)
  case (Suc n)
  obtain l1 w1 where 1: "child_round k fuel (l, w) = Some (l1, w1)"
    and rest: "child_rounds k fuel n (l1, w1) = Some (l', w')"
    using Suc.prems(1) by (auto simp: bind_eq_Some_conv)
  have "serial_stopped w1 \<longleftrightarrow> w_configured l1" using round_inv [OF 1] Suc.prems(2) by auto
  from Suc.IH [OF rest this] round_inv [OF 1] show ?case by auto
qed simp

theorem wrapper_watchdog_witness:
  "\<exists>l' w'. child_rounds sim_kern 0 0 (child_start sim_kern (demo_wst 0)) = Some (l', w') \<and>
     (serial_stopped w' \<longleftrightarrow> w_configured l')"
proof -
  obtain l w where lw: "child_start sim_kern (demo_wst 0) = (l, w)" by fastforce
  then have "\<not> serial_stopped w" "\<not> w_configured l"
    by (auto simp: child_start_def demo_wst_def sim_kern_def lift_k_def serial_tee_open_def mono_ms_def Let_def)
  then show ?thesis
    using wrapper_watchdog [of sim_kern 0 0 l w l w] by (simp add: lw)
qed

text \<open>
  The busy wait of \<open>msleep\<close> ends exactly when some reading of the clock reaches
  the deadline; a clock that fails after the wait began never does.
\<close>

theorem wrapper_busy_wait:
  "(\<exists>fuel w'. busy_wait k fuel deadline w = Some w') \<longleftrightarrow>
     (\<exists>i. deadline \<le> fst (mono_ms k (((\<lambda>w. snd (mono_ms k w)) ^^ i) w)))" (is "?ends \<longleftrightarrow> ?reached w")
proof
  assume ?ends
  then obtain fuel w' where "busy_wait k fuel deadline w = Some w'" by blast
  then show "?reached w"
  proof (induction fuel arbitrary: w)
    case (Suc n)
    obtain t w1 where t: "mono_ms k w = (t, w1)" by fastforce
    show ?case
    proof (cases "t < deadline")
      case True
      then have "?reached w1" using Suc t by simp
      then obtain i where "deadline \<le> fst (mono_ms k (((\<lambda>w. snd (mono_ms k w)) ^^ Suc i) w))"
        using t by (auto simp: funpow_Suc_right simp del: funpow.simps)
      then show ?thesis by blast
    next
      case False
      then show ?thesis using t by (intro exI [of _ 0]) simp
    qed
  qed simp
next
  assume "?reached w"
  then obtain i where "deadline \<le> fst (mono_ms k (((\<lambda>w. snd (mono_ms k w)) ^^ i) w))" by blast
  then have "\<exists>w'. busy_wait k (Suc i) deadline w = Some w'"
  proof (induction i arbitrary: w)
    case 0
    then show ?case by (cases "mono_ms k w") simp
  next
    case (Suc i)
    obtain t w1 where t: "mono_ms k w = (t, w1)" by fastforce
    have "\<exists>w'. busy_wait k (Suc i) deadline w1 = Some w'" using Suc t by (intro Suc.IH) (simp add: funpow_Suc_right del: funpow.simps)
    then show ?case using t by simp
  qed
  then show ?ends by blast
qed

text \<open>With a clock that fails, a wait for a time that is not negative never ends.\<close>

lemma busy_wait_broken_clock:
  assumes "\<And>st. fst (k_clock k st) = None" and "0 \<le> deadline"
  shows "busy_wait k fuel deadline w = None"
proof (induction fuel arbitrary: w)
  case (Suc n)
  have "fst (mono_ms k w) = -1"
    using assms(1) [of "ks w"] by (auto simp: mono_ms_def lift_k_def split: prod.splits)
  then show ?case using Suc assms(2) by (auto split: prod.split)
qed simp

text \<open>After an interrupt the whole interval is slept again: no remaining time is requested.\<close>

lemma msleep_interrupted_restarts:
  assumes "k_nanosleep k 1 0 (ks w) = (-4, st)" and "kfd w < 0" and "serial_fd w < 0"
  shows "msleep k fuel 1000 w =
    Some (snd (lift_k (k_nanosleep k 1 0) (w\<lparr>ks := st, reported := reported w + 1\<rparr>)))"
  using assms by (simp add: msleep_def lift_k_def Let_def log_off signed_divide_int_def signed_modulo_int_def)

end
