(* ===== verification/Libbase.thy ===== *)
theory Libbase
  imports Prelude
begin

text \<open>
  The string library \<open>android-base\<close> that the C++ components call.  Its code is not part of the
  repository, so the components take it as a parameter: a record of functions.  The locale
  \<open>libbase_laws\<close> states the documented behaviour that the theorems rely on, and the record
  \<open>std_libbase\<close> is a concrete implementation of that documentation on which the locale is
  interpreted; the concrete instances of the theorems evaluate it.
\<close>

record libbase =
  Split :: "string \<Rightarrow> string \<Rightarrow> string list"
  Tokenize :: "string \<Rightarrow> string \<Rightarrow> string list"
  Join :: "string list \<Rightarrow> string \<Rightarrow> string"
  StartsWith :: "string \<Rightarrow> string \<Rightarrow> bool"
  EndsWith :: "string \<Rightarrow> string \<Rightarrow> bool"
  ParseInt :: "string \<Rightarrow> int \<Rightarrow> int \<Rightarrow> int option"
  ParseByteCount :: "string \<Rightarrow> nat option"
  Basename :: "string \<Rightarrow> string"
  Dirname :: "string \<Rightarrow> string"
  Trim :: "string \<Rightarrow> string"
  ConsumePrefix :: "string \<Rightarrow> string \<Rightarrow> string option"
  ConsumeSuffix :: "string \<Rightarrow> string \<Rightarrow> string option"

text \<open>
  \<open>ParseInt s lo hi\<close> is \<open>ParseInt(s, &out, lo, hi)\<close>: the value on success, \<open>None\<close> when the call
  returns false (then \<open>out\<close> is untouched).  The limits of the C++ types are the defaults.
  \<open>ConsumePrefix s p\<close> is what is left of \<open>s\<close> after the prefix, \<open>ConsumeSuffix s p\<close> what is left before
  the suffix, \<open>None\<close> when the call returns false.
\<close>

abbreviation INT_MIN :: int where "INT_MIN \<equiv> - (2 ^ 31)"
abbreviation INT_MAX :: int where "INT_MAX \<equiv> 2 ^ 31 - 1"
abbreviation INT64_MIN :: int where "INT64_MIN \<equiv> - (2 ^ 63)"
abbreviation INT64_MAX :: int where "INT64_MAX \<equiv> 2 ^ 63 - 1"

section \<open>A concrete implementation of the documented behaviour\<close>

definition is_digit_char :: "char \<Rightarrow> bool" where
  "is_digit_char c \<longleftrightarrow> 48 \<le> (of_char c :: nat) \<and> (of_char c :: nat) \<le> 57"

definition parse_dec :: "string \<Rightarrow> int option" where
  "parse_dec s =
     (case s of
        [] \<Rightarrow> None
      | c # r \<Rightarrow>
          if c = CHR ''-'' then
            (if r \<noteq> [] \<and> list_all is_digit_char r then Some (- int (undec r)) else None)
          else if list_all is_digit_char s then Some (int (undec s)) else None)"

definition std_ParseInt :: "string \<Rightarrow> int \<Rightarrow> int \<Rightarrow> int option" where
  "std_ParseInt s lo hi =
     (case parse_dec s of
        None \<Rightarrow> None
      | Some v \<Rightarrow> if lo \<le> v \<and> v \<le> hi then Some v else None)"

definition std_ParseByteCount :: "string \<Rightarrow> nat option" where
  "std_ParseByteCount s =
     (let (num, mult) =
        (if s \<noteq> [] \<and> last s \<in> {CHR ''k'', CHR ''K''} then (butlast s, 2 ^ 10)
         else if s \<noteq> [] \<and> last s \<in> {CHR ''m'', CHR ''M''} then (butlast s, 2 ^ 20)
         else if s \<noteq> [] \<and> last s \<in> {CHR ''g'', CHR ''G''} then (butlast s, 2 ^ 30)
         else (s, 1))
      in if num \<noteq> [] \<and> list_all is_digit_char num \<and> undec num * mult < 2 ^ 64
         then Some (undec num * mult) else None)"

definition std_Basename :: "string \<Rightarrow> string" where
  "std_Basename s =
     (case filter (\<lambda>w. w \<noteq> []) (split_any {CHR ''/''} s) of
        [] \<Rightarrow> (if s = [] then ''.'' else ''/'')
      | ws \<Rightarrow> last ws)"

definition cut_last :: "(char \<Rightarrow> bool) \<Rightarrow> string \<Rightarrow> string" where
  "cut_last P s = rev (dropWhile P (rev s))"

definition path_up :: "string \<Rightarrow> string" where
  "path_up s =
     cut_last (\<lambda>c. c = CHR ''/'') (cut_last (\<lambda>c. c \<noteq> CHR ''/'') (cut_last (\<lambda>c. c = CHR ''/'') s))"

definition std_Dirname :: "string \<Rightarrow> string" where
  "std_Dirname s =
     (if path_up s \<noteq> [] then path_up s else if s \<noteq> [] \<and> s ! 0 = CHR ''/'' then ''/'' else ''.'')"

definition std_space :: "char \<Rightarrow> bool" where
  "std_space c \<longleftrightarrow> c = CHR '' '' \<or> (9 \<le> (of_char c :: nat) \<and> (of_char c :: nat) \<le> 13)"

definition std_Trim :: "string \<Rightarrow> string" where
  "std_Trim s = rev (dropWhile std_space (rev (dropWhile std_space s)))"

definition std_libbase :: libbase where
  "std_libbase =
     \<lparr>Split = (\<lambda>s ds. split_any (set ds) s),
      Tokenize = (\<lambda>s ds. filter (\<lambda>w. w \<noteq> []) (split_any (set ds) s)),
      Join = (\<lambda>ws sep. intercalate sep ws),
      StartsWith = (\<lambda>s p. prefix p s),
      EndsWith = (\<lambda>s p. suffix p s),
      ParseInt = std_ParseInt,
      ParseByteCount = std_ParseByteCount,
      Basename = std_Basename,
      Dirname = std_Dirname,
      Trim = std_Trim,
      ConsumePrefix = (\<lambda>s p. if prefix p s then Some (drop (length p) s) else None),
      ConsumeSuffix = (\<lambda>s p. if suffix p s then Some (take (length s - length p) s) else None)\<rparr>"

section \<open>The documented behaviour\<close>

locale libbase_laws =
  fixes lb :: libbase
  assumes Split_eq: "Split lb s [d] = split_any {d} s"
    and Tokenize_eq: "Tokenize lb s ds = filter (\<lambda>w. w \<noteq> []) (split_any (set ds) s)"
    and Join_eq: "Join lb ws sep = intercalate sep ws"
    and StartsWith_eq: "StartsWith lb s p = prefix p s"
    and EndsWith_eq: "EndsWith lb s p = suffix p s"
    and ParseInt_range: "ParseInt lb s lo hi = Some v \<Longrightarrow> lo \<le> v \<and> v \<le> hi"
    and ParseInt_dec: "lo \<le> int n \<Longrightarrow> int n \<le> hi \<Longrightarrow> ParseInt lb (dec n) lo hi = Some (int n)"
    and ConsumePrefix_eq: "ConsumePrefix lb s p = (if prefix p s then Some (drop (length p) s) else None)"
    and ConsumeSuffix_eq:
      "ConsumeSuffix lb s p = (if suffix p s then Some (take (length s - length p) s) else None)"
    and Dirname_prefix: "prefix (Dirname lb s) s \<or> Dirname lb s \<in> {''.'', ''/''}"
    and ParseByteCount_range: "ParseByteCount lb s = Some n \<Longrightarrow> n < 2 ^ 64"
begin

lemmas string_laws = Split_eq Tokenize_eq Join_eq StartsWith_eq EndsWith_eq

lemma Split_nonempty: "Split lb s [d] \<noteq> []"
  by (simp add: Split_eq)

lemma Join_Split: "Join lb (Split lb s [d]) [d] = s"
  by (simp add: Join_eq Split_eq intercalate_split_any)

lemma Split_Join:
  "ws \<noteq> [] \<Longrightarrow> (\<And>w. w \<in> set ws \<Longrightarrow> d \<notin> set w) \<Longrightarrow> Split lb (Join lb ws [d]) [d] = ws"
  by (simp add: Join_eq Split_eq split_any_intercalate)

lemma Split_piece: "w \<in> set (Split lb s [d]) \<Longrightarrow> d \<notin> set w"
  using split_any_pieces [of w "{d}" s] by (auto simp: Split_eq)

end

lemma is_digit_digit: "d < 10 \<Longrightarrow> is_digit_char (digit d)"
  by (simp add: is_digit_char_def digit_def of_char_of)

lemma digit_not_minus: "d < 10 \<Longrightarrow> digit d \<noteq> CHR ''-''"
proof
  assume d: "d < 10" and eq: "digit d = CHR ''-''"
  from d have "(of_char (digit d) :: nat) = 48 + d" by (simp add: digit_def of_char_of)
  with eq show False by simp
qed

lemma parse_dec_dec: "parse_dec (dec n) = Some (int n)"
proof -
  have digits: "list_all is_digit_char (dec n)"
    using dec_digits [of _ n] is_digit_digit by (auto simp: list_all_iff)
  obtain c r where cr: "dec n = c # r" by (cases "dec n") auto
  then obtain d where "d < 10" "c = digit d" using dec_digits [of c n] by auto
  then have "c \<noteq> CHR ''-''" by (simp add: digit_not_minus)
  with digits cr undec_dec [of n] show ?thesis by (simp add: parse_dec_def)
qed

lemma cut_last_prefix: "prefix (cut_last P s) s"
proof -
  have "suffix (dropWhile P (rev s)) (rev s)" by (rule suffix_dropWhile)
  then show ?thesis by (simp add: suffix_to_prefix cut_last_def)
qed

lemma path_up_prefix: "prefix (path_up s) s"
  unfolding path_up_def by (meson cut_last_prefix prefix_order.trans)

lemma std_Dirname_prefix: "prefix (std_Dirname s) s \<or> std_Dirname s \<in> {''.'', ''/''}"
  by (simp add: std_Dirname_def path_up_prefix)

interpretation std: libbase_laws std_libbase
proof unfold_locales
  show "prefix (Dirname std_libbase s) s \<or> Dirname std_libbase s \<in> {''.'', ''/''}" for s
    using std_Dirname_prefix [of s] by (simp add: std_libbase_def)
  show "ParseInt std_libbase s lo hi = Some v \<Longrightarrow> lo \<le> v \<and> v \<le> hi" for s lo hi v
    by (auto simp: std_libbase_def std_ParseInt_def split: option.splits if_splits)
  show "lo \<le> int n \<Longrightarrow> int n \<le> hi \<Longrightarrow> ParseInt std_libbase (dec n) lo hi = Some (int n)"
    for lo hi n
    by (simp add: std_libbase_def std_ParseInt_def parse_dec_dec)
  show "ParseByteCount std_libbase s = Some n \<Longrightarrow> n < 2 ^ 64" for s n
    by (auto simp: std_libbase_def std_ParseByteCount_def Let_def
             split: prod.splits if_splits)
qed (simp_all add: std_libbase_def)

lemmas std_libbase_laws = std.libbase_laws_axioms

end
