(* ===== verification/Service.thy ===== *)
theory Service
  imports Libbase
begin

text \<open>
  Model of \<open>service.cpp\<close>, the service state machine of init (\<open>src/research/aosp-src/service.cpp\<close>).
  A \<open>service\<close> is the class \<open>Service\<close>; \<open>world\<close> joins it with the two static members of the class and
  with the sequence of effects on the rest of the system, in the order in which the code performs
  them.  Each member function is one definition on worlds; what the code learns from the kernel, from
  the property service and from other modules is a field of the records \<open>reap_env\<close>, \<open>start_env\<close>,
  \<open>kill_env\<close> and \<open>child_env\<close>.

  The header \<open>service.h\<close> is not part of the repository.  The flag bits are therefore a datatype and a
  flag word a set of them; the in-class default values are a service value that the constructor
  overrides; and the inline members \<open>uid\<close>, \<open>IsRunning\<close>, \<open>is_updatable\<close> and \<open>UnSetExec\<close> are the record
  \<open>service_h\<close>, whose documented behaviour is the locale \<open>service_header\<close>.
\<close>

section \<open>Data\<close>

datatype svc_flag =
    SVC_DISABLED | SVC_ONESHOT | SVC_RUNNING | SVC_RESTARTING | SVC_CONSOLE | SVC_CRITICAL
  | SVC_RESET | SVC_RC_DISABLED | SVC_RESTART | SVC_DISABLED_START | SVC_EXEC
  | SVC_SHUTDOWN_CRITICAL | SVC_TEMPORARY | SVC_GENTLE_KILL

datatype mount_ns = NS_BOOTSTRAP | NS_DEFAULT

datatype io_class = IoSchedClass_NONE | IoSchedClass_RT | IoSchedClass_BE | IoSchedClass_IDLE

record process_attributes =
  console :: string
  ioprio_class :: io_class
  ioprio_pri :: int
  rlimits :: "(int \<times> u64 \<times> u64) list"
  parsed_uid :: "int option"
  gid :: int
  supp_gids :: "int list"
  priority :: int
  stdio_to_kmsg :: bool

record socket_descriptor =
  so_name :: string
  so_type :: int
  so_uid :: int
  so_gid :: int
  so_perm :: int
  so_context :: string
  so_passcred :: bool
  so_listen :: bool
  so_persist :: bool

record file_descriptor =
  fi_name :: string
  fi_type :: string

record namespace_info =
  ns_flags :: "nat set"
  namespaces_to_enter :: "(nat \<times> string) list"

record service =
  sv_name :: string
  sv_classnames :: "string set"
  sv_flags :: "svc_flag set"
  sv_pid :: int
  sv_crash_count :: nat
  sv_time_started :: int
  sv_time_crashed :: int
  sv_upgraded_mte :: bool
  sv_fatal_crash_window :: int
  sv_fatal_reboot_target :: "string option"
  sv_on_failure_reboot_target :: "string option"
  sv_capabilities :: "nat set option"
  sv_proc_attr :: process_attributes
  sv_namespaces :: namespace_info
  sv_seclabel :: string
  sv_sockets :: "socket_descriptor list"
  sv_files :: "file_descriptor list"
  sv_environment_vars :: "(string \<times> string) list"
  sv_once_environment_vars :: "(string \<times> string) list"
  sv_subcontext :: "string option"
  sv_onrestart :: "string list list"
  sv_writepid_files :: "string list"
  sv_task_profiles :: "string list"
  sv_interfaces :: "string set"
  sv_keycodes :: "int list"
  sv_oom_score_adjust :: int
  sv_swappiness :: int
  sv_soft_limit_in_bytes :: int
  sv_limit_in_bytes :: int
  sv_limit_percent :: int
  sv_limit_property :: string
  sv_process_cgroup_empty :: bool
  sv_override :: bool
  sv_sigstop :: bool
  sv_start_order :: nat
  sv_mount_namespace :: "mount_ns option"
  sv_updatable :: bool
  sv_args :: "string list"
  sv_restart_period :: int
  sv_timeout_period :: "int option"
  sv_was_last_exit_ok :: bool
  sv_shared_kallsyms_file :: bool
  sv_filename :: string

datatype notification = kCgroupsActivated | kActivatingCgroupsFailed | kSetSidFinished | OtherByte u8

datatype svc_effect =
    SetProperty string string
  | KillProcessGroupOnce int int int
  | KillProcessGroupAll int int int
  | LmkdUnregister string int
  | LmkdRegister string int int int
  | Unlink string
  | ReapCallbacks int int
  | TriggerShutdown string
  | RemoveAllEmptyProcessGroups
  | SetFatalRebootTarget "string option"
  | Abort string
  | ExecuteAllCommands "string list list"
  | DelayService string
  | CreateDescriptor string
  | WriteStringToFile string string
  | CreateProcessGroup int int bool
  | SetProcessProfiles int int "string list"
  | SetSwappiness int int int
  | SetSoftLimit int int int
  | SetLimit int int u64
  | FifoWrite notification
  | Setpgid int
  | SleepMs nat

record world =
  svc :: service
  next_start_order :: nat
  is_exec_service_running :: bool
  eff :: "svc_effect list"

abbreviation sig_KILL :: int where "sig_KILL \<equiv> 9"
abbreviation sig_TERM :: int where "sig_TERM \<equiv> 15"
abbreviation CLD_EXITED :: int where "CLD_EXITED \<equiv> 1"

text \<open>Changing the service, its flags, and logging an effect.\<close>

definition upd :: "(service \<Rightarrow> service) \<Rightarrow> world \<Rightarrow> world" where
  "upd f w = w\<lparr>svc := f (svc w)\<rparr>"

definition set_flags :: "svc_flag set \<Rightarrow> world \<Rightarrow> world" where
  "set_flags fs = upd (\<lambda>s. s\<lparr>sv_flags := sv_flags s \<union> fs\<rparr>)"

definition clear_flags :: "svc_flag set \<Rightarrow> world \<Rightarrow> world" where
  "clear_flags fs = upd (\<lambda>s. s\<lparr>sv_flags := sv_flags s - fs\<rparr>)"

definition emit :: "svc_effect \<Rightarrow> world \<Rightarrow> world" where
  "emit e w = w\<lparr>eff := eff w @ [e]\<rparr>"

definition has :: "world \<Rightarrow> svc_flag \<Rightarrow> bool" where
  "has w f \<longleftrightarrow> f \<in> sv_flags (svc w)"

section \<open>The inline members of the header\<close>

record service_h =
  uid :: "service \<Rightarrow> int"
  IsRunning :: "service \<Rightarrow> bool"
  is_updatable :: "service \<Rightarrow> bool"
  UnSetExec :: "world \<Rightarrow> world"
  RequiresConsole :: "process_attributes \<Rightarrow> bool"
  DEFAULT_OOM_SCORE_ADJUST :: int
  NR_SVC_SUPP_GIDS :: nat

locale service_header =
  fixes h :: service_h
  assumes IsRunning_eq: "IsRunning h s \<longleftrightarrow> SVC_RUNNING \<in> sv_flags s"
    and UnSetExec_eq: "UnSetExec h w = (clear_flags {SVC_EXEC} w)\<lparr>is_exec_service_running := False\<rparr>"

definition std_h :: service_h where
  "std_h = \<lparr>uid = (\<lambda>s. case parsed_uid (sv_proc_attr s) of None \<Rightarrow> 0 | Some u \<Rightarrow> u),
     IsRunning = (\<lambda>s. SVC_RUNNING \<in> sv_flags s), is_updatable = sv_updatable,
     UnSetExec = (\<lambda>w. (clear_flags {SVC_EXEC} w)\<lparr>is_exec_service_running := False\<rparr>),
     RequiresConsole = (\<lambda>p. console p \<noteq> []), DEFAULT_OOM_SCORE_ADJUST = -1000,
     NR_SVC_SUPP_GIDS = 12\<rparr>"

interpretation std_h: service_header std_h
  by unfold_locales (simp_all add: std_h_def)

section \<open>Security context of an executable\<close>

text \<open>
  \<open>getcon\<close>, \<open>getfilecon\<close> and \<open>security_compute_create\<close> (its return code and the new context) are
  libselinux.
\<close>

datatype svc_error =
    NoSecurityContext | NoFileContext | NoDomainTransition string string | NoProcessContext
  | UpdatableBeforeApex string | CannotOpenConsole string | CannotFind string | FailedToFork
  | FifoInitFailed | CreateProcessGroupFailed int | NotificationFailed | SetsidFailed
  | TooManySuppGids | NoCommand | CannotDecodeUid string | CannotDecodeGid string

definition ComputeContextFromExecutable ::
    "string option \<Rightarrow> (string \<Rightarrow> string option) \<Rightarrow> (string \<Rightarrow> string \<Rightarrow> int \<times> string) \<Rightarrow> string \<Rightarrow>
     (svc_error, string) result" where
  "ComputeContextFromExecutable getcon getfilecon compute_create service_path =
     (case getcon of
        None \<Rightarrow> Inl NoSecurityContext
      | Some mycon \<Rightarrow>
          (case getfilecon service_path of
             None \<Rightarrow> Inl NoFileContext
           | Some filecon \<Rightarrow>
               (case compute_create mycon filecon of
                  (rc, new_con) \<Rightarrow>
                    (let computed_context = (if rc = 0 then new_con else [])
                     in if rc = 0 \<and> computed_context = mycon
                        then Inl (NoDomainTransition service_path filecon)
                        else if rc < 0 then Inl NoProcessContext
                        else Inr computed_context))))"

section \<open>Construction\<close>

text \<open>\<open>d\<close> carries the default values that the class definition gives to the other members.\<close>

definition make_Service ::
    "service_h \<Rightarrow> service \<Rightarrow> string \<Rightarrow> svc_flag set \<Rightarrow> int option \<Rightarrow> int \<Rightarrow> int list \<Rightarrow> nat set \<Rightarrow> string \<Rightarrow>
     string option \<Rightarrow> string \<Rightarrow> string list \<Rightarrow> service" where
  "make_Service h d name flags u g sgids namespace_flags seclabel subcontext filename args =
     d\<lparr>sv_name := name, sv_classnames := {''default''}, sv_flags := flags, sv_pid := 0, sv_crash_count := 0,
       sv_proc_attr := (sv_proc_attr d)\<lparr>ioprio_class := IoSchedClass_NONE, ioprio_pri := 0,
                        parsed_uid := u, gid := g, supp_gids := sgids, priority := 0\<rparr>,
       sv_namespaces := (sv_namespaces d)\<lparr>ns_flags := namespace_flags\<rparr>, sv_seclabel := seclabel,
       sv_subcontext := subcontext, sv_onrestart := [],
       sv_oom_score_adjust := DEFAULT_OOM_SCORE_ADJUST h, sv_start_order := 0, sv_args := args,
       sv_filename := filename\<rparr>"

definition new_Service ::
    "service_h \<Rightarrow> service \<Rightarrow> string \<Rightarrow> string option \<Rightarrow> string \<Rightarrow> string list \<Rightarrow> service" where
  "new_Service h d name subcontext filename args =
     make_Service h d name {} None 0 [] {} [] subcontext filename args"

section \<open>Notifications and signals\<close>

text \<open>\<open>getprop k\<close> is \<open>GetProperty(k, "")\<close>.\<close>

definition NotifyStateChange :: "(string \<Rightarrow> string) \<Rightarrow> string \<Rightarrow> world \<Rightarrow> world" where
  "NotifyStateChange getprop new_state w =
     (if has w SVC_TEMPORARY then w
      else
        (let nm = sv_name (svc w);
             w = emit (SetProperty (''init.svc.'' @ nm) new_state) w;
             w = (if new_state = ''running'' \<and> getprop (''ro.boottime.'' @ nm) = []
                  then emit (SetProperty (''ro.boottime.'' @ nm) (to_string (sv_time_started (svc w)))) w
                  else w)
         in if new_state = ''running''
            then emit (SetProperty (''init.svc_debug_pid.'' @ nm) (to_string (sv_pid (svc w)))) w
            else if new_state = ''stopped''
            then emit (SetProperty (''init.svc_debug_pid.'' @ nm) []) w
            else w))"

text \<open>\<open>kill_rc sig\<close> is what \<open>killProcessGroup\<close> or \<open>killProcessGroupOnce\<close> returns.\<close>

record kill_env =
  kill_rc :: "int \<Rightarrow> int"
  kprop :: "string \<Rightarrow> string"

definition KillProcessGroup :: "service_h \<Rightarrow> 'e kill_env_scheme \<Rightarrow> int \<Rightarrow> world \<Rightarrow> world" where
  "KillProcessGroup h e sgnl w =
     (let s = svc w;
          w = (if \<not> sv_process_cgroup_empty s \<or> IsRunning h s
               then (let w = emit (if sgnl = sig_TERM then KillProcessGroupOnce (uid h s) (sv_pid s) sgnl
                                   else KillProcessGroupAll (uid h s) (sv_pid s) sgnl) w
                     in if kill_rc e sgnl = 0
                        then upd (\<lambda>s. s\<lparr>sv_process_cgroup_empty := True\<rparr>) w else w)
               else w)
      in if sv_oom_score_adjust s \<noteq> DEFAULT_OOM_SCORE_ADJUST h
         then emit (LmkdUnregister (sv_name s) (sv_pid s)) w else w)"

section \<open>The child process\<close>

text \<open>
  A child performs effects until a fatal error aborts it.  A step is its effects and, when the step
  is fatal, the reason; \<open>child_seq\<close> runs steps in order and tells whether the child is still alive.
\<close>

datatype child_effect =
    EnterNamespaces namespace_info "mount_ns option"
  | Setenv string string
  | Publish string
  | WritePidToFiles "string list"
  | SetTaskProfiles "string list"
  | SetOwnProcessProfiles "string list"
  | SetSecurebits u64
  | SetProcessAttributes process_attributes
  | Setexeccon string
  | SetCapsForExec "nat set"
  | DropInheritableCaps
  | RaiseSigstop
  | Execv "string list"
  | ChildAbort string
  | Exit nat

type_synonym child_step = "child_effect list \<times> string option"

fun child_seq :: "child_step list \<Rightarrow> child_effect list \<times> bool" where
  "child_seq [] = ([], True)"
| "child_seq ((es, Some msg) # rest) = (es @ [ChildAbort msg], False)"
| "child_seq ((es, None) # rest) = (case child_seq rest of (es', ok) \<Rightarrow> (es @ es', ok))"

definition fatal_unless :: "bool \<Rightarrow> string \<Rightarrow> child_effect list \<Rightarrow> child_step" where
  "fatal_unless ok msg es = (es, if ok then None else Some msg)"

record child_env =
  namespaces_ok :: bool
  cgroups_byte :: "(string, notification) result"
  child_vendor_api :: int
  get_securebits :: u64
  set_securebits_ok :: bool
  attributes_ok :: bool
  setexeccon_ok :: bool
  caps_ok :: bool
  drop_caps_ok :: bool
  ExpandProps :: "string \<Rightarrow> string option"
  execv_ok :: bool

definition SetProcessAttributesAndCaps :: "service_h \<Rightarrow> child_env \<Rightarrow> service \<Rightarrow> child_effect list \<times> bool" where
  "SetProcessAttributesAndCaps h e s = child_seq
     ((if sv_capabilities s \<noteq> None \<and> uid h s \<noteq> 0
       then [fatal_unless (get_securebits e \<noteq> -1) ''prctl(PR_GET_SECUREBITS) failed'' [],
             fatal_unless (set_securebits_ok e) ''prctl(PR_SET_SECUREBITS) failed''
               [SetSecurebits (get_securebits e OR 0x10 OR 0x20)]]
       else []) @
      [fatal_unless (attributes_ok e) ''cannot set attribute'' [SetProcessAttributes (sv_proc_attr s)]] @
      (if sv_seclabel s \<noteq> []
       then [fatal_unless (setexeccon_ok e) ''cannot setexeccon'' [Setexeccon (sv_seclabel s)]]
       else []) @
      (case sv_capabilities s of
         Some caps \<Rightarrow> [fatal_unless (caps_ok e) ''cannot set capabilities'' [SetCapsForExec caps]]
       | None \<Rightarrow>
           if uid h s \<noteq> 0
           then [fatal_unless (drop_caps_ok e) ''cannot drop inheritable caps'' [DropInheritableCaps]]
           else []))"

text \<open>
  The first argument is passed as it is; the others are expanded.  The flag tells whether \<open>execv\<close>
  came back, which it does only when it fails.
\<close>

definition ExpandArgsAndExecv :: "child_env \<Rightarrow> string list \<Rightarrow> bool \<Rightarrow> child_effect list \<times> bool" where
  "ExpandArgsAndExecv e args sigstop =
     (let expanded = map (ExpandProps e) (tl args) in
      if None \<in> set expanded then ([ChildAbort ''cannot expand arguments''], False)
      else ((if sigstop then [RaiseSigstop] else []) @ [Execv (hd args # map the expanded)],
            \<not> execv_ok e))"

definition child_append ::
    "child_effect list \<times> bool \<Rightarrow> child_effect list \<times> bool \<Rightarrow> child_effect list \<times> bool" where
  "child_append a b = (if snd a then (fst a @ fst b, snd b) else a)"

text \<open>
  Reading the notification byte may fail; the code then logs and dereferences the failed result,
  which has no value: the child ends there.
\<close>

definition RunService :: "service_h \<Rightarrow> child_env \<Rightarrow> string list \<Rightarrow> service \<Rightarrow> child_effect list \<times> bool" where
  "RunService h e descriptors s =
     child_append
       (child_seq
          [fatal_unless (namespaces_ok e) ''failed to set up namespaces''
             [EnterNamespaces (sv_namespaces s) (sv_mount_namespace s)],
           (map (\<lambda>(k, v). Setenv k v) (sv_once_environment_vars s) @
            map (\<lambda>(k, v). Setenv k v) (sv_environment_vars s) @
            map Publish descriptors @ [WritePidToFiles (sv_writepid_files s)], None),
           ([], case cgroups_byte e of
                  Inl err \<Rightarrow> Some ''value of a failed result''
                | Inr b \<Rightarrow> if b = kCgroupsActivated then None
                           else Some ''failed to start due to a fatal error''),
           (if sv_task_profiles s \<noteq> []
            then [if child_vendor_api e < 34 then SetTaskProfiles (sv_task_profiles s)
                  else SetOwnProcessProfiles (sv_task_profiles s)]
            else [], None)])
       (child_append (SetProcessAttributesAndCaps h e s)
                     (ExpandArgsAndExecv e (sv_args s) (sv_sigstop s)))"

text \<open>What \<open>Start\<close> does in the child: after \<open>RunService\<close> returns, \<open>_exit(127)\<close>.\<close>

definition child_main :: "service_h \<Rightarrow> child_env \<Rightarrow> string list \<Rightarrow> service \<Rightarrow> child_effect list" where
  "child_main h e descriptors s = fst (child_append (RunService h e descriptors s) ([Exit 127], False))"

section \<open>Reaping\<close>

record reap_env = kill_env +
  vendor_api :: int
  bool_prop :: "string \<Rightarrow> bool \<Rightarrow> bool"
  int_prop :: "string \<Rightarrow> int \<Rightarrow> int"
  now :: int
  epoch_time :: u64
  is_apex_updatable :: bool
  mte_supported :: bool
  BIONIC_SIGNAL_ART_PROFILER :: int

definition exit_ok :: "int \<Rightarrow> int \<Rightarrow> bool" where
  "exit_ok si_code si_status \<longleftrightarrow> si_code = CLD_EXITED \<and> si_status = 0"

text \<open>The part of \<open>Reap\<close> that every service goes through.\<close>

definition reap_kill :: "service_h \<Rightarrow> reap_env \<Rightarrow> world \<Rightarrow> world" where
  "reap_kill h e w =
     (if \<not> has w SVC_ONESHOT \<or> has w SVC_RESTART then KillProcessGroup h e sig_KILL w
      else if vendor_api e \<ge> 30 then KillProcessGroup h e sig_KILL w
      else w)"

definition unlink_sockets :: "world \<Rightarrow> world" where
  "unlink_sockets w =
     fold (\<lambda>so w. if so_persist so then w else emit (Unlink (''/dev/socket/'' @ so_name so)) w)
       (sv_sockets (svc w)) w"

definition reap_failure :: "int \<Rightarrow> int \<Rightarrow> world \<Rightarrow> world" where
  "reap_failure si_code si_status w =
     (case sv_on_failure_reboot_target (svc w) of
        Some t \<Rightarrow> if \<not> exit_ok si_code si_status then emit (TriggerShutdown t) w else w
      | None \<Rightarrow> w)"

definition reap_cleanup :: "service_h \<Rightarrow> reap_env \<Rightarrow> int \<Rightarrow> int \<Rightarrow> world \<Rightarrow> world" where
  "reap_cleanup h e si_code si_status w =
     (let w = reap_failure si_code si_status
                (emit (ReapCallbacks si_code si_status) (unlink_sockets (reap_kill h e w)));
          w = (if has w SVC_EXEC then UnSetExec h w else w)
      in if sv_name (svc w) = ''zygote'' \<or> sv_name (svc w) = ''zygote64''
         then emit RemoveAllEmptyProcessGroups w else w)"

definition reap_upgrade_mte :: "reap_env \<Rightarrow> int \<Rightarrow> int \<Rightarrow> world \<Rightarrow> world" where
  "reap_upgrade_mte e si_code si_status w =
     (if mte_supported e \<and> si_code \<noteq> CLD_EXITED \<and> si_status = BIONIC_SIGNAL_ART_PROFILER e \<and>
         \<not> sv_upgraded_mte (svc w)
      then
        (let secs = int_prop e ''persist.device_config.memory_safety_native.upgrade_secs.default'' 60;
             secs = int_prop e (''persist.device_config.memory_safety_native.upgrade_secs.service.'' @
                                sv_name (svc w)) secs
         in if secs > 0
            then upd (\<lambda>s. s\<lparr>sv_once_environment_vars := sv_once_environment_vars s @
                               [(''BIONIC_MEMTAG_UPGRADE_SECS'', to_string secs)],
                            sv_upgraded_mte := True\<rparr>) w
            else w)
      else w)"

text \<open>
  The crash counter; the flag tells whether \<open>LOG(FATAL)\<close> aborted.  Times are in nanoseconds and the
  window in minutes; the comparison with the throttle window is on \<open>uint64_t\<close>.
\<close>

definition reap_fatal :: "reap_env \<Rightarrow> world \<Rightarrow> world \<times> bool" where
  "reap_fatal e w =
     (let nm = sv_name (svc w) in
      if has w SVC_CRITICAL then
        if \<not> bool_prop e (''init.svc_debug.no_fatal.'' @ nm) False then
          if epoch_time e - word_of_int (int_prop e ''persist.init.svc.last_fatal_reboot_epoch'' 0) > 86400
          then (emit (Abort ''critical process exited 4 times'')
                 (emit (SetFatalRebootTarget (sv_fatal_reboot_target (svc w)))
                   (emit (SetProperty ''persist.init.svc.last_fatal_reboot_epoch''
                            (to_string (uint (epoch_time e)))) w)), True)
          else (w, False)
        else (w, False)
      else (emit (SetProperty ''sys.init.updatable_crashing'' ''1'')
             (emit (SetProperty ''sys.init.updatable_crashing_process_name'' nm) w), False))"

definition reap_crash :: "reap_env \<Rightarrow> world \<Rightarrow> world \<times> bool" where
  "reap_crash e w =
     (let s = svc w; is_process_updatable = (sv_mount_namespace s = Some NS_DEFAULT \<and> is_apex_updatable e)
      in if (has w SVC_CRITICAL \<or> is_process_updatable) \<and> \<not> has w SVC_RESTART \<and> \<not> sv_was_last_exit_ok s
         then
           (if now e < sv_time_crashed s + sv_fatal_crash_window s * 60 * 10 ^ 9 \<or>
               \<not> bool_prop e ''sys.boot_completed'' False
            then
              (let w = upd (\<lambda>s. s\<lparr>sv_crash_count := sv_crash_count s + 1\<rparr>) w
               in if sv_crash_count (svc w) > 4 then reap_fatal e w else (w, False))
            else (upd (\<lambda>s. s\<lparr>sv_time_crashed := now e, sv_crash_count := 1\<rparr>) w, False))
         else (w, False))"

definition reap_restart :: "reap_env \<Rightarrow> world \<Rightarrow> world" where
  "reap_restart e w =
     (let w = set_flags {SVC_RESTARTING} (clear_flags {SVC_RESTART} w)
      in NotifyStateChange (kprop e) ''restarting'' (emit (ExecuteAllCommands (sv_onrestart (svc w))) w))"

definition Reap :: "service_h \<Rightarrow> reap_env \<Rightarrow> int \<Rightarrow> int \<Rightarrow> world \<Rightarrow> world" where
  "Reap h e si_code si_status w =
     (let w = reap_cleanup h e si_code si_status w in
      if has w SVC_TEMPORARY then w
      else
        (let w = clear_flags {SVC_RUNNING} (upd (\<lambda>s. s\<lparr>sv_pid := 0, sv_start_order := 0,
                   sv_was_last_exit_ok := exit_ok si_code si_status\<rparr>) w);
             w = (if has w SVC_ONESHOT \<and> \<not> has w SVC_RESTART \<and> \<not> has w SVC_RESET
                  then set_flags {SVC_DISABLED} w else w)
         in if has w SVC_DISABLED \<or> has w SVC_RESET then NotifyStateChange (kprop e) ''stopped'' w
            else (case reap_crash e (reap_upgrade_mte e si_code si_status w) of
                    (w, aborted) \<Rightarrow> if aborted then w else reap_restart e w)))"

section \<open>Starting\<close>

record start_env = kill_env +
  default_ns_ready :: bool
  fifos_ok :: bool
  console_open_ok :: "string \<Rightarrow> bool"
  stat_ok :: "string \<Rightarrow> bool"
  getcon :: "string option"
  getfilecon :: "string \<Rightarrow> string option"
  compute_create :: "string \<Rightarrow> string \<Rightarrow> int \<times> string"
  socket_create_ok :: "socket_descriptor \<Rightarrow> string \<Rightarrow> bool"
  file_create_ok :: "file_descriptor \<Rightarrow> bool"
  kallsyms_fd :: int
  kallsyms_dup :: int
  child_pid :: int
  start_now :: int
  cgroups_available :: bool
  create_group_rc :: int
  fifo_write_ok :: "notification \<Rightarrow> bool"
  setsid_read :: "(string, notification) result"
  page_size :: int
  num_pages :: int
  uint_prop :: "string \<Rightarrow> u64 \<Rightarrow> u64"

definition ResetFlagsForStart :: "world \<Rightarrow> world" where
  "ResetFlagsForStart =
     clear_flags {SVC_DISABLED, SVC_RESTARTING, SVC_RESET, SVC_RESTART, SVC_DISABLED_START}"

text \<open>The result is the error, if any.\<close>

definition CheckConsole :: "start_env \<Rightarrow> world \<Rightarrow> svc_error option \<times> world" where
  "CheckConsole e w =
     (if \<not> has w SVC_CONSOLE then (None, w)
      else if kprop e ''ro.boot.serialconsole'' = ''0'' then (None, set_flags {SVC_DISABLED} w)
      else
        (let w = (if console (sv_proc_attr (svc w)) = []
                  then upd (\<lambda>s. s\<lparr>sv_proc_attr := (sv_proc_attr s)\<lparr>console := ''/dev/'' @
                         (if kprop e ''ro.boot.console'' = [] then ''console''
                          else kprop e ''ro.boot.console'')\<rparr>\<rparr>) w
                  else w);
             path = console (sv_proc_attr (svc w))
         in if console_open_ok e path then (None, w)
            else (Some (CannotOpenConsole path), set_flags {SVC_DISABLED} w)))"

definition SetMountNamespace :: "bool \<Rightarrow> world \<Rightarrow> world" where
  "SetMountNamespace ready w =
     (if hd (sv_args (svc w)) = ''/system/bin/apexd'' then w
      else if sv_name (svc w) \<in> {''ueventd'', ''hwservicemanager'', ''servicemanager''}
      then upd (\<lambda>s. s\<lparr>sv_mount_namespace := Some NS_DEFAULT\<rparr>) w
      else upd (\<lambda>s. s\<lparr>sv_mount_namespace := Some (if ready then NS_DEFAULT else NS_BOOTSTRAP)\<rparr>) w)"

text \<open>The descriptor of a copy of \<open>/proc/kallsyms\<close>: the saved descriptor and its duplicate.\<close>

definition CreateSharedKallsymsFd :: "start_env \<Rightarrow> string option" where
  "CreateSharedKallsymsFd e =
     (if kallsyms_fd e < 0 then None else if kallsyms_dup e < 0 then None
      else Some ''ANDROID_FILE_/proc/kallsyms'')"

definition create_descriptors :: "start_env \<Rightarrow> string \<Rightarrow> service \<Rightarrow> string list" where
  "create_descriptors e scon s =
     map so_name (filter (\<lambda>so. socket_create_ok e so scon) (sv_sockets s)) @
     map fi_name (filter (file_create_ok e) (sv_files s)) @
     (if sv_shared_kallsyms_file s
      then (case CreateSharedKallsymsFd e of None \<Rightarrow> [] | Some d \<Rightarrow> [d]) else [])"

definition memcg_limit :: "start_env \<Rightarrow> service \<Rightarrow> u64" where
  "memcg_limit e s =
     (let computed = word_of_int (sv_limit_in_bytes s);
          computed =
            (if sv_limit_percent s \<noteq> -1 \<and> page_size e > 0 \<and> num_pages e > 0
             then (let max_mem = (if word_of_int (num_pages e) < (-1 :: u64) div word_of_int (page_size e)
                                  then word_of_int (num_pages e) * word_of_int (page_size e) else -1)
                   in min computed (max_mem div 100 * word_of_int (sv_limit_percent s)))
             else computed)
      in if sv_limit_property s \<noteq> [] then uint_prop e (sv_limit_property s) computed else computed)"

definition ConfigureMemcg :: "service_h \<Rightarrow> start_env \<Rightarrow> world \<Rightarrow> world" where
  "ConfigureMemcg h e w =
     (let s = svc w; u = uid h s; p = sv_pid s;
          w = (if sv_swappiness s \<noteq> -1 then emit (SetSwappiness u p (sv_swappiness s)) w else w);
          w = (if sv_soft_limit_in_bytes s \<noteq> -1
               then emit (SetSoftLimit u p (sv_soft_limit_in_bytes s)) w else w)
      in if memcg_limit e s \<noteq> -1 then emit (SetLimit u p (memcg_limit e s)) w else w)"

definition use_memcg :: "service \<Rightarrow> bool" where
  "use_memcg s \<longleftrightarrow> sv_swappiness s \<noteq> -1 \<or> sv_soft_limit_in_bytes s \<noteq> -1 \<or>
     sv_limit_in_bytes s \<noteq> -1 \<or> sv_limit_percent s \<noteq> -1 \<or> sv_limit_property s \<noteq> []"

text \<open>The parent after the fork: bookkeeping, then cgroups, then the hand-over to the child.\<close>

definition start_record :: "service_h \<Rightarrow> start_env \<Rightarrow> world \<Rightarrow> world" where
  "start_record h e w =
     (let w = upd (\<lambda>s. s\<lparr>sv_once_environment_vars := []\<rparr>) w;
          w = (if sv_oom_score_adjust (svc w) \<noteq> DEFAULT_OOM_SCORE_ADJUST h
               then emit (WriteStringToFile (to_string (sv_oom_score_adjust (svc w)))
                            (''/proc/'' @ to_string (child_pid e) @ ''/oom_score_adj'')) w
               else w);
          w = upd (\<lambda>s. s\<lparr>sv_time_started := start_now e, sv_pid := child_pid e\<rparr>) w;
          w = set_flags {SVC_RUNNING} w;
          w = upd (\<lambda>s. s\<lparr>sv_start_order := next_start_order w, sv_process_cgroup_empty := False\<rparr>) w
      in w\<lparr>next_start_order := next_start_order w + 1\<rparr>)"

definition start_cgroups :: "service_h \<Rightarrow> start_env \<Rightarrow> world \<Rightarrow> svc_error option \<times> world" where
  "start_cgroups h e w =
     (if \<not> cgroups_available e then (None, w)
      else
        (let s = svc w; w = emit (CreateProcessGroup (uid h s) (sv_pid s) (use_memcg s)) w
         in if create_group_rc e \<noteq> 0
            then (let w = emit (FifoWrite kActivatingCgroupsFailed) w
                  in if fifo_write_ok e kActivatingCgroupsFailed
                     then (Some (CreateProcessGroupFailed (create_group_rc e)), w)
                     else (Some NotificationFailed, w))
            else
              (let w = emit (SetProcessProfiles (uid h s) (sv_pid s) [''NormalIoPriority'']) w
               in (None, if use_memcg s then ConfigureMemcg h e w else w))))"

definition start_handover :: "service_h \<Rightarrow> start_env \<Rightarrow> world \<Rightarrow> svc_error option \<times> world" where
  "start_handover h e w =
     (let s = svc w;
          w = (if sv_oom_score_adjust s \<noteq> DEFAULT_OOM_SCORE_ADJUST h
               then emit (LmkdRegister (sv_name s) (uid h s) (sv_pid s) (sv_oom_score_adjust s)) w else w);
          w = emit (FifoWrite kCgroupsActivated) w
      in if \<not> fifo_write_ok e kCgroupsActivated then (Some NotificationFailed, w)
         else if \<not> RequiresConsole h (sv_proc_attr s)
         then (None, NotifyStateChange (kprop e) ''running'' (emit (Setpgid (sv_pid s)) w))
         else (case setsid_read e of
                 Inl err \<Rightarrow> (Some SetsidFailed, w)
               | Inr b \<Rightarrow> if b \<noteq> kSetSidFinished then (Some SetsidFailed, w)
                          else (None, NotifyStateChange (kprop e) ''running'' w)))"

definition start_parent :: "service_h \<Rightarrow> start_env \<Rightarrow> world \<Rightarrow> svc_error option \<times> world" where
  "start_parent h e w =
     (if child_pid e < 0 then (Some FailedToFork, upd (\<lambda>s. s\<lparr>sv_pid := 0\<rparr>) w)
      else (case start_cgroups h e (start_record h e w) of
              (Some err, w) \<Rightarrow> (Some err, w)
            | (None, w) \<Rightarrow> start_handover h e w))"

text \<open>From the console check to the descriptors; \<open>Inl\<close> is an early return.\<close>

definition start_checked :: "service_h \<Rightarrow> start_env \<Rightarrow> world \<Rightarrow> svc_error option \<times> world" where
  "start_checked h e w =
     (case CheckConsole e w of
        (Some err, w) \<Rightarrow> (Some err, w)
      | (None, w) \<Rightarrow>
          if \<not> stat_ok e (hd (sv_args (svc w)))
          then (Some (CannotFind (hd (sv_args (svc w)))), set_flags {SVC_DISABLED} w)
          else
            (case (if sv_seclabel (svc w) \<noteq> [] then Inr (sv_seclabel (svc w))
                   else ComputeContextFromExecutable (getcon e) (getfilecon e) (compute_create e)
                          (hd (sv_args (svc w)))) of
               Inl err \<Rightarrow> (Some err, w)
             | Inr scon \<Rightarrow>
                 (let w = (if sv_mount_namespace (svc w) = None
                           then SetMountNamespace (default_ns_ready e) w else w);
                      w = fold (\<lambda>d. emit (CreateDescriptor d)) (create_descriptors e scon (svc w)) w
                  in start_parent h e w)))"

text \<open>The scope guard: an error return triggers the shutdown that \<open>reboot_on_failure\<close> names.\<close>

definition reboot_on_failure :: "svc_error option \<times> world \<Rightarrow> svc_error option \<times> world" where
  "reboot_on_failure r =
     (case r of
        (None, w) \<Rightarrow> (None, w)
      | (Some err, w) \<Rightarrow>
          (Some err, case sv_on_failure_reboot_target (svc w) of
                       None \<Rightarrow> w | Some t \<Rightarrow> emit (TriggerShutdown t) w))"

definition start_body :: "service_h \<Rightarrow> start_env \<Rightarrow> world \<Rightarrow> svc_error option \<times> world" where
  "start_body h e w =
     (if is_updatable h (svc w) \<and> \<not> default_ns_ready e
      then (Some (UpdatableBeforeApex (sv_name (svc w))), emit (DelayService (sv_name (svc w))) w)
      else
        (let disabled = (has w SVC_DISABLED \<or> has w SVC_RESET); w = ResetFlagsForStart w
         in if has w SVC_RUNNING
            then (None, if has w SVC_ONESHOT \<and> disabled then set_flags {SVC_RESTART} w else w)
            else if \<not> fifos_ok e then (Some FifoInitFailed, w)
            else start_checked h e w))"

definition Start :: "service_h \<Rightarrow> start_env \<Rightarrow> world \<Rightarrow> svc_error option \<times> world" where
  "Start h e w = reboot_on_failure (start_body h e w)"

definition ExecStart :: "service_h \<Rightarrow> start_env \<Rightarrow> world \<Rightarrow> svc_error option \<times> world" where
  "ExecStart h e w = reboot_on_failure
     (if is_updatable h (svc w) \<and> \<not> default_ns_ready e
      then (Some (UpdatableBeforeApex (sv_name (svc w))), w)
      else (case Start h e (set_flags {SVC_ONESHOT} w) of
              (Some err, w) \<Rightarrow> (Some err, w)
            | (None, w) \<Rightarrow> (None, (set_flags {SVC_EXEC} w)\<lparr>is_exec_service_running := True\<rparr>)))"

definition SetStartedInFirstStage :: "start_env \<Rightarrow> int \<Rightarrow> world \<Rightarrow> world" where
  "SetStartedInFirstStage e p w =
     (let w = upd (\<lambda>s. s\<lparr>sv_time_started := start_now e, sv_pid := p\<rparr>) w;
          w = set_flags {SVC_RUNNING} w;
          w = upd (\<lambda>s. s\<lparr>sv_start_order := next_start_order w\<rparr>) w;
          w = w\<lparr>next_start_order := next_start_order w + 1\<rparr>
      in NotifyStateChange (kprop e) ''running'' w)"

definition StartIfNotDisabled :: "service_h \<Rightarrow> start_env \<Rightarrow> world \<Rightarrow> svc_error option \<times> world" where
  "StartIfNotDisabled h e w =
     (if \<not> has w SVC_DISABLED then Start h e w else (None, set_flags {SVC_DISABLED_START} w))"

definition Enable :: "service_h \<Rightarrow> start_env \<Rightarrow> world \<Rightarrow> svc_error option \<times> world" where
  "Enable h e w =
     (let w = clear_flags {SVC_DISABLED, SVC_RC_DISABLED} w
      in if has w SVC_DISABLED_START then Start h e w else (None, w))"

section \<open>Stopping\<close>

definition StopOrReset :: "service_h \<Rightarrow> 'e kill_env_scheme \<Rightarrow> svc_flag \<Rightarrow> world \<Rightarrow> world" where
  "StopOrReset h e how w =
     (let w = clear_flags {SVC_RESTARTING, SVC_DISABLED_START} w;
          how = (if how \<noteq> SVC_DISABLED \<and> how \<noteq> SVC_RESET \<and> how \<noteq> SVC_RESTART then SVC_DISABLED else how);
          w = (if how = SVC_RESET
               then set_flags {if has w SVC_RC_DISABLED then SVC_DISABLED else SVC_RESET} w
               else set_flags {how} w);
          w = (if how = SVC_RESTART then clear_flags {SVC_DISABLED, SVC_RESET} w
               else clear_flags {SVC_RESTART} w)
      in if sv_pid (svc w) \<noteq> 0
         then
           (let w = (if has w SVC_GENTLE_KILL
                     then (let w = KillProcessGroup h e sig_TERM w
                           in if \<not> sv_process_cgroup_empty (svc w) then emit (SleepMs 200) w else w)
                     else w)
            in NotifyStateChange (kprop e) ''stopping'' (KillProcessGroup h e sig_KILL w))
         else NotifyStateChange (kprop e) ''stopped'' w)"

definition Reset :: "service_h \<Rightarrow> 'e kill_env_scheme \<Rightarrow> world \<Rightarrow> world" where
  "Reset h e = StopOrReset h e SVC_RESET"

definition Stop :: "service_h \<Rightarrow> 'e kill_env_scheme \<Rightarrow> world \<Rightarrow> world" where
  "Stop h e = StopOrReset h e SVC_DISABLED"

definition Terminate :: "service_h \<Rightarrow> 'e kill_env_scheme \<Rightarrow> world \<Rightarrow> world" where
  "Terminate h e w =
     (let w = set_flags {SVC_DISABLED} (clear_flags {SVC_RESTARTING, SVC_DISABLED_START} w)
      in if sv_pid (svc w) \<noteq> 0
         then NotifyStateChange (kprop e) ''stopping'' (KillProcessGroup h e sig_TERM w) else w)"

definition Timeout :: "service_h \<Rightarrow> 'e kill_env_scheme \<Rightarrow> world \<Rightarrow> world" where
  "Timeout h e w =
     (if sv_pid (svc w) \<noteq> 0
      then NotifyStateChange (kprop e) ''stopping'' (KillProcessGroup h e sig_KILL w) else w)"

definition Restart :: "service_h \<Rightarrow> start_env \<Rightarrow> world \<Rightarrow> world" where
  "Restart h e w =
     (if has w SVC_RUNNING then StopOrReset h e SVC_RESTART w
      else if \<not> has w SVC_RESTARTING then snd (Start h e w)
      else w)"

section \<open>Temporary services and sockets\<close>

text \<open>The index after the first \<open>--\<close> from position 1 on, and 1 when there is none.\<close>

definition command_arg :: "string list \<Rightarrow> nat" where
  "command_arg args =
     (case dropWhile (\<lambda>i. args ! i \<noteq> ''--'') [1 ..< length args] of [] \<Rightarrow> 1 | i # _ \<Rightarrow> i + 1)"

fun decode_gids :: "(string \<Rightarrow> int option) \<Rightarrow> string list \<Rightarrow> (svc_error, int list) result" where
  "decode_gids DecodeUid [] = Inr []"
| "decode_gids DecodeUid (a # as) =
     (case DecodeUid a of
        None \<Rightarrow> Inl (CannotDecodeGid a)
      | Some g \<Rightarrow> (case decode_gids DecodeUid as of Inl er \<Rightarrow> Inl er | Inr gs \<Rightarrow> Inr (g # gs)))"

text \<open>\<open>exec_count\<close> is the static counter; the pair returns its new value.\<close>

definition MakeTemporaryOneshotService ::
    "service_h \<Rightarrow> service \<Rightarrow> libbase \<Rightarrow> (string \<Rightarrow> int option) \<Rightarrow> nat \<Rightarrow> string list \<Rightarrow>
     (svc_error, service) result \<times> nat" where
  "MakeTemporaryOneshotService h d lb DecodeUid exec_count args =
     (let ca = command_arg args in
      if ca > 4 + NR_SVC_SUPP_GIDS h then (Inl TooManySuppGids, exec_count)
      else if ca \<ge> length args then (Inl NoCommand, exec_count)
      else
        (let str_args = drop ca args; exec_count = exec_count + 1;
             name = ''exec '' @ dec exec_count @ '' ('' @ Join lb str_args '' '' @ '')'';
             seclabel = (if ca > 2 \<and> args ! 1 \<noteq> ''-'' then args ! 1 else []);
             make = (\<lambda>u g gs. make_Service h d name {SVC_ONESHOT, SVC_TEMPORARY} (Some u) g gs {}
                                seclabel None [] str_args);
             uid_r = (if ca > 3 then DecodeUid (args ! 2) else Some 0)
         in case uid_r of
              None \<Rightarrow> (Inl (CannotDecodeUid (args ! 2)), exec_count)
            | Some u \<Rightarrow>
                if ca > 4
                then (case DecodeUid (args ! 3) of
                        None \<Rightarrow> (Inl (CannotDecodeGid (args ! 3)), exec_count)
                      | Some g \<Rightarrow>
                          (case decode_gids DecodeUid (take (ca - 1 - 4) (drop 4 args)) of
                             Inl er \<Rightarrow> (Inl er, exec_count)
                           | Inr gs \<Rightarrow> (Inr (make u g gs), exec_count)))
                else (Inr (make u 0 []), exec_count)))"

fun mark_persistent :: "string \<Rightarrow> socket_descriptor list \<Rightarrow> socket_descriptor list \<times> bool" where
  "mark_persistent nm [] = ([], False)"
| "mark_persistent nm (so # rest) =
     (if so_name so = nm then (so\<lparr>so_persist := True\<rparr> # rest, True)
      else (case mark_persistent nm rest of (rest', found) \<Rightarrow> (so # rest', found)))"

definition MarkSocketPersistent :: "string \<Rightarrow> service \<Rightarrow> service \<times> bool" where
  "MarkSocketPersistent nm s =
     (case mark_persistent nm (sv_sockets s) of (ss, found) \<Rightarrow> (s\<lparr>sv_sockets := ss\<rparr>, found))"

section \<open>What the primitives touch\<close>

text \<open>
  The control state of a service: flags, pid, start order and the static order counter.  Signals,
  notifications and effects leave it alone, so that the lemmas on operations are about it only.
\<close>

definition core :: "world \<Rightarrow> svc_flag set \<times> int \<times> nat \<times> nat" where
  "core w = (sv_flags (svc w), sv_pid (svc w), sv_start_order (svc w), next_start_order w)"

named_theorems svc_frame \<open>what the primitives of the service model change\<close>

lemma has_simps [svc_frame]:
  "has (emit ef w) f = has w f"
  "has (set_flags fs w) f \<longleftrightarrow> has w f \<or> f \<in> fs"
  "has (clear_flags fs w) f \<longleftrightarrow> has w f \<and> f \<notin> fs"
  by (auto simp: has_def emit_def set_flags_def clear_flags_def upd_def)

lemma svc_simps [svc_frame]:
  "svc (emit ef w) = svc w" "svc (upd g w) = g (svc w)"
  "svc (set_flags fs w) = (svc w)\<lparr>sv_flags := sv_flags (svc w) \<union> fs\<rparr>"
  "svc (clear_flags fs w) = (svc w)\<lparr>sv_flags := sv_flags (svc w) - fs\<rparr>"
  "next_start_order (emit ef w) = next_start_order w" "next_start_order (upd g w) = next_start_order w"
  "next_start_order (set_flags fs w) = next_start_order w"
  "next_start_order (clear_flags fs w) = next_start_order w"
  "is_exec_service_running (emit ef w) = is_exec_service_running w"
  "is_exec_service_running (upd g w) = is_exec_service_running w"
  "eff (emit ef w) = eff w @ [ef]" "eff (upd g w) = eff w"
  "eff (set_flags fs w) = eff w" "eff (clear_flags fs w) = eff w"
  by (simp_all add: emit_def set_flags_def clear_flags_def upd_def)

lemma notify_frame [svc_frame]:
  "svc (NotifyStateChange gp st w) = svc w"
  "next_start_order (NotifyStateChange gp st w) = next_start_order w"
  "is_exec_service_running (NotifyStateChange gp st w) = is_exec_service_running w"
  by (simp_all add: NotifyStateChange_def Let_def svc_frame)

lemma kill_frame [svc_frame]:
  "svc (KillProcessGroup h e sg w) = (svc w)\<lparr>sv_process_cgroup_empty :=
     if (\<not> sv_process_cgroup_empty (svc w) \<or> IsRunning h (svc w)) \<and> kill_rc e sg = 0 then True
     else sv_process_cgroup_empty (svc w)\<rparr>"
  "next_start_order (KillProcessGroup h e sg w) = next_start_order w"
  "is_exec_service_running (KillProcessGroup h e sg w) = is_exec_service_running w"
  by (simp_all add: KillProcessGroup_def Let_def svc_frame)

lemma has_frame [svc_frame]:
  "has (NotifyStateChange gp st w) f = has w f"
  "has (KillProcessGroup h e sg w) f = has w f"
  by (simp_all add: has_def svc_frame)

lemma core_simps [svc_frame]:
  "core (emit ef w) = core w" "core (NotifyStateChange gp st w) = core w"
  "core (KillProcessGroup h e sg w) = core w"
  "core (set_flags fs w) = (case core w of (f, r) \<Rightarrow> (f \<union> fs, r))"
  "core (clear_flags fs w) = (case core w of (f, r) \<Rightarrow> (f - fs, r))"
  by (simp_all add: core_def svc_frame)

lemma core_fold_emit [svc_frame]: "core (fold (\<lambda>x. emit (g x)) xs w) = core w"
  by (induction xs arbitrary: w) (simp_all add: svc_frame)

lemma svc_fold_emit [svc_frame]: "svc (fold (\<lambda>x. emit (g x)) xs w) = svc w"
  by (induction xs arbitrary: w) (simp_all add: svc_frame)

lemma unlink_fold:
  "svc (fold (\<lambda>so w. if so_persist so then w else emit (g so) w) xs w) = svc w \<and>
   next_start_order (fold (\<lambda>so w. if so_persist so then w else emit (g so) w) xs w) = next_start_order w"
  by (induction xs arbitrary: w) (simp_all add: svc_frame)

lemma unlink_frame [svc_frame]:
  "svc (unlink_sockets w) = svc w" "next_start_order (unlink_sockets w) = next_start_order w"
  by (simp_all only: unlink_sockets_def unlink_fold)

lemma reap_failure_frame [svc_frame]:
  "svc (reap_failure c st w) = svc w"
  "next_start_order (reap_failure c st w) = next_start_order w"
  by (simp_all add: reap_failure_def svc_frame split: option.split)

lemma memcg_frame [svc_frame]:
  "svc (ConfigureMemcg h e w) = svc w" "core (ConfigureMemcg h e w) = core w"
  by (simp_all add: ConfigureMemcg_def Let_def svc_frame)

lemma has_core: "has w f \<longleftrightarrow> f \<in> fst (core w)"
  by (simp add: has_def core_def)

section \<open>The control invariant\<close>

fun control_inv :: "svc_flag set \<times> int \<times> nat \<times> nat \<Rightarrow> bool" where
  "control_inv (fs, p, ord, nxt) \<longleftrightarrow>
     (SVC_RUNNING \<in> fs \<longleftrightarrow> p \<noteq> 0) \<and> (SVC_RUNNING \<in> fs \<longleftrightarrow> ord \<noteq> 0) \<and> ord < nxt \<and>
     (SVC_RESTARTING \<in> fs \<longrightarrow>
        SVC_RUNNING \<notin> fs \<and> SVC_DISABLED \<notin> fs \<and> SVC_RESET \<notin> fs \<and> SVC_RESTART \<notin> fs) \<and>
     (SVC_RESTART \<in> fs \<longrightarrow> SVC_RESET \<notin> fs)"

definition svc_inv :: "world \<Rightarrow> bool" where
  "svc_inv w \<longleftrightarrow> control_inv (core w)"

end
