(* ===== verification/Service_Control.thy ===== *)
theory Service_Control
  imports Service
begin

text \<open>
  Correctness of the service state machine of \<open>Service\<close>: every operation keeps the control
  invariant \<open>svc_inv\<close>, the step relation \<open>svc_step\<close> collects the operations that init performs, and
  the properties state the behaviour of starting, stopping, reaping and of the forked child.
\<close>

section \<open>The operations keep the invariant\<close>

lemma svc_inv_frame [svc_frame]:
  "svc_inv (emit ef w) = svc_inv w" "svc_inv (NotifyStateChange gp st w) = svc_inv w"
  "svc_inv (KillProcessGroup h e sg w) = svc_inv w"
  by (simp_all add: svc_inv_def svc_frame)

lemma CheckConsole_core:
  "CheckConsole e w = (r, w') \<Longrightarrow>
   core w' = core w \<or> core w' = core (set_flags {SVC_DISABLED} w)"
  by (auto simp: CheckConsole_def Let_def svc_frame core_def split: if_splits)

lemma SetMountNamespace_core [svc_frame]: "core (SetMountNamespace r w) = core w"
  by (simp add: SetMountNamespace_def core_def svc_frame)

lemma start_record_core [svc_frame]:
  "core (start_record h e w) =
     (fst (core w) \<union> {SVC_RUNNING}, child_pid e, next_start_order w, next_start_order w + 1)"
  by (simp add: start_record_def core_def Let_def svc_frame)

lemma start_cgroups_core: "start_cgroups h e w = (r, w') \<Longrightarrow> core w' = core w"
  by (auto simp: start_cgroups_def Let_def svc_frame split: if_splits)

lemma start_handover_core: "start_handover h e w = (r, w') \<Longrightarrow> core w' = core w"
  by (auto simp: start_handover_def Let_def svc_frame split: if_splits sum.splits)

lemma start_parent_core:
  assumes "start_parent h e w = (r, w')"
  shows "core w' = (if child_pid e < 0 then core (upd (\<lambda>s. s\<lparr>sv_pid := 0\<rparr>) w)
                    else core (start_record h e w))"
  using assms
  by (auto simp: start_parent_def svc_frame split: prod.splits option.splits if_splits
      dest!: start_cgroups_core start_handover_core)

text \<open>
  Every way out of \<open>start_checked\<close>: the control state is unchanged, or disabled, or the child was
  forked from one of these.
\<close>

lemma start_checked_core:
  assumes "start_checked h e w = (r, w')" and "sv_pid (svc w) = 0"
  obtains w1 where "core w1 = core w \<or> core w1 = core (set_flags {SVC_DISABLED} w)"
    and "core w' = core w1 \<or> 0 \<le> child_pid e \<and> core w' = core (start_record h e w1)"
proof -
  obtain r1 w1 where c: "CheckConsole e w = (r1, w1)" by fastforce
  note w1 = CheckConsole_core [OF c]
  have p: "sv_pid (svc w1) = 0" using w1 assms(2) by (auto simp: core_def svc_frame)
  show ?thesis
  proof (cases "r1 = None \<and> stat_ok e (hd (sv_args (svc w1)))")
    case False
    then have "core w' = core w1 \<or> core w' = core (set_flags {SVC_DISABLED} w1)"
      using assms c by (auto simp: start_checked_def split: option.splits)
    with w1 have "core w' = core w \<or> core w' = core (set_flags {SVC_DISABLED} w)"
      by (auto simp: core_def svc_frame)
    with that show ?thesis by blast
  next
    case True
    let ?ctx = "if sv_seclabel (svc w1) \<noteq> [] then Inr (sv_seclabel (svc w1))
      else ComputeContextFromExecutable (getcon e) (getfilecon e) (compute_create e) (hd (sv_args (svc w1)))"
    show ?thesis
    proof (cases ?ctx)
      case (Inl er)
      with True assms c have "w' = w1" by (auto simp: start_checked_def)
      with w1 that show ?thesis by blast
    next
      case (Inr scon)
      let ?w2 = "if sv_mount_namespace (svc w1) = None then SetMountNamespace (default_ns_ready e) w1 else w1"
      let ?w3 = "fold (\<lambda>d. emit (CreateDescriptor d)) (create_descriptors e scon (svc ?w2)) ?w2"
      have "core ?w3 = core w1" by (simp add: svc_frame)
      moreover have "start_parent h e ?w3 = (r, w')"
        using True Inr assms c by (simp add: start_checked_def Let_def)
      ultimately obtain w3 where w3: "core w3 = core w1" "start_parent h e w3 = (r, w')" by blast
      have r: "core (start_record h e w3) = core (start_record h e w1)"
        using w3(1) by (simp add: start_record_core) (simp add: core_def)
      have "sv_pid (svc w3) = 0" using w3(1) p by (simp add: core_def)
      then have "core (upd (\<lambda>s. s\<lparr>sv_pid := 0\<rparr>) w3) = core w3" by (simp add: core_def svc_frame)
      with start_parent_core [OF w3(2)] w3(1) r
      have "core w' = core w1 \<or> 0 \<le> child_pid e \<and> core w' = core (start_record h e w1)"
        by (simp split: if_splits)
      with w1 that show ?thesis by blast
    qed
  qed
qed

lemma svc_inv_start_record:
  assumes "svc_inv w" and "\<not> has w SVC_RUNNING" and "\<not> has w SVC_RESTARTING" and "child_pid e \<noteq> 0"
  shows "svc_inv (start_record h e w)"
  using assms by (auto simp: svc_inv_def start_record_core) (auto simp: core_def has_def)

lemma svc_inv_disable:
  "svc_inv w \<Longrightarrow> \<not> has w SVC_RESTARTING \<Longrightarrow> svc_inv (set_flags {SVC_DISABLED} w)"
  by (auto simp: svc_inv_def svc_frame) (auto simp: core_def has_def)

lemma svc_inv_core: "core w' = core w \<Longrightarrow> svc_inv w' = svc_inv w"
  by (simp add: svc_inv_def)

lemma start_body_inv:
  assumes "start_body h e w = (r, w')" and inv: "svc_inv w" and pid: "child_pid e \<noteq> 0"
  shows "svc_inv w'"
proof -
  let ?w0 = "ResetFlagsForStart w"
  have inv0: "svc_inv ?w0"
    using inv by (auto simp: svc_inv_def ResetFlagsForStart_def svc_frame core_def)
  have no: "\<not> has ?w0 SVC_RESTARTING" "\<not> has ?w0 SVC_RESET"
    by (simp_all add: ResetFlagsForStart_def svc_frame)
  show ?thesis
  proof (cases "is_updatable h (svc w) \<and> \<not> default_ns_ready e \<or> has ?w0 SVC_RUNNING \<or> \<not> fifos_ok e")
    case True
    with assms(1) inv inv0 no show ?thesis
      by (auto simp: start_body_def Let_def svc_frame split: if_splits)
         (auto simp: svc_inv_def core_def svc_frame has_def)
  next
    case False
    then have "start_checked h e ?w0 = (r, w')" using assms(1) by (auto simp: start_body_def Let_def)
    moreover have "sv_pid (svc ?w0) = 0" using False inv0 by (auto simp: svc_inv_def core_def has_def)
    ultimately obtain w1 where w1: "core w1 = core ?w0 \<or> core w1 = core (set_flags {SVC_DISABLED} ?w0)"
        "core w' = core w1 \<or> core w' = core (start_record h e w1)"
      using start_checked_core by metis
    have "svc_inv w1" using w1(1) inv0 no svc_inv_disable by (metis svc_inv_core)
    moreover have "\<not> has w1 SVC_RUNNING" "\<not> has w1 SVC_RESTARTING"
      using w1(1) False no by (auto simp: has_core svc_frame split: prod.splits)
    ultimately show ?thesis using w1(2) pid svc_inv_start_record by (metis svc_inv_core)
  qed
qed

lemma reboot_on_failure_core [svc_frame]: "core (snd (reboot_on_failure r)) = core (snd r)"
  by (cases r) (auto simp: reboot_on_failure_def svc_frame split: option.splits)

lemma Start_inv [inv_intros]:
  "svc_inv w \<Longrightarrow> child_pid e \<noteq> 0 \<Longrightarrow> svc_inv (snd (Start h e w))"
  using start_body_inv [of h e w] unfolding Start_def
  by (metis prod.collapse reboot_on_failure_core svc_inv_core)

lemma svc_inv_plain_flags:
  assumes "svc_inv w" and "fs \<inter> {SVC_RUNNING, SVC_RESTARTING, SVC_DISABLED, SVC_RESET, SVC_RESTART} = {}"
  shows "svc_inv (set_flags fs w)"
  using assms by (auto simp: svc_inv_def svc_frame core_def)

lemma svc_inv_clear:
  "svc_inv w \<Longrightarrow> SVC_RUNNING \<notin> fs \<Longrightarrow> svc_inv (clear_flags fs w)"
  by (auto simp: svc_inv_def svc_frame core_def)

lemma svc_inv_exec [simp]: "svc_inv (w\<lparr>is_exec_service_running := b\<rparr>) = svc_inv w"
  by (simp add: svc_inv_def core_def)

lemma ExecStart_inv [inv_intros]:
  assumes "svc_inv w" and "child_pid e \<noteq> 0"
  shows "svc_inv (snd (ExecStart h e w))"
proof -
  let ?w = "set_flags {SVC_ONESHOT} w"
  have "svc_inv ?w" using assms(1) by (rule svc_inv_plain_flags) simp
  then have s: "svc_inv (snd (Start h e ?w))" using assms(2) by (rule Start_inv)
  then have "svc_inv (set_flags {SVC_EXEC} (snd (Start h e ?w)))" by (rule svc_inv_plain_flags) simp
  with s assms(1) show ?thesis
    by (auto simp: ExecStart_def reboot_on_failure_def svc_frame split: prod.splits option.splits if_splits)
qed

lemma StartIfNotDisabled_inv [inv_intros]:
  "svc_inv w \<Longrightarrow> child_pid e \<noteq> 0 \<Longrightarrow> svc_inv (snd (StartIfNotDisabled h e w))"
  by (auto simp: StartIfNotDisabled_def intro: Start_inv svc_inv_plain_flags)

lemma Enable_inv [inv_intros]:
  "svc_inv w \<Longrightarrow> child_pid e \<noteq> 0 \<Longrightarrow> svc_inv (snd (Enable h e w))"
  by (auto simp: Enable_def Let_def intro!: Start_inv svc_inv_clear)

lemma StopOrReset_core:
  "core (StopOrReset h e how w) =
     (case core w of (fs, r) \<Rightarrow>
       let fs = fs - {SVC_RESTARTING, SVC_DISABLED_START};
           how = (if how \<in> {SVC_RESET, SVC_RESTART} then how else SVC_DISABLED)
       in if how = SVC_RESTART then (insert SVC_RESTART fs - {SVC_DISABLED, SVC_RESET}, r)
          else if how = SVC_RESET \<and> SVC_RC_DISABLED \<notin> fs then (insert SVC_RESET fs - {SVC_RESTART}, r)
          else (insert SVC_DISABLED fs - {SVC_RESTART}, r))"
  by (auto simp: StopOrReset_def Let_def svc_frame core_def has_def)

lemma StopOrReset_inv [inv_intros]: "svc_inv w \<Longrightarrow> svc_inv (StopOrReset h e how w)"
  by (auto simp: svc_inv_def StopOrReset_core Let_def split: prod.splits)

lemma Terminate_inv [inv_intros]: "svc_inv w \<Longrightarrow> svc_inv (Terminate h e w)"
  by (auto simp: Terminate_def Let_def svc_frame intro!: svc_inv_disable svc_inv_clear)

lemma Timeout_inv [inv_intros]: "svc_inv w \<Longrightarrow> svc_inv (Timeout h e w)"
  by (simp add: Timeout_def svc_frame)

lemma Restart_inv [inv_intros]: "svc_inv w \<Longrightarrow> child_pid e \<noteq> 0 \<Longrightarrow> svc_inv (Restart h e w)"
  by (auto simp: Restart_def intro: inv_intros)

lemma SetStartedInFirstStage_inv [inv_intros]:
  "svc_inv w \<Longrightarrow> p \<noteq> 0 \<Longrightarrow> \<not> has w SVC_RESTARTING \<Longrightarrow> svc_inv (SetStartedInFirstStage e p w)"
  by (auto simp: SetStartedInFirstStage_def Let_def svc_frame svc_inv_def core_def has_def)

text \<open>Reaping.\<close>

lemma reap_upgrade_mte_frame [svc_frame]:
  "core (reap_upgrade_mte e c st w) = core w" "has (reap_upgrade_mte e c st w) f = has w f"
  by (simp_all add: reap_upgrade_mte_def Let_def core_def has_def svc_frame)

lemma reap_crash_core: "reap_crash e w = (w', b) \<Longrightarrow> core w' = core w"
  by (auto simp: reap_crash_def reap_fatal_def Let_def core_def svc_frame split: if_splits)

lemma reap_restart_core [svc_frame]:
  "core (reap_restart e w) =
     (case core w of (fs, r) \<Rightarrow> (insert SVC_RESTARTING (fs - {SVC_RESTART}), r))"
  by (simp add: reap_restart_def Let_def svc_frame split: prod.splits)

context service_header
begin

lemma reap_cleanup_core:
  "core (reap_cleanup h e c st w) = (case core w of (fs, r) \<Rightarrow> (fs - {SVC_EXEC}, r))"
proof -
  let ?w = "reap_failure c st (emit (ReapCallbacks c st) (unlink_sockets (reap_kill h e w)))"
  have "core (reap_kill h e w) = core w" by (simp add: reap_kill_def svc_frame)
  then have c: "core ?w = core w" by (simp add: core_def svc_frame)
  have "core ((clear_flags {SVC_EXEC} x)\<lparr>is_exec_service_running := b\<rparr>) = core (clear_flags {SVC_EXEC} x)"
    for x b by (simp add: core_def)
  then have "core (if has ?w SVC_EXEC then UnSetExec h ?w else ?w) =
      (case core w of (fs, r) \<Rightarrow> (fs - {SVC_EXEC}, r))"
    using c by (auto simp: UnSetExec_eq has_core core_simps split: prod.splits)
  then show ?thesis by (simp add: reap_cleanup_def Let_def core_simps)
qed

lemma Reap_inv [inv_intros]:
  assumes "svc_inv w" and run: "has w SVC_RUNNING"
  shows "svc_inv (Reap h e c st w)"
proof -
  let ?w = "reap_cleanup h e c st w"
  have i: "svc_inv ?w" and r: "has ?w SVC_RUNNING"
    using assms by (auto simp: svc_inv_def has_core reap_cleanup_core split: prod.splits)
  then have nr: "\<not> has ?w SVC_RESTARTING" by (auto simp: svc_inv_def has_def core_def)
  let ?w1 = "clear_flags {SVC_RUNNING} (upd (\<lambda>s. s\<lparr>sv_pid := 0, sv_start_order := 0,
      sv_was_last_exit_ok := exit_ok c st\<rparr>) ?w)"
  have i1: "svc_inv ?w1" and nr1: "\<not> has ?w1 SVC_RESTARTING" "\<not> has ?w1 SVC_RUNNING"
    using i nr r by (auto simp: svc_inv_def core_def svc_frame has_def)
  let ?w2 = "if has ?w1 SVC_ONESHOT \<and> \<not> has ?w1 SVC_RESTART \<and> \<not> has ?w1 SVC_RESET
      then set_flags {SVC_DISABLED} ?w1 else ?w1"
  have i2: "svc_inv ?w2" and nr2: "\<not> has ?w2 SVC_RUNNING"
    using i1 nr1 svc_inv_disable by (auto simp: svc_frame)
  obtain w3 b where w3: "reap_crash e (reap_upgrade_mte e c st ?w2) = (w3, b)" by fastforce
  have c3: "core w3 = core ?w2" using reap_crash_core [OF w3] by (simp only: svc_frame)
  then have i3: "svc_inv w3" using i2 svc_inv_core by blast
  have "svc_inv (reap_restart e w3)" if "\<not> (has ?w2 SVC_DISABLED \<or> has ?w2 SVC_RESET)"
  proof -
    have "\<not> has w3 SVC_DISABLED" "\<not> has w3 SVC_RESET" "\<not> has w3 SVC_RUNNING"
      using that c3 nr2 by (simp_all only: has_core) simp_all
    then show ?thesis using i3
      by (auto simp: svc_inv_def reap_restart_core has_core split: prod.splits)
  qed
  then have "svc_inv (if has ?w2 SVC_DISABLED \<or> has ?w2 SVC_RESET
      then NotifyStateChange (kprop e) ''stopped'' ?w2
      else case reap_crash e (reap_upgrade_mte e c st ?w2) of
             (w, aborted) \<Rightarrow> if aborted then w else reap_restart e w)"
    using i2 i3 w3 by (simp add: svc_inv_frame del: if_split split: if_split)
  then show ?thesis using i unfolding Reap_def Let_def by (simp only: split: if_split) simp
qed

end
section \<open>Reachable states\<close>

text \<open>
  One operation of init on a service.  A process is reaped only while the service runs, because init
  finds the service by its pid; \<open>fork\<close> gives the parent a pid that is not 0.
\<close>

inductive svc_step :: "service_h \<Rightarrow> world \<Rightarrow> world \<Rightarrow> bool" for h :: service_h where
  start: "child_pid e \<noteq> 0 \<Longrightarrow> svc_step h w (snd (Start h e w))"
| exec_start: "child_pid e \<noteq> 0 \<Longrightarrow> svc_step h w (snd (ExecStart h e w))"
| start_class: "child_pid e \<noteq> 0 \<Longrightarrow> svc_step h w (snd (StartIfNotDisabled h e w))"
| enable: "child_pid e \<noteq> 0 \<Longrightarrow> svc_step h w (snd (Enable h e w))"
| restart: "child_pid e \<noteq> 0 \<Longrightarrow> svc_step h w (Restart h e w)"
| first_stage: "p \<noteq> 0 \<Longrightarrow> \<not> has w SVC_RESTARTING \<Longrightarrow> svc_step h w (SetStartedInFirstStage e p w)"
| stop: "svc_step h w (Stop h (ke :: kill_env) w)"
| reset: "svc_step h w (Reset h (ke :: kill_env) w)"
| terminate: "svc_step h w (Terminate h (ke :: kill_env) w)"
| timeout: "svc_step h w (Timeout h (ke :: kill_env) w)"
| reap: "has w SVC_RUNNING \<Longrightarrow> svc_step h w (Reap h re si_code si_status w)"

inductive_cases svc_stepE: "svc_step h w w'"

context service_header
begin

lemma svc_step_inv: "svc_step h w w' \<Longrightarrow> svc_inv w \<Longrightarrow> svc_inv w'"
  by (induction rule: svc_step.induct) (simp_all add: inv_intros Stop_def Reset_def)

lemma reachable_inv: "(svc_step h)\<^sup>*\<^sup>* w w' \<Longrightarrow> svc_inv w \<Longrightarrow> svc_inv w'"
  by (induction rule: rtranclp_induct) (auto dest: svc_step_inv)

end

lemma make_Service_inv:
  assumes "svc w = make_Service h d nm fs u g gs ns lbl sub fn args"
    and "fs \<inter> {SVC_RUNNING, SVC_RESTARTING, SVC_RESTART} = {}" and "0 < next_start_order w"
  shows "svc_inv w"
  using assms by (auto simp: svc_inv_def core_def make_Service_def)

text \<open>
  C3 (service_control_invariant): a service that was constructed with the flags of a parsed section
  keeps, under every sequence of operations of init, this invariant: it has a pid exactly while it is
  marked running, it has a start order exactly then, start orders stay below the counter, and a
  service waiting to be restarted is neither running nor disabled nor reset nor marked for a restart.
\<close>

theorem service_control_invariant:
  assumes "service_header h" and "svc w0 = make_Service h d nm fs u g gs ns lbl sub fn args"
    and "fs \<inter> {SVC_RUNNING, SVC_RESTARTING, SVC_RESTART} = {}" and "0 < next_start_order w0"
    and "(svc_step h)\<^sup>*\<^sup>* w0 w"
  shows "(has w SVC_RUNNING \<longleftrightarrow> sv_pid (svc w) \<noteq> 0) \<and>
    (has w SVC_RUNNING \<longleftrightarrow> sv_start_order (svc w) \<noteq> 0) \<and>
    sv_start_order (svc w) < next_start_order w \<and>
    (has w SVC_RESTARTING \<longrightarrow> sv_pid (svc w) = 0 \<and> \<not> has w SVC_DISABLED \<and> \<not> has w SVC_RESET \<and>
       \<not> has w SVC_RESTART)"
proof -
  have "svc_inv w"
    using service_header.reachable_inv [OF assms(1,5)] make_Service_inv [OF assms(2-4)] by simp
  then show ?thesis by (auto simp: svc_inv_def core_def has_def)
qed

section \<open>Starting\<close>

lemma eff_NotifyStateChange:
  "\<not> has w SVC_TEMPORARY \<Longrightarrow>
   SetProperty (''init.svc.'' @ sv_name (svc w)) st \<in> set (eff (NotifyStateChange gp st w))"
  by (simp add: NotifyStateChange_def Let_def svc_frame)

lemma start_cgroups_None:
  assumes "cgroups_available e \<longrightarrow> create_group_rc e = 0"
  shows "\<exists>w'. start_cgroups h e w = (None, w') \<and> svc w' = svc w \<and> core w' = core w"
  using assms by (auto simp: start_cgroups_def Let_def svc_frame)

lemma start_handover_None:
  assumes "fifo_write_ok e kCgroupsActivated" and "\<not> RequiresConsole h (sv_proc_attr (svc w))"
  shows "\<exists>w'. start_handover h e w = (None, w') \<and> svc w' = svc w \<and> core w' = core w \<and>
    FifoWrite kCgroupsActivated \<in> set (eff w') \<and>
    (\<not> has w SVC_TEMPORARY \<longrightarrow> SetProperty (''init.svc.'' @ sv_name (svc w)) ''running'' \<in> set (eff w'))"
  using assms
  by (auto simp: start_handover_def Let_def svc_frame NotifyStateChange_def)

text \<open>
  C22 (service_start_runs): starting a service that is not running succeeds when the environment
  cooperates (an executable that exists, a security label, working fifos and cgroups, a successful
  fork, no console): then the service is running with the pid of the child, takes the next start
  order, has lost every flag that said it should not run, the child has been told to go on, and the
  state property of the service is set to running.
\<close>

theorem service_start_runs:
  assumes "\<not> has w SVC_RUNNING" and "\<not> has w SVC_CONSOLE" and "\<not> has w SVC_TEMPORARY"
    and "is_updatable h (svc w) \<longrightarrow> default_ns_ready e" and "fifos_ok e"
    and "stat_ok e (hd (sv_args (svc w)))" and "sv_seclabel (svc w) \<noteq> []" and "0 < child_pid e"
    and "cgroups_available e \<longrightarrow> create_group_rc e = 0" and "fifo_write_ok e kCgroupsActivated"
    and "\<not> RequiresConsole h (sv_proc_attr (svc w))"
  shows "\<exists>w'. Start h e w = (None, w') \<and>
    sv_flags (svc w') = sv_flags (svc w) -
      {SVC_DISABLED, SVC_RESTARTING, SVC_RESET, SVC_RESTART, SVC_DISABLED_START} \<union> {SVC_RUNNING} \<and>
    sv_pid (svc w') = child_pid e \<and> sv_start_order (svc w') = next_start_order w \<and>
    next_start_order w' = next_start_order w + 1 \<and> FifoWrite kCgroupsActivated \<in> set (eff w') \<and>
    SetProperty (''init.svc.'' @ sv_name (svc w)) ''running'' \<in> set (eff w')"
proof -
  let ?wr = "ResetFlagsForStart w"
  let ?wm = "if sv_mount_namespace (svc ?wr) = None then SetMountNamespace (default_ns_ready e) ?wr else ?wr"
  define w2 where "w2 = fold (\<lambda>d. emit (CreateDescriptor d)) (create_descriptors e (sv_seclabel (svc w)) (svc ?wm)) ?wm"
  define w3 where "w3 = start_record h e w2"
  have s0: "svc ?wr = (svc w)\<lparr>sv_flags := sv_flags (svc w) -
      {SVC_DISABLED, SVC_RESTARTING, SVC_RESET, SVC_RESTART, SVC_DISABLED_START}\<rparr>"
    "next_start_order ?wr = next_start_order w"
    by (simp_all add: ResetFlagsForStart_def svc_frame)
  have "svc ?wm = (svc ?wr)\<lparr>sv_mount_namespace := sv_mount_namespace (svc ?wm)\<rparr>"
    by (simp add: SetMountNamespace_def svc_frame)
  then have s2: "svc w2 = (svc ?wr)\<lparr>sv_mount_namespace := sv_mount_namespace (svc ?wm)\<rparr>"
    "core w2 = core ?wr"
    unfolding w2_def by (simp_all only: svc_fold_emit) (simp add: svc_frame)
  have s3: "sv_proc_attr (svc w3) = sv_proc_attr (svc w)" "sv_name (svc w3) = sv_name (svc w)"
    "\<not> has w3 SVC_TEMPORARY"
    using s2(1) s0 assms(3) by (simp_all add: w3_def start_record_def Let_def svc_frame has_def)
  obtain w4 where w4: "start_cgroups h e w3 = (None, w4)" "svc w4 = svc w3" "core w4 = core w3"
    using start_cgroups_None [OF assms(9)] by blast
  have "\<not> RequiresConsole h (sv_proc_attr (svc w4))" "\<not> has w4 SVC_TEMPORARY"
    using assms(11) s3 w4(2) by (simp_all add: has_def)
  then obtain w5 where w5: "start_handover h e w4 = (None, w5)" "core w5 = core w4"
      "FifoWrite kCgroupsActivated \<in> set (eff w5)"
      "SetProperty (''init.svc.'' @ sv_name (svc w)) ''running'' \<in> set (eff w5)"
    using start_handover_None [OF assms(10)] s3 w4(2) by metis
  have "CheckConsole e ?wr = (None, ?wr)"
    using assms(2) s0 by (simp add: CheckConsole_def has_def)
  moreover have "start_parent h e w2 = (None, w5)"
    using w4(1) w5(1) assms(8) by (simp add: start_parent_def w3_def)
  ultimately have "start_checked h e ?wr = (None, w5)"
    using assms(6,7) s0 by (simp add: start_checked_def Let_def w2_def)
  then have "Start h e w = (None, w5)"
    using assms(1,4,5) s0 by (auto simp: Start_def start_body_def Let_def has_def reboot_on_failure_def)
  moreover have "core w5 = (sv_flags (svc ?wr) \<union> {SVC_RUNNING}, child_pid e, next_start_order w,
      next_start_order w + 1)"
    using w5(2) w4(3) s2(2) s0(2) by (simp add: w3_def start_record_core) (simp add: core_def)
  ultimately show ?thesis using w5(3,4) s0(1) by (simp add: core_def)
qed

definition demo_attr :: process_attributes where
  "demo_attr = \<lparr>console = [], ioprio_class = IoSchedClass_NONE, ioprio_pri = 0, rlimits = [],
     parsed_uid = Some 1000, gid = 1000, supp_gids = [], priority = 0, stdio_to_kmsg = False\<rparr>"

definition demo_service :: service where
  "demo_service = \<lparr>sv_name = ''adbd'', sv_classnames = {''core''}, sv_flags = {}, sv_pid = 0,
     sv_crash_count = 0, sv_time_started = 0, sv_time_crashed = 0, sv_upgraded_mte = False,
     sv_fatal_crash_window = 4, sv_fatal_reboot_target = None, sv_on_failure_reboot_target = None,
     sv_capabilities = None, sv_proc_attr = demo_attr,
     sv_namespaces = \<lparr>ns_flags = {}, namespaces_to_enter = []\<rparr>, sv_seclabel = ''u:r:adbd:s0'',
     sv_sockets = [], sv_files = [], sv_environment_vars = [], sv_once_environment_vars = [],
     sv_subcontext = None, sv_onrestart = [], sv_writepid_files = [], sv_task_profiles = [],
     sv_interfaces = {}, sv_keycodes = [], sv_oom_score_adjust = -1000, sv_swappiness = -1,
     sv_soft_limit_in_bytes = -1, sv_limit_in_bytes = -1, sv_limit_percent = -1,
     sv_limit_property = [], sv_process_cgroup_empty = True, sv_override = False,
     sv_sigstop = False, sv_start_order = 0, sv_mount_namespace = None, sv_updatable = False,
     sv_args = [''/system/bin/adbd''], sv_restart_period = 5, sv_timeout_period = None,
     sv_was_last_exit_ok = True, sv_shared_kallsyms_file = False, sv_filename = ''init.rc''\<rparr>"

definition demo_world :: "svc_flag set \<Rightarrow> int \<Rightarrow> nat \<Rightarrow> world" where
  "demo_world fs p ord =
     \<lparr>svc = demo_service\<lparr>sv_flags := fs, sv_pid := p, sv_start_order := ord\<rparr>,
      next_start_order = ord + 1, is_exec_service_running = False, eff = []\<rparr>"

definition demo_start :: start_env where
  "demo_start = \<lparr>kill_rc = (\<lambda>_. 0), kprop = (\<lambda>_. []), default_ns_ready = True, fifos_ok = True,
     console_open_ok = (\<lambda>_. True), stat_ok = (\<lambda>_. True), getcon = None, getfilecon = (\<lambda>_. None),
     compute_create = (\<lambda>_ _. (0, [])), socket_create_ok = (\<lambda>_ _. True),
     file_create_ok = (\<lambda>_. True), kallsyms_fd = 9, kallsyms_dup = 10, child_pid = 321,
     start_now = 77, cgroups_available = True, create_group_rc = 0, fifo_write_ok = (\<lambda>_. True),
     setsid_read = Inr kSetSidFinished, page_size = 4096, num_pages = 1000,
     uint_prop = (\<lambda>_ v. v)\<rparr>"

definition demo_kill :: kill_env where
  "demo_kill = \<lparr>kill_rc = (\<lambda>_. 0), kprop = (\<lambda>_. [])\<rparr>"

definition demo_reap :: reap_env where
  "demo_reap = \<lparr>kill_rc = (\<lambda>_. 0), kprop = (\<lambda>_. []), vendor_api = 34, bool_prop = (\<lambda>_ b. b),
     int_prop = (\<lambda>_ i. i), now = 10, epoch_time = 1700000000, is_apex_updatable = True,
     mte_supported = False, BIONIC_SIGNAL_ART_PROFILER = 38\<rparr>"

lemmas demo_defs = demo_world_def demo_service_def demo_attr_def demo_start_def demo_kill_def
  demo_reap_def std_h_def has_def

theorem service_start_runs_witness:
  "\<exists>w'. Start std_h demo_start (demo_world {SVC_RESTARTING} 0 0) = (None, w') \<and>
     sv_flags (svc w') = {SVC_RUNNING} \<and> sv_pid (svc w') = 321"
proof -
  have "\<not> has (demo_world {SVC_RESTARTING} 0 0) SVC_RUNNING"
    "\<not> has (demo_world {SVC_RESTARTING} 0 0) SVC_CONSOLE"
    "\<not> has (demo_world {SVC_RESTARTING} 0 0) SVC_TEMPORARY"
    by (simp_all add: demo_defs)
  from service_start_runs [OF this, of std_h demo_start] show ?thesis
    by (auto simp: demo_defs)
qed

theorem service_control_invariant_witness:
  "\<exists>w. (svc_step std_h)\<^sup>*\<^sup>* ((demo_world {} 0 0)\<lparr>svc := new_Service std_h demo_service ''adbd'' None [] [''a'']\<rparr>) w \<and>
     has w SVC_DISABLED \<and> sv_start_order (svc w) < next_start_order w"
proof -
  let ?init = "(demo_world {} 0 0)\<lparr>svc := new_Service std_h demo_service ''adbd'' None [] [''a'']\<rparr>"
  let ?wa = "Stop std_h demo_kill ?init"
  have r: "(svc_step std_h)\<^sup>*\<^sup>* ?init ?wa" by (rule r_into_rtranclp, rule svc_step.stop)
  have "svc ?init = make_Service std_h demo_service ''adbd'' {} None 0 [] {} [] None [] [''a'']"
    by (simp add: new_Service_def)
  from service_control_invariant [OF std_h.service_header_axioms this _ _ r]
  have "sv_start_order (svc ?wa) < next_start_order ?wa" by (simp add: demo_world_def)
  moreover have "has ?wa SVC_DISABLED"
    by (simp add: Stop_def has_core StopOrReset_core Let_def split: prod.splits)
  ultimately show ?thesis using r by blast
qed

section \<open>Stopping, restarting and reaping\<close>

lemma Stop_core:
  "core (Stop h e w) = (case core w of (fs, r) \<Rightarrow>
     (insert SVC_DISABLED (fs - {SVC_RESTARTING, SVC_DISABLED_START, SVC_RESTART}), r))"
  by (auto simp: Stop_def StopOrReset_core Let_def split: prod.splits)

lemma Start_running_core:
  assumes "has w SVC_RUNNING" and "is_updatable h (svc w) \<longrightarrow> default_ns_ready e"
  shows "core (snd (Start h e w)) = (case core w of (fs, r) \<Rightarrow>
     (fs - {SVC_DISABLED, SVC_RESTARTING, SVC_RESET, SVC_RESTART, SVC_DISABLED_START} \<union>
      (if SVC_ONESHOT \<in> fs \<and> (SVC_DISABLED \<in> fs \<or> SVC_RESET \<in> fs) then {SVC_RESTART} else {}), r))"
  using assms
  by (auto simp: Start_def reboot_on_failure_core start_body_def Let_def ResetFlagsForStart_def svc_frame
      has_core split: prod.splits)

context service_header
begin

text \<open>The control state after \<open>Reap\<close> when the crash counter does not abort.\<close>

lemma Reap_stopped_core:
  assumes "\<not> has w SVC_TEMPORARY"
    and "has w SVC_DISABLED \<or> has w SVC_RESET \<or> has w SVC_ONESHOT \<and> \<not> has w SVC_RESTART"
  shows "core (Reap h e c st w) = (case core w of (fs, p, ord, n) \<Rightarrow>
     (fs - {SVC_EXEC, SVC_RUNNING} \<union>
      (if SVC_ONESHOT \<in> fs \<and> SVC_RESTART \<notin> fs \<and> SVC_RESET \<notin> fs then {SVC_DISABLED} else {}), 0, 0, n))"
proof -
  define w1 where "w1 = reap_cleanup h e c st w"
  have "core w1 = (case core w of (fs, r) \<Rightarrow> (fs - {SVC_EXEC}, r))"
    unfolding w1_def by (rule reap_cleanup_core)
  then have f: "sv_flags (svc w1) = sv_flags (svc w) - {SVC_EXEC}" "next_start_order w1 = next_start_order w"
    by (auto simp: core_def)
  show ?thesis
    using assms f unfolding Reap_def w1_def [symmetric]
    by (auto simp: Let_def has_def svc_frame core_def)
qed

lemma Reap_restarting_core:
  assumes "\<not> has w SVC_TEMPORARY" and "has w SVC_RESTART" and "\<not> has w SVC_DISABLED" and "\<not> has w SVC_RESET"
  shows "core (Reap h e c st w) = (case core w of (fs, p, ord, n) \<Rightarrow>
     (insert SVC_RESTARTING (fs - {SVC_EXEC, SVC_RUNNING, SVC_RESTART}), 0, 0, n))"
proof -
  define w1 where "w1 = reap_cleanup h e c st w"
  have "core w1 = (case core w of (fs, r) \<Rightarrow> (fs - {SVC_EXEC}, r))"
    unfolding w1_def by (rule reap_cleanup_core)
  then have f: "sv_flags (svc w1) = sv_flags (svc w) - {SVC_EXEC}" "next_start_order w1 = next_start_order w"
    by (auto simp: core_def)
  define w2 where "w2 = clear_flags {SVC_RUNNING} (upd (\<lambda>s. s\<lparr>sv_pid := 0, sv_start_order := 0,
      sv_was_last_exit_ok := exit_ok c st\<rparr>) w1)"
  have fl: "\<not> has w1 SVC_TEMPORARY" "has w2 SVC_RESTART" "\<not> has w2 SVC_DISABLED" "\<not> has w2 SVC_RESET"
    using f assms by (simp_all add: w2_def svc_frame has_def)
  then have "has (reap_upgrade_mte e c st w2) SVC_RESTART" by (simp add: reap_upgrade_mte_frame)
  then have nc: "reap_crash e (reap_upgrade_mte e c st w2) = (reap_upgrade_mte e c st w2, False)"
    by (simp add: reap_crash_def Let_def)
  have "Reap h e c st w = reap_restart e (reap_upgrade_mte e c st w2)"
    using fl nc unfolding Reap_def w1_def [symmetric] Let_def w2_def [symmetric] by simp
  moreover have "core (reap_upgrade_mte e c st w2) = (sv_flags (svc w) - {SVC_EXEC} - {SVC_RUNNING}, 0, 0, next_start_order w)"
    using f by (simp only: reap_upgrade_mte_frame) (simp add: w2_def core_def svc_frame)
  ultimately have "core (Reap h e c st w) =
      (insert SVC_RESTARTING (sv_flags (svc w) - {SVC_EXEC} - {SVC_RUNNING} - {SVC_RESTART}), 0, 0,
       next_start_order w)"
    by (simp add: reap_restart_core)
  moreover have "sv_flags (svc w) - {SVC_EXEC} - {SVC_RUNNING} - {SVC_RESTART} =
      sv_flags (svc w) - {SVC_EXEC, SVC_RUNNING, SVC_RESTART}"
    by blast
  ultimately show ?thesis by (simp add: core_def [of w])
qed

end

text \<open>
  C21 (service_stop_start_race): a oneshot service that is stopped and started again while its process
  is still exiting is not lost: when the process is reaped the service waits for a restart, with no
  pid and no disabled or reset flag; had it not been started again, reaping would have left it
  disabled and not restarting.
\<close>

theorem service_stop_start_race:
  assumes "service_header h" and "svc_inv w" and "has w SVC_RUNNING" and "has w SVC_ONESHOT"
    and "\<not> has w SVC_TEMPORARY" and "default_ns_ready se"
  shows "let stopped = Stop h (ke :: kill_env) w;
             again = Reap h re c st (snd (Start h se stopped));
             ended = Reap h re c st stopped
    in has again SVC_RESTARTING \<and> \<not> has again SVC_DISABLED \<and> \<not> has again SVC_RESET \<and>
       sv_pid (svc again) = 0 \<and>
       has ended SVC_DISABLED \<and> \<not> has ended SVC_RESTARTING \<and> sv_pid (svc ended) = 0"
proof -
  define stopped where "stopped = Stop h ke w"
  define started where "started = snd (Start h se stopped)"
  have cs: "core stopped = (case core w of (fs, r) \<Rightarrow>
      (insert SVC_DISABLED (fs - {SVC_RESTARTING, SVC_DISABLED_START, SVC_RESTART}), r))"
    by (simp add: stopped_def Stop_core)
  have f: "sv_flags (svc stopped) =
      insert SVC_DISABLED (sv_flags (svc w) - {SVC_RESTARTING, SVC_DISABLED_START, SVC_RESTART})"
    using cs by (simp add: core_def)
  have "has stopped SVC_RUNNING" using f assms(3) by (simp add: has_def)
  then have ca: "core started = (case core stopped of (fs, r) \<Rightarrow>
     (fs - {SVC_DISABLED, SVC_RESTARTING, SVC_RESET, SVC_RESTART, SVC_DISABLED_START} \<union>
      (if SVC_ONESHOT \<in> fs \<and> (SVC_DISABLED \<in> fs \<or> SVC_RESET \<in> fs) then {SVC_RESTART} else {}), r))"
    unfolding started_def by (rule Start_running_core) (simp add: assms(6))
  have g: "sv_flags (svc started) = sv_flags (svc w) -
      {SVC_DISABLED, SVC_RESTARTING, SVC_RESET, SVC_RESTART, SVC_DISABLED_START} \<union> {SVC_RESTART}"
    using ca f assms(4) by (auto simp: core_def has_def)
  have "core (Reap h re c st started) = (case core started of (fs, p, ord, n) \<Rightarrow>
     (insert SVC_RESTARTING (fs - {SVC_EXEC, SVC_RUNNING, SVC_RESTART}), 0, 0, n))"
    using assms(5) g by (intro service_header.Reap_restarting_core [OF assms(1)]) (auto simp: has_def)
  moreover have "core (Reap h re c st stopped) = (case core stopped of (fs, p, ord, n) \<Rightarrow>
     (fs - {SVC_EXEC, SVC_RUNNING} \<union>
      (if SVC_ONESHOT \<in> fs \<and> SVC_RESTART \<notin> fs \<and> SVC_RESET \<notin> fs then {SVC_DISABLED} else {}), 0, 0, n))"
    using assms(5) f by (intro service_header.Reap_stopped_core [OF assms(1)]) (auto simp: has_def)
  ultimately show ?thesis
    using f g unfolding stopped_def [symmetric] started_def [symmetric] Let_def
    by (simp add: core_def has_def)
qed

theorem service_stop_start_race_witness:
  "has (Reap std_h demo_reap 1 0
          (snd (Start std_h demo_start (Stop std_h demo_kill (demo_world {SVC_RUNNING, SVC_ONESHOT} 321 1)))))
     SVC_RESTARTING"
  using service_stop_start_race [OF std_h.service_header_axioms,
      of "demo_world {SVC_RUNNING, SVC_ONESHOT} 321 1" demo_start demo_kill demo_reap 1 0]
  by (simp add: Let_def svc_inv_def core_def demo_world_def has_def demo_start_def)

section \<open>Crash handling\<close>

lemma abort_free_Notify:
  "Abort m \<in> set (eff (NotifyStateChange gp st w)) \<longleftrightarrow> Abort m \<in> set (eff w)"
  by (auto simp: NotifyStateChange_def Let_def svc_frame)

lemma abort_free_Kill:
  "Abort m \<in> set (eff (KillProcessGroup h e sg w)) \<longleftrightarrow> Abort m \<in> set (eff w)"
  by (auto simp: KillProcessGroup_def Let_def svc_frame)

lemma abort_free_unlink:
  "Abort m \<in> set (eff (unlink_sockets w)) \<longleftrightarrow> Abort m \<in> set (eff w)"
proof -
  have "Abort m \<in> set (eff (fold (\<lambda>so w. if so_persist so then w
      else emit (Unlink (''/dev/socket/'' @ so_name so)) w) xs w)) \<longleftrightarrow> Abort m \<in> set (eff w)" for xs
    by (induction xs arbitrary: w) (auto simp: svc_frame)
  then show ?thesis by (simp only: unlink_sockets_def)
qed

context service_header
begin

lemma reap_cleanup_svc:
  "\<exists>b. svc (reap_cleanup h e c st w) =
     (svc w)\<lparr>sv_process_cgroup_empty := b, sv_flags := sv_flags (svc w) - {SVC_EXEC}\<rparr>"
proof -
  have "\<exists>b. svc (reap_kill h e w) = (svc w)\<lparr>sv_process_cgroup_empty := b\<rparr>"
  proof (cases "\<not> has w SVC_ONESHOT \<or> has w SVC_RESTART \<or> vendor_api e \<ge> 30")
    case True
    then have "svc (reap_kill h e w) = svc (KillProcessGroup h e sig_KILL w)" by (auto simp: reap_kill_def)
    then show ?thesis by (simp only: kill_frame) blast
  next
    case False
    then have "svc (reap_kill h e w) = (svc w)\<lparr>sv_process_cgroup_empty := sv_process_cgroup_empty (svc w)\<rparr>"
      by (simp add: reap_kill_def)
    then show ?thesis by blast
  qed
  then show ?thesis
    by (auto simp: reap_cleanup_def Let_def svc_frame UnSetExec_eq has_def)
qed

lemma abort_free_cleanup:
  "Abort m \<in> set (eff (reap_cleanup h e c st w)) \<longleftrightarrow> Abort m \<in> set (eff w)"
proof -
  have "Abort m \<in> set (eff (reap_failure c st (emit (ReapCallbacks c st) (unlink_sockets (reap_kill h e w))))) \<longleftrightarrow>
      Abort m \<in> set (eff w)"
    by (auto simp: reap_failure_def svc_frame abort_free_unlink reap_kill_def abort_free_Kill
        split: option.split)
  then show ?thesis by (auto simp: reap_cleanup_def Let_def UnSetExec_eq svc_frame)
qed

end

lemma reap_fatal_abort:
  assumes "\<forall>m. Abort m \<notin> set (eff w)"
  shows "(\<exists>m. Abort m \<in> set (eff (fst (reap_fatal e w)))) \<longleftrightarrow>
    has w SVC_CRITICAL \<and> \<not> bool_prop e (''init.svc_debug.no_fatal.'' @ sv_name (svc w)) False \<and>
    epoch_time e - word_of_int (int_prop e ''persist.init.svc.last_fatal_reboot_epoch'' 0) > 86400"
  using assms by (auto simp: reap_fatal_def Let_def svc_frame)


lemma reap_fatal_flag: "snd (reap_fatal e w) \<Longrightarrow> \<exists>m. Abort m \<in> set (eff (fst (reap_fatal e w)))"
  by (auto simp: reap_fatal_def Let_def svc_frame split: if_splits)

lemma reap_crash_abort:
  assumes "\<forall>m. Abort m \<notin> set (eff w)"
  shows "(\<exists>m. Abort m \<in> set (eff (fst (reap_crash e w)))) \<longleftrightarrow>
    has w SVC_CRITICAL \<and> \<not> has w SVC_RESTART \<and> \<not> sv_was_last_exit_ok (svc w) \<and>
    (now e < sv_time_crashed (svc w) + sv_fatal_crash_window (svc w) * 60 * 10 ^ 9 \<or>
       \<not> bool_prop e ''sys.boot_completed'' False) \<and>
    4 \<le> sv_crash_count (svc w) \<and>
    \<not> bool_prop e (''init.svc_debug.no_fatal.'' @ sv_name (svc w)) False \<and>
    epoch_time e - word_of_int (int_prop e ''persist.init.svc.last_fatal_reboot_epoch'' 0) > 86400"
  (is "?L \<longleftrightarrow> ?R")
proof -
  let ?u = "upd (\<lambda>s. s\<lparr>sv_crash_count := sv_crash_count s + 1\<rparr>) w"
  have h: "has ?u = has w" by (rule ext) (simp add: has_def svc_frame)
  have "\<forall>m. Abort m \<notin> set (eff ?u)" using assms by (simp add: svc_frame)
  from reap_fatal_abort [OF this, of e] assms show ?thesis
    unfolding reap_crash_def Let_def
    by (simp only: h svc_simps split: if_split) (auto simp: svc_frame)
qed

text \<open>
  C20 (service_crash_abort): reaping a service aborts into the fatal reboot target exactly when a
  critical, long-lived service (neither oneshot, disabled, reset, temporary nor being restarted)
  exits with an error for at least the fifth time, the last crash window is still open or the boot
  is not completed, fatal crashes are not switched off for it, and no such reboot was started in the
  last 24 hours.
\<close>

theorem service_crash_abort:
  assumes "service_header h" and "\<forall>m. Abort m \<notin> set (eff w)"
  shows "(\<exists>m. Abort m \<in> set (eff (Reap h e c st w))) \<longleftrightarrow>
    \<not> has w SVC_TEMPORARY \<and> \<not> has w SVC_DISABLED \<and> \<not> has w SVC_RESET \<and> \<not> has w SVC_ONESHOT \<and>
    has w SVC_CRITICAL \<and> \<not> has w SVC_RESTART \<and> \<not> exit_ok c st \<and>
    (now e < sv_time_crashed (svc w) + sv_fatal_crash_window (svc w) * 60 * 10 ^ 9 \<or>
       \<not> bool_prop e ''sys.boot_completed'' False) \<and>
    4 \<le> sv_crash_count (svc w) \<and>
    \<not> bool_prop e (''init.svc_debug.no_fatal.'' @ sv_name (svc w)) False \<and>
    epoch_time e - word_of_int (int_prop e ''persist.init.svc.last_fatal_reboot_epoch'' 0) > 86400"
proof -
  define w1 where "w1 = reap_cleanup h e c st w"
  obtain b where s1: "svc w1 =
      (svc w)\<lparr>sv_process_cgroup_empty := b, sv_flags := sv_flags (svc w) - {SVC_EXEC}\<rparr>"
    unfolding w1_def using service_header.reap_cleanup_svc [OF assms(1)] by blast
  have a1: "\<forall>m. Abort m \<notin> set (eff w1)"
    unfolding w1_def using assms by (simp add: service_header.abort_free_cleanup)
  define w2 where "w2 = clear_flags {SVC_RUNNING} (upd (\<lambda>s. s\<lparr>sv_pid := 0, sv_start_order := 0,
      sv_was_last_exit_ok := exit_ok c st\<rparr>) w1)"
  define w3 where "w3 = (if has w2 SVC_ONESHOT \<and> \<not> has w2 SVC_RESTART \<and> \<not> has w2 SVC_RESET
      then set_flags {SVC_DISABLED} w2 else w2)"
  define w4 where "w4 = reap_upgrade_mte e c st w3"
  have fl: "has w2 f \<longleftrightarrow> has w f" if "f \<noteq> SVC_EXEC" "f \<noteq> SVC_RUNNING" for f
    using that s1 by (simp add: w2_def has_def svc_frame)
  have h3: "has w3 f \<longleftrightarrow> has w f \<or> f = SVC_DISABLED \<and> has w SVC_ONESHOT \<and> \<not> has w SVC_RESTART \<and>
      \<not> has w SVC_RESET" if "f \<noteq> SVC_EXEC" "f \<noteq> SVC_RUNNING" for f
    using that by (auto simp: w3_def svc_frame fl)
  have s4: "sv_was_last_exit_ok (svc w4) = exit_ok c st" "sv_time_crashed (svc w4) = sv_time_crashed (svc w)"
    "sv_fatal_crash_window (svc w4) = sv_fatal_crash_window (svc w)"
    "sv_crash_count (svc w4) = sv_crash_count (svc w)" "sv_name (svc w4) = sv_name (svc w)"
    by (simp_all add: w4_def w3_def w2_def reap_upgrade_mte_def Let_def svc_frame s1)
  have h4: "has w4 f = has w3 f" for f by (simp add: w4_def svc_frame)
  have a3: "\<forall>m. Abort m \<notin> set (eff w3)" and a4: "\<forall>m. Abort m \<notin> set (eff w4)"
    using a1 by (simp_all add: w4_def w3_def w2_def reap_upgrade_mte_def Let_def svc_frame)
  obtain w5 ab where w5: "reap_crash e w4 = (w5, ab)" by fastforce
  have "(\<exists>m. Abort m \<in> set (eff (if ab then w5 else reap_restart e w5))) \<longleftrightarrow>
      (\<exists>m. Abort m \<in> set (eff w5))"
    by (auto simp: reap_restart_def Let_def abort_free_Notify svc_frame)
  moreover have "Reap h e c st w = (if has w1 SVC_TEMPORARY then w1
      else if has w3 SVC_DISABLED \<or> has w3 SVC_RESET then NotifyStateChange (kprop e) ''stopped'' w3
      else if ab then w5 else reap_restart e w5)"
    unfolding Reap_def w1_def [symmetric] Let_def w2_def [symmetric] w3_def [symmetric]
      w4_def [symmetric] w5 by simp
  moreover have "has w1 SVC_TEMPORARY = has w SVC_TEMPORARY" using s1 by (simp add: has_def)
  ultimately show ?thesis
    using a1 a3 reap_crash_abort [OF a4, of e] w5 h3 h4 s4 by (auto simp: abort_free_Notify)
qed

theorem service_crash_abort_witness:
  "\<exists>m. Abort m \<in> set (eff (Reap std_h demo_reap 1 1
     ((demo_world {SVC_RUNNING, SVC_CRITICAL} 5 1)
        \<lparr>svc := demo_service\<lparr>sv_flags := {SVC_RUNNING, SVC_CRITICAL}, sv_crash_count := 4\<rparr>\<rparr>)))"
  using service_crash_abort [OF std_h.service_header_axioms,
      of "(demo_world {SVC_RUNNING, SVC_CRITICAL} 5 1)
        \<lparr>svc := demo_service\<lparr>sv_flags := {SVC_RUNNING, SVC_CRITICAL}, sv_crash_count := 4\<rparr>\<rparr>" demo_reap 1 1]
  by (simp add: demo_defs exit_ok_def)


section \<open>The child\<close>

lemma child_seq_alive:
  "child_seq steps = (es, True) \<Longrightarrow> (\<forall>s \<in> set steps. snd s = None) \<and> es = concat (map fst steps)"
  by (induction steps arbitrary: es rule: child_seq.induct) (auto split: prod.splits)

lemma child_seq_no_exec:
  "child_seq steps = (es, b) \<Longrightarrow> (\<forall>s \<in> set steps. \<forall>a. Execv a \<notin> set (fst s)) \<Longrightarrow> Execv a \<notin> set es"
  by (induction steps arbitrary: es b rule: child_seq.induct) (auto split: prod.splits)

lemma SetProcessAttributesAndCaps_alive:
  assumes "SetProcessAttributesAndCaps h e s = (es, True)"
  shows "attributes_ok e \<and> SetProcessAttributes (sv_proc_attr s) \<in> set es \<and>
    (sv_seclabel s \<noteq> [] \<longrightarrow> setexeccon_ok e \<and> Setexeccon (sv_seclabel s) \<in> set es) \<and>
    (case sv_capabilities s of
       Some caps \<Rightarrow> caps_ok e \<and> SetCapsForExec caps \<in> set es
     | None \<Rightarrow> uid h s \<noteq> 0 \<longrightarrow> drop_caps_ok e \<and> DropInheritableCaps \<in> set es)"
  using child_seq_alive [OF assms [unfolded SetProcessAttributesAndCaps_def]]
  by (auto simp: fatal_unless_def split: if_splits option.splits)

lemma SetProcessAttributesAndCaps_no_exec:
  "Execv a \<notin> set (fst (SetProcessAttributesAndCaps h e s))"
  unfolding SetProcessAttributesAndCaps_def
  by (rule child_seq_no_exec [OF prod.collapse [symmetric]])
     (auto simp: fatal_unless_def split: if_splits option.splits)

lemma map_Some_the: "None \<notin> set xs \<Longrightarrow> map Some (map the xs) = xs"
  by (induction xs) auto

lemma ExpandArgsAndExecv_exec:
  assumes "ExpandArgsAndExecv e args sigstop = (es, b)" and "Execv argv \<in> set es"
  shows "\<exists>pre. es = pre @ [Execv argv]"
    and "map Some argv = Some (hd args) # map (ExpandProps e) (tl args)"
  using assms map_Some_the [of "map (ExpandProps e) (tl args)"]
  by (auto simp: ExpandArgsAndExecv_def Let_def split: if_splits)

text \<open>
  The child of a service executes the program only after init has told it
  that its cgroups are active, and after it has entered its namespaces, applied its identity,
  its security label and its capabilities (or dropped the inheritable ones), each successfully; the
  program is the first argument as written and the others with properties expanded.
\<close>

theorem service_child_exec:
  assumes "Execv argv \<in> set (child_main h e ds s)"
  shows "cgroups_byte e = Inr kCgroupsActivated \<and> namespaces_ok e \<and>
    (\<exists>pre post. child_main h e ds s = pre @ Execv argv # post \<and> post \<in> {[], [Exit 127]} \<and>
       EnterNamespaces (sv_namespaces s) (sv_mount_namespace s) \<in> set pre \<and>
       attributes_ok e \<and> SetProcessAttributes (sv_proc_attr s) \<in> set pre \<and>
       (sv_seclabel s \<noteq> [] \<longrightarrow> setexeccon_ok e \<and> Setexeccon (sv_seclabel s) \<in> set pre) \<and>
       (case sv_capabilities s of
          Some caps \<Rightarrow> caps_ok e \<and> SetCapsForExec caps \<in> set pre
        | None \<Rightarrow> uid h s \<noteq> 0 \<longrightarrow> drop_caps_ok e \<and> DropInheritableCaps \<in> set pre)) \<and>
    map Some argv = Some (hd (sv_args s)) # map (ExpandProps e) (tl (sv_args s))"
proof -
  obtain att steps where run: "RunService h e ds s = child_append (child_seq steps)
      (child_append att (ExpandArgsAndExecv e (sv_args s) (sv_sigstop s)))"
    and steps: "steps = [fatal_unless (namespaces_ok e) ''failed to set up namespaces''
             [EnterNamespaces (sv_namespaces s) (sv_mount_namespace s)],
           (map (\<lambda>(k, v). Setenv k v) (sv_once_environment_vars s) @
            map (\<lambda>(k, v). Setenv k v) (sv_environment_vars s) @
            map Publish ds @ [WritePidToFiles (sv_writepid_files s)], None),
           ([], case cgroups_byte e of
                  Inl err \<Rightarrow> Some ''value of a failed result''
                | Inr b \<Rightarrow> if b = kCgroupsActivated then None
                           else Some ''failed to start due to a fatal error''),
           (if sv_task_profiles s \<noteq> []
            then [if child_vendor_api e < 34 then SetTaskProfiles (sv_task_profiles s)
                  else SetOwnProcessProfiles (sv_task_profiles s)]
            else [], None)]"
    and attrs: "att = SetProcessAttributesAndCaps h e s"
    by (simp add: RunService_def)
  obtain es1 b1 where c1: "child_seq steps = (es1, b1)" by fastforce
  obtain es2 b2 where c2: "att = (es2, b2)" by fastforce
  obtain es3 b3 where c3: "ExpandArgsAndExecv e (sv_args s) (sv_sigstop s) = (es3, b3)" by fastforce
  have no1: "Execv argv \<notin> set es1"
    by (rule child_seq_no_exec [OF c1]) (auto simp: steps fatal_unless_def)
  have no2: "Execv argv \<notin> set es2"
    using SetProcessAttributesAndCaps_no_exec [of argv h e s] c2 attrs by simp
  have alive: "b1" "b2"
    using assms no1 no2 run c1 c2 c3
    by (auto simp: child_main_def child_append_def split: if_splits)
  note a1 = child_seq_alive [OF c1 [unfolded alive(1) [THEN eqTrueI]]]
  have ns: "namespaces_ok e" "cgroups_byte e = Inr kCgroupsActivated"
    "EnterNamespaces (sv_namespaces s) (sv_mount_namespace s) \<in> set es1"
    using a1 by (auto simp: steps fatal_unless_def split: if_splits sum.splits)
  note a2 = SetProcessAttributesAndCaps_alive [of h e s es2]
  have main: "child_main h e ds s = es1 @ es2 @ es3 @ (if b3 then [Exit 127] else [])"
    using run c1 c2 c3 alive by (simp add: child_main_def child_append_def)
  then have "Execv argv \<in> set es3" using assms no1 no2 by (auto split: if_splits)
  note ex = ExpandArgsAndExecv_exec [OF c3 this]
  obtain stop where e3: "es3 = stop @ [Execv argv]" using ex(1) ..
  have "child_main h e ds s = (es1 @ es2 @ stop) @ Execv argv # (if b3 then [Exit 127] else [])"
    using main e3 by simp
  with ns ex(2) a2 c2 attrs alive(2) show ?thesis
    by (intro conjI exI [of _ "es1 @ es2 @ stop"] exI [of _ "if b3 then [Exit 127] else []"])
       (auto split: option.splits)
qed


definition demo_child :: child_env where
  "demo_child = \<lparr>namespaces_ok = True, cgroups_byte = Inr kCgroupsActivated, child_vendor_api = 34,
     get_securebits = 0, set_securebits_ok = True, attributes_ok = True, setexeccon_ok = True,
     caps_ok = True, drop_caps_ok = True, ExpandProps = Some, execv_ok = True\<rparr>"

theorem service_child_exec_witness:
  "\<exists>pre post. child_main std_h demo_child [] demo_service = pre @ Execv [''/system/bin/adbd''] # post \<and>
     SetProcessAttributes demo_attr \<in> set pre \<and> Setexeccon ''u:r:adbd:s0'' \<in> set pre \<and>
     DropInheritableCaps \<in> set pre"
proof -
  have "Execv [''/system/bin/adbd''] \<in> set (child_main std_h demo_child [] demo_service)"
    by (simp add: child_main_def RunService_def child_append_def fatal_unless_def
        SetProcessAttributesAndCaps_def ExpandArgsAndExecv_def demo_child_def demo_defs)
  from service_child_exec [OF this] obtain pre post where
      "child_main std_h demo_child [] demo_service = pre @ Execv [''/system/bin/adbd''] # post"
      "SetProcessAttributes (sv_proc_attr demo_service) \<in> set pre"
      "sv_seclabel demo_service \<noteq> [] \<longrightarrow> Setexeccon (sv_seclabel demo_service) \<in> set pre"
      "sv_capabilities demo_service = None \<longrightarrow> uid std_h demo_service \<noteq> 0 \<longrightarrow> DropInheritableCaps \<in> set pre"
    by (auto simp del: set_append split: option.splits)
  moreover have "sv_proc_attr demo_service = demo_attr" "sv_seclabel demo_service = ''u:r:adbd:s0''"
    "sv_capabilities demo_service = None" "uid std_h demo_service = 1000"
    by (simp_all add: demo_service_def std_h_def demo_attr_def)
  ultimately show ?thesis by (intro exI [of _ pre] exI [of _ post]) simp
qed

text \<open>
  A console service on a device that switched the serial console off (\<open>ro.boot.serialconsole\<close> is
  0): the check marks it disabled but reports success, and the start goes on and runs it.
\<close>

lemma serialconsole_off_still_starts:
  "\<exists>w'. Start std_h (demo_start\<lparr>kprop := \<lambda>k. if k = ''ro.boot.serialconsole'' then ''0'' else []\<rparr>)
      (demo_world {SVC_CONSOLE} 0 0) = (None, w') \<and>
    has w' SVC_RUNNING \<and> has w' SVC_DISABLED \<and> sv_pid (svc w') = 321"
  by (simp add: Start_def reboot_on_failure_def start_body_def Let_def ResetFlagsForStart_def
      start_checked_def CheckConsole_def start_parent_def start_record_def start_cgroups_def
      start_handover_def NotifyStateChange_def create_descriptors_def SetMountNamespace_def
      use_memcg_def svc_frame demo_defs)

section \<open>Temporary services\<close>

lemma command_arg_marker:
  assumes "''--'' \<notin> set pre"
  shows "command_arg (x # pre @ ''--'' # cmd) = length pre + 2"
proof -
  let ?args = "x # pre @ ''--'' # cmd"
  have "[1 ..< length ?args] = [1 ..< Suc (length pre)] @ Suc (length pre) # [Suc (Suc (length pre)) ..< length ?args]"
    using upt_add_eq_append [of 1 "Suc (length pre)" "Suc (length cmd)"]
    by (simp add: upt_conv_Cons del: upt_Suc)
  moreover have "dropWhile (\<lambda>i. ?args ! i \<noteq> ''--'') ([1 ..< Suc (length pre)] @ r) =
      dropWhile (\<lambda>i. ?args ! i \<noteq> ''--'') r" for r
  proof (rule dropWhile_append2)
    fix i assume "i \<in> set [1 ..< Suc (length pre)]"
    then have "?args ! i = pre ! (i - 1)" "i - 1 < length pre"
      by (auto simp: nth_Cons' nth_append)
    then show "?args ! i \<noteq> ''--''" using assms by (metis nth_mem)
  qed
  ultimately show ?thesis by (simp add: command_arg_def nth_append del: upt_Suc)
qed

lemma decode_gids_ok:
  "list_all2 (\<lambda>a g. DecodeUid a = Some g) as gs \<Longrightarrow> decode_gids DecodeUid as = Inr gs"
  by (induction rule: list_all2_induct) simp_all

text \<open>
  an \<open>exec\<close> command line with a security label, a user, a group,
  supplementary groups, \<open>--\<close> and a command yields a temporary oneshot service that runs exactly the
  words after the first \<open>--\<close> under that user, group, groups and label (a single dash means no label),
  as long as there are fewer supplementary groups than the limit.
\<close>

theorem exec_service_arguments:
  assumes "''--'' \<notin> set (lbl # us # gs # sups)" and "cmd \<noteq> []"
    and "length sups < NR_SVC_SUPP_GIDS h"
    and "DecodeUid us = Some u" and "DecodeUid gs = Some g"
    and "list_all2 (\<lambda>a i. DecodeUid a = Some i) sups gids"
  shows "\<exists>s. MakeTemporaryOneshotService h d lb DecodeUid n (x # (lbl # us # gs # sups) @ ''--'' # cmd) =
      (Inr s, n + 1) \<and>
    sv_args s = cmd \<and> sv_flags s = {SVC_ONESHOT, SVC_TEMPORARY} \<and>
    parsed_uid (sv_proc_attr s) = Some u \<and> gid (sv_proc_attr s) = g \<and>
    supp_gids (sv_proc_attr s) = gids \<and> sv_seclabel s = (if lbl = ''-'' then [] else lbl) \<and>
    sv_pid s = 0"
proof -
  let ?args = "x # (lbl # us # gs # sups) @ ''--'' # cmd"
  have ca: "command_arg ?args = length sups + 5"
    using command_arg_marker [OF assms(1), of x cmd] by simp
  have "take (length sups) (drop 4 ?args) = sups" "drop (length sups + 5) ?args = cmd"
    by (simp_all add: eval_nat_numeral)
  with ca assms decode_gids_ok [OF assms(6)] show ?thesis
    by (simp add: MakeTemporaryOneshotService_def Let_def make_Service_def)
qed

theorem exec_service_arguments_witness:
  "\<exists>s. MakeTemporaryOneshotService std_h demo_service std_libbase
      (\<lambda>a. if a = ''root'' then Some 0 else if a = ''log'' then Some 1007 else None) 0
      [''exec'', ''-'', ''root'', ''log'', ''log'', ''--'', ''/bin/a'', ''--''] = (Inr s, 1) \<and>
    sv_args s = [''/bin/a'', ''--''] \<and> supp_gids (sv_proc_attr s) = [1007]"
  using exec_service_arguments [where lbl = "''-''" and us = "''root''" and gs = "''log''" and
      sups = "[''log'']" and cmd = "[''/bin/a'', ''--'']" and h = std_h and u = 0 and g = 1007 and
      gids = "[1007]" and d = demo_service and lb = std_libbase and n = 0 and x = "''exec''" and
      DecodeUid = "\<lambda>a. if a = ''root'' then Some 0 else if a = ''log'' then Some 1007 else None"]
  by (auto simp: std_h_def)

lemma exec_service_gids_bound:
  assumes "MakeTemporaryOneshotService h d lb DecodeUid n args = (Inr s, m)"
  shows "length (supp_gids (sv_proc_attr s)) \<le> NR_SVC_SUPP_GIDS h - 1"
proof -
  have "decode_gids DecodeUid as = Inr gs \<Longrightarrow> length gs = length as" for as gs
    by (induction as arbitrary: gs) (auto split: option.splits sum.splits)
  with assms show ?thesis
    by (auto simp: MakeTemporaryOneshotService_def Let_def make_Service_def
        split: if_splits option.splits sum.splits)
qed

lemma MarkSocketPersistent_found:
  "snd (MarkSocketPersistent nm s) \<longleftrightarrow> nm \<in> so_name ` set (sv_sockets s)"
proof -
  have "snd (mark_persistent nm ss) \<longleftrightarrow> nm \<in> so_name ` set ss" for ss
    by (induction ss) (auto split: prod.splits)
  from this [of "sv_sockets s"] show ?thesis
    by (auto simp: MarkSocketPersistent_def split: prod.splits)
qed

end
