(* ===== verification/Init_Parser.thy ===== *)
theory Init_Parser
  imports Libbase "HOL-Library.List_Lexorder" "HOL-Library.Char_ord" "HOL-Library.Multiset"
begin

text \<open>
  Model of \<open>parser.cpp\<close>, the driver of init's configuration language
  (\<open>src/research/aosp-src/parser.cpp\<close>).  The tokenizer, \<open>next_token\<close>, is not part of the repository:
  the model takes the sequence of tokens that it yields before \<open>T_EOF\<close>, each with the number of lines
  that the tokenizer itself skipped.  The section parsers are objects with four virtual methods; here
  they are records of functions on a state type \<open>'s\<close> that all parsers share.  The locale
  \<open>section_contract\<close> is what a client may ask of the parsers: methods that keep an invariant.
\<close>

datatype token = T_NEWLINE | T_TEXT string

text \<open>The boolean of a method tells whether its \<open>Result\<close> is ok.\<close>

record 's section_parser =
  ParseSection :: "string list \<Rightarrow> string \<Rightarrow> nat \<Rightarrow> 's \<Rightarrow> bool \<times> 's"
  ParseLineSection :: "string list \<Rightarrow> nat \<Rightarrow> 's \<Rightarrow> bool \<times> 's"
  EndSection :: "'s \<Rightarrow> bool \<times> 's"
  EndFile :: "'s \<Rightarrow> 's"

type_synonym 's line_callback = "string list \<Rightarrow> 's \<Rightarrow> bool \<times> 's"

record 's parser =
  section_parsers :: "(string \<times> 's section_parser) list"
  line_callbacks :: "(string \<times> 's line_callback) list"

text \<open>\<open>section_parsers_\<close> is a \<open>std::map\<close>: one entry for each key, iterated in key order.\<close>

definition AddSectionParser :: "string \<Rightarrow> 's section_parser \<Rightarrow> 's parser \<Rightarrow> 's parser" where
  "AddSectionParser name sp p =
     p\<lparr>section_parsers :=
         sort_key fst ((name, sp) # filter (\<lambda>(n, _). n \<noteq> name) (section_parsers p))\<rparr>"

definition AddSingleLineParser :: "string \<Rightarrow> 's line_callback \<Rightarrow> 's parser \<Rightarrow> 's parser" where
  "AddSingleLineParser pre callback p = p\<lparr>line_callbacks := line_callbacks p @ [(pre, callback)]\<rparr>"

section \<open>Parsing one file\<close>

record 's pstate =
  ps_line :: nat
  ps_args :: "string list"
  ps_section :: "'s section_parser option"
  ps_start_line :: int
  ps_bad :: bool
  ps_errors :: nat
  ps_user :: 's

definition count_error :: "bool \<Rightarrow> 's pstate \<Rightarrow> 's pstate" where
  "count_error ok st = (if ok then st else st\<lparr>ps_errors := ps_errors st + 1\<rparr>)"

definition end_section :: "'s pstate \<Rightarrow> 's pstate" where
  "end_section st =
     (let st = st\<lparr>ps_bad := False\<rparr>
      in case ps_section st of
           None \<Rightarrow> st
         | Some sp \<Rightarrow>
             (case EndSection sp (ps_user st) of
                (ok, u) \<Rightarrow> (count_error ok (st\<lparr>ps_user := u\<rparr>))
                             \<lparr>ps_section := None, ps_start_line := -1\<rparr>))"

text \<open>A complete line that is not empty; \<open>args.clear()\<close> is in \<open>next_step\<close>.\<close>

definition handle_line :: "libbase \<Rightarrow> 's parser \<Rightarrow> string \<Rightarrow> string list \<Rightarrow> 's pstate \<Rightarrow> 's pstate" where
  "handle_line lb p filename args st =
     (case find (\<lambda>(pre, _). StartsWith lb (hd args) pre) (line_callbacks p) of
        Some (_, callback) \<Rightarrow>
          (let st = end_section st
           in case callback args (ps_user st) of (ok, u) \<Rightarrow> count_error ok (st\<lparr>ps_user := u\<rparr>))
      | None \<Rightarrow>
          (case map_of (section_parsers p) (hd args) of
             Some sp \<Rightarrow>
               (let st = (end_section st)\<lparr>ps_section := Some sp, ps_start_line := int (ps_line st)\<rparr>
                in case ParseSection sp args filename (ps_line st) (ps_user st) of
                     (ok, u) \<Rightarrow>
                       (let st = count_error ok (st\<lparr>ps_user := u\<rparr>)
                        in if ok then st else st\<lparr>ps_section := None, ps_bad := True\<rparr>))
           | None \<Rightarrow>
               (case ps_section st of
                  Some sp \<Rightarrow>
                    (case ParseLineSection sp args (ps_line st) (ps_user st) of
                       (ok, u) \<Rightarrow> count_error ok (st\<lparr>ps_user := u\<rparr>))
                | None \<Rightarrow> count_error (ps_bad st) st)))"

definition next_step :: "libbase \<Rightarrow> 's parser \<Rightarrow> string \<Rightarrow> nat \<times> token \<Rightarrow> 's pstate \<Rightarrow> 's pstate" where
  "next_step lb p filename t st =
     (let st = st\<lparr>ps_line := ps_line st + fst t\<rparr>
      in case snd t of
           T_TEXT txt \<Rightarrow> st\<lparr>ps_args := ps_args st @ [txt]\<rparr>
         | T_NEWLINE \<Rightarrow>
             (let st = st\<lparr>ps_line := ps_line st + 1\<rparr>
              in if ps_args st = [] then st
                 else (handle_line lb p filename (ps_args st) st)\<lparr>ps_args := []\<rparr>))"

definition end_file :: "'s parser \<Rightarrow> 's pstate \<Rightarrow> 's pstate" where
  "end_file p st =
     (let st = end_section st
      in st\<lparr>ps_user := fold (\<lambda>(_, sp). EndFile sp) (section_parsers p) (ps_user st)\<rparr>)"

definition initial_pstate :: "'s \<Rightarrow> 's pstate" where
  "initial_pstate u =
     \<lparr>ps_line = 0, ps_args = [], ps_section = None, ps_start_line = -1, ps_bad = False,
      ps_errors = 0, ps_user = u\<rparr>"

text \<open>
  \<open>ParseData\<close> on the tokens of a file: the new state of the parsers and the number of errors that
  this file adds to \<open>parse_error_count_\<close>.
\<close>

definition ParseData :: "libbase \<Rightarrow> 's parser \<Rightarrow> string \<Rightarrow> (nat \<times> token) list \<Rightarrow> 's \<Rightarrow> nat \<times> 's" where
  "ParseData lb p filename toks u =
     (let st = end_file p (fold (next_step lb p filename) toks (initial_pstate u))
      in (ps_errors st, ps_user st))"

section \<open>Files and directories\<close>

text \<open>
  The parsers' state with the error counter.  \<open>read_file\<close> is \<open>ReadFile\<close> and \<open>tokenize\<close> the
  tokenizer; the source appends a newline and a NUL before it tokenizes.
\<close>

record penv =
  read_file :: "string \<Rightarrow> string option"
  read_file_insecure :: "string \<Rightarrow> bool \<Rightarrow> string option"
  tokenize :: "string \<Rightarrow> (nat \<times> token) list"
  open_dir :: "string \<Rightarrow> (bool \<times> string) list option"
  is_dir :: "string \<Rightarrow> bool"

definition parse_contents ::
    "libbase \<Rightarrow> 's parser \<Rightarrow> 'e penv_scheme \<Rightarrow> string \<Rightarrow> string \<Rightarrow> nat \<times> 's \<Rightarrow> nat \<times> 's" where
  "parse_contents lb p e path contents cu =
     (case ParseData lb p path (tokenize e (contents @ [CHR ''\<newline>'', CHR 0x00])) (snd cu) of
        (n, u) \<Rightarrow> (fst cu + n, u))"

definition ParseConfigFileInsecure ::
    "libbase \<Rightarrow> 's parser \<Rightarrow> 'e penv_scheme \<Rightarrow> string \<Rightarrow> bool \<Rightarrow> nat \<times> 's \<Rightarrow> bool \<times> nat \<times> 's" where
  "ParseConfigFileInsecure lb p e path follow_symlinks cu =
     (case read_file_insecure e path follow_symlinks of
        None \<Rightarrow> (False, cu)
      | Some contents \<Rightarrow> (True, parse_contents lb p e path contents cu))"

definition ParseConfigFile ::
    "libbase \<Rightarrow> 's parser \<Rightarrow> 'e penv_scheme \<Rightarrow> string \<Rightarrow> nat \<times> 's \<Rightarrow> bool \<times> nat \<times> 's" where
  "ParseConfigFile lb p e path cu =
     (case read_file e path of
        None \<Rightarrow> (False, cu)
      | Some contents \<Rightarrow> (True, parse_contents lb p e path contents cu))"

text \<open>\<open>open_dir\<close> lists the entries, each with whether it is a regular file.\<close>

definition config_files :: "string \<Rightarrow> (bool \<times> string) list \<Rightarrow> string list" where
  "config_files path entries = sort (map (\<lambda>(_, n). path @ ''/'' @ n) (filter fst entries))"

definition ParseConfigDir ::
    "libbase \<Rightarrow> 's parser \<Rightarrow> 'e penv_scheme \<Rightarrow> string \<Rightarrow> nat \<times> 's \<Rightarrow> bool \<times> nat \<times> 's" where
  "ParseConfigDir lb p e path cu =
     (case open_dir e path of
        None \<Rightarrow> (False, cu)
      | Some entries \<Rightarrow>
          (True, fold (\<lambda>f cu. snd (ParseConfigFile lb p e f cu)) (config_files path entries) cu))"

definition ParseConfig ::
    "libbase \<Rightarrow> 's parser \<Rightarrow> 'e penv_scheme \<Rightarrow> string \<Rightarrow> nat \<times> 's \<Rightarrow> bool \<times> nat \<times> 's" where
  "ParseConfig lb p e path cu =
     (if is_dir e path then ParseConfigDir lb p e path cu else ParseConfigFile lb p e path cu)"

lemma end_section_line [simp]: "ps_line (end_section st) = ps_line st"
  by (simp add: end_section_def Let_def count_error_def split: option.split prod.split)

section \<open>Clients of the section parsers\<close>

text \<open>
  A property \<open>inv\<close> of the shared state that all methods of all registered parsers and all line
  callbacks keep holds after every file, directory and configuration tree, whatever it contains.
\<close>

locale section_contract =
  fixes p :: "'s parser" and inv :: "'s \<Rightarrow> bool"
  assumes section_keeps: "(n, sp) \<in> set (section_parsers p) \<Longrightarrow> inv u \<Longrightarrow> inv (snd (ParseSection sp args fn ln u))"
    and line_keeps: "(n, sp) \<in> set (section_parsers p) \<Longrightarrow> inv u \<Longrightarrow> inv (snd (ParseLineSection sp args ln u))"
    and end_keeps: "(n, sp) \<in> set (section_parsers p) \<Longrightarrow> inv u \<Longrightarrow> inv (snd (EndSection sp u))"
    and file_keeps: "(n, sp) \<in> set (section_parsers p) \<Longrightarrow> inv u \<Longrightarrow> inv (EndFile sp u)"
    and callback_keeps: "(pre, cb) \<in> set (line_callbacks p) \<Longrightarrow> inv u \<Longrightarrow> inv (snd (cb args u))"
begin

definition good :: "'s pstate \<Rightarrow> bool" where
  "good st \<longleftrightarrow> inv (ps_user st) \<and>
     (case ps_section st of None \<Rightarrow> True | Some sp \<Rightarrow> \<exists>n. (n, sp) \<in> set (section_parsers p))"

lemma good_count_error: "good (count_error ok st) = good st"
  by (simp add: good_def count_error_def)

lemma good_end_section: "good st \<Longrightarrow> good (end_section st)"
  by (auto simp: good_def end_section_def Let_def count_error_def split: option.splits prod.splits
      dest: end_keeps)

lemma good_handle_line:
  assumes "good st"
  shows "good (handle_line lb p filename args st)"
proof (cases "find (\<lambda>(pre, _). StartsWith lb (hd args) pre) (line_callbacks p)")
  case (Some c)
  then obtain pre cb where c: "c = (pre, cb)" "(pre, cb) \<in> set (line_callbacks p)"
    by (metis find_Some_iff nth_mem prod.exhaust)
  have "inv (ps_user (end_section st))" using good_end_section [OF assms] by (simp add: good_def)
  then have "inv (snd (cb args (ps_user (end_section st))))" using c(2) by (rule callback_keeps [rotated])
  with good_end_section [OF assms] Some c(1) show ?thesis
    by (auto simp: handle_line_def Let_def good_count_error split: prod.splits) (auto simp: good_def)
next
  case None
  note no_cb = this
  show ?thesis
  proof (cases "map_of (section_parsers p) (hd args)")
    case (Some sp)
    then have mem: "(hd args, sp) \<in> set (section_parsers p)" by (rule map_of_SomeD)
    have "inv (ps_user (end_section st))" using good_end_section [OF assms] by (simp add: good_def)
    then have "inv (snd (ParseSection sp args filename (ps_line st) (ps_user (end_section st))))"
      using mem by (rule section_keeps [rotated])
    with no_cb Some mem show ?thesis
      by (auto simp: handle_line_def Let_def count_error_def good_def split: prod.splits)
  next
    case None
    show ?thesis
    proof (cases "ps_section st")
      case None
      with no_cb \<open>map_of (section_parsers p) (hd args) = None\<close> assms show ?thesis
        by (simp add: handle_line_def good_count_error)
    next
      case (Some sp)
      then obtain n where "(n, sp) \<in> set (section_parsers p)" using assms by (auto simp: good_def)
      from line_keeps [OF this, of "ps_user st" args "ps_line st"] assms
      have "inv (snd (ParseLineSection sp args (ps_line st) (ps_user st)))" by (simp add: good_def)
      with no_cb None Some assms show ?thesis
        by (auto simp: handle_line_def good_def count_error_def split: prod.splits)
    qed
  qed
qed

lemma good_next_step: "good st \<Longrightarrow> good (next_step lb p filename t st)"
  using good_handle_line [of "st\<lparr>ps_line := ps_line st + fst t + 1\<rparr>" lb filename "ps_args st"]
  by (auto simp: next_step_def Let_def good_def split: token.splits)

lemma good_fold: "good st \<Longrightarrow> good (fold (next_step lb p filename) toks st)"
  by (induction toks arbitrary: st) (auto intro: good_next_step)

lemma end_files_keep: "set ps \<subseteq> set (section_parsers p) \<Longrightarrow> inv u \<Longrightarrow> inv (fold (\<lambda>(_, sp). EndFile sp) ps u)"
  by (induction ps arbitrary: u) (auto intro: file_keeps)

lemma ParseData_keeps: "inv u \<Longrightarrow> inv (snd (ParseData lb p filename toks u))"
proof -
  assume "inv u"
  then have "good (initial_pstate u)" by (simp add: good_def initial_pstate_def)
  then have "good (end_section (fold (next_step lb p filename) toks (initial_pstate u)))"
    by (intro good_end_section good_fold)
  then show ?thesis by (simp add: ParseData_def end_file_def Let_def good_def end_files_keep)
qed

lemma ParseConfigFile_keeps: "inv (snd cu) \<Longrightarrow> inv (snd (snd (ParseConfigFile lb p e path cu)))"
  using ParseData_keeps [of "snd cu" lb path]
  by (auto simp: ParseConfigFile_def parse_contents_def split: option.splits prod.splits) (metis snd_conv)

lemma ParseConfig_keeps: "inv (snd cu) \<Longrightarrow> inv (snd (snd (ParseConfig lb p e path cu)))"
proof -
  have "inv (snd cu) \<Longrightarrow> inv (snd (fold (\<lambda>f cu. snd (ParseConfigFile lb p e f cu)) fs cu))" for fs cu
  proof (induction fs arbitrary: cu)
    case (Cons f fs)
    from Cons.IH [OF ParseConfigFile_keeps [OF Cons.prems]] show ?case by simp
  qed simp
  then show "inv (snd cu) \<Longrightarrow> inv (snd (snd (ParseConfig lb p e path cu)))"
    by (auto simp: ParseConfig_def ParseConfigDir_def intro: ParseConfigFile_keeps split: option.splits)
qed

end

section \<open>Lines\<close>

text \<open>
  The token loop is a loop over lines: a text whose tokens are the words of some lines is processed
  line by line, blank lines skipped and the line counter advanced once for each line.
\<close>

definition line_tokens :: "string list \<Rightarrow> (nat \<times> token) list" where
  "line_tokens ws = map (\<lambda>w. (0, T_TEXT w)) ws @ [(0, T_NEWLINE)]"

definition process_line :: "libbase \<Rightarrow> 's parser \<Rightarrow> string \<Rightarrow> string list \<Rightarrow> 's pstate \<Rightarrow> 's pstate" where
  "process_line lb p filename ws st =
     (let st = st\<lparr>ps_line := ps_line st + 1\<rparr>
      in if ws = [] then st else handle_line lb p filename ws st)"

lemma fold_words:
  "fold (next_step lb p filename) (map (\<lambda>w. (0, T_TEXT w)) ws) st = st\<lparr>ps_args := ps_args st @ ws\<rparr>"
  by (induction ws arbitrary: st) (simp_all add: next_step_def)

lemma end_section_args [simp]: "ps_args (end_section st) = ps_args st"
  by (simp add: end_section_def Let_def count_error_def split: option.split prod.split)

lemma end_section_upd [simp]: "end_section (st\<lparr>ps_args := a\<rparr>) = (end_section st)\<lparr>ps_args := a\<rparr>"
  by (simp add: end_section_def Let_def count_error_def split: option.split prod.split)

lemma handle_line_upd:
  "handle_line lb p filename ws (st\<lparr>ps_args := a\<rparr>) = (handle_line lb p filename ws st)\<lparr>ps_args := a\<rparr>"
  by (auto simp: handle_line_def Let_def count_error_def split: option.split prod.split)

lemma handle_line_args: "ps_args (handle_line lb p filename ws st) = ps_args st"
  by (auto simp: handle_line_def Let_def count_error_def split: option.split prod.split)

lemma fold_line:
  assumes "ps_args st = []"
  shows "fold (next_step lb p filename) (line_tokens ws) st = process_line lb p filename ws st \<and>
    ps_args (process_line lb p filename ws st) = []"
proof -
  have same: "x\<lparr>ps_args := []\<rparr> = x" if "ps_args x = []" for x :: "'a pstate"
    using that by (cases x) simp
  let ?st = "st\<lparr>ps_line := Suc (ps_line st)\<rparr>"
  have "ps_args (handle_line lb p filename ws ?st) = []" using assms by (simp add: handle_line_args)
  moreover have "handle_line lb p filename ws (st\<lparr>ps_args := ws, ps_line := Suc (ps_line st)\<rparr>) =
      (handle_line lb p filename ws ?st)\<lparr>ps_args := ws\<rparr>"
    using handle_line_upd [where st = ?st and a = ws] by (metis pstate.update_convs(1,2) pstate.cases)
  ultimately show ?thesis
    using assms same
    by (simp add: line_tokens_def fold_words next_step_def process_line_def Let_def handle_line_args)
qed

lemma fold_lines:
  "ps_args st = [] \<Longrightarrow>
   fold (next_step lb p filename) (concat (map line_tokens ls)) st =
   fold (process_line lb p filename) ls st"
proof (induction ls arbitrary: st)
  case (Cons l ls)
  then show ?case using fold_line [of st lb p filename l] by simp
qed simp

text \<open>
  Parsing the tokens of a sequence of lines is the same as handling the lines
  one after the other (skipping the blank ones), then closing the open section and telling every
  parser that the file ended.
\<close>

theorem parse_data_lines:
  "ParseData lb p filename (concat (map line_tokens ls)) u =
     (let st = end_file p (fold (process_line lb p filename) ls (initial_pstate u))
      in (ps_errors st, ps_user st))"
  using fold_lines [of "initial_pstate u" lb p filename ls]
  by (simp add: ParseData_def initial_pstate_def)

text \<open>
  After a section header that its parser rejects, the lines up to the next
  section keyword or callback line change nothing: they neither reach a parser nor add errors, so a
  bad section is reported exactly once.
\<close>

theorem parse_bad_section:
  assumes "find (\<lambda>(pre, _). StartsWith lb (hd hdr) pre) (line_callbacks p) = None"
    and "map_of (section_parsers p) (hd hdr) = Some sp"
    and "fst (ParseSection sp hdr filename (ps_line st) (ps_user (end_section st))) = False"
    and "list_all (\<lambda>ws. ws = [] \<or>
      find (\<lambda>(pre, _). StartsWith lb (hd ws) pre) (line_callbacks p) = None \<and>
      map_of (section_parsers p) (hd ws) = None) ls"
  shows "let st1 = handle_line lb p filename hdr st; st2 = fold (process_line lb p filename) ls st1
    in ps_user st2 = ps_user st1 \<and> ps_errors st2 = ps_errors st1 \<and>
       ps_errors st1 = ps_errors (end_section st) + 1"
proof -
  let ?st1 = "handle_line lb p filename hdr st"
  have st1: "ps_section ?st1 = None" "ps_bad ?st1" "ps_errors ?st1 = ps_errors (end_section st) + 1"
    using assms(1-3) by (auto simp: handle_line_def Let_def count_error_def split: prod.splits)
  have "ps_section x = None \<Longrightarrow> ps_bad x \<Longrightarrow>
      ps_user (fold (process_line lb p filename) ls x) = ps_user x \<and>
      ps_errors (fold (process_line lb p filename) ls x) = ps_errors x" for x
    using assms(4)
  proof (induction ls arbitrary: x)
    case (Cons l ls)
    from Cons.prems have "process_line lb p filename l x = x\<lparr>ps_line := ps_line x + 1\<rparr>"
      by (auto simp: process_line_def Let_def handle_line_def count_error_def)
    with Cons show ?case by simp
  qed simp
  with st1 show ?thesis by (simp add: Let_def)
qed

text \<open>A parser for sections named \<open>s\<close> that counts lines and accepts headers of two words.\<close>

definition counting :: "nat section_parser" where
  "counting = \<lparr>ParseSection = (\<lambda>args _ _ n. (length args = 2, n)),
     ParseLineSection = (\<lambda>_ _ n. (True, n + 1)), EndSection = (\<lambda>n. (True, n)), EndFile = (\<lambda>n. n)\<rparr>"

definition counting_parser :: "nat parser" where
  "counting_parser = AddSectionParser ''s'' counting \<lparr>section_parsers = [], line_callbacks = []\<rparr>"

theorem parse_bad_section_witness:
  "ps_errors (fold (process_line std_libbase counting_parser ''f'') [[''x'', ''y''], [], [''z'']]
     (handle_line std_libbase counting_parser ''f'' [''s''] (initial_pstate 0))) = 1"
  using parse_bad_section [of std_libbase "[''s'']" counting_parser counting "''f''" "initial_pstate 0"
      "[[''x'', ''y''], [], [''z'']]"]
  by (simp add: counting_parser_def AddSectionParser_def counting_def initial_pstate_def
      end_section_def Let_def)

text \<open>
  the result of parsing a directory does not depend on the order in which the
  file system lists its entries.
\<close>

theorem parse_dir_order:
  assumes "open_dir e path = Some es" and "open_dir e' path = Some es'" and "mset es = mset es'"
    and "read_file e' = read_file e" and "tokenize e' = tokenize e"
  shows "ParseConfigDir lb p e' path cu = ParseConfigDir lb p e path cu"
proof -
  have "mset (map (\<lambda>(_, n). path @ ''/'' @ n) (filter fst es)) =
      mset (map (\<lambda>(_, n). path @ ''/'' @ n) (filter fst es'))"
    using assms(3) by simp
  then have "config_files path es' = config_files path es"
    unfolding config_files_def by (metis sorted_list_of_multiset_mset)
  moreover have "ParseConfigFile lb p e' f cu = ParseConfigFile lb p e f cu" for f cu
    using assms(4,5) by (simp add: ParseConfigFile_def parse_contents_def split: option.split)
  ultimately show ?thesis using assms(1,2) by (simp add: ParseConfigDir_def)
qed

definition demo_penv :: "(bool \<times> string) list \<Rightarrow> penv" where
  "demo_penv es = \<lparr>read_file = (\<lambda>f. Some f), read_file_insecure = (\<lambda>_ _. None),
     tokenize = (\<lambda>s. line_tokens [s]), open_dir = (\<lambda>_. Some es), is_dir = (\<lambda>_. True)\<rparr>"

theorem parse_dir_order_witness:
  "ParseConfigDir std_libbase counting_parser (demo_penv [(True, ''b''), (True, ''a'')]) ''d'' (0, 0) =
   ParseConfigDir std_libbase counting_parser (demo_penv [(True, ''a''), (True, ''b'')]) ''d'' (0, 0)"
  by (rule parse_dir_order [of _ _ "[(True, ''a''), (True, ''b'')]" _ "[(True, ''b''), (True, ''a'')]"])
     (simp_all add: demo_penv_def)

end
