(* ===== verification/Service_Parser.thy ===== *)
theory Service_Parser
  imports Service Init_Parser
begin

text \<open>
  Model of \<open>service_parser.cpp\<close>, the parser of \<open>service\<close> sections
  (\<open>src/research/aosp-src/service_parser.cpp\<close>).  Every option parser is one definition that takes the
  words of the line and the service under construction and returns the error, if any, with the
  service as the code leaves it (an option parser that fails half-way has already changed it).

  The helpers of other files (property expansion, user lookup, capabilities, rlimits, the keyword map
  and the service list) are fields of \<open>sp_env\<close> and \<open>slist\<close>; the locales \<open>keyword_laws\<close> and
  \<open>registry\<close> state what their documentation promises.
\<close>

section \<open>Environment\<close>

datatype sp_error =
    NoAmbientCaps | InvalidCapability string | UnsupportedCapability string | ConsoleAndKmsg
  | BadCriticalArgument string | CannotExpand string | BadCrashWindow | OnlyNetNamespace
  | OneNetNamespace | BadGid string | BadPriority | InterfaceRedefined string | BadIoprioValue
  | BadIoprioClass | DuplicateKeycode string | InvalidKeycode string | BadOnrestart | BadNamespace
  | BadOomScore | BadMemcgValue | BadRlimit | SecondRebootTarget | BadRebootTarget
  | BadRestartPeriod | BadShutdownOption | BadTimeoutPeriod | BadSocketType string
  | BadSocketDecoration string | BadPermissions string | BadUid string | DuplicateSocket string
  | BadFileType | RelativeFileName | DuplicateFile string | KeywordError | NoNameOrProgram
  | InvalidServiceName string | NoUser string | CriticalAndOneshot string
  | DuplicateService string | NotUpdatable string | TrebleBoundary string

type_synonym parsed = "sp_error option \<times> service"

record sp_env =
  lb :: libbase
  svc_h :: service_h
  service_defaults :: service
  socket_defaults :: socket_descriptor
  CapAmbientSupported :: bool
  GetLastValidCap :: nat
  LookupCap :: "string \<Rightarrow> int"
  expand_props :: "string \<Rightarrow> string option"
  DecodeUid :: "string \<Rightarrow> int option"
  priority_highest :: int
  priority_lowest :: int
  oom_min :: int
  oom_max :: int
  limit_type_max :: int
  KEY_MAX :: int
  AddCommand :: "string list \<Rightarrow> nat \<Rightarrow> bool"
  ParseRlimit :: "string list \<Rightarrow> (int \<times> u64 \<times> u64) option"
  vendor_version :: int
  IsLegalPropertyName :: "string \<Rightarrow> bool"
  subcontext :: "string option"
  PathMatchesSubcontext :: "string \<Rightarrow> bool"
  kAlwaysErrorUserRoot :: bool
  ro_vendor_api_level :: int

text \<open>Bits of the clone flags, and the length limit of property values.\<close>

abbreviation CLONE_NEWNS :: nat where "CLONE_NEWNS \<equiv> 17"
abbreviation CLONE_NEWPID :: nat where "CLONE_NEWPID \<equiv> 29"
abbreviation CLONE_NEWNET :: nat where "CLONE_NEWNET \<equiv> 30"
abbreviation PROP_VALUE_MAX :: nat where "PROP_VALUE_MAX \<equiv> 92"

definition ok :: "service \<Rightarrow> parsed" where
  "ok s = (None, s)"

definition err :: "sp_error \<Rightarrow> service \<Rightarrow> parsed" where
  "err e s = (Some e, s)"

definition upd_attr :: "(process_attributes \<Rightarrow> process_attributes) \<Rightarrow> service \<Rightarrow> service" where
  "upd_attr f s = s\<lparr>sv_proc_attr := f (sv_proc_attr s)\<rparr>"

definition add_flags :: "svc_flag set \<Rightarrow> service \<Rightarrow> service" where
  "add_flags fs s = s\<lparr>sv_flags := sv_flags s \<union> fs\<rparr>"

text \<open>\<open>ParseInt(s, &out, lo, hi)\<close> into a member: \<open>e\<close> when it fails.\<close>

definition parse_into ::
    "sp_env \<Rightarrow> string \<Rightarrow> int \<Rightarrow> int \<Rightarrow> sp_error \<Rightarrow> (int \<Rightarrow> service \<Rightarrow> service) \<Rightarrow> service \<Rightarrow> parsed" where
  "parse_into pe a lo hi e set_it s =
     (case ParseInt (lb pe) a lo hi of None \<Rightarrow> err e s | Some v \<Rightarrow> ok (set_it v s))"

section \<open>Options\<close>

fun parse_caps :: "sp_env \<Rightarrow> string list \<Rightarrow> nat set \<Rightarrow> sp_error option \<times> nat set" where
  "parse_caps pe [] caps = (None, caps)"
| "parse_caps pe (a # as) caps =
     (let res = LookupCap pe a in
      if res < 0 then (Some (InvalidCapability a), caps)
      else if nat res > GetLastValidCap pe then (Some (UnsupportedCapability a), caps)
      else parse_caps pe as (insert (nat res) caps))"

definition ParseCapabilities :: "sp_env \<Rightarrow> string list \<Rightarrow> service \<Rightarrow> parsed" where
  "ParseCapabilities pe args s =
     (if \<not> CapAmbientSupported pe then err NoAmbientCaps (s\<lparr>sv_capabilities := Some {}\<rparr>)
      else (case parse_caps pe (tl args) {} of
              (e, caps) \<Rightarrow> (e, s\<lparr>sv_capabilities := Some caps\<rparr>)))"

definition ParseClass :: "string list \<Rightarrow> service \<Rightarrow> parsed" where
  "ParseClass args s = ok (s\<lparr>sv_classnames := set (tl args)\<rparr>)"

definition ParseConsole :: "string list \<Rightarrow> service \<Rightarrow> parsed" where
  "ParseConsole args s =
     (if stdio_to_kmsg (sv_proc_attr s) then err ConsoleAndKmsg s
      else ok (upd_attr (\<lambda>p. p\<lparr>console := if length args > 1 then ''/dev/'' @ args ! 1 else []\<rparr>)
                 (add_flags {SVC_CONSOLE} s)))"

text \<open>
  The arguments of \<open>critical\<close>: the target and the window seen so far, or an early return (with an
  error, or without one for \<open>window=off\<close>).
\<close>

fun critical_args ::
    "sp_env \<Rightarrow> string list \<Rightarrow> string option \<Rightarrow> int option \<Rightarrow>
     (sp_error option, string option \<times> int option) result" where
  "critical_args pe [] target window = Inr (target, window)"
| "critical_args pe (a # as) target window =
     (let arg = Split (lb pe) a ''='' in
      if length arg \<noteq> 2 then Inl (Some (BadCriticalArgument a))
      else if arg ! 0 = ''target'' then critical_args pe as (Some (arg ! 1)) window
      else if arg ! 0 = ''window'' then
        (case expand_props pe (arg ! 1) of
           None \<Rightarrow> Inl (Some (CannotExpand (arg ! 1)))
         | Some w \<Rightarrow>
             if w = ''off'' then Inl None
             else (case ParseInt (lb pe) w 0 INT_MAX of
                     None \<Rightarrow> Inl (Some BadCrashWindow)
                   | Some minutes \<Rightarrow> critical_args pe as target (Some minutes)))
      else Inl (Some (BadCriticalArgument a)))"

definition ParseCritical :: "sp_env \<Rightarrow> string list \<Rightarrow> service \<Rightarrow> parsed" where
  "ParseCritical pe args s =
     (case critical_args pe (tl args) None None of
        Inl e \<Rightarrow> (e, s)
      | Inr (target, window) \<Rightarrow>
          (let s = (case target of None \<Rightarrow> s | Some t \<Rightarrow> s\<lparr>sv_fatal_reboot_target := Some t\<rparr>);
               s = (case window of None \<Rightarrow> s | Some m \<Rightarrow> s\<lparr>sv_fatal_crash_window := m\<rparr>)
           in ok (add_flags {SVC_CRITICAL} s)))"

definition ParseDisabled :: "string list \<Rightarrow> service \<Rightarrow> parsed" where
  "ParseDisabled args s = ok (add_flags {SVC_RC_DISABLED} (add_flags {SVC_DISABLED} s))"

definition ParseEnterNamespace :: "string list \<Rightarrow> service \<Rightarrow> parsed" where
  "ParseEnterNamespace args s =
     (if args ! 1 \<noteq> ''net'' then err OnlyNetNamespace s
      else if namespaces_to_enter (sv_namespaces s) \<noteq> [] then err OneNetNamespace s
      else ok (s\<lparr>sv_namespaces := (sv_namespaces s)
                 \<lparr>ns_flags := insert CLONE_NEWNS (ns_flags (sv_namespaces s)),
                  namespaces_to_enter := namespaces_to_enter (sv_namespaces s) @
                    [(CLONE_NEWNET, args ! 2)]\<rparr>\<rparr>))"

definition ParseGentleKill :: "string list \<Rightarrow> service \<Rightarrow> parsed" where
  "ParseGentleKill args s = ok (add_flags {SVC_GENTLE_KILL} s)"

fun add_supp_gids :: "sp_env \<Rightarrow> string list \<Rightarrow> service \<Rightarrow> parsed" where
  "add_supp_gids pe [] s = ok s"
| "add_supp_gids pe (a # as) s =
     (case DecodeUid pe a of
        None \<Rightarrow> err (BadGid a) s
      | Some g \<Rightarrow> add_supp_gids pe as (upd_attr (\<lambda>p. p\<lparr>supp_gids := supp_gids p @ [g]\<rparr>) s))"

definition ParseGroup :: "sp_env \<Rightarrow> string list \<Rightarrow> service \<Rightarrow> parsed" where
  "ParseGroup pe args s =
     (case DecodeUid pe (args ! 1) of
        None \<Rightarrow> err (BadGid (args ! 1)) s
      | Some g \<Rightarrow> add_supp_gids pe (drop 2 args) (upd_attr (\<lambda>p. p\<lparr>gid := g\<rparr>) s))"

definition ParsePriority :: "sp_env \<Rightarrow> string list \<Rightarrow> service \<Rightarrow> parsed" where
  "ParsePriority pe args s =
     parse_into pe (args ! 1) (priority_highest pe) (priority_lowest pe) BadPriority
       (\<lambda>v. upd_attr (\<lambda>p. p\<lparr>priority := v\<rparr>)) (upd_attr (\<lambda>p. p\<lparr>priority := 0\<rparr>) s)"

definition ParseInterface :: "service list \<Rightarrow> string list \<Rightarrow> service \<Rightarrow> parsed" where
  "ParseInterface svcs args s =
     (let fullname = args ! 1 @ ''/'' @ args ! 2 in
      if (\<exists>v \<in> set svcs. fullname \<in> sv_interfaces v) \<and> \<not> sv_override s
      then err (InterfaceRedefined fullname) s
      else ok (s\<lparr>sv_interfaces := insert fullname (sv_interfaces s)\<rparr>))"

definition ParseIoprio :: "sp_env \<Rightarrow> string list \<Rightarrow> service \<Rightarrow> parsed" where
  "ParseIoprio pe args s =
     (case ParseInt (lb pe) (args ! 2) 0 7 of
        None \<Rightarrow> err BadIoprioValue s
      | Some v \<Rightarrow>
          (let s = upd_attr (\<lambda>p. p\<lparr>ioprio_pri := v\<rparr>) s in
           if args ! 1 = ''rt'' then ok (upd_attr (\<lambda>p. p\<lparr>ioprio_class := IoSchedClass_RT\<rparr>) s)
           else if args ! 1 = ''be'' then ok (upd_attr (\<lambda>p. p\<lparr>ioprio_class := IoSchedClass_BE\<rparr>) s)
           else if args ! 1 = ''idle'' then ok (upd_attr (\<lambda>p. p\<lparr>ioprio_class := IoSchedClass_IDLE\<rparr>) s)
           else err BadIoprioClass s))"

text \<open>\<open>insert_upper\<close> inserts at \<open>std::upper_bound\<close>.\<close>

definition insert_upper :: "int \<Rightarrow> int list \<Rightarrow> int list" where
  "insert_upper code ks = takeWhile (\<lambda>k. k \<le> code) ks @ code # dropWhile (\<lambda>k. k \<le> code) ks"

fun add_keycodes :: "sp_env \<Rightarrow> string list \<Rightarrow> service \<Rightarrow> parsed" where
  "add_keycodes pe [] s = ok s"
| "add_keycodes pe (a # as) s =
     (case ParseInt (lb pe) a 0 (KEY_MAX pe) of
        None \<Rightarrow> err (InvalidKeycode a) s
      | Some code \<Rightarrow>
          if code \<in> set (sv_keycodes s) then err (DuplicateKeycode a) s
          else add_keycodes pe as (s\<lparr>sv_keycodes := insert_upper code (sv_keycodes s)\<rparr>))"

definition ParseKeycodes :: "sp_env \<Rightarrow> string list \<Rightarrow> service \<Rightarrow> parsed" where
  "ParseKeycodes pe args s =
     (if length args = 2 \<and> StartsWith (lb pe) (args ! 1) ''$''
      then (case expand_props pe (args ! 1) of
              None \<Rightarrow> err (CannotExpand (args ! 1)) s
            | Some x \<Rightarrow> if x = ''none'' then ok s else add_keycodes pe (Split (lb pe) x '','') s)
      else add_keycodes pe (tl args) s)"

definition ParseOneshot :: "string list \<Rightarrow> service \<Rightarrow> parsed" where
  "ParseOneshot args s = ok (add_flags {SVC_ONESHOT} s)"

definition ParseOnrestart :: "sp_env \<Rightarrow> string list \<Rightarrow> service \<Rightarrow> parsed" where
  "ParseOnrestart pe args s =
     (let args = tl args; line = length (sv_onrestart s) + 1 in
      if AddCommand pe args line then ok (s\<lparr>sv_onrestart := sv_onrestart s @ [args]\<rparr>)
      else err BadOnrestart s)"

fun add_namespaces :: "string list \<Rightarrow> service \<Rightarrow> parsed" where
  "add_namespaces [] s = ok s"
| "add_namespaces (a # as) s =
     (let add = (\<lambda>fs. s\<lparr>sv_namespaces := (sv_namespaces s)\<lparr>ns_flags := ns_flags (sv_namespaces s) \<union> fs\<rparr>\<rparr>) in
      if a = ''pid'' then add_namespaces as (add {CLONE_NEWPID, CLONE_NEWNS})
      else if a = ''mnt'' then add_namespaces as (add {CLONE_NEWNS})
      else err BadNamespace s)"

definition ParseNamespace :: "string list \<Rightarrow> service \<Rightarrow> parsed" where
  "ParseNamespace args s = add_namespaces (tl args) s"

definition ParseOomScoreAdjust :: "sp_env \<Rightarrow> string list \<Rightarrow> service \<Rightarrow> parsed" where
  "ParseOomScoreAdjust pe args s =
     parse_into pe (args ! 1) (oom_min pe) (oom_max pe) BadOomScore
       (\<lambda>v s. s\<lparr>sv_oom_score_adjust := v\<rparr>) s"

definition ParseOverride :: "string list \<Rightarrow> service \<Rightarrow> parsed" where
  "ParseOverride args s = ok (s\<lparr>sv_override := True\<rparr>)"

definition ParseSharedKallsyms :: "string list \<Rightarrow> service \<Rightarrow> parsed" where
  "ParseSharedKallsyms args s = ok (s\<lparr>sv_shared_kallsyms_file := True\<rparr>)"

definition ParseMemcgSwappiness :: "sp_env \<Rightarrow> string list \<Rightarrow> service \<Rightarrow> parsed" where
  "ParseMemcgSwappiness pe args s =
     parse_into pe (args ! 1) 0 INT_MAX BadMemcgValue (\<lambda>v s. s\<lparr>sv_swappiness := v\<rparr>) s"

definition ParseMemcgLimitInBytes :: "sp_env \<Rightarrow> string list \<Rightarrow> service \<Rightarrow> parsed" where
  "ParseMemcgLimitInBytes pe args s =
     parse_into pe (args ! 1) 0 (limit_type_max pe) BadMemcgValue (\<lambda>v s. s\<lparr>sv_limit_in_bytes := v\<rparr>) s"

definition ParseMemcgLimitPercent :: "sp_env \<Rightarrow> string list \<Rightarrow> service \<Rightarrow> parsed" where
  "ParseMemcgLimitPercent pe args s =
     parse_into pe (args ! 1) 0 INT_MAX BadMemcgValue (\<lambda>v s. s\<lparr>sv_limit_percent := v\<rparr>) s"

definition ParseMemcgLimitProperty :: "string list \<Rightarrow> service \<Rightarrow> parsed" where
  "ParseMemcgLimitProperty args s = ok (s\<lparr>sv_limit_property := args ! 1\<rparr>)"

definition ParseMemcgSoftLimitInBytes :: "sp_env \<Rightarrow> string list \<Rightarrow> service \<Rightarrow> parsed" where
  "ParseMemcgSoftLimitInBytes pe args s =
     parse_into pe (args ! 1) 0 (limit_type_max pe) BadMemcgValue
       (\<lambda>v s. s\<lparr>sv_soft_limit_in_bytes := v\<rparr>) s"

definition ParseProcessRlimit :: "sp_env \<Rightarrow> string list \<Rightarrow> service \<Rightarrow> parsed" where
  "ParseProcessRlimit pe args s =
     (case ParseRlimit pe args of
        None \<Rightarrow> err BadRlimit s
      | Some r \<Rightarrow> ok (upd_attr (\<lambda>p. p\<lparr>rlimits := rlimits p @ [r]\<rparr>) s))"

definition ParseRebootOnFailure :: "sp_env \<Rightarrow> string list \<Rightarrow> service \<Rightarrow> parsed" where
  "ParseRebootOnFailure pe args s =
     (if sv_on_failure_reboot_target s \<noteq> None then err SecondRebootTarget s
      else if \<not> StartsWith (lb pe) (args ! 1) ''shutdown'' \<and> \<not> StartsWith (lb pe) (args ! 1) ''reboot''
      then err BadRebootTarget s
      else ok (s\<lparr>sv_on_failure_reboot_target := Some (args ! 1)\<rparr>))"

definition ParseRestartPeriod :: "sp_env \<Rightarrow> string list \<Rightarrow> service \<Rightarrow> parsed" where
  "ParseRestartPeriod pe args s =
     parse_into pe (args ! 1) 0 INT_MAX BadRestartPeriod (\<lambda>v s. s\<lparr>sv_restart_period := v\<rparr>) s"

definition ParseSeclabel :: "string list \<Rightarrow> service \<Rightarrow> parsed" where
  "ParseSeclabel args s = ok (s\<lparr>sv_seclabel := args ! 1\<rparr>)"

definition ParseSigstop :: "string list \<Rightarrow> service \<Rightarrow> parsed" where
  "ParseSigstop args s = ok (s\<lparr>sv_sigstop := True\<rparr>)"

definition ParseSetenv :: "string list \<Rightarrow> service \<Rightarrow> parsed" where
  "ParseSetenv args s =
     ok (s\<lparr>sv_environment_vars := sv_environment_vars s @ [(args ! 1, args ! 2)]\<rparr>)"

definition ParseShutdown :: "string list \<Rightarrow> service \<Rightarrow> parsed" where
  "ParseShutdown args s =
     (if args ! 1 = ''critical'' then ok (add_flags {SVC_SHUTDOWN_CRITICAL} s)
      else err BadShutdownOption s)"

definition ParseTaskProfiles :: "string list \<Rightarrow> service \<Rightarrow> parsed" where
  "ParseTaskProfiles args s = ok (s\<lparr>sv_task_profiles := sv_task_profiles s @ tl args\<rparr>)"

definition ParseTimeoutPeriod :: "sp_env \<Rightarrow> string list \<Rightarrow> service \<Rightarrow> parsed" where
  "ParseTimeoutPeriod pe args s =
     parse_into pe (args ! 1) 1 INT_MAX BadTimeoutPeriod (\<lambda>v s. s\<lparr>sv_timeout_period := Some v\<rparr>) s"

text \<open>
  \<open>strtol(s, &end, 8)\<close>: leading white space, a sign, then octal digits.  The value, the text from
  \<open>end\<close> on (all of it when nothing was converted) and whether \<open>errno\<close> was set (out of range).
\<close>

definition is_space :: "char \<Rightarrow> bool" where
  "is_space c \<longleftrightarrow> c = CHR '' '' \<or> 9 \<le> (of_char c :: nat) \<and> (of_char c :: nat) \<le> 13"

definition is_octal :: "char \<Rightarrow> bool" where
  "is_octal c \<longleftrightarrow> 48 \<le> (of_char c :: nat) \<and> (of_char c :: nat) \<le> 55"

definition strtol8 :: "string \<Rightarrow> int \<times> string \<times> bool" where
  "strtol8 s =
     (let t = dropWhile is_space s;
          neg = (t \<noteq> [] \<and> hd t = CHR ''-'');
          u = (if t \<noteq> [] \<and> (hd t = CHR ''-'' \<or> hd t = CHR ''+'') then tl t else t);
          ds = takeWhile is_octal u;
          m = fold (\<lambda>c v. 8 * v + int (digit_val c)) ds 0;
          v = (if neg then - m else m)
      in if ds = [] then (0, s, False)
         else if v < INT64_MIN \<or> INT64_MAX < v
         then (if neg then INT64_MIN else INT64_MAX, drop (length ds) u, True)
         else (v, drop (length ds) u, False))"

fun socket_decorations :: "string list \<Rightarrow> socket_descriptor \<Rightarrow> (sp_error, socket_descriptor) result" where
  "socket_decorations [] so = Inr so"
| "socket_decorations (t # ts) so =
     (if t = ''passcred'' then socket_decorations ts (so\<lparr>so_passcred := True\<rparr>)
      else if t = ''listen'' then socket_decorations ts (so\<lparr>so_listen := True\<rparr>)
      else Inl (BadSocketDecoration t))"

text \<open>\<open>SOCK_STREAM\<close>, \<open>SOCK_DGRAM\<close> and \<open>SOCK_SEQPACKET\<close> are 1, 2 and 5.\<close>

definition socket_type :: "string list \<Rightarrow> socket_descriptor \<Rightarrow> (sp_error, socket_descriptor) result" where
  "socket_type types so =
     (if hd types = ''stream'' then socket_decorations (tl types) (so\<lparr>so_type := 1\<rparr>)
      else if hd types = ''dgram'' then socket_decorations (tl types) (so\<lparr>so_type := 2\<rparr>)
      else if hd types = ''seqpacket'' then socket_decorations (tl types) (so\<lparr>so_type := 5\<rparr>)
      else Inl (BadSocketType (hd types)))"

definition socket_owner :: "sp_env \<Rightarrow> string list \<Rightarrow> socket_descriptor \<Rightarrow> (sp_error, socket_descriptor) result" where
  "socket_owner pe args so =
     (case (if length args > 4 then DecodeUid pe (args ! 4) else Some (so_uid so)) of
        None \<Rightarrow> Inl (BadUid (args ! 4))
      | Some u \<Rightarrow>
          (case (if length args > 5 then DecodeUid pe (args ! 5) else Some (so_gid so)) of
             None \<Rightarrow> Inl (BadGid (args ! 5))
           | Some g \<Rightarrow>
               Inr (so\<lparr>so_uid := u, so_gid := g,
                       so_context := if length args > 6 then args ! 6 else []\<rparr>)))"

definition ParseSocket :: "sp_env \<Rightarrow> string list \<Rightarrow> service \<Rightarrow> parsed" where
  "ParseSocket pe args s =
     (case socket_type (Split (lb pe) (args ! 2) ''+'') ((socket_defaults pe)\<lparr>so_name := args ! 1\<rparr>) of
        Inl e \<Rightarrow> err e s
      | Inr so \<Rightarrow>
          (case strtol8 (args ! 3) of
             (perm, rest, errno) \<Rightarrow>
               if errno \<or> rest = args ! 3 \<or> rest \<noteq> [] then err (BadPermissions (args ! 3)) s
               else (case socket_owner pe args (so\<lparr>so_perm := perm\<rparr>) of
                       Inl e \<Rightarrow> err e s
                     | Inr so \<Rightarrow>
                         if so_name so \<in> so_name ` set (sv_sockets s) then err (DuplicateSocket (so_name so)) s
                         else ok (s\<lparr>sv_sockets := sv_sockets s @ [so]\<rparr>))))"

definition ParseStdioToKmsg :: "string list \<Rightarrow> service \<Rightarrow> parsed" where
  "ParseStdioToKmsg args s =
     (if SVC_CONSOLE \<in> sv_flags s then err ConsoleAndKmsg s
      else ok (upd_attr (\<lambda>p. p\<lparr>stdio_to_kmsg := True\<rparr>) s))"

text \<open>Reading \<open>name[0]\<close> of an empty \<open>std::string\<close> gives NUL, which is not a slash.\<close>

definition bad_file_name :: "string \<Rightarrow> bool" where
  "bad_file_name nm \<longleftrightarrow> (nm = [] \<or> hd nm \<noteq> CHR ''/'') \<or> find_str ''../'' nm \<noteq> None"

definition ParseFile :: "sp_env \<Rightarrow> string list \<Rightarrow> service \<Rightarrow> parsed" where
  "ParseFile pe args s =
     (if args ! 2 \<notin> {''r'', ''w'', ''rw''} then err BadFileType s
      else (case expand_props pe (args ! 1) of
              None \<Rightarrow> err (CannotExpand (args ! 1)) s
            | Some nm \<Rightarrow>
                if bad_file_name nm then err RelativeFileName s
                else if nm \<in> fi_name ` set (sv_files s) then err (DuplicateFile nm) s
                else ok (s\<lparr>sv_files := sv_files s @ [\<lparr>fi_name = nm, fi_type = args ! 2\<rparr>]\<rparr>)))"

definition ParseUser :: "sp_env \<Rightarrow> string list \<Rightarrow> service \<Rightarrow> parsed" where
  "ParseUser pe args s =
     (case DecodeUid pe (args ! 1) of
        None \<Rightarrow> err (BadUid (args ! 1)) s
      | Some u \<Rightarrow> ok (upd_attr (\<lambda>p. p\<lparr>parsed_uid := Some u\<rparr>) s))"

definition ConvertTaskFileToProfile :: "string \<Rightarrow> string option" where
  "ConvertTaskFileToProfile = map_of
     [(''/dev/cpuset/camera-daemon/tasks'', ''CameraServiceCapacity''),
      (''/dev/cpuset/foreground/tasks'', ''ProcessCapacityHigh''),
      (''/dev/cpuset/system-background/tasks'', ''ServiceCapacityLow''),
      (''/dev/blkio/background/tasks'', ''LowIoPriority'')]"

text \<open>The loop erases converted paths in place; the profiles are appended in order.\<close>

fun convert_writepid :: "string list \<Rightarrow> string list \<Rightarrow> string list \<times> string list" where
  "convert_writepid [] profiles = ([], profiles)"
| "convert_writepid (a # as) profiles =
     (case ConvertTaskFileToProfile a of
        Some p \<Rightarrow> convert_writepid as (profiles @ [p])
      | None \<Rightarrow> (case convert_writepid as profiles of (files, ps) \<Rightarrow> (a # files, ps)))"

definition ParseWritepid :: "string list \<Rightarrow> service \<Rightarrow> parsed" where
  "ParseWritepid args s =
     (case convert_writepid (tl args) (sv_task_profiles s) of
        (files, profiles) \<Rightarrow> ok (s\<lparr>sv_task_profiles := profiles, sv_writepid_files := files\<rparr>))"

definition ParseUpdatable :: "string list \<Rightarrow> service \<Rightarrow> parsed" where
  "ParseUpdatable args s = ok (s\<lparr>sv_updatable := True\<rparr>)"

section \<open>The keyword map\<close>

text \<open>A keyword with the least and greatest number of arguments (\<open>None\<close> is \<open>kMax\<close>) and its parser.\<close>

type_synonym option_parser = "sp_env \<Rightarrow> service list \<Rightarrow> string list \<Rightarrow> service \<Rightarrow> parsed"
type_synonym keyword_map = "(string \<times> nat \<times> nat option \<times> option_parser) list"

definition GetParserMap :: "sp_env \<Rightarrow> keyword_map" where
  "GetParserMap e =
     [(''capabilities'', 0, None, \<lambda>pe _. ParseCapabilities pe),
      (''class'', 1, None, \<lambda>_ _. ParseClass),
      (''console'', 0, Some 1, \<lambda>_ _. ParseConsole),
      (''critical'', 0, Some 2, \<lambda>pe _. ParseCritical pe),
      (''disabled'', 0, Some 0, \<lambda>_ _. ParseDisabled),
      (''enter_namespace'', 2, Some 2, \<lambda>_ _. ParseEnterNamespace),
      (''file'', 2, Some 2, \<lambda>pe _. ParseFile pe),
      (''gentle_kill'', 0, Some 0, \<lambda>_ _. ParseGentleKill),
      (''group'', 1, Some (NR_SVC_SUPP_GIDS (svc_h e) + 1), \<lambda>pe _. ParseGroup pe),
      (''interface'', 2, Some 2, \<lambda>_ svcs. ParseInterface svcs),
      (''ioprio'', 2, Some 2, \<lambda>pe _. ParseIoprio pe),
      (''keycodes'', 1, None, \<lambda>pe _. ParseKeycodes pe),
      (''memcg.limit_in_bytes'', 1, Some 1, \<lambda>pe _. ParseMemcgLimitInBytes pe),
      (''memcg.limit_percent'', 1, Some 1, \<lambda>pe _. ParseMemcgLimitPercent pe),
      (''memcg.limit_property'', 1, Some 1, \<lambda>_ _. ParseMemcgLimitProperty),
      (''memcg.soft_limit_in_bytes'', 1, Some 1, \<lambda>pe _. ParseMemcgSoftLimitInBytes pe),
      (''memcg.swappiness'', 1, Some 1, \<lambda>pe _. ParseMemcgSwappiness pe),
      (''namespace'', 1, Some 2, \<lambda>_ _. ParseNamespace),
      (''oneshot'', 0, Some 0, \<lambda>_ _. ParseOneshot),
      (''onrestart'', 1, None, \<lambda>pe _. ParseOnrestart pe),
      (''oom_score_adjust'', 1, Some 1, \<lambda>pe _. ParseOomScoreAdjust pe),
      (''override'', 0, Some 0, \<lambda>_ _. ParseOverride),
      (''priority'', 1, Some 1, \<lambda>pe _. ParsePriority pe),
      (''reboot_on_failure'', 1, Some 1, \<lambda>pe _. ParseRebootOnFailure pe),
      (''restart_period'', 1, Some 1, \<lambda>pe _. ParseRestartPeriod pe),
      (''rlimit'', 3, Some 3, \<lambda>pe _. ParseProcessRlimit pe),
      (''seclabel'', 1, Some 1, \<lambda>_ _. ParseSeclabel),
      (''setenv'', 2, Some 2, \<lambda>_ _. ParseSetenv),
      (''shared_kallsyms'', 0, Some 0, \<lambda>_ _. ParseSharedKallsyms),
      (''shutdown'', 1, Some 1, \<lambda>_ _. ParseShutdown),
      (''sigstop'', 0, Some 0, \<lambda>_ _. ParseSigstop),
      (''socket'', 3, Some 6, \<lambda>pe _. ParseSocket pe),
      (''stdio_to_kmsg'', 0, Some 0, \<lambda>_ _. ParseStdioToKmsg),
      (''task_profiles'', 1, None, \<lambda>_ _. ParseTaskProfiles),
      (''timeout_period'', 1, Some 1, \<lambda>pe _. ParseTimeoutPeriod pe),
      (''updatable'', 0, Some 0, \<lambda>_ _. ParseUpdatable),
      (''user'', 1, Some 1, \<lambda>pe _. ParseUser pe),
      (''writepid'', 1, None, \<lambda>_ _. ParseWritepid)]"

type_synonym keyword_find = "keyword_map \<Rightarrow> string list \<Rightarrow> option_parser option"

locale keyword_laws =
  fixes Find :: keyword_find
  assumes Find_iff: "Find m args = Some f \<longleftrightarrow>
    args \<noteq> [] \<and> (\<exists>lo hi. map_of m (hd args) = Some (lo, hi, f) \<and> lo \<le> length args - 1 \<and>
      (case hi of None \<Rightarrow> True | Some n \<Rightarrow> length args - 1 \<le> n))"

definition std_Find :: keyword_find where
  "std_Find m args =
     (if args = [] then None
      else (case map_of m (hd args) of
              None \<Rightarrow> None
            | Some (lo, hi, f) \<Rightarrow>
                if lo \<le> length args - 1 \<and> (case hi of None \<Rightarrow> True | Some n \<Rightarrow> length args - 1 \<le> n)
                then Some f else None))"

interpretation std_kw: keyword_laws std_Find
  by unfold_locales (auto simp: std_Find_def split: option.splits)

section \<open>Sections\<close>

text \<open>The service list: lookup by name, iteration, adding at the end and removing.\<close>

record 'l slist =
  FindService :: "'l \<Rightarrow> string \<Rightarrow> service option"
  AddService :: "service \<Rightarrow> 'l \<Rightarrow> 'l"
  RemoveService :: "service \<Rightarrow> 'l \<Rightarrow> 'l"
  services :: "'l \<Rightarrow> service list"

locale registry =
  fixes sl :: "'l slist"
  assumes find_service: "FindService sl l nm = find (\<lambda>s. sv_name s = nm) (services sl l)"
    and add_service: "services sl (AddService sl s l) = services sl l @ [s]"
    and remove_service: "services sl (RemoveService sl s l) =
      takeWhile (\<lambda>v. sv_name v \<noteq> sv_name s) (services sl l) @
      drop 1 (dropWhile (\<lambda>v. sv_name v \<noteq> sv_name s) (services sl l))"

definition list_registry :: "service list slist" where
  "list_registry =
     \<lparr>FindService = (\<lambda>l nm. find (\<lambda>s. sv_name s = nm) l), AddService = (\<lambda>s l. l @ [s]),
      RemoveService = (\<lambda>s l. takeWhile (\<lambda>v. sv_name v \<noteq> sv_name s) l @
                               drop 1 (dropWhile (\<lambda>v. sv_name v \<noteq> sv_name s) l)),
      services = (\<lambda>l. l)\<rparr>"

interpretation list_reg: registry list_registry
  by unfold_locales (simp_all add: list_registry_def)

record 'l sp_state =
  sp_service :: "service option"
  sp_filename :: string
  sp_list :: 'l

definition IsValidName :: "sp_env \<Rightarrow> string \<Rightarrow> bool" where
  "IsValidName pe name \<longleftrightarrow> IsLegalPropertyName pe (''init.svc.'' @ name) \<and> length name \<le> PROP_VALUE_MAX"

definition legacy_path :: "sp_env \<Rightarrow> string list \<Rightarrow> string list" where
  "legacy_path pe str_args =
     (let str_args = (if vendor_version pe \<le> 28 \<and> str_args ! 0 = ''/sbin/watchdogd''
                      then str_args[0 := ''/system/bin/watchdogd''] else str_args)
      in if vendor_version pe \<le> 29 \<and> str_args ! 0 = ''/charger''
         then str_args[0 := ''/system/bin/charger''] else str_args)"

definition SP_ParseSection ::
    "sp_env \<Rightarrow> string list \<Rightarrow> string \<Rightarrow> 'l sp_state \<Rightarrow> sp_error option \<times> 'l sp_state" where
  "SP_ParseSection pe args filename st =
     (if length args < 3 then (Some NoNameOrProgram, st)
      else if \<not> IsValidName pe (args ! 1) then (Some (InvalidServiceName (args ! 1)), st)
      else
        (let sub = (if subcontext pe \<noteq> None \<and> PathMatchesSubcontext pe filename then subcontext pe else None)
         in (None, st\<lparr>sp_filename := filename,
                     sp_service := Some (new_Service (svc_h pe) (service_defaults pe) (args ! 1) sub
                                           filename (legacy_path pe (drop 2 args)))\<rparr>)))"

definition SP_ParseLineSection ::
    "sp_env \<Rightarrow> keyword_find \<Rightarrow> 'l slist \<Rightarrow> string list \<Rightarrow> 'l sp_state \<Rightarrow> sp_error option \<times> 'l sp_state" where
  "SP_ParseLineSection pe Find sl args st =
     (case sp_service st of
        None \<Rightarrow> (None, st)
      | Some s \<Rightarrow>
          (case Find (GetParserMap pe) args of
             None \<Rightarrow> (Some KeywordError, st)
           | Some f \<Rightarrow>
               (case f pe (services sl (sp_list st)) args s of
                  (e, s) \<Rightarrow> (e, st\<lparr>sp_service := Some s\<rparr>))))"

definition SP_EndSection :: "sp_env \<Rightarrow> 'l slist \<Rightarrow> 'l sp_state \<Rightarrow> sp_error option \<times> 'l sp_state" where
  "SP_EndSection pe sl st =
     (case sp_service st of
        None \<Rightarrow> (None, st)
      | Some s \<Rightarrow>
          if parsed_uid (sv_proc_attr s) = None \<and> (kAlwaysErrorUserRoot pe \<or> ro_vendor_api_level pe > 202404)
          then (Some (NoUser (sv_name s)), st)
          else if vendor_version pe \<ge> 30 \<and> SVC_CRITICAL \<in> sv_flags s \<and> SVC_ONESHOT \<in> sv_flags s
          then (Some (CriticalAndOneshot (sv_name s)), st)
          else
            (case FindService sl (sp_list st) (sv_name s) of
               None \<Rightarrow> (None, st\<lparr>sp_list := AddService sl s (sp_list st), sp_service := None\<rparr>)
             | Some old \<Rightarrow>
                 if \<not> sv_override s then (Some (DuplicateService (sv_name s)), st)
                 else if StartsWith (lb pe) (sp_filename st) ''/apex/'' \<and> \<not> is_updatable (svc_h pe) old
                 then (Some (NotUpdatable (sv_name s)), st)
                 else if (case sv_subcontext s of None \<Rightarrow> [] | Some c \<Rightarrow> c) \<noteq>
                         (case sv_subcontext old of None \<Rightarrow> [] | Some c \<Rightarrow> c)
                 then (Some (TrebleBoundary (sv_name s)), st)
                 else (None, st\<lparr>sp_list := AddService sl s (RemoveService sl old (sp_list st)),
                                sp_service := None\<rparr>)))"

text \<open>The virtual methods of the class as a section parser of the configuration language.\<close>

definition ServiceParser :: "sp_env \<Rightarrow> keyword_find \<Rightarrow> 'l slist \<Rightarrow> 'l sp_state section_parser" where
  "ServiceParser pe Find sl =
     \<lparr>ParseSection = (\<lambda>args filename _ st. case SP_ParseSection pe args filename st of (e, st) \<Rightarrow> (e = None, st)),
      ParseLineSection = (\<lambda>args _ st. case SP_ParseLineSection pe Find sl args st of (e, st) \<Rightarrow> (e = None, st)),
      EndSection = (\<lambda>st. case SP_EndSection pe sl st of (e, st) \<Rightarrow> (e = None, st)),
      EndFile = (\<lambda>st. st)\<rparr>"

end
