(* ===== verification/Service_Config.thy ===== *)
theory Service_Config
  imports Service_Parser
begin

text \<open>
  Correctness of the parser of service sections: every option parser keeps the service well-formed
  (\<open>parsed_ok\<close>), the locale \<open>service_parsing\<close> collects the contracts of the libraries, and its
  \<open>sublocale\<close> of \<open>section_contract\<close> lifts the invariant of the service list to whole configurations.
\<close>

section \<open>Well-formed services\<close>

definition parsed_flags :: "svc_flag set" where
  "parsed_flags = {SVC_DISABLED, SVC_RC_DISABLED, SVC_ONESHOT, SVC_CONSOLE, SVC_CRITICAL,
     SVC_GENTLE_KILL, SVC_SHUTDOWN_CRITICAL}"

definition parsed_ok :: "sp_env \<Rightarrow> service \<Rightarrow> bool" where
  "parsed_ok pe s \<longleftrightarrow>
     sorted_wrt (<) (sv_keycodes s) \<and> (\<forall>k \<in> set (sv_keycodes s). 0 \<le> k \<and> k \<le> KEY_MAX pe) \<and>
     distinct (map so_name (sv_sockets s)) \<and> distinct (map fi_name (sv_files s)) \<and>
     (\<forall>f \<in> set (sv_files s). \<not> bad_file_name (fi_name f) \<and> fi_type f \<in> {''r'', ''w'', ''rw''}) \<and>
     \<not> (SVC_CONSOLE \<in> sv_flags s \<and> stdio_to_kmsg (sv_proc_attr s)) \<and>
     0 \<le> ioprio_pri (sv_proc_attr s) \<and> ioprio_pri (sv_proc_attr s) \<le> 7 \<and>
     (priority (sv_proc_attr s) = 0 \<or>
        priority_highest pe \<le> priority (sv_proc_attr s) \<and> priority (sv_proc_attr s) \<le> priority_lowest pe) \<and>
     length (namespaces_to_enter (sv_namespaces s)) \<le> 1 \<and>
     (namespaces_to_enter (sv_namespaces s) \<noteq> [] \<or> CLONE_NEWPID \<in> ns_flags (sv_namespaces s) \<longrightarrow>
        CLONE_NEWNS \<in> ns_flags (sv_namespaces s)) \<and>
     (\<forall>t. sv_timeout_period s = Some t \<longrightarrow> 1 \<le> t) \<and>
     (\<forall>t. sv_on_failure_reboot_target s = Some t \<longrightarrow> prefix ''shutdown'' t \<or> prefix ''reboot'' t) \<and>
     sv_flags s \<subseteq> parsed_flags \<and> sv_pid s = 0 \<and> sv_start_order s = 0"

text \<open>An option parser that keeps the service well-formed, whatever it returns, and keeps its name.\<close>

definition keeps :: "sp_env \<Rightarrow> (service \<Rightarrow> parsed) \<Rightarrow> bool" where
  "keeps pe f \<longleftrightarrow> (\<forall>s. parsed_ok pe s \<longrightarrow> parsed_ok pe (snd (f s)) \<and> sv_name (snd (f s)) = sv_name s)"

named_theorems option_keeps \<open>option parsers that keep a service well-formed\<close>

lemma keepsI:
  "(\<And>s. parsed_ok pe s \<Longrightarrow> parsed_ok pe (snd (f s)) \<and> sv_name (snd (f s)) = sv_name s) \<Longrightarrow> keeps pe f"
  by (simp add: keeps_def)

lemmas option_defs = ok_def err_def upd_attr_def add_flags_def parse_into_def

lemma simple_options_keep [option_keeps]:
  "keeps pe (ParseClass args)" "keeps pe (ParseConsole args)" "keeps pe (ParseDisabled args)"
  "keeps pe (ParseGentleKill args)" "keeps pe (ParseOneshot args)" "keeps pe (ParseOverride args)"
  "keeps pe (ParseSharedKallsyms args)" "keeps pe (ParseMemcgLimitProperty args)"
  "keeps pe (ParseSeclabel args)" "keeps pe (ParseSigstop args)" "keeps pe (ParseSetenv args)"
  "keeps pe (ParseShutdown args)" "keeps pe (ParseTaskProfiles args)" "keeps pe (ParseStdioToKmsg args)"
  "keeps pe (ParseUpdatable args)" "keeps pe (ParseInterface svcs args)"
  by (auto intro!: keepsI simp: parsed_ok_def parsed_flags_def option_defs ParseClass_def ParseConsole_def
      ParseDisabled_def ParseGentleKill_def ParseOneshot_def ParseOverride_def ParseSharedKallsyms_def
      ParseMemcgLimitProperty_def ParseSeclabel_def ParseSigstop_def ParseSetenv_def ParseShutdown_def
      ParseTaskProfiles_def ParseStdioToKmsg_def ParseUpdatable_def ParseInterface_def Let_def)

lemma plain_options_keep [option_keeps]:
  "keeps pe (ParseCapabilities pe args)" "keeps pe (ParseOnrestart pe args)"
  "keeps pe (ParseProcessRlimit pe args)" "keeps pe (ParseUser pe args)" "keeps pe (ParseWritepid args)"
  "keeps pe (ParseOomScoreAdjust pe args)" "keeps pe (ParseMemcgSwappiness pe args)"
  "keeps pe (ParseMemcgLimitInBytes pe args)" "keeps pe (ParseMemcgLimitPercent pe args)"
  "keeps pe (ParseMemcgSoftLimitInBytes pe args)" "keeps pe (ParseRestartPeriod pe args)"
  by (auto intro!: keepsI simp: parsed_ok_def option_defs ParseCapabilities_def ParseOnrestart_def
      ParseProcessRlimit_def ParseUser_def ParseWritepid_def ParseOomScoreAdjust_def
      ParseMemcgSwappiness_def ParseMemcgLimitInBytes_def ParseMemcgLimitPercent_def
      ParseMemcgSoftLimitInBytes_def ParseRestartPeriod_def Let_def split: option.split prod.split)

lemma ParseCritical_keeps [option_keeps]: "keeps pe (ParseCritical pe args)"
  by (auto intro!: keepsI simp: parsed_ok_def parsed_flags_def option_defs ParseCritical_def Let_def
      split: sum.split option.split)

lemma ParseEnterNamespace_keeps [option_keeps]: "keeps pe (ParseEnterNamespace args)"
  by (auto intro!: keepsI simp: parsed_ok_def option_defs ParseEnterNamespace_def)

lemma add_supp_gids_keeps: "parsed_ok pe s \<Longrightarrow>
  parsed_ok pe (snd (add_supp_gids pe as s)) \<and> sv_name (snd (add_supp_gids pe as s)) = sv_name s"
proof (induction as arbitrary: s)
  case (Cons a as)
  have "parsed_ok pe (upd_attr (\<lambda>p. p\<lparr>supp_gids := supp_gids p @ [g]\<rparr>) s)" for g
    using Cons.prems by (simp add: parsed_ok_def upd_attr_def)
  from Cons.IH [OF this] Cons.prems show ?case
    by (auto simp: err_def upd_attr_def split: option.split)
qed (simp add: ok_def)

lemma ParseGroup_keeps [option_keeps]: "keeps pe (ParseGroup pe args)"
proof (rule keepsI)
  fix s assume "parsed_ok pe s"
  moreover from this have "parsed_ok pe (upd_attr (\<lambda>p. p\<lparr>gid := g\<rparr>) s)" for g
    by (simp add: parsed_ok_def upd_attr_def)
  from add_supp_gids_keeps [OF this]
  have "parsed_ok pe (snd (add_supp_gids pe (drop 2 args) (upd_attr (\<lambda>p. p\<lparr>gid := g\<rparr>) s))) \<and>
      sv_name (snd (add_supp_gids pe (drop 2 args) (upd_attr (\<lambda>p. p\<lparr>gid := g\<rparr>) s))) = sv_name s" for g
    by (simp add: upd_attr_def)
  ultimately show "parsed_ok pe (snd (ParseGroup pe args s)) \<and> sv_name (snd (ParseGroup pe args s)) = sv_name s"
    by (simp add: ParseGroup_def err_def split: option.split)
qed

lemma add_namespaces_keeps: "parsed_ok pe s \<Longrightarrow>
  parsed_ok pe (snd (add_namespaces as s)) \<and> sv_name (snd (add_namespaces as s)) = sv_name s"
proof (induction as arbitrary: s)
  case (Cons a as)
  have "parsed_ok pe (s\<lparr>sv_namespaces := (sv_namespaces s)\<lparr>ns_flags := ns_flags (sv_namespaces s) \<union> fs\<rparr>\<rparr>)"
    if "CLONE_NEWNS \<in> fs" for fs
    using Cons.prems that by (auto simp: parsed_ok_def)
  from Cons.IH [OF this [of "{CLONE_NEWPID, CLONE_NEWNS}"]] Cons.IH [OF this [of "{CLONE_NEWNS}"]]
    Cons.prems show ?case by (simp add: Let_def err_def)
qed (simp add: ok_def)

lemma ParseNamespace_keeps [option_keeps]: "keeps pe (ParseNamespace args)"
  by (rule keepsI) (simp add: ParseNamespace_def add_namespaces_keeps)

lemma insert_upper_sorted:
  assumes "sorted_wrt (<) ks" and "code \<notin> set ks"
  shows "sorted_wrt (<) (insert_upper code ks) \<and> set (insert_upper code ks) = insert code (set ks)"
  using assms unfolding insert_upper_def
proof (induction ks)
  case (Cons k ks)
  show ?case
  proof (cases "k \<le> code")
    case True
    with Cons show ?thesis by (auto dest: set_takeWhileD set_dropWhileD)
  next
    case False
    with Cons.prems show ?thesis by auto
  qed
qed simp

text \<open>
  The invariant of the parser with its service list: the service under construction and all
  registered services are well-formed, and no two registered services share a name.
\<close>

definition sp_inv :: "sp_env \<Rightarrow> 'l slist \<Rightarrow> 'l sp_state \<Rightarrow> bool" where
  "sp_inv pe sl st \<longleftrightarrow> (\<forall>s. sp_service st = Some s \<longrightarrow> parsed_ok pe s) \<and>
     distinct (map sv_name (services sl (sp_list st))) \<and>
     (\<forall>s \<in> set (services sl (sp_list st)). parsed_ok pe s)"

text \<open>
  The contracts of the libraries that the rest needs, together, with the header's default values of
  a service: a fresh service has no keycodes, sockets, files or namespaces, no timeout and no reboot
  target, and does not redirect its output.
\<close>

locale service_parsing = keyword_laws Find + registry sl + libbase_laws "lb pe"
  for pe :: sp_env and Find :: keyword_find and sl :: "'l slist" +
  assumes fresh: "sv_keycodes (service_defaults pe) = []" "sv_sockets (service_defaults pe) = []"
      "sv_files (service_defaults pe) = []" "namespaces_to_enter (sv_namespaces (service_defaults pe)) = []"
      "sv_timeout_period (service_defaults pe) = None"
      "sv_on_failure_reboot_target (service_defaults pe) = None"
      "\<not> stdio_to_kmsg (sv_proc_attr (service_defaults pe))"
begin

lemma new_service_ok: "parsed_ok pe (new_Service (svc_h pe) (service_defaults pe) nm sub fn args)"
  using fresh by (simp add: parsed_ok_def new_Service_def make_Service_def parsed_flags_def)

lemma add_keycodes_keeps: "parsed_ok pe s \<Longrightarrow>
  parsed_ok pe (snd (add_keycodes pe as s)) \<and> sv_name (snd (add_keycodes pe as s)) = sv_name s"
proof (induction as arbitrary: s)
  case (Cons a as)
  show ?case
  proof (cases "ParseInt (lb pe) a 0 (KEY_MAX pe)")
    case None
    with Cons.prems show ?thesis by (simp add: err_def)
  next
    case (Some code)
    show ?thesis
    proof (cases "code \<in> set (sv_keycodes s)")
      case True
      with Cons.prems Some show ?thesis by (simp add: err_def)
    next
      case False
      have "sorted_wrt (<) (sv_keycodes s)" using Cons.prems by (simp add: parsed_ok_def)
      from insert_upper_sorted [OF this False] ParseInt_range [OF Some]
      have "parsed_ok pe (s\<lparr>sv_keycodes := insert_upper code (sv_keycodes s)\<rparr>)"
        using Cons.prems by (simp add: parsed_ok_def)
      from Cons.IH [OF this] Some False show ?thesis by simp
    qed
  qed
qed (simp add: ok_def)

lemma ParseKeycodes_keeps [option_keeps]: "keeps pe (ParseKeycodes pe args)"
  by (rule keepsI) (simp add: ParseKeycodes_def add_keycodes_keeps err_def ok_def split: option.split)

lemma ParsePriority_keeps [option_keeps]: "keeps pe (ParsePriority pe args)"
  by (rule keepsI)
     (auto simp: parsed_ok_def ParsePriority_def option_defs split: option.split dest: ParseInt_range)

lemma ParseIoprio_keeps [option_keeps]: "keeps pe (ParseIoprio pe args)"
  by (rule keepsI)
     (auto simp: parsed_ok_def ParseIoprio_def option_defs Let_def split: option.split dest: ParseInt_range)

lemma ParseTimeoutPeriod_keeps [option_keeps]: "keeps pe (ParseTimeoutPeriod pe args)"
  by (rule keepsI)
     (auto simp: parsed_ok_def ParseTimeoutPeriod_def option_defs split: option.split dest: ParseInt_range)

lemma ParseRebootOnFailure_keeps [option_keeps]: "keeps pe (ParseRebootOnFailure pe args)"
  by (rule keepsI) (auto simp: parsed_ok_def ParseRebootOnFailure_def option_defs StartsWith_eq)

lemma ParseFile_keeps [option_keeps]: "keeps pe (ParseFile pe args)"
  by (rule keepsI) (auto simp: parsed_ok_def ParseFile_def option_defs split: option.split)

lemma ParseSocket_keeps [option_keeps]: "keeps pe (ParseSocket pe args)"
  by (rule keepsI) (auto simp: parsed_ok_def ParseSocket_def option_defs split: sum.split prod.split)

lemma option_parser_keeps:
  assumes "map_of (GetParserMap pe) kw = Some (lo, hi, f)"
  shows "keeps pe (f pe svcs args)"
proof -
  have "list_all (\<lambda>(_, _, _, f). keeps pe (f pe svcs args)) (GetParserMap pe)"
    unfolding GetParserMap_def by (simp add: option_keeps)
  then show ?thesis using map_of_SomeD [OF assms] by (auto simp: list_all_iff)
qed

lemma ParseSection_inv: "sp_inv pe sl st \<Longrightarrow> sp_inv pe sl (snd (SP_ParseSection pe args fn st))"
  by (auto simp: SP_ParseSection_def sp_inv_def Let_def new_service_ok)

lemma ParseLineSection_inv: "sp_inv pe sl st \<Longrightarrow> sp_inv pe sl (snd (SP_ParseLineSection pe Find sl args st))"
proof (cases "sp_service st")
  case (Some s)
  assume inv: "sp_inv pe sl st"
  show ?thesis
  proof (cases "Find (GetParserMap pe) args")
    case None
    with inv Some show ?thesis by (simp add: SP_ParseLineSection_def)
  next
    case (Some f)
    then obtain lo hi where "map_of (GetParserMap pe) (hd args) = Some (lo, hi, f)"
      using Find_iff by blast
    then have "keeps pe (f pe (services sl (sp_list st)) args)" by (rule option_parser_keeps)
    with inv Some \<open>sp_service st = Some s\<close> show ?thesis
      by (auto simp: SP_ParseLineSection_def sp_inv_def keeps_def split: prod.split)
  qed
qed (simp add: SP_ParseLineSection_def)

lemma find_remove:
  fixes xs :: "service list"
  assumes "distinct (map sv_name xs)" and "find (\<lambda>s. sv_name s = nm) xs = Some old"
  defines "ys \<equiv> takeWhile (\<lambda>v. sv_name v \<noteq> sv_name old) xs @ drop 1 (dropWhile (\<lambda>v. sv_name v \<noteq> sv_name old) xs)"
  shows "sv_name old = nm" and "distinct (map sv_name ys)" and "nm \<notin> sv_name ` set ys" and "set ys \<subseteq> set xs"
    and "set xs \<subseteq> insert old (set ys)"
proof -
  have old: "old \<in> set xs" "sv_name old = nm"
    using assms(2) by (auto simp: find_Some_iff)
  then obtain as bs where xs: "xs = as @ old # bs" by (meson split_list)
  have "sv_name old \<notin> sv_name ` set as" using assms(1) xs by auto
  then have "\<forall>v \<in> set as. sv_name v \<noteq> sv_name old" by (metis image_eqI)
  then have ys: "ys = as @ bs"
    by (simp add: ys_def xs takeWhile_append2 dropWhile_append2)
  show "sv_name old = nm" by (rule old)
  show "distinct (map sv_name ys)" "nm \<notin> sv_name ` set ys" "set ys \<subseteq> set xs" "set xs \<subseteq> insert old (set ys)"
    using assms(1) xs ys old(2) by auto
qed

text \<open>What \<open>EndSection\<close> does with a section: it registers the service, or reports why not.\<close>

lemma EndSection_cases:
  assumes "sp_service st = Some s" and "sp_inv pe sl st"
  obtains (failed) er where "SP_EndSection pe sl st = (Some er, st)"
  | (added) st' where "SP_EndSection pe sl st = (None, st')" "sp_service st' = None"
      "FindService sl (sp_list st) (sv_name s) = None"
      "services sl (sp_list st') = services sl (sp_list st) @ [s]"
  | (replaced) st' old keep where "SP_EndSection pe sl st = (None, st')" "sp_service st' = None"
      "FindService sl (sp_list st) (sv_name s) = Some old" "sv_override s"
      "prefix ''/apex/'' (sp_filename st) \<Longrightarrow> is_updatable (svc_h pe) old"
      "(case sv_subcontext s of None \<Rightarrow> [] | Some c \<Rightarrow> c) = (case sv_subcontext old of None \<Rightarrow> [] | Some c \<Rightarrow> c)"
      "services sl (sp_list st') = keep @ [s]" "distinct (map sv_name keep)"
      "sv_name s \<notin> sv_name ` set keep" "set keep \<subseteq> set (services sl (sp_list st))"
      "set (services sl (sp_list st)) \<subseteq> insert old (set keep)"
proof (cases "fst (SP_EndSection pe sl st)")
  case (Some er)
  then have "SP_EndSection pe sl st = (Some er, st)"
    using assms(1) by (auto simp: SP_EndSection_def split: if_splits option.splits)
  with failed show ?thesis .
next
  case None
  show ?thesis
  proof (cases "FindService sl (sp_list st) (sv_name s)")
    case None
    with \<open>fst (SP_EndSection pe sl st) = None\<close> assms(1) added show ?thesis
      by (auto simp: SP_EndSection_def add_service split: if_splits)
  next
    case (Some old)
    note fr = find_remove [OF _ Some [unfolded find_service]]
    have d: "distinct (map sv_name (services sl (sp_list st)))" using assms(2) by (simp add: sp_inv_def)
    from None Some assms(1) have
      "SP_EndSection pe sl st = (None, st\<lparr>sp_list := AddService sl s (RemoveService sl old (sp_list st)), sp_service := None\<rparr>)"
      "sv_override s" "prefix ''/apex/'' (sp_filename st) \<Longrightarrow> is_updatable (svc_h pe) old"
      "(case sv_subcontext s of None \<Rightarrow> [] | Some c \<Rightarrow> c) = (case sv_subcontext old of None \<Rightarrow> [] | Some c \<Rightarrow> c)"
      by (auto simp: SP_EndSection_def StartsWith_eq split: if_splits)
    with Some fr [OF d] replaced show ?thesis by (simp add: add_service remove_service)
  qed
qed

lemma EndSection_inv: "sp_inv pe sl st \<Longrightarrow> sp_inv pe sl (snd (SP_EndSection pe sl st))"
proof (cases "sp_service st")
  case (Some s)
  assume inv: "sp_inv pe sl st"
  from Some inv show ?thesis
  proof (cases rule: EndSection_cases)
    case (failed er)
    with inv show ?thesis by simp
  next
    case (added st')
    then have "\<forall>v \<in> set (services sl (sp_list st)). sv_name v \<noteq> sv_name s"
      by (simp add: find_service find_None_iff)
    with inv Some added show ?thesis by (auto simp: sp_inv_def)
  next
    case (replaced st' old keep)
    with inv Some show ?thesis by (auto simp: sp_inv_def)
  qed
qed (simp add: SP_EndSection_def)

end

lemma ServiceParser_snd:
  "snd (ParseSection (ServiceParser pe Find sl) args fn ln st) = snd (SP_ParseSection pe args fn st)"
  "snd (ParseLineSection (ServiceParser pe Find sl) args ln st) = snd (SP_ParseLineSection pe Find sl args st)"
  "snd (EndSection (ServiceParser pe Find sl) st) = snd (SP_EndSection pe sl st)"
  "EndFile (ServiceParser pe Find sl) st = st"
  by (simp_all add: ServiceParser_def split: prod.split)

text \<open>The parser with which init reads service sections.\<close>

definition service_config :: "sp_env \<Rightarrow> keyword_find \<Rightarrow> 'l slist \<Rightarrow> 'l sp_state parser" where
  "service_config pe Find sl =
     AddSectionParser ''service'' (ServiceParser pe Find sl) \<lparr>section_parsers = [], line_callbacks = []\<rparr>"

sublocale service_parsing \<subseteq> contract: section_contract "service_config pe Find sl" "sp_inv pe sl"
  by unfold_locales
    (auto simp: service_config_def AddSectionParser_def ServiceParser_snd
      intro: ParseSection_inv ParseLineSection_inv EndSection_inv)

context service_parsing
begin

lemma config_keeps:
  "sp_inv pe sl (snd cu) \<Longrightarrow>
   sp_inv pe sl (snd (snd (ParseConfig (lb pe) (service_config pe Find sl) e path cu)))"
  by (rule contract.ParseConfig_keeps)

end


text \<open>
  Closing a section either reports an error and changes nothing, or
  registers the service: under a new name it is appended; under a taken name it replaces the old
  service, keeps all the others, and this happens only when the section says \<open>override\<close>, both belong
  to the same subcontext, and a file from an APEX only replaces an updatable service.
\<close>

theorem service_override_rules:
  assumes "service_parsing pe Find sl" and "sp_inv pe sl st" and "sp_service st = Some s"
    and "SP_EndSection pe sl st = (r, st')"
  shows "r \<noteq> None \<and> st' = st \<or>
    r = None \<and> FindService sl (sp_list st) (sv_name s) = None \<and>
      services sl (sp_list st') = services sl (sp_list st) @ [s] \<or>
    r = None \<and> (\<exists>old. FindService sl (sp_list st) (sv_name s) = Some old \<and> sv_override s \<and>
      (prefix ''/apex/'' (sp_filename st) \<longrightarrow> is_updatable (svc_h pe) old) \<and>
      (case sv_subcontext s of None \<Rightarrow> [] | Some c \<Rightarrow> c) =
        (case sv_subcontext old of None \<Rightarrow> [] | Some c \<Rightarrow> c) \<and>
      FindService sl (sp_list st') (sv_name s) = Some s \<and>
      set (services sl (sp_list st)) - {old} \<subseteq> set (services sl (sp_list st')))"
proof (cases rule: service_parsing.EndSection_cases [OF assms(1,3,2)])
  case (1 er)
  with assms(4) show ?thesis by auto
next
  case (2 st1)
  with assms(4) show ?thesis by simp
next
  case (3 st1 old keep)
  have "registry sl" using assms(1) by (simp add: service_parsing_def)
  then have "FindService sl (sp_list st1) (sv_name s) = find (\<lambda>v. sv_name v = sv_name s) (keep @ [s])"
    using 3(7) by (simp add: registry.find_service)
  also have "\<dots> = Some s" using 3(9) by (induction keep) auto
  finally show ?thesis using 3 assms(4) by auto
qed


section \<open>A concrete environment\<close>

definition demo_pe :: sp_env where
  "demo_pe =
     \<lparr>lb = std_libbase, svc_h = std_h,
      service_defaults = new_Service std_h
        \<lparr>sv_name = [], sv_classnames = {}, sv_flags = {}, sv_pid = 0, sv_crash_count = 0,
         sv_time_started = 0, sv_time_crashed = 0, sv_upgraded_mte = False, sv_fatal_crash_window = 4,
         sv_fatal_reboot_target = None, sv_on_failure_reboot_target = None, sv_capabilities = None,
         sv_proc_attr = \<lparr>console = [], ioprio_class = IoSchedClass_NONE, ioprio_pri = 0, rlimits = [],
           parsed_uid = None, gid = 0, supp_gids = [], priority = 0, stdio_to_kmsg = False\<rparr>,
         sv_namespaces = \<lparr>ns_flags = {}, namespaces_to_enter = []\<rparr>, sv_seclabel = [],
         sv_sockets = [], sv_files = [], sv_environment_vars = [], sv_once_environment_vars = [],
         sv_subcontext = None, sv_onrestart = [], sv_writepid_files = [], sv_task_profiles = [],
         sv_interfaces = {}, sv_keycodes = [], sv_oom_score_adjust = -1000, sv_swappiness = -1,
         sv_soft_limit_in_bytes = -1, sv_limit_in_bytes = -1, sv_limit_percent = -1,
         sv_limit_property = [], sv_process_cgroup_empty = True, sv_override = False,
         sv_sigstop = False, sv_start_order = 0, sv_mount_namespace = None, sv_updatable = False,
         sv_args = [], sv_restart_period = 5, sv_timeout_period = None, sv_was_last_exit_ok = True,
         sv_shared_kallsyms_file = False, sv_filename = []\<rparr> [] None [] [],
      socket_defaults = \<lparr>so_name = [], so_type = 0, so_uid = 0, so_gid = 0, so_perm = 0,
        so_context = [], so_passcred = False, so_listen = False, so_persist = False\<rparr>,
      CapAmbientSupported = True, GetLastValidCap = 40, LookupCap = (\<lambda>_. 5), expand_props = Some,
      DecodeUid = (\<lambda>a. if a = ''root'' then Some 0 else if a = ''system'' then Some 1000 else None),
      priority_highest = -20, priority_lowest = 19, oom_min = -1000, oom_max = 1000,
      limit_type_max = INT_MAX, KEY_MAX = 767, AddCommand = (\<lambda>_ _. True), ParseRlimit = (\<lambda>_. None),
      vendor_version = 34, IsLegalPropertyName = (\<lambda>_. True), subcontext = None,
      PathMatchesSubcontext = (\<lambda>_. False), kAlwaysErrorUserRoot = False, ro_vendor_api_level = 0\<rparr>"

interpretation demo_sp: service_parsing demo_pe std_Find list_registry
proof -
  have "libbase_laws (lb demo_pe)" by (simp add: demo_pe_def std_libbase_laws)
  then show "service_parsing demo_pe std_Find list_registry"
    by (simp add: service_parsing_def service_parsing_axioms_def std_kw.keyword_laws_axioms
        list_reg.registry_axioms) (simp add: demo_pe_def new_Service_def make_Service_def)
qed



definition demo_old :: service where
  "demo_old = (service_defaults demo_pe)\<lparr>sv_name := ''a''\<rparr>"

theorem service_override_rules_witness:
  "FindService list_registry
     (sp_list (snd (SP_EndSection demo_pe list_registry
        \<lparr>sp_service = Some (demo_old\<lparr>sv_override := True\<rparr>), sp_filename = ''/system/a.rc'',
         sp_list = [demo_old]\<rparr>))) ''a'' = Some (demo_old\<lparr>sv_override := True\<rparr>)"
proof -
  let ?st = "\<lparr>sp_service = Some (demo_old\<lparr>sv_override := True\<rparr>), sp_filename = ''/system/a.rc'',
         sp_list = [demo_old]\<rparr>"
  have "parsed_ok demo_pe (service_defaults demo_pe)"
    by (simp add: parsed_ok_def demo_pe_def new_Service_def make_Service_def parsed_flags_def)
  then have inv: "sp_inv demo_pe list_registry ?st"
    by (simp add: sp_inv_def list_registry_def parsed_ok_def demo_old_def)
  obtain r st' where e: "SP_EndSection demo_pe list_registry ?st = (r, st')" by fastforce
  have "r = None"
    using e by (auto simp: SP_EndSection_def list_registry_def demo_old_def demo_pe_def std_libbase_def
        new_Service_def make_Service_def)
  with service_override_rules [OF demo_sp.service_parsing_axioms inv _ e, of "demo_old\<lparr>sv_override := True\<rparr>"] e
  show ?thesis by (auto simp: list_registry_def demo_old_def)
qed

end
