(* ===== verification/Fstab.thy ===== *)
theory Fstab
  imports Libbase "HOL-Library.List_Lexorder" "HOL-Library.Char_ord"
begin

text \<open>
  Model of \<open>fs_mgr_fstab.cpp\<close>, the reader of file system tables
  (\<open>src/research/aosp-src/fs_mgr_fstab.cpp\<close>).  An \<open>FstabEntry\<close> is a record and its bit field
  \<open>fs_mgr_flags\<close> the set of the flags that are true.  The default values of the entry come from a
  header that is not part of the repository: they are the field \<open>default_entry\<close> of the environment,
  which also holds the files, directories, boot parameters and properties that the code reads.
\<close>

datatype fm_flag =
    F_wait | F_check | F_nonremovable | F_recovery_only | F_no_emulated_sd | F_no_trim
  | F_formattable | F_slot_select | F_late_mount | F_no_fail | F_quota | F_avb | F_logical
  | F_checkpoint_blk | F_checkpoint_fs | F_first_stage_mount | F_slot_select_other | F_fs_verity
  | F_ext_meta_csum | F_fs_compress | F_overlayfs_remove_missing_lowerdir | F_crypt
  | F_vold_managed | F_file_encryption | F_is_zoned

record fstab_entry =
  fe_blk_device :: string
  fe_logical_partition_name :: string
  fe_mount_point :: string
  fe_fs_type :: string
  fe_flags :: u64
  fe_fs_options :: string
  fe_fs_checkpoint_opts :: string
  fe_metadata_key_dir :: string
  fe_metadata_encryption_options :: string
  fe_length :: int
  fe_label :: string
  fe_partnum :: int
  fe_swap_prio :: int
  fe_max_comp_streams :: int
  fe_zram_size :: int
  fe_reserved_size :: int
  fe_readahead_size_kb :: int
  fe_encryption_options :: string
  fe_erase_blk_size :: int
  fe_logical_blk_size :: int
  fe_sysfs_path :: string
  fe_vbmeta_partition :: string
  fe_zram_backingdev_size :: nat
  fe_avb_keys :: string
  fe_lowerdir :: string
  fe_avb_hashtree_digest :: string
  fe_user_devices :: "string list"
  fe_device_aliased :: "int list"
  fe_fs_mgr_flags :: "fm_flag set"

type_synonym fstab = "fstab_entry list"

datatype access_result = Exists | NoEntry | AccessError

record fstab_env =
  flb :: libbase
  default_entry :: fstab_entry
  phys_pages :: int
  sys_page_size :: int
  file_access :: "string \<Rightarrow> access_result"
  ReadFile :: "string \<Rightarrow> string option"
  ReadDir :: "string \<Rightarrow> (bool \<times> string) list option"
  GetAndroidDtDir :: string
  get_boot_config :: "string \<Rightarrow> string option"
  GetBootconfig :: "string \<Rightarrow> string option"
  GetKernelCmdline :: "string \<Rightarrow> string option"
  kernel_cmdline :: "(string \<times> string) list"
  update_for_slotselect :: "fstab \<Rightarrow> fstab option"
  first_api_level :: int
  fnmatch :: "string \<Rightarrow> string \<Rightarrow> bool"
  kNoSkipMount :: bool
  kDsuPostfix :: string
  kDsuScratch :: string
  kDsuUserdata :: string
  GetDsuMetadataKeyDir :: "string \<Rightarrow> string"
  kGsiBootedIndicatorFile :: string
  GetActiveDsu :: "string option"
  kGsiLpNamesFile :: string

definition set_fm :: "fm_flag set \<Rightarrow> fstab_entry \<Rightarrow> fstab_entry" where
  "set_fm fs e = e\<lparr>fe_fs_mgr_flags := fe_fs_mgr_flags e \<union> fs\<rparr>"

section \<open>Mount flags\<close>

text \<open>The \<open>MS_*\<close> values of \<open>sys/mount.h\<close>.\<close>

definition kMountFlagsList :: "(string \<times> u64) list" where
  "kMountFlagsList =
     [(''noatime'', 1024), (''noexec'', 8), (''nosuid'', 2), (''nodev'', 4), (''nodiratime'', 2048),
      (''ro'', 1), (''rw'', 0), (''sync'', 16), (''remount'', 32), (''bind'', 4096), (''rec'', 16384),
      (''unbindable'', 131072), (''private'', 262144), (''slave'', 524288), (''shared'', 1048576),
      (''lazytime'', 33554432), (''nosymfollow'', 256), (''defaults'', 0)]"

abbreviation MS_RDONLY :: u64 where "MS_RDONLY \<equiv> 1"

definition CalculateZramSize :: "fstab_env \<Rightarrow> int \<Rightarrow> int" where
  "CalculateZramSize fv percentage =
     (let total_size = phys_pages fv;
          total_size = i64 (total_size * percentage);
          total_size = total_size sdiv 100
      in i64 (total_size * sys_page_size fv))"

definition ReadDtFile :: "fstab_env \<Rightarrow> string \<Rightarrow> string option" where
  "ReadDtFile fv file_name =
     (case ReadFile fv file_name of
        None \<Rightarrow> None
      | Some v \<Rightarrow> if v = [] then None else Some (butlast v))"

definition ParseFileEncryption :: "string \<Rightarrow> fstab_entry \<Rightarrow> fstab_entry" where
  "ParseFileEncryption arg e = (set_fm {F_file_encryption} e)\<lparr>fe_encryption_options := arg\<rparr>"

definition SetMountFlag :: "string \<Rightarrow> fstab_entry \<Rightarrow> fstab_entry option" where
  "SetMountFlag flag e =
     (case map_of kMountFlagsList flag of
        None \<Rightarrow> None
      | Some v \<Rightarrow> Some (e\<lparr>fe_flags := fe_flags e OR v\<rparr>))"

text \<open>The argument of a flag: what follows the first equal sign, \<open>None\<close> without one.\<close>

definition flag_arg :: "string \<Rightarrow> string option" where
  "flag_arg flag = map_option (\<lambda>i. drop (i + 1) flag) (find_char CHR ''='' flag)"

definition mount_option_arg :: "fstab_env \<Rightarrow> string \<Rightarrow> fstab_entry \<Rightarrow> fstab_entry" where
  "mount_option_arg fv flag e =
     (case flag_arg flag of
        None \<Rightarrow> e
      | Some arg \<Rightarrow>
          if fe_fs_type e = ''f2fs'' \<and> StartsWith (flb fv) flag ''reserve_root=''
          then (case ParseInt (flb fv) arg 0 (INT64_MAX div 2 ^ 12) of
                  None \<Rightarrow> e
                | Some n \<Rightarrow> e\<lparr>fe_reserved_size := n * 2 ^ 12\<rparr>)
          else if StartsWith (flb fv) flag ''lowerdir='' then e\<lparr>fe_lowerdir := arg\<rparr>
          else e)"

fun mount_flag_loop :: "fstab_env \<Rightarrow> string list \<Rightarrow> string \<Rightarrow> fstab_entry \<Rightarrow> string \<times> fstab_entry" where
  "mount_flag_loop fv [] fs_options e = (fs_options, e)"
| "mount_flag_loop fv (flag # flags) fs_options e =
     (case SetMountFlag flag e of
        Some e \<Rightarrow> mount_flag_loop fv flags fs_options e
      | None \<Rightarrow>
          mount_flag_loop fv flags
            ((if fs_options \<noteq> [] then fs_options @ '','' else fs_options) @ flag)
            (mount_option_arg fv flag e))"

definition ParseMountFlags :: "fstab_env \<Rightarrow> string \<Rightarrow> fstab_entry \<Rightarrow> fstab_entry" where
  "ParseMountFlags fv flags e =
     (case mount_flag_loop fv (Split (flb fv) flags '','') [] e of
        (fs_options, e) \<Rightarrow> e\<lparr>fe_fs_options := fs_options\<rparr>)"

section \<open>Flags of the file system manager\<close>

definition ParseUserDevices :: "fstab_env \<Rightarrow> string \<Rightarrow> fstab_entry \<Rightarrow> fstab_entry" where
  "ParseUserDevices fv arg e =
     (let param = Split (flb fv) arg '':'' in
      if length param \<noteq> 2 then e
      else if file_access fv (param ! 1) \<noteq> Exists then e
      else
        (let e = (if param ! 0 = ''zoned''
                  then set_fm {F_is_zoned}
                    (e\<lparr>fe_fs_options := Join (flb fv)
                         (filter (\<lambda>o1. o1 \<noteq> ''atgc'') (Split (flb fv) (fe_fs_options e) '','')) '',''\<rparr>)
                  else e)
         in e\<lparr>fe_user_devices := fe_user_devices e @ [param ! 1],
              fe_device_aliased := fe_device_aliased e @ [if param ! 0 = ''exp_alias'' then 1 else 0]\<rparr>))"

definition simple_flags :: "(string \<times> fm_flag) list" where
  "simple_flags =
     [(''wait'', F_wait), (''check'', F_check), (''nonremovable'', F_nonremovable),
      (''recoveryonly'', F_recovery_only), (''noemulatedsd'', F_no_emulated_sd),
      (''notrim'', F_no_trim), (''formattable'', F_formattable), (''slotselect'', F_slot_select),
      (''latemount'', F_late_mount), (''nofail'', F_no_fail), (''quota'', F_quota), (''avb'', F_avb),
      (''logical'', F_logical), (''checkpoint=block'', F_checkpoint_blk),
      (''checkpoint=fs'', F_checkpoint_fs), (''first_stage_mount'', F_first_stage_mount),
      (''slotselect_other'', F_slot_select_other), (''fsverity'', F_fs_verity),
      (''metadata_csum'', F_ext_meta_csum), (''fscompress'', F_fs_compress),
      (''overlayfs_remove_missing_lowerdir'', F_overlayfs_remove_missing_lowerdir)]"

definition parse_voldmanaged :: "fstab_env \<Rightarrow> string \<Rightarrow> fstab_entry \<Rightarrow> fstab_entry" where
  "parse_voldmanaged fv arg e =
     (let e = set_fm {F_vold_managed} e; parts = Split (flb fv) arg '':'' in
      if length parts \<noteq> 2 then e
      else
        (let e = e\<lparr>fe_label := parts ! 0\<rparr> in
         if parts ! 1 = ''auto'' then e\<lparr>fe_partnum := -1\<rparr>
         else (case ParseInt (flb fv) (parts ! 1) INT_MIN INT_MAX of
                 None \<Rightarrow> e\<lparr>fe_partnum := -1\<rparr> | Some n \<Rightarrow> e\<lparr>fe_partnum := n\<rparr>)))"

text \<open>\<open>ParseInt\<close> into a member that keeps its value when the text is malformed.\<close>

definition set_int ::
    "fstab_env \<Rightarrow> string \<Rightarrow> int \<Rightarrow> int \<Rightarrow> (int \<Rightarrow> fstab_entry \<Rightarrow> fstab_entry) \<Rightarrow> fstab_entry \<Rightarrow> fstab_entry" where
  "set_int fv arg lo hi f e = (case ParseInt (flb fv) arg lo hi of None \<Rightarrow> e | Some v \<Rightarrow> f v e)"

definition parse_zramsize :: "fstab_env \<Rightarrow> string \<Rightarrow> fstab_entry \<Rightarrow> fstab_entry" where
  "parse_zramsize fv arg e =
     (if arg \<noteq> [] \<and> last arg = CHR ''%''
      then set_int fv (butlast arg) 0 200 (\<lambda>v e. e\<lparr>fe_zram_size := CalculateZramSize fv v\<rparr>) e
      else set_int fv arg INT64_MIN INT64_MAX (\<lambda>v e. e\<lparr>fe_zram_size := v\<rparr>) e)"

definition block_size_ok :: "int \<Rightarrow> bool" where
  "block_size_ok v \<longleftrightarrow> \<not> (v < 4096 \<or> v AND (v - 1) \<noteq> 0)"

text \<open>The cast of \<open>uint64_t\<close> to \<open>off64_t\<close>.\<close>

definition parse_reservedsize :: "fstab_env \<Rightarrow> string \<Rightarrow> fstab_entry \<Rightarrow> fstab_entry" where
  "parse_reservedsize fv arg e =
     (case ParseByteCount (flb fv) arg of
        None \<Rightarrow> e | Some n \<Rightarrow> e\<lparr>fe_reserved_size := i64 (int n)\<rparr>)"

text \<open>The flags with an argument; \<open>None\<close> is the rejection of the table.\<close>

definition fs_mgr_arg_flag :: "fstab_env \<Rightarrow> string \<Rightarrow> string \<Rightarrow> fstab_entry \<Rightarrow> fstab_entry option" where
  "fs_mgr_arg_flag fv flag arg e =
     (let sw = StartsWith (flb fv) flag in
      if sw ''encryptable='' then Some (set_fm {F_crypt} e)
      else if sw ''forceencrypt='' \<or> sw ''forcefdeorfbe='' then None
      else if sw ''voldmanaged='' then Some (parse_voldmanaged fv arg e)
      else if sw ''length='' then Some (set_int fv arg INT64_MIN INT64_MAX (\<lambda>v e. e\<lparr>fe_length := v\<rparr>) e)
      else if sw ''swapprio='' then Some (set_int fv arg INT_MIN INT_MAX (\<lambda>v e. e\<lparr>fe_swap_prio := v\<rparr>) e)
      else if sw ''zramsize='' then Some (parse_zramsize fv arg e)
      else if sw ''fileencryption='' \<or> flag = ''fileencryption'' then Some (ParseFileEncryption arg e)
      else if sw ''max_comp_streams=''
      then Some (set_int fv arg INT_MIN INT_MAX (\<lambda>v e. e\<lparr>fe_max_comp_streams := v\<rparr>) e)
      else if sw ''reservedsize='' then Some (parse_reservedsize fv arg e)
      else if sw ''readahead_size_kb=''
      then Some (set_int fv arg 0 (16 * 1024) (\<lambda>v e. e\<lparr>fe_readahead_size_kb := v\<rparr>) e)
      else if sw ''eraseblk=''
      then Some (set_int fv arg INT64_MIN INT64_MAX
                   (\<lambda>v e. if block_size_ok v then e\<lparr>fe_erase_blk_size := v\<rparr> else e) e)
      else if sw ''logicalblk=''
      then Some (set_int fv arg INT64_MIN INT64_MAX
                   (\<lambda>v e. if block_size_ok v then e\<lparr>fe_logical_blk_size := v\<rparr> else e) e)
      else if sw ''avb_keys='' then Some (e\<lparr>fe_avb_keys := arg\<rparr>)
      else if sw ''avb_hashtree_digest='' then Some (e\<lparr>fe_avb_hashtree_digest := arg\<rparr>)
      else if sw ''avb'' then Some ((set_fm {F_avb} e)\<lparr>fe_vbmeta_partition := arg\<rparr>)
      else if sw ''keydirectory='' then Some (e\<lparr>fe_metadata_key_dir := arg\<rparr>)
      else if sw ''metadata_encryption='' then Some (e\<lparr>fe_metadata_encryption_options := arg\<rparr>)
      else if sw ''sysfs_path='' then Some (e\<lparr>fe_sysfs_path := arg\<rparr>)
      else if sw ''zram_backingdev_size=''
      then Some (case ParseByteCount (flb fv) arg of
                   None \<Rightarrow> e | Some n \<Rightarrow> e\<lparr>fe_zram_backingdev_size := n\<rparr>)
      else if sw ''device='' then Some (ParseUserDevices fv arg e)
      else Some e)"

definition fs_mgr_flag :: "fstab_env \<Rightarrow> string \<Rightarrow> fstab_entry \<Rightarrow> fstab_entry option" where
  "fs_mgr_flag fv flag e =
     (if flag = [] \<or> flag = ''defaults'' then Some e
      else (case map_of simple_flags flag of
              Some f \<Rightarrow> Some (set_fm {f} e)
            | None \<Rightarrow> fs_mgr_arg_flag fv flag (case flag_arg flag of None \<Rightarrow> [] | Some a \<Rightarrow> a) e))"

fun fs_mgr_flag_loop :: "fstab_env \<Rightarrow> string list \<Rightarrow> fstab_entry \<Rightarrow> fstab_entry option" where
  "fs_mgr_flag_loop fv [] e = Some e"
| "fs_mgr_flag_loop fv (flag # flags) e =
     (case fs_mgr_flag fv flag e of None \<Rightarrow> None | Some e \<Rightarrow> fs_mgr_flag_loop fv flags e)"

definition InRecovery :: "fstab_env \<Rightarrow> bool" where
  "InRecovery fv \<longleftrightarrow> file_access fv ''/system/bin/recovery'' = Exists \<or> file_access fv ''/sbin/recovery'' = Exists"

definition ParseFsMgrFlags :: "fstab_env \<Rightarrow> string \<Rightarrow> fstab_entry \<Rightarrow> fstab_entry option" where
  "ParseFsMgrFlags fv flags e =
     (case fs_mgr_flag_loop fv (Split (flb fv) flags '','') e of
        None \<Rightarrow> None
      | Some e \<Rightarrow>
          if F_crypt \<in> fe_fs_mgr_flags e \<and> F_vold_managed \<notin> fe_fs_mgr_flags e \<and> \<not> InRecovery fv
          then None else Some e)"

section \<open>The table in the device tree\<close>

definition is_dt_compatible :: "fstab_env \<Rightarrow> bool" where
  "is_dt_compatible fv \<longleftrightarrow> ReadDtFile fv (GetAndroidDtDir fv @ ''compatible'') = Some ''android,firmware''"

definition IsDtFstabCompatible :: "fstab_env \<Rightarrow> bool" where
  "IsDtFstabCompatible fv \<longleftrightarrow>
     ReadDtFile fv (GetAndroidDtDir fv @ ''fstab/compatible'') = Some ''android,fstab'' \<and>
     (case ReadDtFile fv (GetAndroidDtDir fv @ ''fstab/status'') of
        None \<Rightarrow> True | Some v \<Rightarrow> v = ''ok'' \<or> v = ''okay'')"

text \<open>One partition directory: \<open>Inl\<close> aborts the whole table, \<open>Inr None\<close> skips the partition.\<close>

definition dt_partition :: "fstab_env \<Rightarrow> string \<Rightarrow> string \<Rightarrow> (unit, (string \<times> string) option) result" where
  "dt_partition fv dir nm =
     (let rd = (\<lambda>f. ReadDtFile fv (dir @ ''/'' @ nm @ ''/'' @ f)) in
      if (case rd ''status'' of None \<Rightarrow> False | Some v \<Rightarrow> v \<noteq> ''okay'' \<and> v \<noteq> ''ok'') then Inr None
      else (case rd ''dev'' of
              None \<Rightarrow> Inl ()
            | Some dev \<Rightarrow>
                (let mount_point = (case rd ''mnt_point'' of None \<Rightarrow> ''/'' @ nm | Some v \<Rightarrow> v) in
                 case rd ''type'' of
                   None \<Rightarrow> Inl ()
                 | Some ty \<Rightarrow>
                     (case rd ''mnt_flags'' of
                        None \<Rightarrow> Inl ()
                      | Some mf \<Rightarrow>
                          (case rd ''fsmgr_flags'' of
                             None \<Rightarrow> Inl ()
                           | Some ff \<Rightarrow>
                               Inr (Some (mount_point, Join (flb fv) [dev, mount_point, ty, mf, ff] '' '')))))))"

fun dt_partitions :: "fstab_env \<Rightarrow> string \<Rightarrow> (bool \<times> string) list \<Rightarrow> (string \<times> string) list option" where
  "dt_partitions fv dir [] = Some []"
| "dt_partitions fv dir ((isdir, nm) # rest) =
     (if \<not> isdir \<or> (nm \<noteq> [] \<and> hd nm = CHR ''.'') then dt_partitions fv dir rest
      else (case dt_partition fv dir nm of
              Inl _ \<Rightarrow> None
            | Inr None \<Rightarrow> dt_partitions fv dir rest
            | Inr (Some x) \<Rightarrow> map_option ((#) x) (dt_partitions fv dir rest)))"

text \<open>
  The entries are sorted by mount point.  \<open>std::sort\<close> does not fix the order of entries with equal
  mount points; the model keeps the order of the directory.
\<close>

definition dt_fstab_text :: "fstab_env \<Rightarrow> string" where
  "dt_fstab_text fv =
     (if \<not> is_dt_compatible fv \<or> \<not> IsDtFstabCompatible fv then []
      else (case ReadDir fv (GetAndroidDtDir fv @ ''fstab'') of
              None \<Rightarrow> []
            | Some entries \<Rightarrow>
                (case dt_partitions fv (GetAndroidDtDir fv @ ''fstab'') entries of
                   None \<Rightarrow> []
                 | Some xs \<Rightarrow> concat (map (\<lambda>(_, l). l @ [CHR ''\<newline>'']) (sort_key fst xs)))))"

section \<open>Lookups\<close>

text \<open>\<open>s.erase(p)\<close> and \<open>s.erase(0, n)\<close> are \<open>take\<close> and \<open>drop\<close>.\<close>

definition boot_device_of :: "fstab_env \<Rightarrow> string \<Rightarrow> string option" where
  "boot_device_of fv blk =
     (if \<not> StartsWith (flb fv) blk ''/dev/block'' \<or> StartsWith (flb fv) blk ''/dev/block/by-name'' \<or>
         StartsWith (flb fv) blk ''/dev/block/bootdevice/by-name''
      then None
      else (case find_str ''/by-name'' blk of
              None \<Rightarrow> None
            | Some slash_by_name \<Rightarrow>
                (let rest = drop (length ''/dev/block/'') (take slash_by_name blk) in
                 case find_char CHR ''/'' rest of
                   None \<Rightarrow> None
                 | Some first_slash \<Rightarrow>
                     (let dev = drop (first_slash + 1) rest in if dev \<noteq> [] then Some dev else None))))"

definition ExtraBootDevices :: "fstab_env \<Rightarrow> fstab \<Rightarrow> string set" where
  "ExtraBootDevices fv tab =
     set (concat (map (\<lambda>e. case boot_device_of fv (fe_blk_device e) of None \<Rightarrow> [] | Some d \<Rightarrow> [d]) tab))"

text \<open>The entries that satisfy a predicate, as positions in the table; a missing table has none.\<close>

definition GetEntriesByPred :: "fstab option \<Rightarrow> (fstab_entry \<Rightarrow> bool) \<Rightarrow> nat list" where
  "GetEntriesByPred tab pred =
     (case tab of None \<Rightarrow> [] | Some es \<Rightarrow> filter (\<lambda>i. pred (es ! i)) [0 ..< length es])"

definition GetEntriesForMountPoint :: "fstab option \<Rightarrow> string \<Rightarrow> nat list" where
  "GetEntriesForMountPoint tab path = GetEntriesByPred tab (\<lambda>e. fe_mount_point e = path)"

definition GetEntryForMountPoint :: "fstab option \<Rightarrow> string \<Rightarrow> nat option" where
  "GetEntryForMountPoint tab path =
     (case GetEntriesForMountPoint tab path of [] \<Rightarrow> None | i # _ \<Rightarrow> Some i)"

definition GetEntryForMountPointType :: "fstab option \<Rightarrow> string \<Rightarrow> string \<Rightarrow> nat option" where
  "GetEntryForMountPointType tab path fstype =
     (case GetEntriesByPred tab (\<lambda>e. fe_mount_point e = path \<and> fe_fs_type e = fstype) of
        [] \<Rightarrow> None | i # _ \<Rightarrow> Some i)"

section \<open>Paths\<close>

definition boot_suffixes :: "fstab_env \<Rightarrow> string list" where
  "boot_suffixes fv =
     concat (map (\<lambda>p. case get_boot_config fv p of None \<Rightarrow> [] | Some s \<Rightarrow> [s])
       [''fstab_suffix'', ''hardware'', ''hardware.platform''])"

definition first_existing :: "fstab_env \<Rightarrow> string list \<Rightarrow> string \<Rightarrow> string" where
  "first_existing fv paths otherwise =
     (case find (\<lambda>p. file_access fv p = Exists) paths of None \<Rightarrow> otherwise | Some p \<Rightarrow> p)"

definition GetRecoveryFstabPath :: "fstab_env \<Rightarrow> string" where
  "GetRecoveryFstabPath fv =
     first_existing fv (map (\<lambda>s. ''/etc/recovery.fstab.'' @ s) (boot_suffixes fv)) ''/etc/recovery.fstab''"

definition GetFstabPath :: "fstab_env \<Rightarrow> string" where
  "GetFstabPath fv =
     (if InRecovery fv then GetRecoveryFstabPath fv
      else first_existing fv
             (concat (map (\<lambda>s. map (\<lambda>p. p @ s)
                [''/odm/etc/fstab.'', ''/vendor/etc/fstab.'', ''/system/etc/fstab.'',
                 ''/first_stage_ramdisk/system/etc/fstab.'', ''/fstab.'', ''/first_stage_ramdisk/fstab.''])
                (boot_suffixes fv))) [])"

section \<open>Parsing a table\<close>

definition parse_fstab_line :: "fstab_env \<Rightarrow> bool \<Rightarrow> string list \<Rightarrow> fstab_entry option" where
  "parse_fstab_line fv proc_mounts fds =
     (let e = (default_entry fv)\<lparr>fe_blk_device := fds ! 0, fe_mount_point := fds ! 1,
                                 fe_fs_type := fds ! 2\<rparr>;
          e = ParseMountFlags fv (fds ! 3) e
      in case (if proc_mounts then Some e else ParseFsMgrFlags fv (fds ! 4) e) of
           None \<Rightarrow> None
         | Some e \<Rightarrow>
             Some (if F_logical \<in> fe_fs_mgr_flags e
                   then e\<lparr>fe_logical_partition_name := fe_blk_device e\<rparr> else e))"

fun fstab_lines :: "fstab_env \<Rightarrow> bool \<Rightarrow> string list \<Rightarrow> fstab option" where
  "fstab_lines fv proc_mounts [] = Some []"
| "fstab_lines fv proc_mounts (line # rest) =
     (let fds = Tokenize (flb fv) line [CHR '' '', CHR 0x09] in
      if fds = [] \<or> StartsWith (flb fv) (hd fds) ''#'' then fstab_lines fv proc_mounts rest
      else if length fds < (if proc_mounts then 4 else 5) then None
      else (case parse_fstab_line fv proc_mounts fds of
              None \<Rightarrow> None
            | Some e \<Rightarrow> map_option ((#) e) (fstab_lines fv proc_mounts rest)))"

definition ParseFstabFromString :: "fstab_env \<Rightarrow> string \<Rightarrow> bool \<Rightarrow> fstab option" where
  "ParseFstabFromString fv fstab_str proc_mounts =
     (case fstab_lines fv proc_mounts (Split (flb fv) fstab_str [CHR ''\<newline>'']) of
        None \<Rightarrow> None
      | Some es \<Rightarrow> if es = [] then None else update_for_slotselect fv es)"

section \<open>Dynamic system updates\<close>

definition update_where :: "('a \<Rightarrow> bool) \<Rightarrow> ('a \<Rightarrow> 'a) \<Rightarrow> 'a list \<Rightarrow> 'a list" where
  "update_where P f xs = map (\<lambda>x. if P x then f x else x) xs"

definition dsu_userdata_entry :: "fstab_env \<Rightarrow> string \<Rightarrow> fstab_entry \<Rightarrow> fstab_entry" where
  "dsu_userdata_entry fv dsu_slot e =
     (let e = set_fm {F_logical, F_formattable} (e\<lparr>fe_blk_device := kDsuUserdata fv\<rparr>)
      in if fe_metadata_key_dir e \<noteq> [] then e\<lparr>fe_metadata_key_dir := GetDsuMetadataKeyDir fv dsu_slot\<rparr> else e)"

definition dsu_ro_entry :: "string \<Rightarrow> string \<Rightarrow> fstab_entry \<Rightarrow> fstab_entry" where
  "dsu_ro_entry part lp_name e =
     e\<lparr>fe_blk_device := part, fe_avb_keys := ''/avb'', fe_logical_partition_name := lp_name,
       fe_fs_mgr_flags := insert F_logical (fe_fs_mgr_flags e) - {F_slot_select, F_slot_select_other}\<rparr>"

definition dsu_new_entry :: "fstab_env \<Rightarrow> string \<Rightarrow> string \<Rightarrow> string \<Rightarrow> string \<Rightarrow> fstab_entry" where
  "dsu_new_entry fv part lp_name mount_point fs_type =
     (default_entry fv)\<lparr>fe_blk_device := part, fe_logical_partition_name := lp_name,
        fe_mount_point := mount_point, fe_fs_type := fs_type, fe_flags := MS_RDONLY,
        fe_avb_keys := ''/avb'', fe_fs_mgr_flags := {F_wait, F_logical, F_first_stage_mount}\<rparr>"

definition dsu_pred :: "string \<Rightarrow> fstab_entry \<Rightarrow> bool" where
  "dsu_pred mount_point e \<longleftrightarrow> F_first_stage_mount \<in> fe_fs_mgr_flags e \<and> fe_mount_point e = mount_point"

text \<open>The position after the first group of matching entries, or the end of the table.\<close>

definition group_end :: "('a \<Rightarrow> bool) \<Rightarrow> 'a list \<Rightarrow> nat" where
  "group_end P xs =
     (let first = length (takeWhile (\<lambda>x. \<not> P x) xs) in first + length (takeWhile P (drop first xs)))"

definition dsu_partition :: "fstab_env \<Rightarrow> string \<Rightarrow> string \<Rightarrow> fstab \<Rightarrow> fstab" where
  "dsu_partition fv dsu_slot part tab =
     (if \<not> EndsWith (flb fv) part (kDsuPostfix fv) then tab
      else if part = kDsuScratch fv then tab
      else if part = kDsuUserdata fv
      then update_where (\<lambda>e. fe_mount_point e = ''/data'') (dsu_userdata_entry fv dsu_slot) tab
      else
        (let lp_name = take (length part - length (kDsuPostfix fv)) part;
             mount_point = ''/'' @ lp_name; P = dsu_pred mount_point;
             tab' = update_where P (dsu_ro_entry part lp_name) tab;
             lack = filter (\<lambda>t. t \<notin> fe_fs_type ` set (filter P tab)) [''ext4'', ''erofs''];
             pos = group_end P tab'
         in take pos tab' @ map (dsu_new_entry fv part lp_name mount_point) lack @ drop pos tab'))"

definition TransformFstabForDsu :: "fstab_env \<Rightarrow> string \<Rightarrow> string list \<Rightarrow> fstab \<Rightarrow> fstab" where
  "TransformFstabForDsu fv dsu_slot dsu_partitions tab = fold (dsu_partition fv dsu_slot) dsu_partitions tab"

section \<open>Reading tables\<close>

definition EnableMandatoryFlags :: "fstab_env \<Rightarrow> fstab \<Rightarrow> fstab" where
  "EnableMandatoryFlags fv tab =
     (if first_api_level fv \<ge> 30
      then update_where (\<lambda>e. fe_mount_point e = ''/metadata'') (set_fm {F_fs_verity})
             (update_where (\<lambda>e. fe_mount_point e = ''/data'' \<and> fe_fs_type e = ''ext4'')
                (set_fm {F_fs_verity}) tab)
      else tab)"

definition SkipMountWithConfig :: "fstab_env \<Rightarrow> string \<Rightarrow> fstab \<Rightarrow> fstab" where
  "SkipMountWithConfig fv config tab =
     (let patterns = filter (\<lambda>l. \<not> (l = [] \<or> StartsWith (flb fv) l ''#'')) (Split (flb fv) config [CHR ''\<newline>''])
      in filter (\<lambda>e. \<not> (\<exists>p \<in> set patterns. fnmatch fv p (fe_mount_point e))) tab)"

definition SkipMountingPartitions :: "fstab_env \<Rightarrow> fstab \<Rightarrow> fstab" where
  "SkipMountingPartitions fv tab =
     (if kNoSkipMount fv then tab
      else (case ReadFile fv ''/system/system_ext/etc/init/config/skip_mount.cfg'' of
              None \<Rightarrow> tab | Some c \<Rightarrow> SkipMountWithConfig fv c tab))"

definition ReadFstabFromFileCommon :: "fstab_env \<Rightarrow> string \<Rightarrow> fstab option" where
  "ReadFstabFromFileCommon fv path =
     (case ReadFile fv path of
        None \<Rightarrow> None
      | Some s \<Rightarrow> map_option (EnableMandatoryFlags fv) (ParseFstabFromString fv s (path = ''/proc/mounts'')))"

definition ReadFstabFromFile :: "fstab_env \<Rightarrow> string \<Rightarrow> fstab option" where
  "ReadFstabFromFile fv path =
     (case ReadFstabFromFileCommon fv path of
        None \<Rightarrow> None
      | Some tab \<Rightarrow>
          if path \<noteq> ''/proc/mounts'' \<and> \<not> InRecovery fv
          then (case file_access fv (kGsiBootedIndicatorFile fv) of
                  Exists \<Rightarrow>
                    (case GetActiveDsu fv of
                       None \<Rightarrow> None
                     | Some dsu_slot \<Rightarrow>
                         (case ReadFile fv (kGsiLpNamesFile fv) of
                            None \<Rightarrow> None
                          | Some lp_names \<Rightarrow>
                              Some (SkipMountingPartitions fv
                                (TransformFstabForDsu fv dsu_slot (Split (flb fv) lp_names '','') tab))))
                | NoEntry \<Rightarrow> Some (SkipMountingPartitions fv tab)
                | AccessError \<Rightarrow> None)
          else Some tab)"

definition ReadFstabFromProcMounts :: "fstab_env \<Rightarrow> fstab option" where
  "ReadFstabFromProcMounts fv = ReadFstabFromFileCommon fv ''/proc/mounts''"

definition ReadFstabFromDt :: "fstab_env \<Rightarrow> fstab option" where
  "ReadFstabFromDt fv =
     (let buf = dt_fstab_text fv in
      if buf = [] then None
      else map_option (SkipMountingPartitions fv) (ParseFstabFromString fv buf False))"

text \<open>
  The table from the device tree, then the default table.  When the device tree's table does not
  parse, the output is still empty.
\<close>

definition ReadDefaultFstab :: "fstab_env \<Rightarrow> bool \<times> fstab" where
  "ReadDefaultFstab fv =
     (let dt = (case ReadFstabFromDt fv of None \<Rightarrow> [] | Some t \<Rightarrow> t);
          path = GetFstabPath fv;
          tab = dt @ (if path \<noteq> [] then (case ReadFstabFromFile fv path of None \<Rightarrow> [] | Some t \<Rightarrow> t) else [])
      in (tab \<noteq> [], tab))"

definition consume_comma :: "fstab_env \<Rightarrow> string \<Rightarrow> string" where
  "consume_comma fv d = (if EndsWith (flb fv) d '','' then butlast d else d)"

definition GetBootDevices :: "fstab_env \<Rightarrow> string set" where
  "GetBootDevices fv =
     (case (case GetBootconfig fv ''androidboot.boot_devices'' of
              Some v \<Rightarrow> Some v | None \<Rightarrow> GetBootconfig fv ''androidboot.boot_device'') of
        Some v \<Rightarrow> consume_comma fv ` set (Split (flb fv) v '' '')
      | None \<Rightarrow>
          (case (case GetKernelCmdline fv ''androidboot.boot_devices'' of
                   Some v \<Rightarrow> Some v | None \<Rightarrow> ReadDtFile fv (GetAndroidDtDir fv @ ''boot_devices'')) of
             Some v \<Rightarrow> set (Split (flb fv) v '','')
           | None \<Rightarrow>
               (let ds = map snd (filter (\<lambda>(k, _). k = ''androidboot.boot_device'') (kernel_cmdline fv)) in
                if ds \<noteq> [] then set ds
                else (case ReadDefaultFstab fv of
                        (False, _) \<Rightarrow> {} | (True, tab) \<Rightarrow> ExtraBootDevices fv tab))))"

text \<open>The callback overwrites: the last occurrence on the command line counts.\<close>

definition GetBootPartUuid :: "fstab_env \<Rightarrow> string" where
  "GetBootPartUuid fv =
     (case GetBootconfig fv ''androidboot.boot_part_uuid'' of
        Some v \<Rightarrow> v
      | None \<Rightarrow> fold (\<lambda>(k, v) acc. if k = ''androidboot.boot_part_uuid'' then v else acc)
                  (kernel_cmdline fv) [])"

definition GetVerityDeviceName :: "fstab_env \<Rightarrow> fstab_entry \<Rightarrow> string" where
  "GetVerityDeviceName fv e =
     (if fe_mount_point e = ''/''
      then (if F_avb \<in> fe_fs_mgr_flags e then ''vroot'' else ''system-verity'')
      else Basename (flb fv) (fe_mount_point e) @ ''-verity'')"

end
