(* ===== verification/Fstab_Correct.thy ===== *)
theory Fstab_Correct
  imports Fstab "HOL-Library.Multiset"
begin

text \<open>
  Correctness of the reader of file system tables in \<open>Fstab\<close>: mount flags, the well-formedness of
  accepted entries, reading back a written table, the conversion for dynamic system updates, boot
  devices and the order of the table in the device tree.
\<close>

section \<open>Mount flags\<close>

lemma mount_option_arg_frame:
  "fe_flags (mount_option_arg fv flag e) = fe_flags e"
  "fe_blk_device (mount_option_arg fv flag e) = fe_blk_device e"
  "fe_mount_point (mount_option_arg fv flag e) = fe_mount_point e"
  "fe_fs_type (mount_option_arg fv flag e) = fe_fs_type e"
  "fe_fs_mgr_flags (mount_option_arg fv flag e) = fe_fs_mgr_flags e"
  by (simp_all add: mount_option_arg_def split: option.split)

definition mount_bits :: "string \<Rightarrow> u64" where
  "mount_bits f = (case map_of kMountFlagsList f of None \<Rightarrow> 0 | Some b \<Rightarrow> b)"

abbreviation fs_specific :: "string list \<Rightarrow> string list" where
  "fs_specific \<equiv> filter (\<lambda>f. map_of kMountFlagsList f = None)"

lemma intercalate_Cons:
  "intercalate sep (w # ws) = (if ws = [] then w else w @ sep @ intercalate sep ws)"
  by (cases ws) simp_all

lemma mount_flag_loop_spec:
  assumes "\<forall>f \<in> set fl. f \<noteq> []"
  shows "\<exists>e'. mount_flag_loop fv fl opts e =
      (if fs_specific fl = [] then opts
       else if opts = [] then intercalate '','' (fs_specific fl)
       else opts @ '','' @ intercalate '','' (fs_specific fl), e') \<and>
    fe_flags e' = fold (\<lambda>f v. v OR mount_bits f) fl (fe_flags e) \<and>
    fe_blk_device e' = fe_blk_device e \<and> fe_mount_point e' = fe_mount_point e \<and>
    fe_fs_type e' = fe_fs_type e \<and> fe_fs_mgr_flags e' = fe_fs_mgr_flags e"
  using assms
proof (induction fl arbitrary: opts e)
  case (Cons f fl)
  show ?case
  proof (cases "map_of kMountFlagsList f")
    case None
    let ?o = "(if opts \<noteq> [] then opts @ '','' else opts) @ f"
    have "?o \<noteq> []" using Cons.prems by simp
    with Cons.IH [of ?o "mount_option_arg fv f e"] Cons.prems None show ?thesis
      by (auto simp: SetMountFlag_def mount_option_arg_frame mount_bits_def intercalate_Cons)
  next
    case (Some b)
    with Cons.IH [of opts "e\<lparr>fe_flags := fe_flags e OR b\<rparr>"] Cons.prems show ?thesis
      by (auto simp: SetMountFlag_def mount_bits_def)
  qed
qed simp

text \<open>
  Parsing a comma separated list of mount flags sets exactly the bits of the
  flags the table knows, puts all the others in order into the file system options, separated by
  commas, and leaves device, mount point, type and manager flags alone.
\<close>

theorem fstab_mount_flags:
  assumes "libbase_laws (flb fv)" and "fl \<noteq> []" and "\<forall>f \<in> set fl. f \<noteq> [] \<and> CHR '','' \<notin> set f"
  shows "let e' = ParseMountFlags fv (intercalate '','' fl) e in
    fe_flags e' = fold (\<lambda>f v. v OR mount_bits f) fl (fe_flags e) \<and>
    fe_fs_options e' = intercalate '','' (fs_specific fl) \<and>
    fe_blk_device e' = fe_blk_device e \<and> fe_mount_point e' = fe_mount_point e \<and>
    fe_fs_type e' = fe_fs_type e \<and> fe_fs_mgr_flags e' = fe_fs_mgr_flags e"
proof -
  have "Split (flb fv) (intercalate '','' fl) '','' = fl"
    using assms by (simp add: libbase_laws.Split_eq split_any_intercalate)
  moreover have "\<forall>f \<in> set fl. f \<noteq> []" using assms(3) by blast
  ultimately show ?thesis
    using mount_flag_loop_spec [of fl fv "[]" e] by (auto simp: ParseMountFlags_def Let_def)
qed

section \<open>Lines\<close>

lemma split_any_words:
  assumes "ws \<noteq> []" and "d \<in> ds" and "\<forall>w \<in> set ws. set w \<inter> ds = {}"
  shows "split_any ds (intercalate [d] ws) = ws"
  using assms
proof (induction "[d]" ws rule: intercalate.induct)
  case (3 w v ws)
  then show ?case by (simp add: split_any_append)
qed (auto simp: split_any_no_delim)

lemma split_terminated:
  "\<forall>l \<in> set ls. d \<notin> set l \<Longrightarrow> split_any {d} (concat (map (\<lambda>l. l @ [d]) ls)) = ls @ [[]]"
  by (induction ls) (simp_all add: split_any_append)

definition blanks :: "char set" where
  "blanks = {CHR '' '', CHR 0x09, CHR ''\<newline>''}"

definition fstab_word :: "string \<Rightarrow> bool" where
  "fstab_word w \<longleftrightarrow> w \<noteq> [] \<and> set w \<inter> blanks = {}"

text \<open>The possible effects of a flag with an argument, without the order of the comparisons.\<close>

lemma fs_mgr_arg_flag_cases:
  assumes "fs_mgr_arg_flag fv flag arg e = Some e'"
  shows "e' \<in> set [e, set_fm {F_crypt} e, parse_voldmanaged fv arg e,
    set_int fv arg INT64_MIN INT64_MAX (\<lambda>v e. e\<lparr>fe_length := v\<rparr>) e,
    set_int fv arg INT_MIN INT_MAX (\<lambda>v e. e\<lparr>fe_swap_prio := v\<rparr>) e,
    parse_zramsize fv arg e, ParseFileEncryption arg e,
    set_int fv arg INT_MIN INT_MAX (\<lambda>v e. e\<lparr>fe_max_comp_streams := v\<rparr>) e,
    parse_reservedsize fv arg e,
    set_int fv arg 0 (16 * 1024) (\<lambda>v e. e\<lparr>fe_readahead_size_kb := v\<rparr>) e,
    set_int fv arg INT64_MIN INT64_MAX (\<lambda>v e. if block_size_ok v then e\<lparr>fe_erase_blk_size := v\<rparr> else e) e,
    set_int fv arg INT64_MIN INT64_MAX (\<lambda>v e. if block_size_ok v then e\<lparr>fe_logical_blk_size := v\<rparr> else e) e,
    e\<lparr>fe_avb_keys := arg\<rparr>, e\<lparr>fe_avb_hashtree_digest := arg\<rparr>, (set_fm {F_avb} e)\<lparr>fe_vbmeta_partition := arg\<rparr>,
    e\<lparr>fe_metadata_key_dir := arg\<rparr>, e\<lparr>fe_metadata_encryption_options := arg\<rparr>, e\<lparr>fe_sysfs_path := arg\<rparr>,
    case ParseByteCount (flb fv) arg of None \<Rightarrow> e | Some n \<Rightarrow> e\<lparr>fe_zram_backingdev_size := n\<rparr>,
    ParseUserDevices fv arg e]"
  using assms unfolding fs_mgr_arg_flag_def Let_def
  by (simp only: option.inject option.distinct list.set insert_iff simp_thms split: if_split_asm)

text \<open>The test of the code accepts exactly the powers of two from 4096 on.\<close>

lemma and_pred_zero_pow2:
  assumes "0 < (n :: nat)" and "n AND (n - 1) = 0"
  shows "\<exists>k. n = 2 ^ k"
  using assms
proof (induction n rule: less_induct)
  case (less n)
  show ?case
  proof (cases "even n")
    case True
    then obtain m where m: "n = 2 * m" by (rule evenE)
    with less.prems have m0: "0 < m" by simp
    have "n - 1 = 2 * (m - 1) + 1" using m m0 by simp
    then have "n AND (n - 1) = 2 * (m AND (m - 1))"
      using m by (simp add: and_nat_rec [of "2 * m"])
    then have "m AND (m - 1) = 0" using less.prems by simp
    with less.IH [of m] m m0 obtain k where "m = 2 ^ k" by auto
    then have "n = 2 ^ Suc k" using m by simp
    then show ?thesis by blast
  next
    case False
    then obtain m where m: "n = 2 * m + 1" by (rule oddE)
    have "n AND (n - 1) = 2 * (m AND m)" using m by (simp add: and_nat_rec [of "Suc (2 * m)"])
    then have "m = 0" using less.prems by simp
    then have "n = 2 ^ 0" using m by simp
    then show ?thesis by blast
  qed
qed

lemma block_size_ok_pow2:
  assumes "block_size_ok v"
  shows "\<exists>k \<ge> 12. v = 2 ^ k"
proof -
  have v: "4096 \<le> v" "v AND (v - 1) = 0" using assms by (auto simp: block_size_ok_def)
  define n where "n = nat v"
  have nv: "v = int n" "0 < n" using v by (auto simp: n_def)
  then have "int (n AND (n - 1)) = 0"
    using v by (simp add: of_nat_and_eq of_nat_diff)
  then have "n AND (n - 1) = 0" by simp
  then obtain k where k: "n = 2 ^ k" using and_pred_zero_pow2 nv(2) by blast
  have "12 \<le> k"
  proof (rule ccontr)
    assume "\<not> 12 \<le> k"
    then have "(2 :: nat) ^ k \<le> 2 ^ 11" by (intro power_increasing) simp_all
    then show False using k nv v by simp
  qed
  with k nv show ?thesis by auto
qed

definition entry_ok :: "fstab_env \<Rightarrow> fstab_entry \<Rightarrow> bool" where
  "entry_ok fv e \<longleftrightarrow>
     (fe_erase_blk_size e = fe_erase_blk_size (default_entry fv) \<or> (\<exists>k \<ge> 12. fe_erase_blk_size e = 2 ^ k)) \<and>
     (fe_logical_blk_size e = fe_logical_blk_size (default_entry fv) \<or> (\<exists>k \<ge> 12. fe_logical_blk_size e = 2 ^ k)) \<and>
     (fe_readahead_size_kb e = fe_readahead_size_kb (default_entry fv) \<or>
        0 \<le> fe_readahead_size_kb e \<and> fe_readahead_size_kb e \<le> 16384) \<and>
     length (fe_user_devices e) = length (fe_device_aliased e)"

definition flag_step_ok :: "fstab_env \<Rightarrow> fstab_entry \<Rightarrow> fstab_entry \<Rightarrow> bool" where
  "flag_step_ok fv e e' \<longleftrightarrow> (entry_ok fv e \<longrightarrow> entry_ok fv e') \<and> fe_blk_device e' = fe_blk_device e \<and>
     fe_mount_point e' = fe_mount_point e \<and> fe_fs_type e' = fe_fs_type e"

lemma set_int_step:
  "(\<And>v e. ParseInt (flb fv) arg lo hi = Some v \<Longrightarrow> flag_step_ok fv e (f v e)) \<Longrightarrow>
   flag_step_ok fv e (set_int fv arg lo hi f e)"
  by (simp add: set_int_def flag_step_ok_def split: option.split)

lemma arg_steps:
  "flag_step_ok fv e (parse_voldmanaged fv arg e)" "flag_step_ok fv e (parse_zramsize fv arg e)"
  "flag_step_ok fv e (ParseFileEncryption arg e)" "flag_step_ok fv e (parse_reservedsize fv arg e)"
  "flag_step_ok fv e (ParseUserDevices fv arg e)"
  "flag_step_ok fv e (case ParseByteCount (flb fv) arg of None \<Rightarrow> e | Some n \<Rightarrow> e\<lparr>fe_zram_backingdev_size := n\<rparr>)"
  subgoal by (simp add: flag_step_ok_def entry_ok_def parse_voldmanaged_def set_fm_def Let_def split: option.split)
  subgoal by (simp add: flag_step_ok_def entry_ok_def parse_zramsize_def set_int_def split: option.split)
  subgoal by (simp add: flag_step_ok_def entry_ok_def ParseFileEncryption_def set_fm_def)
  subgoal by (simp add: flag_step_ok_def entry_ok_def parse_reservedsize_def split: option.split)
  subgoal by (simp add: flag_step_ok_def entry_ok_def ParseUserDevices_def set_fm_def Let_def)
  subgoal by (simp add: flag_step_ok_def entry_ok_def split: option.split)
  done

lemma int_steps:
  "flag_step_ok fv e (set_int fv arg INT64_MIN INT64_MAX (\<lambda>v e. e\<lparr>fe_length := v\<rparr>) e)"
  "flag_step_ok fv e (set_int fv arg INT_MIN INT_MAX (\<lambda>v e. e\<lparr>fe_swap_prio := v\<rparr>) e)"
  "flag_step_ok fv e (set_int fv arg INT_MIN INT_MAX (\<lambda>v e. e\<lparr>fe_max_comp_streams := v\<rparr>) e)"
  by (rule set_int_step, simp add: flag_step_ok_def entry_ok_def)+

lemma block_steps:
  "flag_step_ok fv e (set_int fv arg INT64_MIN INT64_MAX
     (\<lambda>v e. if block_size_ok v then e\<lparr>fe_erase_blk_size := v\<rparr> else e) e)"
  "flag_step_ok fv e (set_int fv arg INT64_MIN INT64_MAX
     (\<lambda>v e. if block_size_ok v then e\<lparr>fe_logical_blk_size := v\<rparr> else e) e)"
  by (rule set_int_step, use block_size_ok_pow2 in \<open>simp add: flag_step_ok_def entry_ok_def\<close>)+

lemma readahead_step:
  "libbase_laws (flb fv) \<Longrightarrow>
   flag_step_ok fv e (set_int fv arg 0 (16 * 1024) (\<lambda>v e. e\<lparr>fe_readahead_size_kb := v\<rparr>) e)"
  by (rule set_int_step) (auto simp: flag_step_ok_def entry_ok_def dest: libbase_laws.ParseInt_range)

lemma plain_steps:
  "flag_step_ok fv e e" "flag_step_ok fv e (set_fm fs e)" "flag_step_ok fv e (e\<lparr>fe_avb_keys := arg\<rparr>)"
  "flag_step_ok fv e (e\<lparr>fe_avb_hashtree_digest := arg\<rparr>)"
  "flag_step_ok fv e ((set_fm fs e)\<lparr>fe_vbmeta_partition := arg\<rparr>)"
  "flag_step_ok fv e (e\<lparr>fe_metadata_key_dir := arg\<rparr>)"
  "flag_step_ok fv e (e\<lparr>fe_metadata_encryption_options := arg\<rparr>)"
  "flag_step_ok fv e (e\<lparr>fe_sysfs_path := arg\<rparr>)"
  by (simp_all add: flag_step_ok_def entry_ok_def set_fm_def)

lemma fs_mgr_arg_flag_step:
  assumes "libbase_laws (flb fv)" and "fs_mgr_arg_flag fv flag arg e = Some e'"
  shows "flag_step_ok fv e e'"
  using fs_mgr_arg_flag_cases [OF assms(2)] arg_steps int_steps block_steps readahead_step [OF assms(1)] plain_steps
  unfolding list.set by (elim insertE emptyE; simp only:)

lemma fs_mgr_flag_step:
  assumes "libbase_laws (flb fv)" and "fs_mgr_flag fv flag e = Some e'"
  shows "flag_step_ok fv e e'"
  using assms(2) fs_mgr_arg_flag_step [OF assms(1)] plain_steps
  by (auto simp: fs_mgr_flag_def split: if_splits option.splits)

lemma fs_mgr_flag_loop_step:
  assumes "libbase_laws (flb fv)" and "fs_mgr_flag_loop fv fl e = Some e'"
  shows "flag_step_ok fv e e'"
  using assms(2)
proof (induction fl arbitrary: e)
  case (Cons f fl)
  then obtain e1 where e1: "fs_mgr_flag fv f e = Some e1" "fs_mgr_flag_loop fv fl e1 = Some e'"
    by (auto split: option.splits)
  from fs_mgr_flag_step [OF assms(1) e1(1)] Cons.IH [OF e1(2)] show ?case
    by (simp add: flag_step_ok_def)
qed (simp add: plain_steps)

lemma mount_flags_ok: "entry_ok fv (ParseMountFlags fv s e) = entry_ok fv e"
  "fe_blk_device (ParseMountFlags fv s e) = fe_blk_device e"
  "fe_mount_point (ParseMountFlags fv s e) = fe_mount_point e"
  "fe_fs_type (ParseMountFlags fv s e) = fe_fs_type e"
proof -
  have one: "entry_ok fv (mount_option_arg fv f e) = entry_ok fv e" for f e
    by (simp add: mount_option_arg_def entry_ok_def split: option.split)
  have "mount_flag_loop fv fl opts e = (o', e') \<Longrightarrow> entry_ok fv e' = entry_ok fv e \<and>
      fe_blk_device e' = fe_blk_device e \<and> fe_mount_point e' = fe_mount_point e \<and> fe_fs_type e' = fe_fs_type e"
    for fl opts o' e'
  proof (induction fl arbitrary: opts e)
    case (Cons f fl)
    show ?case
    proof (cases "map_of kMountFlagsList f")
      case None
      with Cons.prems Cons.IH [of _ "mount_option_arg fv f e"] show ?thesis
        by (simp add: SetMountFlag_def mount_option_arg_frame one)
    next
      case (Some b)
      have "entry_ok fv (e\<lparr>fe_flags := x\<rparr>) = entry_ok fv e" for x by (simp add: entry_ok_def)
      with Some Cons.prems Cons.IH [of opts "e\<lparr>fe_flags := fe_flags e OR b\<rparr>"] show ?thesis
        by (simp add: SetMountFlag_def)
    qed
  qed simp
  then show "entry_ok fv (ParseMountFlags fv s e) = entry_ok fv e"
    "fe_blk_device (ParseMountFlags fv s e) = fe_blk_device e"
    "fe_mount_point (ParseMountFlags fv s e) = fe_mount_point e"
    "fe_fs_type (ParseMountFlags fv s e) = fe_fs_type e"
    by (auto simp: ParseMountFlags_def entry_ok_def split: prod.split)
qed

lemma parse_fstab_line_ok:
  assumes "libbase_laws (flb fv)" and "parse_fstab_line fv pm fds = Some e"
    and "length (fe_user_devices (default_entry fv)) = length (fe_device_aliased (default_entry fv))"
  shows "entry_ok fv e \<and> fe_blk_device e = fds ! 0 \<and> fe_mount_point e = fds ! 1 \<and> fe_fs_type e = fds ! 2 \<and>
    (F_logical \<in> fe_fs_mgr_flags e \<longrightarrow> fe_logical_partition_name e = fe_blk_device e) \<and>
    (\<not> pm \<and> \<not> InRecovery fv \<and> F_crypt \<in> fe_fs_mgr_flags e \<longrightarrow> F_vold_managed \<in> fe_fs_mgr_flags e)"
proof -
  let ?e0 = "ParseMountFlags fv (fds ! 3) ((default_entry fv)\<lparr>fe_blk_device := fds ! 0, fe_mount_point := fds ! 1,
      fe_fs_type := fds ! 2\<rparr>)"
  have e0: "entry_ok fv ?e0" "fe_blk_device ?e0 = fds ! 0" "fe_mount_point ?e0 = fds ! 1" "fe_fs_type ?e0 = fds ! 2"
    using assms(3) by (simp_all add: mount_flags_ok) (simp add: entry_ok_def)
  obtain e1 where e1: "(if pm then Some ?e0 else ParseFsMgrFlags fv (fds ! 4) ?e0) = Some e1"
      and e: "e = (if F_logical \<in> fe_fs_mgr_flags e1 then e1\<lparr>fe_logical_partition_name := fe_blk_device e1\<rparr> else e1)"
    using assms(2) by (auto simp: parse_fstab_line_def Let_def split: option.splits if_splits)
  have "flag_step_ok fv ?e0 e1 \<and>
      (\<not> pm \<and> \<not> InRecovery fv \<and> F_crypt \<in> fe_fs_mgr_flags e1 \<longrightarrow> F_vold_managed \<in> fe_fs_mgr_flags e1)"
  proof (cases pm)
    case True
    with e1 plain_steps show ?thesis by simp
  next
    case False
    with e1 show ?thesis
      by (auto simp: ParseFsMgrFlags_def split: option.splits if_splits
          intro: fs_mgr_flag_loop_step [OF assms(1)])
  qed
  with e0 e show ?thesis
    by (auto simp: flag_step_ok_def entry_ok_def)
qed


text \<open>The text of a table: one line for each row of words.\<close>

definition fstab_text :: "string list list \<Rightarrow> string" where
  "fstab_text rows = concat (map (\<lambda>r. intercalate '' '' r @ [CHR ''\<newline>'']) rows)"

lemma fstab_lines_rows:
  assumes lb: "libbase_laws (flb fv)"
    and "\<forall>r \<in> set rows. length r = 5 \<and> list_all fstab_word r \<and> hd (hd r) \<noteq> CHR ''#''"
  shows "fstab_lines fv False (map (intercalate '' '') rows @ [[]]) = those (map (parse_fstab_line fv False) rows)"
  using assms(2)
proof (induction rows)
  case Nil
  then show ?case by (simp add: libbase_laws.Tokenize_eq [OF lb])
next
  case (Cons r rows)
  then have r: "length r = 5" "\<forall>w \<in> set r. w \<noteq> [] \<and> set w \<inter> blanks = {}" "hd (hd r) \<noteq> CHR ''#''"
    by (auto simp: list_all_iff fstab_word_def)
  then have "r \<noteq> []" by auto
  have "split_any {CHR '' '', CHR 0x09} (intercalate '' '' r) = r"
    using r \<open>r \<noteq> []\<close> by (intro split_any_words) (auto simp: blanks_def)
  moreover have "filter (\<lambda>w. w \<noteq> []) r = r" using r(2) by (simp add: filter_id_conv)
  ultimately have "Tokenize (flb fv) (intercalate '' '' r) [CHR '' '', CHR 0x09] = r"
    by (simp add: libbase_laws.Tokenize_eq [OF lb])
  moreover have "\<not> StartsWith (flb fv) (hd r) ''#''"
    using r(3) \<open>r \<noteq> []\<close> r(2) by (cases "hd r") (auto simp: libbase_laws.StartsWith_eq [OF lb])
  ultimately show ?case using Cons r(1) \<open>r \<noteq> []\<close>
    by (simp add: Let_def split: option.split)
qed

text \<open>
  C28 (fstab_text_roundtrip): reading back a table that was written one entry to a line, with five
  blank separated words each, yields the entries of these lines in order, after the slot suffixes
  were applied; and each entry has the device, mount point and type of its line.
\<close>

theorem fstab_text_roundtrip:
  assumes lb: "libbase_laws (flb fv)" and ne: "rows \<noteq> []"
    and rows: "\<forall>r \<in> set rows. length r = 5 \<and> list_all fstab_word r \<and> hd (hd r) \<noteq> CHR ''#''"
    and es: "those (map (parse_fstab_line fv False) rows) = Some es"
    and dev: "length (fe_user_devices (default_entry fv)) = length (fe_device_aliased (default_entry fv))"
  shows "ParseFstabFromString fv (fstab_text rows) False = update_for_slotselect fv es \<and>
    map (\<lambda>e. [fe_blk_device e, fe_mount_point e, fe_fs_type e]) es = map (take 3) rows"
proof -
  have nl: "\<forall>l \<in> set (map (intercalate '' '') rows). CHR ''\<newline>'' \<notin> set l"
  proof -
    have "CHR ''\<newline>'' \<notin> set (intercalate '' '' r)" if "list_all fstab_word r" for r
      using that by (induction "'' ''" r rule: intercalate.induct) (auto simp: fstab_word_def blanks_def)
    then show ?thesis using rows by auto
  qed
  have "fstab_text rows = concat (map (\<lambda>l. l @ [CHR ''\<newline>'']) (map (intercalate '' '') rows))"
    by (simp add: fstab_text_def comp_def)
  then have "Split (flb fv) (fstab_text rows) [CHR ''\<newline>''] = map (intercalate '' '') rows @ [[]]"
    using split_terminated [OF nl] by (simp add: libbase_laws.Split_eq [OF lb])
  moreover have "es \<noteq> []" using es ne by (cases rows) (auto split: option.splits)
  ultimately have "ParseFstabFromString fv (fstab_text rows) False = update_for_slotselect fv es"
    using fstab_lines_rows [OF lb rows] es by (simp add: ParseFstabFromString_def)
  moreover have "map (\<lambda>e. [fe_blk_device e, fe_mount_point e, fe_fs_type e]) es = map (take 3) rows"
    using es rows
  proof (induction rows arbitrary: es)
    case (Cons r rows)
    then obtain e es' where e: "parse_fstab_line fv False r = Some e" "es = e # es'"
        "those (map (parse_fstab_line fv False) rows) = Some es'"
      by (auto split: option.splits)
    have "take 3 r = [r ! 0, r ! 1, r ! 2]" using Cons.prems(2)
      by (auto simp: numeral_eq_Suc length_Suc_conv)
    with Cons e parse_fstab_line_ok [OF lb e(1) dev] show ?case by simp
  qed simp
  ultimately show ?thesis by simp
qed

section \<open>Dynamic system updates\<close>

lemma filter_update_where:
  "(\<And>x. P x \<Longrightarrow> P (f x)) \<Longrightarrow> filter (\<lambda>x. \<not> P x) (update_where P f xs) = filter (\<lambda>x. \<not> P x) xs"
  by (induction xs) (simp_all add: update_where_def)

text \<open>
  Converting a table for a read-only partition of a dynamic system update
  leaves the entries of other mount points as they were, in order; all first-stage entries of the
  partition's mount point now use the update's partition as a logical device without slots and with
  its keys, and there is one for each of ext4 and erofs.
\<close>

theorem fstab_dsu_partition:
  assumes "libbase_laws (flb fv)" and "part = lp @ kDsuPostfix fv"
    and "part \<noteq> kDsuScratch fv" and "part \<noteq> kDsuUserdata fv"
  shows "let tab' = dsu_partition fv slot part tab; P = dsu_pred (''/'' @ lp) in
    filter (\<lambda>e. \<not> P e) tab' = filter (\<lambda>e. \<not> P e) tab \<and>
    (\<forall>e \<in> set tab'. P e \<longrightarrow> fe_blk_device e = part \<and> fe_logical_partition_name e = lp \<and>
       fe_avb_keys e = ''/avb'' \<and> F_logical \<in> fe_fs_mgr_flags e \<and>
       F_slot_select \<notin> fe_fs_mgr_flags e \<and> F_slot_select_other \<notin> fe_fs_mgr_flags e) \<and>
    (\<forall>t \<in> {''ext4'', ''erofs''}. \<exists>e \<in> set tab'. P e \<and> fe_fs_type e = t)"
proof -
  define P where "P = dsu_pred (''/'' @ lp)"
  define f where "f = dsu_ro_entry part lp"
  define lack where "lack = filter (\<lambda>t. t \<notin> fe_fs_type ` set (filter P tab)) [''ext4'', ''erofs'']"
  define new where "new = map (dsu_new_entry fv part lp (''/'' @ lp)) lack"
  define tab' where "tab' = dsu_partition fv slot part tab"
  define upd where "upd = update_where P f tab"
  have lp: "take (length part - length (kDsuPostfix fv)) part = lp" using assms(2) by simp
  obtain pos where tab': "tab' = take pos upd @ new @ drop pos upd"
    using assms lp by (simp add: tab'_def dsu_partition_def Let_def libbase_laws.EndsWith_eq suffixI
        P_def f_def lack_def new_def upd_def)
  have Pf: "P (f e) = P e" "fe_fs_type (f e) = fe_fs_type e" for e
    by (simp_all add: P_def f_def dsu_pred_def dsu_ro_entry_def)
  have Pnew: "\<forall>e \<in> set new. P e" by (auto simp: new_def P_def dsu_pred_def dsu_new_entry_def)
  then have "filter (\<lambda>e. \<not> P e) new = []" by (simp add: filter_empty_conv)
  then have "filter (\<lambda>e. \<not> P e) tab' = filter (\<lambda>e. \<not> P e) (take pos upd @ drop pos upd)"
    unfolding tab' by (simp only: filter_append append_Nil)
  then have 1: "filter (\<lambda>e. \<not> P e) tab' = filter (\<lambda>e. \<not> P e) tab"
    using filter_update_where [of P f tab] Pf(1) by (simp add: upd_def)
  have st: "set tab' = set upd \<union> set new"
    unfolding tab' by (metis Un_assoc Un_commute append_take_drop_id set_append)
  have "\<forall>e \<in> set upd. P e \<longrightarrow> (\<exists>e0. e = f e0)" by (auto simp: upd_def update_where_def)
  then have 2: "\<forall>e \<in> set tab'. P e \<longrightarrow> fe_blk_device e = part \<and> fe_logical_partition_name e = lp \<and>
       fe_avb_keys e = ''/avb'' \<and> F_logical \<in> fe_fs_mgr_flags e \<and>
       F_slot_select \<notin> fe_fs_mgr_flags e \<and> F_slot_select_other \<notin> fe_fs_mgr_flags e"
    unfolding st by (auto simp: f_def dsu_ro_entry_def new_def dsu_new_entry_def)
  have 3: "\<exists>e \<in> set tab'. P e \<and> fe_fs_type e = t" if t: "t \<in> {''ext4'', ''erofs''}" for t
  proof (cases "t \<in> set lack")
    case True
    then have "dsu_new_entry fv part lp (''/'' @ lp) t \<in> set tab'" by (simp add: st new_def)
    then show ?thesis by (rule bexI [rotated]) (simp add: P_def dsu_pred_def dsu_new_entry_def)
  next
    case False
    with t have "t \<in> fe_fs_type ` set (filter P tab)" unfolding lack_def set_filter by auto
    then obtain e where "e \<in> set tab" "P e" "fe_fs_type e = t" by auto
    then have "f e \<in> set tab'" by (auto simp: st upd_def update_where_def)
    then show ?thesis using Pf \<open>P e\<close> \<open>fe_fs_type e = t\<close> by (metis (no_types))
  qed
  show ?thesis
    unfolding Let_def tab'_def [symmetric] P_def [symmetric] using 1 2 3 by blast
qed

text \<open>A reserved size of 8 EiB or more is accepted and stored as a negative number.\<close>

lemma fstab_reservedsize_wraps:
  "ParseByteCount (flb fv) arg = Some (2 ^ 63) \<Longrightarrow> fe_reserved_size (parse_reservedsize fv arg e) = - (2 ^ 63)"
  by (simp add: parse_reservedsize_def i64_def)

section \<open>Boot devices\<close>

lemma find_str_first: "find_str n s = Some i \<Longrightarrow> j < i \<Longrightarrow> take (length n) (drop j s) \<noteq> n"
  by (induction n s arbitrary: i j rule: find_str.induct)
     (auto split: if_splits simp: drop_Cons' less_Suc_eq_0_disj)

text \<open>
  from a block device of the documented form, \<open>/dev/block/\<close> type, \<open>/\<close> device,
  \<open>/by-name/\<close> partition, the boot device is exactly the device part, which may contain slashes.
\<close>

theorem fstab_boot_device:
  assumes lb: "libbase_laws (flb fv)" and "CHR ''/'' \<notin> set ty" and "dev \<noteq> []"
    and first: "find_str ''/by-name'' (''/dev/block/'' @ ty @ ''/'' @ dev @ ''/by-name/'' @ part) =
      Some (length (''/dev/block/'' @ ty @ ''/'' @ dev))"
  shows "boot_device_of fv (''/dev/block/'' @ ty @ ''/'' @ dev @ ''/by-name/'' @ part) = Some dev"
proof -
  let ?blk = "''/dev/block/'' @ ty @ ''/'' @ dev @ ''/by-name/'' @ part"
  have no: "\<not> prefix (x @ ''/by-name'') ?blk" if "length x < length (''/dev/block/'' @ ty @ ''/'' @ dev)" for x
  proof
    assume "prefix (x @ ''/by-name'') ?blk"
    then have "take (length ''/by-name'') (drop (length x) ?blk) = ''/by-name''"
      unfolding prefix_def by (metis append_assoc append_eq_conv_conj)
    with find_str_first [OF first that] show False by blast
  qed
  have "\<not> prefix ''/dev/block/by-name'' ?blk" using no [of "''/dev/block''"] by simp
  moreover have "\<not> prefix ''/dev/block/bootdevice/by-name'' ?blk"
  proof
    assume p: "prefix ''/dev/block/bootdevice/by-name'' ?blk"
    then obtain zs where "ty @ ''/'' @ dev @ ''/by-name/'' @ part = ''bootdevice/by-name'' @ zs"
      by (auto simp: prefix_def)
    then have "takeWhile (\<lambda>c. c \<noteq> CHR ''/'') (ty @ ''/'' @ dev @ ''/by-name/'' @ part) =
        takeWhile (\<lambda>c. c \<noteq> CHR ''/'') (''bootdevice/by-name'' @ zs)" by (rule arg_cong)
    moreover have "takeWhile (\<lambda>c. c \<noteq> CHR ''/'') (ty @ ''/'' @ r) = ty" for r
      using assms(2) by (subst takeWhile_append2) auto
    ultimately have "ty = ''bootdevice''" by simp
    with no [of "''/dev/block/bootdevice''"] p show False by simp
  qed
  moreover have "take (length (''/dev/block/'' @ ty @ ''/'' @ dev)) ?blk = ''/dev/block/'' @ ty @ ''/'' @ dev" by simp
  moreover have "find_char CHR ''/'' (ty @ CHR ''/'' # dev) = Some (length ty)"
    using assms(2) by (rule find_char_append)
  ultimately show ?thesis
    using first assms(3) by (simp add: boot_device_of_def libbase_laws.StartsWith_eq [OF lb])
qed

section \<open>The table of the device tree\<close>

lemma prefix_less: "strict_prefix a b \<Longrightarrow> (a :: string) < b"
  by (auto simp: strict_prefix_def prefix_def list_less_def lexord_def neq_Nil_conv)

text \<open>
  The table read from the device tree contains every enabled partition
  once, and a partition whose mount point is a prefix of another's (such as \<open>/vendor\<close> and
  \<open>/vendor/abc\<close>) comes before it, so that parents are mounted first.
\<close>

theorem fstab_dt_parents_first:
  assumes "is_dt_compatible fv" and "IsDtFstabCompatible fv"
    and "ReadDir fv (GetAndroidDtDir fv @ ''fstab'') = Some entries"
    and "dt_partitions fv (GetAndroidDtDir fv @ ''fstab'') entries = Some xs"
  shows "\<exists>ys. dt_fstab_text fv = concat (map (\<lambda>(_, l). l @ [CHR ''\<newline>'']) ys) \<and> mset ys = mset xs \<and>
    (\<forall>i < length ys. \<forall>j < length ys. strict_prefix (fst (ys ! i)) (fst (ys ! j)) \<longrightarrow> i < j)"
proof -
  let ?ys = "sort_key fst xs"
  have s: "sorted (map fst ?ys)" by simp
  have "i < j" if "i < length ?ys" "j < length ?ys" "strict_prefix (fst (?ys ! i)) (fst (?ys ! j))" for i j
  proof (rule ccontr)
    assume "\<not> i < j"
    then have "fst (?ys ! j) \<le> fst (?ys ! i)"
      using sorted_nth_mono [OF s, of j i] that by simp
    with prefix_less [OF that(3)] show False by simp
  qed
  with assms show ?thesis by (intro exI [of _ ?ys]) (simp add: dt_fstab_text_def)
qed

section \<open>Instances\<close>

definition empty_entry :: fstab_entry where
  "empty_entry =
     \<lparr>fe_blk_device = [], fe_logical_partition_name = [], fe_mount_point = [], fe_fs_type = [], fe_flags = 0,
      fe_fs_options = [], fe_fs_checkpoint_opts = [], fe_metadata_key_dir = [], fe_metadata_encryption_options = [], fe_length = 0,
      fe_label = [], fe_partnum = -1, fe_swap_prio = -1, fe_max_comp_streams = 0, fe_zram_size = 0,
      fe_reserved_size = 0, fe_readahead_size_kb = -1, fe_encryption_options = [], fe_erase_blk_size = 0,
      fe_logical_blk_size = 0, fe_sysfs_path = [], fe_vbmeta_partition = [], fe_zram_backingdev_size = 0,
      fe_avb_keys = [], fe_lowerdir = [], fe_avb_hashtree_digest = [], fe_user_devices = [],
      fe_device_aliased = [], fe_fs_mgr_flags = {}\<rparr>"

definition dt_files :: "(string \<times> string) list" where
  "dt_files = map (\<lambda>(f, v). (''/dt/'' @ f, v @ [CHR 0x00]))
     [(''compatible'', ''android,firmware''), (''fstab/compatible'', ''android,fstab''),
      (''fstab/v/dev'', ''/dev/v''), (''fstab/v/mnt_point'', ''/vendor/abc''), (''fstab/v/type'', ''ext4''),
      (''fstab/v/mnt_flags'', ''ro''), (''fstab/v/fsmgr_flags'', ''wait''),
      (''fstab/vendor/dev'', ''/dev/w''), (''fstab/vendor/type'', ''ext4''),
      (''fstab/vendor/mnt_flags'', ''ro''), (''fstab/vendor/fsmgr_flags'', ''wait'')]"

definition demo_fv :: fstab_env where
  "demo_fv =
     \<lparr>flb = std_libbase, default_entry = empty_entry, phys_pages = 1000, sys_page_size = 4096,
      file_access = (\<lambda>_. NoEntry), ReadFile = map_of dt_files,
      ReadDir = (\<lambda>_. Some [(True, ''.''), (False, ''compatible''), (True, ''v''), (True, ''vendor'')]),
      GetAndroidDtDir = ''/dt/'', get_boot_config = (\<lambda>_. None), GetBootconfig = (\<lambda>_. None),
      GetKernelCmdline = (\<lambda>_. None), kernel_cmdline = [], update_for_slotselect = Some,
      first_api_level = 34, fnmatch = (\<lambda>p s. p = s), kNoSkipMount = False, kDsuPostfix = ''_gsi'',
      kDsuScratch = ''scratch_gsi'', kDsuUserdata = ''userdata_gsi'',
      GetDsuMetadataKeyDir = (\<lambda>s. ''/metadata/vold/'' @ s), kGsiBootedIndicatorFile = ''/booted'',
      GetActiveDsu = None, kGsiLpNamesFile = ''/lp_names''\<rparr>"

lemma demo_fv_laws: "libbase_laws (flb demo_fv)"
  by (simp add: demo_fv_def std_libbase_laws)

theorem fstab_mount_flags_witness:
  "fe_fs_options (ParseMountFlags demo_fv ''noatime,discard,ro,errors=panic'' empty_entry) = ''discard,errors=panic'' \<and>
   fe_flags (ParseMountFlags demo_fv ''noatime,discard,ro,errors=panic'' empty_entry) = 1025"
  using fstab_mount_flags [OF demo_fv_laws, of "[''noatime'', ''discard'', ''ro'', ''errors=panic'']" empty_entry]
  by (simp add: Let_def mount_bits_def kMountFlagsList_def empty_entry_def)

definition demo_rows :: "string list list" where
  "demo_rows = [[''/dev/a'', ''/system'', ''ext4'', ''ro'', ''wait,logical''],
                [''/dev/b'', ''/data'', ''f2fs'', ''noatime'', ''wait'']]"

lemma demo_rows_parse:
  "\<exists>es. those (map (parse_fstab_line demo_fv False) demo_rows) = Some es"
  by (simp add: demo_rows_def parse_fstab_line_def Let_def ParseFsMgrFlags_def demo_fv_def std_libbase_def
      fs_mgr_flag_def simple_flags_def set_fm_def ParseMountFlags_def SetMountFlag_def kMountFlagsList_def
      empty_entry_def)

lemma demo_rows_words: "\<forall>r \<in> set demo_rows. length r = 5 \<and> list_all fstab_word r \<and> hd (hd r) \<noteq> CHR ''#''"
  by (simp add: demo_rows_def fstab_word_def blanks_def)

theorem fstab_text_roundtrip_witness:
  "\<exists>es. ParseFstabFromString demo_fv (fstab_text demo_rows) False = Some es \<and>
     map (\<lambda>e. [fe_blk_device e, fe_mount_point e, fe_fs_type e]) es =
       [[''/dev/a'', ''/system'', ''ext4''], [''/dev/b'', ''/data'', ''f2fs'']]"
proof -
  obtain es where es: "those (map (parse_fstab_line demo_fv False) demo_rows) = Some es"
    using demo_rows_parse by blast
  from fstab_text_roundtrip [OF demo_fv_laws _ demo_rows_words es] show ?thesis
    by (simp add: demo_rows_def demo_fv_def empty_entry_def)
qed


theorem fstab_dsu_partition_witness:
  "\<exists>e \<in> set (dsu_partition demo_fv ''dsu'' ''system_gsi'' [empty_entry]).
     fe_mount_point e = ''/system'' \<and> fe_fs_type e = ''erofs'' \<and> fe_blk_device e = ''system_gsi''"
proof -
  let ?tab = "dsu_partition demo_fv ''dsu'' ''system_gsi'' [empty_entry]"
  have "''system_gsi'' = ''system'' @ kDsuPostfix demo_fv" "''system_gsi'' \<noteq> kDsuScratch demo_fv"
    "''system_gsi'' \<noteq> kDsuUserdata demo_fv"
    by (simp_all add: demo_fv_def)
  from fstab_dsu_partition [OF demo_fv_laws this, of "''dsu''" "[empty_entry]"]
  have all: "\<forall>e \<in> set ?tab. dsu_pred (''/'' @ ''system'') e \<longrightarrow> fe_blk_device e = ''system_gsi''"
    and ex: "\<exists>e \<in> set ?tab. dsu_pred (''/'' @ ''system'') e \<and> fe_fs_type e = ''erofs''"
    unfolding Let_def by blast+
  then show ?thesis by (auto simp: dsu_pred_def)
qed

theorem fstab_boot_device_witness:
  "boot_device_of demo_fv ''/dev/block/platform/soc/1da4000.ufshc/by-name/system'' = Some ''soc/1da4000.ufshc''"
  using fstab_boot_device [OF demo_fv_laws, of "''platform''" "''soc/1da4000.ufshc''" "''system''"] by simp

theorem fstab_dt_parents_first_witness:
  "\<exists>ys. dt_fstab_text demo_fv = concat (map (\<lambda>(_, l). l @ [CHR ''\<newline>'']) ys) \<and>
     fst ` set ys = {''/vendor'', ''/vendor/abc''}"
proof -
  have a: "is_dt_compatible demo_fv" "IsDtFstabCompatible demo_fv"
    by (simp_all add: is_dt_compatible_def IsDtFstabCompatible_def ReadDtFile_def demo_fv_def dt_files_def)
  have b: "ReadDir demo_fv (GetAndroidDtDir demo_fv @ ''fstab'') =
      Some [(True, ''.''), (False, ''compatible''), (True, ''v''), (True, ''vendor'')]"
    by (simp add: demo_fv_def)
  obtain xs where c: "dt_partitions demo_fv (GetAndroidDtDir demo_fv @ ''fstab'')
      [(True, ''.''), (False, ''compatible''), (True, ''v''), (True, ''vendor'')] = Some xs"
      and xs: "fst ` set xs = {''/vendor'', ''/vendor/abc''}"
    by (simp add: dt_partition_def ReadDtFile_def demo_fv_def dt_files_def Let_def insert_commute)
  from fstab_dt_parents_first [OF a b c] show ?thesis
    using xs by (metis (no_types, lifting) set_mset_mset)
qed

end
