(* ===== verification/Prop_Service.thy ===== *)
theory Prop_Service
  imports Libbase Kernel_Io "HOL-Library.AList" "HOL-Library.List_Lexorder" "HOL-Library.Char_ord"
begin

text \<open>
  Model of \<open>prop_service.cpp\<close>, the property service of init
  (\<open>src/research/aosp-src/prop_service.cpp\<close>).  The property area is bionic's shared memory; it is a
  parameter with three operations, and the locale \<open>property_area\<close> states what the documentation of
  \<open>__system_property_find\<close>, \<open>_update\<close> and \<open>_add\<close> promises.  The state \<open>pstore\<close> joins the area with the
  static variables of the file and the sequence of effects on the rest of the system.
\<close>

section \<open>The property area\<close>

record 'a area_ops =
  prop_find :: "'a \<Rightarrow> string \<Rightarrow> string option"
  prop_update :: "string \<Rightarrow> string \<Rightarrow> 'a \<Rightarrow> 'a"
  prop_add :: "string \<Rightarrow> string \<Rightarrow> 'a \<Rightarrow> int \<times> 'a"

locale property_area =
  fixes ar :: "'a area_ops"
  assumes find_update: "prop_find ar a n \<noteq> None \<Longrightarrow>
      prop_find ar (prop_update ar n v a) k = (if k = n then Some v else prop_find ar a k)"
    and find_add: "prop_find ar a n = None \<Longrightarrow> prop_add ar n v a = (rc, a') \<Longrightarrow>
      prop_find ar a' k = (if 0 \<le> rc \<and> k = n then Some v else prop_find ar a k)"

text \<open>An area that holds at most a given number of properties.\<close>

definition bounded_area :: "nat \<Rightarrow> (string \<times> string) list area_ops" where
  "bounded_area cap =
     \<lparr>prop_find = map_of, prop_update = AList.update,
      prop_add = (\<lambda>n v a. if length a < cap then (0, (n, v) # a) else (-1, a))\<rparr>"

interpretation bounded: property_area "bounded_area cap" for cap
  by unfold_locales (auto simp: bounded_area_def update_conv' split: if_splits)

section \<open>State and environment\<close>

datatype prop_rc =
    PROP_SUCCESS | PROP_ERROR_READ_CMD | PROP_ERROR_READ_DATA | PROP_ERROR_READ_ONLY_PROPERTY
  | PROP_ERROR_INVALID_NAME | PROP_ERROR_INVALID_VALUE | PROP_ERROR_PERMISSION_DENIED
  | PROP_ERROR_INVALID_CMD | PROP_ERROR_HANDLE_CONTROL_MESSAGE | PROP_ERROR_SET_FAILED

datatype prop_effect =
    PropertyChanged string string
  | WritePersistentProperty string string
  | QueueControlMessage string string int int
  | SendTo int prop_rc
  | CloseFd int
  | RestoreconPath string
  | SetRestoreconDone string

record ucred =
  cr_pid :: int
  cr_uid :: int
  cr_gid :: int

text \<open>A connection is its descriptor, -1 once it was released or moved away.\<close>

record 'a pstore =
  area :: 'a
  persistent_properties_loaded :: bool
  accept_messages :: bool
  persist_write_thread :: bool
  work :: "(string \<times> string \<times> int) list"
  restorecon_paths :: "string list"
  restorecon_thread :: bool
  peff :: "prop_effect list"

record prop_env =
  plb :: libbase
  legal_name :: "string \<Rightarrow> bool"
  legal_value :: "string \<Rightarrow> string \<Rightarrow> bool"
  property_info :: "string \<Rightarrow> string option \<times> string option"
  selinux_check_access :: "string \<Rightarrow> string \<Rightarrow> string \<Rightarrow> string \<Rightarrow> bool"
  CheckType :: "string option \<Rightarrow> string \<Rightarrow> bool"
  pvendor_version :: int
  queue_ok :: "string \<Rightarrow> string \<Rightarrow> bool"
  kRestoreconProperty :: string
  kInitContext :: string
  kVendorContext :: string

definition pemit :: "prop_effect \<Rightarrow> 'a pstore \<Rightarrow> 'a pstore" where
  "pemit e st = st\<lparr>peff := peff st @ [e]\<rparr>"

text \<open>\<open>GetProperty\<close> of libbase: the default when the property is missing or empty.\<close>

definition GetProperty :: "'a area_ops \<Rightarrow> 'a pstore \<Rightarrow> string \<Rightarrow> string \<Rightarrow> string" where
  "GetProperty ar st k d =
     (case prop_find ar (area st) k of None \<Rightarrow> d | Some v \<Rightarrow> if v = [] then d else v)"

definition GetIntProperty :: "prop_env \<Rightarrow> 'a area_ops \<Rightarrow> 'a pstore \<Rightarrow> string \<Rightarrow> int \<Rightarrow> int" where
  "GetIntProperty e ar st k d =
     (case prop_find ar (area st) k of
        None \<Rightarrow> d | Some v \<Rightarrow> (case ParseInt (plb e) v INT_MIN INT_MAX of None \<Rightarrow> d | Some i \<Rightarrow> i))"

definition GetBoolProperty :: "'a area_ops \<Rightarrow> 'a pstore \<Rightarrow> string \<Rightarrow> bool \<Rightarrow> bool" where
  "GetBoolProperty ar st k d =
     (let v = GetProperty ar st k [] in
      if v \<in> {''1'', ''y'', ''yes'', ''on'', ''true''} then True
      else if v \<in> {''0'', ''n'', ''no'', ''off'', ''false''} then False else d)"

section \<open>Messages\<close>

definition StartSendingMessages :: "'a pstore \<Rightarrow> 'a pstore" where
  "StartSendingMessages st = st\<lparr>accept_messages := True\<rparr>"

definition StopSendingMessages :: "'a pstore \<Rightarrow> 'a pstore" where
  "StopSendingMessages st = st\<lparr>accept_messages := False\<rparr>"

definition NotifyPropertyChange :: "string \<Rightarrow> string \<Rightarrow> 'a pstore \<Rightarrow> 'a pstore" where
  "NotifyPropertyChange n v st = (if accept_messages st then pemit (PropertyChanged n v) st else st)"

text \<open>
  The asynchronous restorecon: requests are queued, and a thread that is started when none runs
  takes them one by one.
\<close>

definition TriggerRestorecon :: "string \<Rightarrow> 'a pstore \<Rightarrow> 'a pstore" where
  "TriggerRestorecon path st = st\<lparr>restorecon_paths := restorecon_paths st @ [path], restorecon_thread := True\<rparr>"

definition restorecon_step :: "'a pstore \<Rightarrow> 'a pstore" where
  "restorecon_step st =
     (if \<not> restorecon_thread st then st
      else (case restorecon_paths st of
              [] \<Rightarrow> st\<lparr>restorecon_thread := False\<rparr>
            | p # ps \<Rightarrow> pemit (SetRestoreconDone p) (pemit (RestoreconPath p) (st\<lparr>restorecon_paths := ps\<rparr>))))"

section \<open>Setting a property\<close>

definition persist_write :: "string \<Rightarrow> string \<Rightarrow> int \<Rightarrow> 'a pstore \<Rightarrow> 'a pstore" where
  "persist_write n v fd st = st\<lparr>work := work st @ [(n, v, fd)]\<rparr>"

text \<open>
  \<open>PropertySet\<close>: the response (\<open>None\<close> when it will be sent later), the connection (if there is one)
  and the state.
\<close>

definition PropertySet ::
    "prop_env \<Rightarrow> 'a area_ops \<Rightarrow> string \<Rightarrow> string \<Rightarrow> int option \<Rightarrow> 'a pstore \<Rightarrow>
     prop_rc option \<times> int option \<times> 'a pstore" where
  "PropertySet e ar name v sock st =
     (if \<not> legal_name e name then (Some PROP_ERROR_INVALID_NAME, sock, st)
      else if \<not> legal_value e name v then (Some PROP_ERROR_INVALID_VALUE, sock, st)
      else if name = ''sys.powerctl'' then (Some PROP_SUCCESS, sock, NotifyPropertyChange name v st)
      else
        (let r = (case prop_find ar (area st) name of
                    Some _ \<Rightarrow>
                      if StartsWith (plb e) name ''ro.'' then Inl PROP_ERROR_READ_ONLY_PROPERTY
                      else Inr (st\<lparr>area := prop_update ar name v (area st)\<rparr>)
                  | None \<Rightarrow>
                      (case prop_add ar name v (area st) of
                         (rc, a) \<Rightarrow> if rc < 0 then Inl PROP_ERROR_SET_FAILED else Inr (st\<lparr>area := a\<rparr>)))
         in case r of
              Inl err \<Rightarrow> (Some err, sock, st)
            | Inr st \<Rightarrow>
                if sock \<noteq> None \<and> persistent_properties_loaded st \<and>
                   (StartsWith (plb e) name ''persist.'' \<or> StartsWith (plb e) name ''next_boot.'')
                then if persist_write_thread st
                     then (None, Some (-1), persist_write name v (the sock) st)
                     else (Some PROP_SUCCESS, sock,
                           NotifyPropertyChange name v (pemit (WritePersistentProperty name v) st))
                else (Some PROP_SUCCESS, sock, NotifyPropertyChange name v st)))"

text \<open>Without a connection; the first component is \<open>None\<close> when the \<open>CHECK\<close> would abort.\<close>

definition PropertySetNoSocket ::
    "prop_env \<Rightarrow> 'a area_ops \<Rightarrow> string \<Rightarrow> string \<Rightarrow> 'a pstore \<Rightarrow> prop_rc option \<times> 'a pstore" where
  "PropertySetNoSocket e ar name v st =
     (case PropertySet e ar name v None st of (r, _, st) \<Rightarrow> (r, st))"

definition SendControlMessage ::
    "prop_env \<Rightarrow> string \<Rightarrow> string \<Rightarrow> int \<Rightarrow> int option \<Rightarrow> 'a pstore \<Rightarrow> prop_rc \<times> int option \<times> 'a pstore" where
  "SendControlMessage e msg name pid sock st =
     (if \<not> accept_messages st
      then (if msg = ''stop'' then (PROP_SUCCESS, sock, st)
            else (PROP_ERROR_HANDLE_CONTROL_MESSAGE, sock, st))
      else
        (let (fd, sock) = (case sock of
                             Some s \<Rightarrow> if pvendor_version e > 29 then (s, Some (-1)) else (-1, sock)
                           | None \<Rightarrow> (-1, None));
             st = (if queue_ok e msg name then pemit (QueueControlMessage msg name pid fd) st
                   else if fd \<noteq> -1
                   then pemit (CloseFd fd) (pemit (SendTo fd PROP_ERROR_HANDLE_CONTROL_MESSAGE) st)
                   else st)
         in (PROP_SUCCESS, sock, st)))"

section \<open>Permissions\<close>

definition CanReadProperty :: "prop_env \<Rightarrow> string \<Rightarrow> string \<Rightarrow> bool" where
  "CanReadProperty e source_context name =
     (case fst (property_info e name) of
        None \<Rightarrow> False | Some target \<Rightarrow> selinux_check_access e source_context target ''file'' ''read'')"

definition CheckMacPerms :: "prop_env \<Rightarrow> string option \<Rightarrow> string \<Rightarrow> bool" where
  "CheckMacPerms e target_context source_context =
     (case target_context of
        None \<Rightarrow> False | Some t \<Rightarrow> selinux_check_access e source_context t ''property_service'' ''set'')"

definition CheckControlPropertyPerms :: "prop_env \<Rightarrow> string \<Rightarrow> string \<Rightarrow> string \<Rightarrow> bool" where
  "CheckControlPropertyPerms e name v source_context \<longleftrightarrow>
     (name \<in> {''ctl.start'', ''ctl.stop'', ''ctl.restart''} \<and>
        CheckMacPerms e (fst (property_info e (''ctl.'' @ v))) source_context) \<or>
     CheckMacPerms e (fst (property_info e (name @ ''$'' @ v))) source_context"

definition CheckPermissions :: "prop_env \<Rightarrow> string \<Rightarrow> string \<Rightarrow> string \<Rightarrow> prop_rc" where
  "CheckPermissions e name v source_context =
     (if \<not> legal_name e name then PROP_ERROR_INVALID_NAME
      else if StartsWith (plb e) name ''ctl.''
      then (if CheckControlPropertyPerms e name v source_context then PROP_SUCCESS
            else PROP_ERROR_HANDLE_CONTROL_MESSAGE)
      else
        (let (target_context, type) = property_info e name in
         if \<not> CheckMacPerms e target_context source_context then PROP_ERROR_PERMISSION_DENIED
         else if \<not> CheckType e type v then PROP_ERROR_INVALID_VALUE
         else PROP_SUCCESS))"

definition HandlePropertySet ::
    "prop_env \<Rightarrow> 'a area_ops \<Rightarrow> string \<Rightarrow> string \<Rightarrow> string \<Rightarrow> ucred \<Rightarrow> int option \<Rightarrow> 'a pstore \<Rightarrow>
     prop_rc option \<times> int option \<times> 'a pstore" where
  "HandlePropertySet e ar name v source_context cr sock st =
     (let perm = CheckPermissions e name v source_context in
      if perm \<noteq> PROP_SUCCESS then (Some perm, sock, st)
      else if StartsWith (plb e) name ''ctl.''
      then (case SendControlMessage e (drop 4 name) v (cr_pid cr) sock st of (r, sock, st) \<Rightarrow> (Some r, sock, st))
      else if name = ''sys.powerctl'' \<and> v = ''reboot,userspace'' then (Some PROP_ERROR_INVALID_VALUE, sock, st)
      else if name = kRestoreconProperty e \<and> cr_pid cr \<noteq> 1 \<and> v \<noteq> []
      then (Some PROP_SUCCESS, sock, TriggerRestorecon v st)
      else PropertySet e ar name v sock st)"

definition HandlePropertySetNoSocket ::
    "prop_env \<Rightarrow> 'a area_ops \<Rightarrow> string \<Rightarrow> string \<Rightarrow> string \<Rightarrow> ucred \<Rightarrow> 'a pstore \<Rightarrow> prop_rc option \<times> 'a pstore" where
  "HandlePropertySetNoSocket e ar name v source_context cr st =
     (case HandlePropertySet e ar name v source_context cr None st of (r, _, st) \<Rightarrow> (r, st))"

definition init_cred :: ucred where
  "init_cred = \<lparr>cr_pid = 1, cr_uid = 0, cr_gid = 0\<rparr>"

definition InitPropertySet :: "prop_env \<Rightarrow> 'a area_ops \<Rightarrow> string \<Rightarrow> string \<Rightarrow> 'a pstore \<Rightarrow> 'a pstore" where
  "InitPropertySet e ar name v st = snd (HandlePropertySetNoSocket e ar name v (kInitContext e) init_cred st)"

section \<open>The property socket\<close>

text \<open>
  The kernel's side of a connection is a parameter: \<open>poll t s\<close> is \<open>poll(&ufd, 1, t)\<close> with its result,
  whether it failed with \<open>EINTR\<close>, and the milliseconds that passed; \<open>rcv n s\<close> is the \<open>recv\<close> that
  \<open>TEMP_FAILURE_RETRY\<close> repeats until it is not interrupted.  \<open>PollIn\<close> and \<open>RecvFully\<close> return the
  remaining timeout with their result; a \<open>None\<close> of the receiving functions is their \<open>false\<close>.
\<close>

type_synonym 's poller = "nat \<Rightarrow> 's \<Rightarrow> int \<times> bool \<times> nat \<times> 's"

function PollIn :: "'s poller \<Rightarrow> nat \<Rightarrow> 's \<Rightarrow> bool \<times> nat \<times> 's" where
  "PollIn poll timeout_ms s =
     (if timeout_ms = 0 then (False, timeout_ms, s)
      else
        (case poll timeout_ms s of
           (nr, eintr, millis, s) \<Rightarrow>
             let timeout_ms = (if millis > timeout_ms then 0 else timeout_ms - millis) in
             if nr > 0 then (True, timeout_ms, s)
             else if nr = 0 then (False, timeout_ms, s)
             else if \<not> eintr then (False, timeout_ms, s)
             else PollIn poll (if timeout_ms > 0 then timeout_ms - 1 else timeout_ms) s))"
  by pat_completeness auto

termination
  by (relation "measure (\<lambda>(_, t, _). t)") (auto split: if_splits)

declare PollIn.simps [simp del]

function RecvFully ::
    "'s poller \<Rightarrow> 's reader \<Rightarrow> nat \<Rightarrow> nat \<Rightarrow> 's \<Rightarrow> u8 list option \<times> nat \<times> 's" where
  "RecvFully poll rcv bytes_left timeout_ms s =
     (if timeout_ms > 0 \<and> bytes_left > 0 then
        (case PollIn poll timeout_ms s of
           (False, timeout_ms, s) \<Rightarrow> (None, timeout_ms, s)
         | (True, timeout_ms, s) \<Rightarrow>
             (case rcv bytes_left s of
                (result, data, s) \<Rightarrow>
                  if result \<le> 0 then (None, timeout_ms, s)
                  else (case RecvFully poll rcv (bytes_left - nat result) timeout_ms s of
                          (r, timeout_ms, s) \<Rightarrow> (map_option (\<lambda>ds. data @ ds) r, timeout_ms, s))))
      else (if bytes_left \<noteq> 0 then (None, timeout_ms, s) else (Some [], timeout_ms, s)))"
  by pat_completeness auto

termination
  by (relation "measure (\<lambda>(_, _, n, _). n)") auto

declare RecvFully.simps [simp del]

definition RecvUint32 :: "'s poller \<Rightarrow> 's reader \<Rightarrow> nat \<Rightarrow> 's \<Rightarrow> u32 option \<times> nat \<times> 's" where
  "RecvUint32 poll rcv timeout_ms s =
     (case RecvFully poll rcv 4 timeout_ms s of (r, t, s) \<Rightarrow> (map_option un_le32 r, t, s))"

definition RecvChars :: "'s poller \<Rightarrow> 's reader \<Rightarrow> nat \<Rightarrow> nat \<Rightarrow> 's \<Rightarrow> u8 list option \<times> nat \<times> 's" where
  "RecvChars poll rcv n timeout_ms s = RecvFully poll rcv n timeout_ms s"

definition RecvString :: "'s poller \<Rightarrow> 's reader \<Rightarrow> nat \<Rightarrow> 's \<Rightarrow> string option \<times> nat \<times> 's" where
  "RecvString poll rcv timeout_ms s =
     (case RecvUint32 poll rcv timeout_ms s of
        (None, t, s) \<Rightarrow> (None, t, s)
      | (Some len, t, s) \<Rightarrow>
          if len = 0 then (Some [], t, s)
          else if len > 0xffff then (None, t, s)
          else (case RecvChars poll rcv (unat len) t s of
                  (r, t, s) \<Rightarrow> (map_option string_of_bytes r, t, s)))"

text \<open>\<open>SendUint32\<close> does nothing on a connection that was given away; the destructor closes the rest.\<close>

definition SendUint32 :: "int \<Rightarrow> prop_rc \<Rightarrow> 'a pstore \<Rightarrow> 'a pstore" where
  "SendUint32 fd rc st = (if fd = -1 then st else pemit (SendTo fd rc) st)"

definition close_socket :: "int \<Rightarrow> 'a pstore \<Rightarrow> 'a pstore" where
  "close_socket fd st = (if fd = -1 then st else pemit (CloseFd fd) st)"

abbreviation PROP_NAME_MAX :: nat where "PROP_NAME_MAX \<equiv> 32"
abbreviation PROP_VALUE_MAX :: nat where "PROP_VALUE_MAX \<equiv> 92"
abbreviation PROP_MSG_SETPROP :: u32 where "PROP_MSG_SETPROP \<equiv> 1"
abbreviation PROP_MSG_SETPROP2 :: u32 where "PROP_MSG_SETPROP2 \<equiv> 0x00020001"
abbreviation kDefaultSocketTimeout :: nat where "kDefaultSocketTimeout \<equiv> 5000"

definition c_buffer :: "nat \<Rightarrow> u8 list \<Rightarrow> string" where
  "c_buffer n bs = string_of_bytes (takeWhile (\<lambda>b. b \<noteq> 0) (bs[n - 1 := 0]))"

definition set_prop_msg1 ::
    "prop_env \<Rightarrow> 'a area_ops \<Rightarrow> 's poller \<Rightarrow> 's reader \<Rightarrow> ucred \<Rightarrow> string option \<Rightarrow> nat \<Rightarrow> 's \<Rightarrow> 'a pstore \<Rightarrow>
     's \<times> 'a pstore" where
  "set_prop_msg1 e ar poll rcv cr con t s st =
     (case RecvChars poll rcv PROP_NAME_MAX t s of
        (None, t, s) \<Rightarrow> (s, st)
      | (Some nm, t, s) \<Rightarrow>
          (case RecvChars poll rcv PROP_VALUE_MAX t s of
             (None, t, s) \<Rightarrow> (s, st)
           | (Some v, t, s) \<Rightarrow>
               (case con of
                  None \<Rightarrow> (s, st)
                | Some source_context \<Rightarrow>
                    (s, snd (HandlePropertySetNoSocket e ar (c_buffer PROP_NAME_MAX nm)
                               (c_buffer PROP_VALUE_MAX v) source_context cr st)))))"

definition set_prop_msg2 ::
    "prop_env \<Rightarrow> 'a area_ops \<Rightarrow> 's poller \<Rightarrow> 's reader \<Rightarrow> ucred \<Rightarrow> string option \<Rightarrow> nat \<Rightarrow> int \<Rightarrow> 's \<Rightarrow>
     'a pstore \<Rightarrow> int \<times> 's \<times> 'a pstore" where
  "set_prop_msg2 e ar poll rcv cr con t fd s st =
     (case RecvString poll rcv t s of
        (None, t, s) \<Rightarrow> (fd, s, SendUint32 fd PROP_ERROR_READ_DATA st)
      | (Some name, t, s) \<Rightarrow>
          (case RecvString poll rcv t s of
             (None, t, s) \<Rightarrow> (fd, s, SendUint32 fd PROP_ERROR_READ_DATA st)
           | (Some v, t, s) \<Rightarrow>
               (case con of
                  None \<Rightarrow> (fd, s, SendUint32 fd PROP_ERROR_PERMISSION_DENIED st)
                | Some source_context \<Rightarrow>
                    (case HandlePropertySet e ar name v source_context cr (Some fd) st of
                       (None, sock, st) \<Rightarrow> (the sock, s, st)
                     | (Some result, sock, st) \<Rightarrow> (the sock, s, SendUint32 (the sock) result st)))))"

text \<open>
  The handler of the listening socket.  \<open>accepted\<close> is the descriptor from \<open>accept4\<close>, \<open>peercred\<close> the
  answer of \<open>SO_PEERCRED\<close> and \<open>con\<close> that of \<open>getpeercon\<close>, \<open>None\<close> where the call fails.
\<close>

definition handle_property_set_fd ::
    "prop_env \<Rightarrow> 'a area_ops \<Rightarrow> 's poller \<Rightarrow> 's reader \<Rightarrow> int \<Rightarrow> ucred option \<Rightarrow> string option \<Rightarrow> 's \<Rightarrow>
     'a pstore \<Rightarrow> 's \<times> 'a pstore" where
  "handle_property_set_fd e ar poll rcv accepted peercred con s st =
     (if accepted = -1 then (s, st)
      else
        (case peercred of
           None \<Rightarrow> (s, pemit (CloseFd accepted) st)
         | Some cr \<Rightarrow>
             (case RecvUint32 poll rcv kDefaultSocketTimeout s of
                (None, t, s) \<Rightarrow> (s, close_socket accepted (SendUint32 accepted PROP_ERROR_READ_CMD st))
              | (Some cmd, t, s) \<Rightarrow>
                  if cmd = PROP_MSG_SETPROP then
                    (case set_prop_msg1 e ar poll rcv cr con t s st of
                       (s, st) \<Rightarrow> (s, close_socket accepted st))
                  else if cmd = PROP_MSG_SETPROP2 then
                    (case set_prop_msg2 e ar poll rcv cr con t accepted s st of
                       (fd, s, st) \<Rightarrow> (s, close_socket fd st))
                  else (s, close_socket accepted (SendUint32 accepted PROP_ERROR_INVALID_CMD st)))))"

section \<open>The thread that writes persistent properties\<close>

text \<open>One round of \<open>PersistWriteThread::Work\<close>; with no work the thread waits.\<close>

definition persist_work :: "'a pstore \<Rightarrow> 'a pstore" where
  "persist_work st =
     (case work st of
        [] \<Rightarrow> st
      | (n, v, fd) # rest \<Rightarrow>
          (let st = st\<lparr>work := rest\<rparr>;
               st = pemit (WritePersistentProperty n v) st;
               st = NotifyPropertyChange n v st;
               st = SendUint32 fd PROP_SUCCESS st
           in close_socket fd st))"

end
