(* ===== verification/Prop_Load.thy ===== *)
theory Prop_Load
  imports Prop_Service
begin

text \<open>
  Property files and the properties that are derived at boot (\<open>prop_service.cpp\<close>, from \<open>LoadProperties\<close>
  to \<open>StartPropertyService\<close>).  The files, the device tree, the kernel command line and the bootconfig
  are parameters.  An import of a property file calls the loader again; the depth of this recursion is
  not bounded by the code, so the loader takes fuel and reports when a file is nested deeper.
\<close>

section \<open>Environment\<close>

record boot_env =
  penv :: prop_env
  bexpand :: "(string \<Rightarrow> string option) \<Rightarrow> string \<Rightarrow> string option"
  bread :: "string \<Rightarrow> string option"
  baccess :: "string \<Rightarrow> int"
  ENOENT :: int
  ramdisk_prop :: string
  kDebugRamdiskProp :: string
  ALLOW_LOCAL_PROP_OVERRIDE :: bool
  IsRecoveryMode :: bool
  getpagesize :: int
  ANDROID_VENDOR_API_MAX :: int
  ANDROID_API_FUTURE :: int
  getVendorApiLevelOf :: "int \<Rightarrow> int"
  dt_expected :: bool
  dt_entries :: "(bool \<times> string) list option"
  dt_read :: "string \<Rightarrow> string"
  cmdline :: "(string \<times> string) list"
  bootconfig :: "(string \<times> string) list"
  persistent_records :: "(string \<times> string) list"

text \<open>\<open>Fatal\<close> is a \<open>CHECK\<close> or \<open>LOG(FATAL)\<close>; \<open>TooDeep\<close> an import nested deeper than the fuel.\<close>

datatype stop = Fatal | TooDeep

section \<open>Property files\<close>

text \<open>The properties read so far: a \<open>std::map\<close>, its entries in the order of the keys.\<close>

type_synonym props = "(string \<times> string) list"

fun map_put :: "string \<Rightarrow> string \<Rightarrow> props \<Rightarrow> props" where
  "map_put k v [] = [(k, v)]"
| "map_put k v ((k', v') # m) =
     (if k = k' then (k, v) # m else if k < k' then (k, v) # (k', v') # m else (k', v') # map_put k v m)"

definition isspace :: "char \<Rightarrow> bool" where
  "isspace c \<longleftrightarrow> c = CHR '' '' \<or> (9 \<le> (of_char c :: nat) \<and> (of_char c :: nat) \<le> 13)"

definition trim_left :: "string \<Rightarrow> string" where
  "trim_left s = dropWhile isspace s"

text \<open>Blanks are cut off at the end, but never the first character.\<close>

definition trim_right :: "string \<Rightarrow> string" where
  "trim_right s = (case s of [] \<Rightarrow> [] | c # r \<Rightarrow> c # rev (dropWhile isspace (rev r)))"

definition file_context :: "prop_env \<Rightarrow> string \<Rightarrow> string" where
  "file_context e filename =
     (if pvendor_version e \<ge> 28 \<and>
         list_ex (StartsWith (plb e) filename) [''/vendor'', ''/odm'', ''/vendor_dlkm'', ''/odm_dlkm'']
      then kVendorContext e else kInitContext e)"

definition filter_ok :: "string option \<Rightarrow> string \<Rightarrow> bool" where
  "filter_ok flt key =
     (case flt of
        None \<Rightarrow> True
      | Some f \<Rightarrow> f = [] \<or>
          (if last f = CHR ''*'' then take (length f - 1) key = butlast f else key = f))"

definition disallowed :: "prop_env \<Rightarrow> string \<Rightarrow> bool" where
  "disallowed e key \<longleftrightarrow> StartsWith (plb e) key ''ctl.'' \<or> key = ''sys.powerctl'' \<or> key = kRestoreconProperty e"

definition assign_line :: "prop_env \<Rightarrow> string option \<Rightarrow> string \<Rightarrow> string \<Rightarrow> props \<Rightarrow> props" where
  "assign_line e flt filename line m =
     (case find_char (CHR ''='') line of
        None \<Rightarrow> m
      | Some i \<Rightarrow>
          (let key = trim_right (take i line); v = trim_left (drop (Suc i) line) in
           if \<not> filter_ok flt key then m
           else if disallowed e key then m
           else if CheckPermissions e key v (file_context e filename) = PROP_SUCCESS then map_put key v m
           else m))"

definition import_args :: "string \<Rightarrow> string \<times> string option" where
  "import_args line =
     (let fn = trim_left (drop 7 line) in
      case find_char (CHR '' '') fn of
        None \<Rightarrow> (fn, None)
      | Some i \<Rightarrow> (take i fn, Some (trim_left (drop (Suc i) fn))))"

text \<open>
  One line; \<open>imp\<close> is the recursive call of \<open>load_properties_from_file\<close>, and \<open>look\<close> the current
  property area, which \<open>ExpandProps\<close> reads.
\<close>

definition load_line ::
    "boot_env \<Rightarrow> (string \<Rightarrow> string option) \<Rightarrow> (string \<Rightarrow> string option \<Rightarrow> props \<Rightarrow> stop + bool \<times> props) \<Rightarrow>
     string option \<Rightarrow> string \<Rightarrow> string \<Rightarrow> props \<Rightarrow> stop + props" where
  "load_line b look imp flt filename line m =
     (let key = trim_left line in
      if take 1 key = ''#'' then Inr m
      else
        (let key = trim_right key in
         if take 7 key = ''import '' \<and> (flt = None \<or> flt = Some []) then
           (case import_args key of
              (fn, flt') \<Rightarrow>
                (case bexpand b look fn of
                   None \<Rightarrow> Inr m
                 | Some path \<Rightarrow> map_sum id snd (imp path flt' m)))
         else Inr (assign_line (penv b) flt filename key m)))"

fun load_lines :: "(string \<Rightarrow> props \<Rightarrow> stop + props) \<Rightarrow> string list \<Rightarrow> props \<Rightarrow> stop + props" where
  "load_lines f [] m = Inr m"
| "load_lines f (l # ls) m = (case f l m of Inl x \<Rightarrow> Inl x | Inr m \<Rightarrow> load_lines f ls m)"

text \<open>The lines of a C string: what follows the last newline is not a line.\<close>

definition data_lines :: "string \<Rightarrow> string list" where
  "data_lines data = butlast (split_any {CHR ''\<newline>''} (takeWhile (\<lambda>c. c \<noteq> CHR 0x00) data))"

definition LoadProperties ::
    "boot_env \<Rightarrow> (string \<Rightarrow> string option) \<Rightarrow> (string \<Rightarrow> string option \<Rightarrow> props \<Rightarrow> stop + bool \<times> props) \<Rightarrow>
     string \<Rightarrow> string option \<Rightarrow> string \<Rightarrow> props \<Rightarrow> stop + props" where
  "LoadProperties b look imp data flt filename m =
     load_lines (load_line b look imp flt filename) (data_lines data) m"

primrec load_properties_from_file ::
    "boot_env \<Rightarrow> (string \<Rightarrow> string option) \<Rightarrow> nat \<Rightarrow> string \<Rightarrow> string option \<Rightarrow> props \<Rightarrow> stop + bool \<times> props" where
  "load_properties_from_file b look 0 filename flt m = Inl TooDeep"
| "load_properties_from_file b look (Suc n) filename flt m =
     (case bread b filename of
        None \<Rightarrow> Inr (False, m)
      | Some contents \<Rightarrow>
          map_sum id (\<lambda>m. (True, m))
            (LoadProperties b look (load_properties_from_file b look n) (contents @ ''\<newline>'') flt filename m))"

text \<open>A load whose failure is only logged.\<close>

type_synonym loader = "string \<Rightarrow> props \<Rightarrow> stop + bool \<times> props"

definition load_or_warn :: "loader \<Rightarrow> string \<Rightarrow> props \<Rightarrow> stop + props" where
  "load_or_warn ld path m = map_sum id snd (ld path m)"

definition sum_bind :: "'e + 'a \<Rightarrow> ('a \<Rightarrow> 'e + 'b) \<Rightarrow> 'e + 'b" where
  "sum_bind r f = (case r of Inl x \<Rightarrow> Inl x | Inr a \<Rightarrow> f a)"

definition LoadPropertiesFromSecondStageRes :: "boot_env \<Rightarrow> loader \<Rightarrow> props \<Rightarrow> stop + props" where
  "LoadPropertiesFromSecondStageRes b ld m =
     (if baccess b (ramdisk_prop b) \<noteq> 0
      then (if baccess b (ramdisk_prop b) = ENOENT b then Inr m else Inl Fatal)
      else load_or_warn ld (ramdisk_prop b) m)"

definition load_properties_from_partition ::
    "boot_env \<Rightarrow> loader \<Rightarrow> string \<Rightarrow> int \<Rightarrow> props \<Rightarrow> stop + props" where
  "load_properties_from_partition b ld part support_legacy_path_until m =
     sum_bind (ld (''/'' @ part @ ''/etc/build.prop'') m) (\<lambda>(loaded, m).
     if loaded then Inr m
     else
       (let legacy_path1 = ''/'' @ part @ ''/default.prop'';
            legacy_path2 = ''/'' @ part @ ''/build.prop''
        in sum_bind (sum_bind (load_or_warn ld legacy_path1 []) (load_or_warn ld legacy_path2)) (\<lambda>temp.
           let support_legacy_path =
             (case map_of temp (''ro.'' @ part @ ''.build.version.sdk'') of
                None \<Rightarrow> True
              | Some s \<Rightarrow> (case ParseInt (plb (penv b)) s INT_MIN INT_MAX of
                             None \<Rightarrow> False | Some v \<Rightarrow> v \<le> support_legacy_path_until))
           in if support_legacy_path
              then sum_bind (load_or_warn ld legacy_path1 m) (load_or_warn ld legacy_path2)
              else Inl Fatal)))"

text \<open>The files of \<open>PropertyLoadBootDefaults\<close>, in its order.\<close>

definition load_boot_files :: "boot_env \<Rightarrow> loader \<Rightarrow> stop + props" where
  "load_boot_files b ld =
     sum_bind (if IsRecoveryMode b then load_or_warn ld ''/prop.default'' [] else Inr []) (\<lambda>m.
     sum_bind (LoadPropertiesFromSecondStageRes b ld m) (\<lambda>m.
     sum_bind (load_or_warn ld ''/system/build.prop'' m) (\<lambda>m.
     sum_bind (load_properties_from_partition b ld ''system_ext'' 30 m) (\<lambda>m.
     sum_bind (load_or_warn ld ''/system_dlkm/etc/build.prop'' m) (\<lambda>m.
     sum_bind (load_or_warn ld ''/vendor/default.prop'' m) (\<lambda>m.
     sum_bind (load_or_warn ld ''/vendor/build.prop'' m) (\<lambda>m.
     sum_bind (load_or_warn ld ''/vendor_dlkm/etc/build.prop'' m) (\<lambda>m.
     sum_bind (load_or_warn ld ''/odm_dlkm/etc/build.prop'' m) (\<lambda>m.
     sum_bind (load_properties_from_partition b ld ''odm'' 28 m) (\<lambda>m.
     sum_bind (load_properties_from_partition b ld ''product'' 30 m) (\<lambda>m.
     if baccess b (kDebugRamdiskProp b) = 0 then load_or_warn ld (kDebugRamdiskProp b) m else Inr m)))))))))))"

section \<open>Derived properties\<close>

definition set_prop :: "boot_env \<Rightarrow> 'a area_ops \<Rightarrow> string \<Rightarrow> string \<Rightarrow> 'a pstore \<Rightarrow> 'a pstore" where
  "set_prop b ar name v st = snd (PropertySetNoSocket (penv b) ar name v st)"

definition set_props :: "boot_env \<Rightarrow> 'a area_ops \<Rightarrow> props \<Rightarrow> 'a pstore \<Rightarrow> 'a pstore" where
  "set_props b ar m st = fold (\<lambda>(n, v). set_prop b ar n v) m st"

definition update_sys_usb_config :: "boot_env \<Rightarrow> 'a area_ops \<Rightarrow> 'a pstore \<Rightarrow> 'a pstore" where
  "update_sys_usb_config b ar st =
     (let is_debuggable = GetBoolProperty ar st ''ro.debuggable'' False;
          config = GetProperty ar st ''persist.sys.usb.config'' []
      in if config = [] \<or> config = ''none''
         then InitPropertySet (penv b) ar ''persist.sys.usb.config'' (if is_debuggable then ''adb'' else ''none'') st
         else if is_debuggable \<and> find_str ''adb'' config = None \<and> length config + 4 < PROP_VALUE_MAX
         then InitPropertySet (penv b) ar ''persist.sys.usb.config'' (config @ '',adb'') st
         else st)"

definition load_override_properties ::
    "boot_env \<Rightarrow> 'a area_ops \<Rightarrow> nat \<Rightarrow> 'a pstore \<Rightarrow> stop + 'a pstore" where
  "load_override_properties b ar fuel st =
     (if ALLOW_LOCAL_PROP_OVERRIDE b
      then map_sum id (\<lambda>(_, m). set_props b ar m st)
             (load_properties_from_file b (prop_find ar (area st)) fuel ''/data/local.prop'' None [])
      else Inr st)"

definition ro_product_props :: "string list" where
  "ro_product_props = [''brand'', ''device'', ''manufacturer'', ''model'', ''name'']"

definition source_order :: "boot_env \<Rightarrow> 'a area_ops \<Rightarrow> 'a pstore \<Rightarrow> string" where
  "source_order b ar st =
     (let order = GetProperty ar st ''ro.product.property_source_order'' [];
          dflt = ''product,odm,vendor,system_ext,system''
      in if order \<noteq> []
         then (if list_all (\<lambda>src. src \<in> {''odm'', ''product'', ''system_ext'', ''system'', ''vendor''})
                    (Split (plb (penv b)) order '','')
               then order else dflt)
         else dflt)"

fun ro_product_source ::
    "boot_env \<Rightarrow> 'a area_ops \<Rightarrow> string \<Rightarrow> string list \<Rightarrow> 'a pstore \<Rightarrow> 'a pstore" where
  "ro_product_source b ar prop [] st = st"
| "ro_product_source b ar prop (src # srcs) st =
     (let target_prop_val = GetProperty ar st (''ro.product.'' @ src @ ''.'' @ prop) [] in
      if target_prop_val \<noteq> [] then set_prop b ar (''ro.product.'' @ prop) target_prop_val st
      else ro_product_source b ar prop srcs st)"

definition ro_product_prop :: "boot_env \<Rightarrow> 'a area_ops \<Rightarrow> string \<Rightarrow> string \<Rightarrow> 'a pstore \<Rightarrow> 'a pstore" where
  "ro_product_prop b ar order prop st =
     (if GetProperty ar st (''ro.product.'' @ prop) [] \<noteq> [] then st
      else ro_product_source b ar prop (Split (plb (penv b)) order '','') st)"

definition property_initialize_ro_product_props :: "boot_env \<Rightarrow> 'a area_ops \<Rightarrow> 'a pstore \<Rightarrow> 'a pstore" where
  "property_initialize_ro_product_props b ar st =
     fold (ro_product_prop b ar (source_order b ar st)) ro_product_props st"

definition property_initialize_build_id :: "boot_env \<Rightarrow> 'a area_ops \<Rightarrow> 'a pstore \<Rightarrow> 'a pstore" where
  "property_initialize_build_id b ar st =
     (if GetProperty ar st ''ro.build.id'' [] \<noteq> [] then st
      else
        (let legacy_build_id = GetProperty ar st ''ro.build.legacy.id'' [];
             vbmeta_digest = GetProperty ar st ''ro.boot.vbmeta.digest'' [];
             build_id = (if length vbmeta_digest < 8 then legacy_build_id
                         else legacy_build_id @ ''.'' @ take 8 vbmeta_digest)
         in set_prop b ar ''ro.build.id'' build_id st))"

definition ConstructBuildFingerprint :: "boot_env \<Rightarrow> 'a area_ops \<Rightarrow> 'a pstore \<Rightarrow> bool \<Rightarrow> string" where
  "ConstructBuildFingerprint b ar st legacy =
     (let get = (\<lambda>k. GetProperty ar st k ''unknown'') in
      get ''ro.product.brand'' @ ''/'' @ get ''ro.product.name'' @
      (if GetBoolProperty ar st ''ro.product.build.16k_page.enabled'' False \<and> getpagesize b = 16384
       then ''_16kb'' else []) @
      ''/'' @ get ''ro.product.device'' @ '':'' @ get ''ro.build.version.release_or_codename'' @ ''/'' @
      get (if legacy then ''ro.build.legacy.id'' else ''ro.build.id'') @ ''/'' @
      get ''ro.build.version.incremental'' @ '':'' @ get ''ro.build.type'' @ ''/'' @ get ''ro.build.tags'')"

definition property_derive_legacy_build_fingerprint :: "boot_env \<Rightarrow> 'a area_ops \<Rightarrow> 'a pstore \<Rightarrow> 'a pstore" where
  "property_derive_legacy_build_fingerprint b ar st =
     (if GetProperty ar st ''ro.build.legacy.fingerprint'' [] \<noteq> [] then st
      else if GetProperty ar st ''ro.build.legacy.id'' [] = [] then st
      else set_prop b ar ''ro.build.legacy.fingerprint'' (ConstructBuildFingerprint b ar st True) st)"

definition property_derive_build_fingerprint :: "boot_env \<Rightarrow> 'a area_ops \<Rightarrow> 'a pstore \<Rightarrow> 'a pstore" where
  "property_derive_build_fingerprint b ar st =
     (if GetProperty ar st ''ro.build.fingerprint'' [] \<noteq> [] then st
      else set_prop b ar ''ro.build.fingerprint'' (ConstructBuildFingerprint b ar st False) st)"

fun abilist_values :: "'a area_ops \<Rightarrow> 'a pstore \<Rightarrow> string list \<Rightarrow> string \<times> string" where
  "abilist_values ar st [] = ([], [])"
| "abilist_values ar st (src # srcs) =
     (let v32 = GetProperty ar st (''ro.'' @ src @ ''.product.cpu.abilist32'') [];
          v64 = GetProperty ar st (''ro.'' @ src @ ''.product.cpu.abilist64'') []
      in if v32 \<noteq> [] \<or> v64 \<noteq> [] then (v32, v64) else abilist_values ar st srcs)"

definition property_initialize_ro_cpu_abilist :: "boot_env \<Rightarrow> 'a area_ops \<Rightarrow> 'a pstore \<Rightarrow> 'a pstore" where
  "property_initialize_ro_cpu_abilist b ar st =
     (if GetProperty ar st ''ro.product.cpu.abilist'' [] \<noteq> [] then st
      else
        (let (v32, v64) = abilist_values ar st [''product'', ''odm'', ''vendor'', ''system''];
             v = v64;
             v = (if v32 \<noteq> [] then (if v \<noteq> [] then v @ '','' else v) @ v32 else v)
         in set_props b ar [(''ro.product.cpu.abilist'', v), (''ro.product.cpu.abilist32'', v32),
                            (''ro.product.cpu.abilist64'', v64)] st))"

definition vendor_api_level :: "boot_env \<Rightarrow> 'a area_ops \<Rightarrow> 'a pstore \<Rightarrow> int" where
  "vendor_api_level b ar st =
     (let e = penv b;
          level = GetIntProperty e ar st ''ro.board.first_api_level'' (ANDROID_VENDOR_API_MAX b);
          level = (if level \<noteq> ANDROID_VENDOR_API_MAX b
                   then GetIntProperty e ar st ''ro.board.api_level'' level else level);
          first = GetIntProperty e ar st ''ro.product.first_api_level'' (ANDROID_API_FUTURE b);
          first = (if first = ANDROID_API_FUTURE b
                   then GetIntProperty e ar st ''ro.build.version.sdk'' (ANDROID_API_FUTURE b) else first);
          level = min (getVendorApiLevelOf b first) level
      in if level < 0 then ANDROID_VENDOR_API_MAX b else level)"

definition property_initialize_ro_vendor_api_level :: "boot_env \<Rightarrow> 'a area_ops \<Rightarrow> 'a pstore \<Rightarrow> 'a pstore" where
  "property_initialize_ro_vendor_api_level b ar st =
     (if prop_find ar (area st) ''ro.vendor.api_level'' \<noteq> None then st
      else set_prop b ar ''ro.vendor.api_level'' (to_string (vendor_api_level b ar st)) st)"

definition PropertyLoadBootDefaults ::
    "boot_env \<Rightarrow> 'a area_ops \<Rightarrow> nat \<Rightarrow> 'a pstore \<Rightarrow> stop + 'a pstore" where
  "PropertyLoadBootDefaults b ar fuel st =
     map_sum id
       (\<lambda>m. let st = set_props b ar m st;
                st = property_initialize_ro_product_props b ar st;
                st = property_initialize_build_id b ar st;
                st = property_derive_build_fingerprint b ar st;
                st = property_derive_legacy_build_fingerprint b ar st;
                st = property_initialize_ro_cpu_abilist b ar st;
                st = property_initialize_ro_vendor_api_level b ar st
            in update_sys_usb_config b ar st)
       (load_boot_files b
          (\<lambda>path. load_properties_from_file b (prop_find ar (area st)) fuel path None))"

definition PropertyLoadDerivedDefaults :: "boot_env \<Rightarrow> 'a area_ops \<Rightarrow> 'a pstore \<Rightarrow> 'a pstore" where
  "PropertyLoadDerivedDefaults b ar st =
     (if GetProperty ar st ''ro.boot.hardware.cpu.pagesize'' [] = []
      then set_prop b ar ''ro.boot.hardware.cpu.pagesize'' (to_string (getpagesize b)) st else st)"

section \<open>Properties from the kernel\<close>

definition prop_map :: "(string \<times> string \<times> string) list" where
  "prop_map =
     [(''ro.boot.serialno'', ''ro.serialno'', []),
      (''ro.boot.mode'', ''ro.bootmode'', ''unknown''),
      (''ro.boot.baseband'', ''ro.baseband'', ''unknown''),
      (''ro.boot.bootloader'', ''ro.bootloader'', ''unknown''),
      (''ro.boot.hardware'', ''ro.hardware'', ''unknown''),
      (''ro.boot.revision'', ''ro.revision'', ''0'')]"

definition ExportKernelBootProps :: "boot_env \<Rightarrow> 'a area_ops \<Rightarrow> 'a pstore \<Rightarrow> 'a pstore" where
  "ExportKernelBootProps b ar st =
     fold (\<lambda>(src, dst, dflt) st.
             let v = GetProperty ar st src dflt in
             if v \<noteq> [] then InitPropertySet (penv b) ar dst v st else st) prop_map st"

definition ProcessKernelDt :: "boot_env \<Rightarrow> 'a area_ops \<Rightarrow> 'a pstore \<Rightarrow> 'a pstore" where
  "ProcessKernelDt b ar st =
     (if \<not> dt_expected b then st
      else (case dt_entries b of
              None \<Rightarrow> st
            | Some ds \<Rightarrow>
                fold (\<lambda>(is_reg, name) st.
                        if \<not> is_reg \<or> name = ''compatible'' \<or> name = ''name'' then st
                        else InitPropertySet (penv b) ar (''ro.boot.'' @ name)
                               (map (\<lambda>c. if c = CHR '','' then CHR ''.'' else c) (dt_read b name)) st)
                     ds st))"

definition import_androidboot :: "boot_env \<Rightarrow> 'a area_ops \<Rightarrow> (string \<times> string) list \<Rightarrow> 'a pstore \<Rightarrow> 'a pstore" where
  "import_androidboot b ar kvs st =
     fold (\<lambda>(key, v) st.
             if StartsWith (plb (penv b)) key ''androidboot.''
             then InitPropertySet (penv b) ar (''ro.boot.'' @ drop (length ''androidboot.'') key) v st
             else st) kvs st"

definition ProcessKernelCmdline :: "boot_env \<Rightarrow> 'a area_ops \<Rightarrow> 'a pstore \<Rightarrow> 'a pstore" where
  "ProcessKernelCmdline b ar st = import_androidboot b ar (cmdline b) st"

definition ProcessBootconfig :: "boot_env \<Rightarrow> 'a area_ops \<Rightarrow> 'a pstore \<Rightarrow> 'a pstore" where
  "ProcessBootconfig b ar st = import_androidboot b ar (bootconfig b) st"

text \<open>\<open>PropertyInit\<close> after the area and the property contexts were set up.\<close>

definition PropertyInit :: "boot_env \<Rightarrow> 'a area_ops \<Rightarrow> nat \<Rightarrow> 'a pstore \<Rightarrow> stop + 'a pstore" where
  "PropertyInit b ar fuel st =
     (let st = ProcessKernelDt b ar st;
          st = ProcessKernelCmdline b ar st;
          st = ProcessBootconfig b ar st;
          st = ExportKernelBootProps b ar st
      in map_sum id (PropertyLoadDerivedDefaults b ar) (PropertyLoadBootDefaults b ar fuel st))"

section \<open>Messages from init\<close>

datatype init_message = LoadPersistentProperties | UnknownMessage

definition HandleInitSocket ::
    "boot_env \<Rightarrow> 'a area_ops \<Rightarrow> nat \<Rightarrow> init_message option \<Rightarrow> 'a pstore \<Rightarrow> stop + 'a pstore" where
  "HandleInitSocket b ar fuel msg st =
     (if msg = Some LoadPersistentProperties
      then map_sum id
             (\<lambda>st. let st = fold (\<lambda>(n, v). InitPropertySet (penv b) ar n v) (persistent_records b) st;
                       st = (if GetBoolProperty ar st ''ro.force.debuggable'' False
                             then update_sys_usb_config b ar st else st);
                       st = InitPropertySet (penv b) ar ''ro.persistent_properties.ready'' ''true'' st
                   in st\<lparr>persistent_properties_loaded := True\<rparr>)
             (load_override_properties b ar fuel st)
      else Inr st)"

definition StartPropertyService :: "boot_env \<Rightarrow> 'a area_ops \<Rightarrow> 'a pstore \<Rightarrow> 'a pstore" where
  "StartPropertyService b ar st =
     (let st = InitPropertySet (penv b) ar ''ro.property_service.version'' ''2'' st;
          st = StartSendingMessages st
      in if GetBoolProperty ar st ''ro.property_service.async_persist_writes'' False
         then st\<lparr>persist_write_thread := True\<rparr> else st)"

end
