(* ===== verification/Prop_Correct.thy ===== *)
theory Prop_Correct
  imports Prop_Load
begin

text \<open>
  Correctness of the property service: the locale \<open>property_service\<close> joins the contract of the property
  area with that of the string library; \<open>boot_service\<close> adds the boot environment.  The relation
  \<open>prop_step\<close> has one rule for every operation that the service performs, and \<open>area_keeps\<close> is what each
  of them preserves.
\<close>

section \<open>Setting a property\<close>

definition settable :: "prop_env \<Rightarrow> string \<Rightarrow> string \<Rightarrow> bool" where
  "settable e name v \<longleftrightarrow> legal_name e name \<and> legal_value e name v \<and> name \<noteq> ''sys.powerctl''"

text \<open>What one call may do to the area: nothing, or give \<open>name\<close> the value \<open>v\<close> unless that is forbidden.\<close>

definition area_keeps :: "'a area_ops \<Rightarrow> 'a \<Rightarrow> 'a \<Rightarrow> bool" where
  "area_keeps ar a a' \<longleftrightarrow>
     (\<forall>k v. prop_find ar a k = Some v \<longrightarrow>
        prop_find ar a' k \<noteq> None \<and> (prefix ''ro.'' k \<longrightarrow> prop_find ar a' k = Some v))"

lemma area_keeps_refl [simp]: "area_keeps ar a a"
  by (simp add: area_keeps_def)

lemma area_keeps_trans: "area_keeps ar a a' \<Longrightarrow> area_keeps ar a' a'' \<Longrightarrow> area_keeps ar a a''"
  unfolding area_keeps_def by (metis not_Some_eq)

lemma pemit_simps [simp]:
  "area (pemit x st) = area st" "work (pemit x st) = work st" "peff (pemit x st) = peff st @ [x]"
  "accept_messages (pemit x st) = accept_messages st"
  "persistent_properties_loaded (pemit x st) = persistent_properties_loaded st"
  "persist_write_thread (pemit x st) = persist_write_thread st"
  by (simp_all add: pemit_def)

lemma area_effects [simp]:
  "area (NotifyPropertyChange n v st) = area st" "area (StartSendingMessages st) = area st"
  "area (StopSendingMessages st) = area st" "area (TriggerRestorecon p st) = area st"
  "area (persist_write n v fd st) = area st" "area (SendUint32 fd rc st) = area st"
  "area (close_socket fd st) = area st" "area (restorecon_step st) = area st"
  "area (persist_work st) = area st"
  by (simp_all add: NotifyPropertyChange_def StartSendingMessages_def StopSendingMessages_def
      TriggerRestorecon_def persist_write_def SendUint32_def close_socket_def restorecon_step_def
      persist_work_def Let_def split: list.splits)

lemma area_SendControlMessage [simp]:
  "SendControlMessage e m n p sock st = (r, sock', st') \<Longrightarrow> area st' = area st"
  by (auto simp: SendControlMessage_def Let_def split: if_splits option.splits prod.splits)

locale property_service = property_area ar + lb: libbase_laws "plb e"
  for ar :: "'a area_ops" and e :: prop_env
begin

lemma find_set:
  assumes "PropertySet e ar name v sock st = (r, sock', st')"
  shows "prop_find ar (area st') k = prop_find ar (area st) k \<or>
    (k = name \<and> settable e name v \<and> r \<in> {None, Some PROP_SUCCESS} \<and>
     (prop_find ar (area st) name = None \<or> \<not> prefix ''ro.'' name) \<and>
     prop_find ar (area st') name = Some v)"
  using assms find_update [of "area st" name v k] find_add [of "area st" name v _ _ k]
  by (auto simp: PropertySet_def settable_def Let_def lb.StartsWith_eq
      split: if_splits option.splits prod.splits)

lemma set_keeps:
  assumes "PropertySet e ar name v sock st = (r, sock', st')"
  shows "area_keeps ar (area st) (area st')"
  unfolding area_keeps_def using find_set [OF assms] by (metis option.distinct(1))

lemma handle_keeps:
  assumes "HandlePropertySet e ar name v ctx cr sock st = (r, sock', st')"
  shows "area_keeps ar (area st) (area st')"
  using assms set_keeps
  by (auto simp: HandlePropertySet_def Let_def split: if_splits prod.splits)

lemma handle_none_keeps: "area_keeps ar (area st) (area (snd (HandlePropertySetNoSocket e ar n v c cr st)))"
  using handle_keeps
  by (auto simp: HandlePropertySetNoSocket_def split: prod.splits)

lemma init_keeps: "area_keeps ar (area st) (area (InitPropertySet e ar name v st))"
  by (simp add: InitPropertySet_def handle_none_keeps)

lemma client_keeps:
  "area_keeps ar (area st) (area (snd (handle_property_set_fd e ar poll rcv fd peer con s st)))"
proof -
  have 1: "area_keeps ar (area st) (area (snd (set_prop_msg1 e ar poll rcv cr con t s' st)))" for cr t s'
    by (auto simp: set_prop_msg1_def handle_none_keeps split: prod.splits option.splits)
  have 2: "area_keeps ar (area st) (area (snd (snd (set_prop_msg2 e ar poll rcv cr con t fd s' st))))" for cr t s'
    using handle_keeps
    by (fastforce simp: set_prop_msg2_def split: prod.splits option.splits)
  show ?thesis
    using 1 2 by (auto simp: handle_property_set_fd_def split: prod.splits option.splits)
      (metis snd_conv)+
qed

end

lemma fold_keeps:
  "(\<And>x st. area_keeps ar (area st) (area (f x st))) \<Longrightarrow> area_keeps ar (area st) (area (fold f xs st))"
  by (induction xs arbitrary: st) (auto intro: area_keeps_trans)

locale boot_service = property_service ar "penv b" for ar :: "'a area_ops" and b :: boot_env
begin

lemma set_prop_keeps: "area_keeps ar (area st) (area (set_prop b ar n v st))"
  using set_keeps by (auto simp: set_prop_def PropertySetNoSocket_def split: prod.splits)

lemma set_props_keeps: "area_keeps ar (area st) (area (set_props b ar m st))"
  unfolding set_props_def by (rule fold_keeps) (auto simp: set_prop_keeps)

lemma usb_keeps: "area_keeps ar (area st) (area (update_sys_usb_config b ar st))"
  by (simp add: update_sys_usb_config_def Let_def init_keeps)

lemma product_source_keeps: "area_keeps ar (area st) (area (ro_product_source b ar p srcs st))"
  by (induction srcs) (simp_all add: Let_def set_prop_keeps)

lemma product_keeps: "area_keeps ar (area st) (area (property_initialize_ro_product_props b ar st))"
  unfolding property_initialize_ro_product_props_def
  by (rule fold_keeps) (simp add: ro_product_prop_def product_source_keeps)

lemma derived_keeps:
  "area_keeps ar (area st) (area (property_initialize_build_id b ar st))"
  "area_keeps ar (area st) (area (property_derive_build_fingerprint b ar st))"
  "area_keeps ar (area st) (area (property_derive_legacy_build_fingerprint b ar st))"
  "area_keeps ar (area st) (area (property_initialize_ro_cpu_abilist b ar st))"
  "area_keeps ar (area st) (area (property_initialize_ro_vendor_api_level b ar st))"
  "area_keeps ar (area st) (area (PropertyLoadDerivedDefaults b ar st))"
  by (simp_all add: property_initialize_build_id_def property_derive_build_fingerprint_def
      property_derive_legacy_build_fingerprint_def property_initialize_ro_cpu_abilist_def
      property_initialize_ro_vendor_api_level_def PropertyLoadDerivedDefaults_def
      Let_def set_prop_keeps set_props_keeps del: abilist_values.simps split: prod.split)

lemma boot_defaults_keeps:
  assumes "PropertyLoadBootDefaults b ar fuel st = Inr st'"
  shows "area_keeps ar (area st) (area st')"
  using assms unfolding PropertyLoadBootDefaults_def Let_def
  by (auto simp: map_sum_def split: sum.splits
      intro!: area_keeps_trans [OF _ usb_keeps] area_keeps_trans [OF _ derived_keeps(5)]
        area_keeps_trans [OF _ derived_keeps(4)] area_keeps_trans [OF _ derived_keeps(3)]
        area_keeps_trans [OF _ derived_keeps(2)] area_keeps_trans [OF _ derived_keeps(1)]
        area_keeps_trans [OF set_props_keeps product_keeps])

lemma import_keeps: "area_keeps ar (area st) (area (import_androidboot b ar kvs st))"
  unfolding import_androidboot_def by (rule fold_keeps) (simp add: init_keeps split: prod.split)

lemma dt_keeps: "area_keeps ar (area st) (area (ProcessKernelDt b ar st))"
  by (auto simp: ProcessKernelDt_def init_keeps intro!: fold_keeps split: option.split)

lemma export_keeps: "area_keeps ar (area st) (area (ExportKernelBootProps b ar st))"
  unfolding ExportKernelBootProps_def
  by (rule fold_keeps) (simp add: Let_def init_keeps split: prod.split)

lemma init_boot_keeps:
  assumes "PropertyInit b ar fuel st = Inr st'"
  shows "area_keeps ar (area (ProcessBootconfig b ar (ProcessKernelCmdline b ar (ProcessKernelDt b ar st)))) (area st')"
  using assms unfolding PropertyInit_def Let_def
  by (auto simp: map_sum_def split: sum.splits
      intro: area_keeps_trans [OF _ derived_keeps(6)] area_keeps_trans [OF export_keeps boot_defaults_keeps])

lemma property_init_keeps:
  assumes "PropertyInit b ar fuel st = Inr st'"
  shows "area_keeps ar (area st) (area st')"
  using init_boot_keeps [OF assms] area_keeps_trans [OF dt_keeps] area_keeps_trans [OF import_keeps]
  by (metis ProcessBootconfig_def ProcessKernelCmdline_def)

lemma override_keeps:
  "load_override_properties b ar fuel st = Inr st' \<Longrightarrow> area_keeps ar (area st) (area st')"
  by (auto simp: load_override_properties_def map_sum_def set_props_keeps split: if_splits sum.splits)

lemma init_socket_keeps:
  assumes "HandleInitSocket b ar fuel msg st = Inr st'"
  shows "area_keeps ar (area st) (area st')"
proof -
  have fold: "area_keeps ar (area st) (area (fold (\<lambda>(n, v). InitPropertySet (penv b) ar n v) kvs st))" for kvs st
    by (rule fold_keeps) (simp add: init_keeps split: prod.split)
  show ?thesis
    using assms unfolding HandleInitSocket_def Let_def
    by (auto simp: map_sum_def split: if_splits sum.splits
        intro!: area_keeps_trans [OF _ init_keeps] area_keeps_trans [OF _ usb_keeps]
          area_keeps_trans [OF override_keeps fold])
qed

lemma start_keeps: "area_keeps ar (area st) (area (StartPropertyService b ar st))"
  by (simp add: StartPropertyService_def Let_def init_keeps)

end
section \<open>Every operation of the service\<close>

inductive prop_step ::
    "boot_env \<Rightarrow> 'a area_ops \<Rightarrow> 's poller \<Rightarrow> 's reader \<Rightarrow> 'a pstore \<Rightarrow> 'a pstore \<Rightarrow> bool"
  for b ar poll rcv where
  step_client: "prop_step b ar poll rcv st
      (snd (handle_property_set_fd (penv b) ar poll rcv fd peer con s st))"
| step_init: "prop_step b ar poll rcv st (InitPropertySet (penv b) ar n v st)"
| step_boot: "PropertyInit b ar fuel st = Inr st' \<Longrightarrow> prop_step b ar poll rcv st st'"
| step_message: "HandleInitSocket b ar fuel msg st = Inr st' \<Longrightarrow> prop_step b ar poll rcv st st'"
| step_start: "prop_step b ar poll rcv st (StartPropertyService b ar st)"
| step_persist: "prop_step b ar poll rcv st (persist_work st)"
| step_restorecon: "prop_step b ar poll rcv st (restorecon_step st)"
| step_stop: "prop_step b ar poll rcv st (StopSendingMessages st)"

context boot_service
begin

lemma step_keeps: "prop_step b ar poll rcv st st' \<Longrightarrow> area_keeps ar (area st) (area st')"
  by (induction rule: prop_step.induct)
    (simp_all add: client_keeps init_keeps property_init_keeps init_socket_keeps start_keeps)

lemma steps_keep: "(prop_step b ar poll rcv)\<^sup>*\<^sup>* st st' \<Longrightarrow> area_keeps ar (area st) (area st')"
  by (induction rule: rtranclp_induct) (auto intro: area_keeps_trans dest: step_keeps)

end

text \<open>A concrete environment for the instances below.\<close>

definition demo_prop_env :: prop_env where
  "demo_prop_env =
     \<lparr>plb = std_libbase, legal_name = (\<lambda>n. n \<noteq> []), legal_value = (\<lambda>n v. prefix ''ro.'' n \<or> length v < 92),
      property_info = (\<lambda>n. (Some (if prefix ''ro.'' n then ''ro'' else ''rw''), Some ''string'')),
      selinux_check_access = (\<lambda>s t c p. s \<noteq> ''app'' \<or> t = ''rw''),
      CheckType = (\<lambda>t v. True), pvendor_version = 34, queue_ok = (\<lambda>m n. True),
      kRestoreconProperty = ''selinux.restorecon_recursive'', kInitContext = ''init'',
      kVendorContext = ''vendor''\<rparr>"

definition demo_boot_env :: boot_env where
  "demo_boot_env =
     \<lparr>penv = demo_prop_env, bexpand = (\<lambda>look s. Some s),
      bread = map_of [(''/system/build.prop'', ''# build\<newline>ro.build.type=user\<newline>import /vendor/build.prop\<newline>''),
                      (''/vendor/build.prop'', ''ro.debuggable = 1\<newline>'')],
      baccess = (\<lambda>p. 2), ENOENT = 2, ramdisk_prop = ''/second_stage_resources/build.prop'',
      kDebugRamdiskProp = ''/debug_ramdisk/adb_debug.prop'', ALLOW_LOCAL_PROP_OVERRIDE = False,
      IsRecoveryMode = False, getpagesize = 4096, ANDROID_VENDOR_API_MAX = 1000000,
      ANDROID_API_FUTURE = 10000, getVendorApiLevelOf = id, dt_expected = True,
      dt_entries = Some [(True, ''hardware''), (True, ''compatible'')], dt_read = (\<lambda>n. ''a,b''),
      cmdline = [(''androidboot.hardware'', ''c''), (''androidboot.mode'', ''m''), (''quiet'', [])],
      bootconfig = [(''androidboot.mode'', ''n'')], persistent_records = []\<rparr>"

definition demo_pstore :: "(string \<times> string) list pstore" where
  "demo_pstore =
     \<lparr>area = [(''ro.a'', ''1''), (''persist.b'', ''2'')], persistent_properties_loaded = True,
      accept_messages = True, persist_write_thread = True, work = [], restorecon_paths = [],
      restorecon_thread = False, peff = []\<rparr>"

interpretation demo_boot: boot_service "bounded_area cap" demo_boot_env for cap
  by (intro boot_service.intro property_service.intro bounded.property_area_axioms)
    (simp add: demo_boot_env_def demo_prop_env_def std_libbase_laws)

text \<open>
  C4 (prop_ro_write_once): a property whose name starts with \<open>ro.\<close> is write-once, and no property ever
  disappears: whatever clients send, whatever files are loaded at boot, and in whatever order the
  operations of the service run, the value of an \<open>ro.\<close> property that is set once never changes.
\<close>

theorem prop_ro_write_once:
  assumes "boot_service ar b" and "(prop_step b ar poll rcv)\<^sup>*\<^sup>* st st'"
    and "prop_find ar (area st) k = Some v"
  shows "prop_find ar (area st') k \<noteq> None \<and> (prefix ''ro.'' k \<longrightarrow> prop_find ar (area st') k = Some v)"
  using boot_service.steps_keep [OF assms(1,2)] assms(3) by (simp add: area_keeps_def)

theorem prop_ro_write_once_witness:
  "prop_find (bounded_area 9)
     (area (persist_work (InitPropertySet demo_prop_env (bounded_area 9) ''ro.a'' ''7'' demo_pstore)))
     ''ro.a'' = Some ''1''"
proof -
  let ?step = "prop_step demo_boot_env (bounded_area 9) (undefined :: sock poller) sock_read"
  have "?step\<^sup>*\<^sup>* demo_pstore
      (persist_work (InitPropertySet (penv demo_boot_env) (bounded_area 9) ''ro.a'' ''7'' demo_pstore))"
    by (meson converse_rtranclp_into_rtranclp r_into_rtranclp step_init step_persist)
  from prop_ro_write_once [OF demo_boot.boot_service_axioms this, of "''ro.a''" "''1''"]
  show ?thesis by (simp add: demo_pstore_def bounded_area_def demo_boot_env_def)
qed

text \<open>
  C8 (prop_access_control): a request from a client that lacks the permission is answered with the
  reason and changes nothing at all; in every case only the named property can change, and it changes
  only to the requested value, only when name and value are legal, the name is not a control message,
  and the security policy allows the client to set it; an \<open>ro.\<close> property only when it was not set.
\<close>

theorem prop_access_control:
  assumes "property_service ar e"
    and "HandlePropertySet e ar name v ctx cr sock st = (r, sock', st')"
  shows "(CheckPermissions e name v ctx \<noteq> PROP_SUCCESS \<longrightarrow>
       r = Some (CheckPermissions e name v ctx) \<and> sock' = sock \<and> st' = st) \<and>
    (prop_find ar (area st') k \<noteq> prop_find ar (area st) k \<longrightarrow>
       k = name \<and> prop_find ar (area st') k = Some v \<and> legal_name e name \<and> legal_value e name v \<and>
       \<not> prefix ''ctl.'' name \<and> CheckMacPerms e (fst (property_info e name)) ctx \<and>
       (prefix ''ro.'' name \<longrightarrow> prop_find ar (area st) name = None))"
proof -
  note sw = libbase_laws.StartsWith_eq [OF property_service.axioms(2) [OF assms(1)]]
  note set = property_service.find_set [OF assms(1)]
  show ?thesis
  proof (intro conjI impI)
    assume "CheckPermissions e name v ctx \<noteq> PROP_SUCCESS"
    then show "r = Some (CheckPermissions e name v ctx)" "sock' = sock" "st' = st"
      using assms(2) by (auto simp: HandlePropertySet_def Let_def)
  next
    assume ne: "prop_find ar (area st') k \<noteq> prop_find ar (area st) k"
    then have perm: "CheckPermissions e name v ctx = PROP_SUCCESS" and ctl: "\<not> prefix ''ctl.'' name"
      and ps: "PropertySet e ar name v sock st = (r, sock', st')"
      using assms(2) by (auto simp: HandlePropertySet_def Let_def sw split: if_splits prod.splits)
    from set [OF ps, of k] ne show "k = name" and "legal_name e name" and "legal_value e name v"
      by (auto simp: settable_def)
    from set [OF ps, of k] ne show "prop_find ar (area st') k = Some v" by auto
    from ctl show "\<not> prefix ''ctl.'' name" .
    from perm ctl show "CheckMacPerms e (fst (property_info e name)) ctx"
      by (auto simp: CheckPermissions_def sw split: if_splits prod.splits)
    from set [OF ps, of k] ne show "prefix ''ro.'' name \<Longrightarrow> prop_find ar (area st) name = None" by auto
  qed
qed

theorem prop_access_control_witness:
  "fst (HandlePropertySet demo_prop_env (bounded_area 9) ''ro.x'' ''1'' ''app'' init_cred (Some 3) demo_pstore) =
     Some PROP_ERROR_PERMISSION_DENIED"
proof -
  have perm: "CheckPermissions demo_prop_env ''ro.x'' ''1'' ''app'' = PROP_ERROR_PERMISSION_DENIED"
    by (simp add: CheckPermissions_def demo_prop_env_def CheckMacPerms_def std_libbase_def)
  obtain r sock' st' where h:
    "HandlePropertySet demo_prop_env (bounded_area 9) ''ro.x'' ''1'' ''app'' init_cred (Some 3) demo_pstore =
       (r, sock', st')"
    by (metis prod_cases3)
  have ps: "property_service (bounded_area 9) demo_prop_env"
    using demo_boot.property_service_axioms [of 9] by (simp add: demo_boot_env_def)
  from prop_access_control [OF ps h] perm show ?thesis by (simp add: h)
qed

section \<open>Receiving\<close>

text \<open>
  A connection on which the bytes of the peer are there: \<open>poll\<close> reports them at once and \<open>recv\<close> returns
  some of them.
\<close>

locale ready_conn = byte_stream rcv pending for rcv :: "'s reader" and pending +
  fixes poll :: "'s poller"
  assumes poll_ready: "pending s \<noteq> [] \<Longrightarrow> 0 < t \<Longrightarrow>
    \<exists>nr x s'. poll t s = (nr, x, 0, s') \<and> 0 < nr \<and> pending s' = pending s"
begin

lemma PollIn_ready:
  "pending s \<noteq> [] \<Longrightarrow> 0 < t \<Longrightarrow> \<exists>s'. PollIn poll t s = (True, t, s') \<and> pending s' = pending s"
  using poll_ready [of s t] by (subst PollIn.simps) (auto split: prod.split)

lemma RecvFully_ready:
  assumes "n \<le> length (pending s)" and "0 < t"
  shows "\<exists>s'. RecvFully poll rcv n t s = (Some (take n (pending s)), t, s') \<and> pending s' = drop n (pending s)"
  using assms
proof (induction n arbitrary: s rule: less_induct)
  case (less n)
  show ?case
  proof (cases "n = 0")
    case True
    then show ?thesis by (subst RecvFully.simps) simp
  next
    case False
    with less.prems have "pending s \<noteq> []" by auto
    then obtain s1 where s1: "PollIn poll t s = (True, t, s1)" "pending s1 = pending s"
      using PollIn_ready less.prems by blast
    obtain r bs s2 where r: "rcv n s1 = (r, bs, s2)" by (metis prod_cases3)
    have pos: "0 < r"
      using rd_end [OF r] False s1(2) \<open>pending s \<noteq> []\<close> by force
    then have bs: "length bs = nat r" "nat r \<le> n" "pending s = bs @ pending s2"
      using rd_pos [OF r] False s1(2) by auto
    have "n - nat r \<le> length (pending s2)" using less.prems(1) bs by simp
    then obtain s3 where s3: "RecvFully poll rcv (n - nat r) t s2 = (Some (take (n - nat r) (pending s2)), t, s3)"
      "pending s3 = drop (n - nat r) (pending s2)"
      using less.IH [of "n - nat r" s2] less.prems(2) pos False by auto
    show ?thesis
      using s1(1) r pos s3 bs False less.prems(2) by (subst RecvFully.simps) simp
  qed
qed

lemma RecvUint32_ready:
  assumes "pending s = le32 v @ rest" and "0 < t"
  shows "\<exists>s'. RecvUint32 poll rcv t s = (Some v, t, s') \<and> pending s' = rest"
  using RecvFully_ready [of 4 s t] assms un_le32_le32 [of v "[]"] by (auto simp: RecvUint32_def)

lemma RecvString_ready:
  assumes "pending s = le32 (of_nat (length n)) @ bytes_of_string n @ rest" and "length n \<le> 0xffff" and "0 < t"
  shows "\<exists>s'. RecvString poll rcv t s = (Some n, t, s') \<and> pending s' = rest"
proof -
  obtain s1 where s1: "RecvUint32 poll rcv t s = (Some (of_nat (length n)), t, s1)"
    "pending s1 = bytes_of_string n @ rest"
    using RecvUint32_ready assms by blast
  have len: "unat (of_nat (length n) :: u32) = length n"
    using assms(2) by (simp add: unat_of_nat)
  then have small: "\<not> (of_nat (length n) :: u32) > 0xffff" and zero: "(of_nat (length n) :: u32) = 0 \<longleftrightarrow> n = []"
    using assms(2) by (auto simp: word_less_nat_alt unat_eq_zero [symmetric] simp del: unat_eq_zero)
  show ?thesis
    using s1 RecvFully_ready [of "length n" s1 t] assms(2,3) small zero len
    by (auto simp: RecvString_def RecvChars_def)
qed

end

text \<open>The message a client sends to set a property, and a socket whose peer is always ready.\<close>

definition setprop2_bytes :: "string \<Rightarrow> string \<Rightarrow> u8 list" where
  "setprop2_bytes n v =
     le32 PROP_MSG_SETPROP2 @ le32 (of_nat (length n)) @ bytes_of_string n @
     le32 (of_nat (length v)) @ bytes_of_string v"

definition sock_poll :: "sock poller" where
  "sock_poll t s = (if sock_pending s = [] then (0, False, t, s) else (1, False, 0, s))"

interpretation ready_sock: ready_conn sock_read sock_pending sock_poll
  by unfold_locales (auto simp: sock_poll_def)

text \<open>
  C38 (prop_socket_roundtrip): a \<open>SETPROP2\<close> message, however the stream is cut into segments, reaches
  \<open>HandlePropertySet\<close> with exactly the name and the value the client encoded; the rest of the stream is
  untouched; the result is sent back on the connection unless it was handed on, and then the
  connection is closed.
\<close>

theorem prop_socket_roundtrip:
  assumes "ready_conn rcv pending poll" and "pending s = setprop2_bytes n v @ rest"
    and "length n \<le> 0xffff" and "length v \<le> 0xffff" and "fd \<noteq> -1"
  shows "\<exists>s'. pending s' = rest \<and>
    handle_property_set_fd e ar poll rcv fd (Some cr) (Some ctx) s st =
      (s', case HandlePropertySet e ar n v ctx cr (Some fd) st of
             (r, sock, st) \<Rightarrow> close_socket (the sock)
               (case r of None \<Rightarrow> st | Some rc \<Rightarrow> SendUint32 (the sock) rc st))"
proof -
  let ?t = "5000 :: nat"
  obtain s1 where s1: "RecvUint32 poll rcv ?t s = (Some PROP_MSG_SETPROP2, ?t, s1)"
    "pending s1 = le32 (of_nat (length n)) @ bytes_of_string n @ le32 (of_nat (length v)) @ bytes_of_string v @ rest"
    using ready_conn.RecvUint32_ready [OF assms(1), of s PROP_MSG_SETPROP2 _ ?t] assms(2)
    by (auto simp: setprop2_bytes_def)
  obtain s2 where s2: "RecvString poll rcv ?t s1 = (Some n, ?t, s2)"
    "pending s2 = le32 (of_nat (length v)) @ bytes_of_string v @ rest"
    using ready_conn.RecvString_ready [OF assms(1) s1(2) assms(3), of 5000] by auto
  obtain s3 where s3: "RecvString poll rcv ?t s2 = (Some v, ?t, s3)" "pending s3 = rest"
    using ready_conn.RecvString_ready [OF assms(1) s2(2) assms(4), of 5000] by auto
  show ?thesis
    using assms(5) s1(1) s2(1) s3
    by (intro exI [of _ s3])
      (simp add: handle_property_set_fd_def set_prop_msg2_def split: prod.split option.split)
qed

theorem prop_socket_roundtrip_witness:
  "\<exists>s'. sock_pending s' = [] \<and>
    handle_property_set_fd demo_prop_env (bounded_area 9) sock_poll sock_read 5 (Some init_cred) (Some ''app'')
      \<lparr>rx = [take 3 (setprop2_bytes ''persist.b'' ''on''), drop 3 (setprop2_bytes ''persist.b'' ''on'')],
       tx = [], wcap = 1\<rparr> demo_pstore =
      (s', demo_pstore\<lparr>area := [(''ro.a'', ''1''), (''persist.b'', ''on'')], work := [(''persist.b'', ''on'', 5)]\<rparr>)"
proof -
  let ?m = "setprop2_bytes ''persist.b'' ''on''"
  have p: "sock_pending \<lparr>rx = [take 3 ?m, drop 3 ?m], tx = [], wcap = 1\<rparr> = ?m @ []"
    by (simp add: sock_pending_def)
  have set: "HandlePropertySet demo_prop_env (bounded_area 9) ''persist.b'' ''on'' ''app'' init_cred (Some 5) demo_pstore =
    (None, Some (-1), demo_pstore\<lparr>area := [(''ro.a'', ''1''), (''persist.b'', ''on'')], work := [(''persist.b'', ''on'', 5)]\<rparr>)"
    by (simp add: HandlePropertySet_def CheckPermissions_def CheckMacPerms_def demo_prop_env_def std_libbase_def
        PropertySet_def demo_pstore_def bounded_area_def persist_write_def)
  from prop_socket_roundtrip [where rcv = sock_read and pending = sock_pending and poll = sock_poll and
      n = "''persist.b''" and v = "''on''" and rest = "[]" and fd = 5 and e = demo_prop_env and
      ar = "bounded_area 9" and cr = init_cred and ctx = "''app''" and st = demo_pstore,
      OF ready_sock.ready_conn_axioms p]
  show ?thesis unfolding set by (simp add: close_socket_def)
qed

section \<open>Bounds on what is received\<close>

lemma PollIn_timeout: "PollIn poll t s = (ok, t', s') \<Longrightarrow> t' \<le> t"
proof (induction t arbitrary: ok t' s s' rule: less_induct)
  case (less t)
  obtain nr x ms s1 where p: "poll t s = (nr, x, ms, s1)" by (metis prod_cases4)
  show ?case
  proof (cases "t \<noteq> 0 \<and> nr < 0 \<and> x")
    case True
    then have "PollIn poll (t - ms - 1) s1 = (ok, t', s')"
      using less.prems p by (subst (asm) PollIn.simps) (auto simp: Let_def split: if_splits)
    then have "t' \<le> t - ms - 1" using less.IH True by simp
    then show ?thesis by simp
  next
    case False
    with less.prems p show ?thesis
      by (subst (asm) PollIn.simps) (auto simp: Let_def split: if_splits)
  qed
qed

lemma RecvFully_length:
  assumes "byte_stream rcv pending" and "RecvFully poll rcv n t s = (r, t', s')"
  shows "t' \<le> t \<and> (\<forall>bs. r = Some bs \<longrightarrow> length bs = n)"
  using assms(2)
proof (induction n arbitrary: r t t' s s' rule: less_induct)
  case (less n)
  show ?case
  proof (cases "t > 0 \<and> n > 0")
    case False
    with less.prems show ?thesis by (subst (asm) RecvFully.simps) (auto split: if_splits)
  next
    case True
    obtain ok t1 s1 where p: "PollIn poll t s = (ok, t1, s1)" by (metis prod_cases3)
    obtain res data s2 where d: "rcv n s1 = (res, data, s2)" by (metis prod_cases3)
    obtain r3 t3 s3 where rec: "RecvFully poll rcv (n - nat res) t1 s2 = (r3, t3, s3)" by (metis prod_cases3)
    have t1: "t1 \<le> t" by (rule PollIn_timeout [OF p])
    show ?thesis
    proof (cases "ok \<and> 0 < res")
      case False
      with less.prems True p d t1 show ?thesis
        by (subst (asm) RecvFully.simps) (auto split: bool.splits)
    next
      case ok: True
      then have len: "length data = nat res" "nat res \<le> n"
        using byte_stream.rd_pos [OF assms(1) d] True by auto
      from less.prems True p d rec ok have eq: "r = map_option (\<lambda>ds. data @ ds) r3" "t' = t3"
        by (subst (asm) RecvFully.simps, simp)+
      show ?thesis
        using less.IH [OF _ rec] eq len t1 ok True by auto
    qed
  qed
qed

text \<open>
  Whatever a client sends, a name or value that init accepts has at most 65535
  bytes, and the time left for the rest of the message never grows.
\<close>

theorem prop_recv_bounded:
  assumes "byte_stream rcv pending" and "RecvString poll rcv t s = (r, t', s')"
  shows "t' \<le> t \<and> (\<forall>v. r = Some v \<longrightarrow> length v \<le> 0xffff)"
proof -
  obtain r1 t1 s1 where 1: "RecvFully poll rcv 4 t s = (r1, t1, s1)" by (metis prod_cases3)
  have t1: "t1 \<le> t" using RecvFully_length [OF assms(1) 1] by simp
  have bound: "t2 \<le> t1 \<and> (\<forall>bs. r2 = Some bs \<longrightarrow> length bs = k)"
    if "RecvFully poll rcv k t1 s1 = (r2, t2, s2)" for k r2 t2 s2
    using RecvFully_length [OF assms(1) that] .
  have small: "unat len \<le> 0xffff" if "\<not> 0xffff < (len :: u32)" for len
    using that by (simp add: word_less_nat_alt)
  show ?thesis
    using assms(2) 1 t1 bound small
    by (fastforce simp: RecvString_def RecvUint32_def RecvChars_def string_of_bytes_def
        split: option.splits if_splits prod.splits)
qed

theorem prop_recv_bounded_witness:
  "length (the (fst (RecvString sock_poll sock_read 5000 \<lparr>rx = [le32 3, bytes_of_string ''abc''], tx = [], wcap = 1\<rparr>)))
     \<le> 0xffff"
proof -
  let ?s = "\<lparr>rx = [le32 3, bytes_of_string ''abc''], tx = [], wcap = 1\<rparr>"
  have p: "sock_pending ?s = le32 (of_nat (length ''abc'')) @ bytes_of_string ''abc'' @ []"
    by (simp add: sock_pending_def)
  obtain s' where "RecvString sock_poll sock_read 5000 ?s = (Some ''abc'', 5000, s')"
    using ready_sock.RecvString_ready [OF p, of 5000] by auto
  then show ?thesis
    using prop_recv_bounded [OF sock.byte_stream_axioms, of sock_poll 5000 ?s "Some ''abc''" 5000 s'] by simp
qed

section \<open>Connections\<close>

text \<open>
  How often a descriptor was closed, was given to init with a control message (init closes it), or
  waits in the queue of the thread that writes persistent properties.
\<close>

definition gone :: "int \<Rightarrow> prop_effect \<Rightarrow> bool" where
  "gone fd x = (case x of CloseFd f \<Rightarrow> f = fd | QueueControlMessage m n p f \<Rightarrow> f = fd | _ \<Rightarrow> False)"

definition disposals :: "int \<Rightarrow> 'a pstore \<Rightarrow> nat" where
  "disposals fd st = length (filter (gone fd) (peff st)) + length (filter (\<lambda>(_, _, f). f = fd) (work st))"

lemma work_effects [simp]:
  "work (NotifyPropertyChange n v st) = work st" "work (TriggerRestorecon p st) = work st"
  "work (SendUint32 f rc st) = work st" "work (close_socket f st) = work st"
  by (simp_all add: NotifyPropertyChange_def TriggerRestorecon_def SendUint32_def close_socket_def)

lemma disposals_effects [simp]:
  "disposals fd (NotifyPropertyChange n v st) = disposals fd st"
  "disposals fd (TriggerRestorecon p st) = disposals fd st"
  "disposals fd (SendUint32 f rc st) = disposals fd st"
  "disposals fd (pemit (WritePersistentProperty n v) st) = disposals fd st"
  "disposals fd (st\<lparr>area := a\<rparr>) = disposals fd st"
  "disposals fd (pemit (SendTo f rc) st) = disposals fd st"
  "disposals fd (pemit (CloseFd f) st) = disposals fd st + (if f = fd then 1 else 0)"
  "disposals fd (pemit (QueueControlMessage m n pid f) st) = disposals fd st + (if f = fd then 1 else 0)"
  "disposals fd (persist_write n v f st) = disposals fd st + (if f = fd then 1 else 0)"
  by (simp_all add: disposals_def NotifyPropertyChange_def TriggerRestorecon_def SendUint32_def persist_write_def
      gone_def)

lemma disposals_close: "fd \<noteq> -1 \<Longrightarrow> disposals fd (close_socket f st) = disposals fd st + (if f = fd then 1 else 0)"
  by (simp add: close_socket_def)

text \<open>A call owns the connection it is given: afterwards it still has it, or it disposed of it once.\<close>

definition owned :: "int \<Rightarrow> int option \<Rightarrow> 'a pstore \<Rightarrow> nat" where
  "owned fd sock st = disposals fd st + (if sock = Some fd then 1 else 0)"

lemma owned_set:
  assumes "fd \<noteq> -1" and "PropertySet e ar n v sock st = (r, sock', st')"
  shows "owned fd sock' st' = owned fd sock st"
  using assms
  by (auto simp: PropertySet_def Let_def owned_def split: if_splits option.splits prod.splits)

lemma owned_control:
  assumes "fd \<noteq> -1" and "SendControlMessage e m n p sock st = (r, sock', st')"
  shows "owned fd sock' st' = owned fd sock st"
  using assms
  unfolding SendControlMessage_def Let_def
  by (cases sock; cases "accept_messages st"; cases "pvendor_version e > 29"; cases "queue_ok e m n";
      cases "m = ''stop''") (auto simp: owned_def)

lemma owned_handle:
  assumes "fd \<noteq> -1" and "HandlePropertySet e ar n v ctx cr sock st = (r, sock', st')"
  shows "owned fd sock' st' = owned fd sock st"
  using assms(2)
  by (auto simp: HandlePropertySet_def Let_def split: if_splits prod.splits
      dest: owned_set [OF assms(1)] owned_control [OF assms(1)]) (simp_all add: owned_def)

text \<open>A call that is given a connection returns one (possibly released), and only such a call does.\<close>

lemma set_sock: "PropertySet e ar n v sock st = (r, sock', st') \<Longrightarrow> sock' = None \<longleftrightarrow> sock = None"
  by (auto simp: PropertySet_def Let_def split: if_splits option.splits prod.splits)

lemma control_sock: "SendControlMessage e m n p sock st = (r, sock', st') \<Longrightarrow> sock' = None \<longleftrightarrow> sock = None"
  unfolding SendControlMessage_def Let_def
  by (cases sock; cases "accept_messages st"; cases "pvendor_version e > 29"; cases "m = ''stop''") auto

lemma handle_sock:
  assumes "HandlePropertySet e ar n v ctx cr sock st = (r, sock', st')"
  shows "sock' = None \<longleftrightarrow> sock = None"
  using assms set_sock [of e ar n v sock st r sock' st'] control_sock [of e "drop 4 n" v "cr_pid cr" sock st _ sock' st']
  by (auto simp: HandlePropertySet_def Let_def split: if_splits prod.splits)

lemma handle_none_disposals:
  assumes "fd \<noteq> -1"
  shows "disposals fd (snd (HandlePropertySetNoSocket e ar n v ctx cr st)) = disposals fd st"
proof -
  obtain r sock' st' where h: "HandlePropertySet e ar n v ctx cr None st = (r, sock', st')" by (metis prod_cases3)
  then have "sock' = None" using handle_sock by blast
  with owned_handle [OF assms h] h show ?thesis by (simp add: HandlePropertySetNoSocket_def owned_def)
qed

lemma msg2_disposals:
  assumes "fd \<noteq> -1" and "set_prop_msg2 e ar poll rcv cr con t f s st = (f', s', st')"
  shows "disposals fd (close_socket f' st') = disposals fd st + (if f = fd then 1 else 0)"
proof -
  have handled: "disposals fd st1 + (if the sock' = fd then 1 else 0) = disposals fd st + (if f = fd then 1 else 0)"
    if h: "HandlePropertySet e ar n v ctx cr (Some f) st = (r, sock', st1)" for n v ctx r sock' st1
    using owned_handle [OF assms(1) h] handle_sock [OF h] by (auto simp: owned_def)
  show ?thesis
    using assms
    by (auto simp: set_prop_msg2_def disposals_close dest!: handled split: prod.splits option.splits)
qed

text \<open>
  C39 (prop_fd_conserved): no connection is leaked and none is closed twice: serving an accepted
  connection disposes of its descriptor exactly once (it is closed, handed to init, or queued with the
  property that is being written) and of no other; the thread that writes persistent properties only
  turns queued descriptors into closed ones.
\<close>

theorem prop_fd_conserved:
  assumes "fd \<noteq> -1" and "f \<noteq> -1"
  shows "disposals fd (snd (handle_property_set_fd e ar poll rcv f peer con s st)) =
      disposals fd st + (if f = fd then 1 else 0) \<and>
    disposals fd (persist_work st) = disposals fd st"
proof
  have 1: "disposals fd st1 = disposals fd st" if "set_prop_msg1 e ar poll rcv cr con t s1 st = (s2, st1)"
    for cr t s1 s2 st1
    using that
    by (auto simp: set_prop_msg1_def handle_none_disposals [OF assms(1)] split: prod.splits option.splits)
  show "disposals fd (snd (handle_property_set_fd e ar poll rcv f peer con s st)) =
      disposals fd st + (if f = fd then 1 else 0)"
    using assms
    by (auto simp: handle_property_set_fd_def disposals_close dest!: 1 msg2_disposals [OF assms(1)]
        split: prod.split option.split)
  show "disposals fd (persist_work st) = disposals fd st"
    using assms(1)
    by (auto simp: persist_work_def disposals_close Let_def split: list.split)
      (simp_all add: disposals_def)
qed

theorem prop_fd_conserved_witness:
  "disposals 5 (snd (handle_property_set_fd demo_prop_env (bounded_area 9) sock_poll sock_read 5 None None
     \<lparr>rx = [], tx = [], wcap = 1\<rparr> demo_pstore)) = 1"
  using prop_fd_conserved [of 5 5 demo_prop_env "bounded_area 9" sock_poll sock_read None None
      "\<lparr>rx = [], tx = [], wcap = 1\<rparr>" demo_pstore]
  by (simp add: disposals_def demo_pstore_def)

section \<open>Persistent properties\<close>

definition item_effects :: "bool \<Rightarrow> string \<times> string \<times> int \<Rightarrow> prop_effect list" where
  "item_effects notify = (\<lambda>(n, v, fd). WritePersistentProperty n v #
     (if notify then [PropertyChanged n v] else []) @ (if fd = -1 then [] else [SendTo fd PROP_SUCCESS, CloseFd fd]))"

lemma persist_work_Cons:
  assumes "work st = item # rest"
  shows "persist_work st = st\<lparr>work := rest, peff := peff st @ item_effects (accept_messages st) item\<rparr>"
  using assms
  by (auto simp: persist_work_def item_effects_def Let_def NotifyPropertyChange_def SendUint32_def
      close_socket_def pemit_def split: prod.split)

lemma persist_drain:
  "(persist_work ^^ length (work st)) st =
     st\<lparr>work := [], peff := peff st @ concat (map (item_effects (accept_messages st)) (work st))\<rparr>"
proof (induction "work st" arbitrary: st)
  case Nil
  then show ?case by (cases st) simp
next
  case (Cons item rest)
  from Cons.hyps(2) [symmetric] have w: "work st = item # rest" .
  have "(persist_work ^^ length (work st)) st = (persist_work ^^ length rest) (persist_work st)"
    by (simp add: w funpow_Suc_right del: funpow.simps)
  then show ?case
    using Cons.hyps(1) [of "persist_work st"] w by (simp add: persist_work_Cons [OF w])
qed

definition client_sets :: "prop_env \<Rightarrow> 'a area_ops \<Rightarrow> (string \<times> string \<times> int) list \<Rightarrow> 'a pstore \<Rightarrow> 'a pstore" where
  "client_sets e ar reqs st = fold (\<lambda>(n, v, fd) st. snd (snd (PropertySet e ar n v (Some fd) st))) reqs st"

context property_service
begin

lemma client_set_queued:
  assumes "settable e n v" "prefix ''persist.'' n" "prop_find ar (area st) n \<noteq> None"
    and "persist_write_thread st" "persistent_properties_loaded st"
  shows "PropertySet e ar n v (Some fd) st =
    (None, Some (-1), st\<lparr>area := prop_update ar n v (area st), work := work st @ [(n, v, fd)]\<rparr>)"
proof -
  from assms(2) have "\<not> prefix ''ro.'' n" by (auto simp: prefix_def)
  with assms show ?thesis
    by (auto simp: PropertySet_def settable_def lb.StartsWith_eq persist_write_def)
qed

lemma client_sets_queued:
  assumes "\<forall>(n, v, fd) \<in> set reqs. settable e n v \<and> prefix ''persist.'' n \<and> prop_find ar (area st) n \<noteq> None"
    and "persist_write_thread st" "persistent_properties_loaded st"
  shows "\<exists>a. client_sets e ar reqs st = st\<lparr>area := a, work := work st @ reqs\<rparr> \<and>
    (\<forall>k. prop_find ar a k = (case map_of (rev (map (\<lambda>(n, v, _). (n, v)) reqs)) k of
                              None \<Rightarrow> prop_find ar (area st) k | Some v \<Rightarrow> Some v))"
  using assms
proof (induction reqs arbitrary: st)
  case Nil
  then show ?case by (cases st) (simp add: client_sets_def)
next
  case (Cons r reqs)
  obtain n v fd where r: "r = (n, v, fd)" by (metis prod_cases3)
  let ?st = "st\<lparr>area := prop_update ar n v (area st), work := work st @ [(n, v, fd)]\<rparr>"
  have found: "prop_find ar (prop_update ar n v (area st)) k = (if k = n then Some v else prop_find ar (area st) k)" for k
    using Cons.prems(1) r by (intro find_update) auto
  have "client_sets e ar (r # reqs) st = client_sets e ar reqs ?st"
    using Cons.prems r client_set_queued [of n v st fd] by (simp add: client_sets_def)
  moreover have "\<exists>a. client_sets e ar reqs ?st = ?st\<lparr>area := a, work := work ?st @ reqs\<rparr> \<and>
    (\<forall>k. prop_find ar a k = (case map_of (rev (map (\<lambda>(n, v, _). (n, v)) reqs)) k of
                              None \<Rightarrow> prop_find ar (area ?st) k | Some v \<Rightarrow> Some v))"
    using Cons.prems found by (intro Cons.IH) auto
  ultimately show ?case
    using found r by (auto simp: map_add_def split: option.split)
qed

end

text \<open>
  When clients set persistent properties that exist and the writing thread
  runs, each request is queued without an answer; once the thread has worked through the queue, every
  property was written to disk exactly once and in the order of the requests, each client was answered
  and its connection closed only after its write (and after init was told), and the area holds the
  last value of each property.
\<close>

theorem prop_persist_in_order:
  assumes "property_service ar e" and "persist_write_thread st" and "persistent_properties_loaded st"
    and "work st = []"
    and "\<forall>(n, v, fd) \<in> set reqs. settable e n v \<and> prefix ''persist.'' n \<and> prop_find ar (area st) n \<noteq> None"
  shows "let st1 = client_sets e ar reqs st; st2 = (persist_work ^^ length reqs) st1 in
    peff st1 = peff st \<and> work st2 = [] \<and>
    peff st2 = peff st @ concat (map (item_effects (accept_messages st)) reqs) \<and>
    (\<forall>k. prop_find ar (area st2) k = (case map_of (rev (map (\<lambda>(n, v, _). (n, v)) reqs)) k of
                              None \<Rightarrow> prop_find ar (area st) k | Some v \<Rightarrow> Some v))"
proof -
  obtain a where a: "client_sets e ar reqs st = st\<lparr>area := a, work := work st @ reqs\<rparr>"
    "\<forall>k. prop_find ar a k = (case map_of (rev (map (\<lambda>(n, v, _). (n, v)) reqs)) k of
                              None \<Rightarrow> prop_find ar (area st) k | Some v \<Rightarrow> Some v)"
    using property_service.client_sets_queued [OF assms(1,5,2,3)] by blast
  then show ?thesis
    using assms(4) persist_drain [of "client_sets e ar reqs st"] by simp
qed

theorem prop_persist_in_order_witness:
  "peff ((persist_work ^^ 2)
     (client_sets demo_prop_env (bounded_area 9) [(''persist.b'', ''x'', 5), (''persist.b'', ''y'', 6)] demo_pstore)) =
   [WritePersistentProperty ''persist.b'' ''x'', PropertyChanged ''persist.b'' ''x'', SendTo 5 PROP_SUCCESS, CloseFd 5,
    WritePersistentProperty ''persist.b'' ''y'', PropertyChanged ''persist.b'' ''y'', SendTo 6 PROP_SUCCESS, CloseFd 6]"
proof -
  have ps: "property_service (bounded_area 9) demo_prop_env"
    using demo_boot.property_service_axioms [of 9] by (simp add: demo_boot_env_def)
  let ?reqs = "[(''persist.b'', ''x'', 5), (''persist.b'', ''y'', 6)]"
  have reqs: "\<forall>(n, v, fd) \<in> set ?reqs. settable demo_prop_env n v \<and> prefix ''persist.'' n \<and>
      prop_find (bounded_area 9) (area demo_pstore) n \<noteq> None"
    by (simp add: settable_def demo_prop_env_def bounded_area_def demo_pstore_def)
  have st: "persist_write_thread demo_pstore" "persistent_properties_loaded demo_pstore" "work demo_pstore = []"
    "peff demo_pstore = []" "accept_messages demo_pstore"
    by (simp_all add: demo_pstore_def)
  from prop_persist_in_order [OF ps st(1-3) reqs] show ?thesis
    by (simp add: Let_def item_effects_def st numeral_2_eq_2 del: funpow.simps)
qed

end
