(* ===== verification/Prop_Load_Correct.thy ===== *)
theory Prop_Load_Correct
  imports Prop_Correct
begin

text \<open>
  What the property files and the boot sequence establish: the collected properties are safe, a file
  written as assignments reads back, imports end when they are acyclic (and never when they are not),
  the kernel's parameters have priority, and the product properties follow their source order.
\<close>

section \<open>The map of the loader\<close>

lemma map_of_put: "map_of (map_put k v m) = (map_of m)(k \<mapsto> v)"
  by (induction m) (auto simp: fun_eq_iff)

lemma keys_put: "fst ` set (map_put k v m) = insert k (fst ` set m)"
  by (induction k v m rule: map_put.induct) auto

lemma sorted_put: "sorted (map fst m) \<Longrightarrow> distinct (map fst m) \<Longrightarrow>
  sorted (map fst (map_put k v m)) \<and> distinct (map fst (map_put k v m))"
proof (induction m)
  case (Cons kv m)
  obtain k' v' where kv: "kv = (k', v')" by (cases kv)
  show ?case using Cons keys_put [of k v m] by (auto simp: kv)
qed simp

lemma set_put: "x \<in> set (map_put k v m) \<Longrightarrow> x = (k, v) \<or> x \<in> set m"
  by (induction m) (auto split: if_splits)

section \<open>What a load may put into the map\<close>

definition file_entry_ok :: "prop_env \<Rightarrow> string \<times> string \<Rightarrow> bool" where
  "file_entry_ok e = (\<lambda>(k, v). \<not> disallowed e k \<and>
     (\<exists>c \<in> {kInitContext e, kVendorContext e}. CheckPermissions e k v c = PROP_SUCCESS))"

definition props_ok :: "prop_env \<Rightarrow> props \<Rightarrow> bool" where
  "props_ok e m \<longleftrightarrow> sorted (map fst m) \<and> distinct (map fst m) \<and> list_all (file_entry_ok e) m"

definition loader_ok :: "prop_env \<Rightarrow> loader \<Rightarrow> bool" where
  "loader_ok e ld \<longleftrightarrow> (\<forall>path m r m'. props_ok e m \<longrightarrow> ld path m = Inr (r, m') \<longrightarrow> props_ok e m')"

lemma props_ok_Nil [simp]: "props_ok e []"
  by (simp add: props_ok_def)

lemma props_ok_put: "props_ok e m \<Longrightarrow> file_entry_ok e (k, v) \<Longrightarrow> props_ok e (map_put k v m)"
  using sorted_put [of m k v] set_put [of _ k v m] by (fastforce simp: props_ok_def list_all_iff)

lemma assign_line_ok: "props_ok e m \<Longrightarrow> props_ok e (assign_line e flt filename line m)"
  by (auto simp: assign_line_def Let_def file_entry_ok_def file_context_def split: option.split intro!: props_ok_put)

lemma load_lines_ok:
  assumes "\<And>l m m'. P m \<Longrightarrow> f l m = Inr m' \<Longrightarrow> P m'" and "P m" and "load_lines f ls m = Inr m'"
  shows "P m'"
  using assms(2,3) by (induction ls arbitrary: m) (auto split: sum.splits dest: assms(1))

lemma load_line_Inr:
  assumes "load_line b look imp flt filename l m = Inr m'"
  shows "m' = m \<or> (\<exists>p f r. imp p f m = Inr (r, m')) \<or>
    m' = assign_line (penv b) flt filename (trim_right (trim_left l)) m"
proof -
  have imp: "\<exists>p f r. imp p f m = Inr (r, m')" if "map_sum id snd (imp p f m) = Inr m'" for p f
    using that by (cases "imp p f m") (auto, blast)
  show ?thesis
    using assms unfolding load_line_def Let_def
    by (cases "import_args (trim_right (trim_left l))") (auto split: if_splits option.splits dest: imp)
qed

lemma load_file_Suc:
  assumes "load_properties_from_file b look (Suc n) filename flt m = Inr (r, m')"
  shows "m' = m \<or> (\<exists>c. bread b filename = Some c \<and>
    load_lines (load_line b look (load_properties_from_file b look n) flt filename) (data_lines (c @ ''\<newline>'')) m = Inr m')"
  using assms by (auto simp: LoadProperties_def map_sum_def split: option.splits sum.splits)

lemma load_file_ok:
  "load_properties_from_file b look n filename flt m = Inr (r, m') \<Longrightarrow> props_ok (penv b) m \<Longrightarrow> props_ok (penv b) m'"
proof (induction n arbitrary: filename flt m r m')
  case (Suc n)
  have line: "props_ok (penv b) m2"
    if "props_ok (penv b) m1" "load_line b look (load_properties_from_file b look n) flt filename l m1 = Inr m2"
    for l m1 m2
    using load_line_Inr [OF that(2)] that(1) Suc.IH assign_line_ok by blast
  have "props_ok (penv b) m'"
    if "load_lines (load_line b look (load_properties_from_file b look n) flt filename) ls m = Inr m'" for ls
    using load_lines_ok [where P = "props_ok (penv b)" and
        f = "load_line b look (load_properties_from_file b look n) flt filename"] line Suc.prems(2) that by blast
  then show ?case
    using load_file_Suc [OF Suc.prems(1)] Suc.prems(2) by blast
qed simp

lemma loader_ok_file: "loader_ok (penv b) (\<lambda>path. load_properties_from_file b look n path None)"
  using load_file_ok unfolding loader_ok_def by blast

lemma loader_okD: "loader_ok e ld \<Longrightarrow> ld p m = Inr (r, m') \<Longrightarrow> props_ok e m \<Longrightarrow> props_ok e m'"
  unfolding loader_ok_def by blast

lemma load_or_warn_ok: "loader_ok e ld \<Longrightarrow> load_or_warn ld p m = Inr m' \<Longrightarrow> props_ok e m \<Longrightarrow> props_ok e m'"
  by (cases "ld p m") (auto simp: load_or_warn_def dest: loader_okD)

lemma sum_bind_Inr: "sum_bind r f = Inr y \<longleftrightarrow> (\<exists>x. r = Inr x \<and> f x = Inr y)"
  by (cases r) (auto simp: sum_bind_def)

lemma second_stage_ok:
  "loader_ok (penv b) ld \<Longrightarrow> LoadPropertiesFromSecondStageRes b ld m = Inr m' \<Longrightarrow> props_ok (penv b) m \<Longrightarrow>
   props_ok (penv b) m'"
  by (auto simp: LoadPropertiesFromSecondStageRes_def load_or_warn_ok split: if_splits)

text \<open>A partition contributes its canonical file, or its two legacy files, or aborts the boot.\<close>

lemma partition_Inr:
  assumes "load_properties_from_partition b ld part u m = Inr m'"
  shows "(\<exists>m1. ld (''/'' @ part @ ''/etc/build.prop'') m = Inr (True, m1) \<and> m' = m1) \<or>
    (\<exists>m1 m2. ld (''/'' @ part @ ''/etc/build.prop'') m = Inr (False, m1) \<and>
       load_or_warn ld (''/'' @ part @ ''/default.prop'') m1 = Inr m2 \<and>
       load_or_warn ld (''/'' @ part @ ''/build.prop'') m2 = Inr m')"
  using assms
  by (cases "ld (''/'' @ part @ ''/etc/build.prop'') m")
    (auto simp: load_properties_from_partition_def sum_bind_Inr Let_def split: if_splits)

lemma partition_ok:
  assumes "loader_ok (penv b) ld" and "load_properties_from_partition b ld part u m = Inr m'" and "props_ok (penv b) m"
  shows "props_ok (penv b) m'"
  using partition_Inr [OF assms(2)] assms(3) loader_okD [OF assms(1)] load_or_warn_ok [OF assms(1)] by metis

lemma load_boot_files_ok:
  assumes "loader_ok (penv b) ld" "load_boot_files b ld = Inr m"
  shows "props_ok (penv b) m"
proof -
  note ok = load_or_warn_ok [OF assms(1)] second_stage_ok [OF assms(1)] partition_ok [OF assms(1)]
  have step: "P y" if "sum_bind r f = Inr y" "\<And>x. r = Inr x \<Longrightarrow> props_ok (penv b) x"
    "\<And>x. props_ok (penv b) x \<Longrightarrow> f x = Inr y \<Longrightarrow> P y" for r :: "stop + props" and f and y :: props and P
    using that by (auto simp: sum_bind_Inr)
  show ?thesis
    using assms(2) unfolding load_boot_files_def
    by (elim step) (auto split: if_splits dest: ok)
qed

text \<open>
  Whatever the property files contain and however they import each other, the
  properties that boot collects from them have distinct, ordered names, none of them is a control
  message, the power control or the restorecon property, and each passes the permission check for init
  or for the vendor.
\<close>

theorem prop_files_safe:
  assumes "load_boot_files b (\<lambda>path. load_properties_from_file b look fuel path None) = Inr m"
  shows "sorted (map fst m) \<and> distinct (map fst m) \<and>
    (\<forall>(k, v) \<in> set m. \<not> disallowed (penv b) k \<and>
       (\<exists>c \<in> {kInitContext (penv b), kVendorContext (penv b)}. CheckPermissions (penv b) k v c = PROP_SUCCESS))"
  using load_boot_files_ok [OF loader_ok_file assms]
  by (simp add: props_ok_def list_all_iff file_entry_ok_def)

lemma demo_load:
  "load_boot_files demo_boot_env (\<lambda>path. load_properties_from_file demo_boot_env look 3 path None) =
     Inr [(''ro.build.type'', ''user''), (''ro.debuggable'', ''1'')]"
  by (simp add: load_boot_files_def demo_boot_env_def sum_bind_def load_or_warn_def
      LoadPropertiesFromSecondStageRes_def load_properties_from_partition_def numeral_3_eq_3 LoadProperties_def
      data_lines_def load_line_def trim_left_def trim_right_def isspace_def import_args_def assign_line_def
      filter_ok_def disallowed_def demo_prop_env_def std_libbase_def CheckPermissions_def CheckMacPerms_def
      file_context_def Let_def)

theorem prop_files_safe_witness:
  "\<not> disallowed demo_prop_env ''ro.debuggable''"
  using prop_files_safe [OF demo_load [of Map.empty]] by (simp add: demo_boot_env_def)

section \<open>Reading back a property file\<close>

text \<open>Keys and values that a line of a property file can carry as they are.\<close>

definition line_char :: "char \<Rightarrow> bool" where
  "line_char c \<longleftrightarrow> c \<noteq> CHR ''\<newline>'' \<and> c \<noteq> CHR 0x00"

definition plain_key :: "string \<Rightarrow> bool" where
  "plain_key k \<longleftrightarrow> k \<noteq> [] \<and> list_all (\<lambda>c. line_char c \<and> c \<noteq> CHR ''='' \<and> \<not> isspace c) k \<and> hd k \<noteq> CHR ''#''"

definition plain_value :: "string \<Rightarrow> bool" where
  "plain_value v \<longleftrightarrow> list_all line_char v \<and> (v \<noteq> [] \<longrightarrow> \<not> isspace (hd v) \<and> \<not> isspace (last v))"

definition prop_text :: "(string \<times> string) list \<Rightarrow> string" where
  "prop_text kvs = concat (map (\<lambda>(k, v). k @ ''='' @ v @ ''\<newline>'') kvs)"

definition file_accepts :: "prop_env \<Rightarrow> string \<Rightarrow> string \<times> string \<Rightarrow> bool" where
  "file_accepts e filename = (\<lambda>(k, v). \<not> disallowed e k \<and>
     CheckPermissions e k v (file_context e filename) = PROP_SUCCESS)"

lemma trim_left_id: "s = [] \<or> \<not> isspace (hd s) \<Longrightarrow> trim_left s = s"
  by (cases s) (auto simp: trim_left_def)

lemma trim_right_id: "s = [] \<or> \<not> isspace (last s) \<Longrightarrow> trim_right s = s"
proof (cases s)
  case (Cons c r)
  assume "s = [] \<or> \<not> isspace (last s)"
  with Cons have "r = [] \<or> \<not> isspace (last r)" by (auto split: if_splits)
  then have "dropWhile isspace (rev r) = rev r"
    by (cases "rev r") (auto simp: hd_rev)
  with Cons show ?thesis by (simp add: trim_right_def)
qed (simp add: trim_right_def)

lemma load_plain_line:
  assumes "plain_key k" "plain_value v"
  shows "load_line b look imp None filename (k @ ''='' @ v) m =
    Inr (if file_accepts (penv b) filename (k, v) then map_put k v m else m)"
proof -
  have k: "k \<noteq> []" "\<not> isspace (hd k)" "\<not> isspace (last k)" "CHR ''='' \<notin> set k" "hd k \<noteq> CHR ''#''"
    "CHR '' '' \<notin> set k"
    using assms(1) by (auto simp: plain_key_def list_all_iff isspace_def)
  have v: "trim_left v = v" "v = [] \<or> \<not> isspace (last v)"
    using assms(2) by (auto simp: plain_value_def intro: trim_left_id)
  let ?l = "k @ ''='' @ v"
  have eq: "find_char (CHR ''='') ?l = Some (length k)"
    using find_char_append [OF k(4)] by simp
  have "\<not> isspace (last ?l)" using v(2) by (auto simp: isspace_def)
  then have tr: "trim_left ?l = ?l" "trim_right ?l = ?l"
    using k(1,2) by (auto intro!: trim_left_id trim_right_id)
  have "take 1 ?l \<noteq> ''#''" using k(1,5) by (cases k) auto
  moreover have "take 7 ?l \<noteq> ''import ''"
  proof
    assume "take 7 ?l = ''import ''"
    then have i: "take 7 ?l ! 6 = CHR '' ''" "\<forall>j < 6. take 7 ?l ! j \<noteq> CHR ''=''" "6 < length ?l"
      by (auto simp: nth_Cons' dest: arg_cong [of _ _ length])
    then have "length k > 6 \<or> length k = 6 \<or> length k < 6" by arith
    then show False
    proof (elim disjE)
      assume "length k > 6"
      with i(1) have "k ! 6 = CHR '' ''" by (simp add: nth_append)
      with \<open>length k > 6\<close> k(6) show False by (metis nth_mem)
    next
      assume "length k = 6" with i(1) show False by (simp add: nth_append)
    next
      assume "length k < 6" with i(2) show False by (auto simp: nth_append)
    qed
  qed
  ultimately show ?thesis
    using eq tr k v(1)
    by (simp add: load_line_def Let_def assign_line_def filter_ok_def file_accepts_def trim_right_id)
qed

lemma data_lines_text:
  assumes "\<forall>(k, v) \<in> set kvs. plain_key k \<and> plain_value v"
  shows "data_lines (prop_text kvs @ ''\<newline>'') = map (\<lambda>(k, v). k @ ''='' @ v) kvs @ [[]]"
proof -
  have "takeWhile (\<lambda>c. c \<noteq> CHR 0x00) (prop_text kvs @ ''\<newline>'') = prop_text kvs @ ''\<newline>''"
    using assms by (intro takeWhile_eq_all_conv [THEN iffD2])
      (fastforce simp: prop_text_def plain_key_def plain_value_def list_all_iff line_char_def)
  moreover have "split_any {CHR ''\<newline>''} (prop_text kvs @ ''\<newline>'') = map (\<lambda>(k, v). k @ ''='' @ v) kvs @ [[], []]"
    using assms
  proof (induction kvs)
    case (Cons kv kvs)
    obtain k v where kv: "kv = (k, v)" by (cases kv)
    have "CHR ''\<newline>'' \<notin> set (k @ ''='' @ v)"
      using Cons.prems kv by (auto simp: plain_key_def plain_value_def list_all_iff line_char_def)
    then show ?case
      using Cons split_any_append [of "k @ ''='' @ v" "{CHR ''\<newline>''}" "CHR ''\<newline>''" "prop_text kvs @ ''\<newline>''"]
      by (simp add: kv prop_text_def)
  qed (simp add: prop_text_def)
  ultimately show ?thesis by (simp add: data_lines_def butlast_append)
qed

lemma load_lines_append:
  "load_lines f (ls @ ks) m = (case load_lines f ls m of Inl x \<Rightarrow> Inl x | Inr m \<Rightarrow> load_lines f ks m)"
  by (induction ls arbitrary: m) (auto split: sum.split)

lemma load_plain_lines:
  assumes "\<forall>(k, v) \<in> set kvs. plain_key k \<and> plain_value v"
  shows "\<exists>m'. load_lines (load_line b look imp None filename) (map (\<lambda>(k, v). k @ ''='' @ v) kvs) m = Inr m' \<and>
    map_of m' = map_of m ++ map_of (rev (filter (file_accepts (penv b) filename) kvs))"
  using assms
proof (induction kvs arbitrary: m)
  case (Cons kv kvs)
  obtain k v where kv: "kv = (k, v)" by (cases kv)
  let ?m = "if file_accepts (penv b) filename (k, v) then map_put k v m else m"
  obtain m' where "load_lines (load_line b look imp None filename) (map (\<lambda>(k, v). k @ ''='' @ v) kvs) ?m = Inr m'"
    "map_of m' = map_of ?m ++ map_of (rev (filter (file_accepts (penv b) filename) kvs))"
    using Cons by fastforce
  then show ?case
    using Cons.prems load_plain_line [of k v b look imp filename m] by (auto simp: kv map_of_put map_add_def fun_eq_iff split: option.split)
qed simp

text \<open>
  Loading a file that was written one assignment to a line gives every
  property the last value that the file assigns to it and the loader accepts; properties it does not
  assign keep the value that earlier files gave them.
\<close>

theorem prop_file_roundtrip:
  assumes "bread b filename = Some (prop_text kvs)"
    and "\<forall>(k, v) \<in> set kvs. plain_key k \<and> plain_value v"
  shows "\<exists>m'. load_properties_from_file b look (Suc n) filename None m = Inr (True, m') \<and>
    map_of m' = map_of m ++ map_of (rev (filter (file_accepts (penv b) filename) kvs))"
proof -
  let ?f = "load_line b look (load_properties_from_file b look n) None filename"
  obtain m' where m': "load_lines ?f (map (\<lambda>(k, v). k @ ''='' @ v) kvs) m = Inr m'"
    "map_of m' = map_of m ++ map_of (rev (filter (file_accepts (penv b) filename) kvs))"
    using load_plain_lines [OF assms(2)] by blast
  have "?f [] m' = Inr m'"
    by (simp add: load_line_def trim_left_def trim_right_def assign_line_def)
  then have "load_lines ?f (data_lines (prop_text kvs @ ''\<newline>'')) m = Inr m'"
    using m'(1) by (simp add: data_lines_text [OF assms(2)] load_lines_append)
  with m'(2) assms(1) show ?thesis by (simp add: LoadProperties_def)
qed

theorem prop_file_roundtrip_witness:
  "\<exists>m'. load_properties_from_file (demo_boot_env\<lparr>bread := \<lambda>_. Some (prop_text [(''a.b'', ''x y''), (''a.b'', ''2'')])\<rparr>)
       Map.empty 1 ''/system/build.prop'' None [(''c'', ''3'')] = Inr (True, m') \<and>
     map_of m' ''a.b'' = Some ''2'' \<and> map_of m' ''c'' = Some ''3''"
proof -
  let ?b = "demo_boot_env\<lparr>bread := \<lambda>_. Some (prop_text [(''a.b'', ''x y''), (''a.b'', ''2'')])\<rparr>"
  have plain: "\<forall>(k, v) \<in> set [(''a.b'', ''x y''), (''a.b'', ''2'')]. plain_key k \<and> plain_value v"
    by (simp add: plain_key_def plain_value_def line_char_def isspace_def)
  have acc: "file_accepts (penv ?b) ''/system/build.prop'' = (\<lambda>(k, v). \<not> disallowed demo_prop_env k \<and>
     CheckPermissions demo_prop_env k v ''init'' = PROP_SUCCESS)"
    by (simp add: file_accepts_def demo_boot_env_def file_context_def demo_prop_env_def std_libbase_def)
  show ?thesis
    using prop_file_roundtrip [of ?b "''/system/build.prop''", OF _ plain, of Map.empty 0 "[(''c'', ''3'')]"]
    unfolding acc One_nat_def
    by (auto simp: disallowed_def CheckPermissions_def CheckMacPerms_def demo_prop_env_def std_libbase_def)
qed

section \<open>Imports\<close>

definition imported :: "boot_env \<Rightarrow> (string \<Rightarrow> string option) \<Rightarrow> string \<Rightarrow> string \<Rightarrow> bool" where
  "imported b look f p \<longleftrightarrow> (\<exists>c. bread b f = Some c \<and> (\<exists>l \<in> set (data_lines (c @ ''\<newline>'')).
     let key = trim_right (trim_left l) in
     take 7 key = ''import '' \<and> bexpand b look (fst (import_args key)) = Some p))"

lemma load_lines_cong:
  "(\<And>l m. l \<in> set ls \<Longrightarrow> f l m = g l m) \<Longrightarrow> load_lines f ls m = load_lines g ls m"
  by (induction ls arbitrary: m) (simp_all split: sum.split)

lemma load_lines_Inr:
  "(\<And>l m. l \<in> set ls \<Longrightarrow> \<exists>m'. f l m = Inr m') \<Longrightarrow> \<exists>m'. load_lines f ls m = Inr m'"
proof (induction ls arbitrary: m)
  case (Cons l ls)
  obtain m1 where "f l m = Inr m1" using Cons.prems by force
  with Cons show ?case by auto
qed simp

lemma load_line_import_cong:
  assumes "\<And>p g m. take 7 (trim_right (trim_left l)) = ''import '' \<Longrightarrow>
      bexpand b look (fst (import_args (trim_right (trim_left l)))) = Some p \<Longrightarrow> imp p g m = imp' p g m"
  shows "load_line b look imp flt fn l m = load_line b look imp' flt fn l m"
  using assms by (auto simp: load_line_def Let_def split: prod.split option.split)

lemma load_line_import_Inr:
  assumes "\<And>p g m. take 7 (trim_right (trim_left l)) = ''import '' \<Longrightarrow>
      bexpand b look (fst (import_args (trim_right (trim_left l)))) = Some p \<Longrightarrow> \<exists>r. imp p g m = Inr r"
  shows "\<exists>m'. load_line b look imp flt fn l m = Inr m'"
proof -
  have "\<exists>m'. map_sum id snd (imp p g m) = Inr m'"
    if "take 7 (trim_right (trim_left l)) = ''import ''"
      "bexpand b look (fst (import_args (trim_right (trim_left l)))) = Some p" for p g
    using assms [OF that, of g m] by auto
  then show ?thesis by (auto simp: load_line_def Let_def split: prod.split option.split)
qed

lemma load_rank:
  assumes rank: "\<And>f p. imported b look f p \<Longrightarrow> rank p < (rank f :: nat)"
  shows "rank f < n \<Longrightarrow> rank f < n' \<Longrightarrow>
    load_properties_from_file b look n f flt m = load_properties_from_file b look n' f flt m \<and>
    (\<exists>r. load_properties_from_file b look n f flt m = Inr r)"
proof (induction n arbitrary: f flt m n')
  case (Suc n)
  obtain k where k: "n' = Suc k" using Suc.prems(2) by (cases n') auto
  show ?case
  proof (cases "bread b f")
    case (Some c)
    let ?ls = "data_lines (c @ ''\<newline>'')"
    let ?load = "\<lambda>n. load_lines (load_line b look (load_properties_from_file b look n) flt f) ?ls"
    have imp: "rank p < n \<and> rank p < k" if "l \<in> set ?ls"
      "take 7 (trim_right (trim_left l)) = ''import ''"
      "bexpand b look (fst (import_args (trim_right (trim_left l)))) = Some p" for l p
    proof -
      have "imported b look f p" using that Some by (auto simp: imported_def Let_def)
      then show ?thesis using rank Suc.prems k by fastforce
    qed
    have "?load n m = ?load k m"
      using imp Suc.IH by (intro load_lines_cong load_line_import_cong) blast
    moreover have "\<exists>m'. ?load n m = Inr m'"
      using imp Suc.IH by (intro load_lines_Inr load_line_import_Inr) blast
    ultimately show ?thesis using Some k by (auto simp: LoadProperties_def)
  qed (auto simp: k)
qed simp

text \<open>
  C30 (prop_import_terminates): when no property file imports itself, directly or through others (there
  is a rank that every import decreases), loading a file always ends with a result, and a depth beyond
  the rank of the file is enough: more does not change the result.
\<close>

theorem prop_import_terminates:
  assumes "\<And>f p. imported b look f p \<Longrightarrow> rank p < (rank f :: nat)"
  shows "\<exists>r m'. \<forall>n > rank f. load_properties_from_file b look n f flt m = Inr (r, m')"
proof -
  obtain r where "load_properties_from_file b look (Suc (rank f)) f flt m = Inr r"
    using load_rank [of b look rank, OF assms, of f "Suc (rank f)" "Suc (rank f)" flt m] by auto
  then have "\<forall>n > rank f. load_properties_from_file b look n f flt m = Inr (fst r, snd r)"
    using load_rank [of b look rank, OF assms, of f "Suc (rank f)" _ flt m] by auto
  then show ?thesis by blast
qed

theorem prop_import_terminates_witness:
  "\<exists>r m'. \<forall>n > 1. load_properties_from_file demo_boot_env Map.empty n ''/system/build.prop'' None [] = Inr (r, m')"
proof -
  let ?rank = "\<lambda>f. if f = ''/system/build.prop'' then 1 else (0 :: nat)"
  have "?rank p < ?rank f" if "imported demo_boot_env Map.empty f p" for f p
    using that
    by (auto simp: imported_def Let_def demo_boot_env_def data_lines_def trim_left_def trim_right_def isspace_def
        import_args_def split: if_splits)
  from prop_import_terminates [of demo_boot_env Map.empty ?rank, OF this, of "''/system/build.prop''" None "[]"]
  show ?thesis by simp
qed

text \<open>Nothing in the code prevents a cycle: a file that imports itself never finishes loading.\<close>

lemma import_cycle_diverges:
  assumes "bread b f = Some (''import '' @ f)" and "bexpand b look f = Some f"
    and "f \<noteq> []" and "list_all (\<lambda>c. line_char c \<and> \<not> isspace c) f"
  shows "load_properties_from_file b look n f None m = Inl TooDeep"
proof (induction n)
  case (Suc n)
  have nl: "set (''import '' @ f) \<inter> {CHR ''\<newline>''} = {}" and sp: "CHR '' '' \<notin> set f"
    using assms(4) by (auto simp: list_all_iff line_char_def isspace_def)
  have "takeWhile (\<lambda>c. c \<noteq> CHR 0x00) ((''import '' @ f) @ ''\<newline>'') = (''import '' @ f) @ ''\<newline>''"
    using assms(4) by (subst takeWhile_eq_all_conv) (auto simp: list_all_iff line_char_def)
  then have lines: "data_lines ((''import '' @ f) @ ''\<newline>'') = [''import '' @ f]"
    using split_any_append [OF nl, of "CHR ''\<newline>''" "[]"] by (simp add: data_lines_def)
  have last: "\<not> isspace (last (''import '' @ f))" "\<not> isspace (hd f)"
    using assms(3,4) by (auto simp: list_all_iff)
  have "trim_right (''import '' @ f) = ''import '' @ f" "trim_left (''import '' @ f) = ''import '' @ f"
    using last(1) by (auto intro!: trim_right_id trim_left_id) (simp_all add: isspace_def)
  moreover have "import_args (''import '' @ f) = (f, None)"
    using find_char_None [THEN iffD2, OF sp] trim_left_id [of f] last(2)
    by (simp add: import_args_def Let_def del: find_char_None)
  ultimately have "load_line b look (load_properties_from_file b look n) None f (''import '' @ f) m = Inl TooDeep"
    using Suc assms(2) by (simp add: load_line_def Let_def)
  with assms(1) lines show ?case by (simp add: LoadProperties_def)
qed simp

section \<open>Properties from the kernel\<close>

text \<open>An area that has room for every new property.\<close>

locale boot_roomy = boot_service +
  assumes add_ok: "prop_find ar a n = None \<Longrightarrow> 0 \<le> fst (prop_add ar n v a)"

definition growing_area :: "(string \<times> string) list area_ops" where
  "growing_area = \<lparr>prop_find = map_of, prop_update = AList.update, prop_add = (\<lambda>n v a. (0, (n, v) # a))\<rparr>"

interpretation growing: boot_roomy growing_area demo_boot_env
  by (intro boot_roomy.intro boot_service.intro property_service.intro property_area.intro boot_roomy_axioms.intro)
    (auto simp: growing_area_def update_conv' demo_boot_env_def demo_prop_env_def std_libbase_laws)

definition init_accepts :: "prop_env \<Rightarrow> string \<times> string \<Rightarrow> bool" where
  "init_accepts e = (\<lambda>(n, v). CheckPermissions e n v (kInitContext e) = PROP_SUCCESS \<and> legal_value e n v)"

context boot_roomy
begin

lemma set_prop_find:
  assumes "prefix ''ro.'' k"
  shows "prop_find ar (area (set_prop b ar n v st)) k =
    (if n = k \<and> settable (penv b) n v \<and> prop_find ar (area st) k = None then Some v else prop_find ar (area st) k)"
proof -
  obtain r sock st' where ps: "PropertySet (penv b) ar n v None st = (r, sock, st')" by (metis prod_cases3)
  obtain rc a where add: "prop_add ar n v (area st) = (rc, a)" by fastforce
  show ?thesis
  proof (cases "n = k \<and> settable (penv b) n v \<and> prop_find ar (area st) k = None")
    case True
    then have "0 \<le> rc" using add_ok [of "area st" n v] add by simp
    with True show ?thesis
      using ps add find_add [of "area st" n v rc a k]
      by (auto simp: set_prop_def PropertySetNoSocket_def PropertySet_def settable_def)
  next
    case False
    then show ?thesis
      using find_set [OF ps, of k] ps assms by (auto simp: set_prop_def PropertySetNoSocket_def)
  qed
qed

lemma init_set_find:
  assumes "prefix ''ro.'' k"
  shows "prop_find ar (area (InitPropertySet (penv b) ar n v st)) k =
    (if n = k \<and> init_accepts (penv b) (n, v) \<and> prop_find ar (area st) k = None
     then Some v else prop_find ar (area st) k)"
proof (cases "n = k")
  case True
  then have special: "\<not> prefix ''ctl.'' n" "n \<noteq> ''sys.powerctl''" using assms by (auto simp: prefix_def)
  have legal: "CheckPermissions (penv b) n v c = PROP_SUCCESS \<Longrightarrow> legal_name (penv b) n" for c
    by (auto simp: CheckPermissions_def split: if_splits)
  have "InitPropertySet (penv b) ar n v st =
      (if CheckPermissions (penv b) n v (kInitContext (penv b)) = PROP_SUCCESS then set_prop b ar n v st else st)"
    using special
    by (auto simp: InitPropertySet_def HandlePropertySetNoSocket_def HandlePropertySet_def init_cred_def
        set_prop_def PropertySetNoSocket_def lb.StartsWith_eq split: prod.split)
  then show ?thesis
    using True legal special set_prop_find [OF assms, of n v st]
    by (auto simp: init_accepts_def settable_def)
next
  case False
  obtain r sock st' where h:
    "HandlePropertySet (penv b) ar n v (kInitContext (penv b)) init_cred None st = (r, sock, st')"
    by (metis prod_cases3)
  have "prop_find ar (area st') k = prop_find ar (area st) k"
    using h False find_set [of n v None st _ _ _ k]
    by (auto simp: HandlePropertySet_def Let_def split: if_splits prod.splits)
  with False h show ?thesis by (simp add: InitPropertySet_def HandlePropertySetNoSocket_def)
qed

lemma init_sets_first:
  assumes "prefix ''ro.'' k"
  shows "prop_find ar (area (fold (\<lambda>(n, v). InitPropertySet (penv b) ar n v) kvs st)) k =
    (case prop_find ar (area st) k of
       Some v \<Rightarrow> Some v
     | None \<Rightarrow> map_option snd (find (\<lambda>(n, v). n = k \<and> init_accepts (penv b) (n, v)) kvs))"
  by (induction kvs arbitrary: st) (auto simp: init_set_find [OF assms] split: option.split)

end

text \<open>What the three sources of kernel parameters ask for, in the order in which init asks them.\<close>

definition dt_props :: "boot_env \<Rightarrow> (string \<times> string) list" where
  "dt_props b =
     (if \<not> dt_expected b then []
      else (case dt_entries b of
              None \<Rightarrow> []
            | Some ds \<Rightarrow> map (\<lambda>(_, n). (''ro.boot.'' @ n, map (\<lambda>c. if c = CHR '','' then CHR ''.'' else c) (dt_read b n)))
                (filter (\<lambda>(is_reg, n). is_reg \<and> n \<noteq> ''compatible'' \<and> n \<noteq> ''name'') ds)))"

definition androidboot_props :: "boot_env \<Rightarrow> (string \<times> string) list \<Rightarrow> (string \<times> string) list" where
  "androidboot_props b kvs =
     map (\<lambda>(k, v). (''ro.boot.'' @ drop (length ''androidboot.'') k, v)) (filter (\<lambda>(k, _). StartsWith (plb (penv b)) k ''androidboot.'') kvs)"

definition kernel_props :: "boot_env \<Rightarrow> (string \<times> string) list" where
  "kernel_props b = dt_props b @ androidboot_props b (cmdline b) @ androidboot_props b (bootconfig b)"

lemma fold_map_filter:
  "fold f (map g (filter P xs)) st = fold (\<lambda>x st. if P x then f (g x) st else st) xs st"
  by (induction xs arbitrary: st) auto

lemma import_androidboot_fold:
  "import_androidboot b ar kvs st = fold (\<lambda>(n, v). InitPropertySet (penv b) ar n v) (androidboot_props b kvs) st"
  unfolding import_androidboot_def androidboot_props_def fold_map_filter
  by (rule arg_cong [where f = "\<lambda>f. fold f kvs st"]) (auto simp: fun_eq_iff)

lemma fold_skip:
  "fold (\<lambda>(r, n) st. if \<not> r \<or> P n \<or> Q n then st else F (g n) (f n) st) ds st =
   fold (\<lambda>(n, v). F n v) (map (\<lambda>(_, n). (g n, f n)) (filter (\<lambda>(r, n). r \<and> \<not> P n \<and> \<not> Q n) ds)) st"
  by (induction ds arbitrary: st) (auto split: if_splits)

lemma dt_fold: "ProcessKernelDt b ar st = fold (\<lambda>(n, v). InitPropertySet (penv b) ar n v) (dt_props b) st"
proof (cases "dt_entries b")
  case (Some ds)
  note fold = fold_skip [where P = "\<lambda>n. n = ''compatible''" and Q = "\<lambda>n. n = ''name''" and
      g = "\<lambda>n. ''ro.boot.'' @ n" and f = "\<lambda>n. map (\<lambda>c. if c = CHR '','' then CHR ''.'' else c) (dt_read b n)" and
      F = "InitPropertySet (penv b) ar" and ds = ds and st = st]
  show ?thesis
    unfolding ProcessKernelDt_def dt_props_def Some option.case fold by simp
qed (simp add: ProcessKernelDt_def dt_props_def)

lemma kernel_fold:
  "ProcessBootconfig b ar (ProcessKernelCmdline b ar (ProcessKernelDt b ar st)) =
   fold (\<lambda>(n, v). InitPropertySet (penv b) ar n v) (kernel_props b) st"
  by (simp add: ProcessBootconfig_def ProcessKernelCmdline_def import_androidboot_fold dt_fold kernel_props_def)

text \<open>
  C29 (prop_boot_priority): after the boot sequence a property \<open>ro.boot.*\<close> has the first value that init
  accepts for it from the device tree, then the kernel command line, then the bootconfig; no later
  source, no property file and no derived property replaces it.
\<close>

theorem prop_boot_priority:
  assumes "boot_roomy ar b" and "PropertyInit b ar fuel st = Inr st'"
    and "prop_find ar (area st) (''ro.boot.'' @ k) = None"
    and "find (\<lambda>(n, v). n = ''ro.boot.'' @ k \<and> init_accepts (penv b) (n, v)) (kernel_props b) = Some (n, v)"
  shows "prop_find ar (area st') (''ro.boot.'' @ k) = Some v"
proof -
  have bs: "boot_service ar b" using assms(1) by (rule boot_roomy.axioms(1))
  have "prop_find ar (area (ProcessBootconfig b ar (ProcessKernelCmdline b ar (ProcessKernelDt b ar st))))
      (''ro.boot.'' @ k) = Some v"
    using assms(3,4) boot_roomy.init_sets_first [OF assms(1), of "''ro.boot.'' @ k" "kernel_props b" st]
    by (simp add: kernel_fold)
  then show ?thesis
    using boot_service.init_boot_keeps [OF bs assms(2)] by (auto simp: area_keeps_def)
qed

theorem prop_boot_priority_witness:
  "\<exists>st'. PropertyInit demo_boot_env growing_area 3 demo_pstore = Inr st' \<and>
     prop_find growing_area (area st') ''ro.boot.hardware'' = Some ''a.b'' \<and>
     prop_find growing_area (area st') ''ro.boot.mode'' = Some ''m''"
proof -
  have "\<exists>st'. PropertyInit demo_boot_env growing_area 3 demo_pstore = Inr st'"
    by (simp add: PropertyInit_def PropertyLoadBootDefaults_def Let_def demo_load)
  then obtain st' where st': "PropertyInit demo_boot_env growing_area 3 demo_pstore = Inr st'" by blast
  have none: "prop_find growing_area (area demo_pstore) (''ro.boot.'' @ k) = None" for k
    by (simp add: growing_area_def demo_pstore_def)
  have props: "kernel_props demo_boot_env =
    [(''ro.boot.hardware'', ''a.b''), (''ro.boot.hardware'', ''c''), (''ro.boot.mode'', ''m''), (''ro.boot.mode'', ''n'')]"
    by (simp add: kernel_props_def dt_props_def androidboot_props_def demo_boot_env_def demo_prop_env_def std_libbase_def)
  have acc: "init_accepts (penv demo_boot_env) (''ro.boot.hardware'', ''a.b'')"
    "init_accepts (penv demo_boot_env) (''ro.boot.mode'', ''m'')"
    by (simp_all add: init_accepts_def CheckPermissions_def CheckMacPerms_def demo_boot_env_def demo_prop_env_def
        std_libbase_def)
  have 1: "find (\<lambda>(n, v). n = ''ro.boot.'' @ ''hardware'' \<and> init_accepts (penv demo_boot_env) (n, v))
      (kernel_props demo_boot_env) = Some (''ro.boot.hardware'', ''a.b'')" using acc by (simp add: props)
  have 2: "find (\<lambda>(n, v). n = ''ro.boot.'' @ ''mode'' \<and> init_accepts (penv demo_boot_env) (n, v))
      (kernel_props demo_boot_env) = Some (''ro.boot.mode'', ''m'')" using acc by (simp add: props)
  show ?thesis
    using st' prop_boot_priority [OF growing.boot_roomy_axioms st' none 1]
      prop_boot_priority [OF growing.boot_roomy_axioms st' none 2] by simp
qed

section \<open>Product properties\<close>

definition product_value :: "boot_env \<Rightarrow> 'a area_ops \<Rightarrow> 'a pstore \<Rightarrow> string \<Rightarrow> string \<Rightarrow> string option" where
  "product_value b ar st order prop =
     find (\<lambda>v. v \<noteq> [])
       (map (\<lambda>src. GetProperty ar st (''ro.product.'' @ src @ ''.'' @ prop) []) (Split (plb (penv b)) order '',''))"

lemma no_dot_product: "p \<in> set ro_product_props \<Longrightarrow> CHR ''.'' \<notin> set p"
  by (auto simp: ro_product_props_def)

lemma source_not_base: "p \<in> set ro_product_props \<Longrightarrow> ''ro.product.'' @ src @ ''.'' @ q \<noteq> ''ro.product.'' @ p"
proof
  assume p: "p \<in> set ro_product_props" and eq: "''ro.product.'' @ src @ ''.'' @ q = ''ro.product.'' @ p"
  then have "p = src @ ''.'' @ q" by simp
  with no_dot_product [OF p] show False by simp
qed

context boot_roomy
begin

lemma product_source_find:
  assumes "prefix ''ro.'' k"
  shows "prop_find ar (area (ro_product_source b ar p srcs st)) k =
    (case find (\<lambda>v. v \<noteq> []) (map (\<lambda>src. GetProperty ar st (''ro.product.'' @ src @ ''.'' @ p) []) srcs) of
       None \<Rightarrow> prop_find ar (area st) k
     | Some v \<Rightarrow> prop_find ar (area (set_prop b ar (''ro.product.'' @ p) v st)) k)"
  by (induction srcs) (auto simp: Let_def)

lemma product_prop_other:
  assumes "prefix ''ro.'' k" "k \<noteq> ''ro.product.'' @ p"
  shows "prop_find ar (area (ro_product_prop b ar order p st)) k = prop_find ar (area st) k"
  using assms by (auto simp: ro_product_prop_def product_source_find set_prop_find split: option.split)

lemma product_props_other:
  assumes "prefix ''ro.'' k" "\<forall>p \<in> set ps. k \<noteq> ''ro.product.'' @ p"
  shows "prop_find ar (area (fold (ro_product_prop b ar order) ps st)) k = prop_find ar (area st) k"
  using assms(2) by (induction ps arbitrary: st) (auto simp: product_prop_other [OF assms(1)])

lemma product_prop_set:
  assumes "prop_find ar (area st) (''ro.product.'' @ p) = None"
    and "\<And>v. settable (penv b) (''ro.product.'' @ p) v"
  shows "prop_find ar (area (ro_product_prop b ar order p st)) (''ro.product.'' @ p) = product_value b ar st order p"
proof -
  have ro: "prefix ''ro.'' (''ro.product.'' @ p)" by simp
  show ?thesis
    using assms product_source_find [OF ro, of p _ st] set_prop_find [OF ro, of "''ro.product.'' @ p" _ st]
    by (simp add: ro_product_prop_def product_value_def GetProperty_def split: option.split)
qed

lemma product_props_set:
  assumes p: "p \<in> set ps" and sub: "set ps \<subseteq> set ro_product_props" and dist: "distinct ps"
    and none: "prop_find ar (area st) (''ro.product.'' @ p) = None"
    and settable: "\<And>v. settable (penv b) (''ro.product.'' @ p) v"
  shows "prop_find ar (area (fold (ro_product_prop b ar order) ps st)) (''ro.product.'' @ p) =
    product_value b ar st order p"
proof -
  obtain xs ys where ps: "ps = xs @ p # ys" using p by (meson split_list)
  let ?mid = "fold (ro_product_prop b ar order) xs st"
  let ?k = "''ro.product.'' @ p"
  have ro: "prefix ''ro.'' ?k" "\<And>src. prefix ''ro.'' (''ro.product.'' @ src @ ''.'' @ p)" by simp_all
  have other: "\<forall>q \<in> set xs. ?k \<noteq> ''ro.product.'' @ q" "\<forall>q \<in> set ys. ?k \<noteq> ''ro.product.'' @ q"
    using dist ps by auto
  have src: "\<forall>q \<in> set xs. ''ro.product.'' @ s @ ''.'' @ p \<noteq> ''ro.product.'' @ q" for s
    using source_not_base sub ps by auto
  have same: "prop_find ar (area ?mid) (''ro.product.'' @ s @ ''.'' @ p) =
      prop_find ar (area st) (''ro.product.'' @ s @ ''.'' @ p)" for s
    by (rule product_props_other [OF ro(2) src])
  have "product_value b ar ?mid order p = product_value b ar st order p"
    unfolding product_value_def GetProperty_def same ..
  moreover have "prop_find ar (area ?mid) ?k = None"
    using product_props_other [OF ro(1) other(1)] none by simp
  then have "prop_find ar (area (ro_product_prop b ar order p ?mid)) ?k = product_value b ar ?mid order p"
    by (rule product_prop_set) (rule settable)
  ultimately show ?thesis
    using product_props_other [OF ro(1) other(2), of order "ro_product_prop b ar order p ?mid"] by (simp add: ps)
qed

end

text \<open>
  Each of the five \<open>ro.product\<close> properties that is not set explicitly gets the
  value of the first partition, in the configured source order, whose own property is not empty, as it
  was before any of them was derived; when no partition has one it stays unset.  An order that names an
  unknown partition is replaced by the default order.
\<close>

theorem prop_product_source:
  assumes "boot_roomy ar b" and "p \<in> set ro_product_props"
    and "prop_find ar (area st) (''ro.product.'' @ p) = None"
    and "\<And>v. settable (penv b) (''ro.product.'' @ p) v"
  shows "prop_find ar (area (property_initialize_ro_product_props b ar st)) (''ro.product.'' @ p) =
      product_value b ar st (source_order b ar st) p \<and>
    (source_order b ar st = ''product,odm,vendor,system_ext,system'' \<or>
     set (Split (plb (penv b)) (source_order b ar st) '','') \<subseteq>
       {''odm'', ''product'', ''system_ext'', ''system'', ''vendor''})"
proof
  have "distinct ro_product_props" by (simp add: ro_product_props_def)
  then show "prop_find ar (area (property_initialize_ro_product_props b ar st)) (''ro.product.'' @ p) =
      product_value b ar st (source_order b ar st) p"
    unfolding property_initialize_ro_product_props_def
    using boot_roomy.product_props_set [OF assms(1,2) _ _ assms(3,4)] by blast
  show "source_order b ar st = ''product,odm,vendor,system_ext,system'' \<or>
     set (Split (plb (penv b)) (source_order b ar st) '','') \<subseteq>
       {''odm'', ''product'', ''system_ext'', ''system'', ''vendor''}"
    by (auto simp: source_order_def Let_def list_all_iff)
qed

theorem prop_product_source_witness:
  "prop_find growing_area
     (area (property_initialize_ro_product_props demo_boot_env growing_area
        (demo_pstore\<lparr>area := [(''ro.product.vendor.brand'', ''v''), (''ro.product.odm.brand'', ''o'')]\<rparr>)))
     ''ro.product.brand'' = Some ''o''"
proof -
  let ?st = "demo_pstore\<lparr>area := [(''ro.product.vendor.brand'', ''v''), (''ro.product.odm.brand'', ''o'')]\<rparr>"
  have order: "source_order demo_boot_env growing_area ?st = ''product,odm,vendor,system_ext,system''"
    by (simp add: source_order_def GetProperty_def growing_area_def)
  have "product_value demo_boot_env growing_area ?st ''product,odm,vendor,system_ext,system'' ''brand'' = Some ''o''"
    by (simp add: product_value_def demo_boot_env_def demo_prop_env_def std_libbase_def GetProperty_def growing_area_def)
  moreover have "''brand'' \<in> set ro_product_props" by (simp add: ro_product_props_def)
  moreover have "prop_find growing_area (area ?st) (''ro.product.'' @ ''brand'') = None" by (simp add: growing_area_def)
  moreover have "settable (penv demo_boot_env) (''ro.product.'' @ ''brand'') v" for v
    by (simp add: settable_def demo_boot_env_def demo_prop_env_def)
  ultimately show ?thesis
    using prop_product_source [OF growing.boot_roomy_axioms, of "''brand''" ?st] order by simp
qed

end
