(* ===== verification/Devices.thy ===== *)
theory Devices
  imports Libbase
begin

text \<open>
  \<open>devices.cpp\<close>: ueventd's handler of device events.  A \<open>DeviceHandler\<close> record has the members of the
  class; one definition models each member function.  The kernel, libselinux, libdm and \<open>fnmatch\<close> are the
  parameter \<open>dkern\<close>: one function for each call, on a state that the model passes along.  An
  event is handled with one of two outcomes, since \<open>LOG(FATAL)\<close> ends the process; whether handling ends
  at all is a third question, because \<open>HandleUevent\<close> calls itself.
\<close>

section \<open>Data\<close>

record Uevent =
  ue_action :: string
  ue_path :: string
  ue_subsystem :: string
  ue_driver :: string
  ue_partition_name :: string
  ue_partition_uuid :: string
  ue_device_name :: string
  ue_major :: int
  ue_minor :: int

record Permissions =
  pm_name :: string
  pm_perm :: u32
  pm_uid :: u32
  pm_gid :: u32
  pm_prefix :: bool
  pm_wildcard :: bool
  pm_no_fnm_pathname :: bool

record SysfsPermissions = Permissions +
  sp_attribute :: string

text \<open>A subsystem or driver of \<open>ueventd.rc\<close>: its name and how it names device nodes.\<close>

record Subsystem =
  ss_name :: string
  ParseDevPath :: "Uevent \<Rightarrow> string"

record BlockDeviceInfo =
  bi_str :: string
  bi_type :: string
  is_boot_device :: bool

text \<open>The results that the code reads are those of the calls; 0 is success and another number is \<open>errno\<close>.\<close>

record 's dkern =
  k_Realpath :: "string \<Rightarrow> 's \<Rightarrow> string option"
  k_Readlink :: "string \<Rightarrow> 's \<Rightarrow> string option"
  k_ReadFile :: "string \<Rightarrow> 's \<Rightarrow> string option"
  k_access :: "string \<Rightarrow> 's \<Rightarrow> bool"
  k_chown :: "string \<Rightarrow> u32 \<Rightarrow> u32 \<Rightarrow> 's \<Rightarrow> nat \<times> 's"
  k_chmod :: "string \<Rightarrow> u32 \<Rightarrow> 's \<Rightarrow> nat \<times> 's"
  k_mknod :: "string \<Rightarrow> u32 \<Rightarrow> u64 \<Rightarrow> 's \<Rightarrow> nat \<times> 's"
  k_stat :: "string \<Rightarrow> 's \<Rightarrow> (u32 \<times> u32) option"
  k_setegid :: "u32 \<Rightarrow> 's \<Rightarrow> nat \<times> 's"
  k_setfscreatecon :: "string option \<Rightarrow> 's \<Rightarrow> 's"
  k_lgetfilecon :: "string \<Rightarrow> 's \<Rightarrow> string option"
  k_lsetfilecon :: "string \<Rightarrow> string \<Rightarrow> 's \<Rightarrow> nat \<times> 's"
  k_restorecon :: "string \<Rightarrow> 's \<Rightarrow> nat \<times> 's"
  k_symlink :: "string \<Rightarrow> string \<Rightarrow> 's \<Rightarrow> nat \<times> 's"
  k_unlink :: "string \<Rightarrow> 's \<Rightarrow> nat \<times> 's"
  k_mkdir_recursive :: "string \<Rightarrow> u32 \<Rightarrow> 's \<Rightarrow> bool \<times> 's"
  k_readdir :: "string \<Rightarrow> 's \<Rightarrow> (bool \<times> string) list option"
  k_SelabelLookup :: "string \<Rightarrow> u32 \<Rightarrow> string option"
  k_SelabelBestMatch :: "string \<Rightarrow> string list \<Rightarrow> u32 \<Rightarrow> string option"
  k_dm :: "u64 \<Rightarrow> 's \<Rightarrow> (string \<times> string) option"
  k_fnmatch :: "string \<Rightarrow> string \<Rightarrow> bool \<Rightarrow> bool"
  k_cmdline :: "(string \<times> string) list"
  k_bootconfig :: "(string \<times> string) list"

text \<open>
  \<open>k_stat\<close> gives group and mode, \<open>k_readdir\<close> the entries with whether they are symbolic links, \<open>k_dm\<close> name
  and UUID of a device mapper device; the flag of \<open>k_fnmatch\<close> is \<open>FNM_PATHNAME\<close>.
\<close>

record DeviceHandler =
  dev_permissions :: "Permissions list"
  sysfs_permissions :: "SysfsPermissions list"
  drivers :: "Subsystem list"
  subsystems :: "Subsystem list"
  boot_devices :: "string set"
  boot_part_uuid :: string
  found_boot_part_uuid :: bool
  skip_restorecon :: bool
  sysfs_mount_point :: string
  bound_drivers :: "string \<rightharpoonup> string"
  tracked_uevents :: "(Uevent \<times> string) list"

abbreviation S_IFBLK :: u32 where "S_IFBLK \<equiv> 0x6000"
abbreviation S_IFCHR :: u32 where "S_IFCHR \<equiv> 0x2000"
abbreviation AID_ROOT :: u32 where "AID_ROOT \<equiv> 0"
abbreviation EEXIST :: nat where "EEXIST \<equiv> 17"
abbreviation mode_0755 :: u32 where "mode_0755 \<equiv> 493"
abbreviation mode_0600 :: u32 where "mode_0600 \<equiv> 384"

text \<open>\<open>makedev\<close> of \<open>sys/sysmacros.h\<close>.\<close>

definition makedev :: "int \<Rightarrow> int \<Rightarrow> u64" where
  "makedev ma mi =
     (let j = ucast (word_of_int ma :: u32) :: u64; n = ucast (word_of_int mi :: u32) :: u64
      in push_bit 32 (j AND 0xfffff000) OR push_bit 8 (j AND 0xfff) OR push_bit 12 (n AND 0xffffff00) OR (n AND 0xff))"

section \<open>Recognising devices by their path\<close>

definition FindPciDevicePrefix :: "libbase \<Rightarrow> string \<Rightarrow> string option" where
  "FindPciDevicePrefix lb path =
     (if \<not> StartsWith lb path ''/devices/pci'' then None
      else case find_char_from (CHR ''/'') path 9 of
        None \<Rightarrow> None
      | Some e1 \<Rightarrow>
          (case find_char_from (CHR ''/'') path (e1 + 1) of
             None \<Rightarrow> None
           | Some e2 \<Rightarrow> if e2 - 9 \<le> 4 then None else Some (substr path 9 (e2 - 9))))"

definition FindVbdDevicePrefix :: "libbase \<Rightarrow> string \<Rightarrow> string option" where
  "FindVbdDevicePrefix lb path =
     (if \<not> StartsWith lb path ''/devices/vbd-'' then None
      else case find_char_from (CHR ''/'') path 13 of
        None \<Rightarrow> None
      | Some e \<Rightarrow> if e - 13 = 0 then None else Some (substr path 13 (e - 13)))"

definition FindDmDevice :: "libbase \<Rightarrow> 's dkern \<Rightarrow> Uevent \<Rightarrow> 's \<Rightarrow> (string \<times> string) option" where
  "FindDmDevice lb k ue s =
     (if \<not> StartsWith lb (ue_path ue) ''/devices/virtual/block/dm-'' then None
      else if ue_action ue = ''remove'' then None
      else k_dm k (makedev (ue_major ue) (ue_minor ue)) s)"

section \<open>Permission rules\<close>

definition make_Permissions :: "string \<Rightarrow> u32 \<Rightarrow> u32 \<Rightarrow> u32 \<Rightarrow> bool \<Rightarrow> Permissions" where
  "make_Permissions name perm uid gid no_fnm =
     (let p = \<lparr>pm_name = name, pm_perm = perm, pm_uid = uid, pm_gid = gid, pm_prefix = False,
               pm_wildcard = False, pm_no_fnm_pathname = no_fnm\<rparr>
      in case find_char (CHR ''*'') name of
           None \<Rightarrow> p
         | Some i \<Rightarrow>
             if i = length name - 1 then p\<lparr>pm_prefix := True, pm_name := butlast name\<rparr>
             else p\<lparr>pm_wildcard := True\<rparr>)"

definition Match :: "libbase \<Rightarrow> 's dkern \<Rightarrow> ('a) Permissions_scheme \<Rightarrow> string \<Rightarrow> bool" where
  "Match lb k p path =
     (if pm_prefix p then StartsWith lb path (pm_name p)
      else if pm_wildcard p then k_fnmatch k (pm_name p) path (\<not> pm_no_fnm_pathname p)
      else path = pm_name p)"

definition MatchWithSubsystem :: "libbase \<Rightarrow> 's dkern \<Rightarrow> SysfsPermissions \<Rightarrow> string \<Rightarrow> string \<Rightarrow> bool" where
  "MatchWithSubsystem lb k p path subsystem =
     (let path_basename = Basename lb path
      in if find_str subsystem (pm_name p) \<noteq> None \<and>
            (Match lb k p (''/sys/class/'' @ subsystem @ ''/'' @ path_basename) \<or>
             Match lb k p (''/sys/bus/'' @ subsystem @ ''/devices/'' @ path_basename))
         then True else Match lb k p path)"

definition SetPermissions :: "'s dkern \<Rightarrow> SysfsPermissions \<Rightarrow> string \<Rightarrow> 's \<Rightarrow> 's" where
  "SetPermissions k p path s =
     (let attribute_file = path @ ''/'' @ sp_attribute p
      in if k_access k attribute_file s then
           let s1 = snd (k_chown k attribute_file (pm_uid p) (pm_gid p) s)
           in snd (k_chmod k attribute_file (pm_perm p) s1)
         else s)"

definition FixupSysPermissions ::
    "libbase \<Rightarrow> 's dkern \<Rightarrow> DeviceHandler \<Rightarrow> string \<Rightarrow> string \<Rightarrow> 's \<Rightarrow> 's" where
  "FixupSysPermissions lb k d upath subsystem s =
     (let path = ''/sys'' @ upath;
          s1 = fold (\<lambda>p t. if MatchWithSubsystem lb k p path subsystem then SetPermissions k p path t else t)
                 (sysfs_permissions d) s
      in if \<not> skip_restorecon d \<and> k_access k path s1 then snd (k_restorecon k path s1) else s1)"

definition GetDevicePermissions ::
    "libbase \<Rightarrow> 's dkern \<Rightarrow> DeviceHandler \<Rightarrow> string \<Rightarrow> string list \<Rightarrow> u32 \<times> u32 \<times> u32" where
  "GetDevicePermissions lb k d path links =
     (case find (\<lambda>p. Match lb k p path \<or> list_ex (Match lb k p) links) (rev (dev_permissions d)) of
        Some p \<Rightarrow> (pm_perm p, pm_uid p, pm_gid p)
      | None \<Rightarrow> (mode_0600, 0, 0))"

section \<open>Block devices\<close>

text \<open>
  The loop of \<open>FindSubsystemDevice\<close>: \<open>path\<close> loses its last component in every round, so the loop ends
  although \<open>Dirname\<close> is a library call.
\<close>

definition in_subsystem :: "'s dkern \<Rightarrow> string set \<Rightarrow> string \<Rightarrow> 's \<Rightarrow> bool" where
  "in_subsystem k paths directory s =
     (case k_Realpath k (directory @ ''/subsystem'') s of Some link \<Rightarrow> link \<in> paths | None \<Rightarrow> False)"

definition strip_devices :: "libbase \<Rightarrow> string \<Rightarrow> string" where
  "strip_devices lb dir =
     (case ConsumePrefix lb dir ''/devices/platform/'' of
        Some r \<Rightarrow> r
      | None \<Rightarrow> (case ConsumePrefix lb dir ''/devices/'' of Some r \<Rightarrow> r | None \<Rightarrow> dir))"

function find_subsystem ::
    "libbase \<Rightarrow> 's dkern \<Rightarrow> string \<Rightarrow> string set \<Rightarrow> string \<Rightarrow> string \<Rightarrow> 's \<Rightarrow> string option" where
  "find_subsystem lb k mount paths path directory s =
     (if directory = ''/'' \<or> directory = ''.'' then None
      else if in_subsystem k paths directory s then Some (strip_devices lb (drop (length mount) directory))
      else case rfind_char (CHR ''/'') path of
        None \<Rightarrow> None
      | Some i \<Rightarrow> find_subsystem lb k mount paths (take i path) (Dirname lb (take i path)) s)"
  by pat_completeness auto
termination
  by (relation "measure (\<lambda>(lb, k, mount, paths, path, directory, s). length path)")
    (auto dest!: rfind_char_SomeD)

declare find_subsystem.simps [simp del]

definition FindSubsystemDevice ::
    "libbase \<Rightarrow> 's dkern \<Rightarrow> DeviceHandler \<Rightarrow> string \<Rightarrow> string set \<Rightarrow> 's \<Rightarrow> string option" where
  "FindSubsystemDevice lb k d path paths s =
     (let full = sysfs_mount_point d @ path
      in find_subsystem lb k (sysfs_mount_point d) paths full (Dirname lb full) s)"

definition FindPlatformDevice :: "libbase \<Rightarrow> 's dkern \<Rightarrow> DeviceHandler \<Rightarrow> string \<Rightarrow> 's \<Rightarrow> string option" where
  "FindPlatformDevice lb k d path s =
     FindSubsystemDevice lb k d path
       {sysfs_mount_point d @ ''/bus/platform'', sysfs_mount_point d @ ''/bus/amba''} s"

definition FindMmcDevice :: "libbase \<Rightarrow> 's dkern \<Rightarrow> DeviceHandler \<Rightarrow> string \<Rightarrow> 's \<Rightarrow> string option" where
  "FindMmcDevice lb k d path s = FindSubsystemDevice lb k d path {sysfs_mount_point d @ ''/bus/mmc''} s"

definition FindNvmeDevice :: "libbase \<Rightarrow> 's dkern \<Rightarrow> DeviceHandler \<Rightarrow> string \<Rightarrow> 's \<Rightarrow> string option" where
  "FindNvmeDevice lb k d path s = FindSubsystemDevice lb k d path {sysfs_mount_point d @ ''/class/nvme''} s"

definition FindScsiDevice :: "libbase \<Rightarrow> 's dkern \<Rightarrow> DeviceHandler \<Rightarrow> string \<Rightarrow> 's \<Rightarrow> string option" where
  "FindScsiDevice lb k d path s = FindSubsystemDevice lb k d path {sysfs_mount_point d @ ''/bus/scsi''} s"

text \<open>
  The searches that failed clear their output, so a failed one leaves the empty string, as the last branch
  of the code does.
\<close>

definition GetBlockDeviceInfo :: "libbase \<Rightarrow> 's dkern \<Rightarrow> DeviceHandler \<Rightarrow> string \<Rightarrow> 's \<Rightarrow> BlockDeviceInfo" where
  "GetBlockDeviceInfo lb k d path s =
     (let (str, ty) =
        (if boot_part_uuid d \<noteq> [] then
           (case FindMmcDevice lb k d path s of Some x \<Rightarrow> (x, ''mmc'')
            | None \<Rightarrow> (case FindNvmeDevice lb k d path s of Some x \<Rightarrow> (x, ''nvme'')
            | None \<Rightarrow> (case FindScsiDevice lb k d path s of Some x \<Rightarrow> (x, ''scsi'') | None \<Rightarrow> ([], []))))
         else
           (case FindPlatformDevice lb k d path s of Some x \<Rightarrow> (x, ''platform'')
            | None \<Rightarrow> (case FindPciDevicePrefix lb path of Some x \<Rightarrow> (x, ''pci'')
            | None \<Rightarrow> (case FindVbdDevicePrefix lb path of Some x \<Rightarrow> (x, ''vbd'') | None \<Rightarrow> ([], [])))))
      in \<lparr>bi_str = str, bi_type = ty, is_boot_device = (str \<in> boot_devices d)\<rparr>)"

definition IsBootDeviceStrict :: "DeviceHandler \<Rightarrow> bool" where
  "IsBootDeviceStrict d \<longleftrightarrow> boot_part_uuid d \<noteq> []"

definition IsBootDevice :: "libbase \<Rightarrow> 's dkern \<Rightarrow> DeviceHandler \<Rightarrow> Uevent \<Rightarrow> 's \<Rightarrow> bool" where
  "IsBootDevice lb k d ue s = is_boot_device (GetBlockDeviceInfo lb k d (ue_path ue) s)"

definition partition_pairs :: "libbase \<Rightarrow> string \<times> string \<Rightarrow> (string \<times> string) list" where
  "partition_pairs lb kv =
     (if fst kv \<noteq> ''androidboot.partition_map'' then []
      else concat (map (\<lambda>m. case Split lb m '','' of [dev, part] \<Rightarrow> [(dev, part)] | _ \<Rightarrow> [])
                     (Split lb (snd kv) '';'')))"

definition GetPartitionNameForDevice :: "libbase \<Rightarrow> 's dkern \<Rightarrow> string \<Rightarrow> string" where
  "GetPartitionNameForDevice lb k query =
     (case map_of (concat (map (partition_pairs lb) (k_cmdline k @ k_bootconfig k))) query of
        Some part \<Rightarrow> part
      | None \<Rightarrow> [])"

text \<open>
  \<open>SanitizePartitionName\<close>: \<open>find_first_not_of\<close> is called from the position of the last character that was
  replaced; the replacement is acceptable, so the search goes on behind it.
\<close>

definition accept_chars :: string where
  "accept_chars = ''abcdefghijklmnopqrstuvwxyzABCDEFGHIJKLMNOPQRSTUVWXYZ0123456789_-.''"

definition find_first_not_of :: "string \<Rightarrow> string \<Rightarrow> nat \<Rightarrow> nat option" where
  "find_first_not_of acc s pos = find (\<lambda>i. s ! i \<notin> set acc) [pos..<length s]"

definition bad_chars :: "string \<Rightarrow> nat" where
  "bad_chars s = length (filter (\<lambda>c. c \<notin> set accept_chars) s)"

lemma find_first_not_ofD:
  "find_first_not_of acc s pos = Some i \<Longrightarrow>
     pos \<le> i \<and> i < length s \<and> s ! i \<notin> set acc \<and> (\<forall>j. pos \<le> j \<longrightarrow> j < i \<longrightarrow> s ! j \<in> set acc)"
  by (auto simp: find_first_not_of_def find_Some_iff)
    (metis add_diff_inverse_nat less_diff_conv2 linorder_not_less add.commute)

lemma underscore_accepted: "CHR ''_'' \<in> set accept_chars"
  by (simp add: accept_chars_def)

lemma bad_chars_upd:
  assumes "i < length s" and "s ! i \<notin> set accept_chars"
  shows "bad_chars (s[i := CHR ''_'']) < bad_chars s"
proof -
  have "s = take i s @ s ! i # drop (Suc i) s" using assms(1) by (simp add: id_take_nth_drop)
  then have "bad_chars s = bad_chars (take i s) + Suc (bad_chars (drop (Suc i) s))"
    using assms(2) by (metis (no_types, lifting) bad_chars_def filter_append length_append filter.simps(2) length_Cons)
  moreover have "s[i := CHR ''_''] = take i s @ CHR ''_'' # drop (Suc i) s"
    using assms(1) by (simp add: upd_conv_take_nth_drop)
  then have "bad_chars (s[i := CHR ''_'']) = bad_chars (take i s) + bad_chars (drop (Suc i) s)"
    by (simp add: bad_chars_def underscore_accepted)
  ultimately show ?thesis by simp
qed

function sanitize_loop :: "string \<Rightarrow> nat \<Rightarrow> string" where
  "sanitize_loop s pos =
     (case find_first_not_of accept_chars s pos of
        None \<Rightarrow> s
      | Some i \<Rightarrow> sanitize_loop (s[i := CHR ''_'']) i)"
  by pat_completeness auto
termination
  by (relation "measure (\<lambda>(s, pos). bad_chars s)") (auto dest!: find_first_not_ofD intro: bad_chars_upd)

declare sanitize_loop.simps [simp del]

definition SanitizePartitionName :: "string \<Rightarrow> string" where
  "SanitizePartitionName s = sanitize_loop s 0"

definition zoned_links :: "libbase \<Rightarrow> 's dkern \<Rightarrow> Uevent \<Rightarrow> 's \<Rightarrow> string list" where
  "zoned_links lb k ue s =
     (case k_ReadFile k (''/sys/class/block/'' @ ue_device_name ue @ ''/queue/zoned'') s of
        Some model \<Rightarrow>
          if StartsWith lb model ''none'' then []
          else [''/dev/block/by-name/zoned_device'', ''/dev/sys/block/by-name/zoned_device'']
      | None \<Rightarrow> [])"

definition GetBlockDeviceSymlinks ::
    "libbase \<Rightarrow> 's dkern \<Rightarrow> DeviceHandler \<Rightarrow> Uevent \<Rightarrow> 's \<Rightarrow> string list" where
  "GetBlockDeviceSymlinks lb k d ue s =
     (case FindDmDevice lb k ue s of
        Some (name, uuid) \<Rightarrow>
          (''/dev/block/mapper/'' @ name) #
          (if uuid \<noteq> [] then [''/dev/block/mapper/by-uuid/'' @ uuid] else [])
      | None \<Rightarrow>
          let info = GetBlockDeviceInfo lb k d (ue_path ue) s
          in if bi_type info = [] then []
             else
               let link_path = ''/dev/block/'' @ bi_type info @ ''/'' @ bi_str info;
                   names =
                     (if ue_partition_name ue \<noteq> [] then
                        let nm = SanitizePartitionName (ue_partition_name ue)
                        in (link_path @ ''/by-name/'' @ nm) #
                           (if is_boot_device info then [''/dev/block/by-name/'' @ nm] else [])
                      else if is_boot_device info then
                        let nm = GetPartitionNameForDevice lb k (ue_device_name ue)
                        in (''/dev/block/by-name/'' @ ue_device_name ue) #
                           (if nm \<noteq> [] then [''/dev/block/by-name/'' @ nm] else [])
                      else []);
                   start = (case rfind_char (CHR ''/'') (ue_path ue) of None \<Rightarrow> 0 | Some i \<Rightarrow> i + 1)
               in names @ zoned_links lb k ue s @ [link_path @ ''/'' @ drop start (ue_path ue)])"

section \<open>Creating and removing nodes\<close>

text \<open>The branch for a node that exists already; the result is \<open>new_group\<close>, where \<open>-1\<close> means unchanged.\<close>

definition update_node ::
    "'s dkern \<Rightarrow> string \<Rightarrow> u32 \<Rightarrow> u32 \<Rightarrow> string \<Rightarrow> 's \<Rightarrow> u32 \<times> 's" where
  "update_node k path mode gid secontext s =
     (case k_lgetfilecon k path s of
        None \<Rightarrow> (- 1, s)
      | Some fcon \<Rightarrow>
          let s1 = (if fcon \<noteq> secontext then snd (k_lsetfilecon k path secontext s) else s)
          in case k_stat k path s1 of
               Some (st_gid, st_mode) \<Rightarrow>
                 ((if gid \<noteq> st_gid then gid else - 1),
                  (if mode \<noteq> st_mode then snd (k_chmod k path mode s1) else s1))
             | None \<Rightarrow> (- 1, s1))"

text \<open>The code before the label \<open>out\<close>.\<close>

definition create_node ::
    "'s dkern \<Rightarrow> string \<Rightarrow> u32 \<Rightarrow> u32 \<Rightarrow> u64 \<Rightarrow> string \<Rightarrow> 's \<Rightarrow> u32 \<times> 's" where
  "create_node k path mode gid dev secontext s =
     (let (rc, s1) = k_setegid k gid s
      in if rc \<noteq> 0 then (- 1, s1)
         else let (err, s2) = k_mknod k path mode dev s1
              in if err = EEXIST \<and> secontext \<noteq> [] then update_node k path mode gid secontext s2
                 else (- 1, s2))"

definition MakeDevice ::
    "libbase \<Rightarrow> 's dkern \<Rightarrow> DeviceHandler \<Rightarrow> string \<Rightarrow> bool \<Rightarrow> int \<Rightarrow> int \<Rightarrow> string list \<Rightarrow> 's \<Rightarrow> 's outcome" where
  "MakeDevice lb k d path block ma mi links s =
     (let (perm, uid, gid) = GetDevicePermissions lb k d path links;
          mode = perm OR (if block then S_IFBLK else S_IFCHR)
      in case k_SelabelBestMatch k path links mode of
           None \<Rightarrow> Returns s
         | Some secontext \<Rightarrow>
             let s1 = (if secontext \<noteq> [] then k_setfscreatecon k (Some secontext) s else s);
                 (new_group, s2) = create_node k path mode gid (makedev ma mi) secontext s1;
                 s3 = snd (k_chown k path uid new_group s2);
                 (rc, s4) = k_setegid k AID_ROOT s3
             in if rc \<noteq> 0 then Aborts
                else Returns (if secontext \<noteq> [] then k_setfscreatecon k None s4 else s4))"

definition remove_dm_link :: "'s dkern \<Rightarrow> string \<Rightarrow> string \<Rightarrow> bool \<times> string \<Rightarrow> 's \<Rightarrow> 's" where
  "remove_dm_link k devpath dir entry s =
     (let path = dir @ ''/'' @ snd entry
      in if fst entry \<and> k_Readlink k path s = Some devpath then snd (k_unlink k path s) else s)"

definition remove_dm_links_in :: "'s dkern \<Rightarrow> string \<Rightarrow> string \<Rightarrow> 's \<Rightarrow> 's" where
  "remove_dm_links_in k devpath dir s =
     (if \<not> k_access k dir s then s
      else case k_readdir k dir s of
        None \<Rightarrow> s
      | Some entries \<Rightarrow> fold (remove_dm_link k devpath dir) entries s)"

definition RemoveDeviceMapperLinks :: "'s dkern \<Rightarrow> string \<Rightarrow> 's \<Rightarrow> 's" where
  "RemoveDeviceMapperLinks k devpath s =
     fold (remove_dm_links_in k devpath) [''/dev/block/mapper'', ''/dev/block/mapper/by-uuid''] s"

definition link_target :: "libbase \<Rightarrow> string \<Rightarrow> string \<Rightarrow> string option" where
  "link_target lb devpath link =
     (if StartsWith lb link ''/dev/block/'' then Some devpath
      else if StartsWith lb link ''/dev/sys/block/'' then Some (''/sys/class/block/'' @ Basename lb devpath)
      else None)"

definition make_link :: "libbase \<Rightarrow> 's dkern \<Rightarrow> string \<Rightarrow> string \<Rightarrow> 's \<Rightarrow> 's" where
  "make_link lb k devpath link s =
     (case link_target lb devpath link of
        None \<Rightarrow> s
      | Some target \<Rightarrow>
          let s1 = snd (k_mkdir_recursive k (Dirname lb link) mode_0755 s);
              secontext = (case k_SelabelLookup k link 0 of Some c \<Rightarrow> c | None \<Rightarrow> []);
              s2 = (if secontext \<noteq> [] then k_setfscreatecon k (Some secontext) s1 else s1);
              s3 = snd (k_symlink k target link s2)
          in if secontext \<noteq> [] then k_setfscreatecon k None s3 else s3)"

definition remove_link :: "'s dkern \<Rightarrow> string \<Rightarrow> string \<Rightarrow> 's \<Rightarrow> 's" where
  "remove_link k devpath link s =
     (if k_Readlink k link s = Some devpath then snd (k_unlink k link s) else s)"

text \<open>The three parts of \<open>HandleDevice\<close>: the node, the links, and the removal.\<close>

definition add_links :: "libbase \<Rightarrow> 's dkern \<Rightarrow> string \<Rightarrow> string \<Rightarrow> string list \<Rightarrow> 's \<Rightarrow> 's" where
  "add_links lb k action devpath links s =
     (if action = ''add'' \<or> (action = ''change'' \<and> StartsWith lb devpath ''/dev/block/dm-'')
      then fold (make_link lb k devpath) links s else s)"

definition remove_device :: "libbase \<Rightarrow> 's dkern \<Rightarrow> string \<Rightarrow> string \<Rightarrow> string list \<Rightarrow> 's \<Rightarrow> 's" where
  "remove_device lb k action devpath links s =
     (if action = ''remove'' then
        let s1 = (if StartsWith lb devpath ''/dev/block/dm-'' then RemoveDeviceMapperLinks k devpath s else s);
            s2 = fold (remove_link k devpath) links s1
        in snd (k_unlink k devpath s2)
      else s)"

definition HandleDevice ::
    "libbase \<Rightarrow> 's dkern \<Rightarrow> DeviceHandler \<Rightarrow> string \<Rightarrow> string \<Rightarrow> bool \<Rightarrow> int \<Rightarrow> int \<Rightarrow> string list \<Rightarrow> 's \<Rightarrow> 's outcome" where
  "HandleDevice lb k d action devpath block ma mi links s =
     out_bind (if action = ''add'' then MakeDevice lb k d devpath block ma mi links s else Returns s)
       (\<lambda>s1. Returns (remove_device lb k action devpath links (add_links lb k action devpath links s1)))"

section \<open>Events\<close>

definition TrackDeviceUevent :: "'s dkern \<Rightarrow> Uevent \<Rightarrow> 's \<Rightarrow> DeviceHandler \<Rightarrow> DeviceHandler" where
  "TrackDeviceUevent k ue s d =
     (if drivers d = [] then d
      else if ue_action ue \<noteq> ''add'' \<or> ue_subsystem ue = ''block'' \<or> ue_major ue < 0 \<or> ue_minor ue < 0 then d
      else case k_Realpath k (sysfs_mount_point d @ ue_path ue @ ''/device'') s of
             None \<Rightarrow> d
           | Some device \<Rightarrow> d\<lparr>tracked_uevents := tracked_uevents d @ [(ue, device)]\<rparr>)"

definition CheckUeventForBootPartUuid ::
    "libbase \<Rightarrow> 's dkern \<Rightarrow> Uevent \<Rightarrow> 's \<Rightarrow> DeviceHandler \<Rightarrow> bool \<times> DeviceHandler" where
  "CheckUeventForBootPartUuid lb k ue s d =
     (if boot_part_uuid d = [] then (True, d)
      else if found_boot_part_uuid d then (True, d)
      else if ue_subsystem ue \<noteq> ''block'' \<or> ue_action ue \<noteq> ''add'' then (False, d)
      else if ue_partition_uuid ue \<noteq> boot_part_uuid d then (False, d)
      else (True, d\<lparr>found_boot_part_uuid := True,
                    boot_devices := {bi_str (GetBlockDeviceInfo lb k d (ue_path ue) s)}\<rparr>))"

definition rebind_device ::
    "libbase \<Rightarrow> 's dkern \<Rightarrow> DeviceHandler \<Rightarrow> Subsystem \<Rightarrow> string \<Rightarrow> string \<Rightarrow> Uevent \<times> string \<Rightarrow> 's \<Rightarrow> 's outcome" where
  "rebind_device lb k d driver action bind_path tracked s =
     (let tr = fst tracked; devpath = ParseDevPath driver tr
      in if snd tracked \<noteq> bind_path then Returns s
         else HandleDevice lb k d action devpath False (ue_major tr) (ue_minor tr) []
                (snd (k_mkdir_recursive k (Dirname lb devpath) mode_0755 s)))"

definition HandleBindInternal ::
    "libbase \<Rightarrow> 's dkern \<Rightarrow> DeviceHandler \<Rightarrow> string \<Rightarrow> string \<Rightarrow> Uevent \<Rightarrow> 's \<Rightarrow> 's outcome" where
  "HandleBindInternal lb k d driver_name action ue s =
     (if ue_subsystem ue = ''block'' then Aborts
      else case find (\<lambda>x. ss_name x = driver_name) (drivers d) of
        None \<Rightarrow> Returns s
      | Some driver \<Rightarrow>
          out_fold (rebind_device lb k d driver action (sysfs_mount_point d @ ue_path ue)) (tracked_uevents d) s)"

definition pad3 :: "nat \<Rightarrow> string" where
  "pad3 n = replicate (3 - length (dec n)) (CHR ''0'') @ dec n"

text \<open>Where the node of an event goes; \<open>None\<close> for USB events that are ignored.\<close>

definition device_path :: "libbase \<Rightarrow> DeviceHandler \<Rightarrow> Uevent \<Rightarrow> string option" where
  "device_path lb d ue =
     (if ue_subsystem ue = ''block'' then Some (''/dev/block/'' @ Basename lb (ue_path ue))
      else case find (\<lambda>x. ss_name x = ue_subsystem ue) (subsystems d) of
        Some subsystem \<Rightarrow> Some (ParseDevPath subsystem ue)
      | None \<Rightarrow>
          if ue_subsystem ue = ''usb'' then
            (if ue_device_name ue \<noteq> [] then Some (''/dev/'' @ ue_device_name ue)
             else Some (''/dev/bus/usb/'' @ pad3 (nat (ue_minor ue div 128 + 1)) @ ''/'' @
                        pad3 (nat (ue_minor ue mod 128 + 1))))
          else if StartsWith lb (ue_subsystem ue) ''usb'' then None
          else if ue_subsystem ue = ''misc'' \<and> StartsWith lb (ue_device_name ue) ''dm-user/'' then
            Some (''/dev/dm-user/'' @ drop 8 (ue_device_name ue))
          else if ue_subsystem ue = ''misc'' \<and> ue_device_name ue = ''vfio/vfio'' then
            Some (''/dev/'' @ ue_device_name ue)
          else Some (''/dev/'' @ Basename lb (ue_path ue)))"

text \<open>
  \<open>HandleUevent\<close> up to its last call, \<open>HandleAshmemUevent\<close>; the flag says whether the code gets there.
\<close>

definition event_fixup :: "libbase \<Rightarrow> 's dkern \<Rightarrow> DeviceHandler \<Rightarrow> Uevent \<Rightarrow> 's \<Rightarrow> 's" where
  "event_fixup lb k d ue s =
     (if ue_action ue \<in> {''add'', ''change'', ''bind'', ''online''}
      then FixupSysPermissions lb k d (ue_path ue) (ue_subsystem ue) s else s)"

definition handle_bind ::
    "libbase \<Rightarrow> 's dkern \<Rightarrow> Uevent \<Rightarrow> DeviceHandler \<Rightarrow> 's \<Rightarrow> (bool \<times> DeviceHandler \<times> 's) outcome" where
  "handle_bind lb k ue d s =
     (let d1 = d\<lparr>bound_drivers := (bound_drivers d)(ue_path ue \<mapsto> ue_driver ue)\<rparr>
      in out_bind (HandleBindInternal lb k d1 (ue_driver ue) ''add'' ue s) (\<lambda>s1. Returns (False, d1, s1)))"

definition handle_unbind ::
    "libbase \<Rightarrow> 's dkern \<Rightarrow> Uevent \<Rightarrow> DeviceHandler \<Rightarrow> 's \<Rightarrow> (bool \<times> DeviceHandler \<times> 's) outcome" where
  "handle_unbind lb k ue d s =
     (case bound_drivers d (ue_path ue) of
        None \<Rightarrow> Returns (False, d, s)
      | Some driver \<Rightarrow>
          out_bind (HandleBindInternal lb k d driver ''remove'' ue s)
            (\<lambda>s1. Returns (False,
               d\<lparr>tracked_uevents :=
                   filter (\<lambda>tr. sysfs_mount_point d @ ue_path ue \<noteq> snd tr) (tracked_uevents d)\<rparr>, s1)))"

definition event_links :: "libbase \<Rightarrow> 's dkern \<Rightarrow> DeviceHandler \<Rightarrow> Uevent \<Rightarrow> 's \<Rightarrow> string list" where
  "event_links lb k d ue s =
     (if ue_subsystem ue = ''block'' \<and> StartsWith lb (ue_path ue) ''/devices''
      then GetBlockDeviceSymlinks lb k d ue s else [])"

definition handle_node ::
    "libbase \<Rightarrow> 's dkern \<Rightarrow> Uevent \<Rightarrow> DeviceHandler \<Rightarrow> 's \<Rightarrow> (bool \<times> DeviceHandler \<times> 's) outcome" where
  "handle_node lb k ue d s =
     (if ue_major ue < 0 \<or> ue_minor ue < 0 then Returns (False, d, s)
      else
        let d1 = TrackDeviceUevent k ue s d
        in case device_path lb d1 ue of
             None \<Rightarrow> Returns (False, d1, s)
           | Some devpath \<Rightarrow>
               out_bind
                 (HandleDevice lb k d1 (ue_action ue) devpath (ue_subsystem ue = ''block'') (ue_major ue) (ue_minor ue)
                    (event_links lb k d1 ue s) (snd (k_mkdir_recursive k (Dirname lb devpath) mode_0755 s)))
                 (\<lambda>s1. Returns (True, d1, s1)))"

definition handle_event ::
    "libbase \<Rightarrow> 's dkern \<Rightarrow> Uevent \<Rightarrow> DeviceHandler \<times> 's \<Rightarrow> (bool \<times> DeviceHandler \<times> 's) outcome" where
  "handle_event lb k ue ds =
     (let s = event_fixup lb k (fst ds) ue (snd ds)
      in if ue_action ue = ''bind'' then handle_bind lb k ue (fst ds) s
         else if ue_action ue = ''unbind'' then handle_unbind lb k ue (fst ds) s
         else handle_node lb k ue (fst ds) s)"

text \<open>The event that \<open>HandleAshmemUevent\<close> passes on to \<open>HandleUevent\<close>, if it does.\<close>

definition ashmem_event :: "libbase \<Rightarrow> 's dkern \<Rightarrow> Uevent \<Rightarrow> 's \<Rightarrow> Uevent option" where
  "ashmem_event lb k ue s =
     (if ue_device_name ue = ''ashmem'' then
        (case k_ReadFile k ''/proc/sys/kernel/random/boot_id'' s of
           None \<Rightarrow> None
         | Some boot_id \<Rightarrow>
             Some (ue\<lparr>ue_device_name := ue_device_name ue @ Trim lb boot_id,
                      ue_path := ue_path ue @ Trim lb boot_id\<rparr>))
      else None)"

text \<open>\<open>None\<close> is the value of a call that does not return.\<close>

partial_function (option) HandleUevent ::
    "libbase \<Rightarrow> 's dkern \<Rightarrow> Uevent \<Rightarrow> DeviceHandler \<times> 's \<Rightarrow> (DeviceHandler \<times> 's) outcome option" where
  "HandleUevent lb k ue ds =
     (case handle_event lb k ue ds of
        Aborts \<Rightarrow> Some Aborts
      | Returns (reached, ds1) \<Rightarrow>
          (case (if reached then ashmem_event lb k ue (snd ds1) else None) of
             None \<Rightarrow> Some (Returns ds1)
           | Some dup \<Rightarrow> HandleUevent lb k dup ds1))"

definition ColdbootDone :: "DeviceHandler \<Rightarrow> DeviceHandler" where
  "ColdbootDone d = d\<lparr>skip_restorecon := False\<rparr>"

definition make_DeviceHandler ::
    "Permissions list \<Rightarrow> SysfsPermissions list \<Rightarrow> Subsystem list \<Rightarrow> Subsystem list \<Rightarrow> string set \<Rightarrow> string \<Rightarrow> bool \<Rightarrow>
     DeviceHandler" where
  "make_DeviceHandler dperms sperms drvs subs bdevs uuid skip =
     \<lparr>dev_permissions = dperms, sysfs_permissions = sperms, drivers = drvs, subsystems = subs,
      boot_devices = (if bdevs \<noteq> {} \<and> uuid \<noteq> [] then {} else bdevs), boot_part_uuid = uuid,
      found_boot_part_uuid = False, skip_restorecon = skip, sysfs_mount_point = ''/sys'',
      bound_drivers = Map.empty, tracked_uevents = []\<rparr>"

definition default_DeviceHandler :: DeviceHandler where
  "default_DeviceHandler = make_DeviceHandler [] [] [] [] {} [] False"

end
