(* ===== verification/Devices_Correct.thy ===== *)
theory Devices_Correct
  imports Devices
begin

text \<open>
  Correctness of the device handler.  The locale \<open>device_kernel\<close> states what the calls of the handler do
  to a view of the system: the entries of the device file system, the credentials for new files, and the
  files of sysfs and procfs.  It is interpreted on a small file system on which the instances evaluate.  The
  theorems follow the handler through whole events: what is left of the credentials, adding and removing a
  block device, binding and unbinding a driver, the search for a parent device, the choice of
  permissions, and whether handling ends.
\<close>

section \<open>The device file system\<close>

datatype dev_entry = Dir | SymLink string | DevNode u64

record dview =
  ents :: "string \<rightharpoonup> dev_entry"
  egid :: u32
  createcon :: "string option"
  sys_real :: "string \<rightharpoonup> string"
  sys_file :: "string \<rightharpoonup> string"

text \<open>The view outside the device files, and the state in which the handler leaves its credentials.\<close>

definition sysview :: "dview \<Rightarrow> (string \<rightharpoonup> string) \<times> (string \<rightharpoonup> string)" where
  "sysview v = (sys_real v, sys_file v)"

definition calm :: "dview \<Rightarrow> bool" where
  "calm v \<longleftrightarrow> egid v = AID_ROOT \<and> createcon v = None"

lemma sysview_simps [simp]:
  "sysview (v\<lparr>ents := e\<rparr>) = sysview v" "sysview (v\<lparr>egid := g\<rparr>) = sysview v"
  "sysview (v\<lparr>createcon := c\<rparr>) = sysview v"
  by (simp_all add: sysview_def)

lemma calm_simps [simp]: "calm (v\<lparr>ents := e\<rparr>) = calm v"
  by (simp add: calm_def)

text \<open>A node may be created: it has a label and the group can be set.\<close>

definition node_allowed :: "libbase \<Rightarrow> 's dkern \<Rightarrow> DeviceHandler \<Rightarrow> string \<Rightarrow> bool \<Rightarrow> string list \<Rightarrow> bool" where
  "node_allowed lb k d path block links \<longleftrightarrow>
     (let (perm, uid, gid) = GetDevicePermissions lb k d path links
      in k_SelabelBestMatch k path links (perm OR (if block then S_IFBLK else S_IFCHR)) \<noteq> None \<and>
         (\<forall>s. fst (k_setegid k gid s) = 0))"

text \<open>The events for which the code calls \<open>LOG(FATAL)\<close>.\<close>

definition fatal_event :: "DeviceHandler \<Rightarrow> Uevent \<Rightarrow> bool" where
  "fatal_event d ue \<longleftrightarrow> ue_subsystem ue = ''block'' \<and>
     (ue_action ue = ''bind'' \<or> (ue_action ue = ''unbind'' \<and> bound_drivers d (ue_path ue) \<noteq> None))"

locale device_kernel = libbase_laws lb for lb :: libbase +
  fixes k :: "'s dkern"
    and view :: "'s \<Rightarrow> dview"
  assumes Realpath_eq: "\<not> prefix ''/dev'' p \<Longrightarrow> k_Realpath k p s = sys_real (view s) p"
    and ReadFile_eq: "\<not> prefix ''/dev'' p \<Longrightarrow> k_ReadFile k p s = sys_file (view s) p"
    and Readlink_eq: "k_Readlink k p s = Some t \<longleftrightarrow> ents (view s) p = Some (SymLink t)"
    and chown_view: "view (snd (k_chown k p u g s)) = view s"
    and chmod_view: "view (snd (k_chmod k p m s)) = view s"
    and lsetfilecon_view: "view (snd (k_lsetfilecon k p c s)) = view s"
    and restorecon_view: "view (snd (k_restorecon k p s)) = view s"
    and setegid_view: "view (snd (k_setegid k g s)) =
          (if fst (k_setegid k g s) = 0 then (view s)\<lparr>egid := g\<rparr> else view s)"
    and setegid_root: "fst (k_setegid k AID_ROOT s) = 0"
    and setfscreatecon_view: "view (k_setfscreatecon k con s) = (view s)\<lparr>createcon := con\<rparr>"
    and mknod_view: "view (snd (k_mknod k p m dev s)) =
          (if fst (k_mknod k p m dev s) = 0 then (view s)\<lparr>ents := (ents (view s))(p \<mapsto> DevNode dev)\<rparr> else view s)"
    and mknod_result: "ents (view s) (Dirname lb p) = Some Dir \<Longrightarrow>
          fst (k_mknod k p m dev s) = (if ents (view s) p = None then 0 else EEXIST)"
    and symlink_view: "view (snd (k_symlink k t p s)) =
          (if fst (k_symlink k t p s) = 0 then (view s)\<lparr>ents := (ents (view s))(p \<mapsto> SymLink t)\<rparr> else view s)"
    and symlink_result: "ents (view s) (Dirname lb p) = Some Dir \<Longrightarrow>
          fst (k_symlink k t p s) = (if ents (view s) p = None then 0 else EEXIST)"
    and unlink_view: "view (snd (k_unlink k p s)) =
          (if ents (view s) p = Some Dir then view s else (view s)\<lparr>ents := (ents (view s))(p := None)\<rparr>)"
    and mkdir_view: "view (snd (k_mkdir_recursive k p m s)) =
          (view s)\<lparr>ents := ents (view (snd (k_mkdir_recursive k p m s)))\<rparr>"
    and mkdir_exists: "ents (view s) p = Some Dir \<Longrightarrow> view (snd (k_mkdir_recursive k p m s)) = view s"
begin

lemmas plain_views = chown_view chmod_view lsetfilecon_view restorecon_view setfscreatecon_view

text \<open>Only the entry table of the view, or nothing at all, changes.\<close>

lemma SetPermissions_view: "view (SetPermissions k p path s) = view s"
  by (simp add: SetPermissions_def Let_def plain_views)

lemma FixupSysPermissions_view: "view (FixupSysPermissions lb k d upath subsystem s) = view s"
proof -
  have "view (fold (\<lambda>p t. if MatchWithSubsystem lb k p path subsystem then SetPermissions k p path t else t) ps s) = view s"
    for path ps
    by (induction ps arbitrary: s) (simp_all add: SetPermissions_view)
  then show ?thesis by (simp add: FixupSysPermissions_def Let_def plain_views)
qed

lemma update_node_view: "view (snd (update_node k path mode gid secontext s)) = view s"
  by (auto simp: update_node_def Let_def plain_views split: option.splits)

lemma create_node_ents:
  "ents (view (snd (create_node k path mode gid dev secontext s))) \<in>
     {ents (view s), (ents (view s))(path \<mapsto> DevNode dev)}"
  using update_node_view
  by (auto simp: create_node_def Let_def split_beta setegid_view mknod_view)

lemma create_node_made:
  assumes "ents (view s) path = None" and "ents (view s) (Dirname lb path) = Some Dir" and "fst (k_setegid k gid s) = 0"
  shows "ents (view (snd (create_node k path mode gid dev secontext s))) = (ents (view s))(path \<mapsto> DevNode dev)"
proof -
  have "fst (k_mknod k path mode dev (snd (k_setegid k gid s))) = 0"
    using assms by (subst mknod_result) (simp_all add: setegid_view)
  then show ?thesis using assms by (simp add: create_node_def split_beta Let_def mknod_view setegid_view)
qed

lemma create_node_frame:
  "sysview (view (snd (create_node k path mode gid dev secontext s))) = sysview (view s)"
  "createcon (view (snd (create_node k path mode gid dev secontext s))) = createcon (view s)"
  using update_node_view
  by (auto simp: create_node_def Let_def split_beta setegid_view mknod_view)

text \<open>
  Creating a node: nothing but the node itself appears, and on every path, error paths included, the
  group and the label for new files are what they were before.
\<close>

lemma MakeDevice_view:
  assumes "calm (view s)"
  obtains s' where "MakeDevice lb k d path block ma mi links s = Returns s'"
    and "calm (view s')" and "sysview (view s') = sysview (view s)"
    and "ents (view s') \<in> {ents (view s), (ents (view s))(path \<mapsto> DevNode (makedev ma mi))}"
    and "node_allowed lb k d path block links \<Longrightarrow> ents (view s) path = None \<Longrightarrow>
           ents (view s) (Dirname lb path) = Some Dir \<Longrightarrow> ents (view s') path = Some (DevNode (makedev ma mi))"
proof -
  obtain perm uid gid where perms: "GetDevicePermissions lb k d path links = (perm, uid, gid)"
    by (metis prod_cases3)
  let ?mode = "perm OR (if block then S_IFBLK else S_IFCHR)"
  show ?thesis
  proof (cases "k_SelabelBestMatch k path links ?mode")
    case None
    then have "MakeDevice lb k d path block ma mi links s = Returns s"
      by (simp add: MakeDevice_def perms)
    then show ?thesis using None by (intro that [of s]) (simp_all add: assms node_allowed_def perms)
  next
    case (Some secontext)
    define s1 where "s1 = (if secontext \<noteq> [] then k_setfscreatecon k (Some secontext) s else s)"
    obtain ng s2 where s2: "create_node k path ?mode gid (makedev ma mi) secontext s1 = (ng, s2)"
      by force
    define s4 where "s4 = snd (k_setegid k AID_ROOT (snd (k_chown k path uid ng s2)))"
    define s' where "s' = (if secontext \<noteq> [] then k_setfscreatecon k None s4 else s4)"
    have "MakeDevice lb k d path block ma mi links s = Returns s'"
      using setegid_root by (simp add: MakeDevice_def perms Some s1_def [symmetric] s2 s4_def s'_def split_beta)
    moreover have v': "view s' = (view s2)\<lparr>egid := AID_ROOT, createcon := (if secontext \<noteq> [] then None else createcon (view s2))\<rparr>"
      by (simp add: s'_def s4_def setegid_view setegid_root plain_views)
    have v1: "view s1 = (view s)\<lparr>createcon := (if secontext \<noteq> [] then Some secontext else createcon (view s))\<rparr>"
      by (simp add: s1_def plain_views)
    have "sysview (view s2) = sysview (view s)" "createcon (view s2) = createcon (view s1)"
      using create_node_frame [of path ?mode gid "makedev ma mi" secontext s1] by (simp_all add: s2 v1)
    then have "calm (view s')" "sysview (view s') = sysview (view s)"
      using assms by (auto simp: v' v1 calm_def)
    moreover have "ents (view s') \<in> {ents (view s), (ents (view s))(path \<mapsto> DevNode (makedev ma mi))}"
      using create_node_ents [of path ?mode gid "makedev ma mi" secontext s1] by (simp add: s2 v1 v')
    moreover have "ents (view s') path = Some (DevNode (makedev ma mi))"
      if "node_allowed lb k d path block links" "ents (view s) path = None" "ents (view s) (Dirname lb path) = Some Dir"
      using create_node_made [of s1 path gid ?mode "makedev ma mi" secontext] that
      by (simp add: s2 v1 v' node_allowed_def perms)
    ultimately show ?thesis using that [of s'] by simp
  qed
qed

text \<open>Links: each absent one appears with its target, the others stay.\<close>

lemma mkdir_frame:
  "sysview (view (snd (k_mkdir_recursive k p m s))) = sysview (view s)"
  "calm (view (snd (k_mkdir_recursive k p m s))) = calm (view s)"
  using arg_cong [OF mkdir_view, of sysview] arg_cong [OF mkdir_view, of calm] by simp_all

lemma make_link_frame:
  "sysview (view (make_link lb k devpath link s)) = sysview (view s)"
  "calm (view s) \<Longrightarrow> calm (view (make_link lb k devpath link s))"
proof -
  show "sysview (view (make_link lb k devpath link s)) = sysview (view s)"
    by (auto simp: make_link_def Let_def plain_views symlink_view mkdir_frame split: option.splits)
  show "calm (view (make_link lb k devpath link s))" if "calm (view s)"
    using mkdir_frame(2) [of "Dirname lb link" mode_0755] that
    by (auto simp: make_link_def Let_def plain_views symlink_view calm_def split: option.splits)
qed

lemma make_link_ents:
  assumes "ents (view s) (Dirname lb link) = Some Dir"
  shows "ents (view (make_link lb k devpath link s)) =
    (case link_target lb devpath link of
       Some t \<Rightarrow> if ents (view s) link = None then (ents (view s))(link \<mapsto> SymLink t) else ents (view s)
     | None \<Rightarrow> ents (view s))"
  using assms by (auto simp: make_link_def Let_def plain_views symlink_view symlink_result mkdir_exists split: option.splits)

lemma make_links_frame:
  "sysview (view (fold (make_link lb k devpath) links s)) = sysview (view s)"
  "calm (view s) \<Longrightarrow> calm (view (fold (make_link lb k devpath) links s))"
  by (induction links arbitrary: s) (simp_all add: make_link_frame)

lemma make_links_ents:
  assumes "\<And>l. l \<in> set links \<Longrightarrow> ents (view s) (Dirname lb l) = Some Dir"
  shows "ents (view (fold (make_link lb k devpath) links s)) p =
    (if p \<in> set links \<and> ents (view s) p = None then map_option SymLink (link_target lb devpath p) else ents (view s) p)"
  using assms
proof (induction links arbitrary: s)
  case (Cons l links)
  have "ents (view (make_link lb k devpath l s)) (Dirname lb l') = Some Dir" if "l' \<in> set links" for l'
    using Cons.prems [of l] Cons.prems [of l'] that by (auto simp: make_link_ents split: option.splits)
  note Cons.IH [OF this]
  then show ?case using Cons.prems [of l] by (auto simp: make_link_ents split: option.splits)
qed simp

lemma remove_link_view: "view (remove_link k devpath link s) =
    (view s)\<lparr>ents := (\<lambda>p. if p = link \<and> ents (view s) p = Some (SymLink devpath) then None else ents (view s) p)\<rparr>"
  by (auto simp: remove_link_def Readlink_eq unlink_view fun_eq_iff intro!: dview.equality)

lemma remove_links_view: "view (fold (remove_link k devpath) links s) =
    (view s)\<lparr>ents := (\<lambda>p. if p \<in> set links \<and> ents (view s) p = Some (SymLink devpath) then None else ents (view s) p)\<rparr>"
  by (induction links arbitrary: s) (auto simp: remove_link_view fun_eq_iff intro!: dview.equality)

lemma unlink_quiet:
  "sysview (view (snd (k_unlink k p s))) = sysview (view s)" "calm (view (snd (k_unlink k p s))) = calm (view s)"
  by (simp_all add: unlink_view)

lemma fold_frame:
  assumes "\<And>x t. sysview (view (f x t)) = sysview (view t)" and "\<And>x t. calm (view t) \<Longrightarrow> calm (view (f x t))"
  shows "sysview (view (fold f xs s)) = sysview (view s)" and "calm (view s) \<Longrightarrow> calm (view (fold f xs s))"
  by (induction xs arbitrary: s) (simp_all add: assms)

lemma remove_dm_link_frame:
  "sysview (view (remove_dm_link k devpath dir e s)) = sysview (view s)"
  "calm (view s) \<Longrightarrow> calm (view (remove_dm_link k devpath dir e s))"
  by (simp_all add: remove_dm_link_def Let_def unlink_quiet)

lemma remove_dm_links_frame:
  "sysview (view (remove_dm_links_in k devpath dir s)) = sysview (view s)"
  "calm (view s) \<Longrightarrow> calm (view (remove_dm_links_in k devpath dir s))"
  by (auto simp: remove_dm_links_in_def fold_frame remove_dm_link_frame split: option.splits)

lemma RemoveDeviceMapperLinks_frame:
  "sysview (view (RemoveDeviceMapperLinks k devpath s)) = sysview (view s)"
  "calm (view s) \<Longrightarrow> calm (view (RemoveDeviceMapperLinks k devpath s))"
  by (simp_all add: RemoveDeviceMapperLinks_def remove_dm_links_frame)

lemma add_links_frame:
  "sysview (view (add_links lb k action devpath links s)) = sysview (view s)"
  "calm (view s) \<Longrightarrow> calm (view (add_links lb k action devpath links s))"
  by (simp_all add: add_links_def make_links_frame)

lemma remove_device_frame:
  "sysview (view (remove_device lb k action devpath links s)) = sysview (view s)"
  "calm (view s) \<Longrightarrow> calm (view (remove_device lb k action devpath links s))"
  by (simp_all add: remove_device_def Let_def unlink_quiet remove_links_view RemoveDeviceMapperLinks_frame)

text \<open>Handling a device returns, with the credentials in order.\<close>

lemma HandleDevice_calm:
  assumes "calm (view s)"
  obtains s1 where "HandleDevice lb k d action devpath block ma mi links s =
      Returns (remove_device lb k action devpath links (add_links lb k action devpath links s1))"
    and "calm (view s1)" and "sysview (view s1) = sysview (view s)"
    and "ents (view s1) \<in> {ents (view s), (ents (view s))(devpath \<mapsto> DevNode (makedev ma mi))}"
    and "action \<noteq> ''add'' \<Longrightarrow> s1 = s"
    and "action = ''add'' \<Longrightarrow> node_allowed lb k d devpath block links \<Longrightarrow> ents (view s) devpath = None \<Longrightarrow>
           ents (view s) (Dirname lb devpath) = Some Dir \<Longrightarrow> ents (view s1) devpath = Some (DevNode (makedev ma mi))"
proof (cases "action = ''add''")
  case True
  obtain s1 where "MakeDevice lb k d devpath block ma mi links s = Returns s1" "calm (view s1)"
    "sysview (view s1) = sysview (view s)"
    "ents (view s1) \<in> {ents (view s), (ents (view s))(devpath \<mapsto> DevNode (makedev ma mi))}"
    "node_allowed lb k d devpath block links \<Longrightarrow> ents (view s) devpath = None \<Longrightarrow>
      ents (view s) (Dirname lb devpath) = Some Dir \<Longrightarrow> ents (view s1) devpath = Some (DevNode (makedev ma mi))"
    using MakeDevice_view [OF assms, of d devpath block ma mi links] by blast
  then show ?thesis using True by (intro that [of s1]) (simp_all add: HandleDevice_def)
next
  case False
  then show ?thesis using assms by (intro that [of s]) (simp_all add: HandleDevice_def)
qed

lemma HandleDevice_returns:
  assumes "calm (view s)"
  obtains s' where "HandleDevice lb k d action devpath block ma mi links s = Returns s'"
    and "calm (view s')" and "sysview (view s') = sysview (view s)"
  using HandleDevice_calm [OF assms] add_links_frame remove_device_frame by metis

lemma out_fold_calm:
  assumes "\<And>x t. calm (view t) \<Longrightarrow> \<exists>t'. f x t = Returns t' \<and> calm (view t')" and "calm (view s)"
  shows "\<exists>s'. out_fold f xs s = Returns s' \<and> calm (view s')"
  using assms(2)
proof (induction xs arbitrary: s)
  case (Cons x xs)
  then show ?case using assms(1) [of s x] by force
qed simp

lemma rebind_device_calm:
  assumes "calm (view s)"
  shows "\<exists>s'. rebind_device lb k d driver action bp tracked s = Returns s' \<and> calm (view s')"
proof (cases "snd tracked = bp")
  case True
  let ?s = "snd (k_mkdir_recursive k (Dirname lb (ParseDevPath driver (fst tracked))) mode_0755 s)"
  have "calm (view ?s)" using assms by (simp add: mkdir_frame)
  from HandleDevice_returns [OF this, of d action "ParseDevPath driver (fst tracked)" False "ue_major (fst tracked)"
      "ue_minor (fst tracked)" "[]"]
  obtain s' where "HandleDevice lb k d action (ParseDevPath driver (fst tracked)) False (ue_major (fst tracked))
      (ue_minor (fst tracked)) [] ?s = Returns s'" "calm (view s')" .
  then show ?thesis using True by (simp add: rebind_device_def Let_def)
qed (simp add: rebind_device_def assms)

lemma HandleBindInternal_calm:
  assumes "calm (view s)" and "ue_subsystem ue \<noteq> ''block''"
  obtains s' where "HandleBindInternal lb k d driver action ue s = Returns s'" and "calm (view s')"
proof -
  have "\<exists>s'. HandleBindInternal lb k d driver action ue s = Returns s' \<and> calm (view s')"
    using assms out_fold_calm [OF rebind_device_calm assms(1)]
    by (auto simp: HandleBindInternal_def split: option.splits)
  then show ?thesis using that by blast
qed

lemma event_fixup_view: "view (event_fixup lb k d ue s) = view s"
  by (simp add: event_fixup_def FixupSysPermissions_view)

lemma handle_event_fatal: "fatal_event d ue \<Longrightarrow> handle_event lb k ue (d, s) = Aborts"
  by (auto simp: fatal_event_def handle_event_def Let_def HandleBindInternal_def handle_bind_def handle_unbind_def)

lemma handle_node_calm:
  assumes "calm (view s)"
  obtains r d' s' where "handle_node lb k ue d s = Returns (r, d', s')" and "calm (view s')"
proof (cases "ue_major ue < 0 \<or> ue_minor ue < 0")
  case True
  then show ?thesis using that [of False d s] assms by (simp add: handle_node_def)
next
  case False
  define d1 where "d1 = TrackDeviceUevent k ue s d"
  show ?thesis
  proof (cases "device_path lb d1 ue")
    case None
    then show ?thesis using that [of False d1 s] assms False by (simp add: handle_node_def d1_def [symmetric])
  next
    case (Some devpath)
    let ?s1 = "snd (k_mkdir_recursive k (Dirname lb devpath) mode_0755 s)"
    have "calm (view ?s1)" using assms by (simp add: mkdir_frame)
    from HandleDevice_returns [OF this, of d1 "ue_action ue" devpath "ue_subsystem ue = ''block''" "ue_major ue" "ue_minor ue"
        "event_links lb k d1 ue s"]
    obtain s2 where "HandleDevice lb k d1 (ue_action ue) devpath (ue_subsystem ue = ''block'') (ue_major ue) (ue_minor ue)
        (event_links lb k d1 ue s) ?s1 = Returns s2" "calm (view s2)" .
    then show ?thesis
      using that [of True d1 s2] False Some by (simp add: handle_node_def d1_def [symmetric])
  qed
qed

lemma handle_event_calm:
  assumes "calm (view s)" and "\<not> fatal_event d ue"
  obtains r d' s' where "handle_event lb k ue (d, s) = Returns (r, d', s')" and "calm (view s')"
    and "r \<Longrightarrow> ue_action ue \<noteq> ''bind'' \<and> ue_action ue \<noteq> ''unbind''"
proof -
  define t where "t = event_fixup lb k d ue s"
  have t: "calm (view t)" using assms(1) by (simp add: t_def event_fixup_view)
  consider (bind) "ue_action ue = ''bind''" | (unbind) "ue_action ue = ''unbind''"
    | (plain) "ue_action ue \<noteq> ''bind''" "ue_action ue \<noteq> ''unbind''" by blast
  then show ?thesis
  proof cases
    case bind
    then have "ue_subsystem ue \<noteq> ''block''" using assms(2) by (simp add: fatal_event_def)
    from HandleBindInternal_calm [OF t this] obtain s' where
      "HandleBindInternal lb k (d\<lparr>bound_drivers := (bound_drivers d)(ue_path ue \<mapsto> ue_driver ue)\<rparr>) (ue_driver ue) ''add'' ue t = Returns s'"
      "calm (view s')" .
    with that [of False _ s'] bind show ?thesis
      by (simp add: handle_event_def Let_def t_def [symmetric] handle_bind_def)
  next
    case unbind
    show ?thesis
    proof (cases "bound_drivers d (ue_path ue)")
      case None
      then show ?thesis using that [of False d t] unbind t
        by (simp add: handle_event_def t_def [symmetric] handle_unbind_def)
    next
      case (Some driver)
      then have "ue_subsystem ue \<noteq> ''block''" using unbind assms(2) by (simp add: fatal_event_def)
      from HandleBindInternal_calm [OF t this] obtain s' where
        "HandleBindInternal lb k d driver ''remove'' ue t = Returns s'" "calm (view s')" .
      with that [of False _ s'] unbind Some show ?thesis
        by (simp add: handle_event_def t_def [symmetric] handle_unbind_def)
    qed
  next
    case plain
    from handle_node_calm [OF t] obtain r d' s' where "handle_node lb k ue d t = Returns (r, d', s')" "calm (view s')" .
    with that [of r d' s'] plain show ?thesis by (simp add: handle_event_def t_def [symmetric])
  qed
qed

text \<open>One or two rounds are enough: the duplicate of the ashmem event has another name.\<close>

lemma HandleUevent_round:
  assumes "calm (view s)" and "\<not> fatal_event d ue"
  obtains (ends) d' s' where "HandleUevent lb k ue (d, s) = Some (Returns (d', s'))" and "calm (view s')"
  | (again) d' s' dup where "HandleUevent lb k ue (d, s) = HandleUevent lb k dup (d', s')" and "calm (view s')"
    and "ashmem_event lb k ue s' = Some dup" and "\<not> fatal_event d' dup"
proof -
  obtain r d' s' where ev: "handle_event lb k ue (d, s) = Returns (r, d', s')" and c: "calm (view s')"
    and r: "r \<Longrightarrow> ue_action ue \<noteq> ''bind'' \<and> ue_action ue \<noteq> ''unbind''"
    using handle_event_calm [OF assms] by metis
  show ?thesis
  proof (cases "if r then ashmem_event lb k ue s' else None")
    case None
    then have "HandleUevent lb k ue (d, s) = Some (Returns (d', s'))"
      by (subst HandleUevent.simps) (auto simp: ev split: if_splits)
    then show ?thesis using c by (rule ends)
  next
    case (Some dup)
    then have reached: "r" and dup: "ashmem_event lb k ue s' = Some dup" by (simp_all split: if_splits)
    then have "\<not> fatal_event d' dup"
      using r by (auto simp: fatal_event_def ashmem_event_def split: if_splits option.splits)
    moreover have "HandleUevent lb k ue (d, s) = HandleUevent lb k dup (d', s')"
      by (subst HandleUevent.simps) (simp add: ev reached dup)
    ultimately show ?thesis using c dup by (intro again)
  qed
qed

lemma HandleUevent_returns:
  assumes "calm (view s)" and "\<not> fatal_event d ue"
    and "\<And>s b. k_ReadFile k ''/proc/sys/kernel/random/boot_id'' s = Some b \<Longrightarrow> Trim lb b \<noteq> []"
  obtains d' s' where "HandleUevent lb k ue (d, s) = Some (Returns (d', s'))" and "calm (view s')"
  using assms(1,2)
proof (cases rule: HandleUevent_round)
  case (ends d' s')
  then show ?thesis by (rule that)
next
  case (again d' s' dup)
  then have "ue_device_name dup \<noteq> ''ashmem''"
    using assms(3) by (auto simp: ashmem_event_def split: if_splits option.splits)
  then have no: "ashmem_event lb k dup t = None" for t by (simp add: ashmem_event_def)
  from again(2,4) show ?thesis
  proof (cases rule: HandleUevent_round)
    case (ends d2 s2)
    then show ?thesis using again that by simp
  next
    case (again d2 s2 dup2)
    then show ?thesis using no by simp
  qed
qed

lemma HandleUevent_fatal: "fatal_event d ue \<Longrightarrow> HandleUevent lb k ue (d, s) = Some Aborts"
  by (subst HandleUevent.simps) (simp add: handle_event_fatal)

text \<open>What links exist depends on the view outside \<open>/dev\<close> only.\<close>

lemma find_subsystem_cong:
  assumes "sysview (view s) = sysview (view t)" and "prefix path (''/sys'' @ r)"
    and "prefix directory path \<or> directory \<in> {''.'', ''/''}"
  shows "find_subsystem lb k mount paths path directory s = find_subsystem lb k mount paths path directory t"
  using assms(2,3)
proof (induction "length path" arbitrary: path directory rule: less_induct)
  case less
  show ?case
  proof (cases "directory = ''/'' \<or> directory = ''.''")
    case True
    then show ?thesis by (simp add: find_subsystem.simps [of _ _ _ _ _ directory])
  next
    case False
    then have "prefix directory (''/sys'' @ r)" using less.prems prefix_order.trans by blast
    then have "\<not> prefix ''/dev'' (directory @ ''/subsystem'')"
      by (auto simp: prefix_Cons)
    then have real: "in_subsystem k paths directory s = in_subsystem k paths directory t"
      using assms(1) by (simp add: in_subsystem_def Realpath_eq sysview_def)
    have "find_subsystem lb k mount paths (take i path) (Dirname lb (take i path)) s =
          find_subsystem lb k mount paths (take i path) (Dirname lb (take i path)) t"
      if "rfind_char (CHR ''/'') path = Some i" for i
    proof (rule less.hyps)
      show "length (take i path) < length path" using rfind_char_SomeD [OF that] by simp
      show "prefix (take i path) (''/sys'' @ r)" using less.prems(1) take_is_prefix prefix_order.trans by blast
      show "prefix (Dirname lb (take i path)) (take i path) \<or> Dirname lb (take i path) \<in> {''.'', ''/''}"
        by (rule Dirname_prefix)
    qed
    then show ?thesis
      by (simp add: find_subsystem.simps [of lb k mount paths path directory] real del: rfind_char_None split: option.split)
  qed
qed

lemma FindSubsystemDevice_cong:
  assumes "sysview (view s) = sysview (view t)" and "sysfs_mount_point d = ''/sys''"
  shows "FindSubsystemDevice lb k d path paths s = FindSubsystemDevice lb k d path paths t"
  unfolding FindSubsystemDevice_def Let_def assms(2)
  by (rule find_subsystem_cong [OF assms(1), where r = path]) (simp, rule Dirname_prefix)

lemma GetBlockDeviceInfo_cong:
  assumes "sysview (view s) = sysview (view t)" and "sysfs_mount_point d = ''/sys''"
  shows "GetBlockDeviceInfo lb k d path s = GetBlockDeviceInfo lb k d path t"
  unfolding GetBlockDeviceInfo_def FindMmcDevice_def FindNvmeDevice_def FindScsiDevice_def FindPlatformDevice_def
    FindSubsystemDevice_cong [OF assms] ..

text \<open>Links of a device that is not a device mapper device do not depend on the action either.\<close>

lemma GetBlockDeviceSymlinks_cong:
  assumes "sysview (view s) = sysview (view t)" and "sysfs_mount_point d = ''/sys''"
    and "\<not> prefix ''/devices/virtual/block/dm-'' (ue_path ue)"
  shows "GetBlockDeviceSymlinks lb k d (ue\<lparr>ue_action := a\<rparr>) s = GetBlockDeviceSymlinks lb k d (ue\<lparr>ue_action := b\<rparr>) t"
proof -
  have "FindDmDevice lb k (ue\<lparr>ue_action := x\<rparr>) y = None" for x y
    using assms(3) by (simp add: FindDmDevice_def StartsWith_eq)
  moreover have "zoned_links lb k (ue\<lparr>ue_action := a\<rparr>) s = zoned_links lb k (ue\<lparr>ue_action := b\<rparr>) t"
    using assms(1) by (simp add: zoned_links_def ReadFile_eq sysview_def)
  ultimately show ?thesis
    using GetBlockDeviceInfo_cong [OF assms(1,2)] by (simp add: GetBlockDeviceSymlinks_def Let_def)
qed

lemma GetBlockDeviceSymlinks_kinds:
  "l \<in> set (GetBlockDeviceSymlinks lb k d ue s) \<Longrightarrow> prefix ''/dev/block/'' l \<or> prefix ''/dev/sys/block/'' l"
  by (auto simp: GetBlockDeviceSymlinks_def zoned_links_def Let_def split: option.splits if_splits)

text \<open>Adding and removing a block device.\<close>

lemma add_device_ents:
  assumes "calm (view s)" and "\<And>l. l \<in> set links \<Longrightarrow> ents (view s) (Dirname lb l) = Some Dir"
    and "\<And>l. l \<in> set links \<Longrightarrow> ents (view s) l = None" and "devpath \<notin> set links"
    and "ents (view s) devpath = None" and "ents (view s) (Dirname lb devpath) = Some Dir"
    and "node_allowed lb k d devpath block links"
  obtains s' where "HandleDevice lb k d ''add'' devpath block ma mi links s = Returns s'"
    and "calm (view s')" and "sysview (view s') = sysview (view s)"
    and "\<And>p. p \<noteq> devpath \<Longrightarrow> ents (view s') p =
           (if p \<in> set links then map_option SymLink (link_target lb devpath p) else ents (view s) p)"
    and "ents (view s') devpath = Some (DevNode (makedev ma mi))"
proof -
  obtain s1 where h: "HandleDevice lb k d ''add'' devpath block ma mi links s =
      Returns (remove_device lb k ''add'' devpath links (add_links lb k ''add'' devpath links s1))"
    and c: "calm (view s1)" and v: "sysview (view s1) = sysview (view s)"
    and e: "ents (view s1) \<in> {ents (view s), (ents (view s))(devpath \<mapsto> DevNode (makedev ma mi))}"
    and n: "ents (view s1) devpath = Some (DevNode (makedev ma mi))"
    using HandleDevice_calm [OF assms(1), of d "''add''" devpath block ma mi links] assms(5,6,7) by blast
  define s' where "s' = fold (make_link lb k devpath) links s1"
  have "HandleDevice lb k d ''add'' devpath block ma mi links s = Returns s'"
    by (simp add: h remove_device_def add_links_def s'_def)
  moreover have "calm (view s')" "sysview (view s') = sysview (view s)"
    using c v by (simp_all add: s'_def make_links_frame)
  moreover have dirs: "ents (view s1) (Dirname lb l) = Some Dir" if "l \<in> set links" for l
    using e assms(2) [OF that] assms(5) by auto
  have "ents (view s') p =
      (if p \<in> set links then map_option SymLink (link_target lb devpath p) else ents (view s) p)" if "p \<noteq> devpath" for p
    using make_links_ents [of links s1 devpath p, OF dirs] e that assms(3) by (auto simp: s'_def)
  moreover have "ents (view s') devpath = Some (DevNode (makedev ma mi))"
    using make_links_ents [of links s1 devpath devpath, OF dirs] n by (simp add: s'_def)
  ultimately show ?thesis by (rule that)
qed

lemma remove_device_ents:
  assumes "\<not> prefix ''/dev/block/dm-'' devpath" and "ents (view s) devpath \<noteq> Some Dir"
  shows "ents (view (remove_device lb k ''remove'' devpath links s)) p =
    (if p = devpath \<or> (p \<in> set links \<and> ents (view s) p = Some (SymLink devpath)) then None else ents (view s) p)"
  using assms by (auto simp: remove_device_def Let_def StartsWith_eq unlink_view remove_links_view)

lemma HandleUevent_node:
  assumes "ue_action ue \<noteq> ''bind''" "ue_action ue \<noteq> ''unbind''" "ue_device_name ue \<noteq> ''ashmem''"
    and "handle_node lb k ue d (event_fixup lb k d ue s) = Returns (r, d', s')"
  shows "HandleUevent lb k ue (d, s) = Some (Returns (d', s'))"
  using assms by (subst HandleUevent.simps) (simp add: handle_event_def ashmem_event_def)

lemma block_event:
  assumes "ue_subsystem ue = ''block''" and "0 \<le> ue_major ue" and "0 \<le> ue_minor ue"
    and "prefix ''/devices'' (ue_path ue)"
  shows "handle_node lb k ue d s =
    out_bind (HandleDevice lb k d (ue_action ue) (''/dev/block/'' @ Basename lb (ue_path ue)) True (ue_major ue) (ue_minor ue)
      (GetBlockDeviceSymlinks lb k d ue s)
      (snd (k_mkdir_recursive k (Dirname lb (''/dev/block/'' @ Basename lb (ue_path ue))) mode_0755 s)))
    (\<lambda>s1. Returns (True, d, s1))"
  using assms by (simp add: handle_node_def TrackDeviceUevent_def device_path_def event_links_def StartsWith_eq Let_def)

lemma block_roundtrip:
  fixes ue d s0
  defines "devpath \<equiv> ''/dev/block/'' @ Basename lb (ue_path ue)"
    and "links \<equiv> GetBlockDeviceSymlinks lb k d ue s0"
  assumes ev: "ue_action ue = ''add''" "ue_subsystem ue = ''block''" "0 \<le> ue_major ue" "0 \<le> ue_minor ue"
      "prefix ''/devices'' (ue_path ue)" "ue_device_name ue \<noteq> ''ashmem''"
    and dm: "\<not> prefix ''/devices/virtual/block/dm-'' (ue_path ue)" "\<not> prefix ''/dev/block/dm-'' devpath"
    and calm: "calm (view s0)" and sys: "sysfs_mount_point d = ''/sys''"
    and dirs: "\<And>p. p \<in> insert devpath (set links) \<Longrightarrow> ents (view s0) (Dirname lb p) = Some Dir"
    and fresh: "\<And>p. p \<in> insert devpath (set links) \<Longrightarrow> ents (view s0) p = None"
    and apart: "devpath \<notin> set links" and allowed: "node_allowed lb k d devpath True links"
  shows "\<exists>s1 s2. HandleUevent lb k ue (d, s0) = Some (Returns (d, s1)) \<and>
    HandleUevent lb k (ue\<lparr>ue_action := ''remove''\<rparr>) (d, s1) = Some (Returns (d, s2)) \<and>
    (\<forall>l \<in> set links. ents (view s1) l =
       Some (SymLink (if prefix ''/dev/block/'' l then devpath else ''/sys/class/block/'' @ Basename lb devpath))) \<and>
    ents (view s1) devpath = Some (DevNode (makedev (ue_major ue) (ue_minor ue))) \<and>
    (\<forall>p. p \<notin> insert devpath (set links) \<longrightarrow> ents (view s1) p = ents (view s0) p) \<and>
    (\<forall>p. ents (view s2) p =
       (if p \<in> set links \<and> \<not> prefix ''/dev/block/'' p
        then Some (SymLink (''/sys/class/block/'' @ Basename lb devpath)) else ents (view s0) p))"
proof -
  let ?mk = "\<lambda>s. snd (k_mkdir_recursive k (Dirname lb devpath) mode_0755 s)"
  define s where "s = event_fixup lb k d ue s0"
  have v: "view s = view s0" by (simp add: s_def event_fixup_view)
  have ue: "ue\<lparr>ue_action := ''add''\<rparr> = ue" using ev(1) by simp
  have mk: "view (?mk s) = view s0" using dirs by (simp add: v mkdir_exists)
  have links_s: "GetBlockDeviceSymlinks lb k d ue s = links"
    using GetBlockDeviceSymlinks_cong [of s s0 d ue "''add''" "''add''", OF _ sys dm(1)] by (simp add: v ue links_def)
  obtain s1 where h: "HandleDevice lb k d ''add'' devpath True (ue_major ue) (ue_minor ue) links (?mk s) = Returns s1"
    and c1: "calm (view s1)" and v1: "sysview (view s1) = sysview (view (?mk s))"
    and e1: "\<And>p. p \<noteq> devpath \<Longrightarrow> ents (view s1) p =
           (if p \<in> set links then map_option SymLink (link_target lb devpath p) else ents (view (?mk s)) p)"
    and n1: "ents (view s1) devpath = Some (DevNode (makedev (ue_major ue) (ue_minor ue)))"
    using add_device_ents [of "?mk s" links devpath d True "ue_major ue" "ue_minor ue"] calm dirs fresh apart allowed
    unfolding mk by blast
  have add: "HandleUevent lb k ue (d, s0) = Some (Returns (d, s1))"
    using ev block_event [OF ev(2-5), of d s] h
    by (intro HandleUevent_node) (simp_all add: s_def [symmetric] links_s devpath_def)
  have kinds: "prefix ''/dev/block/'' l \<or> prefix ''/dev/sys/block/'' l" if "l \<in> set links" for l
    using GetBlockDeviceSymlinks_kinds that by (simp add: links_def)
  have tgt: "link_target lb devpath l =
      Some (if prefix ''/dev/block/'' l then devpath else ''/sys/class/block/'' @ Basename lb devpath)" if "l \<in> set links" for l
    using kinds [OF that] by (auto simp: link_target_def StartsWith_eq)
  let ?rem = "ue\<lparr>ue_action := ''remove''\<rparr>"
  have links1: "GetBlockDeviceSymlinks lb k d ?rem s1 = links"
    using GetBlockDeviceSymlinks_cong [of s1 s0 d ue "''remove''" "''add''", OF _ sys dm(1)] v1 by (simp add: mk ue links_def)
  define s2 where "s2 = remove_device lb k ''remove'' devpath links (?mk s1)"
  have dir1: "ents (view s1) (Dirname lb devpath) = Some Dir"
  proof -
    have "Dirname lb devpath \<notin> insert devpath (set links)"
      using dirs [of devpath] fresh [of "Dirname lb devpath"] by auto
    then show ?thesis using e1 [of "Dirname lb devpath"] dirs [of devpath] by (simp add: mk)
  qed
  then have mk1: "view (?mk s1) = view s1" by (rule mkdir_exists)
  have "HandleDevice lb k d ''remove'' devpath True (ue_major ue) (ue_minor ue) links (?mk s1) = Returns s2"
    by (simp add: HandleDevice_def add_links_def s2_def)
  then have rem: "HandleUevent lb k ?rem (d, s1) = Some (Returns (d, s2))"
    using ev block_event [of ?rem d s1] links1
    by (intro HandleUevent_node) (simp_all add: event_fixup_def devpath_def)
  have sysdev: "''/sys/class/block/'' @ Basename lb devpath \<noteq> devpath" by (simp add: devpath_def)
  have "ents (view s2) p = (if p \<in> set links \<and> \<not> prefix ''/dev/block/'' p
        then Some (SymLink (''/sys/class/block/'' @ Basename lb devpath)) else ents (view s0) p)" for p
  proof -
    have rd: "ents (view s2) p = (if p = devpath \<or> (p \<in> set links \<and> ents (view s1) p = Some (SymLink devpath)) then None
        else ents (view s1) p)"
      using remove_device_ents [OF dm(2), of "?mk s1" links p] n1 by (auto simp: mk1 s2_def)
    show ?thesis
    proof (cases "p = devpath")
      case True
      then show ?thesis using rd fresh [of p] apart by simp
    next
      case False
      then show ?thesis using rd e1 [of p] fresh [of p] tgt [of p] sysdev by (auto simp: mk)
    qed
  qed
  moreover have "ents (view s1) l =
       Some (SymLink (if prefix ''/dev/block/'' l then devpath else ''/sys/class/block/'' @ Basename lb devpath))"
    if "l \<in> set links" for l
    using e1 [of l] tgt [OF that] that apart by (cases "l = devpath") simp_all
  ultimately show ?thesis using add rem n1 e1 by (auto simp: mk)
qed

end

section \<open>All operations\<close>

inductive dev_step :: "libbase \<Rightarrow> 's dkern \<Rightarrow> DeviceHandler \<times> 's \<Rightarrow> DeviceHandler \<times> 's \<Rightarrow> bool"
  for lb k where
  event: "HandleUevent lb k ue ds = Some (Returns ds') \<Longrightarrow> dev_step lb k ds ds'"
| boot_part: "dev_step lb k (d, s) (snd (CheckUeventForBootPartUuid lb k ue s d), s)"
| coldboot: "dev_step lb k (d, s) (ColdbootDone d, s)"

text \<open>
  The part of the state that belongs to the boot device: with a partition UUID there is no boot device before
  the partition has appeared, and exactly one from then on.
\<close>

definition boot_ok :: "DeviceHandler \<Rightarrow> bool" where
  "boot_ok d \<longleftrightarrow> sysfs_mount_point d = ''/sys'' \<and>
     (boot_part_uuid d = [] \<longrightarrow> \<not> found_boot_part_uuid d) \<and>
     (boot_part_uuid d \<noteq> [] \<longrightarrow>
       (if found_boot_part_uuid d then \<exists>x. boot_devices d = {x} else boot_devices d = {}))"

definition tracked_ok :: "DeviceHandler \<Rightarrow> bool" where
  "tracked_ok d \<longleftrightarrow> (\<forall>(ue, device) \<in> set (tracked_uevents d).
     ue_action ue = ''add'' \<and> ue_subsystem ue \<noteq> ''block'' \<and> 0 \<le> ue_major ue \<and> 0 \<le> ue_minor ue) \<and>
     (drivers d = [] \<longrightarrow> tracked_uevents d = [])"

text \<open>What handling an event leaves alone.\<close>

definition config where
  "config d = (boot_devices d, boot_part_uuid d, found_boot_part_uuid d, sysfs_mount_point d, drivers d)"

lemma config_boot_ok: "config d' = config d \<Longrightarrow> boot_ok d' = boot_ok d"
  by (simp add: config_def boot_ok_def)

lemma TrackDeviceUevent_ok:
  "tracked_ok d \<Longrightarrow> config (TrackDeviceUevent k ue s d) = config d \<and> tracked_ok (TrackDeviceUevent k ue s d)"
  by (auto simp: TrackDeviceUevent_def config_def tracked_ok_def split: option.splits)

lemma handle_event_config:
  assumes "handle_event lb k ue (d, s) = Returns (r, d', s')" and "tracked_ok d"
  shows "config d' = config d \<and> tracked_ok d'"
proof -
  define t where "t = event_fixup lb k d ue s"
  have bind: ?thesis if "handle_bind lb k ue d t = Returns (r, d', s')"
    using that assms(2) by (auto simp: handle_bind_def out_bind_Returns config_def tracked_ok_def Let_def)
  have unbind: ?thesis if "handle_unbind lb k ue d t = Returns (r, d', s')"
    using that assms(2) by (auto simp: handle_unbind_def out_bind_Returns config_def tracked_ok_def split: option.splits)
  have node: ?thesis if "handle_node lb k ue d t = Returns (r, d', s')"
    using that assms(2) TrackDeviceUevent_ok [OF assms(2), of k ue t]
    by (auto simp: handle_node_def out_bind_Returns Let_def split: option.splits if_splits)
  show ?thesis
    using assms(1) bind unbind node by (simp add: handle_event_def t_def [symmetric] Let_def split: if_splits)
qed

lemma HandleUevent_config:
  assumes "HandleUevent lb k ue ds = Some out" and "out = Returns ds'" and "tracked_ok (fst ds)"
  shows "config (fst ds') = config (fst ds) \<and> tracked_ok (fst ds')"
proof -
  let ?P = "\<lambda>lb k ue ds out. \<forall>ds'. out = Returns ds' \<longrightarrow> tracked_ok (fst ds) \<longrightarrow>
      config (fst ds') = config (fst ds) \<and> tracked_ok (fst ds')"
  have "?P lb k ue ds out"
  proof (rule HandleUevent.raw_induct [where P = ?P, OF _ assms(1)], intro allI impI)
    fix HU lb k ue ds out ds'
    assume IH: "\<And>lb k ue ds out. HU lb k ue ds = Some out \<Longrightarrow> ?P lb k ue ds out"
      and body: "(case handle_event lb k ue ds of
        Aborts \<Rightarrow> Some Aborts
      | Returns (reached, ds1) \<Rightarrow>
          (case (if reached then ashmem_event lb k ue (snd ds1) else None) of
             None \<Rightarrow> Some (Returns ds1) | Some dup \<Rightarrow> HU lb k dup ds1)) = Some out"
      and out: "out = Returns ds'" and ok: "tracked_ok (fst ds)"
    from body out obtain r ds1 where ev: "handle_event lb k ue ds = Returns (r, ds1)"
      by (auto split: outcome.splits)
    then have c: "config (fst ds1) = config (fst ds)" "tracked_ok (fst ds1)"
      using handle_event_config [of lb k ue "fst ds" "snd ds" r "fst ds1" "snd ds1"] ok by auto
    show "config (fst ds') = config (fst ds) \<and> tracked_ok (fst ds')"
    proof (cases "if r then ashmem_event lb k ue (snd ds1) else None")
      case None
      with body out ev c show ?thesis by simp
    next
      case (Some dup)
      with body ev have "HU lb k dup ds1 = Some out" by simp
      from IH [OF this] out c show ?thesis by simp
    qed
  qed
  with assms(2,3) show ?thesis by blast
qed

text \<open>
  C23 (device_handler_invariant): however ueventd's device handler is driven (any sequence of uevents,
  checks for the boot partition and the end of coldboot), after every operation its effective group is
  root again and no label for new files is left set, whatever failed on the way; with a boot partition UUID
  there is no boot device until the partition has been seen and exactly one afterwards; and only added
  non-block devices with a device number are tracked for driver binding, and none if no driver is of
  interest.
\<close>

theorem device_handler_invariant:
  assumes "device_kernel lb k view" and "calm (view s0)"
    and "\<And>s b. k_ReadFile k ''/proc/sys/kernel/random/boot_id'' s = Some b \<Longrightarrow> Trim lb b \<noteq> []"
    and "(dev_step lb k)\<^sup>*\<^sup>* (make_DeviceHandler dperms sperms drvs subs bdevs uuid skip, s0) (d, s)"
  shows "egid (view s) = AID_ROOT \<and> createcon (view s) = None \<and>
    (uuid \<noteq> [] \<longrightarrow> (if found_boot_part_uuid d then \<exists>x. boot_devices d = {x} else boot_devices d = {})) \<and>
    (\<forall>(ue, device) \<in> set (tracked_uevents d).
       ue_action ue = ''add'' \<and> ue_subsystem ue \<noteq> ''block'' \<and> 0 \<le> ue_major ue \<and> 0 \<le> ue_minor ue) \<and>
    (drvs = [] \<longrightarrow> tracked_uevents d = [])"
proof -
  let ?d0 = "make_DeviceHandler dperms sperms drvs subs bdevs uuid skip"
  have "calm (view (snd ds)) \<and> boot_ok (fst ds) \<and> tracked_ok (fst ds) \<and>
      boot_part_uuid (fst ds) = uuid \<and> drivers (fst ds) = drvs"
    if "(dev_step lb k)\<^sup>*\<^sup>* (?d0, s0) ds" for ds
    using that
  proof (induction rule: rtranclp_induct)
    case base
    then show ?case using assms(2) by (simp add: make_DeviceHandler_def boot_ok_def tracked_ok_def)
  next
    case (step ds ds')
    from step(2) show ?case
    proof cases
      case (event ue)
      have c: "config (fst ds') = config (fst ds) \<and> tracked_ok (fst ds')"
        using HandleUevent_config [OF event] step(3) by blast
      have "\<not> fatal_event (fst ds) ue"
        using event device_kernel.HandleUevent_fatal [OF assms(1), of "fst ds" ue "snd ds"] by force
      then have "calm (view (snd ds'))"
        using device_kernel.HandleUevent_returns [OF assms(1), of "snd ds" "fst ds" ue] assms(3) step(3) event
        by (metis option.inject outcome.inject prod.collapse snd_conv)
      then show ?thesis using c config_boot_ok [of "fst ds'" "fst ds"] step(3) by (simp add: config_def)
    next
      case (boot_part d s ue)
      then show ?thesis using step(3) by (auto simp: CheckUeventForBootPartUuid_def boot_ok_def tracked_ok_def)
    next
      case (coldboot d s)
      then show ?thesis using step(3) by (simp add: ColdbootDone_def boot_ok_def tracked_ok_def)
    qed
  qed
  from this [OF assms(4)] show ?thesis by (auto simp: calm_def boot_ok_def tracked_ok_def)
qed

text \<open>
  C24 (device_block_roundtrip): a block device that is added gets its node and every link that is derived
  for it, and nothing else changes; when the same device is removed, the node and all links
  under /dev/block are gone again and every other entry is as before, except that the links under
  /dev/sys/block stay behind.
\<close>

theorem device_block_roundtrip:
  assumes "device_kernel lb k view" and "calm (view s0)" and "sysfs_mount_point d = ''/sys''"
    and "ue_action ue = ''add''" and "ue_subsystem ue = ''block''" and "0 \<le> ue_major ue" and "0 \<le> ue_minor ue"
    and "prefix ''/devices'' (ue_path ue)" and "ue_device_name ue \<noteq> ''ashmem''"
    and "\<not> prefix ''/devices/virtual/block/dm-'' (ue_path ue)"
    and "devpath = ''/dev/block/'' @ Basename lb (ue_path ue)" and "\<not> prefix ''/dev/block/dm-'' devpath"
    and "links = GetBlockDeviceSymlinks lb k d ue s0" and "devpath \<notin> set links"
    and "node_allowed lb k d devpath True links"
    and "\<forall>p \<in> insert devpath (set links). ents (view s0) p = None \<and> ents (view s0) (Dirname lb p) = Some Dir"
  shows "\<exists>s1 s2. HandleUevent lb k ue (d, s0) = Some (Returns (d, s1)) \<and>
    HandleUevent lb k (ue\<lparr>ue_action := ''remove''\<rparr>) (d, s1) = Some (Returns (d, s2)) \<and>
    (\<forall>l \<in> set links. ents (view s1) l =
       Some (SymLink (if prefix ''/dev/block/'' l then devpath else ''/sys/class/block/'' @ Basename lb devpath))) \<and>
    ents (view s1) devpath = Some (DevNode (makedev (ue_major ue) (ue_minor ue))) \<and>
    (\<forall>p. p \<notin> insert devpath (set links) \<longrightarrow> ents (view s1) p = ents (view s0) p) \<and>
    (\<forall>p. ents (view s2) p =
       (if p \<in> set links \<and> \<not> prefix ''/dev/block/'' p
        then Some (SymLink (''/sys/class/block/'' @ Basename lb devpath)) else ents (view s0) p))"
proof -
  note slots = bspec [OF assms(16), THEN conjunct2] bspec [OF assms(16), THEN conjunct1]
  show ?thesis
    unfolding assms(11,13)
    by (rule device_kernel.block_roundtrip [OF assms(1,4-10) assms(12) [unfolded assms(11)] assms(2,3)
          slots [unfolded assms(11,13)] assms(14,15) [unfolded assms(11,13)]])
qed

section \<open>Drivers\<close>

text \<open>The nodes that a driver has for the devices behind a path.\<close>

definition driver_nodes :: "Subsystem \<Rightarrow> string \<Rightarrow> (Uevent \<times> string) list \<Rightarrow> string set" where
  "driver_nodes driver path tracked = {ParseDevPath driver tr |tr. (tr, path) \<in> set tracked}"

definition node_slot :: "dview \<Rightarrow> string \<Rightarrow> bool" where
  "node_slot v p \<longleftrightarrow> ents v p \<in> insert None (range (\<lambda>dev. Some (DevNode dev)))"

lemma driver_nodes_Cons:
  "driver_nodes driver bp (x # xs) =
     (if snd x = bp then insert (ParseDevPath driver (fst x)) (driver_nodes driver bp xs) else driver_nodes driver bp xs)"
  by (cases x) (auto simp: driver_nodes_def)

context device_kernel
begin

lemma rebind_add:
  assumes "calm (view s)" and "devpath = ParseDevPath driver (fst tr)"
    and "ents (view s) (Dirname lb devpath) = Some Dir" and "node_slot (view s) devpath"
    and "node_allowed lb k d devpath False []"
  obtains s' dev where "rebind_device lb k d driver ''add'' (snd tr) tr s = Returns s'" and "calm (view s')"
    and "ents (view s') = (ents (view s))(devpath \<mapsto> DevNode dev)"
proof -
  let ?mk = "snd (k_mkdir_recursive k (Dirname lb devpath) mode_0755 s)"
  have mk: "view ?mk = view s" using assms(3) by (rule mkdir_exists)
  have c: "calm (view ?mk)" using assms(1) by (simp add: mk)
  obtain s' where h: "HandleDevice lb k d ''add'' devpath False (ue_major (fst tr)) (ue_minor (fst tr)) [] ?mk =
        Returns (remove_device lb k ''add'' devpath [] (add_links lb k ''add'' devpath [] s'))"
    and c': "calm (view s')" and e: "ents (view s') \<in>
        {ents (view s), (ents (view s))(devpath \<mapsto> DevNode (makedev (ue_major (fst tr)) (ue_minor (fst tr))))}"
    and n: "ents (view s) devpath = None \<Longrightarrow> ents (view s') devpath \<noteq> None"
    by (rule HandleDevice_calm [OF c, of d "''add''" devpath False "ue_major (fst tr)" "ue_minor (fst tr)" "[]"])
      (use assms(3,5) in \<open>simp add: mk\<close>)
  have s': "HandleDevice lb k d ''add'' devpath False (ue_major (fst tr)) (ue_minor (fst tr)) [] ?mk = Returns s'" "calm (view s')"
    using h c' by (simp_all add: remove_device_def add_links_def)
  obtain dev where "ents (view s') = (ents (view s))(devpath \<mapsto> DevNode dev)"
  proof (cases "ents (view s) devpath")
    case None
    then show ?thesis using e n that by auto
  next
    case (Some x)
    then obtain dev where "ents (view s) devpath = Some (DevNode dev)" using assms(4) by (auto simp: node_slot_def)
    then have "ents (view s) = (ents (view s))(devpath \<mapsto> DevNode dev)" by (simp add: map_upd_triv)
    then show ?thesis using e that by auto
  qed
  then show ?thesis using that s' by (simp add: rebind_device_def Let_def assms(2) [symmetric])
qed

lemma bind_nodes:
  assumes "calm (view s)"
    and "\<And>p. p \<in> driver_nodes driver bp tracked \<Longrightarrow> ents (view s) (Dirname lb p) = Some Dir \<and> node_slot (view s) p \<and>
           node_allowed lb k d p False []"
  shows "\<exists>s'. out_fold (rebind_device lb k d driver ''add'' bp) tracked s = Returns s' \<and> calm (view s') \<and>
    (\<forall>p. if p \<in> driver_nodes driver bp tracked then \<exists>dev. ents (view s') p = Some (DevNode dev)
         else ents (view s') p = ents (view s) p)"
  using assms
proof (induction tracked arbitrary: s)
  case Nil
  then show ?case by (simp add: driver_nodes_def)
next
  case (Cons x xs)
  show ?case
  proof (cases "snd x = bp")
    case False
    then have "rebind_device lb k d driver ''add'' bp x s = Returns s" by (simp add: rebind_device_def)
    then show ?thesis using Cons.IH [OF Cons.prems(1)] Cons.prems(2) False by (simp add: driver_nodes_Cons)
  next
    case True
    define q where "q = ParseDevPath driver (fst x)"
    have q: "q \<in> driver_nodes driver bp (x # xs)" using True by (simp add: driver_nodes_Cons q_def)
    note Cons.prems(2) [OF q]
    then obtain s1 dev where s1: "rebind_device lb k d driver ''add'' bp x s = Returns s1" "calm (view s1)"
      and e1: "ents (view s1) = (ents (view s))(q \<mapsto> DevNode dev)"
      using rebind_add [OF Cons.prems(1) q_def] True by metis
    have "ents (view s1) (Dirname lb p) = Some Dir \<and> node_slot (view s1) p \<and> node_allowed lb k d p False []"
      if "p \<in> driver_nodes driver bp xs" for p
      using Cons.prems(2) [of p] Cons.prems(2) [OF q] that True
      by (auto simp: driver_nodes_Cons e1 node_slot_def)
    from Cons.IH [OF s1(2) this] obtain s2 where
      "out_fold (rebind_device lb k d driver ''add'' bp) xs s1 = Returns s2" "calm (view s2)"
      "\<forall>p. if p \<in> driver_nodes driver bp xs then \<exists>dev. ents (view s2) p = Some (DevNode dev)
         else ents (view s2) p = ents (view s1) p" by blast
    note s2 = this
    have "if p \<in> driver_nodes driver bp (x # xs) then \<exists>dev. ents (view s2) p = Some (DevNode dev)
         else ents (view s2) p = ents (view s) p" for p
      using s2(3) [rule_format, of p] True by (auto simp: driver_nodes_Cons q_def [symmetric] e1 split: if_splits)
    then show ?thesis using s1 s2 by simp
  qed
qed

lemma unbind_nodes:
  assumes "\<And>p. p \<in> driver_nodes driver bp tracked \<Longrightarrow> ents (view s) (Dirname lb p) = Some Dir \<and>
      node_slot (view s) p \<and> \<not> prefix ''/dev/block/dm-'' p"
  shows "\<exists>s'. out_fold (rebind_device lb k d driver ''remove'' bp) tracked s = Returns s' \<and>
    (\<forall>p. ents (view s') p = (if p \<in> driver_nodes driver bp tracked then None else ents (view s) p))"
  using assms
proof (induction tracked arbitrary: s)
  case Nil
  then show ?case by (simp add: driver_nodes_def)
next
  case (Cons x xs)
  show ?case
  proof (cases "snd x = bp")
    case False
    then have "rebind_device lb k d driver ''remove'' bp x s = Returns s" by (simp add: rebind_device_def)
    then show ?thesis using Cons.IH [OF Cons.prems] False by (simp add: driver_nodes_Cons)
  next
    case True
    define q where "q = ParseDevPath driver (fst x)"
    have q: "q \<in> driver_nodes driver bp (x # xs)" using True by (simp add: driver_nodes_Cons q_def)
    let ?mk = "snd (k_mkdir_recursive k (Dirname lb q) mode_0755 s)"
    have mk: "view ?mk = view s" using Cons.prems [OF q] by (simp add: mkdir_exists)
    define s1 where "s1 = remove_device lb k ''remove'' q [] ?mk"
    have r: "rebind_device lb k d driver ''remove'' bp x s = Returns s1"
      using True by (simp add: rebind_device_def HandleDevice_def add_links_def s1_def q_def Let_def)
    have e1: "ents (view s1) p = (if p = q then None else ents (view s) p)" for p
      using remove_device_ents [of q ?mk "[]" p] Cons.prems [OF q] by (auto simp: s1_def mk node_slot_def)
    have "ents (view s1) (Dirname lb p) = Some Dir \<and> node_slot (view s1) p \<and> \<not> prefix ''/dev/block/dm-'' p"
      if "p \<in> driver_nodes driver bp xs" for p
      using Cons.prems [of p] Cons.prems [OF q] that True
      by (auto simp: driver_nodes_Cons e1 node_slot_def)
    from Cons.IH [OF this] obtain s2 where "out_fold (rebind_device lb k d driver ''remove'' bp) xs s1 = Returns s2"
      "\<forall>p. ents (view s2) p = (if p \<in> driver_nodes driver bp xs then None else ents (view s1) p)" by blast
    then show ?thesis using r True by (auto simp: driver_nodes_Cons q_def [symmetric] e1)
  qed
qed

end

text \<open>
  C25 (device_bind_unbind): when a driver that ueventd knows is bound to a device, the node of every
  device node event tracked for that device appears; when it is unbound, exactly these nodes disappear, the
  events are no longer tracked, and the events of other devices stay tracked in their order.
\<close>

theorem device_bind_unbind:
  assumes "device_kernel lb k view" and "calm (view s0)"
    and "ue_action ue = ''bind''" and "ue_subsystem ue \<noteq> ''block''"
    and "find (\<lambda>x. ss_name x = ue_driver ue) (drivers d) = Some driver"
    and "nodes = driver_nodes driver (sysfs_mount_point d @ ue_path ue) (tracked_uevents d)"
    and "\<And>p. p \<in> nodes \<Longrightarrow> ents (view s0) p = None \<and> ents (view s0) (Dirname lb p) = Some Dir \<and>
           node_allowed lb k d p False [] \<and> \<not> prefix ''/dev/block/dm-'' p"
  shows "\<exists>d1 s1 d2 s2. HandleUevent lb k ue (d, s0) = Some (Returns (d1, s1)) \<and>
    HandleUevent lb k (ue\<lparr>ue_action := ''unbind''\<rparr>) (d1, s1) = Some (Returns (d2, s2)) \<and>
    (\<forall>p. if p \<in> nodes then \<exists>dev. ents (view s1) p = Some (DevNode dev) else ents (view s1) p = ents (view s0) p) \<and>
    ents (view s2) = ents (view s0) \<and> tracked_uevents d1 = tracked_uevents d \<and>
    tracked_uevents d2 = filter (\<lambda>tr. sysfs_mount_point d @ ue_path ue \<noteq> snd tr) (tracked_uevents d)"
proof -
  let ?bp = "sysfs_mount_point d @ ue_path ue" and ?d1 = "d\<lparr>bound_drivers := (bound_drivers d)(ue_path ue \<mapsto> ue_driver ue)\<rparr>"
  define s where "s = event_fixup lb k d ue s0"
  have v: "view s = view s0" by (simp add: s_def device_kernel.event_fixup_view [OF assms(1)])
  have allowed: "node_allowed lb k ?d1 p b l = node_allowed lb k d p b l" for p b l
    by (simp add: node_allowed_def GetDevicePermissions_def)
  obtain s1 where s1: "out_fold (rebind_device lb k ?d1 driver ''add'' ?bp) (tracked_uevents d) s = Returns s1"
    and e1: "\<forall>p. if p \<in> nodes then \<exists>dev. ents (view s1) p = Some (DevNode dev) else ents (view s1) p = ents (view s) p"
    using device_kernel.bind_nodes [OF assms(1), of s driver ?bp "tracked_uevents d" ?d1] assms(2,6,7)
    by (auto simp: v allowed node_slot_def)
  have ev1: "HandleUevent lb k ue (d, s0) = Some (Returns (?d1, s1))"
    using assms(3,4,5) s1
    by (subst HandleUevent.simps)
      (simp add: handle_event_def Let_def handle_bind_def HandleBindInternal_def s_def [symmetric])
  have slots: "ents (view s1) (Dirname lb p) = Some Dir \<and> node_slot (view s1) p \<and> \<not> prefix ''/dev/block/dm-'' p"
    if "p \<in> nodes" for p
  proof -
    have "Dirname lb p \<notin> nodes" using assms(7) [OF that] assms(7) [of "Dirname lb p"] by auto
    then show ?thesis using e1 [rule_format, of "Dirname lb p"] e1 [rule_format, of p] assms(7) [OF that] that
      by (auto simp: v node_slot_def)
  qed
  obtain s2 where s2: "out_fold (rebind_device lb k ?d1 driver ''remove'' ?bp) (tracked_uevents d) s1 = Returns s2"
    and e2: "\<forall>p. ents (view s2) p = (if p \<in> nodes then None else ents (view s1) p)"
    using device_kernel.unbind_nodes [OF assms(1), of driver ?bp "tracked_uevents d" s1 ?d1] slots assms(6) by blast
  let ?d2 = "?d1\<lparr>tracked_uevents := filter (\<lambda>tr. ?bp \<noteq> snd tr) (tracked_uevents d)\<rparr>"
  have ev2: "HandleUevent lb k (ue\<lparr>ue_action := ''unbind''\<rparr>) (?d1, s1) = Some (Returns (?d2, s2))"
    using assms(4,5) s2
    by (subst HandleUevent.simps)
      (simp add: handle_event_def Let_def handle_unbind_def HandleBindInternal_def event_fixup_def)
  have "ents (view s2) p = ents (view s0) p" for p
    using e1 [rule_format, of p] e2 [rule_format, of p] assms(7) [of p] by (auto simp: v split: if_splits)
  then show ?thesis
    using ev1 ev2 e1
    by (intro exI [of _ ?d1] exI [of _ s1] exI [of _ ?d2] exI [of _ s2]) (auto simp: v fun_eq_iff)
qed

section \<open>Whether handling ends\<close>

text \<open>
  Handling an event always comes to an end: the duplicate event for ashmem has
  a different name, so the handler calls itself at most once, provided the boot id is not blank.  The
  process is ended by the handler exactly for bind events and for unbind events of a bound driver that
  carry the block subsystem.
\<close>

theorem device_event_terminates:
  assumes "device_kernel lb k view" and "calm (view s)"
    and "\<And>s b. k_ReadFile k ''/proc/sys/kernel/random/boot_id'' s = Some b \<Longrightarrow> Trim lb b \<noteq> []"
  shows "(HandleUevent lb k ue (d, s) = Some Aborts \<longleftrightarrow> fatal_event d ue) \<and>
    (\<not> fatal_event d ue \<longrightarrow> (\<exists>ds'. HandleUevent lb k ue (d, s) = Some (Returns ds')))"
proof (cases "fatal_event d ue")
  case True
  then show ?thesis using device_kernel.HandleUevent_fatal [OF assms(1)] by blast
next
  case False
  then obtain d' s' where "HandleUevent lb k ue (d, s) = Some (Returns (d', s'))"
    by (rule device_kernel.HandleUevent_returns [OF assms(1,2) _ assms(3)])
  then show ?thesis using False by simp
qed

text \<open>With a blank boot id the duplicate is the event itself, and the handler never returns.\<close>

lemma ashmem_blank_boot_id:
  assumes "device_kernel lb k view" and "calm (view s)"
    and "\<And>s. k_ReadFile k ''/proc/sys/kernel/random/boot_id'' s = Some b" and "Trim lb b = []"
    and "ue_device_name ue = ''ashmem''" and "ue_action ue = ''add''" and "ue_subsystem ue = ''misc''"
    and "0 \<le> ue_major ue" and "0 \<le> ue_minor ue"
  shows "HandleUevent lb k ue (d, s) = None"
proof (rule ccontr)
  let ?P = "\<lambda>lb' k' ue' ds out. lb' = lb \<longrightarrow> k' = k \<longrightarrow> ue' = ue \<longrightarrow> \<not> calm (view (snd ds))"
  assume "HandleUevent lb k ue (d, s) \<noteq> None"
  then obtain out where out: "HandleUevent lb k ue (d, s) = Some out" by blast
  have dup: "ashmem_event lb k ue t = Some ue" for t
    using assms(3,4,5) by (simp add: ashmem_event_def)
  have round: "\<exists>d' t'. handle_event lb k ue (d, t) = Returns (True, d', t') \<and> calm (view t')" if c: "calm (view t)" for d t
  proof -
    have "\<not> fatal_event d ue" using assms(6) by (simp add: fatal_event_def)
    then obtain r d' t' where "handle_event lb k ue (d, t) = Returns (r, d', t')" "calm (view t')"
      by (rule device_kernel.handle_event_calm [OF assms(1) c])
    moreover have "\<exists>y. device_path lb d ue = Some y" for d
    proof -
      have "StartsWith lb ''misc'' ''usb'' = prefix ''usb'' ''misc''"
        using assms(1) by (intro libbase_laws.StartsWith_eq) (simp add: device_kernel_def)
      then show ?thesis using assms(7) by (auto simp: device_path_def split: option.splits)
    qed
    then obtain y where "device_path lb (TrackDeviceUevent k ue (event_fixup lb k d ue t) d) ue = Some y" by blast
    ultimately show ?thesis
      using assms(6,8,9) by (auto simp: handle_event_def handle_node_def Let_def out_bind_Returns)
  qed
  have "?P lb k ue (d, s) out"
  proof (rule HandleUevent.raw_induct [where P = ?P, OF _ out], intro impI notI)
    fix HU lb' k' ue' ds out
    assume IH: "\<And>lb k ue ds out. HU lb k ue ds = Some out \<Longrightarrow> ?P lb k ue ds out"
      and body: "(case handle_event lb' k' ue' ds of
        Aborts \<Rightarrow> Some Aborts
      | Returns (reached, ds1) \<Rightarrow>
          (case (if reached then ashmem_event lb' k' ue' (snd ds1) else None) of
             None \<Rightarrow> Some (Returns ds1) | Some dup \<Rightarrow> HU lb' k' dup ds1)) = Some out"
      and eqs: "lb' = lb" "k' = k" "ue' = ue" and c: "calm (view (snd ds))"
    obtain d' t' where "handle_event lb k ue ds = Returns (True, d', t')" "calm (view t')"
      using round [OF c, of "fst ds"] by auto
    with body eqs have "HU lb k ue (d', t') = Some out" by (simp add: dup)
    from IH [OF this] \<open>calm (view t')\<close> show False by simp
  qed
  then show False using assms(2) by simp
qed

section \<open>The nearest parent\<close>

text \<open>A path and its ancestors, the longest first.\<close>

definition cuts :: "string \<Rightarrow> string list" where
  "cuts path = path # rev (map (\<lambda>i. take i path) (filter (\<lambda>i. path ! i = CHR ''/'') [0..<length path]))"

lemma rfind_char_last:
  "rfind_char c s = Some i \<Longrightarrow> j < length s \<Longrightarrow> i < j \<Longrightarrow> s ! j \<noteq> c"
proof -
  assume "rfind_char c s = Some i" and j: "j < length s" "i < j"
  then obtain m where m: "find_char c (rev s) = Some m" and i: "i = length s - Suc m"
    by (auto simp: rfind_char_def)
  from find_char_SomeD [OF m] have m': "m < length s" "c \<notin> set (take m (rev s))" by auto
  have "rev s ! (length s - Suc j) = s ! j" using j by (simp add: rev_nth)
  moreover have "length s - Suc j < m" using i j m' by simp
  then have "rev s ! (length s - Suc j) \<in> set (take m (rev s))"
    using m' by (metis in_set_conv_nth length_rev length_take min.absorb2 nat_less_le nth_take)
  ultimately show ?thesis using m' by metis
qed

lemma cuts_rec:
  "cuts path = path # (case rfind_char (CHR ''/'') path of None \<Rightarrow> [] | Some i \<Rightarrow> cuts (take i path))"
proof (cases "rfind_char (CHR ''/'') path")
  case None
  then have "filter (\<lambda>i. path ! i = CHR ''/'') [0..<length path] = []"
    by (auto simp: filter_empty_conv in_set_conv_nth)
  then show ?thesis using None by (simp add: cuts_def del: rfind_char_None)
next
  case (Some i)
  have i: "i < length path" "path ! i = CHR ''/''" using rfind_char_SomeD [OF Some] by auto
  have "[0..<length path] = [0..<i] @ i # [Suc i..<length path]"
    using i by (metis less_imp_le_nat upt_add_eq_append upt_conv_Cons le_add_diff_inverse zero_le)
  moreover have "filter (\<lambda>j. path ! j = CHR ''/'') [Suc i..<length path] = []"
    using rfind_char_last [OF Some] by (auto simp: filter_empty_conv)
  ultimately have "filter (\<lambda>j. path ! j = CHR ''/'') [0..<length path] = filter (\<lambda>j. path ! j = CHR ''/'') [0..<i] @ [i]"
    using i by simp
  moreover have "filter (\<lambda>j. take i path ! j = CHR ''/'') [0..<i] = filter (\<lambda>j. path ! j = CHR ''/'') [0..<i]"
    by (rule filter_cong) simp_all
  moreover have "map (\<lambda>j. take j (take i path)) xs = map (\<lambda>j. take j path) xs" if "set xs \<subseteq> {..<i}" for xs
    using that by (auto simp: min_def)
  moreover have "set (filter (\<lambda>j. path ! j = CHR ''/'') [0..<i]) \<subseteq> {..<i}" by auto
  ultimately show ?thesis using Some i by (simp add: cuts_def min_def)
qed

lemma find_subsystem_find:
  "find_subsystem lb k mount paths path (Dirname lb path) s =
     map_option (\<lambda>dir. strip_devices lb (drop (length mount) dir))
       (find (\<lambda>dir. in_subsystem k paths dir s)
         (takeWhile (\<lambda>dir. dir \<noteq> ''/'' \<and> dir \<noteq> ''.'') (map (Dirname lb) (cuts path))))"
proof (induction "length path" arbitrary: path rule: less_induct)
  case less
  show ?case
  proof (cases "rfind_char (CHR ''/'') path")
    case None
    then show ?thesis
      by (subst find_subsystem.simps, subst cuts_rec) (auto simp del: rfind_char_None)
  next
    case (Some i)
    then have "find_subsystem lb k mount paths (take i path) (Dirname lb (take i path)) s =
     map_option (\<lambda>dir. strip_devices lb (drop (length mount) dir))
       (find (\<lambda>dir. in_subsystem k paths dir s)
         (takeWhile (\<lambda>dir. dir \<noteq> ''/'' \<and> dir \<noteq> ''.'') (map (Dirname lb) (cuts (take i path)))))"
      using rfind_char_SomeD [OF Some] by (intro less) simp
    with Some show ?thesis
      by (subst find_subsystem.simps, subst cuts_rec) auto
  qed
qed

text \<open>
  The search for a parent device in a set of subsystems ends, and what it
  returns is the nearest ancestor directory below the root whose subsystem link resolves into the set,
  without the mount point and without a leading /devices/ or /devices/platform/.
\<close>

theorem device_nearest_parent:
  "FindSubsystemDevice lb k d path paths s =
     map_option (\<lambda>dir. strip_devices lb (drop (length (sysfs_mount_point d)) dir))
       (find (\<lambda>dir. \<exists>link \<in> paths. k_Realpath k (dir @ ''/subsystem'') s = Some link)
         (takeWhile (\<lambda>dir. dir \<noteq> ''/'' \<and> dir \<noteq> ''.'') (map (Dirname lb) (cuts (sysfs_mount_point d @ path)))))"
proof -
  have "in_subsystem k paths dir s \<longleftrightarrow> (\<exists>link \<in> paths. k_Realpath k (dir @ ''/subsystem'') s = Some link)" for dir
    by (auto simp: in_subsystem_def split: option.splits)
  then show ?thesis by (simp add: FindSubsystemDevice_def Let_def find_subsystem_find)
qed

section \<open>Names and permissions\<close>

text \<open>The loop replaces characters from left to right.\<close>

lemma sanitize_loop_map:
  assumes "pos \<le> length s" and "\<forall>j < pos. s ! j \<in> set accept_chars"
  shows "sanitize_loop s pos = map (\<lambda>c. if c \<in> set accept_chars then c else CHR ''_'') s"
  using assms
proof (induction s pos rule: sanitize_loop.induct)
  case (1 s pos)
  show ?case
  proof (cases "find_first_not_of accept_chars s pos")
    case None
    then have "s ! j \<in> set accept_chars" if "j < length s" for j
      using 1(3) that by (cases "j < pos") (auto simp: find_first_not_of_def find_None_iff)
    then have "map (\<lambda>c. if c \<in> set accept_chars then c else CHR ''_'') s = s"
      by (intro map_idI) (auto simp: in_set_conv_nth)
    then show ?thesis using None by (simp add: sanitize_loop.simps [of s])
  next
    case (Some i)
    note i = find_first_not_ofD [OF Some]
    have "sanitize_loop (s[i := CHR ''_'']) i =
        map (\<lambda>c. if c \<in> set accept_chars then c else CHR ''_'') (s[i := CHR ''_''])"
      using i 1(3) by (intro 1(1) [OF Some]) (auto simp: nth_list_update, metis linorder_not_less)
    moreover have "map (\<lambda>c. if c \<in> set accept_chars then c else CHR ''_'') (s[i := CHR ''_'']) =
        map (\<lambda>c. if c \<in> set accept_chars then c else CHR ''_'') s"
      using i by (simp add: map_update underscore_accepted list_update_same_conv)
    ultimately show ?thesis using Some by (simp add: sanitize_loop.simps [of s])
  qed
qed

text \<open>
  Sanitizing a partition name replaces exactly the characters outside the
  accepted alphabet by an underscore and keeps all others and the length, so a link that is derived from a
  partition label cannot leave its directory, whatever the label contains.
\<close>

theorem partition_name_sanitized:
  "SanitizePartitionName s = map (\<lambda>c. if c \<in> set accept_chars then c else CHR ''_'') s \<and>
   CHR ''/'' \<notin> set (SanitizePartitionName s) \<and> CHR 0x00 \<notin> set (SanitizePartitionName s)"
proof -
  have "SanitizePartitionName s = map (\<lambda>c. if c \<in> set accept_chars then c else CHR ''_'') s"
    by (simp add: SanitizePartitionName_def sanitize_loop_map)
  then show ?thesis by (auto simp: accept_chars_def split: if_splits)
qed

text \<open>The last rule that matches the node or one of its links decides; without one only root has access.\<close>

lemma device_last_rule:
  assumes "dev_permissions d = before @ p # after" and "Match lb k p path \<or> (\<exists>l \<in> set links. Match lb k p l)"
    and "\<And>q l. q \<in> set after \<Longrightarrow> l \<in> set (path # links) \<Longrightarrow> \<not> Match lb k q l"
  shows "GetDevicePermissions lb k d path links = (pm_perm p, pm_uid p, pm_gid p)"
proof -
  have "find (\<lambda>p. Match lb k p path \<or> list_ex (Match lb k p) links) (rev after @ p # rev before) = Some p"
    using assms(2,3)
    by (induction after rule: rev_induct) (auto simp: list_ex_iff)
  then show ?thesis by (simp add: GetDevicePermissions_def assms(1))
qed

lemma device_default_permissions:
  "(\<And>q l. q \<in> set (dev_permissions d) \<Longrightarrow> l \<in> set (path # links) \<Longrightarrow> \<not> Match lb k q l) \<Longrightarrow>
   GetDevicePermissions lb k d path links = (mode_0600, 0, 0)"
proof -
  assume "\<And>q l. q \<in> set (dev_permissions d) \<Longrightarrow> l \<in> set (path # links) \<Longrightarrow> \<not> Match lb k q l"
  then have "find (\<lambda>p. Match lb k p path \<or> list_ex (Match lb k p) links) (rev (dev_permissions d)) = None"
    by (auto simp: find_None_iff list_ex_iff)
  then show ?thesis by (simp add: GetDevicePermissions_def)
qed

section \<open>A device file system on which the contract holds\<close>

record sim_dev =
  sim_ents :: "string \<rightharpoonup> dev_entry"
  sim_gid :: u32
  sim_con :: "string option"

definition sim_view :: "(string \<rightharpoonup> string) \<Rightarrow> (string \<rightharpoonup> string) \<Rightarrow> sim_dev \<Rightarrow> dview" where
  "sim_view real files s =
     \<lparr>ents = sim_ents s, egid = sim_gid s, createcon = sim_con s, sys_real = real, sys_file = files\<rparr>"

definition sim_make :: "string \<Rightarrow> dev_entry \<Rightarrow> sim_dev \<Rightarrow> nat \<times> sim_dev" where
  "sim_make p e s =
     (if sim_ents s p \<noteq> None then (EEXIST, s)
      else if sim_ents s (std_Dirname p) \<noteq> Some Dir then (2, s)
      else (0, s\<lparr>sim_ents := (sim_ents s)(p \<mapsto> e)\<rparr>))"

definition sim_dkern :: "(string \<rightharpoonup> string) \<Rightarrow> (string \<rightharpoonup> string) \<Rightarrow> sim_dev dkern" where
  "sim_dkern real files =
     \<lparr>k_Realpath = (\<lambda>p s. real p), k_Readlink = (\<lambda>p s. case sim_ents s p of Some (SymLink t) \<Rightarrow> Some t | _ \<Rightarrow> None),
      k_ReadFile = (\<lambda>p s. files p), k_access = (\<lambda>p s. sim_ents s p \<noteq> None),
      k_chown = (\<lambda>p u g s. (0, s)), k_chmod = (\<lambda>p m s. (0, s)), k_mknod = (\<lambda>p m dev s. sim_make p (DevNode dev) s),
      k_stat = (\<lambda>p s. Some (0, 384)), k_setegid = (\<lambda>g s. (0, s\<lparr>sim_gid := g\<rparr>)),
      k_setfscreatecon = (\<lambda>con s. s\<lparr>sim_con := con\<rparr>), k_lgetfilecon = (\<lambda>p s. Some ''u:object_r:device:s0''),
      k_lsetfilecon = (\<lambda>p c s. (0, s)), k_restorecon = (\<lambda>p s. (0, s)), k_symlink = (\<lambda>t p s. sim_make p (SymLink t) s),
      k_unlink = (\<lambda>p s. if sim_ents s p = Some Dir then (21, s) else (0, s\<lparr>sim_ents := (sim_ents s)(p := None)\<rparr>)),
      k_mkdir_recursive = (\<lambda>p m s. if sim_ents s p = None then (True, s\<lparr>sim_ents := (sim_ents s)(p \<mapsto> Dir)\<rparr>)
                                   else (sim_ents s p = Some Dir, s)),
      k_readdir = (\<lambda>p s. None), k_SelabelLookup = (\<lambda>p m. Some ''u:object_r:device:s0''),
      k_SelabelBestMatch = (\<lambda>p l m. Some ''u:object_r:device:s0''), k_dm = (\<lambda>dev s. None),
      k_fnmatch = (\<lambda>n p flag. False), k_cmdline = [], k_bootconfig = []\<rparr>"

interpretation sim_device: device_kernel std_libbase "sim_dkern real files" "sim_view real files" for real files
  by (intro device_kernel.intro std_libbase_laws device_kernel_axioms.intro)
    (auto simp: sim_dkern_def sim_view_def sim_make_def std_libbase_def split: option.splits dev_entry.splits)

definition demo_block :: Uevent where
  "demo_block = \<lparr>ue_action = ''add'', ue_path = ''/devices/pci0/x1/vda'', ue_subsystem = ''block'', ue_driver = [],
     ue_partition_name = ''a/b'', ue_partition_uuid = [], ue_device_name = ''vda'', ue_major = 254, ue_minor = 0\<rparr>"

definition demo_handler :: DeviceHandler where
  "demo_handler = make_DeviceHandler [] [] [\<lparr>ss_name = ''drv'', ParseDevPath = (\<lambda>ue. ''/dev/'' @ ue_device_name ue)\<rparr>] [] {} [] False"

definition demo_files :: "string \<rightharpoonup> string" where
  "demo_files = map_of [(''/sys/class/block/vda/queue/zoned'', ''host-managed''),
                        (''/proc/sys/kernel/random/boot_id'', ''1f'')]"

definition demo_real :: "string \<rightharpoonup> string" where
  "demo_real = map_of [(''/sys/devices/a/device'', ''/sys/devices/a'')]"

abbreviation "demo_dkern \<equiv> sim_dkern demo_real demo_files"

definition demo_dirs :: "string list" where
  "demo_dirs = [''/dev'', ''/dev/block'', ''/dev/block/pci/pci0/x1'', ''/dev/block/pci/pci0/x1/by-name'', ''/dev/block/by-name'', ''/dev/sys/block/by-name'']"

definition demo_dev :: sim_dev where
  "demo_dev = \<lparr>sim_ents = map_of (map (\<lambda>p. (p, Dir)) demo_dirs), sim_gid = 0, sim_con = None\<rparr>"

definition demo_links :: "string list" where
  "demo_links = [''/dev/block/pci/pci0/x1/by-name/a_b'', ''/dev/block/by-name/zoned_device'',
     ''/dev/sys/block/by-name/zoned_device'', ''/dev/block/pci/pci0/x1/vda'']"

lemma demo_links_eq: "GetBlockDeviceSymlinks std_libbase demo_dkern demo_handler demo_block demo_dev = demo_links"
proof -
  have "dir @ ''/subsystem'' \<noteq> ''/sys/devices/a/device''" for dir
  proof
    assume "dir @ ''/subsystem'' = ''/sys/devices/a/device''"
    from arg_cong [OF this, of last] show False by simp
  qed
  then have "\<not> in_subsystem demo_dkern paths dir s" for paths dir s
    by (simp add: in_subsystem_def sim_dkern_def demo_real_def)
  then have "FindSubsystemDevice std_libbase demo_dkern demo_handler path paths s = None" for path paths s
    by (simp add: FindSubsystemDevice_def Let_def find_subsystem_find find_None_iff)
  then have "GetBlockDeviceInfo std_libbase demo_dkern demo_handler (ue_path demo_block) demo_dev =
      \<lparr>bi_str = ''pci0/x1'', bi_type = ''pci'', is_boot_device = False\<rparr>"
    by (simp add: GetBlockDeviceInfo_def FindPlatformDevice_def FindPciDevicePrefix_def find_char_from_def substr_def
        demo_handler_def make_DeviceHandler_def demo_block_def std_libbase_def)
  moreover have "SanitizePartitionName ''a/b'' = ''a_b''"
    by (simp add: SanitizePartitionName_def sanitize_loop_map accept_chars_def)
  ultimately show ?thesis
    by (simp add: GetBlockDeviceSymlinks_def FindDmDevice_def demo_block_def std_libbase_def zoned_links_def sim_dkern_def
        demo_files_def demo_links_def rfind_char_def)
qed

lemma demo_calm: "calm (sim_view demo_real demo_files demo_dev)"
  by (simp add: calm_def sim_view_def demo_dev_def)

lemma demo_boot_id: "k_ReadFile demo_dkern ''/proc/sys/kernel/random/boot_id'' s = Some b \<Longrightarrow> Trim std_libbase b \<noteq> []"
proof -
  have "std_Trim ''1f'' = ''1f''" by code_simp
  then show "k_ReadFile demo_dkern ''/proc/sys/kernel/random/boot_id'' s = Some b \<Longrightarrow> Trim std_libbase b \<noteq> []"
    by (auto simp: sim_dkern_def demo_files_def std_libbase_def)
qed

lemma demo_dirnames:
  "std_Dirname ''/dev/block/vda'' = ''/dev/block''" "std_Dirname ''/dev/n0'' = ''/dev''"
  "std_Dirname ''/dev/block/pci/pci0/x1/by-name/a_b'' = ''/dev/block/pci/pci0/x1/by-name''"
  "std_Dirname ''/dev/block/by-name/zoned_device'' = ''/dev/block/by-name''"
  "std_Dirname ''/dev/sys/block/by-name/zoned_device'' = ''/dev/sys/block/by-name''"
  "std_Dirname ''/dev/block/pci/pci0/x1/vda'' = ''/dev/block/pci/pci0/x1''"
  by code_simp+

lemma demo_allowed: "node_allowed std_libbase demo_dkern demo_handler p block links"
  by (simp add: node_allowed_def sim_dkern_def split_beta)

theorem device_block_roundtrip_witness:
  "\<exists>s1 s2. HandleUevent std_libbase demo_dkern demo_block (demo_handler, demo_dev) = Some (Returns (demo_handler, s1)) \<and>
    HandleUevent std_libbase demo_dkern (demo_block\<lparr>ue_action := ''remove''\<rparr>) (demo_handler, s1) =
      Some (Returns (demo_handler, s2)) \<and>
    sim_ents s1 ''/dev/block/pci/pci0/x1/by-name/a_b'' = Some (SymLink ''/dev/block/vda'') \<and>
    sim_ents s2 ''/dev/block/vda'' = None \<and>
    sim_ents s2 ''/dev/sys/block/by-name/zoned_device'' = Some (SymLink ''/sys/class/block/vda'')"
proof -
  let ?view = "sim_view demo_real demo_files"
  have base: "Basename std_libbase ''/devices/pci0/x1/vda'' = ''vda''" "Basename std_libbase ''/dev/block/vda'' = ''vda''"
    by (simp_all add: std_libbase_def std_Basename_def)
  have slots: "\<forall>p \<in> insert ''/dev/block/vda'' (set demo_links).
      ents (?view demo_dev) p = None \<and> ents (?view demo_dev) (Dirname std_libbase p) = Some Dir"
  proof -
    have "list_all (\<lambda>p. sim_ents demo_dev p = None \<and> sim_ents demo_dev (std_Dirname p) = Some Dir) (''/dev/block/vda'' # demo_links)"
      by (simp only: demo_links_def list.pred_inject demo_dirnames) (simp add: demo_dev_def demo_dirs_def)
    then show ?thesis by (auto simp: list_all_iff sim_view_def std_libbase_def)
  qed
  have dev: "''/dev/block/vda'' = ''/dev/block/'' @ Basename std_libbase (ue_path demo_block)"
    by (simp add: demo_block_def base)
  have ev: "sysfs_mount_point demo_handler = ''/sys''" "ue_action demo_block = ''add''" "ue_subsystem demo_block = ''block''"
    "0 \<le> ue_major demo_block" "0 \<le> ue_minor demo_block" "prefix ''/devices'' (ue_path demo_block)"
    "ue_device_name demo_block \<noteq> ''ashmem''" "\<not> prefix ''/devices/virtual/block/dm-'' (ue_path demo_block)"
    "\<not> prefix ''/dev/block/dm-'' ''/dev/block/vda''" "''/dev/block/vda'' \<notin> set demo_links"
    by (simp_all add: demo_block_def demo_handler_def make_DeviceHandler_def demo_links_def)
  let ?P = "\<lambda>s1 s2. HandleUevent std_libbase demo_dkern demo_block (demo_handler, demo_dev) = Some (Returns (demo_handler, s1)) \<and>
    HandleUevent std_libbase demo_dkern (demo_block\<lparr>ue_action := ''remove''\<rparr>) (demo_handler, s1) =
      Some (Returns (demo_handler, s2))"
  let ?Q = "\<lambda>s1. \<forall>l \<in> set demo_links. ents (?view s1) l = Some (SymLink (if prefix ''/dev/block/'' l then ''/dev/block/vda''
         else ''/sys/class/block/'' @ Basename std_libbase ''/dev/block/vda''))"
  let ?R = "\<lambda>s2. \<forall>p. ents (?view s2) p = (if p \<in> set demo_links \<and> \<not> prefix ''/dev/block/'' p
        then Some (SymLink (''/sys/class/block/'' @ Basename std_libbase ''/dev/block/vda'')) else ents (?view demo_dev) p)"
  obtain s1 s2 where p: "?P s1 s2" and q: "?Q s1" and r: "?R s2"
    using device_block_roundtrip [OF sim_device.device_kernel_axioms demo_calm ev(1-8) dev ev(9)
          demo_links_eq [symmetric] ev(10) demo_allowed slots]
    by (elim exE conjE, intro that conjI) assumption+
  have "sim_ents s1 ''/dev/block/pci/pci0/x1/by-name/a_b'' = Some (SymLink ''/dev/block/vda'')"
    using bspec [OF q, of "''/dev/block/pci/pci0/x1/by-name/a_b''"] by (simp add: demo_links_def sim_view_def)
  moreover have "sim_ents s2 ''/dev/block/vda'' = None"
    using spec [OF r, of "''/dev/block/vda''"] by (simp add: sim_view_def demo_dev_def demo_dirs_def)
  moreover have "sim_ents s2 ''/dev/sys/block/by-name/zoned_device'' = Some (SymLink ''/sys/class/block/vda'')"
    using spec [OF r, of "''/dev/sys/block/by-name/zoned_device''"] by (simp add: sim_view_def demo_links_def base)
  ultimately show ?thesis using p by (intro exI [of _ s1] exI [of _ s2]) simp
qed

text \<open>A node event that is tracked, and the bind event of its device.\<close>

definition demo_node :: Uevent where
  "demo_node = \<lparr>ue_action = ''add'', ue_path = ''/devices/a/n0'', ue_subsystem = ''misc'', ue_driver = [],
     ue_partition_name = [], ue_partition_uuid = [], ue_device_name = ''n0'', ue_major = 10, ue_minor = 1\<rparr>"

definition demo_tracking :: DeviceHandler where
  "demo_tracking = demo_handler\<lparr>tracked_uevents := [(demo_node, ''/sys/devices/a''), (demo_node, ''/sys/devices/b'')]\<rparr>"

definition demo_bind :: Uevent where
  "demo_bind = demo_node\<lparr>ue_action := ''bind'', ue_path := ''/devices/a'', ue_driver := ''drv''\<rparr>"

theorem device_bind_unbind_witness:
  "\<exists>d1 s1 d2 s2 dev. HandleUevent std_libbase demo_dkern demo_bind (demo_tracking, demo_dev) = Some (Returns (d1, s1)) \<and>
    HandleUevent std_libbase demo_dkern (demo_bind\<lparr>ue_action := ''unbind''\<rparr>) (d1, s1) = Some (Returns (d2, s2)) \<and>
    sim_ents s1 ''/dev/n0'' = Some (DevNode dev) \<and> sim_ents s2 = sim_ents demo_dev \<and>
    tracked_uevents d2 = [(demo_node, ''/sys/devices/b'')]"
proof -
  let ?driver = "\<lparr>ss_name = ''drv'', ParseDevPath = (\<lambda>ue. ''/dev/'' @ ue_device_name ue)\<rparr>"
  have nodes: "{''/dev/n0''} = driver_nodes ?driver (sysfs_mount_point demo_tracking @ ue_path demo_bind) (tracked_uevents demo_tracking)"
    by (auto simp: driver_nodes_def demo_tracking_def demo_node_def demo_bind_def demo_handler_def make_DeviceHandler_def)
  have slots: "ents (sim_view demo_real demo_files demo_dev) p = None \<and>
      ents (sim_view demo_real demo_files demo_dev) (Dirname std_libbase p) = Some Dir \<and>
      node_allowed std_libbase demo_dkern demo_tracking p False [] \<and> \<not> prefix ''/dev/block/dm-'' p"
    if "p \<in> {''/dev/n0''}" for p
    using that
    by (auto simp: sim_view_def demo_dev_def demo_dirs_def std_libbase_def demo_dirnames
        node_allowed_def sim_dkern_def split_beta)
  have drv: "find (\<lambda>x. ss_name x = ue_driver demo_bind) (drivers demo_tracking) = Some ?driver"
    by (simp add: demo_tracking_def demo_bind_def demo_handler_def make_DeviceHandler_def)
  from device_bind_unbind [OF sim_device.device_kernel_axioms demo_calm _ _ drv nodes slots]
  obtain d1 s1 d2 s2 where
    "HandleUevent std_libbase demo_dkern demo_bind (demo_tracking, demo_dev) = Some (Returns (d1, s1))"
    "HandleUevent std_libbase demo_dkern (demo_bind\<lparr>ue_action := ''unbind''\<rparr>) (d1, s1) = Some (Returns (d2, s2))"
    "\<exists>dev. ents (sim_view demo_real demo_files s1) ''/dev/n0'' = Some (DevNode dev)"
    "ents (sim_view demo_real demo_files s2) = ents (sim_view demo_real demo_files demo_dev)"
    "tracked_uevents d2 = filter (\<lambda>tr. sysfs_mount_point demo_tracking @ ue_path demo_bind \<noteq> snd tr) (tracked_uevents demo_tracking)"
    by (auto simp: demo_bind_def demo_node_def)
  then show ?thesis
    by (auto simp: sim_view_def demo_tracking_def demo_handler_def make_DeviceHandler_def demo_bind_def)
qed

theorem device_event_terminates_witness:
  "\<exists>ds'. HandleUevent std_libbase demo_dkern (demo_node\<lparr>ue_device_name := ''ashmem''\<rparr>) (demo_handler, demo_dev) =
     Some (Returns ds')"
  using device_event_terminates [OF sim_device.device_kernel_axioms demo_calm demo_boot_id,
      where ue = "demo_node\<lparr>ue_device_name := ''ashmem''\<rparr>" and d = demo_handler]
  by (simp add: fatal_event_def demo_node_def)

theorem device_handler_invariant_witness:
  "\<exists>d s. HandleUevent std_libbase demo_dkern demo_node (demo_handler, demo_dev) = Some (Returns (d, s)) \<and>
     sim_gid s = 0 \<and> sim_con s = None"
proof -
  have "\<not> fatal_event demo_handler demo_node" by (simp add: fatal_event_def demo_node_def)
  then obtain d s where ev: "HandleUevent std_libbase demo_dkern demo_node (demo_handler, demo_dev) = Some (Returns (d, s))"
    by (rule sim_device.HandleUevent_returns [OF demo_calm _ demo_boot_id])
  then have "(dev_step std_libbase demo_dkern)\<^sup>*\<^sup>* (demo_handler, demo_dev) (d, s)"
    by (intro r_into_rtranclp dev_step.event)
  from device_handler_invariant [OF sim_device.device_kernel_axioms demo_calm demo_boot_id this [unfolded demo_handler_def]]
  show ?thesis using ev by (auto simp: sim_view_def)
qed

end
