(* ===== verification/Init_Main.thy ===== *)
theory Init_Main
  imports Service
begin

text \<open>
  \<open>init.cpp\<close>: the second stage of init.  The static variables of the file, the service list and the
  property area are the fields of \<open>im\<close>; the action manager, whose code is not in the repository, is a value
  of the parameter type \<open>'q\<close> with operations in \<open>ienv\<close>.  Operations on a service run the model of
  \<open>service.cpp\<close> on one element of the list.  Clock readings and the answers of the system to the
  \<open>n\<close>-th operation are functions of a counter, so that two readings may differ.
\<close>

section \<open>State\<close>

record ctl_msg =
  cm_message :: string
  cm_name :: string
  cm_pid :: int
  cm_fd :: int

datatype boot_op =
    Do_UmountDebugRamdisk | Do_PropertyInit | Do_UmountSecondStageRes | Do_MountTmpfs string | Do_SelinuxSetup
  | Do_EpollOpen | Do_InstallSignalFdHandler | Do_InstallInitNotifier | Do_StartPropertyService
  | Do_StartBootMonitor int | Do_VendorOverlay | Do_SetupMountNamespaces | Do_LoadScript string
  | Do_SaveKallsymsFd | Do_Unsetenv string | Do_WriteFile string string

record 'q im =
  im_services :: "service list"
  im_next_order :: nat
  im_exec :: bool
  im_eff :: "svc_effect list"
  im_ops :: nat
  im_area :: "string \<rightharpoonup> string"
  im_props :: "(string \<times> string) list"
  property_triggers_enabled :: bool
  pending_control_messages :: "ctl_msg list"
  waiting_for_prop :: "int option"
  wait_prop_name :: string
  wait_prop_value :: string
  shutdown_command :: string
  do_shutdown :: bool
  shutting_down :: bool
  wake_main_thread :: nat
  am :: 'q
  responses :: "(int \<times> int) list"
  controller_set :: bool
  boot_log :: "boot_op list"
  late_import_paths :: "string list"

text \<open>
  \<open>im_exec\<close> is \<open>Service::is_exec_service_running()\<close>, \<open>shutting_down\<close> is \<open>IsShuttingDown()\<close>, \<open>wake_main_thread\<close> the
  counter of the event descriptor, \<open>boot_log\<close> what the boot has done to the system, \<open>im_props\<close> the properties that init asks the property service to
  set, and \<open>responses\<close> what has been sent on client sockets, each closed afterwards.
\<close>

record 'q ienv =
  ie_h :: service_h
  ie_lb :: libbase
  ie_start :: "nat \<Rightarrow> start_env"
  ie_now :: "nat \<Rightarrow> int"
  ie_set_sigstop :: "bool \<Rightarrow> service \<Rightarrow> service"
  ie_set_oneshot :: "bool \<Rightarrow> service \<Rightarrow> service"
  ie_FindService :: "service list \<Rightarrow> string \<Rightarrow> nat option"
  ie_FindInterface :: "service list \<Rightarrow> string \<Rightarrow> nat option"
  ie_apex_name :: "string \<Rightarrow> string"
  ie_parse_apex :: "string \<Rightarrow> 'q im \<Rightarrow> bool \<times> 'q im"
  ie_readable :: "string \<Rightarrow> bool"
  ie_fork_execvp :: "string list \<Rightarrow> int"
  ie_stop_services :: "string set \<Rightarrow> nat \<Rightarrow> bool \<Rightarrow> 'q im \<Rightarrow> nat \<times> 'q im"
  ie_QueuePropertyChange :: "string \<Rightarrow> string \<Rightarrow> 'q \<Rightarrow> 'q"
  ie_QueueBuiltinAction :: "string \<Rightarrow> 'q \<Rightarrow> 'q"
  ie_QueueEventTrigger :: "string \<Rightarrow> 'q \<Rightarrow> 'q"
  ie_QueueAllPropertyActions :: "'q \<Rightarrow> 'q"
  ie_RemoveActions :: "string \<Rightarrow> 'q \<Rightarrow> 'q"
  ie_HasMoreCommands :: "'q \<Rightarrow> bool"
  ie_ExecuteOneCommand :: "'q im \<Rightarrow> 'q im"
  ie_powerctl :: "string \<Rightarrow> 'q im \<Rightarrow> 'q im"
  ie_udc :: "nat \<Rightarrow> string list option"
  ie_kColdBootDoneProp :: string
  ie_PROP_SUCCESS :: int
  ie_PROP_ERROR_HANDLE_CONTROL_MESSAGE :: int

definition tick :: "'q ienv \<Rightarrow> 'q im \<Rightarrow> int \<times> 'q im" where
  "tick e m = (ie_now e (im_ops m), m\<lparr>im_ops := Suc (im_ops m)\<rparr>)"

definition get_prop :: "string \<Rightarrow> string \<Rightarrow> 'q im \<Rightarrow> string" where
  "get_prop name dflt m = (case im_area m name of Some v \<Rightarrow> if v = [] then dflt else v | None \<Rightarrow> dflt)"

definition set_prop :: "string \<Rightarrow> string \<Rightarrow> 'q im \<Rightarrow> 'q im" where
  "set_prop name v m = m\<lparr>im_props := im_props m @ [(name, v)]\<rparr>"

section \<open>Waking the main thread\<close>

definition WakeMainInitThread :: "'q im \<Rightarrow> 'q im" where
  "WakeMainInitThread m = m\<lparr>wake_main_thread := wake_main_thread m + 1\<rparr>"

definition clear_eventfd :: "'q im \<Rightarrow> 'q im" where
  "clear_eventfd m = m\<lparr>wake_main_thread := 0\<rparr>"

section \<open>Waiting for a property\<close>

definition StartWaiting :: "'q ienv \<Rightarrow> string \<Rightarrow> string \<Rightarrow> 'q im \<Rightarrow> bool \<times> 'q im" where
  "StartWaiting e name v m =
     (if waiting_for_prop m \<noteq> None then (False, m)
      else if get_prop name [] m \<noteq> v
      then (let (t, m) = tick e m
            in (True, m\<lparr>wait_prop_name := name, wait_prop_value := v, waiting_for_prop := Some t\<rparr>))
      else (True, m))"

definition ResetWaitForProp :: "'q im \<Rightarrow> 'q im" where
  "ResetWaitForProp m = m\<lparr>wait_prop_name := [], wait_prop_value := [], waiting_for_prop := None\<rparr>"

definition record_cold_boot_wait :: "'q ienv \<Rightarrow> string \<Rightarrow> 'q im \<Rightarrow> 'q im" where
  "record_cold_boot_wait e name m =
     (if name = ie_kColdBootDoneProp e
      then (let (t, m) = tick e m
            in set_prop ''ro.boottime.init.cold_boot_wait''
                 (to_string (case waiting_for_prop m of Some t0 \<Rightarrow> (t - t0) div 10 ^ 6 | None \<Rightarrow> 0)) m)
      else m)"

definition CheckAndResetWait :: "'q ienv \<Rightarrow> string \<Rightarrow> string \<Rightarrow> 'q im \<Rightarrow> 'q im" where
  "CheckAndResetWait e name v m =
     (let m = record_cold_boot_wait e name m
      in if waiting_for_prop m \<noteq> None \<and> wait_prop_name m = name \<and> wait_prop_value m = v
         then WakeMainInitThread (ResetWaitForProp m) else m)"

definition MightBeWaiting :: "'q im \<Rightarrow> bool" where
  "MightBeWaiting m \<longleftrightarrow> waiting_for_prop m \<noteq> None"

section \<open>Shutdown requests\<close>

definition RequestShutdown :: "string \<Rightarrow> 'q im \<Rightarrow> 'q im" where
  "RequestShutdown command m = WakeMainInitThread (m\<lparr>shutdown_command := command, do_shutdown := True\<rparr>)"

definition CheckShutdown :: "'q im \<Rightarrow> string option \<times> 'q im" where
  "CheckShutdown m =
     (if do_shutdown m \<and> \<not> shutting_down m then (Some (shutdown_command m), m\<lparr>do_shutdown := False\<rparr>) else (None, m))"

section \<open>Operations on a service of the list\<close>

text \<open>
  One element of the list is handed to the model of \<open>service.cpp\<close>; afterwards the shutdown requests among its
  effects reach the shutdown state of this file.
\<close>

definition apply_effect :: "svc_effect \<Rightarrow> 'q im \<Rightarrow> 'q im" where
  "apply_effect x m = (case x of TriggerShutdown command \<Rightarrow> RequestShutdown command m | _ \<Rightarrow> m)"

definition focus :: "nat \<Rightarrow> 'q im \<Rightarrow> world" where
  "focus i m =
     \<lparr>svc = im_services m ! i, next_start_order = im_next_order m, is_exec_service_running = im_exec m, eff = []\<rparr>"

definition unfocus :: "nat \<Rightarrow> world \<Rightarrow> 'q im \<Rightarrow> 'q im" where
  "unfocus i w m =
     fold apply_effect (eff w)
       (m\<lparr>im_services := (im_services m)[i := svc w], im_next_order := next_start_order w,
          im_exec := is_exec_service_running w, im_eff := im_eff m @ eff w, im_ops := Suc (im_ops m)\<rparr>)"

definition on_service :: "(start_env \<Rightarrow> world \<Rightarrow> svc_error option \<times> world) \<Rightarrow> 'q ienv \<Rightarrow> nat \<Rightarrow> 'q im \<Rightarrow> svc_error option \<times> 'q im" where
  "on_service f e i m = (case f (ie_start e (im_ops m)) (focus i m) of (r, w) \<Rightarrow> (r, unfocus i w m))"

definition DoControlStart :: "'q ienv \<Rightarrow> nat \<Rightarrow> 'q im \<Rightarrow> svc_error option \<times> 'q im" where
  "DoControlStart e = on_service (Start (ie_h e)) e"

definition DoControlStop :: "'q ienv \<Rightarrow> nat \<Rightarrow> 'q im \<Rightarrow> svc_error option \<times> 'q im" where
  "DoControlStop e = on_service (\<lambda>se w. (None, Stop (ie_h e) se w)) e"

definition DoControlRestart :: "'q ienv \<Rightarrow> nat \<Rightarrow> 'q im \<Rightarrow> svc_error option \<times> 'q im" where
  "DoControlRestart e = on_service (\<lambda>se w. (None, Restart (ie_h e) se w)) e"

definition set_field :: "(service \<Rightarrow> service) \<Rightarrow> 'q ienv \<Rightarrow> nat \<Rightarrow> 'q im \<Rightarrow> svc_error option \<times> 'q im" where
  "set_field f = on_service (\<lambda>se w. (None, upd f w))"

section \<open>Timeouts and restarts\<close>

definition earlier :: "int option \<Rightarrow> int \<Rightarrow> int option" where
  "earlier next t = (case next of None \<Rightarrow> Some t | Some n \<Rightarrow> if t < n then Some t else Some n)"

definition process_timeout :: "'q ienv \<Rightarrow> nat \<Rightarrow> int option \<times> 'q im \<Rightarrow> int option \<times> 'q im" where
  "process_timeout e i nm =
     (let (next, m) = nm; s = im_services m ! i
      in case sv_timeout_period s of
           Some period \<Rightarrow>
             if SVC_RUNNING \<in> sv_flags s then
               (let timeout_time = sv_time_started s + period * 10 ^ 9; (tnow, m) = tick e m
                in if tnow > timeout_time
                   then (next, snd (on_service (\<lambda>se w. (None, Timeout (ie_h e) se w)) e i m))
                   else (earlier next timeout_time, m))
             else (next, m)
         | None \<Rightarrow> (next, m))"

definition process_restart :: "'q ienv \<Rightarrow> nat \<Rightarrow> int option \<times> 'q im \<Rightarrow> int option \<times> 'q im" where
  "process_restart e i nm =
     (let (next, m) = nm; s = im_services m ! i
      in if SVC_RESTARTING \<notin> sv_flags s then (next, m)
         else
           (let restart_time = sv_time_started s + sv_restart_period s * 10 ^ 9; (tnow, m) = tick e m
            in if tnow > restart_time then (next, snd (on_service (Start (ie_h e)) e i m))
               else (earlier next restart_time, m)))"

definition HandleProcessActions :: "'q ienv \<Rightarrow> 'q im \<Rightarrow> int option \<times> 'q im" where
  "HandleProcessActions e m =
     fold (\<lambda>i nm. process_restart e i (process_timeout e i nm)) [0..<length (im_services m)] (None, m)"

section \<open>APEX modules\<close>

definition StopServicesFromApex :: "'q ienv \<Rightarrow> string \<Rightarrow> 'q im \<Rightarrow> nat \<times> 'q im" where
  "StopServicesFromApex e apex m =
     (let names = {sv_name s |s. s \<in> set (im_services m) \<and> ie_apex_name e (sv_filename s) = apex}
      in if names = {} then (0, m)
         else (let (still, m) = ie_stop_services e names 10000 True m
               in if still > 0 then ie_stop_services e names 0 False m else (still, m)))"

definition RemoveServiceAndActionFromApex :: "'q ienv \<Rightarrow> string \<Rightarrow> 'q im \<Rightarrow> 'q im" where
  "RemoveServiceAndActionFromApex e apex m =
     m\<lparr>am := ie_RemoveActions e apex (am m),
       im_services := filter (\<lambda>s. ie_apex_name e (sv_filename s) \<noteq> apex) (im_services m)\<rparr>"

definition DoUnloadApex :: "'q ienv \<Rightarrow> string \<Rightarrow> 'q im \<Rightarrow> bool \<times> 'q im" where
  "DoUnloadApex e apex m =
     (let (still, m) = StopServicesFromApex e apex m
      in if still > 0 then (False, m) else (True, RemoveServiceAndActionFromApex e apex m))"

definition UpdateApexLinkerConfig :: "'q ienv \<Rightarrow> string \<Rightarrow> bool" where
  "UpdateApexLinkerConfig e apex =
     (if \<not> ie_readable e (''/apex/'' @ apex @ ''/bin'') then True
      else ie_fork_execvp e [''/apex/com.android.runtime/bin/linkerconfig'', ''--target'', ''/linkerconfig'',
             ''--apex'', apex, ''--strict''] = 0)"

definition DoLoadApex :: "'q ienv \<Rightarrow> string \<Rightarrow> 'q im \<Rightarrow> bool \<times> 'q im" where
  "DoLoadApex e apex m =
     (let (ok, m) = ie_parse_apex e apex m
      in if \<not> ok then (False, m) else (UpdateApexLinkerConfig e apex, m))"

definition HandleApexControlMessage :: "'q ienv \<Rightarrow> string \<Rightarrow> string \<Rightarrow> 'q im \<Rightarrow> bool \<times> 'q im" where
  "HandleApexControlMessage e action name m =
     (if action = ''load'' then DoLoadApex e name m
      else if action = ''unload'' then DoUnloadApex e name m
      else (False, m))"

section \<open>Control messages\<close>

definition GetControlMessageMap ::
    "'q ienv \<Rightarrow> string \<rightharpoonup> ('q ienv \<Rightarrow> nat \<Rightarrow> 'q im \<Rightarrow> svc_error option \<times> 'q im)" where
  "GetControlMessageMap e =
     map_of [(''sigstop_on'', set_field (ie_set_sigstop e True)), (''sigstop_off'', set_field (ie_set_sigstop e False)),
             (''oneshot_on'', set_field (ie_set_oneshot e True)), (''oneshot_off'', set_field (ie_set_oneshot e False)),
             (''start'', DoControlStart), (''stop'', DoControlStop), (''restart'', DoControlRestart)]"

definition HandleControlMessage :: "'q ienv \<Rightarrow> string \<Rightarrow> string \<Rightarrow> 'q im \<Rightarrow> bool \<times> 'q im" where
  "HandleControlMessage e message name m =
     (case ConsumePrefix (ie_lb e) message ''apex_'' of
        Some action \<Rightarrow> HandleApexControlMessage e action name m
      | None \<Rightarrow>
          (let (action, target) =
             (case ConsumePrefix (ie_lb e) message ''interface_'' of
                Some action \<Rightarrow> (action, ie_FindInterface e (im_services m) name)
              | None \<Rightarrow> (message, ie_FindService e (im_services m) name))
           in case target of
                None \<Rightarrow> (False, m)
              | Some i \<Rightarrow>
                  (case GetControlMessageMap e action of
                     None \<Rightarrow> (False, m)
                   | Some f \<Rightarrow> (case f e i m of (r, m) \<Rightarrow> (r = None, m)))))"

definition QueueControlMessage :: "string \<Rightarrow> string \<Rightarrow> int \<Rightarrow> int \<Rightarrow> 'q im \<Rightarrow> bool \<times> 'q im" where
  "QueueControlMessage message name p fd m =
     (if length (pending_control_messages m) > 100 then (False, m)
      else (True, WakeMainInitThread (m\<lparr>pending_control_messages := pending_control_messages m @
              [\<lparr>cm_message = message, cm_name = name, cm_pid = p, cm_fd = fd\<rparr>]\<rparr>)))"

definition respond :: "'q ienv \<Rightarrow> ctl_msg \<Rightarrow> bool \<Rightarrow> 'q im \<Rightarrow> 'q im" where
  "respond e c success m =
     (if cm_fd c \<noteq> -1
      then m\<lparr>responses := responses m @
               [(cm_fd c, if success then ie_PROP_SUCCESS e else ie_PROP_ERROR_HANDLE_CONTROL_MESSAGE e)]\<rparr>
      else m)"

definition HandleControlMessages :: "'q ienv \<Rightarrow> 'q im \<Rightarrow> 'q im" where
  "HandleControlMessages e m =
     (let m = (case pending_control_messages m of
                 [] \<Rightarrow> m
               | c # rest \<Rightarrow>
                   (let (success, m) =
                      HandleControlMessage e (cm_message c) (cm_name c) (m\<lparr>pending_control_messages := rest\<rparr>)
                    in respond e c success m))
      in if pending_control_messages m \<noteq> [] then WakeMainInitThread m else m)"

definition PropertyChanged :: "'q ienv \<Rightarrow> string \<Rightarrow> string \<Rightarrow> 'q im \<Rightarrow> 'q im" where
  "PropertyChanged e name v m =
     (let m = (if name = ''sys.powerctl'' then RequestShutdown v m else m);
          m = (if property_triggers_enabled m
               then WakeMainInitThread (m\<lparr>am := ie_QueuePropertyChange e name v (am m)\<rparr>) else m)
      in CheckAndResetWait e name v m)"

definition HandleKeychord :: "'q ienv \<Rightarrow> int list \<Rightarrow> 'q im \<Rightarrow> 'q im" where
  "HandleKeychord e keycodes m =
     (if get_prop ''init.svc.adbd'' [] m \<noteq> ''running'' then m
      else fold (\<lambda>i m. if sv_keycodes (im_services m ! i) = keycodes then snd (DoControlStart e i m) else m)
             [0..<length (im_services m)] m)"

text \<open>
  The handler of the signal descriptors, given what could be read: the signal and its sender.  Reaping is
  \<open>ReapAnyOutstandingChildren\<close> of another file.
\<close>

definition SIGCHLD :: int where "SIGCHLD = 17"

definition SIGTERM :: int where "SIGTERM = 15"

definition HandleSigtermSignal :: "'q ienv \<Rightarrow> int \<Rightarrow> 'q im \<Rightarrow> 'q im" where
  "HandleSigtermSignal e ssi_pid m = (if ssi_pid \<noteq> 0 then m else ie_powerctl e ''shutdown,container'' m)"

definition HandleSignalFd :: "'q ienv \<Rightarrow> ('q im \<Rightarrow> 'q im) \<Rightarrow> (int \<times> int) option \<Rightarrow> 'q im \<Rightarrow> 'q im" where
  "HandleSignalFd e reap siginfo m =
     (case siginfo of
        None \<Rightarrow> m
      | Some (ssi_signo, ssi_pid) \<Rightarrow>
          if ssi_signo = SIGCHLD then reap m
          else if ssi_signo = SIGTERM then HandleSigtermSignal e ssi_pid m else m)"

definition SetUsbController :: "'q ienv \<Rightarrow> 'q im \<Rightarrow> 'q im" where
  "SetUsbController e m =
     (if controller_set m then m
      else case ie_udc e (im_ops m) of
        None \<Rightarrow> m
      | Some entries \<Rightarrow>
          (case find (\<lambda>n. \<not> (n \<noteq> [] \<and> n ! 0 = CHR ''.'')) entries of
             None \<Rightarrow> m
           | Some n \<Rightarrow> (set_prop ''sys.usb.controller'' n m)\<lparr>controller_set := True\<rparr>))"

section \<open>Builtin actions\<close>

definition wait_for_coldboot_done_action :: "'q ienv \<Rightarrow> 'q im \<Rightarrow> 'q im outcome" where
  "wait_for_coldboot_done_action e m =
     (case StartWaiting e (ie_kColdBootDoneProp e) ''true'' m of (ok, m) \<Rightarrow> if ok then Returns m else Aborts)"

definition property_enable_triggers_action :: "'q im \<Rightarrow> 'q im" where
  "property_enable_triggers_action m = m\<lparr>property_triggers_enabled := True\<rparr>"

definition queue_property_triggers_action :: "'q ienv \<Rightarrow> 'q im \<Rightarrow> 'q im" where
  "queue_property_triggers_action e m =
     m\<lparr>am := ie_QueueAllPropertyActions e (ie_QueueBuiltinAction e ''enable_property_trigger'' (am m))\<rparr>"

definition export_oem_lock_status :: "'q im \<Rightarrow> 'q im" where
  "export_oem_lock_status m =
     (if get_prop ''ro.oem_unlock_supported'' [] m \<notin> {''1'', ''y'', ''yes'', ''on'', ''true''} then m
      else set_prop ''ro.boot.flash.locked''
             (if get_prop ''ro.boot.verifiedbootstate'' [] m = ''orange'' then ''0'' else ''1'') m)"

section \<open>The main loop\<close>

text \<open>
  The loop of \<open>SecondStageMain\<close>, cut where other threads matter: looking for a shutdown request, running a
  command, looking after the processes, waiting, and handling a control message.  \<open>next\<close> is
  \<open>next_action_time\<close>, where \<open>None\<close> is \<open>far_future\<close>.
\<close>

definition loop_shutdown :: "'q ienv \<Rightarrow> 'q im \<Rightarrow> 'q im" where
  "loop_shutdown e m = (case CheckShutdown m of (Some command, m) \<Rightarrow> ie_powerctl e command m | (None, m) \<Rightarrow> m)"

definition loop_execute :: "'q ienv \<Rightarrow> 'q im \<Rightarrow> int option \<times> 'q im" where
  "loop_execute e m =
     (if MightBeWaiting m \<or> im_exec m then (None, m)
      else
        (let m = ie_ExecuteOneCommand e m
         in if ie_HasMoreCommands e (am m) then (let (t, m) = tick e m in (Some t, m)) else (None, m)))"

definition loop_process :: "'q ienv \<Rightarrow> int option \<times> 'q im \<Rightarrow> int option \<times> 'q im" where
  "loop_process e nm =
     (let (next, m) = nm
      in if shutting_down m then (next, m)
         else (case HandleProcessActions e m of
                 (None, m) \<Rightarrow> (next, m)
               | (Some t, m) \<Rightarrow> ((case next of None \<Rightarrow> Some t | Some n \<Rightarrow> Some (min n t)), m)))"

text \<open>The timeout of \<open>Epoll::Wait\<close> in milliseconds; \<open>None\<close> waits without limit.\<close>

definition epoll_timeout :: "int option \<Rightarrow> int \<Rightarrow> int option" where
  "epoll_timeout next tnow = map_option (\<lambda>n. (max (n - tnow) 0 + (10 ^ 6 - 1)) div 10 ^ 6) next"

definition loop_wait :: "'q ienv \<Rightarrow> int option \<times> 'q im \<Rightarrow> int option \<times> 'q im" where
  "loop_wait e nm =
     (let (next, m) = nm
      in case next of None \<Rightarrow> (None, m) | Some _ \<Rightarrow> (let (tnow, m) = tick e m in (epoll_timeout next tnow, m)))"

definition loop_control :: "'q ienv \<Rightarrow> 'q im \<Rightarrow> 'q im" where
  "loop_control e m = (if shutting_down m then m else SetUsbController e (HandleControlMessages e m))"

section \<open>The boot of the second stage\<close>

record 'q benv = "'q ienv" +
  be_setenv_ok :: bool
  be_getenv :: "string \<Rightarrow> string option"
  be_IsDeviceUnlocked :: bool
  be_PropertyInit :: "'q im \<Rightarrow> 'q im"
  be_mount_ok :: "string \<Rightarrow> bool"
  be_NeedsTwoMountNamespaces :: bool
  be_epoll_ok :: bool
  be_signals_ok :: bool
  be_eventfd_ok :: bool
  be_SetupMountNamespaces :: bool
  be_parse :: "string \<Rightarrow> 'q im \<Rightarrow> bool \<times> 'q im"
  be_IsGsiRunning :: bool
  be_IsGsiInstalled :: bool
  be_GetActiveDsu :: "string option"
  be_uname :: "(nat \<times> nat) option"
  be_start_time :: int
  be_snapuserd_pid :: "int option"
  be_snapuserd_info :: "string list"
  be_CgroupsAvailable :: bool
  be_CgroupSetup :: bool
  be_SetShutdownCritical :: "service \<Rightarrow> service"
  kEnvFirstStageStartedAt :: string
  kEnvSelinuxStartedAt :: string
  kEnvInitModuleDurationMs :: string
  kGsiBootedProp :: string
  kGsiInstalledProp :: string
  kDsuSlotProp :: string

definition did :: "boot_op \<Rightarrow> 'q im \<Rightarrow> 'q im" where
  "did op m = m\<lparr>boot_log := boot_log m @ [op]\<rparr>"

definition fatal_if :: "bool \<Rightarrow> 'q im \<Rightarrow> 'q im outcome" where
  "fatal_if bad m = (if bad then Aborts else Returns m)"

definition check_mount :: "'q benv \<Rightarrow> string \<Rightarrow> 'q im \<Rightarrow> 'q im outcome" where
  "check_mount b p m = (if be_mount_ok b p then Returns (did (Do_MountTmpfs p) m) else Aborts)"

definition MountExtraFilesystems :: "'q benv \<Rightarrow> 'q im \<Rightarrow> 'q im outcome" where
  "MountExtraFilesystems b m =
     out_fold (check_mount b)
       ([''/apex''] @ (if be_NeedsTwoMountNamespaces b then [''/bootstrap-apex''] else []) @ [''/linkerconfig'']) m"

definition env_int :: "'q benv \<Rightarrow> string \<Rightarrow> int" where
  "env_int b name =
     (case be_getenv b name of
        None \<Rightarrow> -1
      | Some v \<Rightarrow> (case ParseInt (ie_lb (ienv.truncate b)) v INT64_MIN INT64_MAX of Some n \<Rightarrow> n | None \<Rightarrow> -1))"

definition RecordStageBoottimes :: "'q benv \<Rightarrow> 'q im \<Rightarrow> 'q im" where
  "RecordStageBoottimes b m =
     (let first_stage = env_int b (kEnvFirstStageStartedAt b); selinux = env_int b (kEnvSelinuxStartedAt b);
          m = (case be_getenv b (kEnvFirstStageStartedAt b) of Some v \<Rightarrow> set_prop ''ro.boottime.init'' v m | None \<Rightarrow> m);
          m = did (Do_Unsetenv (kEnvSelinuxStartedAt b)) (did (Do_Unsetenv (kEnvFirstStageStartedAt b)) m)
      in if selinux = -1 then m
         else if first_stage = -1 then m
         else
           (let m = set_prop ''ro.boottime.init.first_stage'' (to_string (i64 (selinux - first_stage))) m;
                m = set_prop ''ro.boottime.init.selinux'' (to_string (i64 (be_start_time b - selinux))) m
            in case be_getenv b (kEnvInitModuleDurationMs b) of
                 Some v \<Rightarrow> did (Do_Unsetenv (kEnvInitModuleDurationMs b)) (set_prop ''ro.boottime.init.modules'' v m)
               | None \<Rightarrow> m))"

text \<open>The whole seconds that the boot monitor waits: \<open>cur_sec\<close> is an \<open>int\<close>.\<close>

definition boot_timeout :: "int \<Rightarrow> int \<Rightarrow> int" where
  "boot_timeout timeout_sec now_ns =
     (let cur_sec = i32 (now_ns div 10 ^ 9) in if timeout_sec \<le> cur_sec then 0 else timeout_sec - cur_sec)"

text \<open>The body of the monitor thread; \<open>completed\<close> is the answer of \<open>WaitForProperty\<close>.\<close>

definition SecondStageBootMonitor :: "(string \<Rightarrow> string \<Rightarrow> int \<Rightarrow> bool) \<Rightarrow> string \<Rightarrow> int \<Rightarrow> int \<Rightarrow> 'q im \<Rightarrow> 'q im" where
  "SecondStageBootMonitor completed proc_sysrq timeout_sec now_ns m =
     (if \<not> completed ''sys.boot_completed'' ''1'' (boot_timeout timeout_sec now_ns)
      then did (Do_WriteFile proc_sysrq ''c'') m else m)"

definition start_boot_monitor :: "'q benv \<Rightarrow> 'q im \<Rightarrow> 'q im" where
  "start_boot_monitor b m =
     (let timeout = (case ParseInt (ie_lb (ienv.truncate b)) (get_prop ''ro.boot.boot_timeout'' [] m) INT_MIN INT_MAX of
                       Some n \<Rightarrow> n | None \<Rightarrow> 0)
      in if get_prop ''ro.debuggable'' [] m \<in> {''1'', ''y'', ''yes'', ''on'', ''true''} \<and> timeout > 0
         then did (Do_StartBootMonitor timeout) m else m)"

definition load_script :: "'q benv \<Rightarrow> bool \<Rightarrow> string \<Rightarrow> 'q im \<Rightarrow> 'q im" where
  "load_script b late path m =
     (case be_parse b path (did (Do_LoadScript path) m) of
        (ok, m) \<Rightarrow> if \<not> ok \<and> late then m\<lparr>late_import_paths := late_import_paths m @ [path]\<rparr> else m)"

definition LoadBootScripts :: "'q benv \<Rightarrow> 'q im \<Rightarrow> 'q im" where
  "LoadBootScripts b m =
     (let bootscript = get_prop ''ro.boot.init_rc'' [] m
      in if bootscript = [] then
           fold (\<lambda>(late, path). load_script b late path)
             [(False, ''/system/etc/init/hw/init.rc''), (True, ''/system/etc/init''), (False, ''/system_ext/etc/init''),
              (True, ''/vendor/etc/init''), (True, ''/odm/etc/init''), (True, ''/product/etc/init'')] m
         else load_script b False bootscript m)"

definition export_gsi :: "'q benv \<Rightarrow> 'q im \<Rightarrow> 'q im" where
  "export_gsi b m =
     (let m = set_prop (kGsiBootedProp b) (if be_IsGsiRunning b then ''1'' else ''0'') m;
          m = set_prop (kGsiInstalledProp b) (if be_IsGsiInstalled b then ''1'' else ''0'') m
      in if be_IsGsiRunning b
         then (case be_GetActiveDsu b of Some slot \<Rightarrow> set_prop (kDsuSlotProp b) slot m | None \<Rightarrow> m) else m)"

definition SetKernelVersion :: "'q benv \<Rightarrow> 'q im \<Rightarrow> 'q im" where
  "SetKernelVersion b m =
     (case be_uname b of
        None \<Rightarrow> m
      | Some (ma, mi) \<Rightarrow> set_prop ''ro.kernel.version'' (dec ma @ ''.'' @ dec mi) m)"

definition SetupCgroupsAction :: "'q benv \<Rightarrow> bool" where
  "SetupCgroupsAction b \<longleftrightarrow> (\<not> be_CgroupsAvailable b \<or> be_CgroupSetup b)"

definition queue_boot_actions :: "'q ienv \<Rightarrow> string \<Rightarrow> 'q \<Rightarrow> 'q" where
  "queue_boot_actions e bootmode q =
     (let q = ie_QueueBuiltinAction e ''SetupCgroups'' q;
          q = ie_QueueBuiltinAction e ''SetKptrRestrict'' q;
          q = ie_QueueBuiltinAction e ''TestPerfEventSelinux'' q;
          q = ie_QueueEventTrigger e ''early-init'' q;
          q = ie_QueueBuiltinAction e ''ConnectEarlyStageSnapuserd'' q;
          q = ie_QueueBuiltinAction e ''wait_for_coldboot_done'' q;
          q = ie_QueueBuiltinAction e ''SetMmapRndBits'' q;
          q = ie_QueueBuiltinAction e ''KeychordInit'' q;
          q = ie_QueueEventTrigger e ''init'' q;
          q = ie_QueueEventTrigger e (if bootmode = ''charger'' then ''charger'' else ''late-init'') q
      in ie_QueueBuiltinAction e ''queue_property_triggers'' q)"

text \<open>\<open>ConnectEarlyStageSnapuserdAction\<close>: handing the snapuserd of the first stage over to its services.\<close>

definition connect_snapuserd :: "'q benv \<Rightarrow> 'q im \<Rightarrow> 'q im outcome" where
  "connect_snapuserd b m =
     (let e = ienv.truncate b
      in case be_snapuserd_pid b of
        None \<Rightarrow> Returns m
      | Some p \<Rightarrow>
          if ''socket'' \<notin> set (be_snapuserd_info b) then Returns m
          else
            (case ie_FindService e (im_services m) ''snapuserd'' of
               None \<Rightarrow> Aborts
             | Some i \<Rightarrow>
                 (let m = snd (set_field (be_SetShutdownCritical b) e i m);
                      m = snd (on_service (\<lambda>se w. (None, SetStartedInFirstStage se p w)) e i m)
                  in case ie_FindService e (im_services m) ''snapuserd_proxy'' of
                       None \<Rightarrow> Aborts
                     | Some j \<Rightarrow>
                         if \<not> snd (MarkSocketPersistent ''snapuserd'' (im_services m ! j)) then Aborts
                         else
                           (let m = snd (set_field (\<lambda>s. fst (MarkSocketPersistent ''snapuserd'' s)) e j m);
                                (r, m) = DoControlStart e j m
                            in if r \<noteq> None then Aborts else Returns m))))"

definition load_debug_prop :: "'q benv \<Rightarrow> bool" where
  "load_debug_prop b \<longleftrightarrow>
     (case be_getenv b ''INIT_FORCE_DEBUGGABLE'' of
        Some v \<Rightarrow> be_IsDeviceUnlocked b \<and> v = ''true''
      | None \<Rightarrow> False)"

text \<open>From the start of \<open>SecondStageMain\<close> to the properties being loaded, and on to the main loop.\<close>

definition boot_properties :: "'q benv \<Rightarrow> 'q im \<Rightarrow> 'q im" where
  "boot_properties b m =
     (let m = did (Do_Unsetenv ''INIT_FORCE_DEBUGGABLE'') m;
          m = (if \<not> load_debug_prop b then did Do_UmountDebugRamdisk m else m);
          m = be_PropertyInit b (did Do_PropertyInit m);
          m = did Do_UmountSecondStageRes m
      in if load_debug_prop b then did Do_UmountDebugRamdisk m else m)"

definition boot_services :: "'q benv \<Rightarrow> 'q im \<Rightarrow> 'q im outcome" where
  "boot_services b m =
     (let m = start_boot_monitor b (did Do_StartPropertyService m);
          m = RecordStageBoottimes b m;
          m = (case be_getenv b ''INIT_AVB_VERSION'' of Some v \<Rightarrow> set_prop ''ro.boot.avb_version'' v m | None \<Rightarrow> m);
          m = did Do_VendorOverlay (did (Do_Unsetenv ''INIT_AVB_VERSION'') m);
          m = SetKernelVersion b (SetUsbController (ienv.truncate b) (export_oem_lock_status m))
      in out_bind (fatal_if (\<not> be_SetupMountNamespaces b) m)
           (\<lambda>m.
             let m = export_gsi b (LoadBootScripts b (did Do_SetupMountNamespaces m));
                 m = did Do_SaveKallsymsFd m
             in Returns (m\<lparr>am := queue_boot_actions (ienv.truncate b) (get_prop ''ro.bootmode'' [] m) (am m)\<rparr>)))"

definition SecondStageMain :: "'q benv \<Rightarrow> 'q im \<Rightarrow> 'q im outcome" where
  "SecondStageMain b m =
     out_bind (fatal_if (\<not> be_setenv_ok b) m) (\<lambda>m.
     out_bind (MountExtraFilesystems b
                 (boot_properties b (did (Do_WriteFile ''/dev/.booting'' []) (did (Do_WriteFile ''/proc/1/oom_score_adj'' (to_string (DEFAULT_OOM_SCORE_ADJUST (ie_h (ienv.truncate b))))) m)))) (\<lambda>m.
     out_bind (fatal_if (\<not> be_epoll_ok b) (did Do_SelinuxSetup m)) (\<lambda>m.
     out_bind (fatal_if (\<not> be_signals_ok b) (did Do_EpollOpen m)) (\<lambda>m.
     out_bind (fatal_if (\<not> be_eventfd_ok b) (did Do_InstallSignalFdHandler m)) (\<lambda>m.
       boot_services b (did Do_InstallInitNotifier m))))))"

end
