(* ===== verification/Init_Loop.thy ===== *)
theory Init_Loop
  imports Init_Main Service_Control
begin

text \<open>
  The main loop of init beside its property thread, as a step relation, and what every step keeps: each
  service satisfies the invariant of \<open>service.cpp\<close>, and whatever there is to do has a wake-up on its way.
  The commands of the action queue, power control and the parser of APEX configurations are outside this
  repository; the locale \<open>init_env\<close> states what they are relied on for.
\<close>

section \<open>Frames of the operations on a service\<close>

text \<open>What an operation on one service leaves alone of the rest of init's state.\<close>

lemma exec_flags [simp]:
  "is_exec_service_running (set_flags fs w) = is_exec_service_running w"
  "is_exec_service_running (clear_flags fs w) = is_exec_service_running w"
  "is_exec_service_running (emit x w) = is_exec_service_running w"
  "is_exec_service_running (upd f w) = is_exec_service_running w"
  by (simp_all add: set_flags_def clear_flags_def emit_def upd_def)

lemma exec_fold_emit [simp]: "is_exec_service_running (fold (\<lambda>d. emit (f d)) xs w) = is_exec_service_running w"
  by (induction xs arbitrary: w) simp_all

lemma exec_parts:
  "is_exec_service_running (snd (CheckConsole e w)) = is_exec_service_running w"
  "is_exec_service_running (SetMountNamespace r w) = is_exec_service_running w"
  "is_exec_service_running (start_record h e w) = is_exec_service_running w"
  "is_exec_service_running (ConfigureMemcg h e w) = is_exec_service_running w"
  by (simp_all add: CheckConsole_def SetMountNamespace_def start_record_def ConfigureMemcg_def Let_def)

lemma exec_start_cgroups: "is_exec_service_running (snd (start_cgroups h e w)) = is_exec_service_running w"
  by (simp add: start_cgroups_def Let_def exec_parts)

lemma exec_start_handover: "is_exec_service_running (snd (start_handover h e w)) = is_exec_service_running w"
  by (simp add: start_handover_def Let_def svc_frame split: sum.splits)

lemma exec_start_parent: "is_exec_service_running (snd (start_parent h e w)) = is_exec_service_running w"
  using exec_start_cgroups [of h e "start_record h e w"] exec_start_handover
  by (auto simp: start_parent_def exec_parts split: prod.splits option.splits)

lemma exec_start_checked: "is_exec_service_running (snd (start_checked h e w)) = is_exec_service_running w"
proof -
  obtain r w1 where c: "CheckConsole e w = (r, w1)" by force
  then have "is_exec_service_running w1 = is_exec_service_running w" using exec_parts(1) [of e w] by simp
  then show ?thesis
    by (simp add: start_checked_def c Let_def exec_start_parent exec_parts split: option.split sum.split)
qed

lemma exec_Start: "is_exec_service_running (snd (Start h e w)) = is_exec_service_running w"
proof -
  have "is_exec_service_running (snd (start_body h e w)) = is_exec_service_running w"
    by (simp add: start_body_def Let_def ResetFlagsForStart_def exec_start_checked)
  then show ?thesis
    by (auto simp: Start_def reboot_on_failure_def split: prod.splits option.splits)
qed

lemma exec_StopOrReset: "is_exec_service_running (StopOrReset h e how w) = is_exec_service_running w"
  by (simp add: StopOrReset_def Let_def svc_frame)

lemma exec_control:
  "is_exec_service_running (Timeout h e w) = is_exec_service_running w"
  "is_exec_service_running (Restart h se w) = is_exec_service_running w"
  by (simp_all add: Timeout_def Restart_def svc_frame exec_Start exec_StopOrReset)

declare control_inv.simps [simp del]

section \<open>Steps of the system\<close>

text \<open>
  The main thread is at one of six places of its loop, \<open>AtHandlers\<close> inside \<open>Epoll::Wait\<close>; \<open>next\<close> and the timeout are local variables of the
  loop.  The property thread sets properties; the notification of each change is delivered later, in
  order.  A control message may be queued at any time.
\<close>

datatype main_pc =
    AtShutdown
  | AtExecute
  | AtProcess "int option"
  | AtWait "int option"
  | AtHandlers
  | AtControl

record 'q sys =
  main :: "'q im"
  pc :: main_pc
  inflight :: "(string \<times> string) list"

text \<open>
  Reaping finds children that have exited, each the process of a running service.  Once \<open>Epoll::Wait\<close> has
  been woken it first reaps, the first callback, and then calls the handlers of the descriptors that are ready, in any order.
\<close>

definition reap_service :: "'q ienv \<Rightarrow> reap_env \<Rightarrow> int \<Rightarrow> int \<Rightarrow> nat \<Rightarrow> 'q im \<Rightarrow> 'q im" where
  "reap_service e re si_code si_status i m = unfocus i (Reap (ie_h e) re si_code si_status (focus i m)) m"

inductive reap_one :: "'q ienv \<Rightarrow> 'q im \<Rightarrow> 'q im \<Rightarrow> bool" for e :: "'q ienv" where
  "i < length (im_services m) \<Longrightarrow> SVC_RUNNING \<in> sv_flags (im_services m ! i) \<Longrightarrow>
     reap_one e m (reap_service e re si_code si_status i m)"

inductive sys_step :: "'q ienv \<Rightarrow> 'q sys \<Rightarrow> 'q sys \<Rightarrow> bool" for e :: "'q ienv" where
  shutdown: "pc s = AtShutdown \<Longrightarrow> sys_step e s (s\<lparr>main := loop_shutdown e (main s), pc := AtExecute\<rparr>)"
| execute: "pc s = AtExecute \<Longrightarrow> loop_execute e (main s) = (next, m) \<Longrightarrow>
    sys_step e s (s\<lparr>main := m, pc := AtProcess next\<rparr>)"
| process: "pc s = AtProcess next \<Longrightarrow> loop_wait e (loop_process e (next, main s)) = (timeout, m) \<Longrightarrow>
    sys_step e s (s\<lparr>main := m, pc := AtWait timeout\<rparr>)"
| returned: "pc s = AtWait timeout \<Longrightarrow> (reap_one e)\<^sup>*\<^sup>* (main s) m \<Longrightarrow>
    sys_step e s (s\<lparr>main := m, pc := AtHandlers\<rparr>)"
| signal: "pc s = AtHandlers \<Longrightarrow> (reap_one e)\<^sup>*\<^sup>* (main s) (reap (main s)) \<Longrightarrow>
    sys_step e s (s\<lparr>main := HandleSignalFd e reap siginfo (main s)\<rparr>)"
| woken: "pc s = AtHandlers \<Longrightarrow> 0 < wake_main_thread (main s) \<Longrightarrow>
    sys_step e s (s\<lparr>main := clear_eventfd (main s)\<rparr>)"
| keychord: "pc s = AtHandlers \<Longrightarrow> sys_step e s (s\<lparr>main := HandleKeychord e keycodes (main s)\<rparr>)"
| handled: "pc s = AtHandlers \<Longrightarrow> sys_step e s (s\<lparr>pc := AtControl\<rparr>)"
| control: "pc s = AtControl \<Longrightarrow> sys_step e s (s\<lparr>main := loop_control e (main s), pc := AtShutdown\<rparr>)"
| property_set: "sys_step e s (s\<lparr>main := (main s)\<lparr>im_area := (im_area (main s))(n \<mapsto> v)\<rparr>, inflight := inflight s @ [(n, v)]\<rparr>)"
| property_changed: "inflight s = (n, v) # rest \<Longrightarrow>
    sys_step e s (s\<lparr>main := PropertyChanged e n v (main s), inflight := rest\<rparr>)"
| queue_message: "sys_step e s (s\<lparr>main := snd (QueueControlMessage msg name p fd (main s))\<rparr>)"

text \<open>
  What every piece of code on the main thread keeps, including the commands and the power control code that are
  outside this file: it neither loses a wake-up nor a message, it asks for a shutdown through
  \<open>trigger_shutdown\<close>, and it waits for a property only through \<open>StartWaiting\<close>.
\<close>

definition services_ok :: "'q im \<Rightarrow> bool" where
  "services_ok m \<longleftrightarrow> (\<forall>s \<in> set (im_services m). control_inv (sv_flags s, sv_pid s, sv_start_order s, im_next_order m))"

definition waits :: "'q im \<Rightarrow> int option \<times> string \<times> string" where
  "waits m = (waiting_for_prop m, wait_prop_name m, wait_prop_value m)"

definition wait_kept :: "'q im \<Rightarrow> 'q im \<Rightarrow> bool" where
  "wait_kept m m' \<longleftrightarrow> waiting_for_prop m' = None \<or> waits m' = waits m \<or> get_prop (wait_prop_name m') [] m' \<noteq> wait_prop_value m'"

definition main_op :: "'q im \<Rightarrow> 'q im \<Rightarrow> bool" where
  "main_op m m' \<longleftrightarrow>
     im_area m' = im_area m \<and> pending_control_messages m' = pending_control_messages m \<and>
     wake_main_thread m \<le> wake_main_thread m' \<and> im_ops m \<le> im_ops m' \<and>
     (do_shutdown m' \<longrightarrow> do_shutdown m \<or> 0 < wake_main_thread m') \<and>
     (shutting_down m \<longrightarrow> shutting_down m') \<and> wait_kept m m' \<and> (services_ok m \<longrightarrow> services_ok m')"

lemma main_op_refl [simp]: "main_op m m"
  by (simp add: main_op_def wait_kept_def)

lemma get_prop_area: "im_area m' = im_area m \<Longrightarrow> get_prop n dflt m' = get_prop n dflt m"
  by (simp add: get_prop_def)

lemma wait_kept_trans: "wait_kept a b \<Longrightarrow> wait_kept b c \<Longrightarrow> im_area c = im_area b \<Longrightarrow> wait_kept a c"
  using get_prop_area [of c b "wait_prop_name b" "[]"] by (auto simp: wait_kept_def waits_def)

lemma main_op_trans:
  assumes "main_op a b" and "main_op b c"
  shows "main_op a c"
proof -
  have "wait_kept a c" using assms wait_kept_trans [of a b c] by (simp add: main_op_def)
  then show ?thesis using assms by (auto simp: main_op_def)
qed

lemma main_op_fold:
  assumes "\<And>x m. x \<in> set xs \<Longrightarrow> length (im_services m) = n \<Longrightarrow> main_op m (f x m) \<and> length (im_services (f x m)) = n"
    and "length (im_services m) = n"
  shows "main_op m (fold f xs m) \<and> length (im_services (fold f xs m)) = n"
  using assms
proof (induction xs arbitrary: m)
  case (Cons x xs)
  then have "main_op m (f x m)" "length (im_services (f x m)) = n" by auto
  moreover have "main_op (f x m) (fold f xs (f x m)) \<and> length (im_services (fold f xs (f x m))) = n"
    using Cons by (intro Cons.IH) auto
  ultimately show ?case using main_op_trans by auto
qed simp

text \<open>What runnable commands depend on.\<close>

definition runnable_view where
  "runnable_view m = (am m, waiting_for_prop m, im_exec m)"

lemma apply_effect_op:
  "main_op m (apply_effect x m)" "runnable_view (apply_effect x m) = runnable_view m"
  "im_services (apply_effect x m) = im_services m" "shutting_down (apply_effect x m) = shutting_down m"
  by (auto simp: apply_effect_def RequestShutdown_def WakeMainInitThread_def main_op_def wait_kept_def waits_def
      services_ok_def runnable_view_def split: svc_effect.splits)

lemma apply_effects_op:
  "main_op m (fold apply_effect xs m) \<and> runnable_view (fold apply_effect xs m) = runnable_view m \<and>
   im_services (fold apply_effect xs m) = im_services m \<and> shutting_down (fold apply_effect xs m) = shutting_down m"
proof (induction xs arbitrary: m)
  case (Cons x xs)
  show ?case using Cons.IH [of "apply_effect x m"] apply_effect_op [where x = x and m = m] main_op_trans by auto
qed simp

lemma unfocus_op:
  assumes "i < length (im_services m)" and "svc_inv (focus i m) \<Longrightarrow> svc_inv w"
    and "im_next_order m \<le> next_start_order w"
  shows "main_op m (unfocus i w m)"
proof -
  let ?m = "m\<lparr>im_services := (im_services m)[i := svc w], im_next_order := next_start_order w,
          im_exec := is_exec_service_running w, im_eff := im_eff m @ eff w, im_ops := Suc (im_ops m)\<rparr>"
  have ok: "services_ok ?m" if "services_ok m"
  proof -
    have "im_services m ! i \<in> set (im_services m)" using assms(1) by simp
    then have "svc_inv (focus i m)"
      using that by (simp add: services_ok_def svc_inv_def core_def focus_def)
    then have w: "control_inv (sv_flags (svc w), sv_pid (svc w), sv_start_order (svc w), next_start_order w)"
      using assms(2) by (simp add: svc_inv_def core_def)
    have old: "control_inv (sv_flags s, sv_pid s, sv_start_order s, next_start_order w)" if "s \<in> set (im_services m)" for s
      using \<open>services_ok m\<close> that assms(3) by (fastforce simp: services_ok_def control_inv.simps)
    show ?thesis using w old set_update_subset_insert [of "im_services m" i "svc w"] by (auto simp: services_ok_def)
  qed
  then have "main_op m ?m" by (simp add: main_op_def wait_kept_def waits_def)
  moreover have "main_op ?m (unfocus i w m)" using apply_effects_op [of ?m "eff w"] by (simp add: unfocus_def)
  ultimately show ?thesis by (rule main_op_trans)
qed

lemma unfocus_frame:
  "runnable_view (unfocus i w m) = (am m, waiting_for_prop m, is_exec_service_running w)"
  "length (im_services (unfocus i w m)) = length (im_services m)" "shutting_down (unfocus i w m) = shutting_down m"
proof -
  let ?m = "m\<lparr>im_services := (im_services m)[i := svc w], im_next_order := next_start_order w,
          im_exec := is_exec_service_running w, im_eff := im_eff m @ eff w, im_ops := Suc (im_ops m)\<rparr>"
  show "runnable_view (unfocus i w m) = (am m, waiting_for_prop m, is_exec_service_running w)"
    "length (im_services (unfocus i w m)) = length (im_services m)" "shutting_down (unfocus i w m) = shutting_down m"
    using apply_effects_op [of ?m "eff w"] by (simp_all add: unfocus_def) (simp add: runnable_view_def)
qed

text \<open>Start orders only grow.\<close>

definition order_up :: "world \<Rightarrow> world \<Rightarrow> bool" where
  "order_up w w' \<longleftrightarrow> next_start_order w \<le> next_start_order w'"

lemma order_core: "core w' = core w \<Longrightarrow> next_start_order w' = next_start_order w"
  by (simp add: core_def)

lemma order_fold_emit: "next_start_order (fold (\<lambda>d. emit (f d)) xs w) = next_start_order w"
  by (induction xs arbitrary: w) (simp_all add: svc_frame)

lemma order_start_parent: "next_start_order w \<le> next_start_order (snd (start_parent h e w))"
  using start_parent_core [of h e w "fst (start_parent h e w)" "snd (start_parent h e w)"]
  by (auto simp: start_record_def Let_def core_def svc_frame split: if_splits)

lemma order_start_checked: "next_start_order w \<le> next_start_order (snd (start_checked h e w))"
proof -
  obtain r w1 where c: "CheckConsole e w = (r, w1)" by force
  have w1: "next_start_order w1 = next_start_order w"
    using CheckConsole_core [OF c] by (auto simp: core_def svc_frame)
  have ns: "next_start_order (SetMountNamespace b x) = next_start_order x" for b x
    using SetMountNamespace_core by (rule order_core)
  have sp: "next_start_order w1 \<le> next_start_order (snd (start_parent h e x))" if "next_start_order x = next_start_order w1" for x
    using order_start_parent [of x h e] that by simp
  show ?thesis
    using w1 sp by (auto simp: start_checked_def c Let_def svc_frame order_fold_emit ns split: option.split sum.split)
qed

lemma order_Start: "next_start_order w \<le> next_start_order (snd (Start h e w))"
proof -
  have "next_start_order w \<le> next_start_order (snd (start_body h e w))"
    using order_start_checked [of "ResetFlagsForStart w" h e]
    by (simp add: start_body_def Let_def ResetFlagsForStart_def svc_frame)
  then show ?thesis
    using order_core [OF reboot_on_failure_core, of "start_body h e w"] by (simp add: Start_def)
qed

lemma order_StopOrReset: "next_start_order (StopOrReset h e how w) = next_start_order w"
  by (simp add: StopOrReset_def Let_def svc_frame)

lemma order_control:
  "next_start_order (Timeout h e w) = next_start_order w"
  "next_start_order w \<le> next_start_order (Restart h se w)"
  by (simp_all add: Timeout_def Restart_def svc_frame order_StopOrReset order_Start)

context service_header
begin

lemma order_Reap: "next_start_order (Reap h e c st w) = next_start_order w"
proof -
  have cl: "next_start_order (reap_cleanup h e c st x) = next_start_order x" for x
    using reap_cleanup_core [of e c st x] by (auto simp: core_def split: prod.splits)
  have cr: "next_start_order y = next_start_order (reap_upgrade_mte e c st x)"
    if "reap_crash e (reap_upgrade_mte e c st x) = (y, b)" for x y b
    using reap_crash_core [OF that] by (rule order_core)
  have up: "next_start_order (reap_upgrade_mte e c st x) = next_start_order x" for x
    using reap_upgrade_mte_frame(1) by (rule order_core)
  have rs: "next_start_order (reap_restart e x) = next_start_order x" for x
    using reap_restart_core [of e x] by (auto simp: core_def split: prod.splits)
  show ?thesis
    unfolding Reap_def Let_def
    by (auto simp: cl rs up svc_frame dest!: cr split: prod.splits)
qed

end

section \<open>The environment of init\<close>

locale init_env =
  fixes e :: "'q ienv"
  assumes header: "service_header (ie_h e)"
    and lb: "libbase_laws (ie_lb e)"
    and clock: "i \<le> j \<Longrightarrow> ie_now e i \<le> ie_now e j"
    and forked: "child_pid (ie_start e n) \<noteq> 0"
    and execute_op: "main_op m (ie_ExecuteOneCommand e m)"
    and powerctl_op: "main_op m (ie_powerctl e command m)"
    and parse_op: "main_op m (snd (ie_parse_apex e apex m))"
    and stop_op: "main_op m (snd (ie_stop_services e names ms sigterm m))"
    and found_service: "ie_FindService e l name = Some k \<Longrightarrow> k < length l"
    and found_interface: "ie_FindInterface e l name = Some k \<Longrightarrow> k < length l"
    and sigstop_core: "sv_flags (ie_set_sigstop e b s) = sv_flags s \<and> sv_pid (ie_set_sigstop e b s) = sv_pid s \<and>
          sv_start_order (ie_set_sigstop e b s) = sv_start_order s"
    and oneshot_core: "sv_flags (ie_set_oneshot e b s) - {SVC_ONESHOT} = sv_flags s - {SVC_ONESHOT} \<and>
          sv_pid (ie_set_oneshot e b s) = sv_pid s \<and> sv_start_order (ie_set_oneshot e b s) = sv_start_order s"
begin

lemma tick_op: "main_op m (snd (tick e m))" "runnable_view (snd (tick e m)) = runnable_view m"
  "im_services (snd (tick e m)) = im_services m" "shutting_down (snd (tick e m)) = shutting_down m"
  by (simp_all add: tick_def main_op_def wait_kept_def waits_def services_ok_def runnable_view_def)

lemma on_service_op:
  assumes "i < length (im_services m)"
    and "\<And>n w. svc_inv w \<Longrightarrow> svc_inv (snd (f (ie_start e n) w))"
    and "\<And>n w. next_start_order w \<le> next_start_order (snd (f (ie_start e n) w))"
  shows "main_op m (snd (on_service f e i m))"
  using assms(1) assms(2) [of "focus i m"] assms(3) [of "focus i m"]
  by (auto simp: on_service_def split_beta focus_def intro!: unfocus_op)

lemma on_service_frame:
  assumes "\<And>n w. is_exec_service_running (snd (f (ie_start e n) w)) = is_exec_service_running w"
  shows "runnable_view (snd (on_service f e i m)) = runnable_view m"
  using assms [of "im_ops m" "focus i m"]
  by (simp add: on_service_def split_beta unfocus_frame) (simp add: runnable_view_def focus_def)

lemma on_service_length:
  "length (im_services (snd (on_service f e i m))) = length (im_services m)"
  "shutting_down (snd (on_service f e i m)) = shutting_down m"
  by (simp_all add: on_service_def split_beta unfocus_frame)

lemma start_op: "i < length (im_services m) \<Longrightarrow> main_op m (snd (on_service (Start (ie_h e)) e i m))"
  by (rule on_service_op) (simp_all add: Start_inv forked order_Start)

lemma stop_service_op:
  "i < length (im_services m) \<Longrightarrow> main_op m (snd (on_service (\<lambda>se w. (None, Stop (ie_h e) se w)) e i m))"
  by (rule on_service_op) (simp_all add: Stop_def StopOrReset_inv order_StopOrReset)

lemma restart_op:
  "i < length (im_services m) \<Longrightarrow> main_op m (snd (on_service (\<lambda>se w. (None, Restart (ie_h e) se w)) e i m))"
  by (rule on_service_op) (simp_all add: Restart_inv forked order_control)

lemma timeout_op:
  "i < length (im_services m) \<Longrightarrow> main_op m (snd (on_service (\<lambda>se w. (None, Timeout (ie_h e) se w)) e i m))"
  by (rule on_service_op) (simp_all add: Timeout_inv order_control)

lemma field_op:
  assumes "i < length (im_services m)"
    and "\<And>s n. control_inv (sv_flags s, sv_pid s, sv_start_order s, n) \<Longrightarrow> control_inv (sv_flags (g s), sv_pid (g s), sv_start_order (g s), n)"
  shows "main_op m (snd (set_field g e i m))"
  unfolding set_field_def
  by (rule on_service_op [OF assms(1)]) (simp_all add: svc_inv_def core_def svc_frame assms(2))

lemma sigstop_op: "i < length (im_services m) \<Longrightarrow> main_op m (snd (set_field (ie_set_sigstop e b) e i m))"
  by (rule field_op) (simp_all add: sigstop_core)

lemma control_inv_cong:
  "(\<And>f. f \<noteq> SVC_ONESHOT \<Longrightarrow> f \<in> fs' \<longleftrightarrow> f \<in> fs) \<Longrightarrow> control_inv (fs', p, ord, n) = control_inv (fs, p, ord, n)"
  by (simp add: control_inv.simps)

lemma oneshot_op: "i < length (im_services m) \<Longrightarrow> main_op m (snd (set_field (ie_set_oneshot e b) e i m))"
proof (rule field_op)
  fix s :: service and n
  assume c: "control_inv (sv_flags s, sv_pid s, sv_start_order s, n)"
  have "f \<in> sv_flags (ie_set_oneshot e b s) \<longleftrightarrow> f \<in> sv_flags s" if "f \<noteq> SVC_ONESHOT" for f
    using oneshot_core [of b s] that by (metis Diff_iff singletonD)
  then show "control_inv (sv_flags (ie_set_oneshot e b s), sv_pid (ie_set_oneshot e b s), sv_start_order (ie_set_oneshot e b s), n)"
    using c oneshot_core [of b s] control_inv_cong [of "sv_flags (ie_set_oneshot e b s)" "sv_flags s"] by simp
qed

text \<open>Looking after the processes changes neither what is runnable nor the place in the loop.\<close>

lemma process_step:
  assumes "i < length (im_services m)"
  shows "main_op m (snd (process_restart e i (process_timeout e i (next, m))))"
    "runnable_view (snd (process_restart e i (process_timeout e i (next, m)))) = runnable_view m"
    "length (im_services (snd (process_restart e i (process_timeout e i (next, m))))) = length (im_services m)"
proof -
  have t: "main_op m (snd (process_timeout e i (next, m))) \<and> runnable_view (snd (process_timeout e i (next, m))) = runnable_view m \<and>
      length (im_services (snd (process_timeout e i (next, m)))) = length (im_services m)"
    using tick_op [of m] main_op_trans [OF tick_op(1) timeout_op, of i m] assms
    by (auto simp: process_timeout_def Let_def split_beta on_service_length on_service_frame exec_control split: option.splits)
  have r: "main_op m1 (snd (process_restart e i (nx, m1))) \<and> runnable_view (snd (process_restart e i (nx, m1))) = runnable_view m1 \<and>
      length (im_services (snd (process_restart e i (nx, m1)))) = length (im_services m1)"
    if "i < length (im_services m1)" for nx m1
    using tick_op [of m1] main_op_trans [OF tick_op(1) start_op, of i m1] that
    by (auto simp: process_restart_def Let_def split_beta on_service_length on_service_frame exec_Start)
  obtain nx m1 where p: "process_timeout e i (next, m) = (nx, m1)" by force
  show "main_op m (snd (process_restart e i (process_timeout e i (next, m))))"
    "runnable_view (snd (process_restart e i (process_timeout e i (next, m)))) = runnable_view m"
    "length (im_services (snd (process_restart e i (process_timeout e i (next, m))))) = length (im_services m)"
    using t r [of m1 nx] assms main_op_trans by (auto simp: p)
qed

lemma HandleProcessActions_op:
  "main_op m (snd (HandleProcessActions e m)) \<and> runnable_view (snd (HandleProcessActions e m)) = runnable_view m"
proof -
  have "main_op m (snd (fold (\<lambda>i nm. process_restart e i (process_timeout e i nm)) xs (nx0, m))) \<and>
      runnable_view (snd (fold (\<lambda>i nm. process_restart e i (process_timeout e i nm)) xs (nx0, m))) = runnable_view m"
    if "\<And>i. i \<in> set xs \<Longrightarrow> i < length (im_services m)" for xs nx0 m
    using that
  proof (induction xs arbitrary: nx0 m)
    case (Cons i xs)
    obtain nx m1 where p: "process_restart e i (process_timeout e i (nx0, m)) = (nx, m1)" by force
    have i: "i < length (im_services m)" using Cons.prems by simp
    note step = process_step [OF i, of nx0, unfolded p snd_conv]
    have "main_op m1 (snd (fold (\<lambda>i nm. process_restart e i (process_timeout e i nm)) xs (nx, m1))) \<and>
      runnable_view (snd (fold (\<lambda>i nm. process_restart e i (process_timeout e i nm)) xs (nx, m1))) = runnable_view m1"
      using Cons.prems step(3) by (intro Cons.IH) simp
    then show ?case using step main_op_trans by (auto simp: p)
  qed simp
  from this [of "[0..<length (im_services m)]" m None] show ?thesis by (simp add: HandleProcessActions_def)
qed

lemma control_function_op:
  assumes "GetControlMessageMap e action = Some f" and "i < length (im_services m)"
  shows "main_op m (snd (f e i m))"
  using assms start_op stop_service_op restart_op sigstop_op oneshot_op
  by (auto simp: GetControlMessageMap_def DoControlStart_def DoControlStop_def DoControlRestart_def split: if_splits)

lemma apex_op: "main_op m (snd (HandleApexControlMessage e action name m))"
proof -
  have load: "main_op m (snd (DoLoadApex e name m))"
    using parse_op [of m name] by (simp add: DoLoadApex_def split_beta Let_def)
  have stop: "main_op m (snd (StopServicesFromApex e name m))"
    using stop_op main_op_trans [OF stop_op stop_op] by (simp add: StopServicesFromApex_def split_beta Let_def)
  have remove: "main_op x (RemoveServiceAndActionFromApex e name x)" for x
    by (auto simp: RemoveServiceAndActionFromApex_def main_op_def wait_kept_def waits_def services_ok_def)
  have "main_op m (snd (DoUnloadApex e name m))"
    using stop main_op_trans [OF stop remove] by (simp add: DoUnloadApex_def split_beta Let_def)
  with load show ?thesis by (simp add: HandleApexControlMessage_def)
qed

lemma HandleControlMessage_op: "main_op m (snd (HandleControlMessage e message name m))"
proof -
  have "main_op m (snd (case target of
                None \<Rightarrow> (False, m)
              | Some i \<Rightarrow>
                  (case GetControlMessageMap e action of
                     None \<Rightarrow> (False, m)
                   | Some f \<Rightarrow> (case f e i m of (r, m) \<Rightarrow> (r = None, m)))))"
    if "\<And>i. target = Some i \<Longrightarrow> i < length (im_services m)" for target action
    using that control_function_op [of action _ _ m] by (simp split: option.splits prod.splits) fastforce
  then show ?thesis
    using apex_op found_service found_interface
    by (auto simp: HandleControlMessage_def Let_def split: option.splits prod.splits)
qed

text \<open>Handling one control message: the rest of the queue stays, and a wake-up is left behind for it.\<close>

lemma HandleControlMessages_effect:
  fixes m :: "'q im"
  defines "m' \<equiv> HandleControlMessages e m"
  shows "pending_control_messages m' = tl (pending_control_messages m)"
    and "pending_control_messages m' \<noteq> [] \<Longrightarrow> 0 < wake_main_thread m'"
    and "main_op (m\<lparr>pending_control_messages := tl (pending_control_messages m)\<rparr>) m'"
proof -
  let ?rest = "m\<lparr>pending_control_messages := tl (pending_control_messages m)\<rparr>"
  define m1 where "m1 = (case pending_control_messages m of
                 [] \<Rightarrow> m
               | c # rest \<Rightarrow>
                   (let (success, m) =
                      HandleControlMessage e (cm_message c) (cm_name c) (m\<lparr>pending_control_messages := rest\<rparr>)
                    in respond e c success m))"
  have resp: "main_op x (respond e c ok x)" for x c ok
    by (simp add: respond_def main_op_def wait_kept_def waits_def services_ok_def)
  have m1: "main_op ?rest m1"
  proof (cases "pending_control_messages m")
    case Nil
    then show ?thesis by (simp add: m1_def main_op_def wait_kept_def waits_def services_ok_def)
  next
    case (Cons c rest)
    then show ?thesis using main_op_trans [OF HandleControlMessage_op resp] by (simp add: m1_def split_beta Let_def)
  qed
  then have p: "pending_control_messages m1 = tl (pending_control_messages m)" by (simp add: main_op_def)
  have m': "m' = (if pending_control_messages m1 \<noteq> [] then WakeMainInitThread m1 else m1)"
    by (simp add: m'_def HandleControlMessages_def m1_def Let_def)
  have "main_op x (WakeMainInitThread x)" for x
    by (simp add: WakeMainInitThread_def main_op_def wait_kept_def waits_def services_ok_def)
  with m1 show "main_op ?rest m'" using main_op_trans by (auto simp: m')
  show "pending_control_messages m' = tl (pending_control_messages m)"
    by (simp add: m' p WakeMainInitThread_def)
  show "pending_control_messages m' \<noteq> [] \<Longrightarrow> 0 < wake_main_thread m'"
    by (auto simp: m' WakeMainInitThread_def split: if_splits)
qed

lemma usb_op: "main_op m (SetUsbController e m)" "wake_main_thread (SetUsbController e m) = wake_main_thread m"
  "pending_control_messages (SetUsbController e m) = pending_control_messages m"
  by (simp_all add: SetUsbController_def set_prop_def main_op_def wait_kept_def waits_def services_ok_def split: option.split)

lemma keychord_op: "main_op m (HandleKeychord e keycodes m)"
proof -
  have "main_op m (fold (\<lambda>i m. if sv_keycodes (im_services m ! i) = keycodes then snd (DoControlStart e i m) else m)
             [0..<length (im_services m)] m)"
    by (rule main_op_fold [where n = "length (im_services m)", THEN conjunct1])
      (simp_all add: DoControlStart_def start_op on_service_length)
  then show ?thesis by (simp add: HandleKeychord_def)
qed

lemma reap_op:
  assumes "i < length (im_services m)" and "SVC_RUNNING \<in> sv_flags (im_services m ! i)"
  shows "main_op m (reap_service e re c st i m)"
  using assms service_header.Reap_inv [OF header, of "focus i m" re c st] service_header.order_Reap [OF header, of re c st "focus i m"]
  unfolding reap_service_def by (intro unfocus_op) (simp_all add: focus_def has_def)

lemma reap_one_op: "reap_one e m m' \<Longrightarrow> main_op m m'"
  by (auto elim!: reap_one.cases intro: reap_op)

lemma reaps_op: "(reap_one e)\<^sup>*\<^sup>* m m' \<Longrightarrow> main_op m m'"
  by (induction rule: rtranclp_induct) (auto intro: main_op_trans reap_one_op)

lemma signal_op: "(reap_one e)\<^sup>*\<^sup>* m (reap m) \<Longrightarrow> main_op m (HandleSignalFd e reap siginfo m)"
  by (auto simp: HandleSignalFd_def HandleSigtermSignal_def powerctl_op reaps_op split: option.split)

end

text \<open>What the property thread may do to the state of the main thread.\<close>

definition prop_op :: "'q im \<Rightarrow> 'q im \<Rightarrow> bool" where
  "prop_op m m' \<longleftrightarrow> pending_control_messages m' = pending_control_messages m \<and> shutting_down m' = shutting_down m \<and>
     wake_main_thread m \<le> wake_main_thread m' \<and> im_area m' = im_area m \<and> im_ops m \<le> im_ops m' \<and>
     (do_shutdown m' \<longrightarrow> do_shutdown m \<or> 0 < wake_main_thread m') \<and>
     (runnable_view m' = runnable_view m \<or> 0 < wake_main_thread m') \<and>
     (waiting_for_prop m' = None \<or> waits m' = waits m) \<and> services_ok m' = services_ok m"

lemma prop_op_trans:
  assumes "prop_op a b" and "prop_op b c"
  shows "prop_op a c"
proof -
  have w: "waiting_for_prop b = None \<or> waits b = waits a" "waiting_for_prop c = None \<or> waits c = waits b"
    and r: "runnable_view b = runnable_view a \<or> 0 < wake_main_thread b" "runnable_view c = runnable_view b \<or> 0 < wake_main_thread c"
      "wake_main_thread b \<le> wake_main_thread c"
    using assms by (simp_all add: prop_op_def)
  have "waiting_for_prop c = None \<or> waits c = waits a"
    using w by (cases "waiting_for_prop b = None") (auto simp: waits_def)
  moreover have "runnable_view c = runnable_view a \<or> 0 < wake_main_thread c"
    using r by (cases "0 < wake_main_thread b") auto
  moreover have "do_shutdown c \<longrightarrow> do_shutdown a \<or> 0 < wake_main_thread c"
    using assms r(3) by (auto simp: prop_op_def)
  ultimately show ?thesis using assms by (simp add: prop_op_def)
qed

lemma prop_op_steps:
  "prop_op m m" "prop_op m (RequestShutdown v m)" "prop_op m (WakeMainInitThread (m\<lparr>am := q\<rparr>))"
  "prop_op m (set_prop p w (snd (tick e m)))" "prop_op m (WakeMainInitThread (ResetWaitForProp m))"
  by (simp_all add: prop_op_def RequestShutdown_def WakeMainInitThread_def ResetWaitForProp_def set_prop_def tick_def
      waits_def runnable_view_def services_ok_def)

lemma CheckAndResetWait_effect:
  "prop_op m (CheckAndResetWait e n v m)"
  "waiting_for_prop (CheckAndResetWait e n v m) \<noteq> None \<Longrightarrow> (wait_prop_name m, wait_prop_value m) \<noteq> (n, v)"
proof -
  define m1 where "m1 = record_cold_boot_wait e n m"
  have c: "CheckAndResetWait e n v m =
      (if waiting_for_prop m1 \<noteq> None \<and> wait_prop_name m1 = n \<and> wait_prop_value m1 = v
       then WakeMainInitThread (ResetWaitForProp m1) else m1)"
    by (simp only: CheckAndResetWait_def m1_def Let_def)
  have p: "prop_op m m1"
    by (auto simp: m1_def record_cold_boot_wait_def split_beta Let_def prop_op_steps)
  then show "prop_op m (CheckAndResetWait e n v m)"
    using prop_op_trans [OF p prop_op_steps(5)] by (simp add: c)
  have "waits m1 = waits m" by (simp add: m1_def record_cold_boot_wait_def set_prop_def tick_def waits_def)
  then show "waiting_for_prop (CheckAndResetWait e n v m) \<noteq> None \<Longrightarrow> (wait_prop_name m, wait_prop_value m) \<noteq> (n, v)"
    by (auto simp: c waits_def WakeMainInitThread_def ResetWaitForProp_def split: if_splits)
qed

lemma PropertyChanged_effect:
  "prop_op m (PropertyChanged e n v m)"
  "waiting_for_prop (PropertyChanged e n v m) \<noteq> None \<Longrightarrow> (wait_prop_name m, wait_prop_value m) \<noteq> (n, v)"
proof -
  define m1 where "m1 = (if n = ''sys.powerctl'' then RequestShutdown v m else m)"
  define m2 where "m2 = (if property_triggers_enabled m1
               then WakeMainInitThread (m1\<lparr>am := ie_QueuePropertyChange e n v (am m1)\<rparr>) else m1)"
  have c: "PropertyChanged e n v m = CheckAndResetWait e n v m2"
    by (simp only: PropertyChanged_def m2_def m1_def Let_def)
  have "prop_op m m1" by (simp add: m1_def prop_op_steps)
  moreover have "prop_op m1 m2" by (simp add: m2_def prop_op_steps)
  ultimately have "prop_op m m2" by (rule prop_op_trans)
  then show "prop_op m (PropertyChanged e n v m)"
    using CheckAndResetWait_effect(1) [of m2 e n v] prop_op_trans by (auto simp: c)
  have "waits m2 = waits m" by (simp add: m2_def m1_def RequestShutdown_def WakeMainInitThread_def waits_def)
  then show "waiting_for_prop (PropertyChanged e n v m) \<noteq> None \<Longrightarrow> (wait_prop_name m, wait_prop_value m) \<noteq> (n, v)"
    using CheckAndResetWait_effect(2) [of e n v m2] by (simp add: c waits_def)
qed

lemma QueueControlMessage_effect:
  assumes "m' = snd (QueueControlMessage msg name p fd m)"
  shows "prop_op (m\<lparr>pending_control_messages := pending_control_messages m'\<rparr>) m'"
    and "pending_control_messages m' = pending_control_messages m \<or>
         0 < wake_main_thread m' \<and> length (pending_control_messages m) \<le> 100 \<and>
         pending_control_messages m' = pending_control_messages m @ [\<lparr>cm_message = msg, cm_name = name, cm_pid = p, cm_fd = fd\<rparr>]"
  using assms
  by (auto simp: QueueControlMessage_def WakeMainInitThread_def prop_op_def runnable_view_def waits_def services_ok_def)

section \<open>The invariant of the main loop\<close>

definition runnable :: "'q ienv \<Rightarrow> 'q im \<Rightarrow> bool" where
  "runnable e m \<longleftrightarrow> ie_HasMoreCommands e (am m) \<and> waiting_for_prop m = None \<and> \<not> im_exec m"

definition wait_ok :: "'q sys \<Rightarrow> bool" where
  "wait_ok s \<longleftrightarrow> (let m = main s in waiting_for_prop m \<noteq> None \<longrightarrow> get_prop (wait_prop_name m) [] m = wait_prop_value m \<longrightarrow>
     (wait_prop_name m, wait_prop_value m) \<in> set (inflight s))"

text \<open>While the main thread handles events it has yet to look at its queues.\<close>

fun handling :: "main_pc \<Rightarrow> bool" where
  "handling AtHandlers = True"
| "handling AtControl = True"
| "handling _ = False"

definition messages_ok :: "'q sys \<Rightarrow> bool" where
  "messages_ok s \<longleftrightarrow> length (pending_control_messages (main s)) \<le> 101 \<and>
     (\<not> handling (pc s) \<longrightarrow> pending_control_messages (main s) \<noteq> [] \<longrightarrow> shutting_down (main s) \<or> 0 < wake_main_thread (main s))"

definition shutdown_ok :: "'q sys \<Rightarrow> bool" where
  "shutdown_ok s \<longleftrightarrow> (\<not> handling (pc s) \<longrightarrow> pc s \<noteq> AtShutdown \<longrightarrow> do_shutdown (main s) \<longrightarrow>
     shutting_down (main s) \<or> 0 < wake_main_thread (main s))"

definition commands_ok :: "'q ienv \<Rightarrow> 'q sys \<Rightarrow> bool" where
  "commands_ok e s \<longleftrightarrow> (runnable e (main s) \<longrightarrow> 0 < wake_main_thread (main s) \<or>
     (case pc s of
        AtProcess next \<Rightarrow> \<exists>n. next = Some n \<and> (\<forall>k \<ge> im_ops (main s). n \<le> ie_now e k)
      | AtWait timeout \<Rightarrow> timeout = Some 0
      | _ \<Rightarrow> True))"

definition sys_inv :: "'q ienv \<Rightarrow> 'q sys \<Rightarrow> bool" where
  "sys_inv e s \<longleftrightarrow> wait_ok s \<and> messages_ok s \<and> shutdown_ok s \<and> commands_ok e s \<and> services_ok (main s)"

lemma runnable_view_eq: "runnable_view m' = runnable_view m \<Longrightarrow> runnable e m' = runnable e m"
  by (simp add: runnable_def runnable_view_def)

text \<open>Steps of the main thread that use only main thread operations.\<close>

lemma main_op_wait_ok:
  assumes "main_op (main s) (main s')" and "inflight s' = inflight s" and "wait_ok s"
  shows "wait_ok s'"
  using assms get_prop_area [of "main s'" "main s"]
  by (auto simp: wait_ok_def main_op_def wait_kept_def waits_def Let_def)

lemma main_op_messages_ok:
  assumes "main_op (main s) (main s')" and "messages_ok s" and "handling (pc s) \<Longrightarrow> handling (pc s')"
  shows "messages_ok s'"
  using assms by (auto simp: messages_ok_def main_op_def)

lemma main_op_shutdown_ok:
  assumes "main_op (main s) (main s')" and "shutdown_ok s" and "handling (pc s) \<Longrightarrow> handling (pc s')" and "pc s \<noteq> AtShutdown"
  shows "shutdown_ok s'"
  using assms by (auto simp: shutdown_ok_def main_op_def)

lemmas main_op_keeps = main_op_wait_ok main_op_messages_ok main_op_shutdown_ok

context init_env
begin

lemma loop_shutdown_op:
  "main_op m (loop_shutdown e m)"
  "do_shutdown (loop_shutdown e m) \<Longrightarrow> shutting_down (loop_shutdown e m) \<or> 0 < wake_main_thread (loop_shutdown e m)"
proof -
  have c: "main_op m (m\<lparr>do_shutdown := False\<rparr>)"
    by (simp add: main_op_def wait_kept_def waits_def services_ok_def)
  show "main_op m (loop_shutdown e m)"
    using main_op_trans [OF c powerctl_op] by (simp add: loop_shutdown_def CheckShutdown_def)
  show "do_shutdown (loop_shutdown e m) \<Longrightarrow> shutting_down (loop_shutdown e m) \<or> 0 < wake_main_thread (loop_shutdown e m)"
    using powerctl_op [of "m\<lparr>do_shutdown := False\<rparr>" "shutdown_command m"]
    by (auto simp: loop_shutdown_def CheckShutdown_def main_op_def split: if_splits)
qed

lemma loop_execute_op:
  assumes "loop_execute e m = (nx, m')"
  shows "main_op m m'" and "runnable e m' \<Longrightarrow> \<exists>n. nx = Some n \<and> (\<forall>k \<ge> im_ops m'. n \<le> ie_now e k)"
proof -
  show "main_op m m'"
    using assms execute_op [of m] main_op_trans [OF execute_op tick_op(1)]
    by (auto simp: loop_execute_def Let_def split_beta split: if_splits)
  show "runnable e m' \<Longrightarrow> \<exists>n. nx = Some n \<and> (\<forall>k \<ge> im_ops m'. n \<le> ie_now e k)"
    using assms clock
    by (auto simp: loop_execute_def Let_def tick_def runnable_def MightBeWaiting_def split: if_splits)
qed

lemma loop_process_op:
  assumes "loop_process e (nx, m) = (nx', m')"
  shows "main_op m m'" and "runnable_view m' = runnable_view m"
    and "nx = Some n \<Longrightarrow> \<exists>n'. nx' = Some n' \<and> n' \<le> n"
  using assms HandleProcessActions_op [of m]
  by (auto simp: loop_process_def split: if_splits prod.splits option.splits)

lemma loop_wait_op:
  assumes "loop_wait e (nx, m) = (timeout, m')"
  shows "main_op m m'" and "runnable_view m' = runnable_view m"
    and "nx = Some n \<Longrightarrow> n \<le> ie_now e (im_ops m) \<Longrightarrow> timeout = Some 0"
  using assms tick_op [of m]
  by (auto simp: loop_wait_def epoll_timeout_def tick_def split: option.splits)

lemma loop_control_op:
  "\<not> shutting_down m \<Longrightarrow> main_op (m\<lparr>pending_control_messages := tl (pending_control_messages m)\<rparr>) (loop_control e m) \<and>
     (pending_control_messages (loop_control e m) \<noteq> [] \<longrightarrow> 0 < wake_main_thread (loop_control e m))"
  using HandleControlMessages_effect [of m] main_op_trans [OF _ usb_op(1)] usb_op
  by (auto simp: loop_control_def)

text \<open>Every step keeps the invariant.\<close>

lemma main_step_inv:
  assumes "sys_inv e s" and "main_op (main s) (main s')" and "inflight s' = inflight s"
    and "handling (pc s) \<Longrightarrow> handling (pc s')" and "pc s = AtShutdown \<Longrightarrow> shutdown_ok s'" and "commands_ok e s'"
  shows "sys_inv e s'"
  using assms main_op_wait_ok [of s s'] main_op_messages_ok [of s s'] main_op_shutdown_ok [of s s']
  by (auto simp: sys_inv_def main_op_def)

lemma other_step_inv:
  assumes "sys_inv e s" and "prop_op (main s) (main s')" and "pc s' = pc s" and "wait_ok s'"
  shows "sys_inv e s'"
proof -
  have "commands_ok e s'"
  proof (cases "runnable_view (main s') = runnable_view (main s)")
    case True
    then have "runnable e (main s') = runnable e (main s)" by (rule runnable_view_eq)
    then show ?thesis
      using assms(1-3) by (auto simp: sys_inv_def commands_ok_def prop_op_def split: main_pc.splits)
  next
    case False
    then show ?thesis using assms(2) by (auto simp: prop_op_def commands_ok_def)
  qed
  then show ?thesis using assms by (auto simp: sys_inv_def messages_ok_def shutdown_ok_def prop_op_def)
qed

lemma control_step_inv:
  assumes "sys_inv e s" and "pc s = AtControl"
  shows "sys_inv e (s\<lparr>main := loop_control e (main s), pc := AtShutdown\<rparr>)"
proof (cases "shutting_down (main s)")
  case True
  then show ?thesis
    using assms by (auto simp: sys_inv_def wait_ok_def messages_ok_def shutdown_ok_def commands_ok_def loop_control_def)
next
  case False
  let ?m = "(main s)\<lparr>pending_control_messages := tl (pending_control_messages (main s))\<rparr>"
  let ?s = "s\<lparr>main := ?m\<rparr>" and ?s' = "s\<lparr>main := loop_control e (main s), pc := AtShutdown\<rparr>"
  have op: "main_op ?m (loop_control e (main s))"
    and wake: "pending_control_messages (loop_control e (main s)) \<noteq> [] \<longrightarrow> 0 < wake_main_thread (loop_control e (main s))"
    using loop_control_op [OF False] by auto
  have "wait_ok ?s" using assms(1) by (simp add: sys_inv_def wait_ok_def get_prop_def Let_def)
  with _ _ have "wait_ok ?s'" by (rule main_op_wait_ok) (simp_all add: op)
  moreover have "services_ok (loop_control e (main s))"
    using assms(1) op by (simp add: sys_inv_def main_op_def services_ok_def)
  moreover have "messages_ok ?s'"
    using assms(1) op wake by (auto simp: sys_inv_def messages_ok_def main_op_def)
  ultimately show ?thesis by (simp add: sys_inv_def shutdown_ok_def commands_ok_def)
qed

lemma process_step_inv:
  assumes "sys_inv e s" and "pc s = AtProcess nx" and "loop_wait e (loop_process e (nx, main s)) = (timeout, m)"
  shows "sys_inv e (s\<lparr>main := m, pc := AtWait timeout\<rparr>)"
proof -
  obtain nx1 m1 where p: "loop_process e (nx, main s) = (nx1, m1)" by force
  note p1 = loop_process_op [OF p]
  note w1 = loop_wait_op [OF assms(3) [unfolded p]]
  have op: "main_op (main s) m" using p1(1) w1(1) by (rule main_op_trans)
  have run: "runnable e m = runnable e (main s)" using p1(2) w1(2) runnable_view_eq by metis
  have "timeout = Some 0" if "runnable e m" "\<not> 0 < wake_main_thread m"
  proof -
    have "\<not> 0 < wake_main_thread (main s)" using that(2) op by (simp add: main_op_def)
    moreover have "runnable e (main s)" using that(1) run by simp
    ultimately obtain n where n: "nx = Some n" "\<forall>k \<ge> im_ops (main s). n \<le> ie_now e k"
      using assms(1,2) by (auto simp: sys_inv_def commands_ok_def)
    obtain n' where n': "nx1 = Some n'" "n' \<le> n" using p1(3) [OF n(1)] by blast
    have "im_ops (main s) \<le> im_ops m1" using p1(1) by (simp add: main_op_def)
    then have "n' \<le> ie_now e (im_ops m1)" using n(2) n'(2) by fastforce
    then show ?thesis using w1(3) [OF n'(1)] by blast
  qed
  then have cmd: "commands_ok e (s\<lparr>main := m, pc := AtWait timeout\<rparr>)"
    by (auto simp: commands_ok_def)
  show ?thesis
    by (rule main_step_inv [OF assms(1) _ _ _ _ cmd]) (simp_all add: op assms(2))
qed

lemma sys_step_inv:
  assumes "sys_step e s s'" and "sys_inv e s"
  shows "sys_inv e s'"
  using assms(1)
proof cases
  case shutdown
  then show ?thesis
    using assms(2) loop_shutdown_op [of "main s"]
    by (intro main_step_inv [of s s']) (auto simp: shutdown_ok_def commands_ok_def)
next
  case (execute nx m)
  then show ?thesis
    using assms(2) loop_execute_op [of "main s" nx m]
    by (intro main_step_inv [of s s']) (auto simp: commands_ok_def)
next
  case (process nx timeout m)
  then show ?thesis using process_step_inv [OF assms(2)] by simp
next
  case (returned timeout m)
  then show ?thesis
    using assms(2) reaps_op [of "main s" m]
    by (intro main_step_inv [of s s']) (auto simp: commands_ok_def)
next
  case (signal reap siginfo)
  then show ?thesis
    using assms(2) signal_op [of "main s" reap siginfo]
    by (intro main_step_inv [of s s']) (auto simp: commands_ok_def)
next
  case woken
  then show ?thesis
    using assms(2)
    by (auto simp: sys_inv_def wait_ok_def messages_ok_def shutdown_ok_def commands_ok_def services_ok_def
        clear_eventfd_def get_prop_def Let_def)
next
  case (keychord keycodes)
  then show ?thesis
    using assms(2) keychord_op [of "main s" keycodes]
    by (intro main_step_inv [of s s']) (auto simp: commands_ok_def)
next
  case handled
  then show ?thesis
    using assms(2) by (auto simp: sys_inv_def wait_ok_def messages_ok_def shutdown_ok_def commands_ok_def)
next
  case control
  then show ?thesis using control_step_inv [OF assms(2)] by simp
next
  case (property_set n v)
  then show ?thesis
    using assms(2)
    by (auto simp: sys_inv_def wait_ok_def messages_ok_def shutdown_ok_def commands_ok_def services_ok_def runnable_def
        get_prop_def Let_def split: main_pc.splits if_splits)
next
  case (property_changed n v rest)
  have "wait_ok s'"
    using assms(2) property_changed PropertyChanged_effect [where m = "main s" and e = e and n = n and v = v]
      get_prop_area [of "main s'" "main s"]
    by (auto simp: sys_inv_def wait_ok_def prop_op_def waits_def Let_def)
  then show ?thesis
    using assms(2) property_changed PropertyChanged_effect(1) [of "main s" e n v]
    by (intro other_step_inv [of s s']) simp_all
next
  case (queue_message msg name p fd)
  let ?m = "snd (QueueControlMessage msg name p fd (main s))"
  let ?s = "s\<lparr>main := (main s)\<lparr>pending_control_messages := pending_control_messages ?m\<rparr>\<rparr>"
  note q = QueueControlMessage_effect [OF refl, of msg name p fd "main s"]
  have "wait_ok s'"
    using assms(2) queue_message q(1) get_prop_area [of "main s'" "main s"]
    by (auto simp: sys_inv_def wait_ok_def prop_op_def waits_def Let_def)
  moreover have "messages_ok s'" "commands_ok e s'" "shutdown_ok s'" "services_ok (main s')"
    using assms(2) q queue_message
    by (auto simp: sys_inv_def messages_ok_def commands_ok_def shutdown_ok_def prop_op_def services_ok_def runnable_def
        runnable_view_def QueueControlMessage_def WakeMainInitThread_def split: main_pc.splits)
  ultimately show ?thesis by (simp add: sys_inv_def)
qed

lemma reachable_sys_inv: "(sys_step e)\<^sup>*\<^sup>* s s' \<Longrightarrow> sys_inv e s \<Longrightarrow> sys_inv e s'"
  by (induction rule: rtranclp_induct) (auto intro: sys_step_inv)

end

end
