(* ===== verification/Init_Correct.thy ===== *)
theory Init_Correct
  imports Init_Loop
begin

text \<open>
  What the main loop of init promises: no wake-up is lost, a wait for a property ends, deadlines of
  services are met to the millisecond, and the boot reaches the loop exactly when its checks pass.  The
  environment of \<open>init_env\<close> is interpreted on a first-in first-out action manager that runs the model's own
  builtin actions.
\<close>

declare control_inv.simps [simp del]

section \<open>Deadlines\<close>

definition restart_deadline :: "service \<Rightarrow> int" where
  "restart_deadline s = sv_time_started s + sv_restart_period s * 10 ^ 9"

definition process_step :: "'q ienv \<Rightarrow> nat \<Rightarrow> int option \<times> 'q im \<Rightarrow> int option \<times> 'q im" where
  "process_step e i nm = process_restart e i (process_timeout e i nm)"

definition by_then :: "int option \<Rightarrow> int \<Rightarrow> bool" where
  "by_then nx d \<longleftrightarrow> (\<exists>n. nx = Some n \<and> n \<le> d)"

definition passed :: "'q ienv \<Rightarrow> 'q im \<Rightarrow> 'q im \<Rightarrow> int \<Rightarrow> bool" where
  "passed e m m' d \<longleftrightarrow> (\<exists>k. im_ops m \<le> k \<and> k < im_ops m' \<and> d < ie_now e k)"

lemma apply_effects_services:
  "im_services (fold apply_effect xs m) = im_services m" "im_ops (fold apply_effect xs m) = im_ops m"
  by (induction xs arbitrary: m) (simp_all add: apply_effect_def RequestShutdown_def WakeMainInitThread_def split: svc_effect.split)

lemma on_service_services:
  "im_services (snd (on_service f e i m)) = (im_services m)[i := svc (snd (f (ie_start e (im_ops m)) (focus i m)))]"
  "im_ops (snd (on_service f e i m)) = Suc (im_ops m)"
  by (simp_all add: on_service_def split_beta unfocus_def apply_effects_services)

lemma Timeout_svc:
  "sv_flags (svc (Timeout h e w)) = sv_flags (svc w)" "sv_time_started (svc (Timeout h e w)) = sv_time_started (svc w)"
  "sv_restart_period (svc (Timeout h e w)) = sv_restart_period (svc w)" "sv_pid (svc (Timeout h e w)) = sv_pid (svc w)"
  by (simp_all add: Timeout_def NotifyStateChange_def KillProcessGroup_def upd_def emit_def Let_def)

lemma Start_clears:
  assumes "sv_pid (svc w) = 0"
  shows "SVC_RESTARTING \<notin> sv_flags (svc (snd (Start h e w))) \<or>
     is_updatable h (svc (snd (Start h e w))) \<and> \<not> default_ns_ready e"
proof -
  obtain r w' where s: "start_body h e w = (r, w')" by force
  have ros: "svc (snd (reboot_on_failure (r, w'))) = svc w'"
    by (simp add: reboot_on_failure_def emit_def split: option.splits)
  have "SVC_RESTARTING \<notin> sv_flags (svc w') \<or> is_updatable h (svc w') \<and> \<not> default_ns_ready e"
  proof (cases "is_updatable h (svc w) \<and> \<not> default_ns_ready e")
    case True
    then show ?thesis using s by (auto simp: start_body_def emit_def)
  next
    case False
    let ?w = "ResetFlagsForStart w"
    have no: "SVC_RESTARTING \<notin> sv_flags (svc ?w)" "sv_pid (svc ?w) = 0"
      using assms by (simp_all add: ResetFlagsForStart_def clear_flags_def upd_def)
    have "SVC_RESTARTING \<notin> sv_flags (svc w')" if c: "start_checked h e ?w = (r, w')"
    proof -
      obtain w1 where "core w1 = core ?w \<or> core w1 = core (set_flags {SVC_DISABLED} ?w)"
        and "core w' = core w1 \<or> 0 \<le> child_pid e \<and> core w' = core (start_record h e w1)"
        using start_checked_core [OF c no(2)] by blast
      then show ?thesis
        using no(1) by (auto simp: start_record_core) (auto simp: core_def set_flags_def upd_def)
    qed
    then show ?thesis
      using False s no(1) by (auto simp: start_body_def Let_def set_flags_def upd_def split: if_splits)
  qed
  then show ?thesis using ros by (simp add: Start_def s)
qed

text \<open>Looking after service \<open>i\<close>: the other services stay, time goes on and the next action only moves forward.\<close>

lemma earlier_by_then [simp]: "by_then nx d \<Longrightarrow> by_then (earlier nx t) d" "by_then (earlier nx t) t"
  by (auto simp: earlier_def by_then_def split: option.split)

lemma process_timeout_frame:
  assumes "process_timeout e i (nx, m) = (nx', m')"
  shows "im_ops m \<le> im_ops m'" and "\<And>d. by_then nx d \<Longrightarrow> by_then nx' d"
    and "\<And>j. j \<noteq> i \<Longrightarrow> im_services m' ! j = im_services m ! j" and "length (im_services m') = length (im_services m)"
  using assms
  by (auto simp: process_timeout_def Let_def tick_def on_service_services split: option.splits if_splits prod.splits)

lemma process_restart_frame:
  assumes "process_restart e i (nx, m) = (nx', m')"
  shows "im_ops m \<le> im_ops m'" and "\<And>d. by_then nx d \<Longrightarrow> by_then nx' d"
    and "\<And>j. j \<noteq> i \<Longrightarrow> im_services m' ! j = im_services m ! j" and "length (im_services m') = length (im_services m)"
  using assms
  by (auto simp: process_restart_def Let_def tick_def on_service_services split: if_splits prod.splits)

lemma process_timeout_deadline:
  assumes "process_timeout e i (nx, m) = (nx', m')" and "sv_timeout_period (im_services m ! i) = Some period"
    and "SVC_RUNNING \<in> sv_flags (im_services m ! i)"
  shows "by_then nx' (sv_time_started (im_services m ! i) + period * 10 ^ 9) \<or>
     passed e m m' (sv_time_started (im_services m ! i) + period * 10 ^ 9)"
  using assms
  by (auto simp: process_timeout_def Let_def tick_def passed_def on_service_services split: if_splits)

lemma process_restart_deadline:
  assumes "process_restart e i (nx, m) = (nx', m')" and "i < length (im_services m)"
    and "SVC_RESTARTING \<in> sv_flags (im_services m ! i)" and "sv_pid (im_services m ! i) = 0"
  shows "by_then nx' (restart_deadline (im_services m ! i)) \<or>
     passed e m m' (restart_deadline (im_services m ! i)) \<and>
     (SVC_RESTARTING \<notin> sv_flags (im_services m' ! i) \<or>
      is_updatable (ie_h e) (im_services m' ! i) \<and> (\<exists>k. \<not> default_ns_ready (ie_start e k)))"
proof (cases "ie_now e (im_ops m) > restart_deadline (im_services m ! i)")
  case True
  let ?m = "m\<lparr>im_ops := Suc (im_ops m)\<rparr>"
  have m': "m' = snd (on_service (Start (ie_h e)) e i ?m)"
    using assms(1,3) True by (simp add: process_restart_def Let_def tick_def restart_deadline_def)
  have "SVC_RESTARTING \<notin> sv_flags (im_services m' ! i) \<or>
      is_updatable (ie_h e) (im_services m' ! i) \<and> (\<exists>k. \<not> default_ns_ready (ie_start e k))"
    using Start_clears [of "focus i ?m" "ie_h e" "ie_start e (Suc (im_ops m))"] assms(2,4)
    by (auto simp: m' on_service_services focus_def)
  moreover have "passed e m m' (restart_deadline (im_services m ! i))"
    using True by (auto simp: passed_def m' on_service_services)
  ultimately show ?thesis by blast
next
  case False
  then show ?thesis using assms(1,3) by (auto simp: process_restart_def Let_def tick_def restart_deadline_def)
qed

text \<open>Both deadlines of service \<open>i\<close>, seen from the state before and after.\<close>

definition looked_after :: "'q ienv \<Rightarrow> 'q im \<Rightarrow> nat \<Rightarrow> int option \<Rightarrow> 'q im \<Rightarrow> bool" where
  "looked_after e m i nx m' \<longleftrightarrow>
     (let s = im_services m ! i
      in (SVC_RUNNING \<in> sv_flags s \<longrightarrow>
            (\<forall>period. sv_timeout_period s = Some period \<longrightarrow>
               by_then nx (sv_time_started s + period * 10 ^ 9) \<or> passed e m m' (sv_time_started s + period * 10 ^ 9))) \<and>
         (SVC_RESTARTING \<in> sv_flags s \<longrightarrow>
            by_then nx (restart_deadline s) \<or>
            passed e m m' (restart_deadline s) \<and>
            (SVC_RESTARTING \<notin> sv_flags (im_services m' ! i) \<or>
             is_updatable (ie_h e) (im_services m' ! i) \<and> (\<exists>k. \<not> default_ns_ready (ie_start e k)))))"

lemma passed_mono: "passed e m m' d \<Longrightarrow> im_ops m0 \<le> im_ops m \<Longrightarrow> im_ops m' \<le> im_ops m1 \<Longrightarrow> passed e m0 m1 d"
  unfolding passed_def by (elim exE conjE) (rule exI, intro conjI, auto)

lemma process_step_frame:
  assumes "process_step e i (nx, m) = (nx', m')"
  shows "im_ops m \<le> im_ops m'" and "\<And>d. by_then nx d \<Longrightarrow> by_then nx' d"
    and "\<And>j. j \<noteq> i \<Longrightarrow> im_services m' ! j = im_services m ! j" and "length (im_services m') = length (im_services m)"
proof -
  obtain nx1 m1 where t: "process_timeout e i (nx, m) = (nx1, m1)" by force
  then have r: "process_restart e i (nx1, m1) = (nx', m')" using assms by (simp add: process_step_def)
  note f = process_timeout_frame [OF t] process_restart_frame [OF r]
  show "im_ops m \<le> im_ops m'" using f(1,5) by simp
  show "by_then nx d \<Longrightarrow> by_then nx' d" for d using f(2,6) by blast
  show "j \<noteq> i \<Longrightarrow> im_services m' ! j = im_services m ! j" for j using f(3,7) by simp
  show "length (im_services m') = length (im_services m)" using f(4,8) by simp
qed

lemma process_step_looked_after:
  assumes "process_step e i (nx, m) = (nx', m')" and "i < length (im_services m)"
    and "SVC_RESTARTING \<in> sv_flags (im_services m ! i) \<Longrightarrow>
      sv_pid (im_services m ! i) = 0 \<and> SVC_RUNNING \<notin> sv_flags (im_services m ! i)"
  shows "looked_after e m i nx' m'"
proof -
  obtain nx1 m1 where t: "process_timeout e i (nx, m) = (nx1, m1)" by force
  then have r: "process_restart e i (nx1, m1) = (nx', m')" using assms(1) by (simp add: process_step_def)
  note f = process_timeout_frame [OF t] process_restart_frame [OF r]
  have "by_then nx' d \<or> passed e m m' d" if "by_then nx1 d \<or> passed e m m1 d" for d
    using that f(5,6) passed_mono [of e m m1 d m m'] by auto
  moreover have "m1 = m" if "SVC_RESTARTING \<in> sv_flags (im_services m ! i)"
    using t assms(3) [OF that] by (auto simp: process_timeout_def Let_def split: option.splits)
  ultimately show ?thesis
    using process_timeout_deadline [OF t] process_restart_deadline [OF r] assms(2,3)
    unfolding looked_after_def Let_def by blast
qed

lemma looked_after_mono:
  assumes "looked_after e m i nx m'" and "\<And>d. by_then nx d \<Longrightarrow> by_then nx' d" and "im_ops m' \<le> im_ops m1"
    and "im_services m1 ! i = im_services m' ! i" and "im_ops m0 \<le> im_ops m" and "im_services m0 ! i = im_services m ! i"
  shows "looked_after e m0 i nx' m1"
proof -
  have "passed e m m' d \<Longrightarrow> passed e m0 m1 d" for d using passed_mono assms(3,5) by blast
  then show ?thesis using assms(1,2,4,6) unfolding looked_after_def Let_def by metis
qed

lemma process_steps_looked_after:
  assumes "fold (process_step e) xs (nx, m) = (nx', m')" and "distinct xs"
    and "\<And>i. i \<in> set xs \<Longrightarrow> i < length (im_services m) \<and> (SVC_RESTARTING \<in> sv_flags (im_services m ! i) \<longrightarrow>
      sv_pid (im_services m ! i) = 0 \<and> SVC_RUNNING \<notin> sv_flags (im_services m ! i))"
  shows "(\<forall>i \<in> set xs. looked_after e m i nx' m') \<and> im_ops m \<le> im_ops m' \<and> (\<forall>d. by_then nx d \<longrightarrow> by_then nx' d) \<and>
     (\<forall>j. j \<notin> set xs \<longrightarrow> im_services m' ! j = im_services m ! j)"
  using assms
proof (induction xs arbitrary: nx m)
  case (Cons i xs)
  obtain nx1 m1 where p: "process_step e i (nx, m) = (nx1, m1)" by force
  note f = process_step_frame [OF p]
  have same: "im_services m1 ! j = im_services m ! j" if "j \<in> set xs" for j
    using f(3) [of j] that Cons.prems(2) by fastforce
  have IH: "(\<forall>i \<in> set xs. looked_after e m1 i nx' m') \<and> im_ops m1 \<le> im_ops m' \<and> (\<forall>d. by_then nx1 d \<longrightarrow> by_then nx' d) \<and>
     (\<forall>j. j \<notin> set xs \<longrightarrow> im_services m' ! j = im_services m1 ! j)"
  proof (rule Cons.IH)
    show "fold (process_step e) xs (nx1, m1) = (nx', m')" using Cons.prems(1) p by simp
    show "distinct xs" using Cons.prems(2) by simp
    fix j assume "j \<in> set xs"
    then show "j < length (im_services m1) \<and> (SVC_RESTARTING \<in> sv_flags (im_services m1 ! j) \<longrightarrow>
      sv_pid (im_services m1 ! j) = 0 \<and> SVC_RUNNING \<notin> sv_flags (im_services m1 ! j))"
      using Cons.prems(3) [of j] same f(4) by simp
  qed
  have "looked_after e m i nx1 m1" using process_step_looked_after [OF p] Cons.prems(3) [of i] by simp
  then have "looked_after e m i nx' m'"
    using IH Cons.prems(2) by (elim looked_after_mono) auto
  moreover have "looked_after e m j nx' m'" if "j \<in> set xs" for j
    using IH that f(1) same by (intro looked_after_mono [of e m1 j nx' m' nx' m' m]) auto
  ultimately show ?case using IH f Cons.prems(2) by auto
qed simp

lemma HandleProcessActions_looked_after:
  assumes "HandleProcessActions e m = (nx, m')" and "services_ok m" and "i < length (im_services m)"
  shows "looked_after e m i nx m' \<and> im_ops m \<le> im_ops m'"
proof -
  have fd: "fold (process_step e) [0..<length (im_services m)] (None, m) = (nx, m')"
    using assms(1) by (simp add: HandleProcessActions_def process_step_def [abs_def])
  have ok: "SVC_RESTARTING \<in> sv_flags (im_services m ! j) \<longrightarrow>
      sv_pid (im_services m ! j) = 0 \<and> SVC_RUNNING \<notin> sv_flags (im_services m ! j)" if "j < length (im_services m)" for j
    using assms(2) nth_mem [OF that] by (auto simp: services_ok_def control_inv.simps)
  show ?thesis using process_steps_looked_after [OF fd] ok assms(3) by simp
qed

lemma epoll_timeout_bounds:
  assumes "by_then nx d"
  shows "\<exists>t. epoll_timeout nx tnow = Some t \<and> 0 \<le> t \<and> tnow + t * 10 ^ 6 < max d tnow + 10 ^ 6"
proof -
  obtain n where n: "nx = Some n" "n \<le> d" using assms by (auto simp: by_then_def)
  let ?x = "max (n - tnow) 0"
  have "(?x + (10 ^ 6 - 1)) div 10 ^ 6 * 10 ^ 6 \<le> ?x + (10 ^ 6 - 1)" using minus_mod_eq_div_mult [of "?x + (10 ^ 6 - 1)" "10 ^ 6"]
      pos_mod_sign [of "10 ^ 6" "?x + (10 ^ 6 - 1)"] zero_less_power [of "10 :: int" 6] by linarith
  moreover have "0 \<le> (?x + (10 ^ 6 - 1)) div 10 ^ 6" by (simp add: pos_imp_zdiv_nonneg_iff)
  ultimately show ?thesis using n by (auto simp: epoll_timeout_def)
qed


section \<open>An action manager\<close>

text \<open>
  A first-in first-out action manager of names, whose builtin commands are the model's builtin actions; power control
  starts the shutdown.
\<close>

definition find_index :: "('a \<Rightarrow> bool) \<Rightarrow> 'a list \<Rightarrow> nat option" where
  "find_index p l = find (\<lambda>i. p (l ! i)) [0..<length l]"

definition fifo_base :: "string list ienv" where
  "fifo_base = \<lparr>ie_h = std_h, ie_lb = std_libbase, ie_start = (\<lambda>_. demo_start), ie_now = int,
     ie_set_sigstop = (\<lambda>b s. s\<lparr>sv_sigstop := b\<rparr>),
     ie_set_oneshot = (\<lambda>b s. s\<lparr>sv_flags := (if b then insert SVC_ONESHOT (sv_flags s) else sv_flags s - {SVC_ONESHOT})\<rparr>),
     ie_FindService = (\<lambda>l n. find_index (\<lambda>s. sv_name s = n) l),
     ie_FindInterface = (\<lambda>l n. find_index (\<lambda>s. n \<in> sv_interfaces s) l),
     ie_apex_name = (\<lambda>_. []), ie_parse_apex = (\<lambda>_ m. (True, m)), ie_readable = (\<lambda>_. True), ie_fork_execvp = (\<lambda>_. 0),
     ie_stop_services = (\<lambda>_ _ _ m. (0, m)),
     ie_QueuePropertyChange = (\<lambda>n v q. q @ [n @ ''='' @ v]),
     ie_QueueBuiltinAction = (\<lambda>n q. q @ [n]), ie_QueueEventTrigger = (\<lambda>n q. q @ [n]),
     ie_QueueAllPropertyActions = (\<lambda>q. q), ie_RemoveActions = (\<lambda>_ q. q), ie_HasMoreCommands = (\<lambda>q. q \<noteq> []),
     ie_ExecuteOneCommand = (\<lambda>m. m), ie_powerctl = (\<lambda>_ m. m\<lparr>shutting_down := True\<rparr>),
     ie_udc = (\<lambda>_. None), ie_kColdBootDoneProp = ''ro.cold_boot_done'',
     ie_PROP_SUCCESS = 0, ie_PROP_ERROR_HANDLE_CONTROL_MESSAGE = 32\<rparr>"

definition fifo_builtin :: "string \<Rightarrow> string list im \<Rightarrow> string list im" where
  "fifo_builtin c m =
     (if c = ''wait_for_coldboot_done''
      then (case wait_for_coldboot_done_action fifo_base m of Returns m' \<Rightarrow> m' | _ \<Rightarrow> m)
      else if c = ''enable_property_trigger'' then property_enable_triggers_action m
      else if c = ''queue_property_triggers'' then queue_property_triggers_action fifo_base m
      else m)"

definition fifo_execute :: "string list im \<Rightarrow> string list im" where
  "fifo_execute m = (case am m of [] \<Rightarrow> m | c # q \<Rightarrow> fifo_builtin c (m\<lparr>am := q\<rparr>))"

definition fifo_env :: "string list ienv" where
  "fifo_env = fifo_base\<lparr>ie_ExecuteOneCommand := fifo_execute\<rparr>"

lemma StartWaiting_op: "main_op m (snd (StartWaiting e n v m))"
  by (auto simp: StartWaiting_def tick_def Let_def main_op_def wait_kept_def waits_def services_ok_def get_prop_def)

lemma queue_op: "main_op m (m\<lparr>am := q\<rparr>)" "main_op m (m\<lparr>property_triggers_enabled := b\<rparr>)" "main_op m (m\<lparr>shutting_down := True\<rparr>)"
  by (simp_all add: main_op_def wait_kept_def waits_def services_ok_def)

lemma fifo_execute_op: "main_op m (fifo_execute m)"
proof (cases "am m")
  case (Cons c q)
  have "main_op (m\<lparr>am := q\<rparr>) (fifo_builtin c (m\<lparr>am := q\<rparr>))"
    using StartWaiting_op [of "m\<lparr>am := q\<rparr>" fifo_base "ie_kColdBootDoneProp fifo_base" "''true''"]
      queue_op(1) [of "m\<lparr>am := q\<rparr>"] queue_op(2) [of "m\<lparr>am := q\<rparr>"]
    by (auto simp: fifo_builtin_def wait_for_coldboot_done_action_def property_enable_triggers_action_def
        queue_property_triggers_action_def fifo_base_def split_beta split: outcome.split)
  then show ?thesis using main_op_trans [OF queue_op(1)] by (simp add: fifo_execute_def Cons)
qed (simp add: fifo_execute_def)

lemma find_index_less: "find_index p l = Some k \<Longrightarrow> k < length l"
  by (auto simp: find_index_def find_Some_iff)

interpretation fifo: init_env fifo_env
  by (rule init_env.intro)
    (auto simp: fifo_env_def fifo_base_def std_h.service_header_axioms std.libbase_laws_axioms demo_start_def
      fifo_execute_op queue_op find_index_less)


section \<open>Properties of the main loop\<close>

definition loop_entry :: "'q sys \<Rightarrow> bool" where
  "loop_entry s \<longleftrightarrow> pc s = AtShutdown \<and> waiting_for_prop (main s) = None \<and>
     (pending_control_messages (main s) \<noteq> [] \<longrightarrow> 0 < wake_main_thread (main s)) \<and>
     length (pending_control_messages (main s)) \<le> 101 \<and> services_ok (main s)"

lemma loop_entry_inv: "loop_entry s \<Longrightarrow> sys_inv e s"
  by (simp add: loop_entry_def sys_inv_def wait_ok_def messages_ok_def shutdown_ok_def commands_ok_def)

lemma loop_reachable_inv:
  assumes "init_env e" and "loop_entry s0" and "(sys_step e)\<^sup>*\<^sup>* s0 s"
  shows "sys_inv e s"
  using init_env.reachable_sys_inv [OF assms(1,3) loop_entry_inv [OF assms(2)]] .

text \<open>
  C12 (init_loop_invariant): in every state that the main loop reaches beside the property thread, whatever
  properties are set, messages queued, children reaped and keys pressed, at most 101 control messages are
  pending, and every service on the list satisfies the invariant of its control flags: it is marked
  running exactly when it has a process and a start order, a service to be restarted is neither running, disabled nor reset, and
  start orders lie below the next one.
\<close>

theorem init_loop_invariant:
  assumes "init_env e" and "loop_entry s0" and "(sys_step e)\<^sup>*\<^sup>* s0 s"
  shows "length (pending_control_messages (main s)) \<le> 101 \<and>
     (\<forall>sv \<in> set (im_services (main s)).
        (SVC_RUNNING \<in> sv_flags sv \<longleftrightarrow> sv_pid sv \<noteq> 0) \<and> (SVC_RUNNING \<in> sv_flags sv \<longleftrightarrow> sv_start_order sv \<noteq> 0) \<and>
        sv_start_order sv < im_next_order (main s) \<and>
        (SVC_RESTARTING \<in> sv_flags sv \<longrightarrow>
           SVC_RUNNING \<notin> sv_flags sv \<and> SVC_DISABLED \<notin> sv_flags sv \<and> SVC_RESET \<notin> sv_flags sv))"
  using loop_reachable_inv [OF assms]
  by (auto simp: sys_inv_def messages_ok_def services_ok_def control_inv.simps)

text \<open>
  C10 (init_no_lost_wakeup): when the main thread is about to sleep in \<open>Epoll::Wait\<close>, with a
  non-zero or no timeout and an event counter of zero, then unless the system is shutting down no control message is pending, no
  shutdown is requested, and no command could be run: the queue is empty, or init waits for a property or
  an exec service.  This holds however the property thread and the message queue interleave with the
  loop.
\<close>

theorem init_no_lost_wakeup:
  assumes "init_env e" and "loop_entry s0" and "(sys_step e)\<^sup>*\<^sup>* s0 s"
    and "pc s = AtWait timeout" and "timeout \<noteq> Some 0" and "wake_main_thread (main s) = 0" and "\<not> shutting_down (main s)"
  shows "pending_control_messages (main s) = [] \<and> \<not> do_shutdown (main s) \<and>
     (ie_HasMoreCommands e (am (main s)) \<longrightarrow> waiting_for_prop (main s) \<noteq> None \<or> im_exec (main s))"
  using loop_reachable_inv [OF assms(1-3)] assms(4-7)
  by (auto simp: sys_inv_def messages_ok_def shutdown_ok_def commands_ok_def runnable_def)

text \<open>Delivering the notifications in flight, in order.\<close>

definition deliver :: "'q ienv \<Rightarrow> (string \<times> string) list \<Rightarrow> 'q im \<Rightarrow> 'q im" where
  "deliver e = fold (\<lambda>(n, v). PropertyChanged e n v)"

lemma deliver_op: "prop_op m (deliver e xs m)"
proof (induction xs arbitrary: m)
  case (Cons x xs)
  then show ?case
    using prop_op_trans [OF PropertyChanged_effect(1) Cons.IH, of m e] by (cases x) (simp add: deliver_def)
qed (simp add: deliver_def prop_op_steps)

lemma deliver_reset:
  "(wait_prop_name m, wait_prop_value m) \<in> set xs \<Longrightarrow> waiting_for_prop (deliver e xs m) = None"
proof (induction xs arbitrary: m)
  case (Cons x xs)
  obtain n v where x: "x = (n, v)" by force
  let ?m = "PropertyChanged e n v m"
  have d: "deliver e (x # xs) m = deliver e xs ?m" by (simp add: deliver_def x)
  have p: "prop_op m ?m" by (rule PropertyChanged_effect)
  have stay: "waiting_for_prop (deliver e xs ?m) = None" if "waiting_for_prop ?m = None"
    using deliver_op [of ?m e xs] that by (auto simp: prop_op_def waits_def)
  show ?case
  proof (cases "waiting_for_prop ?m = None")
    case True
    then show ?thesis using stay d by simp
  next
    case False
    then have "waits ?m = waits m" using p by (auto simp: prop_op_def)
    moreover have "(wait_prop_name m, wait_prop_value m) \<noteq> x"
      using PropertyChanged_effect(2) [OF False] by (simp add: x)
    ultimately have "(wait_prop_name ?m, wait_prop_value ?m) \<in> set xs" using Cons.prems by (auto simp: waits_def)
    then show ?thesis using Cons.IH d by simp
  qed
qed simp

text \<open>
  C11 (init_property_wait): init never waits for a property that already has the awaited value without the
  end of the wait being under way.  In every reachable state in which the main thread waits and the
  property has the value, delivering the notifications in flight ends the wait and leaves a wake-up for the main thread.
\<close>

theorem init_property_wait:
  assumes "init_env e" and "loop_entry s0" and "(sys_step e)\<^sup>*\<^sup>* s0 s"
    and "waiting_for_prop (main s) \<noteq> None" and "get_prop (wait_prop_name (main s)) [] (main s) = wait_prop_value (main s)"
  shows "waiting_for_prop (deliver e (inflight s) (main s)) = None \<and> 0 < wake_main_thread (deliver e (inflight s) (main s))"
proof -
  have "(wait_prop_name (main s), wait_prop_value (main s)) \<in> set (inflight s)"
    using loop_reachable_inv [OF assms(1-3)] assms(4,5) by (simp add: sys_inv_def wait_ok_def Let_def)
  then have none: "waiting_for_prop (deliver e (inflight s) (main s)) = None" by (rule deliver_reset)
  then have "runnable_view (deliver e (inflight s) (main s)) \<noteq> runnable_view (main s)"
    using assms(4) by (auto simp: runnable_view_def)
  then show ?thesis using none deliver_op [of "main s" e "inflight s"] by (auto simp: prop_op_def)
qed

text \<open>
  The timeout of \<open>Epoll::Wait\<close> reaches \<open>d\<close> within a millisecond, counted from the clock reading that the
  timeout was computed from.
\<close>

definition wakes_by :: "'q ienv \<Rightarrow> int option \<Rightarrow> 'q im \<Rightarrow> int \<Rightarrow> bool" where
  "wakes_by e timeout m' d \<longleftrightarrow>
     (let tnow = ie_now e (im_ops m' - 1)
      in \<exists>t. timeout = Some t \<and> 0 \<le> t \<and> tnow + t * 10 ^ 6 < max d tnow + 10 ^ 6)"

lemma loop_wakes_by:
  assumes "loop_wait e (nx, m) = (timeout, m')" and "by_then nx d"
  shows "wakes_by e timeout m' d"
proof -
  obtain n where n: "nx = Some n" using assms(2) by (auto simp: by_then_def)
  have "timeout = epoll_timeout nx (ie_now e (im_ops m))" "im_ops m' - 1 = im_ops m"
    using assms(1) by (auto simp: loop_wait_def tick_def n)
  then show ?thesis using epoll_timeout_bounds [OF assms(2)] by (simp add: wakes_by_def)
qed

lemma loop_looked_after:
  assumes "services_ok m" and "\<not> shutting_down m" and "i < length (im_services m)"
    and "loop_process e (nx, m) = (nx', m1)"
  shows "looked_after e m i nx' m1" and "im_ops m \<le> im_ops m1"
proof -
  obtain nx1 where h: "HandleProcessActions e m = (nx1, m1)" and n: "by_then nx1 d \<Longrightarrow> by_then nx' d" for d
    using assms(2,4) by (cases "HandleProcessActions e m") (auto simp: loop_process_def by_then_def split: option.splits)
  note l = HandleProcessActions_looked_after [OF h assms(1,3)]
  show "im_ops m \<le> im_ops m1" using l by simp
  show "looked_after e m i nx' m1" using l n by (auto intro: looked_after_mono)
qed

text \<open>
  C13 (init_wakes_in_time): no deadline of a service is slept through.  After a pass over the services, for
  each service that ran with a timeout and each that was to be restarted, either the wait that follows ends
  less than a millisecond after the deadline, or the deadline had passed during the pass.  In the
  latter case a service to be restarted is no longer waiting for its restart, unless it comes from an updatable
  APEX and these are not ready yet.
\<close>

theorem init_wakes_in_time:
  assumes "services_ok m" and "\<not> shutting_down m" and "i < length (im_services m)" and "im_services m ! i = sv"
    and "loop_wait e (loop_process e (nx, m)) = (timeout, m')"
  shows "(SVC_RUNNING \<in> sv_flags sv \<and> sv_timeout_period sv = Some period \<longrightarrow>
        wakes_by e timeout m' (sv_time_started sv + period * 10 ^ 9) \<or> passed e m m' (sv_time_started sv + period * 10 ^ 9)) \<and>
     (SVC_RESTARTING \<in> sv_flags sv \<longrightarrow>
        wakes_by e timeout m' (sv_time_started sv + sv_restart_period sv * 10 ^ 9) \<or>
        passed e m m' (sv_time_started sv + sv_restart_period sv * 10 ^ 9) \<and>
        (SVC_RESTARTING \<notin> sv_flags (im_services m' ! i) \<or>
         is_updatable (ie_h e) (im_services m' ! i) \<and> (\<exists>k. \<not> default_ns_ready (ie_start e k))))"
proof -
  obtain nx1 m1 where p: "loop_process e (nx, m) = (nx1, m1)" by force
  note l = loop_looked_after [OF assms(1-3) p]
  have w: "loop_wait e (nx1, m1) = (timeout, m')" using assms(5) p by simp
  have m': "im_services m' = im_services m1" "im_ops m1 \<le> im_ops m'"
    using w by (auto simp: loop_wait_def tick_def split: option.splits)
  have "by_then nx1 d \<Longrightarrow> wakes_by e timeout m' d" "passed e m m1 d \<Longrightarrow> passed e m m' d" for d
    using loop_wakes_by [OF w] passed_mono [of e m m1 d m m'] m'(2) by auto
  then show ?thesis using l(1) assms(4) m'(1) unfolding looked_after_def Let_def restart_deadline_def by auto
qed



section \<open>Witnesses\<close>

definition demo_im :: "string list \<Rightarrow> service \<Rightarrow> string list im" where
  "demo_im q sv = \<lparr>im_services = [sv], im_next_order = 1, im_exec = False, im_eff = [], im_ops = 0, im_area = Map.empty,
     im_props = [], property_triggers_enabled = False, pending_control_messages = [], waiting_for_prop = None,
     wait_prop_name = [], wait_prop_value = [], shutdown_command = [], do_shutdown = False, shutting_down = False,
     wake_main_thread = 0, am = q, responses = [], controller_set = False, boot_log = [], late_import_paths = []\<rparr>"

definition demo_sys :: "string list \<Rightarrow> string list sys" where
  "demo_sys q = \<lparr>main = demo_im q demo_service, pc = AtShutdown, inflight = []\<rparr>"

lemma demo_sys_entry: "loop_entry (demo_sys q)"
  by (simp add: loop_entry_def demo_sys_def demo_im_def services_ok_def demo_service_def control_inv.simps)

lemmas demo_loop_defs = loop_shutdown_def CheckShutdown_def loop_execute_def MightBeWaiting_def fifo_env_def fifo_base_def
  fifo_execute_def loop_process_def loop_wait_def HandleProcessActions_def process_timeout_def process_restart_def
  demo_sys_def demo_im_def demo_service_def tick_def

text \<open>The first round with an empty queue, up to the wait.\<close>

lemma demo_sys_idle:
  "(sys_step fifo_env)\<^sup>*\<^sup>* (demo_sys []) ((demo_sys [])\<lparr>pc := AtWait None\<rparr>)"
proof -
  have 1: "sys_step fifo_env (demo_sys []) ((demo_sys [])\<lparr>pc := AtExecute\<rparr>)"
    using sys_step.shutdown [of "demo_sys []" fifo_env] by (simp add: demo_loop_defs)
  have 2: "sys_step fifo_env ((demo_sys [])\<lparr>pc := AtExecute\<rparr>) ((demo_sys [])\<lparr>pc := AtProcess None\<rparr>)"
    using sys_step.execute [of "(demo_sys [])\<lparr>pc := AtExecute\<rparr>" fifo_env] by (simp add: demo_loop_defs)
  have 3: "sys_step fifo_env ((demo_sys [])\<lparr>pc := AtProcess None\<rparr>) ((demo_sys [])\<lparr>pc := AtWait None\<rparr>)"
    using sys_step.process [of "(demo_sys [])\<lparr>pc := AtProcess None\<rparr>" None fifo_env] by (simp add: demo_loop_defs)
  show ?thesis using 1 2 3 by (meson rtranclp.rtrancl_refl converse_rtranclp_into_rtranclp)
qed

theorem init_loop_invariant_witness:
  "\<exists>s. (sys_step fifo_env)\<^sup>*\<^sup>* (demo_sys []) s \<and> pending_control_messages (main s) \<noteq> [] \<and>
     length (pending_control_messages (main s)) \<le> 101 \<and> (\<forall>sv \<in> set (im_services (main s)). sv_start_order sv < im_next_order (main s))"
proof -
  let ?s = "(demo_sys [])\<lparr>main := snd (QueueControlMessage ''start'' ''adbd'' 7 9 (main (demo_sys [])))\<rparr>"
  have r: "(sys_step fifo_env)\<^sup>*\<^sup>* (demo_sys []) ?s" by (rule r_into_rtranclp, rule sys_step.queue_message)
  have "pending_control_messages (main ?s) \<noteq> []"
    by (simp add: QueueControlMessage_def WakeMainInitThread_def demo_sys_def demo_im_def)
  then show ?thesis
    using r init_loop_invariant [OF fifo.init_env_axioms demo_sys_entry r] by blast
qed

theorem init_no_lost_wakeup_witness:
  "\<exists>s. (sys_step fifo_env)\<^sup>*\<^sup>* (demo_sys []) s \<and> pc s = AtWait None \<and> wake_main_thread (main s) = 0 \<and>
     pending_control_messages (main s) = [] \<and> \<not> do_shutdown (main s)"
proof -
  have "wake_main_thread (main ((demo_sys [])\<lparr>pc := AtWait None\<rparr>)) = 0" "\<not> shutting_down (main ((demo_sys [])\<lparr>pc := AtWait None\<rparr>))"
    by (simp_all add: demo_sys_def demo_im_def)
  with init_no_lost_wakeup [OF fifo.init_env_axioms demo_sys_entry demo_sys_idle] demo_sys_idle
  show ?thesis by (intro exI [of _ "(demo_sys [])\<lparr>pc := AtWait None\<rparr>"]) simp
qed

text \<open>A round that runs the builtin action waiting for the end of the cold boot, with the property set meanwhile.\<close>

definition demo_waiting :: "string list sys" where
  "demo_waiting =
     (let m = snd (loop_execute fifo_env (demo_im [''wait_for_coldboot_done''] demo_service))
      in \<lparr>main = m\<lparr>im_area := (im_area m)(''ro.cold_boot_done'' \<mapsto> ''true'')\<rparr>, pc = AtProcess None,
          inflight = [(''ro.cold_boot_done'', ''true'')]\<rparr>)"

lemma demo_waiting_reached: "(sys_step fifo_env)\<^sup>*\<^sup>* (demo_sys [''wait_for_coldboot_done'']) demo_waiting"
proof -
  let ?s = "demo_sys [''wait_for_coldboot_done'']"
  let ?m = "snd (loop_execute fifo_env (main ?s))"
  have 1: "sys_step fifo_env ?s (?s\<lparr>pc := AtExecute\<rparr>)"
    using sys_step.shutdown [of ?s fifo_env] by (simp add: loop_shutdown_def CheckShutdown_def demo_sys_def demo_im_def)
  have "fst (loop_execute fifo_env (main ?s)) = None" by code_simp
  then have 2: "sys_step fifo_env (?s\<lparr>pc := AtExecute\<rparr>) (?s\<lparr>main := ?m, pc := AtProcess None\<rparr>)"
    using sys_step.execute [of "?s\<lparr>pc := AtExecute\<rparr>" fifo_env None ?m] by (simp add: demo_sys_def prod_eq_iff)
  have 3: "sys_step fifo_env (?s\<lparr>main := ?m, pc := AtProcess None\<rparr>) demo_waiting"
    using sys_step.property_set [of fifo_env "?s\<lparr>main := ?m, pc := AtProcess None\<rparr>" "''ro.cold_boot_done''" "''true''"]
    by (simp add: demo_waiting_def demo_sys_def Let_def)
  show ?thesis using 1 2 3 by (meson rtranclp.rtrancl_refl converse_rtranclp_into_rtranclp)
qed

theorem init_property_wait_witness:
  "waiting_for_prop (main demo_waiting) \<noteq> None \<and>
   waiting_for_prop (deliver fifo_env (inflight demo_waiting) (main demo_waiting)) = None \<and>
   0 < wake_main_thread (deliver fifo_env (inflight demo_waiting) (main demo_waiting))"
proof -
  have w: "waiting_for_prop (main demo_waiting) \<noteq> None" by code_simp
  have v: "get_prop (wait_prop_name (main demo_waiting)) [] (main demo_waiting) = wait_prop_value (main demo_waiting)" by code_simp
  show ?thesis
    using w init_property_wait [OF fifo.init_env_axioms demo_sys_entry demo_waiting_reached w v] by blast
qed

theorem init_wakes_in_time_witness:
  "\<exists>timeout m'. loop_wait fifo_env (loop_process fifo_env (None, demo_im [] (demo_service\<lparr>sv_flags := {SVC_RESTARTING}\<rparr>))) =
       (timeout, m') \<and>
     (wakes_by fifo_env timeout m' (5 * 10 ^ 9) \<or> SVC_RESTARTING \<notin> sv_flags (im_services m' ! 0))"
proof -
  let ?m = "demo_im [] (demo_service\<lparr>sv_flags := {SVC_RESTARTING}\<rparr>)"
  obtain timeout m' where r: "loop_wait fifo_env (loop_process fifo_env (None, ?m)) = (timeout, m')" by force
  have "services_ok ?m" by (simp add: services_ok_def demo_im_def demo_service_def control_inv.simps)
  moreover have "\<not> shutting_down ?m" "0 < length (im_services ?m)" by (simp_all add: demo_im_def)
  ultimately show ?thesis
    using r init_wakes_in_time [OF _ _ _ refl r, where i = 0]
    by (simp add: demo_im_def demo_service_def fifo_env_def fifo_base_def demo_start_def) blast
qed

end
