(* ===== verification/Avb.thy ===== *)
theory Avb
  imports Fstab "HOL-Library.List_Lexorder" "HOL-Library.Char_ord"
begin

text \<open>
  Verified boot: \<open>avb_util.cpp\<close>, \<open>fs_avb.cpp\<close>, \<open>fs_avb_util.cpp\<close> and the helpers of \<open>avb_util2.cpp\<close>.  A vbmeta
  image is loaded from a partition, its signature checked, the images chained to it loaded in turn; a
  handle over the images sets up dm-verity for an entry of the fstab.  libavb, the hash functions,
  device mapper and the file system are the parameter \<open>avb_env\<close>, over a state \<open>'k\<close> of the kernel.
\<close>

section \<open>Data\<close>

datatype HashAlgorithm = kInvalid | kSHA256 | kSHA512

datatype VBMetaVerifyResult = Vbmeta_Success | Vbmeta_Error | Vbmeta_ErrorVerification

datatype AvbHandleStatus =
    Handle_Uninitialized | Handle_Success | Handle_HashtreeDisabled | Handle_VerificationDisabled
  | Handle_VerificationError

datatype AvbHashtreeResult = Hashtree_Success | Hashtree_Fail | Hashtree_Disabled

text \<open>The answers of \<open>avb_vbmeta_image_verify\<close> and \<open>avb_slot_verify\<close> that the code tells apart.\<close>

datatype avb_verify =
    AV_OK | AV_OK_NOT_SIGNED | AV_HASH_MISMATCH | AV_SIGNATURE_MISMATCH | AV_INVALID_VBMETA_HEADER
  | AV_UNSUPPORTED_VERSION | AV_OTHER

datatype avb_slot_verify = SV_OK | SV_ERROR_VERIFICATION | SV_ERROR_PUBLIC_KEY_REJECTED | SV_OTHER

record VBMetaData =
  vb_data :: "u8 list"
  vb_partition :: string
  vb_path :: string

record vbmeta_header =
  vh_flags :: u32
  vh_rollback_index :: u64

record avb_footer =
  ft_vbmeta_offset :: u64
  ft_vbmeta_size :: u64

record hashtree_header =
  ht_dm_verity_version :: u32
  ht_image_size :: u64
  ht_tree_offset :: u64
  ht_data_block_size :: u32
  ht_hash_block_size :: u32
  ht_fec_num_roots :: u32
  ht_fec_offset :: u64
  ht_fec_size :: u64
  ht_hash_algorithm :: "u8 list"
  ht_partition_name_len :: nat
  ht_salt_len :: nat
  ht_root_digest_len :: nat
  ht_flags :: u32

record FsAvbHashtreeDescriptor = hashtree_header +
  hd_partition_name :: string
  hd_salt :: string
  hd_root_digest :: string

record hash_header =
  hh_partition_name_len :: nat
  hh_salt_len :: nat
  hh_digest_len :: nat

record FsAvbHashDescriptor = hash_header +
  hs_partition_name :: string
  hs_salt :: string
  hs_digest :: string

record chain_header =
  ch_partition_name_len :: nat
  ch_public_key_len :: nat

record ChainInfo =
  ci_partition_name :: string
  ci_public_key_blob :: "u8 list"

text \<open>A dm-verity target as the code builds it.\<close>

record verity_target =
  vt_start :: u64
  vt_length :: u64
  vt_version :: u32
  vt_block_device :: string
  vt_hash_device :: string
  vt_data_block_size :: u32
  vt_hash_block_size :: u32
  vt_num_data_blocks :: u64
  vt_hash_start_block :: u64
  vt_hash_algorithm :: string
  vt_root_digest :: string
  vt_salt :: string
  vt_fec :: "(string \<times> u32 \<times> u64 \<times> u64) option"
  vt_mode :: string
  vt_ignore_zero_blocks :: bool
  vt_check_at_most_once :: bool
  vt_readonly :: bool

record AvbVerifier =
  vf_hash_alg :: HashAlgorithm
  vf_digest :: "u8 list"
  vf_vbmeta_size :: nat

record AvbHandle =
  ah_vbmeta_images :: "VBMetaData list"
  ah_status :: AvbHandleStatus
  ah_slot_suffix :: string
  ah_other_slot_suffix :: string
  ah_avb_version :: string
  ah_vbmeta_info :: "(string \<times> HashAlgorithm \<times> nat) option"

record 'k avb_env =
  av_fv :: fstab_env
  slot_suffix :: string
  other_slot_suffix :: string
  OtherSlotSuffix :: "string \<Rightarrow> string"
  av_access :: "string \<Rightarrow> nat \<Rightarrow> 'k \<Rightarrow> access_result"
  av_polls :: "string \<Rightarrow> 'k \<Rightarrow> nat"
  av_read :: "string \<Rightarrow> 'k \<Rightarrow> u8 list option"
  av_readdir :: "string \<Rightarrow> 'k \<Rightarrow> (bool \<times> string) list option"
  av_openable :: "string \<Rightarrow> 'k \<Rightarrow> bool"
  av_seek_cur :: "string \<Rightarrow> 'k \<Rightarrow> int"
  av_seek_end :: "string \<Rightarrow> 'k \<Rightarrow> int"
  av_pread :: "string \<Rightarrow> nat \<Rightarrow> int \<Rightarrow> 'k \<Rightarrow> u8 list option"
  av_buffer :: "nat \<Rightarrow> u8 list"
  avb_footer_validate :: "u8 list \<Rightarrow> avb_footer option"
  avb_vbmeta_image_verify :: "u8 list \<Rightarrow> avb_verify \<times> u8 list"
  GetVBMetaHeader :: "u8 list \<Rightarrow> (vbmeta_header \<times> u8 list) option"
  avb_descriptor_get_all :: "u8 list \<Rightarrow> u8 list list"
  avb_descriptor_validate :: "u8 list \<Rightarrow> nat option"
  avb_hashtree_validate :: "u8 list \<Rightarrow> hashtree_header option"
  avb_hash_validate :: "u8 list \<Rightarrow> hash_header option"
  avb_chain_validate :: "u8 list \<Rightarrow> chain_header option"
  avb_property_lookup :: "u8 list \<Rightarrow> string \<Rightarrow> string option"
  avb_header_flags :: "u8 list \<Rightarrow> u32"
  av_sha :: "HashAlgorithm \<Rightarrow> u8 list \<Rightarrow> u8 list"
  AvbSlotVerify :: "string \<Rightarrow> bool \<Rightarrow> 'k \<Rightarrow> avb_slot_verify \<times> VBMetaData list"
  dm_table_valid :: "verity_target \<Rightarrow> bool"
  dm_create :: "string \<Rightarrow> verity_target \<Rightarrow> bool \<Rightarrow> 'k \<Rightarrow> string option \<times> 'k"
  dm_delete :: "string \<Rightarrow> 'k \<Rightarrow> bool \<times> 'k"
  dm_path :: "string \<Rightarrow> 'k \<Rightarrow> string option"
  av_set_readonly :: "string \<Rightarrow> 'k \<Rightarrow> bool \<times> 'k"
  sizeof_hashtree :: nat
  sizeof_hash :: nat
  sizeof_chain :: nat
  AVB_FOOTER_SIZE :: nat
  kMaxVBMetaSize :: nat
  AVB_VERSION :: string
  DSU_METADATA_PREFIX :: string

text \<open>
  \<open>av_access p i\<close> is the answer of the \<open>i\<close>-th \<open>access\<close> of a loop that polls for \<open>p\<close>, and \<open>av_polls p\<close> how often
  the loop polls before the clock passes its limit.  \<open>av_buffer n\<close> is what a new buffer of \<open>n\<close> bytes
  contains.  \<open>GetVBMetaHeader\<close> gives the header and the image cut to the size that the header states.
  \<open>avb_vbmeta_image_verify\<close> gives the public key too, empty when there is none.
\<close>

abbreviation av_lb :: "'k avb_env \<Rightarrow> libbase" where "av_lb e \<equiv> flb (av_fv e)"

definition AVB_DESCRIPTOR_TAG_HASHTREE :: nat where "AVB_DESCRIPTOR_TAG_HASHTREE = 1"
definition AVB_DESCRIPTOR_TAG_HASH :: nat where "AVB_DESCRIPTOR_TAG_HASH = 2"
definition AVB_DESCRIPTOR_TAG_CHAIN_PARTITION :: nat where "AVB_DESCRIPTOR_TAG_CHAIN_PARTITION = 4"
definition FLAGS_HASHTREE_DISABLED :: u32 where "FLAGS_HASHTREE_DISABLED = 1"
definition FLAGS_VERIFICATION_DISABLED :: u32 where "FLAGS_VERIFICATION_DISABLED = 2"
definition FLAGS_CHECK_AT_MOST_ONCE :: u32 where "FLAGS_CHECK_AT_MOST_ONCE = 2"

section \<open>Helpers\<close>

definition NibbleValue :: "char \<Rightarrow> u8 option" where
  "NibbleValue c =
     (let n = of_char c :: nat
      in if 48 \<le> n \<and> n \<le> 57 then Some (of_nat (n - 48))
         else if 97 \<le> n \<and> n \<le> 102 then Some (of_nat (n - 97 + 10))
         else if 65 \<le> n \<and> n \<le> 70 then Some (of_nat (n - 65 + 10))
         else None)"

fun hex_loop :: "string \<Rightarrow> u8 list option" where
  "hex_loop (a # b # r) =
     (case NibbleValue a of
        None \<Rightarrow> None
      | Some high \<Rightarrow>
          (case NibbleValue b of
             None \<Rightarrow> None
           | Some low \<Rightarrow> map_option (\<lambda>bs. (push_bit 4 high OR low) # bs) (hex_loop r)))"
| "hex_loop _ = Some []"

definition HexToBytes :: "nat \<Rightarrow> string \<Rightarrow> u8 list option" where
  "HexToBytes bytes_len hex =
     (if length hex mod 2 \<noteq> 0 then None
      else if length hex div 2 > bytes_len then None
      else hex_loop hex)"

definition hex_digits :: string where "hex_digits = ''0123456789abcdef''"

definition BytesToHex :: "u8 list \<Rightarrow> string" where
  "BytesToHex bytes =
     concat (map (\<lambda>b. [hex_digits ! unat (drop_bit 4 (b AND 0xF0)), hex_digits ! unat (b AND 0x0F)]) bytes)"

fun wait_loop :: "(nat \<Rightarrow> access_result) \<Rightarrow> bool \<Rightarrow> nat \<Rightarrow> nat \<Rightarrow> bool" where
  "wait_loop acc exists i polls =
     (if (acc i = NoEntry) \<noteq> exists then True
      else case polls of 0 \<Rightarrow> False | Suc polls \<Rightarrow> wait_loop acc exists (Suc i) polls)"

definition WaitForFile :: "'k avb_env \<Rightarrow> string \<Rightarrow> bool \<Rightarrow> 'k \<Rightarrow> bool" where
  "WaitForFile e filename exists k = wait_loop (\<lambda>i. av_access e filename i k) exists 0 (av_polls e filename k)"

definition IsDeviceUnlocked :: "'k avb_env \<Rightarrow> bool" where
  "IsDeviceUnlocked e = (get_boot_config (av_fv e) ''verifiedbootstate'' = Some ''orange'')"

definition ListFiles :: "'k avb_env \<Rightarrow> string \<Rightarrow> 'k \<Rightarrow> string list option" where
  "ListFiles e dir k =
     map_option (\<lambda>es. map (\<lambda>en. dir @ ''/'' @ snd en) (filter fst es)) (av_readdir e dir k)"

section \<open>Partition names\<close>

definition AvbPartitionToDevicePatition :: "string \<Rightarrow> string \<Rightarrow> string \<Rightarrow> string" where
  "AvbPartitionToDevicePatition avb_partition_name ab_suffix ab_other_suffix =
     (case rfind_str ''_other'' avb_partition_name of
        Some p \<Rightarrow> take p avb_partition_name @ ab_other_suffix
      | None \<Rightarrow> avb_partition_name @ ab_suffix)"

definition erase_from_last :: "string \<Rightarrow> string \<Rightarrow> string" where
  "erase_from_last suf name = (case rfind_str suf name of Some p \<Rightarrow> take p name | None \<Rightarrow> name)"

definition DeriveAvbPartitionName :: "'k avb_env \<Rightarrow> fstab_entry \<Rightarrow> string \<Rightarrow> string \<Rightarrow> string" where
  "DeriveAvbPartitionName e entry ab_suffix ab_other_suffix =
     (let partition_name = (if F_logical \<in> fe_fs_mgr_flags entry then fe_logical_partition_name entry
                            else Basename (av_lb e) (fe_blk_device entry))
      in if F_slot_select \<in> fe_fs_mgr_flags entry then erase_from_last ab_suffix partition_name
         else if F_slot_select_other \<in> fe_fs_mgr_flags entry
         then erase_from_last ab_other_suffix partition_name @ ''_other''
         else partition_name)"

section \<open>Descriptors\<close>

text \<open>
  The first descriptor of the images that is valid, has the tag and names the partition: its header and
  the bytes that follow the partition name.
\<close>

definition match_descriptor ::
    "'k avb_env \<Rightarrow> nat \<Rightarrow> nat \<Rightarrow> (u8 list \<Rightarrow> 'h option) \<Rightarrow> ('h \<Rightarrow> nat) \<Rightarrow> string \<Rightarrow> u8 list \<Rightarrow> ('h \<times> u8 list) option" where
  "match_descriptor e tag hdr_len validate name_len partition_name d =
     (if avb_descriptor_validate e d \<noteq> Some tag then None
      else case validate d of
        None \<Rightarrow> None
      | Some h \<Rightarrow>
          if name_len h \<noteq> length partition_name then None
          else if string_of_bytes (take (name_len h) (drop hdr_len d)) \<noteq> partition_name then None
          else Some (h, drop (hdr_len + name_len h) d))"

fun first_match :: "('a \<Rightarrow> 'b option) \<Rightarrow> 'a list \<Rightarrow> 'b option" where
  "first_match f [] = None"
| "first_match f (x # xs) = (case f x of Some y \<Rightarrow> Some y | None \<Rightarrow> first_match f xs)"

definition GetHashtreeDescriptor ::
    "'k avb_env \<Rightarrow> string \<Rightarrow> VBMetaData list \<Rightarrow> FsAvbHashtreeDescriptor option" where
  "GetHashtreeDescriptor e partition_name vbmeta_images =
     map_option
       (\<lambda>(h, r). hashtree_header.extend h
          \<lparr>hd_partition_name = partition_name, hd_salt = BytesToHex (take (ht_salt_len h) r),
           hd_root_digest = BytesToHex (take (ht_root_digest_len h) (drop (ht_salt_len h) r))\<rparr>)
       (first_match
          (\<lambda>vb. first_match
             (match_descriptor e AVB_DESCRIPTOR_TAG_HASHTREE (sizeof_hashtree e) (avb_hashtree_validate e)
                ht_partition_name_len partition_name)
             (avb_descriptor_get_all e (vb_data vb)))
          vbmeta_images)"

definition GetHashDescriptor :: "'k avb_env \<Rightarrow> string \<Rightarrow> VBMetaData list \<Rightarrow> FsAvbHashDescriptor option" where
  "GetHashDescriptor e partition_name vbmeta_images =
     map_option
       (\<lambda>(h, r). hash_header.extend h
          \<lparr>hs_partition_name = partition_name, hs_salt = BytesToHex (take (hh_salt_len h) r),
           hs_digest = BytesToHex (take (hh_digest_len h) (drop (hh_salt_len h) r))\<rparr>)
       (first_match
          (\<lambda>vb. first_match
             (match_descriptor e AVB_DESCRIPTOR_TAG_HASH (sizeof_hash e) (avb_hash_validate e)
                hh_partition_name_len partition_name)
             (avb_descriptor_get_all e (vb_data vb)))
          vbmeta_images)"

definition hashtree_of_image :: "'k avb_env \<Rightarrow> string \<Rightarrow> VBMetaData \<Rightarrow> FsAvbHashtreeDescriptor option" where
  "hashtree_of_image e avb_partition_name vb =
     (if vb_data vb = [] then None else GetHashtreeDescriptor e avb_partition_name [vb])"

definition hash_of_image :: "'k avb_env \<Rightarrow> string \<Rightarrow> VBMetaData \<Rightarrow> FsAvbHashDescriptor option" where
  "hash_of_image e avb_partition_name vb =
     (if vb_data vb = [] then None else GetHashDescriptor e avb_partition_name [vb])"

definition GetAvbPropertyDescriptor :: "'k avb_env \<Rightarrow> string \<Rightarrow> VBMetaData list \<Rightarrow> string" where
  "GetAvbPropertyDescriptor e key vbmeta_images =
     (case first_match (\<lambda>vb. avb_property_lookup e (vb_data vb) key) vbmeta_images of Some v \<Rightarrow> v | None \<Rightarrow> [])"

text \<open>\<open>None\<close> is \<open>fatal_error\<close>.\<close>

fun chain_loop :: "'k avb_env \<Rightarrow> u8 list list \<Rightarrow> ChainInfo list option" where
  "chain_loop e [] = Some []"
| "chain_loop e (d # ds) =
     (case avb_descriptor_validate e d of
        None \<Rightarrow> None
      | Some tag \<Rightarrow>
          if tag = AVB_DESCRIPTOR_TAG_CHAIN_PARTITION then
            (case avb_chain_validate e d of
               None \<Rightarrow> None
             | Some h \<Rightarrow>
                 (let r = drop (sizeof_chain e) d
                  in map_option
                       (\<lambda>cs. \<lparr>ci_partition_name = string_of_bytes (take (ch_partition_name_len h) r),
                               ci_public_key_blob = take (ch_public_key_len h) (drop (ch_partition_name_len h) r)\<rparr> # cs)
                       (chain_loop e ds)))
          else chain_loop e ds)"

definition GetChainPartitionInfo :: "'k avb_env \<Rightarrow> VBMetaData \<Rightarrow> ChainInfo list option" where
  "GetChainPartitionInfo e vb = chain_loop e (avb_descriptor_get_all e (vb_data vb))"

section \<open>Loading a vbmeta image\<close>

definition GetTotalSize :: "'k avb_env \<Rightarrow> string \<Rightarrow> 'k \<Rightarrow> int" where
  "GetTotalSize e fd k = (if av_seek_cur e fd k = -1 then -1 else av_seek_end e fd k)"

definition GetAvbFooter :: "'k avb_env \<Rightarrow> string \<Rightarrow> 'k \<Rightarrow> avb_footer option" where
  "GetAvbFooter e fd k =
     (let footer_offset = GetTotalSize e fd k - int (AVB_FOOTER_SIZE e)
      in case av_pread e fd (AVB_FOOTER_SIZE e) footer_offset k of
           None \<Rightarrow> None
         | Some bs \<Rightarrow> if length bs \<noteq> AVB_FOOTER_SIZE e then None else avb_footer_validate e bs)"

definition ValidatePublicKeyBlob :: "u8 list \<Rightarrow> u8 list \<Rightarrow> bool" where
  "ValidatePublicKeyBlob key expected_key_blob =
     (if expected_key_blob = [] then True
      else if length expected_key_blob \<noteq> length key then False
      else key = expected_key_blob)"

fun key_in_files :: "'k avb_env \<Rightarrow> u8 list \<Rightarrow> string list \<Rightarrow> 'k \<Rightarrow> bool" where
  "key_in_files e key [] k = False"
| "key_in_files e key (p # ps) k =
     (if av_read e p k = Some key then True else key_in_files e key ps k)"

definition ValidatePublicKeyFiles :: "'k avb_env \<Rightarrow> u8 list \<Rightarrow> string list \<Rightarrow> 'k \<Rightarrow> bool" where
  "ValidatePublicKeyFiles e key_blob_to_validate allowed_key_paths k =
     (if key_blob_to_validate = [] then False else key_in_files e key_blob_to_validate allowed_key_paths k)"

definition VerifyVBMetaSignature :: "'k avb_env \<Rightarrow> u8 list \<Rightarrow> u8 list \<Rightarrow> VBMetaVerifyResult \<times> u8 list" where
  "VerifyVBMetaSignature e vbmeta expected_public_key_blob =
     (case avb_vbmeta_image_verify e vbmeta of
        (ret, pk) \<Rightarrow>
          ((case ret of
              AV_OK \<Rightarrow>
                if pk = [] then Vbmeta_Error
                else if \<not> ValidatePublicKeyBlob pk expected_public_key_blob then Vbmeta_ErrorVerification
                else Vbmeta_Success
            | AV_OK_NOT_SIGNED \<Rightarrow> Vbmeta_ErrorVerification
            | AV_HASH_MISMATCH \<Rightarrow> Vbmeta_ErrorVerification
            | AV_SIGNATURE_MISMATCH \<Rightarrow> Vbmeta_ErrorVerification
            | AV_INVALID_VBMETA_HEADER \<Rightarrow> Vbmeta_Error
            | AV_UNSUPPORTED_VERSION \<Rightarrow> Vbmeta_Error
            | AV_OTHER \<Rightarrow> Vbmeta_Error), pk))"

definition vbmeta_extent :: "'k avb_env \<Rightarrow> string \<Rightarrow> string \<Rightarrow> 'k \<Rightarrow> (u64 \<times> u64) option" where
  "vbmeta_extent e fd partition_name k =
     (if StartsWith (av_lb e) partition_name ''vbmeta'' then Some (0, of_nat (kMaxVBMetaSize e))
      else map_option (\<lambda>f. (ft_vbmeta_offset f, ft_vbmeta_size f)) (GetAvbFooter e fd k))"

definition VerifyVBMetaData ::
    "'k avb_env \<Rightarrow> string \<Rightarrow> string \<Rightarrow> u8 list \<Rightarrow> 'k \<Rightarrow> (VBMetaData \<times> u8 list \<times> VBMetaVerifyResult) option" where
  "VerifyVBMetaData e fd partition_name expected_public_key_blob k =
     (case vbmeta_extent e fd partition_name k of
        None \<Rightarrow> None
      | Some (vbmeta_offset, vbmeta_size) \<Rightarrow>
          if vbmeta_size > of_nat (kMaxVBMetaSize e) then None
          else
            (case av_pread e fd (unat vbmeta_size) (sint vbmeta_offset) k of
               None \<Rightarrow> None
             | Some bs \<Rightarrow>
                 if \<not> StartsWith (av_lb e) partition_name ''vbmeta'' \<and> length bs \<noteq> unat vbmeta_size then None
                 else
                   (let data = bs @ drop (length bs) (av_buffer e (unat vbmeta_size));
                        (verify_result, pk) = VerifyVBMetaSignature e data expected_public_key_blob
                    in if verify_result = Vbmeta_Success \<or> verify_result = Vbmeta_ErrorVerification
                       then Some (\<lparr>vb_data = data, vb_partition = partition_name, vb_path = []\<rparr>, pk, verify_result)
                       else None)))"

definition RollbackDetected :: "string \<Rightarrow> u64 \<Rightarrow> bool" where
  "RollbackDetected partition_name rollback_index = False"

record vbmeta_loaded =
  ld_vbmeta :: VBMetaData
  ld_public_key :: "u8 list"
  ld_verification_disabled :: bool
  ld_result :: VBMetaVerifyResult

definition LoadAndVerifyVbmetaByPath ::
    "'k avb_env \<Rightarrow> string \<Rightarrow> string \<Rightarrow> u8 list \<Rightarrow> bool \<Rightarrow> bool \<Rightarrow> bool \<Rightarrow> 'k \<Rightarrow> vbmeta_loaded option" where
  "LoadAndVerifyVbmetaByPath e image_path partition_name expected_public_key_blob allow_verification_error
       rollback_protection is_chained_vbmeta k =
     (if \<not> WaitForFile e image_path True k then None
      else if \<not> av_openable e image_path k then None
      else
        (case VerifyVBMetaData e image_path partition_name expected_public_key_blob k of
           None \<Rightarrow> None
         | Some (vb, pk, verify_result) \<Rightarrow>
             if \<not> allow_verification_error \<and> verify_result = Vbmeta_ErrorVerification then None
             else
               (case GetVBMetaHeader e (vb_data vb) of
                  None \<Rightarrow> None
                | Some (h, data) \<Rightarrow>
                    if rollback_protection \<and> RollbackDetected partition_name (vh_rollback_index h) then None
                    else if is_chained_vbmeta \<and> vh_flags h \<noteq> 0 then None
                    else Some \<lparr>ld_vbmeta = vb\<lparr>vb_data := data, vb_path := image_path\<rparr>, ld_public_key = pk,
                                ld_verification_disabled = (vh_flags h AND FLAGS_VERIFICATION_DISABLED \<noteq> 0),
                                ld_result = verify_result\<rparr>)))"

text \<open>
  Chained images are loaded in order, each with its own chains.  The code does not bound the depth;
  the first argument does, and \<open>None\<close> is a depth that was not enough.
\<close>

fun LoadAndVerifyVbmetaByPartition ::
    "nat \<Rightarrow> 'k avb_env \<Rightarrow> (string \<Rightarrow> string) \<Rightarrow> string \<Rightarrow> string \<Rightarrow> bool \<Rightarrow> bool \<Rightarrow> bool \<Rightarrow> string \<Rightarrow> u8 list \<Rightarrow> bool \<Rightarrow> 'k \<Rightarrow>
     VBMetaData list \<Rightarrow> (VBMetaVerifyResult \<times> VBMetaData list) option"
and load_chains ::
    "nat \<Rightarrow> 'k avb_env \<Rightarrow> (string \<Rightarrow> string) \<Rightarrow> string \<Rightarrow> string \<Rightarrow> bool \<Rightarrow> bool \<Rightarrow> bool \<Rightarrow> ChainInfo list \<Rightarrow> VBMetaVerifyResult \<Rightarrow>
     'k \<Rightarrow> VBMetaData list \<Rightarrow> (VBMetaVerifyResult \<times> VBMetaData list) option" where
  "LoadAndVerifyVbmetaByPartition 0 e dp sfx osfx allow load_chained rollback name key chained k imgs = None"
| "LoadAndVerifyVbmetaByPartition (Suc n) e dp sfx osfx allow load_chained rollback name key chained k imgs =
     (case LoadAndVerifyVbmetaByPath e (dp (AvbPartitionToDevicePatition name sfx osfx)) name key allow rollback chained k of
        None \<Rightarrow> Some (Vbmeta_Error, imgs)
      | Some ld \<Rightarrow>
          if \<not> ld_verification_disabled ld \<and> load_chained
          then (case GetChainPartitionInfo e (ld_vbmeta ld) of
                  None \<Rightarrow> Some (Vbmeta_Error, imgs @ [ld_vbmeta ld])
                | Some cs \<Rightarrow> load_chains n e dp sfx osfx allow load_chained rollback cs (ld_result ld) k (imgs @ [ld_vbmeta ld]))
          else Some (ld_result ld, imgs @ [ld_vbmeta ld]))"
| "load_chains n e dp sfx osfx allow load_chained rollback [] res k imgs = Some (res, imgs)"
| "load_chains n e dp sfx osfx allow load_chained rollback (c # cs) res k imgs =
     (case LoadAndVerifyVbmetaByPartition n e dp sfx osfx allow load_chained rollback (ci_partition_name c)
             (ci_public_key_blob c) True k imgs of
        None \<Rightarrow> None
      | Some (sub_ret, imgs) \<Rightarrow>
          if sub_ret = Vbmeta_Error then Some (Vbmeta_Error, imgs)
          else load_chains n e dp sfx osfx allow load_chained rollback cs
                 (if sub_ret \<noteq> Vbmeta_Success then sub_ret else res) k imgs)"


section \<open>dm-verity\<close>

definition c_str :: "u8 list \<Rightarrow> string" where
  "c_str bs = string_of_bytes (takeWhile (\<lambda>b. b \<noteq> 0) bs)"

text \<open>A block size of zero makes the division fault.\<close>

definition verity_mode :: "'k avb_env \<Rightarrow> string option" where
  "verity_mode e =
     (let mode = (case get_boot_config (av_fv e) ''veritymode'' of Some m \<Rightarrow> m | None \<Rightarrow> ''enforcing'')
      in if mode = ''panicking'' then Some ''panic_on_corruption''
         else if mode = ''enforcing'' then Some ''restart_on_corruption''
         else if mode = ''logging'' then Some ''ignore_corruption''
         else if mode \<noteq> ''eio'' then None
         else Some [])"

definition ConstructVerityTable ::
    "'k avb_env \<Rightarrow> FsAvbHashtreeDescriptor \<Rightarrow> string \<Rightarrow> verity_target option outcome" where
  "ConstructVerityTable e htd blk_device =
     (case verity_mode e of
        None \<Rightarrow> Returns None
      | Some mode \<Rightarrow>
          if ht_data_block_size htd = 0 \<or> ht_hash_block_size htd = 0 then Aborts
          else
            (let dbs = ucast (ht_data_block_size htd) :: u64; hbs = ucast (ht_hash_block_size htd) :: u64
             in Returns (Some
               \<lparr>vt_start = 0, vt_length = ht_image_size htd div 512, vt_version = ht_dm_verity_version htd,
                vt_block_device = blk_device, vt_hash_device = blk_device,
                vt_data_block_size = ht_data_block_size htd, vt_hash_block_size = ht_hash_block_size htd,
                vt_num_data_blocks = ht_image_size htd div dbs, vt_hash_start_block = ht_tree_offset htd div hbs,
                vt_hash_algorithm = c_str (ht_hash_algorithm htd), vt_root_digest = hd_root_digest htd,
                vt_salt = hd_salt htd,
                vt_fec = (if ht_fec_size htd > 0
                          then Some (blk_device, ht_fec_num_roots htd, ht_fec_offset htd div dbs, ht_fec_offset htd div dbs)
                          else None),
                vt_mode = mode, vt_ignore_zero_blocks = True,
                vt_check_at_most_once = (ht_flags htd AND FLAGS_CHECK_AT_MOST_ONCE \<noteq> 0), vt_readonly = False\<rparr>)))"

text \<open>The entry and the kernel after the set-up, with whether it succeeded.\<close>

definition HashtreeDmVeritySetup ::
    "'k avb_env \<Rightarrow> FsAvbHashtreeDescriptor \<Rightarrow> bool \<Rightarrow> fstab_entry \<Rightarrow> 'k \<Rightarrow> (bool \<times> fstab_entry \<times> 'k) outcome" where
  "HashtreeDmVeritySetup e htd wait entry k =
     out_bind (ConstructVerityTable e htd (fe_blk_device entry))
       (\<lambda>t. case t of
              None \<Rightarrow> Returns (False, entry, k)
            | Some t \<Rightarrow>
                if \<not> dm_table_valid e t then Returns (False, entry, k)
                else
                  (case dm_create e (GetVerityDeviceName (av_fv e) entry) (t\<lparr>vt_readonly := True\<rparr>) wait k of
                     (None, k) \<Rightarrow> Returns (False, entry, k)
                   | (Some dev_path, k) \<Rightarrow>
                       (let k = snd (av_set_readonly e (fe_blk_device entry) k)
                        in Returns (True, entry\<lparr>fe_blk_device := dev_path\<rparr>, k))))"

definition LoadAvbHashtreeToEnableVerity ::
    "'k avb_env \<Rightarrow> VBMetaData list \<Rightarrow> string \<Rightarrow> string \<Rightarrow> bool \<Rightarrow> fstab_entry \<Rightarrow> 'k \<Rightarrow> (bool \<times> fstab_entry \<times> 'k) outcome" where
  "LoadAvbHashtreeToEnableVerity e vbmeta_images ab_suffix ab_other_suffix wait entry k =
     (let partition_name = DeriveAvbPartitionName e entry ab_suffix ab_other_suffix
      in if partition_name = [] then Returns (False, entry, k)
         else case GetHashtreeDescriptor e partition_name vbmeta_images of
           None \<Rightarrow> Returns (False, entry, k)
         | Some htd \<Rightarrow> HashtreeDmVeritySetup e htd wait entry k)"

section \<open>The digest from the boot loader\<close>

fun digest_size :: "HashAlgorithm \<Rightarrow> nat" where
  "digest_size kSHA256 = 32"
| "digest_size kSHA512 = 64"
| "digest_size kInvalid = 0"

definition CalculateVbmetaDigest :: "'k avb_env \<Rightarrow> HashAlgorithm \<Rightarrow> VBMetaData list \<Rightarrow> string \<times> nat" where
  "CalculateVbmetaDigest e alg vbmeta_images =
     (BytesToHex (av_sha e alg (concat (map vb_data vbmeta_images))),
      sum_list (map (\<lambda>vb. length (vb_data vb)) vbmeta_images))"

definition VerifyVbmetaDigest :: "'k avb_env \<Rightarrow> HashAlgorithm \<Rightarrow> VBMetaData list \<Rightarrow> u8 list \<Rightarrow> nat \<times> bool" where
  "VerifyVbmetaDigest e alg vbmeta_images expected_digest =
     (sum_list (map (\<lambda>vb. length (vb_data vb)) vbmeta_images),
      take (digest_size alg) (av_sha e alg (concat (map vb_data vbmeta_images))) = take (digest_size alg) expected_digest)"

definition make_AvbVerifier :: "'k avb_env \<Rightarrow> AvbVerifier option" where
  "make_AvbVerifier e =
     (case get_boot_config (av_fv e) ''vbmeta.size'' of
        None \<Rightarrow> None
      | Some v \<Rightarrow>
          (case ParseInt (av_lb e) v 0 (2 ^ 64 - 1) of
             None \<Rightarrow> None
           | Some vbmeta_size \<Rightarrow>
               (let hash_alg = (case get_boot_config (av_fv e) ''vbmeta.hash_alg'' of Some a \<Rightarrow> a | None \<Rightarrow> []);
                    alg = (if hash_alg = ''sha256'' then kSHA256 else if hash_alg = ''sha512'' then kSHA512 else kInvalid);
                    digest = (case get_boot_config (av_fv e) ''vbmeta.digest'' of Some d \<Rightarrow> d | None \<Rightarrow> [])
                in if alg = kInvalid then None
                   else if length digest \<noteq> digest_size alg * 2 then None
                   else
                     (case HexToBytes 64 digest of
                        None \<Rightarrow> None
                      | Some bs \<Rightarrow> Some \<lparr>vf_hash_alg = alg, vf_digest = bs, vf_vbmeta_size = nat vbmeta_size\<rparr>))))"

definition VerifyVbmetaImages :: "'k avb_env \<Rightarrow> AvbVerifier \<Rightarrow> VBMetaData list \<Rightarrow> bool" where
  "VerifyVbmetaImages e v vbmeta_images =
     (if vbmeta_images = [] then False
      else
        (let (total_size, digest_matched) =
           (if vf_hash_alg v = kSHA256 \<or> vf_hash_alg v = kSHA512
            then VerifyVbmetaDigest e (vf_hash_alg v) vbmeta_images (vf_digest v) else (0, False))
         in if total_size \<noteq> vf_vbmeta_size v then False else digest_matched))"

section \<open>Handles\<close>

definition make_AvbHandle :: "'k avb_env \<Rightarrow> AvbHandle" where
  "make_AvbHandle e =
     \<lparr>ah_vbmeta_images = [], ah_status = Handle_Uninitialized, ah_slot_suffix = slot_suffix e,
      ah_other_slot_suffix = other_slot_suffix e, ah_avb_version = [], ah_vbmeta_info = None\<rparr>"

definition IsAvbPermissive :: "'k avb_env \<Rightarrow> 'k \<Rightarrow> bool" where
  "IsAvbPermissive e k =
     (if IsDeviceUnlocked e
      then (if av_access e (DSU_METADATA_PREFIX e @ ''avb_enforce'') 0 k = Exists then False else True)
      else False)"

text \<open>The flags of the top-level image decide over the status.\<close>

definition disabled_status :: "u32 \<Rightarrow> AvbHandleStatus \<Rightarrow> AvbHandleStatus" where
  "disabled_status flags st =
     (if flags AND FLAGS_VERIFICATION_DISABLED \<noteq> 0 then Handle_VerificationDisabled
      else if flags AND FLAGS_HASHTREE_DISABLED \<noteq> 0 then Handle_HashtreeDisabled
      else st)"

text \<open>
  \<open>LoadAndVerifyVbmeta\<close> for a partition.  The outcome aborts where the header of the first image is
  read though it is null; the outer \<open>None\<close> is a depth of chains that was not enough.
\<close>

definition load_key :: "'k avb_env \<Rightarrow> string \<Rightarrow> 'k \<Rightarrow> u8 list option" where
  "load_key e path k =
     (if path = [] then Some []
      else if av_access e path 0 k \<noteq> Exists then None
      else av_read e path k)"

definition status_of_result :: "VBMetaVerifyResult \<Rightarrow> AvbHandleStatus option" where
  "status_of_result r =
     (case r of Vbmeta_Success \<Rightarrow> Some Handle_Success
      | Vbmeta_ErrorVerification \<Rightarrow> Some Handle_VerificationError
      | Vbmeta_Error \<Rightarrow> None)"

definition LoadAndVerifyVbmetaPartition ::
    "nat \<Rightarrow> 'k avb_env \<Rightarrow> string \<Rightarrow> string \<Rightarrow> string \<Rightarrow> string \<Rightarrow> HashAlgorithm \<Rightarrow> bool \<Rightarrow> bool \<Rightarrow> bool \<Rightarrow>
     (string \<Rightarrow> string) option \<Rightarrow> 'k \<Rightarrow> AvbHandle option outcome option" where
  "LoadAndVerifyVbmetaPartition n e name ab_suffix ab_other_suffix key_path alg allow load_chained rollback custom_device_path k =
     (let h = (make_AvbHandle e)\<lparr>ah_slot_suffix := ab_suffix, ah_other_slot_suffix := ab_other_suffix\<rparr>
      in case load_key e key_path k of
           None \<Rightarrow> Some (Returns None)
         | Some key \<Rightarrow>
             (let device_path = (case custom_device_path of Some f \<Rightarrow> f | None \<Rightarrow> (\<lambda>p. ''/dev/block/by-name/'' @ p))
              in case LoadAndVerifyVbmetaByPartition n e device_path ab_suffix ab_other_suffix allow load_chained rollback
                        name key False k [] of
                   None \<Rightarrow> None
                 | Some (verify_result, images) \<Rightarrow>
                     Some (case status_of_result verify_result of
                         None \<Rightarrow> Returns None
                       | Some st \<Rightarrow>
                           (case images of
                              [] \<Rightarrow> Returns None
                            | vb0 # _ \<Rightarrow>
                                (case GetVBMetaHeader e (vb_data vb0) of
                                   None \<Rightarrow> Aborts
                                 | Some (vh, _) \<Rightarrow>
                                     if alg = kInvalid then Returns None
                                     else
                                       (let (digest, total) = CalculateVbmetaDigest e alg images
                                        in Returns (Some (h\<lparr>ah_vbmeta_images := images,
                                             ah_status := disabled_status (vh_flags vh) st,
                                             ah_avb_version := AVB_VERSION e,
                                             ah_vbmeta_info := Some (digest, alg, total)\<rparr>))))))))"

definition LoadAndVerifyVbmetaSlot :: "nat \<Rightarrow> 'k avb_env \<Rightarrow> string \<Rightarrow> 'k \<Rightarrow> AvbHandle option outcome option" where
  "LoadAndVerifyVbmetaSlot n e slot k =
     (let suffix = (if slot = [] then slot_suffix e else slot)
      in LoadAndVerifyVbmetaPartition n e ''vbmeta'' suffix (OtherSlotSuffix e suffix) [] kSHA256
           (IsAvbPermissive e k) True False None k)"

text \<open>The keys of an entry: a directory of key files, or paths separated by colons.\<close>

definition allowed_key_paths :: "'k avb_env \<Rightarrow> string \<Rightarrow> 'k \<Rightarrow> string list" where
  "allowed_key_paths e avb_keys k =
     (case ListFiles e avb_keys k of Some files \<Rightarrow> sort files | None \<Rightarrow> Split (av_lb e) avb_keys '':'')"

definition IsPublicKeyMatching :: "'k avb_env \<Rightarrow> fstab_entry \<Rightarrow> u8 list \<Rightarrow> u8 list list \<Rightarrow> 'k \<Rightarrow> bool" where
  "IsPublicKeyMatching e entry public_key_data preload_avb_key_blobs k =
     (if preload_avb_key_blobs = [] \<and> fe_avb_keys entry = [] then False
      else if public_key_data = [] then False
      else if preload_avb_key_blobs \<noteq> [] \<and> public_key_data \<in> set preload_avb_key_blobs then True
      else ValidatePublicKeyFiles e public_key_data (allowed_key_paths e (fe_avb_keys entry) k) k)"

definition IsHashtreeDescriptorRootDigestMatching ::
    "'k avb_env \<Rightarrow> fstab_entry \<Rightarrow> VBMetaData list \<Rightarrow> string \<Rightarrow> string \<Rightarrow> 'k \<Rightarrow> bool" where
  "IsHashtreeDescriptorRootDigestMatching e entry vbmeta_images ab_suffix ab_other_suffix k =
     (case av_read e (fe_avb_hashtree_digest entry) k of
        None \<Rightarrow> False
      | Some root_digest_expected \<Rightarrow>
          (let partition_name = DeriveAvbPartitionName e entry ab_suffix ab_other_suffix
           in if partition_name = [] then False
              else case GetHashtreeDescriptor e partition_name vbmeta_images of
                None \<Rightarrow> False
              | Some htd \<Rightarrow> hd_root_digest htd = string_of_bytes root_digest_expected))"

definition LoadAndVerifyVbmetaEntry :: "'k avb_env \<Rightarrow> fstab_entry \<Rightarrow> u8 list list \<Rightarrow> 'k \<Rightarrow> AvbHandle option" where
  "LoadAndVerifyVbmetaEntry e entry preload_avb_key_blobs k =
     (let allow = IsAvbPermissive e k
      in case LoadAndVerifyVbmetaByPath e (fe_blk_device entry) [] [] allow (\<not> allow) False k of
           None \<Rightarrow> None
         | Some ld \<Rightarrow>
             (let h = (make_AvbHandle e)\<lparr>ah_vbmeta_images := [ld_vbmeta ld]\<rparr>
              in case status_of_result (ld_result ld) of
                   None \<Rightarrow> None
                 | Some st \<Rightarrow>
                     (let matched = (if preload_avb_key_blobs \<noteq> [] \<or> fe_avb_keys entry \<noteq> []
                                     then IsPublicKeyMatching e entry (ld_public_key ld) preload_avb_key_blobs k
                                     else IsHashtreeDescriptorRootDigestMatching e entry (ah_vbmeta_images h)
                                            (ah_slot_suffix h) (ah_other_slot_suffix h) k)
                      in if \<not> matched \<and> \<not> allow then None
                         else
                           (let st = (if matched then st else Handle_VerificationError);
                                st = (if ld_verification_disabled ld then Handle_VerificationDisabled else st)
                            in Some (h\<lparr>ah_status := st\<rparr>)))))"

text \<open>\<open>AvbHandle::Open\<close>; reading the header of the first of no images is the case that aborts.\<close>

definition AvbHandle_Open :: "'k avb_env \<Rightarrow> 'k \<Rightarrow> AvbHandle option outcome" where
  "AvbHandle_Open e k =
     (let allow = IsAvbPermissive e k; h = make_AvbHandle e;
          (verify_result, images) = AvbSlotVerify e (ah_slot_suffix h) allow k;
          st = (case verify_result of
                  SV_OK \<Rightarrow> Some Handle_Success
                | SV_ERROR_VERIFICATION \<Rightarrow> if allow then Some Handle_VerificationError else None
                | SV_ERROR_PUBLIC_KEY_REJECTED \<Rightarrow> if allow then Some Handle_VerificationError else None
                | SV_OTHER \<Rightarrow> None)
      in case st of
           None \<Rightarrow> Returns None
         | Some st \<Rightarrow>
             (let verified = (case make_AvbVerifier e of None \<Rightarrow> False | Some v \<Rightarrow> VerifyVbmetaImages e v images)
              in if \<not> verified \<and> \<not> allow then Returns None
                 else
                   (case images of
                      [] \<Rightarrow> Aborts
                    | vb0 # _ \<Rightarrow>
                        Returns (Some (h\<lparr>ah_vbmeta_images := images, ah_avb_version := AVB_VERSION e,
                          ah_status := disabled_status (avb_header_flags e (vb_data vb0)) st\<rparr>)))))"

definition SetUpAvbHashtree ::
    "'k avb_env \<Rightarrow> AvbHandle \<Rightarrow> bool \<Rightarrow> fstab_entry \<Rightarrow> 'k \<Rightarrow> (AvbHashtreeResult \<times> fstab_entry \<times> 'k) outcome" where
  "SetUpAvbHashtree e h wait entry k =
     (if ah_status h = Handle_Uninitialized \<or> ah_vbmeta_images h = [] then Returns (Hashtree_Fail, entry, k)
      else if ah_status h = Handle_HashtreeDisabled \<or> ah_status h = Handle_VerificationDisabled
      then Returns (Hashtree_Disabled, entry, k)
      else out_bind (LoadAvbHashtreeToEnableVerity e (ah_vbmeta_images h) (ah_slot_suffix h) (ah_other_slot_suffix h) wait entry k)
             (\<lambda>(ok, entry, k). Returns (if ok then Hashtree_Success else Hashtree_Fail, entry, k)))"

definition SetUpStandaloneAvbHashtree ::
    "'k avb_env \<Rightarrow> bool \<Rightarrow> fstab_entry \<Rightarrow> 'k \<Rightarrow> (AvbHashtreeResult \<times> fstab_entry \<times> 'k) outcome" where
  "SetUpStandaloneAvbHashtree e wait entry k =
     (case LoadAndVerifyVbmetaEntry e entry [] k of
        None \<Rightarrow> Returns (Hashtree_Fail, entry, k)
      | Some h \<Rightarrow> SetUpAvbHashtree e h wait entry k)"

definition TearDownAvbHashtree :: "'k avb_env \<Rightarrow> bool \<Rightarrow> fstab_entry \<Rightarrow> 'k \<Rightarrow> bool \<times> 'k" where
  "TearDownAvbHashtree e wait entry k =
     (let device_name = GetVerityDeviceName (av_fv e) entry;
          path = (if wait then (case dm_path e device_name k of Some p \<Rightarrow> p | None \<Rightarrow> []) else []);
          (deleted, k) = dm_delete e device_name k
      in if \<not> deleted then (False, k)
         else if path \<noteq> [] \<and> \<not> WaitForFile e path False k then (False, k)
         else (True, k))"

definition GetSecurityPatchLevel :: "'k avb_env \<Rightarrow> AvbHandle \<Rightarrow> fstab_entry \<Rightarrow> string" where
  "GetSecurityPatchLevel e h entry =
     (if ah_vbmeta_images h = [] then []
      else GetAvbPropertyDescriptor e
             (''com.android.build.'' @ DeriveAvbPartitionName e entry (ah_slot_suffix h) (ah_other_slot_suffix h) @ ''.security_patch'')
             (ah_vbmeta_images h))"

text \<open>\<open>LoadAndVerifyVbmeta\<close> of \<open>fs_avb_util.cpp\<close>: the image for an entry and the name of its partition.\<close>

definition LoadVbmetaForEntry :: "'k avb_env \<Rightarrow> fstab_entry \<Rightarrow> u8 list \<Rightarrow> 'k \<Rightarrow> string \<times> vbmeta_loaded option" where
  "LoadVbmetaForEntry e entry expected_public_key_blob k =
     (let avb_partition_name = DeriveAvbPartitionName e entry (slot_suffix e) (other_slot_suffix e);
          device_path = (if F_logical \<in> fe_fs_mgr_flags entry \<and> \<not> StartsWith (av_lb e) (fe_blk_device entry) ''/''
                         then dm_path e (fe_blk_device entry) k else Some (fe_blk_device entry))
      in (avb_partition_name,
          case device_path of
            None \<Rightarrow> None
          | Some p \<Rightarrow> LoadAndVerifyVbmetaByPath e p avb_partition_name expected_public_key_blob True False False k))"

end
