(* ===== verification/Avb_Correct.thy ===== *)
theory Avb_Correct
  imports Avb Fstab_Correct
begin

text \<open>
  What verified boot guarantees: on a device that does not allow verification errors every image of a
  handle belongs to the chain of trust, the boot loader's digest covers all images, and a verity device is made with the
  digest that the images state.  The locale \<open>avb_hashes\<close> is the contract of the hash functions.
\<close>

section \<open>Strings\<close>

lemma find_str_hit: "find_str n (n @ y) = Some 0"
proof (cases "n @ y")
  case (Cons a l)
  then have "take (length n) (a # l) = n" by (metis append_eq_conv_conj)
  then show ?thesis by (simp add: Cons)
qed simp

lemma rfind_str_suffix: "rfind_str n (x @ n) = Some (length x)"
  by (simp add: rfind_str_def find_str_hit)

lemma rfind_str_None: "rfind_str n s = None \<longleftrightarrow> (\<nexists>p q. s = p @ n @ q)"
proof -
  have "(\<exists>p q. rev s = p @ rev n @ q) \<longleftrightarrow> (\<exists>p q. s = p @ n @ q)"
    by (metis append.assoc rev_append rev_rev_ident)
  then show ?thesis by (simp add: rfind_str_def find_str_None)
qed

lemma erase_from_last_suffix [simp]: "erase_from_last n (x @ n) = x"
  by (simp add: erase_from_last_def rfind_str_suffix)

section \<open>Hexadecimal digests\<close>

lemma byte_nibbles:
  "push_bit 4 (drop_bit 4 b AND 15) OR (b AND 15) = (b :: u8)" (is ?t1)
  "drop_bit 4 b AND 15 < (16 :: u8)" (is ?t2) "b AND 15 < (16 :: u8)" (is ?t3)
proof -
  have m: "c AND 15 = take_bit 4 c" for c :: u8 by (simp add: take_bit_eq_mask mask_eq_exp_minus_1)
  show ?t1 by (rule bit_eqI) (auto simp: m bit_simps)
  have "unat (take_bit 4 c) < 16" for c :: u8 by (simp add: unsigned_take_bit_eq take_bit_eq_mod unat_mod)
  then show ?t2 ?t3 by (simp_all add: m word_less_nat_alt)
qed

lemma nibble_digit:
  assumes "(x :: u8) < 16"
  shows "NibbleValue (hex_digits ! unat x) = Some x"
proof -
  define n where "n = unat x"
  have "n < 16" using assms by (simp add: n_def word_less_nat_alt)
  then have "n \<in> {0, 1, 2, 3, 4, 5, 6, 7, 8, 9, 10, 11, 12, 13, 14, 15}"
    by (simp add: less_Suc_eq numeral_eq_Suc)
  then have "NibbleValue (hex_digits ! n) = Some (of_nat n)"
    by (elim insertE) (simp_all add: NibbleValue_def hex_digits_def)
  then show ?thesis by (simp add: n_def)
qed

lemma hex_loop_BytesToHex: "hex_loop (BytesToHex bs) = Some bs"
  by (induction bs) (simp_all add: BytesToHex_def nibble_digit byte_nibbles del: push_bit_and)

lemma length_BytesToHex: "length (BytesToHex bs) = 2 * length bs"
  by (induction bs) (simp_all add: BytesToHex_def)

lemma hex_loop_length: "hex_loop h = Some bs \<Longrightarrow> even (length h) \<Longrightarrow> length bs = length h div 2"
  by (induction h arbitrary: bs rule: hex_loop.induct) (auto split: option.splits)

lemma HexToBytes_length: "HexToBytes n h = Some bs \<Longrightarrow> length bs = length h div 2"
  by (auto simp: HexToBytes_def even_iff_mod_2_eq_zero hex_loop_length split: if_splits)

section \<open>Signed images\<close>

text \<open>
  The image was signed by the key, or by any key when none is asked for: libavb accepted bytes from which the
  image is cut, with that public key.  An image that another one chains to has no flags.
\<close>

definition signed :: "'k avb_env \<Rightarrow> u8 list \<Rightarrow> bool \<Rightarrow> VBMetaData \<Rightarrow> bool" where
  "signed e key chained img \<longleftrightarrow>
     (\<exists>data pk h. avb_vbmeta_image_verify e data = (AV_OK, pk) \<and> pk \<noteq> [] \<and> (key \<noteq> [] \<longrightarrow> pk = key) \<and>
        GetVBMetaHeader e data = Some (h, vb_data img) \<and> (chained \<longrightarrow> vh_flags h = 0))"

lemma signature_success:
  "VerifyVBMetaSignature e data key = (Vbmeta_Success, pk) \<longleftrightarrow>
     avb_vbmeta_image_verify e data = (AV_OK, pk) \<and> pk \<noteq> [] \<and> (key \<noteq> [] \<longrightarrow> pk = key)"
  by (auto simp: VerifyVBMetaSignature_def ValidatePublicKeyBlob_def split: prod.splits avb_verify.splits if_splits)

lemma by_path_result:
  assumes "LoadAndVerifyVbmetaByPath e path name key allow rollback chained k = Some ld"
  shows "ld_result ld = Vbmeta_Success \<or> allow \<and> ld_result ld = Vbmeta_ErrorVerification"
    and "vb_partition (ld_vbmeta ld) = name"
    and "ld_result ld = Vbmeta_Success \<Longrightarrow> signed e key chained (ld_vbmeta ld)"
proof -
  obtain vb pk res h data where v: "VerifyVBMetaData e path name key k = Some (vb, pk, res)"
    and h: "GetVBMetaHeader e (vb_data vb) = Some (h, data)" and c: "chained \<longrightarrow> vh_flags h = 0"
    and a: "allow \<or> res \<noteq> Vbmeta_ErrorVerification"
    and ld: "ld_vbmeta ld = vb\<lparr>vb_data := data, vb_path := path\<rparr>" "ld_result ld = res"
    using assms by (auto simp: LoadAndVerifyVbmetaByPath_def split: if_splits option.splits)
  have r: "res = Vbmeta_Success \<or> res = Vbmeta_ErrorVerification" and n: "vb_partition vb = name"
    and s: "VerifyVBMetaSignature e (vb_data vb) key = (res, pk)"
    using v by (auto simp: VerifyVBMetaData_def Let_def split: option.splits prod.splits if_splits)
  show "ld_result ld = Vbmeta_Success \<or> allow \<and> ld_result ld = Vbmeta_ErrorVerification" using r a ld by auto
  show "vb_partition (ld_vbmeta ld) = name" using n ld by simp
  show "signed e key chained (ld_vbmeta ld)" if "ld_result ld = Vbmeta_Success"
    using that s h c ld unfolding signed_def
    by (intro exI [of _ "vb_data vb"] exI [of _ pk] exI [of _ h]) (auto simp: signature_success)
qed

section \<open>The chain of trust\<close>

text \<open>
  The images that a key vouches for: the image of the partition, signed by the key, and every image to
  which an image of the chain refers, signed by the key that stands in the descriptor.
\<close>

inductive trusted :: "'k avb_env \<Rightarrow> string \<Rightarrow> u8 list \<Rightarrow> bool \<Rightarrow> VBMetaData \<Rightarrow> bool"
  for e :: "'k avb_env" and name :: string and key :: "u8 list" and chained :: bool where
  top: "signed e key chained img \<Longrightarrow> vb_partition img = name \<Longrightarrow> trusted e name key chained img"
| chained: "trusted e name key chained p \<Longrightarrow> GetChainPartitionInfo e p = Some cs \<Longrightarrow> c \<in> set cs \<Longrightarrow>
    signed e (ci_public_key_blob c) True img \<Longrightarrow> vb_partition img = ci_partition_name c \<Longrightarrow>
    trusted e name key chained img"

lemma trusted_trans:
  assumes "trusted e (ci_partition_name c) (ci_public_key_blob c) True img" and "trusted e name key chained p"
    and "GetChainPartitionInfo e p = Some cs" and "c \<in> set cs"
  shows "trusted e name key chained img"
  using assms(1)
proof induction
  case (top img)
  then show ?case using assms(2-4) trusted.chained by blast
next
  case (chained p' cs' c' img)
  then show ?case using trusted.chained by blast
qed

lemma load_locked:
  "LoadAndVerifyVbmetaByPartition n e dp sfx osfx False lc rb name key chained k imgs = Some (res, imgs') \<Longrightarrow>
     res \<noteq> Vbmeta_Error \<Longrightarrow>
     res = Vbmeta_Success \<and> (\<exists>new. imgs' = imgs @ new \<and> new \<noteq> [] \<and> (\<forall>img \<in> set new. trusted e name key chained img))"
  "load_chains n e dp sfx osfx False lc rb cs r k imgs = Some (res, imgs') \<Longrightarrow>
     res \<noteq> Vbmeta_Error \<Longrightarrow> r = Vbmeta_Success \<Longrightarrow>
     res = Vbmeta_Success \<and> (\<exists>new. imgs' = imgs @ new \<and>
       (\<forall>img \<in> set new. \<exists>c \<in> set cs. trusted e (ci_partition_name c) (ci_public_key_blob c) True img))"
proof (induction n e dp sfx osfx "False" lc rb name key chained k imgs and n e dp sfx osfx "False" lc rb cs r k imgs
    arbitrary: res imgs' and res imgs' rule: LoadAndVerifyVbmetaByPartition_load_chains.induct)
  case (2 n e dp sfx osfx lc rb name key chained k imgs)
  show ?case
  proof (cases "LoadAndVerifyVbmetaByPath e (dp (AvbPartitionToDevicePatition name sfx osfx)) name key False rb chained k")
    case None
    then show ?thesis using 2 by simp
  next
    case (Some ld)
    note ld = by_path_result [OF Some]
    have s: "ld_result ld = Vbmeta_Success" using ld(1) by simp
    have t: "trusted e name key chained (ld_vbmeta ld)" using ld(2) ld(3) [OF s] by (rule trusted.top [rotated])
    show ?thesis
    proof (cases "\<not> ld_verification_disabled ld \<and> lc")
      case True
      then obtain cs where cs: "GetChainPartitionInfo e (ld_vbmeta ld) = Some cs"
        using 2(2,3) Some by (auto split: option.splits)
      have "load_chains n e dp sfx osfx False lc rb cs (ld_result ld) k (imgs @ [ld_vbmeta ld]) = Some (res, imgs')"
        using 2(2) Some True cs by simp
      from 2(1) [OF Some True cs this 2(3) s] obtain new where "res = Vbmeta_Success"
        and new: "imgs' = imgs @ ld_vbmeta ld # new"
          "\<forall>img \<in> set new. \<exists>c \<in> set cs. trusted e (ci_partition_name c) (ci_public_key_blob c) True img" by auto
      moreover have "trusted e name key chained img" if "img \<in> set new" for img
        using new(2) that trusted_trans t cs by blast
      ultimately show ?thesis using t by auto
    next
      case False
      then show ?thesis using 2(2) Some s t by auto
    qed
  qed
next
  case (4 n e dp sfx osfx lc rb c cs r k imgs)
  obtain sub imgs1 where sub: "LoadAndVerifyVbmetaByPartition n e dp sfx osfx False lc rb (ci_partition_name c)
      (ci_public_key_blob c) True k imgs = Some (sub, imgs1)" and ne: "sub \<noteq> Vbmeta_Error"
    using 4(3,4) by (auto split: option.splits if_splits)
  from 4(1) [OF sub ne] obtain new1 where s1: "sub = Vbmeta_Success" and new1: "imgs1 = imgs @ new1"
      "\<forall>img \<in> set new1. trusted e (ci_partition_name c) (ci_public_key_blob c) True img" by auto
  have rest: "load_chains n e dp sfx osfx False lc rb cs r k imgs1 = Some (res, imgs')"
    using 4(3) sub s1 by simp
  from 4(2) [OF sub refl ne] rest 4(4,5) s1 obtain new2 where "res = Vbmeta_Success" and new2: "imgs' = imgs1 @ new2"
      "\<forall>img \<in> set new2. \<exists>c \<in> set cs. trusted e (ci_partition_name c) (ci_public_key_blob c) True img" by auto
  then show ?case using new1 by (intro conjI exI [of _ "new1 @ new2"]) auto
qed auto

text \<open>Loading ends when the chains do: a rank that falls along every chain bounds the depth.\<close>

definition chains_ranked :: "'k avb_env \<Rightarrow> (string \<Rightarrow> string) \<Rightarrow> 'k \<Rightarrow> (string \<Rightarrow> nat) \<Rightarrow> bool" where
  "chains_ranked e path k rank \<longleftrightarrow>
     (\<forall>name key allow rollback chained ld cs.
        LoadAndVerifyVbmetaByPath e (path name) name key allow rollback chained k = Some ld \<longrightarrow>
        GetChainPartitionInfo e (ld_vbmeta ld) = Some cs \<longrightarrow> (\<forall>c \<in> set cs. rank (ci_partition_name c) < rank name))"

lemma load_terminates:
  "chains_ranked e (\<lambda>p. dp (AvbPartitionToDevicePatition p sfx osfx)) k rank \<Longrightarrow> rank name < n \<Longrightarrow>
     LoadAndVerifyVbmetaByPartition n e dp sfx osfx allow lc rb name key chained k imgs \<noteq> None"
  "chains_ranked e (\<lambda>p. dp (AvbPartitionToDevicePatition p sfx osfx)) k rank \<Longrightarrow> (\<And>c. c \<in> set cs \<Longrightarrow> rank (ci_partition_name c) < n) \<Longrightarrow>
     load_chains n e dp sfx osfx allow lc rb cs r k imgs \<noteq> None"
proof (induction n e dp sfx osfx allow lc rb name key chained k imgs and n e dp sfx osfx allow lc rb cs r k imgs
    rule: LoadAndVerifyVbmetaByPartition_load_chains.induct)
  case (2 n e dp sfx osfx allow lc rb name key chained k imgs)
  show ?case
  proof (cases "LoadAndVerifyVbmetaByPath e (dp (AvbPartitionToDevicePatition name sfx osfx)) name key allow rb chained k")
    case (Some ld)
    have less: "rank (ci_partition_name c) < n" if "GetChainPartitionInfo e (ld_vbmeta ld) = Some cs" "c \<in> set cs" for cs c
      using 2(2,3) that Some unfolding chains_ranked_def by fastforce
    show ?thesis
      using Some 2(1) [OF Some] 2(2) less by (auto split: option.split)
  qed simp
next
  case (4 n e dp sfx osfx allow lc rb c cs r k imgs)
  obtain sub imgs1 where sub: "LoadAndVerifyVbmetaByPartition n e dp sfx osfx allow lc rb (ci_partition_name c)
      (ci_public_key_blob c) True k imgs = Some (sub, imgs1)"
    using 4(1,3,4) by auto
  show ?case using 4(2) [OF sub refl] 4(3,4) sub by (cases "sub = Vbmeta_Error") simp_all
qed auto

text \<open>An image that chains to its own partition is loaded for ever.\<close>

lemma load_self_chain:
  assumes "\<And>key chained. \<exists>ld c cs. LoadAndVerifyVbmetaByPath e (dp (AvbPartitionToDevicePatition name sfx osfx)) name key allow rb chained k = Some ld \<and>
      \<not> ld_verification_disabled ld \<and> GetChainPartitionInfo e (ld_vbmeta ld) = Some (c # cs) \<and> ci_partition_name c = name"
  shows "LoadAndVerifyVbmetaByPartition n e dp sfx osfx allow True rb name key chained k imgs = None"
proof (induction n arbitrary: key chained imgs)
  case (Suc n)
  obtain ld c cs where "LoadAndVerifyVbmetaByPath e (dp (AvbPartitionToDevicePatition name sfx osfx)) name key allow rb chained k = Some ld"
      "\<not> ld_verification_disabled ld" "GetChainPartitionInfo e (ld_vbmeta ld) = Some (c # cs)" "ci_partition_name c = name"
    using assms by blast
  then show ?case by (simp add: Suc.IH)
qed simp

section \<open>Handles\<close>

lemma handle_of_partition:
  assumes "LoadAndVerifyVbmetaPartition n e name sfx osfx key_path alg False lc rb dp k = Some (Returns (Some h))"
  obtains key where "load_key e key_path k = Some key" and "ah_status h \<noteq> Handle_VerificationError"
    and "ah_vbmeta_images h \<noteq> []" and "\<And>img. img \<in> set (ah_vbmeta_images h) \<Longrightarrow> trusted e name key False img"
proof -
  obtain key where key: "load_key e key_path k = Some key"
    using assms by (auto simp: LoadAndVerifyVbmetaPartition_def Let_def split: option.splits)
  define dp' where "dp' = (case dp of Some f \<Rightarrow> f | None \<Rightarrow> (\<lambda>p. ''/dev/block/by-name/'' @ p))"
  obtain res images where l: "LoadAndVerifyVbmetaByPartition n e dp' sfx osfx False lc rb name key False k [] = Some (res, images)"
    using assms key unfolding LoadAndVerifyVbmetaPartition_def Let_def dp'_def [symmetric]
    by (auto split: option.splits)
  note h = assms [unfolded LoadAndVerifyVbmetaPartition_def Let_def dp'_def [symmetric], unfolded key option.case l prod.case]
  have "res \<noteq> Vbmeta_Error" using h by (auto simp: status_of_result_def)
  from load_locked(1) [OF l this]
  have res: "res = Vbmeta_Success" and t: "images \<noteq> []" "\<forall>img \<in> set images. trusted e name key False img" by auto
  have "ah_vbmeta_images h = images \<and> ah_status h \<noteq> Handle_VerificationError"
    using h res by (auto simp: status_of_result_def disabled_status_def split: list.splits option.splits prod.splits if_splits)
  then show ?thesis using that key t by auto
qed

lemma open_locked:
  assumes "AvbHandle_Open e k = Returns (Some h)" and "\<not> IsAvbPermissive e k"
  obtains v where "AvbSlotVerify e (slot_suffix e) False k = (SV_OK, ah_vbmeta_images h)"
    and "make_AvbVerifier e = Some v" and "VerifyVbmetaImages e v (ah_vbmeta_images h)"
    and "ah_status h \<noteq> Handle_VerificationError" and "ah_vbmeta_images h \<noteq> []"
proof -
  obtain r images where sv: "AvbSlotVerify e (slot_suffix e) False k = (r, images)" by force
  have r: "r = SV_OK"
    using assms sv by (auto simp: AvbHandle_Open_def make_AvbHandle_def Let_def split: avb_slot_verify.splits)
  obtain v where v: "make_AvbVerifier e = Some v" "VerifyVbmetaImages e v images"
    using assms sv r by (auto simp: AvbHandle_Open_def make_AvbHandle_def Let_def split: option.splits if_splits)
  have "ah_vbmeta_images h = images \<and> images \<noteq> [] \<and> ah_status h \<noteq> Handle_VerificationError"
    using assms sv r v by (auto simp: AvbHandle_Open_def make_AvbHandle_def Let_def disabled_status_def split: list.splits if_splits)
  then show ?thesis using that sv r v by auto
qed

lemma entry_locked:
  assumes "LoadAndVerifyVbmetaEntry e entry preload k = Some h" and "\<not> IsAvbPermissive e k"
  obtains ld where "LoadAndVerifyVbmetaByPath e (fe_blk_device entry) [] [] False True False k = Some ld"
    and "ah_vbmeta_images h = [ld_vbmeta ld]" and "signed e [] False (ld_vbmeta ld)"
    and "if preload \<noteq> [] \<or> fe_avb_keys entry \<noteq> [] then IsPublicKeyMatching e entry (ld_public_key ld) preload k
         else IsHashtreeDescriptorRootDigestMatching e entry [ld_vbmeta ld] (slot_suffix e) (other_slot_suffix e) k"
    and "ah_status h \<in> {Handle_Success, Handle_VerificationDisabled}"
proof -
  obtain ld where ld: "LoadAndVerifyVbmetaByPath e (fe_blk_device entry) [] [] False True False k = Some ld"
    using assms by (auto simp: LoadAndVerifyVbmetaEntry_def Let_def split: option.splits)
  have s: "ld_result ld = Vbmeta_Success" using by_path_result(1) [OF ld] by simp
  show ?thesis
    using that [OF ld] by_path_result(3) [OF ld s] assms ld s
    by (auto simp: LoadAndVerifyVbmetaEntry_def make_AvbHandle_def status_of_result_def Let_def split: if_splits)
qed

text \<open>A verity device is made for the entry's own block device, with the digest that the images state for its partition.\<close>

lemma verity_setup:
  assumes "SetUpAvbHashtree e h wait entry k = Returns (Hashtree_Success, entry', k')"
  obtains htd t k1 dev where
    "GetHashtreeDescriptor e (DeriveAvbPartitionName e entry (ah_slot_suffix h) (ah_other_slot_suffix h)) (ah_vbmeta_images h) = Some htd"
    and "vt_root_digest t = hd_root_digest htd" and "vt_salt t = hd_salt htd" and "vt_block_device t = fe_blk_device entry"
    and "vt_hash_device t = fe_blk_device entry" and "vt_readonly t" and "verity_mode e = Some (vt_mode t)"
    and "dm_create e (GetVerityDeviceName (av_fv e) entry) t wait k = (Some dev, k1)"
    and "entry' = entry\<lparr>fe_blk_device := dev\<rparr>" and "k' = snd (av_set_readonly e (fe_blk_device entry) k1)"
proof -
  let ?name = "DeriveAvbPartitionName e entry (ah_slot_suffix h) (ah_other_slot_suffix h)"
  have "LoadAvbHashtreeToEnableVerity e (ah_vbmeta_images h) (ah_slot_suffix h) (ah_other_slot_suffix h) wait entry k = Returns (True, entry', k')"
    using assms by (auto simp: SetUpAvbHashtree_def out_bind_Returns split: if_splits)
  then obtain htd where htd: "GetHashtreeDescriptor e ?name (ah_vbmeta_images h) = Some htd"
    and s: "HashtreeDmVeritySetup e htd wait entry k = Returns (True, entry', k')"
    by (auto simp: LoadAvbHashtreeToEnableVerity_def Let_def split: if_splits option.splits)
  from s obtain t where t: "ConstructVerityTable e htd (fe_blk_device entry) = Returns (Some t)"
    and c: "(case dm_create e (GetVerityDeviceName (av_fv e) entry) (t\<lparr>vt_readonly := True\<rparr>) wait k of
                     (None, k) \<Rightarrow> Returns (False, entry, k)
                   | (Some dev_path, k) \<Rightarrow>
                       (let k = snd (av_set_readonly e (fe_blk_device entry) k)
                        in Returns (True, entry\<lparr>fe_blk_device := dev_path\<rparr>, k))) = Returns (True, entry', k')"
    by (auto simp: HashtreeDmVeritySetup_def out_bind_Returns split: option.splits if_splits)
  obtain dev k1 where "dm_create e (GetVerityDeviceName (av_fv e) entry) (t\<lparr>vt_readonly := True\<rparr>) wait k = (Some dev, k1)"
    and "entry' = entry\<lparr>fe_blk_device := dev\<rparr>" and "k' = snd (av_set_readonly e (fe_blk_device entry) k1)"
    using c by (auto simp: Let_def split: prod.splits option.splits)
  then show ?thesis
    using that [OF htd, of "t\<lparr>vt_readonly := True\<rparr>"] t
    by (auto simp: ConstructVerityTable_def Let_def split: option.splits if_splits)
qed


section \<open>The digest from the boot loader\<close>

text \<open>Hash functions give digests of their size.\<close>

locale avb_hashes =
  fixes e :: "'k avb_env"
  assumes sha_length: "length (av_sha e alg data) = digest_size alg"
begin

lemma verified_digest:
  assumes "make_AvbVerifier e = Some v" and "VerifyVbmetaImages e v images"
  obtains alg digest where "get_boot_config (av_fv e) ''vbmeta.digest'' = Some digest"
    and "get_boot_config (av_fv e) ''vbmeta.hash_alg'' = Some (if alg = kSHA256 then ''sha256'' else ''sha512'')"
    and "alg \<in> {kSHA256, kSHA512}"
    and "HexToBytes 64 digest = Some (av_sha e alg (concat (map vb_data images)))"
proof -
  define digest where "digest = (case get_boot_config (av_fv e) ''vbmeta.digest'' of Some d \<Rightarrow> d | None \<Rightarrow> [])"
  define name where "name = (case get_boot_config (av_fv e) ''vbmeta.hash_alg'' of Some a \<Rightarrow> a | None \<Rightarrow> [])"
  have alg: "vf_hash_alg v = (if name = ''sha256'' then kSHA256 else if name = ''sha512'' then kSHA512 else kInvalid)"
      "vf_hash_alg v \<noteq> kInvalid"
    and len: "length digest = digest_size (vf_hash_alg v) * 2" and hex: "HexToBytes 64 digest = Some (vf_digest v)"
    using assms(1) unfolding make_AvbVerifier_def Let_def digest_def [symmetric] name_def [symmetric]
    by (auto split: option.splits if_splits)
  have a: "vf_hash_alg v \<in> {kSHA256, kSHA512}" using alg by (auto split: if_splits)
  then have "digest \<noteq> []" using len by auto
  then have d: "get_boot_config (av_fv e) ''vbmeta.digest'' = Some digest"
    by (auto simp: digest_def split: option.splits)
  have n: "get_boot_config (av_fv e) ''vbmeta.hash_alg'' = Some name"
    using alg by (auto simp: name_def split: option.splits)
  have "length (vf_digest v) = digest_size (vf_hash_alg v)" using HexToBytes_length [OF hex] len by simp
  then have "vf_digest v = av_sha e (vf_hash_alg v) (concat (map vb_data images))"
    using assms(2) a sha_length by (auto simp: VerifyVbmetaImages_def VerifyVbmetaDigest_def Let_def split: if_splits prod.splits)
  then show ?thesis using that [OF d, of "vf_hash_alg v"] n a alg hex by (auto split: if_splits)
qed

end

section \<open>Properties\<close>

text \<open>
  C14 (avb_chain_of_trust): when the device does not allow verification errors, a handle for a
  partition holds only images of the chain of trust that starts from the expected key: the top
  image is signed by that key, and every other image is signed by the key that an image of the chain names
  for its partition, and carries no flags.  The handle is then never in the state of a verification error, and it is not empty.
\<close>

theorem avb_chain_of_trust:
  assumes "LoadAndVerifyVbmetaPartition n e name sfx osfx key_path alg False lc rb dp k = Some (Returns (Some h))"
    and "load_key e key_path k = Some key"
  shows "ah_vbmeta_images h \<noteq> [] \<and> ah_status h \<noteq> Handle_VerificationError \<and>
     (\<forall>img \<in> set (ah_vbmeta_images h). trusted e name key False img)"
  using handle_of_partition [OF assms(1)] assms(2) by (metis option.inject)

text \<open>
  C15 (avb_boot_digest): on a device that does not allow verification errors, \<open>AvbHandle::Open\<close> gives a
  handle only if libavb accepted the slot without any error and the hash over all images is the digest that the
  boot loader passed, for the algorithm it named.
\<close>

theorem avb_boot_digest:
  assumes "avb_hashes e" and "AvbHandle_Open e k = Returns (Some h)" and "\<not> IsAvbPermissive e k"
  shows "AvbSlotVerify e (slot_suffix e) False k = (SV_OK, ah_vbmeta_images h) \<and>
     (\<exists>alg digest. get_boot_config (av_fv e) ''vbmeta.digest'' = Some digest \<and>
        get_boot_config (av_fv e) ''vbmeta.hash_alg'' = Some (if alg = kSHA256 then ''sha256'' else ''sha512'') \<and>
        HexToBytes 64 digest = Some (av_sha e alg (concat (map vb_data (ah_vbmeta_images h)))))"
proof -
  obtain v where o: "AvbSlotVerify e (slot_suffix e) False k = (SV_OK, ah_vbmeta_images h)"
    and v: "make_AvbVerifier e = Some v" "VerifyVbmetaImages e v (ah_vbmeta_images h)"
    using open_locked [OF assms(2,3)] by metis
  obtain alg digest where "get_boot_config (av_fv e) ''vbmeta.digest'' = Some digest"
    "get_boot_config (av_fv e) ''vbmeta.hash_alg'' = Some (if alg = kSHA256 then ''sha256'' else ''sha512'')"
    "HexToBytes 64 digest = Some (av_sha e alg (concat (map vb_data (ah_vbmeta_images h))))"
    using avb_hashes.verified_digest [OF assms(1) v] by metis
  with o show ?thesis by (intro conjI exI [of _ alg] exI [of _ digest])
qed

text \<open>
  Reading back the hexadecimal form of any bytes gives the bytes, for
  every buffer that can hold them; a longer text is refused.
\<close>

theorem avb_hex_roundtrip: "HexToBytes n (BytesToHex bs) = (if length bs \<le> n then Some bs else None)"
  by (simp add: HexToBytes_def length_BytesToHex hex_loop_BytesToHex)

text \<open>
  The names that libavb uses for partitions and the names of their devices
  correspond.  For an entry of the running slot whose device is called name with the suffix of the slot, the AVB name is the
  name, and it leads back to the device if the name does not contain \<open>_other\<close>; for an entry of the other slot the AVB
  name is the name with \<open>_other\<close>, and it always leads back.
\<close>

theorem avb_partition_names:
  assumes "Basename (av_lb e) (fe_blk_device entry) = name @ sfx" and "F_logical \<notin> fe_fs_mgr_flags entry"
  shows "(F_slot_select \<in> fe_fs_mgr_flags entry \<longrightarrow>
        DeriveAvbPartitionName e entry sfx osfx = name \<and>
        ((\<nexists>p q. name = p @ ''_other'' @ q) \<longrightarrow> AvbPartitionToDevicePatition name sfx osfx = name @ sfx)) \<and>
     (F_slot_select \<notin> fe_fs_mgr_flags entry \<and> F_slot_select_other \<in> fe_fs_mgr_flags entry \<longrightarrow>
        DeriveAvbPartitionName e entry osfx sfx = name @ ''_other'' \<and>
        AvbPartitionToDevicePatition (name @ ''_other'') osfx sfx = name @ sfx)"
proof -
  have "rfind_str ''_other'' (name @ ''_other'') = Some (length name)" by (rule rfind_str_suffix)
  then have "AvbPartitionToDevicePatition (name @ ''_other'') osfx sfx = name @ sfx"
    by (simp only: AvbPartitionToDevicePatition_def option.case) simp
  moreover have "AvbPartitionToDevicePatition name sfx osfx = name @ sfx" if "\<nexists>p q. name = p @ ''_other'' @ q"
    using that by (simp only: AvbPartitionToDevicePatition_def rfind_str_None [symmetric] option.case)
  ultimately show ?thesis using assms by (simp only: DeriveAvbPartitionName_def Let_def erase_from_last_suffix if_True if_False) simp
qed


section \<open>A small implementation of libavb\<close>

text \<open>
  Images are a mark, a one-byte key, flags, the length of the body, and the body: one
  descriptor, a hash tree or a chain.  The verity devices made so far are a list in the state.
\<close>

type_synonym toy_kernel = "(string \<times> verity_target) list"

definition toy_verify :: "u8 list \<Rightarrow> avb_verify \<times> u8 list" where
  "toy_verify d = (case d of m # pk # _ \<Rightarrow> if m = 1 then (AV_OK, [pk]) else (AV_INVALID_VBMETA_HEADER, []) | _ \<Rightarrow> (AV_INVALID_VBMETA_HEADER, []))"

definition toy_header :: "u8 list \<Rightarrow> (vbmeta_header \<times> u8 list) option" where
  "toy_header d = (if length d < 4 then None
     else Some (\<lparr>vh_flags = ucast (d ! 2), vh_rollback_index = 0\<rparr>, take (4 + unat (d ! 3)) d))"

definition toy_descriptors :: "u8 list \<Rightarrow> u8 list list" where
  "toy_descriptors d = (if length d \<le> 4 then [] else [drop 4 d])"

definition toy_hashtree :: "u8 list \<Rightarrow> hashtree_header option" where
  "toy_hashtree d = (if length d < 4 then None
     else Some \<lparr>ht_dm_verity_version = 1, ht_image_size = 8192, ht_tree_offset = 8192, ht_data_block_size = 4096,
       ht_hash_block_size = 4096, ht_fec_num_roots = 0, ht_fec_offset = 0, ht_fec_size = 0,
       ht_hash_algorithm = bytes_of_string ''sha256'', ht_partition_name_len = unat (d ! 1), ht_salt_len = unat (d ! 2),
       ht_root_digest_len = unat (d ! 3), ht_flags = 0\<rparr>)"

definition toy_chain :: "u8 list \<Rightarrow> chain_header option" where
  "toy_chain d = (if length d < 3 then None else Some \<lparr>ch_partition_name_len = unat (d ! 1), ch_public_key_len = unat (d ! 2)\<rparr>)"

definition toy_system :: "u8 list" where
  "toy_system = [1, 9, 0, 13, 1, 6, 1, 2] @ bytes_of_string ''system'' @ [5, 0xab, 0xcd]"

definition toy_vbmeta :: "u8 list" where
  "toy_vbmeta = [1, 7, 0, 10, 4, 6, 1] @ bytes_of_string ''system'' @ [9]"

definition toy_files :: "string \<rightharpoonup> u8 list" where
  "toy_files = map_of [(''/dev/block/by-name/vbmeta'', toy_vbmeta), (''/dev/block/by-name/system'', toy_system @ [0, 17]),
     (''/key'', [7])]"

definition toy_sha :: "HashAlgorithm \<Rightarrow> u8 list \<Rightarrow> u8 list" where
  "toy_sha alg d = take (digest_size alg) (d @ replicate 64 0)"

definition toy_config :: "string \<rightharpoonup> string" where
  "toy_config = map_of [(''vbmeta.size'', ''31''), (''vbmeta.hash_alg'', ''sha256''),
     (''vbmeta.digest'', BytesToHex (toy_sha kSHA256 (toy_vbmeta @ toy_system)))]"

definition toy_images :: "VBMetaData list" where
  "toy_images =
     [\<lparr>vb_data = toy_vbmeta, vb_partition = ''vbmeta'', vb_path = ''/dev/block/by-name/vbmeta''\<rparr>,
      \<lparr>vb_data = toy_system, vb_partition = ''system'', vb_path = ''/dev/block/by-name/system''\<rparr>]"

definition toy_libavb :: "('k \<Rightarrow> toy_kernel) \<Rightarrow> (toy_kernel \<Rightarrow> 'k \<Rightarrow> 'k) \<Rightarrow> 'k avb_env" where
  "toy_libavb get put =
     \<lparr>av_fv = demo_fv\<lparr>get_boot_config := toy_config\<rparr>, slot_suffix = [], other_slot_suffix = [], OtherSlotSuffix = (\<lambda>_. []),
      av_access = (\<lambda>p i k. if p \<in> dom toy_files then Exists else NoEntry), av_polls = (\<lambda>_ _. 20),
      av_read = (\<lambda>p k. toy_files p), av_readdir = (\<lambda>_ _. None), av_openable = (\<lambda>p k. p \<in> dom toy_files),
      av_seek_cur = (\<lambda>_ _. 0), av_seek_end = (\<lambda>p k. case toy_files p of Some c \<Rightarrow> int (length c) | None \<Rightarrow> -1),
      av_pread = (\<lambda>p n off k. case toy_files p of Some c \<Rightarrow> if off < 0 then None else Some (take n (drop (nat off) c)) | None \<Rightarrow> None),
      av_buffer = (\<lambda>n. replicate n 0),
      avb_footer_validate = (\<lambda>bs. Some \<lparr>ft_vbmeta_offset = ucast (bs ! 0), ft_vbmeta_size = ucast (bs ! 1)\<rparr>),
      avb_vbmeta_image_verify = toy_verify, GetVBMetaHeader = toy_header, avb_descriptor_get_all = toy_descriptors,
      avb_descriptor_validate = (\<lambda>d. if d = [] then None else Some (unat (d ! 0))), avb_hashtree_validate = toy_hashtree,
      avb_hash_validate = (\<lambda>_. None), avb_chain_validate = toy_chain, avb_property_lookup = (\<lambda>_ _. None),
      avb_header_flags = (\<lambda>d. ucast (d ! 2)), av_sha = toy_sha, AvbSlotVerify = (\<lambda>_ _ _. (SV_OK, toy_images)),
      dm_table_valid = (\<lambda>_. True),
      dm_create = (\<lambda>n t w k. (Some (''/dev/block/dm-'' @ dec (length (get k))), put (get k @ [(n, t)]) k)),
      dm_delete = (\<lambda>n k. (True, put (filter (\<lambda>x. fst x \<noteq> n) (get k)) k)), dm_path = (\<lambda>_ _. None),
      av_set_readonly = (\<lambda>_ k. (True, k)), sizeof_hashtree = 4, sizeof_hash = 4, sizeof_chain = 3, AVB_FOOTER_SIZE = 2,
      kMaxVBMetaSize = 64, AVB_VERSION = ''1.2'', DSU_METADATA_PREFIX = ''/metadata/gsi/dsu/''\<rparr>"

definition toy_avb :: "toy_kernel avb_env" where
  "toy_avb = toy_libavb (\<lambda>k. k) (\<lambda>v k. v)"

lemma toy_sha_length: "length (toy_sha alg d) = digest_size alg"
  by (cases alg) (simp_all add: toy_sha_def)

interpretation toy_avb: avb_hashes toy_avb
  by unfold_locales (simp add: toy_avb_def toy_libavb_def toy_sha_length)

theorem avb_chain_of_trust_witness:
  "\<exists>h. LoadAndVerifyVbmetaPartition 3 toy_avb ''vbmeta'' [] [] ''/key'' kSHA256 False True False None [] = Some (Returns (Some h)) \<and>
     (\<forall>img \<in> set (ah_vbmeta_images h). trusted toy_avb ''vbmeta'' [7] False img) \<and> length (ah_vbmeta_images h) = 2"
proof -
  let ?l = "LoadAndVerifyVbmetaPartition 3 toy_avb ''vbmeta'' [] [] ''/key'' kSHA256 False True False None []"
  have "case ?l of Some (Returns (Some h)) \<Rightarrow> length (ah_vbmeta_images h) = 2 | _ \<Rightarrow> False" by code_simp
  then obtain h where h: "?l = Some (Returns (Some h))" "length (ah_vbmeta_images h) = 2"
    by (auto split: option.splits outcome.splits)
  have "load_key toy_avb ''/key'' [] = Some [7]" by code_simp
  from avb_chain_of_trust [OF h(1) this] h show ?thesis by blast
qed

theorem avb_boot_digest_witness:
  "\<exists>h. AvbHandle_Open toy_avb [] = Returns (Some h) \<and>
     (\<exists>alg digest. HexToBytes 64 digest = Some (av_sha toy_avb alg (concat (map vb_data (ah_vbmeta_images h)))))"
proof -
  have "case AvbHandle_Open toy_avb [] of Returns (Some h) \<Rightarrow> True | _ \<Rightarrow> False" by code_simp
  then obtain h where h: "AvbHandle_Open toy_avb [] = Returns (Some h)"
    by (auto split: option.splits outcome.splits)
  have "\<not> IsAvbPermissive toy_avb []" by code_simp
  from avb_boot_digest [OF toy_avb.avb_hashes_axioms h this] h show ?thesis by blast
qed


theorem avb_partition_names_witness:
  "DeriveAvbPartitionName toy_avb (empty_entry\<lparr>fe_blk_device := ''/dev/block/by-name/system_a'', fe_fs_mgr_flags := {F_slot_select}\<rparr>)
     ''_a'' ''_b'' = ''system''"
proof -
  let ?e = "empty_entry\<lparr>fe_blk_device := ''/dev/block/by-name/system_a'', fe_fs_mgr_flags := {F_slot_select}\<rparr>"
  have "Basename (av_lb toy_avb) (fe_blk_device ?e) = ''system'' @ ''_a''" by code_simp
  moreover have "F_logical \<notin> fe_fs_mgr_flags ?e" "F_slot_select \<in> fe_fs_mgr_flags ?e" by simp_all
  ultimately show ?thesis using avb_partition_names [of toy_avb ?e "''system''" "''_a''" "''_b''"] by blast
qed

end
