(* ===== verification/Block_Dev.thy ===== *)
theory Block_Dev
  imports Devices_Correct Fstab_Correct
begin

text \<open>
  \<open>bdi.cpp\<close>: the first stage's device initializer.  It replays or awaits device events and passes those it
  wants to the \<open>DeviceHandler\<close> of \<open>Devices\<close>.  The event listener is not part of the repository: it is the
  parameter \<open>listener\<close>, the events that a call brings in their order and the effect of receiving one.  A callback is
  called for each of them until it returns \<open>kStop\<close>.
\<close>

section \<open>The listener\<close>

record 's listener =
  ul_lb :: libbase
  ul_kern :: "'s dkern"
  ul_fv :: fstab_env
  RegenerateUevents :: "'s \<Rightarrow> Uevent list"
  RegenerateUeventsForPath :: "string \<Rightarrow> 's \<Rightarrow> Uevent list"
  Poll :: "'s \<Rightarrow> Uevent list"
  receive :: "Uevent \<Rightarrow> 's \<Rightarrow> 's"

datatype ListenerAction = kStop | kContinue

type_synonym ('a, 's) callback =
  "Uevent \<Rightarrow> 'a \<times> DeviceHandler \<times> 's \<Rightarrow> (ListenerAction \<times> 'a \<times> DeviceHandler \<times> 's) outcome option"

fun deliver :: "'s listener \<Rightarrow> ('a, 's) callback \<Rightarrow> Uevent list \<Rightarrow> 'a \<times> DeviceHandler \<times> 's \<Rightarrow>
    ('a \<times> DeviceHandler \<times> 's) outcome option" where
  "deliver ul cb [] st = Some (Returns st)"
| "deliver ul cb (ue # ues) (a, d, s) =
     step_bind (cb ue (a, d, receive ul ue s))
       (\<lambda>(act, st). if act = kStop then Some (Returns st) else deliver ul cb ues st)"

section \<open>The initializer\<close>

definition make_BlockDevInitializer :: "'s listener \<Rightarrow> DeviceHandler" where
  "make_BlockDevInitializer ul =
     make_DeviceHandler [] [] [] [] (GetBootDevices (ul_fv ul)) (GetBootPartUuid (ul_fv ul)) False"

definition boot_part_callback :: "'s listener \<Rightarrow> (bool, 's) callback" where
  "boot_part_callback ul ue st =
     (let (_, d, s) = st; (checked, d) = CheckUeventForBootPartUuid (ul_lb ul) (ul_kern ul) ue s d
      in Some (Returns (if checked then kStop else kContinue, checked, d, s)))"

definition InitBootDevicesFromPartUuid ::
    "'s listener \<Rightarrow> DeviceHandler \<times> 's \<Rightarrow> (bool \<times> DeviceHandler \<times> 's) outcome option" where
  "InitBootDevicesFromPartUuid ul ds =
     step_bind (deliver ul (boot_part_callback ul) (RegenerateUevents ul (snd ds)) (False, ds))
       (\<lambda>(uuid_check_done, ds). if \<not> uuid_check_done
          then deliver ul (boot_part_callback ul) (Poll ul (snd ds)) (False, ds)
          else Some (Returns (True, ds)))"

text \<open>The callbacks that wait for one event.\<close>

definition await_event :: "'s listener \<Rightarrow> (Uevent \<Rightarrow> bool) \<Rightarrow> (bool, 's) callback" where
  "await_event ul P ue st =
     (if P ue then step_bind (HandleUevent (ul_lb ul) (ul_kern ul) ue (snd st))
        (\<lambda>ds. Some (Returns (kStop, True, ds)))
      else Some (Returns (kContinue, st)))"

definition regenerate_or_poll ::
    "'s listener \<Rightarrow> (Uevent \<Rightarrow> bool) \<Rightarrow> string \<Rightarrow> DeviceHandler \<times> 's \<Rightarrow> (bool \<times> DeviceHandler \<times> 's) outcome option" where
  "regenerate_or_poll ul P syspath ds =
     step_bind (deliver ul (await_event ul P) (RegenerateUeventsForPath ul syspath (snd ds)) (False, ds))
       (\<lambda>(found, ds). if \<not> found then deliver ul (await_event ul P) (Poll ul (snd ds)) (False, ds)
                      else Some (Returns (True, ds)))"

definition InitMiscDevice ::
    "'s listener \<Rightarrow> string \<Rightarrow> DeviceHandler \<times> 's \<Rightarrow> (bool \<times> DeviceHandler \<times> 's) outcome option" where
  "InitMiscDevice ul name ds =
     (let dm_path = ''/devices/virtual/misc/'' @ name
      in regenerate_or_poll ul (\<lambda>ue. ue_path ue = dm_path) (''/sys'' @ dm_path) ds)"

definition InitDeviceMapper :: "'s listener \<Rightarrow> DeviceHandler \<times> 's \<Rightarrow> (bool \<times> DeviceHandler \<times> 's) outcome option" where
  "InitDeviceMapper ul ds = InitMiscDevice ul ''device-mapper'' ds"

definition InitDmUser ::
    "'s listener \<Rightarrow> string \<Rightarrow> DeviceHandler \<times> 's \<Rightarrow> (bool \<times> DeviceHandler \<times> 's) outcome option" where
  "InitDmUser ul name ds = InitMiscDevice ul (''dm-user!'' @ name) ds"

definition InitDevice ::
    "'s listener \<Rightarrow> string \<Rightarrow> string \<Rightarrow> DeviceHandler \<times> 's \<Rightarrow> (bool \<times> DeviceHandler \<times> 's) outcome option" where
  "InitDevice ul syspath device_name ds = regenerate_or_poll ul (\<lambda>ue. ue_device_name ue = device_name) syspath ds"

text \<open>\<open>basename\<close> of \<open>string.h\<close>.\<close>

definition c_basename :: "string \<Rightarrow> string" where
  "c_basename p = (case rfind_char (CHR ''/'') p of None \<Rightarrow> p | Some i \<Rightarrow> drop (i + 1) p)"

definition InitDmDevice ::
    "'s listener \<Rightarrow> string \<Rightarrow> DeviceHandler \<times> 's \<Rightarrow> (bool \<times> DeviceHandler \<times> 's) outcome option" where
  "InitDmDevice ul device ds =
     (let device_name = c_basename device in InitDevice ul (''/sys/block/'' @ device_name) device_name ds)"

definition InitPlatformDevice ::
    "'s listener \<Rightarrow> string \<Rightarrow> DeviceHandler \<times> 's \<Rightarrow> (bool \<times> DeviceHandler \<times> 's) outcome option" where
  "InitPlatformDevice ul dev_name ds = InitDevice ul ''/sys/devices/platform'' dev_name ds"

definition InitHvcDevice ::
    "'s listener \<Rightarrow> string \<Rightarrow> DeviceHandler \<times> 's \<Rightarrow> (bool \<times> DeviceHandler \<times> 's) outcome option" where
  "InitHvcDevice ul dev_name ds = InitDevice ul ''/sys/devices/virtual/tty'' dev_name ds"

text \<open>The name in \<open>devices\<close> that an event of a block device stands for.\<close>

definition event_name :: "Uevent \<Rightarrow> string option" where
  "event_name ue =
     (if ue_partition_name ue \<noteq> [] then Some (ue_partition_name ue)
      else map_option (\<lambda>i. drop (i + 1) (ue_path ue)) (rfind_char (CHR ''/'') (ue_path ue)))"

definition wanted_device :: "libbase \<Rightarrow> 's dkern \<Rightarrow> Uevent \<Rightarrow> string set \<Rightarrow> string option" where
  "wanted_device lb k ue devices =
     (case event_name ue of
        None \<Rightarrow> None
      | Some name \<Rightarrow>
          if name \<in> devices then Some name
          else let partition_name = GetPartitionNameForDevice lb k (ue_device_name ue)
               in if partition_name \<noteq> [] \<and> partition_name \<in> devices then Some partition_name else None)"

definition BDI_HandleUevent :: "'s listener \<Rightarrow> (string set, 's) callback" where
  "BDI_HandleUevent ul ue st =
     (let (devices, d, s) = st
      in if ue_subsystem ue \<noteq> ''block'' then Some (Returns (kContinue, st))
         else case wanted_device (ul_lb ul) (ul_kern ul) ue devices of
           None \<Rightarrow> Some (Returns (kContinue, st))
         | Some name \<Rightarrow>
             (let devices = (if IsBootDevice (ul_lb ul) (ul_kern ul) d ue s \<or> \<not> IsBootDeviceStrict d
                             then devices - {name} else devices)
              in step_bind (HandleUevent (ul_lb ul) (ul_kern ul) ue (d, s))
                   (\<lambda>ds. Some (Returns (if devices = {} then kStop else kContinue, devices, ds)))))"

definition InitDevices ::
    "'s listener \<Rightarrow> string set \<Rightarrow> DeviceHandler \<times> 's \<Rightarrow> (bool \<times> DeviceHandler \<times> 's) outcome option" where
  "InitDevices ul devices ds =
     step_bind (deliver ul (BDI_HandleUevent ul) (RegenerateUevents ul (snd ds)) (devices, ds))
       (\<lambda>(devices, ds).
          step_bind (if devices \<noteq> {} then deliver ul (BDI_HandleUevent ul) (Poll ul (snd ds)) (devices, ds)
                     else Some (Returns (devices, ds)))
            (\<lambda>(devices, ds). Some (Returns (devices = {}, ds))))"

section \<open>Waiting for devices\<close>

text \<open>An event that stands for a device: by its name, or by the partition that the boot parameters give its device.\<close>

definition matches :: "'s listener \<Rightarrow> Uevent \<Rightarrow> string \<Rightarrow> bool" where
  "matches ul ue name \<longleftrightarrow> ue_subsystem ue = ''block'' \<and>
     (event_name ue = Some name \<or> name = GetPartitionNameForDevice (ul_lb ul) (ul_kern ul) (ue_device_name ue))"

definition on_boot_device :: "'s listener \<Rightarrow> DeviceHandler \<Rightarrow> Uevent \<Rightarrow> 's \<Rightarrow> bool" where
  "on_boot_device ul d ue s \<longleftrightarrow> \<not> IsBootDeviceStrict d \<or> IsBootDevice (ul_lb ul) (ul_kern ul) d ue s"

lemma FindSubsystemDevice_config:
  "config d' = config d \<Longrightarrow> FindSubsystemDevice lb k d' = FindSubsystemDevice lb k d"
  by (intro ext) (simp add: config_def FindSubsystemDevice_def)

lemma GetBlockDeviceInfo_config:
  assumes "config d' = config d"
  shows "GetBlockDeviceInfo lb k d' = GetBlockDeviceInfo lb k d"
proof -
  have eqs: "sysfs_mount_point d' = sysfs_mount_point d" "boot_devices d' = boot_devices d" "boot_part_uuid d' = boot_part_uuid d"
    using assms by (simp_all add: config_def)
  show ?thesis
    by (intro ext) (simp only: GetBlockDeviceInfo_def FindPlatformDevice_def FindMmcDevice_def FindNvmeDevice_def FindScsiDevice_def
        FindSubsystemDevice_config [OF assms] eqs)
qed

lemma on_boot_device_config:
  assumes "config d' = config d"
  shows "on_boot_device ul d' = on_boot_device ul d"
proof -
  have "boot_part_uuid d' = boot_part_uuid d" using assms by (simp add: config_def)
  then show ?thesis
    by (intro ext) (simp add: on_boot_device_def IsBootDevice_def IsBootDeviceStrict_def GetBlockDeviceInfo_config [OF assms])
qed

text \<open>
  The contract of the listener: receiving an event does not touch the credentials for new files, and the kernel
  binds drivers to devices of a bus, not to block devices.
\<close>

definition driver_event :: "Uevent \<Rightarrow> bool" where
  "driver_event ue \<longleftrightarrow> ue_subsystem ue = ''block'' \<and> ue_action ue \<in> {''bind'', ''unbind''}"

locale event_listener = device_kernel "ul_lb ul" "ul_kern ul" view
  for ul :: "'s listener" and view :: "'s \<Rightarrow> dview" +
  assumes receive_calm: "calm (view s) \<Longrightarrow> calm (view (receive ul ue s))"
    and regenerated: "ue \<in> set (RegenerateUevents ul s) \<Longrightarrow> \<not> driver_event ue"
    and polled: "ue \<in> set (Poll ul s) \<Longrightarrow> \<not> driver_event ue"
    and boot_id_set: "k_ReadFile (ul_kern ul) ''/proc/sys/kernel/random/boot_id'' s = Some b \<Longrightarrow> Trim (ul_lb ul) b \<noteq> []"
begin

text \<open>What events leave of the devices that are waited for.\<close>

definition progress :: "DeviceHandler \<Rightarrow> Uevent list \<Rightarrow> string set \<Rightarrow> string set \<Rightarrow> bool" where
  "progress d ues devs devs' \<longleftrightarrow> devs' \<subseteq> devs \<and>
     (\<forall>n \<in> devs - devs'. \<exists>ue \<in> set ues. matches ul ue n \<and> (\<exists>t. on_boot_device ul d ue t)) \<and>
     (\<forall>n \<in> devs'. \<forall>ue \<in> set ues. ue_subsystem ue = ''block'' \<longrightarrow> event_name ue = Some n \<longrightarrow> (\<exists>t. \<not> on_boot_device ul d ue t))"

lemma progress_Cons:
  assumes "progress d [ue] devs devs1" and "progress d1 ues devs1 devs'" and "config d1 = config d"
  shows "progress d (ue # ues) devs devs'"
  unfolding progress_def
proof (intro conjI ballI)
  have bd: "on_boot_device ul d1 = on_boot_device ul d" by (rule on_boot_device_config [OF assms(3)])
  show "devs' \<subseteq> devs" using assms(1,2) by (auto simp: progress_def)
  show "\<exists>ue' \<in> set (ue # ues). matches ul ue' n \<and> (\<exists>t. on_boot_device ul d ue' t)" if "n \<in> devs - devs'" for n
    using that assms(1,2) by (cases "n \<in> devs1") (auto simp: progress_def bd)
  show "ue_subsystem ue' = ''block'' \<longrightarrow> event_name ue' = Some n \<longrightarrow> (\<exists>t. \<not> on_boot_device ul d ue' t)"
    if "n \<in> devs'" "ue' \<in> set (ue # ues)" for n ue'
    using that assms(1,2) by (auto simp: progress_def bd)
qed

lemma progress_done: "progress d [ue] devs {} \<Longrightarrow> progress d (ue # ues) devs {}"
  by (auto simp: progress_def)

lemma wanted_device_matches:
  assumes "wanted_device (ul_lb ul) (ul_kern ul) ue devs = Some n" and "ue_subsystem ue = ''block''"
  shows "matches ul ue n \<and> n \<in> devs \<and> (\<forall>m \<in> devs. event_name ue = Some m \<longrightarrow> m = n)"
  using assms by (auto simp: wanted_device_def matches_def Let_def split: option.splits if_splits)

lemma BDI_HandleUevent_step:
  assumes "calm (view s)" and "tracked_ok d" and "\<not> driver_event ue"
  shows "\<exists>act devs' d' s'. BDI_HandleUevent ul ue (devs, d, s) = Some (Returns (act, devs', d', s')) \<and>
     calm (view s') \<and> tracked_ok d' \<and> config d' = config d \<and> progress d [ue] devs devs' \<and> (act = kStop \<longrightarrow> devs' = {})"
proof (cases "if ue_subsystem ue = ''block'' then wanted_device (ul_lb ul) (ul_kern ul) ue devs else None")
  case None
  then have "progress d [ue] devs devs"
    by (auto simp: progress_def wanted_device_def Let_def split: if_splits)
  moreover have "BDI_HandleUevent ul ue (devs, d, s) = Some (Returns (kContinue, devs, d, s))"
    using None by (auto simp: BDI_HandleUevent_def split: if_splits)
  ultimately show ?thesis using assms by auto
next
  case (Some n)
  then have b: "ue_subsystem ue = ''block''" and w: "wanted_device (ul_lb ul) (ul_kern ul) ue devs = Some n"
    by (simp_all split: if_splits)
  have "\<not> fatal_event d ue" using assms(3) b by (auto simp: fatal_event_def driver_event_def)
  then obtain d' s' where ev: "HandleUevent (ul_lb ul) (ul_kern ul) ue (d, s) = Some (Returns (d', s'))" and c: "calm (view s')"
    by (rule HandleUevent_returns [OF assms(1) _ boot_id_set])
  have cfg: "config d' = config d" "tracked_ok d'"
    using HandleUevent_config [OF ev refl] assms(2) by auto
  define devs' where "devs' = (if on_boot_device ul d ue s then devs - {n} else devs)"
  have "BDI_HandleUevent ul ue (devs, d, s) = Some (Returns (if devs' = {} then kStop else kContinue, devs', d', s'))"
    by (auto simp: BDI_HandleUevent_def b w ev on_boot_device_def devs'_def)
  moreover have "progress d [ue] devs devs'"
    using wanted_device_matches [OF w b] by (auto simp: progress_def devs'_def)
  ultimately show ?thesis using c cfg by auto
qed

lemma deliver_BDI:
  assumes "calm (view s)" and "tracked_ok d" and "\<forall>ue \<in> set ues. \<not> driver_event ue"
  shows "\<exists>devs' d' s'. deliver ul (BDI_HandleUevent ul) ues (devs, d, s) = Some (Returns (devs', d', s')) \<and>
     calm (view s') \<and> tracked_ok d' \<and> config d' = config d \<and> progress d ues devs devs'"
  using assms
proof (induction ues arbitrary: devs d s)
  case Nil
  then show ?case by (simp add: progress_def)
next
  case (Cons ue ues)
  have "calm (view (receive ul ue s))" using Cons.prems(1) by (rule receive_calm)
  from BDI_HandleUevent_step [OF this Cons.prems(2), of ue devs] Cons.prems(3) obtain act devs1 d1 s1 where
    st: "BDI_HandleUevent ul ue (devs, d, receive ul ue s) = Some (Returns (act, devs1, d1, s1))"
    and ok: "calm (view s1)" "tracked_ok d1" and cfg: "config d1 = config d" and p: "progress d [ue] devs devs1"
    and stop: "act = kStop \<Longrightarrow> devs1 = {}"
    by auto
  show ?case
  proof (cases "act = kStop")
    case True
    then have "deliver ul (BDI_HandleUevent ul) (ue # ues) (devs, d, s) = Some (Returns (devs1, d1, s1))"
      by (simp add: st)
    moreover have "progress d (ue # ues) devs devs1" using p stop [OF True] progress_done by simp
    ultimately show ?thesis using ok cfg by (intro exI conjI)
  next
    case False
    from Cons.IH [OF ok, of devs1] Cons.prems(3) obtain devs' d' s' where
      r: "deliver ul (BDI_HandleUevent ul) ues (devs1, d1, s1) = Some (Returns (devs', d', s'))"
      and ok': "calm (view s')" "tracked_ok d'" "config d' = config d1" and p': "progress d1 ues devs1 devs'"
      by auto
    have "deliver ul (BDI_HandleUevent ul) (ue # ues) (devs, d, s) = Some (Returns (devs', d', s'))"
      using False r by (simp add: st)
    moreover have "config d' = config d" using ok'(3) cfg by simp
    ultimately show ?thesis using ok'(1,2) progress_Cons [OF p p' cfg] by (intro exI conjI)
  qed
qed

lemma InitDevices_returns:
  assumes "calm (view s)" and "tracked_ok d"
  shows "\<exists>b d' s'. InitDevices ul devs (d, s) = Some (Returns (b, d', s')) \<and> calm (view s') \<and>
     (b \<longrightarrow> (\<forall>n \<in> devs. \<exists>ue t u. (ue \<in> set (RegenerateUevents ul s) \<or> ue \<in> set (Poll ul u)) \<and>
        matches ul ue n \<and> on_boot_device ul d ue t)) \<and>
     ((\<forall>n \<in> devs. \<exists>ue \<in> set (RegenerateUevents ul s). ue_subsystem ue = ''block'' \<and> event_name ue = Some n \<and>
        (\<forall>t. on_boot_device ul d ue t)) \<longrightarrow> b)"
proof -
  from deliver_BDI [OF assms, of "RegenerateUevents ul s" devs] regenerated obtain devs1 d1 s1 where
    r1: "deliver ul (BDI_HandleUevent ul) (RegenerateUevents ul s) (devs, d, s) = Some (Returns (devs1, d1, s1))"
    and ok1: "calm (view s1)" "tracked_ok d1" and cfg: "config d1 = config d"
    and p1: "progress d (RegenerateUevents ul s) devs devs1"
    by auto
  show ?thesis
  proof (cases "devs1 = {}")
    case True
    then have "InitDevices ul devs (d, s) = Some (Returns (True, d1, s1))" by (simp add: InitDevices_def r1)
    then show ?thesis using ok1 p1 True unfolding progress_def by blast
  next
    case False
    from deliver_BDI [OF ok1, of "Poll ul s1" devs1] polled obtain devs2 d2 s2 where
      r2: "deliver ul (BDI_HandleUevent ul) (Poll ul s1) (devs1, d1, s1) = Some (Returns (devs2, d2, s2))"
      and ok2: "calm (view s2)" and p2: "progress d1 (Poll ul s1) devs1 devs2"
      by auto
    have r: "InitDevices ul devs (d, s) = Some (Returns (devs2 = {}, d2, s2))"
      using False by (simp add: InitDevices_def r1 r2)
    have found: "\<exists>ue t u. (ue \<in> set (RegenerateUevents ul s) \<or> ue \<in> set (Poll ul u)) \<and> matches ul ue n \<and> on_boot_device ul d ue t"
      if "n \<in> devs" "devs2 = {}" for n
    proof (cases "n \<in> devs1")
      case True
      then show ?thesis using that p2 unfolding progress_def on_boot_device_config [OF cfg] by blast
    next
      case False
      then show ?thesis using that p1 unfolding progress_def by blast
    qed
    have "\<not> (\<forall>n \<in> devs. \<exists>ue \<in> set (RegenerateUevents ul s). ue_subsystem ue = ''block'' \<and> event_name ue = Some n \<and>
        (\<forall>t. on_boot_device ul d ue t))"
      using False p1 unfolding progress_def by blast
    with r ok2 found show ?thesis by blast
  qed
qed

end

section \<open>Properties\<close>

text \<open>
  C19 (block_devices_ready): waiting for block devices always comes to an end, and the credentials for
  new files are then as before.  The answer is true only if for each of the devices an event appeared that stands for
  it, and, when the boot device is known by its partition, was an event of the boot device; and it is true if the
  replayed events contain such an event for each of them.
\<close>

theorem block_devices_ready:
  assumes "event_listener ul view" and "calm (view s)" and "tracked_ok d"
  shows "\<exists>b d' s'. InitDevices ul devices (d, s) = Some (Returns (b, d', s')) \<and> calm (view s') \<and>
     (b \<longrightarrow> (\<forall>name \<in> devices. \<exists>ue t u. (ue \<in> set (RegenerateUevents ul s) \<or> ue \<in> set (Poll ul u)) \<and>
        matches ul ue name \<and> on_boot_device ul d ue t)) \<and>
     ((\<forall>name \<in> devices. \<exists>ue \<in> set (RegenerateUevents ul s). ue_subsystem ue = ''block'' \<and> event_name ue = Some name \<and>
        (\<forall>t. on_boot_device ul d ue t)) \<longrightarrow> b)"
  by (rule event_listener.InitDevices_returns [OF assms])

text \<open>A listener that replays one block device.\<close>

definition demo_listener :: "sim_dev listener" where
  "demo_listener = \<lparr>ul_lb = std_libbase, ul_kern = demo_dkern, ul_fv = demo_fv,
     RegenerateUevents = (\<lambda>s. [demo_node, demo_block]), RegenerateUeventsForPath = (\<lambda>p s. [demo_node, demo_block]),
     Poll = (\<lambda>s. []), receive = (\<lambda>ue s. s)\<rparr>"

interpretation demo_events: event_listener demo_listener "sim_view demo_real demo_files"
  by (intro event_listener.intro event_listener_axioms.intro)
    (auto simp: demo_listener_def sim_device.device_kernel_axioms driver_event_def demo_block_def demo_node_def
      dest: demo_boot_id)

theorem block_devices_ready_witness:
  "\<exists>d' s'. InitDevices demo_listener {''a/b''} (demo_handler, demo_dev) = Some (Returns (True, d', s'))"
proof -
  have "tracked_ok demo_handler" by (simp add: tracked_ok_def demo_handler_def make_DeviceHandler_def)
  from block_devices_ready [OF demo_events.event_listener_axioms demo_calm this, of "{''a/b''}"]
  show ?thesis
    by (auto simp: demo_listener_def demo_block_def demo_node_def event_name_def on_boot_device_def IsBootDeviceStrict_def demo_handler_def
        make_DeviceHandler_def)
qed

end
