(* ===== verification/Fs_Mgr.thy ===== *)
theory Fs_Mgr
  imports Avb
begin

text \<open>
  \<open>fs_mgr.cpp\<close>, first part: preparing a file system (superblocks, \<open>tune2fs\<close>, \<open>fsck\<close>), the mount call with its
  retries, alternatives for one mount point, and the helpers around them.  The kernel, libdm, the helper programs and the
  property area are the parameter \<open>fs_env\<close>: one function for each call, on a state that the model passes along.
  Errors of system calls are \<open>errno\<close> values, 0 is success.  A loop that may go on for ever has the value \<open>None\<close>; a
  fault (a division by zero) aborts.
\<close>

section \<open>Parameters\<close>

record ext4_super_block =
  s_magic :: u16
  s_rev_level :: u32
  s_inodes_per_group :: u32
  s_blocks_count :: u64
  s_r_blocks_count :: u64
  s_block_size :: int
  s_def_resgid :: u16
  s_feature_compat :: u32
  s_feature_incompat :: u32
  s_feature_ro_compat :: u32
  s_state :: u16
  s_max_mnt_count :: u16
  s_volume_name :: string

text \<open>
  The superblock has the fields that the code reads; the two halves of a block count are one word, and
  \<open>s_block_size\<close> is what the macro \<open>EXT4_BLOCK_SIZE\<close> computes.
\<close>

record 'k fs_env =
  fs_av :: "'k avb_env"
  m_mount :: "string \<Rightarrow> string \<Rightarrow> string \<Rightarrow> u64 \<Rightarrow> string \<Rightarrow> 'k \<Rightarrow> nat \<times> 'k"
  m_umount :: "string \<Rightarrow> 'k \<Rightarrow> nat \<times> 'k"
  m_sleep :: "'k \<Rightarrow> 'k"
  m_run_status :: "string list \<Rightarrow> 'k \<Rightarrow> (int \<times> int) \<times> 'k"
  m_run :: "string list \<Rightarrow> 'k \<Rightarrow> int \<times> 'k"
  m_executable :: "string \<Rightarrow> 'k \<Rightarrow> bool"
  m_exists :: "string \<Rightarrow> 'k \<Rightarrow> bool"
  m_readable :: "string \<Rightarrow> 'k \<Rightarrow> bool"
  m_Realpath :: "string \<Rightarrow> 'k \<Rightarrow> string option"
  m_is_link :: "string \<Rightarrow> 'k \<Rightarrow> bool"
  m_lstat :: "string \<Rightarrow> 'k \<Rightarrow> bool"
  m_stat :: "string \<Rightarrow> 'k \<Rightarrow> (bool \<times> u32 \<times> u32) option"
  m_unlink :: "string \<Rightarrow> 'k \<Rightarrow> 'k"
  m_mkdir :: "string \<Rightarrow> 'k \<Rightarrow> bool \<times> 'k"
  m_rmdir :: "string \<Rightarrow> 'k \<Rightarrow> 'k"
  m_open :: "string \<Rightarrow> 'k \<Rightarrow> bool"
  m_read_ext4 :: "string \<Rightarrow> 'k \<Rightarrow> ext4_super_block option"
  m_read_u32 :: "string \<Rightarrow> nat \<Rightarrow> 'k \<Rightarrow> u32 option"
  m_device_size :: "string \<Rightarrow> 'k \<Rightarrow> u64"
  m_read :: "string \<Rightarrow> 'k \<Rightarrow> string option"
  m_write :: "string \<Rightarrow> string \<Rightarrow> 'k \<Rightarrow> bool \<times> 'k"
  m_links_in :: "string \<Rightarrow> 'k \<Rightarrow> string list option"
  m_block_devices :: "'k \<Rightarrow> string list option"
  m_entries :: "string \<Rightarrow> 'k \<Rightarrow> string list option"
  GetProperty :: "string \<Rightarrow> 'k \<Rightarrow> string"
  GetBoolProperty :: "string \<Rightarrow> 'k \<Rightarrow> bool"
  SetProperty :: "string \<Rightarrow> string \<Rightarrow> 'k \<Rightarrow> 'k"
  m_duration :: "'k \<Rightarrow> string"
  m_set_blk_ro :: "string \<Rightarrow> bool \<Rightarrow> 'k \<Rightarrow> bool \<times> 'k"
  m_append_log :: "string \<Rightarrow> 'k \<Rightarrow> 'k"
  dm_parent :: "string \<Rightarrow> 'k \<Rightarrow> string option"
  dm_exists :: "string \<Rightarrow> 'k \<Rightarrow> bool"
  dm_remove :: "string \<Rightarrow> 'k \<Rightarrow> 'k"
  dm_create_bow :: "u64 \<Rightarrow> string \<Rightarrow> bool \<Rightarrow> 'k \<Rightarrow> bool \<times> 'k"
  dm_create_linear :: "string \<Rightarrow> u64 \<Rightarrow> string \<Rightarrow> 'k \<Rightarrow> string option \<times> 'k"
  ParseEncryptionOptions :: "string \<Rightarrow> u32 option"
  bow_format_version :: "'k \<Rightarrow> nat"
  partition_wiped :: "string \<Rightarrow> 'k \<Rightarrow> bool"
  fs_mgr_do_format :: "fstab_entry \<Rightarrow> 'k \<Rightarrow> int \<times> 'k"
  MountOverlayfs :: "fstab_entry \<Rightarrow> bool \<Rightarrow> 'k \<Rightarrow> bool \<times> 'k"
  m_pagesize :: nat
  m_open_rw :: "string \<Rightarrow> 'k \<Rightarrow> bool"
  m_write_fd :: "string \<Rightarrow> string \<Rightarrow> 'k \<Rightarrow> int \<times> 'k"
  m_statvfs :: "string \<Rightarrow> 'k \<Rightarrow> (u64 \<times> u64) option"
  m_create :: "string \<Rightarrow> 'k \<Rightarrow> bool \<times> 'k"
  m_fallocate :: "string \<Rightarrow> int \<Rightarrow> 'k \<Rightarrow> bool \<times> 'k"
  loop_attach :: "string \<Rightarrow> 'k \<Rightarrow> string option \<times> 'k"
  loop_autoclear :: "string \<Rightarrow> 'k \<Rightarrow> bool \<times> 'k"
  loop_direct_io :: "string \<Rightarrow> 'k \<Rightarrow> bool \<times> 'k"
  ConfigureQueueDepth :: "string \<Rightarrow> string \<Rightarrow> 'k \<Rightarrow> 'k"
  m_swapon :: "string \<Rightarrow> u32 \<Rightarrow> 'k \<Rightarrow> nat \<times> 'k"
  GetUintProperty :: "string \<Rightarrow> u64 \<Rightarrow> 'k \<Rightarrow> u64"
  dm_table_status :: "string \<Rightarrow> 'k \<Rightarrow> string list option"
  dm_table_info :: "string \<Rightarrow> 'k \<Rightarrow> (string \<times> string) list option"
  m_uname :: "'k \<Rightarrow> string option"
  m_getfilecon :: "string \<Rightarrow> 'k \<Rightarrow> string option"
  use_override_creds :: bool
  allow_disable_verity :: bool
  super_default_name :: string

text \<open>
  \<open>m_run_status\<close> is \<open>logwrap_fork_execvp\<close> with the exit status, \<open>m_run\<close> without.  \<open>m_stat\<close> tells whether the file is a
  block device, and its device number.  \<open>m_links_in\<close> lists the symbolic links of a directory, \<open>m_block_devices\<close> the
  block devices under \<open>/dev/block\<close>.  \<open>m_duration\<close> is the text of the time that a timer shows.  \<open>m_uname\<close> is the release that \<open>uname\<close>
  gives.  \<open>allow_disable_verity\<close> is the build flag
  \<open>ALLOW_ADBD_DISABLE_VERITY\<close>.
\<close>

abbreviation fs_lb :: "'k fs_env \<Rightarrow> libbase" where "fs_lb fe \<equiv> flb (av_fv (fs_av fe))"
abbreviation fs_fv :: "'k fs_env \<Rightarrow> fstab_env" where "fs_fv fe \<equiv> av_fv (fs_av fe)"

text \<open>The fstab reader sees the files as they are when it is called.\<close>

definition fv_at :: "'k fs_env \<Rightarrow> 'k \<Rightarrow> fstab_env" where
  "fv_at fe k = (fs_fv fe)\<lparr>ReadFile := (\<lambda>p. m_read fe p k)\<rparr>"

definition EBUSY :: nat where "EBUSY = 16"
definition EACCES :: nat where "EACCES = 13"
definition EINVAL :: nat where "EINVAL = 22"
definition EAGAIN :: nat where "EAGAIN = 11"

section \<open>Status of a file system\<close>

definition FS_STAT_IS_EXT4 :: u32 where "FS_STAT_IS_EXT4 = 0x0001"
definition FS_STAT_NEW_IMAGE_VERSION :: u32 where "FS_STAT_NEW_IMAGE_VERSION = 0x0002"
definition FS_STAT_E2FSCK_F_ALWAYS :: u32 where "FS_STAT_E2FSCK_F_ALWAYS = 0x0004"
definition FS_STAT_UNCLEAN_SHUTDOWN :: u32 where "FS_STAT_UNCLEAN_SHUTDOWN = 0x0008"
definition FS_STAT_QUOTA_ENABLED :: u32 where "FS_STAT_QUOTA_ENABLED = 0x0010"
definition FS_STAT_RO_MOUNT_FAILED :: u32 where "FS_STAT_RO_MOUNT_FAILED = 0x0040"
definition FS_STAT_RO_UNMOUNT_FAILED :: u32 where "FS_STAT_RO_UNMOUNT_FAILED = 0x0080"
definition FS_STAT_FULL_MOUNT_FAILED :: u32 where "FS_STAT_FULL_MOUNT_FAILED = 0x0100"
definition FS_STAT_FSCK_FAILED :: u32 where "FS_STAT_FSCK_FAILED = 0x0200"
definition FS_STAT_FSCK_FS_FIXED :: u32 where "FS_STAT_FSCK_FS_FIXED = 0x0400"
definition FS_STAT_INVALID_MAGIC :: u32 where "FS_STAT_INVALID_MAGIC = 0x0800"
definition FS_STAT_TOGGLE_QUOTAS_FAILED :: u32 where "FS_STAT_TOGGLE_QUOTAS_FAILED = 0x10000"
definition FS_STAT_SET_RESERVED_BLOCKS_FAILED :: u32 where "FS_STAT_SET_RESERVED_BLOCKS_FAILED = 0x20000"
definition FS_STAT_ENABLE_ENCRYPTION_FAILED :: u32 where "FS_STAT_ENABLE_ENCRYPTION_FAILED = 0x40000"
definition FS_STAT_ENABLE_VERITY_FAILED :: u32 where "FS_STAT_ENABLE_VERITY_FAILED = 0x80000"
definition FS_STAT_ENABLE_CASEFOLD_FAILED :: u32 where "FS_STAT_ENABLE_CASEFOLD_FAILED = 0x100000"
definition FS_STAT_ENABLE_METADATA_CSUM_FAILED :: u32 where "FS_STAT_ENABLE_METADATA_CSUM_FAILED = 0x200000"

fun hex_nat :: "nat \<Rightarrow> string" where
  "hex_nat n = (if n < 16 then [hex_digits ! n] else hex_nat (n div 16) @ [hex_digits ! (n mod 16)])"

declare hex_nat.simps [simp del]

definition log_fs_stat :: "'k fs_env \<Rightarrow> string \<Rightarrow> u32 \<Rightarrow> 'k \<Rightarrow> 'k" where
  "log_fs_stat fe blk_device fs_stat k =
     m_append_log fe ([CHR ''\<newline>''] @ ''fs_stat,'' @ blk_device @ '',0x'' @ hex_nat (unat fs_stat) @ [CHR ''\<newline>'']) k"

definition is_extfs :: "string \<Rightarrow> bool" where
  "is_extfs fs_type \<longleftrightarrow> fs_type = ''ext4'' \<or> fs_type = ''ext3'' \<or> fs_type = ''ext2''"

definition is_f2fs :: "string \<Rightarrow> bool" where
  "is_f2fs fs_type \<longleftrightarrow> fs_type = ''f2fs''"

definition should_force_check :: "u32 \<Rightarrow> bool" where
  "should_force_check fs_stat \<longleftrightarrow>
     fs_stat AND
       (FS_STAT_E2FSCK_F_ALWAYS OR FS_STAT_UNCLEAN_SHUTDOWN OR FS_STAT_QUOTA_ENABLED OR
        FS_STAT_RO_MOUNT_FAILED OR FS_STAT_RO_UNMOUNT_FAILED OR FS_STAT_FULL_MOUNT_FAILED OR
        FS_STAT_FSCK_FAILED OR FS_STAT_TOGGLE_QUOTAS_FAILED OR
        FS_STAT_SET_RESERVED_BLOCKS_FAILED OR FS_STAT_ENABLE_ENCRYPTION_FAILED) \<noteq> 0"

fun umount_loop :: "'k fs_env \<Rightarrow> string \<Rightarrow> nat \<Rightarrow> 'k \<Rightarrow> bool \<times> 'k" where
  "umount_loop fe mount_point 0 k = (False, k)"
| "umount_loop fe mount_point (Suc retry_count) k =
     (let (err, k) = m_umount fe mount_point k
      in if err = 0 then (True, k)
         else umount_loop fe mount_point retry_count (if retry_count \<noteq> 0 then m_sleep fe k else k))"

definition umount_retry :: "'k fs_env \<Rightarrow> string \<Rightarrow> 'k \<Rightarrow> bool \<times> 'k" where
  "umount_retry fe mount_point k = umount_loop fe mount_point 5 k"

text \<open>\<open>fsck\<close> of either kind: skipped without the program, forced when the status asks for it.\<close>

definition run_fsck :: "'k fs_env \<Rightarrow> string \<Rightarrow> string list \<Rightarrow> string list \<Rightarrow> u32 \<Rightarrow> 'k \<Rightarrow> u32 \<times> 'k" where
  "run_fsck fe bin argv forced_argv fs_stat k =
     (if \<not> m_executable fe bin k then (fs_stat, k)
      else
        (let ((ret, status), k) = m_run_status fe (if should_force_check fs_stat then forced_argv else argv) k
         in (if ret < 0 then fs_stat OR FS_STAT_FSCK_FAILED
             else if status \<noteq> 0 then fs_stat OR FS_STAT_FSCK_FS_FIXED
             else fs_stat, k)))"

definition tmpmnt_flags :: u64 where "tmpmnt_flags = 1024 OR 8 OR 2"

definition trial_mount :: "'k fs_env \<Rightarrow> string \<Rightarrow> string \<Rightarrow> string \<Rightarrow> u32 \<Rightarrow> 'k \<Rightarrow> u32 \<times> 'k" where
  "trial_mount fe blk_device fs_type target fs_stat k =
     (if fs_stat AND FS_STAT_FULL_MOUNT_FAILED \<noteq> 0 then (fs_stat, k)
      else
        (let (err, k) = m_mount fe blk_device target fs_type tmpmnt_flags ''errors=remount-ro'' k
         in if err \<noteq> 0 then (fs_stat OR FS_STAT_RO_MOUNT_FAILED, k)
            else (let (umounted, k) = umount_retry fe target k
                  in (if \<not> umounted then fs_stat OR FS_STAT_RO_UNMOUNT_FAILED else fs_stat, k))))"

definition E2FSCK_BIN :: string where "E2FSCK_BIN = ''/system/bin/e2fsck''"
definition F2FS_FSCK_BIN :: string where "F2FS_FSCK_BIN = ''/system/bin/fsck.f2fs''"
definition TUNE2FS_BIN :: string where "TUNE2FS_BIN = ''/system/bin/tune2fs''"
definition RESIZE2FS_BIN :: string where "RESIZE2FS_BIN = ''/system/bin/resize2fs''"

definition check_fs :: "'k fs_env \<Rightarrow> string \<Rightarrow> string \<Rightarrow> string \<Rightarrow> u32 \<Rightarrow> 'k \<Rightarrow> u32 \<times> 'k" where
  "check_fs fe blk_device fs_type target fs_stat k =
     (if fs_stat AND FS_STAT_INVALID_MAGIC \<noteq> 0 then (fs_stat, k)
      else
        (let (fs_stat, k) =
           (if is_extfs fs_type then
              (let (fs_stat, k) = trial_mount fe blk_device fs_type target fs_stat k
               in run_fsck fe E2FSCK_BIN [E2FSCK_BIN, ''-y'', blk_device] [E2FSCK_BIN, ''-f'', ''-y'', blk_device] fs_stat k)
            else if is_f2fs fs_type then
              run_fsck fe F2FS_FSCK_BIN
                [F2FS_FSCK_BIN, ''-a'', ''-c'', ''10000'', ''--debug-cache'', blk_device]
                [F2FS_FSCK_BIN, ''-f'', ''-c'', ''10000'', ''--debug-cache'', blk_device] fs_stat k
            else (fs_stat, k))
         in (fs_stat, SetProperty fe (''ro.boottime.init.fsck.'' @ Basename (fs_lb fe) target) (m_duration fe k) k)))"

section \<open>Superblocks\<close>

definition EXT4_SUPER_MAGIC :: u16 where "EXT4_SUPER_MAGIC = 0xEF53"
definition F2FS_SUPER_MAGIC :: u32 where "F2FS_SUPER_MAGIC = 0xF2F52010"
definition F2FS_SUPER_OFFSET :: nat where "F2FS_SUPER_OFFSET = 1024"

definition is_ext4_superblock_valid :: "ext4_super_block \<Rightarrow> bool" where
  "is_ext4_superblock_valid es =
     (if s_magic es \<noteq> EXT4_SUPER_MAGIC then False
      else if s_rev_level es \<noteq> 1 \<and> s_rev_level es \<noteq> 0 then False
      else if s_inodes_per_group es = 0 then False
      else True)"

definition read_ext4_superblock :: "'k fs_env \<Rightarrow> string \<Rightarrow> u32 \<Rightarrow> 'k \<Rightarrow> ext4_super_block option \<times> u32" where
  "read_ext4_superblock fe blk_device fs_stat k =
     (if \<not> m_open fe blk_device k then (None, fs_stat)
      else case m_read_ext4 fe blk_device k of
        None \<Rightarrow> (None, fs_stat)
      | Some sb \<Rightarrow>
          if \<not> is_ext4_superblock_valid sb then (None, fs_stat OR FS_STAT_INVALID_MAGIC)
          else (Some sb, fs_stat OR FS_STAT_IS_EXT4 OR
                  (if s_max_mnt_count sb = 0xffff then FS_STAT_NEW_IMAGE_VERSION else 0)))"

definition fs_mgr_is_ext4 :: "'k fs_env \<Rightarrow> string \<Rightarrow> 'k \<Rightarrow> bool" where
  "fs_mgr_is_ext4 fe blk_device k =
     (if \<not> m_open fe blk_device k then False
      else case m_read_ext4 fe blk_device k of None \<Rightarrow> False | Some sb \<Rightarrow> is_ext4_superblock_valid sb)"

definition read_f2fs_superblock :: "'k fs_env \<Rightarrow> string \<Rightarrow> u32 \<Rightarrow> 'k \<Rightarrow> bool \<times> u32" where
  "read_f2fs_superblock fe blk_device fs_stat k =
     (if \<not> m_open fe blk_device k then (False, fs_stat)
      else case m_read_u32 fe blk_device F2FS_SUPER_OFFSET k of
        None \<Rightarrow> (False, fs_stat)
      | Some sb1 \<Rightarrow>
          (case m_read_u32 fe blk_device (m_pagesize fe + F2FS_SUPER_OFFSET) k of
             None \<Rightarrow> (False, fs_stat)
           | Some sb2 \<Rightarrow>
               if sb1 \<noteq> F2FS_SUPER_MAGIC \<and> sb2 \<noteq> F2FS_SUPER_MAGIC then (False, fs_stat OR FS_STAT_INVALID_MAGIC)
               else (True, fs_stat)))"

definition fs_mgr_is_f2fs :: "'k fs_env \<Rightarrow> string \<Rightarrow> 'k \<Rightarrow> bool" where
  "fs_mgr_is_f2fs fe blk_device k =
     (if \<not> m_open fe blk_device k then False
      else case m_read_u32 fe blk_device F2FS_SUPER_OFFSET k of
        None \<Rightarrow> False
      | Some sb \<Rightarrow>
          if sb = F2FS_SUPER_MAGIC then True
          else m_read_u32 fe blk_device (m_pagesize fe + F2FS_SUPER_OFFSET) k = Some F2FS_SUPER_MAGIC)"

section \<open>Features of an ext4 file system\<close>

definition tune2fs_available :: "'k fs_env \<Rightarrow> 'k \<Rightarrow> bool" where
  "tune2fs_available fe k = m_executable fe TUNE2FS_BIN k"

definition resize2fs_available :: "'k fs_env \<Rightarrow> 'k \<Rightarrow> bool" where
  "resize2fs_available fe k = m_executable fe RESIZE2FS_BIN k"

definition run_command :: "'k fs_env \<Rightarrow> string list \<Rightarrow> 'k \<Rightarrow> bool \<times> 'k" where
  "run_command fe argv k = (let (ret, k) = m_run fe argv k in (ret = 0, k))"

text \<open>A command whose failure sets a flag.\<close>

definition run_or_flag :: "'k fs_env \<Rightarrow> string list \<Rightarrow> u32 \<Rightarrow> u32 \<Rightarrow> 'k \<Rightarrow> u32 \<times> 'k" where
  "run_or_flag fe argv flag fs_stat k =
     (let (ok, k) = run_command fe argv k in (if \<not> ok then fs_stat OR flag else fs_stat, k))"

definition EXT4_FEATURE_RO_COMPAT_QUOTA :: u32 where "EXT4_FEATURE_RO_COMPAT_QUOTA = 0x100"
definition EXT4_FEATURE_RO_COMPAT_VERITY :: u32 where "EXT4_FEATURE_RO_COMPAT_VERITY = 0x8000"
definition EXT4_FEATURE_RO_COMPAT_METADATA_CSUM :: u32 where "EXT4_FEATURE_RO_COMPAT_METADATA_CSUM = 0x400"
definition EXT4_FEATURE_INCOMPAT_ENCRYPT :: u32 where "EXT4_FEATURE_INCOMPAT_ENCRYPT = 0x10000"
definition EXT4_FEATURE_INCOMPAT_CASEFOLD :: u32 where "EXT4_FEATURE_INCOMPAT_CASEFOLD = 0x20000"
definition EXT4_FEATURE_INCOMPAT_RECOVER :: u32 where "EXT4_FEATURE_INCOMPAT_RECOVER = 0x4"
definition EXT4_FEATURE_COMPAT_STABLE_INODES :: u32 where "EXT4_FEATURE_COMPAT_STABLE_INODES = 0x800"
definition EXT4_VALID_FS :: u16 where "EXT4_VALID_FS = 1"
definition FSCRYPT_POLICY_FLAGS_IV_INO :: u32 where "FSCRYPT_POLICY_FLAGS_IV_INO = 0x8 OR 0x10"
definition AID_RESERVED_DISK :: u16 where "AID_RESERVED_DISK = 1065"

definition tune_quota :: "'k fs_env \<Rightarrow> string \<Rightarrow> fstab_entry \<Rightarrow> ext4_super_block \<Rightarrow> u32 \<Rightarrow> 'k \<Rightarrow> u32 \<times> 'k" where
  "tune_quota fe blk_device entry sb fs_stat k =
     (let has_quota = (s_feature_ro_compat sb AND EXT4_FEATURE_RO_COMPAT_QUOTA \<noteq> 0);
          want_quota = (F_quota \<in> fe_fs_mgr_flags entry)
      in if has_quota = want_quota then (fs_stat, k)
         else if \<not> tune2fs_available fe k then (fs_stat, k)
         else if want_quota
         then run_or_flag fe [TUNE2FS_BIN, ''-Oquota'', ''-Qusrquota,grpquota,prjquota'', blk_device]
                FS_STAT_TOGGLE_QUOTAS_FAILED (fs_stat OR FS_STAT_QUOTA_ENABLED) k
         else run_or_flag fe [TUNE2FS_BIN, ''-O^quota'', ''-Q^usrquota,^grpquota,^prjquota'', blk_device]
                FS_STAT_TOGGLE_QUOTAS_FAILED fs_stat k)"

text \<open>
  The product with 0.02 is one of doubles: the factor is 5764607523034235 / 2^58, and both the block count and the
  product are rounded to 53 bits, to even on a tie, before the fraction is cut off.
\<close>

fun bit_len :: "nat \<Rightarrow> nat" where
  "bit_len n = (if n = 0 then 0 else Suc (bit_len (n div 2)))"

declare bit_len.simps [simp del]

definition double_round :: "nat \<Rightarrow> nat" where
  "double_round n =
     (let s = bit_len n - 53; q = n div 2 ^ s; r = n mod 2 ^ s
      in (if 2 ^ s < 2 * r \<or> (2 ^ s = 2 * r \<and> odd q) then q + 1 else q) * 2 ^ s)"

definition max_reserved_blocks :: "ext4_super_block \<Rightarrow> nat" where
  "max_reserved_blocks sb = double_round (double_round (unat (s_blocks_count sb)) * 5764607523034235) div 2 ^ 58"

definition tune_reserved_size ::
    "'k fs_env \<Rightarrow> string \<Rightarrow> fstab_entry \<Rightarrow> ext4_super_block \<Rightarrow> u32 \<Rightarrow> 'k \<Rightarrow> (u32 \<times> 'k) outcome" where
  "tune_reserved_size fe blk_device entry sb fs_stat k =
     (if fe_reserved_size entry = 0 then Returns (fs_stat, k)
      else if s_block_size sb = 0 then Aborts
      else
        (let wanted = unat (word_of_int (fe_reserved_size entry sdiv s_block_size sb) :: u64);
             reserved_blocks = (if wanted > max_reserved_blocks sb then max_reserved_blocks sb else wanted)
         in if unat (s_r_blocks_count sb) = reserved_blocks \<and> s_def_resgid sb = AID_RESERVED_DISK then Returns (fs_stat, k)
            else if \<not> tune2fs_available fe k then Returns (fs_stat, k)
            else Returns (run_or_flag fe [TUNE2FS_BIN, ''-r'', dec reserved_blocks, ''-g'', dec (unat AID_RESERVED_DISK), blk_device]
                            FS_STAT_SET_RESERVED_BLOCKS_FAILED fs_stat k)))"

definition encrypt_features :: "ext4_super_block \<Rightarrow> u32 \<Rightarrow> string list" where
  "encrypt_features sb options_flags =
     (if s_feature_incompat sb AND EXT4_FEATURE_INCOMPAT_ENCRYPT = 0 then [''encrypt''] else []) @
     (if options_flags AND FSCRYPT_POLICY_FLAGS_IV_INO \<noteq> 0 \<and> s_feature_compat sb AND EXT4_FEATURE_COMPAT_STABLE_INODES = 0
      then [''stable_inodes''] else [])"

definition tune_encrypt :: "'k fs_env \<Rightarrow> string \<Rightarrow> fstab_entry \<Rightarrow> ext4_super_block \<Rightarrow> u32 \<Rightarrow> 'k \<Rightarrow> u32 \<times> 'k" where
  "tune_encrypt fe blk_device entry sb fs_stat k =
     (if F_file_encryption \<notin> fe_fs_mgr_flags entry then (fs_stat, k)
      else case ParseEncryptionOptions fe (fe_encryption_options entry) of
        None \<Rightarrow> (fs_stat, k)
      | Some options_flags \<Rightarrow>
          (let features_needed = encrypt_features sb options_flags
           in if features_needed = [] then (fs_stat, k)
              else if \<not> tune2fs_available fe k then (fs_stat, k)
              else run_or_flag fe [TUNE2FS_BIN, ''-O'' @ Join (fs_lb fe) features_needed '','', blk_device]
                     FS_STAT_ENABLE_ENCRYPTION_FAILED fs_stat k))"

definition kernel_supports :: "'k fs_env \<Rightarrow> string \<Rightarrow> 'k \<Rightarrow> bool" where
  "kernel_supports fe feature_file k =
     (case m_read fe feature_file k of None \<Rightarrow> False | Some v \<Rightarrow> Trim (fs_lb fe) v = ''supported'')"

definition tune_verity :: "'k fs_env \<Rightarrow> string \<Rightarrow> fstab_entry \<Rightarrow> ext4_super_block \<Rightarrow> u32 \<Rightarrow> 'k \<Rightarrow> u32 \<times> 'k" where
  "tune_verity fe blk_device entry sb fs_stat k =
     (if s_feature_ro_compat sb AND EXT4_FEATURE_RO_COMPAT_VERITY \<noteq> 0 \<or> F_fs_verity \<notin> fe_fs_mgr_flags entry then (fs_stat, k)
      else if \<not> kernel_supports fe ''/sys/fs/ext4/features/verity'' k then (fs_stat, k)
      else if \<not> tune2fs_available fe k then (fs_stat, k)
      else run_or_flag fe [TUNE2FS_BIN, ''-O'', ''verity'', blk_device] FS_STAT_ENABLE_VERITY_FAILED fs_stat k)"

definition tune_casefold :: "'k fs_env \<Rightarrow> string \<Rightarrow> fstab_entry \<Rightarrow> ext4_super_block \<Rightarrow> u32 \<Rightarrow> 'k \<Rightarrow> u32 \<times> 'k" where
  "tune_casefold fe blk_device entry sb fs_stat k =
     (if fe_mount_point entry \<noteq> ''/data'' \<or> \<not> GetBoolProperty fe ''external_storage.casefold.enabled'' k \<or>
         s_feature_incompat sb AND EXT4_FEATURE_INCOMPAT_CASEFOLD \<noteq> 0 then (fs_stat, k)
      else if \<not> kernel_supports fe ''/sys/fs/ext4/features/casefold'' k then (fs_stat, k)
      else if \<not> tune2fs_available fe k then (fs_stat, k)
      else run_or_flag fe [TUNE2FS_BIN, ''-O'', ''casefold'', ''-E'', ''encoding=utf8'', blk_device]
             FS_STAT_ENABLE_CASEFOLD_FAILED fs_stat k)"

definition tune_metadata_csum :: "'k fs_env \<Rightarrow> string \<Rightarrow> fstab_entry \<Rightarrow> ext4_super_block \<Rightarrow> u32 \<Rightarrow> 'k \<Rightarrow> u32 \<times> 'k" where
  "tune_metadata_csum fe blk_device entry sb fs_stat k =
     (if s_feature_ro_compat sb AND EXT4_FEATURE_RO_COMPAT_METADATA_CSUM \<noteq> 0 \<or> F_ext_meta_csum \<notin> fe_fs_mgr_flags entry
      then (fs_stat, k)
      else if \<not> tune2fs_available fe k then (fs_stat, k)
      else if \<not> resize2fs_available fe k then (fs_stat, k)
      else
        (let (ok, k) = run_command fe [TUNE2FS_BIN, ''-O'', ''metadata_csum,64bit,extent'', ''-T'', ''now'', blk_device] k
         in if \<not> ok then (fs_stat OR FS_STAT_ENABLE_METADATA_CSUM_FAILED, k)
            else run_or_flag fe [RESIZE2FS_BIN, ''-b'', blk_device] FS_STAT_ENABLE_METADATA_CSUM_FAILED fs_stat k))"

section \<open>Preparing the mount\<close>

text \<open>The loop over the device mapper's parents; it ends if they do.\<close>

definition read_ahead_file :: "'k fs_env \<Rightarrow> string \<Rightarrow> 'k \<Rightarrow> string" where
  "read_ahead_file fe block_device k =
     (let block_name = (if StartsWith (fs_lb fe) block_device ''/dev/block/'' then drop 11 block_device else block_device);
          block_name = (if m_lstat fe (''/sys/class/block/'' @ block_name @ ''/partition'') k then block_name @ ''/..'' else block_name)
      in ''/sys/class/block/'' @ block_name @ ''/queue/read_ahead_kb'')"

partial_function (option) read_ahead_loop :: "'k fs_env \<Rightarrow> string \<Rightarrow> string \<Rightarrow> 'k \<Rightarrow> 'k outcome option" where
  "read_ahead_loop fe sz block_device k =
     (let k = snd (m_write fe sz (read_ahead_file fe block_device k) k)
      in case dm_parent fe block_device k of
           None \<Rightarrow> Some (Returns k)
         | Some parent \<Rightarrow> read_ahead_loop fe sz parent k)"

text \<open>\<open>%llu\<close> shows a negative size as the 64-bit number it wraps to.\<close>

definition SetReadAheadSize :: "'k fs_env \<Rightarrow> string \<Rightarrow> int \<Rightarrow> 'k \<Rightarrow> 'k outcome option" where
  "SetReadAheadSize fe entry_block_device size_kb k =
     (case m_Realpath fe entry_block_device k of
        None \<Rightarrow> Some (Returns k)
      | Some block_device \<Rightarrow>
          if \<not> StartsWith (fs_lb fe) block_device ''/dev/block/'' then Some (Returns k)
          else read_ahead_loop fe (dec (unat (word_of_int size_kb :: u64))) block_device k)"

definition check_if_preventative_fsck_needed :: "'k fs_env \<Rightarrow> fstab_entry \<Rightarrow> 'k \<Rightarrow> bool \<times> 'k" where
  "check_if_preventative_fsck_needed fe entry k =
     (if fe_mount_point entry \<noteq> ''/data'' then (False, k)
      else
        (let flag_file = ''/metadata/vold/preventative_fsck'';
             prop = GetProperty fe ''ro.preventative_fsck'' k;
             flag = (case m_read fe flag_file k of None \<Rightarrow> [] | Some c \<Rightarrow> c)
         in if prop = flag then (False, k)
            else (True, snd (m_write fe prop flag_file k))))"

definition tune_features :: "'k fs_env \<Rightarrow> string \<Rightarrow> fstab_entry \<Rightarrow> u32 \<Rightarrow> 'k \<Rightarrow> (u32 \<times> 'k) outcome" where
  "tune_features fe blk_device entry fs_stat k =
     (if is_extfs (fe_fs_type entry) \<and>
         (fe_reserved_size entry \<noteq> 0 \<or> F_file_encryption \<in> fe_fs_mgr_flags entry \<or>
          F_fs_verity \<in> fe_fs_mgr_flags entry \<or> F_ext_meta_csum \<in> fe_fs_mgr_flags entry)
      then
        (case read_ext4_superblock fe blk_device fs_stat k of
           (None, fs_stat) \<Rightarrow> Returns (fs_stat, k)
         | (Some sb, fs_stat) \<Rightarrow>
             out_bind (tune_reserved_size fe blk_device entry sb fs_stat k)
               (\<lambda>(fs_stat, k).
                  let (fs_stat, k) = tune_encrypt fe blk_device entry sb fs_stat k;
                      (fs_stat, k) = tune_verity fe blk_device entry sb fs_stat k;
                      (fs_stat, k) = tune_casefold fe blk_device entry sb fs_stat k
                  in Returns (tune_metadata_csum fe blk_device entry sb fs_stat k)))
      else Returns (fs_stat, k))"

text \<open>The first look at the superblock; \<open>None\<close> stops the preparation with the status so far.\<close>

definition inspect_superblock :: "'k fs_env \<Rightarrow> string \<Rightarrow> fstab_entry \<Rightarrow> 'k \<Rightarrow> bool \<times> u32 \<times> 'k" where
  "inspect_superblock fe blk_device entry k =
     (if is_extfs (fe_fs_type entry) then
        (case read_ext4_superblock fe blk_device 0 k of
           (None, fs_stat) \<Rightarrow> (False, fs_stat, k)
         | (Some sb, fs_stat) \<Rightarrow>
             (True, tune_quota fe blk_device entry sb
                (if s_feature_incompat sb AND EXT4_FEATURE_INCOMPAT_RECOVER \<noteq> 0 \<or> s_state sb AND EXT4_VALID_FS = 0
                 then fs_stat OR FS_STAT_UNCLEAN_SHUTDOWN else fs_stat) k))
      else if is_f2fs (fe_fs_type entry) then
        (let (ok, fs_stat) = read_f2fs_superblock fe blk_device 0 k in (ok, fs_stat, k))
      else (True, 0, k))"

definition check_and_tune :: "'k fs_env \<Rightarrow> string \<Rightarrow> fstab_entry \<Rightarrow> string \<Rightarrow> u32 \<Rightarrow> 'k \<Rightarrow> (u32 \<times> 'k) outcome" where
  "check_and_tune fe blk_device entry mount_point fs_stat k =
     (let (preventative, k) = check_if_preventative_fsck_needed fe entry k;
          (fs_stat, k) =
            (if preventative \<or> F_check \<in> fe_fs_mgr_flags entry \<or>
                fs_stat AND (FS_STAT_UNCLEAN_SHUTDOWN OR FS_STAT_QUOTA_ENABLED) \<noteq> 0
             then check_fs fe blk_device (fe_fs_type entry) mount_point fs_stat k else (fs_stat, k))
      in tune_features fe blk_device entry fs_stat k)"

definition prepare_fs_for_mount ::
    "'k fs_env \<Rightarrow> string \<Rightarrow> fstab_entry \<Rightarrow> string \<Rightarrow> 'k \<Rightarrow> (u32 \<times> 'k) outcome option" where
  "prepare_fs_for_mount fe blk_device entry alt_mount_point k =
     (let mount_point = (if alt_mount_point = [] then fe_mount_point entry else alt_mount_point);
          k = (if m_is_link fe mount_point k then m_unlink fe mount_point k else k);
          k = snd (m_mkdir fe mount_point k)
      in step_bind (if fe_readahead_size_kb entry \<noteq> -1 then SetReadAheadSize fe blk_device (fe_readahead_size_kb entry) k
                    else Some (Returns k))
           (\<lambda>k. case inspect_superblock fe blk_device entry k of
                  (False, fs_stat, k) \<Rightarrow> Some (Returns (fs_stat, k))
                | (True, fs_stat, k) \<Rightarrow> Some (check_and_tune fe blk_device entry mount_point fs_stat k)))"

section \<open>Mounting\<close>

definition fs_mgr_set_blk_ro :: "'k fs_env \<Rightarrow> string \<Rightarrow> bool \<Rightarrow> 'k \<Rightarrow> bool \<times> 'k" where
  "fs_mgr_set_blk_ro fe blockdev readonly k =
     (if \<not> m_open fe blockdev k then (False, k) else m_set_blk_ro fe blockdev readonly k)"

definition fs_mgr_is_device_unlocked :: "'k fs_env \<Rightarrow> bool" where
  "fs_mgr_is_device_unlocked fe =
     (case get_boot_config (fs_fv fe) ''verifiedbootstate'' of Some st \<Rightarrow> st = ''orange'' | None \<Rightarrow> False)"

text \<open>
  The loop of \<open>__mount\<close>.  The options for checkpoints are tried with an allowance for garbage collection, then without
  the allowance, then dropped.  The result is the \<open>errno\<close> of the last call.
\<close>

definition checkpoint_opts :: "fstab_entry \<Rightarrow> bool \<Rightarrow> bool \<Rightarrow> nat \<Rightarrow> string" where
  "checkpoint_opts entry try_gc try_fallback gc_allowance =
     (if try_gc then fe_fs_checkpoint_opts entry @ '':'' @ dec gc_allowance @ ''%''
      else if try_fallback then fe_fs_checkpoint_opts entry
      else [])"

partial_function (option) mount_loop ::
    "'k fs_env \<Rightarrow> string \<Rightarrow> string \<Rightarrow> fstab_entry \<Rightarrow> u64 \<Rightarrow> bool \<Rightarrow> bool \<Rightarrow> nat \<Rightarrow> nat \<Rightarrow> 'k \<Rightarrow> (nat \<times> 'k) outcome option" where
  "mount_loop fe source target entry mountflags try_gc try_fallback gc_allowance save_errno k =
     (let (try_gc, try_fallback) =
            (if save_errno = EINVAL \<and> (try_gc \<or> try_fallback) then (False, \<not> try_fallback) else (try_gc, try_fallback));
          opts = fe_fs_options entry @ checkpoint_opts entry try_gc try_fallback gc_allowance;
          real_source = (case m_Realpath fe source k of Some p \<Rightarrow> p | None \<Rightarrow> source);
          (err, k) = m_mount fe real_source target (fe_fs_type entry) mountflags opts k;
          gc_allowance = (if try_gc then gc_allowance + 10 else gc_allowance)
      in if (err = EAGAIN \<and> gc_allowance \<le> 100) \<or> (err = EINVAL \<and> (try_gc \<or> try_fallback))
         then mount_loop fe source target entry mountflags try_gc try_fallback gc_allowance err k
         else Some (Returns (err, k)))"

definition do_mount :: "'k fs_env \<Rightarrow> string \<Rightarrow> string \<Rightarrow> fstab_entry \<Rightarrow> bool \<Rightarrow> 'k \<Rightarrow> (nat \<times> 'k) outcome option" where
  "do_mount fe source target entry read_only k =
     (let mountflags = (if read_only then fe_flags entry OR MS_RDONLY else fe_flags entry)
      in step_bind (mount_loop fe source target entry mountflags
                      (is_f2fs (fe_fs_type entry) \<and> fe_fs_checkpoint_opts entry \<noteq> []) False 0 0 k)
           (\<lambda>(err, k).
              let k = (if err = 0 \<and> mountflags AND MS_RDONLY \<noteq> 0 then snd (fs_mgr_set_blk_ro fe source True k) else k);
                  k = (if err = 0 then SetProperty fe (''ro.boottime.init.mount.'' @ Basename (fs_lb fe) target) (m_duration fe k) k
                       else k)
              in Some (Returns (err, k))))"

text \<open>The comparison of mount points that ignores trailing slashes.\<close>

fun trim_end :: "string \<Rightarrow> nat \<Rightarrow> nat" where
  "trim_end s 0 = 0"
| "trim_end s (Suc i) = (if s ! Suc i = CHR ''/'' then trim_end s i else Suc i)"

definition fs_match :: "string \<Rightarrow> string \<Rightarrow> bool" where
  "fs_match in1 in2 =
     (if in1 = [] \<or> in2 = [] then False
      else
        (let in1_end = trim_end in1 (length in1 - 1); in2_end = trim_end in2 (length in2 - 1)
         in if in1_end \<noteq> in2_end then False
            else list_all (\<lambda>i. in1 ! i = in2 ! i) [0 ..< Suc in1_end]))"

definition should_use_metadata_encryption :: "fstab_entry \<Rightarrow> bool" where
  "should_use_metadata_encryption entry \<longleftrightarrow>
     fe_metadata_key_dir entry \<noteq> [] \<and> F_file_encryption \<in> fe_fs_mgr_flags entry"

text \<open>
  The two attempts for one entry: \<open>fsck\<close> runs between them.  The result has the error of the first failure as it is remembered,
  the status and whether the mount succeeded.
\<close>

definition mount_twice ::
    "'k fs_env \<Rightarrow> string \<Rightarrow> string \<Rightarrow> fstab_entry \<Rightarrow> bool \<Rightarrow> nat \<Rightarrow> u32 \<Rightarrow> 'k \<Rightarrow> (bool \<times> nat \<times> u32 \<times> 'k) outcome option" where
  "mount_twice fe source target entry read_only mount_errno fs_stat k =
     step_bind (do_mount fe source target entry read_only k)
       (\<lambda>(err, k).
          if err = 0 then Some (Returns (True, 0, fs_stat AND NOT FS_STAT_FULL_MOUNT_FAILED, k))
          else
            (let mount_errno = (if mount_errno = 0 then err else mount_errno);
                 (fs_stat, k) = check_fs fe source (fe_fs_type entry) target (fs_stat OR FS_STAT_FULL_MOUNT_FAILED) k
             in step_bind (do_mount fe source target entry read_only k)
                  (\<lambda>(err, k).
                     if err = 0 then Some (Returns (True, 0, fs_stat AND NOT FS_STAT_FULL_MOUNT_FAILED, k))
                     else Some (Returns (False, mount_errno, fs_stat, k)))))"

definition same_mount_point :: "fstab \<Rightarrow> nat \<Rightarrow> nat list" where
  "same_mount_point tab start_idx =
     takeWhile (\<lambda>i. fe_mount_point (tab ! start_idx) = fe_mount_point (tab ! i)) [start_idx ..< length tab]"

definition copy_device :: "nat \<Rightarrow> nat \<Rightarrow> fstab \<Rightarrow> fstab" where
  "copy_device start_idx i tab =
     (if i \<noteq> start_idx \<and> F_logical \<in> fe_fs_mgr_flags (tab ! i) \<and> F_logical \<in> fe_fs_mgr_flags (tab ! start_idx) \<and>
         fe_logical_partition_name (tab ! i) = fe_logical_partition_name (tab ! start_idx)
      then tab[i := (tab ! i)\<lparr>fe_blk_device := fe_blk_device (tab ! start_idx)\<rparr>] else tab)"

fun mount_alternatives ::
    "'k fs_env \<Rightarrow> nat \<Rightarrow> bool \<Rightarrow> nat list \<Rightarrow> fstab \<Rightarrow> nat \<Rightarrow> 'k \<Rightarrow> (nat option \<times> nat \<times> fstab \<times> 'k) outcome option" where
  "mount_alternatives fe start_idx interrupted [] tab mount_errno k = Some (Returns (None, mount_errno, tab, k))"
| "mount_alternatives fe start_idx interrupted (i # is) tab mount_errno k =
     (if interrupted then mount_alternatives fe start_idx interrupted is tab mount_errno k
      else
        (let tab = copy_device start_idx i tab; entry = tab ! i
         in step_bind (prepare_fs_for_mount fe (fe_blk_device entry) entry [] k)
              (\<lambda>(fs_stat, k).
                 if fs_stat AND FS_STAT_INVALID_MAGIC \<noteq> 0
                 then mount_alternatives fe start_idx interrupted is tab EINVAL k
                 else
                   step_bind (mount_twice fe (fe_blk_device entry) (fe_mount_point entry) entry
                                (should_use_metadata_encryption entry) mount_errno fs_stat k)
                     (\<lambda>(mounted, mount_errno, fs_stat, k).
                        let k = log_fs_stat fe (fe_blk_device entry) fs_stat k
                        in if mounted then Some (Returns (Some i, mount_errno, tab, k))
                           else mount_alternatives fe start_idx interrupted is tab mount_errno k))))"

text \<open>
  The answer, the error, the last index that was looked at, the index of the entry that was attempted, and
  the table.  After a success the loop of the code only skips the rest of the group.
\<close>

definition mount_with_alternatives ::
    "'k fs_env \<Rightarrow> fstab \<Rightarrow> nat \<Rightarrow> bool \<Rightarrow> 'k \<Rightarrow> (bool \<times> nat \<times> nat \<times> nat \<times> fstab \<times> 'k) outcome option" where
  "mount_with_alternatives fe tab start_idx interrupted k =
     (let is = same_mount_point tab start_idx; i = start_idx + length is;
          end_idx = (if i < length tab then i - 1 else i)
      in step_bind (mount_alternatives fe start_idx interrupted is tab 0 k)
           (\<lambda>(attempted, mount_errno, tab, k).
              case attempted of
                Some j \<Rightarrow> Some (Returns (True, 0, end_idx, j, tab, k))
              | None \<Rightarrow> Some (Returns (False, mount_errno, end_idx, start_idx, tab, k))))"

end
