(* ===== verification/Fs_Mgr_All.thy ===== *)
theory Fs_Mgr_All
  imports Fs_Mgr
begin

text \<open>
  \<open>fs_mgr.cpp\<close>, second part: labels and logical partitions, checkpoints (the class \<open>CheckpointManager\<close>), the wrapper for
  user data, encryption, and the drivers \<open>fs_mgr_mount_all\<close>, \<open>fs_mgr_umount_all\<close>, \<open>fs_mgr_do_mount_one\<close> and
  \<open>fs_mgr_do_mount\<close>, with the queries on verity and overlayfs.
\<close>

section \<open>Devices of an entry\<close>

fun find_label :: "'k fs_env \<Rightarrow> string \<Rightarrow> string list \<Rightarrow> 'k \<Rightarrow> string option" where
  "find_label fe label [] k = None"
| "find_label fe label (name # names) k =
     (let dev = ''/dev/block/'' @ name
      in if \<not> m_open fe dev k then None
         else case m_read_ext4 fe dev k of
           None \<Rightarrow> find_label fe label names k
         | Some sb \<Rightarrow>
             if s_magic sb \<noteq> EXT4_SUPER_MAGIC then find_label fe label names k
             else if label = s_volume_name sb then Some dev
             else find_label fe label names k)"

definition TranslateExtLabels :: "'k fs_env \<Rightarrow> fstab_entry \<Rightarrow> 'k \<Rightarrow> bool \<times> fstab_entry" where
  "TranslateExtLabels fe entry k =
     (if \<not> StartsWith (fs_lb fe) (fe_blk_device entry) ''LABEL='' then (True, entry)
      else
        (let label = drop 6 (fe_blk_device entry)
         in if length label > 16 then (False, entry)
            else case m_block_devices fe k of
              None \<Rightarrow> (False, entry)
            | Some names \<Rightarrow>
                (case find_label fe label names k of
                   None \<Rightarrow> (False, entry)
                 | Some dev \<Rightarrow> (True, entry\<lparr>fe_blk_device := dev\<rparr>))))"

text \<open>The first character of an empty name is the terminating zero.\<close>

definition fs_mgr_update_logical_partition :: "'k fs_env \<Rightarrow> fstab_entry \<Rightarrow> 'k \<Rightarrow> bool \<times> fstab_entry" where
  "fs_mgr_update_logical_partition fe entry k =
     (if fe_blk_device entry \<noteq> [] \<and> hd (fe_blk_device entry) = CHR ''/'' then (True, entry)
      else case dm_path (fs_av fe) (fe_blk_device entry) k of
        None \<Rightarrow> (False, entry)
      | Some device_name \<Rightarrow> (True, entry\<lparr>fe_blk_device := device_name\<rparr>))"

section \<open>Encryption\<close>

datatype mntall =
    MNTALL_FAIL | DEV_NOT_ENCRYPTABLE | DEV_FILE_ENCRYPTED | DEV_IS_METADATA_ENCRYPTED
  | DEV_NEEDS_METADATA_ENCRYPTION | DEV_NEEDS_RECOVERY

definition handle_encryptable :: "'k fs_env \<Rightarrow> fstab_entry \<Rightarrow> 'k \<Rightarrow> mntall \<times> 'k" where
  "handle_encryptable fe entry k =
     (if should_use_metadata_encryption entry then
        (let (umounted, k) = umount_retry fe (fe_mount_point entry) k
         in (if umounted then DEV_NEEDS_METADATA_ENCRYPTION else MNTALL_FAIL, k))
      else if F_file_encryption \<in> fe_fs_mgr_flags entry then (DEV_FILE_ENCRYPTED, k)
      else (DEV_NOT_ENCRYPTABLE, k))"

definition set_type_property :: "'k fs_env \<Rightarrow> mntall \<Rightarrow> 'k \<Rightarrow> 'k" where
  "set_type_property fe status k =
     (if status \<in> {DEV_FILE_ENCRYPTED, DEV_IS_METADATA_ENCRYPTED, DEV_NEEDS_METADATA_ENCRYPTION}
      then SetProperty fe ''ro.crypto.type'' ''file'' k else k)"

definition WEXITSTATUS :: "int \<Rightarrow> int" where "WEXITSTATUS st = (st AND 0xff00) div 256"

definition call_vdc :: "'k fs_env \<Rightarrow> string list \<Rightarrow> 'k \<Rightarrow> bool \<times> 'k" where
  "call_vdc fe args k = (let (err, k) = m_run fe (''/system/bin/vdc'' # args) k in (err = 0, k))"

definition call_vdc_ret :: "'k fs_env \<Rightarrow> string list \<Rightarrow> 'k \<Rightarrow> int option \<times> 'k" where
  "call_vdc_ret fe args k =
     (let ((err, status), k) = m_run_status fe (''/system/bin/vdc'' # args) k
      in (if err \<noteq> 0 then None else Some (WEXITSTATUS status), k))"

section \<open>Checkpoints\<close>

text \<open>\<open>needs_checkpoint\<close> is unknown (-1), no (0) or yes (1).\<close>

record CheckpointManager =
  cm_needs_checkpoint :: int
  cm_metadata_encrypted :: bool
  cm_needs_encrypt :: bool
  cm_device_map :: "string \<rightharpoonup> string"

definition make_CheckpointManager :: "int \<Rightarrow> bool \<Rightarrow> bool \<Rightarrow> CheckpointManager" where
  "make_CheckpointManager needs encrypted encrypt =
     \<lparr>cm_needs_checkpoint = needs, cm_metadata_encrypted = encrypted, cm_needs_encrypt = encrypt, cm_device_map = Map.empty\<rparr>"

definition SupportsCheckpoint :: "fstab_entry \<Rightarrow> bool" where
  "SupportsCheckpoint entry \<longleftrightarrow> F_checkpoint_blk \<in> fe_fs_mgr_flags entry \<or> F_checkpoint_fs \<in> fe_fs_mgr_flags entry"

definition NeedsCheckpoint :: "'k fs_env \<Rightarrow> CheckpointManager \<Rightarrow> 'k \<Rightarrow> bool \<times> CheckpointManager \<times> 'k" where
  "NeedsCheckpoint fe cm k =
     (if cm_needs_checkpoint cm \<noteq> -1 then (cm_needs_checkpoint cm = 1, cm, k)
      else
        (let (r, k) = call_vdc_ret fe [''checkpoint'', ''needsCheckpoint''] k;
             n = (case r of None \<Rightarrow> 0 | Some v \<Rightarrow> v)
         in (n = 1, cm\<lparr>cm_needs_checkpoint := n\<rparr>, k)))"

text \<open>
  The walk through the slaves of a device mapper device until one is called \<open>bow\<close>; the empty string if there is none.
  The walk ends when the stack of devices does.
\<close>

partial_function (option) bow_walk :: "'k fs_env \<Rightarrow> string \<Rightarrow> 'k \<Rightarrow> string outcome option" where
  "bow_walk fe sys_dir k =
     (case m_read fe (sys_dir @ ''/dm/name'') k of
        None \<Rightarrow> Some (Returns [])
      | Some name \<Rightarrow>
          if name = ''bow'' @ [CHR ''\<newline>''] then Some (Returns sys_dir)
          else case m_links_in fe (sys_dir @ ''/slaves'') k of
            Some [slave] \<Rightarrow> bow_walk fe (''/sys/block/'' @ slave) k
          | _ \<Rightarrow> Some (Returns []))"

definition sys_block_dir :: "u32 \<Rightarrow> u32 \<Rightarrow> string" where
  "sys_block_dir ma mi = ''/sys/dev/block/'' @ dec (unat ma) @ '':'' @ dec (unat mi)"

definition fs_mgr_find_bow_device :: "'k fs_env \<Rightarrow> string \<Rightarrow> 'k \<Rightarrow> string outcome option" where
  "fs_mgr_find_bow_device fe block_device k =
     (let real_path = (case m_Realpath fe block_device k of Some p \<Rightarrow> p | None \<Rightarrow> block_device)
      in case m_stat fe real_path k of
           None \<Rightarrow> Some (Returns [])
         | Some (is_blk, ma, mi) \<Rightarrow> if \<not> is_blk then Some (Returns []) else bow_walk fe (sys_block_dir ma mi) k)"

text \<open>A new device \<open>bow\<close> over the device of the entry; the sector count is rounded down to a multiple of eight.\<close>

definition create_bow ::
    "'k fs_env \<Rightarrow> CheckpointManager \<Rightarrow> fstab_entry \<Rightarrow> 'k \<Rightarrow> bool \<times> CheckpointManager \<times> fstab_entry \<times> 'k" where
  "create_bow fe cm entry k =
     (if \<not> m_open fe (fe_blk_device entry) k then (False, cm, entry, k)
      else
        (let sectors = m_device_size fe (fe_blk_device entry) k div 512
         in if sectors = 0 then (False, cm, entry, k)
            else
              (case dm_create_bow fe (sectors AND NOT 7) (fe_blk_device entry) (bow_format_version fe k > 1) k of
                 (False, k) \<Rightarrow> (False, cm, entry, k)
               | (True, k) \<Rightarrow>
                   (case dm_path (fs_av fe) ''bow'' k of
                      None \<Rightarrow> (False, cm, entry, k)
                    | Some name \<Rightarrow>
                        (True, cm\<lparr>cm_device_map := (cm_device_map cm)(name \<mapsto> fe_blk_device entry)\<rparr>,
                         entry\<lparr>fe_blk_device := name\<rparr>, k)))))"

definition UpdateCheckpointPartition ::
    "'k fs_env \<Rightarrow> CheckpointManager \<Rightarrow> fstab_entry \<Rightarrow> string \<Rightarrow> 'k \<Rightarrow>
     (bool \<times> CheckpointManager \<times> fstab_entry \<times> 'k) outcome option" where
  "UpdateCheckpointPartition fe cm entry block_device k =
     (if F_checkpoint_fs \<in> fe_fs_mgr_flags entry then
        Some (Returns (True, cm, if is_f2fs (fe_fs_type entry) then entry\<lparr>fe_fs_checkpoint_opts := '',checkpoint=disable''\<rparr> else entry, k))
      else if F_checkpoint_blk \<in> fe_fs_mgr_flags entry \<and> \<not> cm_needs_encrypt cm then
        step_bind (fs_mgr_find_bow_device fe (if block_device = [] then fe_blk_device entry else block_device) k)
          (\<lambda>bow. if bow = [] then Some (Returns (create_bow fe cm entry k)) else Some (Returns (True, cm, entry, k)))
      else Some (Returns (True, cm, entry, k)))"

definition cm_Update ::
    "'k fs_env \<Rightarrow> CheckpointManager \<Rightarrow> fstab_entry \<Rightarrow> string \<Rightarrow> 'k \<Rightarrow>
     (bool \<times> CheckpointManager \<times> fstab_entry \<times> 'k) outcome option" where
  "cm_Update fe cm entry block_device k =
     (if \<not> SupportsCheckpoint entry then Some (Returns (True, cm, entry, k))
      else
        (let k = (if F_checkpoint_blk \<in> fe_fs_mgr_flags entry \<and> \<not> cm_metadata_encrypted cm
                  then snd (call_vdc fe [''checkpoint'', ''restoreCheckpoint'', fe_blk_device entry] k) else k);
             (needs, cm, k) = NeedsCheckpoint fe cm k
         in if \<not> needs then Some (Returns (True, cm, entry, k))
            else UpdateCheckpointPartition fe cm entry block_device k))"

definition cm_Revert :: "'k fs_env \<Rightarrow> CheckpointManager \<Rightarrow> fstab_entry \<Rightarrow> 'k \<Rightarrow> CheckpointManager \<times> fstab_entry \<times> 'k" where
  "cm_Revert fe cm entry k =
     (if \<not> SupportsCheckpoint entry then (cm, entry, k)
      else case cm_device_map cm (fe_blk_device entry) of
        None \<Rightarrow> (cm, entry, k)
      | Some dev \<Rightarrow>
          (cm\<lparr>cm_device_map := (cm_device_map cm)(fe_blk_device entry := None)\<rparr>, entry\<lparr>fe_blk_device := dev\<rparr>,
           dm_remove fe ''bow'' k))"

section \<open>User data\<close>

definition kUserdataWrapperName :: string where "kUserdataWrapperName = ''userdata-wrapper''"

definition WrapUserdata :: "'k fs_env \<Rightarrow> fstab_entry \<Rightarrow> u32 \<times> u32 \<Rightarrow> string \<Rightarrow> 'k \<Rightarrow> fstab_entry \<times> 'k" where
  "WrapUserdata fe entry dev block_device k =
     (if dm_exists fe kUserdataWrapperName k then
        (case dm_path (fs_av fe) kUserdataWrapperName k of
           None \<Rightarrow> (entry, k)
         | Some p \<Rightarrow> (entry\<lparr>fe_blk_device := p\<rparr>, k))
      else if \<not> m_open fe block_device k then (entry, k)
      else
        (case dm_create_linear fe kUserdataWrapperName (m_device_size fe block_device k div 512)
                (dec (unat (fst dev)) @ '':'' @ dec (unat (snd dev))) k of
           (None, k) \<Rightarrow> (entry, k)
         | (Some p, k) \<Rightarrow> (entry\<lparr>fe_blk_device := p\<rparr>, k)))"

definition WrapUserdataIfNeeded :: "'k fs_env \<Rightarrow> fstab_entry \<Rightarrow> string \<Rightarrow> 'k \<Rightarrow> fstab_entry \<times> 'k" where
  "WrapUserdataIfNeeded fe entry actual_block_device k =
     (let block_device = (if actual_block_device = [] then fe_blk_device entry else actual_block_device)
      in if fe_mount_point entry \<noteq> ''/data'' \<or> fe_metadata_key_dir entry \<noteq> [] \<or>
            StartsWith (fs_lb fe) block_device ''/dev/block/dm-'' then (entry, k)
         else case m_stat fe block_device k of
           None \<Rightarrow> (entry, k)
         | Some (_, ma, mi) \<Rightarrow>
             (case m_entries fe (sys_block_dir ma mi @ ''/holders'') k of
                None \<Rightarrow> (entry, k)
              | Some names \<Rightarrow>
                  if list_ex (\<lambda>n. n \<noteq> ''.'' \<and> n \<noteq> ''..'') names then WrapUserdata fe entry (ma, mi) block_device k
                  else (entry, k)))"

definition IsMountPointMounted :: "'k fs_env \<Rightarrow> string \<Rightarrow> 'k \<Rightarrow> bool" where
  "IsMountPointMounted fe mount_point k =
     (case ReadFstabFromFile (fv_at fe k) ''/proc/mounts'' of
        None \<Rightarrow> False
      | Some tab \<Rightarrow> GetEntryForMountPoint (Some tab) mount_point \<noteq> None)"

definition fs_mgr_metadata_encryption_in_progress_file_name :: "fstab_entry \<Rightarrow> string" where
  "fs_mgr_metadata_encryption_in_progress_file_name entry = fe_metadata_key_dir entry @ ''/in_progress''"

definition WasMetadataEncryptionInterrupted :: "'k fs_env \<Rightarrow> fstab_entry \<Rightarrow> 'k \<Rightarrow> bool" where
  "WasMetadataEncryptionInterrupted fe entry k =
     (if \<not> should_use_metadata_encryption entry then False
      else m_readable fe (fs_mgr_metadata_encryption_in_progress_file_name entry) k)"

text \<open>The entry to format, as its distance from the first, of those that follow with the same device.\<close>

fun locate_loop :: "bool \<Rightarrow> string \<Rightarrow> nat option \<Rightarrow> nat \<Rightarrow> fstab \<Rightarrow> nat option" where
  "locate_loop skip_f2fs dev f2fs_entry i [] = f2fs_entry"
| "locate_loop skip_f2fs dev f2fs_entry i (e # es) =
     (if fe_blk_device e \<noteq> dev then f2fs_entry
      else if F_formattable \<in> fe_fs_mgr_flags e then
        (if skip_f2fs \<and> is_f2fs (fe_fs_type e) then locate_loop skip_f2fs dev (Some i) (Suc i) es
         else Some i)
      else locate_loop skip_f2fs dev f2fs_entry (Suc i) es)"

definition LocateFormattableEntry :: "'k fs_env \<Rightarrow> fstab \<Rightarrow> 'k \<Rightarrow> nat option" where
  "LocateFormattableEntry fe es k =
     (case es of
        [] \<Rightarrow> None
      | e # _ \<Rightarrow>
          locate_loop (m_pagesize fe \<noteq> 4096 \<and> GetBoolProperty fe ''ro.product.build.16k_page.enabled'' k)
            (fe_blk_device e) None 0 es)"

section \<open>Mounting all entries\<close>

datatype mount_mode = MOUNT_MODE_DEFAULT | MOUNT_MODE_EARLY | MOUNT_MODE_LATE | MOUNT_MODE_ONLY_USERDATA

record 'k mount_all =
  ma_fstab :: fstab
  ma_encryptable :: mntall
  ma_error_count :: nat
  ma_cm :: CheckpointManager
  ma_avb :: "AvbHandle option"
  ma_wiped :: bool
  ma_userdata_mounted :: bool
  ma_scratch :: bool
  ma_kern :: 'k

text \<open>How a step of the loop goes on: with the entry at an index, or with a return value.\<close>

datatype 'k ma_next = GoOn nat "'k mount_all" | Finish mntall 'k

abbreviation ma_entry :: "nat \<Rightarrow> 'k mount_all \<Rightarrow> fstab_entry" where "ma_entry i st \<equiv> ma_fstab st ! i"

definition ma_put :: "nat \<Rightarrow> fstab_entry \<Rightarrow> 'k mount_all \<Rightarrow> 'k mount_all" where
  "ma_put i e st = st\<lparr>ma_fstab := (ma_fstab st)[i := e]\<rparr>"

text \<open>Entries that the loop passes over; the root only has its device set read-only.\<close>

definition not_for_mode :: "'k fs_env \<Rightarrow> mount_mode \<Rightarrow> fstab_entry \<Rightarrow> 'k \<Rightarrow> bool" where
  "not_for_mode fe mode e k \<longleftrightarrow>
     (F_first_stage_mount \<in> fe_fs_mgr_flags e \<and>
        (F_formattable \<notin> fe_fs_mgr_flags e \<or> IsMountPointMounted fe (fe_mount_point e) k)) \<or>
     F_vold_managed \<in> fe_fs_mgr_flags e \<or> F_recovery_only \<in> fe_fs_mgr_flags e \<or>
     (mode = MOUNT_MODE_LATE \<and> F_late_mount \<notin> fe_fs_mgr_flags e) \<or>
     (mode = MOUNT_MODE_EARLY \<and> F_late_mount \<in> fe_fs_mgr_flags e) \<or>
     fe_fs_type e \<in> {''swap'', ''emmc'', ''mtd''}"

definition pass_over :: "'k fs_env \<Rightarrow> mount_mode \<Rightarrow> fstab_entry \<Rightarrow> 'k \<Rightarrow> bool \<times> 'k" where
  "pass_over fe mode e k =
     (if not_for_mode fe mode e k then (True, k)
      else if fe_mount_point e = ''/'' \<or> fe_mount_point e = ''/system'' then
        (True, if fe_flags e AND MS_RDONLY \<noteq> 0 then snd (fs_mgr_set_blk_ro fe (fe_blk_device e) True k) else k)
      else (mode = MOUNT_MODE_ONLY_USERDATA \<and> fe_mount_point e \<noteq> ''/data'', k))"

text \<open>The device of the entry: label, logical partition, wrapper and checkpoint; false skips the entry.\<close>

definition locate_device :: "'k fs_env \<Rightarrow> fstab_entry \<Rightarrow> 'k \<Rightarrow> bool \<times> fstab_entry" where
  "locate_device fe e k =
     (let (ok, e) = (if is_extfs (fe_fs_type e) then TranslateExtLabels fe e k else (True, e))
      in if \<not> ok then (False, e)
         else if F_logical \<in> fe_fs_mgr_flags e then fs_mgr_update_logical_partition fe e k
         else (True, e))"

definition ma_device :: "'k fs_env \<Rightarrow> nat \<Rightarrow> 'k mount_all \<Rightarrow> (bool \<times> 'k mount_all) outcome option" where
  "ma_device fe i st =
     (let (ok, e) = locate_device fe (ma_entry i st) (ma_kern st)
      in if \<not> ok then Some (Returns (False, ma_put i e st))
         else
           (let (e, k) = WrapUserdataIfNeeded fe e [] (ma_kern st)
            in step_bind (cm_Update fe (ma_cm st) e [] k)
                 (\<lambda>(ok, cm, e, k).
                    Some (Returns (ok \<and> \<not> (F_wait \<in> fe_fs_mgr_flags e \<and> \<not> WaitForFile (fs_av fe) (fe_blk_device e) True k),
                      (ma_put i e st)\<lparr>ma_cm := cm, ma_kern := k\<rparr>)))))"

text \<open>Verity for the entry: \<open>Some True\<close> goes on, \<open>Some False\<close> skips the entry, \<open>None\<close> fails the whole call.\<close>

definition ma_verity :: "'k fs_env \<Rightarrow> nat \<Rightarrow> 'k mount_all \<Rightarrow> (bool option \<times> 'k mount_all) outcome" where
  "ma_verity fe i st =
     (let e = ma_entry i st
      in if F_avb \<in> fe_fs_mgr_flags e then
           out_bind (case ma_avb st of Some h \<Rightarrow> Returns (Some h) | None \<Rightarrow> AvbHandle_Open (fs_av fe) (ma_kern st))
             (\<lambda>h. case h of
                None \<Rightarrow> Returns (None, st\<lparr>ma_kern := set_type_property fe (ma_encryptable st) (ma_kern st)\<rparr>)
              | Some h \<Rightarrow>
                  out_bind (SetUpAvbHashtree (fs_av fe) h True e (ma_kern st))
                    (\<lambda>(r, e, k). Returns (Some (r \<noteq> Hashtree_Fail), (ma_put i e st)\<lparr>ma_avb := Some h, ma_kern := k\<rparr>)))
         else if fe_avb_keys e \<noteq> [] then
           out_bind (SetUpStandaloneAvbHashtree (fs_av fe) True e (ma_kern st))
             (\<lambda>(r, e, k). Returns (Some (r \<noteq> Hashtree_Fail), (ma_put i e st)\<lparr>ma_kern := k\<rparr>))
         else Returns (Some True, st))"

definition dec_int :: "int \<Rightarrow> string" where
  "dec_int i = (if i < 0 then ''-'' @ dec (nat (- i)) else dec (nat i))"

definition bool_text :: "bool \<Rightarrow> string" where "bool_text b = (if b then ''true'' else ''false'')"

definition encryptFstab_args :: "'k fs_env \<Rightarrow> fstab_entry \<Rightarrow> bool \<Rightarrow> string list" where
  "encryptFstab_args fe e should_format =
     [''cryptfs'', ''encryptFstab'', fe_blk_device e, fe_mount_point e, bool_text should_format, fe_fs_type e,
      bool_text (F_is_zoned \<in> fe_fs_mgr_flags e), dec_int (fe_length e), Join (fs_lb fe) (fe_user_devices e) '' '',
      Join (fs_lb fe) (map dec_int (fe_device_aliased e)) '' '']"

text \<open>After a mount; \<open>j\<close> is the entry that was mounted and \<open>last_idx\<close> the last one of its group.\<close>

definition ma_mounted :: "'k fs_env \<Rightarrow> nat \<Rightarrow> nat \<Rightarrow> nat \<Rightarrow> 'k mount_all \<Rightarrow> 'k ma_next" where
  "ma_mounted fe i j last_idx st =
     (let e = ma_entry j st; (status, k) = handle_encryptable fe e (ma_kern st);
          finish = (\<lambda>st k.
            let (scratch, k) = MountOverlayfs fe e (ma_scratch st) k
            in GoOn (Suc last_idx) (st\<lparr>ma_userdata_mounted := (ma_userdata_mounted st \<or> fe_mount_point (ma_entry i st) = ''/data''),
                 ma_scratch := scratch, ma_kern := k\<rparr>))
      in if status = MNTALL_FAIL then Finish MNTALL_FAIL k
         else if status = DEV_NOT_ENCRYPTABLE then finish st k
         else if status = DEV_NEEDS_METADATA_ENCRYPTION then
           (let k = snd (fs_mgr_set_blk_ro fe (fe_blk_device e) False k);
                (ok, k) = call_vdc fe (encryptFstab_args fe e (ma_wiped st)) k
            in if \<not> ok then Finish MNTALL_FAIL (set_type_property fe status k)
               else finish (st\<lparr>ma_encryptable := status\<rparr>) k)
         else finish (st\<lparr>ma_encryptable := status\<rparr>) k)"

text \<open>Formatting a wiped partition, or one whose encryption was interrupted, and mounting it again.\<close>

definition ma_format :: "'k fs_env \<Rightarrow> nat \<Rightarrow> nat \<Rightarrow> nat option \<Rightarrow> 'k mount_all \<Rightarrow> 'k ma_next outcome" where
  "ma_format fe i last_idx formattable st =
     (let (cm, e, k) = cm_Revert fe (ma_cm st) (ma_entry i st) (ma_kern st);
          st = (ma_put i e st)\<lparr>ma_cm := cm, ma_kern := k\<rparr>
      in case formattable of
           None \<Rightarrow> Aborts
         | Some off \<Rightarrow>
             (let f = ma_entry (i + off) st;
                  encrypt = (should_use_metadata_encryption e \<and> fe_mount_point e = ''/data'');
                  st = (if encrypt then st\<lparr>ma_encryptable := DEV_IS_METADATA_ENCRYPTED,
                                           ma_kern := set_type_property fe DEV_IS_METADATA_ENCRYPTED (ma_kern st)\<rparr> else st);
                  (encrypted, k) = (if encrypt then call_vdc fe (encryptFstab_args fe f True) (ma_kern st) else (False, ma_kern st))
              in if encrypted then Returns (GoOn (Suc last_idx) (st\<lparr>ma_userdata_mounted := True, ma_kern := k\<rparr>))
                 else
                   (let (rc, k) = fs_mgr_do_format fe f k
                    in if rc = 0 then Returns (GoOn i (st\<lparr>ma_kern := k\<rparr>))
                       else Returns (GoOn (Suc last_idx) (st\<lparr>ma_encryptable := DEV_NEEDS_RECOVERY, ma_kern := k\<rparr>)))))"

definition ma_failed ::
    "'k fs_env \<Rightarrow> nat \<Rightarrow> nat \<Rightarrow> nat \<Rightarrow> bool \<Rightarrow> nat \<Rightarrow> 'k mount_all \<Rightarrow> 'k ma_next outcome" where
  "ma_failed fe i j last_idx interrupted mount_errno st =
     (let current = ma_entry i st; attempted = ma_entry j st;
          formattable = LocateFormattableEntry fe (drop i (ma_fstab st)) (ma_kern st);
          wiped = partition_wiped fe (fe_blk_device current) (ma_kern st);
          st = st\<lparr>ma_wiped := wiped\<rparr>
      in if mount_errno \<noteq> EBUSY \<and> mount_errno \<noteq> EACCES \<and> F_formattable \<in> fe_fs_mgr_flags current \<and> (wiped \<or> interrupted)
         then ma_format fe i last_idx formattable st
         else if mount_errno \<noteq> EBUSY \<and> mount_errno \<noteq> EACCES \<and> \<not> interrupted \<and> should_use_metadata_encryption attempted then
           (let (ok, k) = call_vdc fe [''cryptfs'', ''mountFstab'', fe_blk_device attempted, fe_mount_point attempted,
                            bool_text (F_is_zoned \<in> fe_fs_mgr_flags current), Join (fs_lb fe) (fe_user_devices current) '' ''] (ma_kern st)
            in Returns (GoOn (Suc last_idx)
                 (st\<lparr>ma_error_count := (if \<not> ok then Suc (ma_error_count st) else ma_error_count st),
                    ma_userdata_mounted := (ma_userdata_mounted st \<or> (ok \<and> fe_mount_point current = ''/data'')),
                    ma_encryptable := DEV_IS_METADATA_ENCRYPTED, ma_kern := k\<rparr>)))
         else Returns (GoOn (Suc last_idx)
                (if F_no_fail \<in> fe_fs_mgr_flags attempted then st else st\<lparr>ma_error_count := Suc (ma_error_count st)\<rparr>)))"

text \<open>One round of the loop.\<close>

definition ma_round :: "'k fs_env \<Rightarrow> mount_mode \<Rightarrow> nat \<Rightarrow> 'k mount_all \<Rightarrow> 'k ma_next outcome option" where
  "ma_round fe mode i st =
     (let (passed, k) = pass_over fe mode (ma_entry i st) (ma_kern st); st = st\<lparr>ma_kern := k\<rparr>
      in if passed then Some (Returns (GoOn (Suc i) st))
         else
           step_bind (ma_device fe i st)
             (\<lambda>(ok, st).
                if \<not> ok then Some (Returns (GoOn (Suc i) st))
                else
                  step_bind (Some (ma_verity fe i st))
                    (\<lambda>(verity, st).
                       case verity of
                         None \<Rightarrow> Some (Returns (Finish MNTALL_FAIL (ma_kern st)))
                       | Some False \<Rightarrow> Some (Returns (GoOn (Suc i) st))
                       | Some True \<Rightarrow>
                           (let interrupted = WasMetadataEncryptionInterrupted fe (ma_entry i st) (ma_kern st)
                            in step_bind (mount_with_alternatives fe (ma_fstab st) i interrupted (ma_kern st))
                                 (\<lambda>(mret, mount_errno, last_idx, j, tab, k).
                                    let st = st\<lparr>ma_fstab := tab, ma_kern := k\<rparr>
                                    in if mret then Some (Returns (ma_mounted fe i j last_idx st))
                                       else Some (ma_failed fe i j last_idx interrupted mount_errno st))))))"

definition ma_finish :: "'k fs_env \<Rightarrow> 'k mount_all \<Rightarrow> mntall \<times> 'k" where
  "ma_finish fe st =
     (let k = (if ma_userdata_mounted st then
                 (case ReadFstabFromFile (fv_at fe (ma_kern st)) ''/proc/mounts'' of
                    None \<Rightarrow> ma_kern st
                  | Some tab \<Rightarrow> fold (\<lambda>e k. if fe_mount_point e = ''/data'' then SetProperty fe ''ro.fstype.data'' (fe_fs_type e) k else k)
                                  tab (ma_kern st))
               else ma_kern st);
          k = set_type_property fe (ma_encryptable st) k
      in (if ma_error_count st \<noteq> 0 then MNTALL_FAIL else ma_encryptable st, k))"

partial_function (option) ma_loop :: "'k fs_env \<Rightarrow> mount_mode \<Rightarrow> nat \<Rightarrow> 'k mount_all \<Rightarrow> (mntall \<times> 'k) outcome option" where
  "ma_loop fe mode i st =
     (if i < length (ma_fstab st) then
        step_bind (ma_round fe mode i st)
          (\<lambda>n. case n of GoOn i st \<Rightarrow> ma_loop fe mode i st | Finish r k \<Rightarrow> Some (Returns (r, k)))
      else Some (Returns (ma_finish fe st)))"

definition fs_mgr_mount_all :: "'k fs_env \<Rightarrow> fstab \<Rightarrow> mount_mode \<Rightarrow> 'k \<Rightarrow> (mntall \<times> 'k) outcome option" where
  "fs_mgr_mount_all fe tab mode k =
     (if tab = [] then Some (Returns (MNTALL_FAIL, k))
      else ma_loop fe mode 0
             \<lparr>ma_fstab = tab, ma_encryptable = DEV_NOT_ENCRYPTABLE, ma_error_count = 0,
              ma_cm = make_CheckpointManager (-1) False False, ma_avb = None, ma_wiped = False, ma_userdata_mounted = False,
              ma_scratch = True, ma_kern = k\<rparr>)"

end
