(* ===== verification/Fs_Mgr_Tools.thy ===== *)
theory Fs_Mgr_Tools
  imports Fs_Mgr_All
begin

text \<open>
  \<open>fs_mgr.cpp\<close>, third part: unmounting, mounting one entry, swap and its backing device, and the queries on verity, the
  super partition, mount points and overlayfs.
\<close>

section \<open>Unmounting\<close>

datatype umount_error = ERROR_UMOUNT | ERROR_VERITY | ERROR_DEVICE_MAPPER

text \<open>The status is the set of the errors; the table keeps the devices that were looked up.\<close>

fun fs_mgr_umount_all :: "'k fs_env \<Rightarrow> fstab \<Rightarrow> 'k \<Rightarrow> umount_error set \<times> fstab \<times> 'k" where
  "fs_mgr_umount_all fe [] k = ({}, [], k)"
| "fs_mgr_umount_all fe (e # es) k =
     (let (errs, e, k) =
        (if \<not> IsMountPointMounted fe (fe_mount_point e) k then ({}, e, k)
         else
           (let (err, k) = m_umount fe (fe_mount_point e) k
            in if err \<noteq> 0 then ({ERROR_UMOUNT}, e, k)
               else
                 (let (ok, e) = (if F_logical \<in> fe_fs_mgr_flags e then fs_mgr_update_logical_partition fe e k else (True, e))
                  in if \<not> ok then ({ERROR_DEVICE_MAPPER}, e, k)
                     else if F_avb \<in> fe_fs_mgr_flags e \<or> fe_avb_keys e \<noteq> [] then
                       (let (torn, k) = TearDownAvbHashtree (fs_av fe) True e k
                        in (if torn then {} else {ERROR_VERITY}, e, k))
                     else ({}, e, k))));
          (errs', es, k) = fs_mgr_umount_all fe es k
      in (errs \<union> errs', e # es, k))"

section \<open>Mounting one entry\<close>

datatype domnt = DOMNT_SUCCESS | DOMNT_BUSY | DOMNT_FAILED

text \<open>Waiting for the device first only logs when it does not appear.\<close>

definition fs_mgr_do_mount_one :: "'k fs_env \<Rightarrow> fstab_entry \<Rightarrow> string \<Rightarrow> 'k \<Rightarrow> (domnt \<times> 'k) outcome option" where
  "fs_mgr_do_mount_one fe entry alt_mount_point k =
     (let mount_point = (if alt_mount_point = [] then fe_mount_point entry else alt_mount_point)
      in step_bind (prepare_fs_for_mount fe (fe_blk_device entry) entry mount_point k)
           (\<lambda>(fs_stat, k).
              if fs_stat AND FS_STAT_INVALID_MAGIC \<noteq> 0 then Some (Returns (DOMNT_FAILED, k))
              else step_bind (do_mount fe (fe_blk_device entry) mount_point entry False k)
                     (\<lambda>(err, k). Some (Returns (if err = 0 then DOMNT_SUCCESS else if err = EBUSY then DOMNT_BUSY else DOMNT_FAILED, k)))))"

text \<open>
  The loop of \<open>fs_mgr_do_mount\<close>.  Entries with another mount point and entries that cannot be set up are passed over;
  the result is the return value of the code or, for \<open>None\<close>, the end of the table with the number of failures
  and the first error.
\<close>

record 'k dm_state =
  ds_cm :: CheckpointManager
  ds_avb :: "AvbHandle option"
  ds_errors :: nat
  ds_first_errno :: nat
  ds_kern :: 'k

definition dm_verity :: "'k fs_env \<Rightarrow> fstab_entry \<Rightarrow> 'k dm_state \<Rightarrow> (bool option \<times> fstab_entry \<times> 'k dm_state) outcome" where
  "dm_verity fe e st =
     (if F_avb \<in> fe_fs_mgr_flags e then
        out_bind (case ds_avb st of Some h \<Rightarrow> Returns (Some h) | None \<Rightarrow> AvbHandle_Open (fs_av fe) (ds_kern st))
          (\<lambda>h. case h of
             None \<Rightarrow> Returns (None, e, st)
           | Some h \<Rightarrow>
               out_bind (SetUpAvbHashtree (fs_av fe) h True e (ds_kern st))
                 (\<lambda>(r, e, k). Returns (Some (r \<noteq> Hashtree_Fail), e, st\<lparr>ds_avb := Some h, ds_kern := k\<rparr>)))
      else if fe_avb_keys e \<noteq> [] then
        out_bind (SetUpStandaloneAvbHashtree (fs_av fe) True e (ds_kern st))
          (\<lambda>(r, e, k). Returns (Some (r \<noteq> Hashtree_Fail), e, st\<lparr>ds_kern := k\<rparr>))
      else Returns (Some True, e, st))"

definition dm_attempt ::
    "'k fs_env \<Rightarrow> string \<Rightarrow> fstab_entry \<Rightarrow> u32 \<Rightarrow> 'k dm_state \<Rightarrow> (domnt option \<times> fstab_entry \<times> 'k dm_state) outcome option" where
  "dm_attempt fe n_blk_device e fs_stat st =
     step_bind (mount_twice fe n_blk_device (fe_mount_point e) e False (ds_first_errno st) fs_stat (ds_kern st))
       (\<lambda>(mounted, err, fs_stat, k).
          let k = log_fs_stat fe (fe_blk_device e) fs_stat k
          in if mounted then Some (Returns (Some DOMNT_SUCCESS, e, st\<lparr>ds_kern := k\<rparr>))
             else Some (Returns (None, e, st\<lparr>ds_errors := Suc (ds_errors st), ds_first_errno := err, ds_kern := k\<rparr>)))"

definition dm_entry ::
    "'k fs_env \<Rightarrow> string \<Rightarrow> string \<Rightarrow> fstab_entry \<Rightarrow> 'k dm_state \<Rightarrow> (domnt option \<times> fstab_entry \<times> 'k dm_state) outcome option" where
  "dm_entry fe n_name n_blk_device e st =
     (if \<not> fs_match (fe_mount_point e) n_name then Some (Returns (None, e, st))
      else if fe_fs_type e \<in> {''swap'', ''emmc'', ''mtd''} then Some (Returns (Some DOMNT_FAILED, e, st))
      else
        (let (ok, e) = (if F_logical \<in> fe_fs_mgr_flags e then fs_mgr_update_logical_partition fe e (ds_kern st) else (True, e))
         in if \<not> ok then Some (Returns (None, e, st))
            else
              (let (e, k) = WrapUserdataIfNeeded fe e n_blk_device (ds_kern st)
               in step_bind (cm_Update fe (ds_cm st) e n_blk_device k)
                    (\<lambda>(ok, cm, e, k).
                       let st = st\<lparr>ds_cm := cm, ds_kern := k\<rparr>
                       in if \<not> ok then Some (Returns (None, e, st))
                          else if F_wait \<in> fe_fs_mgr_flags e \<and> \<not> WaitForFile (fs_av fe) n_blk_device True k
                          then Some (Returns (None, e, st))
                          else
                            step_bind (prepare_fs_for_mount fe n_blk_device e (fe_mount_point e) k)
                              (\<lambda>(fs_stat, k).
                                 step_bind (Some (dm_verity fe e (st\<lparr>ds_kern := k\<rparr>)))
                                   (\<lambda>(verity, e, st).
                                      case verity of
                                        None \<Rightarrow> Some (Returns (Some DOMNT_FAILED, e, st))
                                      | Some False \<Rightarrow> Some (Returns (None, e, st))
                                      | Some True \<Rightarrow> dm_attempt fe n_blk_device e fs_stat st))))))"

fun dm_entries ::
    "'k fs_env \<Rightarrow> string \<Rightarrow> string \<Rightarrow> fstab \<Rightarrow> 'k dm_state \<Rightarrow> (domnt option \<times> fstab \<times> 'k dm_state) outcome option" where
  "dm_entries fe n_name n_blk_device [] st = Some (Returns (None, [], st))"
| "dm_entries fe n_name n_blk_device (e # es) st =
     step_bind (dm_entry fe n_name n_blk_device e st)
       (\<lambda>(r, e, st).
          case r of
            Some r \<Rightarrow> Some (Returns (Some r, e # es, st))
          | None \<Rightarrow> step_bind (dm_entries fe n_name n_blk_device es st) (\<lambda>(r, es, st). Some (Returns (r, e # es, st))))"

definition fs_mgr_do_mount ::
    "'k fs_env \<Rightarrow> fstab \<Rightarrow> string \<Rightarrow> string \<Rightarrow> int \<Rightarrow> bool \<Rightarrow> 'k \<Rightarrow> (domnt \<times> fstab \<times> 'k) outcome option" where
  "fs_mgr_do_mount fe tab n_name n_blk_device needs_checkpoint needs_encrypt k =
     step_bind (dm_entries fe n_name n_blk_device tab
                  \<lparr>ds_cm = make_CheckpointManager needs_checkpoint True needs_encrypt, ds_avb = None, ds_errors = 0,
                   ds_first_errno = 0, ds_kern = k\<rparr>)
       (\<lambda>(r, tab, st).
          Some (Returns (case r of
                  Some r \<Rightarrow> r
                | None \<Rightarrow> if ds_errors st \<noteq> 0 \<and> ds_first_errno st = EBUSY then DOMNT_BUSY else DOMNT_FAILED,
                tab, ds_kern st)))"

section \<open>Swap\<close>

definition ConfigureIoScheduler :: "'k fs_env \<Rightarrow> string \<Rightarrow> 'k \<Rightarrow> bool \<times> 'k" where
  "ConfigureIoScheduler fe device_path k =
     (if \<not> StartsWith (fs_lb fe) device_path ''/dev/'' then (False, k)
      else
        (let iosched_path = ''/sys/block/'' @ Basename (fs_lb fe) device_path @ ''/queue/scheduler''
         in if \<not> m_open_rw fe iosched_path k then (False, k)
            else
              (let (ret, k) = m_write_fd fe iosched_path ''none'' k
               in if ret > 0 then (True, k)
                  else (let (ret, k) = m_write_fd fe iosched_path ''noop'' k in (ret > 0, k)))))"

definition InstallZramDevice :: "'k fs_env \<Rightarrow> string \<Rightarrow> 'k \<Rightarrow> bool \<times> 'k" where
  "InstallZramDevice fe device k = m_write fe device ''/sys/block/zram0/backing_dev'' k"

definition ZramBackingDeviceSizeAvailable :: "'k fs_env \<Rightarrow> int \<Rightarrow> 'k \<Rightarrow> bool" where
  "ZramBackingDeviceSizeAvailable fe sz k =
     (let min_free_mb = GetUintProperty fe ''ro.zram_backing_device_min_free_mb'' 0 k
      in if min_free_mb = 0 then True
         else case m_statvfs fe ''/data'' k of
           None \<Rightarrow> False
         | Some (f_bfree, f_frsize) \<Rightarrow>
             (let size_free = f_bfree * f_frsize; size_required = word_of_int sz + min_free_mb * 1024 * 1024
              in \<not> size_required > size_free))"

definition PrepareZramBackingDevice :: "'k fs_env \<Rightarrow> int \<Rightarrow> 'k \<Rightarrow> bool \<times> 'k" where
  "PrepareZramBackingDevice fe sz k =
     (let file_path = ''/data/per_boot/zram_swap''
      in if sz = 0 then (True, k)
         else if \<not> ZramBackingDeviceSizeAvailable fe sz k then (False, k)
         else
           (let (opened, k) = m_create fe file_path k
            in if \<not> opened then (False, k)
               else
                 (let (allocated, k) = m_fallocate fe file_path sz k
                  in if \<not> allocated then (False, m_unlink fe file_path k)
                     else
                       (case loop_attach fe file_path k of
                          (None, k) \<Rightarrow> (False, k)
                        | (Some loop_device, k) \<Rightarrow>
                            (let k = snd (ConfigureIoScheduler fe loop_device k);
                                 k = ConfigureQueueDepth fe loop_device ''/'' k
                             in if \<not> m_open_rw fe loop_device k then (False, k)
                                else
                                  (let k = snd (loop_autoclear fe loop_device k);
                                       (direct, k) = loop_direct_io fe loop_device k
                                   in if \<not> direct then (False, k) else InstallZramDevice fe loop_device k))))))"

definition IsRecovery :: "'k fs_env \<Rightarrow> 'k \<Rightarrow> bool" where
  "IsRecovery fe k = m_exists fe ''/system/bin/recovery'' k"

definition ShouldSkipZramSetup :: "'k fs_env \<Rightarrow> 'k \<Rightarrow> bool" where
  "ShouldSkipZramSetup fe k =
     (if IsRecovery fe k then False
      else GetProperty fe ''mmd.enabled_aconfig'' k = ''true'' \<and> GetBoolProperty fe ''mmd.zram.enabled'' k)"

text \<open>
  The number of compression streams goes to a stream that \<open>fopen\<close> opened for reading only, so nothing is written; the size goes
  to one opened for update.
\<close>

definition configure_zram :: "'k fs_env \<Rightarrow> fstab_entry \<Rightarrow> 'k \<Rightarrow> bool \<times> 'k" where
  "configure_zram fe e k =
     (let k = snd (PrepareZramBackingDevice fe (i64 (int (fe_zram_backingdev_size e))) k)
      in if fe_max_comp_streams e \<ge> 0 \<and> \<not> m_open fe ''/sys/block/zram0/max_comp_streams'' k then (False, k)
         else if \<not> m_open_rw fe ''/sys/block/zram0/disksize'' k then (False, k)
         else (True, snd (m_write_fd fe ''/sys/block/zram0/disksize'' (dec_int (fe_zram_size e) @ [CHR ''\<newline>'']) k)))"

definition swap_flags :: "int \<Rightarrow> u32" where
  "swap_flags swap_prio = (if swap_prio \<ge> 0 then (word_of_int swap_prio AND 0x7fff) OR 0x8000 else 0)"

definition start_swap :: "'k fs_env \<Rightarrow> fstab_entry \<Rightarrow> 'k \<Rightarrow> bool \<times> 'k" where
  "start_swap fe e k =
     (if F_wait \<in> fe_fs_mgr_flags e \<and> \<not> WaitForFile (fs_av fe) (fe_blk_device e) True k then (False, k)
      else
        (let (err, k) = m_run fe [''/system/bin/mkswap'', fe_blk_device e] k
         in if err \<noteq> 0 then (False, k)
            else (let (err, k) = m_swapon fe (fe_blk_device e) (swap_flags (fe_swap_prio e)) k in (err = 0, k))))"

definition swapon_entry :: "'k fs_env \<Rightarrow> fstab_entry \<Rightarrow> 'k \<Rightarrow> bool \<times> 'k" where
  "swapon_entry fe e k =
     (if fe_fs_type e \<noteq> ''swap'' then (True, k)
      else if fe_zram_size e > 0 then
        (if ShouldSkipZramSetup fe k then (True, k)
         else (let (ok, k) = configure_zram fe e k in if \<not> ok then (False, k) else start_swap fe e k))
      else start_swap fe e k)"

fun fs_mgr_swapon_all :: "'k fs_env \<Rightarrow> fstab \<Rightarrow> 'k \<Rightarrow> bool \<times> 'k" where
  "fs_mgr_swapon_all fe [] k = (True, k)"
| "fs_mgr_swapon_all fe (e # es) k =
     (let (ok, k) = swapon_entry fe e k; (oks, k) = fs_mgr_swapon_all fe es k in (ok \<and> oks, k))"

section \<open>Queries\<close>

definition fs_mgr_is_verity_enabled :: "'k fs_env \<Rightarrow> fstab_entry \<Rightarrow> 'k \<Rightarrow> bool" where
  "fs_mgr_is_verity_enabled fe entry k =
     (if F_avb \<notin> fe_fs_mgr_flags entry then False
      else
        (let name = GetVerityDeviceName (fs_fv fe) entry
         in if \<not> dm_exists fe name k then False
            else case dm_table_status fe name k of
              Some (status # _) \<Rightarrow> status \<noteq> [] \<and> (hd status = CHR ''C'' \<or> hd status = CHR ''V'')
            | _ \<Rightarrow> False))"

record HashtreeInfo =
  hi_algorithm :: string
  hi_root_digest :: string
  hi_check_at_most_once :: bool

text \<open>Too few tokens are read beyond the end.\<close>

definition fs_mgr_get_hashtree_info :: "'k fs_env \<Rightarrow> fstab_entry \<Rightarrow> 'k \<Rightarrow> HashtreeInfo option outcome" where
  "fs_mgr_get_hashtree_info fe entry k =
     (if F_avb \<notin> fe_fs_mgr_flags entry then Returns None
      else
        (let device = GetVerityDeviceName (fs_fv fe) entry
         in if \<not> dm_exists fe device k then Returns None
            else case dm_table_info fe device k of
              None \<Rightarrow> Returns None
            | Some targets \<Rightarrow>
                (case find (\<lambda>t. fst t = ''verity'') targets of
                   None \<Rightarrow> Returns None
                 | Some (_, data) \<Rightarrow>
                     (let tokens = Split (fs_lb fe) data [CHR '' '', CHR 0x09, CHR 0x0D, CHR 0x0A]
                      in if length tokens < 9 then Aborts
                         else Returns (Some \<lparr>hi_algorithm = Trim (fs_lb fe) (tokens ! 7),
                                hi_root_digest = Trim (fs_lb fe) (tokens ! 8),
                                hi_check_at_most_once = (find_str ''check_at_most_once'' data \<noteq> None)\<rparr>)))))"

definition fs_mgr_verity_is_check_at_most_once :: "'k fs_env \<Rightarrow> fstab_entry \<Rightarrow> 'k \<Rightarrow> bool outcome" where
  "fs_mgr_verity_is_check_at_most_once fe entry k =
     out_bind (fs_mgr_get_hashtree_info fe entry k)
       (\<lambda>info. Returns (case info of None \<Rightarrow> False | Some i \<Rightarrow> hi_check_at_most_once i))"

definition fs_mgr_get_super_partition_name :: "'k fs_env \<Rightarrow> int \<Rightarrow> string" where
  "fs_mgr_get_super_partition_name fe slot =
     (case get_boot_config (fs_fv fe) ''force_super_partition'' of
        Some super_partition \<Rightarrow> super_partition
      | None \<Rightarrow>
          (case get_boot_config (fs_fv fe) ''super_partition'' of
             Some super_partition \<Rightarrow>
               if slot_suffix (fs_av fe) = [] then super_partition
               else super_partition @
                 (if slot = 0 then ''_a'' else if slot = 1 then ''_b'' else if slot = -1 then slot_suffix (fs_av fe) else [])
           | None \<Rightarrow> super_default_name fe))"

definition fs_mgr_create_canonical_mount_point :: "'k fs_env \<Rightarrow> string \<Rightarrow> 'k \<Rightarrow> bool \<times> 'k" where
  "fs_mgr_create_canonical_mount_point fe mount_point k =
     (let (created, k) = m_mkdir fe mount_point k; ok = (m_Realpath fe mount_point k = Some mount_point)
      in (ok, if \<not> ok \<and> created then m_rmdir fe mount_point k else k))"

definition fs_mgr_filesystem_available :: "'k fs_env \<Rightarrow> string \<Rightarrow> 'k \<Rightarrow> bool" where
  "fs_mgr_filesystem_available fe filesystem k =
     (case m_read fe ''/proc/filesystems'' k of
        None \<Rightarrow> False
      | Some filesystems \<Rightarrow> find_str ([CHR 0x09] @ filesystem @ [CHR ''\<newline>'']) filesystems \<noteq> None)"

text \<open>\<open>sscanf\<close> with \<open>%d.%d\<close>: each number may follow white space and a sign.\<close>

definition is_space :: "char \<Rightarrow> bool" where
  "is_space c \<longleftrightarrow> c = CHR '' '' \<or> (9 \<le> (of_char c :: nat) \<and> (of_char c :: nat) \<le> 13)"

definition scan_int :: "string \<Rightarrow> (int \<times> string) option" where
  "scan_int s =
     (let s = dropWhile is_space s; neg = (s \<noteq> [] \<and> hd s = CHR ''-'');
          s = (if s \<noteq> [] \<and> (hd s = CHR ''-'' \<or> hd s = CHR ''+'') then tl s else s);
          ds = takeWhile is_digit_char s
      in if ds = [] then None
         else Some (if neg then - int (undec ds) else int (undec ds), dropWhile is_digit_char s))"

definition scan_version :: "string \<Rightarrow> (int \<times> int) option" where
  "scan_version s =
     (case scan_int s of
        None \<Rightarrow> None
      | Some (ma, rest) \<Rightarrow>
          if rest \<noteq> [] \<and> hd rest = CHR ''.'' then
            (case scan_int (tl rest) of None \<Rightarrow> None | Some (mi, _) \<Rightarrow> Some (ma, mi))
          else None)"

definition CheckOverlayfs :: "'k fs_env \<Rightarrow> 'k \<Rightarrow> string option" where
  "CheckOverlayfs fe k =
     (if \<not> fs_mgr_filesystem_available fe ''overlay'' k then None
      else case Option.bind (m_uname fe k) scan_version of
        None \<Rightarrow> None
      | Some (ma, mi) \<Rightarrow>
          (let since_5_15 = (ma > 5 \<or> (ma = 5 \<and> mi \<ge> 15))
           in if \<not> use_override_creds fe then Some (if since_5_15 then '',userxattr'' else [])
              else if m_exists fe ''/sys/module/overlay/parameters/override_creds'' k
              then Some ('',override_creds=off'' @ (if since_5_15 then '',userxattr'' else []))
              else if ma < 4 \<or> (ma = 4 \<and> mi \<le> 3) then Some []
              else None))"

definition overlay_allowed :: "'k fs_env \<Rightarrow> string \<Rightarrow> bool" where
  "overlay_allowed fe mount_point \<longleftrightarrow>
     list_ex (\<lambda>path. mount_point = path \<or> StartsWith (fs_lb fe) mount_point (path @ ''/''))
       [''/odm'', ''/odm_dlkm'', ''/oem'', ''/product'', ''/system_dlkm'', ''/system_ext'', ''/vendor'', ''/vendor_dlkm''] \<or>
     list_ex (\<lambda>pre. mount_point \<noteq> pre \<and> StartsWith (fs_lb fe) mount_point pre) [''/mnt/product/'', ''/mnt/vendor/'']"

definition overlay_lowerdir :: "'k fs_env \<Rightarrow> fstab_entry \<Rightarrow> 'k \<Rightarrow> string" where
  "overlay_lowerdir fe entry k =
     (if F_overlayfs_remove_missing_lowerdir \<in> fe_fs_mgr_flags entry then
        (let dirs = Split (fs_lb fe) (fe_lowerdir entry) '':''; lowerdirs = filter (\<lambda>d. m_exists fe d k) dirs
         in if length lowerdirs \<noteq> length dirs then Join (fs_lb fe) lowerdirs '':'' else fe_lowerdir entry)
      else fe_lowerdir entry)"

definition MS_NOATIME :: u64 where "MS_NOATIME = 1024"

definition fs_mgr_mount_overlayfs_fstab_entry :: "'k fs_env \<Rightarrow> fstab_entry \<Rightarrow> 'k \<Rightarrow> bool \<times> 'k" where
  "fs_mgr_mount_overlayfs_fstab_entry fe entry k =
     (case CheckOverlayfs fe k of
        None \<Rightarrow> (False, k)
      | Some mount_flags \<Rightarrow>
          if \<not> allow_disable_verity fe \<and> \<not> overlay_allowed fe (fe_mount_point entry) then (False, k)
          else
            (let (ok, k) = fs_mgr_create_canonical_mount_point fe (fe_mount_point entry) k
             in if \<not> ok then (False, k)
                else
                  (let options = ''lowerdir='' @ overlay_lowerdir fe entry k @ mount_flags;
                       (err, k) = m_mount fe (''overlay-'' @ fe_blk_device entry) (fe_mount_point entry) ''overlay''
                                    (MS_RDONLY OR MS_NOATIME) options k
                   in (err = 0, k))))"

datatype verity_state = VERITY_MODE_EIO | VERITY_MODE_LOGGING | VERITY_MODE_DEFAULT

definition fs_mgr_load_verity_state :: "'k fs_env \<Rightarrow> bool \<times> verity_state" where
  "fs_mgr_load_verity_state fe =
     (case get_boot_config (fs_fv fe) ''veritymode'' of
        None \<Rightarrow> (False, VERITY_MODE_EIO)
      | Some mode \<Rightarrow>
          (True, if mode = ''enforcing'' then VERITY_MODE_DEFAULT
                 else if mode = ''logging'' then VERITY_MODE_LOGGING
                 else VERITY_MODE_EIO))"

definition fs_mgr_get_context :: "'k fs_env \<Rightarrow> string \<Rightarrow> 'k \<Rightarrow> string" where
  "fs_mgr_get_context fe mount_point k = (case m_getfilecon fe mount_point k of None \<Rightarrow> [] | Some ctx \<Rightarrow> ctx)"

end
