(* ===== verification/First_Stage_Mount.thy ===== *)
theory First_Stage_Mount
  imports Block_Dev Fs_Mgr_Tools
begin

text \<open>
  \<open>first_stage_mount.cpp\<close> and \<open>switch_root.cpp\<close>: the part of init that mounts the partitions which the second stage
  needs.  The class \<open>FirstStageMountVBootV2\<close> is a record with its members and the state of the kernel; each member
  function is a definition.  It composes the device initializer (\<open>Block_Dev\<close>), verified boot (\<open>Avb\<close>) and the file system
  manager (\<open>Fs_Mgr_Tools\<close>).  libsnapshot, libgsi, liblp and the boot loader message are parameters in
  \<open>first_env\<close>; where such a library calls back for devices, the parameter is the list of its requests.
\<close>

section \<open>Parameters and state\<close>

record 'k first_env =
  fi_fs :: "'k fs_env"
  fi_ul :: "'k listener"
  dt_file :: "string \<Rightarrow> string option"
  IsMicrodroid :: bool
  IsOpenDiceChangesFlagEnabled :: bool
  IsRecoveryMode :: "'k \<Rightarrow> bool"
  fi_is_dir :: "string \<Rightarrow> 'k \<Rightarrow> bool"
  CanBootIntoGsi :: "'k \<Rightarrow> bool"
  images_open :: "string \<Rightarrow> 'k \<Rightarrow> bool"
  images_requests :: "string \<Rightarrow> 'k \<Rightarrow> string set list"
  images_map :: "string \<Rightarrow> 'k \<Rightarrow> bool \<times> 'k"
  images_backing :: "string \<Rightarrow> 'k \<Rightarrow> string list"
  MarkSystemAsGsi :: "'k \<Rightarrow> bool \<times> 'k"
  IsSnapshotManagerNeeded :: "'k \<Rightarrow> bool"
  ota_requests :: "'k \<Rightarrow> string list"
  ota_map :: "'k \<Rightarrow> 'k"
  NewForFirstStageMount :: "'k \<Rightarrow> bool"
  NeedSnapshotsInFirstStageMount :: "'k \<Rightarrow> bool"
  IsSnapuserdRequired :: "'k \<Rightarrow> bool"
  LaunchFirstStageSnapuserd :: "'k \<Rightarrow> 'k"
  SaveRamdiskPathToSnapuserd :: "'k \<Rightarrow> 'k"
  CleanupSnapuserdSocket :: "'k \<Rightarrow> 'k"
  snapshot_requests :: "string \<Rightarrow> 'k \<Rightarrow> string list"
  snapshot_create :: "string \<Rightarrow> 'k \<Rightarrow> bool \<times> 'k"
  lp_block_devices :: "string \<Rightarrow> 'k \<Rightarrow> string list option"
  lp_CreateLogicalPartitions :: "string \<Rightarrow> 'k \<Rightarrow> bool \<times> 'k"
  scratch_requests :: "fstab \<Rightarrow> 'k \<Rightarrow> string list list"
  scratch_map :: "fstab \<Rightarrow> 'k \<Rightarrow> fstab \<times> 'k"
  overlayfs_mount_all :: "fstab \<Rightarrow> 'k \<Rightarrow> fstab \<times> 'k"
  fi_remove_all :: "string \<Rightarrow> 'k \<Rightarrow> 'k"
  fi_copy :: "string \<Rightarrow> string \<Rightarrow> 'k \<Rightarrow> 'k"
  kDsuAvbKeyDir :: string
  fi_setenv :: "string \<Rightarrow> string \<Rightarrow> 'k \<Rightarrow> 'k"
  fi_sync :: "'k \<Rightarrow> 'k"
  fi_reset_sigchld :: "'k \<Rightarrow> 'k"
  fi_execve_wait :: "string list \<Rightarrow> 'k \<Rightarrow> bool \<times> 'k"
  ParseUint :: "string \<Rightarrow> u32 option"
  get_misc_blk_device :: "'k \<Rightarrow> string"
  write_bootloader_message :: "string list \<Rightarrow> 'k \<Rightarrow> bool \<times> 'k"
  RebootSystem :: "'k \<Rightarrow> 'k"
  fi_mount_dirs :: "'k \<Rightarrow> string list option"
  fi_chdir :: "string \<Rightarrow> 'k \<Rightarrow> bool \<times> 'k"
  fi_chroot :: "string \<Rightarrow> 'k \<Rightarrow> bool \<times> 'k"

text \<open>
  \<open>scratch_requests\<close> has the elements of each set in their order, since the callback goes through them.
  \<open>fi_mount_dirs\<close> are the directories in \<open>/proc/mounts\<close> as \<open>getmntent\<close> gives them.  \<open>RebootSystem\<close> does not return to its caller; its
  value is the state in which the device restarts.
\<close>

abbreviation fi_av :: "'k first_env \<Rightarrow> 'k avb_env" where "fi_av fi \<equiv> fs_av (fi_fs fi)"
abbreviation fi_lb :: "'k first_env \<Rightarrow> libbase" where "fi_lb fi \<equiv> fs_lb (fi_fs fi)"

record 'k FirstStageMount =
  need_dm_verity :: bool
  dsu_not_on_userdata :: bool
  use_snapuserd :: bool
  fm_fstab :: fstab
  super_path :: string
  super_partition_name :: string
  block_dev_init :: DeviceHandler
  preload_avb_key_blobs :: "string \<rightharpoonup> u8 list list"
  vbmeta_partitions :: "string list"
  avb_handle :: "AvbHandle option"
  fm_kern :: 'k

section \<open>Switching the root\<close>

fun mounts_loop :: "libbase \<Rightarrow> string \<Rightarrow> string list \<Rightarrow> string list \<Rightarrow> string list" where
  "mounts_loop lb new_root [] result = result"
| "mounts_loop lb new_root (dir # dirs) result =
     (if dir = ''/'' \<or> dir = new_root \<or> list_ex (\<lambda>older_mount. StartsWith lb dir older_mount) result
      then mounts_loop lb new_root dirs result
      else mounts_loop lb new_root dirs (result @ [dir]))"

definition GetMounts :: "'k first_env \<Rightarrow> string \<Rightarrow> 'k \<Rightarrow> string list outcome" where
  "GetMounts fi new_root k =
     (case fi_mount_dirs fi k of
        None \<Rightarrow> Aborts
      | Some dirs \<Rightarrow> Returns (mounts_loop (fi_lb fi) new_root dirs []))"

definition MS_MOVE :: u64 where "MS_MOVE = 8192"

fun move_mounts :: "'k first_env \<Rightarrow> string \<Rightarrow> string list \<Rightarrow> 'k \<Rightarrow> 'k outcome" where
  "move_mounts fi new_root [] k = Returns k"
| "move_mounts fi new_root (mount_path # mounts) k =
     (let new_mount_path = new_root @ mount_path;
          k = snd (m_mkdir (fi_fs fi) new_mount_path k);
          (err, k) = m_mount (fi_fs fi) mount_path new_mount_path [] MS_MOVE [] k
      in if err \<noteq> 0 then Aborts else move_mounts fi new_root mounts k)"

definition SwitchRoot :: "'k first_env \<Rightarrow> string \<Rightarrow> 'k \<Rightarrow> 'k outcome" where
  "SwitchRoot fi new_root k =
     out_bind (GetMounts fi new_root k)
       (\<lambda>mounts. out_bind (move_mounts fi new_root mounts k)
         (\<lambda>k. let (ok, k) = fi_chdir fi new_root k
              in if \<not> ok then Aborts
                 else
                   (let (err, k) = m_mount (fi_fs fi) new_root ''/'' [] MS_MOVE [] k
                    in if err \<noteq> 0 then Aborts
                       else (let (ok, k) = fi_chroot fi ''.'' k in if \<not> ok then Aborts else Returns k))))"

section \<open>Reading the table\<close>

definition IsDtVbmetaCompatible :: "'k first_env \<Rightarrow> fstab \<Rightarrow> bool" where
  "IsDtVbmetaCompatible fi tab =
     (if list_ex (\<lambda>e. F_avb \<in> fe_fs_mgr_flags e) tab then True
      else dt_file fi ''vbmeta/compatible'' = Some ''android,vbmeta'')"

definition ReadFirstStageFstabAndroid :: "'k first_env \<Rightarrow> 'k \<Rightarrow> fstab option" where
  "ReadFirstStageFstabAndroid fi k =
     (case ReadFstabFromDt (fv_at (fi_fs fi) k) of
        Some tab \<Rightarrow> Some tab
      | None \<Rightarrow>
          (let (ok, tab) = ReadDefaultFstab (fv_at (fi_fs fi) k)
           in if ok then Some (filter (\<lambda>e. F_first_stage_mount \<in> fe_fs_mgr_flags e) tab) else None))"

definition ReadFirstStageFstabMicrodroid :: "'k first_env \<Rightarrow> string \<Rightarrow> 'k \<Rightarrow> fstab option" where
  "ReadFirstStageFstabMicrodroid fi cmdline k =
     (let (ok, tab) = ReadDefaultFstab (fv_at (fi_fs fi) k)
      in if \<not> ok then None
         else if find_str ''androidboot.microdroid.mount_vendor=1'' cmdline = None
         then Some (filter (\<lambda>e. fe_mount_point e \<noteq> ''/vendor'') tab)
         else Some tab)"

definition GetRootEntry :: "'k first_env \<Rightarrow> 'k \<Rightarrow> fstab_entry option" where
  "GetRootEntry fi k =
     (case ReadFstabFromFile (fv_at (fi_fs fi) k) ''/proc/mounts'' of
        None \<Rightarrow> None
      | Some proc_mounts \<Rightarrow>
          (case find (\<lambda>e. fe_mount_point e = ''/'' \<and> fe_fs_type e \<noteq> ''rootfs'') proc_mounts of
             None \<Rightarrow> None
           | Some e \<Rightarrow> Some (if dm_exists (fi_fs fi) ''vroot'' k then set_fm {F_avb} e else e)))"

definition IsStandaloneImageRollback :: "'k first_env \<Rightarrow> AvbHandle \<Rightarrow> AvbHandle \<Rightarrow> fstab_entry \<Rightarrow> bool" where
  "IsStandaloneImageRollback fi builtin_vbmeta standalone_vbmeta e =
     (let old_spl = GetSecurityPatchLevel (fi_av fi) builtin_vbmeta e;
          new_spl = GetSecurityPatchLevel (fi_av fi) standalone_vbmeta e;
          rollbacked = (old_spl = [] \<or> new_spl = [] \<or> new_spl < old_spl)
      in if rollbacked \<and> IsDeviceUnlocked (fi_av fi) then False else rollbacked)"

definition make_FirstStageMount :: "'k first_env \<Rightarrow> fstab \<Rightarrow> 'k \<Rightarrow> 'k FirstStageMount" where
  "make_FirstStageMount fi tab k =
     \<lparr>need_dm_verity = False, dsu_not_on_userdata = False, use_snapuserd = False, fm_fstab = tab, super_path = [],
      super_partition_name = fs_mgr_get_super_partition_name (fi_fs fi) (-1),
      block_dev_init = make_BlockDevInitializer (fi_ul fi), preload_avb_key_blobs = Map.empty,
      vbmeta_partitions =
        filter (\<lambda>p. p \<noteq> []) (Split (fi_lb fi) (case dt_file fi ''vbmeta/parts'' of None \<Rightarrow> [] | Some s \<Rightarrow> s) '','') @
        map fe_vbmeta_partition (filter (\<lambda>e. fe_vbmeta_partition e \<noteq> []) tab),
      avb_handle = None, fm_kern = k\<rparr>"

definition FirstStageMount_Create :: "'k first_env \<Rightarrow> string \<Rightarrow> 'k \<Rightarrow> 'k FirstStageMount option" where
  "FirstStageMount_Create fi cmdline k =
     map_option (\<lambda>tab. make_FirstStageMount fi tab k)
       (if IsMicrodroid fi then ReadFirstStageFstabMicrodroid fi cmdline k else ReadFirstStageFstabAndroid fi k)"

section \<open>Devices\<close>

type_synonym 'k fsm_step = "'k FirstStageMount \<Rightarrow> (bool \<times> 'k FirstStageMount) outcome option"

definition on_devices ::
    "(DeviceHandler \<times> 'k \<Rightarrow> (bool \<times> DeviceHandler \<times> 'k) outcome option) \<Rightarrow> 'k fsm_step" where
  "on_devices f st =
     step_bind (f (block_dev_init st, fm_kern st))
       (\<lambda>(ok, d, k). Some (Returns (ok, st\<lparr>block_dev_init := d, fm_kern := k\<rparr>)))"

text \<open>Requests of a library, answered until one fails.\<close>

fun answer :: "('r \<Rightarrow> 'k fsm_step) \<Rightarrow> 'r list \<Rightarrow> 'k fsm_step" where
  "answer f [] st = Some (Returns (True, st))"
| "answer f (r # rs) st =
     step_bind (f r st) (\<lambda>(ok, st). if ok then answer f rs st else Some (Returns (False, st)))"

definition IsDmLinearEnabled :: "'k FirstStageMount \<Rightarrow> bool" where
  "IsDmLinearEnabled st \<longleftrightarrow> list_ex (\<lambda>e. F_logical \<in> fe_fs_mgr_flags e) (fm_fstab st)"

definition GetSuperDeviceName :: "'k FirstStageMount \<Rightarrow> string set \<Rightarrow> string set" where
  "GetSuperDeviceName st devices =
     (if \<not> IsDmLinearEnabled st then devices else insert (super_partition_name st) devices)"

definition GetDmVerityDevices ::
    "'k first_env \<Rightarrow> string set \<Rightarrow> 'k FirstStageMount \<Rightarrow> (bool \<times> string set \<times> 'k FirstStageMount)" where
  "GetDmVerityDevices fi devices st =
     (let tab = fm_fstab st; st = st\<lparr>need_dm_verity := list_ex (\<lambda>e. F_avb \<in> fe_fs_mgr_flags e) tab\<rparr>;
          real = filter (\<lambda>e. fe_fs_type e \<noteq> ''overlay'') tab;
          logical_partitions = set (map (\<lambda>e. c_basename (fe_blk_device e)) (filter (\<lambda>e. F_logical \<in> fe_fs_mgr_flags e) real));
          devices = devices \<union> set (map (\<lambda>e. c_basename (fe_blk_device e)) (filter (\<lambda>e. F_logical \<notin> fe_fs_mgr_flags e) real))
      in if need_dm_verity st then
           (if vbmeta_partitions st = [] then (False, devices, st)
            else (True, devices \<union> (set (map (\<lambda>p. p @ slot_suffix (fi_av fi)) (vbmeta_partitions st)) - logical_partitions), st))
         else (True, devices, st))"

definition InitRequiredDevices :: "'k first_env \<Rightarrow> string set \<Rightarrow> 'k fsm_step" where
  "InitRequiredDevices fi devices st =
     step_bind (on_devices (InitDeviceMapper (fi_ul fi)) st)
       (\<lambda>(ok, st).
          if \<not> ok then Some (Returns (False, st))
          else if devices = {} then Some (Returns (True, st))
          else on_devices (InitDevices (fi_ul fi) devices) st)"

definition IsMicrodroidStrictBoot :: "'k first_env \<Rightarrow> 'k \<Rightarrow> bool" where
  "IsMicrodroidStrictBoot fi k = m_exists (fi_fs fi) ''/proc/device-tree/chosen/avf,strict-boot'' k"

definition find_super :: "'k first_env \<Rightarrow> 'k fsm_step" where
  "find_super fi st =
     (if IsDmLinearEnabled st then
        (case m_Realpath (fi_fs fi) (''/dev/block/by-name/'' @ super_partition_name st) (fm_kern st) of
           None \<Rightarrow> Some (Returns (False, st))
         | Some p \<Rightarrow> Some (Returns (True, st\<lparr>super_path := p\<rparr>)))
      else Some (Returns (True, st)))"

definition FSM_InitDevices :: "'k first_env \<Rightarrow> 'k fsm_step" where
  "FSM_InitDevices fi st =
     step_bind (on_devices (InitBootDevicesFromPartUuid (fi_ul fi)) st)
       (\<lambda>(ok, st).
          if \<not> ok then Some (Returns (False, st))
          else
            (let (ok, devices, st) = GetDmVerityDevices fi (GetSuperDeviceName st {}) st
             in if \<not> ok then Some (Returns (False, st))
                else
                  step_bind (InitRequiredDevices fi devices st)
                    (\<lambda>(ok, st).
                       if \<not> ok then Some (Returns (False, st))
                       else
                         step_bind
                           (if IsMicrodroid fi \<and> IsOpenDiceChangesFlagEnabled fi \<and> IsMicrodroidStrictBoot fi (fm_kern st)
                            then on_devices (InitPlatformDevice (fi_ul fi) ''open-dice0'') st
                            else Some (Returns (True, st)))
                           (\<lambda>(ok, st). if \<not> ok then Some (Returns (False, st)) else find_super fi st))))"

definition InitDmLinearBackingDevices :: "'k first_env \<Rightarrow> string list \<Rightarrow> 'k fsm_step" where
  "InitDmLinearBackingDevices fi partition_names st =
     (let devices = set partition_names - {super_partition_name st}
      in if devices = {} then Some (Returns (True, st)) else InitRequiredDevices fi devices st)"

definition init_device_request :: "'k first_env \<Rightarrow> string \<Rightarrow> 'k fsm_step" where
  "init_device_request fi device st =
     (if StartsWith (fi_lb fi) device ''/dev/block/dm-'' then on_devices (InitDmDevice (fi_ul fi) device) st
      else on_devices (InitDevices (fi_ul fi) {device}) st)"

definition snapshot_device_request :: "'k first_env \<Rightarrow> string \<Rightarrow> 'k fsm_step" where
  "snapshot_device_request fi device st =
     (if StartsWith (fi_lb fi) device ''/dev/block/dm-'' then on_devices (InitDmDevice (fi_ul fi) device) st
      else if StartsWith (fi_lb fi) device ''/dev/dm-user/'' then on_devices (InitDmUser (fi_ul fi) (Basename (fi_lb fi) device)) st
      else on_devices (InitDevices (fi_ul fi) {device}) st)"

definition on_kern :: "('k \<Rightarrow> 'k) \<Rightarrow> 'k FirstStageMount \<Rightarrow> 'k FirstStageMount" where
  "on_kern f st = st\<lparr>fm_kern := f (fm_kern st)\<rparr>"

definition CreateSnapshotPartitions :: "'k first_env \<Rightarrow> 'k fsm_step" where
  "CreateSnapshotPartitions fi st =
     step_bind (InitRequiredDevices fi {''userdata''} st)
       (\<lambda>(ok, st).
          if \<not> ok then Some (Returns (False, st))
          else
            (let st = st\<lparr>use_snapuserd := IsSnapuserdRequired fi (fm_kern st)\<rparr>;
                 st = (if use_snapuserd st then on_kern (LaunchFirstStageSnapuserd fi) st else st)
             in step_bind (answer (snapshot_device_request fi) (snapshot_requests fi (super_path st) (fm_kern st)) st)
                  (\<lambda>(ok, st).
                     let (created, k) = (if ok then snapshot_create fi (super_path st) (fm_kern st) else (False, fm_kern st));
                         st = st\<lparr>fm_kern := k\<rparr>
                     in if \<not> created then Some (Returns (False, st))
                        else Some (Returns (True, if use_snapuserd st then on_kern (CleanupSnapuserdSocket fi) st else st)))))"

definition create_linear :: "'k first_env \<Rightarrow> 'k fsm_step" where
  "create_linear fi st =
     (case lp_block_devices fi (super_path st) (fm_kern st) of
        None \<Rightarrow> Some (Returns (False, st))
      | Some names \<Rightarrow>
          step_bind (InitDmLinearBackingDevices fi names st)
            (\<lambda>(ok, st).
               if \<not> ok then Some (Returns (False, st))
               else (let (ok, k) = lp_CreateLogicalPartitions fi (super_path st) (fm_kern st)
                     in Some (Returns (ok, st\<lparr>fm_kern := k\<rparr>)))))"

definition CreateLogicalPartitions :: "'k first_env \<Rightarrow> 'k fsm_step" where
  "CreateLogicalPartitions fi st =
     (if \<not> IsDmLinearEnabled st then Some (Returns (True, st))
      else if super_path st = [] then Some (Returns (False, st))
      else if IsSnapshotManagerNeeded fi (fm_kern st) then
        step_bind (answer (init_device_request fi) (ota_requests fi (fm_kern st)) st)
          (\<lambda>(ok, st).
             let st = (if ok then on_kern (ota_map fi) st else st)
             in if \<not> NewForFirstStageMount fi (fm_kern st) then Some (Returns (False, st))
                else if NeedSnapshotsInFirstStageMount fi (fm_kern st) then CreateSnapshotPartitions fi st
                else create_linear fi st)
      else create_linear fi st)"

section \<open>Verity\<close>

definition InitAvbHandle :: "'k first_env \<Rightarrow> 'k FirstStageMount \<Rightarrow> (bool \<times> 'k FirstStageMount) outcome" where
  "InitAvbHandle fi st =
     (case avb_handle st of
        Some _ \<Rightarrow> Returns (True, st)
      | None \<Rightarrow>
          out_bind (AvbHandle_Open (fi_av fi) (fm_kern st))
            (\<lambda>h. case h of
               None \<Rightarrow> Returns (False, st)
             | Some h \<Rightarrow> Returns (True, on_kern (fi_setenv fi ''INIT_AVB_VERSION'' (ah_avb_version h)) (st\<lparr>avb_handle := Some h\<rparr>))))"

definition IsHashtreeDisabled :: "AvbHandle \<Rightarrow> bool" where
  "IsHashtreeDisabled vbmeta \<longleftrightarrow> ah_status vbmeta = Handle_HashtreeDisabled \<or> ah_status vbmeta = Handle_VerificationDisabled"

text \<open>
  Which hash tree an entry gets: from the standalone image that its keys or its digest name, or from the images of the boot slot.
  The result is the answer of the function if it is known already, or the handle to use.
\<close>

definition key_blobs :: "string \<Rightarrow> 'k FirstStageMount \<Rightarrow> u8 list list \<times> 'k FirstStageMount" where
  "key_blobs avb_keys st =
     (case preload_avb_key_blobs st avb_keys of
        Some blobs \<Rightarrow> (blobs, st)
      | None \<Rightarrow> ([], st\<lparr>preload_avb_key_blobs := (preload_avb_key_blobs st)(avb_keys \<mapsto> [])\<rparr>))"

definition choose_hashtree ::
    "'k first_env \<Rightarrow> fstab_entry \<Rightarrow> AvbHandle \<Rightarrow> 'k FirstStageMount \<Rightarrow> (bool, AvbHandle) result \<times> 'k FirstStageMount" where
  "choose_hashtree fi e h st =
     (if fe_avb_keys e \<noteq> [] then
        (if IsHashtreeDisabled h then (Inl True, st)
         else
           (let (blobs, st) = key_blobs (fe_avb_keys e) st
            in case LoadAndVerifyVbmetaEntry (fi_av fi) e blobs (fm_kern st) of
                 None \<Rightarrow> (if F_avb \<notin> fe_fs_mgr_flags e then Inl False else Inr h, st)
               | Some standalone \<Rightarrow> (if IsStandaloneImageRollback fi h standalone e then Inl False else Inr standalone, st)))
      else if F_avb \<in> fe_fs_mgr_flags e then (Inr h, st)
      else if IsHashtreeDisabled h then (Inl True, st)
      else case LoadAndVerifyVbmetaEntry (fi_av fi) e [] (fm_kern st) of
        None \<Rightarrow> (Inl False, st)
      | Some standalone \<Rightarrow> (Inr standalone, st))"

definition SetUpDmVerity ::
    "'k first_env \<Rightarrow> fstab_entry \<Rightarrow> 'k FirstStageMount \<Rightarrow> (bool \<times> fstab_entry \<times> 'k FirstStageMount) outcome option" where
  "SetUpDmVerity fi e st =
     (if fe_avb_keys e = [] \<and> F_avb \<notin> fe_fs_mgr_flags e \<and> fe_avb_hashtree_digest e = [] then Some (Returns (True, e, st))
      else
        step_bind (Some (InitAvbHandle fi st))
          (\<lambda>(ok, st).
             case avb_handle st of
               None \<Rightarrow> Some (Returns (False, e, st))
             | Some h \<Rightarrow>
                 if \<not> ok then Some (Returns (False, e, st))
                 else
                   (case choose_hashtree fi e h st of
                      (Inl verdict, st) \<Rightarrow> Some (Returns (verdict, e, st))
                    | (Inr h, st) \<Rightarrow>
                        step_bind (Some (SetUpAvbHashtree (fi_av fi) h False e (fm_kern st)))
                          (\<lambda>(r, e, k).
                             let st = st\<lparr>fm_kern := k\<rparr>
                             in case r of
                                  Hashtree_Disabled \<Rightarrow> Some (Returns (True, e, st))
                                | Hashtree_Success \<Rightarrow>
                                    step_bind (on_devices (InitDmDevice (fi_ul fi) (fe_blk_device e)) st)
                                      (\<lambda>(ok, st). Some (Returns (ok, e, st)))
                                | Hashtree_Fail \<Rightarrow> Some (Returns (False, e, st))))))"

section \<open>Mounting\<close>

definition fm_put :: "nat \<Rightarrow> fstab_entry \<Rightarrow> 'k FirstStageMount \<Rightarrow> 'k FirstStageMount" where
  "fm_put i e st = st\<lparr>fm_fstab := (fm_fstab st)[i := e]\<rparr>"

definition mount_one :: "'k first_env \<Rightarrow> fstab_entry \<Rightarrow> 'k fsm_step" where
  "mount_one fi e st =
     step_bind (fs_mgr_do_mount_one (fi_fs fi) e [] (fm_kern st))
       (\<lambda>(r, k). Some (Returns (r = DOMNT_SUCCESS, st\<lparr>fm_kern := k\<rparr>)))"

text \<open>The other entries of the group, on the device of the first.\<close>

fun mount_others :: "'k first_env \<Rightarrow> string \<Rightarrow> nat list \<Rightarrow> bool \<Rightarrow> 'k fsm_step" where
  "mount_others fi dev [] mounted st = Some (Returns (mounted, st))"
| "mount_others fi dev (i # is) mounted st =
     (if mounted then mount_others fi dev is True st
      else
        (let e = (fm_fstab st ! i)\<lparr>fe_blk_device := dev\<rparr>
         in step_bind (mount_one fi e (fm_put i e st)) (\<lambda>(mounted, st). mount_others fi dev is mounted st)))"

text \<open>The entry at an index with its device; false if there is none.\<close>

definition fm_device :: "'k first_env \<Rightarrow> nat \<Rightarrow> 'k fsm_step" where
  "fm_device fi i st =
     (let e = fm_fstab st ! i
      in if F_logical \<in> fe_fs_mgr_flags e then
           (let (ok, e) = fs_mgr_update_logical_partition (fi_fs fi) e (fm_kern st); st = fm_put i e st
            in if \<not> ok then Some (Returns (False, st))
               else on_devices (InitDmDevice (fi_ul fi) (fe_blk_device e)) st)
         else Some (Returns (True, st)))"

text \<open>The answer and the index after the group, or after the entry when the set-up failed.\<close>

definition mount_group :: "'k first_env \<Rightarrow> nat \<Rightarrow> bool \<Rightarrow> 'k FirstStageMount \<Rightarrow> (bool \<times> nat \<times> 'k FirstStageMount) outcome option" where
  "mount_group fi i erase st =
     (let group = same_mount_point (fm_fstab st) i; e = fm_fstab st ! i
      in step_bind (mount_one fi e st)
           (\<lambda>(mounted, st).
              step_bind (mount_others fi (fe_blk_device e) (tl group) mounted st)
                (\<lambda>(mounted, st).
                   let current = i + length group
                   in if erase then Some (Returns (mounted, i, st\<lparr>fm_fstab := take i (fm_fstab st) @ drop current (fm_fstab st)\<rparr>))
                      else Some (Returns (mounted, current, st)))))"

definition MountPartition :: "'k first_env \<Rightarrow> nat \<Rightarrow> bool \<Rightarrow> 'k FirstStageMount \<Rightarrow> (bool \<times> nat \<times> 'k FirstStageMount) outcome option" where
  "MountPartition fi i erase st =
     (let (ok, k) = fs_mgr_create_canonical_mount_point (fi_fs fi) (fe_mount_point (fm_fstab st ! i)) (fm_kern st);
          st = st\<lparr>fm_kern := k\<rparr>
      in if \<not> ok then Some (Returns (False, i + 1, st))
         else
           step_bind (fm_device fi i st)
             (\<lambda>(ok, st).
                if \<not> ok then Some (Returns (False, i + 1, st))
                else
                  step_bind (SetUpDmVerity fi (fm_fstab st ! i) st)
                    (\<lambda>(ok, e, st).
                       let st = fm_put i e st
                       in if \<not> ok then Some (Returns (False, i + 1, st)) else mount_group fi i erase st)))"

text \<open>The keys of every entry, read while the ramdisk is still there.\<close>

definition key_paths :: "'k first_env \<Rightarrow> string \<Rightarrow> 'k \<Rightarrow> string list option" where
  "key_paths fi avb_keys k =
     (if fi_is_dir fi avb_keys k then
        map_option (\<lambda>entries. sort (map (\<lambda>(reg, name). avb_keys @ ''/'' @ name) (filter fst entries)))
          (av_readdir (fi_av fi) avb_keys k)
      else Some (Split (fi_lb fi) avb_keys '':''))"

definition preload_entry :: "'k first_env \<Rightarrow> 'k \<Rightarrow> fstab_entry \<Rightarrow> (string \<rightharpoonup> u8 list list) \<Rightarrow> (string \<rightharpoonup> u8 list list)" where
  "preload_entry fi k e blobs =
     (if fe_avb_keys e = [] \<or> blobs (fe_avb_keys e) \<noteq> None then blobs
      else case key_paths fi (fe_avb_keys e) k of
        None \<Rightarrow> blobs
      | Some paths \<Rightarrow> blobs(fe_avb_keys e \<mapsto> List.map_filter (\<lambda>p. av_read (fi_av fi) p k) paths))"

definition PreloadAvbKeys :: "'k first_env \<Rightarrow> 'k FirstStageMount \<Rightarrow> 'k FirstStageMount" where
  "PreloadAvbKeys fi st =
     st\<lparr>preload_avb_key_blobs := fold (preload_entry fi (fm_kern st)) (fm_fstab st) (preload_avb_key_blobs st)\<rparr>"

text \<open>The callback of the image manager notices images that are not on user data.\<close>

definition dsu_device_request :: "'k first_env \<Rightarrow> string set \<Rightarrow> 'k fsm_step" where
  "dsu_device_request fi devices st =
     InitRequiredDevices fi devices
       (if ''userdata'' \<notin> devices \<or> card devices > 1 then st\<lparr>dsu_not_on_userdata := True\<rparr> else st)"

definition apply_dsu :: "'k first_env \<Rightarrow> string \<Rightarrow> bool \<Rightarrow> 'k FirstStageMount \<Rightarrow> 'k FirstStageMount" where
  "apply_dsu fi active_dsu initialized st =
     (let dir = ''dsu/'' @ active_dsu;
          (mapped, k) = (if initialized then images_map fi dir (fm_kern st) else (False, fm_kern st)); st = st\<lparr>fm_kern := k\<rparr>
      in if \<not> mapped then st
         else
           (let (marked, k) = MarkSystemAsGsi fi (fm_kern st); st = st\<lparr>fm_kern := k\<rparr>
            in if \<not> marked then st
               else
                 (let dsu_partitions = images_backing fi dir (fm_kern st);
                      k = snd (m_write (fi_fs fi) (Join (fi_lb fi) dsu_partitions '','')
                                 (kGsiLpNamesFile (fs_fv (fi_fs fi))) (fm_kern st))
                  in st\<lparr>fm_kern := k,
                        fm_fstab := TransformFstabForDsu (fs_fv (fi_fs fi)) active_dsu dsu_partitions (fm_fstab st)\<rparr>)))"

definition UseDsuIfPresent :: "'k first_env \<Rightarrow> 'k FirstStageMount \<Rightarrow> 'k FirstStageMount outcome option" where
  "UseDsuIfPresent fi st =
     (if \<not> CanBootIntoGsi fi (fm_kern st) then Some (Returns st)
      else case GetActiveDsu (fs_fv (fi_fs fi)) of
        None \<Rightarrow> Some (Returns st)
      | Some active_dsu \<Rightarrow>
          if \<not> images_open fi (''dsu/'' @ active_dsu) (fm_kern st) then Some (Returns st)
          else
            step_bind (answer (dsu_device_request fi) (images_requests fi (''dsu/'' @ active_dsu) (fm_kern st)) st)
              (\<lambda>(initialized, st). Some (Returns (apply_dsu fi active_dsu initialized st))))"

definition first_index :: "('a \<Rightarrow> bool) \<Rightarrow> 'a list \<Rightarrow> nat option" where
  "first_index P xs = find (\<lambda>i. P (xs ! i)) [0 ..< length xs]"

definition switch_to_system :: "'k first_env \<Rightarrow> nat \<Rightarrow> 'k fsm_step" where
  "switch_to_system fi i st =
     step_bind (MountPartition fi i False st)
       (\<lambda>(mounted, _, st).
          if \<not> mounted then Some (Returns (False, st))
          else
            step_bind
              (if dsu_not_on_userdata st
               then Some (fs_mgr_verity_is_check_at_most_once (fi_fs fi) (fm_fstab st ! i) (fm_kern st))
               else Some (Returns False))
              (\<lambda>once.
                 if once then Some (Returns (False, st))
                 else step_bind (Some (SwitchRoot fi ''/system'' (fm_kern st)))
                        (\<lambda>k. Some (Returns (True, st\<lparr>fm_kern := k\<rparr>)))))"

definition TrySwitchSystemAsRoot :: "'k first_env \<Rightarrow> 'k fsm_step" where
  "TrySwitchSystemAsRoot fi st =
     step_bind (UseDsuIfPresent fi st)
       (\<lambda>st.
          let st = PreloadAvbKeys fi st
          in case first_index (\<lambda>e. fe_mount_point e = ''/system'') (fm_fstab st) of
               None \<Rightarrow> Some (Returns (True, st))
             | Some i \<Rightarrow> switch_to_system fi i (if use_snapuserd st then on_kern (SaveRamdiskPathToSnapuserd fi) st else st))"

definition MaybeDeriveMicrodroidVendorDiceNode :: "'k first_env \<Rightarrow> 'k FirstStageMount \<Rightarrow> bool \<times> 'k FirstStageMount" where
  "MaybeDeriveMicrodroidVendorDiceNode fi st =
     (case find (\<lambda>e. fe_mount_point e = ''/vendor'') (fm_fstab st) of
        None \<Rightarrow> (True, st)
      | Some e \<Rightarrow>
          (let (ok, k) = fi_execve_wait fi
                 [''/system/bin/derive_microdroid_vendor_dice_node'', ''--dice-driver'', ''/dev/open-dice0'',
                  ''--microdroid-vendor-disk-image'', fe_blk_device e, ''--output'', ''/microdroid_resources/dice_chain.raw'']
                 (fi_reset_sigchld fi (fm_kern st))
           in (ok, st\<lparr>fm_kern := k\<rparr>)))"

text \<open>The loop over the table, from an index on.\<close>

partial_function (option) mount_rest :: "'k first_env \<Rightarrow> nat \<Rightarrow> 'k FirstStageMount \<Rightarrow> (bool \<times> 'k FirstStageMount) outcome option" where
  "mount_rest fi current st =
     (if \<not> current < length (fm_fstab st) then Some (Returns (True, st))
      else
        (let e = fm_fstab st ! current
         in if fe_mount_point e = ''/system'' \<or> fe_fs_type e = ''overlay'' \<or> fe_fs_type e = ''emmc''
            then mount_rest fi (current + 1) st
            else
              step_bind (MountPartition fi current False st)
                (\<lambda>(mounted, end, st).
                   if \<not> mounted \<and> F_no_fail \<notin> fe_fs_mgr_flags (fm_fstab st ! current) \<and>
                      F_formattable \<notin> fe_fs_mgr_flags (fm_fstab st ! current)
                   then Some (Returns (False, st))
                   else mount_rest fi end st)))"

fun init_dm_devices :: "'k first_env \<Rightarrow> string list \<Rightarrow> string set \<Rightarrow> 'k fsm_step" where
  "init_dm_devices fi [] others st = InitRequiredDevices fi others st"
| "init_dm_devices fi (dev # devs) others st =
     (if StartsWith (fi_lb fi) dev ''/dev/block/dm-'' then
        step_bind (on_devices (InitDmDevice (fi_ul fi) dev) st)
          (\<lambda>(ok, st). if \<not> ok then Some (Returns (False, st)) else init_dm_devices fi devs others st)
      else init_dm_devices fi devs (insert dev others) st)"

definition add_root_entry :: "'k first_env \<Rightarrow> 'k FirstStageMount \<Rightarrow> 'k FirstStageMount" where
  "add_root_entry fi st =
     (if GetEntryForMountPoint (Some (fm_fstab st)) ''/system'' = None \<and> GetEntryForMountPoint (Some (fm_fstab st)) ''/'' = None
      then (case GetRootEntry fi (fm_kern st) of None \<Rightarrow> st | Some e \<Rightarrow> st\<lparr>fm_fstab := fm_fstab st @ [e]\<rparr>)
      else st)"

definition mount_overlays :: "'k first_env \<Rightarrow> 'k FirstStageMount \<Rightarrow> 'k FirstStageMount" where
  "mount_overlays fi st =
     on_kern (fold (\<lambda>e k. if fe_fs_type e = ''overlay'' then snd (fs_mgr_mount_overlayfs_fstab_entry (fi_fs fi) e k) else k)
       (fm_fstab st)) st"

definition mount_scratch :: "'k first_env \<Rightarrow> 'k FirstStageMount \<Rightarrow> 'k FirstStageMount outcome option" where
  "mount_scratch fi st =
     step_bind (answer (\<lambda>devs. init_dm_devices fi devs {}) (scratch_requests fi (fm_fstab st) (fm_kern st)) st)
       (\<lambda>(ok, st).
          let (tab, k) = (if ok then scratch_map fi (fm_fstab st) (fm_kern st) else (fm_fstab st, fm_kern st));
              (tab, k) = overlayfs_mount_all fi tab k
          in Some (Returns (st\<lparr>fm_fstab := tab, fm_kern := k\<rparr>)))"

definition MountPartitions :: "'k first_env \<Rightarrow> 'k fsm_step" where
  "MountPartitions fi st =
     step_bind (TrySwitchSystemAsRoot fi st)
       (\<lambda>(ok, st).
          if \<not> ok then Some (Returns (False, st))
          else
            (let (ok, st) = (if IsMicrodroid fi \<and> IsOpenDiceChangesFlagEnabled fi
                             then MaybeDeriveMicrodroidVendorDiceNode fi st else (True, st))
             in if \<not> ok then Some (Returns (False, st))
                else
                  step_bind (mount_rest fi 0 (st\<lparr>fm_fstab := SkipMountingPartitions (fv_at (fi_fs fi) (fm_kern st)) (fm_fstab st)\<rparr>))
                    (\<lambda>(ok, st).
                       if \<not> ok then Some (Returns (False, st))
                       else step_bind (mount_scratch fi (add_root_entry fi (mount_overlays fi st)))
                              (\<lambda>st. Some (Returns (True, st))))))"

section \<open>The two entry points\<close>

definition CopyDsuAvbKeys :: "'k first_env \<Rightarrow> 'k FirstStageMount \<Rightarrow> 'k FirstStageMount" where
  "CopyDsuAvbKeys fi st = on_kern (\<lambda>k. fi_copy fi ''/avb'' (kDsuAvbKeyDir fi) (fi_remove_all fi (kDsuAvbKeyDir fi) k)) st"

definition DoCreateDevices :: "'k first_env \<Rightarrow> 'k fsm_step" where
  "DoCreateDevices fi st =
     step_bind (FSM_InitDevices fi st)
       (\<lambda>(ok, st).
          if \<not> ok then Some (Returns (False, st))
          else
            step_bind
              (case first_index (\<lambda>e. fe_mount_point e = ''/metadata'') (fm_fstab st) of
                 None \<Rightarrow> Some (Returns st)
               | Some i \<Rightarrow>
                   step_bind (MountPartition fi i True st)
                     (\<lambda>(mounted, _, st). Some (Returns (if mounted then CopyDsuAvbKeys fi st else st))))
              (CreateLogicalPartitions fi))"

text \<open>
  \<open>RequestTradeInModeWipeIfNeeded\<close>; true if the device restarts, and then nothing that follows in the code is executed.
\<close>

definition kWipeIndicator :: string where "kWipeIndicator = ''/metadata/tradeinmode/wipe''"
definition kWipeAttempts :: u64 where "kWipeAttempts = 3"

definition wipe_counter :: "'k first_env \<Rightarrow> 'k \<Rightarrow> u32 \<times> 'k" where
  "wipe_counter fi k =
     (case m_read (fi_fs fi) kWipeIndicator k of
        None \<Rightarrow> (0, k)
      | Some contents \<Rightarrow>
          (let counter = (case ParseUint fi contents of None \<Rightarrow> 0 | Some c \<Rightarrow> c) + 1;
               (written, k) = m_write (fi_fs fi) (dec (unat counter)) kWipeIndicator k
           in (counter, if written then fi_sync fi k else k)))"

definition wipe_options :: "u32 \<Rightarrow> string list" where
  "wipe_options counter = (if ucast counter \<le> kWipeAttempts then [''--wipe_data'', ''--reason=tradeinmode''] else [])"

definition RequestTradeInModeWipeIfNeeded :: "'k first_env \<Rightarrow> 'k fsm_step" where
  "RequestTradeInModeWipeIfNeeded fi st =
     (if \<not> m_readable (fi_fs fi) kWipeIndicator (fm_kern st) then Some (Returns (False, st))
      else
        (let (counter, k) = wipe_counter fi (fm_kern st); st = st\<lparr>fm_kern := k\<rparr>; misc_device = get_misc_blk_device fi k
         in if misc_device = [] then Some Aborts
            else
              step_bind (on_devices (InitDevices (fi_ul fi) {Basename (fi_lb fi) misc_device}) st)
                (\<lambda>(ok, st).
                   if \<not> ok then Some Aborts
                   else
                     (let (ok, k) = write_bootloader_message fi (wipe_options counter) (fm_kern st)
                      in if \<not> ok then Some Aborts
                         else Some (Returns (True, st\<lparr>fm_kern := RebootSystem fi k\<rparr>))))))"

datatype first_result = Restarts | Done bool

definition DoFirstStageMount :: "'k first_env \<Rightarrow> 'k FirstStageMount \<Rightarrow> (first_result \<times> 'k FirstStageMount) outcome option" where
  "DoFirstStageMount fi st =
     step_bind (RequestTradeInModeWipeIfNeeded fi st)
       (\<lambda>(restarts, st).
          if restarts then Some (Returns (Restarts, st))
          else if \<not> IsDmLinearEnabled st \<and> fm_fstab st = [] then Some (Returns (Done True, st))
          else step_bind (MountPartitions fi st) (\<lambda>(ok, st). Some (Returns (Done ok, st))))"

definition SetInitAvbVersionInRecovery :: "'k first_env \<Rightarrow> 'k \<Rightarrow> 'k outcome option" where
  "SetInitAvbVersionInRecovery fi k =
     (if \<not> IsRecoveryMode fi k then Some (Returns k)
      else case ReadFirstStageFstabAndroid fi k of
        None \<Rightarrow> Some (Returns k)
      | Some tab \<Rightarrow>
          if \<not> IsDtVbmetaCompatible fi tab then Some (Returns k)
          else
            step_bind (FSM_InitDevices fi (make_FirstStageMount fi tab k))
              (\<lambda>(ok, st).
                 if \<not> ok then Some (Returns (fm_kern st))
                 else
                   step_bind (Some (AvbHandle_Open (fi_av fi) (fm_kern st)))
                     (\<lambda>h. Some (Returns (case h of
                        None \<Rightarrow> fm_kern st
                      | Some h \<Rightarrow> fi_setenv fi ''INIT_AVB_VERSION'' (ah_avb_version h) (fm_kern st))))))"

end
