(* ===== verification/Boot_Frame.thy ===== *)
theory Boot_Frame
  imports First_Stage_Mount
begin

text \<open>
  What the components of the first stage leave alone.  A predicate on the state of the kernel that every single call keeps
  is kept by whole operations: handling a device event, initializing devices, preparing a file system and mounting it.
  The calls are collected in inductive sets, so a predicate is closed under a component if it is closed under the set.
\<close>

section \<open>Device events\<close>

inductive_set dkern_ops :: "'s dkern \<Rightarrow> ('s \<Rightarrow> 's) set" for k :: "'s dkern" where
  chown: "(\<lambda>s. snd (k_chown k p u g s)) \<in> dkern_ops k"
| chmod: "(\<lambda>s. snd (k_chmod k p m s)) \<in> dkern_ops k"
| mknod: "(\<lambda>s. snd (k_mknod k p m dev s)) \<in> dkern_ops k"
| setegid: "(\<lambda>s. snd (k_setegid k g s)) \<in> dkern_ops k"
| setfscreatecon: "k_setfscreatecon k con \<in> dkern_ops k"
| lsetfilecon: "(\<lambda>s. snd (k_lsetfilecon k p c s)) \<in> dkern_ops k"
| restorecon: "(\<lambda>s. snd (k_restorecon k p s)) \<in> dkern_ops k"
| symlink: "(\<lambda>s. snd (k_symlink k t p s)) \<in> dkern_ops k"
| unlink: "(\<lambda>s. snd (k_unlink k p s)) \<in> dkern_ops k"
| mkdir_recursive: "(\<lambda>s. snd (k_mkdir_recursive k p m s)) \<in> dkern_ops k"

locale dkern_frame =
  fixes k :: "'s dkern" and R :: "'s \<Rightarrow> bool"
  assumes dkern_op: "op \<in> dkern_ops k \<Longrightarrow> R s \<Longrightarrow> R (op s)"
begin

lemmas ops [simp] = dkern_ops.intros [THEN dkern_op]

lemma frame_fold: "(\<And>x s. R s \<Longrightarrow> R (f x s)) \<Longrightarrow> R s \<Longrightarrow> R (fold f xs s)"
  by (induction xs arbitrary: s) auto

lemma SetPermissions_keeps [simp]: "R s \<Longrightarrow> R (SetPermissions k p path s)"
  by (simp add: SetPermissions_def Let_def)

lemma FixupSysPermissions_keeps [simp]: "R s \<Longrightarrow> R (FixupSysPermissions lb k d p ss s)"
  by (simp add: FixupSysPermissions_def Let_def frame_fold)

lemma update_node_keeps [simp]: "R s \<Longrightarrow> R (snd (update_node k p m g con s))"
  by (simp add: update_node_def Let_def split: option.splits)

lemma create_node_keeps [simp]: "R s \<Longrightarrow> R (snd (create_node k p m g dev con s))"
  by (simp add: create_node_def Let_def split_beta)

lemma MakeDevice_keeps: "R s \<Longrightarrow> MakeDevice lb k d p b ma mi ls s = Returns s' \<Longrightarrow> R s'"
  by (auto simp: MakeDevice_def Let_def split_beta split: option.splits if_splits)

lemma add_links_keeps [simp]: "R s \<Longrightarrow> R (add_links lb k act p ls s)"
  by (simp add: add_links_def make_link_def Let_def frame_fold split: option.splits)

lemma RemoveDeviceMapperLinks_keeps [simp]: "R s \<Longrightarrow> R (RemoveDeviceMapperLinks k p s)"
  unfolding RemoveDeviceMapperLinks_def
  by (rule frame_fold) (simp_all add: remove_dm_links_in_def remove_dm_link_def Let_def frame_fold split: option.splits)

lemma remove_device_keeps [simp]: "R s \<Longrightarrow> R (remove_device lb k act p ls s)"
  by (simp add: remove_device_def remove_link_def Let_def frame_fold)

lemma HandleDevice_keeps: "R s \<Longrightarrow> HandleDevice lb k d act p b ma mi ls s = Returns s' \<Longrightarrow> R s'"
  by (auto simp: HandleDevice_def out_bind_Returns dest: MakeDevice_keeps split: if_splits)

lemma out_fold_keeps:
  "(\<And>x s s'. R s \<Longrightarrow> f x s = Returns s' \<Longrightarrow> R s') \<Longrightarrow> R s \<Longrightarrow> out_fold f xs s = Returns s' \<Longrightarrow> R s'"
  by (induction xs arbitrary: s) (auto simp: out_bind_Returns)

lemma rebind_device_keeps:
  assumes "R s" and "rebind_device lb k d drv act bp tr s = Returns s'"
  shows "R s'"
proof (cases "snd tr = bp")
  case True
  have R1: "R (snd (k_mkdir_recursive k (Dirname lb (ParseDevPath drv (fst tr))) mode_0755 s))" using assms(1) by simp
  have "HandleDevice lb k d act (ParseDevPath drv (fst tr)) False (ue_major (fst tr)) (ue_minor (fst tr)) []
      (snd (k_mkdir_recursive k (Dirname lb (ParseDevPath drv (fst tr))) mode_0755 s)) = Returns s'"
    using assms(2) True by (simp add: rebind_device_def Let_def)
  then show ?thesis by (rule HandleDevice_keeps [OF R1])
next
  case False
  with assms show ?thesis by (simp add: rebind_device_def)
qed

lemma HandleBindInternal_keeps:
  assumes "R s" and "HandleBindInternal lb k d n act ue s = Returns s'"
  shows "R s'"
proof (cases "find (\<lambda>x. ss_name x = n) (drivers d)")
  case None
  with assms show ?thesis by (simp add: HandleBindInternal_def split: if_splits)
next
  case (Some drv)
  then have 1: "out_fold (rebind_device lb k d drv act (sysfs_mount_point d @ ue_path ue)) (tracked_uevents d) s = Returns s'"
    using assms(2) by (simp add: HandleBindInternal_def split: if_splits)
  show ?thesis by (rule out_fold_keeps [OF _ assms(1) 1]) (rule rebind_device_keeps)
qed

lemma handle_event_keeps:
  assumes "R s" and "handle_event lb k ue (d, s) = Returns (r, d', s')"
  shows "R s'"
proof -
  have "R (event_fixup lb k d ue s)" using assms(1) by (simp add: event_fixup_def)
  with assms(2) show ?thesis
    by (auto simp: handle_event_def handle_bind_def handle_unbind_def handle_node_def Let_def out_bind_Returns
        split: if_splits option.splits dest: HandleBindInternal_keeps HandleDevice_keeps [rotated])
qed

lemma HandleUevent_keeps:
  assumes "HandleUevent lb k ue ds = Some out" and "out = Returns ds'" and "R (snd ds)"
  shows "R (snd ds')"
proof -
  let ?P = "\<lambda>lb' k' ue ds out. \<forall>ds'. k' = k \<longrightarrow> out = Returns ds' \<longrightarrow> R (snd ds) \<longrightarrow> R (snd ds')"
  have "?P lb k ue ds out"
  proof (rule HandleUevent.raw_induct [where P = ?P, OF _ assms(1)], intro allI impI)
    fix HU lb k' ue ds out ds'
    assume IH: "\<And>lb k ue ds out. HU lb k ue ds = Some out \<Longrightarrow> ?P lb k ue ds out"
      and body: "(case handle_event lb k' ue ds of
        Aborts \<Rightarrow> Some Aborts
      | Returns (reached, ds1) \<Rightarrow>
          (case (if reached then ashmem_event lb k' ue (snd ds1) else None) of
             None \<Rightarrow> Some (Returns ds1) | Some dup \<Rightarrow> HU lb k' dup ds1)) = Some out"
      and k: "k' = k" and out: "out = Returns ds'" and ok: "R (snd ds)"
    from body out obtain r ds1 where ev: "handle_event lb k' ue ds = Returns (r, ds1)"
      by (auto split: outcome.splits)
    then have R1: "R (snd ds1)" using ok k handle_event_keeps [of "snd ds" lb ue "fst ds" r "fst ds1" "snd ds1"] by simp
    show "R (snd ds')"
    proof (cases "if r then ashmem_event lb k' ue (snd ds1) else None")
      case None
      with body out ev R1 show ?thesis by simp
    next
      case (Some dup)
      with body ev have "HU lb k' dup ds1 = Some out" by simp
      from IH [OF this] k out R1 show ?thesis by simp
    qed
  qed
  with assms(2,3) show ?thesis by blast
qed

end

section \<open>Initializing devices\<close>

locale listener_frame = dkern_frame "ul_kern ul" R for ul :: "'s listener" and R +
  assumes receive_op: "R s \<Longrightarrow> R (receive ul ue s)"
begin

lemma deliver_keeps:
  assumes "\<And>ue a d s act a' d' s'. R s \<Longrightarrow> cb ue (a, d, s) = Some (Returns (act, a', d', s')) \<Longrightarrow> R s'"
    and "R s" and "deliver ul cb ues (a, d, s) = Some (Returns (a', d', s'))"
  shows "R s'"
  using assms(2,3)
proof (induction ues arbitrary: a d s)
  case (Cons ue ues)
  then obtain act a1 d1 s1 where cb: "cb ue (a, d, receive ul ue s) = Some (Returns (act, a1, d1, s1))"
    and rest: "(if act = kStop then Some (Returns (a1, d1, s1)) else deliver ul cb ues (a1, d1, s1)) = Some (Returns (a', d', s'))"
    by (auto simp: step_bind_Returns)
  have "R s1" using assms(1) [OF _ cb] Cons.prems(1) receive_op by blast
  then show ?case using rest Cons.IH by (auto split: if_splits)
qed simp

lemma await_event_keeps: "R s \<Longrightarrow> await_event ul P ue (a, d, s) = Some (Returns (act, a', d', s')) \<Longrightarrow> R s'"
  by (auto simp: await_event_def step_bind_Returns split: if_splits dest: HandleUevent_keeps [OF _ refl])

lemma BDI_HandleUevent_keeps: "R s \<Longrightarrow> BDI_HandleUevent ul ue (a, d, s) = Some (Returns (act, a', d', s')) \<Longrightarrow> R s'"
  by (auto simp: BDI_HandleUevent_def step_bind_Returns split: if_splits option.splits dest: HandleUevent_keeps [OF _ refl])

lemma boot_part_callback_keeps: "R s \<Longrightarrow> boot_part_callback ul ue (a, d, s) = Some (Returns (act, a', d', s')) \<Longrightarrow> R s'"
  by (auto simp: boot_part_callback_def split: prod.splits)

lemma regenerate_or_poll_keeps:
  assumes "R s" and "regenerate_or_poll ul P sp (d, s) = Some (Returns (b, d', s'))"
  shows "R s'"
proof -
  let ?cb = "await_event ul P"
  obtain found d1 s1 where 1: "deliver ul ?cb (RegenerateUeventsForPath ul sp s) (False, d, s) = Some (Returns (found, d1, s1))"
    and 2: "(if \<not> found then deliver ul ?cb (Poll ul s1) (False, d1, s1) else Some (Returns (True, d1, s1))) = Some (Returns (b, d', s'))"
    using assms(2) by (auto simp: regenerate_or_poll_def step_bind_Returns cong: if_cong)
  have R1: "R s1" by (rule deliver_keeps [where cb = ?cb, OF _ assms(1) 1]) (rule await_event_keeps)
  show ?thesis
  proof (cases found)
    case True
    with 2 R1 show ?thesis by simp
  next
    case False
    with 2 have 3: "deliver ul ?cb (Poll ul s1) (False, d1, s1) = Some (Returns (b, d', s'))" by simp
    show ?thesis by (rule deliver_keeps [where cb = ?cb, OF _ R1 3]) (rule await_event_keeps)
  qed
qed

lemma InitDevice_keeps: "R s \<Longrightarrow> InitDevice ul sp n (d, s) = Some (Returns (b, d', s')) \<Longrightarrow> R s'"
  by (simp add: InitDevice_def regenerate_or_poll_keeps)

lemma InitMiscDevice_keeps: "R s \<Longrightarrow> InitMiscDevice ul n (d, s) = Some (Returns (b, d', s')) \<Longrightarrow> R s'"
  by (simp add: InitMiscDevice_def regenerate_or_poll_keeps Let_def)

lemma InitBootDevices_keeps:
  assumes "R s" and "InitBootDevicesFromPartUuid ul (d, s) = Some (Returns (b, d', s'))"
  shows "R s'"
proof -
  let ?cb = "boot_part_callback ul"
  obtain found d1 s1 where 1: "deliver ul ?cb (RegenerateUevents ul s) (False, d, s) = Some (Returns (found, d1, s1))"
    and 2: "(if \<not> found then deliver ul ?cb (Poll ul s1) (False, d1, s1) else Some (Returns (True, d1, s1))) = Some (Returns (b, d', s'))"
    using assms(2) by (auto simp: InitBootDevicesFromPartUuid_def step_bind_Returns cong: if_cong)
  have R1: "R s1" by (rule deliver_keeps [where cb = ?cb, OF _ assms(1) 1]) (rule boot_part_callback_keeps)
  show ?thesis
  proof (cases found)
    case True
    with 2 R1 show ?thesis by simp
  next
    case False
    with 2 have 3: "deliver ul ?cb (Poll ul s1) (False, d1, s1) = Some (Returns (b, d', s'))" by simp
    show ?thesis by (rule deliver_keeps [where cb = ?cb, OF _ R1 3]) (rule boot_part_callback_keeps)
  qed
qed

lemma InitDevices_keeps:
  assumes "R s" and "InitDevices ul ds (d, s) = Some (Returns (b, d', s'))"
  shows "R s'"
proof -
  let ?cb = "BDI_HandleUevent ul"
  obtain rest d1 s1 rest' where 1: "deliver ul ?cb (RegenerateUevents ul s) (ds, d, s) = Some (Returns (rest, d1, s1))"
    and 2: "(if rest \<noteq> {} then deliver ul ?cb (Poll ul s1) (rest, d1, s1)
            else Some (Returns (rest, d1, s1))) = Some (Returns (rest', d', s'))"
    using assms(2) by (auto simp: InitDevices_def step_bind_Returns cong: if_cong)
  have R1: "R s1" by (rule deliver_keeps [where cb = ?cb, OF _ assms(1) 1]) (rule BDI_HandleUevent_keeps)
  show ?thesis
  proof (cases "rest = {}")
    case True
    with 2 R1 show ?thesis by simp
  next
    case False
    with 2 have 3: "deliver ul ?cb (Poll ul s1) (rest, d1, s1) = Some (Returns (rest', d', s'))" by simp
    show ?thesis by (rule deliver_keeps [where cb = ?cb, OF _ R1 3]) (rule BDI_HandleUevent_keeps)
  qed
qed

end

end
