(* ===== verification/Mount_Frame.thy ===== *)
theory Mount_Frame
  imports Boot_Frame
begin

text \<open>
  What mounting one entry leaves alone.  The locale \<open>fs_frame\<close> has a predicate that the calls of the file system
  manager keep, other than mounting; \<open>mount_frame\<close> adds that mounting a given device at a given place keeps it too.  Then preparing
  the file system, checking it and mounting it with all retries keep it: the only mounts are of that device at that place.
\<close>

inductive_set fs_ops :: "'k fs_env \<Rightarrow> ('k \<Rightarrow> 'k) set" for fe :: "'k fs_env" where
  umount: "(\<lambda>k. snd (m_umount fe p k)) \<in> fs_ops fe"
| sleep: "m_sleep fe \<in> fs_ops fe"
| run_status: "(\<lambda>k. snd (m_run_status fe argv k)) \<in> fs_ops fe"
| run: "(\<lambda>k. snd (m_run fe argv k)) \<in> fs_ops fe"
| unlink: "m_unlink fe p \<in> fs_ops fe"
| mkdir: "(\<lambda>k. snd (m_mkdir fe p k)) \<in> fs_ops fe"
| rmdir: "m_rmdir fe p \<in> fs_ops fe"
| write_file: "(\<lambda>k. snd (m_write fe s p k)) \<in> fs_ops fe"
| setprop: "SetProperty fe n v \<in> fs_ops fe"
| set_blk_ro: "(\<lambda>k. snd (m_set_blk_ro fe p b k)) \<in> fs_ops fe"

locale fs_frame =
  fixes fe :: "'k fs_env" and R :: "'k \<Rightarrow> bool"
  assumes fs_op: "op \<in> fs_ops fe \<Longrightarrow> R k \<Longrightarrow> R (op k)"
begin

lemmas fs_op_simps [simp] = fs_ops.intros [THEN fs_op]

lemma umount_loop_keeps [simp]: "R k \<Longrightarrow> R (snd (umount_loop fe p n k))"
  by (induction n arbitrary: k) (auto simp: split_beta)

lemma umount_retry_keeps [simp]: "R k \<Longrightarrow> R (snd (umount_retry fe p k))"
  by (simp add: umount_retry_def)

lemma run_fsck_keeps [simp]: "R k \<Longrightarrow> R (snd (run_fsck fe bin argv fargv fs_stat k))"
  by (simp add: run_fsck_def split_beta)

lemma run_or_flag_keeps [simp]: "R k \<Longrightarrow> R (snd (run_or_flag fe argv flag fs_stat k))"
  by (simp add: run_or_flag_def run_command_def split_beta)

lemma tune_quota_keeps [simp]: "R k \<Longrightarrow> R (snd (tune_quota fe d e sb fs_stat k))"
  by (simp add: tune_quota_def Let_def)

lemma tune_encrypt_keeps [simp]: "R k \<Longrightarrow> R (snd (tune_encrypt fe d e sb fs_stat k))"
  by (simp add: tune_encrypt_def Let_def split: option.splits)

lemma tune_verity_keeps [simp]: "R k \<Longrightarrow> R (snd (tune_verity fe d e sb fs_stat k))"
  by (simp add: tune_verity_def)

lemma tune_casefold_keeps [simp]: "R k \<Longrightarrow> R (snd (tune_casefold fe d e sb fs_stat k))"
  by (simp add: tune_casefold_def)

lemma tune_metadata_csum_keeps [simp]: "R k \<Longrightarrow> R (snd (tune_metadata_csum fe d e sb fs_stat k))"
  by (simp add: tune_metadata_csum_def run_command_def split_beta)

lemma tune_reserved_size_keeps: "R k \<Longrightarrow> tune_reserved_size fe d e sb fs_stat k = Returns r \<Longrightarrow> R (snd r)"
  by (auto simp: tune_reserved_size_def Let_def split: if_splits)

lemma tune_features_keeps: "R k \<Longrightarrow> tune_features fe d e fs_stat k = Returns r \<Longrightarrow> R (snd r)"
  by (auto simp: tune_features_def out_bind_Returns split_beta Let_def split: if_splits option.splits
      dest!: tune_reserved_size_keeps [rotated])

lemma inspect_superblock_keeps [simp]: "R k \<Longrightarrow> R (snd (snd (inspect_superblock fe d e k)))"
  by (simp add: inspect_superblock_def split_beta split: option.splits)

lemma preventative_keeps [simp]: "R k \<Longrightarrow> R (snd (check_if_preventative_fsck_needed fe e k))"
  by (simp add: check_if_preventative_fsck_needed_def Let_def)

lemma read_ahead_loop_keeps:
  assumes "read_ahead_loop fe sz d k = Some out" and "out = Returns k'" and "R k"
  shows "R k'"
proof -
  let ?P = "\<lambda>fe' sz d k out. \<forall>k'. fe' = fe \<longrightarrow> out = Returns k' \<longrightarrow> R k \<longrightarrow> R k'"
  have "?P fe sz d k out"
    by (rule read_ahead_loop.raw_induct [where P = ?P, OF _ assms(1)]) (auto simp: Let_def split: option.splits)
  with assms(2,3) show ?thesis by blast
qed

lemma SetReadAheadSize_keeps: "R k \<Longrightarrow> SetReadAheadSize fe d n k = Some (Returns k') \<Longrightarrow> R k'"
  by (auto simp: SetReadAheadSize_def split: option.splits if_splits dest: read_ahead_loop_keeps)

lemma set_blk_ro_keeps [simp]: "R k \<Longrightarrow> R (snd (fs_mgr_set_blk_ro fe p b k))"
  by (simp add: fs_mgr_set_blk_ro_def)

lemma canonical_mount_point_keeps [simp]: "R k \<Longrightarrow> R (snd (fs_mgr_create_canonical_mount_point fe p k))"
  by (simp add: fs_mgr_create_canonical_mount_point_def Let_def split_beta)

end

locale mount_frame = fs_frame fe R for fe :: "'k fs_env" and R +
  fixes dev tgt :: string
  assumes mount_dev [simp]: "R k \<Longrightarrow> R (snd (m_mount fe dev tgt ty fl opts k))"
    and mount_real: "R k \<Longrightarrow> m_Realpath fe dev k = Some p \<Longrightarrow> R (snd (m_mount fe p tgt ty fl opts k))"
begin

lemma check_fs_keeps [simp]: "R k \<Longrightarrow> R (snd (check_fs fe dev ty tgt fs_stat k))"
  by (simp add: check_fs_def trial_mount_def split_beta)

lemma check_and_tune_keeps: "R k \<Longrightarrow> check_and_tune fe dev e tgt fs_stat k = Returns r \<Longrightarrow> R (snd r)"
  by (auto simp: check_and_tune_def split_beta Let_def split: if_splits dest!: tune_features_keeps [rotated])

lemma prepare_keeps:
  assumes "R k" and "prepare_fs_for_mount fe dev e tgt k = Some (Returns r)" and "fe_mount_point e = tgt"
  shows "R (snd r)"
proof -
  define k1 where "k1 = snd (m_mkdir fe tgt (if m_is_link fe tgt k then m_unlink fe tgt k else k))"
  have R1: "R k1" using assms(1) by (simp add: k1_def)
  obtain k2 where k2: "(if fe_readahead_size_kb e \<noteq> -1 then SetReadAheadSize fe dev (fe_readahead_size_kb e) k1
                    else Some (Returns k1)) = Some (Returns k2)"
    and r: "(case inspect_superblock fe dev e k2 of (False, fs_stat, k) \<Rightarrow> Some (Returns (fs_stat, k))
                | (True, fs_stat, k) \<Rightarrow> Some (check_and_tune fe dev e tgt fs_stat k)) = Some (Returns r)"
    using assms(2,3) by (auto simp: prepare_fs_for_mount_def Let_def step_bind_Returns k1_def cong: if_cong)
  have "R k2" using k2 R1 by (auto split: if_splits dest: SetReadAheadSize_keeps)
  then have "R (snd (snd (inspect_superblock fe dev e k2)))" by simp
  then show ?thesis using r by (auto split: prod.splits bool.splits dest: check_and_tune_keeps)
qed

lemma mount_loop_keeps:
  assumes "mount_loop fe dev tgt e fl gc fb n err k = Some out" and "out = Returns r" and "R k"
  shows "R (snd r)"
proof -
  let ?P = "\<lambda>fe' d t e fl gc fb n err k out. \<forall>r. fe' = fe \<longrightarrow> d = dev \<longrightarrow> t = tgt \<longrightarrow> out = Returns r \<longrightarrow> R k \<longrightarrow> R (snd r)"
  have step: "R k'" if "m_mount fe (case m_Realpath fe dev k of Some p \<Rightarrow> p | None \<Rightarrow> dev) tgt ty fl opts k = (err, k')" "R k"
    for ty fl opts k err k'
  proof -
    have "R (snd (m_mount fe (case m_Realpath fe dev k of Some p \<Rightarrow> p | None \<Rightarrow> dev) tgt ty fl opts k))"
      using that(2) mount_real by (auto split: option.splits)
    then show ?thesis unfolding that(1) by simp
  qed
  have "?P fe dev tgt e fl gc fb n err k out"
    by (rule mount_loop.raw_induct [where P = ?P, OF _ assms(1)]) (auto simp: Let_def split: if_splits prod.splits dest: step)
  with assms(2,3) show ?thesis by blast
qed

lemma do_mount_keeps: "R k \<Longrightarrow> do_mount fe dev tgt e ro k = Some (Returns r) \<Longrightarrow> R (snd r)"
  by (auto simp: do_mount_def step_bind_Returns Let_def dest!: mount_loop_keeps)

lemma do_mount_one_keeps:
  assumes "R k" and "fs_mgr_do_mount_one fe e [] k = Some (Returns r)"
    and "fe_blk_device e = dev" and "fe_mount_point e = tgt"
  shows "R (snd r)"
  using assms prepare_keeps [of k e] do_mount_keeps
  by (fastforce simp: fs_mgr_do_mount_one_def step_bind_Returns Let_def split: if_splits)

end

end
