(* ===== verification/First_Stage_Init.thy ===== *)
theory First_Stage_Init
  imports First_Stage_Mount
begin

text \<open>
  \<open>first_stage_init.cpp\<close>: the first program of the boot.  It mounts the initial file systems, loads kernel modules,
  drives \<open>First_Stage_Mount\<close>, frees the ramdisk and executes the second stage.  A failure that the code calls fatal
  aborts; the program ends by a restart or by executing \<open>/system/bin/init\<close>.
\<close>

section \<open>Parameters\<close>

datatype BootMode = NORMAL_MODE | RECOVERY_MODE | CHARGER_MODE

datatype console_param = DISABLED | CONSOLE_ON_FAILURE | IGNORE_FAILURE

text \<open>
  What the calls of \<open>FreeRamdisk\<close> show of an entry: its name and type in \<open>readdir\<close>, device and kind in \<open>fstatat\<close>, and the
  entries of the directory where it can be opened.
\<close>

datatype dtype = DT_DIR | DT_REG | DT_UNKNOWN | DT_OTHER

datatype ram_entry =
  Ram_Entry (re_name: string) (re_type: dtype) (re_stat: "(u64 \<times> bool) option") (re_children: "ram_entry list option")

record 'k init_first_env =
  if_fi :: "'k first_env"
  if_mkdir :: "string \<Rightarrow> 'k \<Rightarrow> nat \<times> 'k"
  if_mknod :: "string \<Rightarrow> u32 \<Rightarrow> u64 \<Rightarrow> 'k \<Rightarrow> nat \<times> 'k"
  if_chmod :: "string \<Rightarrow> u32 \<Rightarrow> 'k \<Rightarrow> nat \<times> 'k"
  if_setgroups :: "nat list \<Rightarrow> 'k \<Rightarrow> nat \<times> 'k"
  if_clearenv :: "'k \<Rightarrow> nat \<times> 'k"
  if_setenv_path :: "'k \<Rightarrow> nat \<times> 'k"
  if_umask :: "'k \<Rightarrow> 'k"
  WORLD_WRITABLE_KMSG :: bool
  kSecondStageRes :: string
  ALLOW_FIRST_STAGE_CONSOLE :: bool
  FirstStageConsole :: "string \<Rightarrow> string \<Rightarrow> console_param"
  StartConsole :: "string \<Rightarrow> 'k \<Rightarrow> 'k"
  SetStdioToDevNull :: "'k \<Rightarrow> 'k"
  page_size :: nat
  if_module_dirs :: "'k \<Rightarrow> (bool \<times> string) list option"
  if_stat :: "string \<Rightarrow> 'k \<Rightarrow> bool"
  LoadListedModules :: "string \<Rightarrow> string \<Rightarrow> bool \<Rightarrow> 'k \<Rightarrow> (bool \<times> int) \<times> 'k"
  LoadModulesParallel :: "string \<Rightarrow> string \<Rightarrow> 'k \<Rightarrow> (bool \<times> int) \<times> 'k"
  module_duration :: "'k \<Rightarrow> string"
  kEnvInitModuleDurationMs :: string
  kEnvFirstStageStartedAt :: string
  start_time_text :: "'k \<Rightarrow> string"
  GetBootconfigFromString :: "string \<Rightarrow> string \<Rightarrow> string"
  kBootImageRamdiskProp :: string
  ramdisk_prop_dest :: string
  kDebugRamdiskProp :: string
  kDebugRamdiskSEPolicy :: string
  if_create_directories :: "string \<Rightarrow> 'k \<Rightarrow> bool \<times> bool \<times> 'k"
  if_copy_file :: "string \<Rightarrow> string \<Rightarrow> 'k \<Rightarrow> bool \<times> 'k"
  if_link :: "string \<Rightarrow> string \<Rightarrow> 'k \<Rightarrow> bool \<times> 'k"
  if_root :: "'k \<Rightarrow> ram_entry list option"
  if_root_dev :: "'k \<Rightarrow> u64 option"
  if_unlinkat :: "string \<Rightarrow> bool \<Rightarrow> 'k \<Rightarrow> 'k"
  IsFirstStageSnapuserdRunning :: "'k \<Rightarrow> bool"
  if_redirect_kmsg :: "'k \<Rightarrow> 'k"
  if_execv :: "string list \<Rightarrow> 'k \<Rightarrow> bool"

text \<open>
  \<open>if_create_directories\<close> gives whether directories were created and whether there was an error.  \<open>LoadListedModules\<close> and
  \<open>LoadModulesParallel\<close> of libmodprobe give the answer and the number of modules.  \<open>if_root\<close> and \<open>if_root_dev\<close> are what
  \<open>opendir\<close> and \<open>stat\<close> show of the root.
\<close>

abbreviation if_fs :: "'k init_first_env \<Rightarrow> 'k fs_env" where "if_fs e \<equiv> fi_fs (if_fi e)"

section \<open>The ramdisk\<close>

text \<open>The entries that are unlinked, in order, with whether they are directories.\<close>

fun FreeRamdisk :: "bool \<Rightarrow> u64 \<Rightarrow> string \<Rightarrow> ram_entry list \<Rightarrow> (string \<times> bool) list"
and free_entry :: "bool \<Rightarrow> u64 \<Rightarrow> string \<Rightarrow> ram_entry \<Rightarrow> (string \<times> bool) list" where
  "FreeRamdisk running dev path [] = []"
| "FreeRamdisk running dev path (e # es) = free_entry running dev path e @ FreeRamdisk running dev path es"
| "free_entry running dev path (Ram_Entry name ty st children) =
     (if name = ''.'' \<or> name = ''..'' then []
      else if ty = DT_DIR \<or> ty = DT_UNKNOWN then
        (case st of
           None \<Rightarrow> []
         | Some (st_dev, is_dir) \<Rightarrow>
             if st_dev \<noteq> dev then []
             else if is_dir then
               (case children of None \<Rightarrow> [] | Some es \<Rightarrow> FreeRamdisk running dev (path @ ''/'' @ name) es) @ [(path @ ''/'' @ name, True)]
             else [(path @ ''/'' @ name, False)])
      else if ty = DT_REG \<and> name = ''snapuserd'' \<and> running then []
      else [(path @ ''/'' @ name, False)])"

definition free_old_root :: "'k init_first_env \<Rightarrow> (ram_entry list \<times> u64) option \<Rightarrow> 'k \<Rightarrow> 'k" where
  "free_old_root e old_root k =
     (case (old_root, if_root_dev e k) of
        (Some (es, dev), Some new_dev) \<Rightarrow>
          if dev \<noteq> new_dev
          then fold (\<lambda>(p, is_dir). if_unlinkat e p is_dir) (FreeRamdisk (IsFirstStageSnapuserdRunning e k) dev [] es) k
          else k
      | _ \<Rightarrow> k)"

section \<open>Boot parameters\<close>

definition force_normal_text :: string where "force_normal_text = ''androidboot.force_normal_boot = '' @ [CHR 0x22] @ ''1'' @ [CHR 0x22]"
definition charger_text :: string where "charger_text = ''androidboot.mode = '' @ [CHR 0x22] @ ''charger'' @ [CHR 0x22]"
definition parallel_text :: string where "parallel_text = ''androidboot.load_modules_parallel = '' @ [CHR 0x22] @ ''true'' @ [CHR 0x22]"

definition ForceNormalBoot :: "string \<Rightarrow> string \<Rightarrow> bool" where
  "ForceNormalBoot cmdline bootconfig \<longleftrightarrow>
     find_str force_normal_text bootconfig \<noteq> None \<or> find_str ''androidboot.force_normal_boot=1'' cmdline \<noteq> None"

definition IsChargerMode :: "string \<Rightarrow> string \<Rightarrow> bool" where
  "IsChargerMode cmdline bootconfig \<longleftrightarrow>
     find_str charger_text bootconfig \<noteq> None \<or> find_str ''androidboot.mode=charger'' cmdline \<noteq> None"

definition GetBootMode :: "bool \<Rightarrow> string \<Rightarrow> string \<Rightarrow> BootMode" where
  "GetBootMode recovery cmdline bootconfig =
     (if IsChargerMode cmdline bootconfig then CHARGER_MODE
      else if recovery \<and> \<not> ForceNormalBoot cmdline bootconfig then RECOVERY_MODE
      else NORMAL_MODE)"

section \<open>Kernel modules\<close>

definition GetPageSizeSuffix :: "'k init_first_env \<Rightarrow> string" where
  "GetPageSizeSuffix e = (if page_size e \<le> 4096 then [] else ''_'' @ dec (page_size e div 1024) @ ''k'')"

definition ends_with :: "string \<Rightarrow> string \<Rightarrow> bool" where
  "ends_with str sfx \<longleftrightarrow> length str \<ge> length sfx \<and> drop (length str - length sfx) str = sfx"

definition dir_page_size_suffix :: "string \<Rightarrow> string" where
  "dir_page_size_suffix dirname =
     (if ends_with dirname ''_16k'' then ''_16k'' else if ends_with dirname ''_64k'' then ''_64k'' else [])"

definition GetModuleLoadList :: "'k init_first_env \<Rightarrow> BootMode \<Rightarrow> string \<Rightarrow> 'k \<Rightarrow> string" where
  "GetModuleLoadList e boot_mode dir_path k =
     (let module_load_file =
        (case boot_mode of NORMAL_MODE \<Rightarrow> ''modules.load'' | RECOVERY_MODE \<Rightarrow> ''modules.load.recovery''
         | CHARGER_MODE \<Rightarrow> ''modules.load.charger'')
      in if module_load_file \<noteq> ''modules.load'' \<and> \<not> if_stat e (dir_path @ ''/'' @ module_load_file) k then ''modules.load''
         else module_load_file)"

text \<open>The directories for the running kernel; the one with exactly its release stands alone.\<close>

fun module_dirs :: "string \<Rightarrow> string \<Rightarrow> int \<times> int \<Rightarrow> (bool \<times> string) list \<Rightarrow> string list \<Rightarrow> string list" where
  "module_dirs sfx release_dir version [] acc = acc"
| "module_dirs sfx release_dir version ((is_dir, name) # es) acc =
     (if \<not> is_dir then module_dirs sfx release_dir version es acc
      else if name = release_dir then [name]
      else if dir_page_size_suffix name \<noteq> [] \<and> dir_page_size_suffix name \<noteq> sfx then module_dirs sfx release_dir version es acc
      else if scan_version name \<noteq> Some version then module_dirs sfx release_dir version es acc
      else module_dirs sfx release_dir version es (acc @ [name]))"

definition MODULE_BASE_DIR :: string where "MODULE_BASE_DIR = ''/lib/modules''"

fun load_dirs :: "'k init_first_env \<Rightarrow> BootMode \<Rightarrow> bool \<Rightarrow> string list \<Rightarrow> 'k \<Rightarrow> (bool \<times> int) option \<times> 'k" where
  "load_dirs e boot_mode want_console [] k = (None, k)"
| "load_dirs e boot_mode want_console (d # ds) k =
     (let dir_path = MODULE_BASE_DIR @ ''/'' @ d;
          ((retval, n), k) = LoadListedModules e dir_path (GetModuleLoadList e boot_mode dir_path k) (\<not> want_console) k
      in if n > 0 then (Some (retval, n), k) else load_dirs e boot_mode want_console ds k)"

definition LoadKernelModules ::
    "'k init_first_env \<Rightarrow> BootMode \<Rightarrow> bool \<Rightarrow> bool \<Rightarrow> 'k \<Rightarrow> ((bool \<times> int) \<times> 'k) outcome" where
  "LoadKernelModules e boot_mode want_console want_parallel k =
     (case m_uname (if_fs e) k of
        None \<Rightarrow> Aborts
      | Some release \<Rightarrow>
          (case scan_version release of
             None \<Rightarrow> Aborts
           | Some version \<Rightarrow>
               (case if_module_dirs e k of
                  None \<Rightarrow> Returns ((True, 0), k)
                | Some entries \<Rightarrow>
                    (let sfx = GetPageSizeSuffix e; dirs = sort (module_dirs sfx (release @ sfx) version entries [])
                     in case load_dirs e boot_mode want_console dirs k of
                          (Some r, k) \<Rightarrow> Returns (r, k)
                        | (None, k) \<Rightarrow>
                            (let load_file = GetModuleLoadList e boot_mode MODULE_BASE_DIR k;
                                 ((retval, n), k) = (if want_parallel then LoadModulesParallel e MODULE_BASE_DIR load_file k
                                                     else LoadListedModules e MODULE_BASE_DIR load_file (\<not> want_console) k)
                             in Returns ((if n > 0 then retval else True, n), k))))))"

definition MaybeResumeFromHibernation :: "'k init_first_env \<Rightarrow> string \<Rightarrow> 'k \<Rightarrow> 'k" where
  "MaybeResumeFromHibernation e bootconfig k =
     (let dev = GetBootconfigFromString e bootconfig ''androidboot.hibernation_resume_device''
      in if dev \<noteq> [] \<and> m_open_rw (if_fs e) ''/sys/power/resume'' k
         then snd (m_write_fd (if_fs e) ''/sys/power/resume'' dev k) else k)"

section \<open>Preparing the root\<close>

definition link_or_die :: "'k init_first_env \<Rightarrow> string \<Rightarrow> string \<Rightarrow> 'k \<Rightarrow> 'k outcome" where
  "link_or_die e src dst k = (let (ok, k) = if_link e src dst k in if ok then Returns k else Aborts)"

definition PrepareSwitchRoot :: "'k init_first_env \<Rightarrow> 'k \<Rightarrow> 'k outcome" where
  "PrepareSwitchRoot e k =
     (let dst = ''/first_stage_ramdisk/system/bin/snapuserd''; dst_dir = Dirname (fi_lb (if_fi e)) dst
      in if m_executable (if_fs e) dst k then Returns k
         else
           (let (ok, k) = (if \<not> m_exists (if_fs e) dst_dir k
                           then (case if_create_directories e dst_dir k of (created, _, k) \<Rightarrow> (created, k)) else (True, k))
            in if \<not> ok then Aborts
               else if m_exists (if_fs e) ''/system/bin/snapuserd_ramdisk'' k
               then link_or_die e ''/system/bin/snapuserd_ramdisk'' dst k
               else if m_exists (if_fs e) ''/system/bin/snapuserd'' k
               then link_or_die e ''/system/bin/snapuserd'' dst k
               else Returns k))"

definition copy_ramdisk_prop :: "'k init_first_env \<Rightarrow> 'k \<Rightarrow> 'k outcome" where
  "copy_ramdisk_prop e k =
     (if m_exists (if_fs e) (kBootImageRamdiskProp e) k then
        (case if_create_directories e (Dirname (fi_lb (if_fi e)) (ramdisk_prop_dest e)) k of
           (created, err, k) \<Rightarrow>
             if \<not> created \<and> err then Aborts
             else (let (ok, k) = if_copy_file e (kBootImageRamdiskProp e) (ramdisk_prop_dest e) k
                   in if ok then Returns k else Aborts))
      else Returns k)"

definition copy_if_present :: "'k init_first_env \<Rightarrow> string \<Rightarrow> string \<Rightarrow> 'k \<Rightarrow> 'k" where
  "copy_if_present e src dst k = (if m_exists (if_fs e) src k then snd (if_copy_file e src dst k) else k)"

definition copy_debug_files :: "'k init_first_env \<Rightarrow> 'k \<Rightarrow> 'k" where
  "copy_debug_files e k =
     (if m_exists (if_fs e) ''/force_debuggable'' k then
        fi_setenv (if_fi e) ''INIT_FORCE_DEBUGGABLE'' ''true''
          (copy_if_present e ''/userdebug_plat_sepolicy.cil'' (kDebugRamdiskSEPolicy e)
            (copy_if_present e ''/adb_debug.prop'' (kDebugRamdiskProp e) k))
      else k)"

definition MS_BIND :: u64 where "MS_BIND = 4096"

definition enter_ramdisk :: "'k init_first_env \<Rightarrow> string \<Rightarrow> string \<Rightarrow> 'k \<Rightarrow> 'k outcome" where
  "enter_ramdisk e cmdline bootconfig k =
     (if ForceNormalBoot cmdline bootconfig then
        out_bind (PrepareSwitchRoot e (snd (if_mkdir e ''/first_stage_ramdisk'' k)))
          (\<lambda>k. let (err, k) = m_mount (if_fs e) ''/first_stage_ramdisk'' ''/first_stage_ramdisk'' [] MS_BIND [] k
               in if err \<noteq> 0 then Aborts else SwitchRoot (if_fi e) ''/first_stage_ramdisk'' k)
      else Returns k)"

section \<open>The initial file systems\<close>

text \<open>The calls that the macro \<open>CHECKCALL\<close> wraps, in order: before and after the boot parameters are read.\<close>

definition MS_NOSUID :: u64 where "MS_NOSUID = 2"
definition MS_NODEV :: u64 where "MS_NODEV = 4"
definition MS_NOEXEC :: u64 where "MS_NOEXEC = 8"
definition AID_READPROC :: nat where "AID_READPROC = 3009"
definition S_IFCHR_mode :: "u32 \<Rightarrow> u32" where "S_IFCHR_mode perm = 0x2000 OR perm"

definition early_calls :: "'k init_first_env \<Rightarrow> (string \<times> ('k \<Rightarrow> nat \<times> 'k)) list" where
  "early_calls e =
     [(''clearenv'', if_clearenv e), (''setenv PATH'', if_setenv_path e),
      (''mount /dev'', m_mount (if_fs e) ''tmpfs'' ''/dev'' ''tmpfs'' MS_NOSUID ''mode=0755''),
      (''mkdir /dev/pts'', if_mkdir e ''/dev/pts''), (''mkdir /dev/socket'', if_mkdir e ''/dev/socket''),
      (''mkdir /dev/dm-user'', if_mkdir e ''/dev/dm-user''),
      (''mount /dev/pts'', m_mount (if_fs e) ''devpts'' ''/dev/pts'' ''devpts'' 0 []),
      (''mount /proc'', m_mount (if_fs e) ''proc'' ''/proc'' ''proc'' 0 (''hidepid=2,gid='' @ dec AID_READPROC)),
      (''chmod /proc/cmdline'', if_chmod e ''/proc/cmdline'' 288)]"

definition node_calls :: "'k init_first_env \<Rightarrow> (string \<times> ('k \<Rightarrow> nat \<times> 'k)) list" where
  "node_calls e =
     [(''mknod /dev/kmsg'', if_mknod e ''/dev/kmsg'' (S_IFCHR_mode 384) (makedev 1 11))] @
     (if WORLD_WRITABLE_KMSG e then [(''mknod /dev/kmsg_debug'', if_mknod e ''/dev/kmsg_debug'' (S_IFCHR_mode 402) (makedev 1 11))] else []) @
     [(''mknod /dev/random'', if_mknod e ''/dev/random'' (S_IFCHR_mode 438) (makedev 1 8)),
      (''mknod /dev/urandom'', if_mknod e ''/dev/urandom'' (S_IFCHR_mode 438) (makedev 1 9)),
      (''mknod /dev/ptmx'', if_mknod e ''/dev/ptmx'' (S_IFCHR_mode 438) (makedev 5 2)),
      (''mknod /dev/null'', if_mknod e ''/dev/null'' (S_IFCHR_mode 438) (makedev 1 3))]"

definition late_calls :: "'k init_first_env \<Rightarrow> (string \<times> ('k \<Rightarrow> nat \<times> 'k)) list" where
  "late_calls e =
     [(''setgroups'', if_setgroups e [AID_READPROC]),
      (''mount /sys'', m_mount (if_fs e) ''sysfs'' ''/sys'' ''sysfs'' 0 []),
      (''mount /sys/fs/selinux'', m_mount (if_fs e) ''selinuxfs'' ''/sys/fs/selinux'' ''selinuxfs'' 0 [])] @
     node_calls e @
     [(''mount /mnt'', m_mount (if_fs e) ''tmpfs'' ''/mnt'' ''tmpfs'' (MS_NOEXEC OR MS_NOSUID OR MS_NODEV) ''mode=0755,uid=0,gid=1000''),
      (''mkdir /mnt/vendor'', if_mkdir e ''/mnt/vendor''), (''mkdir /mnt/product'', if_mkdir e ''/mnt/product''),
      (''mount /debug_ramdisk'',
        m_mount (if_fs e) ''tmpfs'' ''/debug_ramdisk'' ''tmpfs'' (MS_NOEXEC OR MS_NOSUID OR MS_NODEV) ''mode=0755,uid=0,gid=0''),
      (''mount second stage'',
        m_mount (if_fs e) ''tmpfs'' (kSecondStageRes e) ''tmpfs'' (MS_NOSUID OR MS_NODEV) ''mode=0755,uid=0,gid=0'')] @
     (if IsMicrodroid (if_fi e) \<and> IsOpenDiceChangesFlagEnabled (if_fi e)
      then [(''mount /microdroid_resources'',
               m_mount (if_fs e) ''tmpfs'' ''/microdroid_resources'' ''tmpfs'' (MS_NOEXEC OR MS_NOSUID OR MS_NODEV) ''mode=0750,uid=0,gid=0'')]
      else [])"

text \<open>Every call is made, and the errors are collected.\<close>

fun run_checked :: "(string \<times> ('k \<Rightarrow> nat \<times> 'k)) list \<Rightarrow> (string \<times> nat) list \<Rightarrow> 'k \<Rightarrow> (string \<times> nat) list \<times> 'k" where
  "run_checked [] errors k = (errors, k)"
| "run_checked ((name, f) # calls) errors k =
     (let (err, k) = f k in run_checked calls (if err \<noteq> 0 then errors @ [(name, err)] else errors) k)"

definition setup_filesystems :: "'k init_first_env \<Rightarrow> 'k \<Rightarrow> (string \<times> string \<times> 'k) outcome" where
  "setup_filesystems e k =
     (let (errors, k) = run_checked (early_calls e) [] (if_umask e k);
          cmdline = (case m_read (if_fs e) ''/proc/cmdline'' k of None \<Rightarrow> [] | Some s \<Rightarrow> s);
          k = snd (if_chmod e ''/proc/bootconfig'' 288 k);
          bootconfig = (case m_read (if_fs e) ''/proc/bootconfig'' k of None \<Rightarrow> [] | Some s \<Rightarrow> s);
          (errors, k) = run_checked (late_calls e) errors k;
          k = SetStdioToDevNull e k
      in if errors \<noteq> [] then Aborts else Returns (cmdline, bootconfig, k))"

section \<open>The program\<close>

datatype 'k main_end = Rebooted 'k | Executed "string list" 'k

definition load_modules :: "'k init_first_env \<Rightarrow> console_param \<Rightarrow> string \<Rightarrow> string \<Rightarrow> 'k \<Rightarrow> 'k outcome" where
  "load_modules e want_console cmdline bootconfig k =
     out_bind (LoadKernelModules e (GetBootMode (IsRecoveryMode (if_fi e) k) cmdline bootconfig) (want_console \<noteq> DISABLED)
                 (find_str parallel_text bootconfig \<noteq> None) k)
       (\<lambda>((ok, module_count), k).
          if \<not> ok \<and> want_console = DISABLED then Aborts
          else Returns (if module_count > 0 then fi_setenv (if_fi e) (kEnvInitModuleDurationMs e) (module_duration e k) k else k))"

text \<open>The early attempt to create devices when a console is wanted on failure.\<close>

definition early_console ::
    "'k init_first_env \<Rightarrow> console_param \<Rightarrow> string \<Rightarrow> 'k \<Rightarrow> ('k FirstStageMount option \<times> bool \<times> 'k) outcome option" where
  "early_console e want_console cmdline k =
     (if want_console = CONSOLE_ON_FAILURE then
        step_bind
          (if IsRecoveryMode (if_fi e) k then Some (Returns (None, False, k))
           else case FirstStageMount_Create (if_fi e) cmdline k of
             None \<Rightarrow> Some (Returns (None, False, k))
           | Some fsm \<Rightarrow>
               step_bind (DoCreateDevices (if_fi e) fsm)
                 (\<lambda>(created_devices, fsm). Some (Returns (Some fsm, created_devices, fm_kern fsm))))
          (\<lambda>(fsm, created_devices, k). Some (Returns (fsm, created_devices, StartConsole e cmdline k)))
      else Some (Returns (None, False, k)))"

definition first_stage_mount ::
    "'k init_first_env \<Rightarrow> string \<Rightarrow> 'k FirstStageMount option \<Rightarrow> bool \<Rightarrow> 'k \<Rightarrow> (first_result \<times> 'k) outcome option" where
  "first_stage_mount e cmdline fsm created_devices k =
     (if IsRecoveryMode (if_fi e) k then Some (Returns (Done True, k))
      else
        (case (case fsm of Some fsm \<Rightarrow> Some fsm | None \<Rightarrow> FirstStageMount_Create (if_fi e) cmdline k) of
           None \<Rightarrow> Some Aborts
         | Some fsm \<Rightarrow>
             step_bind (if created_devices then Some (Returns (True, fsm\<lparr>fm_kern := k\<rparr>))
                        else DoCreateDevices (if_fi e) (fsm\<lparr>fm_kern := k\<rparr>))
               (\<lambda>(ok, fsm).
                  if \<not> ok then Some Aborts
                  else
                    step_bind (DoFirstStageMount (if_fi e) fsm)
                      (\<lambda>(r, fsm). if r = Done False then Some Aborts else Some (Returns (r, fm_kern fsm))))))"

definition old_root :: "'k init_first_env \<Rightarrow> 'k \<Rightarrow> (ram_entry list \<times> u64) option" where
  "old_root e k = (case (if_root e k, if_root_dev e k) of (Some es, Some dev) \<Rightarrow> Some (es, dev) | _ \<Rightarrow> None)"

definition exec_second_stage :: "'k init_first_env \<Rightarrow> 'k \<Rightarrow> 'k main_end outcome option" where
  "exec_second_stage e k =
     step_bind (SetInitAvbVersionInRecovery (if_fi e) k)
       (\<lambda>k. let k = fi_setenv (if_fi e) (kEnvFirstStageStartedAt e) (start_time_text e k) k;
                args = [''/system/bin/init'', ''selinux_setup'']; k = if_redirect_kmsg e k
            in if if_execv e args k then Some (Returns (Executed args k)) else Some Aborts)"

definition FirstStageMain :: "'k init_first_env \<Rightarrow> 'k \<Rightarrow> 'k main_end outcome option" where
  "FirstStageMain e k =
     step_bind (Some (setup_filesystems e k))
       (\<lambda>(cmdline, bootconfig, k).
          let old = old_root e k;
              want_console = (if ALLOW_FIRST_STAGE_CONSOLE e then FirstStageConsole e cmdline bootconfig else DISABLED)
          in step_bind (Some (load_modules e want_console cmdline bootconfig k))
               (\<lambda>k. step_bind (early_console e want_console cmdline (MaybeResumeFromHibernation e bootconfig k))
                  (\<lambda>(fsm, created_devices, k).
                     step_bind (Some (out_bind (copy_ramdisk_prop e k) (\<lambda>k. enter_ramdisk e cmdline bootconfig (copy_debug_files e k))))
                       (\<lambda>k. step_bind (first_stage_mount e cmdline fsm created_devices k)
                          (\<lambda>(r, k). if r = Restarts then Some (Returns (Rebooted k))
                                    else exec_second_stage e (free_old_root e old k))))))"

end
