(* ===== verification/First_Stage_Correct.thy ===== *)
theory First_Stage_Correct
  imports Mount_Frame Avb_Correct First_Stage_Init
begin

text \<open>
  The first stage keeps the promise of verified boot: on a locked device a partition whose entries ask for verification is
  mounted only through a dm-verity device whose root digest comes from an authentic image, or after an authentic
  image has switched verification off.  The locale \<open>boot_kernel\<close> is the contract of the kernel and of the libraries: a log of the
  mounts and the verity devices that exist.
\<close>

section \<open>Protected devices\<close>

text \<open>
  Images are authentic if libavb accepted them for the boot slot and they have the digest from the boot loader, or if the image
  lies on the device of an entry for the mount point and is signed with one of the keys, or has the digest, that the entry
  names.
\<close>

definition boot_handle :: "'k first_env \<Rightarrow> AvbHandle \<Rightarrow> bool" where
  "boot_handle fi h \<longleftrightarrow>
     (\<exists>k v. AvbSlotVerify (fi_av fi) (slot_suffix (fi_av fi)) False k = (SV_OK, ah_vbmeta_images h) \<and>
        make_AvbVerifier (fi_av fi) = Some v \<and> VerifyVbmetaImages (fi_av fi) v (ah_vbmeta_images h))"

definition standalone_handle :: "'k first_env \<Rightarrow> string \<Rightarrow> AvbHandle \<Rightarrow> bool" where
  "standalone_handle fi mp h \<longleftrightarrow>
     (\<exists>e preload k ld. fe_mount_point e = mp \<and>
        LoadAndVerifyVbmetaByPath (fi_av fi) (fe_blk_device e) [] [] False True False k = Some ld \<and>
        ah_vbmeta_images h = [ld_vbmeta ld] \<and> signed (fi_av fi) [] False (ld_vbmeta ld) \<and>
        (if preload \<noteq> [] \<or> fe_avb_keys e \<noteq> [] then IsPublicKeyMatching (fi_av fi) e (ld_public_key ld) preload k
         else IsHashtreeDescriptorRootDigestMatching (fi_av fi) e [ld_vbmeta ld]
                (slot_suffix (fi_av fi)) (other_slot_suffix (fi_av fi)) k))"

definition authentic :: "'k first_env \<Rightarrow> string \<Rightarrow> AvbHandle \<Rightarrow> bool" where
  "authentic fi mp h \<longleftrightarrow> boot_handle fi h \<or> standalone_handle fi mp h"

text \<open>A device is protected for a mount point if it is a verity device with the digest of an authentic image for the partition.\<close>

definition protected :: "'k first_env \<Rightarrow> string \<Rightarrow> (string \<rightharpoonup> verity_target) \<Rightarrow> string \<Rightarrow> bool" where
  "protected fi mp verity dev \<longleftrightarrow>
     (\<exists>h. authentic fi mp h \<and>
        (IsHashtreeDisabled h \<or>
         (\<exists>e htd t. fe_mount_point e = mp \<and>
            GetHashtreeDescriptor (fi_av fi) (DeriveAvbPartitionName (fi_av fi) e (ah_slot_suffix h) (ah_other_slot_suffix h))
              (ah_vbmeta_images h) = Some htd \<and>
            verity dev = Some t \<and> vt_block_device t = fe_blk_device e \<and> vt_root_digest t = hd_root_digest htd \<and> vt_salt t = hd_salt htd \<and> vt_readonly t)))"

definition asks_avb :: "fstab_entry \<Rightarrow> bool" where
  "asks_avb e \<longleftrightarrow> fe_avb_keys e \<noteq> [] \<or> F_avb \<in> fe_fs_mgr_flags e \<or> fe_avb_hashtree_digest e \<noteq> []"

definition verified_at :: "string \<Rightarrow> fstab \<Rightarrow> bool" where
  "verified_at mp tab \<longleftrightarrow> (\<forall>e \<in> set tab. fe_mount_point e = mp \<longrightarrow> asks_avb e)"

definition mounts_ok ::
    "'k first_env \<Rightarrow> ('k \<Rightarrow> (string \<times> string \<times> string) set) \<Rightarrow> ('k \<Rightarrow> string \<rightharpoonup> verity_target) \<Rightarrow> string \<Rightarrow> 'k \<Rightarrow> bool" where
  "mounts_ok fi mlog verity mp k \<longleftrightarrow>
     (\<forall>(src, tgt, ty) \<in> mlog k. tgt = mp \<longrightarrow> ty \<noteq> ''overlay'' \<longrightarrow> protected fi mp (verity k) src)"

lemma protected_mono: "protected fi mp v dev \<Longrightarrow> v \<subseteq>\<^sub>m v' \<Longrightarrow> protected fi mp v' dev"
  unfolding protected_def map_le_def by (metis domI)

lemma protected_alias: "protected fi mp v dev \<Longrightarrow> (\<And>t. v dev = Some t \<Longrightarrow> v p = Some t) \<Longrightarrow> protected fi mp v p"
  unfolding protected_def by metis

lemma disabled_protected: "authentic fi mp h \<Longrightarrow> IsHashtreeDisabled h \<Longrightarrow> protected fi mp v dev"
  by (auto simp: protected_def)

text \<open>The calls that setting up a hash tree makes.\<close>

lemma hashtree_calls:
  assumes "SetUpAvbHashtree e h wt entry k = Returns (r, entry', k')"
  shows "(entry' = entry \<and> k' = k) \<or>
     (\<exists>n t d k1. dm_create e n t wt k = (d, k1) \<and>
        (case d of None \<Rightarrow> entry' = entry \<and> k' = k1
         | Some p \<Rightarrow> entry' = entry\<lparr>fe_blk_device := p\<rparr> \<and> k' = snd (av_set_readonly e (fe_blk_device entry) k1)))"
proof (cases "entry' = entry \<and> k' = k")
  case False
  then obtain htd r' where "HashtreeDmVeritySetup e htd wt entry k = Returns (r', entry', k')"
    using assms by (auto simp: SetUpAvbHashtree_def LoadAvbHashtreeToEnableVerity_def out_bind_Returns Let_def
      split: if_splits option.splits)
  with False obtain t where *: "(case dm_create e (GetVerityDeviceName (av_fv e) entry) t wt k of
                     (None, k) \<Rightarrow> Returns (False, entry, k)
                   | (Some dev_path, k) \<Rightarrow>
                       (let k = snd (av_set_readonly e (fe_blk_device entry) k)
                        in Returns (True, entry\<lparr>fe_blk_device := dev_path\<rparr>, k))) = Returns (r', entry', k')"
    by (auto simp: HashtreeDmVeritySetup_def out_bind_Returns split: option.splits if_splits)
  obtain d k1 where d: "dm_create e (GetVerityDeviceName (av_fv e) entry) t wt k = (d, k1)" by force
  from * have "case d of None \<Rightarrow> entry' = entry \<and> k' = k1
     | Some p \<Rightarrow> entry' = entry\<lparr>fe_blk_device := p\<rparr> \<and> k' = snd (av_set_readonly e (fe_blk_device entry) k1)"
    unfolding d by (auto simp: Let_def split: option.splits)
  with d show ?thesis by blast
qed simp

section \<open>The contract\<close>

text \<open>The calls that neither mount a file system nor touch a verity device.\<close>

inductive_set inert_ops :: "'k first_env \<Rightarrow> ('k \<Rightarrow> 'k) set" for fi :: "'k first_env" where
  fs: "op \<in> fs_ops (fi_fs fi) \<Longrightarrow> op \<in> inert_ops fi"
| dkern: "op \<in> dkern_ops (ul_kern (fi_ul fi)) \<Longrightarrow> op \<in> inert_ops fi"
| receive: "receive (fi_ul fi) ue \<in> inert_ops fi"
| set_readonly: "(\<lambda>k. snd (av_set_readonly (fi_av fi) p k)) \<in> inert_ops fi"
| images_map: "(\<lambda>k. snd (images_map fi dir k)) \<in> inert_ops fi"
| mark_gsi: "(\<lambda>k. snd (MarkSystemAsGsi fi k)) \<in> inert_ops fi"
| ota_map: "ota_map fi \<in> inert_ops fi"
| launch: "LaunchFirstStageSnapuserd fi \<in> inert_ops fi"
| save_path: "SaveRamdiskPathToSnapuserd fi \<in> inert_ops fi"
| cleanup: "CleanupSnapuserdSocket fi \<in> inert_ops fi"
| snapshot: "(\<lambda>k. snd (snapshot_create fi super k)) \<in> inert_ops fi"
| logical: "(\<lambda>k. snd (lp_CreateLogicalPartitions fi super k)) \<in> inert_ops fi"
| scratch: "(\<lambda>k. snd (scratch_map fi tab k)) \<in> inert_ops fi"
| remove_all: "fi_remove_all fi p \<in> inert_ops fi"
| copy: "fi_copy fi p q \<in> inert_ops fi"
| setenv: "fi_setenv fi n v \<in> inert_ops fi"
| sync: "fi_sync fi \<in> inert_ops fi"
| sigchld: "fi_reset_sigchld fi \<in> inert_ops fi"
| execve: "(\<lambda>k. snd (fi_execve_wait fi argv k)) \<in> inert_ops fi"
| message: "(\<lambda>k. snd (write_bootloader_message fi opts k)) \<in> inert_ops fi"
| reboot: "RebootSystem fi \<in> inert_ops fi"
| chdir: "(\<lambda>k. snd (fi_chdir fi p k)) \<in> inert_ops fi"
| chroot: "(\<lambda>k. snd (fi_chroot fi p k)) \<in> inert_ops fi"

text \<open>
  \<open>mlog\<close> has every mount of a file system since the start: device, mount point and type.  Moving a mount is none.  Overlays bring
  only overlays and the scratch area.  A device keeps its verity table, and a path and its real path are the same device.
\<close>

locale boot_kernel =
  fixes fi :: "'k first_env" and mlog :: "'k \<Rightarrow> (string \<times> string \<times> string) set" and verity :: "'k \<Rightarrow> string \<rightharpoonup> verity_target"
  assumes inert: "op \<in> inert_ops fi \<Longrightarrow> mlog (op k) \<subseteq> mlog k \<and> verity k \<subseteq>\<^sub>m verity (op k)"
    and mount_logged: "mlog (snd (m_mount (fi_fs fi) src tgt ty fl opts k)) \<subseteq> insert (src, tgt, ty) (mlog k)"
    and move_logged: "mlog (snd (m_mount (fi_fs fi) src tgt ty MS_MOVE opts k)) \<subseteq> mlog k"
    and mount_verity: "verity k \<subseteq>\<^sub>m verity (snd (m_mount (fi_fs fi) src tgt ty fl opts k))"
    and create_still: "mlog (snd (dm_create (fi_av fi) name t wt k)) \<subseteq> mlog k \<and>
          verity k \<subseteq>\<^sub>m verity (snd (dm_create (fi_av fi) name t wt k))"
    and create_verity: "dm_create (fi_av fi) name t wt k = (Some p, k') \<Longrightarrow> verity k' p = Some t"
    and realpath_verity: "m_Realpath (fi_fs fi) dev k = Some p \<Longrightarrow> verity k dev = Some t \<Longrightarrow> verity k p = Some t"
    and overlays: "mlog (snd (overlayfs_mount_all fi tab k)) \<subseteq> mlog k \<union> {(s, t, ty). ty = ''overlay'' \<or> t = ''/mnt/scratch''} \<and>
          verity k \<subseteq>\<^sub>m verity (snd (overlayfs_mount_all fi tab k))"

text \<open>A locked device, and a mount point outside the scratch area.\<close>

locale guarded = boot_kernel fi mlog verity for fi :: "'k first_env" and mlog and verity +
  fixes mp :: string
  assumes locked: "\<not> IsDeviceUnlocked (fi_av fi)" and not_scratch: "mp \<noteq> ''/mnt/scratch''"
begin

abbreviation "ok \<equiv> mounts_ok fi mlog verity mp"
abbreviation "safe k dev \<equiv> protected fi mp (verity k) dev"

text \<open>The predicate that the steps keep while a device is mounted; the flag tells if it goes to the mount point.\<close>

definition guard :: "bool \<Rightarrow> string \<Rightarrow> 'k \<Rightarrow> bool" where
  "guard c dev k \<longleftrightarrow> ok k \<and> (c \<longrightarrow> safe k dev)"

lemma guardI: "ok k \<Longrightarrow> (c \<Longrightarrow> safe k dev) \<Longrightarrow> guard c dev k"
  by (simp add: guard_def)

lemma guard_ok: "guard c dev k \<Longrightarrow> ok k"
  by (simp add: guard_def)

lemma guard_none [simp]: "guard False dev k = ok k"
  by (simp add: guard_def)

lemma guard_still: "mlog k' \<subseteq> mlog k \<Longrightarrow> verity k \<subseteq>\<^sub>m verity k' \<Longrightarrow> guard c dev k \<Longrightarrow> guard c dev k'"
  unfolding guard_def mounts_ok_def by (blast intro: protected_mono)

lemma guard_inert: "op \<in> inert_ops fi \<Longrightarrow> guard c dev k \<Longrightarrow> guard c dev (op k)"
  using inert guard_still by blast

lemmas guard_ops = inert_ops.intros [THEN guard_inert]

lemma guard_listener: "listener_frame (fi_ul fi) (guard c dev)"
  by (unfold_locales, rule guard_inert, erule inert_ops.dkern, assumption, rule guard_inert [OF inert_ops.receive])

lemma guard_fs: "fs_frame (fi_fs fi) (guard c dev)"
  by (unfold_locales, rule guard_inert, erule inert_ops.fs)

lemma guard_mounted:
  assumes "guard c dev k" and "tgt = mp \<Longrightarrow> ty \<noteq> ''overlay'' \<Longrightarrow> safe k src"
  shows "guard c dev (snd (m_mount (fi_fs fi) src tgt ty fl opts k))"
proof -
  let ?k = "snd (m_mount (fi_fs fi) src tgt ty fl opts k)"
  have le: "verity k \<subseteq>\<^sub>m verity ?k" by (rule mount_verity)
  have "ok ?k" unfolding mounts_ok_def
  proof (clarify)
    fix s ty' assume "(s, mp, ty') \<in> mlog ?k" "ty' \<noteq> ''overlay''"
    then have "(s, mp, ty') = (src, tgt, ty) \<or> (s, mp, ty') \<in> mlog k" using mount_logged by blast
    then have "safe k s" using assms \<open>ty' \<noteq> ''overlay''\<close> by (auto simp: guard_def mounts_ok_def)
    then show "safe ?k s" by (rule protected_mono [OF _ le])
  qed
  then show ?thesis using assms(1) protected_mono [OF _ le] unfolding guard_def by blast
qed

lemma guard_mount: "mount_frame (fi_fs fi) (guard (tgt = mp) dev) dev tgt"
proof (intro mount_frame.intro guard_fs mount_frame_axioms.intro)
  fix k ty fl opts assume "guard (tgt = mp) dev k"
  then show "guard (tgt = mp) dev (snd (m_mount (fi_fs fi) dev tgt ty fl opts k))" by (intro guard_mounted) (auto simp: guard_def)
next
  fix k p ty fl opts assume g: "guard (tgt = mp) dev k" and "m_Realpath (fi_fs fi) dev k = Some p"
  then have "tgt = mp \<Longrightarrow> safe k p" unfolding guard_def by (blast intro: protected_alias realpath_verity)
  with g show "guard (tgt = mp) dev (snd (m_mount (fi_fs fi) p tgt ty fl opts k))" by (intro guard_mounted) auto
qed

lemma guard_move: "guard c dev k \<Longrightarrow> guard c dev (snd (m_mount (fi_fs fi) src t ty MS_MOVE opts k))"
  by (rule guard_still [OF move_logged mount_verity])

section \<open>Devices\<close>

text \<open>Steps that keep every guard, the table and the handle.\<close>

definition quiet :: "'k FirstStageMount \<Rightarrow> 'k FirstStageMount \<Rightarrow> bool" where
  "quiet st st' \<longleftrightarrow> (\<forall>c dev. guard c dev (fm_kern st) \<longrightarrow> guard c dev (fm_kern st')) \<and>
     fm_fstab st' = fm_fstab st \<and> avb_handle st' = avb_handle st"

lemma quiet_refl [simp]: "fm_kern st' = fm_kern st \<Longrightarrow> fm_fstab st' = fm_fstab st \<Longrightarrow> avb_handle st' = avb_handle st \<Longrightarrow> quiet st st'"
  by (simp add: quiet_def)

lemma quiet_trans [trans]: "quiet st st1 \<Longrightarrow> quiet st1 st2 \<Longrightarrow> quiet st st2"
  unfolding quiet_def by metis

lemma quiet_cong [simp]:
  "quiet (st\<lparr>need_dm_verity := b\<rparr>) st' = quiet st st'" "quiet (st\<lparr>use_snapuserd := b\<rparr>) st' = quiet st st'"
  "quiet (st\<lparr>dsu_not_on_userdata := b\<rparr>) st' = quiet st st'"
  "quiet st (st'\<lparr>super_path := p\<rparr>) = quiet st st'" "quiet st (st'\<lparr>need_dm_verity := b\<rparr>) = quiet st st'"
  "quiet st (st'\<lparr>use_snapuserd := b\<rparr>) = quiet st st'" "quiet st (st'\<lparr>dsu_not_on_userdata := b\<rparr>) = quiet st st'"
  by (simp_all add: quiet_def)

lemma quiet_kern: "op \<in> inert_ops fi \<Longrightarrow> quiet st (st\<lparr>fm_kern := op (fm_kern st)\<rparr>)"
  by (simp add: quiet_def guard_inert)

lemma quiet_on_kern: "op \<in> inert_ops fi \<Longrightarrow> quiet st (on_kern op st)"
  unfolding on_kern_def by (rule quiet_kern)

lemma quiet_call:
  assumes "(\<lambda>k. snd (f k)) \<in> inert_ops fi" and "f (fm_kern st) = (b, k')"
  shows "quiet st (st\<lparr>fm_kern := k'\<rparr>)"
  using quiet_kern [OF assms(1), of st] assms(2) by simp

abbreviation "quiet_step f \<equiv> \<forall>st b st'. f st = Some (Returns (b, st')) \<longrightarrow> quiet st st'"

lemma on_devices_quiet:
  assumes "\<And>c dev d k b d' k'. guard c dev k \<Longrightarrow> f (d, k) = Some (Returns (b, d', k')) \<Longrightarrow> guard c dev k'"
  shows "quiet_step (on_devices f)"
proof (intro allI impI)
  fix st b st' assume "on_devices f st = Some (Returns (b, st'))"
  then obtain d k where f: "f (block_dev_init st, fm_kern st) = Some (Returns (b, d, k))"
    and st': "st' = st\<lparr>block_dev_init := d, fm_kern := k\<rparr>"
    by (auto simp: on_devices_def step_bind_Returns)
  show "quiet st st'" unfolding quiet_def st' using assms [OF _ f] by simp
qed

text \<open>Two steps, the second only after a success of the first.\<close>

lemma quiet_bind:
  assumes "step_bind x (\<lambda>(ok, st). if \<not> ok then Some (Returns (False, st)) else g st) = Some (Returns (b, st'))"
    and "\<And>b st'. x = Some (Returns (b, st')) \<Longrightarrow> quiet st st'"
    and "\<And>st b st'. g st = Some (Returns (b, st')) \<Longrightarrow> quiet st st'"
  shows "quiet st st'"
proof -
  obtain ok1 st1 where 1: "x = Some (Returns (ok1, st1))"
    and 2: "(if \<not> ok1 then Some (Returns (False, st1)) else g st1) = Some (Returns (b, st'))"
    using assms(1) by (auto simp: step_bind_Returns)
  have "quiet st1 st'" using 2 assms(3) by (cases ok1) auto
  then show ?thesis using quiet_trans [OF assms(2) [OF 1]] by blast
qed

lemma devices_quiet: "on_devices (InitDevices (fi_ul fi) ds) st = Some (Returns (b, st')) \<Longrightarrow> quiet st st'"
  by (erule on_devices_quiet [rule_format, rotated]) (rule listener_frame.InitDevices_keeps [OF guard_listener])

lemma dm_quiet: "on_devices (InitDmDevice (fi_ul fi) n) st = Some (Returns (b, st')) \<Longrightarrow> quiet st st'"
  by (erule on_devices_quiet [rule_format, rotated], unfold InitDmDevice_def Let_def)
    (rule listener_frame.InitDevice_keeps [OF guard_listener])

lemma mapper_quiet: "on_devices (InitDeviceMapper (fi_ul fi)) st = Some (Returns (b, st')) \<Longrightarrow> quiet st st'"
  by (erule on_devices_quiet [rule_format, rotated], unfold InitDeviceMapper_def)
    (rule listener_frame.InitMiscDevice_keeps [OF guard_listener])

lemma dm_user_quiet: "on_devices (InitDmUser (fi_ul fi) n) st = Some (Returns (b, st')) \<Longrightarrow> quiet st st'"
  by (erule on_devices_quiet [rule_format, rotated], unfold InitDmUser_def)
    (rule listener_frame.InitMiscDevice_keeps [OF guard_listener])

lemma platform_quiet: "on_devices (InitPlatformDevice (fi_ul fi) n) st = Some (Returns (b, st')) \<Longrightarrow> quiet st st'"
  by (erule on_devices_quiet [rule_format, rotated], unfold InitPlatformDevice_def)
    (rule listener_frame.InitDevice_keeps [OF guard_listener])

lemma boot_uuid_quiet: "on_devices (InitBootDevicesFromPartUuid (fi_ul fi)) st = Some (Returns (b, st')) \<Longrightarrow> quiet st st'"
  by (erule on_devices_quiet [rule_format, rotated]) (rule listener_frame.InitBootDevices_keeps [OF guard_listener])

lemmas device_quiet = devices_quiet dm_quiet mapper_quiet dm_user_quiet platform_quiet boot_uuid_quiet

lemma required_quiet: "InitRequiredDevices fi devices st = Some (Returns (b, st')) \<Longrightarrow> quiet st st'"
  unfolding InitRequiredDevices_def
  by (erule quiet_bind [where g = "\<lambda>st. if devices = {} then Some (Returns (True, st)) else on_devices (InitDevices (fi_ul fi) devices) st"])
    (auto split: if_splits dest: device_quiet)

lemma answer_quiet:
  assumes "\<And>r st b st'. f r st = Some (Returns (b, st')) \<Longrightarrow> quiet st st'"
  shows "answer f rs st = Some (Returns (b, st')) \<Longrightarrow> quiet st st'"
proof (induction rs arbitrary: st)
  case (Cons r rs)
  then obtain ok1 st1 where 1: "f r st = Some (Returns (ok1, st1))"
    and 2: "(if ok1 then answer f rs st1 else Some (Returns (False, st1))) = Some (Returns (b, st'))"
    by (auto simp: step_bind_Returns)
  have "quiet st1 st'" using 2 Cons.IH by (auto split: if_splits)
  then show ?case using quiet_trans assms [OF 1] by blast
qed simp

lemma find_super_quiet: "find_super fi st = Some (Returns (b, st')) \<Longrightarrow> quiet st st'"
  by (auto simp: find_super_def split: if_splits option.splits)

lemma GetDmVerityDevices_quiet: "GetDmVerityDevices fi devices st = (b, devs, st') \<Longrightarrow> quiet st st'"
  by (auto simp: GetDmVerityDevices_def Let_def split: if_splits)

lemma InitDevices_quiet:
  assumes "FSM_InitDevices fi st = Some (Returns (b, st'))"
  shows "quiet st st'"
proof (rule quiet_bind [OF assms [unfolded FSM_InitDevices_def] boot_uuid_quiet])
  fix st b st'
  assume *: "(let (ok, devices, st) = GetDmVerityDevices fi (GetSuperDeviceName st {}) st
             in if \<not> ok then Some (Returns (False, st))
                else
                  step_bind (InitRequiredDevices fi devices st)
                    (\<lambda>(ok, st).
                       if \<not> ok then Some (Returns (False, st))
                       else
                         step_bind
                           (if IsMicrodroid fi \<and> IsOpenDiceChangesFlagEnabled fi \<and> IsMicrodroidStrictBoot fi (fm_kern st)
                            then on_devices (InitPlatformDevice (fi_ul fi) ''open-dice0'') st
                            else Some (Returns (True, st)))
                           (\<lambda>(ok, st). if \<not> ok then Some (Returns (False, st)) else find_super fi st))) = Some (Returns (b, st'))"
  obtain ok1 ds st1 where g: "GetDmVerityDevices fi (GetSuperDeviceName st {}) st = (ok1, ds, st1)" by (metis prod_cases3)
  have "quiet st1 st'"
  proof (cases ok1)
    case True
    show ?thesis
      using * unfolding g Let_def prod.case eqTrueI [OF True] not_True_eq_False if_False
      by (rule quiet_bind) (auto elim!: quiet_bind dest: required_quiet device_quiet find_super_quiet split: if_splits)
  qed (use * g in simp)
  with GetDmVerityDevices_quiet [OF g] show "quiet st st'" by (rule quiet_trans)
qed

lemma request_quiet:
  "init_device_request fi r st = Some (Returns (b, st')) \<Longrightarrow> quiet st st'"
  "snapshot_device_request fi r st = Some (Returns (b, st')) \<Longrightarrow> quiet st st'"
  "dsu_device_request fi ds st = Some (Returns (b, st')) \<Longrightarrow> quiet st st'"
  by (auto simp: init_device_request_def snapshot_device_request_def dsu_device_request_def split: if_splits
      dest!: device_quiet required_quiet)

lemma init_dm_devices_quiet: "init_dm_devices fi devs others st = Some (Returns (b, st')) \<Longrightarrow> quiet st st'"
proof (induction devs arbitrary: others st b st')
  case (Cons d devs)
  then show ?case
    by (cases "StartsWith (fi_lb fi) d ''/dev/block/dm-''") (auto elim!: quiet_bind dest: device_quiet)
qed (simp add: required_quiet)

lemma backing_quiet: "InitDmLinearBackingDevices fi names st = Some (Returns (b, st')) \<Longrightarrow> quiet st st'"
  by (auto simp: InitDmLinearBackingDevices_def Let_def split: if_splits dest: required_quiet)

lemma create_linear_quiet:
  assumes "create_linear fi st = Some (Returns (b, st'))"
  shows "quiet st st'"
proof (cases "lp_block_devices fi (super_path st) (fm_kern st)")
  case (Some names)
  from assms [unfolded create_linear_def Some option.case] show ?thesis
    by (rule quiet_bind)
      (auto split: prod.splits dest: backing_quiet quiet_call [OF inert_ops.logical])
qed (use assms in \<open>simp add: create_linear_def\<close>)

text \<open>A library that answers requests first and then changes the kernel.\<close>

lemma quiet_served:
  assumes "step_bind (answer f rs st) (\<lambda>(ok, st). g ok st) = Some (Returns r)"
    and "\<And>r st b st'. f r st = Some (Returns (b, st')) \<Longrightarrow> quiet st st'"
  obtains served st1 where "quiet st st1" and "g served st1 = Some (Returns r)"
  using assms answer_quiet [of f rs st] by (auto simp: step_bind_Returns)

lemma snapshots_quiet:
  assumes "CreateSnapshotPartitions fi st = Some (Returns (b, st'))"
  shows "quiet st st'"
  using assms unfolding CreateSnapshotPartitions_def
proof (rule quiet_bind)
  fix st b st'
  define st0 where "st0 = (let st = st\<lparr>use_snapuserd := IsSnapuserdRequired fi (fm_kern st)\<rparr>
    in if use_snapuserd st then on_kern (LaunchFirstStageSnapuserd fi) st else st)"
  assume "(let st = st\<lparr>use_snapuserd := IsSnapuserdRequired fi (fm_kern st)\<rparr>;
                 st = (if use_snapuserd st then on_kern (LaunchFirstStageSnapuserd fi) st else st)
             in step_bind (answer (snapshot_device_request fi) (snapshot_requests fi (super_path st) (fm_kern st)) st)
                  (\<lambda>(ok, st).
                     let (created, k) = (if ok then snapshot_create fi (super_path st) (fm_kern st) else (False, fm_kern st));
                         st = st\<lparr>fm_kern := k\<rparr>
                     in if \<not> created then Some (Returns (False, st))
                        else Some (Returns (True, if use_snapuserd st then on_kern (CleanupSnapuserdSocket fi) st else st)))) =
    Some (Returns (b, st'))"
  then have *: "step_bind (answer (snapshot_device_request fi) (snapshot_requests fi (super_path st0) (fm_kern st0)) st0)
                  (\<lambda>(ok, st).
                     let (created, k) = (if ok then snapshot_create fi (super_path st) (fm_kern st) else (False, fm_kern st));
                         st = st\<lparr>fm_kern := k\<rparr>
                     in if \<not> created then Some (Returns (False, st))
                        else Some (Returns (True, if use_snapuserd st then on_kern (CleanupSnapuserdSocket fi) st else st))) =
    Some (Returns (b, st'))"
    by (simp add: st0_def Let_def)
  have 0: "quiet st st0" by (simp add: st0_def Let_def) (metis quiet_cong(2) quiet_on_kern [OF inert_ops.launch])
  obtain served st1 where 1: "quiet st0 st1"
    and 2: "(let (created, k) = (if served then snapshot_create fi (super_path st1) (fm_kern st1) else (False, fm_kern st1));
                         st = st1\<lparr>fm_kern := k\<rparr>
                     in if \<not> created then Some (Returns (False, st))
                        else Some (Returns (True, if use_snapuserd st then on_kern (CleanupSnapuserdSocket fi) st else st))) =
      Some (Returns (b, st'))"
    by (rule quiet_served [OF * request_quiet(2)])
  obtain created k where c: "(if served then snapshot_create fi (super_path st1) (fm_kern st1) else (False, fm_kern st1)) = (created, k)"
    by (metis surj_pair)
  have 3: "quiet st1 (st1\<lparr>fm_kern := k\<rparr>)" using c by (auto split: if_splits dest: quiet_call [OF inert_ops.snapshot])
  have "st' = st1\<lparr>fm_kern := k\<rparr> \<or> st' = on_kern (CleanupSnapuserdSocket fi) (st1\<lparr>fm_kern := k\<rparr>)"
    using 2 unfolding c by (auto simp: Let_def split: if_splits)
  then have "quiet (st1\<lparr>fm_kern := k\<rparr>) st'" using quiet_on_kern [OF inert_ops.cleanup] by auto
  then show "quiet st st'" using quiet_trans 0 1 3 by blast
qed (rule required_quiet)

lemma CreateLogicalPartitions_quiet:
  assumes "CreateLogicalPartitions fi st = Some (Returns (b, st'))"
  shows "quiet st st'"
proof (cases "\<not> IsDmLinearEnabled st \<or> super_path st = [] \<or> \<not> IsSnapshotManagerNeeded fi (fm_kern st)")
  case True
  with assms show ?thesis by (auto simp: CreateLogicalPartitions_def split: if_splits dest: create_linear_quiet)
next
  case False
  then have *: "step_bind (answer (init_device_request fi) (ota_requests fi (fm_kern st)) st)
          (\<lambda>(ok, st).
             let st = (if ok then on_kern (ota_map fi) st else st)
             in if \<not> NewForFirstStageMount fi (fm_kern st) then Some (Returns (False, st))
                else if NeedSnapshotsInFirstStageMount fi (fm_kern st) then CreateSnapshotPartitions fi st
                else create_linear fi st) = Some (Returns (b, st'))"
    using assms by (simp add: CreateLogicalPartitions_def)
  obtain served st1 where 1: "quiet st st1"
    and 2: "(let st = (if served then on_kern (ota_map fi) st1 else st1)
             in if \<not> NewForFirstStageMount fi (fm_kern st) then Some (Returns (False, st))
                else if NeedSnapshotsInFirstStageMount fi (fm_kern st) then CreateSnapshotPartitions fi st
                else create_linear fi st) = Some (Returns (b, st'))"
    by (rule quiet_served [OF * request_quiet(1)])
  have "quiet st1 (if served then on_kern (ota_map fi) st1 else st1)" using quiet_on_kern [OF inert_ops.ota_map] by simp
  moreover have "quiet (if served then on_kern (ota_map fi) st1 else st1) st'"
    using 2 by (auto simp: Let_def split: if_splits dest: snapshots_quiet create_linear_quiet)
  ultimately show ?thesis using 1 quiet_trans by blast
qed

section \<open>Verity\<close>

text \<open>What holds of the object between its steps.\<close>

definition good :: "bool \<Rightarrow> string \<Rightarrow> 'k FirstStageMount \<Rightarrow> bool" where
  "good c dev st \<longleftrightarrow> guard c dev (fm_kern st) \<and> verified_at mp (fm_fstab st) \<and> (\<forall>h. avb_handle st = Some h \<longrightarrow> boot_handle fi h)"

lemma good_quiet: "quiet st st' \<Longrightarrow> good c dev st \<Longrightarrow> good c dev st'"
  by (simp add: good_def quiet_def)

lemma good_weak: "good c dev st \<Longrightarrow> good False dev' st"
  by (simp add: good_def guard_def)

lemma not_permissive [simp]: "\<not> IsAvbPermissive (fi_av fi) k"
  using locked by (simp add: IsAvbPermissive_def)

lemma InitAvbHandle_good:
  assumes "InitAvbHandle fi st = Returns (b, st')" and "good c dev st"
  shows "good c dev st' \<and> fm_fstab st' = fm_fstab st"
proof (cases "avb_handle st' = avb_handle st")
  case True
  then have "st' = st" using assms(1)
    by (cases "avb_handle st") (auto simp: InitAvbHandle_def out_bind_Returns on_kern_def split: option.splits)
  with assms(2) show ?thesis by simp
next
  case False
  then have "avb_handle st = None" using assms(1) by (auto simp: InitAvbHandle_def split: option.splits)
  then obtain r where r: "AvbHandle_Open (fi_av fi) (fm_kern st) = Returns r"
    and st: "(case r of None \<Rightarrow> Returns (False, st)
       | Some h \<Rightarrow> Returns (True, on_kern (fi_setenv fi ''INIT_AVB_VERSION'' (ah_avb_version h)) (st\<lparr>avb_handle := Some h\<rparr>))) = Returns (b, st')"
    using assms(1) unfolding InitAvbHandle_def by (simp only: option.case out_bind_Returns) blast
  obtain h where h: "AvbHandle_Open (fi_av fi) (fm_kern st) = Returns (Some h)"
    and st': "st' = on_kern (fi_setenv fi ''INIT_AVB_VERSION'' (ah_avb_version h)) (st\<lparr>avb_handle := Some h\<rparr>)"
    using r st False by (cases r) simp_all
  have "boot_handle fi h" using open_locked [OF h not_permissive] unfolding boot_handle_def by metis
  moreover have "guard c dev (fi_setenv fi ''INIT_AVB_VERSION'' (ah_avb_version h) (fm_kern st))"
    by (rule guard_inert [OF inert_ops.setenv]) (use assms(2) in \<open>simp add: good_def\<close>)
  ultimately show ?thesis using assms(2) by (simp add: st' good_def on_kern_def)
qed

lemma choose_hashtree_authentic:
  assumes "choose_hashtree fi e h st = (r, st')" and "boot_handle fi h"
  shows "quiet st st' \<and> (r = Inl True \<longrightarrow> IsHashtreeDisabled h) \<and> (\<forall>h'. r = Inr h' \<longrightarrow> authentic fi (fe_mount_point e) h')"
proof -
  have sa: "standalone_handle fi (fe_mount_point e) h'" if "LoadAndVerifyVbmetaEntry (fi_av fi) e blobs k = Some h'" for blobs k h'
    using entry_locked [OF that not_permissive] unfolding standalone_handle_def by metis
  have q: "quiet st (snd (key_blobs (fe_avb_keys e) st))" by (simp add: key_blobs_def split: option.splits)
  show ?thesis
    using assms q unfolding authentic_def
    by (auto simp: choose_hashtree_def split_beta Let_def split: if_splits option.splits dest: sa)
qed

lemma hashtree_guard:
  assumes "SetUpAvbHashtree (fi_av fi) h wt e k = Returns (r, e', k')" and "guard c dev k"
  shows "guard c dev k'" and "\<exists>d. e' = e\<lparr>fe_blk_device := d\<rparr>" and "r = Hashtree_Disabled \<Longrightarrow> IsHashtreeDisabled h"
    and "r = Hashtree_Success \<Longrightarrow> authentic fi mp h \<Longrightarrow> fe_mount_point e = mp \<Longrightarrow> safe k' (fe_blk_device e')"
proof -
  have cr: "guard c dev k1" if "dm_create (fi_av fi) n t w k = (d, k1)" for n t w d k1
    using create_still [of n t w k] guard_still assms(2) that by auto
  have same: "\<exists>d. e = e\<lparr>fe_blk_device := d\<rparr>" by (rule exI [of _ "fe_blk_device e"]) simp
  show "guard c dev k'" and "\<exists>d. e' = e\<lparr>fe_blk_device := d\<rparr>"
    using hashtree_calls [OF assms(1)] assms(2) same
    by (auto split: option.splits dest: cr intro: guard_inert [OF inert_ops.set_readonly])
  show "IsHashtreeDisabled h" if "r = Hashtree_Disabled"
    using assms(1) that by (auto simp: SetUpAvbHashtree_def IsHashtreeDisabled_def out_bind_Returns split: if_splits)
  show "safe k' (fe_blk_device e')" if s: "r = Hashtree_Success" and "authentic fi mp h" "fe_mount_point e = mp"
  proof -
    obtain htd t k1 d where v: "GetHashtreeDescriptor (fi_av fi)
        (DeriveAvbPartitionName (fi_av fi) e (ah_slot_suffix h) (ah_other_slot_suffix h)) (ah_vbmeta_images h) = Some htd"
      "vt_root_digest t = hd_root_digest htd" "vt_salt t = hd_salt htd" "vt_block_device t = fe_blk_device e" "vt_readonly t"
      and d: "dm_create (fi_av fi) (GetVerityDeviceName (av_fv (fi_av fi)) e) t wt k = (Some d, k1)"
      and e': "e' = e\<lparr>fe_blk_device := d\<rparr>" and k': "k' = snd (av_set_readonly (fi_av fi) (fe_blk_device e) k1)"
      using verity_setup [OF assms(1) [unfolded s]] by metis
    have "verity k1 d = Some t" by (rule create_verity [OF d])
    then have "verity k' d = Some t" using inert [OF inert_ops.set_readonly] unfolding k' by (metis domI map_le_def)
    then show ?thesis using that v e' unfolding protected_def by auto
  qed
qed

lemma verity_device_good:
  assumes run: "SetUpAvbHashtree (fi_av fi) h False e (fm_kern st) = Returns (r, e1, k)"
    and good: "good False [] st" and auth: "authentic fi (fe_mount_point e) h"
    and rest: "(case r of
                  Hashtree_Disabled \<Rightarrow> Some (Returns (True, e1, st\<lparr>fm_kern := k\<rparr>))
                | Hashtree_Success \<Rightarrow>
                    step_bind (on_devices (InitDmDevice (fi_ul fi) (fe_blk_device e1)) (st\<lparr>fm_kern := k\<rparr>))
                      (\<lambda>(ok, st). Some (Returns (ok, e1, st)))
                | Hashtree_Fail \<Rightarrow> Some (Returns (False, e1, st\<lparr>fm_kern := k\<rparr>))) = Some (Returns (b, e', st'))"
  shows "good (b \<and> fe_mount_point e = mp) (fe_blk_device e') st' \<and> fm_fstab st' = fm_fstab st \<and> (\<exists>d. e' = e\<lparr>fe_blk_device := d\<rparr>)"
proof -
  have g0: "guard False [] (fm_kern st)" using good by (simp add: good_def)
  note hg = hashtree_guard [OF run g0]
  have k: "good False [] (st\<lparr>fm_kern := k\<rparr>)" using good hg(1) by (simp add: good_def)
  show ?thesis
  proof (cases r)
    case Hashtree_Success
    then have "step_bind (on_devices (InitDmDevice (fi_ul fi) (fe_blk_device e1)) (st\<lparr>fm_kern := k\<rparr>))
        (\<lambda>(ok, st). Some (Returns (ok, e1, st))) = Some (Returns (b, e', st'))"
      using rest by (simp only: AvbHashtreeResult.case)
    then have 1: "on_devices (InitDmDevice (fi_ul fi) (fe_blk_device e1)) (st\<lparr>fm_kern := k\<rparr>) = Some (Returns (b, st'))" and e': "e' = e1"
      by (auto simp: step_bind_Returns)
    have q: "quiet (st\<lparr>fm_kern := k\<rparr>) st'" by (rule dm_quiet [OF 1])
    have "fe_mount_point e = mp \<Longrightarrow> safe k (fe_blk_device e1)" using hg(4) [OF Hashtree_Success] auth by simp
    then have "good (b \<and> fe_mount_point e = mp) (fe_blk_device e1) (st\<lparr>fm_kern := k\<rparr>)" using k by (simp add: good_def guard_def)
    then have "good (b \<and> fe_mount_point e = mp) (fe_blk_device e1) st'" by (rule good_quiet [OF q])
    then show ?thesis using q hg(2) e' by (simp add: quiet_def)
  next
    case Hashtree_Fail
    with rest k hg(2) show ?thesis by (auto simp: good_def)
  next
    case Hashtree_Disabled
    have "fe_mount_point e = mp \<Longrightarrow> safe k (fe_blk_device e1)" using disabled_protected [of fi mp h] auth hg(3) [OF Hashtree_Disabled] by simp
    then show ?thesis using rest Hashtree_Disabled k hg(2) by (auto simp: good_def guard_def)
  qed
qed

lemma SetUpDmVerity_good:
  assumes run: "SetUpDmVerity fi e st = Some (Returns (b, e', st'))"
    and good: "good False [] st" and asks: "fe_mount_point e = mp \<Longrightarrow> asks_avb e"
  shows "good (b \<and> fe_mount_point e = mp) (fe_blk_device e') st' \<and> fm_fstab st' = fm_fstab st \<and> (\<exists>d. e' = e\<lparr>fe_blk_device := d\<rparr>)"
    (is "?goal b e' st'")
proof -
  have same: "\<exists>d. e = e\<lparr>fe_blk_device := d\<rparr>" by (rule exI [of _ "fe_blk_device e"]) simp
  have fail: "?goal False e st1" if "good False [] st1" "fm_fstab st1 = fm_fstab st" for st1
    using that same by (simp add: good_def)
  show ?thesis
  proof (cases "asks_avb e")
    case False
    then have "b \<and> e' = e \<and> st' = st" using run by (auto simp: SetUpDmVerity_def asks_avb_def)
    then show ?thesis using good asks False same by (auto simp: good_def guard_def)
  next
    case True
    then obtain ok1 st1 where 1: "InitAvbHandle fi st = Returns (ok1, st1)"
      and 2: "(case avb_handle st1 of
               None \<Rightarrow> Some (Returns (False, e, st1))
             | Some h \<Rightarrow>
                 if \<not> ok1 then Some (Returns (False, e, st1))
                 else
                   (case choose_hashtree fi e h st1 of
                      (Inl verdict, st) \<Rightarrow> Some (Returns (verdict, e, st))
                    | (Inr h, st) \<Rightarrow>
                        step_bind (Some (SetUpAvbHashtree (fi_av fi) h False e (fm_kern st)))
                          (\<lambda>(r, e, k).
                             let st = st\<lparr>fm_kern := k\<rparr>
                             in case r of
                                  Hashtree_Disabled \<Rightarrow> Some (Returns (True, e, st))
                                | Hashtree_Success \<Rightarrow>
                                    step_bind (on_devices (InitDmDevice (fi_ul fi) (fe_blk_device e)) st)
                                      (\<lambda>(ok, st). Some (Returns (ok, e, st)))
                                | Hashtree_Fail \<Rightarrow> Some (Returns (False, e, st))))) = Some (Returns (b, e', st'))"
      using run by (auto simp: SetUpDmVerity_def asks_avb_def step_bind_Returns split: if_splits)
    have g1: "good False [] st1" and t1: "fm_fstab st1 = fm_fstab st" using InitAvbHandle_good [OF 1 good] by auto
    show ?thesis
    proof (cases "avb_handle st1 = None \<or> \<not> ok1")
      case True
      then have "b = False \<and> e' = e \<and> st' = st1" using 2 by (auto split: option.splits)
      with fail [OF g1 t1] show ?thesis by simp
    next
      case False
      then obtain h where h: "avb_handle st1 = Some h" and ok1: "ok1" by auto
      have boot: "boot_handle fi h" using g1 h by (simp add: good_def)
      obtain r st2 where r: "choose_hashtree fi e h st1 = (r, st2)" by force
      note ch = choose_hashtree_authentic [OF r boot]
      have g2: "good False [] st2" using good_quiet g1 ch by blast
      have t2: "fm_fstab st2 = fm_fstab st" using ch t1 by (simp add: quiet_def)
      show ?thesis
      proof (cases r)
        case (Inl v)
        then have res: "b = v \<and> e' = e \<and> st' = st2" using 2 h ok1 r by simp
        have "v \<Longrightarrow> fe_mount_point e = mp \<Longrightarrow> safe (fm_kern st2) (fe_blk_device e)"
          using ch Inl boot by (intro disabled_protected [of fi mp h]) (auto simp: authentic_def)
        then show ?thesis using g2 t2 same res by (auto simp: good_def guard_def)
      next
        case (Inr h')
        then obtain r2 e2 k2 where 3: "SetUpAvbHashtree (fi_av fi) h' False e (fm_kern st2) = Returns (r2, e2, k2)"
          and 4: "(case r2 of
                  Hashtree_Disabled \<Rightarrow> Some (Returns (True, e2, st2\<lparr>fm_kern := k2\<rparr>))
                | Hashtree_Success \<Rightarrow>
                    step_bind (on_devices (InitDmDevice (fi_ul fi) (fe_blk_device e2)) (st2\<lparr>fm_kern := k2\<rparr>))
                      (\<lambda>(ok, st). Some (Returns (ok, e2, st)))
                | Hashtree_Fail \<Rightarrow> Some (Returns (False, e2, st2\<lparr>fm_kern := k2\<rparr>))) = Some (Returns (b, e', st'))"
          using 2 h ok1 r by (auto simp: step_bind_Returns Let_def)
        show ?thesis using verity_device_good [OF 3 g2 _ 4] ch Inr t2 by simp
      qed
    qed
  qed
qed

section \<open>Mounting\<close>

lemma asks_device [simp]: "asks_avb (e\<lparr>fe_blk_device := d\<rparr>) = asks_avb e"
  by (simp add: asks_avb_def)

lemma verified_put:
  assumes "verified_at mp tab" and "fe_mount_point e = fe_mount_point (tab ! i)" and "asks_avb e = asks_avb (tab ! i)"
  shows "verified_at mp (tab[i := e])"
proof (cases "i < length tab")
  case True
  then have "tab ! i \<in> set tab" by simp
  then show ?thesis using assms set_update_subset_insert [of tab i e] by (auto simp: verified_at_def)
qed (use assms(1) in \<open>simp add: list_update_beyond\<close>)

lemma good_put: "good c dev st \<Longrightarrow> good c dev (fm_put i ((fm_fstab st ! i)\<lparr>fe_blk_device := d\<rparr>) st)"
  by (simp add: good_def fm_put_def verified_put)

lemma mount_one_good:
  assumes "mount_one fi e st = Some (Returns (b, st'))" and "good (fe_mount_point e = mp) (fe_blk_device e) st"
  shows "good (fe_mount_point e = mp) (fe_blk_device e) st' \<and> fm_fstab st' = fm_fstab st"
proof -
  obtain r k where 1: "fs_mgr_do_mount_one (fi_fs fi) e [] (fm_kern st) = Some (Returns (r, k))" and st': "st' = st\<lparr>fm_kern := k\<rparr>"
    using assms(1) by (auto simp: mount_one_def step_bind_Returns)
  have "guard (fe_mount_point e = mp) (fe_blk_device e) (fm_kern st)" using assms(2) by (simp add: good_def)
  from mount_frame.do_mount_one_keeps [OF guard_mount this 1 refl refl]
  show ?thesis using assms(2) by (simp add: good_def st')
qed

lemma mount_others_good:
  assumes "mount_others fi dev is mounted st = Some (Returns (b, st'))" and "good (tgt = mp) dev st"
    and "\<forall>j \<in> set is. j < length (fm_fstab st) \<and> fe_mount_point (fm_fstab st ! j) = tgt"
  shows "good (tgt = mp) dev st' \<and> length (fm_fstab st') = length (fm_fstab st)"
  using assms
proof (induction "is" arbitrary: mounted st)
  case (Cons i "is")
  show ?case
  proof (cases mounted)
    case True
    with Cons show ?thesis by simp
  next
    case False
    let ?e = "(fm_fstab st ! i)\<lparr>fe_blk_device := dev\<rparr>"
    obtain b1 st1 where 1: "mount_one fi ?e (fm_put i ?e st) = Some (Returns (b1, st1))"
      and 2: "mount_others fi dev is b1 st1 = Some (Returns (b, st'))"
      using Cons.prems(1) False by (auto simp: Let_def step_bind_Returns)
    have tgt: "fe_mount_point ?e = tgt" and i: "i < length (fm_fstab st)" using Cons.prems(3) by auto
    have g: "good (tgt = mp) dev (fm_put i ?e st)" by (rule good_put [OF Cons.prems(2)])
    have "good (tgt = mp) dev st1 \<and> fm_fstab st1 = (fm_fstab st)[i := ?e]"
      using mount_one_good [OF 1] g tgt by (simp add: fm_put_def)
    moreover from this have "\<forall>j \<in> set is. j < length (fm_fstab st1) \<and> fe_mount_point (fm_fstab st1 ! j) = tgt"
      using Cons.prems(3) tgt i by (auto simp: nth_list_update)
    ultimately show ?thesis using Cons.IH [OF 2] by simp
  qed
qed simp

lemma mount_group_good:
  assumes "mount_group fi i erase st = Some (Returns (b, n, st'))" and "i < length (fm_fstab st)"
    and "good (fe_mount_point (fm_fstab st ! i) = mp) (fe_blk_device (fm_fstab st ! i)) st"
  shows "good False [] st'"
proof -
  let ?e = "fm_fstab st ! i" and ?group = "same_mount_point (fm_fstab st) i"
  obtain b1 st1 b2 st2 where 1: "mount_one fi ?e st = Some (Returns (b1, st1))"
    and 2: "mount_others fi (fe_blk_device ?e) (tl ?group) b1 st1 = Some (Returns (b2, st2))"
    and 3: "st' = (if erase then st2\<lparr>fm_fstab := take i (fm_fstab st2) @ drop (i + length ?group) (fm_fstab st2)\<rparr> else st2)"
    using assms(1) by (auto simp: mount_group_def Let_def step_bind_Returns split: if_splits)
  have g1: "good (fe_mount_point ?e = mp) (fe_blk_device ?e) st1" and t1: "fm_fstab st1 = fm_fstab st"
    using mount_one_good [OF 1 assms(3)] by auto
  have "\<forall>j \<in> set (tl ?group). j < length (fm_fstab st1) \<and> fe_mount_point (fm_fstab st1 ! j) = fe_mount_point ?e"
  proof -
    have "set (tl ?group) \<subseteq> set ?group" by (cases ?group) auto
    moreover have "\<forall>j \<in> set ?group. j < length (fm_fstab st) \<and> fe_mount_point (fm_fstab st ! j) = fe_mount_point ?e"
      unfolding same_mount_point_def by (auto dest: set_takeWhileD)
    ultimately show ?thesis unfolding t1 by blast
  qed
  then have "good (fe_mount_point ?e = mp) (fe_blk_device ?e) st2" using mount_others_good [OF 2 g1] by blast
  then have "good False [] st2" by (rule good_weak)
  then show ?thesis unfolding 3
    by (auto simp: good_def verified_at_def dest: in_set_takeD in_set_dropD)
qed

lemma fm_device_good:
  assumes "fm_device fi i st = Some (Returns (b, st'))" and "good c dev st"
  shows "good c dev st' \<and> length (fm_fstab st') = length (fm_fstab st)"
proof (cases "F_logical \<in> fe_fs_mgr_flags (fm_fstab st ! i)")
  case True
  obtain ok1 e1 where u: "fs_mgr_update_logical_partition (fi_fs fi) (fm_fstab st ! i) (fm_kern st) = (ok1, e1)" by force
  have "\<exists>d. e1 = (fm_fstab st ! i)\<lparr>fe_blk_device := d\<rparr>"
    using u by (auto simp: fs_mgr_update_logical_partition_def split: if_splits option.splits intro: exI [of _ "fe_blk_device (fm_fstab st ! i)"])
  then have g: "good c dev (fm_put i e1 st)" using good_put [OF assms(2)] by auto
  have "quiet (fm_put i e1 st) st'"
    using assms(1) True u by (auto simp: fm_device_def Let_def split: if_splits dest: dm_quiet)
  with good_quiet [OF this g] show ?thesis by (simp add: quiet_def fm_put_def)
qed (use assms in \<open>simp add: fm_device_def Let_def\<close>)

lemma MountPartition_good:
  assumes "MountPartition fi i erase st = Some (Returns (b, n, st'))" and "i < length (fm_fstab st)" and "good False [] st"
  shows "good False [] st'"
proof -
  obtain ok1 k where 1: "fs_mgr_create_canonical_mount_point (fi_fs fi) (fe_mount_point (fm_fstab st ! i)) (fm_kern st) = (ok1, k)" by force
  have "guard False [] (fm_kern st)" using assms(3) by (simp add: good_def)
  from fs_frame.canonical_mount_point_keeps [OF guard_fs this, of "fe_mount_point (fm_fstab st ! i)"]
  have g1: "good False [] (st\<lparr>fm_kern := k\<rparr>)" using assms(3) by (simp add: good_def 1)
  show ?thesis
  proof (cases ok1)
    case False
    with assms(1) 1 g1 show ?thesis by (simp add: MountPartition_def)
  next
    case True
    then obtain ok2 st2 where 2: "fm_device fi i (st\<lparr>fm_kern := k\<rparr>) = Some (Returns (ok2, st2))"
      and 3: "(if \<not> ok2 then Some (Returns (False, i + 1, st2))
                else
                  step_bind (SetUpDmVerity fi (fm_fstab st2 ! i) st2)
                    (\<lambda>(ok, e, st).
                       let st = fm_put i e st
                       in if \<not> ok then Some (Returns (False, i + 1, st)) else mount_group fi i erase st)) = Some (Returns (b, n, st'))"
      using assms(1) 1 by (auto simp: MountPartition_def step_bind_Returns)
    have g2: "good False [] st2" and i: "i < length (fm_fstab st2)" using fm_device_good [OF 2 g1] assms(2) by auto
    show ?thesis
    proof (cases ok2)
      case False
      with 3 g2 show ?thesis by simp
    next
      case True
      then obtain ok3 e st3 where 4: "SetUpDmVerity fi (fm_fstab st2 ! i) st2 = Some (Returns (ok3, e, st3))"
        and 5: "(if \<not> ok3 then Some (Returns (False, i + 1, fm_put i e st3)) else mount_group fi i erase (fm_put i e st3)) = Some (Returns (b, n, st'))"
        using 3 by (auto simp: Let_def step_bind_Returns)
      have "fm_fstab st2 ! i \<in> set (fm_fstab st2)" using i by simp
      then have asks: "fe_mount_point (fm_fstab st2 ! i) = mp \<Longrightarrow> asks_avb (fm_fstab st2 ! i)" using g2 by (simp add: good_def verified_at_def)
      from SetUpDmVerity_good [OF 4 g2 asks] obtain d where e: "e = (fm_fstab st3 ! i)\<lparr>fe_blk_device := d\<rparr>" and t: "fm_fstab st3 = fm_fstab st2"
        and g3: "good (ok3 \<and> fe_mount_point e = mp) (fe_blk_device e) st3" by auto
      have g4: "good (ok3 \<and> fe_mount_point e = mp) (fe_blk_device e) (fm_put i e st3)" unfolding e using g3 [unfolded e] by (rule good_put)
      show ?thesis
      proof (cases ok3)
        case False
        with 5 good_weak [OF g4] show ?thesis by auto
      next
        case True
        then have "mount_group fi i erase (fm_put i e st3) = Some (Returns (b, n, st'))" using 5 by simp
        from mount_group_good [OF this] show ?thesis using g4 True i t by (simp add: fm_put_def)
      qed
    qed
  qed
qed

section \<open>The whole stage\<close>

lemma move_mounts_guard: "guard c dev k \<Longrightarrow> move_mounts fi root mounts k = Returns k' \<Longrightarrow> guard c dev k'"
proof (induction mounts arbitrary: k)
  case (Cons m mounts)
  let ?k = "snd (m_mount (fi_fs fi) m (root @ m) [] MS_MOVE [] (snd (m_mkdir (fi_fs fi) (root @ m) k)))"
  have "guard c dev ?k"
    by (rule guard_move, rule guard_inert [OF inert_ops.fs [OF fs_ops.mkdir]], rule Cons.prems(1))
  then show ?case using Cons.IH [of ?k] Cons.prems(2) by (simp add: Let_def split_beta split: if_splits)
qed simp

lemma SwitchRoot_guard:
  assumes "SwitchRoot fi root k = Returns k'" and "guard c dev k"
  shows "guard c dev k'"
proof -
  obtain mounts k1 where 1: "move_mounts fi root mounts k = Returns k1"
    and 2: "k' = snd (fi_chroot fi ''.'' (snd (m_mount (fi_fs fi) root ''/'' [] MS_MOVE [] (snd (fi_chdir fi root k1)))))"
    using assms(1) by (auto simp: SwitchRoot_def out_bind_Returns split_beta Let_def split: if_splits)
  have "guard c dev k1" by (rule move_mounts_guard [OF assms(2) 1])
  then show ?thesis unfolding 2
    by (intro guard_inert [OF inert_ops.chroot] guard_move guard_inert [OF inert_ops.chdir])
qed

lemma dsu_verified: "verified_at mp tab \<Longrightarrow> verified_at mp (dsu_partition fv slot part tab)"
  unfolding verified_at_def dsu_partition_def update_where_def Let_def
  by (auto simp: asks_avb_def dsu_userdata_entry_def set_fm_def dsu_ro_entry_def dsu_new_entry_def Let_def
      split: if_splits dest!: in_set_takeD in_set_dropD)

lemma transform_verified: "verified_at mp tab \<Longrightarrow> verified_at mp (TransformFstabForDsu fv slot parts tab)"
  unfolding TransformFstabForDsu_def by (induction parts arbitrary: tab) (simp_all add: dsu_verified)

lemma apply_dsu_good:
  assumes "good c dev st"
  shows "good c dev (apply_dsu fi slot served st)"
proof -
  let ?dir = "''dsu/'' @ slot"
  obtain mapped k1 where m: "(if served then images_map fi ?dir (fm_kern st) else (False, fm_kern st)) = (mapped, k1)"
    by (metis surj_pair)
  have g1: "guard c dev k1"
    using m assms guard_inert [OF inert_ops.images_map, of c dev "fm_kern st" ?dir] by (auto simp: good_def split: if_splits)
  obtain marked k2 where k2: "MarkSystemAsGsi fi k1 = (marked, k2)" by force
  have g2: "guard c dev k2" using guard_inert [OF inert_ops.mark_gsi g1] k2 by simp
  have g3: "guard c dev (snd (m_write (fi_fs fi) s p k2))" for s p by (rule guard_inert [OF inert_ops.fs [OF fs_ops.write_file] g2])
  show ?thesis unfolding apply_dsu_def Let_def m prod.case
    using assms g1 g2 g3 by (simp add: k2 good_def transform_verified)
qed

lemma UseDsu_good:
  assumes "UseDsuIfPresent fi st = Some (Returns st')" and "good c dev st"
  shows "good c dev st'"
proof -
  have "st' = st \<or> (\<exists>slot served st1. quiet st st1 \<and> st' = apply_dsu fi slot served st1)"
    using assms(1) answer_quiet [OF request_quiet(3)]
    by (fastforce simp: UseDsuIfPresent_def step_bind_Returns split: if_splits option.splits)
  then show ?thesis using assms(2) good_quiet apply_dsu_good by blast
qed

lemma first_index_less: "first_index P xs = Some i \<Longrightarrow> i < length xs"
  unfolding first_index_def find_Some_iff by auto

lemma switch_good:
  assumes "switch_to_system fi i st = Some (Returns (b, st'))" and "i < length (fm_fstab st)" and "good False [] st"
  shows "good False [] st'"
proof -
  obtain b1 n st1 where 1: "MountPartition fi i False st = Some (Returns (b1, n, st1))"
    and 2: "st' = st1 \<or> (\<exists>k. SwitchRoot fi ''/system'' (fm_kern st1) = Returns k \<and> st' = st1\<lparr>fm_kern := k\<rparr>)"
    using assms(1) by (auto simp: switch_to_system_def step_bind_Returns split: if_splits)
  have "good False [] st1" by (rule MountPartition_good [OF 1 assms(2,3)])
  with 2 show ?thesis by (auto simp: good_def dest: SwitchRoot_guard [of "''/system''" _ _ False "[]"])
qed

lemma TrySwitch_good:
  assumes "TrySwitchSystemAsRoot fi st = Some (Returns (b, st'))" and "good False [] st"
  shows "good False [] st'"
proof -
  obtain st1 where 1: "UseDsuIfPresent fi st = Some (Returns st1)"
    and 2: "(case first_index (\<lambda>e. fe_mount_point e = ''/system'') (fm_fstab (PreloadAvbKeys fi st1)) of
               None \<Rightarrow> Some (Returns (True, PreloadAvbKeys fi st1))
             | Some i \<Rightarrow> switch_to_system fi i (if use_snapuserd (PreloadAvbKeys fi st1)
                 then on_kern (SaveRamdiskPathToSnapuserd fi) (PreloadAvbKeys fi st1) else PreloadAvbKeys fi st1)) = Some (Returns (b, st'))"
    using assms(1) by (auto simp: TrySwitchSystemAsRoot_def step_bind_Returns Let_def)
  let ?st2 = "PreloadAvbKeys fi st1"
  let ?st3 = "if use_snapuserd ?st2 then on_kern (SaveRamdiskPathToSnapuserd fi) ?st2 else ?st2"
  have "good False [] st1" by (rule UseDsu_good [OF 1 assms(2)])
  then have g2: "good False [] ?st2" by (simp add: good_def PreloadAvbKeys_def)
  have q: "quiet ?st2 ?st3" using quiet_on_kern [OF inert_ops.save_path] by simp
  show ?thesis
  proof (cases "first_index (\<lambda>e. fe_mount_point e = ''/system'') (fm_fstab ?st2)")
    case None
    with 2 g2 show ?thesis by auto
  next
    case (Some i)
    have 3: "switch_to_system fi i ?st3 = Some (Returns (b, st'))" using 2 unfolding Some option.case .
    have "fm_fstab ?st3 = fm_fstab ?st2" using q unfolding quiet_def by blast
    then have "i < length (fm_fstab ?st3)" using first_index_less [OF Some] by metis
    then show ?thesis by (rule switch_good [OF 3 _ good_quiet [OF q g2]])
  qed
qed

lemma derive_good: "MaybeDeriveMicrodroidVendorDiceNode fi st = (b, st') \<Longrightarrow> good c dev st \<Longrightarrow> good c dev st'"
  using guard_inert [OF inert_ops.execve] guard_inert [OF inert_ops.sigchld]
  by (auto simp: MaybeDeriveMicrodroidVendorDiceNode_def Let_def good_def split_beta split: option.splits)

lemma mount_rest_good:
  assumes "mount_rest fi i st = Some out" and "out = Returns (b, st')" and "good False [] st"
  shows "good False [] st'"
proof -
  let ?P = "\<lambda>fi' i st out. \<forall>b st'. fi' = fi \<longrightarrow> out = Returns (b, st') \<longrightarrow> good False [] st \<longrightarrow> good False [] st'"
  have "?P fi i st out"
  proof (rule mount_rest.raw_induct [where P = ?P, OF _ assms(1)], intro allI impI)
    fix MR fi' current st out b st'
    assume IH: "\<And>fi i st out. MR fi i st = Some out \<Longrightarrow> ?P fi i st out"
      and body: "(if \<not> current < length (fm_fstab st) then Some (Returns (True, st))
      else
        (let e = fm_fstab st ! current
         in if fe_mount_point e = ''/system'' \<or> fe_fs_type e = ''overlay'' \<or> fe_fs_type e = ''emmc''
            then MR fi' (current + 1) st
            else
              step_bind (MountPartition fi' current False st)
                (\<lambda>(mounted, end, st).
                   if \<not> mounted \<and> F_no_fail \<notin> fe_fs_mgr_flags (fm_fstab st ! current) \<and>
                      F_formattable \<notin> fe_fs_mgr_flags (fm_fstab st ! current)
                   then Some (Returns (False, st))
                   else MR fi' end st))) = Some out"
      and fi: "fi' = fi" and out: "out = Returns (b, st')" and good: "good False [] st"
    consider "\<not> current < length (fm_fstab st)" | "MR fi (current + 1) st = Some out"
      | m n st1 where "current < length (fm_fstab st)" "MountPartition fi current False st = Some (Returns (m, n, st1))" "st' = st1 \<or> MR fi n st1 = Some out"
      using body out unfolding fi by (auto simp: Let_def step_bind_Returns split: if_splits)
    then show "good False [] st'"
    proof cases
      case 1
      with body out good show ?thesis by simp
    next
      case 2
      with IH good out show ?thesis by blast
    next
      case 3
      have "good False [] st1" by (rule MountPartition_good [OF 3(2,1) good])
      with 3(3) IH out show ?thesis by blast
    qed
  qed
  with assms(2,3) show ?thesis by blast
qed

lemma overlay_ok:
  assumes "ok k"
  shows "ok (snd (fs_mgr_mount_overlayfs_fstab_entry (fi_fs fi) e k))"
proof -
  have c: "ok (snd (fs_mgr_create_canonical_mount_point (fi_fs fi) p k))" for p
    using fs_frame.canonical_mount_point_keeps [OF guard_fs, of False "[]" k p] assms by simp
  have m: "ok k' \<Longrightarrow> ok (snd (m_mount (fi_fs fi) src tgt ''overlay'' fl opts k'))" for k' src tgt fl opts
    using guard_mounted [of False "[]" k' tgt "''overlay''"] by simp
  show ?thesis using assms c m by (simp add: fs_mgr_mount_overlayfs_fstab_entry_def Let_def split_beta split: option.splits)
qed

lemma mount_overlays_ok:
  assumes "ok (fm_kern st)"
  shows "ok (fm_kern (mount_overlays fi st))"
proof -
  have "ok (fold (\<lambda>e k. if fe_fs_type e = ''overlay'' then snd (fs_mgr_mount_overlayfs_fstab_entry (fi_fs fi) e k) else k) es k)"
    if "ok k" for es k
    using that by (induction es arbitrary: k) (simp_all add: overlay_ok)
  then show ?thesis using assms by (simp add: mount_overlays_def on_kern_def)
qed

lemma overlays_ok:
  assumes "ok k"
  shows "ok (snd (overlayfs_mount_all fi tab k))"
proof -
  let ?k = "snd (overlayfs_mount_all fi tab k)"
  have le: "verity k \<subseteq>\<^sub>m verity ?k" and log: "mlog ?k \<subseteq> mlog k \<union> {(s, t, ty). ty = ''overlay'' \<or> t = ''/mnt/scratch''}"
    using overlays by auto
  show ?thesis unfolding mounts_ok_def
  proof (clarify)
    fix s ty assume "(s, mp, ty) \<in> mlog ?k" and ty: "ty \<noteq> ''overlay''"
    then have "(s, mp, ty) \<in> mlog k" using log not_scratch by blast
    then have "safe k s" using assms ty by (auto simp: mounts_ok_def)
    then show "safe ?k s" by (rule protected_mono [OF _ le])
  qed
qed

lemma mount_scratch_ok:
  assumes "mount_scratch fi st = Some (Returns st')" and "ok (fm_kern st)"
  shows "ok (fm_kern st')"
proof -
  obtain served st1 where 1: "answer (\<lambda>devs. init_dm_devices fi devs {}) (scratch_requests fi (fm_fstab st) (fm_kern st)) st = Some (Returns (served, st1))"
    and 2: "st' = (let (tab, k) = (if served then scratch_map fi (fm_fstab st1) (fm_kern st1) else (fm_fstab st1, fm_kern st1));
              (tab, k) = overlayfs_mount_all fi tab k in st1\<lparr>fm_fstab := tab, fm_kern := k\<rparr>)"
    using assms(1) by (auto simp: mount_scratch_def step_bind_Returns split_beta)
  have "quiet st st1" by (rule answer_quiet [OF init_dm_devices_quiet 1])
  then have "guard False [] (fm_kern st1)" using assms(2) unfolding quiet_def by (metis guard_none)
  then have "ok (fm_kern st1)" by simp
  moreover have "ok (snd (scratch_map fi tab (fm_kern st1)))" for tab
    using guard_inert [OF inert_ops.scratch, of False "[]"] calculation by simp
  ultimately show ?thesis unfolding 2 by (simp add: Let_def split_beta overlays_ok)
qed

lemma skip_verified: "verified_at mp tab \<Longrightarrow> verified_at mp (SkipMountingPartitions fv tab)"
  by (auto simp: SkipMountingPartitions_def SkipMountWithConfig_def verified_at_def Let_def split: option.splits)

lemma MountPartitions_ok:
  assumes "MountPartitions fi st = Some (Returns (b, st'))" and "good False [] st"
  shows "ok (fm_kern st')"
proof -
  obtain b1 st1 where 1: "TrySwitchSystemAsRoot fi st = Some (Returns (b1, st1))"
    and 2: "(if \<not> b1 then Some (Returns (False, st1))
          else
            (let (ok, st) = (if IsMicrodroid fi \<and> IsOpenDiceChangesFlagEnabled fi
                             then MaybeDeriveMicrodroidVendorDiceNode fi st1 else (True, st1))
             in if \<not> ok then Some (Returns (False, st))
                else
                  step_bind (mount_rest fi 0 (st\<lparr>fm_fstab := SkipMountingPartitions (fv_at (fi_fs fi) (fm_kern st)) (fm_fstab st)\<rparr>))
                    (\<lambda>(ok, st).
                       if \<not> ok then Some (Returns (False, st))
                       else step_bind (mount_scratch fi (add_root_entry fi (mount_overlays fi st)))
                              (\<lambda>st. Some (Returns (True, st)))))) = Some (Returns (b, st'))"
    using assms(1) by (auto simp: MountPartitions_def step_bind_Returns)
  have g1: "good False [] st1" by (rule TrySwitch_good [OF 1 assms(2)])
  obtain b2 st2 where d: "(if IsMicrodroid fi \<and> IsOpenDiceChangesFlagEnabled fi
      then MaybeDeriveMicrodroidVendorDiceNode fi st1 else (True, st1)) = (b2, st2)" by (metis surj_pair)
  have g2: "good False [] st2" using d g1 derive_good by (auto split: if_splits)
  let ?st2 = "st2\<lparr>fm_fstab := SkipMountingPartitions (fv_at (fi_fs fi) (fm_kern st2)) (fm_fstab st2)\<rparr>"
  have g2': "good False [] ?st2" using g2 by (simp add: good_def skip_verified)
  consider "st' = st1" | "st' = st2" | b3 st3 where "mount_rest fi 0 ?st2 = Some (Returns (b3, st3))"
    "st' = st3 \<or> mount_scratch fi (add_root_entry fi (mount_overlays fi st3)) = Some (Returns st')"
    using 2 unfolding d by (auto simp: step_bind_Returns split: if_splits)
  then show ?thesis
  proof cases
    case 3
    have "ok (fm_kern st3)" using mount_rest_good [OF 3(1) refl g2'] by (simp add: good_def)
    then have "ok (fm_kern (add_root_entry fi (mount_overlays fi st3)))"
      using mount_overlays_ok by (simp add: add_root_entry_def split: option.splits)
    with 3(2) mount_scratch_ok \<open>ok (fm_kern st3)\<close> show ?thesis by blast
  qed (use g1 g2 in \<open>simp_all add: good_def\<close>)
qed

lemma CopyDsuAvbKeys_good: "good c dev st \<Longrightarrow> good c dev (CopyDsuAvbKeys fi st)"
  unfolding CopyDsuAvbKeys_def using guard_inert [OF inert_ops.copy] guard_inert [OF inert_ops.remove_all]
  by (simp add: good_def on_kern_def)

lemma DoCreateDevices_good:
  assumes "DoCreateDevices fi st = Some (Returns (b, st'))" and "good False [] st"
  shows "good False [] st'"
proof -
  obtain b1 st1 where 1: "FSM_InitDevices fi st = Some (Returns (b1, st1))"
    and 2: "st' = st1 \<or> (\<exists>st2. (case first_index (\<lambda>e. fe_mount_point e = ''/metadata'') (fm_fstab st1) of
                 None \<Rightarrow> Some (Returns st1)
               | Some i \<Rightarrow>
                   step_bind (MountPartition fi i True st1)
                     (\<lambda>(mounted, _, st). Some (Returns (if mounted then CopyDsuAvbKeys fi st else st)))) = Some (Returns st2) \<and>
         CreateLogicalPartitions fi st2 = Some (Returns (b, st')))"
    using assms(1) by (auto simp: DoCreateDevices_def step_bind_Returns split: if_splits)
  have g1: "good False [] st1" by (rule good_quiet [OF InitDevices_quiet [OF 1] assms(2)])
  have "good False [] st2" if run: "(case first_index (\<lambda>e. fe_mount_point e = ''/metadata'') (fm_fstab st1) of
                 None \<Rightarrow> Some (Returns st1)
               | Some i \<Rightarrow>
                   step_bind (MountPartition fi i True st1)
                     (\<lambda>(mounted, _, st). Some (Returns (if mounted then CopyDsuAvbKeys fi st else st)))) = Some (Returns st2)" for st2
  proof (cases "first_index (\<lambda>e. fe_mount_point e = ''/metadata'') (fm_fstab st1)")
    case None
    with run g1 show ?thesis by simp
  next
    case (Some i)
    obtain m n st3 where m: "MountPartition fi i True st1 = Some (Returns (m, n, st3))"
      and st2: "st2 = (if m then CopyDsuAvbKeys fi st3 else st3)"
      using run unfolding Some option.case by (auto simp: step_bind_Returns)
    show ?thesis using MountPartition_good [OF m first_index_less [OF Some] g1] by (simp add: st2 CopyDsuAvbKeys_good)
  qed
  with 2 g1 show ?thesis using good_quiet CreateLogicalPartitions_quiet by blast
qed

lemma wipe_quiet:
  assumes "RequestTradeInModeWipeIfNeeded fi st = Some (Returns (b, st'))"
  shows "quiet st st'"
proof (cases "st' = st")
  case False
  let ?k = "snd (wipe_counter fi (fm_kern st))"
  obtain dev ok1 st1 where 1: "on_devices (InitDevices (fi_ul fi) dev) (st\<lparr>fm_kern := ?k\<rparr>) = Some (Returns (ok1, st1))"
    and 2: "st' = st1\<lparr>fm_kern := RebootSystem fi (snd (write_bootloader_message fi (wipe_options (fst (wipe_counter fi (fm_kern st)))) (fm_kern st1)))\<rparr>"
    using assms False by (auto simp: RequestTradeInModeWipeIfNeeded_def Let_def split_beta step_bind_Returns split: if_splits)
  have "guard c dev ?k" if "guard c dev (fm_kern st)" for c dev
    using that guard_inert [OF inert_ops.fs [OF fs_ops.write_file], of c dev] guard_inert [OF inert_ops.sync, of c dev]
    by (simp add: wipe_counter_def Let_def split_beta split: option.splits)
  then have "quiet st (st\<lparr>fm_kern := ?k\<rparr>)" by (simp add: quiet_def)
  moreover have "quiet st1 st'" unfolding 2
    using guard_inert [OF inert_ops.message] guard_inert [OF inert_ops.reboot] by (simp add: quiet_def)
  ultimately show ?thesis using devices_quiet [OF 1] quiet_trans by blast
qed simp

lemma DoFirstStageMount_ok:
  assumes "DoFirstStageMount fi st = Some (Returns (r, st'))" and "good False [] st"
  shows "ok (fm_kern st')"
proof -
  obtain b1 st1 where 1: "RequestTradeInModeWipeIfNeeded fi st = Some (Returns (b1, st1))"
    and 2: "st' = st1 \<or> (\<exists>b. MountPartitions fi st1 = Some (Returns (b, st')))"
    using assms(1) by (auto simp: DoFirstStageMount_def step_bind_Returns split: if_splits)
  have "good False [] st1" by (rule good_quiet [OF wipe_quiet [OF 1] assms(2)])
  with 2 show ?thesis using MountPartitions_ok by (auto simp: good_def)
qed

end

end
