(* ===== verification/First_Stage_Boot.thy ===== *)
theory First_Stage_Boot
  imports First_Stage_Correct
begin

text \<open>
  The whole first stage program: the promise of \<open>First_Stage_Correct\<close> holds for the state in which the program executes the
  second stage, whatever it did before and after mounting the partitions.
\<close>

text \<open>The calls of the program itself that neither mount a file system nor touch a verity device.\<close>

inductive_set init_ops :: "'k init_first_env \<Rightarrow> ('k \<Rightarrow> 'k) set" for e :: "'k init_first_env" where
  mkdir: "(\<lambda>k. snd (if_mkdir e p k)) \<in> init_ops e"
| mknod: "(\<lambda>k. snd (if_mknod e p m d k)) \<in> init_ops e"
| chmod: "(\<lambda>k. snd (if_chmod e p m k)) \<in> init_ops e"
| setgroups: "(\<lambda>k. snd (if_setgroups e gs k)) \<in> init_ops e"
| clearenv: "(\<lambda>k. snd (if_clearenv e k)) \<in> init_ops e"
| setenv_path: "(\<lambda>k. snd (if_setenv_path e k)) \<in> init_ops e"
| umask: "if_umask e \<in> init_ops e"
| console: "StartConsole e cmdline \<in> init_ops e"
| stdio: "SetStdioToDevNull e \<in> init_ops e"
| listed: "(\<lambda>k. snd (LoadListedModules e p f b k)) \<in> init_ops e"
| parallel: "(\<lambda>k. snd (LoadModulesParallel e p f k)) \<in> init_ops e"
| directories: "(\<lambda>k. snd (snd (if_create_directories e p k))) \<in> init_ops e"
| copy_file: "(\<lambda>k. snd (if_copy_file e p q k)) \<in> init_ops e"
| link: "(\<lambda>k. snd (if_link e p q k)) \<in> init_ops e"
| unlinkat: "if_unlinkat e p b \<in> init_ops e"
| kmsg: "if_redirect_kmsg e \<in> init_ops e"
| write_fd: "(\<lambda>k. snd (m_write_fd (if_fs e) p s k)) \<in> init_ops e"

text \<open>The places of the initial file systems.\<close>

definition initial_targets :: "'k init_first_env \<Rightarrow> string set" where
  "initial_targets e = {''/dev'', ''/dev/pts'', ''/proc'', ''/sys'', ''/sys/fs/selinux'', ''/mnt'', ''/debug_ramdisk'', kSecondStageRes e,
     ''/microdroid_resources'', ''/first_stage_ramdisk''}"

text \<open>
  The tables that the program may read have only entries with verification for the mount point, which is none of the places of
  the initial file systems.
\<close>

locale guarded_init = guarded "if_fi e" mlog verity mp for e :: "'k init_first_env" and mlog and verity and mp +
  assumes init_op: "op \<in> init_ops e \<Longrightarrow> mlog (op k) \<subseteq> mlog k \<and> verity k \<subseteq>\<^sub>m verity (op k)"
    and tables: "FirstStageMount_Create (if_fi e) cmdline k = Some st \<Longrightarrow> verified_at mp (fm_fstab st)"
    and elsewhere: "mp \<notin> initial_targets e"
begin

lemma guard_init: "op \<in> init_ops e \<Longrightarrow> guard c dev k \<Longrightarrow> guard c dev (op k)"
  using init_op guard_still by blast

text \<open>Calls that keep every guard.\<close>

definition admitted :: "('k \<Rightarrow> 'a \<times> 'k) \<Rightarrow> bool" where
  "admitted f \<longleftrightarrow> (\<forall>c dev k. guard c dev k \<longrightarrow> guard c dev (snd (f k)))"

lemma admitted_init: "(\<lambda>k. snd (f k)) \<in> init_ops e \<Longrightarrow> admitted f"
  using guard_init [of "\<lambda>k. snd (f k)"] by (simp add: admitted_def)

lemma admitted_ops [simp]:
  "admitted (if_mkdir e p)" "admitted (if_mknod e p m d)" "admitted (if_chmod e p m)" "admitted (if_setgroups e gs)"
  "admitted (if_clearenv e)" "admitted (if_setenv_path e)"
  by (intro admitted_init init_ops.intros)+

lemma admitted_mount [simp]:
  assumes "tgt \<in> initial_targets e"
  shows "admitted (m_mount (if_fs e) src tgt ty fl opts)"
  unfolding admitted_def
proof (intro allI impI)
  fix c dev k assume g: "guard c dev k"
  have "tgt \<noteq> mp" using assms elsewhere by auto
  then show "guard c dev (snd (m_mount (if_fs e) src tgt ty fl opts k))" by (intro guard_mounted [OF g]) simp
qed

lemma run_checked_guard:
  "list_all (\<lambda>(n, f). admitted f) calls \<Longrightarrow> guard c dev k \<Longrightarrow> guard c dev (snd (run_checked calls errors k))"
proof (induction calls arbitrary: errors k)
  case (Cons call calls)
  obtain n f where call: "call = (n, f)" by force
  have "guard c dev (snd (f k))" using Cons.prems by (simp add: call admitted_def)
  then show ?case using Cons by (simp add: call split_beta)
qed simp

lemma calls_admitted:
  "list_all (\<lambda>(n, f). admitted f) (early_calls e)" "list_all (\<lambda>(n, f). admitted f) (late_calls e)"
  by (simp_all add: early_calls_def late_calls_def node_calls_def initial_targets_def)

lemma setup_guard:
  assumes "setup_filesystems e k = Returns (cmdline, bootconfig, k')" and "guard c dev k"
  shows "guard c dev k'"
proof -
  let ?k1 = "snd (run_checked (early_calls e) [] (if_umask e k))"
  let ?k2 = "snd (if_chmod e ''/proc/bootconfig'' 288 ?k1)"
  have k': "\<exists>errors. k' = SetStdioToDevNull e (snd (run_checked (late_calls e) errors ?k2))"
    using assms(1) by (auto simp: setup_filesystems_def Let_def split_beta split: if_splits)
  have "guard c dev (if_umask e k)" by (rule guard_init [OF init_ops.umask assms(2)])
  then have "guard c dev ?k1" by (rule run_checked_guard [OF calls_admitted(1)])
  then have "guard c dev ?k2" by (rule guard_init [OF init_ops.chmod])
  then have "guard c dev (snd (run_checked (late_calls e) errors ?k2))" for errors by (rule run_checked_guard [OF calls_admitted(2)])
  then show ?thesis using k' guard_init [OF init_ops.stdio] by blast
qed

lemma load_dirs_guard: "guard c dev k \<Longrightarrow> guard c dev (snd (load_dirs e mode con dirs k))"
proof (induction dirs arbitrary: k)
  case (Cons d dirs)
  then show ?case using guard_init [OF init_ops.listed, of c dev k] by (simp add: Let_def split_beta)
qed simp

lemma LoadKernelModules_guard:
  assumes "LoadKernelModules e mode con par k = Returns (r, k')" and "guard c dev k"
  shows "guard c dev k'"
proof -
  have d: "guard c dev (snd (load_dirs e mode con dirs k))" for dirs using assms(2) by (rule load_dirs_guard)
  have l: "guard c dev k1 \<Longrightarrow> guard c dev (snd (LoadListedModules e p f b k1))" for k1 p f b by (rule guard_init [OF init_ops.listed])
  have m: "guard c dev k1 \<Longrightarrow> guard c dev (snd (LoadModulesParallel e p f k1))" for k1 p f by (rule guard_init [OF init_ops.parallel])
  show ?thesis using assms d l m
    by (auto simp: LoadKernelModules_def Let_def split: option.splits prod.splits if_splits) (metis snd_conv)+
qed

lemma load_modules_guard:
  assumes "load_modules e con cmdline bootconfig k = Returns k'" and "guard c dev k"
  shows "guard c dev k'"
proof -
  have s: "guard c dev k1 \<Longrightarrow> guard c dev (fi_setenv (if_fi e) n v k1)" for n v k1 by (rule guard_inert [OF inert_ops.setenv])
  show ?thesis using assms s by (auto simp: load_modules_def out_bind_Returns split: if_splits dest!: LoadKernelModules_guard)
qed

lemma hibernation_guard: "guard c dev k \<Longrightarrow> guard c dev (MaybeResumeFromHibernation e bootconfig k)"
  using guard_init [OF init_ops.write_fd] by (simp add: MaybeResumeFromHibernation_def Let_def)

lemma link_or_die_guard: "link_or_die e p q k = Returns k' \<Longrightarrow> guard c dev k \<Longrightarrow> guard c dev k'"
  using guard_init [OF init_ops.link, of c dev k p q] by (auto simp: link_or_die_def split_beta split: if_splits)

lemma directories_guard: "if_create_directories e p k = (b, err, k') \<Longrightarrow> guard c dev k \<Longrightarrow> guard c dev k'"
  using guard_init [OF init_ops.directories, of c dev k p] by simp

lemma PrepareSwitchRoot_guard:
  assumes "PrepareSwitchRoot e k = Returns k'" and "guard c dev k"
  shows "guard c dev k'"
proof (cases "k' = k")
  case False
  let ?dir = "Dirname (fi_lb (if_fi e)) ''/first_stage_ramdisk/system/bin/snapuserd''"
  obtain b k1 where 1: "(if \<not> m_exists (if_fs e) ?dir k
                           then (case if_create_directories e ?dir k of (created, _, k) \<Rightarrow> (created, k)) else (True, k)) = (b, k1)"
    by (metis surj_pair)
  have g1: "guard c dev k1" using 1 assms(2) by (auto split: if_splits prod.splits dest: directories_guard)
  have "k' = k1 \<or> (\<exists>p q. link_or_die e p q k1 = Returns k')"
    using assms(1) False unfolding PrepareSwitchRoot_def Let_def 1 prod.case by (simp split: if_splits) blast+
  then show ?thesis using g1 link_or_die_guard by blast
qed (use assms in simp)

lemma copy_ramdisk_prop_guard:
  assumes "copy_ramdisk_prop e k = Returns k'" and "guard c dev k"
  shows "guard c dev k'"
proof -
  have s: "guard c dev k1 \<Longrightarrow> guard c dev (snd (if_copy_file e p q k1))" for p q k1 by (rule guard_init [OF init_ops.copy_file])
  show ?thesis using assms
    by (auto simp: copy_ramdisk_prop_def split: if_splits prod.splits dest!: directories_guard) (metis s snd_conv)+
qed

lemma copy_debug_files_guard: "guard c dev k \<Longrightarrow> guard c dev (copy_debug_files e k)"
  using guard_init [OF init_ops.copy_file] guard_inert [OF inert_ops.setenv] by (simp add: copy_debug_files_def copy_if_present_def)

lemma enter_ramdisk_guard:
  assumes "enter_ramdisk e cmdline bootconfig k = Returns k'" and "guard c dev k"
  shows "guard c dev k'"
proof (cases "ForceNormalBoot cmdline bootconfig")
  case True
  let ?r = "''/first_stage_ramdisk''"
  obtain k1 where 1: "PrepareSwitchRoot e (snd (if_mkdir e ?r k)) = Returns k1"
    and 2: "SwitchRoot (if_fi e) ?r (snd (m_mount (if_fs e) ?r ?r [] MS_BIND [] k1)) = Returns k'"
    using assms(1) True by (auto simp: enter_ramdisk_def out_bind_Returns split_beta split: if_splits)
  have "guard c dev (snd (if_mkdir e ?r k))" by (rule guard_init [OF init_ops.mkdir assms(2)])
  then have "guard c dev k1" by (rule PrepareSwitchRoot_guard [OF 1])
  then have "guard c dev (snd (m_mount (if_fs e) ?r ?r [] MS_BIND [] k1))"
    using admitted_mount [of ?r] by (simp add: admitted_def initial_targets_def)
  then show ?thesis by (rule SwitchRoot_guard [OF 2])
qed (use assms in \<open>simp add: enter_ramdisk_def\<close>)

text \<open>An object that was made earlier goes on in a later state of the kernel.\<close>

lemma good_later: "good False [] st \<Longrightarrow> ok k \<Longrightarrow> good False [] (st\<lparr>fm_kern := k\<rparr>)"
  by (simp add: good_def)

lemma create_good: "FirstStageMount_Create (if_fi e) cmdline k = Some st \<Longrightarrow> ok k \<Longrightarrow> good False [] st"
  using tables [of cmdline k st] by (auto simp: good_def FirstStageMount_Create_def make_FirstStageMount_def)

lemma early_console_good:
  assumes "early_console e con cmdline k = Some (Returns (fsm, created, k'))" and "ok k"
  shows "ok k' \<and> (\<forall>st. fsm = Some st \<longrightarrow> good False [] st)"
proof -
  have con: "ok (StartConsole e cmdline k1)" if "ok k1" for k1
    using guard_init [OF init_ops.console, of False "[]" k1] that by simp
  have "(fsm = None \<and> (k' = k \<or> k' = StartConsole e cmdline k)) \<or>
    (\<exists>st0 st. FirstStageMount_Create (if_fi e) cmdline k = Some st0 \<and> DoCreateDevices (if_fi e) st0 = Some (Returns (created, st)) \<and>
       fsm = Some st \<and> k' = StartConsole e cmdline (fm_kern st))"
    using assms(1) by (auto simp: early_console_def step_bind_Returns split: if_splits option.splits)
  moreover have "ok (StartConsole e cmdline (fm_kern st)) \<and> good False [] st"
    if "FirstStageMount_Create (if_fi e) cmdline k = Some st0" "DoCreateDevices (if_fi e) st0 = Some (Returns (created, st))" for st0 st
    using DoCreateDevices_good [OF that(2) create_good [OF that(1) assms(2)]] con by (simp add: good_def)
  ultimately show ?thesis using assms(2) con by auto
qed

lemma first_stage_mount_ok:
  assumes run: "first_stage_mount e cmdline fsm created k = Some (Returns (r, k'))" and k: "ok k"
    and fsm: "\<forall>st. fsm = Some st \<longrightarrow> good False [] st"
  shows "ok k'"
proof (cases "IsRecoveryMode (if_fi e) k")
  case False
  then obtain st where st: "(case fsm of Some fsm \<Rightarrow> Some fsm | None \<Rightarrow> FirstStageMount_Create (if_fi e) cmdline k) = Some st"
    using run by (auto simp: first_stage_mount_def split: option.splits)
  have g0: "good False [] (st\<lparr>fm_kern := k\<rparr>)"
    using st fsm create_good k good_later by (auto split: option.splits)
  obtain st1 st2 where 1: "(if created then Some (Returns (True, st\<lparr>fm_kern := k\<rparr>)) else DoCreateDevices (if_fi e) (st\<lparr>fm_kern := k\<rparr>)) = Some (Returns (True, st1))"
    and 2: "DoFirstStageMount (if_fi e) st1 = Some (Returns (r, st2))" and k': "k' = fm_kern st2"
    using run False st by (auto simp: first_stage_mount_def step_bind_Returns split: if_splits)
  have "good False [] st1" using 1 g0 DoCreateDevices_good by (auto split: if_splits)
  then show ?thesis unfolding k' by (rule DoFirstStageMount_ok [OF 2])
qed (use run k in \<open>simp add: first_stage_mount_def\<close>)

lemma free_old_root_ok:
  assumes "ok k"
  shows "ok (free_old_root e old k)"
proof -
  have "ok (fold (\<lambda>(p, is_dir). if_unlinkat e p is_dir) xs k)" for xs
    using assms
  proof (induction xs arbitrary: k)
    case (Cons x xs)
    then have "ok (case x of (p, is_dir) \<Rightarrow> if_unlinkat e p is_dir k)"
      using guard_init [OF init_ops.unlinkat, of False "[]" k] by (simp add: split_beta)
    then show ?case using Cons.IH by (simp add: split_beta)
  qed simp
  then show ?thesis using assms by (simp add: free_old_root_def split: option.splits)
qed

lemma avb_version_ok:
  assumes "SetInitAvbVersionInRecovery (if_fi e) k = Some (Returns k')" and "ok k"
  shows "ok k'"
proof (cases "k' = k")
  case False
  then obtain tab b st where 1: "FSM_InitDevices (if_fi e) (make_FirstStageMount (if_fi e) tab k) = Some (Returns (b, st))"
    and k': "k' = fm_kern st \<or> (\<exists>n v. k' = fi_setenv (if_fi e) n v (fm_kern st))"
    using assms(1) by (auto simp: SetInitAvbVersionInRecovery_def step_bind_Returns split: if_splits option.splits) blast+
  have "\<forall>c dev. guard c dev k \<longrightarrow> guard c dev (fm_kern st)"
    using InitDevices_quiet [OF 1] unfolding quiet_def by (simp add: make_FirstStageMount_def)
  then have "guard False [] (fm_kern st)" using assms(2) by (metis guard_none)
  then show ?thesis using k' guard_inert [OF inert_ops.setenv, of False "[]"] by auto
qed (use assms in simp)

lemma exec_second_stage_ok:
  assumes "exec_second_stage e k = Some (Returns res)" and "ok k"
  shows "\<exists>k'. res = Executed [''/system/bin/init'', ''selinux_setup''] k' \<and> ok k'"
proof -
  obtain k1 where 1: "SetInitAvbVersionInRecovery (if_fi e) k = Some (Returns k1)"
    and 2: "res = Executed [''/system/bin/init'', ''selinux_setup'']
      (if_redirect_kmsg e (fi_setenv (if_fi e) (kEnvFirstStageStartedAt e) (start_time_text e k1) k1))"
    using assms(1) by (auto simp: exec_second_stage_def step_bind_Returns Let_def split: if_splits)
  have "guard False [] k1" using avb_version_ok [OF 1 assms(2)] by simp
  then have "guard False [] (if_redirect_kmsg e (fi_setenv (if_fi e) (kEnvFirstStageStartedAt e) (start_time_text e k1) k1))"
    by (intro guard_init [OF init_ops.kmsg] guard_inert [OF inert_ops.setenv])
  then show ?thesis using 2 by simp
qed

lemma FirstStageMain_ok:
  assumes "FirstStageMain e k = Some (Returns res)" and "ok k"
  shows "\<exists>k'. (res = Rebooted k' \<or> res = Executed [''/system/bin/init'', ''selinux_setup''] k') \<and> ok k'"
proof -
  obtain cmdline bootconfig k1 k2 where 1: "setup_filesystems e k = Returns (cmdline, bootconfig, k1)"
    and 2: "load_modules e (if ALLOW_FIRST_STAGE_CONSOLE e then FirstStageConsole e cmdline bootconfig else DISABLED) cmdline bootconfig k1 = Returns k2"
    and rest: "step_bind (early_console e (if ALLOW_FIRST_STAGE_CONSOLE e then FirstStageConsole e cmdline bootconfig else DISABLED) cmdline
        (MaybeResumeFromHibernation e bootconfig k2))
       (\<lambda>(fsm, created_devices, k).
          step_bind (Some (out_bind (copy_ramdisk_prop e k) (\<lambda>k. enter_ramdisk e cmdline bootconfig (copy_debug_files e k))))
            (\<lambda>k. step_bind (first_stage_mount e cmdline fsm created_devices k)
               (\<lambda>(r, k). if r = Restarts then Some (Returns (Rebooted k))
                         else exec_second_stage e (free_old_root e (old_root e k1) k)))) = Some (Returns res)"
    using assms(1) by (auto simp: FirstStageMain_def step_bind_Returns Let_def)
  obtain fsm created k3 k4 k5 r k6 where 3: "early_console e (if ALLOW_FIRST_STAGE_CONSOLE e then FirstStageConsole e cmdline bootconfig else DISABLED) cmdline
        (MaybeResumeFromHibernation e bootconfig k2) = Some (Returns (fsm, created, k3))"
    and 4: "copy_ramdisk_prop e k3 = Returns k4" and 5: "enter_ramdisk e cmdline bootconfig (copy_debug_files e k4) = Returns k5"
    and 6: "first_stage_mount e cmdline fsm created k5 = Some (Returns (r, k6))"
    and 7: "(if r = Restarts then Some (Returns (Rebooted k6)) else exec_second_stage e (free_old_root e (old_root e k1) k6)) = Some (Returns res)"
    using rest by (auto simp: step_bind_Returns out_bind_Returns)
  have "guard False [] k1" using setup_guard [OF 1, of False "[]"] assms(2) by simp
  then have "guard False [] k2" by (rule load_modules_guard [OF 2])
  then have "ok (MaybeResumeFromHibernation e bootconfig k2)" using hibernation_guard [of False "[]" k2] by simp
  then have c: "ok k3" "\<forall>st. fsm = Some st \<longrightarrow> good False [] st" using early_console_good [OF 3] by auto
  have "guard False [] k4" using copy_ramdisk_prop_guard [OF 4, of False "[]"] c(1) by simp
  then have "guard False [] k5" by (intro enter_ramdisk_guard [OF 5] copy_debug_files_guard)
  then have "ok k6" using first_stage_mount_ok [OF 6 _ c(2)] by simp
  then show ?thesis using 7 exec_second_stage_ok [of "free_old_root e (old_root e k1) k6" res] free_old_root_ok
    by (auto split: if_splits)
qed

end

end
