(* ===== verification/First_Stage_Safe.thy ===== *)
theory First_Stage_Safe
  imports First_Stage_Boot
begin

text \<open>
  The properties of the first stage, and a small device on which they are evaluated: the kernel state is the list of verity
  devices and the log of the mounts, and the images are those of \<open>Avb_Correct\<close>.
\<close>

section \<open>A small device\<close>





















section \<open>Verified boot\<close>


declare HandleUevent.simps [code] mount_loop.simps [code] mount_rest.simps [code] read_ahead_loop.simps [code]



end
