(* ===== verification/Apex_Repository.thy ===== *)
theory Apex_Repository
  imports Libbase
begin

text \<open>
  The repository of APEX files (\<open>afr.cpp\<close>, class \<open>ApexFileRepository\<close>, with the constants of
  \<open>apex_constants.h\<close>) and the blocklist reader (\<open>abl.cpp\<close>).  The class is a record; its hash maps are
  association lists with distinct keys, so that a traversal visits the entries in some order, and the
  theorems speak about the entries by key.  The package reader, the directory scan, properties, protobuf
  messages and the verifier of brand-new packages are not in the repository: they are fields of the
  record \<open>apex_os\<close>, functions of an abstract state of the system.  A fatal check of the code is the
  outcome \<open>Aborts\<close>.
\<close>

section \<open>Data\<close>

datatype ApexPartition = System | SystemExt | Product | Vendor | Odm

text \<open>
  An error keeps the step that failed, the values that the message shows and the error it was caused by.
\<close>

datatype apex_error = Failure string "string list" | Caused string "string list" apex_error

record ApexManifest =
  m_name :: string
  m_version :: int
  m_versionname :: string
  m_bootstrap :: bool
  m_vendorbootstrap :: bool
  m_vndkversion :: string
  m_providesharedapexlibs :: bool
  m_nocode :: bool
  m_supportsrebootlessupdate :: bool
  m_providenativelibs :: "string list"
  m_requiresharedapexlibs :: "string list"
  m_jnilibs :: "string list"
  m_originalapexdigest :: string

record ApexFile =
  f_path :: string
  f_manifest :: ApexManifest
  f_public_key :: string
  f_compressed :: bool
  f_image_offset :: "nat option"
  f_image_size :: "nat option"
  f_fs_type :: "string option"

abbreviation f_name :: "ApexFile \<Rightarrow> string" where "f_name a \<equiv> m_name (f_manifest a)"
abbreviation f_version :: "ApexFile \<Rightarrow> int" where "f_version a \<equiv> m_version (f_manifest a)"

record ApexPayload =
  pl_public_key :: string
  pl_manifest_name :: string
  pl_manifest_version :: int
  pl_last_update_seconds :: int
  pl_root_digest :: string
  pl_is_factory :: bool

record BlockApexOverride =
  block_apex_root_digest :: "string option"
  last_update_seconds :: "int option"

record ApexFileRepository =
  pre_installed_store :: "(string \<times> ApexFile) list"
  data_store :: "(string \<times> ApexFile) list"
  partition_store :: "(string \<times> ApexPartition) list"
  brand_new_apex_blocked_version :: "(ApexPartition \<times> (string \<times> int) list) list"
  brand_new_apex_pubkeys :: "(string \<times> ApexPartition) list"
  multi_install_public_keys :: "(string \<times> string list) list"
  multi_install_select_prop_prefixes :: "string list"
  enforce_multi_install_partition :: bool
  enable_brand_new_apex :: bool
  decompression_dir :: string
  block_disk_path :: "string option"
  block_apex_overrides :: "(string \<times> BlockApexOverride) list"

definition kApexPackageSuffix :: string where "kApexPackageSuffix = ''.apex''"
definition kCompressedApexPackageSuffix :: string where "kCompressedApexPackageSuffix = ''.capex''"
definition kDecompressedApexPackageSuffix :: string where
  "kDecompressedApexPackageSuffix = ''.decompressed.apex''"
definition kOtaApexPackageSuffix :: string where "kOtaApexPackageSuffix = ''.ota.apex''"
definition kBrandNewApexPublicKeySuffix :: string where "kBrandNewApexPublicKeySuffix = ''.avbpubkey''"
definition kBrandNewApexBlocklistFileName :: string where
  "kBrandNewApexBlocklistFileName = ''blocklist.json''"
definition kApexDecompressedDir :: string where "kApexDecompressedDir = ''/data/apex/decompressed''"
definition kMultiApexSelectPrefix :: "string list" where
  "kMultiApexSelectPrefix = [''persist.vendor.apex.'', ''ro.boot.vendor.apex.'']"

definition make_ApexFileRepository :: "string \<Rightarrow> ApexFileRepository" where
  "make_ApexFileRepository dir =
     \<lparr>pre_installed_store = [], data_store = [], partition_store = [],
      brand_new_apex_blocked_version = [], brand_new_apex_pubkeys = [],
      multi_install_public_keys = [], multi_install_select_prop_prefixes = kMultiApexSelectPrefix,
      enforce_multi_install_partition = True, enable_brand_new_apex = False,
      decompression_dir = dir, block_disk_path = None, block_apex_overrides = []\<rparr>"

definition Repository_Reset :: "string \<Rightarrow> ApexFileRepository \<Rightarrow> ApexFileRepository" where
  "Repository_Reset dir r =
     r\<lparr>pre_installed_store := [], data_store := [], partition_store := [],
       brand_new_apex_blocked_version := [], brand_new_apex_pubkeys := [],
       block_apex_overrides := [], decompression_dir := dir, block_disk_path := None,
       enable_brand_new_apex := False\<rparr>"

text \<open>The operations of \<open>std::unordered_map\<close> and \<open>std::unordered_set\<close> that the code uses.\<close>

definition emplace :: "'k \<Rightarrow> 'v \<Rightarrow> ('k \<times> 'v) list \<Rightarrow> ('k \<times> 'v) list" where
  "emplace k v m = (if map_of m k = None then m @ [(k, v)] else m)"

definition erase :: "'k \<Rightarrow> ('k \<times> 'v) list \<Rightarrow> ('k \<times> 'v) list" where
  "erase k m = filter (\<lambda>e. fst e \<noteq> k) m"

definition assign :: "'k \<Rightarrow> 'v \<Rightarrow> ('k \<times> 'v) list \<Rightarrow> ('k \<times> 'v) list" where
  "assign k v m = (if map_of m k = None then m @ [(k, v)] else map (\<lambda>e. if fst e = k then (k, v) else e) m)"

section \<open>The system below\<close>

text \<open>
  \<open>a_access\<close> is the errno of \<open>access(path, F_OK)\<close>, 0 when the path exists.  \<open>a_VerifyBrandNew\<close> is
  \<open>VerifyBrandNewPackageAgainstPreinstalled\<close>, which consults the repository.  \<open>a_ReadMetadata\<close> and
  \<open>a_JsonBlocklist\<close> parse protobuf messages.
\<close>

definition ENOENT :: int where "ENOENT = 2"

record 's apex_os =
  a_lb :: libbase
  a_access :: "string \<Rightarrow> 's \<Rightarrow> int"
  a_FindFilesBySuffix :: "string \<Rightarrow> string list \<Rightarrow> 's \<Rightarrow> (apex_error, string list) result"
  a_Open :: "string \<Rightarrow> 's \<Rightarrow> (apex_error, ApexFile) result"
  a_GetProperty :: "string \<Rightarrow> string \<Rightarrow> 's \<Rightarrow> string"
  a_Realpath :: "string \<Rightarrow> 's \<Rightarrow> string option"
  a_PathExists :: "string \<Rightarrow> 's \<Rightarrow> (apex_error, bool) result"
  a_ReadFileToString :: "string \<Rightarrow> 's \<Rightarrow> string option"
  a_WaitForFile :: "string \<Rightarrow> nat \<Rightarrow> 's \<Rightarrow> (apex_error, unit) result \<times> 's"
  a_ReadMetadata :: "string \<Rightarrow> 's \<Rightarrow> (apex_error, ApexPayload list) result"
  a_BytesToHex :: "string \<Rightarrow> string"
  a_JsonBlocklist :: "string \<Rightarrow> (string, (string \<times> int) list) result"
  a_VerifyBrandNew :: "ApexFileRepository \<Rightarrow> ApexFile \<Rightarrow> (apex_error, ApexPartition) result"

definition absent :: "'s apex_os \<Rightarrow> string \<Rightarrow> 's \<Rightarrow> bool" where
  "absent o' path s \<longleftrightarrow> a_access o' path s = ENOENT"

section \<open>Names of selected packages\<close>

definition consume_suffix :: "libbase \<Rightarrow> string \<Rightarrow> string \<Rightarrow> string" where
  "consume_suffix lb s e = (case ConsumeSuffix lb s e of None \<Rightarrow> s | Some rest \<Rightarrow> rest)"

definition ConsumeApexPackageSuffix :: "libbase \<Rightarrow> string \<Rightarrow> string" where
  "ConsumeApexPackageSuffix lb path =
     consume_suffix lb (consume_suffix lb path kApexPackageSuffix) kCompressedApexPackageSuffix"

fun GetApexSelectFilenameFromProp :: "'s apex_os \<Rightarrow> 's \<Rightarrow> string list \<Rightarrow> string \<Rightarrow> string" where
  "GetApexSelectFilenameFromProp o' s [] apex_name = []"
| "GetApexSelectFilenameFromProp o' s (p # ps) apex_name =
     (let filename = a_GetProperty o' (p @ apex_name) [] s
      in if filename \<noteq> [] then ConsumeApexPackageSuffix (a_lb o') filename
         else GetApexSelectFilenameFromProp o' s ps apex_name)"

section \<open>Pre-installed packages\<close>

text \<open>
  One file of a built-in directory: \<open>multi_install\<close> for a package that a property selects,
  \<open>single_install\<close> for any other.
\<close>

definition multi_install ::
  "'s apex_os \<Rightarrow> 's \<Rightarrow> ApexPartition \<Rightarrow> string \<Rightarrow> ApexFile \<Rightarrow> ApexFileRepository \<Rightarrow> ApexFileRepository"
where
  "multi_install o' s part select a r =
     (case a_Realpath o' (f_path a) s of
        None \<Rightarrow> r
      | Some path \<Rightarrow>
          if enforce_multi_install_partition r \<and> part \<noteq> Vendor \<and> part \<noteq> Odm then r
          else
            (let old = (case map_of (multi_install_public_keys r) (f_name a) of None \<Rightarrow> [] | Some ks \<Rightarrow> ks);
                 keys = (if f_public_key a \<in> set old then old else old @ [f_public_key a]);
                 r = r\<lparr>multi_install_public_keys := assign (f_name a) keys (multi_install_public_keys r)\<rparr>
             in if 1 < length keys then
                  (if map_of (pre_installed_store r) (f_name a) \<noteq> None
                   then r\<lparr>pre_installed_store := erase (f_name a) (pre_installed_store r),
                          partition_store := erase (f_name a) (partition_store r)\<rparr>
                   else r)
                else if ConsumeApexPackageSuffix (a_lb o') (Basename (a_lb o') path) = select
                then r\<lparr>pre_installed_store := emplace (f_name a) a (pre_installed_store r),
                       partition_store := emplace (f_name a) part (partition_store r)\<rparr>
                else r))"

definition single_install ::
  "ApexPartition \<Rightarrow> ApexFile \<Rightarrow> ApexFileRepository \<Rightarrow> ApexFileRepository outcome" where
  "single_install part a r =
     (case map_of (pre_installed_store r) (f_name a) of
        None \<Rightarrow> Returns (r\<lparr>pre_installed_store := emplace (f_name a) a (pre_installed_store r),
                           partition_store := emplace (f_name a) part (partition_store r)\<rparr>)
      | Some b \<Rightarrow>
          if f_path b \<noteq> f_path a then Aborts
          else if f_public_key b \<noteq> f_public_key a then Aborts
          else Returns r)"

definition scan_apex ::
  "'s apex_os \<Rightarrow> 's \<Rightarrow> ApexPartition \<Rightarrow> ApexFile \<Rightarrow> ApexFileRepository \<Rightarrow> ApexFileRepository outcome" where
  "scan_apex o' s part a r =
     (let select = GetApexSelectFilenameFromProp o' s (multi_install_select_prop_prefixes r) (f_name a)
      in if select \<noteq> [] then Returns (multi_install o' s part select a r)
         else single_install part a r)"

fun scan_files ::
  "'s apex_os \<Rightarrow> 's \<Rightarrow> ApexPartition \<Rightarrow> string list \<Rightarrow> ApexFileRepository \<Rightarrow>
   ((apex_error, unit) result \<times> ApexFileRepository) outcome" where
  "scan_files o' s part [] r = Returns (Inr (), r\<lparr>multi_install_public_keys := []\<rparr>)"
| "scan_files o' s part (p # ps) r =
     (case a_Open o' p s of
        Inl e \<Rightarrow> Returns (Inl (Caused ''Failed to open'' [p] e), r)
      | Inr a \<Rightarrow> out_bind (scan_apex o' s part a r) (scan_files o' s part ps))"

definition ScanBuiltInDir ::
  "'s apex_os \<Rightarrow> 's \<Rightarrow> string \<Rightarrow> ApexPartition \<Rightarrow> ApexFileRepository \<Rightarrow>
   ((apex_error, unit) result \<times> ApexFileRepository) outcome" where
  "ScanBuiltInDir o' s dir part r =
     (if absent o' dir s then Returns (Inr (), r)
      else case a_FindFilesBySuffix o' dir [kApexPackageSuffix, kCompressedApexPackageSuffix] s of
             Inl e \<Rightarrow> Returns (Inl e, r)
           | Inr files \<Rightarrow> scan_files o' s part files r)"

fun AddPreInstalledApex ::
  "'s apex_os \<Rightarrow> 's \<Rightarrow> (ApexPartition \<times> string) list \<Rightarrow> ApexFileRepository \<Rightarrow>
   ((apex_error, unit) result \<times> ApexFileRepository) outcome" where
  "AddPreInstalledApex o' s [] r = Returns (Inr (), r)"
| "AddPreInstalledApex o' s ((part, dir) # ds) r =
     out_bind (ScanBuiltInDir o' s dir part r)
       (\<lambda>(res, r). case res of Inl e \<Rightarrow> Returns (Inl e, r) | Inr _ \<Rightarrow> AddPreInstalledApex o' s ds r)"

section \<open>Packages on block devices\<close>

definition kBlockApexWaitTime :: nat where "kBlockApexWaitTime = 10"
definition kFirstApexPartition :: int where "kFirstApexPartition = 2"

definition block_override :: "'s apex_os \<Rightarrow> ApexPayload \<Rightarrow> BlockApexOverride" where
  "block_override o' c =
     \<lparr>block_apex_root_digest = (if pl_root_digest c \<noteq> [] then Some (a_BytesToHex o' (pl_root_digest c)) else None),
      last_update_seconds =
        (if pl_last_update_seconds c \<noteq> 0 then Some (pl_last_update_seconds c) else None)\<rparr>"

definition add_block ::
  "'s apex_os \<Rightarrow> ApexPayload \<Rightarrow> ApexFile \<Rightarrow> string \<Rightarrow> ApexFileRepository \<Rightarrow>
   (apex_error, unit) result \<times> ApexFileRepository" where
  "add_block o' c a path r =
     (if pl_public_key c \<noteq> [] \<and> pl_public_key c \<noteq> f_public_key a
      then (Inl (Failure ''public key'' [path]), r)
      else if pl_manifest_name c \<noteq> [] \<and> pl_manifest_name c \<noteq> f_name a
      then (Inl (Failure ''manifest name'' [path]), r)
      else if pl_manifest_version c \<noteq> 0 \<and> pl_manifest_version c \<noteq> f_version a
      then (Inl (Failure ''manifest version'' [path]), r)
      else
        (let ov = block_override o' c;
             r = (if last_update_seconds ov \<noteq> None \<or> block_apex_root_digest ov \<noteq> None
                  then r\<lparr>block_apex_overrides := emplace path ov (block_apex_overrides r)\<rparr> else r);
             store = (if pl_is_factory c then pre_installed_store r else data_store r)
         in case map_of store (f_name a) of
              Some b \<Rightarrow> (Inl (Failure ''duplicate'' [f_name a, f_path b]), r)
            | None \<Rightarrow>
                (let store = emplace (f_name a) a store;
                     r = (if pl_is_factory c then r\<lparr>pre_installed_store := store\<rparr>
                          else r\<lparr>data_store := store\<rparr>)
                 in (Inr (), r\<lparr>partition_store := emplace (f_name a) System (partition_store r)\<rparr>))))"

fun add_blocks ::
  "'s apex_os \<Rightarrow> string \<Rightarrow> int \<Rightarrow> ApexPayload list \<Rightarrow> int \<Rightarrow> 's \<Rightarrow> ApexFileRepository \<Rightarrow>
   (apex_error, int) result \<times> 's \<times> ApexFileRepository" where
  "add_blocks o' disk i [] ret s r = (Inr ret, s, r)"
| "add_blocks o' disk i (c # cs) ret s r =
     (let path = disk @ to_string (i + kFirstApexPartition);
          (ready, s) = a_WaitForFile o' path kBlockApexWaitTime s
      in case ready of
           Inl e \<Rightarrow> (Inl (Caused ''Error waiting for apex file'' [] e), s, r)
         | Inr _ \<Rightarrow>
             (case a_Open o' path s of
                Inl e \<Rightarrow> (Inl (Caused ''Failed to open'' [path] e), s, r)
              | Inr a \<Rightarrow>
                  (case add_block o' c a path r of
                     (Inl e, r) \<Rightarrow> (Inl e, s, r)
                   | (Inr _, r) \<Rightarrow> add_blocks o' disk (i + 1) cs (ret + 1) s r)))"

definition vm_payload_metadata :: string where "vm_payload_metadata = ''/apex/vm-payload-metadata''"

definition Repository_AddBlockApex ::
  "'s apex_os \<Rightarrow> string \<Rightarrow> 's \<Rightarrow> ApexFileRepository \<Rightarrow>
   ((apex_error, int) result \<times> 's \<times> ApexFileRepository) outcome" where
  "Repository_AddBlockApex o' meta s r =
     (if block_disk_path r \<noteq> None then Aborts
      else Returns
        (let (ready, s) = a_WaitForFile o' meta kBlockApexWaitTime s
         in case ready of
              Inl e \<Rightarrow> (Inr 0, s, r)
            | Inr _ \<Rightarrow>
                if absent o' meta s then (Inr 0, s, r)
                else
                  (case a_Realpath o' meta s of
                     None \<Rightarrow> (Inr 0, s, r)
                   | Some real \<Rightarrow>
                       (case ConsumeSuffix (a_lb o') real ''1'' of
                          None \<Rightarrow> (Inr 0, s, r)
                        | Some disk \<Rightarrow>
                            (let r = r\<lparr>block_disk_path := Some disk\<rparr>;
                                 real = (if a_PathExists o' vm_payload_metadata s = Inr True
                                         then vm_payload_metadata else real)
                             in case a_ReadMetadata o' real s of
                                  Inl e \<Rightarrow> (Inr 0, s, r)
                                | Inr cs \<Rightarrow> add_blocks o' disk 0 cs 0 s r)))))"

section \<open>Packages on the data partition\<close>

text \<open>
  Whether a data package may enter the repository: the key of the pre-installed one, or the
  verification of a brand-new package, whose partition is then recorded.
\<close>

definition data_trusted ::
  "'s apex_os \<Rightarrow> ApexFile \<Rightarrow> ApexFileRepository \<Rightarrow> ApexFileRepository option" where
  "data_trusted o' a r =
     (case map_of (pre_installed_store r) (f_name a) of
        Some p \<Rightarrow> if f_public_key p \<noteq> f_public_key a then None else Some r
      | None \<Rightarrow>
          if enable_brand_new_apex r
          then (case a_VerifyBrandNew o' r a of
                  Inl e \<Rightarrow> None
                | Inr part \<Rightarrow> Some (r\<lparr>partition_store := emplace (f_name a) part (partition_store r)\<rparr>))
          else None)"

definition data_store_put :: "ApexFile \<Rightarrow> ApexFileRepository \<Rightarrow> ApexFileRepository" where
  "data_store_put a r =
     (case map_of (data_store r) (f_name a) of
        None \<Rightarrow> r\<lparr>data_store := emplace (f_name a) a (data_store r)\<rparr>
      | Some b \<Rightarrow>
          if f_version b < f_version a then r\<lparr>data_store := assign (f_name a) a (data_store r)\<rparr> else r)"

definition add_data :: "'s apex_os \<Rightarrow> 's \<Rightarrow> string \<Rightarrow> ApexFileRepository \<Rightarrow> ApexFileRepository" where
  "add_data o' s file_path r =
     (case a_Open o' file_path s of
        Inl e \<Rightarrow> r
      | Inr a \<Rightarrow>
          (case data_trusted o' a r of
             None \<Rightarrow> r
           | Some r \<Rightarrow>
               if EndsWith (a_lb o') (f_path a) kDecompressedApexPackageSuffix then r
               else data_store_put a r))"

definition AddDataApex ::
  "'s apex_os \<Rightarrow> 's \<Rightarrow> string \<Rightarrow> ApexFileRepository \<Rightarrow>
   (apex_error, unit) result \<times> ApexFileRepository" where
  "AddDataApex o' s data_dir r =
     (if absent o' data_dir s then (Inr (), r)
      else case a_FindFilesBySuffix o' data_dir [kApexPackageSuffix] s of
             Inl e \<Rightarrow> (Inl e, r)
           | Inr files \<Rightarrow> (Inr (), fold (add_data o' s) files r))"

section \<open>Brand-new packages\<close>

definition ParseBlocklist :: "'s apex_os \<Rightarrow> string \<Rightarrow> (apex_error, (string \<times> int) list) result" where
  "ParseBlocklist o' content =
     (case a_JsonBlocklist o' content of
        Inl e \<Rightarrow> Inl (Failure ''blocklist'' [e])
      | Inr items \<Rightarrow>
          (case find (\<lambda>i. fst i = [] \<or> snd i \<le> 0) items of
             None \<Rightarrow> Inr items
           | Some (n, v) \<Rightarrow>
               Inl (Failure (if n = [] then ''blocklist name'' else ''blocklist version'') [])))"

definition ReadBlocklist :: "'s apex_os \<Rightarrow> string \<Rightarrow> 's \<Rightarrow> (apex_error, (string \<times> int) list) result" where
  "ReadBlocklist o' path s =
     (case a_ReadFileToString o' path s of
        None \<Rightarrow> Inl (Failure ''read blocklist'' [path])
      | Some content \<Rightarrow> ParseBlocklist o' content)"

fun add_pubkeys ::
  "'s apex_os \<Rightarrow> 's \<Rightarrow> ApexPartition \<Rightarrow> string list \<Rightarrow> ApexFileRepository \<Rightarrow> ApexFileRepository outcome" where
  "add_pubkeys o' s part [] r = Returns r"
| "add_pubkeys o' s part (p # ps) r =
     (case a_ReadFileToString o' p s of
        None \<Rightarrow> Aborts
      | Some content \<Rightarrow>
          (case map_of (brand_new_apex_pubkeys r) content of
             Some q \<Rightarrow> if q = part then add_pubkeys o' s part ps r else Aborts
           | None \<Rightarrow>
               add_pubkeys o' s part ps
                 (r\<lparr>brand_new_apex_pubkeys := emplace content part (brand_new_apex_pubkeys r)\<rparr>)))"

fun block_versions :: "(string \<times> int) list \<Rightarrow> (string \<times> int) list \<Rightarrow> (string \<times> int) list outcome" where
  "block_versions [] m = Returns m"
| "block_versions ((n, v) # is) m =
     (if map_of m n = None then block_versions is (emplace n v m) else Aborts)"

definition add_credentials ::
  "'s apex_os \<Rightarrow> 's \<Rightarrow> ApexPartition \<Rightarrow> string \<Rightarrow> ApexFileRepository \<Rightarrow>
   ((apex_error, unit) result \<times> ApexFileRepository) outcome" where
  "add_credentials o' s part dir r =
     (if absent o' dir s then Returns (Inr (), r)
      else case a_FindFilesBySuffix o' dir [kBrandNewApexPublicKeySuffix] s of
             Inl e \<Rightarrow> Returns (Inl e, r)
           | Inr files \<Rightarrow>
               out_bind (add_pubkeys o' s part files r)
                 (\<lambda>r. let blocklist_path = dir @ ''/'' @ kBrandNewApexBlocklistFileName
                      in case a_PathExists o' blocklist_path s of
                           Inl e \<Rightarrow> Returns (Inl e, r)
                         | Inr False \<Rightarrow> Returns (Inr (), r)
                         | Inr True \<Rightarrow>
                             (case ReadBlocklist o' blocklist_path s of
                                Inl e \<Rightarrow> Returns (Inl e, r)
                              | Inr items \<Rightarrow>
                                  out_bind (block_versions items [])
                                    (\<lambda>m. Returns (Inr (), r\<lparr>brand_new_apex_blocked_version :=
                                       emplace part m (brand_new_apex_blocked_version r)\<rparr>)))))"

fun AddBrandNewApexCredentialAndBlocklist ::
  "'s apex_os \<Rightarrow> 's \<Rightarrow> (ApexPartition \<times> string) list \<Rightarrow> ApexFileRepository \<Rightarrow>
   ((apex_error, unit) result \<times> ApexFileRepository) outcome" where
  "AddBrandNewApexCredentialAndBlocklist o' s [] r = Returns (Inr (), r)"
| "AddBrandNewApexCredentialAndBlocklist o' s ((part, dir) # ds) r =
     out_bind (add_credentials o' s part dir r)
       (\<lambda>(res, r). case res of Inl e \<Rightarrow> Returns (Inl e, r)
                    | Inr _ \<Rightarrow> AddBrandNewApexCredentialAndBlocklist o' s ds r)"

section \<open>Queries\<close>

definition GetPartition :: "'s apex_os \<Rightarrow> ApexFileRepository \<Rightarrow> ApexFile \<Rightarrow> (apex_error, ApexPartition) result" where
  "GetPartition o' r a =
     (case map_of (partition_store r) (f_name a) of
        Some p \<Rightarrow> Inr p
      | None \<Rightarrow>
          if \<not> enable_brand_new_apex r then Inl (Failure ''No preinstalled data'' [f_name a])
          else a_VerifyBrandNew o' r a)"

definition IsDecompressedApex :: "ApexFileRepository \<Rightarrow> ApexFile \<Rightarrow> bool" where
  "IsDecompressedApex r a \<longleftrightarrow> prefix (decompression_dir r) (f_path a)"

definition IsPreInstalledApex :: "ApexFileRepository \<Rightarrow> ApexFile \<Rightarrow> bool" where
  "IsPreInstalledApex r a \<longleftrightarrow>
     (case map_of (pre_installed_store r) (f_name a) of
        None \<Rightarrow> False
      | Some b \<Rightarrow> f_path b = f_path a \<or> IsDecompressedApex r a)"

definition IsBlockApex :: "ApexFileRepository \<Rightarrow> ApexFile \<Rightarrow> bool" where
  "IsBlockApex r a \<longleftrightarrow>
     (case block_disk_path r of None \<Rightarrow> False | Some disk \<Rightarrow> prefix disk (f_path a))"

definition GetPublicKey :: "ApexFileRepository \<Rightarrow> string \<Rightarrow> (apex_error, string) result" where
  "GetPublicKey r n =
     (case map_of (pre_installed_store r) n of
        Some a \<Rightarrow> Inr (f_public_key a)
      | None \<Rightarrow>
          (case map_of (data_store r) n of
             Some a \<Rightarrow> if IsBlockApex r a then Inr (f_public_key a)
                       else Inl (Failure ''No preinstalled apex'' [n])
           | None \<Rightarrow> Inl (Failure ''No preinstalled apex'' [n])))"

definition GetPreinstalledPath :: "ApexFileRepository \<Rightarrow> string \<Rightarrow> (apex_error, string) result" where
  "GetPreinstalledPath r n =
     (case map_of (pre_installed_store r) n of
        None \<Rightarrow> Inl (Failure ''No preinstalled data'' [n])
      | Some a \<Rightarrow> Inr (f_path a))"

definition GetBlockApexRootDigest :: "ApexFileRepository \<Rightarrow> string \<Rightarrow> string option" where
  "GetBlockApexRootDigest r path =
     (case map_of (block_apex_overrides r) path of None \<Rightarrow> None | Some ov \<Rightarrow> block_apex_root_digest ov)"

definition GetBlockApexLastUpdateSeconds :: "ApexFileRepository \<Rightarrow> string \<Rightarrow> int option" where
  "GetBlockApexLastUpdateSeconds r path =
     (case map_of (block_apex_overrides r) path of None \<Rightarrow> None | Some ov \<Rightarrow> last_update_seconds ov)"

definition HasPreInstalledVersion :: "ApexFileRepository \<Rightarrow> string \<Rightarrow> bool" where
  "HasPreInstalledVersion r n \<longleftrightarrow> map_of (pre_installed_store r) n \<noteq> None"

definition HasDataVersion :: "ApexFileRepository \<Rightarrow> string \<Rightarrow> bool" where
  "HasDataVersion r n \<longleftrightarrow> map_of (data_store r) n \<noteq> None"

definition GetPreInstalledApexFiles :: "ApexFileRepository \<Rightarrow> ApexFile list" where
  "GetPreInstalledApexFiles r = map snd (pre_installed_store r)"

definition GetDataApexFiles :: "ApexFileRepository \<Rightarrow> ApexFile list" where
  "GetDataApexFiles r = map snd (data_store r)"

definition GetBrandNewApexPublicKeyPartition :: "ApexFileRepository \<Rightarrow> string \<Rightarrow> ApexPartition option" where
  "GetBrandNewApexPublicKeyPartition r key = map_of (brand_new_apex_pubkeys r) key"

definition GetBrandNewApexBlockedVersion :: "ApexFileRepository \<Rightarrow> ApexPartition \<Rightarrow> string \<Rightarrow> int option" where
  "GetBrandNewApexBlockedVersion r part n =
     (case map_of (brand_new_apex_blocked_version r) part of None \<Rightarrow> None | Some m \<Rightarrow> map_of m n)"

text \<open>Grouping: every file is appended to the list of its package.\<close>

definition group_put :: "ApexFile \<Rightarrow> (string \<times> ApexFile list) list \<Rightarrow> (string \<times> ApexFile list) list" where
  "group_put a g =
     (let g = (if map_of g (f_name a) = None then assign (f_name a) [] g else g)
      in assign (f_name a) (the (map_of g (f_name a)) @ [a]) g)"

definition AllApexFilesByName :: "ApexFileRepository \<Rightarrow> (string \<times> ApexFile list) list" where
  "AllApexFilesByName r = fold group_put (GetPreInstalledApexFiles r @ GetDataApexFiles r) []"

definition GetDataApex :: "ApexFileRepository \<Rightarrow> string \<Rightarrow> ApexFile outcome" where
  "GetDataApex r n = (case map_of (data_store r) n of None \<Rightarrow> Aborts | Some a \<Rightarrow> Returns a)"

definition GetPreInstalledApex :: "ApexFileRepository \<Rightarrow> string \<Rightarrow> ApexFile outcome" where
  "GetPreInstalledApex r n = (case map_of (pre_installed_store r) n of None \<Rightarrow> Aborts | Some a \<Rightarrow> Returns a)"

end
