(* ===== verification/Apexd_Mount.thy ===== *)
theory Apexd_Mount
  imports Apex_Repository
begin

text \<open>
  The mounting half of the APEX daemon (\<open>apexd.cpp\<close>): verity tables, mounting and unmounting one package
  with its loop and device mapper devices, temporary mounts for verification, the checks of a package
  at boot, and activation.  The state \<open>apexd\<close> holds the repository, the other globals of the file, the
  abstract state of the system and the sequence of the calls that change devices, mounts, package files
  or properties.  Loop devices, the device mapper, the database of mounted packages (\<open>apex_database.h\<close>),
  the shim checks and libavb's result for a package are fields of the record \<open>dev_os\<close>.  The destructors
  of the C++ objects that guard a device or a directory are written out where they run.
\<close>

section \<open>State\<close>

record ApexVerityData =
  v_dm_verity_version :: u32
  v_image_size :: u64
  v_tree_offset :: u64
  v_data_block_size :: u32
  v_hash_block_size :: u32
  v_hash_algorithm :: string
  v_root_digest :: string
  v_salt :: string

record DmTable =
  t_start :: u64
  t_length :: u64
  t_version :: u32
  t_block_device :: string
  t_hash_device :: string
  t_data_block_size :: u32
  t_hash_block_size :: u32
  t_num_data_blocks :: u32
  t_hash_start_block :: u32
  t_hash_algorithm :: string
  t_root_digest :: string
  t_salt :: string
  t_ignore_zero_blocks :: bool
  t_verity_mode :: "string option"
  t_readonly :: bool

record MountedApexData =
  md_version :: int
  md_loop_name :: string
  md_full_path :: string
  md_mount_point :: string
  md_device_name :: string

text \<open>The calls that the daemon makes and that matter to the rest of the system.\<close>

datatype apex_call =
    Loop string string
  | LoopGone string
  | Verity string DmTable string
  | VerityGone string
  | Mount string string string u32
  | Bind string string
  | Umount string
  | Link string string
  | Unlink string
  | Rename string string
  | SetProp string string
  | Reboot

record 's apexd =
  ax_os :: 's
  ax_calls :: "apex_call list"
  ax_repo :: ApexFileRepository
  gChangedActiveApexes :: "string list"
  gSupportsFsCheckpoints :: bool
  gInFsCheckpointMode :: bool

record ApexdConfig =
  cfg_apex_status_sysprop :: string
  cfg_builtin_dirs :: "(ApexPartition \<times> string) list"
  cfg_active_apex_data_dir :: string
  cfg_decompression_dir :: string
  cfg_ota_reserved_dir :: string
  cfg_staged_session_dir :: string
  cfg_vm_payload_metadata_partition_prop :: string
  cfg_active_apex_selinux_ctx :: string
  cfg_early_vm :: bool

text \<open>
  Numbers returned by system calls are the errno, 0 on success.  \<open>d_drop_loop\<close> and \<open>d_drop_dm\<close> are the
  destructors of \<open>LoopbackDeviceUniqueFd\<close> and \<open>DmDevice\<close>, \<open>d_keep_loop\<close> is \<open>CloseGood\<close>.  \<open>d_mounted\<close> lists
  the database as \<open>ForallMountedApexes\<close> visits it, with the flag of the latest version; \<open>d_is_latest\<close> tells
  whether \<open>DoIfLatest\<close> calls its handler.
\<close>

record 's dev_os =
  d_os :: "'s apex_os"
  d_config :: ApexdConfig
  d_mkdir :: "string \<Rightarrow> 's \<Rightarrow> int \<times> 's"
  d_rmdir :: "string \<Rightarrow> 's \<Rightarrow> int \<times> 's"
  d_IsEmptyDirectory :: "string \<Rightarrow> 's \<Rightarrow> bool"
  d_CreateLoop :: "string \<Rightarrow> nat \<Rightarrow> nat \<Rightarrow> 's \<Rightarrow> (apex_error, string) result \<times> 's"
  d_drop_loop :: "string \<Rightarrow> 's \<Rightarrow> 's"
  d_keep_loop :: "string \<Rightarrow> 's \<Rightarrow> 's"
  d_VerifyApexVerity :: "ApexFile \<Rightarrow> string \<Rightarrow> 's \<Rightarrow> (apex_error, ApexVerityData) result"
  d_CreateDmDevice :: "string \<Rightarrow> DmTable \<Rightarrow> bool \<Rightarrow> 's \<Rightarrow> (apex_error, string) result \<times> 's"
  d_drop_dm :: "string \<Rightarrow> 's \<Rightarrow> 's"
  d_ConfigureReadAhead :: "string \<Rightarrow> 's \<Rightarrow> (apex_error, unit) result \<times> 's"
  d_open :: "string \<Rightarrow> 's \<Rightarrow> int \<times> 's"
  d_ReadFully :: "int \<Rightarrow> nat \<Rightarrow> 's \<Rightarrow> bool \<times> 's"
  d_close :: "int \<Rightarrow> 's \<Rightarrow> 's"
  d_mount :: "string \<Rightarrow> string \<Rightarrow> string \<Rightarrow> u32 \<Rightarrow> 's \<Rightarrow> int \<times> 's"
  d_umount2 :: "string \<Rightarrow> bool \<Rightarrow> 's \<Rightarrow> int \<times> 's"
  d_BindMount :: "string \<Rightarrow> string \<Rightarrow> 's \<Rightarrow> (apex_error, unit) result \<times> 's"
  d_ReadManifest :: "string \<Rightarrow> 's \<Rightarrow> (apex_error, ApexManifest) result"
  d_IsShimApex :: "ApexFile \<Rightarrow> bool"
  d_SystemShimApexName :: string
  d_ValidateShimApex :: "string \<Rightarrow> ApexFile \<Rightarrow> 's \<Rightarrow> (apex_error, unit) result"
  d_ValidateUpdate :: "string \<Rightarrow> string \<Rightarrow> 's \<Rightarrow> (apex_error, unit) result"
  d_DeleteDmDevice :: "string \<Rightarrow> bool \<Rightarrow> 's \<Rightarrow> (apex_error, unit) result \<times> 's"
  d_DestroyLoopDevice :: "string \<Rightarrow> 's \<Rightarrow> 's"
  d_GetPackageId :: "ApexManifest \<Rightarrow> string"
  d_mounted :: "'s \<Rightarrow> (string \<times> MountedApexData \<times> bool) list"
  d_mounted_of :: "string \<Rightarrow> 's \<Rightarrow> (MountedApexData \<times> bool) list"
  d_AddMountedApex :: "string \<Rightarrow> MountedApexData \<Rightarrow> 's \<Rightarrow> 's"
  d_RemoveMountedApex :: "string \<Rightarrow> string \<Rightarrow> 's \<Rightarrow> 's"
  d_is_latest :: "string \<Rightarrow> string \<Rightarrow> 's \<Rightarrow> bool"
  d_GetLatestMountedApex :: "string \<Rightarrow> 's \<Rightarrow> MountedApexData option"

type_synonym ('s, 'a) action = "'s apexd \<Rightarrow> (apex_error, 'a) result \<times> 's apexd"

section \<open>Sequencing\<close>

definition sys :: "('s \<Rightarrow> 'a \<times> 's) \<Rightarrow> 's apexd \<Rightarrow> 'a \<times> 's apexd" where
  "sys f w = (case f (ax_os w) of (x, s) \<Rightarrow> (x, w\<lparr>ax_os := s\<rparr>))"

definition sys_do :: "('s \<Rightarrow> 's) \<Rightarrow> 's apexd \<Rightarrow> 's apexd" where
  "sys_do f w = w\<lparr>ax_os := f (ax_os w)\<rparr>"

definition record_call :: "apex_call \<Rightarrow> 's apexd \<Rightarrow> 's apexd" where
  "record_call c w = w\<lparr>ax_calls := ax_calls w @ [c]\<rparr>"

definition caused_by :: "string \<Rightarrow> string list \<Rightarrow> (apex_error, 'a) result \<times> 'w \<Rightarrow> (apex_error, 'a) result \<times> 'w" where
  "caused_by t args p = (case p of (Inl e, w) \<Rightarrow> (Inl (Caused t args e), w) | (Inr x, w) \<Rightarrow> (Inr x, w))"

text \<open>Calls that take something down are recorded as they are made.\<close>

definition drop_loop :: "'s dev_os \<Rightarrow> string \<Rightarrow> 's apexd \<Rightarrow> 's apexd" where
  "drop_loop d name w = sys_do (d_drop_loop d name) (record_call (LoopGone name) w)"

definition drop_dm :: "'s dev_os \<Rightarrow> string \<Rightarrow> 's apexd \<Rightarrow> 's apexd" where
  "drop_dm d name w = sys_do (d_drop_dm d name) (record_call (VerityGone name) w)"

definition delete_dm :: "'s dev_os \<Rightarrow> string \<Rightarrow> bool \<Rightarrow> ('s, unit) action" where
  "delete_dm d name deferred w = sys (d_DeleteDmDevice d name deferred) (record_call (VerityGone name) w)"

definition umount_call :: "'s dev_os \<Rightarrow> string \<Rightarrow> bool \<Rightarrow> 's apexd \<Rightarrow> int \<times> 's apexd" where
  "umount_call d path detach w = sys (d_umount2 d path detach) (record_call (Umount path) w)"

section \<open>Verity\<close>

definition kDmVerityRestartOnCorruption :: string where
  "kDmVerityRestartOnCorruption = ''restart_on_corruption''"

definition CreateVerityTable :: "ApexVerityData \<Rightarrow> string \<Rightarrow> bool \<Rightarrow> DmTable" where
  "CreateVerityTable v block_device restart_on_corruption =
     \<lparr>t_start = 0, t_length = v_image_size v div 512,
      t_version = v_dm_verity_version v, t_block_device = block_device, t_hash_device = block_device,
      t_data_block_size = v_data_block_size v, t_hash_block_size = v_hash_block_size v,
      t_num_data_blocks = ucast (v_image_size v div ucast (v_data_block_size v)),
      t_hash_start_block = ucast (v_tree_offset v div ucast (v_hash_block_size v)),
      t_hash_algorithm = v_hash_algorithm v, t_root_digest = v_root_digest v, t_salt = v_salt v,
      t_ignore_zero_blocks = True,
      t_verity_mode = (if restart_on_corruption then Some kDmVerityRestartOnCorruption else None),
      t_readonly = True\<rparr>"

definition kBufSize :: nat where "kBufSize = 1024 * 4096"

function read_blocks :: "'s dev_os \<Rightarrow> int \<Rightarrow> nat \<Rightarrow> 's apexd \<Rightarrow> bool \<times> 's apexd" where
  "read_blocks d fd left w =
     (if left = 0 then (True, w)
      else let n = min left kBufSize;
               (ok, w) = sys (d_ReadFully d fd n) w
           in if ok then read_blocks d fd (left - n) w else (False, w))"
  by pat_completeness auto
termination
  by (relation "measure (\<lambda>(d, fd, left, w). left)") (auto simp: kBufSize_def)

declare read_blocks.simps [simp del]

definition ReadVerityDevice :: "'s dev_os \<Rightarrow> string \<Rightarrow> u64 \<Rightarrow> ('s, unit) action" where
  "ReadVerityDevice d verity_device device_size w =
     (let (fd, w) = sys (d_open d verity_device) w
      in if fd = -1 then (Inl (Failure ''open'' [verity_device]), w)
         else
           (let (ok, w) = read_blocks d fd (unat device_size) w;
                w = sys_do (d_close d fd) w
            in (if ok then Inr () else Inl (Failure ''verify'' [verity_device]), w)))"

definition kManifestFilenamePb :: string where "kManifestFilenamePb = ''apex_manifest.pb''"

definition VerifyMountedImage :: "'s dev_os \<Rightarrow> ApexFile \<Rightarrow> string \<Rightarrow> 's apexd \<Rightarrow> (apex_error, unit) result" where
  "VerifyMountedImage d a mount_point w =
     (case d_ReadManifest d (mount_point @ ''/'' @ kManifestFilenamePb) (ax_os w) of
        Inl e \<Rightarrow> Inl e
      | Inr m \<Rightarrow>
          if m \<noteq> f_manifest a then Inl (Failure ''manifest'' [])
          else if d_IsShimApex d a then d_ValidateShimApex d mount_point a (ax_os w)
          else Inr ())"

section \<open>Mounting a package\<close>

definition kLoopDeviceSetupAttempts :: nat where "kLoopDeviceSetupAttempts = 3"

text \<open>\<open>loop_attempts n\<close>: the attempts that are left, at least one.\<close>

fun loop_attempts :: "'s dev_os \<Rightarrow> string \<Rightarrow> nat \<Rightarrow> nat \<Rightarrow> nat \<Rightarrow> ('s, string) action" where
  "loop_attempts d path off len n w =
     (case sys (d_CreateLoop d path off len) w of
        (Inr name, w) \<Rightarrow> (Inr name, record_call (Loop path name) w)
      | (Inl e, w) \<Rightarrow>
          if n \<le> 1 then (Inl (Caused ''create loop device'' [path] e), w)
          else loop_attempts d path off len (n - 1) w)"

declare loop_attempts.simps [simp del]

text \<open>\<open>MS_NOATIME | MS_NODEV | MS_DIRSYNC | MS_RDONLY\<close>, and \<open>MS_NOEXEC\<close> for a package without code.\<close>

definition apex_mount_flags :: "ApexManifest \<Rightarrow> u32" where
  "apex_mount_flags m = 0x400 OR 0x4 OR 0x80 OR 0x1 OR (if m_nocode m then 0x8 else 0)"

text \<open>Mounting the image from its block device and checking what was mounted.\<close>

definition mount_image :: "'s dev_os \<Rightarrow> ApexFile \<Rightarrow> string \<Rightarrow> string \<Rightarrow> ('s, unit) action" where
  "mount_image d a block_device mount_point w =
     (case f_fs_type a of
        None \<Rightarrow> (Inl (Failure ''FsType'' []), w)
      | Some fs \<Rightarrow>
          (let flags = apex_mount_flags (f_manifest a);
               (rc, w) = sys (d_mount d block_device mount_point fs flags)
                             (record_call (Mount block_device mount_point fs flags) w)
           in if rc \<noteq> 0 then (Inl (Failure ''mount'' [f_path a]), w)
              else case VerifyMountedImage d a mount_point w of
                     Inl e \<Rightarrow> (Inl (Caused ''verify'' [f_path a] e), snd (umount_call d mount_point False w))
                   | Inr _ \<Rightarrow> (Inr (), w)))"

text \<open>With a verity device: the device is deleted again unless the mount is accepted.\<close>

definition mount_verity ::
  "'s dev_os \<Rightarrow> ApexFile \<Rightarrow> ApexVerityData \<Rightarrow> string \<Rightarrow> string \<Rightarrow> string \<Rightarrow> bool \<Rightarrow> bool \<Rightarrow> ('s, unit) action" where
  "mount_verity d a v loop_name mount_point device_name verify_image reuse_device w =
     (let table = CreateVerityTable v loop_name (\<not> verify_image)
      in case sys (d_CreateDmDevice d device_name table reuse_device) w of
           (Inl e, w) \<Rightarrow> (Inl (Caused ''verity device'' [f_path a] e), w)
         | (Inr dev, w) \<Rightarrow>
             (let (res, w) =
                    or_return (sys (d_ConfigureReadAhead d dev) (record_call (Verity device_name table dev) w))
                      (\<lambda>_ w. or_return (if verify_image then ReadVerityDevice d dev (v_image_size v) w
                                         else (Inr (), w))
                         (\<lambda>_. mount_image d a dev mount_point))
              in (res, case res of Inl e \<Rightarrow> drop_dm d device_name w | Inr _ \<Rightarrow> w)))"

definition mount_on_verity :: "ApexFileRepository \<Rightarrow> ApexFile \<Rightarrow> bool" where
  "mount_on_verity r a \<longleftrightarrow> \<not> IsPreInstalledApex r a \<or> IsDecompressedApex r a \<or> IsBlockApex r a"

text \<open>Everything between the creation of the loop device and its destructor.\<close>

definition mount_on_loop ::
  "'s dev_os \<Rightarrow> ApexFile \<Rightarrow> string \<Rightarrow> string \<Rightarrow> bool \<Rightarrow> bool \<Rightarrow> string \<Rightarrow> ('s, MountedApexData) action" where
  "mount_on_loop d a mount_point device_name verify_image reuse_device loop_name w =
     (case d_VerifyApexVerity d a (f_public_key a) (ax_os w) of
        Inl e \<Rightarrow> (Inl (Caused ''verity data'' [f_path a] e), w)
      | Inr v \<Rightarrow>
          if IsBlockApex (ax_repo w) a \<and>
             (case GetBlockApexRootDigest (ax_repo w) (f_path a) of
                None \<Rightarrow> False | Some dig \<Rightarrow> dig \<noteq> v_root_digest v)
          then (Inl (Failure ''root digest'' [f_path a]), w)
          else
            (let on_verity = mount_on_verity (ax_repo w) a;
                 data = \<lparr>md_version = f_version a, md_loop_name = loop_name, md_full_path = f_path a,
                         md_mount_point = mount_point,
                         md_device_name = (if on_verity then device_name else [])\<rparr>
             in or_return
                  (if on_verity
                   then mount_verity d a v loop_name mount_point device_name verify_image reuse_device w
                   else mount_image d a loop_name mount_point w)
                  (\<lambda>_ w. (Inr data, sys_do (d_keep_loop d loop_name) w))))"

text \<open>Everything between the creation of the mount point and its guard.\<close>

definition mount_in_dir ::
  "'s dev_os \<Rightarrow> ApexFile \<Rightarrow> string \<Rightarrow> string \<Rightarrow> bool \<Rightarrow> bool \<Rightarrow> ('s, MountedApexData) action" where
  "mount_in_dir d a mount_point device_name verify_image reuse_device w =
     (if \<not> d_IsEmptyDirectory d mount_point (ax_os w) then (Inl (Failure ''not empty'' [mount_point]), w)
      else case (f_image_offset a, f_image_size a) of
             (Some off, Some len) \<Rightarrow>
               or_return (loop_attempts d (f_path a) off len kLoopDeviceSetupAttempts w)
                 (\<lambda>loop_name w.
                    let (res, w) = mount_on_loop d a mount_point device_name verify_image reuse_device loop_name w
                    in (res, case res of Inl e \<Rightarrow> drop_loop d loop_name w | Inr _ \<Rightarrow> w))
           | _ \<Rightarrow> (Inl (Failure ''image offset and size'' []), w))"

definition MountPackageImpl ::
  "'s dev_os \<Rightarrow> ApexFile \<Rightarrow> string \<Rightarrow> string \<Rightarrow> bool \<Rightarrow> bool \<Rightarrow> ('s, MountedApexData) action" where
  "MountPackageImpl d a mount_point device_name verify_image reuse_device w =
     (if f_compressed a then (Inl (Failure ''compressed'' [f_path a]), w)
      else case a_PathExists (d_os d) mount_point (ax_os w) of
             Inl e \<Rightarrow> (Inl e, w)
           | Inr found \<Rightarrow>
               (let (rc, w) = (if found then (0, w) else sys (d_mkdir d mount_point) w)
                in if rc \<noteq> 0 then (Inl (Failure ''mkdir'' [mount_point]), w)
                   else
                     (let (res, w) = mount_in_dir d a mount_point device_name verify_image reuse_device w
                      in (res, case res of Inl e \<Rightarrow> snd (sys (d_rmdir d mount_point) w) | Inr _ \<Rightarrow> w))))"

section \<open>Unmounting\<close>

definition EINVAL_apex :: int where "EINVAL_apex = 22"

definition Unmount :: "'s dev_os \<Rightarrow> MountedApexData \<Rightarrow> bool \<Rightarrow> ('s, unit) action" where
  "Unmount d data deferred w =
     (let (rc, w) = umount_call d (md_mount_point data) False w
      in if rc \<noteq> 0 \<and> rc \<noteq> EINVAL_apex \<and> rc \<noteq> ENOENT then (Inl (Failure ''unmount'' [md_mount_point data]), w)
         else
           (let w = (if deferred then w else snd (sys (d_rmdir d (md_mount_point data)) w))
            in or_return
                 (if md_device_name data \<noteq> [] then delete_dm d (md_device_name data) deferred w
                  else (Inr (), w))
                 (\<lambda>_ w. (Inr (),
                    if md_loop_name data \<noteq> [] \<and> \<not> deferred
                    then sys_do (d_DestroyLoopDevice d (md_loop_name data)) (record_call (LoopGone (md_loop_name data)) w)
                    else w))))"

definition kApexRoot :: string where "kApexRoot = ''/apex''"

definition GetPackageMountPoint :: "'s dev_os \<Rightarrow> ApexManifest \<Rightarrow> string" where
  "GetPackageMountPoint d m = kApexRoot @ ''/'' @ d_GetPackageId d m"

definition GetPackageTempMountPoint :: "'s dev_os \<Rightarrow> ApexManifest \<Rightarrow> string" where
  "GetPackageTempMountPoint d m = GetPackageMountPoint d m @ ''.tmp''"

definition GetActiveMountPoint :: "ApexManifest \<Rightarrow> string" where
  "GetActiveMountPoint m = kApexRoot @ ''/'' @ m_name m"

text \<open>
  Temporary mounts: the packages are mounted in turn; whatever happens, those that were mounted are
  unmounted at the end.
\<close>

fun temp_mounts ::
  "'s dev_os \<Rightarrow> ApexFile list \<Rightarrow> MountedApexData list \<Rightarrow> 's apexd \<Rightarrow>
   (apex_error, unit) result \<times> MountedApexData list \<times> 's apexd" where
  "temp_mounts d [] ms w = (Inr (), ms, w)"
| "temp_mounts d (a # as) ms w =
     (case MountPackageImpl d a (GetPackageTempMountPoint d (f_manifest a))
             (d_GetPackageId d (f_manifest a) @ ''.tmp'') True False w of
        (Inl e, w) \<Rightarrow> (Inl e, ms, w)
      | (Inr data, w) \<Rightarrow> temp_mounts d as (ms @ [data]) w)"

definition RunVerifyFnInsideTempMounts ::
  "'s dev_os \<Rightarrow> ApexFile list \<Rightarrow> (string list \<Rightarrow> ('s, 'a) action) \<Rightarrow> ('s, 'a) action" where
  "RunVerifyFnInsideTempMounts d apex_files verify_fn w =
     (let (res, ms, w) = temp_mounts d apex_files [] w;
          (res, w) = (case res of
                        Inl e \<Rightarrow> (Inl e, w)
                      | Inr _ \<Rightarrow> verify_fn (map (\<lambda>a. GetPackageTempMountPoint d (f_manifest a)) apex_files) w)
      in (res, fold (\<lambda>data w. snd (Unmount d data False w)) ms w))"

definition RunVerifyFnInsideTempMount ::
  "'s dev_os \<Rightarrow> ApexFile \<Rightarrow> (string \<Rightarrow> ('s, 'a) action) \<Rightarrow> ('s, 'a) action" where
  "RunVerifyFnInsideTempMount d a verify_fn =
     RunVerifyFnInsideTempMounts d [a] (\<lambda>mount_points. verify_fn (mount_points ! 0))"

text \<open>The database of mounted packages may hold a path more than once; the last entry counts.\<close>

definition UnmountPackage ::
  "'s dev_os \<Rightarrow> ApexFile \<Rightarrow> bool \<Rightarrow> bool \<Rightarrow> bool \<Rightarrow> ('s, unit) action" where
  "UnmountPackage d a allow_latest deferred detach_mount_point w =
     (case filter (\<lambda>(data, latest). md_full_path data = f_path a) (d_mounted_of d (f_name a) (ax_os w)) of
        [] \<Rightarrow> (Inl (Failure ''Did not find'' [f_path a]), w)
      | m # ms \<Rightarrow>
          (let (data, latest) = last (m # ms)
           in or_return
                (if latest \<and> \<not> m_providesharedapexlibs (f_manifest a) then
                   if \<not> allow_latest then (Inl (Failure ''is active'' [f_path a]), w)
                   else
                     (let mount_point = GetActiveMountPoint (f_manifest a);
                          (rc, w) = umount_call d mount_point detach_mount_point w
                      in if rc \<noteq> 0 then (Inl (Failure ''unmount'' [mount_point]), w)
                         else (Inr (), if deferred then w else snd (sys (d_rmdir d mount_point) w)))
                 else (Inr (), w))
                (\<lambda>_ w. Unmount d data deferred (sys_do (d_RemoveMountedApex d (f_name a) (f_path a)) w))))"

definition MountPackage :: "'s dev_os \<Rightarrow> ApexFile \<Rightarrow> string \<Rightarrow> string \<Rightarrow> bool \<Rightarrow> ('s, unit) action" where
  "MountPackage d a mount_point device_name reuse_device w =
     or_return (MountPackageImpl d a mount_point device_name False reuse_device w)
       (\<lambda>data w. (Inr (), sys_do (d_AddMountedApex d (f_name a) data) w))"

definition IsMounted :: "'s dev_os \<Rightarrow> string \<Rightarrow> 's apexd \<Rightarrow> bool" where
  "IsMounted d full_path w \<longleftrightarrow> (\<exists>(n, data, latest) \<in> set (d_mounted d (ax_os w)). full_path = md_full_path data)"

section \<open>Verification at boot\<close>

definition GetVerifiedPublicKey :: "'s dev_os \<Rightarrow> ApexFile \<Rightarrow> 's apexd \<Rightarrow> (apex_error, string) result" where
  "GetVerifiedPublicKey d a w =
     (case GetPublicKey (ax_repo w) (f_name a) of
        Inr key \<Rightarrow> Inr key
      | Inl e \<Rightarrow>
          if enable_brand_new_apex (ax_repo w) \<and> \<not> isl (a_VerifyBrandNew (d_os d) (ax_repo w) a)
          then Inr (f_public_key a)
          else Inl (Failure ''unverified'' [f_name a]))"

definition kApexPackageSystemDir :: string where "kApexPackageSystemDir = ''/system/apex''"

definition ValidateStagingShimApex :: "'s dev_os \<Rightarrow> ApexFile \<Rightarrow> ('s, unit) action" where
  "ValidateStagingShimApex d to w =
     (case a_Open (d_os d) (kApexPackageSystemDir @ ''/'' @ d_SystemShimApexName d) (ax_os w) of
        Inl e \<Rightarrow> (Inl e, w)
      | Inr system_shim \<Rightarrow>
          RunVerifyFnInsideTempMount d system_shim
            (\<lambda>path w. (d_ValidateUpdate d path (f_path to) (ax_os w), w)) w)"

definition VerifyVndkVersion :: "'s dev_os \<Rightarrow> ApexFile \<Rightarrow> 's apexd \<Rightarrow> (apex_error, unit) result" where
  "VerifyVndkVersion d a w =
     (let vndk = m_vndkversion (f_manifest a)
      in if vndk = [] then Inr ()
         else case GetPartition (d_os d) (ax_repo w) a of
                Inl e \<Rightarrow> Inl e
              | Inr part \<Rightarrow>
                  if part = Vendor \<or> part = Odm then
                    (if vndk \<noteq> a_GetProperty (d_os d) ''ro.vndk.version'' [] (ax_os w)
                     then Inl (Failure ''vndkVersion'' [vndk]) else Inr ())
                  else if part = Product then
                    (if vndk \<noteq> a_GetProperty (d_os d) ''ro.product.vndk.version'' [] (ax_os w)
                     then Inl (Failure ''vndkVersion'' [vndk]) else Inr ())
                  else Inl (Failure ''vndkVersion set'' [vndk]))"

definition VerifyPackageBoot :: "'s dev_os \<Rightarrow> ApexFile \<Rightarrow> ('s, unit) action" where
  "VerifyPackageBoot d a w =
     (case GetVerifiedPublicKey d a w of
        Inl e \<Rightarrow> (Inl e, w)
      | Inr key \<Rightarrow>
          (case d_VerifyApexVerity d a key (ax_os w) of
             Inl e \<Rightarrow> (Inl e, w)
           | Inr v \<Rightarrow>
               or_return (if d_IsShimApex d a then ValidateStagingShimApex d a w else (Inr (), w))
                 (\<lambda>_ w. (VerifyVndkVersion d a w, w))))"

section \<open>Activation\<close>

definition kBannedApexName :: "string list" where "kBannedApexName = [''sharedlibs'']"

definition IsValidPackageName :: "string \<Rightarrow> bool" where
  "IsValidPackageName n \<longleftrightarrow> n \<notin> set kBannedApexName"

text \<open>
  Whether this version is mounted already and whether the last such mount is the latest: the packages of
  the database are opened again, those that cannot be opened are passed over.
\<close>

definition version_found :: "'s dev_os \<Rightarrow> ApexManifest \<Rightarrow> 's apexd \<Rightarrow> bool \<times> bool" where
  "version_found d m w =
     fold (\<lambda>(data, latest) found.
             case a_Open (d_os d) (md_full_path data) (ax_os w) of
               Inl e \<Rightarrow> found
             | Inr other \<Rightarrow> if f_version other = m_version m then (True, latest) else found)
       (d_mounted_of d (m_name m) (ax_os w)) (False, False)"

definition ActivatePackageImpl :: "'s dev_os \<Rightarrow> ApexFile \<Rightarrow> string \<Rightarrow> bool \<Rightarrow> ('s, unit) action" where
  "ActivatePackageImpl d a device_name reuse_device w =
     (if \<not> IsValidPackageName (f_name a) then (Inl (Failure ''not allowed'' [f_name a]), w)
      else
        or_return (if d_IsShimApex d a \<and> \<not> IsPreInstalledApex (ax_repo w) a then VerifyPackageBoot d a w
                   else (Inr (), w))
          (\<lambda>_ w.
             let (found_mounted, found_active) = version_found d (f_manifest a) w;
                 mount_point = GetPackageMountPoint d (f_manifest a)
             in if found_active \<and> \<not> m_providesharedapexlibs (f_manifest a) then (Inr (), w)
                else
                  or_return (if found_mounted then (Inr (), w)
                             else MountPackage d a mount_point device_name reuse_device w)
                    (\<lambda>_ w.
                       if m_providesharedapexlibs (f_manifest a) then (Inr (), w)
                       else if d_is_latest d (f_name a) (f_path a) (ax_os w)
                       then caused_by ''update package'' [f_name a]
                              (let active = GetActiveMountPoint (f_manifest a)
                               in sys (d_BindMount d active mount_point) (record_call (Bind active mount_point) w))
                       else (Inr (), w))))"

definition ActivatePackage :: "'s dev_os \<Rightarrow> string \<Rightarrow> ('s, unit) action" where
  "ActivatePackage d full_path w =
     (case a_Open (d_os d) full_path (ax_os w) of
        Inl e \<Rightarrow> (Inl e, w)
      | Inr a \<Rightarrow> ActivatePackageImpl d a (d_GetPackageId d (f_manifest a)) False w)"

definition DeactivatePackage :: "'s dev_os \<Rightarrow> string \<Rightarrow> ('s, unit) action" where
  "DeactivatePackage d full_path w =
     (case a_Open (d_os d) full_path (ax_os w) of
        Inl e \<Rightarrow> (Inl e, w)
      | Inr a \<Rightarrow> UnmountPackage d a True False False w)"

definition GetActivePackages :: "'s dev_os \<Rightarrow> 's apexd \<Rightarrow> ApexFile list" where
  "GetActivePackages d w =
     concat (map (\<lambda>(n, data, latest).
                    if \<not> latest then []
                    else case a_Open (d_os d) (md_full_path data) (ax_os w) of Inl e \<Rightarrow> [] | Inr a \<Rightarrow> [a])
               (d_mounted d (ax_os w)))"

definition GetFactoryPackages :: "'s dev_os \<Rightarrow> 's apexd \<Rightarrow> ApexFile list" where
  "GetFactoryPackages d w =
     (let decompressed = filter (IsDecompressedApex (ax_repo w)) (GetActivePackages d w)
      in decompressed @
         concat (map (\<lambda>p. case a_Open (d_os d) (f_path p) (ax_os w) of
                            Inl e \<Rightarrow> []
                          | Inr a \<Rightarrow> if f_compressed a \<and> f_name a \<in> f_name ` set decompressed then [] else [a])
                   (GetPreInstalledApexFiles (ax_repo w))))"

definition CalculateInactivePackages :: "'s dev_os \<Rightarrow> ApexFile list \<Rightarrow> 's apexd \<Rightarrow> ApexFile list" where
  "CalculateInactivePackages d active w =
     filter (\<lambda>a. \<not> (\<exists>b \<in> set active. f_path a = f_path b)) (GetFactoryPackages d w)"

end
