(* ===== verification/Apexd_Session.thy ===== *)
theory Apexd_Session
  imports Apexd_Mount
begin

text \<open>
  Sessions of the APEX daemon (\<open>apexd.cpp\<close>): submitting, marking, activating, aborting and reverting
  staged sessions, staging package files into the active directory, backup and restore of that
  directory, and snapshots of the data of packages.  The session class and its store
  (\<open>apex_session.h\<close>), the file helpers of \<open>apexd_utils.h\<close> and the VINTF check are not in the repository:
  they are fields of the record \<open>ses_os\<close>.
\<close>

section \<open>Sessions and the system below\<close>

datatype SessionState =
  UNKNOWN | VERIFIED | STAGED | ACTIVATED | ACTIVATION_FAILED | SUCCESS | REVERT_IN_PROGRESS | REVERTED | REVERT_FAILED

record ApexSession =
  ses_id :: int
  ses_state :: SessionState
  ses_child_ids :: "int list"
  ses_build_fingerprint :: string
  ses_has_rollback_enabled :: bool
  ses_is_rollback :: bool
  ses_rollback_id :: int
  ses_apex_names :: "string list"
  ses_file_hashes :: "string list"
  ses_error_message :: "apex_error option"
  ses_crashing_native_process :: string

text \<open>
  \<open>s_UpdateStateAndCommit\<close> gives a session object a state and writes it to the store.  The object itself
  is not needed afterwards, except to be committed again with another state.  \<open>s_file_hashes\<close> is what the
  install event computes for the files.
\<close>

record 's ses_os =
  s_dev :: "'s dev_os"
  s_GetSessions :: "'s \<Rightarrow> ApexSession list"
  s_GetSession :: "int \<Rightarrow> 's \<Rightarrow> (apex_error, ApexSession) result"
  s_CreateSession :: "int \<Rightarrow> 's \<Rightarrow> (apex_error, ApexSession) result \<times> 's"
  s_GetSessionsInState :: "SessionState \<Rightarrow> 's \<Rightarrow> ApexSession list"
  s_UpdateStateAndCommit :: "SessionState \<Rightarrow> ApexSession \<Rightarrow> 's \<Rightarrow> (apex_error, unit) result \<times> 's"
  s_DeleteSession :: "ApexSession \<Rightarrow> 's \<Rightarrow> (apex_error, unit) result \<times> 's"
  s_DeleteFinalizedSessions :: "'s \<Rightarrow> 's"
  s_IsFinalized :: "ApexSession \<Rightarrow> bool"
  s_GetStagedApexDirs :: "ApexSession \<Rightarrow> string \<Rightarrow> string list"
  s_unlink :: "string \<Rightarrow> 's \<Rightarrow> int \<times> 's"
  s_link :: "string \<Rightarrow> string \<Rightarrow> 's \<Rightarrow> int \<times> 's"
  s_rename :: "string \<Rightarrow> string \<Rightarrow> 's \<Rightarrow> int \<times> 's"
  s_stat_mode :: "string \<Rightarrow> 's \<Rightarrow> u32 option"
  s_chmod :: "string \<Rightarrow> u32 \<Rightarrow> 's \<Rightarrow> int \<times> 's"
  s_CreateDirIfNeeded :: "string \<Rightarrow> nat \<Rightarrow> 's \<Rightarrow> (apex_error, unit) result \<times> 's"
  s_DeleteDirContent :: "string \<Rightarrow> 's \<Rightarrow> (apex_error, unit) result \<times> 's"
  s_DeleteDir :: "string \<Rightarrow> 's \<Rightarrow> (apex_error, unit) result \<times> 's"
  s_ReplaceFiles :: "string \<Rightarrow> string \<Rightarrow> 's \<Rightarrow> (apex_error, unit) result \<times> 's"
  s_RestoreconPath :: "string \<Rightarrow> 's \<Rightarrow> (apex_error, unit) result \<times> 's"
  s_GetDeUserDirs :: "'s \<Rightarrow> (apex_error, string list) result"
  s_GetSubdirs :: "string \<Rightarrow> 's \<Rightarrow> (apex_error, string list) result"
  s_ParseUint :: "string \<Rightarrow> nat \<Rightarrow> nat option"
  s_CheckVintf :: "ApexFile list \<Rightarrow> string list \<Rightarrow> 's \<Rightarrow> (apex_error, unit) result"
  s_VerifyBrandNewActive :: "ApexFile \<Rightarrow> 's \<Rightarrow> (apex_error, unit) result"
  s_file_hashes :: "ApexFile list \<Rightarrow> string list"
  s_getflags :: "int \<Rightarrow> 's \<Rightarrow> u32 option"
  s_release_blocks :: "int \<Rightarrow> 's \<Rightarrow> 's"
  s_AbortChanges :: "'s \<Rightarrow> (apex_error, unit) result \<times> 's"
  s_reboot :: "'s \<Rightarrow> 's"

abbreviation s_os :: "'s ses_os \<Rightarrow> 's apex_os" where "s_os k \<equiv> d_os (s_dev k)"
abbreviation s_config :: "'s ses_os \<Rightarrow> ApexdConfig" where "s_config k \<equiv> d_config (s_dev k)"
abbreviation active_dir :: "'s ses_os \<Rightarrow> string" where "active_dir k \<equiv> cfg_active_apex_data_dir (s_config k)"

definition GetSessionsInState :: "'s ses_os \<Rightarrow> SessionState \<Rightarrow> 's apexd \<Rightarrow> ApexSession list" where
  "GetSessionsInState k st w = s_GetSessionsInState k st (ax_os w)"

definition UpdateStateAndCommit ::
  "'s ses_os \<Rightarrow> SessionState \<Rightarrow> ApexSession \<Rightarrow> 's apexd \<Rightarrow> (apex_error, unit) result \<times> 's apexd" where
  "UpdateStateAndCommit k st ses w = sys (s_UpdateStateAndCommit k st ses) w"

definition unlink_call :: "'s ses_os \<Rightarrow> string \<Rightarrow> 's apexd \<Rightarrow> int \<times> 's apexd" where
  "unlink_call k path w = sys (s_unlink k path) (record_call (Unlink path) w)"

definition link_call :: "'s ses_os \<Rightarrow> string \<Rightarrow> string \<Rightarrow> 's apexd \<Rightarrow> int \<times> 's apexd" where
  "link_call k from to w = sys (s_link k from to) (record_call (Link from to) w)"

definition FS_COMPR_FL :: u32 where "FS_COMPR_FL = 4"

definition ReleaseF2fsCompressedBlocks :: "'s ses_os \<Rightarrow> string \<Rightarrow> 's apexd \<Rightarrow> 's apexd" where
  "ReleaseF2fsCompressedBlocks k path w =
     (let (fd, w) = sys (d_open (s_dev k) path) w
      in if fd = -1 then w
         else
           (let w' = (case s_getflags k fd (ax_os w) of
                        None \<Rightarrow> w
                      | Some flags \<Rightarrow>
                          if flags AND FS_COMPR_FL = 0 then w else sys_do (s_release_blocks k fd) w)
            in sys_do (d_close (s_dev k) fd) w'))"

section \<open>Opening the files of a session\<close>

fun open_all :: "'s apex_os \<Rightarrow> string list \<Rightarrow> 's \<Rightarrow> (apex_error, ApexFile list) result" where
  "open_all o' [] s = Inr []"
| "open_all o' (p # ps) s =
     (case a_Open o' p s of
        Inl e \<Rightarrow> Inl e
      | Inr a \<Rightarrow> (case open_all o' ps s of Inl e \<Rightarrow> Inl e | Inr as \<Rightarrow> Inr (a # as)))"

definition OpenApexFiles :: "'s apex_os \<Rightarrow> string list \<Rightarrow> 's \<Rightarrow> (apex_error, ApexFile list) result" where
  "OpenApexFiles o' paths s = (if paths = [] then Inl (Failure ''Empty set of inputs'' []) else open_all o' paths s)"

fun session_paths :: "'s ses_os \<Rightarrow> int list \<Rightarrow> 's \<Rightarrow> (apex_error, string list) result" where
  "session_paths k [] s = Inr []"
| "session_paths k (i # is) s =
     (let dir = cfg_staged_session_dir (s_config k) @ ''/session_'' @ to_string i
      in case a_FindFilesBySuffix (s_os k) dir [kApexPackageSuffix] s of
           Inl e \<Rightarrow> Inl e
         | Inr [p] \<Rightarrow> (case session_paths k is s of Inl e \<Rightarrow> Inl e | Inr ps \<Rightarrow> Inr (p # ps))
         | Inr _ \<Rightarrow> Inl (Failure ''Expected exactly one'' [dir]))"

definition OpenSessionApexFiles ::
  "'s ses_os \<Rightarrow> int \<Rightarrow> int list \<Rightarrow> 's \<Rightarrow> (apex_error, ApexFile list) result" where
  "OpenSessionApexFiles k session_id child_session_ids s =
     (case session_paths k (if child_session_ids \<noteq> [] then child_session_ids else [session_id]) s of
        Inl e \<Rightarrow> Inl e
      | Inr paths \<Rightarrow> OpenApexFiles (s_os k) paths s)"

definition GetStagedApexFiles ::
  "'s ses_os \<Rightarrow> int \<Rightarrow> int list \<Rightarrow> 's \<Rightarrow> (apex_error, ApexFile list) result" where
  "GetStagedApexFiles k session_id child_session_ids s =
     (case s_GetSession k session_id s of
        Inl e \<Rightarrow> Inl e
      | Inr ses \<Rightarrow>
          if ses_state ses \<noteq> STAGED then Inl (Failure ''not STAGED'' [to_string session_id])
          else OpenSessionApexFiles k session_id child_session_ids s)"

section \<open>Verification of a submitted session\<close>

fun VerifyNoOverlapInSessions :: "ApexFile list \<Rightarrow> ApexSession list \<Rightarrow> (apex_error, unit) result" where
  "VerifyNoOverlapInSessions as [] = Inr ()"
| "VerifyNoOverlapInSessions as (ses # sess) =
     (if ses_state ses = VERIFIED then Inl (Failure ''being staged'' [to_string (ses_id ses)])
      else if ses_state ses = STAGED then
        (case find (\<lambda>a. f_name a \<in> set (ses_apex_names ses)) as of
           Some a \<Rightarrow> Inl (Failure ''already staged'' [f_name a, to_string (ses_id ses)])
         | None \<Rightarrow> VerifyNoOverlapInSessions as sess)
      else VerifyNoOverlapInSessions as sess)"

definition staged_files_of :: "'s ses_os \<Rightarrow> 's \<Rightarrow> ApexSession list \<Rightarrow> ApexFile list" where
  "staged_files_of k s sess =
     concat (map (\<lambda>ses. if ses_state ses \<noteq> STAGED then []
                        else case OpenSessionApexFiles k (ses_id ses) (ses_child_ids ses) s of
                               Inl e \<Rightarrow> [] | Inr as \<Rightarrow> as) sess)"

definition VerifyPackagesStagedInstall :: "'s ses_os \<Rightarrow> ApexFile list \<Rightarrow> ('s, unit) action" where
  "VerifyPackagesStagedInstall k as w =
     or_return
       (res_fold (\<lambda>a w. or_return (VerifyPackageBoot (s_dev k) a w)
                          (\<lambda>_ w. if enable_brand_new_apex (ax_repo w)
                                 then (s_VerifyBrandNewActive k a (ax_os w), w) else (Inr (), w))) as w)
       (\<lambda>_ w. let sess = s_GetSessions k (ax_os w)
              in or_return (VerifyNoOverlapInSessions as sess, w)
                   (\<lambda>_ w. let all_files = staged_files_of k (ax_os w) sess @ as
                          in RunVerifyFnInsideTempMounts (s_dev k) all_files
                               (\<lambda>mps w. (s_CheckVintf k all_files mps (ax_os w), w)) w))"

section \<open>Backup and restore of the active directory\<close>

definition kApexBackupDir :: string where "kApexBackupDir = ''/data/apex/backup''"

definition DeleteBackup :: "'s ses_os \<Rightarrow> ('s, unit) action" where
  "DeleteBackup k w =
     (case a_PathExists (s_os k) kApexBackupDir (ax_os w) of
        Inl e \<Rightarrow> (Inl (Caused ''clean'' [kApexBackupDir] e), w)
      | Inr False \<Rightarrow> (Inr (), w)
      | Inr True \<Rightarrow> sys (s_DeleteDirContent k kApexBackupDir) w)"

definition backup_path :: "'s ses_os \<Rightarrow> ApexFile \<Rightarrow> string" where
  "backup_path k a = kApexBackupDir @ ''/'' @ d_GetPackageId (s_dev k) (f_manifest a) @ kApexPackageSuffix"

definition backup_one :: "'s ses_os \<Rightarrow> string \<Rightarrow> ('s, unit) action" where
  "backup_one k path w =
     (case a_Open (s_os k) path (ax_os w) of
        Inl e \<Rightarrow> (Inl (Caused ''Backup failed'' [] e), w)
      | Inr a \<Rightarrow>
          (let (rc, w) = link_call k (f_path a) (backup_path k a) w
           in (if rc = 0 then Inr () else Inl (Failure ''backup'' [f_path a]), w)))"

definition BackupActivePackages :: "'s ses_os \<Rightarrow> ('s, unit) action" where
  "BackupActivePackages k w =
     or_return (caused_by ''Backup failed'' [] (sys (s_CreateDirIfNeeded k kApexBackupDir 448) w))
       (\<lambda>_ w. case a_PathExists (s_os k) (active_dir k) (ax_os w) of
                Inl e \<Rightarrow> (Inl (Caused ''Backup failed'' [] e), w)
              | Inr False \<Rightarrow> (Inr (), w)
              | Inr True \<Rightarrow>
                  (case a_FindFilesBySuffix (s_os k) (active_dir k) [kApexPackageSuffix] (ax_os w) of
                     Inl e \<Rightarrow> (Inl (Caused ''Backup failed'' [] e), w)
                   | Inr paths \<Rightarrow>
                       or_return (caused_by ''Backup failed'' [] (DeleteBackup k w))
                         (\<lambda>_ w. let (res, w) = res_fold (backup_one k) paths w
                                in (res, case res of
                                           Inl e \<Rightarrow> snd (sys (s_DeleteDirContent k kApexBackupDir) w)
                                         | Inr _ \<Rightarrow> w))))"

definition ALLPERMS :: u32 where "ALLPERMS = 0xFFF"

definition RestoreActivePackages :: "'s ses_os \<Rightarrow> ('s, unit) action" where
  "RestoreActivePackages k w =
     (case a_PathExists (s_os k) kApexBackupDir (ax_os w) of
        Inl e \<Rightarrow> (Inl e, w)
      | Inr False \<Rightarrow> (Inl (Failure ''does not exist'' [kApexBackupDir]), w)
      | Inr True \<Rightarrow>
          (case s_stat_mode k (active_dir k) (ax_os w) of
             None \<Rightarrow> (Inl (Failure ''access'' [active_dir k]), w)
           | Some mode \<Rightarrow>
               or_return (sys (s_DeleteDirContent k (active_dir k)) w)
                 (\<lambda>_ w. let (rc, w) = sys (s_rename k kApexBackupDir (active_dir k))
                                        (record_call (Rename kApexBackupDir (active_dir k)) w)
                        in if rc \<noteq> 0 then (Inl (Failure ''rename'' [kApexBackupDir, active_dir k]), w)
                           else
                             (let (rc, w) = sys (s_chmod k (active_dir k) (mode AND ALLPERMS)) w
                              in (if rc \<noteq> 0 then Inl (Failure ''permissions'' [active_dir k]) else Inr (), w)))))"

section \<open>Staging packages into the active directory\<close>

definition StageDestPath :: "'s ses_os \<Rightarrow> ApexFile \<Rightarrow> string" where
  "StageDestPath k a =
     active_dir k @ ''/'' @ d_GetPackageId (s_dev k) (f_manifest a) @ kApexPackageSuffix"

definition remove_previous :: "'s ses_os \<Rightarrow> string list \<Rightarrow> string list \<Rightarrow> string \<Rightarrow> ('s, unit) action" where
  "remove_previous k affected keep path w =
     (case a_Open (s_os k) path (ax_os w) of
        Inl e \<Rightarrow> (Inl e, w)
      | Inr a \<Rightarrow>
          if f_name a \<notin> set affected then (Inr (), w)
          else if f_path a \<in> set keep then (Inr (), w)
          else
            (let (rc, w) = unlink_call k (f_path a) w
             in (if rc \<noteq> 0 then Inl (Failure ''unlink'' [f_path a]) else Inr (), w)))"

definition RemovePreviouslyActiveApexFiles :: "'s ses_os \<Rightarrow> string list \<Rightarrow> string list \<Rightarrow> ('s, unit) action" where
  "RemovePreviouslyActiveApexFiles k affected keep w =
     (case a_FindFilesBySuffix (s_os k) (active_dir k) [kApexPackageSuffix] (ax_os w) of
        Inl e \<Rightarrow> (Inl e, w)
      | Inr paths \<Rightarrow> res_fold (remove_previous k affected keep) paths w)"

text \<open>One package: an old file of the same name goes, the package is linked in its place.\<close>

definition stage_one :: "'s ses_os \<Rightarrow> ApexFile \<Rightarrow> ('s, unit) action" where
  "stage_one k a w =
     (let dest = StageDestPath k a
      in or_return
           (if a_access (s_os k) dest (ax_os w) = 0 then
              (let (rc, w) = unlink_call k dest w
               in (if rc \<noteq> 0 then Inl (Failure ''unlink'' [dest]) else Inr (), w))
            else (Inr (), w))
           (\<lambda>_ w. let (rc, w) = link_call k (f_path a) dest w
                  in (if rc \<noteq> 0 then Inl (Failure ''link'' [f_path a, dest]) else Inr (), w)))"

fun stage_all ::
  "'s ses_os \<Rightarrow> ApexFile list \<Rightarrow> string list \<Rightarrow> string list \<Rightarrow> 's apexd \<Rightarrow>
   (apex_error, string list \<times> string list) result \<times> string list \<times> 's apexd" where
  "stage_all k [] staged_files staged_packages w = (Inr (staged_files, staged_packages), staged_files, w)"
| "stage_all k (a # as) staged_files staged_packages w =
     (case stage_one k a w of
        (Inl e, w) \<Rightarrow> (Inl e, staged_files, w)
      | (Inr _, w) \<Rightarrow>
          stage_all k as (List.insert (StageDestPath k a) staged_files) (List.insert (f_name a) staged_packages) w)"

definition StagePackagesImpl :: "'s ses_os \<Rightarrow> string list \<Rightarrow> ('s, unit) action" where
  "StagePackagesImpl k tmp_paths w =
     (if tmp_paths = [] then (Inl (Failure ''Empty set of inputs'' []), w)
      else case OpenApexFiles (s_os k) tmp_paths (ax_os w) of
             Inl e \<Rightarrow> (Inl e, w)
           | Inr as \<Rightarrow>
               or_return
                 (res_fold (\<lambda>a w. if d_IsShimApex (s_dev k) a then (Inr (), w)
                                  else VerifyPackageBoot (s_dev k) a w) as w)
                 (\<lambda>_ w. or_return (sys (s_CreateDirIfNeeded k (active_dir k) 493) w)
                    (\<lambda>_ w. case stage_all k as [] [] w of
                             (Inl e, done_files, w) \<Rightarrow>
                               (Inl e, fold (\<lambda>p w. snd (unlink_call k p w)) done_files w)
                           | (Inr (staged_files, staged_packages), _, w) \<Rightarrow>
                               RemovePreviouslyActiveApexFiles k staged_packages staged_files w)))"

definition StagePackages :: "'s ses_os \<Rightarrow> string list \<Rightarrow> ('s, unit) action" where
  "StagePackages k tmp_paths w = StagePackagesImpl k tmp_paths w"

definition UnstagePackages :: "'s ses_os \<Rightarrow> string list \<Rightarrow> ('s, unit) action" where
  "UnstagePackages k paths w =
     (if paths = [] then (Inl (Failure ''Empty set of inputs'' []), w)
      else
        or_return
          (res_fold (\<lambda>p w. case a_Open (s_os k) p (ax_os w) of
                             Inl e \<Rightarrow> (Inl e, w)
                           | Inr a \<Rightarrow> if IsPreInstalledApex (ax_repo w) a
                                      then (Inl (Failure ''pre-installed'' [p]), w) else (Inr (), w)) paths w)
          (\<lambda>_. res_fold (\<lambda>p w. let (rc, w) = unlink_call k p w
                                in (if rc \<noteq> 0 then Inl (Failure ''unlink'' [p]) else Inr (), w)) paths))"

section \<open>Snapshots of package data\<close>

definition kApexDataSubDir :: string where "kApexDataSubDir = ''apexdata''"
definition kApexSnapshotSubDir :: string where "kApexSnapshotSubDir = ''apexrollback''"
definition kPreRestoreSuffix :: string where "kPreRestoreSuffix = ''-prerestore''"
definition kDeSysDataDir :: string where "kDeSysDataDir = ''/data/misc''"
definition kCeDataDir :: string where "kCeDataDir = ''/data/misc_ce''"

definition rollback_dir :: "string \<Rightarrow> int \<Rightarrow> bool \<Rightarrow> string" where
  "rollback_dir base_dir rollback_id pre_restore =
     base_dir @ ''/'' @ kApexSnapshotSubDir @ ''/'' @ to_string rollback_id @
     (if pre_restore then kPreRestoreSuffix else [])"

definition apexdata_dir :: "string \<Rightarrow> string \<Rightarrow> string" where
  "apexdata_dir base_dir apex_name = base_dir @ ''/'' @ kApexDataSubDir @ ''/'' @ apex_name"

definition SnapshotDataDirectory :: "'s ses_os \<Rightarrow> string \<Rightarrow> int \<Rightarrow> string \<Rightarrow> bool \<Rightarrow> ('s, unit) action" where
  "SnapshotDataDirectory k base_dir rollback_id apex_name pre_restore w =
     (let rollback_path = rollback_dir base_dir rollback_id pre_restore
      in or_return (caused_by ''snapshot directory'' [to_string rollback_id]
                      (sys (s_CreateDirIfNeeded k rollback_path 448) w))
           (\<lambda>_. sys (s_ReplaceFiles k (apexdata_dir base_dir apex_name) (rollback_path @ ''/'' @ apex_name))))"

definition RestoreDataDirectory :: "'s ses_os \<Rightarrow> string \<Rightarrow> int \<Rightarrow> string \<Rightarrow> bool \<Rightarrow> ('s, unit) action" where
  "RestoreDataDirectory k base_dir rollback_id apex_name pre_restore w =
     (let from_path = rollback_dir base_dir rollback_id pre_restore @ ''/'' @ apex_name;
          to_path = apexdata_dir base_dir apex_name
      in or_return (sys (s_ReplaceFiles k from_path to_path) w)
           (\<lambda>_ w. or_return (sys (s_RestoreconPath k to_path) w)
              (\<lambda>_ w. (Inr (), snd (sys (s_DeleteDir k from_path) w)))))"

definition SnapshotOrRestoreDeIfNeeded :: "'s ses_os \<Rightarrow> string \<Rightarrow> ApexSession \<Rightarrow> 's apexd \<Rightarrow> 's apexd" where
  "SnapshotOrRestoreDeIfNeeded k base_dir ses w =
     (if ses_has_rollback_enabled ses then
        fold (\<lambda>n w. snd (SnapshotDataDirectory k base_dir (ses_rollback_id ses) n False w)) (ses_apex_names ses) w
      else if ses_is_rollback ses then
        fold (\<lambda>n w.
                let w = (if gSupportsFsCheckpoints w then w
                         else snd (SnapshotDataDirectory k base_dir (ses_rollback_id ses) n True w))
                in snd (RestoreDataDirectory k base_dir (ses_rollback_id ses) n False w)) (ses_apex_names ses) w
      else w)"

definition SnapshotOrRestoreDeSysData :: "'s ses_os \<Rightarrow> 's apexd \<Rightarrow> 's apexd" where
  "SnapshotOrRestoreDeSysData k w =
     fold (SnapshotOrRestoreDeIfNeeded k kDeSysDataDir) (GetSessionsInState k ACTIVATED w) w"

definition SnapshotOrRestoreDeUserData :: "'s ses_os \<Rightarrow> 's apexd \<Rightarrow> int \<times> 's apexd" where
  "SnapshotOrRestoreDeUserData k w =
     (case s_GetDeUserDirs k (ax_os w) of
        Inl e \<Rightarrow> (1, w)
      | Inr dirs \<Rightarrow>
          (0, fold (\<lambda>ses. fold (\<lambda>dir. SnapshotOrRestoreDeIfNeeded k dir ses) dirs)
                (GetSessionsInState k ACTIVATED w) w))"

definition ce_dir :: "int \<Rightarrow> string" where
  "ce_dir user_id = kCeDataDir @ ''/'' @ to_string user_id"

definition SnapshotCeData :: "'s ses_os \<Rightarrow> int \<Rightarrow> int \<Rightarrow> string \<Rightarrow> ('s, unit) action" where
  "SnapshotCeData k user_id rollback_id apex_name =
     SnapshotDataDirectory k (ce_dir user_id) rollback_id apex_name False"

definition RestoreCeData :: "'s ses_os \<Rightarrow> int \<Rightarrow> int \<Rightarrow> string \<Rightarrow> ('s, unit) action" where
  "RestoreCeData k user_id rollback_id apex_name =
     RestoreDataDirectory k (ce_dir user_id) rollback_id apex_name False"

definition DestroySnapshots :: "'s ses_os \<Rightarrow> string \<Rightarrow> int \<Rightarrow> ('s, unit) action" where
  "DestroySnapshots k base_dir rollback_id = sys (s_DeleteDir k (rollback_dir base_dir rollback_id False))"

definition DestroyDeSnapshots :: "'s ses_os \<Rightarrow> int \<Rightarrow> ('s, unit) action" where
  "DestroyDeSnapshots k rollback_id w =
     (let w = snd (DestroySnapshots k kDeSysDataDir rollback_id w)
      in case s_GetDeUserDirs k (ax_os w) of
           Inl e \<Rightarrow> (Inl (Caused ''user dirs'' [] e), w)
         | Inr dirs \<Rightarrow> (Inr (), fold (\<lambda>dir w. snd (DestroySnapshots k dir rollback_id w)) dirs w))"

definition DestroyCeSnapshots :: "'s ses_os \<Rightarrow> int \<Rightarrow> int \<Rightarrow> ('s, unit) action" where
  "DestroyCeSnapshots k user_id rollback_id = sys (s_DeleteDir k (rollback_dir (ce_dir user_id) rollback_id False))"

definition path_filename :: "string \<Rightarrow> string" where
  "path_filename p = (case rfind_char (CHR ''/'') p of None \<Rightarrow> p | Some i \<Rightarrow> drop (Suc i) p)"

text \<open>The ids to retain are compared as unsigned numbers of 32 bits.\<close>

definition destroy_unless_retained :: "'s ses_os \<Rightarrow> int list \<Rightarrow> string \<Rightarrow> ('s, unit) action" where
  "destroy_unless_retained k retain dir w =
     (case s_ParseUint k (path_filename dir) (2 ^ 32 - 1) of
        None \<Rightarrow> (Inr (), w)
      | Some i \<Rightarrow>
          if int i \<in> (\<lambda>r. r mod 2 ^ 32) ` set retain then (Inr (), w)
          else caused_by ''Destroy CE snapshot'' [dir] (sys (s_DeleteDir k dir) w))"

definition DestroyCeSnapshotsNotSpecified :: "'s ses_os \<Rightarrow> int \<Rightarrow> int list \<Rightarrow> ('s, unit) action" where
  "DestroyCeSnapshotsNotSpecified k user_id retain w =
     (case s_GetSubdirs k (ce_dir user_id @ ''/'' @ kApexSnapshotSubDir) (ax_os w) of
        Inl e \<Rightarrow> (Inl (Caused ''snapshot dirs'' [] e), w)
      | Inr dirs \<Rightarrow> res_fold (destroy_unless_retained k retain) dirs w)"

definition RestorePreRestoreSnapshotsIfPresent :: "'s ses_os \<Rightarrow> string \<Rightarrow> ApexSession \<Rightarrow> 's apexd \<Rightarrow> 's apexd" where
  "RestorePreRestoreSnapshotsIfPresent k base_dir ses w =
     (case a_PathExists (s_os k) (rollback_dir base_dir (ses_rollback_id ses) True) (ax_os w) of
        Inl e \<Rightarrow> w
      | Inr _ \<Rightarrow>
          fold (\<lambda>n w. snd (RestoreDataDirectory k base_dir (ses_rollback_id ses) n True w)) (ses_apex_names ses) w)"

text \<open>
  The user directories are read and, when that fails, the failed result is dereferenced all the same:
  the process does not survive it.
\<close>

definition RestoreDePreRestoreSnapshotsIfPresent ::
  "'s ses_os \<Rightarrow> ApexSession \<Rightarrow> 's apexd \<Rightarrow> 's apexd outcome" where
  "RestoreDePreRestoreSnapshotsIfPresent k ses w =
     (let w = RestorePreRestoreSnapshotsIfPresent k kDeSysDataDir ses w
      in case s_GetDeUserDirs k (ax_os w) of
           Inl e \<Rightarrow> Aborts
         | Inr dirs \<Rightarrow> Returns (fold (\<lambda>dir. RestorePreRestoreSnapshotsIfPresent k dir ses) dirs w))"

definition delete_pre_restore :: "'s ses_os \<Rightarrow> string \<Rightarrow> ApexSession \<Rightarrow> 's apexd \<Rightarrow> 's apexd" where
  "delete_pre_restore k base_dir ses w =
     snd (sys (s_DeleteDir k (rollback_dir base_dir (ses_rollback_id ses) True)) w)"

definition DeleteDePreRestoreSnapshots :: "'s ses_os \<Rightarrow> ApexSession \<Rightarrow> 's apexd \<Rightarrow> 's apexd outcome" where
  "DeleteDePreRestoreSnapshots k ses w =
     (let w = delete_pre_restore k kDeSysDataDir ses w
      in case s_GetDeUserDirs k (ax_os w) of
           Inl e \<Rightarrow> Aborts
         | Inr dirs \<Rightarrow> Returns (fold (\<lambda>dir. delete_pre_restore k dir ses) dirs w))"

section \<open>The life of a session\<close>

definition kBuildFingerprintSysprop :: string where "kBuildFingerprintSysprop = ''ro.build.fingerprint''"

definition SubmitStagedSession ::
  "'s ses_os \<Rightarrow> int \<Rightarrow> int list \<Rightarrow> bool \<Rightarrow> bool \<Rightarrow> int \<Rightarrow> ('s, ApexFile list) action" where
  "SubmitStagedSession k session_id child_session_ids has_rollback_enabled is_rollback rollback_id w =
     (if session_id = 0 then (Inl (Failure ''Session id'' []), w)
      else if has_rollback_enabled \<and> is_rollback then (Inl (Failure ''rollback'' [to_string session_id]), w)
      else
        or_return (if gSupportsFsCheckpoints w then (Inr (), w) else BackupActivePackages k w)
          (\<lambda>_ w. or_return (OpenSessionApexFiles k session_id child_session_ids (ax_os w), w)
            (\<lambda>ret w. or_return (VerifyPackagesStagedInstall k ret w)
              (\<lambda>_ w. or_return (sys (s_CreateSession k session_id) w)
                (\<lambda>ses w.
                   let ses = ses\<lparr>ses_child_ids := child_session_ids,
                                 ses_build_fingerprint := a_GetProperty (s_os k) kBuildFingerprintSysprop [] (ax_os w),
                                 ses_has_rollback_enabled := has_rollback_enabled,
                                 ses_is_rollback := is_rollback, ses_rollback_id := rollback_id,
                                 ses_apex_names := ses_apex_names ses @ map f_name ret,
                                 ses_file_hashes := s_file_hashes k ret\<rparr>
                   in or_return (UpdateStateAndCommit k VERIFIED ses w)
                        (\<lambda>_ w. (Inr ret, fold (\<lambda>a. ReleaseF2fsCompressedBlocks k (f_path a)) ret w)))))))"

definition MarkStagedSessionReady :: "'s ses_os \<Rightarrow> int \<Rightarrow> ('s, unit) action" where
  "MarkStagedSessionReady k session_id w =
     (case s_GetSession k session_id (ax_os w) of
        Inl e \<Rightarrow> (Inl e, w)
      | Inr ses \<Rightarrow>
          if ses_state ses = STAGED then (Inr (), w)
          else if ses_state ses = VERIFIED then UpdateStateAndCommit k STAGED ses w
          else (Inl (Failure ''Invalid state'' [to_string session_id]), w))"

definition MarkStagedSessionSuccessful ::
  "'s ses_os \<Rightarrow> int \<Rightarrow> 's apexd \<Rightarrow> ((apex_error, unit) result \<times> 's apexd) outcome" where
  "MarkStagedSessionSuccessful k session_id w =
     (case s_GetSession k session_id (ax_os w) of
        Inl e \<Rightarrow> Returns (Inl e, w)
      | Inr ses \<Rightarrow>
          if ses_state ses = SUCCESS then Returns (Inr (), w)
          else if ses_state ses = ACTIVATED then
            (case DeleteBackup k w of
               (Inl e, w) \<Rightarrow> Returns (Inl (Caused ''mark successful'' [to_string session_id] e), w)
             | (Inr _, w) \<Rightarrow>
                 out_bind (if ses_is_rollback ses \<and> \<not> gSupportsFsCheckpoints w
                           then DeleteDePreRestoreSnapshots k ses w else Returns w)
                   (\<lambda>w. Returns (UpdateStateAndCommit k SUCCESS ses w)))
          else Returns (Inl (Failure ''not successful'' [to_string session_id]), w))"

definition AbortStagedSession :: "'s ses_os \<Rightarrow> int \<Rightarrow> ('s, unit) action" where
  "AbortStagedSession k session_id w =
     (case s_GetSession k session_id (ax_os w) of
        Inl e \<Rightarrow> (Inl (Failure ''No session'' [to_string session_id]), w)
      | Inr ses \<Rightarrow>
          (case ses_state ses of
             VERIFIED \<Rightarrow> sys (s_DeleteSession k ses) w
           | STAGED \<Rightarrow> sys (s_DeleteSession k ses) w
           | _ \<Rightarrow> (Inl (Failure ''aborted'' [to_string session_id]), w)))"

text \<open>The one package of every directory of the session, or the message that the session gets.\<close>

fun scan_staged :: "'s ses_os \<Rightarrow> int \<Rightarrow> string list \<Rightarrow> 's \<Rightarrow> (apex_error, string list) result" where
  "scan_staged k i [] s = Inr []"
| "scan_staged k i (dir # dirs) s =
     (case a_FindFilesBySuffix (s_os k) dir [kApexPackageSuffix] s of
        Inl e \<Rightarrow> Inl e
      | Inr [] \<Rightarrow> Inl (Failure ''No APEX packages'' [dir, to_string i])
      | Inr [p] \<Rightarrow> (case scan_staged k i dirs s of Inl e \<Rightarrow> Inl e | Inr ps \<Rightarrow> Inr (p # ps))
      | Inr _ \<Rightarrow> Inl (Failure ''More than one APEX'' [dir]))"

definition staged_names :: "'s apex_os \<Rightarrow> string list \<Rightarrow> 's \<Rightarrow> string list" where
  "staged_names o' paths s =
     concat (map (\<lambda>p. case a_Open o' p s of Inl e \<Rightarrow> [] | Inr a \<Rightarrow> [f_name a]) paths)"

definition change_active :: "string list \<Rightarrow> 's apexd \<Rightarrow> 's apexd" where
  "change_active ns w = w\<lparr>gChangedActiveApexes := fold List.insert ns (gChangedActiveApexes w)\<rparr>"

definition fail_session :: "'s ses_os \<Rightarrow> apex_error \<Rightarrow> ApexSession \<Rightarrow> 's apexd \<Rightarrow> 's apexd" where
  "fail_session k e ses w =
     snd (UpdateStateAndCommit k ACTIVATION_FAILED (ses\<lparr>ses_error_message := Some e\<rparr>) w)"

definition activate_session :: "'s ses_os \<Rightarrow> ApexSession \<Rightarrow> 's apexd \<Rightarrow> 's apexd" where
  "activate_session k ses w =
     (if ses_build_fingerprint ses \<noteq> a_GetProperty (s_os k) kBuildFingerprintSysprop [] (ax_os w)
      then fail_session k (Failure ''build fingerprint has changed'' []) ses w
      else if gSupportsFsCheckpoints w \<and> \<not> gInFsCheckpointMode w
      then fail_session k (Failure ''not in fs-checkpoint mode'' []) ses w
      else case scan_staged k (ses_id ses) (s_GetStagedApexDirs k ses (cfg_staged_session_dir (s_config k))) (ax_os w) of
             Inl e \<Rightarrow> fail_session k e ses w
           | Inr apexes \<Rightarrow>
               (let names = staged_names (s_os k) apexes (ax_os w)
                in case StagePackages k apexes w of
                     (Inl e, w) \<Rightarrow> fail_session k (Caused ''Activation failed'' apexes e) ses w
                   | (Inr _, w) \<Rightarrow> snd (UpdateStateAndCommit k ACTIVATED ses (change_active names w))))"

definition ActivateStagedSessions :: "'s ses_os \<Rightarrow> 's apexd \<Rightarrow> 's apexd" where
  "ActivateStagedSessions k w =
     (let sess = GetSessionsInState k STAGED w @
                 (if gSupportsFsCheckpoints w then GetSessionsInState k ACTIVATED w else [])
      in fold (activate_session k) sess w)"

section \<open>Reverting\<close>

definition revert_mark :: "string \<Rightarrow> apex_error option \<Rightarrow> ApexSession \<Rightarrow> ApexSession" where
  "revert_mark crashing message ses =
     ses\<lparr>ses_crashing_native_process := (if crashing \<noteq> [] then crashing else ses_crashing_native_process ses),
         ses_error_message := (if message \<noteq> None then message else ses_error_message ses)\<rparr>"

definition revert_one :: "'s ses_os \<Rightarrow> ApexSession \<Rightarrow> 's apexd \<Rightarrow> 's apexd outcome" where
  "revert_one k ses w =
     out_bind (if \<not> gSupportsFsCheckpoints w \<and> ses_is_rollback ses
               then RestoreDePreRestoreSnapshotsIfPresent k ses w else Returns w)
       (\<lambda>w. Returns (snd (UpdateStateAndCommit k REVERTED ses w)))"

definition active_sessions :: "'s ses_os \<Rightarrow> 's apexd \<Rightarrow> ApexSession list" where
  "active_sessions k w =
     filter (\<lambda>ses. \<not> (s_IsFinalized k ses \<or> ses_state ses = UNKNOWN)) (s_GetSessions k (ax_os w))"

definition mark_reverting :: "'s ses_os \<Rightarrow> ApexSession \<Rightarrow> ('s, unit) action" where
  "mark_reverting k ses w =
     caused_by ''Revert'' [to_string (ses_id ses)] (UpdateStateAndCommit k REVERT_IN_PROGRESS ses w)"

definition revert_packages :: "'s ses_os \<Rightarrow> ('s, unit) action" where
  "revert_packages k w = (if gSupportsFsCheckpoints w then (Inr (), w) else RestoreActivePackages k w)"

definition RevertActiveSessions ::
  "'s ses_os \<Rightarrow> string \<Rightarrow> apex_error option \<Rightarrow> 's apexd \<Rightarrow> ((apex_error, unit) result \<times> 's apexd) outcome" where
  "RevertActiveSessions k crashing message w =
     (let active = map (revert_mark crashing message) (active_sessions k w)
      in if active = [] then Returns (Inl (Failure ''no active sessions'' []), w)
         else
           (case res_fold (mark_reverting k) active w of
              (Inl e, w) \<Rightarrow> Returns (Inl e, w)
            | (Inr _, w) \<Rightarrow>
                (case revert_packages k w of
                   (Inl e, w) \<Rightarrow>
                     Returns (Inl e, fold (\<lambda>ses w. snd (UpdateStateAndCommit k REVERT_FAILED ses w)) active w)
                 | (Inr _, w) \<Rightarrow>
                     out_bind (out_fold (revert_one k) active w) (\<lambda>w. Returns (Inr (), w)))))"

definition RevertActiveSessionsAndReboot ::
  "'s ses_os \<Rightarrow> string \<Rightarrow> apex_error option \<Rightarrow> 's apexd \<Rightarrow> ((apex_error, unit) result \<times> 's apexd) outcome" where
  "RevertActiveSessionsAndReboot k crashing message w =
     out_bind (RevertActiveSessions k crashing message w)
       (\<lambda>(res, w). case res of
          Inl e \<Rightarrow> Returns (Inl e, w)
        | Inr _ \<Rightarrow>
            (let w = (if gInFsCheckpointMode w then snd (sys (s_AbortChanges k) w) else w)
             in Returns (Inr (), sys_do (s_reboot k) (record_call Reboot w))))"

definition ResumeRevertIfNeeded :: "'s ses_os \<Rightarrow> 's apexd \<Rightarrow> ((apex_error, unit) result \<times> 's apexd) outcome" where
  "ResumeRevertIfNeeded k w =
     (if GetSessionsInState k REVERT_IN_PROGRESS w = [] then Returns (Inr (), w)
      else RevertActiveSessions k [] None w)"

end
