(* ===== verification/Apexd_Boot.thy ===== *)
theory Apexd_Boot
  imports Apexd_Session
begin

text \<open>
  The boot of the APEX daemon (\<open>apexd.cpp\<close>): selecting and activating packages with a pool of workers,
  shared libraries, compressed packages, the list of packages that is published, start-up in its modes,
  clean-up, and installing a package without a reboot.  \<open>act_os\<close> has the operations of the system that
  only this half uses; \<open>b_schedule\<close> is the order in which the scheduler lets the worker threads run.
\<close>

section \<open>The system below\<close>

record ApexInfo =
  ai_moduleName :: string
  ai_modulePath :: string
  ai_preinstalledModulePath :: "string option"
  ai_versionCode :: int
  ai_versionName :: string
  ai_isFactory :: bool
  ai_isActive :: bool
  ai_lastUpdateMillis :: "int option"
  ai_provideSharedApexLibs :: bool
  ai_partition :: string

text \<open>
  \<open>b_dir\<close> lists a directory, with the error that ends the traversal if there is one.  \<open>b_info_xml\<close> is the
  generated writer of the package list.  \<open>b_dm_devices\<close> are the names of the device mapper devices.
\<close>

record 's act_os =
  b_ses :: "'s ses_os"
  b_SetProperty :: "string \<Rightarrow> string \<Rightarrow> 's \<Rightarrow> bool \<times> 's"
  b_GetBoolProperty :: "string \<Rightarrow> bool \<Rightarrow> 's \<Rightarrow> bool"
  b_activation_threads :: "'s \<Rightarrow> nat"
  b_schedule :: "'s \<Rightarrow> nat list"
  b_dir :: "string \<Rightarrow> 's \<Rightarrow> (string \<times> bool) list \<times> apex_error option"
  b_create_directory :: "string \<Rightarrow> 's \<Rightarrow> (apex_error, unit) result \<times> 's"
  b_create_symlink :: "string \<Rightarrow> string \<Rightarrow> 's \<Rightarrow> (apex_error, unit) result \<times> 's"
  b_GetFileSize :: "string \<Rightarrow> 's \<Rightarrow> (apex_error, nat) result"
  b_PreAllocateLoopDevices :: "nat \<Rightarrow> 's \<Rightarrow> 's"
  b_CreatePlaceholderDevice :: "string \<Rightarrow> 's \<Rightarrow> 's"
  b_PopulateFromMounts :: "string list \<Rightarrow> 's \<Rightarrow> 's"
  b_SupportsFsCheckpoints :: "'s \<Rightarrow> (apex_error, bool) result"
  b_NeedsCheckpoint :: "'s \<Rightarrow> (apex_error, bool) result"
  b_NeedsRollback :: "'s \<Rightarrow> (apex_error, bool) result"
  b_RemoveFileIfExists :: "string \<Rightarrow> 's \<Rightarrow> 's"
  b_Decompress :: "ApexFile \<Rightarrow> string \<Rightarrow> 's \<Rightarrow> (apex_error, unit) result \<times> 's"
  b_GetfileconPath :: "string \<Rightarrow> 's \<Rightarrow> (apex_error, string) result"
  b_dm_devices :: "'s \<Rightarrow> string list option"
  b_dm_suspended :: "string \<Rightarrow> 's \<Rightarrow> bool"
  b_open_write :: "string \<Rightarrow> 's \<Rightarrow> int \<times> 's"
  b_WriteStringToFd :: "int \<Rightarrow> string \<Rightarrow> 's \<Rightarrow> bool \<times> 's"
  b_info_xml :: "ApexInfo list \<Rightarrow> string"
  b_bind_file :: "string \<Rightarrow> string \<Rightarrow> 's \<Rightarrow> int \<times> 's"
  b_stat_mtime :: "string \<Rightarrow> 's \<Rightarrow> int option"
  b_resize_file :: "string \<Rightarrow> int \<Rightarrow> 's \<Rightarrow> (apex_error, unit) result \<times> 's"
  b_posix_fallocate :: "int \<Rightarrow> int \<Rightarrow> 's \<Rightarrow> int \<times> 's"
  b_DeriveClassPath :: "string list \<Rightarrow> 's \<Rightarrow> (apex_error, string list) result"

abbreviation b_dev :: "'s act_os \<Rightarrow> 's dev_os" where "b_dev b \<equiv> s_dev (b_ses b)"
abbreviation b_os :: "'s act_os \<Rightarrow> 's apex_os" where "b_os b \<equiv> d_os (b_dev b)"
abbreviation b_config :: "'s act_os \<Rightarrow> ApexdConfig" where "b_config b \<equiv> d_config (b_dev b)"

type_synonym ('s, 'a) risky = "'s apexd \<Rightarrow> ((apex_error, 'a) result \<times> 's apexd) outcome"

definition set_property :: "'s act_os \<Rightarrow> string \<Rightarrow> string \<Rightarrow> 's apexd \<Rightarrow> bool \<times> 's apexd" where
  "set_property b key val w = sys (b_SetProperty b key val) (record_call (SetProp key val) w)"

section \<open>Bootstrap packages\<close>

definition kBootstrapApexes :: "'s act_os \<Rightarrow> 's \<Rightarrow> string list" where
  "kBootstrapApexes b s =
     (let vendor = a_GetProperty (b_os b) ''ro.vndk.version'' [] s;
          product = a_GetProperty (b_os b) ''ro.product.vndk.version'' [] s
      in [''com.android.i18n'', ''com.android.runtime'', ''com.android.tzdata''] @
         (if cfg_early_vm (b_config b) then [''com.android.virt''] else []) @
         (if vendor \<noteq> [] then [''com.android.vndk.v'' @ vendor] else []) @
         (if product \<noteq> [] \<and> product \<noteq> vendor then [''com.android.vndk.v'' @ product] else []))"

definition IsBootstrapApex :: "'s act_os \<Rightarrow> 's \<Rightarrow> ApexFile \<Rightarrow> bool" where
  "IsBootstrapApex b s a \<longleftrightarrow>
     m_vendorbootstrap (f_manifest a) \<or> m_bootstrap (f_manifest a) \<or>
     f_name a \<in> set (kBootstrapApexes b s) \<or>
     (b_GetBoolProperty b ''ro.boot.apex.early_adbd'' False s \<and> f_name a = ''com.android.adbd'')"

section \<open>Shared libraries\<close>

definition kApexSharedLibsSubDir :: string where "kApexSharedLibsSubDir = ''sharedlibs''"

definition exists_dir :: "'s act_os \<Rightarrow> string \<Rightarrow> 's apexd \<Rightarrow> bool" where
  "exists_dir b path w \<longleftrightarrow> a_PathExists (b_os b) path (ax_os w) = Inr True"

text \<open>One version of one library: link it, or compare its size with the one that is there.\<close>

definition share_version ::
  "'s act_os \<Rightarrow> string \<Rightarrow> string \<Rightarrow> string \<Rightarrow> string \<Rightarrow> ('s, unit) action" where
  "share_version b lib_dir library_name symlink_dir hash_value w =
     (let item = lib_dir @ ''/'' @ library_name @ ''/'' @ hash_value;
          link_path = symlink_dir @ ''/'' @ hash_value
      in if exists_dir b link_path w then
           (case b_GetFileSize b (link_path @ ''/'' @ library_name) (ax_os w) of
              Inl e \<Rightarrow> (Inl e, w)
            | Inr old \<Rightarrow>
                (case b_GetFileSize b (item @ ''/'' @ library_name) (ax_os w) of
                   Inl e \<Rightarrow> (Inl e, w)
                 | Inr new \<Rightarrow>
                     (if old \<noteq> new then Inl (Failure ''different file size'' [link_path, item]) else Inr (), w)))
         else caused_by ''symlink'' [item, link_path] (sys (b_create_symlink b item link_path) w))"

definition end_scan :: "string \<Rightarrow> apex_error option \<Rightarrow> ('s, unit) action" where
  "end_scan path err w = (case err of None \<Rightarrow> (Inr (), w) | Some e \<Rightarrow> (Inl (Caused ''scan'' [path] e), w))"

definition share_library :: "'s act_os \<Rightarrow> string \<Rightarrow> string \<Rightarrow> string \<times> bool \<Rightarrow> ('s, unit) action" where
  "share_library b lib_path lib_dir entry w =
     (if \<not> snd entry then (Inr (), w)
      else
        (let library_name = fst entry;
             symlink_dir = kApexRoot @ ''/'' @ kApexSharedLibsSubDir @ ''/'' @ lib_path @ ''/'' @ library_name
         in or_return
              (if exists_dir b symlink_dir w then (Inr (), w)
               else caused_by ''create directory'' [symlink_dir] (sys (b_create_directory b symlink_dir) w))
              (\<lambda>_ w. let (items, err) = b_dir b (lib_dir @ ''/'' @ library_name) (ax_os w)
                     in or_return (res_fold (\<lambda>i. share_version b lib_dir library_name symlink_dir (fst i)) items w)
                          (\<lambda>_. end_scan (lib_dir @ ''/'' @ library_name) err))))"

definition share_lib_path :: "'s act_os \<Rightarrow> string \<Rightarrow> string \<Rightarrow> ('s, unit) action" where
  "share_lib_path b mount_point lib_path w =
     (let lib_dir = mount_point @ ''/'' @ lib_path
      in if \<not> exists_dir b lib_dir w then (Inr (), w)
         else
           (let (entries, err) = b_dir b lib_dir (ax_os w)
            in or_return (res_fold (share_library b lib_path lib_dir) entries w) (\<lambda>_. end_scan lib_dir err)))"

definition ContributeToSharedLibs :: "'s act_os \<Rightarrow> string \<Rightarrow> ('s, unit) action" where
  "ContributeToSharedLibs b mount_point w = res_fold (share_lib_path b mount_point) [''lib'', ''lib64''] w"

definition CreateSharedLibsApexDir :: "'s act_os \<Rightarrow> ('s, unit) action" where
  "CreateSharedLibsApexDir b w =
     (let dir = kApexRoot @ ''/'' @ kApexSharedLibsSubDir;
          make = (\<lambda>path w. if exists_dir b path w then (Inr (), w)
                           else caused_by ''create directory'' [path] (sys (b_create_directory b path) w))
      in res_fold make [dir, dir @ ''/lib'', dir @ ''/lib64''] w)"

section \<open>Activation by workers\<close>

datatype ActivationMode = kBootstrapMode | kBootMode | kOtaChrootMode | kVmMode

definition activation_device :: "'s act_os \<Rightarrow> ActivationMode \<Rightarrow> ApexFile \<Rightarrow> string" where
  "activation_device b mode a =
     (if mode = kBootMode then f_name a else d_GetPackageId (b_dev b) (f_manifest a)) @
     (if mode = kOtaChrootMode then ''.chroot'' else [])"

text \<open>
  The workers share a queue under a mutex.  A worker that holds no package takes the front of the queue;
  a worker that holds one activates it.  Each of these is one step; the schedule says whose step is next.
\<close>

record 's pool =
  p_queue :: "ApexFile list"
  p_held :: "nat \<Rightarrow> ApexFile option"
  p_results :: "nat \<Rightarrow> (apex_error, ApexFile) result list"
  p_state :: "'s apexd"

definition activate_held :: "'s act_os \<Rightarrow> ActivationMode \<Rightarrow> ApexFile \<Rightarrow> ('s, ApexFile) action" where
  "activate_held b mode a w =
     (let device_name = activation_device b mode a
      in or_return (caused_by ''activate'' [f_path a, device_name]
                      (ActivatePackageImpl (b_dev b) a device_name (mode = kBootMode) w))
           (\<lambda>_ w. (Inr a, w)))"

definition ActivateApexWorker :: "'s act_os \<Rightarrow> ActivationMode \<Rightarrow> nat \<Rightarrow> 's pool \<Rightarrow> 's pool" where
  "ActivateApexWorker b mode i p =
     (case p_held p i of
        Some a \<Rightarrow>
          (let (res, w) = activate_held b mode a (p_state p)
           in p\<lparr>p_held := (p_held p)(i := None),
                p_results := (p_results p)(i := p_results p i @ [res]), p_state := w\<rparr>)
      | None \<Rightarrow>
          (case p_queue p of
             [] \<Rightarrow> p
           | a # as \<Rightarrow> p\<lparr>p_queue := as, p_held := (p_held p)(i := Some a)\<rparr>))"

text \<open>
  Every worker goes on until the queue is empty: after the schedule, all of them get as many turns as
  finishing takes.
\<close>

definition worker_turns :: "nat \<Rightarrow> nat list \<Rightarrow> nat \<Rightarrow> nat list" where
  "worker_turns workers schedule n =
     filter (\<lambda>i. i < workers) schedule @ concat (replicate (Suc (2 * n)) [0..<workers])"

definition run_workers ::
  "'s act_os \<Rightarrow> ActivationMode \<Rightarrow> ApexFile list \<Rightarrow> nat \<Rightarrow> 's apexd \<Rightarrow> (apex_error, ApexFile) result list \<times> 's apexd" where
  "run_workers b mode apexes workers w =
     (let p = fold (ActivateApexWorker b mode) (worker_turns workers (b_schedule b (ax_os w)) (length apexes))
                \<lparr>p_queue = apexes, p_held = (\<lambda>i. None), p_results = (\<lambda>i. []), p_state = w\<rparr>
      in (concat (map (p_results p) [0..<workers]), p_state p))"

text \<open>Packages with shared libraries contribute in the order of their versions, updated ones first.\<close>

definition sharedlibs_before :: "ApexFileRepository \<Rightarrow> ApexFile \<Rightarrow> ApexFile \<Rightarrow> bool" where
  "sharedlibs_before r a b =
     (if f_version a \<noteq> f_version b then f_version b < f_version a else \<not> IsPreInstalledApex r a)"

fun insert_by :: "('a \<Rightarrow> 'a \<Rightarrow> bool) \<Rightarrow> 'a \<Rightarrow> 'a list \<Rightarrow> 'a list" where
  "insert_by before x [] = [x]"
| "insert_by before x (y # ys) = (if before x y then x # y # ys else y # insert_by before x ys)"

definition sort_by :: "('a \<Rightarrow> 'a \<Rightarrow> bool) \<Rightarrow> 'a list \<Rightarrow> 'a list" where
  "sort_by before xs = fold (insert_by before) xs []"

definition result_values :: "('e, 'a) result list \<Rightarrow> 'a list" where
  "result_values rs = concat (map (\<lambda>r. case r of Inl e \<Rightarrow> [] | Inr a \<Rightarrow> [a]) rs)"

definition result_errors :: "('e, 'a) result list \<Rightarrow> 'e list" where
  "result_errors rs = concat (map (\<lambda>r. case r of Inl e \<Rightarrow> [e] | Inr a \<Rightarrow> []) rs)"

definition contribute :: "'s act_os \<Rightarrow> ApexFile \<Rightarrow> apex_error list \<times> 's apexd \<Rightarrow> apex_error list \<times> 's apexd" where
  "contribute b a ew =
     (case ContributeToSharedLibs b (GetPackageMountPoint (b_dev b) (f_manifest a)) (snd ew) of
        (Inl e, w) \<Rightarrow> (fst ew @ [e], w)
      | (Inr _, w) \<Rightarrow> (fst ew, w))"

definition ActivateApexPackages :: "'s act_os \<Rightarrow> ApexFile list \<Rightarrow> ActivationMode \<Rightarrow> ('s, unit) action" where
  "ActivateApexPackages b apexes mode w =
     (let threads = b_activation_threads b (ax_os w);
          workers = min (length apexes) (if threads = 0 then length apexes else threads);
          (results, w) = run_workers b mode apexes workers w;
          sharedlibs = filter (\<lambda>a. m_providesharedapexlibs (f_manifest a)) (result_values results);
          (errors, w) = fold (contribute b) (sort_by (sharedlibs_before (ax_repo w)) sharedlibs)
                          (result_errors results, w)
      in (case errors of [] \<Rightarrow> Inr ()
                       | e # es \<Rightarrow> Inl (Caused ''Failed to activate'' [dec (length errors)] e), w))"

section \<open>Selecting what to activate\<close>

text \<open>The version of the other package is passed as an \<open>int\<close> of 32 bits.\<close>

definition select_apex :: "ApexFileRepository \<Rightarrow> ApexFile \<Rightarrow> int \<Rightarrow> bool" where
  "select_apex r a version_b =
     (let higher_version = version_b < f_version a;
          same_version_priority_to_data = (f_version a = version_b \<and> \<not> IsPreInstalledApex r a)
      in if m_providesharedapexlibs (f_manifest a)
         then (IsPreInstalledApex r a \<and> f_version a \<noteq> version_b) \<or>
              (\<not> IsPreInstalledApex r a \<and> version_b \<le> f_version a)
         else higher_version \<or> same_version_priority_to_data)"

fun SelectApexForActivation ::
  "(string \<times> ApexFile list) list \<Rightarrow> ApexFileRepository \<Rightarrow> ApexFile list outcome" where
  "SelectApexForActivation [] r = Returns []"
| "SelectApexForActivation ((package_name, files) # rest) r =
     (case files of
        [a] \<Rightarrow> out_bind (SelectApexForActivation rest r) (\<lambda>as. Returns (a # as))
      | [a, b] \<Rightarrow>
          out_bind (SelectApexForActivation rest r)
            (\<lambda>as. Returns ((if select_apex r a (i32 (f_version b)) then [a] else []) @
                           (if select_apex r b (i32 (f_version a)) then [b] else []) @ as))
      | _ \<Rightarrow> Aborts)"

section \<open>Compressed packages\<close>

definition ValidateDecompressedApex :: "'s act_os \<Rightarrow> ApexFile \<Rightarrow> ApexFile \<Rightarrow> 's \<Rightarrow> (apex_error, unit) result" where
  "ValidateDecompressedApex b capex a s =
     (if f_public_key capex \<noteq> f_public_key a then Inl (Failure ''Public key'' [f_path a])
      else if f_version capex \<noteq> f_version a then Inl (Failure ''different version'' [f_path a])
      else case d_VerifyApexVerity (b_dev b) a (f_public_key a) s of
             Inl e \<Rightarrow> Inl (Failure ''Root digest'' [f_path a, f_path capex])
           | Inr v \<Rightarrow>
               if m_originalapexdigest (f_manifest capex) \<noteq> v_root_digest v
               then Inl (Failure ''Root digest'' [f_path a, f_path capex]) else Inr ())"

definition OpenAndValidateDecompressedApex ::
  "'s act_os \<Rightarrow> ApexFile \<Rightarrow> string \<Rightarrow> 's \<Rightarrow> (apex_error, ApexFile) result" where
  "OpenAndValidateDecompressedApex b capex path s =
     (case a_Open (b_os b) path s of
        Inl e \<Rightarrow> Inl (Caused ''open decompressed'' [] e)
      | Inr a \<Rightarrow>
          (case ValidateDecompressedApex b capex a s of
             Inl e \<Rightarrow> Inl e
           | Inr _ \<Rightarrow>
               (case b_GetfileconPath b path s of
                  Inl e \<Rightarrow> Inl e
                | Inr ctx \<Rightarrow>
                    if \<not> StartsWith (a_lb (b_os b)) ctx (cfg_active_apex_selinux_ctx (b_config b))
                    then Inl (Failure ''SELinux context'' [path, ctx]) else Inr a)))"

definition decompressed_path :: "'s act_os \<Rightarrow> ApexFile \<Rightarrow> string \<Rightarrow> string" where
  "decompressed_path b capex ending =
     cfg_decompression_dir (b_config b) @ ''/'' @ d_GetPackageId (b_dev b) (f_manifest capex) @ ending"

definition remove_file :: "'s act_os \<Rightarrow> string \<Rightarrow> 's apexd \<Rightarrow> 's apexd" where
  "remove_file b path w = sys_do (b_RemoveFileIfExists b path) w"

text \<open>
  \<open>reuse_decompressed\<close> and \<open>reuse_ota\<close> give the package when an existing file serves, and the state with
  useless files removed otherwise; \<open>decompress\<close> makes the file.
\<close>

definition reuse_decompressed ::
  "'s act_os \<Rightarrow> ApexFile \<Rightarrow> bool \<Rightarrow> 's apexd \<Rightarrow> ApexFile option \<times> 's apexd" where
  "reuse_decompressed b capex is_ota_chroot w =
     (let path = decompressed_path b capex kDecompressedApexPackageSuffix
      in if \<not> exists_dir b path w then (None, w)
         else case OpenAndValidateDecompressedApex b capex path (ax_os w) of
                Inr a \<Rightarrow> (Some a, w)
              | Inl e \<Rightarrow> (None, if is_ota_chroot then w else remove_file b path w))"

definition reuse_ota :: "'s act_os \<Rightarrow> ApexFile \<Rightarrow> bool \<Rightarrow> 's apexd \<Rightarrow> ApexFile option \<times> 's apexd" where
  "reuse_ota b capex is_ota_chroot w =
     (let path = decompressed_path b capex kDecompressedApexPackageSuffix;
          ota_path = decompressed_path b capex kOtaApexPackageSuffix
      in if \<not> exists_dir b ota_path w then (None, w)
         else if is_ota_chroot then
           (case OpenAndValidateDecompressedApex b capex ota_path (ax_os w) of
              Inr a \<Rightarrow> (Some a, w)
            | Inl e \<Rightarrow> (None, remove_file b ota_path w))
         else
           (case OpenAndValidateDecompressedApex b capex ota_path (ax_os w) of
              Inl e \<Rightarrow> (None, w)
            | Inr _ \<Rightarrow>
                (let (rc, w) = sys (s_rename (b_ses b) ota_path path) (record_call (Rename ota_path path) w)
                 in if rc \<noteq> 0 then (None, w)
                    else case OpenAndValidateDecompressedApex b capex path (ax_os w) of
                           Inr a \<Rightarrow> (Some a, w)
                         | Inl e \<Rightarrow> (None, remove_file b path w))))"

definition decompress :: "'s act_os \<Rightarrow> ApexFile \<Rightarrow> bool \<Rightarrow> ('s, ApexFile) action" where
  "decompress b capex is_ota_chroot w =
     (let w = snd (sys (s_DeleteDirContent (b_ses b) (cfg_ota_reserved_dir (b_config b))) w);
          dest = decompressed_path b capex
                   (if is_ota_chroot then kOtaApexPackageSuffix else kDecompressedApexPackageSuffix);
          (res, w) =
            or_return (caused_by ''decompress'' [f_path capex] (sys (b_Decompress b capex dest) w))
              (\<lambda>_ w. or_return (sys (s_RestoreconPath (b_ses b) dest) w)
                 (\<lambda>_ w. caused_by ''decompress CAPEX'' []
                          (OpenAndValidateDecompressedApex b capex dest (ax_os w), w)))
      in case res of
           Inl e \<Rightarrow> (Inl e, remove_file b dest w)
         | Inr a \<Rightarrow> (Inr a, ReleaseF2fsCompressedBlocks (b_ses b) dest (change_active [f_name a] w)))"

definition process_capex :: "'s act_os \<Rightarrow> ApexFile \<Rightarrow> bool \<Rightarrow> ('s, ApexFile) action" where
  "process_capex b capex is_ota_chroot w =
     (case reuse_decompressed b capex is_ota_chroot w of
        (Some a, w) \<Rightarrow> (Inr a, w)
      | (None, w) \<Rightarrow>
          (case reuse_ota b capex is_ota_chroot w of
             (Some a, w) \<Rightarrow> (Inr a, w)
           | (None, w) \<Rightarrow> decompress b capex is_ota_chroot w))"

fun ProcessCompressedApex :: "'s act_os \<Rightarrow> ApexFile list \<Rightarrow> bool \<Rightarrow> 's apexd \<Rightarrow> ApexFile list \<times> 's apexd" where
  "ProcessCompressedApex b [] is_ota_chroot w = ([], w)"
| "ProcessCompressedApex b (c # cs) is_ota_chroot w =
     (if \<not> f_compressed c then ProcessCompressedApex b cs is_ota_chroot w
      else
        (let (res, w) = process_capex b c is_ota_chroot w;
             (as, w) = ProcessCompressedApex b cs is_ota_chroot w
         in (case res of Inl e \<Rightarrow> as | Inr a \<Rightarrow> a # as, w)))"

text \<open>The block that three places of the code repeat: compressed packages are replaced at the end of the list.\<close>

definition expand_compressed :: "'s act_os \<Rightarrow> ApexFile list \<Rightarrow> bool \<Rightarrow> 's apexd \<Rightarrow> ApexFile list \<times> 's apexd" where
  "expand_compressed b apexes is_ota_chroot w =
     (let compressed = filter f_compressed apexes;
          (as, w) = (if compressed \<noteq> [] then ProcessCompressedApex b compressed is_ota_chroot w else ([], w))
      in (filter (\<lambda>a. \<not> f_compressed a) apexes @ as, w))"

section \<open>Falling back to pre-installed packages\<close>

definition GetActivePackagesMap :: "'s act_os \<Rightarrow> 's apexd \<Rightarrow> (string \<times> int) list" where
  "GetActivePackagesMap b w = fold (\<lambda>a. emplace (f_name a) (f_version a)) (GetActivePackages (b_dev b) w) []"

fun fallback_apexes :: "ApexFileRepository \<Rightarrow> string list \<Rightarrow> ApexFile list \<Rightarrow> ApexFile list outcome" where
  "fallback_apexes r activated [] = Returns []"
| "fallback_apexes r activated (a # as) =
     (if m_providesharedapexlibs (f_manifest a) \<or> IsPreInstalledApex r a \<or> f_name a \<in> set activated
      then fallback_apexes r activated as
      else out_bind (GetPreInstalledApex r (f_name a))
             (\<lambda>p. out_bind (fallback_apexes r activated as) (\<lambda>ps. Returns (p # ps))))"

definition ActivateMissingApexes :: "'s act_os \<Rightarrow> ApexFile list \<Rightarrow> ActivationMode \<Rightarrow> ('s, unit) risky" where
  "ActivateMissingApexes b apexes mode w =
     out_bind (fallback_apexes (ax_repo w) (map fst (GetActivePackagesMap b w)) apexes)
       (\<lambda>fallback.
          let (fallback, w) = expand_compressed b fallback (mode = kOtaChrootMode) w;
              w = (if mode = kBootMode then change_active (map f_name fallback) w else w)
          in Returns (ActivateApexPackages b fallback mode w))"

section \<open>The published list of packages\<close>

fun CastPartition :: "ApexPartition \<Rightarrow> string" where
  "CastPartition System = ''SYSTEM''"
| "CastPartition SystemExt = ''SYSTEM_EXT''"
| "CastPartition Product = ''PRODUCT''"
| "CastPartition Vendor = ''VENDOR''"
| "CastPartition Odm = ''ODM''"

definition convert_to_autogen :: "'s act_os \<Rightarrow> bool \<Rightarrow> 's apexd \<Rightarrow> ApexFile \<Rightarrow> ApexInfo outcome" where
  "convert_to_autogen b is_active w a =
     (case GetPartition (b_os b) (ax_repo w) a of
        Inl e \<Rightarrow> Aborts
      | Inr part \<Rightarrow>
          Returns
            \<lparr>ai_moduleName = f_name a, ai_modulePath = f_path a,
             ai_preinstalledModulePath =
               (case GetPreinstalledPath (ax_repo w) (f_name a) of Inl e \<Rightarrow> None | Inr p \<Rightarrow> Some p),
             ai_versionCode = f_version a, ai_versionName = m_versionname (f_manifest a),
             ai_isFactory = IsPreInstalledApex (ax_repo w) a, ai_isActive = is_active,
             ai_lastUpdateMillis =
               (case GetBlockApexLastUpdateSeconds (ax_repo w) (f_path a) of
                  Some t \<Rightarrow> Some t | None \<Rightarrow> b_stat_mtime b (f_path a) (ax_os w)),
             ai_provideSharedApexLibs = m_providesharedapexlibs (f_manifest a),
             ai_partition = CastPartition part\<rparr>)"

fun out_map :: "('a \<Rightarrow> 'b outcome) \<Rightarrow> 'a list \<Rightarrow> 'b list outcome" where
  "out_map f [] = Returns []"
| "out_map f (x # xs) = out_bind (f x) (\<lambda>y. out_bind (out_map f xs) (\<lambda>ys. Returns (y # ys)))"

definition CollectApexInfoList :: "'s act_os \<Rightarrow> ApexFile list \<Rightarrow> ApexFile list \<Rightarrow> 's apexd \<Rightarrow> string outcome" where
  "CollectApexInfoList b active inactive w =
     out_bind (out_map (convert_to_autogen b True w) active)
       (\<lambda>xs. out_bind (out_map (convert_to_autogen b False w) inactive)
               (\<lambda>ys. Returns (b_info_xml b (xs @ ys))))"

definition kApexInfoList :: string where "kApexInfoList = ''apex-info-list.xml''"

definition EmitApexInfoList :: "'s act_os \<Rightarrow> bool \<Rightarrow> ('s, unit) risky" where
  "EmitApexInfoList b is_bootstrap w =
     (let file_name = kApexRoot @ ''/.'' @ (if is_bootstrap then ''bootstrap'' else ''default'') @ ''-'' @ kApexInfoList;
          (fd, w) = sys (b_open_write b file_name) w
      in if fd = -1 then Returns (Inl (Failure ''open'' [file_name]), w)
         else
           (let active = GetActivePackages (b_dev b) w;
                inactive = (if is_bootstrap then [] else CalculateInactivePackages (b_dev b) active w)
            in out_bind (CollectApexInfoList b active inactive w)
                 (\<lambda>xml.
                    let (ok, w) = sys (b_WriteStringToFd b fd xml) w;
                        w = sys_do (d_close (b_dev b) fd) w;
                        mount_point = kApexRoot @ ''/'' @ kApexInfoList
                    in if \<not> ok then Returns (Inl (Failure ''write'' [file_name]), w)
                       else
                         (let w = (if a_access (b_os b) mount_point (ax_os w) = 0 then w
                                   else (let (fd, w) = sys (b_open_write b mount_point) w
                                         in sys_do (d_close (b_dev b) fd) w));
                              (rc, w) = sys (b_bind_file b file_name mount_point)
                                            (record_call (Bind mount_point file_name) w)
                          in if rc \<noteq> 0 then Returns (Inl (Failure ''bind mount'' [file_name, mount_point]), w)
                             else Returns (sys (s_RestoreconPath (b_ses b) file_name) w)))))"

definition UpdateApexInfoList :: "'s act_os \<Rightarrow> ('s, unit) risky" where
  "UpdateApexInfoList b w =
     (let active = GetActivePackages (b_dev b) w;
          inactive = CalculateInactivePackages (b_dev b) active w;
          file_name = kApexRoot @ ''/.default-'' @ kApexInfoList
      in out_bind (CollectApexInfoList b active inactive w)
           (\<lambda>xml. let (fd, w) = sys (b_open_write b file_name) w
                  in if fd = -1 then Returns (Inl (Failure ''open'' [file_name]), w)
                     else
                       (let (ok, w) = sys (b_WriteStringToFd b fd xml) w;
                            w = sys_do (d_close (b_dev b) fd) w
                        in Returns (if ok then Inr () else Inl (Failure ''write'' [file_name]), w))))"

definition kApexStatusStarting :: string where "kApexStatusStarting = ''starting''"
definition kApexStatusActivated :: string where "kApexStatusActivated = ''activated''"
definition kApexStatusReady :: string where "kApexStatusReady = ''ready''"
definition kApexAllReadyProp :: string where "kApexAllReadyProp = ''apex.all.ready''"

definition set_status :: "'s act_os \<Rightarrow> string \<Rightarrow> 's apexd \<Rightarrow> 's apexd" where
  "set_status b val w = snd (set_property b (cfg_apex_status_sysprop (b_config b)) val w)"

definition OnAllPackagesActivated :: "'s act_os \<Rightarrow> bool \<Rightarrow> 's apexd \<Rightarrow> 's apexd outcome" where
  "OnAllPackagesActivated b is_bootstrap w =
     out_bind (EmitApexInfoList b is_bootstrap w)
       (\<lambda>(res, w). Returns (if is_bootstrap then w else set_status b kApexStatusActivated w))"

definition OnAllPackagesReady :: "'s act_os \<Rightarrow> 's apexd \<Rightarrow> 's apexd" where
  "OnAllPackagesReady b w = snd (set_property b kApexAllReadyProp ''true'' (set_status b kApexStatusReady w))"

end
