(* ===== verification/Apexd_Start.thy ===== *)
theory Apexd_Start
  imports Apexd_Boot
begin

text \<open>
  The entry points of the APEX daemon (\<open>apexd.cpp\<close>): bootstrap, initialization, start-up of a device, of a
  virtual machine and of an update chroot, clean-up after boot, space for compressed packages, and the
  installation of a package while the device runs.
\<close>

section \<open>Initialization\<close>

definition repo_action ::
  "(ApexFileRepository \<Rightarrow> ((apex_error, unit) result \<times> ApexFileRepository) outcome) \<Rightarrow> ('s, unit) risky" where
  "repo_action f w = out_bind (f (ax_repo w)) (\<lambda>(res, r). Returns (res, w\<lparr>ax_repo := r\<rparr>))"

definition add_pre_installed :: "'s act_os \<Rightarrow> ('s, unit) risky" where
  "add_pre_installed b w =
     repo_action (AddPreInstalledApex (b_os b) (ax_os w) (cfg_builtin_dirs (b_config b))) w"

definition add_data_apex :: "'s act_os \<Rightarrow> string \<Rightarrow> ('s, unit) action" where
  "add_data_apex b dir w =
     (let (res, r) = AddDataApex (b_os b) (ax_os w) dir (ax_repo w) in (res, w\<lparr>ax_repo := r\<rparr>))"

definition loop_device_count :: "'s act_os \<Rightarrow> 's \<Rightarrow> ApexFile list \<Rightarrow> nat" where
  "loop_device_count b s as =
     length as + length (filter (IsBootstrapApex b s) as) +
     length (filter (\<lambda>a. m_providesharedapexlibs (f_manifest a)) as)"

definition OnBootstrap :: "'s act_os \<Rightarrow> 's apexd \<Rightarrow> (int \<times> 's apexd) outcome" where
  "OnBootstrap b w =
     out_bind (add_pre_installed b w)
       (\<lambda>(res, w). case res of
          Inl e \<Rightarrow> Returns (1, w)
        | Inr _ \<Rightarrow>
            (let pre_installed = GetPreInstalledApexFiles (ax_repo w);
                 bootstrap = filter (IsBootstrapApex b (ax_os w)) pre_installed;
                 w = sys_do (b_PreAllocateLoopDevices b (loop_device_count b (ax_os w) pre_installed)) w;
                 w = fold (\<lambda>a. sys_do (b_CreatePlaceholderDevice b (f_name a))) pre_installed w
             in case ActivateApexPackages b bootstrap kBootstrapMode w of
                  (Inl e, w) \<Rightarrow> Returns (1, w)
                | (Inr _, w) \<Rightarrow> out_bind (OnAllPackagesActivated b True w) (\<lambda>w. Returns (0, w))))"

definition InitializeVold :: "'s act_os \<Rightarrow> bool \<Rightarrow> 's apexd \<Rightarrow> 's apexd" where
  "InitializeVold b present w =
     (if \<not> present then w
      else
        (let w = (case b_SupportsFsCheckpoints b (ax_os w) of
                    Inr v \<Rightarrow> w\<lparr>gSupportsFsCheckpoints := v\<rparr> | Inl e \<Rightarrow> w)
         in if gSupportsFsCheckpoints w
            then (case b_NeedsCheckpoint b (ax_os w) of
                    Inr v \<Rightarrow> w\<lparr>gInFsCheckpointMode := v\<rparr> | Inl e \<Rightarrow> w)
            else w))"

definition kPartitionToBrandNewApexConfigDirs :: "(ApexPartition \<times> string) list" where
  "kPartitionToBrandNewApexConfigDirs =
     [(System, ''/system/etc/brand_new_apex''), (SystemExt, ''/system_ext/etc/brand_new_apex''),
      (Product, ''/product/etc/brand_new_apex''), (Vendor, ''/vendor/etc/brand_new_apex''),
      (Odm, ''/odm/etc/brand_new_apex'')]"

definition Apexd_Initialize :: "'s act_os \<Rightarrow> bool \<Rightarrow> 's apexd \<Rightarrow> 's apexd outcome" where
  "Apexd_Initialize b vold_present w =
     out_bind (add_pre_installed b (InitializeVold b vold_present w))
       (\<lambda>(res, w). case res of
          Inl e \<Rightarrow> Returns w
        | Inr _ \<Rightarrow>
            out_bind
              (if enable_brand_new_apex (ax_repo w)
               then out_bind (repo_action (AddBrandNewApexCredentialAndBlocklist (b_os b) (ax_os w)
                                             kPartitionToBrandNewApexConfigDirs) w)
                      (\<lambda>(res, w). case res of Inl e \<Rightarrow> Aborts | Inr _ \<Rightarrow> Returns w)
               else Returns w)
              (\<lambda>w. Returns (sys_do (b_PopulateFromMounts b
                      [cfg_active_apex_data_dir (b_config b), cfg_decompression_dir (b_config b)]) w)))"

definition kActiveApexPackagesDataDir :: string where "kActiveApexPackagesDataDir = ''/data/apex/active''"

definition InitializeDataApex :: "'s act_os \<Rightarrow> 's apexd \<Rightarrow> 's apexd" where
  "InitializeDataApex b w = snd (add_data_apex b kActiveApexPackagesDataDir w)"

section \<open>Start-up of a device\<close>

definition RemoveInactiveDataApex :: "'s act_os \<Rightarrow> 's apexd \<Rightarrow> 's apexd" where
  "RemoveInactiveDataApex b w =
     (let found = (\<lambda>dir ending. case a_FindFilesBySuffix (b_os b) dir [ending] (ax_os w) of
                                  Inl e \<Rightarrow> [] | Inr ps \<Rightarrow> ps);
          all_apex_files = found (cfg_active_apex_data_dir (b_config b)) kApexPackageSuffix @
                           found (cfg_decompression_dir (b_config b)) kDecompressedApexPackageSuffix
      in fold (\<lambda>p w. if IsMounted (b_dev b) p w then w else snd (unlink_call (b_ses b) p w)) all_apex_files w)"

text \<open>What follows a failed activation: a revert, and the pre-installed versions of what is missing.\<close>

definition recover_activation :: "'s act_os \<Rightarrow> apex_error \<Rightarrow> ApexFile list \<Rightarrow> 's apexd \<Rightarrow> 's apexd outcome" where
  "recover_activation b e activation_list w =
     out_bind (RevertActiveSessionsAndReboot (b_ses b) [] (Some (Caused ''Failed to activate packages'' [] e)) w)
       (\<lambda>(_, w). out_bind (ActivateMissingApexes b activation_list kBootMode w) (\<lambda>(_, w). Returns w))"

definition activate_selected :: "'s act_os \<Rightarrow> 's apexd \<Rightarrow> 's apexd outcome" where
  "activate_selected b w =
     out_bind (SelectApexForActivation (AllApexFilesByName (ax_repo w)) (ax_repo w))
       (\<lambda>selected.
          let (activation_list, w) = expand_compressed b selected False w
          in case ActivateApexPackages b activation_list kBootMode w of
               (Inr _, w) \<Rightarrow> Returns w
             | (Inl e, w) \<Rightarrow> recover_activation b e activation_list w)"

definition revert_if_asked :: "'s act_os \<Rightarrow> 's apexd \<Rightarrow> 's apexd outcome" where
  "revert_if_asked b w =
     (if gSupportsFsCheckpoints w \<and> b_NeedsRollback b (ax_os w) = Inr True
      then out_bind (RevertActiveSessions (b_ses b) [] None w) (\<lambda>(_, w). Returns w)
      else Returns w)"

definition OnStart :: "'s act_os \<Rightarrow> 's apexd \<Rightarrow> 's apexd outcome" where
  "OnStart b w =
     out_bind (revert_if_asked b (set_status b kApexStatusStarting w))
       (\<lambda>w. let w = snd (CreateSharedLibsApexDir b w);
                w = ActivateStagedSessions (b_ses b) w;
                w = snd (add_data_apex b (cfg_active_apex_data_dir (b_config b)) w)
            in out_bind (ResumeRevertIfNeeded (b_ses b) w)
                 (\<lambda>(_, w). out_bind (activate_selected b w)
                    (\<lambda>w. Returns (SnapshotOrRestoreDeSysData (b_ses b) (RemoveInactiveDataApex b w)))))"

section \<open>Clean-up\<close>

definition IsApexDevice :: "'s act_os \<Rightarrow> ApexFileRepository \<Rightarrow> string \<Rightarrow> bool" where
  "IsApexDevice b r dev_name \<longleftrightarrow>
     (\<exists>a \<in> set (GetPreInstalledApexFiles r). StartsWith (a_lb (b_os b)) dev_name (f_name a))"

definition DeleteUnusedVerityDevices :: "'s act_os \<Rightarrow> 's apexd \<Rightarrow> 's apexd" where
  "DeleteUnusedVerityDevices b w =
     (case b_dm_devices b (ax_os w) of
        None \<Rightarrow> w
      | Some devs \<Rightarrow>
          fold (\<lambda>dev w. if b_dm_suspended b dev (ax_os w) \<and> IsApexDevice b (ax_repo w) dev
                        then snd (delete_dm (b_dev b) dev False w) else w) devs w)"

definition BootCompletedCleanup :: "'s act_os \<Rightarrow> 's apexd \<Rightarrow> 's apexd" where
  "BootCompletedCleanup b w =
     DeleteUnusedVerityDevices b (sys_do (s_DeleteFinalizedSessions (b_ses b)) w)"

definition unmount_entry ::
  "'s act_os \<Rightarrow> string \<times> MountedApexData \<times> bool \<Rightarrow> int \<times> 's apexd \<Rightarrow> (int \<times> 's apexd) outcome" where
  "unmount_entry b ent rw =
     (case ent of (n, data, latest) \<Rightarrow>
        (case a_Open (b_os b) (md_full_path data) (ax_os (snd rw)) of
           Inl e \<Rightarrow> Returns (1, snd rw)
         | Inr a \<Rightarrow>
             out_bind
               (if latest \<and> \<not> m_providesharedapexlibs (f_manifest a) then
                  (case find_char (CHR ''@'') (md_mount_point data) of
                     None \<Rightarrow> Aborts
                   | Some pos \<Rightarrow> Returns (umount_call (b_dev b) (substr (md_mount_point data) 0 pos) True (snd rw)))
                else Returns (0, snd rw))
               (\<lambda>(rc, w).
                  if rc \<noteq> 0 then Returns (1, w)
                  else case Unmount (b_dev b) data True w of
                         (Inl e, w) \<Rightarrow> Returns (1, w)
                       | (Inr _, w) \<Rightarrow> Returns (fst rw, w))))"

definition UnmountAll :: "'s act_os \<Rightarrow> bool \<Rightarrow> 's apexd \<Rightarrow> (int \<times> 's apexd) outcome" where
  "UnmountAll b also_include_staged_apexes w =
     (let staged = (if also_include_staged_apexes
                    then concat (map (\<lambda>ses. s_GetStagedApexDirs (b_ses b) ses (cfg_staged_session_dir (b_config b)))
                                   (GetSessionsInState (b_ses b) STAGED w))
                    else []);
          w = sys_do (b_PopulateFromMounts b ([cfg_active_apex_data_dir (b_config b),
                                               cfg_decompression_dir (b_config b)] @ staged)) w
      in out_fold (unmount_entry b) (d_mounted (b_dev b) (ax_os w)) (0, w))"

section \<open>Space for compressed packages\<close>

definition ShouldAllocateSpaceForDecompression :: "string \<Rightarrow> int \<Rightarrow> ApexFileRepository \<Rightarrow> bool outcome" where
  "ShouldAllocateSpaceForDecompression n new_version r =
     (if \<not> HasPreInstalledVersion r n then Returns True
      else if \<not> HasDataVersion r n then
        out_bind (GetPreInstalledApex r n)
          (\<lambda>p. if \<not> f_compressed p then Returns True
               else out_bind (GetPreInstalledApex r n) (\<lambda>p. Returns (new_version \<noteq> f_version p)))
      else out_bind (GetDataApex r n) (\<lambda>a. Returns (f_version a < new_version)))"

fun CalculateSizeForCompressedApex :: "(string \<times> int \<times> int) list \<Rightarrow> ApexFileRepository \<Rightarrow> int \<Rightarrow> int outcome" where
  "CalculateSizeForCompressedApex [] r result = Returns result"
| "CalculateSizeForCompressedApex ((n, version, size_of) # cs) r result =
     out_bind (ShouldAllocateSpaceForDecompression n version r)
       (\<lambda>yes. CalculateSizeForCompressedApex cs r (if yes then i64 (result + size_of) else result))"

definition ReserveSpaceForCompressedApex :: "'s act_os \<Rightarrow> int \<Rightarrow> string \<Rightarrow> ('s, unit) action" where
  "ReserveSpaceForCompressedApex b len dest_dir w =
     (if len < 0 then (Inl (Failure ''negative'' []), w)
      else case a_FindFilesBySuffix (b_os b) (cfg_decompression_dir (b_config b)) [kOtaApexPackageSuffix] (ax_os w) of
             Inl e \<Rightarrow> (Inl (Caused ''clean up ota_apex'' [] e), w)
           | Inr ota_files \<Rightarrow>
               (let w = fold (remove_file b) ota_files w;
                    path = dest_dir @ ''/full.tmp''
                in if len = 0 then (Inr (), remove_file b path w)
                   else
                     (let (fd, w) = sys (b_open_write b path) w
                      in if fd = -1 then (Inl (Failure ''open'' [path]), w)
                         else
                           (let (res, w) =
                                  (case sys (b_resize_file b path len) w of
                                     (Inl e, w) \<Rightarrow> (Inl (Caused ''resize'' [path] e), remove_file b path w)
                                   | (Inr _, w) \<Rightarrow>
                                       (let (rc, w) = sys (b_posix_fallocate b fd len) w
                                        in if rc \<noteq> 0 then (Inl (Failure ''allocate'' [path]), remove_file b path w)
                                           else (Inr (), w)))
                            in (res, sys_do (d_close (b_dev b) fd) w)))))"

section \<open>Virtual machines and update chroots\<close>

definition AddBlockApex :: "'s act_os \<Rightarrow> ('s, int) risky" where
  "AddBlockApex b w =
     (let prop = a_GetProperty (b_os b) (cfg_vm_payload_metadata_partition_prop (b_config b)) [] (ax_os w)
      in if prop = [] then Returns (Inr 0, w)
         else out_bind (Repository_AddBlockApex (b_os b) prop (ax_os w) (ax_repo w))
                (\<lambda>(res, s, r). Returns (caused_by ''scan block APEX'' [] (res, w\<lparr>ax_os := s, ax_repo := r\<rparr>))))"

text \<open>The steps of a virtual machine after the repository has been filled.\<close>

definition vm_activate :: "'s act_os \<Rightarrow> 's apexd \<Rightarrow> (int \<times> 's apexd) outcome" where
  "vm_activate b w =
     (case ActivateApexPackages b (GetPreInstalledApexFiles (ax_repo w)) kVmMode w of
        (Inl e, w) \<Rightarrow> Returns (1, w)
      | (Inr _, w) \<Rightarrow>
          (case ActivateApexPackages b (GetDataApexFiles (ax_repo w)) kVmMode w of
             (Inl e, w) \<Rightarrow> Returns (1, w)
           | (Inr _, w) \<Rightarrow>
               out_bind (OnAllPackagesActivated b False w) (\<lambda>w. Returns (0, OnAllPackagesReady b w))))"

definition OnStartInVmMode :: "'s act_os \<Rightarrow> 's apexd \<Rightarrow> (int \<times> 's apexd) outcome" where
  "OnStartInVmMode b w =
     (case CreateSharedLibsApexDir b (snd (sys (a_WaitForFile (b_os b) ''/dev/loop-control'' 20) w)) of
        (Inl e, w) \<Rightarrow> Returns (1, w)
      | (Inr _, w) \<Rightarrow>
          out_bind (add_pre_installed b w)
            (\<lambda>(res, w). case res of
               Inl e \<Rightarrow> Returns (1, w)
             | Inr _ \<Rightarrow>
                 out_bind (AddBlockApex b w)
                   (\<lambda>(res, w). case res of Inl e \<Rightarrow> Returns (1, w) | Inr _ \<Rightarrow> vm_activate b w)))"

text \<open>The file of the package list in an update chroot.\<close>

definition write_chroot_info :: "'s act_os \<Rightarrow> 's apexd \<Rightarrow> (int \<times> 's apexd) outcome" where
  "write_chroot_info b w =
     (let active = GetActivePackages (b_dev b) w;
          inactive = CalculateInactivePackages (b_dev b) active w;
          file_name = kApexRoot @ ''/'' @ kApexInfoList
      in out_bind (CollectApexInfoList b active inactive w)
           (\<lambda>xml. let (fd, w) = sys (b_open_write b file_name) w
                  in if fd = -1 then Returns (1, w)
                     else
                       (let (ok, w) = sys (b_WriteStringToFd b fd xml) w;
                            w = sys_do (d_close (b_dev b) fd) w
                        in if \<not> ok then Returns (1, w)
                           else case sys (s_RestoreconPath (b_ses b) file_name) w of
                                  (Inl e, w) \<Rightarrow> Returns (1, w) | (Inr _, w) \<Rightarrow> Returns (0, w))))"

definition chroot_activate :: "'s act_os \<Rightarrow> 's apexd \<Rightarrow> (int \<times> 's apexd) outcome" where
  "chroot_activate b w =
     out_bind (SelectApexForActivation (AllApexFilesByName (ax_repo w)) (ax_repo w))
       (\<lambda>selected.
          let (activation_list, w) = expand_compressed b selected True w
          in out_bind
               (case ActivateApexPackages b activation_list kOtaChrootMode w of
                  (Inr _, w) \<Rightarrow> Returns w
                | (Inl e, w) \<Rightarrow>
                    out_bind (ActivateMissingApexes b activation_list kOtaChrootMode w) (\<lambda>(_, w). Returns w))
               (write_chroot_info b))"

definition chroot_data_dirs :: "'s act_os \<Rightarrow> bool \<Rightarrow> 's apexd \<Rightarrow> string list" where
  "chroot_data_dirs b also_include_staged_apexes w =
     (if also_include_staged_apexes
      then concat (map (\<lambda>ses. s_GetStagedApexDirs (b_ses b) ses (cfg_staged_session_dir (b_config b)))
                     (GetSessionsInState (b_ses b) STAGED w))
      else []) @ [cfg_active_apex_data_dir (b_config b)]"

definition OnOtaChrootBootstrap :: "'s act_os \<Rightarrow> bool \<Rightarrow> 's apexd \<Rightarrow> (int \<times> 's apexd) outcome" where
  "OnOtaChrootBootstrap b also_include_staged_apexes w =
     out_bind (add_pre_installed b w)
       (\<lambda>(res, w). case res of
          Inl e \<Rightarrow> Returns (1, w)
        | Inr _ \<Rightarrow>
            (case res_fold (add_data_apex b) (chroot_data_dirs b also_include_staged_apexes w) w of
               (Inl e, w) \<Rightarrow> Returns (1, w)
             | (Inr _, w) \<Rightarrow>
                 (case CreateSharedLibsApexDir b w of
                    (Inl e, w) \<Rightarrow> Returns (1, w)
                  | (Inr _, w) \<Rightarrow> chroot_activate b w)))"

section \<open>Installing a package without a reboot\<close>

definition VerifyPackageNonStagedInstall :: "'s act_os \<Rightarrow> ApexFile \<Rightarrow> bool \<Rightarrow> ('s, unit) action" where
  "VerifyPackageNonStagedInstall b a force w =
     or_return (VerifyPackageBoot (b_dev b) a w)
       (\<lambda>_ w. or_return (VerifyNoOverlapInSessions [a] (s_GetSessions (b_ses b) (ax_os w)), w)
          (\<lambda>_. RunVerifyFnInsideTempMount (b_dev b) a
             (\<lambda>mount_point w.
                (if force then Inr ()
                 else if a_access (b_os b) (mount_point @ ''/app'') (ax_os w) = 0
                 then Inl (Failure ''contains app'' [f_path a])
                 else if a_access (b_os b) (mount_point @ ''/priv-app'') (ax_os w) = 0
                 then Inl (Failure ''contains priv-app'' [f_path a])
                 else s_CheckVintf (b_ses b) [a] [mount_point] (ax_os w), w))))"

definition CheckSupportsNonStagedInstall :: "'s act_os \<Rightarrow> ApexFile \<Rightarrow> bool \<Rightarrow> 's apexd \<Rightarrow> (apex_error, unit) result" where
  "CheckSupportsNonStagedInstall b a force w =
     (let m = f_manifest a
      in if \<not> force \<and> \<not> m_supportsrebootlessupdate m then Inl (Failure ''non-staged'' [f_path a])
         else if \<not> force \<and> m_providesharedapexlibs m then Inl (Failure ''shared libs'' [f_path a])
         else if \<not> force \<and> m_providenativelibs m \<noteq> [] then Inl (Failure ''native libs'' [f_path a])
         else if \<not> force \<and> m_requiresharedapexlibs m \<noteq> [] then Inl (Failure ''shared apex libs'' [f_path a])
         else if \<not> force \<and> m_jnilibs m \<noteq> [] then Inl (Failure ''JNI libs'' [f_path a])
         else case GetPublicKey (ax_repo w) (m_name m) of
                Inl e \<Rightarrow> Inl e
              | Inr key \<Rightarrow>
                  (case d_VerifyApexVerity (b_dev b) a key (ax_os w) of Inl e \<Rightarrow> Inl e | Inr _ \<Rightarrow> Inr ()))"

definition kMaxVerityDevicesPerApexName :: nat where "kMaxVerityDevicesPerApexName = 3"

text \<open>The count of the devices of the package and the next minor, in \<open>size_t\<close> arithmetic.\<close>

fun scan_minors :: "'s act_os \<Rightarrow> string \<Rightarrow> string list \<Rightarrow> nat \<Rightarrow> nat \<Rightarrow> (apex_error, nat \<times> nat) result" where
  "scan_minors b n [] devices next_minor = Inr (devices, next_minor)"
| "scan_minors b n (dev # devs) devices next_minor =
     (case ConsumePrefix (a_lb (b_os b)) dev n of
        None \<Rightarrow> scan_minors b n devs devices next_minor
      | Some rest \<Rightarrow>
          (case rfind_char (CHR ''_'') rest of
             None \<Rightarrow> scan_minors b n devs (Suc devices) next_minor
           | Some pos \<Rightarrow>
               (case s_ParseUint (b_ses b) (drop (Suc pos) rest) (2 ^ 64 - 1) of
                  None \<Rightarrow> Inl (Failure ''Unexpected dm device'' [dev])
                | Some minor \<Rightarrow>
                    (let after = (minor + 1) mod 2 ^ 64
                     in scan_minors b n devs (Suc devices) (if next_minor < after then after else next_minor)))))"

definition minor_path :: "'s act_os \<Rightarrow> ApexFile \<Rightarrow> nat \<Rightarrow> string" where
  "minor_path b a minor =
     cfg_active_apex_data_dir (b_config b) @ ''/'' @ d_GetPackageId (b_dev b) (f_manifest a) @ ''_'' @
     dec minor @ ''.apex''"

partial_function (option) minor_loop :: "'s act_os \<Rightarrow> ApexFile \<Rightarrow> 's \<Rightarrow> nat \<Rightarrow> nat option" where
  [code]: "minor_loop b a s minor =
     (if a_access (b_os b) (minor_path b a minor) s = 0 then minor_loop b a s ((minor + 1) mod 2 ^ 64)
      else Some minor)"

definition ComputePackageIdMinor :: "'s act_os \<Rightarrow> ApexFile \<Rightarrow> 's apexd \<Rightarrow> (apex_error, nat) result option" where
  "ComputePackageIdMinor b a w =
     (case b_dm_devices b (ax_os w) of
        None \<Rightarrow> Some (Inl (Failure ''list dm devices'' []))
      | Some devs \<Rightarrow>
          (case scan_minors b (f_name a) devs 0 1 of
             Inl e \<Rightarrow> Some (Inl e)
           | Inr (devices, next_minor) \<Rightarrow>
               if kMaxVerityDevicesPerApexName < devices
               then Some (Inl (Failure ''too many dm devices'' [dec devices, f_name a]))
               else map_option Inr (minor_loop b a (ax_os w) next_minor)))"

definition kCtlApexUnloadSysprop :: string where "kCtlApexUnloadSysprop = ''ctl.apex_unload''"
definition kCtlApexLoadSysprop :: string where "kCtlApexLoadSysprop = ''ctl.apex_load''"

definition UnloadApexFromInit :: "'s act_os \<Rightarrow> string \<Rightarrow> ('s, unit) action" where
  "UnloadApexFromInit b n w =
     (let (ok, w) = set_property b kCtlApexUnloadSysprop n w
      in if \<not> ok then (Inl (Failure ''set'' [kCtlApexUnloadSysprop, n]), w)
         else (Inr (), snd (set_property b (''apex.'' @ n @ ''.ready'') ''false'' w)))"

definition LoadApexFromInit :: "'s act_os \<Rightarrow> string \<Rightarrow> ('s, unit) action" where
  "LoadApexFromInit b n w =
     (let (ok, w) = set_property b kCtlApexLoadSysprop n w
      in if \<not> ok then (Inl (Failure ''set'' [kCtlApexLoadSysprop, n]), w)
         else (Inr (), snd (set_property b (''apex.'' @ n @ ''.ready'') ''true'' w)))"

text \<open>
  From the hard link to the activation; on failure the guard removes the link and activates the old
  package again under a new device name.
\<close>

definition install_id :: "'s act_os \<Rightarrow> ApexFile \<Rightarrow> nat \<Rightarrow> string" where
  "install_id b a minor = d_GetPackageId (b_dev b) (f_manifest a) @ ''_'' @ dec minor"

definition install_target :: "'s act_os \<Rightarrow> ApexFile \<Rightarrow> nat \<Rightarrow> string" where
  "install_target b a minor = cfg_active_apex_data_dir (b_config b) @ ''/'' @ install_id b a minor @ ''.apex''"

definition undo_install ::
  "'s act_os \<Rightarrow> ApexFile \<Rightarrow> ApexFile \<Rightarrow> nat \<Rightarrow> string \<Rightarrow> 's apexd \<Rightarrow> 's apexd" where
  "undo_install b temp_apex cur_apex minor target_file w =
     (let w = snd (unlink_call (b_ses b) target_file w)
      in snd (ActivatePackageImpl (b_dev b) cur_apex (install_id b temp_apex ((minor + 1) mod 2 ^ 64)) False w))"

definition install_new ::
  "'s act_os \<Rightarrow> string \<Rightarrow> ApexFile \<Rightarrow> ApexFile \<Rightarrow> nat \<Rightarrow> ('s, ApexFile) action" where
  "install_new b package_path temp_apex cur_apex minor w =
     (let new_id = install_id b temp_apex minor;
          target_file = install_target b temp_apex minor;
          (rc, w) = link_call (b_ses b) package_path target_file w;
          (res, w) =
            (if rc \<noteq> 0 then (Inl (Failure ''link'' [package_path, target_file]), w)
             else or_return (a_Open (b_os b) target_file (ax_os w), w)
                    (\<lambda>new_apex w. or_return (ActivatePackageImpl (b_dev b) new_apex new_id False w)
                       (\<lambda>_ w. (Inr new_apex, w))))
      in (res, case res of Inl e \<Rightarrow> undo_install b temp_apex cur_apex minor target_file w | Inr _ \<Rightarrow> w))"

text \<open>After the new package is active: the old file, the published list and the compressed blocks.\<close>

definition finish_install ::
  "'s act_os \<Rightarrow> string \<Rightarrow> ApexFile \<Rightarrow> MountedApexData \<Rightarrow> 's apexd \<Rightarrow> 's apexd outcome" where
  "finish_install b target_file cur_apex cur_mounted w =
     (let w = (if IsPreInstalledApex (ax_repo w) cur_apex then w
               else snd (unlink_call (b_ses b) (md_full_path cur_mounted) w))
      in out_bind (UpdateApexInfoList b w)
           (\<lambda>(_, w). Returns (ReleaseF2fsCompressedBlocks (b_ses b) target_file w)))"

text \<open>
  Between unloading and loading by init.  The guard that loads the package again runs on every return,
  after the guard of the installation.
\<close>

definition install_unloaded ::
  "'s act_os \<Rightarrow> string \<Rightarrow> bool \<Rightarrow> ApexFile \<Rightarrow> ApexFile \<Rightarrow> MountedApexData \<Rightarrow> nat \<Rightarrow> ('s, ApexFile) risky" where
  "install_unloaded b package_path force temp_apex cur_apex cur_mounted minor w =
     out_bind
       (case UnmountPackage (b_dev b) cur_apex True True force w of
          (Inl e, w) \<Rightarrow> Returns (Inl e, w)
        | (Inr _, w) \<Rightarrow>
            (case install_new b package_path temp_apex cur_apex minor w of
               (Inl e, w) \<Rightarrow> Returns (Inl e, w)
             | (Inr new_apex, w) \<Rightarrow>
                 out_bind (finish_install b (install_target b temp_apex minor) cur_apex cur_mounted w) (\<lambda>w. Returns (Inr new_apex, w))))
       (\<lambda>(res, w). Returns (res, snd (LoadApexFromInit b (f_name temp_apex) w)))"

text \<open>The checks before anything is taken down.\<close>

definition install_checks ::
  "'s act_os \<Rightarrow> string \<Rightarrow> bool \<Rightarrow> ('s, ApexFile \<times> ApexFile \<times> MountedApexData) action" where
  "install_checks b package_path force w =
     or_return (a_Open (b_os b) package_path (ax_os w), w)
       (\<lambda>temp_apex w.
          case d_GetLatestMountedApex (b_dev b) (f_name temp_apex) (ax_os w) of
            None \<Rightarrow> (Inl (Failure ''No active version'' [f_name temp_apex]), w)
          | Some cur_mounted \<Rightarrow>
              or_return (a_Open (b_os b) (md_full_path cur_mounted) (ax_os w), w)
                (\<lambda>cur_apex w. or_return (CheckSupportsNonStagedInstall b temp_apex force w, w)
                   (\<lambda>_ w. or_return (VerifyPackageNonStagedInstall b temp_apex force w)
                      (\<lambda>_ w. (Inr (temp_apex, cur_apex, cur_mounted), w)))))"

definition InstallPackage ::
  "'s act_os \<Rightarrow> string \<Rightarrow> bool \<Rightarrow> 's apexd \<Rightarrow> ((apex_error, ApexFile) result \<times> 's apexd) outcome option" where
  "InstallPackage b package_path force w =
     (case install_checks b package_path force w of
        (Inl e, w) \<Rightarrow> Some (Returns (Inl e, w))
      | (Inr (temp_apex, cur_apex, cur_mounted), w) \<Rightarrow>
          Option.bind (ComputePackageIdMinor b temp_apex w)
            (\<lambda>minor_result. case minor_result of
               Inl e \<Rightarrow> Some (Returns (Inl e, w))
             | Inr minor \<Rightarrow>
                 (case UnloadApexFromInit b (f_name temp_apex) w of
                    (Inl e, w) \<Rightarrow> Some (Returns (Inl e, w))
                  | (Inr _, w) \<Rightarrow>
                      Some (install_unloaded b package_path force temp_apex cur_apex cur_mounted minor w))))"

definition IsActiveApexChanged :: "'s apexd \<Rightarrow> ApexFile \<Rightarrow> bool" where
  "IsActiveApexChanged w a \<longleftrightarrow> f_name a \<in> set (gChangedActiveApexes w)"

definition MountAndDeriveClassPath :: "'s act_os \<Rightarrow> ApexFile list \<Rightarrow> ('s, string list) action" where
  "MountAndDeriveClassPath b apex_files =
     RunVerifyFnInsideTempMounts (b_dev b) apex_files (\<lambda>mps w. (b_DeriveClassPath b mps (ax_os w), w))"

end
