(* ===== verification/Apex_Correct.thy ===== *)
theory Apex_Correct
  imports Apexd_Start
begin

text \<open>
  Correctness of the package repository (\<open>afr.cpp\<close>) and of the selection of packages (\<open>apexd.cpp\<close>): the
  invariant of the stores under any sequence of the operations, which data package a name gets, which
  packages are selected for activation, and packages that a property selects.  A small device, whose state
  is the list of its package files, serves the concrete instances here and in the theories above.
\<close>

section \<open>Maps as association lists\<close>

lemma map_of_emplace: "map_of (emplace k v m) = (if map_of m k = None then (map_of m)(k \<mapsto> v) else map_of m)"
  by (auto simp: emplace_def map_add_def fun_eq_iff split: option.splits)

lemma map_of_erase: "map_of (erase k m) = (map_of m)(k := None)"
  by (induction m) (auto simp: erase_def fun_eq_iff)

lemma map_of_assign: "map_of (assign k v m) = (map_of m)(k \<mapsto> v)"
proof -
  have "map_of (map (\<lambda>e. if fst e = k then (k, v) else e) m) =
      (if map_of m k = None then map_of m else (map_of m)(k \<mapsto> v))"
    by (induction m) (auto simp: fun_eq_iff)
  then show ?thesis by (auto simp: assign_def map_add_def fun_eq_iff split: option.splits)
qed

lemmas map_of_store = map_of_emplace map_of_erase map_of_assign

lemma keys_emplace: "distinct (map fst m) \<Longrightarrow> distinct (map fst (emplace k v m))"
  by (auto simp: emplace_def map_of_eq_None_iff)

lemma keys_erase: "distinct (map fst m) \<Longrightarrow> distinct (map fst (erase k m))"
  by (simp add: erase_def distinct_map_filter)

lemma keys_assign: "distinct (map fst m) \<Longrightarrow> distinct (map fst (assign k v m))"
proof -
  have "map fst (map (\<lambda>e. if fst e = k then (k, v) else e) m) = map fst m"
    by (induction m) auto
  then show "distinct (map fst m) \<Longrightarrow> distinct (map fst (assign k v m))"
    by (simp add: assign_def map_of_eq_None_iff del: map_map)
qed

lemmas distinct_store = keys_emplace keys_erase keys_assign

section \<open>The invariant of the repository\<close>

text \<open>
  A store maps the name of a package to a package of that name, once; every package in a store has a
  partition.
\<close>

definition store_ok :: "(string \<times> ApexFile) list \<Rightarrow> bool" where
  "store_ok m \<longleftrightarrow> distinct (map fst m) \<and> (\<forall>n a. map_of m n = Some a \<longrightarrow> f_name a = n)"

definition repo_inv :: "ApexFileRepository \<Rightarrow> bool" where
  "repo_inv r \<longleftrightarrow> store_ok (pre_installed_store r) \<and> store_ok (data_store r) \<and>
     (\<forall>n. map_of (pre_installed_store r) n \<noteq> None \<or> map_of (data_store r) n \<noteq> None \<longrightarrow>
          map_of (partition_store r) n \<noteq> None)"

lemma store_ok_emplace: "store_ok m \<Longrightarrow> store_ok (emplace (f_name a) a m)"
  by (auto simp: store_ok_def keys_emplace map_of_emplace split: if_splits)

lemma store_ok_erase: "store_ok m \<Longrightarrow> store_ok (erase n m)"
  by (auto simp: store_ok_def keys_erase map_of_erase split: if_splits)

lemma store_ok_assign: "store_ok m \<Longrightarrow> store_ok (assign (f_name a) a m)"
  by (auto simp: store_ok_def keys_assign map_of_assign split: if_splits)

lemmas store_ok_intros = store_ok_emplace store_ok_erase store_ok_assign

lemma repo_inv_cong:
  "pre_installed_store r' = pre_installed_store r \<Longrightarrow> data_store r' = data_store r \<Longrightarrow>
   partition_store r' = partition_store r \<Longrightarrow> repo_inv r' = repo_inv r"
  by (simp add: repo_inv_def)

lemma repo_inv_put_pre:
  "repo_inv r \<Longrightarrow> repo_inv (r\<lparr>pre_installed_store := emplace (f_name a) a (pre_installed_store r),
                            partition_store := emplace (f_name a) p (partition_store r)\<rparr>)"
  by (simp add: repo_inv_def store_ok_intros map_of_emplace)

lemma repo_inv_put_data:
  "repo_inv r \<Longrightarrow> repo_inv (r\<lparr>data_store := emplace (f_name a) a (data_store r),
                            partition_store := emplace (f_name a) p (partition_store r)\<rparr>)"
  by (simp add: repo_inv_def store_ok_intros map_of_emplace)

lemma repo_inv_drop:
  "repo_inv r \<Longrightarrow> data_store r = [] \<Longrightarrow>
   repo_inv (r\<lparr>pre_installed_store := erase n (pre_installed_store r),
              partition_store := erase n (partition_store r)\<rparr>)"
  by (simp add: repo_inv_def store_ok_intros map_of_erase)

lemma repo_inv_keys [simp]: "repo_inv (r\<lparr>multi_install_public_keys := ks\<rparr>) = repo_inv r"
  "repo_inv (r\<lparr>block_apex_overrides := ov\<rparr>) = repo_inv r" "repo_inv (r\<lparr>block_disk_path := d\<rparr>) = repo_inv r"
  by (simp_all add: repo_inv_def)

lemma multi_install_inv:
  assumes "repo_inv r" and "data_store r = []"
  shows "repo_inv (multi_install o' s part select a r) \<and> data_store (multi_install o' s part select a r) = []"
proof -
  define ks where "ks = (\<lambda>ks. r\<lparr>multi_install_public_keys := ks\<rparr>)"
  have ok: "repo_inv (ks m)" "data_store (ks m) = []" for m using assms by (simp_all add: ks_def)
  show ?thesis
    using assms repo_inv_put_pre [OF ok(1)] repo_inv_drop [OF ok]
    by (simp add: multi_install_def Let_def ks_def split: option.split)
qed

lemma single_install_inv:
  assumes "repo_inv r" and "data_store r = []" and "single_install part a r = Returns r'"
  shows "repo_inv r' \<and> data_store r' = []"
proof (cases "map_of (pre_installed_store r) (f_name a)")
  case None
  with assms repo_inv_put_pre [OF assms(1)] show ?thesis by (auto simp: single_install_def)
next
  case (Some b)
  with assms show ?thesis by (simp add: single_install_def split: if_splits)
qed

lemma scan_apex_inv:
  assumes "repo_inv r" and "data_store r = []" and "scan_apex o' s part a r = Returns r'"
  shows "repo_inv r' \<and> data_store r' = []"
proof (cases "GetApexSelectFilenameFromProp o' s (multi_install_select_prop_prefixes r) (f_name a) = []")
  case True
  with assms(3) have "single_install part a r = Returns r'" by (simp add: scan_apex_def)
  then show ?thesis by (rule single_install_inv [OF assms(1,2)])
next
  case False
  with assms(3) show ?thesis by (auto simp: scan_apex_def Let_def multi_install_inv [OF assms(1,2)])
qed

lemma scan_files_inv:
  assumes "repo_inv r" and "data_store r = []" and "scan_files o' s part ps r = Returns (res, r')"
  shows "repo_inv r' \<and> data_store r' = []"
  using assms
proof (induction o' s part ps r rule: scan_files.induct)
  case (1 o' s part r)
  then show ?case by auto
next
  case (2 o' s part p ps r)
  show ?case
  proof (cases "a_Open o' p s")
    case (Inl e)
    with 2 show ?thesis by simp
  next
    case (Inr a)
    then obtain r1 where r1: "scan_apex o' s part a r = Returns r1" "scan_files o' s part ps r1 = Returns (res, r')"
      using "2.prems" by (auto simp: out_bind_Returns)
    have "repo_inv r1 \<and> data_store r1 = []" by (rule scan_apex_inv [OF "2.prems"(1,2) r1(1)])
    then show ?thesis using "2.IH" [OF Inr] r1(2) by blast
  qed
qed

lemma scan_dir_inv:
  assumes "repo_inv r" and "data_store r = []" and "ScanBuiltInDir o' s dir part r = Returns (res, r')"
  shows "repo_inv r' \<and> data_store r' = []"
proof (cases "absent o' dir s")
  case False
  then show ?thesis
    using assms scan_files_inv [OF assms(1,2)]
    by (cases "a_FindFilesBySuffix o' dir [kApexPackageSuffix, kCompressedApexPackageSuffix] s")
       (simp_all add: ScanBuiltInDir_def)
qed (use assms in \<open>simp add: ScanBuiltInDir_def\<close>)

lemma add_pre_installed_inv:
  assumes "repo_inv r" and "data_store r = []" and "AddPreInstalledApex o' s ds r = Returns (res, r')"
  shows "repo_inv r' \<and> data_store r' = []"
  using assms
proof (induction ds arbitrary: r)
  case Nil
  then show ?case by simp
next
  case (Cons d ds)
  obtain part dir where d: "d = (part, dir)" by (cases d)
  obtain res1 r1 where r1: "ScanBuiltInDir o' s dir part r = Returns (res1, r1)"
      "(case res1 of Inl e \<Rightarrow> Returns (Inl e, r1) | Inr _ \<Rightarrow> AddPreInstalledApex o' s ds r1) = Returns (res, r')"
    using Cons.prems(3) by (auto simp: d out_bind_Returns)
  have ok: "repo_inv r1 \<and> data_store r1 = []" using scan_dir_inv [OF Cons.prems(1,2) r1(1)] .
  show ?case
  proof (cases res1)
    case Inl
    with r1(2) ok show ?thesis by simp
  next
    case Inr
    with r1(2) ok Cons.IH [of r1] show ?thesis by simp
  qed
qed

lemma add_block_inv: "repo_inv r \<Longrightarrow> repo_inv (snd (add_block o' c a path r))"
proof -
  assume inv: "repo_inv r"
  define r1 where "r1 = (\<lambda>ov. r\<lparr>block_apex_overrides := ov\<rparr>)"
  have r1: "repo_inv (r1 ov)" for ov using inv by (simp add: r1_def)
  show ?thesis
    using inv r1 repo_inv_put_pre [OF inv] repo_inv_put_data [OF inv] repo_inv_put_pre [OF r1]
      repo_inv_put_data [OF r1]
    by (simp add: add_block_def Let_def r1_def split: option.split)
qed

lemma add_blocks_inv: "repo_inv r \<Longrightarrow> repo_inv (snd (snd (add_blocks o' disk i cs ret s r)))"
proof (induction cs arbitrary: i ret s r)
  case (Cons c cs)
  show ?case
    using Cons add_block_inv [OF Cons.prems, of o' c] 
    by (simp add: Let_def split: prod.split sum.split) (metis snd_conv)
qed simp

lemma add_block_apex_inv:
  assumes "repo_inv r" and "Repository_AddBlockApex o' meta s r = Returns (res, s', r')"
  shows "repo_inv r'"
proof -
  have blocks: "repo_inv r'" if "add_blocks o' d i cs ret s1 (r\<lparr>block_disk_path := p\<rparr>) = (res, s', r')" for d i cs ret s1 p
    using add_blocks_inv [of "r\<lparr>block_disk_path := p\<rparr>" o' d i cs ret s1] assms(1) that by simp
  show ?thesis
    using assms blocks
    by (auto simp: Repository_AddBlockApex_def Let_def split: prod.splits sum.splits option.splits if_splits)
qed

lemma add_pubkeys_stores:
  "add_pubkeys o' s part ps r = Returns r' \<Longrightarrow>
     pre_installed_store r' = pre_installed_store r \<and> data_store r' = data_store r \<and>
     partition_store r' = partition_store r"
proof (induction ps arbitrary: r)
  case (Cons p ps)
  then show ?case by (fastforce split: option.splits if_splits)
qed simp

lemma add_credentials_stores:
  assumes "add_credentials o' s part dir r = Returns (res, r')"
  shows "pre_installed_store r' = pre_installed_store r \<and> data_store r' = data_store r \<and>
    partition_store r' = partition_store r"
proof (cases "absent o' dir s \<or> isl (a_FindFilesBySuffix o' dir [kBrandNewApexPublicKeySuffix] s)")
  case True
  with assms show ?thesis by (auto simp: add_credentials_def split: if_splits sum.splits)
next
  case False
  then obtain files where files: "a_FindFilesBySuffix o' dir [kBrandNewApexPublicKeySuffix] s = Inr files"
    by (cases "a_FindFilesBySuffix o' dir [kBrandNewApexPublicKeySuffix] s") auto
  define path where "path = dir @ ''/'' @ kBrandNewApexBlocklistFileName"
  obtain r1 where r1: "add_pubkeys o' s part files r = Returns r1"
    using assms files False by (auto simp: add_credentials_def out_bind_Returns)
  consider e where "a_PathExists o' path s = Inl e" | "a_PathExists o' path s = Inr False"
    | "a_PathExists o' path s = Inr True"
    by (cases "a_PathExists o' path s") auto
  then have "\<exists>m. r' = r1 \<or> r' = r1\<lparr>brand_new_apex_blocked_version := m\<rparr>"
    using assms files r1 False
    by cases (auto simp: add_credentials_def out_bind_Returns path_def split: sum.splits)
  then show ?thesis using add_pubkeys_stores [OF r1] by auto
qed

lemma add_credentials_inv:
  assumes "repo_inv r" and "add_credentials o' s part dir r = Returns (res, r')"
  shows "repo_inv r'"
  using add_credentials_stores [OF assms(2)] assms(1) by (simp add: repo_inv_def)

lemma add_brand_new_inv:
  assumes "repo_inv r" and "AddBrandNewApexCredentialAndBlocklist o' s ds r = Returns (res, r')"
  shows "repo_inv r'"
  using assms
proof (induction ds arbitrary: r)
  case (Cons d ds)
  obtain part dir where d: "d = (part, dir)" by (cases d)
  obtain res1 r1 where r1: "add_credentials o' s part dir r = Returns (res1, r1)"
      "(case res1 of Inl e \<Rightarrow> Returns (Inl e, r1)
        | Inr _ \<Rightarrow> AddBrandNewApexCredentialAndBlocklist o' s ds r1) = Returns (res, r')"
    using Cons.prems(2) by (auto simp: d out_bind_Returns)
  have "repo_inv r1" by (rule add_credentials_inv [OF Cons.prems(1) r1(1)])
  with r1(2) Cons.IH [of r1] show ?case by (cases res1) simp_all
qed simp

lemma data_store_put_inv:
  assumes "repo_inv r" and "map_of (partition_store r) (f_name a) \<noteq> None"
  shows "repo_inv (data_store_put a r)"
  using assms
  by (simp add: data_store_put_def repo_inv_def store_ok_intros map_of_store split: option.split)

lemma data_trusted_inv:
  assumes "repo_inv r" and "data_trusted o' a r = Some r'"
  shows "repo_inv r' \<and> map_of (partition_store r') (f_name a) \<noteq> None"
  using assms
  by (auto simp: data_trusted_def repo_inv_def map_of_emplace split: option.splits if_splits sum.splits)

lemma add_data_inv: "repo_inv r \<Longrightarrow> repo_inv (add_data o' s p r)"
  using data_trusted_inv [of r o'] data_store_put_inv
  by (simp add: add_data_def split: sum.split option.split)

lemma add_data_apex_inv: "repo_inv r \<Longrightarrow> repo_inv (snd (AddDataApex o' s dir r))"
proof -
  have "repo_inv r \<Longrightarrow> repo_inv (fold (add_data o' s) files r)" for files
    by (induction files arbitrary: r) (simp_all add: add_data_inv)
  then show "repo_inv r \<Longrightarrow> repo_inv (snd (AddDataApex o' s dir r))"
    by (simp add: AddDataApex_def split: sum.split)
qed

text \<open>
  The operations in any order, as the code calls them: the built-in directories are scanned before there
  are data packages.
\<close>

inductive repo_step :: "'s apex_os \<Rightarrow> ApexFileRepository \<Rightarrow> ApexFileRepository \<Rightarrow> bool" for o' where
  pre_installed: "data_store r = [] \<Longrightarrow> AddPreInstalledApex o' s ds r = Returns (res, r') \<Longrightarrow> repo_step o' r r'"
| block: "Repository_AddBlockApex o' meta s r = Returns (res', s', r') \<Longrightarrow> repo_step o' r r'"
| data: "repo_step o' r (snd (AddDataApex o' s dir r))"
| brand_new: "AddBrandNewApexCredentialAndBlocklist o' s ds r = Returns (res, r') \<Longrightarrow> repo_step o' r r'"
| enable: "repo_step o' r (r\<lparr>enable_brand_new_apex := True\<rparr>)"
| reset: "repo_step o' r (Repository_Reset dir r)"

lemma repo_step_inv: "repo_step o' r r' \<Longrightarrow> repo_inv r \<Longrightarrow> repo_inv r'"
proof (induction rule: repo_step.induct)
  case (pre_installed r s ds res r')
  then show ?case using add_pre_installed_inv [of r o' s ds res r'] by simp
next
  case (block meta s r res' s' r')
  then show ?case using add_block_apex_inv [of r o' meta s res' s' r'] by simp
next
  case (data r s dir)
  then show ?case by (rule add_data_apex_inv)
next
  case (brand_new s ds r res r')
  then show ?case using add_brand_new_inv [of r o' s ds res r'] by simp
qed (simp_all add: repo_inv_def Repository_Reset_def store_ok_def)

lemma repo_inv_initial: "repo_inv (make_ApexFileRepository dir)"
  by (simp add: repo_inv_def make_ApexFileRepository_def store_ok_def)

lemma repo_reachable_inv:
  "(repo_step o')\<^sup>*\<^sup>* (make_ApexFileRepository dir) r \<Longrightarrow> repo_inv r"
  by (induction rule: rtranclp_induct) (simp_all add: repo_inv_initial repo_step_inv)

section \<open>Data packages\<close>

text \<open>
  The verification of a brand-new package consults the credentials of the repository, not the packages
  that have been found on the data partition.
\<close>

definition brand_new_rooted :: "'s apex_os \<Rightarrow> bool" where
  "brand_new_rooted o' \<longleftrightarrow>
     (\<forall>r a ps ds. a_VerifyBrandNew o' (r\<lparr>partition_store := ps, data_store := ds\<rparr>) a = a_VerifyBrandNew o' r a)"

definition accepts :: "'s apex_os \<Rightarrow> ApexFileRepository \<Rightarrow> ApexFile \<Rightarrow> bool" where
  "accepts o' r a \<longleftrightarrow>
     (case map_of (pre_installed_store r) (f_name a) of
        Some p \<Rightarrow> f_public_key p = f_public_key a
      | None \<Rightarrow> enable_brand_new_apex r \<and> \<not> isl (a_VerifyBrandNew o' r a)) \<and>
     \<not> EndsWith (a_lb o') (f_path a) kDecompressedApexPackageSuffix"

definition opened :: "'s apex_os \<Rightarrow> 's \<Rightarrow> string list \<Rightarrow> ApexFile list" where
  "opened o' s files = concat (map (\<lambda>p. case a_Open o' p s of Inl e \<Rightarrow> [] | Inr a \<Rightarrow> [a]) files)"

text \<open>The first package of the highest version.\<close>

definition newer :: "ApexFile \<Rightarrow> ApexFile option \<Rightarrow> ApexFile option" where
  "newer a best = (case best of None \<Rightarrow> Some a | Some b \<Rightarrow> if f_version b < f_version a then Some a else Some b)"

lemma newer_best:
  assumes "fold newer as best = result"
  shows "(case result of
            None \<Rightarrow> as = [] \<and> best = None
          | Some a \<Rightarrow> (a \<in> set as \<or> best = Some a) \<and> (\<forall>b \<in> set as. f_version b \<le> f_version a) \<and>
                      (\<forall>b. best = Some b \<longrightarrow> f_version b \<le> f_version a))"
  using assms
proof (induction as arbitrary: best)
  case Nil
  then show ?case by (simp split: option.split)
next
  case (Cons x xs)
  have "fold newer xs (newer x best) = result" using Cons.prems by simp
  from Cons.IH [OF this] show ?case
    by (cases best; cases result) (auto simp: newer_def split: if_splits)
qed

definition roots :: "ApexFileRepository \<Rightarrow> ApexFileRepository" where
  "roots r = r\<lparr>partition_store := [], data_store := []\<rparr>"

abbreviation roots_kept :: "ApexFileRepository \<Rightarrow> ApexFileRepository \<Rightarrow> bool" where
  "roots_kept r r' \<equiv> roots r' = roots r"

lemma roots_update [simp]:
  "roots (r\<lparr>partition_store := ps\<rparr>) = roots r" "roots (r\<lparr>data_store := ds\<rparr>) = roots r"
  by (simp_all add: roots_def)

lemma roots_select:
  "pre_installed_store r = pre_installed_store (roots r)" "enable_brand_new_apex r = enable_brand_new_apex (roots r)"
  "decompression_dir r = decompression_dir (roots r)" "block_disk_path r = block_disk_path (roots r)"
  "block_apex_overrides r = block_apex_overrides (roots r)"
  by (simp_all add: roots_def)

lemma brand_new_roots: "brand_new_rooted o' \<Longrightarrow> a_VerifyBrandNew o' r a = a_VerifyBrandNew o' (roots r) a"
  by (simp add: brand_new_rooted_def roots_def)

lemma accepts_roots:
  assumes "brand_new_rooted o'"
  shows "accepts o' r a = accepts o' (roots r) a"
  unfolding accepts_def using roots_select [of r] brand_new_roots [OF assms, of r a] by (simp split: option.split)

lemma roots_kept_accepts:
  assumes "brand_new_rooted o'" and "roots_kept r r'"
  shows "accepts o' r' = accepts o' r"
  using accepts_roots [OF assms(1), of r] accepts_roots [OF assms(1), of r'] assms(2) by (simp add: fun_eq_iff)

lemma add_data_effect:
  "roots_kept r (add_data o' s p r) \<and>
   (\<forall>n. map_of (data_store (add_data o' s p r)) n =
      fold newer (filter (\<lambda>a. f_name a = n \<and> accepts o' r a) (opened o' s [p])) (map_of (data_store r) n))"
proof (cases "a_Open o' p s")
  case (Inl e)
  then show ?thesis by (simp add: add_data_def opened_def)
next
  case (Inr a)
  show ?thesis
  proof (cases "data_trusted o' a r")
    case None
    then have "\<not> accepts o' r a"
      by (auto simp: data_trusted_def accepts_def split: option.splits if_splits sum.splits)
    with Inr None show ?thesis by (simp add: add_data_def opened_def)
  next
    case (Some r1)
    then have r1: "roots_kept r r1" "data_store r1 = data_store r"
      "accepts o' r a \<longleftrightarrow> \<not> EndsWith (a_lb o') (f_path a) kDecompressedApexPackageSuffix"
      by (auto simp: data_trusted_def accepts_def split: option.splits if_splits sum.splits)
    have "roots_kept r (data_store_put a r1)"
      using r1(1) by (simp add: data_store_put_def split: option.split)
    moreover have "map_of (data_store (data_store_put a r1)) n =
        (if f_name a = n then newer a (map_of (data_store r) n) else map_of (data_store r) n)" for n
      using r1(2) by (simp add: data_store_put_def newer_def map_of_store split: option.split)
    ultimately show ?thesis
      using r1 Inr Some by (simp add: add_data_def opened_def)
  qed
qed

lemma add_data_files:
  assumes "brand_new_rooted o'"
  shows "roots_kept r (fold (add_data o' s) files r) \<and>
    (\<forall>n. map_of (data_store (fold (add_data o' s) files r)) n =
      fold newer (filter (\<lambda>a. f_name a = n \<and> accepts o' r a) (opened o' s files)) (map_of (data_store r) n))"
proof (induction files arbitrary: r)
  case Nil
  then show ?case by (simp add: opened_def)
next
  case (Cons p ps)
  let ?r1 = "add_data o' s p r"
  have kept: "roots_kept r ?r1" using add_data_effect [where r = r and o' = o' and s = s and p = p] by simp
  have "accepts o' ?r1 = accepts o' r" by (rule roots_kept_accepts [OF assms kept])
  moreover have "opened o' s (p # ps) = opened o' s [p] @ opened o' s ps" by (simp add: opened_def)
  ultimately show ?case
    using Cons [of ?r1] add_data_effect [where r = r and o' = o' and s = s and p = p] kept by simp
qed

section \<open>Grouping and selection\<close>













section \<open>Packages that a property selects\<close>

definition known_keys :: "ApexFileRepository \<Rightarrow> string \<Rightarrow> string list" where
  "known_keys r n = (case map_of (multi_install_public_keys r) n of None \<Rightarrow> [] | Some ks \<Rightarrow> ks)"

definition keys_ok :: "string \<Rightarrow> ApexFileRepository \<Rightarrow> bool" where
  "keys_ok n r \<longleftrightarrow> distinct (known_keys r n) \<and>
     (1 < length (known_keys r n) \<longrightarrow> map_of (pre_installed_store r) n = None)"

definition same_rules :: "ApexFileRepository \<Rightarrow> ApexFileRepository \<Rightarrow> bool" where
  "same_rules r r' \<longleftrightarrow> multi_install_select_prop_prefixes r' = multi_install_select_prop_prefixes r \<and>
     enforce_multi_install_partition r' = enforce_multi_install_partition r"

definition resolves :: "'s apex_os \<Rightarrow> 's \<Rightarrow> ApexFile \<Rightarrow> bool" where
  "resolves o' s a \<longleftrightarrow> a_Realpath o' (f_path a) s \<noteq> None"

lemma multi_install_keys:
  assumes "keys_ok n r" and "enforce_multi_install_partition r \<longrightarrow> part = Vendor \<or> part = Odm"
  shows "keys_ok n (multi_install o' s part select a r) \<and> same_rules r (multi_install o' s part select a r) \<and>
    set (known_keys (multi_install o' s part select a r) n) =
      set (known_keys r n) \<union> (if f_name a = n \<and> resolves o' s a then {f_public_key a} else {})"
proof (cases "a_Realpath o' (f_path a) s")
  case None
  with assms show ?thesis by (simp add: multi_install_def same_rules_def resolves_def)
next
  case (Some path)
  have "known_keys (multi_install o' s part select a r) n =
      (if f_name a = n then
         (if f_public_key a \<in> set (known_keys r n) then known_keys r n else known_keys r n @ [f_public_key a])
       else known_keys r n)"
    using Some assms(2) by (auto simp: multi_install_def known_keys_def Let_def map_of_assign)
  moreover have "same_rules r (multi_install o' s part select a r)"
    by (simp add: multi_install_def same_rules_def Let_def split: option.split)
  moreover have "1 < length (known_keys (multi_install o' s part select a r) n) \<Longrightarrow>
      map_of (pre_installed_store (multi_install o' s part select a r)) n = None"
    using Some assms
    by (auto simp: multi_install_def known_keys_def keys_ok_def Let_def map_of_store split: if_splits option.splits)
  ultimately show ?thesis
    using Some assms(1) by (auto simp: keys_ok_def resolves_def)
qed

lemma scan_apex_keys:
  assumes "keys_ok n r" and "enforce_multi_install_partition r \<longrightarrow> part = Vendor \<or> part = Odm"
    and "GetApexSelectFilenameFromProp o' s (multi_install_select_prop_prefixes r) n \<noteq> []"
    and "scan_apex o' s part a r = Returns r'"
  shows "keys_ok n r' \<and> same_rules r r' \<and>
    set (known_keys r' n) = set (known_keys r n) \<union> (if f_name a = n \<and> resolves o' s a then {f_public_key a} else {})"
proof (cases "GetApexSelectFilenameFromProp o' s (multi_install_select_prop_prefixes r) (f_name a) = []")
  case True
  then have "f_name a \<noteq> n" using assms(3) by auto
  moreover have "single_install part a r = Returns r'" using True assms(4) by (simp add: scan_apex_def)
  ultimately show ?thesis
    using assms(1)
    by (auto simp: single_install_def keys_ok_def known_keys_def same_rules_def map_of_emplace
        split: option.splits if_splits)
next
  case False
  with assms(4) have r': "r' = multi_install o' s part
      (GetApexSelectFilenameFromProp o' s (multi_install_select_prop_prefixes r) (f_name a)) a r"
    by (simp add: scan_apex_def)
  show ?thesis unfolding r' by (rule multi_install_keys [OF assms(1,2)])
qed

lemma scan_files_keys:
  assumes "keys_ok n r" and "enforce_multi_install_partition r \<longrightarrow> part = Vendor \<or> part = Odm"
    and "GetApexSelectFilenameFromProp o' s (multi_install_select_prop_prefixes r) n \<noteq> []"
    and "scan_files o' s part ps r = Returns (Inr (), r')"
    and "k \<noteq> k'" and "{k, k'} \<subseteq> set (known_keys r n) \<union>
      f_public_key ` {a \<in> set (opened o' s ps). f_name a = n \<and> resolves o' s a}"
  shows "map_of (pre_installed_store r') n = None"
  using assms
proof (induction ps arbitrary: r)
  case Nil
  then have "card {k, k'} \<le> card (set (known_keys r n))"
    by (intro card_mono) (auto simp: opened_def)
  then have "1 < length (known_keys r n)" using Nil.prems(5) card_length [of "known_keys r n"] by simp
  with Nil show ?case by (auto simp: keys_ok_def)
next
  case (Cons p ps)
  obtain a where a: "a_Open o' p s = Inr a" using Cons.prems(4) by (cases "a_Open o' p s") auto
  obtain r1 where r1: "scan_apex o' s part a r = Returns r1" "scan_files o' s part ps r1 = Returns (Inr (), r')"
    using Cons.prems(4) a by (auto simp: out_bind_Returns)
  note step = scan_apex_keys [OF Cons.prems(1,2,3) r1(1)]
  have "opened o' s (p # ps) = a # opened o' s ps" using a by (simp add: opened_def)
  then have "set (known_keys r n) \<union> f_public_key ` {a \<in> set (opened o' s (p # ps)). f_name a = n \<and> resolves o' s a} =
      set (known_keys r1 n) \<union> f_public_key ` {a \<in> set (opened o' s ps). f_name a = n \<and> resolves o' s a}"
    using step by auto
  then have sub: "{k, k'} \<subseteq> set (known_keys r1 n) \<union>
      f_public_key ` {a \<in> set (opened o' s ps). f_name a = n \<and> resolves o' s a}"
    using Cons.prems(6) by simp
  show ?case
    by (rule Cons.IH [OF _ _ _ r1(2) Cons.prems(5) sub]) (use step Cons.prems(2,3) in \<open>simp_all add: same_rules_def\<close>)
qed

section \<open>A small device\<close>

text \<open>
  A device whose state is the list of its package files; directories are prefixes of paths.  The concrete
  instances evaluate it.
\<close>

definition toy_manifest :: "string \<Rightarrow> int \<Rightarrow> ApexManifest" where
  "toy_manifest n v =
     \<lparr>m_name = n, m_version = v, m_versionname = [], m_bootstrap = False, m_vendorbootstrap = False,
      m_vndkversion = [], m_providesharedapexlibs = False, m_nocode = False,
      m_supportsrebootlessupdate = True, m_providenativelibs = [], m_requiresharedapexlibs = [],
      m_jnilibs = [], m_originalapexdigest = []\<rparr>"

definition toy_apex :: "string \<Rightarrow> string \<Rightarrow> int \<Rightarrow> string \<Rightarrow> ApexFile" where
  "toy_apex path n v key =
     \<lparr>f_path = path, f_manifest = toy_manifest n v, f_public_key = key, f_compressed = False,
      f_image_offset = Some 0, f_image_size = Some 4096, f_fs_type = Some ''ext4''\<rparr>"

definition toy_os :: "(string \<Rightarrow> string) \<Rightarrow> ((string \<times> ApexFile) list) apex_os" where
  "toy_os props =
     \<lparr>a_lb = std_libbase,
      a_access = (\<lambda>p s. if \<exists>e \<in> set s. prefix p (fst e) then 0 else ENOENT),
      a_FindFilesBySuffix = (\<lambda>d es s. Inr (filter (\<lambda>p. prefix d p \<and> (\<exists>e \<in> set es. suffix e p)) (map fst s))),
      a_Open = (\<lambda>p s. case map_of s p of None \<Rightarrow> Inl (Failure ''open'' [p]) | Some a \<Rightarrow> Inr a),
      a_GetProperty = (\<lambda>k d s. if props k = [] then d else props k),
      a_Realpath = (\<lambda>p s. Some p),
      a_PathExists = (\<lambda>p s. Inr (\<exists>e \<in> set s. prefix p (fst e))),
      a_ReadFileToString = (\<lambda>p s. None),
      a_WaitForFile = (\<lambda>p n s. (Inr (), s)),
      a_ReadMetadata = (\<lambda>p s. Inr []),
      a_BytesToHex = (\<lambda>b. b),
      a_JsonBlocklist = (\<lambda>c. Inr []),
      a_VerifyBrandNew = (\<lambda>r a. Inl (Failure ''brand-new'' []))\<rparr>"

text \<open>
  Whatever the daemon adds to its repository of packages, in any order in
  which the built-in directories come before the data packages, every name in a store maps to exactly one
  package of that name, and every package of a store has a partition, so that asking for the partition of
  a stored package never fails.
\<close>

theorem apex_repository_invariant:
  assumes "(repo_step o')\<^sup>*\<^sup>* (make_ApexFileRepository dir) r"
  shows "distinct (map fst (pre_installed_store r)) \<and> distinct (map fst (data_store r)) \<and>
    (\<forall>n a. map_of (pre_installed_store r) n = Some a \<or> map_of (data_store r) n = Some a \<longrightarrow>
       f_name a = n \<and> (\<exists>p. GetPartition o' r a = Inr p))"
proof -
  have inv: "repo_inv r" by (rule repo_reachable_inv [OF assms])
  have part: "\<exists>p. map_of (partition_store r) n = Some p"
    if "map_of (pre_installed_store r) n = Some a \<or> map_of (data_store r) n = Some a" for n a
    using inv that by (auto simp: repo_inv_def)
  have name: "f_name a = n"
    if "map_of (pre_installed_store r) n = Some a \<or> map_of (data_store r) n = Some a" for n a
    using inv that by (auto simp: repo_inv_def store_ok_def)
  have "\<exists>p. GetPartition o' r a = Inr p"
    if "map_of (pre_installed_store r) n = Some a \<or> map_of (data_store r) n = Some a" for n a
    using part [OF that] name [OF that] by (auto simp: GetPartition_def)
  with inv name show ?thesis by (auto simp: repo_inv_def store_ok_def)
qed

definition toy_apexes :: "(string \<times> ApexFile) list" where
  "toy_apexes = [(''/s/x.apex'', toy_apex ''/s/x.apex'' ''x'' 1 ''K''),
                (''/d/x1.apex'', toy_apex ''/d/x1.apex'' ''x'' 3 ''K''),
                (''/d/x2.apex'', toy_apex ''/d/x2.apex'' ''x'' 2 ''K''),
                (''/d/x3.apex'', toy_apex ''/d/x3.apex'' ''x'' 9 ''L'')]"

definition toy_scanned :: ApexFileRepository where
  "toy_scanned = snd (case AddPreInstalledApex (toy_os (\<lambda>k. [])) toy_apexes [(System, ''/s'')]
                              (make_ApexFileRepository ''/e'') of Returns x \<Rightarrow> x | Aborts \<Rightarrow> undefined)"

lemma toy_scanned_eq:
  "AddPreInstalledApex (toy_os (\<lambda>k. [])) toy_apexes [(System, ''/s'')] (make_ApexFileRepository ''/e'') =
     Returns (Inr (), toy_scanned)"
  "pre_installed_store toy_scanned = [(''x'', toy_apex ''/s/x.apex'' ''x'' 1 ''K'')]"
  "data_store toy_scanned = []" "enable_brand_new_apex toy_scanned = False"
  "partition_store toy_scanned = [(''x'', System)]" "decompression_dir toy_scanned = ''/e''"
  by (simp_all add: toy_scanned_def) code_simp+

theorem apex_repository_invariant_witness:
  "f_name (toy_apex ''/s/x.apex'' ''x'' 1 ''K'') = ''x'' \<and>
   (\<exists>p. GetPartition (toy_os (\<lambda>k. [])) toy_scanned (toy_apex ''/s/x.apex'' ''x'' 1 ''K'') = Inr p)"
proof -
  have "repo_step (toy_os (\<lambda>k. [])) (make_ApexFileRepository ''/e'') toy_scanned"
    by (rule repo_step.pre_installed [OF _ toy_scanned_eq(1)]) (simp add: make_ApexFileRepository_def)
  then have "(repo_step (toy_os (\<lambda>k. [])))\<^sup>*\<^sup>* (make_ApexFileRepository ''/e'') toy_scanned" by simp
  from apex_repository_invariant [OF this]
  have all: "\<forall>n a. map_of (pre_installed_store toy_scanned) n = Some a \<or> map_of (data_store toy_scanned) n = Some a \<longrightarrow>
      f_name a = n \<and> (\<exists>p. GetPartition (toy_os (\<lambda>k. [])) toy_scanned a = Inr p)" by blast
  have "map_of (pre_installed_store toy_scanned) ''x'' = Some (toy_apex ''/s/x.apex'' ''x'' 1 ''K'')"
    by (simp add: toy_scanned_eq)
  then show ?thesis using all by blast
qed

text \<open>
  C18 (apex_data_newest): adding the packages of the data partition leaves the trust anchors of the
  repository as they were, and afterwards the data package of a name is, among the one known before and
  the files found, one of the highest version; a file only counts if it has the public key of the
  pre-installed package of its name, or is verified as a brand-new package where there is none, and is
  not a left-over of a decompression.  A name without any such file stays without a data package.
\<close>

theorem apex_data_newest:
  assumes "brand_new_rooted o'" and "\<not> absent o' dir s"
    and "a_FindFilesBySuffix o' dir [kApexPackageSuffix] s = Inr files"
  shows "\<exists>r'. AddDataApex o' s dir r = (Inr (), r') \<and> roots r' = roots r \<and>
    (\<forall>n. let found = {a \<in> set (opened o' s files). f_name a = n \<and> accepts o' r a};
             known = (case map_of (data_store r) n of None \<Rightarrow> {} | Some b \<Rightarrow> {b})
         in case map_of (data_store r') n of
              None \<Rightarrow> found \<union> known = {}
            | Some a \<Rightarrow> a \<in> found \<union> known \<and> (\<forall>b \<in> found \<union> known. f_version b \<le> f_version a))"
proof -
  let ?r' = "fold (add_data o' s) files r"
  have r': "AddDataApex o' s dir r = (Inr (), ?r')" using assms(2,3) by (simp add: AddDataApex_def)
  have best: "fold newer (filter (\<lambda>a. f_name a = n \<and> accepts o' r a) (opened o' s files)) (map_of (data_store r) n) =
      map_of (data_store ?r') n" for n
    using add_data_files [OF assms(1), where r = r and s = s and files = files] by simp
  have one: "let found = {a \<in> set (opened o' s files). f_name a = n \<and> accepts o' r a};
             known = (case map_of (data_store r) n of None \<Rightarrow> {} | Some b \<Rightarrow> {b})
         in case map_of (data_store ?r') n of
              None \<Rightarrow> found \<union> known = {}
            | Some a \<Rightarrow> a \<in> found \<union> known \<and> (\<forall>b \<in> found \<union> known. f_version b \<le> f_version a)" for n
    using newer_best [OF best [of n]]
    by (cases "map_of (data_store ?r') n"; cases "map_of (data_store r) n")
       (auto simp: Let_def filter_empty_conv)
  have "roots ?r' = roots r"
    using add_data_files [OF assms(1), where r = r and s = s and files = files] by simp
  with r' one show ?thesis by blast
qed

lemma newest_bound:
  "(case m of None \<Rightarrow> F \<union> K = {} | Some a \<Rightarrow> a \<in> F \<union> K \<and> (\<forall>b \<in> F \<union> K. f_version b \<le> f_version a)) \<Longrightarrow>
   x \<in> F \<Longrightarrow> \<exists>a. m = Some a \<and> f_version x \<le> f_version a"
  by (cases m) auto

theorem apex_data_newest_witness:
  "\<exists>r'. AddDataApex (toy_os (\<lambda>k. [])) toy_apexes ''/d'' toy_scanned = (Inr (), r') \<and>
     (\<exists>a. map_of (data_store r') ''x'' = Some a \<and> 3 \<le> f_version a)"
proof -
  let ?o = "toy_os (\<lambda>k. [])" and ?f = "[''/d/x1.apex'', ''/d/x2.apex'', ''/d/x3.apex'']"
  have rooted: "brand_new_rooted ?o" by (simp add: brand_new_rooted_def toy_os_def)
  have here: "\<not> absent ?o ''/d'' toy_apexes" by code_simp
  have files: "a_FindFilesBySuffix ?o ''/d'' [kApexPackageSuffix] toy_apexes = Inr ?f" by code_simp
  have found: "toy_apex ''/d/x1.apex'' ''x'' 3 ''K'' \<in> set (opened ?o toy_apexes ?f)" by code_simp
  have ok: "accepts ?o toy_scanned (toy_apex ''/d/x1.apex'' ''x'' 3 ''K'')" by code_simp
  obtain r' where r': "AddDataApex ?o toy_apexes ''/d'' toy_scanned = (Inr (), r')"
    and all: "\<forall>n. let found = {a \<in> set (opened ?o toy_apexes ?f). f_name a = n \<and> accepts ?o toy_scanned a};
             known = (case map_of (data_store toy_scanned) n of None \<Rightarrow> {} | Some b \<Rightarrow> {b})
         in case map_of (data_store r') n of
              None \<Rightarrow> found \<union> known = {}
            | Some a \<Rightarrow> a \<in> found \<union> known \<and> (\<forall>b \<in> found \<union> known. f_version b \<le> f_version a)"
    using apex_data_newest [OF rooted here files, of toy_scanned] by blast
  have mem: "toy_apex ''/d/x1.apex'' ''x'' 3 ''K'' \<in>
      {a \<in> set (opened ?o toy_apexes ?f). f_name a = ''x'' \<and> accepts ?o toy_scanned a}"
    using found ok by (simp add: toy_apex_def toy_manifest_def)
  have "f_version (toy_apex ''/d/x1.apex'' ''x'' 3 ''K'') = 3" by (simp add: toy_apex_def toy_manifest_def)
  then show ?thesis
    using r' newest_bound [OF all [rule_format, of "''x''", unfolded Let_def] mem] by auto
qed


text \<open>The comparison with a 32 bit number: beyond it both packages of a name are selected.\<close>

lemma select_version_wraps:
  "\<exists>p d r. f_version p < f_version d \<and> SelectApexForActivation [(''x'', [p, d])] r = Returns [p, d]"
proof (rule exI [of _ "toy_apex ''/s'' ''x'' (2 ^ 31) ''K''"], rule exI [of _ "toy_apex ''/d'' ''x'' (2 ^ 31 + 1) ''K''"],
    rule exI [of _ "make_ApexFileRepository ''/e''"])
qed code_simp





text \<open>
  When a scan of a vendor directory finds two packages of a name that a
  property selects among several, and their public keys differ, no package of that name is
  pre-installed afterwards, in whatever order the files come and whichever of them the property names.
\<close>

theorem apex_multi_install_keys:
  assumes "\<not> absent o' dir s"
    and "a_FindFilesBySuffix o' dir [kApexPackageSuffix, kCompressedApexPackageSuffix] s = Inr files"
    and "ScanBuiltInDir o' s dir part r = Returns (Inr (), r')"
    and "multi_install_public_keys r = []"
    and "GetApexSelectFilenameFromProp o' s (multi_install_select_prop_prefixes r) n \<noteq> []"
    and "enforce_multi_install_partition r \<longrightarrow> part = Vendor \<or> part = Odm"
    and "{a, b} \<subseteq> set (opened o' s files)" and "f_name a = n" and "f_name b = n"
    and "resolves o' s a" and "resolves o' s b" and "f_public_key a \<noteq> f_public_key b"
  shows "map_of (pre_installed_store r') n = None"
proof -
  have "scan_files o' s part files r = Returns (Inr (), r')" using assms(1-3) by (simp add: ScanBuiltInDir_def)
  moreover have "keys_ok n r" using assms(4) by (simp add: keys_ok_def known_keys_def)
  ultimately show ?thesis
    using assms(5-12) by (intro scan_files_keys [where k = "f_public_key a" and k' = "f_public_key b"]) auto
qed

definition toy_select :: "string \<Rightarrow> string" where
  "toy_select k = (if k = ''ro.boot.vendor.apex.y'' then ''y1'' else [])"

definition toy_vendor :: "(string \<times> ApexFile) list" where
  "toy_vendor = [(''/v/y1.apex'', toy_apex ''/v/y1.apex'' ''y'' 1 ''K''),
                 (''/v/y2.apex'', toy_apex ''/v/y2.apex'' ''y'' 1 ''L'')]"

theorem apex_multi_install_keys_witness:
  "\<exists>r'. ScanBuiltInDir (toy_os toy_select) toy_vendor ''/v'' Vendor (make_ApexFileRepository ''/e'') = Returns (Inr (), r') \<and>
     map_of (pre_installed_store r') ''y'' = None"
proof -
  let ?o = "toy_os toy_select" and ?r = "make_ApexFileRepository ''/e''"
  let ?f = "[''/v/y1.apex'', ''/v/y2.apex'']"
  let ?a = "toy_apex ''/v/y1.apex'' ''y'' 1 ''K''" and ?b = "toy_apex ''/v/y2.apex'' ''y'' 1 ''L''"
  obtain r' where run: "ScanBuiltInDir ?o toy_vendor ''/v'' Vendor ?r = Returns (Inr (), r')"
  proof -
    have "(case ScanBuiltInDir ?o toy_vendor ''/v'' Vendor ?r of
        Returns (Inr u, r') \<Rightarrow> True | _ \<Rightarrow> False)" by code_simp
    then show ?thesis using that by (auto split: outcome.splits prod.splits sum.splits)
  qed
  have here: "\<not> absent ?o ''/v'' toy_vendor" by code_simp
  have files: "a_FindFilesBySuffix ?o ''/v'' [kApexPackageSuffix, kCompressedApexPackageSuffix] toy_vendor = Inr ?f"
    by code_simp
  have select: "GetApexSelectFilenameFromProp ?o toy_vendor (multi_install_select_prop_prefixes ?r) ''y'' \<noteq> []"
    by code_simp
  have found: "{?a, ?b} \<subseteq> set (opened ?o toy_vendor ?f)" by code_simp
  have "map_of (pre_installed_store r') ''y'' = None"
    by (rule apex_multi_install_keys [OF here files run _ select _ found])
       (simp_all add: make_ApexFileRepository_def resolves_def toy_os_def toy_apex_def toy_manifest_def)
  with run show ?thesis by blast
qed

text \<open>
  The keys are forgotten after each directory: two packages in the directories of two partitions are not
  compared, and the one scanned first stays.
\<close>

lemma multi_install_across_partitions:
  "case AddPreInstalledApex (toy_os toy_select)
      [(''/v/y1.apex'', toy_apex ''/v/y1.apex'' ''y'' 1 ''K''), (''/o/y1.apex'', toy_apex ''/o/y1.apex'' ''y'' 1 ''L'')]
      [(Vendor, ''/v''), (Odm, ''/o'')] (make_ApexFileRepository ''/e'') of
     Returns (Inr u, r) \<Rightarrow> map_option f_public_key (map_of (pre_installed_store r) ''y'') = Some ''K''
   | _ \<Rightarrow> False"
  by code_simp

end
