(* ===== verification/Apexd_Frame.thy ===== *)
theory Apexd_Frame
  imports Apexd_Start
begin

text \<open>
  What the parts of the APEX daemon that mount nothing keep: the locale \<open>quiet\<close> is an invariant that no
  change of the system below and no call other than those on loop devices, verity devices and mounts can
  break, and its lemmas carry it through sessions, shared libraries and compressed packages.  The locale
  \<open>verifying\<close> adds the verification of a package, and with it the activation of staged sessions.
\<close>

section \<open>Invariants of the daemon\<close>

definition quiet_call :: "apex_call \<Rightarrow> bool" where
  "quiet_call c \<longleftrightarrow> (case c of
     Loop _ _ \<Rightarrow> False | LoopGone _ \<Rightarrow> False | Verity _ _ _ \<Rightarrow> False | VerityGone _ \<Rightarrow> False
   | Mount _ _ _ _ \<Rightarrow> False | _ \<Rightarrow> True)"

locale quiet =
  fixes I :: "'s apexd \<Rightarrow> bool"
  assumes os_kept [simp]: "I (w\<lparr>ax_os := s\<rparr>) = I w"
    and changed_kept [simp]: "I (w\<lparr>gChangedActiveApexes := ns\<rparr>) = I w"
    and call_kept [simp]: "quiet_call c \<Longrightarrow> I (record_call c w) = I w"
begin

lemma sys_kept [simp]: "I (snd (sys f w)) = I w"
  by (simp add: sys_def split: prod.split)

lemma sys_do_kept [simp]: "I (sys_do f w) = I w"
  by (simp add: sys_do_def)

lemma change_active_kept [simp]: "I (change_active ns w) = I w"
  by (simp add: change_active_def)

lemma or_return_kept:
  assumes "I (snd p)" and "\<And>x w. fst p = Inr x \<Longrightarrow> I w \<Longrightarrow> I (snd (f x w))"
  shows "I (snd (or_return p f))"
  using assms by (cases p) (auto simp: or_return_def split: sum.split)

lemma caused_by_kept [simp]: "I (snd (caused_by t args p)) = I (snd p)"
  by (simp add: caused_by_def split: prod.split sum.split)

lemma fold_kept:
  assumes "\<And>x w. x \<in> set xs \<Longrightarrow> I w \<Longrightarrow> I (f x w)" and "I w"
  shows "I (fold f xs w)"
  using assms by (induction xs arbitrary: w) auto

lemma res_fold_kept:
  assumes "\<And>x w. x \<in> set xs \<Longrightarrow> I w \<Longrightarrow> I (snd (f x w))" and "I w"
  shows "I (snd (res_fold f xs w))"
  using assms by (induction xs arbitrary: w) (auto intro!: or_return_kept)

lemma unlink_call_kept [simp]: "I (snd (unlink_call k p w)) = I w"
  by (simp add: unlink_call_def quiet_call_def)

lemma link_call_kept [simp]: "I (snd (link_call k p q w)) = I w"
  by (simp add: link_call_def quiet_call_def)

lemma umount_call_kept [simp]: "I (snd (umount_call d p f w)) = I w"
  by (simp add: umount_call_def quiet_call_def)

lemma commit_kept [simp]: "I (snd (UpdateStateAndCommit k st ses w)) = I w"
  by (simp add: UpdateStateAndCommit_def)

lemma set_property_kept [simp]: "I (snd (set_property b key val w)) = I w"
  by (simp add: set_property_def quiet_call_def)

lemma release_kept [simp]: "I (ReleaseF2fsCompressedBlocks k p w) = I w"
  by (simp add: ReleaseF2fsCompressedBlocks_def Let_def split_beta split: option.split)

lemma remove_file_kept [simp]: "I (remove_file b p w) = I w"
  by (simp add: remove_file_def)

subsection \<open>Files and sessions\<close>

lemma delete_backup_kept: "I w \<Longrightarrow> I (snd (DeleteBackup k w))"
  by (simp add: DeleteBackup_def split: sum.split bool.split)

lemma backup_one_kept: "I w \<Longrightarrow> I (snd (backup_one k p w))"
  by (simp add: backup_one_def split_beta Let_def split: sum.split)

lemma backup_kept: "I w \<Longrightarrow> I (snd (BackupActivePackages k w))"
  unfolding BackupActivePackages_def
  by (rule or_return_kept)
     (auto split: sum.split bool.split simp: Let_def split_beta
       intro!: or_return_kept delete_backup_kept res_fold_kept backup_one_kept)

lemma restore_kept: "I w \<Longrightarrow> I (snd (RestoreActivePackages k w))"
  by (auto simp: RestoreActivePackages_def Let_def split_beta quiet_call_def
      split: sum.split bool.split option.split intro!: or_return_kept)

lemma remove_previous_kept: "I w \<Longrightarrow> I (snd (remove_previous k ns ps p w))"
  by (simp add: remove_previous_def Let_def split_beta split: sum.split)

lemma remove_previously_active_kept: "I w \<Longrightarrow> I (snd (RemovePreviouslyActiveApexFiles k ns ps w))"
  by (auto simp: RemovePreviouslyActiveApexFiles_def split: sum.split intro!: res_fold_kept remove_previous_kept)

lemma stage_one_kept: "I w \<Longrightarrow> I (snd (stage_one k a w))"
  by (auto simp: stage_one_def Let_def split_beta intro!: or_return_kept)

lemma stage_all_kept: "I w \<Longrightarrow> I (snd (snd (stage_all k as fs ps w)))"
proof (induction as arbitrary: fs ps w)
  case (Cons a as)
  then show ?case
    using stage_one_kept [OF Cons.prems, of k a] by (cases "stage_one k a w"; cases "fst (stage_one k a w)") auto
qed simp

lemma unstage_kept: "I w \<Longrightarrow> I (snd (UnstagePackages k paths w))"
  by (auto simp: UnstagePackages_def Let_def split_beta split: sum.split intro!: or_return_kept res_fold_kept)

lemma snapshot_kept: "I w \<Longrightarrow> I (snd (SnapshotDataDirectory k base i n pre w))"
  by (auto simp: SnapshotDataDirectory_def Let_def intro!: or_return_kept)

lemma restore_data_kept: "I w \<Longrightarrow> I (snd (RestoreDataDirectory k base i n pre w))"
  by (auto simp: RestoreDataDirectory_def Let_def intro!: or_return_kept)

lemma snapshot_or_restore_kept: "I w \<Longrightarrow> I (SnapshotOrRestoreDeIfNeeded k base ses w)"
  by (auto simp: SnapshotOrRestoreDeIfNeeded_def Let_def intro!: fold_kept snapshot_kept restore_data_kept)

lemma snapshot_sys_kept: "I w \<Longrightarrow> I (SnapshotOrRestoreDeSysData k w)"
  by (auto simp: SnapshotOrRestoreDeSysData_def intro!: fold_kept snapshot_or_restore_kept)

lemma restore_pre_kept: "I w \<Longrightarrow> I (RestorePreRestoreSnapshotsIfPresent k base ses w)"
  by (auto simp: RestorePreRestoreSnapshotsIfPresent_def split: sum.split intro!: fold_kept restore_data_kept)

lemma restore_de_pre_kept:
  "I w \<Longrightarrow> RestoreDePreRestoreSnapshotsIfPresent k ses w = Returns w' \<Longrightarrow> I w'"
  by (auto simp: RestoreDePreRestoreSnapshotsIfPresent_def Let_def split: sum.splits
      intro!: fold_kept restore_pre_kept)

lemma fail_session_kept: "I w \<Longrightarrow> I (fail_session k e ses w)"
  by (simp add: fail_session_def)

lemma revert_one_kept: "I w \<Longrightarrow> revert_one k ses w = Returns w' \<Longrightarrow> I w'"
  by (auto simp: revert_one_def out_bind_Returns split: if_splits dest: restore_de_pre_kept)

lemma revert_all_kept: "I w \<Longrightarrow> out_fold (revert_one k) sess w = Returns w' \<Longrightarrow> I w'"
  by (induction sess arbitrary: w) (auto simp: out_bind_Returns dest: revert_one_kept)

lemma mark_reverting_kept: "I w \<Longrightarrow> I (snd (mark_reverting k ses w))"
  by (simp add: mark_reverting_def)

lemma revert_packages_kept: "I w \<Longrightarrow> I (snd (revert_packages k w))"
  by (simp add: revert_packages_def restore_kept)

lemma revert_kept:
  assumes "I w" and "RevertActiveSessions k c m w = Returns (res, w')"
  shows "I w'"
proof -
  define active where "active = map (revert_mark c m) (active_sessions k w)"
  obtain r1 w1 where 1: "res_fold (mark_reverting k) active w = (r1, w1)" by fastforce
  have I1: "I w1" using res_fold_kept [of active "mark_reverting k" w] mark_reverting_kept assms(1) 1 by simp
  obtain r2 w2 where 2: "revert_packages k w1 = (r2, w2)" by fastforce
  have I2: "I w2" using revert_packages_kept [OF I1, of k] 2 by simp
  have fails: "I (fold (\<lambda>ses w. snd (UpdateStateAndCommit k REVERT_FAILED ses w)) active w2)"
    using I2 by (intro fold_kept) simp_all
  have "(if active = [] then Returns (Inl (Failure ''no active sessions'' []), w)
      else case r1 of Inl e \<Rightarrow> Returns (Inl e, w1)
        | Inr _ \<Rightarrow> (case r2 of
            Inl e \<Rightarrow> Returns (Inl e, fold (\<lambda>ses w. snd (UpdateStateAndCommit k REVERT_FAILED ses w)) active w2)
          | Inr _ \<Rightarrow> out_bind (out_fold (revert_one k) active w2) (\<lambda>w. Returns (Inr (), w)))) = Returns (res, w')"
    using assms(2) by (auto simp: RevertActiveSessions_def active_def [symmetric] 1 2 Let_def split: sum.splits)
  then show ?thesis
    using assms(1) I1 fails revert_all_kept [OF I2]
    by (auto simp: out_bind_Returns split: if_splits sum.splits)
qed

lemma revert_reboot_kept:
  assumes "I w" and "RevertActiveSessionsAndReboot k c m w = Returns (res, w')"
  shows "I w'"
proof -
  obtain r1 w1 where 1: "RevertActiveSessions k c m w = Returns (r1, w1)"
    using assms(2) by (auto simp: RevertActiveSessionsAndReboot_def out_bind_Returns)
  have "I w1" by (rule revert_kept [OF assms(1) 1])
  with assms(2) 1 show ?thesis
    by (auto simp: RevertActiveSessionsAndReboot_def quiet_call_def Let_def split: sum.splits)
qed

lemma resume_revert_kept: "I w \<Longrightarrow> ResumeRevertIfNeeded k w = Returns (res, w') \<Longrightarrow> I w'"
  by (auto simp: ResumeRevertIfNeeded_def split: if_splits dest: revert_kept)

subsection \<open>The boot\<close>

lemma end_scan_kept: "I w \<Longrightarrow> I (snd (end_scan p e w))"
  by (simp add: end_scan_def split: option.split)

lemma share_version_kept: "I w \<Longrightarrow> I (snd (share_version b l n d h w))"
  by (simp add: share_version_def Let_def split: sum.split)

lemma share_library_kept: "I w \<Longrightarrow> I (snd (share_library b l d e w))"
  by (auto simp: share_library_def Let_def split_beta
      intro!: or_return_kept res_fold_kept share_version_kept end_scan_kept)

lemma share_lib_path_kept: "I w \<Longrightarrow> I (snd (share_lib_path b m l w))"
  by (auto simp: share_lib_path_def Let_def split_beta
      intro!: or_return_kept res_fold_kept share_library_kept end_scan_kept)

lemma contribute_libs_kept: "I w \<Longrightarrow> I (snd (ContributeToSharedLibs b m w))"
  unfolding ContributeToSharedLibs_def by (intro res_fold_kept share_lib_path_kept)

lemma contribute_kept: "I (snd ew) \<Longrightarrow> I (snd (contribute b a ew))"
  using contribute_libs_kept [of "snd ew" b "GetPackageMountPoint (b_dev b) (f_manifest a)"]
  by (simp add: contribute_def split_beta split: sum.split)

lemma contribute_all_kept: "I (snd ew) \<Longrightarrow> I (snd (fold (contribute b) as ew))"
  by (induction as arbitrary: ew) (simp_all add: contribute_kept)

lemma create_libs_kept: "I w \<Longrightarrow> I (snd (CreateSharedLibsApexDir b w))"
  unfolding CreateSharedLibsApexDir_def Let_def by (rule res_fold_kept) auto

lemma reuse_decompressed_kept: "I w \<Longrightarrow> I (snd (reuse_decompressed b c ota w))"
  by (simp add: reuse_decompressed_def Let_def split: sum.split)

lemma reuse_ota_kept: "I w \<Longrightarrow> I (snd (reuse_ota b c ota w))"
  by (simp add: reuse_ota_def Let_def split_beta quiet_call_def split: sum.split)

lemma decompress_kept:
  assumes "I w"
  shows "I (snd (decompress b c ota w))"
proof -
  define dest where "dest = decompressed_path b c
      (if ota then kOtaApexPackageSuffix else kDecompressedApexPackageSuffix)"
  define p where "p = or_return (caused_by ''decompress'' [f_path c] (sys (b_Decompress b c dest)
      (snd (sys (s_DeleteDirContent (b_ses b) (cfg_ota_reserved_dir (b_config b))) w))))
    (\<lambda>_ w. or_return (sys (s_RestoreconPath (b_ses b) dest) w)
       (\<lambda>_ w. caused_by ''decompress CAPEX'' [] (OpenAndValidateDecompressedApex b c dest (ax_os w), w)))"
  have "I (snd p)" unfolding p_def using assms by (auto intro!: or_return_kept)
  moreover have "snd (decompress b c ota w) =
      (case fst p of Inl e \<Rightarrow> remove_file b dest (snd p)
        | Inr a \<Rightarrow> ReleaseF2fsCompressedBlocks (b_ses b) dest (change_active [f_name a] (snd p)))"
    by (simp add: decompress_def Let_def split_beta p_def [symmetric] dest_def [symmetric] split: sum.split)
  ultimately show ?thesis by (simp split: sum.split)
qed

lemma process_capex_kept:
  assumes "I w"
  shows "I (snd (process_capex b c ota w))"
proof -
  have 1: "I (snd (reuse_decompressed b c ota w))" by (rule reuse_decompressed_kept [OF assms])
  have 2: "I (snd (reuse_ota b c ota (snd (reuse_decompressed b c ota w))))" by (rule reuse_ota_kept [OF 1])
  show ?thesis
    using 1 2 decompress_kept [OF 2, of b c ota]
    by (simp add: process_capex_def split_beta split: option.split)
qed

lemma process_compressed_kept: "I w \<Longrightarrow> I (snd (ProcessCompressedApex b cs ota w))"
proof (induction cs arbitrary: w)
  case (Cons c cs)
  then show ?case
    using process_capex_kept [OF Cons.prems, of b c ota] by (simp add: Let_def split_beta)
qed simp

lemma expand_kept: "I w \<Longrightarrow> I (snd (expand_compressed b as ota w))"
  by (simp add: expand_compressed_def Let_def split_beta process_compressed_kept)

lemma remove_inactive_kept: "I w \<Longrightarrow> I (RemoveInactiveDataApex b w)"
  by (auto simp: RemoveInactiveDataApex_def Let_def intro!: fold_kept)

lemma revert_if_asked_kept: "I w \<Longrightarrow> revert_if_asked b w = Returns w' \<Longrightarrow> I w'"
  by (auto simp: revert_if_asked_def out_bind_Returns split: if_splits dest: revert_kept)

end

text \<open>With the verification of a package at boot, which may mount the system's shim for a moment.\<close>

locale verifying = quiet I for I :: "'s apexd \<Rightarrow> bool" +
  fixes k :: "'s ses_os"
  assumes verify_boot_kept: "I w \<Longrightarrow> I (snd (VerifyPackageBoot (s_dev k) a w))"
begin

lemma stage_packages_kept:
  assumes "I w"
  shows "I (snd (StagePackages k paths w))"
proof (cases "paths = []")
  case False
  have staged: "I (snd (case stage_all k as [] [] w of
      (Inl e, done_files, w) \<Rightarrow> (Inl e, fold (\<lambda>p w. snd (unlink_call k p w)) done_files w)
    | (Inr (staged_files, staged_packages), _, w) \<Rightarrow>
        RemovePreviouslyActiveApexFiles k staged_packages staged_files w))" if "I w" for as w
    using stage_all_kept [OF that, of k as "[]" "[]"] remove_previously_active_kept
    by (auto split: prod.split sum.split intro!: fold_kept)
  show ?thesis
    using assms False
    by (auto simp: StagePackages_def StagePackagesImpl_def split: sum.split
        intro!: or_return_kept res_fold_kept verify_boot_kept staged)
qed (use assms in \<open>simp add: StagePackages_def StagePackagesImpl_def\<close>)

lemma activate_session_kept: "I w \<Longrightarrow> I (activate_session k ses w)"
  using stage_packages_kept [of w]
  by (auto simp: activate_session_def Let_def split: sum.split prod.split intro!: fail_session_kept)
     (metis snd_conv)+

lemma activate_sessions_kept: "I w \<Longrightarrow> I (ActivateStagedSessions k w)"
  by (auto simp: ActivateStagedSessions_def Let_def intro!: fold_kept activate_session_kept)

end

end
