(* ===== verification/Apexd_Workers.thy ===== *)
theory Apexd_Workers
  imports Apexd_Start "HOL-Library.Multiset"
begin

text \<open>
  The worker threads that activate packages (\<open>apexd.cpp\<close>): whatever the schedule, they do what activating
  the same packages one after the other in some order does.
\<close>

section \<open>Workers\<close>

text \<open>The same packages one after the other, in a given order.\<close>

fun activate_in_order ::
  "'s act_os \<Rightarrow> ActivationMode \<Rightarrow> ApexFile list \<Rightarrow> 's apexd \<Rightarrow> (apex_error, ApexFile) result list \<times> 's apexd" where
  "activate_in_order b mode [] w = ([], w)"
| "activate_in_order b mode (a # as) w =
     (case activate_held b mode a w of
        (res, w) \<Rightarrow> (case activate_in_order b mode as w of (rs, w) \<Rightarrow> (res # rs, w)))"

lemma activate_in_order_append:
  "activate_in_order b mode (as @ [a]) w =
     (case activate_in_order b mode as w of
        (rs, w) \<Rightarrow> (case activate_held b mode a w of (res, w) \<Rightarrow> (rs @ [res], w)))"
  by (induction as arbitrary: w) (simp_all split: prod.split)

text \<open>
  What a pool has in common with a sequential run: the packages that were activated, in the order in
  which that happened, give its state, its results up to their order, and together with the packages
  held and waiting the packages of the queue.
\<close>

definition held_list :: "nat \<Rightarrow> (nat \<Rightarrow> ApexFile option) \<Rightarrow> ApexFile list" where
  "held_list n h = concat (map (\<lambda>i. case h i of None \<Rightarrow> [] | Some a \<Rightarrow> [a]) [0..<n])"

definition pool_ok ::
  "'s act_os \<Rightarrow> ActivationMode \<Rightarrow> ApexFile list \<Rightarrow> nat \<Rightarrow> 's apexd \<Rightarrow> ApexFile list \<Rightarrow> 's pool \<Rightarrow> bool" where
  "pool_ok b mode apexes n w0 order p \<longleftrightarrow>
     mset apexes = mset order + mset (held_list n (p_held p)) + mset (p_queue p) \<and>
     p_state p = snd (activate_in_order b mode order w0) \<and>
     mset (concat (map (p_results p) [0..<n])) = mset (fst (activate_in_order b mode order w0))"

lemma concat_upd:
  assumes "i < n"
  shows "\<exists>us vs. concat (map f [0..<n]) = us @ f i @ vs \<and> (\<forall>x. concat (map (f(i := x)) [0..<n]) = us @ x @ vs)"
proof -
  obtain k where "n = i + Suc k" using assms less_iff_Suc_add by auto
  then have "[0..<n] = [0..<i] @ i # [Suc i..<n]"
    using upt_add_eq_append [of 0 i "Suc k"] by (simp add: upt_conv_Cons del: upt_Suc)
  moreover have "map (f(i := x)) [0..<i] = map f [0..<i]" "map (f(i := x)) [Suc i..<n] = map f [Suc i..<n]" for x
    by (simp_all cong: map_cong)
  ultimately show ?thesis by auto
qed

definition busy :: "nat \<Rightarrow> 's pool \<Rightarrow> nat" where
  "busy n p = 2 * length (p_queue p) + length (held_list n (p_held p))"

lemma held_upd:
  assumes "i < n"
  shows "\<exists>us vs. held_list n h = us @ (case h i of None \<Rightarrow> [] | Some a \<Rightarrow> [a]) @ vs \<and>
    (\<forall>x. held_list n (h(i := x)) = us @ (case x of None \<Rightarrow> [] | Some a \<Rightarrow> [a]) @ vs)"
proof -
  let ?f = "\<lambda>i. case h i of None \<Rightarrow> [] | Some a \<Rightarrow> [a]"
  have eq: "(\<lambda>j. case (h(i := x)) j of None \<Rightarrow> [] | Some a \<Rightarrow> [a]) =
      ?f(i := (case x of None \<Rightarrow> [] | Some a \<Rightarrow> [a]))" for x
    by (auto simp: fun_eq_iff)
  obtain us vs where "concat (map ?f [0..<n]) = us @ ?f i @ vs"
      "\<And>x. concat (map (?f(i := x)) [0..<n]) = us @ x @ vs"
    using concat_upd [OF assms, of ?f] by blast
  then show ?thesis unfolding held_list_def eq by blast
qed

lemma worker_step:
  assumes "i < n" and "pool_ok b mode apexes n w0 order p"
  shows "\<exists>order'. pool_ok b mode apexes n w0 order' (ActivateApexWorker b mode i p)"
    and "ActivateApexWorker b mode i p = p \<and> p_held p i = None \<and> p_queue p = [] \<or>
         busy n (ActivateApexWorker b mode i p) < busy n p"
proof -
  let ?q = "ActivateApexWorker b mode i p"
  obtain us vs where held: "held_list n (p_held p) = us @ (case p_held p i of None \<Rightarrow> [] | Some a \<Rightarrow> [a]) @ vs"
      "\<And>x. held_list n ((p_held p)(i := x)) = us @ (case x of None \<Rightarrow> [] | Some a \<Rightarrow> [a]) @ vs"
    using held_upd [OF assms(1), of "p_held p"] by blast
  have "(\<exists>order'. pool_ok b mode apexes n w0 order' ?q) \<and>
      (?q = p \<and> p_held p i = None \<and> p_queue p = [] \<or> busy n ?q < busy n p)"
  proof (cases "p_held p i")
    case (Some a)
    obtain res w where act: "activate_held b mode a (p_state p) = (res, w)" by fastforce
    have q: "?q = p\<lparr>p_held := (p_held p)(i := None),
        p_results := (p_results p)(i := p_results p i @ [res]), p_state := w\<rparr>"
      by (simp add: ActivateApexWorker_def Some act)
    have hq: "held_list n (p_held ?q) = us @ vs" using held(2) [of None] by (simp add: q)
    obtain xs ys where results: "concat (map (p_results p) [0..<n]) = xs @ p_results p i @ ys"
        "\<And>x. concat (map ((p_results p)(i := x)) [0..<n]) = xs @ x @ ys"
      using concat_upd [OF assms(1), of "p_results p"] by blast
    have "pool_ok b mode apexes n w0 (order @ [a]) ?q"
      using assms(2) hq held(1) results act
      by (auto simp: pool_ok_def q Some activate_in_order_append split_beta)
    moreover have "busy n ?q < busy n p" using hq held(1) by (simp add: busy_def q Some)
    ultimately show ?thesis by blast
  next
    case None
    show ?thesis
    proof (cases "p_queue p")
      case Nil
      then have "?q = p" by (simp add: ActivateApexWorker_def None)
      with assms(2) None Nil show ?thesis by auto
    next
      case (Cons a as)
      have q: "?q = p\<lparr>p_queue := as, p_held := (p_held p)(i := Some a)\<rparr>"
        by (simp add: ActivateApexWorker_def None Cons)
      have hq: "held_list n (p_held ?q) = us @ a # vs" using held(2) [of "Some a"] by (simp add: q)
      have "pool_ok b mode apexes n w0 order ?q"
        using assms(2) hq held(1) by (simp add: pool_ok_def q None Cons)
      moreover have "busy n ?q < busy n p" using hq held(1) by (simp add: busy_def q None Cons)
      ultimately show ?thesis by blast
    qed
  qed
  then show "\<exists>order'. pool_ok b mode apexes n w0 order' ?q"
    and "?q = p \<and> p_held p i = None \<and> p_queue p = [] \<or> busy n ?q < busy n p" by blast+
qed

lemma worker_steps_ok:
  assumes "\<forall>i \<in> set js. i < n" and "pool_ok b mode apexes n w0 order p"
  shows "\<exists>order'. pool_ok b mode apexes n w0 order' (fold (ActivateApexWorker b mode) js p)"
  using assms
proof (induction js arbitrary: p order)
  case (Cons i js)
  then obtain order' where "pool_ok b mode apexes n w0 order' (ActivateApexWorker b mode i p)"
    using worker_step(1) [of i n b mode apexes w0 order p] by auto
  with Cons show ?case by auto
qed auto

lemma worker_steps_busy:
  assumes "\<forall>i \<in> set js. i < n" and "pool_ok b mode apexes n w0 order p"
  shows "fold (ActivateApexWorker b mode) js p = p \<and> (\<forall>i \<in> set js. p_held p i = None \<and> p_queue p = []) \<or>
         busy n (fold (ActivateApexWorker b mode) js p) < busy n p"
  using assms
proof (induction js arbitrary: p order)
  case (Cons i js)
  have i: "i < n" and rest: "\<forall>j \<in> set js. j < n" using Cons.prems by simp_all
  obtain order' where ok: "pool_ok b mode apexes n w0 order' (ActivateApexWorker b mode i p)"
    using worker_step(1) [OF i Cons.prems(2)] by blast
  show ?case using Cons.IH [OF rest ok] worker_step(2) [OF i Cons.prems(2)] by auto
qed simp

lemma round_finishes:
  assumes "pool_ok b mode apexes n w0 order p" and "busy n p \<le> m" and "p_queue p \<noteq> [] \<longrightarrow> 0 < n"
  shows "\<exists>order'. pool_ok b mode apexes n w0 order' (fold (ActivateApexWorker b mode) (concat (replicate m [0..<n])) p) \<and>
    busy n (fold (ActivateApexWorker b mode) (concat (replicate m [0..<n])) p) = 0"
  using assms
proof (induction m arbitrary: p order)
  case 0
  then show ?case by auto
next
  case (Suc m)
  let ?q = "fold (ActivateApexWorker b mode) [0..<n] p"
  have in_range: "\<forall>i \<in> set [0..<n]. i < n" by simp
  obtain order' where ok: "pool_ok b mode apexes n w0 order' ?q" using worker_steps_ok [OF in_range Suc.prems(1)] by blast
  have "busy n ?q \<le> m"
  proof (rule disjE [OF worker_steps_busy [OF in_range Suc.prems(1)]])
    assume idle: "?q = p \<and> (\<forall>i \<in> set [0..<n]. p_held p i = None \<and> p_queue p = [])"
    then have "held_list n (p_held p) = []" by (auto simp: held_list_def)
    moreover have "p_queue p = []" using idle Suc.prems(3) by fastforce
    ultimately show ?thesis using idle by (simp add: busy_def)
  qed (use Suc.prems(2) in simp)
  moreover have "p_queue ?q \<noteq> [] \<longrightarrow> 0 < n" using Suc.prems(3) by (cases n) auto
  ultimately show ?case using Suc.IH [OF ok] by simp
qed

lemma run_workers_order:
  assumes "run_workers b mode apexes n w = (rs, w')" and "apexes \<noteq> [] \<longrightarrow> 0 < n"
  shows "\<exists>order. mset order = mset apexes \<and> w' = snd (activate_in_order b mode order w) \<and>
    mset rs = mset (fst (activate_in_order b mode order w))"
proof -
  define p0 where "p0 = \<lparr>p_queue = apexes, p_held = (\<lambda>i. None), p_results = (\<lambda>i. []), p_state = w\<rparr>"
  define early where "early = filter (\<lambda>i. i < n) (b_schedule b (ax_os w))"
  define p1 where "p1 = fold (ActivateApexWorker b mode) early p0"
  define p2 where "p2 = fold (ActivateApexWorker b mode) (concat (replicate (Suc (2 * length apexes)) [0..<n])) p1"
  have ok0: "pool_ok b mode apexes n w [] p0" by (simp add: pool_ok_def p0_def held_list_def)
  have early: "\<forall>i \<in> set early. i < n" by (simp add: early_def)
  obtain o1 where ok1: "pool_ok b mode apexes n w o1 p1" using worker_steps_ok [OF early ok0] by (auto simp: p1_def)
  have "busy n p0 = 2 * length apexes" by (simp add: busy_def p0_def held_list_def)
  then have "busy n p1 \<le> Suc (2 * length apexes)"
    using worker_steps_busy [OF early ok0] by (auto simp: p1_def)
  moreover have "p_queue p1 \<noteq> [] \<longrightarrow> 0 < n"
    using assms(2) ok1 by (auto simp: pool_ok_def)
  ultimately obtain o2 where o2: "pool_ok b mode apexes n w o2 p2" "busy n p2 = 0"
    using round_finishes [OF ok1] unfolding p2_def by blast
  have "rs = concat (map (p_results p2) [0..<n]) \<and> w' = p_state p2"
    using assms(1) by (simp add: run_workers_def worker_turns_def p2_def p1_def p0_def early_def Let_def)
  with o2 show ?thesis by (intro exI [of _ o2]) (auto simp: pool_ok_def busy_def)
qed

end
