(* ===== verification/Apexd_Trust.thy ===== *)
theory Apexd_Trust
  imports Apex_Correct Apexd_Frame Apexd_Workers
begin

text \<open>
  What a start-up of the APEX daemon mounts: the locale \<open>activating\<close> carries an invariant through the whole
  of \<open>OnStart\<close>, given that it survives the activation of a trusted package; it is interpreted on the
  invariant that every mount call so far is justified by a verified, trusted package.
\<close>

section \<open>What a start-up mounts\<close>

subsection \<open>Packages reach activation through the repository\<close>

definition members :: "(string \<times> ApexFile list) list \<Rightarrow> ApexFile set" where
  "members g = (\<Union>e \<in> set g. set (snd e))"

lemma members_assign: "members (assign n fs g) \<subseteq> set fs \<union> members g"
  by (auto simp: members_def assign_def split: if_splits)

lemma group_put_members: "members (group_put a g) \<subseteq> insert a (members g)"
proof -
  define g1 where "g1 = (if map_of g (f_name a) = None then assign (f_name a) [] g else g)"
  have g1: "members g1 \<subseteq> members g" using members_assign [of "f_name a" "[]" g] by (simp add: g1_def)
  have "map_of g1 (f_name a) \<noteq> None" by (simp add: g1_def map_of_assign)
  then obtain fs where fs: "map_of g1 (f_name a) = Some fs" by blast
  have "set fs \<subseteq> members g1" using map_of_SomeD [OF fs] by (force simp: members_def)
  with g1 fs members_assign [of "f_name a" "fs @ [a]" g1] show ?thesis
    by (auto simp: group_put_def Let_def g1_def [symmetric])
qed

lemma groups_members: "members (fold group_put as g) \<subseteq> set as \<union> members g"
proof (induction as arbitrary: g)
  case (Cons a as)
  then show ?case using group_put_members [of a g] Cons.IH [of "group_put a g"] by auto
qed simp

lemma select_subset: "SelectApexForActivation g r = Returns as \<Longrightarrow> set as \<subseteq> members g"
proof (induction g arbitrary: as)
  case (Cons e g)
  obtain n fs where e: "e = (n, fs)" by (cases e)
  have "\<exists>as'. SelectApexForActivation g r = Returns as' \<and> set as \<subseteq> set fs \<union> set as'"
    using Cons.prems by (auto simp: e out_bind_Returns split: list.splits if_splits)
  then show ?case using Cons.IH by (force simp: e members_def)
qed (simp add: members_def)

definition stored :: "ApexFileRepository \<Rightarrow> ApexFile set" where
  "stored r = snd ` set (pre_installed_store r) \<union> snd ` set (data_store r)"

lemma selected_stored:
  assumes "SelectApexForActivation (AllApexFilesByName r) r = Returns as"
  shows "set as \<subseteq> stored r"
proof -
  have "members (AllApexFilesByName r) \<subseteq> stored r"
    using groups_members [of "GetPreInstalledApexFiles r @ GetDataApexFiles r" "[]"]
    by (simp add: AllApexFilesByName_def members_def stored_def GetPreInstalledApexFiles_def GetDataApexFiles_def)
  with select_subset [OF assms] show ?thesis by blast
qed

lemma fallback_stored: "fallback_apexes r ns as = Returns ps \<Longrightarrow> set ps \<subseteq> stored r"
proof (induction as arbitrary: ps)
  case (Cons a as)
  have "p \<in> stored r" if "GetPreInstalledApex r (f_name a) = Returns p" for p
    using that by (auto simp: GetPreInstalledApex_def stored_def split: option.splits dest!: map_of_SomeD)
      (metis image_eqI snd_conv)
  with Cons show ?case by (auto simp: out_bind_Returns split: if_splits)
qed simp

text \<open>
  A client of the activation of packages: an invariant that activating a package with a property \<open>T\<close> keeps,
  where the stored packages and what is decompressed from them have that property.
\<close>

locale activating = quiet I for I :: "'s apexd \<Rightarrow> bool" +
  fixes b :: "'s act_os" and T :: "ApexFile \<Rightarrow> bool"
  assumes activate_kept: "I w \<Longrightarrow> T a \<Longrightarrow> I (snd (ActivatePackageImpl (b_dev b) a dev reuse w))"
    and verify_kept: "I w \<Longrightarrow> I (snd (VerifyPackageBoot (b_dev b) a w))"
    and data_kept: "I w \<Longrightarrow> I (snd (add_data_apex b dir w))"
    and stored_trusted: "I w \<Longrightarrow> a \<in> stored (ax_repo w) \<Longrightarrow> T a"
    and decompressed_trusted: "T c \<Longrightarrow> f_compressed c \<Longrightarrow> OpenAndValidateDecompressedApex b c path s = Inr a \<Longrightarrow> T a"

sublocale activating \<subseteq> verifying I "b_ses b"
  by unfold_locales (rule verify_kept)

context activating
begin

lemma activate_held_kept: "I w \<Longrightarrow> T a \<Longrightarrow> I (snd (activate_held b mode a w))"
  unfolding activate_held_def Let_def by (rule or_return_kept) (simp_all add: activate_kept)

lemma in_order_kept: "I w \<Longrightarrow> \<forall>a \<in> set as. T a \<Longrightarrow> I (snd (activate_in_order b mode as w))"
proof (induction as arbitrary: w)
  case (Cons a as)
  then show ?case using activate_held_kept [of w a mode] by (simp add: split_beta)
qed simp

lemma workers_kept:
  assumes "I w" and "\<forall>a \<in> set as. T a" and "as \<noteq> [] \<longrightarrow> 0 < n"
  shows "I (snd (run_workers b mode as n w))"
proof -
  obtain order where "mset order = mset as" "snd (run_workers b mode as n w) = snd (activate_in_order b mode order w)"
    using run_workers_order [of b mode as n w "fst (run_workers b mode as n w)" "snd (run_workers b mode as n w)"]
      assms(3) by auto
  moreover from this(1) have "set order = set as" by (rule mset_eq_setD)
  ultimately show ?thesis using in_order_kept [OF assms(1), of order mode] assms(2) by simp
qed

lemma activate_packages_kept:
  assumes "I w" and "\<forall>a \<in> set as. T a"
  shows "I (snd (ActivateApexPackages b as mode w))"
proof -
  define n where "n = min (length as) (if b_activation_threads b (ax_os w) = 0 then length as
      else b_activation_threads b (ax_os w))"
  define rs where "rs = run_workers b mode as n w"
  have "as \<noteq> [] \<longrightarrow> 0 < n" by (auto simp: n_def)
  then have "I (snd rs)" using workers_kept [OF assms] by (simp add: rs_def)
  then have "I (snd (fold (contribute b) ls (es, snd rs)))" for ls es
    using contribute_all_kept [of "(es, snd rs)"] by simp
  then show ?thesis by (simp add: ActivateApexPackages_def Let_def split_beta n_def rs_def)
qed

lemma reuse_decompressed_trusted:
  "T c \<Longrightarrow> f_compressed c \<Longrightarrow> fst (reuse_decompressed b c ota w) = Some a \<Longrightarrow> T a"
  by (auto simp: reuse_decompressed_def Let_def split: if_splits sum.splits intro: decompressed_trusted)

lemma reuse_ota_trusted:
  "T c \<Longrightarrow> f_compressed c \<Longrightarrow> fst (reuse_ota b c ota w) = Some a \<Longrightarrow> T a"
  by (auto simp: reuse_ota_def Let_def split_beta split: if_splits sum.splits intro: decompressed_trusted)

lemma decompress_trusted:
  assumes "T c" and "f_compressed c" and "fst (decompress b c ota w) = Inr a"
  shows "T a"
proof -
  have "\<exists>path s. OpenAndValidateDecompressedApex b c path s = Inr a"
    using assms(3)
    by (auto simp: decompress_def Let_def split_beta or_return_def caused_by_def split: sum.splits)
  then show ?thesis using decompressed_trusted [OF assms(1,2)] by blast
qed

lemma process_capex_trusted:
  assumes "T c" and "f_compressed c" and "fst (process_capex b c ota w) = Inr a"
  shows "T a"
  using assms(3) reuse_decompressed_trusted [OF assms(1,2)] reuse_ota_trusted [OF assms(1,2)]
    decompress_trusted [OF assms(1,2)]
  by (fastforce simp: process_capex_def split_beta split: option.splits)

lemma process_compressed_trusted:
  "\<forall>c \<in> set cs. T c \<Longrightarrow> a \<in> set (fst (ProcessCompressedApex b cs ota w)) \<Longrightarrow> T a"
proof (induction cs arbitrary: w)
  case (Cons c cs)
  then show ?case
    using process_capex_trusted [of c ota w]
    by (cases "fst (process_capex b c ota w)") (auto simp: Let_def split_beta split: if_splits)
qed simp

lemma expand_trusted:
  assumes "\<forall>a \<in> set as. T a"
  shows "\<forall>a \<in> set (fst (expand_compressed b as ota w)). T a"
proof -
  define cs where "cs = filter f_compressed as"
  have cs: "\<forall>c \<in> set cs. T c" using assms by (simp add: cs_def)
  have "\<forall>a \<in> set (fst (if cs \<noteq> [] then ProcessCompressedApex b cs ota w else ([], w))). T a"
    using process_compressed_trusted [OF cs] by simp
  moreover have "fst (expand_compressed b as ota w) = filter (\<lambda>a. \<not> f_compressed a) as @
      fst (if cs \<noteq> [] then ProcessCompressedApex b cs ota w else ([], w))"
    by (simp add: expand_compressed_def Let_def split_beta cs_def)
  ultimately show ?thesis using assms by (simp add: ball_Un)
qed

lemma missing_kept:
  assumes "I w" and "ActivateMissingApexes b as mode w = Returns (res, w')"
  shows "I w'"
proof -
  obtain ps where ps: "fallback_apexes (ax_repo w) (map fst (GetActivePackagesMap b w)) as = Returns ps"
    using assms(2) by (auto simp: ActivateMissingApexes_def out_bind_Returns)
  define e where "e = expand_compressed b ps (mode = kOtaChrootMode) w"
  define w1 where "w1 = (if mode = kBootMode then change_active (map f_name (fst e)) (snd e) else snd e)"
  have "\<forall>p \<in> set ps. T p" using fallback_stored [OF ps] stored_trusted [OF assms(1)] by blast
  then have T: "\<forall>a \<in> set (fst e). T a" unfolding e_def by (rule expand_trusted)
  have "I (snd e)" unfolding e_def by (rule expand_kept [OF assms(1)])
  then have "I w1" by (simp add: w1_def)
  moreover have "ActivateMissingApexes b as mode w = Returns (ActivateApexPackages b (fst e) mode w1)"
    by (simp add: ActivateMissingApexes_def Let_def split_beta ps e_def w1_def)
  ultimately have "I (snd (ActivateApexPackages b (fst e) mode w1))" "ActivateApexPackages b (fst e) mode w1 = (res, w')"
    using activate_packages_kept [OF _ T] assms(2) by simp_all
  then show ?thesis by simp
qed

lemma recover_kept: "I w \<Longrightarrow> recover_activation b e as w = Returns w' \<Longrightarrow> I w'"
  by (auto simp: recover_activation_def out_bind_Returns dest: revert_reboot_kept missing_kept)

lemma activate_selected_kept:
  assumes "I w" and "activate_selected b w = Returns w'"
  shows "I w'"
proof -
  obtain as where as: "SelectApexForActivation (AllApexFilesByName (ax_repo w)) (ax_repo w) = Returns as"
    using assms(2) by (auto simp: activate_selected_def out_bind_Returns)
  define e where "e = expand_compressed b as False w"
  define p where "p = ActivateApexPackages b (fst e) kBootMode (snd e)"
  have "\<forall>a \<in> set as. T a" using selected_stored [OF as] stored_trusted [OF assms(1)] by blast
  then have "\<forall>a \<in> set (fst e). T a" unfolding e_def by (rule expand_trusted)
  moreover have "I (snd e)" unfolding e_def by (rule expand_kept [OF assms(1)])
  ultimately have p: "I (snd p)" unfolding p_def by (rule activate_packages_kept [rotated])
  have "(case fst p of Inr _ \<Rightarrow> Returns (snd p) | Inl err \<Rightarrow> recover_activation b err (fst e) (snd p)) = Returns w'"
    using assms(2) as by (simp add: activate_selected_def Let_def split_beta e_def p_def split: sum.split_asm)
  then show ?thesis using p by (auto split: sum.splits dest: recover_kept)
qed

lemma on_start_kept:
  assumes "I w" and "OnStart b w = Returns w'"
  shows "I w'"
proof -
  obtain w1 where w1: "revert_if_asked b (set_status b kApexStatusStarting w) = Returns w1"
    using assms(2) by (auto simp: OnStart_def out_bind_Returns)
  have "I (set_status b kApexStatusStarting w)" using assms(1) by (simp add: set_status_def)
  then have I1: "I w1" using w1 by (rule revert_if_asked_kept)
  define w2 where "w2 = snd (add_data_apex b (cfg_active_apex_data_dir (b_config b))
      (ActivateStagedSessions (b_ses b) (snd (CreateSharedLibsApexDir b w1))))"
  have I2: "I w2" unfolding w2_def by (intro data_kept activate_sessions_kept create_libs_kept I1)
  obtain r3 w3 w4 where w3: "ResumeRevertIfNeeded (b_ses b) w2 = Returns (r3, w3)"
    and w4: "activate_selected b w3 = Returns w4"
    and w': "w' = SnapshotOrRestoreDeSysData (b_ses b) (RemoveInactiveDataApex b w4)"
    using assms(2) w1 by (auto simp: OnStart_def Let_def out_bind_Returns w2_def)
  have "I w4" by (rule activate_selected_kept [OF resume_revert_kept [OF I2 w3] w4])
  then show ?thesis unfolding w' by (intro snapshot_sys_kept remove_inactive_kept)
qed

end

subsection \<open>Which packages are trusted\<close>

text \<open>
  Relative to the pre-installed packages of a repository: those themselves, a package with the key of the
  pre-installed one of its name, a verified brand-new package where there is none, what is validated
  against a trusted compressed package, and the shim of the system partition.
\<close>

inductive trusted :: "'s act_os \<Rightarrow> ApexFileRepository \<Rightarrow> ApexFile \<Rightarrow> bool" for b r where
  pre_installed: "a \<in> snd ` set (pre_installed_store r) \<Longrightarrow> trusted b r a"
| same_key: "map_of (pre_installed_store r) (f_name a) = Some p \<Longrightarrow> f_public_key a = f_public_key p \<Longrightarrow> trusted b r a"
| brand_new: "map_of (pre_installed_store r) (f_name a) = None \<Longrightarrow> enable_brand_new_apex r \<Longrightarrow>
    a_VerifyBrandNew (b_os b) (r\<lparr>partition_store := ps, data_store := ds\<rparr>) a = Inr part \<Longrightarrow> trusted b r a"
| decompressed: "trusted b r c \<Longrightarrow> f_compressed c \<Longrightarrow> f_public_key a = f_public_key c \<Longrightarrow> f_version a = f_version c \<Longrightarrow>
    d_VerifyApexVerity (b_dev b) a (f_public_key a) s = Inr v \<Longrightarrow>
    v_root_digest v = m_originalapexdigest (f_manifest c) \<Longrightarrow> trusted b r a"
| system_shim: "a_Open (b_os b) (kApexPackageSystemDir @ ''/'' @ d_SystemShimApexName (b_dev b)) s = Inr a \<Longrightarrow> trusted b r a"

text \<open>
  A mount call after the calls \<open>cs\<close> is justified when it mounts a trusted package whose verity data were
  verified with its own key, from the device of that package: a read-only verity device with the verified
  digest on a loop device of the file, or the loop device itself for a plain pre-installed package.
\<close>

definition mount_justified ::
  "'s dev_os \<Rightarrow> (ApexFile \<Rightarrow> bool) \<Rightarrow> ApexFileRepository \<Rightarrow> apex_call list \<Rightarrow> apex_call \<Rightarrow> bool" where
  "mount_justified d T r cs c \<longleftrightarrow>
     (case c of
        Mount src mount_point fs flags \<Rightarrow>
          \<exists>a s v loop. T a \<and> f_fs_type a = Some fs \<and> flags = apex_mount_flags (f_manifest a) \<and>
            d_VerifyApexVerity d a (f_public_key a) s = Inr v \<and>
            (IsBlockApex r a \<and> GetBlockApexRootDigest r (f_path a) \<noteq> None \<longrightarrow>
               GetBlockApexRootDigest r (f_path a) = Some (v_root_digest v)) \<and>
            Loop (f_path a) loop \<in> set cs \<and>
            (if mount_on_verity r a
             then \<exists>dev restart. Verity dev (CreateVerityTable v loop restart) src \<in> set cs
             else src = loop)
      | _ \<Rightarrow> True)"

fun mounts_justified ::
  "'s dev_os \<Rightarrow> (ApexFile \<Rightarrow> bool) \<Rightarrow> ApexFileRepository \<Rightarrow> apex_call list \<Rightarrow> apex_call list \<Rightarrow> bool" where
  "mounts_justified d T r before [] \<longleftrightarrow> True"
| "mounts_justified d T r before (c # cs) \<longleftrightarrow>
     mount_justified d T r before c \<and> mounts_justified d T r (before @ [c]) cs"

lemma mounts_justified_append:
  "mounts_justified d T r before (cs @ [c]) \<longleftrightarrow> mounts_justified d T r before cs \<and> mount_justified d T r (before @ cs) c"
  by (induction cs arbitrary: before) auto

definition trust_inv :: "'s act_os \<Rightarrow> ApexFileRepository \<Rightarrow> 's apexd \<Rightarrow> bool" where
  "trust_inv b r w \<longleftrightarrow> roots (ax_repo w) = roots r \<and>
     mounts_justified (b_dev b) (trusted b r) r [] (ax_calls w) \<and>
     (\<forall>a \<in> snd ` set (data_store (ax_repo w)). trusted b r a)"

lemma roots_queries:
  assumes "roots r' = roots r"
  shows "mount_on_verity r' a = mount_on_verity r a" "IsBlockApex r' a = IsBlockApex r a"
    "GetBlockApexRootDigest r' p = GetBlockApexRootDigest r p"
    "pre_installed_store r' = pre_installed_store r" "enable_brand_new_apex r' = enable_brand_new_apex r"
  using assms roots_select [of r] roots_select [of r']
  by (simp_all add: mount_on_verity_def IsPreInstalledApex_def IsDecompressedApex_def IsBlockApex_def
      GetBlockApexRootDigest_def split: option.split)

lemma trust_calls:
  "trust_inv b r w \<Longrightarrow> mount_justified (b_dev b) (trusted b r) r (ax_calls w) c \<Longrightarrow> trust_inv b r (record_call c w)"
  by (simp add: trust_inv_def record_call_def mounts_justified_append)

lemma not_mount_justified: "(\<forall>s m f x. c \<noteq> Mount s m f x) \<Longrightarrow> mount_justified d T r cs c"
  by (auto simp: mount_justified_def split: apex_call.split)

lemma trust_os [simp]: "trust_inv b r (w\<lparr>ax_os := s\<rparr>) = trust_inv b r w"
  "trust_inv b r (w\<lparr>gChangedActiveApexes := ns\<rparr>) = trust_inv b r w"
  by (simp_all add: trust_inv_def)

lemma trust_record [simp]: "(\<forall>s m f x. c \<noteq> Mount s m f x) \<Longrightarrow> trust_inv b r (record_call c w) = trust_inv b r w"
  by (simp add: trust_inv_def record_call_def mounts_justified_append not_mount_justified)

interpretation trust: quiet "trust_inv b r" for b r
proof
  fix c w assume "quiet_call c"
  then have "\<forall>s m f x. c \<noteq> Mount s m f x" by (auto simp: quiet_call_def)
  then show "trust_inv b r (record_call c w) = trust_inv b r w" by simp
qed simp_all

subsection \<open>Mounting keeps to trusted packages\<close>

lemma trust_drop [simp]:
  "trust_inv b r (drop_loop d n w) = trust_inv b r w" "trust_inv b r (drop_dm d n w) = trust_inv b r w"
  "trust_inv b r (snd (delete_dm d n x w)) = trust_inv b r w"
  by (simp_all add: drop_loop_def drop_dm_def delete_dm_def)

lemma read_blocks_calls: "ax_calls (snd (read_blocks d fd n w)) = ax_calls w \<and> ax_repo (snd (read_blocks d fd n w)) = ax_repo w"
proof (induction d fd n w rule: read_blocks.induct)
  case (1 d fd left w)
  show ?case
  proof (cases "left = 0")
    case False
    define p where "p = sys (d_ReadFully d fd (min left kBufSize)) w"
    have p: "ax_calls (snd p) = ax_calls w" "ax_repo (snd p) = ax_repo w"
      by (simp_all add: p_def sys_def split: prod.split)
    have rec: "snd (read_blocks d fd left w) =
        (if fst p then snd (read_blocks d fd (left - min left kBufSize) (snd p)) else snd p)"
      by (subst read_blocks.simps) (simp add: False Let_def split_beta p_def)
    show ?thesis
      using 1 [OF False refl refl, of "fst p" "snd p"] p by (simp add: rec p_def)
  qed (simp add: read_blocks.simps [of d fd 0 w])
qed

lemma sys_calls [simp]: "ax_calls (snd (sys f w)) = ax_calls w" "ax_repo (snd (sys f w)) = ax_repo w"
  "ax_calls (sys_do g w) = ax_calls w" "ax_repo (sys_do g w) = ax_repo w"
  by (simp_all add: sys_def sys_do_def split: prod.split)

lemma read_verity_calls [simp]:
  "ax_calls (snd (ReadVerityDevice d dev n w)) = ax_calls w" "ax_repo (snd (ReadVerityDevice d dev n w)) = ax_repo w"
  by (simp_all add: ReadVerityDevice_def Let_def split_beta read_blocks_calls)

lemma trust_cong: "ax_calls w' = ax_calls w \<Longrightarrow> ax_repo w' = ax_repo w \<Longrightarrow> trust_inv b r w' = trust_inv b r w"
  by (simp add: trust_inv_def)

lemma trust_read [simp]: "trust_inv b r (snd (ReadVerityDevice d dev n w)) = trust_inv b r w"
  by (rule trust_cong) simp_all

lemma mount_image_trust:
  assumes "trust_inv b r w"
    and "\<And>fs. f_fs_type a = Some fs \<Longrightarrow> mount_justified (b_dev b) (trusted b r) r (ax_calls w)
           (Mount dev mp fs (apex_mount_flags (f_manifest a)))"
  shows "trust_inv b r (snd (mount_image d a dev mp w))"
proof (cases "f_fs_type a")
  case (Some fs)
  have "trust_inv b r (record_call (Mount dev mp fs (apex_mount_flags (f_manifest a))) w)"
    by (rule trust_calls [OF assms(1) assms(2) [OF Some]])
  then show ?thesis by (simp add: mount_image_def Some Let_def split_beta split: sum.split)
qed (use assms in \<open>simp add: mount_image_def\<close>)

definition digest_ok :: "ApexFileRepository \<Rightarrow> ApexFile \<Rightarrow> ApexVerityData \<Rightarrow> bool" where
  "digest_ok r a v \<longleftrightarrow>
     (IsBlockApex r a \<and> GetBlockApexRootDigest r (f_path a) \<noteq> None \<longrightarrow>
      GetBlockApexRootDigest r (f_path a) = Some (v_root_digest v))"

lemma mount_justifiedI:
  assumes "T a" and "f_fs_type a = Some fs" and "d_VerifyApexVerity d a (f_public_key a) s = Inr v"
    and "digest_ok r a v" and "Loop (f_path a) loop \<in> set cs"
    and "if mount_on_verity r a
         then \<exists>dev restart. Verity dev (CreateVerityTable v loop restart) src \<in> set cs else src = loop"
  shows "mount_justified d T r cs (Mount src mp fs (apex_mount_flags (f_manifest a)))"
  unfolding mount_justified_def apex_call.case
  by (rule exI [of _ a], rule exI [of _ s], rule exI [of _ v], rule exI [of _ loop])
     (use assms in \<open>simp add: digest_ok_def\<close>)

lemma mount_verity_trust:
  assumes "trust_inv b r w" and "trusted b r a"
    and "d_VerifyApexVerity (b_dev b) a (f_public_key a) s = Inr v"
    and "digest_ok r a v" and "Loop (f_path a) loop \<in> set (ax_calls w)" and "mount_on_verity r a"
  shows "trust_inv b r (snd (mount_verity (b_dev b) a v loop mp dev verify reuse w))"
proof -
  define t where "t = CreateVerityTable v loop (\<not> verify)"
  have image: "trust_inv b r (snd (mount_image (b_dev b) a src mp w'))"
    if "trust_inv b r w'" "Verity dev t src \<in> set (ax_calls w')" "set (ax_calls w) \<subseteq> set (ax_calls w')" for src w'
  proof (rule mount_image_trust [OF that(1)], rule mount_justifiedI [where T = "trusted b r", OF assms(2) _ assms(3,4)])
    show "Loop (f_path a) loop \<in> set (ax_calls w')" using assms(5) that(3) by blast
    show "if mount_on_verity r a
        then \<exists>dev restart. Verity dev (CreateVerityTable v loop restart) src \<in> set (ax_calls w') else src = loop"
      using assms(6) that(2) t_def by auto
  qed
  have read: "trust_inv b r (snd (if verify then ReadVerityDevice (b_dev b) src n w' else (Inr (), w'))) = trust_inv b r w'"
      "ax_calls (snd (if verify then ReadVerityDevice (b_dev b) src n w' else (Inr (), w'))) = ax_calls w'" for src n w'
    by simp_all
  define p where "p = sys (d_CreateDmDevice (b_dev b) dev t reuse) w"
  have p: "trust_inv b r (snd p)" "ax_calls (snd p) = ax_calls w" using assms(1) by (simp_all add: p_def)
  show ?thesis
  proof (cases "fst p")
    case (Inr src)
    define p1 where "p1 = sys (d_ConfigureReadAhead (b_dev b) src) (record_call (Verity dev t src) (snd p))"
    define p2 where "p2 = (if verify then ReadVerityDevice (b_dev b) src (v_image_size v) (snd p1) else (Inr (), snd p1))"
    have p1: "trust_inv b r (snd p1)" "ax_calls (snd p1) = ax_calls w @ [Verity dev t src]"
      using p by (simp_all add: p1_def) (simp add: record_call_def)
    then have p2: "trust_inv b r (snd p2)" "ax_calls (snd p2) = ax_calls w @ [Verity dev t src]"
      by (simp_all add: p2_def)
    have res: "snd (mount_verity (b_dev b) a v loop mp dev verify reuse w) =
        (let (res, w) = or_return p1 (\<lambda>_ w. or_return (if verify
             then ReadVerityDevice (b_dev b) src (v_image_size v) w else (Inr (), w))
             (\<lambda>_. mount_image (b_dev b) a src mp))
         in case res of Inl e \<Rightarrow> drop_dm (b_dev b) dev w | Inr _ \<Rightarrow> w)"
      using Inr by (simp add: mount_verity_def Let_def split_beta p_def p1_def t_def)
    have img: "trust_inv b r (snd (mount_image (b_dev b) a src mp (snd p2)))"
      by (rule image [OF p2(1)]) (simp_all add: p2(2) subset_insertI)
    have "trust_inv b r (snd (or_return p1 (\<lambda>_ w. or_return (if verify
             then ReadVerityDevice (b_dev b) src (v_image_size v) w else (Inr (), w))
             (\<lambda>_. mount_image (b_dev b) a src mp))))"
      using p1(1) p2(1) img
      by (cases verify) (simp_all add: or_return_def split_beta p2_def split: sum.split)
    then show ?thesis unfolding res by (simp add: Let_def split_beta split: sum.split)
  qed (use p in \<open>simp add: mount_verity_def Let_def split_beta p_def t_def\<close>)
qed

lemma mount_on_loop_trust:
  assumes "trust_inv b r w" and "trusted b r a" and "Loop (f_path a) loop \<in> set (ax_calls w)"
  shows "trust_inv b r (snd (mount_on_loop (b_dev b) a mp dev verify reuse loop w))"
proof (cases "d_VerifyApexVerity (b_dev b) a (f_public_key a) (ax_os w)")
  case (Inr v)
  have repo: "roots (ax_repo w) = roots r" using assms(1) by (simp add: trust_inv_def)
  note same = roots_queries [OF repo]
  show ?thesis
  proof (cases "digest_ok r a v")
    case True
    have image: "trust_inv b r (snd (mount_image (b_dev b) a loop mp w))" if "\<not> mount_on_verity r a"
      by (rule mount_image_trust [OF assms(1)],
          rule mount_justifiedI [where T = "trusted b r", OF assms(2) _ Inr True assms(3)]) (use that in simp_all)
    have verity: "trust_inv b r (snd (mount_verity (b_dev b) a v loop mp dev verify reuse w))" if "mount_on_verity r a"
      by (rule mount_verity_trust [OF assms(1,2) Inr True assms(3) that])
    have "\<not> (IsBlockApex (ax_repo w) a \<and>
       (case GetBlockApexRootDigest (ax_repo w) (f_path a) of None \<Rightarrow> False | Some dig \<Rightarrow> dig \<noteq> v_root_digest v))"
      using True by (auto simp: digest_ok_def same split: option.splits)
    then show ?thesis
      using image verity by (auto simp: mount_on_loop_def Inr Let_def same intro!: trust.or_return_kept)
  next
    case False
    then show ?thesis
      using assms(1) by (auto simp: mount_on_loop_def Inr digest_ok_def same split: option.splits)
  qed
qed (use assms in \<open>simp add: mount_on_loop_def\<close>)

lemma loop_attempts_trust:
  "trust_inv b r w \<Longrightarrow> trust_inv b r (snd (loop_attempts d path off len n w)) \<and>
     (\<forall>loop. fst (loop_attempts d path off len n w) = Inr loop \<longrightarrow>
        Loop path loop \<in> set (ax_calls (snd (loop_attempts d path off len n w))))"
proof (induction d path off len n w rule: loop_attempts.induct)
  case (1 d path off len n w)
  define p where "p = sys (d_CreateLoop d path off len) w"
  have p: "trust_inv b r (snd p)" using "1.prems" by (simp add: p_def)
  show ?case
  proof (cases "fst p")
    case (Inl e)
    then have q: "p = (Inl e, snd p)" by (metis prod.collapse)
    have rec: "loop_attempts d path off len n w = (if n \<le> 1 then (Inl (Caused ''create loop device'' [path] e), snd p)
        else loop_attempts d path off len (n - 1) (snd p))"
      using Inl by (subst loop_attempts.simps) (simp add: p_def split_beta)
    show ?thesis
      using "1.IH" [OF q [symmetric, unfolded p_def] refl] p by (simp add: rec p_def)
  next
    case (Inr loop)
    then have "loop_attempts d path off len n w = (Inr loop, record_call (Loop path loop) (snd p))"
      by (subst loop_attempts.simps) (simp add: p_def split_beta)
    then show ?thesis using p by (simp add: record_call_def [of "Loop _ _"] trust_inv_def mounts_justified_append not_mount_justified)
  qed
qed

lemma mount_in_dir_trust:
  assumes "trust_inv b r w" and "trusted b r a"
  shows "trust_inv b r (snd (mount_in_dir (b_dev b) a mp dev verify reuse w))"
proof (cases "d_IsEmptyDirectory (b_dev b) mp (ax_os w) \<and> f_image_offset a \<noteq> None \<and> f_image_size a \<noteq> None")
  case True
  then obtain off len where len: "f_image_offset a = Some off" "f_image_size a = Some len" by auto
  note loop = loop_attempts_trust [OF assms(1), of "b_dev b" "f_path a" off len kLoopDeviceSetupAttempts]
  show ?thesis
    using True loop mount_on_loop_trust [OF _ assms(2)]
    by (auto simp: mount_in_dir_def len Let_def split_beta or_return_def split: sum.split)
qed (use assms in \<open>auto simp: mount_in_dir_def split: option.split\<close>)

lemma mount_impl_trust:
  assumes "trust_inv b r w" and "trusted b r a"
  shows "trust_inv b r (snd (MountPackageImpl (b_dev b) a mp dev verify reuse w))"
  using assms mount_in_dir_trust [OF _ assms(2)]
  by (auto simp: MountPackageImpl_def Let_def split_beta split: sum.split)

lemma unmount_trust: "trust_inv b r w \<Longrightarrow> trust_inv b r (snd (Unmount d data x w))"
  by (auto simp: Unmount_def Let_def split_beta intro!: trust.or_return_kept)

lemma shim_trust: "trust_inv b r w \<Longrightarrow> trust_inv b r (snd (ValidateStagingShimApex (b_dev b) a w))"
proof -
  assume w: "trust_inv b r w"
  show ?thesis
  proof (cases "a_Open (b_os b) (kApexPackageSystemDir @ ''/'' @ d_SystemShimApexName (b_dev b)) (ax_os w)")
    case (Inr shim)
    note mounted = mount_impl_trust [OF w trusted.system_shim [OF Inr]]
    note shim = Inr [simplified]
    show ?thesis
      using mounted
      by (auto simp: ValidateStagingShimApex_def shim RunVerifyFnInsideTempMount_def RunVerifyFnInsideTempMounts_def
          Let_def split_beta split: sum.split intro!: unmount_trust)
  qed (use w in \<open>simp add: ValidateStagingShimApex_def\<close>)
qed

lemma verify_boot_trust: "trust_inv b r w \<Longrightarrow> trust_inv b r (snd (VerifyPackageBoot (b_dev b) a w))"
  by (auto simp: VerifyPackageBoot_def split: sum.split intro!: trust.or_return_kept shim_trust)

lemma activate_trust:
  assumes "trust_inv b r w" and "trusted b r a"
  shows "trust_inv b r (snd (ActivatePackageImpl (b_dev b) a dev reuse w))"
  using assms
  by (auto simp: ActivatePackageImpl_def MountPackage_def Let_def split_beta
      intro!: trust.or_return_kept verify_boot_trust mount_impl_trust)

lemma stores_subset:
  "snd ` set (emplace k v m) \<subseteq> insert v (snd ` set m)" "snd ` set (assign k v m) \<subseteq> insert v (snd ` set m)"
  by (auto simp: emplace_def assign_def split: if_splits)

lemma roots_eq: "roots r1 = roots r \<Longrightarrow> r1 = r\<lparr>partition_store := partition_store r1, data_store := data_store r1\<rparr>"
  by (cases r; cases r1) (simp add: roots_def)

lemma accepted_trusted:
  assumes "roots r1 = roots r" and "data_trusted (b_os b) a r1 = Some r2"
  shows "trusted b r a" and "roots r2 = roots r" and "data_store r2 = data_store r1"
proof -
  note same = roots_queries(4,5) [OF assms(1)]
  show "roots r2 = roots r" "data_store r2 = data_store r1"
    using assms by (auto simp: data_trusted_def split: option.splits if_splits sum.splits)
  show "trusted b r a"
  proof (cases "map_of (pre_installed_store r) (f_name a)")
    case None
    then obtain part where "enable_brand_new_apex r" "a_VerifyBrandNew (b_os b) r1 a = Inr part"
      using assms(2) by (auto simp: data_trusted_def same split: if_splits sum.splits)
    then show ?thesis using trusted.brand_new [OF None] roots_eq [OF assms(1)] by metis
  next
    case (Some p)
    then show ?thesis
      using assms(2) by (intro trusted.same_key [OF Some]) (simp add: data_trusted_def same split: if_splits)
  qed
qed

definition data_ok :: "'s act_os \<Rightarrow> ApexFileRepository \<Rightarrow> ApexFileRepository \<Rightarrow> bool" where
  "data_ok b r r1 \<longleftrightarrow> roots r1 = roots r \<and> (\<forall>a \<in> snd ` set (data_store r1). trusted b r a)"

lemma add_data_ok:
  assumes "data_ok b r r1"
  shows "data_ok b r (add_data (b_os b) s p r1)"
proof (cases "a_Open (b_os b) p s")
  case (Inr a)
  show ?thesis
  proof (cases "data_trusted (b_os b) a r1")
    case (Some r2)
    have repo: "roots r1 = roots r" using assms by (simp add: data_ok_def)
    note ok = accepted_trusted [OF repo Some]
    have "snd ` set (data_store (data_store_put a r2)) \<subseteq> insert a (snd ` set (data_store r1))"
      using ok(3) stores_subset [of "f_name a" a "data_store r1"]
      by (simp add: data_store_put_def subset_insertI split: option.split)
    moreover have "roots (data_store_put a r2) = roots r"
      using ok(2) by (simp add: data_store_put_def split: option.split)
    ultimately have "data_ok b r (data_store_put a r2)" using assms ok(1) unfolding data_ok_def by blast
    moreover have "data_ok b r r2" using assms ok by (simp add: data_ok_def)
    ultimately show ?thesis by (simp add: add_data_def Inr Some)
  qed (use assms in \<open>simp add: add_data_def Inr\<close>)
qed (use assms in \<open>simp add: add_data_def\<close>)

lemma data_trust: "trust_inv b r w \<Longrightarrow> trust_inv b r (snd (add_data_apex b dir w))"
proof -
  assume w: "trust_inv b r w"
  have "data_ok b r r1 \<Longrightarrow> data_ok b r (fold (add_data (b_os b) s) files r1)" for s files r1
    by (induction files arbitrary: r1) (simp_all add: add_data_ok)
  then have "data_ok b r r1 \<Longrightarrow> data_ok b r (snd (AddDataApex (b_os b) s dir r1))" for s r1
    by (simp add: AddDataApex_def split: sum.split)
  moreover have "data_ok b r (ax_repo w)" using w by (simp add: trust_inv_def data_ok_def)
  ultimately have "data_ok b r (snd (AddDataApex (b_os b) (ax_os w) dir (ax_repo w)))" by blast
  with w show ?thesis by (simp add: trust_inv_def data_ok_def add_data_apex_def split_beta)
qed

lemma decompressed_trust:
  assumes "trusted b r c" and "f_compressed c" and "OpenAndValidateDecompressedApex b c path s = Inr a"
  shows "trusted b r a"
proof -
  have "ValidateDecompressedApex b c a s = Inr ()"
    using assms(3) by (auto simp: OpenAndValidateDecompressedApex_def split: sum.splits if_splits)
  then obtain v where "f_public_key a = f_public_key c" "f_version a = f_version c"
      "d_VerifyApexVerity (b_dev b) a (f_public_key a) s = Inr v" "v_root_digest v = m_originalapexdigest (f_manifest c)"
    by (auto simp: ValidateDecompressedApex_def split: if_splits sum.splits)
  then show ?thesis by (rule trusted.decompressed [OF assms(1,2)])
qed

interpretation trust: activating "trust_inv b r" b "trusted b r" for b r
proof
  show "trust_inv b r w \<Longrightarrow> a \<in> stored (ax_repo w) \<Longrightarrow> trusted b r a" for w a
    using roots_queries(4) [of "ax_repo w" r]
    by (auto simp: stored_def trust_inv_def intro: trusted.pre_installed)
qed (fact activate_trust verify_boot_trust data_trust decompressed_trust)+

end
