(* ===== verification/Apexd_Devices.thy ===== *)
theory Apexd_Devices
  imports Apexd_Trust
begin

text \<open>
  The loop and verity devices that the calls of the APEX daemon leave behind: a mount that fails leaves
  none, one that succeeds leaves those that its record names, and temporary mounts leave none.
\<close>

section \<open>Loop and verity devices\<close>

fun device_call :: "apex_call \<Rightarrow> string multiset \<times> string multiset \<Rightarrow> string multiset \<times> string multiset" where
  "device_call (Loop p n) (L, V) = (add_mset n L, V)"
| "device_call (LoopGone n) (L, V) = (L - {#n#}, V)"
| "device_call (Verity n t p) (L, V) = (L, add_mset n V)"
| "device_call (VerityGone n) (L, V) = (L, V - {#n#})"
| "device_call c LV = LV"

text \<open>The loop devices and the verity devices that the calls so far have left.\<close>

definition devices_left :: "'s apexd \<Rightarrow> string multiset \<times> string multiset" where
  "devices_left w = fold device_call (ax_calls w) ({#}, {#})"

lemma devices_record [simp]: "devices_left (record_call c w) = device_call c (devices_left w)"
  by (simp add: devices_left_def record_call_def)

lemma devices_os [simp]: "devices_left (w\<lparr>ax_os := s\<rparr>) = devices_left w"
  "devices_left (w\<lparr>gChangedActiveApexes := ns\<rparr>) = devices_left w"
  "devices_left (snd (sys f w)) = devices_left w" "devices_left (sys_do g w) = devices_left w"
  by (simp_all add: devices_left_def)

lemma device_call_quiet: "quiet_call c \<Longrightarrow> device_call c LV = LV"
  by (cases c; cases LV) (simp_all add: quiet_call_def)

interpretation devs: quiet "\<lambda>w. devices_left w = LV" for LV
  by unfold_locales (simp_all add: device_call_quiet)

lemma quiet_devices:
  "devices_left (snd (umount_call d p x w)) = devices_left w"
  "devices_left (snd (ReadVerityDevice d dev n w)) = devices_left w"
  by (simp_all add: umount_call_def) (simp add: devices_left_def)

lemma mount_image_devices: "devices_left (snd (mount_image d a dev mp w)) = devices_left w"
  by (cases "devices_left w")
     (simp add: mount_image_def Let_def split_beta quiet_devices split: option.split sum.split)

lemma mount_verity_devices:
  "devices_left (snd (mount_verity d a v loop mp dev verify reuse w)) =
     (if isl (fst (mount_verity d a v loop mp dev verify reuse w)) then devices_left w
      else device_call (Verity dev (CreateVerityTable v loop (\<not> verify)) []) (devices_left w))"
  by (cases "devices_left w")
     (simp add: mount_verity_def Let_def split_beta or_return_def quiet_devices mount_image_devices drop_dm_def
      split: sum.split)

text \<open>The devices of a mounted package.\<close>

definition devices_of :: "MountedApexData \<Rightarrow> string multiset \<times> string multiset \<Rightarrow> string multiset \<times> string multiset" where
  "devices_of data LV =
     (add_mset (md_loop_name data) (fst LV),
      (if md_device_name data = [] then {#} else {#md_device_name data#}) + snd LV)"

lemma mount_on_loop_devices:
  assumes "mount_on_loop d a mp dev verify reuse loop w = (res, w')" and "dev \<noteq> []"
  shows "case res of
      Inl e \<Rightarrow> devices_left w' = devices_left w
    | Inr data \<Rightarrow> md_loop_name data = loop \<and> md_mount_point data = mp \<and>
        (md_device_name data = dev \<or> md_device_name data = []) \<and>
        devices_left w' = (fst (devices_left w),
          (if md_device_name data = [] then {#} else {#md_device_name data#}) + snd (devices_left w))"
proof (cases "d_VerifyApexVerity d a (f_public_key a) (ax_os w)")
  case (Inr v)
  show ?thesis
    using assms mount_verity_devices [of d a v loop mp dev verify reuse w] mount_image_devices [of d a loop mp w]
    by (cases "devices_left w"; cases "fst (mount_verity d a v loop mp dev verify reuse w)";
        cases "fst (mount_image d a loop mp w)")
       (auto simp: mount_on_loop_def Inr Let_def or_return_def split_beta split: if_splits)
qed (use assms in \<open>auto simp: mount_on_loop_def\<close>)

lemma loop_attempts_devices:
  "loop_attempts d path off len n w = (res, w') \<Longrightarrow>
   case res of Inl e \<Rightarrow> devices_left w' = devices_left w
             | Inr loop \<Rightarrow> devices_left w' = (add_mset loop (fst (devices_left w)), snd (devices_left w)) \<and>
                 (\<exists>s. fst (d_CreateLoop d path off len s) = Inr loop)"
proof (induction d path off len n w rule: loop_attempts.induct)
  case (1 d path off len n w)
  define p where "p = sys (d_CreateLoop d path off len) w"
  have p: "devices_left (snd p) = devices_left w" by (simp add: p_def)
  have q: "p = (fst p, snd p)" by simp
  have first: "\<exists>s. fst (d_CreateLoop d path off len s) = fst p"
    by (rule exI [of _ "ax_os w"]) (simp add: p_def sys_def split: prod.split)
  show ?case
  proof (cases "fst p")
    case (Inl e)
    have rec: "loop_attempts d path off len n w = (if n \<le> 1 then (Inl (Caused ''create loop device'' [path] e), snd p)
        else loop_attempts d path off len (n - 1) (snd p))"
      using Inl by (subst loop_attempts.simps) (simp add: p_def split_beta)
    show ?thesis
      using "1.IH" [OF q [symmetric, unfolded p_def] Inl [unfolded p_def]] "1.prems" p
      by (cases "n \<le> 1"; cases res) (auto simp: rec p_def)
  next
    case (Inr loop)
    then have "loop_attempts d path off len n w = (Inr loop, record_call (Loop path loop) (snd p))"
      by (subst loop_attempts.simps) (simp add: p_def split_beta)
    then show ?thesis using "1.prems" p first Inr by (cases "devices_left w") auto
  qed
qed

lemma mount_in_dir_devices:
  assumes "mount_in_dir d a mp dev verify reuse w = (res, w')" and "dev \<noteq> []"
  shows "case res of
      Inl e \<Rightarrow> devices_left w' = devices_left w
    | Inr data \<Rightarrow> md_mount_point data = mp \<and> (md_device_name data = dev \<or> md_device_name data = []) \<and>
        (\<exists>path off len s. fst (d_CreateLoop d path off len s) = Inr (md_loop_name data)) \<and>
        devices_left w' = devices_of data (devices_left w)"
proof (cases "d_IsEmptyDirectory d mp (ax_os w) \<and> f_image_offset a \<noteq> None \<and> f_image_size a \<noteq> None")
  case True
  then obtain off len where len: "f_image_offset a = Some off" "f_image_size a = Some len" by auto
  obtain r1 w1 where loop: "loop_attempts d (f_path a) off len kLoopDeviceSetupAttempts w = (r1, w1)" by fastforce
  note left = loop_attempts_devices [OF loop]
  show ?thesis
  proof (cases r1)
    case (Inl e)
    then show ?thesis using True assms left by (auto simp: mount_in_dir_def len loop or_return_def)
  next
    case (Inr name)
    obtain r2 w2 where mount: "mount_on_loop d a mp dev verify reuse name w1 = (r2, w2)" by fastforce
    have "res = r2 \<and> w' = (case r2 of Inl e \<Rightarrow> drop_loop d name w2 | Inr _ \<Rightarrow> w2)"
      using True assms by (auto simp: mount_in_dir_def len loop or_return_def Inr mount)
    then show ?thesis
      using left Inr mount_on_loop_devices [OF mount assms(2)]
      by (cases "devices_left w"; cases r2) (auto simp: drop_loop_def devices_of_def)
  qed
qed (use assms in \<open>auto simp: mount_in_dir_def split: option.splits if_splits\<close>)

lemma mount_impl_devices:
  assumes "MountPackageImpl d a mp dev verify reuse w = (res, w')" and "dev \<noteq> []"
  shows "case res of
      Inl e \<Rightarrow> devices_left w' = devices_left w
    | Inr data \<Rightarrow> md_mount_point data = mp \<and> (md_device_name data = dev \<or> md_device_name data = []) \<and>
        (\<exists>path off len s. fst (d_CreateLoop d path off len s) = Inr (md_loop_name data)) \<and>
        devices_left w' = devices_of data (devices_left w)"
proof -
  define p where "p = (case a_PathExists (d_os d) mp (ax_os w) of Inl e \<Rightarrow> (1, w)
      | Inr found \<Rightarrow> if found then (0, w) else sys (d_mkdir d mp) w)"
  have p: "devices_left (snd p) = devices_left w" by (simp add: p_def split: sum.split)
  obtain r1 w1 where dir: "mount_in_dir d a mp dev verify reuse (snd p) = (r1, w1)" by fastforce
  have "isl res \<and> devices_left w' = devices_left w \<or>
      res = r1 \<and> w' = (case r1 of Inl e \<Rightarrow> snd (sys (d_rmdir d mp) w1) | Inr _ \<Rightarrow> w1)"
    using assms(1) dir by (auto simp: MountPackageImpl_def Let_def split_beta p_def split: if_splits sum.splits)
  then show ?thesis
    using mount_in_dir_devices [OF dir assms(2)] p by (cases res) (auto split: sum.splits)
qed

section \<open>Temporary mounts\<close>

text \<open>A system that unmounts and deletes what it is asked to, and whose loop devices have names.\<close>

definition unmounts :: "'s dev_os \<Rightarrow> bool" where
  "unmounts d \<longleftrightarrow> (\<forall>p x s. fst (d_umount2 d p x s) = 0) \<and> (\<forall>n x s. fst (d_DeleteDmDevice d n x s) = Inr ()) \<and>
     (\<forall>p off len s. fst (d_CreateLoop d p off len s) \<noteq> Inr [])"

lemma sys_fst: "fst (sys f w) = fst (f (ax_os w))"
  by (simp add: sys_def split: prod.split)

lemma unmount_devices:
  assumes "unmounts d" and "md_loop_name data \<noteq> []"
  shows "devices_left (snd (Unmount d data False w)) =
    (fst (devices_left w) - {#md_loop_name data#},
     snd (devices_left w) - (if md_device_name data = [] then {#} else {#md_device_name data#}))"
proof -
  have "fst (umount_call d p x w) = 0" for p x w using assms by (simp add: umount_call_def sys_fst unmounts_def)
  moreover have "fst (delete_dm d n x w) = Inr ()" for n x w using assms by (simp add: delete_dm_def sys_fst unmounts_def)
  ultimately show ?thesis
    using assms(2)
    by (cases "devices_left w")
       (auto simp: Unmount_def Let_def split_beta or_return_def delete_dm_def quiet_devices split: sum.split)
qed

lemma temp_mounts_devices:
  "temp_mounts d as ms w = (res, ms', w') \<Longrightarrow>
   \<exists>new. ms' = ms @ new \<and> devices_left w' = fold devices_of new (devices_left w) \<and>
     (\<forall>data \<in> set new. \<exists>path off len s. fst (d_CreateLoop d path off len s) = Inr (md_loop_name data))"
proof (induction as arbitrary: ms w)
  case (Cons a as)
  obtain r1 w1 where mount: "MountPackageImpl d a (GetPackageTempMountPoint d (f_manifest a))
      (d_GetPackageId d (f_manifest a) @ ''.tmp'') True False w = (r1, w1)" by fastforce
  note devs = mount_impl_devices [OF mount]
  show ?case
  proof (cases r1)
    case (Inl e)
    then show ?thesis using Cons.prems devs mount by auto
  next
    case (Inr data)
    then obtain new where "ms' = (ms @ [data]) @ new" "devices_left w' = fold devices_of new (devices_left w1)"
        "\<forall>data \<in> set new. \<exists>path off len s. fst (d_CreateLoop d path off len s) = Inr (md_loop_name data)"
      using Cons.IH [of "ms @ [data]" w1] Cons.prems mount by auto
    then show ?thesis using devs Inr by (intro exI [of _ "data # new"]) auto
  qed
qed simp

lemma unmount_all_devices:
  assumes "unmounts d" and "\<forall>data \<in> set ms. md_loop_name data \<noteq> []" and "devices_left w = fold devices_of ms LV"
  shows "devices_left (fold (\<lambda>data w. snd (Unmount d data False w)) ms w) = LV"
proof -
  have comm: "fold devices_of ms (devices_of data LV) = devices_of data (fold devices_of ms LV)" for ms data LV
  proof (induction ms arbitrary: LV)
    case (Cons m ms)
    have "devices_of m (devices_of data LV) = devices_of data (devices_of m LV)"
      by (simp add: devices_of_def add_mset_commute)
    then show ?case using Cons.IH [of "devices_of m LV"] by simp
  qed simp
  show ?thesis
    using assms(2,3)
  proof (induction ms arbitrary: w)
    case (Cons data ms)
    have "devices_left (snd (Unmount d data False w)) = fold devices_of ms LV"
    proof -
      have "devices_left w = devices_of data (fold devices_of ms LV)" using Cons.prems comm [of ms data LV] by simp
      then show ?thesis
        using Cons.prems unmount_devices [OF assms(1), of data w]
        by (cases "fold devices_of ms LV") (simp add: devices_of_def [of data])
    qed
    with Cons show ?case by simp
  qed simp
qed

lemma temp_mounts_clean:
  assumes "unmounts d" and "\<And>mps w. devices_left (snd (fn mps w)) = devices_left w"
  shows "devices_left (snd (RunVerifyFnInsideTempMounts d as fn w)) = devices_left w"
proof -
  obtain r1 ms w1 where mounts: "temp_mounts d as [] w = (r1, ms, w1)" by (metis prod_cases3)
  obtain new where new: "ms = new" "devices_left w1 = fold devices_of new (devices_left w)"
      "\<forall>data \<in> set new. \<exists>path off len s. fst (d_CreateLoop d path off len s) = Inr (md_loop_name data)"
    using temp_mounts_devices [OF mounts] by auto
  have names: "\<forall>data \<in> set ms. md_loop_name data \<noteq> []"
    using new(1,3) assms(1) by (fastforce simp: unmounts_def)
  define w2 where "w2 = (case r1 of Inl e \<Rightarrow> w1
      | Inr _ \<Rightarrow> snd (fn (map (\<lambda>a. GetPackageTempMountPoint d (f_manifest a)) as) w1))"
  have "devices_left w2 = fold devices_of ms (devices_left w)"
    using new assms(2) by (simp add: w2_def split: sum.split)
  then have "devices_left (fold (\<lambda>data w. snd (Unmount d data False w)) ms w2) = devices_left w"
    by (rule unmount_all_devices [OF assms(1) names])
  moreover have "snd (RunVerifyFnInsideTempMounts d as fn w) = fold (\<lambda>data w. snd (Unmount d data False w)) ms w2"
    by (simp add: RunVerifyFnInsideTempMounts_def mounts Let_def split_beta w2_def split: sum.split)
  ultimately show ?thesis by simp
qed

end
