(* ===== verification/Apexd_Correct.thy ===== *)
theory Apexd_Correct
  imports Apexd_Devices
begin

text \<open>
  Properties of the APEX daemon (\<open>apexd.cpp\<close>) that rest on the frame, worker, trust and device theories:
  activation by workers, devices after a mount and after temporary mounts, the minor number of an
  installation, and what a start-up mounts.
\<close>

section \<open>Workers\<close>









section \<open>Devices\<close>


lemma validate_shim_devices:
  "unmounts d \<Longrightarrow> devices_left (snd (ValidateStagingShimApex d a w)) = devices_left w"
  by (auto simp: ValidateStagingShimApex_def RunVerifyFnInsideTempMount_def split: sum.split intro!: temp_mounts_clean)

lemma verify_boot_devices: "unmounts d \<Longrightarrow> devices_left (snd (VerifyPackageBoot d a w)) = devices_left w"
  by (simp add: VerifyPackageBoot_def or_return_def split_beta validate_shim_devices split: sum.split)

lemma verify_staged_devices:
  assumes "unmounts (s_dev k)"
  shows "devices_left (snd (VerifyPackagesStagedInstall k as w)) = devices_left w"
proof -
  have one: "devices_left (snd (or_return (VerifyPackageBoot (s_dev k) a w)
      (\<lambda>_ w. if enable_brand_new_apex (ax_repo w) then (s_VerifyBrandNewActive k a (ax_os w), w) else (Inr (), w)))) =
      devices_left w" for a w
    by (simp add: or_return_def split_beta verify_boot_devices [OF assms] split: sum.split)
  show ?thesis
    unfolding VerifyPackagesStagedInstall_def Let_def
    by (intro devs.or_return_kept devs.res_fold_kept) (auto simp: one verify_boot_devices [OF assms] temp_mounts_clean [OF assms])
qed

text \<open>
  C32 (apex_temporary_mounts): on a system that unmounts and deletes what it is asked to, submitting a
  session, verifying a package for an installation and deriving a class path, which all mount packages for
  a while, leave exactly the loop and verity devices that they found, whether they succeed or not.
\<close>

theorem apex_temporary_mounts:
  assumes "unmounts (b_dev b)"
  shows "devices_left (snd (SubmitStagedSession (b_ses b) i ids rollback_enabled is_rollback rollback_id w)) = devices_left w \<and>
    devices_left (snd (VerifyPackageNonStagedInstall b a force w)) = devices_left w \<and>
    devices_left (snd (MountAndDeriveClassPath b as w)) = devices_left w"
proof (intro conjI)
  show "devices_left (snd (SubmitStagedSession (b_ses b) i ids rollback_enabled is_rollback rollback_id w)) = devices_left w"
    unfolding SubmitStagedSession_def Let_def
    by (auto intro!: devs.or_return_kept devs.backup_kept devs.fold_kept simp: verify_staged_devices [OF assms])
  show "devices_left (snd (VerifyPackageNonStagedInstall b a force w)) = devices_left w"
    unfolding VerifyPackageNonStagedInstall_def RunVerifyFnInsideTempMount_def
    by (auto intro!: devs.or_return_kept simp: verify_boot_devices [OF assms] temp_mounts_clean [OF assms])
  show "devices_left (snd (MountAndDeriveClassPath b as w)) = devices_left w"
    by (simp add: MountAndDeriveClassPath_def temp_mounts_clean [OF assms])
qed

section \<open>The minor number of an installation\<close>

text \<open>The minor that a device name of the package carries.\<close>

definition device_minor :: "'s act_os \<Rightarrow> string \<Rightarrow> string \<Rightarrow> nat option" where
  "device_minor b n dev =
     (case ConsumePrefix (a_lb (b_os b)) dev n of
        None \<Rightarrow> None
      | Some rest \<Rightarrow>
          (case rfind_char (CHR ''_'') rest of
             None \<Rightarrow> None | Some pos \<Rightarrow> s_ParseUint (b_ses b) (drop (Suc pos) rest) (2 ^ 64 - 1)))"

lemma scan_minors_bounds:
  assumes "scan_minors b n devs c m = Inr (c', m')" and "\<forall>dev \<in> set devs. \<forall>k. device_minor b n dev = Some k \<longrightarrow> k < j"
    and "j < 2 ^ 64" and "m \<le> j"
  shows "m \<le> m' \<and> m' \<le> j \<and> (\<forall>dev \<in> set devs. \<forall>k. device_minor b n dev = Some k \<longrightarrow> k < m')"
  using assms
proof (induction devs arbitrary: c m)
  case (Cons dev devs)
  show ?case
  proof (cases "device_minor b n dev")
    case None
    have "\<exists>c1. scan_minors b n devs c1 m = Inr (c', m')"
      using Cons.prems(1) None by (auto simp: device_minor_def split: option.splits)
    then show ?thesis using Cons None by auto
  next
    case (Some k)
    have k: "k < j" "(k + 1) mod 2 ^ 64 = k + 1" using Cons.prems(2,3) Some by auto
    have rest: "scan_minors b n devs (Suc c) (if m < k + 1 then k + 1 else m) = Inr (c', m')"
      using Cons.prems(1) Some k(2) by (auto simp: device_minor_def Let_def split: option.splits)
    have "(if m < k + 1 then k + 1 else m) \<le> m' \<and> m' \<le> j \<and>
        (\<forall>dev \<in> set devs. \<forall>k. device_minor b n dev = Some k \<longrightarrow> k < m')"
      by (rule Cons.IH [OF rest]) (use Cons.prems(2-4) k in auto)
    then show ?thesis using Some by (auto split: if_splits)
  qed
qed simp

lemma minor_loop_finds:
  assumes "m \<le> j" and "j < 2 ^ 64" and "a_access (b_os b) (minor_path b a j) s \<noteq> 0"
  shows "\<exists>m'. minor_loop b a s m = Some m' \<and> m \<le> m' \<and> m' \<le> j \<and> a_access (b_os b) (minor_path b a m') s \<noteq> 0"
  using assms(1)
proof (induction "j - m" arbitrary: m)
  case 0
  then have "m = j" by simp
  then show ?case using assms(3) by (subst minor_loop.simps) simp
next
  case (Suc k)
  show ?case
  proof (cases "a_access (b_os b) (minor_path b a m) s = 0")
    case True
    have next_eq: "minor_loop b a s m = minor_loop b a s (m + 1)"
      using True Suc.hyps(2) assms(2) by (subst minor_loop.simps) simp
    have "k = j - (m + 1)" "m + 1 \<le> j" using Suc.hyps(2) by simp_all
    from Suc.hyps(1) [OF this] show ?thesis unfolding next_eq by auto
  qed (use Suc.prems in \<open>subst minor_loop.simps, auto\<close>)
qed

text \<open>
  C33 (apex_install_minor): when some 64-bit number above every minor of the package's devices has no package
  file yet, looking for the minor of a new installation ends, with a number from 1 up to that one that has
  no package file and is above the minor of every device of the package, unless a device name cannot be
  parsed or there are too many devices.
\<close>

theorem apex_install_minor:
  assumes "b_dm_devices b (ax_os w) = Some devs" and "1 \<le> j" and "j < 2 ^ 64"
    and "\<forall>dev \<in> set devs. \<forall>k. device_minor b (f_name a) dev = Some k \<longrightarrow> k < j"
    and "a_access (b_os b) (minor_path b a j) (ax_os w) \<noteq> 0"
  shows "\<exists>res. ComputePackageIdMinor b a w = Some res \<and>
    (case res of
       Inl e \<Rightarrow> (\<forall>c m. scan_minors b (f_name a) devs 0 1 = Inr (c, m) \<longrightarrow> kMaxVerityDevicesPerApexName < c)
     | Inr m \<Rightarrow> 1 \<le> m \<and> m \<le> j \<and> a_access (b_os b) (minor_path b a m) (ax_os w) \<noteq> 0 \<and>
         (\<forall>dev \<in> set devs. \<forall>k. device_minor b (f_name a) dev = Some k \<longrightarrow> k < m))"
proof (cases "scan_minors b (f_name a) devs 0 1")
  case (Inr cm)
  obtain c m where cm: "cm = (c, m)" by (cases cm)
  have bounds: "1 \<le> m \<and> m \<le> j \<and> (\<forall>dev \<in> set devs. \<forall>k. device_minor b (f_name a) dev = Some k \<longrightarrow> k < m)"
    by (rule scan_minors_bounds [OF Inr [unfolded cm] assms(4,3,2)])
  then obtain m' where m': "minor_loop b a (ax_os w) m = Some m'" "m \<le> m'" "m' \<le> j"
      "a_access (b_os b) (minor_path b a m') (ax_os w) \<noteq> 0"
    using minor_loop_finds [OF _ assms(3,5)] by blast
  have res: "ComputePackageIdMinor b a w =
      (if kMaxVerityDevicesPerApexName < c
       then Some (Inl (Failure ''too many dm devices'' [dec c, f_name a])) else Some (Inr m'))"
    by (simp add: ComputePackageIdMinor_def assms(1) Inr cm m'(1) del: One_nat_def)
  show ?thesis unfolding res using bounds m' Inr cm by fastforce
qed (simp add: ComputePackageIdMinor_def assms(1))

section \<open>The small device, with its daemon\<close>

definition toy_config :: ApexdConfig where
  "toy_config =
     \<lparr>cfg_apex_status_sysprop = ''st'', cfg_builtin_dirs = [(System, ''/s'')],
      cfg_active_apex_data_dir = ''/d'', cfg_decompression_dir = ''/e'', cfg_ota_reserved_dir = ''/o'',
      cfg_staged_session_dir = ''/t'', cfg_vm_payload_metadata_partition_prop = ''vm'',
      cfg_active_apex_selinux_ctx = ''u'', cfg_early_vm = False\<rparr>"

definition toy_id :: "ApexManifest \<Rightarrow> string" where
  "toy_id m = m_name m @ ''@'' @ to_string (m_version m)"

definition toy_verity :: "ApexFile \<Rightarrow> ApexVerityData" where
  "toy_verity a =
     \<lparr>v_dm_verity_version = 1, v_image_size = 4096, v_tree_offset = 4096, v_data_block_size = 4096,
      v_hash_block_size = 4096, v_hash_algorithm = ''sha256'', v_root_digest = f_path a, v_salt = []\<rparr>"

definition toy_dev :: "((string \<times> ApexFile) list) dev_os" where
  "toy_dev =
     \<lparr>d_os = toy_os (\<lambda>k. []), d_config = toy_config, d_mkdir = (\<lambda>p s. (0, s)), d_rmdir = (\<lambda>p s. (0, s)),
      d_IsEmptyDirectory = (\<lambda>p s. True), d_CreateLoop = (\<lambda>p off len s. (Inr (''L'' @ p), s)),
      d_drop_loop = (\<lambda>n s. s), d_keep_loop = (\<lambda>n s. s),
      d_VerifyApexVerity = (\<lambda>a key s. if key = f_public_key a then Inr (toy_verity a) else Inl (Failure ''key'' [])),
      d_CreateDmDevice = (\<lambda>n t x s. (Inr (''D'' @ n), s)), d_drop_dm = (\<lambda>n s. s),
      d_ConfigureReadAhead = (\<lambda>p s. (Inr (), s)), d_open = (\<lambda>p s. (3, s)), d_ReadFully = (\<lambda>fd n s. (True, s)),
      d_close = (\<lambda>fd s. s), d_mount = (\<lambda>src p fs f s. (0, s)), d_umount2 = (\<lambda>p x s. (0, s)),
      d_BindMount = (\<lambda>p q s. (Inr (), s)),
      d_ReadManifest = (\<lambda>p s. case find (\<lambda>e. prefix (''/apex/'' @ toy_id (f_manifest (snd e))) p) s of
                                None \<Rightarrow> Inl (Failure ''manifest'' []) | Some e \<Rightarrow> Inr (f_manifest (snd e))),
      d_IsShimApex = (\<lambda>a. False), d_SystemShimApexName = ''shim'', d_ValidateShimApex = (\<lambda>p a s. Inr ()),
      d_ValidateUpdate = (\<lambda>p q s. Inr ()), d_DeleteDmDevice = (\<lambda>n x s. (Inr (), s)),
      d_DestroyLoopDevice = (\<lambda>n s. s), d_GetPackageId = toy_id, d_mounted = (\<lambda>s. []),
      d_mounted_of = (\<lambda>n s. []), d_AddMountedApex = (\<lambda>n x s. s), d_RemoveMountedApex = (\<lambda>n p s. s),
      d_is_latest = (\<lambda>n p s. True), d_GetLatestMountedApex = (\<lambda>n s. None)\<rparr>"

definition toy_ses :: "((string \<times> ApexFile) list) ses_os" where
  "toy_ses =
     \<lparr>s_dev = toy_dev, s_GetSessions = (\<lambda>s. []), s_GetSession = (\<lambda>i s. Inl (Failure ''session'' [])),
      s_CreateSession = (\<lambda>i s. (Inr \<lparr>ses_id = i, ses_state = UNKNOWN, ses_child_ids = [], ses_build_fingerprint = [],
         ses_has_rollback_enabled = False, ses_is_rollback = False, ses_rollback_id = 0, ses_apex_names = [],
         ses_file_hashes = [], ses_error_message = None, ses_crashing_native_process = []\<rparr>, s)),
      s_GetSessionsInState = (\<lambda>st s. []), s_UpdateStateAndCommit = (\<lambda>st x s. (Inr (), s)),
      s_DeleteSession = (\<lambda>x s. (Inr (), s)), s_DeleteFinalizedSessions = (\<lambda>s. s), s_IsFinalized = (\<lambda>x. True),
      s_GetStagedApexDirs = (\<lambda>x d. []), s_unlink = (\<lambda>p s. (0, s)), s_link = (\<lambda>p q s. (0, s)),
      s_rename = (\<lambda>p q s. (0, s)), s_stat_mode = (\<lambda>p s. Some 0), s_chmod = (\<lambda>p m s. (0, s)),
      s_CreateDirIfNeeded = (\<lambda>p m s. (Inr (), s)), s_DeleteDirContent = (\<lambda>p s. (Inr (), s)),
      s_DeleteDir = (\<lambda>p s. (Inr (), s)), s_ReplaceFiles = (\<lambda>p q s. (Inr (), s)),
      s_RestoreconPath = (\<lambda>p s. (Inr (), s)), s_GetDeUserDirs = (\<lambda>s. Inr []), s_GetSubdirs = (\<lambda>p s. Inr []),
      s_ParseUint = (\<lambda>p m. None), s_CheckVintf = (\<lambda>as ps s. Inr ()), s_VerifyBrandNewActive = (\<lambda>a s. Inr ()),
      s_file_hashes = (\<lambda>as. []), s_getflags = (\<lambda>fd s. None), s_release_blocks = (\<lambda>fd s. s),
      s_AbortChanges = (\<lambda>s. (Inr (), s)), s_reboot = (\<lambda>s. s)\<rparr>"

definition toy_act :: "((string \<times> ApexFile) list) act_os" where
  "toy_act =
     \<lparr>b_ses = toy_ses, b_SetProperty = (\<lambda>k v s. (True, s)), b_GetBoolProperty = (\<lambda>k d s. d),
      b_activation_threads = (\<lambda>s. 2), b_schedule = (\<lambda>s. [1, 0, 1]), b_dir = (\<lambda>p s. ([], None)),
      b_create_directory = (\<lambda>p s. (Inr (), s)), b_create_symlink = (\<lambda>p q s. (Inr (), s)),
      b_GetFileSize = (\<lambda>p s. Inr 0), b_PreAllocateLoopDevices = (\<lambda>n s. s), b_CreatePlaceholderDevice = (\<lambda>n s. s),
      b_PopulateFromMounts = (\<lambda>ps s. s), b_SupportsFsCheckpoints = (\<lambda>s. Inr False), b_NeedsCheckpoint = (\<lambda>s. Inr False),
      b_NeedsRollback = (\<lambda>s. Inr False), b_RemoveFileIfExists = (\<lambda>p s. s), b_Decompress = (\<lambda>a p s. (Inr (), s)),
      b_GetfileconPath = (\<lambda>p s. Inr ''u''), b_dm_devices = (\<lambda>s. Some []), b_dm_suspended = (\<lambda>n s. False),
      b_open_write = (\<lambda>p s. (4, s)), b_WriteStringToFd = (\<lambda>fd x s. (True, s)), b_info_xml = (\<lambda>xs. []),
      b_bind_file = (\<lambda>p q s. (0, s)), b_stat_mtime = (\<lambda>p s. None), b_resize_file = (\<lambda>p n s. (Inr (), s)),
      b_posix_fallocate = (\<lambda>fd n s. (0, s)), b_DeriveClassPath = (\<lambda>ps s. Inr [])\<rparr>"


definition toy_x1 :: ApexFile where
  "toy_x1 = toy_apex ''/d/x1.apex'' ''x'' 3 ''K''"

definition toy_files :: "(string \<times> ApexFile) list" where
  "toy_files = [(''/s/x.apex'', toy_apex ''/s/x.apex'' ''x'' 1 ''K''), (''/d/x1.apex'', toy_x1)]"

definition toy_state :: "apex_call list \<Rightarrow> ApexFileRepository \<Rightarrow> ((string \<times> ApexFile) list) apexd" where
  "toy_state cs r =
     \<lparr>ax_os = toy_files, ax_calls = cs, ax_repo = r, gChangedActiveApexes = [],
      gSupportsFsCheckpoints = False, gInFsCheckpointMode = False\<rparr>"

definition toy_repo :: ApexFileRepository where
  "toy_repo = toy_scanned\<lparr>data_store := [(''x'', toy_x1)]\<rparr>"









lemma toy_quiet:
  "GetSessionsInState toy_ses st w = []" "s_GetSessions toy_ses s = []" "b_ses toy_act = toy_ses"
  "gSupportsFsCheckpoints (toy_state cs r) = False" "ax_repo (toy_state cs r) = r" "ax_calls (toy_state cs r) = cs"
  "cfg_active_apex_data_dir (d_config (s_dev toy_ses)) = ''/d''"
  by (simp_all add: GetSessionsInState_def toy_act_def toy_ses_def toy_dev_def toy_config_def toy_state_def)




section \<open>What a start-up mounts\<close>




lemma toy_unmounts: "unmounts (b_dev toy_act)"
  by (simp add: unmounts_def toy_act_def toy_ses_def toy_dev_def)

theorem apex_temporary_mounts_witness:
  "devices_left (snd (SubmitStagedSession toy_ses 7 [] False False 0 (toy_state [Loop ''p'' ''l''] toy_repo))) = ({#''l''#}, {#})"
  using apex_temporary_mounts [OF toy_unmounts, of 7 "[]" False False 0 "toy_state [Loop ''p'' ''l''] toy_repo"]
  by (simp add: toy_quiet(3) devices_left_def [of "toy_state [Loop ''p'' ''l''] toy_repo"] toy_quiet(6))

theorem apex_install_minor_witness:
  "\<exists>res. ComputePackageIdMinor (toy_act\<lparr>b_dm_devices := \<lambda>s. Some [''x@3'']\<rparr>) toy_x1 (toy_state [] toy_repo) = Some res"
proof -
  let ?b = "toy_act\<lparr>b_dm_devices := \<lambda>s. Some [''x@3'']\<rparr>"
  have devs: "b_dm_devices ?b (ax_os (toy_state [] toy_repo)) = Some [''x@3'']" by simp
  have none: "device_minor ?b (f_name toy_x1) ''x@3'' = None" by code_simp
  have free: "a_access (b_os ?b) (minor_path ?b toy_x1 1) (ax_os (toy_state [] toy_repo)) \<noteq> 0" by code_simp
  show ?thesis using apex_install_minor [OF devs, of 1 toy_x1] none free by auto
qed

end
