(* ===== verification/Cuttlefish.thy ===== *)
theory Cuttlefish
  imports Libbase "HOL-Library.AList" "HOL-Library.List_Lexorder" "HOL-Library.Char_ord"
begin

text \<open>
  Host tools that assemble a virtual device: merging target files into a super image
  (\<open>cf_super_image_mixer.cc\<close>), the environment of the boot loader (\<open>cf_boot_config.cc\<close>), the physical
  partitions of a build (\<open>pp.cc\<close>) and the partitions of the composite disk (\<open>acdc.cc\<close>).  Archives, files, the
  image tools, the configuration and the functions of other modules are fields of the records \<open>cvd_os\<close>,
  \<open>Instance\<close> and \<open>AndroidBuild\<close>.  The string functions of abseil have the shape of those of \<open>Libbase\<close> and are a
  record of that type.  The imports that a property file names are only logged and are left out.
\<close>

section \<open>The system below\<close>

text \<open>An error keeps the message and the values it shows.\<close>

datatype cf_error = CfError string "string list"

type_synonym MiscInfo = "(string \<times> string) list"

text \<open>The sources of a file that the code tells apart.\<close>

datatype FileSource = DEFAULT_BUILD | SYSTEM_BUILD | OTHER_SOURCE

record CvdFile =
  cv_source :: FileSource
  cv_build_id :: string

text \<open>The files of a fetched build, by path, in the order of the paths.\<close>

type_synonym FetcherConfig = "(string \<times> CvdFile) list"

datatype BootFlow = Flow_Android | Flow_AndroidEfiLoader | Flow_ChromeOs | Flow_ChromeOsDisk | Flow_Fuchsia | Flow_Linux

record Instance =
  in_default_target_zip :: string
  in_system_target_zip :: string
  in_new_super_image :: string
  in_new_vbmeta_image :: string
  in_PerInstanceInternalPath :: "string \<Rightarrow> string"
  in_PerInstancePath :: "string \<Rightarrow> string"
  in_pause_in_bootloader :: bool
  in_boot_slot :: string
  in_bootconfig_supported :: bool
  in_boot_flow :: BootFlow
  in_ap_boot_flow_is_grub :: bool
  in_ap_uboot_env_image_path :: string
  in_init_boot_image :: string
  in_new_data_image :: string
  in_vbmeta_system_image :: string
  in_new_vbmeta_system_dlkm_image :: string
  in_new_vbmeta_vendor_dlkm_image :: string
  in_new_vendor_boot_image :: string
  in_vvmtruststore_path :: string
  in_super_image :: string
  in_vbmeta_image :: string
  in_vbmeta_vendor_dlkm_image :: string
  in_vbmeta_system_dlkm_image :: string
  in_data_image :: string
  in_instance_dir :: string
  in_custom_partition_path :: string
  in_system_image_dir :: string
  in_build_super_image :: "(cf_error, bool) result"

record VbmetaArgs =
  va_algorithm :: string
  va_key_path :: string
  va_chained_partitions :: "string list"
  va_included_partitions :: "string list"
  va_extra_arguments :: "string list"

text \<open>
  \<open>c_write\<close> opens a file, writes it and tells whether the stream is good.  \<open>c_KernelCommandLine\<close> and
  \<open>c_BootconfigArgs\<close> are the arguments of the configuration and the instance, the latter an unordered map
  listed in the order in which it is iterated.
\<close>

record 's cvd_os =
  c_absl :: libbase
  c_StrReplaceAll :: "string \<Rightarrow> (string \<times> string) list \<Rightarrow> string"
  c_ArchiveContents :: "string \<Rightarrow> 's \<Rightarrow> string list"
  c_ExtractArchiveToMemory :: "string \<Rightarrow> string \<Rightarrow> 's \<Rightarrow> string"
  c_ExtractImage :: "string \<Rightarrow> string \<Rightarrow> string \<Rightarrow> 's \<Rightarrow> (cf_error, unit) result \<times> 's"
  c_ParseKeyEqualsValue :: "string \<Rightarrow> (cf_error, MiscInfo) result"
  c_GetCombinedDynamicPartitions :: "MiscInfo \<Rightarrow> MiscInfo \<Rightarrow> string set \<Rightarrow> (cf_error, MiscInfo) result"
  c_MergeMiscInfos :: "MiscInfo \<Rightarrow> MiscInfo \<Rightarrow> MiscInfo \<Rightarrow> string list \<Rightarrow> (cf_error, MiscInfo) result"
  c_WriteKeyEqualsValue :: "MiscInfo \<Rightarrow> string \<Rightarrow> 's \<Rightarrow> (cf_error, unit) result \<times> 's"
  c_GetVbmetaArgs :: "MiscInfo \<Rightarrow> string \<Rightarrow> (cf_error, VbmetaArgs) result"
  c_MakeVbMetaImage :: "VbmetaArgs \<Rightarrow> string \<Rightarrow> 's \<Rightarrow> (cf_error, unit) result \<times> 's"
  c_EnsureDirectoryExists :: "string \<Rightarrow> 's \<Rightarrow> (cf_error, unit) result \<times> 's"
  c_DefaultHostArtifactsPath :: "string \<Rightarrow> string"
  c_HostBinaryPath :: "string \<Rightarrow> string"
  c_FileExists :: "string \<Rightarrow> 's \<Rightarrow> bool"
  c_Execute :: "string list \<Rightarrow> 's \<Rightarrow> int \<times> 's"
  c_AbsolutePath :: "string \<Rightarrow> string"
  c_write :: "string \<Rightarrow> string \<Rightarrow> 's \<Rightarrow> bool \<times> 's"
  c_ReadFile :: "string \<Rightarrow> 's \<Rightarrow> string"
  c_RenameFile :: "string \<Rightarrow> string \<Rightarrow> 's \<Rightarrow> (cf_error, unit) result \<times> 's"
  c_RemoveFile :: "string \<Rightarrow> 's \<Rightarrow> (cf_error, unit) result \<times> 's"
  c_KernelCommandLine :: "string list"
  c_BootconfigArgs :: "(cf_error, (string \<times> string) list) result"
  c_BootconfigArgsString :: "(string \<times> string) list \<Rightarrow> string \<Rightarrow> (cf_error, string) result"
  c_MkenvimageSlim :: "string \<Rightarrow> string \<Rightarrow> 's \<Rightarrow> (cf_error, unit) result \<times> 's"
  c_AddHashFooter :: "string \<Rightarrow> string \<Rightarrow> nat \<Rightarrow> 's \<Rightarrow> (cf_error, unit) result \<times> 's"
  c_AlignToPowerOf2 :: "nat \<Rightarrow> nat \<Rightarrow> nat"
  c_kMaxAvbMetadataSize :: nat
  c_PARTITION_SIZE_SHIFT :: nat
  c_FileSize :: "string \<Rightarrow> 's \<Rightarrow> int"
  c_write_super :: "int \<Rightarrow> (string \<times> string) list \<Rightarrow> (string \<times> string) list \<Rightarrow> string \<Rightarrow> string \<Rightarrow> string \<Rightarrow> 's \<Rightarrow> (cf_error, string) result \<times> 's"

type_synonym ('s, 'a) tool = "'s \<Rightarrow> (cf_error, 'a) result \<times> 's"

definition expect :: "bool \<Rightarrow> string \<Rightarrow> string list \<Rightarrow> ('s, unit) tool" where
  "expect ok message args s = (if ok then Inr () else Inl (CfError message args), s)"

section \<open>Target files\<close>

definition kMiscInfoPath :: string where "kMiscInfoPath = ''META/misc_info.txt''"
definition kDynamicPartitionsPath :: string where "kDynamicPartitionsPath = ''META/dynamic_partitions_info.txt''"

definition kVendorTargetImages :: "string list" where
  "kVendorTargetImages =
     [''IMAGES/boot.img'', ''IMAGES/dtbo.img'', ''IMAGES/init_boot.img'', ''IMAGES/odm.img'',
      ''IMAGES/odm_dlkm.img'', ''IMAGES/pvmfw.img'', ''IMAGES/recovery.img'', ''IMAGES/system_dlkm.img'',
      ''IMAGES/userdata.img'', ''IMAGES/vbmeta.img'', ''IMAGES/vbmeta_system_dlkm.img'',
      ''IMAGES/vbmeta_vendor.img'', ''IMAGES/vbmeta_vendor_dlkm.img'', ''IMAGES/vendor.img'',
      ''IMAGES/vendor_boot.img'', ''IMAGES/vendor_dlkm.img'', ''IMAGES/vendor_kernel_boot.img'']"

definition kVendorTargetBuildProps :: "string list" where
  "kVendorTargetBuildProps =
     [''ODM/build.prop'', ''ODM/etc/build.prop'', ''VENDOR/build.prop'', ''VENDOR/etc/build.prop'']"

record RebuildPaths =
  rp_vendor_target_zip :: string
  rp_system_target_zip :: string
  rp_combined_target_zip :: string
  rp_super_image_output :: string
  rp_vbmeta_image_output :: string

record TargetFiles =
  tf_vendor_zip :: string
  tf_system_zip :: string
  tf_vendor_contents :: "string list"
  tf_system_contents :: "string list"

record Extracted =
  ex_images :: "string set"
  ex_system_partitions :: "string list"

definition IsTargetFilesImage :: "libbase \<Rightarrow> string \<Rightarrow> bool" where
  "IsTargetFilesImage lb filename \<longleftrightarrow> StartsWith lb filename ''IMAGES/'' \<and> EndsWith lb filename ''.img''"

definition IsTargetFilesBuildProp :: "libbase \<Rightarrow> string \<Rightarrow> bool" where
  "IsTargetFilesBuildProp lb filename \<longleftrightarrow> EndsWith lb filename ''build.prop''"

definition GetPartitionNameFromPath :: "libbase \<Rightarrow> string \<Rightarrow> (cf_error, string) result" where
  "GetPartitionNameFromPath lb path =
     (case ConsumePrefix lb path ''IMAGES/'' of
        None \<Rightarrow> Inl (CfError ''target_files filepath expected to be in the IMAGES directory'' [path])
      | Some rest \<Rightarrow>
          (case ConsumeSuffix lb rest ''.img'' of
             None \<Rightarrow> Inl (CfError ''target_files filepath expected to be a .img file'' [path])
           | Some name \<Rightarrow> Inr name))"

definition GetTargetFiles :: "'s cvd_os \<Rightarrow> string \<Rightarrow> string \<Rightarrow> ('s, TargetFiles) tool" where
  "GetTargetFiles c vendor_zip_path system_zip_path s =
     (let result = \<lparr>tf_vendor_zip = vendor_zip_path, tf_system_zip = system_zip_path,
                    tf_vendor_contents = c_ArchiveContents c vendor_zip_path s,
                    tf_system_contents = c_ArchiveContents c system_zip_path s\<rparr>
      in or_return (expect (tf_vendor_contents result \<noteq> []) ''Could not open'' [vendor_zip_path] s)
           (\<lambda>_ s. or_return (expect (tf_system_contents result \<noteq> []) ''Could not open'' [system_zip_path] s)
              (\<lambda>_ s. (Inr result, s))))"

definition read_info :: "'s cvd_os \<Rightarrow> string \<Rightarrow> string \<Rightarrow> ('s, MiscInfo) tool" where
  "read_info c archive name s = (c_ParseKeyEqualsValue c (c_ExtractArchiveToMemory c archive name s), s)"

definition both_contain :: "TargetFiles \<Rightarrow> string \<Rightarrow> ('s, unit) tool" where
  "both_contain tf name s =
     or_return (expect (name \<in> set (tf_vendor_contents tf)) ''Vendor target files zip does not contain'' [name] s)
       (\<lambda>_. expect (name \<in> set (tf_system_contents tf)) ''System target files zip does not contain'' [name])"

definition CombineDynamicPartitionsInfo :: "'s cvd_os \<Rightarrow> TargetFiles \<Rightarrow> string set \<Rightarrow> ('s, MiscInfo) tool" where
  "CombineDynamicPartitionsInfo c tf extracted_images s =
     or_return (both_contain tf kDynamicPartitionsPath s)
       (\<lambda>_ s. or_return (read_info c (tf_vendor_zip tf) kDynamicPartitionsPath s)
          (\<lambda>vendor_dp_info s. or_return (read_info c (tf_system_zip tf) kDynamicPartitionsPath s)
             (\<lambda>system_dp_info s. (c_GetCombinedDynamicPartitions c vendor_dp_info system_dp_info extracted_images, s))))"

definition CombineMiscInfo ::
  "'s cvd_os \<Rightarrow> TargetFiles \<Rightarrow> string \<Rightarrow> string set \<Rightarrow> string list \<Rightarrow> ('s, MiscInfo) tool" where
  "CombineMiscInfo c tf misc_output_path extracted_images system_partitions s =
     or_return (both_contain tf kMiscInfoPath s)
       (\<lambda>_ s. or_return (read_info c (tf_vendor_zip tf) kMiscInfoPath s)
          (\<lambda>vendor_misc s. or_return (read_info c (tf_system_zip tf) kMiscInfoPath s)
             (\<lambda>system_misc s. or_return (CombineDynamicPartitionsInfo c tf extracted_images s)
                (\<lambda>combined_dp_info s.
                   or_return (c_MergeMiscInfos c vendor_misc system_misc combined_dp_info system_partitions, s)
                     (\<lambda>output_misc s. or_return (c_WriteKeyEqualsValue c output_misc misc_output_path s)
                        (\<lambda>_ s. (Inr output_misc, s)))))))"

text \<open>
  The four loops of the extraction: \<open>extract_images\<close> for the images of an archive, which gives the names of
  their partitions in order, and \<open>extract_props\<close> for the property files.  \<open>wanted\<close> is the test of the loop.
\<close>

fun extract_images ::
  "'s cvd_os \<Rightarrow> string \<Rightarrow> string \<Rightarrow> (string \<Rightarrow> bool) \<Rightarrow> string list \<Rightarrow> ('s, string list) tool" where
  "extract_images c archive out wanted [] s = (Inr [], s)"
| "extract_images c archive out wanted (name # names) s =
     (if IsTargetFilesImage (c_absl c) name \<and> wanted name then
        or_return (c_ExtractImage c archive out name s)
          (\<lambda>_ s. or_return (GetPartitionNameFromPath (c_absl c) name, s)
             (\<lambda>part s. or_return (extract_images c archive out wanted names s)
                (\<lambda>parts s. (Inr (part # parts), s))))
      else extract_images c archive out wanted names s)"

definition extract_props ::
  "'s cvd_os \<Rightarrow> string \<Rightarrow> string \<Rightarrow> (string \<Rightarrow> bool) \<Rightarrow> string list \<Rightarrow> ('s, unit) tool" where
  "extract_props c archive out wanted names =
     res_fold (\<lambda>name s. if IsTargetFilesBuildProp (c_absl c) name \<and> wanted name
                        then c_ExtractImage c archive out name s else (Inr (), s)) names"

definition ExtractTargetFiles :: "'s cvd_os \<Rightarrow> TargetFiles \<Rightarrow> string \<Rightarrow> ('s, Extracted) tool" where
  "ExtractTargetFiles c tf out s =
     or_return (extract_images c (tf_vendor_zip tf) out (\<lambda>n. n \<in> set kVendorTargetImages) (tf_vendor_contents tf) s)
       (\<lambda>vendor_images s.
          or_return (extract_props c (tf_vendor_zip tf) out (\<lambda>n. n \<in> set kVendorTargetBuildProps) (tf_vendor_contents tf) s)
            (\<lambda>_ s. or_return (extract_images c (tf_system_zip tf) out (\<lambda>n. n \<notin> set kVendorTargetImages)
                                (tf_system_contents tf) s)
               (\<lambda>system_images s.
                  or_return (extract_props c (tf_system_zip tf) out (\<lambda>n. n \<notin> set kVendorTargetBuildProps)
                               (tf_system_contents tf) s)
                    (\<lambda>_ s. (Inr \<lparr>ex_images = set vendor_images \<union> set system_images,
                                ex_system_partitions = system_images\<rparr>, s)))))"

definition RegenerateVbmeta :: "'s cvd_os \<Rightarrow> MiscInfo \<Rightarrow> string \<Rightarrow> string \<Rightarrow> ('s, unit) tool" where
  "RegenerateVbmeta c misc_info output_path image_path s =
     or_return (c_GetVbmetaArgs c misc_info image_path, s) (\<lambda>args. c_MakeVbMetaImage c args output_path)"

definition CombineTargetZipFiles :: "'s cvd_os \<Rightarrow> RebuildPaths \<Rightarrow> ('s, unit) tool" where
  "CombineTargetZipFiles c paths s =
     (let out = rp_combined_target_zip paths
      in or_return (c_EnsureDirectoryExists c out s)
        (\<lambda>_ s. or_return (c_EnsureDirectoryExists c (out @ ''/META'') s)
          (\<lambda>_ s. or_return (GetTargetFiles c (rp_vendor_target_zip paths) (rp_system_target_zip paths) s)
            (\<lambda>tf s. or_return (ExtractTargetFiles c tf out s)
              (\<lambda>extracted s. or_return (CombineMiscInfo c tf (out @ ''/'' @ kMiscInfoPath) (ex_images extracted)
                                          (ex_system_partitions extracted) s)
                 (\<lambda>combined_info. RegenerateVbmeta c combined_info (rp_vbmeta_image_output paths) out))))))"

definition BuildSuperImage :: "'s cvd_os \<Rightarrow> string \<Rightarrow> string \<Rightarrow> 's \<Rightarrow> bool \<times> 's" where
  "BuildSuperImage c combined_target_zip output_path s =
     (let binary = c_HostBinaryPath c ''build_super_image''
      in if \<not> c_FileExists c binary s then (False, s)
         else
           (let (rc, s) = c_Execute c [binary, ''--path='' @ c_DefaultHostArtifactsPath c [],
                                       combined_target_zip, output_path] s
            in (rc = 0, s)))"

definition TargetFilesZip :: "FetcherConfig \<Rightarrow> FileSource \<Rightarrow> string" where
  "TargetFilesZip fetcher_config source =
     (case find (\<lambda>(path, info). cv_source info = source \<and> find_str (''target_files-'' @ cv_build_id info) path \<noteq> None)
             fetcher_config of
        None \<Rightarrow> [] | Some (path, info) \<Rightarrow> path)"

definition unset :: "string \<Rightarrow> bool" where
  "unset archive \<longleftrightarrow> archive = [] \<or> archive = ''unset''"

definition GetRebuildPaths :: "FetcherConfig \<Rightarrow> Instance \<Rightarrow> (cf_error, RebuildPaths) result" where
  "GetRebuildPaths fetcher_config inst =
     (let paths = (\<lambda>default_target_zip system_target_zip.
             \<lparr>rp_vendor_target_zip = default_target_zip, rp_system_target_zip = system_target_zip,
              rp_combined_target_zip = in_PerInstanceInternalPath inst ''target_combined'',
              rp_super_image_output = in_new_super_image inst, rp_vbmeta_image_output = in_new_vbmeta_image inst\<rparr>)
      in if unset (in_default_target_zip inst) then
           (let default_target_zip = TargetFilesZip fetcher_config DEFAULT_BUILD;
                system_target_zip = TargetFilesZip fetcher_config SYSTEM_BUILD
            in if default_target_zip = [] then Inl (CfError ''Unable to find default target zip file.'' [])
               else if system_target_zip = [] then Inl (CfError ''Unable to find system target zip file.'' [])
               else Inr (paths default_target_zip system_target_zip))
         else Inr (paths (in_default_target_zip inst) (in_system_target_zip inst)))"

definition RebuildSuperImage :: "'s cvd_os \<Rightarrow> RebuildPaths \<Rightarrow> ('s, unit) tool" where
  "RebuildSuperImage c paths s =
     or_return (CombineTargetZipFiles c paths s)
       (\<lambda>_ s. let (ok, s) = BuildSuperImage c (rp_combined_target_zip paths) (rp_super_image_output paths) s
              in expect ok ''Could not write the final output super image.'' [] s)"

definition SuperImageNeedsRebuilding :: "FetcherConfig \<Rightarrow> string \<Rightarrow> string \<Rightarrow> (cf_error, bool) result" where
  "SuperImageNeedsRebuilding fetcher_config default_target_zip system_target_zip =
     (let has_default_target_zip = (\<not> unset default_target_zip);
          has_system_target_zip = (\<not> unset system_target_zip)
      in if has_default_target_zip \<noteq> has_system_target_zip
         then Inl (CfError ''default_target_zip and system_target_zip flags must be specified together'' [])
         else if has_default_target_zip then Inr True
         else Inr ((\<exists>f \<in> set fetcher_config. cv_source (snd f) = DEFAULT_BUILD) \<and>
                   (\<exists>f \<in> set fetcher_config. cv_source (snd f) = SYSTEM_BUILD)))"

definition RebuildSuperImageIfNecessary :: "'s cvd_os \<Rightarrow> FetcherConfig \<Rightarrow> Instance \<Rightarrow> ('s, unit) tool" where
  "RebuildSuperImageIfNecessary c fetcher_config inst s =
     or_return (SuperImageNeedsRebuilding fetcher_config (in_default_target_zip inst) (in_system_target_zip inst), s)
       (\<lambda>needed s. if \<not> needed then (Inr (), s)
                   else or_return (GetRebuildPaths fetcher_config inst, s) (RebuildSuperImage c))"

section \<open>The environment of the boot loader\<close>

definition kUbootPrimaryEth :: string where "kUbootPrimaryEth = ''eth1''"

definition quoted :: "string \<Rightarrow> string" where
  "quoted s = [CHR 0x22] @ s @ [CHR 0x22]"

definition kUbootBootEsp :: string where
  "kUbootBootEsp =
     concat (map (\<lambda>l. l @ [CHR 0x0A])
       [[],
        ''part list virtio 0 PART_LIST;'',
        ''for PART_NUM in $PART_LIST; do'',
        ''  part type virtio 0:$PART_NUM PART_TYPE;'',
        ''  if test $PART_TYPE = '' @ quoted ''c12a7328-f81f-11d2-ba4b-00a0c93ec93b'' @ ''; then'',
        ''    echo '' @ quoted ''Found ESP. Attempting to boot from virtio 0:$PART_NUM'' @ '';'',
        ''    load virtio 0:$PART_NUM ${loadaddr} efi/boot/bootaa64.efi && bootefi ${loadaddr} ${fdtcontroladdr};'',
        ''    load virtio 0:$PART_NUM ${loadaddr} efi/boot/bootx64.efi && bootefi ${loadaddr} ${fdtcontroladdr};'',
        ''    load virtio 0:$PART_NUM ${loadaddr} efi/boot/bootriscv64.efi && bootefi ${loadaddr} ${fdtcontroladdr};'',
        ''  fi;'',
        ''done;''])"

definition WritePausedEntrypoint :: "string \<Rightarrow> Instance \<Rightarrow> string" where
  "WritePausedEntrypoint entrypoint inst =
     (if in_pause_in_bootloader inst
      then ''if test $paused -ne 1; then paused=1; else '' @ entrypoint @ ''; fi'' else entrypoint) @ [CHR 0x00]"

definition WriteAndroidEnvironment :: "Instance \<Rightarrow> string" where
  "WriteAndroidEnvironment inst =
     WritePausedEntrypoint
       (''bcb load virtio 0 misc; '' @ ''if bcb test command = boot-quiescent; then '' @
        ''setenv bootargs '' @ quoted ''$bootargs androidboot.quiescent=1'' @ ''; '' @
        ''bcb clear command; bcb store; '' @ ''fi; '' @ ''run bootcmd_android'') inst @
     (if in_boot_slot inst \<noteq> [] then ''android_slot_suffix=_'' @ in_boot_slot inst @ [CHR 0x00] else []) @
     [CHR 0x00]"

definition boot_environment :: "Instance \<Rightarrow> BootFlow \<Rightarrow> string \<Rightarrow> string" where
  "boot_environment inst flow kernel_args =
     ''ethprime='' @ kUbootPrimaryEth @ [CHR 0x00] @
     ''uenvcmd=setenv bootargs '' @
     quoted (if kernel_args \<noteq> [] then ''$cbootargs '' @ kernel_args else ''$cbootargs'') @ '' && '' @
     (case flow of
        Flow_Android \<Rightarrow> WriteAndroidEnvironment inst
      | _ \<Rightarrow> WritePausedEntrypoint kUbootBootEsp inst)"

definition WriteEnvironment :: "'s cvd_os \<Rightarrow> Instance \<Rightarrow> BootFlow \<Rightarrow> string \<Rightarrow> string \<Rightarrow> 's \<Rightarrow> nat \<times> 's" where
  "WriteEnvironment c inst flow kernel_args env_path s =
     (let env_str = boot_environment inst flow kernel_args;
          (good, s) = c_write c env_path env_str s
      in (if good then length env_str else 0, s))"

definition ReplaceKernelBootArgs :: "'s cvd_os \<Rightarrow> (string \<times> string) list \<Rightarrow> (string \<times> string) list" where
  "ReplaceKernelBootArgs c args =
     fold (\<lambda>(k, v). AList.update (c_StrReplaceAll c k [('' kernel.'', '' '')]) v) args []"

definition rename_hardware :: "(string \<times> string) list \<Rightarrow> (string \<times> string) list" where
  "rename_hardware args =
     (case map_of args ''hardware'' of
        None \<Rightarrow> args
      | Some v \<Rightarrow> AList.delete ''hardware'' (AList.update ''androidboot.hardware'' v args))"

text \<open>The kernel command line, with the boot configuration when the guest kernel cannot read it.\<close>

definition boot_command_line :: "'s cvd_os \<Rightarrow> Instance \<Rightarrow> (cf_error, string) result" where
  "boot_command_line c inst =
     (let kernel_cmdline = Join (c_absl c) (c_KernelCommandLine c) '' ''
      in if in_bootconfig_supported inst then Inr kernel_cmdline
         else case c_BootconfigArgs c of
                Inl e \<Rightarrow> Inl e
              | Inr args \<Rightarrow>
                  (case c_BootconfigArgsString c (ReplaceKernelBootArgs c (rename_hardware args)) '' '' of
                     Inl e \<Rightarrow> Inl e
                   | Inr text \<Rightarrow> Inr (kernel_cmdline @ '' '' @ text)))"

text \<open>The new image takes the place of the old one only if it differs; otherwise it is removed.\<close>

definition install_env :: "'s cvd_os \<Rightarrow> string \<Rightarrow> string \<Rightarrow> ('s, unit) tool" where
  "install_env c tmp image_path s =
     (if \<not> c_FileExists c image_path s \<or> c_ReadFile c image_path s \<noteq> c_ReadFile c tmp s
      then c_RenameFile c tmp image_path s
      else (Inr (), snd (c_RemoveFile c tmp s)))"

definition PrepareBootEnvImage :: "'s cvd_os \<Rightarrow> Instance \<Rightarrow> string \<Rightarrow> BootFlow \<Rightarrow> ('s, unit) tool" where
  "PrepareBootEnvImage c inst image_path flow s =
     (let tmp = image_path @ ''.tmp'';
          uboot_env_path = in_PerInstancePath inst ''mkenvimg_input''
      in or_return (boot_command_line c inst, s)
        (\<lambda>kernel_cmdline s.
           let (len, s) = WriteEnvironment c inst flow kernel_cmdline uboot_env_path s
           in or_return (expect (len \<noteq> 0) ''Unable to write out plaintext env'' [uboot_env_path] s)
                (\<lambda>_ s. or_return (c_MkenvimageSlim c uboot_env_path tmp s)
                   (\<lambda>_ s. or_return (c_AddHashFooter c tmp ''uboot_env''
                                       (c_AlignToPowerOf2 c (c_kMaxAvbMetadataSize c + 4096) (c_PARTITION_SIZE_SHIFT c)) s)
                      (\<lambda>_. install_env c tmp image_path)))))"

definition BootloaderEnvPartition_Create :: "'s cvd_os \<Rightarrow> Instance \<Rightarrow> ('s, string) tool" where
  "BootloaderEnvPartition_Create c inst s =
     (let path = c_AbsolutePath c (in_PerInstancePath inst ''uboot_env.img'')
      in or_return (PrepareBootEnvImage c inst path (in_boot_flow inst) s) (\<lambda>_ s. (Inr path, s)))"

definition ApBootloaderEnvPartition_Create :: "'s cvd_os \<Rightarrow> Instance \<Rightarrow> ('s, bool) tool" where
  "ApBootloaderEnvPartition_Create c inst s =
     (if \<not> in_ap_boot_flow_is_grub inst then (Inr False, s)
      else or_return (PrepareBootEnvImage c inst (in_ap_uboot_env_image_path inst) Flow_Linux s)
             (\<lambda>_ s. (Inr True, s)))"

section \<open>Physical partitions\<close>

text \<open>The interface of a build, whose answers may change the system (an image may be extracted).\<close>

record 's AndroidBuild =
  ab_Images :: "('s, string set) tool"
  ab_LogicalPartitions :: "('s, string set) tool"
  ab_PhysicalPartitions :: "('s, string set) tool"
  ab_SystemPartitions :: "('s, string set) tool"
  ab_VendorPartitions :: "('s, string set) tool"
  ab_ImageFile :: "string \<Rightarrow> ('s, string) tool"

definition known_logical :: "string set" where
  "known_logical =
     {''odm'', ''odm_dlkm'', ''product'', ''system'', ''system_dlkm'', ''system_ext'', ''vendor'', ''vendor_dlkm''}"

definition physical_of :: "string set \<Rightarrow> string set \<Rightarrow> string set" where
  "physical_of images logical =
     (let partitions = images - logical
      in if ''super_empty'' \<in> partitions then insert ''super'' (partitions - {''super_empty''}) else partitions)"

definition PhysicalPartitions :: "'s AndroidBuild \<Rightarrow> ('s, string set) tool" where
  "PhysicalPartitions build s =
     (case ab_PhysicalPartitions build s of
        (Inr res, s) \<Rightarrow> (Inr res, s)
      | (Inl e, s) \<Rightarrow>
          or_return (ab_Images build s)
            (\<lambda>images s.
               let (res, s) = ab_LogicalPartitions build s;
                   logical = (case res of Inr l \<Rightarrow> l | Inl e \<Rightarrow> if ''super'' \<in> images then known_logical else {})
               in (Inr (physical_of images logical), s)))"

section \<open>The composite disk\<close>

datatype GptPartitionType = kLinuxFilesystem | kEfiSystemPartition

text \<open>A partition whose type the code does not set has the default of the type.\<close>

record ImagePartition =
  ip_label :: string
  ip_image_file_path :: string
  ip_type :: "GptPartitionType option"

definition ab_partitions :: "string set" where
  "ab_partitions =
     {''boot'', ''init_boot'', ''pvmfw'', ''vbmeta'', ''vbmeta_system'', ''vbmeta_system_dlkm'',
      ''vbmeta_vendor_dlkm'', ''vendor_boot''}"

definition optional_partitions :: "string set" where
  "optional_partitions =
     {''android_esp'', ''init_boot'', ''vbmeta_vendor_dlkm'', ''vbmeta_system_dlkm'', ''hibernation'', ''vvmtruststore''}"

definition efi_partitions :: "string set" where
  "efi_partitions = {''android_esp''}"

definition instance_paths :: "Instance \<Rightarrow> (string \<times> string) list" where
  "instance_paths inst =
     [(''android_esp'', []), (''init_boot'', in_init_boot_image inst), (''metadata'', []), (''misc'', []),
      (''super'', in_new_super_image inst), (''userdata'', in_new_data_image inst),
      (''vbmeta'', in_new_vbmeta_image inst), (''vbmeta_system'', in_vbmeta_system_image inst),
      (''vbmeta_system_dlkm'', in_new_vbmeta_system_dlkm_image inst),
      (''vbmeta_vendor_dlkm'', in_new_vbmeta_vendor_dlkm_image inst),
      (''vendor_boot'', in_new_vendor_boot_image inst), (''vvmtruststore'', in_vvmtruststore_path inst)]"

definition fallback_paths :: "Instance \<Rightarrow> (string \<times> string) list" where
  "fallback_paths inst =
     [(''super'', in_super_image inst), (''vbmeta'', in_vbmeta_image inst),
      (''vbmeta_vendor_dlkm'', in_vbmeta_vendor_dlkm_image inst),
      (''vbmeta_system_dlkm'', in_vbmeta_system_dlkm_image inst), (''userdata'', in_data_image inst)]"

text \<open>\<open>try_emplace\<close> keeps the entries of an ordered map that are there.\<close>

definition try_emplace :: "string \<Rightarrow> string \<Rightarrow> (string \<times> string) list \<Rightarrow> (string \<times> string) list" where
  "try_emplace k v m = (if k \<in> fst ` set m then m else insort_key fst (k, v) m)"

fun add_physical :: "'s AndroidBuild \<Rightarrow> string list \<Rightarrow> (string \<times> string) list \<Rightarrow> ('s, (string \<times> string) list) tool" where
  "add_physical build [] m s = (Inr m, s)"
| "add_physical build (p # ps) m s =
     or_return (ab_ImageFile build p s) (\<lambda>path. add_physical build ps (try_emplace p path m))"

definition primary_paths :: "'s AndroidBuild \<Rightarrow> Instance \<Rightarrow> ('s, (string \<times> string) list) tool" where
  "primary_paths build inst s =
     or_return (ab_PhysicalPartitions build s)
       (\<lambda>physical. add_physical build (sorted_list_of_set physical) (instance_paths inst))"

text \<open>The image files that were made for this device, each with the action that gives its path.\<close>

fun dynamic_paths :: "(string \<times> ('s, string) tool) list \<Rightarrow> (string \<times> string) list \<Rightarrow> ('s, (string \<times> string) list) tool" where
  "dynamic_paths [] m s = (Inr m, s)"
| "dynamic_paths ((name, get_path) # files) m s =
     or_return (get_path s)
       (\<lambda>path s. if name \<in> fst ` set m then (Inl (CfError ''Duplicate images for'' [name]), s)
                 else dynamic_paths files (m @ [(name, path)]) s)"

fun super_parts ::
  "'s AndroidBuild \<Rightarrow> string set \<Rightarrow> string list \<Rightarrow> (string \<times> string) list \<times> (string \<times> string) list \<Rightarrow>
   ('s, (string \<times> string) list \<times> (string \<times> string) list) tool" where
  "super_parts build system [] parts s = (Inr parts, s)"
| "super_parts build system (p # ps) parts s =
     or_return (ab_ImageFile build p s)
       (\<lambda>path. super_parts build system ps
          (if p \<in> system then (fst parts @ [(p, path)], snd parts) else (fst parts, snd parts @ [(p, path)])))"

definition build_super :: "'s cvd_os \<Rightarrow> 's AndroidBuild \<Rightarrow> Instance \<Rightarrow> ('s, string) tool" where
  "build_super c build inst s =
     or_return (ab_ImageFile build ''super'' s)
       (\<lambda>super_from_build s.
          let block_device_size = c_FileSize c super_from_build s
          in or_return (ab_SystemPartitions build s)
            (\<lambda>system s. or_return (ab_VendorPartitions build s)
              (\<lambda>vendor s. or_return (ab_LogicalPartitions build s)
                (\<lambda>logical s. or_return (super_parts build system (sorted_list_of_set logical) ([], []) s)
                  (\<lambda>(sys_parts, vendor_parts).
                     c_write_super c block_device_size sys_parts vendor_parts (in_instance_dir inst)
                       ''super_composite.img'' ''super_header.img'')))))"

text \<open>The image of one partition, \<open>None\<close> when an optional one is left out.\<close>

definition image_used ::
  "'s cvd_os \<Rightarrow> 's AndroidBuild \<Rightarrow> Instance \<Rightarrow> bool \<Rightarrow> (string \<times> string) list \<Rightarrow> string \<Rightarrow> string \<Rightarrow> ('s, string option) tool" where
  "image_used c build inst make_super dynamic part path s =
     (if part = ''super'' \<and> make_super
      then or_return (build_super c build inst s) (\<lambda>p s. (Inr (Some p), s))
      else (case map_of dynamic part of
              Some p \<Rightarrow> Inr (Some p)
            | None \<Rightarrow>
                if c_FileExists c path s then Inr (Some path)
                else (case map_of (fallback_paths inst) part of
                        Some p \<Rightarrow>
                          if c_FileExists c p s then Inr (Some p)
                          else if part \<in> optional_partitions then Inr None
                          else Inl (CfError ''Could not find file for partition'' [part])
                      | None \<Rightarrow>
                          if part \<in> optional_partitions then Inr None
                          else Inl (CfError ''Could not find file for partition'' [part])), s))"

definition partition_labels :: "string \<Rightarrow> string list" where
  "partition_labels part =
     (if part \<in> ab_partitions then [part @ ''_a'', part @ ''_b''] else [part])"

definition partition_entries :: "'s cvd_os \<Rightarrow> string \<Rightarrow> string \<Rightarrow> ImagePartition list" where
  "partition_entries c part path_used =
     map (\<lambda>label. \<lparr>ip_label = label, ip_image_file_path = c_AbsolutePath c path_used,
                   ip_type = Some (if part \<in> efi_partitions then kEfiSystemPartition else kLinuxFilesystem)\<rparr>)
       (partition_labels part)"

fun disk_partitions ::
  "'s cvd_os \<Rightarrow> 's AndroidBuild \<Rightarrow> Instance \<Rightarrow> bool \<Rightarrow> (string \<times> string) list \<Rightarrow> (string \<times> string) list \<Rightarrow> ('s, ImagePartition list) tool" where
  "disk_partitions c build inst make_super dynamic [] s = (Inr [], s)"
| "disk_partitions c build inst make_super dynamic ((part, path) # rest) s =
     or_return (image_used c build inst make_super dynamic part path s)
       (\<lambda>used s. or_return (disk_partitions c build inst make_super dynamic rest s)
          (\<lambda>entries s. (Inr ((case used of None \<Rightarrow> [] | Some p \<Rightarrow> partition_entries c part p) @ entries), s)))"

definition HibernationImage :: "'s cvd_os \<Rightarrow> Instance \<Rightarrow> 's \<Rightarrow> ImagePartition list" where
  "HibernationImage c inst s =
     (let path = c_AbsolutePath c (in_system_image_dir inst @ ''/hibernation_swap.img'')
      in if c_FileExists c path s
         then [\<lparr>ip_label = ''hibernation'', ip_image_file_path = path, ip_type = None\<rparr>] else [])"

definition custom_entries :: "'s cvd_os \<Rightarrow> Instance \<Rightarrow> ImagePartition list" where
  "custom_entries c inst =
     (if in_custom_partition_path inst = [] then []
      else map (\<lambda>(i, p). \<lparr>ip_label = (if 0 < i then ''custom_'' @ dec i else ''custom''),
                          ip_image_file_path = c_AbsolutePath c p, ip_type = None\<rparr>)
             (enumerate 0 (Split (c_absl c) (in_custom_partition_path inst) '';'')))"

definition AndroidCompositeDiskConfig ::
  "'s cvd_os \<Rightarrow> 's AndroidBuild \<Rightarrow> Instance \<Rightarrow> (string \<times> ('s, string) tool) list \<Rightarrow> ('s, ImagePartition list) tool" where
  "AndroidCompositeDiskConfig c build inst image_files s =
     or_return (primary_paths build inst s)
       (\<lambda>primary s. or_return (dynamic_paths image_files [] s)
          (\<lambda>dynamic s. or_return (in_build_super_image inst, s)
             (\<lambda>make_super s. or_return (disk_partitions c build inst make_super dynamic primary s)
                (\<lambda>entries s. (Inr (entries @ HibernationImage c inst s @ custom_entries c inst), s)))))"

end
