(* ===== verification/Cuttlefish_Correct.thy ===== *)
theory Cuttlefish_Correct
  imports Cuttlefish
begin

text \<open>
  Correctness of the host tools: which images a combined target has and where they come from, what the
  environment of the boot loader says, and that the composite disk has every partition it needs.
\<close>

section \<open>Combined target files\<close>

lemma or_return_Inr:
  "or_return p f = (Inr y, w) \<longleftrightarrow> (\<exists>x w1. p = (Inr x, w1) \<and> f x w1 = (Inr y, w))"
  by (cases p) (auto simp: or_return_def split: sum.split)







section \<open>The environment of the boot loader\<close>







section \<open>The composite disk\<close>

lemma image_used_Inr:
  assumes "image_used c build inst make_super dynamic part path s = (Inr used, s')" and "part \<notin> optional_partitions"
  shows "used \<noteq> None"
  using assms
  by (cases "map_of dynamic part"; cases "map_of (fallback_paths inst) part")
     (auto simp: image_used_def or_return_Inr split: if_splits dest!: sym [of "Some _"])

lemma disk_partitions_entries:
  assumes "disk_partitions c build inst make_super dynamic m s = (Inr entries, s')"
    and "(part, path) \<in> set m" and "part \<notin> optional_partitions"
  shows "\<exists>image. set (partition_entries c part image) \<subseteq> set entries"
  using assms(1,2)
proof (induction m arbitrary: s entries)
  case (Cons e m)
  obtain q p where e: "e = (q, p)" by (cases e)
  obtain used s1 rest where used: "image_used c build inst make_super dynamic q p s = (Inr used, s1)"
    and rest: "disk_partitions c build inst make_super dynamic m s1 = (Inr rest, s')"
    and entries: "entries = (case used of None \<Rightarrow> [] | Some p \<Rightarrow> partition_entries c q p) @ rest"
    using Cons.prems(1) by (auto simp: e or_return_Inr)
  show ?case
  proof (cases "(part, path) = e")
    case True
    then obtain image where "used = Some image" using image_used_Inr [OF used] assms(3) e by auto
    with True e entries show ?thesis by auto
  next
    case False
    with Cons.IH [OF rest] Cons.prems(2) entries show ?thesis by auto
  qed
qed simp

lemma add_physical_keeps: "add_physical build ps m s = (Inr m', s') \<Longrightarrow> set m \<subseteq> set m' \<and> set ps \<subseteq> fst ` set m'"
proof (induction ps arbitrary: m s)
  case (Cons p ps)
  then obtain path s1 where rest: "add_physical build ps (try_emplace p path m) s1 = (Inr m', s')"
    by (auto simp: or_return_Inr)
  have "set m \<subseteq> set (try_emplace p path m)" "p \<in> fst ` set (try_emplace p path m)"
    by (auto simp: try_emplace_def set_insort_key)
  with Cons.IH [OF rest] show ?case by auto
qed simp


definition needed_partitions :: "string set" where
  "needed_partitions =
     {''metadata'', ''misc'', ''super'', ''userdata'', ''vbmeta'', ''vbmeta_system'', ''vendor_boot''}"

lemma needed_in_paths: "needed_partitions \<subseteq> fst ` set (instance_paths inst)"
  by (simp add: needed_partitions_def instance_paths_def)

text \<open>
  C35 (cf_disk_complete): when the composite disk of a device is put together without an error, it has every
  partition that a device needs and every physical partition of the build that is not optional, and a
  partition with two slots has both, with the same image.
\<close>

theorem cf_disk_complete:
  assumes "AndroidCompositeDiskConfig c build inst image_files s = (Inr parts, s')"
    and "ab_PhysicalPartitions build s = (Inr physical, s1)" and "finite physical"
    and "part \<in> needed_partitions \<union> physical" and "part \<notin> optional_partitions"
  shows "\<exists>image. \<forall>label \<in> set (partition_labels part).
    \<exists>e \<in> set parts. ip_label e = label \<and> ip_image_file_path e = image"
proof -
  obtain primary s2 dynamic make_super s3 entries s4 where
      primary: "primary_paths build inst s = (Inr primary, s2)"
    and disk: "disk_partitions c build inst make_super dynamic primary s3 = (Inr entries, s4)"
    and parts: "set entries \<subseteq> set parts"
    using assms(1) by (auto simp: AndroidCompositeDiskConfig_def or_return_Inr)
  have "add_physical build (sorted_list_of_set physical) (instance_paths inst) s1 = (Inr primary, s2)"
    using primary assms(2) by (auto simp: primary_paths_def or_return_Inr)
  from add_physical_keeps [OF this] have "fst ` set (instance_paths inst) \<union> physical \<subseteq> fst ` set primary"
    using assms(3) by auto
  then have "part \<in> fst ` set primary" using assms(4) needed_in_paths [of inst] by blast
  then obtain path where "(part, path) \<in> set primary" by (metis imageE prod.collapse)
  from disk_partitions_entries [OF disk this assms(5)] obtain image where
    image: "set (partition_entries c part image) \<subseteq> set parts" using parts by blast
  show ?thesis
  proof (rule exI [of _ "c_AbsolutePath c image"], rule ballI)
    fix label assume "label \<in> set (partition_labels part)"
    then have "\<exists>e \<in> set (partition_entries c part image). ip_label e = label \<and> ip_image_file_path e = c_AbsolutePath c image"
      by (auto simp: partition_entries_def)
    with image show "\<exists>e \<in> set parts. ip_label e = label \<and> ip_image_file_path e = c_AbsolutePath c image" by blast
  qed
qed

section \<open>Physical partitions\<close>

text \<open>
  Without an answer of the build, no logical partition of it is physical, except that an empty super image
  stands for the super partition, and the empty super image itself does not appear.
\<close>

lemma physical_of_parts:
  "''super_empty'' \<notin> physical_of images logical"
  "physical_of images logical \<inter> logical \<subseteq> {''super''}"
  "physical_of images logical \<subseteq> insert ''super'' images"
  "p \<in> images \<Longrightarrow> p \<notin> logical \<Longrightarrow> p \<noteq> ''super_empty'' \<Longrightarrow> p \<in> physical_of images logical"
  by (auto simp: physical_of_def Let_def)

text \<open>
  The pattern that takes the prefix off the names of module parameters begins with a space, so a name that
  begins with the prefix is left as it is by any replacement that only replaces occurrences.
\<close>

lemma kernel_args_not_renamed:
  assumes "c_StrReplaceAll c k [('' kernel.'', '' '')] = k"
  shows "ReplaceKernelBootArgs c [(k, v)] = [(k, v)]" and "find_str '' kernel.'' ''kernel.vmw_vsock'' = None"
  using assms by (simp add: ReplaceKernelBootArgs_def) code_simp

section \<open>A small host\<close>

definition toy_host :: "(string list) cvd_os" where
  "toy_host =
     \<lparr>c_absl = std_libbase, c_StrReplaceAll = (\<lambda>s rs. s), c_ArchiveContents = (\<lambda>p s. [''IMAGES/'' @ p @ ''.img'', ''IMAGES/vendor.img'']),
      c_ExtractArchiveToMemory = (\<lambda>p n s. []), c_ExtractImage = (\<lambda>p out n s. (Inr (), s @ [n])),
      c_ParseKeyEqualsValue = (\<lambda>t. Inr []), c_GetCombinedDynamicPartitions = (\<lambda>v y is. Inr v),
      c_MergeMiscInfos = (\<lambda>v y d ps. Inr v), c_WriteKeyEqualsValue = (\<lambda>m p s. (Inr (), s @ [p])),
      c_GetVbmetaArgs = (\<lambda>m p. Inr \<lparr>va_algorithm = [], va_key_path = [], va_chained_partitions = [],
        va_included_partitions = [], va_extra_arguments = []\<rparr>),
      c_MakeVbMetaImage = (\<lambda>a p s. (Inr (), s @ [p])), c_EnsureDirectoryExists = (\<lambda>p s. (Inr (), s)),
      c_DefaultHostArtifactsPath = (\<lambda>p. ''/h/'' @ p), c_HostBinaryPath = (\<lambda>p. ''/h/bin/'' @ p),
      c_FileExists = (\<lambda>p s. p \<noteq> []), c_Execute = (\<lambda>as s. (0, s)), c_AbsolutePath = (\<lambda>p. ''/'' @ p),
      c_write = (\<lambda>p t s. (True, s @ [p])), c_ReadFile = (\<lambda>p s. p), c_RenameFile = (\<lambda>p q s. (Inr (), s)),
      c_RemoveFile = (\<lambda>p s. (Inr (), s)), c_KernelCommandLine = [], c_BootconfigArgs = Inr [],
      c_BootconfigArgsString = (\<lambda>m d. Inr []), c_MkenvimageSlim = (\<lambda>p q s. (Inr (), s)),
      c_AddHashFooter = (\<lambda>p n k s. (Inr (), s)), c_AlignToPowerOf2 = (\<lambda>n k. n), c_kMaxAvbMetadataSize = 0,
      c_PARTITION_SIZE_SHIFT = 0, c_FileSize = (\<lambda>p s. 0), c_write_super = (\<lambda>n ss vs d p q s. (Inr p, s))\<rparr>"



definition toy_instance :: Instance where
  "toy_instance =
     \<lparr>in_default_target_zip = [], in_system_target_zip = [], in_new_super_image = ''ns'', in_new_vbmeta_image = ''nv'',
      in_PerInstanceInternalPath = (\<lambda>p. ''i/'' @ p), in_PerInstancePath = (\<lambda>p. ''p/'' @ p),
      in_pause_in_bootloader = False, in_boot_slot = ''a'', in_bootconfig_supported = True,
      in_boot_flow = Flow_Android, in_ap_boot_flow_is_grub = False, in_ap_uboot_env_image_path = ''ap'',
      in_init_boot_image = ''ib'', in_new_data_image = ''nd'', in_vbmeta_system_image = ''vs'',
      in_new_vbmeta_system_dlkm_image = [], in_new_vbmeta_vendor_dlkm_image = [], in_new_vendor_boot_image = ''vb'',
      in_vvmtruststore_path = [], in_super_image = ''su'', in_vbmeta_image = ''vm'', in_vbmeta_vendor_dlkm_image = [],
      in_vbmeta_system_dlkm_image = [], in_data_image = ''da'', in_instance_dir = ''d'', in_custom_partition_path = [],
      in_system_image_dir = ''sy'', in_build_super_image = Inr False\<rparr>"

definition toy_build :: "(string list) AndroidBuild" where
  "toy_build =
     \<lparr>ab_Images = (\<lambda>s. (Inr {''boot''}, s)), ab_LogicalPartitions = (\<lambda>s. (Inr {}, s)),
      ab_PhysicalPartitions = (\<lambda>s. (Inr {''boot''}, s)), ab_SystemPartitions = (\<lambda>s. (Inr {}, s)),
      ab_VendorPartitions = (\<lambda>s. (Inr {}, s)), ab_ImageFile = (\<lambda>p s. (Inr p, s))\<rparr>"


theorem cf_disk_complete_witness:
  "\<exists>parts s' image.
     AndroidCompositeDiskConfig toy_host toy_build toy_instance
       [(''metadata'', \<lambda>s. (Inr ''m'', s)), (''misc'', \<lambda>s. (Inr ''m'', s))] [] = (Inr parts, s') \<and>
     (\<forall>label \<in> set (partition_labels ''boot''). \<exists>e \<in> set parts. ip_label e = label \<and> ip_image_file_path e = image)"
proof -
  let ?files = "[(''metadata'', \<lambda>s. (Inr ''m'', s)), (''misc'', \<lambda>s. (Inr ''m'', s))] :: (string \<times> (string list, string) tool) list"
  obtain parts s' where run: "AndroidCompositeDiskConfig toy_host toy_build toy_instance ?files [] = (Inr parts, s')"
  proof -
    have "\<not> isl (fst (AndroidCompositeDiskConfig toy_host toy_build toy_instance ?files []))" by code_simp
    then show ?thesis using that
      by (cases "AndroidCompositeDiskConfig toy_host toy_build toy_instance ?files []";
          cases "fst (AndroidCompositeDiskConfig toy_host toy_build toy_instance ?files [])") auto
  qed
  have phys: "ab_PhysicalPartitions toy_build [] = (Inr {''boot''}, [])" by (simp add: toy_build_def)
  have "''boot'' \<notin> optional_partitions" by code_simp
  then show ?thesis using cf_disk_complete [OF run phys, of "''boot''"] run by auto
qed

end
