(* ===== verification/Adbd.thy ===== *)
theory Adbd
  imports Libbase
begin

text \<open>
  Start-up of the debug bridge daemon (\<open>adbd_main.cpp\<close>): which privileges it keeps, whether it asks for
  authentication, and where it listens.  The state has the globals of the file and the sequence of the calls
  that the program makes; the record \<open>adbd_env\<close> has the properties, the results of system calls, of minijail
  and of libcap, and the functions of other modules.  Tracing is left out.
\<close>

section \<open>State\<close>

datatype cap_flag = CAP_INHERITABLE | CAP_EFFECTIVE | CAP_PERMITTED
datatype capability = CAP_SETUID | CAP_SETGID | CAP_SYS_NICE
datatype adb_group =
    AID_ADB | AID_LOG | AID_INPUT | AID_INET | AID_NET_BT | AID_NET_BT_ADMIN | AID_SDCARD_R | AID_SDCARD_RW
  | AID_NET_BW_STATS | AID_READPROC | AID_UHID | AID_EXT_DATA_RW | AID_EXT_OBB_RW | AID_READTRACEFS

text \<open>
  The calls on a jail only take effect when it is entered; \<open>Cap_clear\<close> works on a copy of the capabilities
  that \<open>Cap_set\<close> installs.
\<close>

datatype adbd_call =
    Close_stdin | Umask nat | Ignore_SIGPIPE | Cloexec_auth_socket | Setenv string string
  | Jail_groups "adb_group list" | Jail_caps "capability list" | Jail_gid_shell | Jail_uid_shell | Jail_enter
  | Cap_get | Cap_clear cap_flag | Cap_set | Enter_tradeinmode "string option" | Setcon string | Set_property string string
  | Watchdog | Auth_init | Usb_init | Mdns int | Listen string | Jdwp | Event_loop

record adbd =
  auth_required :: bool
  root_seclabel :: "string option"
  tim_seclabel :: "string option"
  adb_device_banner :: string
  adbd_calls :: "adbd_call list"

text \<open>
  \<open>x_jail_ok\<close> tells whether \<open>minijail_enter\<close> succeeds; it ends the process otherwise.  \<open>x_sscanf_port\<close> is the
  number that \<open>sscanf\<close> with \<open>%d\<close> reads.  \<open>x_recovery\<close> is the build for the recovery system.
\<close>

record adbd_env =
  x_lb :: libbase
  x_GetProperty :: "string \<Rightarrow> string \<Rightarrow> string"
  x_GetBoolProperty :: "string \<Rightarrow> bool \<Rightarrow> bool"
  x_is_debuggable :: bool
  x_jail_ok :: bool
  x_cap_clear_flag :: "cap_flag \<Rightarrow> int"
  x_cap_set_proc :: int
  x_should_enter_tradeinmode :: bool
  x_is_in_tradein_evaluation_mode :: bool
  x_setcon :: "string \<Rightarrow> int"
  x_getenv :: "string \<Rightarrow> string option"
  x_access_ep0 :: int
  x_sscanf_port :: "string \<Rightarrow> int option"
  x_get_host_socket_spec_port :: "string \<Rightarrow> int"
  x_DEFAULT_PORT :: int
  x_recovery :: bool

definition adb_call :: "adbd_call \<Rightarrow> adbd \<Rightarrow> adbd" where
  "adb_call c st = st\<lparr>adbd_calls := adbd_calls st @ [c]\<rparr>"

section \<open>Privileges\<close>

definition should_drop_privileges :: "adbd_env \<Rightarrow> bool" where
  "should_drop_privileges x =
     (let drop = x_GetBoolProperty x ''ro.secure'' True;
          prop = x_GetProperty x ''service.adb.root'' [];
          drop = (if x_is_debuggable x \<and> prop = ''1'' then False else drop)
      in if prop = ''0'' then True else drop)"

definition adb_groups :: "adb_group list" where
  "adb_groups =
     [AID_ADB, AID_LOG, AID_INPUT, AID_INET, AID_NET_BT, AID_NET_BT_ADMIN, AID_SDCARD_R, AID_SDCARD_RW,
      AID_NET_BW_STATS, AID_READPROC, AID_UHID, AID_EXT_DATA_RW, AID_EXT_OBB_RW, AID_READTRACEFS]"

text \<open>
  A call that fails ends the process: \<open>Inl\<close> has the message of \<open>LOG(FATAL)\<close>, or of \<open>minijail_enter\<close>, and the state
  in which it aborts.
\<close>

definition jail_enter :: "adbd_env \<Rightarrow> adbd \<Rightarrow> (string, unit) result \<times> adbd" where
  "jail_enter x st = (if x_jail_ok x then (Inr (), adb_call Jail_enter st) else (Inl ''minijail_enter'', st))"

definition clear_flag :: "adbd_env \<Rightarrow> cap_flag \<Rightarrow> adbd \<Rightarrow> (string, unit) result \<times> adbd" where
  "clear_flag x f st = (if x_cap_clear_flag x f = -1 then (Inl ''cap_clear_flag() failed'', st) else (Inr (), adb_call (Cap_clear f) st))"

definition set_caps :: "adbd_env \<Rightarrow> adbd \<Rightarrow> (string, unit) result \<times> adbd" where
  "set_caps x st = (if x_cap_set_proc x \<noteq> 0 then (Inl ''cap_set_proc() failed'', st) else (Inr (), adb_call Cap_set st))"

definition become_root :: "adbd_env \<Rightarrow> adbd \<Rightarrow> (string, unit) result \<times> adbd" where
  "become_root x st =
     (case root_seclabel st of
        None \<Rightarrow> (Inr (), st)
      | Some label \<Rightarrow>
          if x_setcon x label < 0 then (Inl ''Could not set SELinux context'', adb_call (Set_property ''service.adb.root'' ''0'') st)
          else (Inr (), adb_call (Setcon label) st))"

definition trade_in :: "adbd_env \<Rightarrow> adbd \<Rightarrow> adbd" where
  "trade_in x st =
     (if x_should_enter_tradeinmode x
      then (adb_call (Enter_tradeinmode (tim_seclabel st)) st)\<lparr>auth_required := False\<rparr>
      else if x_is_in_tradein_evaluation_mode x then st\<lparr>auth_required := False\<rparr>
      else st)"

definition drop_privileges :: "adbd_env \<Rightarrow> adbd \<Rightarrow> (string, unit) result \<times> adbd" where
  "drop_privileges x st =
     (let st = adb_call (Jail_groups adb_groups) st
      in if should_drop_privileges x then
           (let st = (if \<not> x_is_debuggable x
                      then adb_call (Jail_caps [CAP_SETUID, CAP_SETGID, CAP_SYS_NICE]) st else st);
                st = adb_call Jail_uid_shell (adb_call Jail_gid_shell st)
            in or_return (jail_enter x st)
                 (\<lambda>_ st. or_return (clear_flag x CAP_INHERITABLE (adb_call Cap_get st))
                    (\<lambda>_ st. or_return (clear_flag x CAP_EFFECTIVE st)
                       (\<lambda>_ st. or_return (clear_flag x CAP_PERMITTED st)
                          (\<lambda>_ st. or_return (set_caps x st) (\<lambda>_ st. (Inr (), trade_in x st)))))))
         else or_return (jail_enter x st) (\<lambda>_. become_root x))"

section \<open>Listening\<close>

definition setup_adb :: "adbd_env \<Rightarrow> string list \<Rightarrow> adbd \<Rightarrow> adbd" where
  "setup_adb x addrs st =
     (let port = (case find (\<lambda>p. p \<noteq> -1) (map (x_get_host_socket_spec_port x) addrs) of
                    Some p \<Rightarrow> p | None \<Rightarrow> x_DEFAULT_PORT x)
      in fold (\<lambda>addr. adb_call (Listen addr)) addrs (adb_call (Mdns port) st))"

definition port_addrs :: "int \<Rightarrow> string list" where
  "port_addrs port = [''tcp:'' @ to_string port, ''vsock:'' @ to_string port]"

text \<open>The addresses, and whether the sockets are set up at all.\<close>

definition listen_addrs :: "adbd_env \<Rightarrow> bool \<Rightarrow> string list option" where
  "listen_addrs x is_usb =
     (let prop_addr = x_GetProperty x ''service.adb.listen_addrs'' []
      in if prop_addr = [] then
           (let prop_port = x_GetProperty x ''service.adb.tcp.port'' [];
                prop_port = (if prop_port = [] then x_GetProperty x ''persist.adb.tcp.port'' [] else prop_port)
            in case x_sscanf_port x prop_port of
                 Some port \<Rightarrow>
                   if 0 < port then Some (port_addrs port)
                   else if \<not> is_usb then Some (port_addrs (x_DEFAULT_PORT x)) else None
               | None \<Rightarrow> if \<not> is_usb then Some (port_addrs (x_DEFAULT_PORT x)) else None)
         else Some (Split (x_lb x) prop_addr '',''))"

definition authentication :: "adbd_env \<Rightarrow> adbd \<Rightarrow> adbd" where
  "authentication x st =
     (let device_unlocked = (x_GetProperty x ''ro.boot.verifiedbootstate'' [] = ''orange'')
      in if device_unlocked \<or> x_is_debuggable x
         then st\<lparr>auth_required := (if x_recovery x then False else x_GetBoolProperty x ''ro.adb.secure'' False)\<rparr>
         else st)"

text \<open>The three parts of \<open>adbd_main\<close>: before the privileges are dropped, dropping them, and the service.\<close>

definition prepare :: "adbd_env \<Rightarrow> adbd \<Rightarrow> adbd" where
  "prepare x st =
     (let st = authentication x (adb_call Cloexec_auth_socket (adb_call Ignore_SIGPIPE (adb_call (Umask 0) st)))
      in case x_getenv x ''ADB_EXTERNAL_STORAGE'' of
           None \<Rightarrow> st | Some v \<Rightarrow> adb_call (Setenv ''EXTERNAL_STORAGE'' v) st)"

definition serve :: "adbd_env \<Rightarrow> adbd \<Rightarrow> adbd" where
  "serve x st =
     (let st = adb_call Auth_init (adb_call Watchdog st);
          is_usb = (x_access_ep0 x = 0);
          st = (if is_usb then adb_call Usb_init st else st);
          st = (case listen_addrs x is_usb of None \<Rightarrow> st | Some addrs \<Rightarrow> setup_adb x addrs st)
      in adb_call Event_loop (adb_call Jdwp st))"

definition adbd_main :: "adbd_env \<Rightarrow> adbd \<Rightarrow> (string, unit) result \<times> adbd" where
  "adbd_main x st = or_return (drop_privileges x (prepare x st)) (\<lambda>_ st. (Inr (), serve x st))"

text \<open>The command line: options in order, each with its argument; \<open>Inl\<close> is the exit status.\<close>

datatype adbd_option = Root_seclabel string | Tim_seclabel string | Device_banner string | Version | Logpostfsdata | Invalid

fun parse_options :: "adbd_option list \<Rightarrow> adbd \<Rightarrow> int + adbd" where
  "parse_options [] st = Inr st"
| "parse_options (opt # opts) st =
     (case opt of
        Root_seclabel l \<Rightarrow> parse_options opts (st\<lparr>root_seclabel := Some l\<rparr>)
      | Tim_seclabel l \<Rightarrow> parse_options opts (st\<lparr>tim_seclabel := Some l\<rparr>)
      | Device_banner b \<Rightarrow> parse_options opts (st\<lparr>adb_device_banner := b\<rparr>)
      | Version \<Rightarrow> Inl 0
      | Logpostfsdata \<Rightarrow> Inl 0
      | Invalid \<Rightarrow> Inl 1)"

text \<open>The exit status when an option ends the program, and otherwise the run of the daemon.\<close>

definition adbd_program :: "adbd_env \<Rightarrow> adbd_option list \<Rightarrow> adbd \<Rightarrow> int + (string, unit) result \<times> adbd" where
  "adbd_program x opts st =
     (case parse_options opts st of
        Inl status \<Rightarrow> Inl status
      | Inr st \<Rightarrow> Inr (adbd_main x (adb_call Close_stdin st)))"

section \<open>What the daemon may do\<close>

text \<open>
  The privileges of the process as the calls leave them: user and group, groups, and whether the inheritable,
  effective and permitted capabilities are gone.  A jail applies what was asked of it when it is entered.
\<close>

record creds =
  cr_root :: bool
  cr_gid_root :: bool
  cr_groups :: "adb_group list option"
  cr_cleared :: "cap_flag set"
  jl_uid_shell :: bool
  jl_gid_shell :: bool
  jl_groups :: "adb_group list option"
  jl_cleared :: "cap_flag set"

definition initial_creds :: creds where
  "initial_creds =
     \<lparr>cr_root = True, cr_gid_root = True, cr_groups = None, cr_cleared = {},
      jl_uid_shell = False, jl_gid_shell = False, jl_groups = None, jl_cleared = {}\<rparr>"

fun creds_call :: "adbd_call \<Rightarrow> creds \<Rightarrow> creds" where
  "creds_call (Jail_groups gs) cr = cr\<lparr>jl_groups := Some gs\<rparr>"
| "creds_call Jail_uid_shell cr = cr\<lparr>jl_uid_shell := True\<rparr>"
| "creds_call Jail_gid_shell cr = cr\<lparr>jl_gid_shell := True\<rparr>"
| "creds_call Jail_enter cr =
     cr\<lparr>cr_root := cr_root cr \<and> \<not> jl_uid_shell cr, cr_gid_root := cr_gid_root cr \<and> \<not> jl_gid_shell cr,
        cr_groups := jl_groups cr\<rparr>"
| "creds_call Cap_get cr = cr\<lparr>jl_cleared := {}\<rparr>"
| "creds_call (Cap_clear f) cr = cr\<lparr>jl_cleared := insert f (jl_cleared cr)\<rparr>"
| "creds_call Cap_set cr = cr\<lparr>cr_cleared := jl_cleared cr\<rparr>"
| "creds_call _ cr = cr"

definition creds_after :: "adbd_call list \<Rightarrow> creds" where
  "creds_after cs = fold creds_call cs initial_creds"

definition unprivileged :: "creds \<Rightarrow> bool" where
  "unprivileged cr \<longleftrightarrow> \<not> cr_root cr \<and> \<not> cr_gid_root cr \<and> cr_groups cr = Some adb_groups \<and>
     cr_cleared cr = {CAP_INHERITABLE, CAP_EFFECTIVE, CAP_PERMITTED}"

definition exposed :: "adbd_call \<Rightarrow> bool" where
  "exposed c \<longleftrightarrow> (case c of Watchdog \<Rightarrow> True | Auth_init \<Rightarrow> True | Usb_init \<Rightarrow> True | Mdns _ \<Rightarrow> True | Listen _ \<Rightarrow> True
                  | Jdwp \<Rightarrow> True | Event_loop \<Rightarrow> True | Enter_tradeinmode _ \<Rightarrow> True | _ \<Rightarrow> False)"

text \<open>Every exposing call is made with privileges that satisfy \<open>P\<close>.\<close>

fun guarded_calls :: "(creds \<Rightarrow> bool) \<Rightarrow> creds \<Rightarrow> adbd_call list \<Rightarrow> bool" where
  "guarded_calls P cr [] \<longleftrightarrow> True"
| "guarded_calls P cr (c # cs) \<longleftrightarrow> (exposed c \<longrightarrow> P cr) \<and> guarded_calls P (creds_call c cr) cs"

lemma guarded_append:
  "guarded_calls P cr (cs @ ds) \<longleftrightarrow> guarded_calls P cr cs \<and> guarded_calls P (fold creds_call cs cr) ds"
  by (induction cs arbitrary: cr) auto

lemma exposed_creds: "exposed c \<Longrightarrow> creds_call c cr = cr"
  by (cases c) (simp_all add: exposed_def)

lemma guarded_exposed: "\<forall>c \<in> set cs. exposed c \<Longrightarrow> P cr \<Longrightarrow> guarded_calls P cr cs"
  by (induction cs) (simp_all add: exposed_creds)

section \<open>The calls of the daemon\<close>

lemma adb_call_simps [simp]:
  "adbd_calls (adb_call c st) = adbd_calls st @ [c]"
  "auth_required (adb_call c st) = auth_required st"
  "root_seclabel (adb_call c st) = root_seclabel st"
  "tim_seclabel (adb_call c st) = tim_seclabel st"
  by (simp_all add: adb_call_def)

lemma fold_listen [simp]:
  "adbd_calls (fold (\<lambda>a. adb_call (Listen a)) as st) = adbd_calls st @ map Listen as"
  "auth_required (fold (\<lambda>a. adb_call (Listen a)) as st) = auth_required st"
  by (induction as arbitrary: st) simp_all

text \<open>\<open>st'\<close> comes from \<open>st\<close> by exposing calls only.\<close>

definition exposes :: "adbd \<Rightarrow> adbd \<Rightarrow> bool" where
  "exposes st st' \<longleftrightarrow> (\<exists>cs. adbd_calls st' = adbd_calls st @ cs \<and> (\<forall>c \<in> set cs. exposed c))"

lemma exposes_refl: "exposes st st"
  by (simp add: exposes_def)

lemma exposes_call: "exposes st st' \<Longrightarrow> exposed c \<Longrightarrow> exposes st (adb_call c st')"
  by (fastforce simp: exposes_def)

lemma exposes_listen: "exposes st st' \<Longrightarrow> exposes st (fold (\<lambda>a. adb_call (Listen a)) as st')"
  by (induction as arbitrary: st') (simp_all add: exposes_call exposed_def)

lemma setup_adb_exposes: "exposes st st' \<Longrightarrow> exposes st (setup_adb x addrs st')"
  by (simp add: setup_adb_def Let_def exposes_listen exposes_call exposed_def)

lemma setup_adb_auth: "auth_required (setup_adb x addrs st) = auth_required st"
  by (simp add: setup_adb_def Let_def)

lemma serve_exposes: "exposes st (serve x st)"
  by (simp add: serve_def Let_def exposes_refl exposes_call setup_adb_exposes exposed_def split: option.split)

lemma serve_auth [simp]: "auth_required (serve x st) = auth_required st"
  by (simp add: serve_def Let_def setup_adb_auth split: option.splits)

lemma authentication_calls [simp]: "adbd_calls (authentication x st) = adbd_calls st"
  by (simp add: authentication_def)

lemma prepare_quiet:
  assumes "adbd_calls st = []"
  shows "fold creds_call (adbd_calls (prepare x st)) cr = cr \<and> (\<forall>c \<in> set (adbd_calls (prepare x st)). \<not> exposed c)"
  using assms by (auto simp: prepare_def Let_def exposed_def split: option.splits)

lemma prepare_auth:
  "auth_required (prepare x st) =
     (if x_GetProperty x ''ro.boot.verifiedbootstate'' [] = ''orange'' \<or> x_is_debuggable x
      then \<not> x_recovery x \<and> x_GetBoolProperty x ''ro.adb.secure'' False
      else auth_required st)"
  by (simp add: prepare_def Let_def authentication_def split: option.splits)

lemma quiet_guarded: "\<forall>c \<in> set cs. \<not> exposed c \<Longrightarrow> guarded_calls P cr cs"
  by (induction cs arbitrary: cr) simp_all

lemmas privilege_steps =
  drop_privileges_def jail_enter_def clear_flag_def set_caps_def become_root_def trade_in_def or_return_def Let_def

text \<open>A run that drops the privileges has dropped them all before it exposes anything.\<close>

lemma drop_privileges_dropped:
  assumes "drop_privileges x st = (Inr (), st')" and "should_drop_privileges x"
    and "fold creds_call (adbd_calls st) initial_creds = initial_creds"
    and "\<forall>c \<in> set (adbd_calls st). \<not> exposed c"
  shows "guarded_calls unprivileged initial_creds (adbd_calls st') \<and> unprivileged (creds_after (adbd_calls st'))"
  using assms
  by (auto simp: privilege_steps guarded_append quiet_guarded creds_after_def unprivileged_def initial_creds_def
      exposed_def split: if_splits)

lemma drop_privileges_failed:
  assumes "drop_privileges x st = (Inl e, st')" and "\<forall>c \<in> set (adbd_calls st). \<not> exposed c"
  shows "\<forall>c \<in> set (adbd_calls st'). \<not> exposed c"
  using assms by (auto simp: privilege_steps exposed_def split: if_splits option.splits)

lemma drop_privileges_auth:
  assumes "drop_privileges x st = (Inr (), st')"
  shows "auth_required st' \<longleftrightarrow> auth_required st \<and>
           \<not> (should_drop_privileges x \<and> (x_should_enter_tradeinmode x \<or> x_is_in_tradein_evaluation_mode x))"
  using assms by (auto simp: privilege_steps split: if_splits option.splits)

lemma exposes_guarded:
  assumes "exposes st st'" and "guarded_calls P initial_creds (adbd_calls st)" and "P (creds_after (adbd_calls st))"
  shows "guarded_calls P initial_creds (adbd_calls st')"
  using assms by (auto simp: exposes_def guarded_append guarded_exposed creds_after_def)

text \<open>
  C34 (adbd_privileges): The daemon exposes nothing (no authentication thread, no USB or socket transport, no event
  loop, no trade-in mode) before its privileges are settled.  If \<open>ro.secure\<close> is set and the device is not a
  debuggable one on which \<open>adb root\<close> was asked for, or if \<open>adb unroot\<close> was, then every exposing call is made as
  the shell user and group, with the fixed groups and with no inheritable, effective or permitted capability.
  When a step fails the process ends and has exposed nothing.  A locked, non-debuggable device that is not being
  traded in keeps asking for authentication.
\<close>

theorem adbd_privileges:
  assumes "adbd_calls st = []"
  shows "case adbd_main x st of
           (Inl _, st') \<Rightarrow> \<forall>c \<in> set (adbd_calls st'). \<not> exposed c
         | (Inr _, st') \<Rightarrow>
             (x_GetProperty x ''service.adb.root'' [] = ''0'' \<or>
              x_GetBoolProperty x ''ro.secure'' True \<and>
                \<not> (x_is_debuggable x \<and> x_GetProperty x ''service.adb.root'' [] = ''1'')
              \<longrightarrow> guarded_calls unprivileged initial_creds (adbd_calls st')) \<and>
             (auth_required st \<and> x_GetProperty x ''ro.boot.verifiedbootstate'' [] \<noteq> ''orange'' \<and>
                \<not> x_is_debuggable x \<and> \<not> x_should_enter_tradeinmode x \<and> \<not> x_is_in_tradein_evaluation_mode x
              \<longrightarrow> auth_required st')"
proof (cases "drop_privileges x (prepare x st)")
  case (Pair r dropped)
  note quiet = prepare_quiet [OF assms, of x initial_creds]
  show ?thesis
  proof (cases r)
    case (Inl e)
    then show ?thesis
      using Pair drop_privileges_failed [of x "prepare x st" e dropped] quiet by (simp add: adbd_main_def or_return_def)
  next
    case (Inr u)
    then have run: "drop_privileges x (prepare x st) = (Inr (), dropped)"
      using Pair by simp
    have "guarded_calls unprivileged initial_creds (adbd_calls (serve x dropped))" if "should_drop_privileges x"
      using drop_privileges_dropped [OF run that] quiet exposes_guarded [OF serve_exposes] by blast
    then show ?thesis
      using run drop_privileges_auth [OF run]
      by (auto simp: adbd_main_def or_return_def should_drop_privileges_def Let_def prepare_auth)
  qed
qed

definition toy_adbd_env :: adbd_env where
  "toy_adbd_env =
     \<lparr>x_lb = std_libbase, x_GetProperty = (\<lambda>_ d. d), x_GetBoolProperty = (\<lambda>_ d. d),
      x_is_debuggable = False, x_jail_ok = True, x_cap_clear_flag = (\<lambda>_. 0), x_cap_set_proc = 0,
      x_should_enter_tradeinmode = False, x_is_in_tradein_evaluation_mode = False, x_setcon = (\<lambda>_. 0),
      x_getenv = (\<lambda>_. None), x_access_ep0 = 0, x_sscanf_port = (\<lambda>_. Some 5555),
      x_get_host_socket_spec_port = (\<lambda>_. 5555), x_DEFAULT_PORT = 5555, x_recovery = False\<rparr>"

definition toy_adbd :: adbd where
  "toy_adbd = \<lparr>auth_required = True, root_seclabel = None, tim_seclabel = None, adb_device_banner = ''device'',
     adbd_calls = []\<rparr>"

lemma toy_digit: "digit 5 = CHR ''5''"
  by code_simp

lemma toy_port: "to_string 5555 = ''5555''"
  by (simp add: to_string_def dec.simps toy_digit)

lemma toy_adbd_run:
  "adbd_main toy_adbd_env toy_adbd =
     (Inr (), toy_adbd\<lparr>adbd_calls :=
        [Umask 0, Ignore_SIGPIPE, Cloexec_auth_socket, Jail_groups adb_groups,
         Jail_caps [CAP_SETUID, CAP_SETGID, CAP_SYS_NICE], Jail_gid_shell, Jail_uid_shell, Jail_enter, Cap_get,
         Cap_clear CAP_INHERITABLE, Cap_clear CAP_EFFECTIVE, Cap_clear CAP_PERMITTED, Cap_set,
         Watchdog, Auth_init, Usb_init, Mdns 5555, Listen ''tcp:5555'', Listen ''vsock:5555'', Jdwp, Event_loop]\<rparr>)"
  by (simp add: adbd_main_def serve_def listen_addrs_def port_addrs_def toy_port toy_adbd_env_def prepare_def
      authentication_def privilege_steps should_drop_privileges_def setup_adb_def adb_call_def toy_adbd_def)

theorem adbd_privileges_witness:
  "adbd_calls toy_adbd = [] \<and>
   (case adbd_main toy_adbd_env toy_adbd of
      (Inl _, st') \<Rightarrow> False
    | (Inr _, st') \<Rightarrow>
        guarded_calls unprivileged initial_creds (adbd_calls st') \<and> auth_required st' \<and>
        Listen ''tcp:5555'' \<in> set (adbd_calls st'))"
  using adbd_privileges [of toy_adbd toy_adbd_env] unfolding toy_adbd_run
  by (simp add: toy_adbd_def toy_adbd_env_def)

end
