(* ===== verification/Spec2Isabelle.thy ===== *)
theory Spec2Isabelle
  imports Touch_Daemon Vk_Client Init_Wrapper Service_Control Service_Config Fstab_Correct Prop_Load_Correct Devices_Correct
    Init_Correct Avb_Correct First_Stage_Safe Apexd_Correct Cuttlefish_Correct Adbd
begin

text \<open>
  Verification of the guest programs and of the Android start-up sources of QArmDroid.

  \<^bold>\<open>The program.\<close>  QArmDroid runs Android in an emulator.  The C programs under \<open>src/tools\<close> run inside the
  guest: the init wrapper prepares consoles and the network and watches over the real init, the touch
  daemon turns packets from the host into input events, the Vulkan client forwards rendering to the host.
  The C++ files under \<open>src/research/aosp-src\<close> are the parts of Android on which the boot of the guest
  rests, in the order in which they run: host tools assemble the disk; first stage init loads modules,
  creates devices, verifies and mounts the system partitions (with the file system manager, the fstab
  reader and verified boot) and switches to them; second stage init sets up the property service, parses
  its configuration (the parser hands the lines of a section to the service section parser, which
  registers services) and runs the main loop, in which the service state machine starts, stops and reaps
  services; ueventd keeps the device nodes; the APEX daemon selects, verifies and mounts packages; the debug
  bridge daemon lets a developer in.

  \<^bold>\<open>Shared theories.\<close>  \<open>Prelude\<close> holds machine types, C integer arithmetic, C++ string operations, byte
  codecs and the result types (\<open>or_return\<close> is the early return of a failed call).  \<open>Libbase\<close> is the string
  library the C++ code calls, a parameter with the contract \<open>libbase_laws\<close>.  \<open>Kernel_Io\<close> states what \<open>read\<close> and
  \<open>write\<close> on a socket promise (\<open>byte_stream\<close>, \<open>byte_sink\<close> and the locales built from them) and interprets the
  contracts on a concrete socket.

  \<^bold>\<open>Guest programs.\<close>
  \<^item> \<open>Touch_Daemon\<close> (\<open>touch_daemon.c\<close>): state is the device descriptor and the sequence of writes and
    sleeps.  The client loop refines a specification that cuts the stream into 14-byte packets and
    encodes the gestures they ask for; scaling is exact; a swipe stays in its box and ends at its target.
  \<^item> \<open>Vk_Client\<close> (\<open>vk_guest_client.c\<close>): codecs, transport loops, one exchange, and the whole session; a
    session against a correct daemon ends with the frame on disk.
  \<^item> \<open>Init_Wrapper\<close> (\<open>init_wrapper.c\<close>): console nodes, interface and routes, the watchdog of the child.

  \<^bold>\<open>First stage.\<close>
  \<^item> \<open>Fstab\<close> (\<open>fs_mgr_fstab.cpp\<close>): flags, lines, files, device tree, dynamic system updates, lookups.
    \<open>Fstab_Correct\<close> has well-formedness, the round trip of a table and the transformations.
  \<^item> \<open>Avb\<close> (\<open>avb_util.cpp\<close>, \<open>fs_avb.cpp\<close>, \<open>fs_avb_util.cpp\<close>): loading and verifying vbmeta images, descriptors,
    hashtrees.  \<open>Avb_Correct\<close> shows the chain of keys from the root and the digest check.
  \<^item> \<open>Block_Dev\<close> (\<open>bdi.cpp\<close>, \<open>switch_root.cpp\<close>): waiting for block devices, the move into the new root.
  \<^item> \<open>Fs_Mgr\<close>, \<open>Fs_Mgr_All\<close>, \<open>Fs_Mgr_Tools\<close> (\<open>fs_mgr.cpp\<close>): checking and mounting one file system; mounting
    them all; unmounting, swap, verity queries, remounting.
  \<^item> \<open>First_Stage_Init\<close> (\<open>first_stage_init.cpp\<close>) and \<open>First_Stage_Mount\<close> (\<open>first_stage_mount.cpp\<close>).
    \<open>Boot_Frame\<close> and \<open>Mount_Frame\<close> say which operations leave the mounts alone, \<open>First_Stage_Correct\<close> and
    \<open>First_Stage_Boot\<close> follow devices and mounts through a boot, and \<open>First_Stage_Safe\<close> shows that
    only what passed verification is mounted on a verified entry before init is executed.

  \<^bold>\<open>Second stage.\<close>
  \<^item> \<open>Prop_Service\<close> and \<open>Prop_Load\<close> (\<open>prop_service.cpp\<close>): setting, permissions, the socket protocol, the writing
    thread; property files, derived properties and the boot sequence.  \<open>Prop_Correct\<close> has the step relation
    over all operations, write-once, access control, the protocol, and the fate of connections;
    \<open>Prop_Load_Correct\<close> the priority of sources and the import of files.
  \<^item> \<open>Init_Parser\<close> (\<open>parser.cpp\<close>): sections, lines, files and directories; the locale \<open>section_contract\<close> lifts
    an invariant from the section parsers to whole configurations.
  \<^item> \<open>Service_Parser\<close> (\<open>service_parser.cpp\<close>): every option of a service section.  \<open>Service_Config\<close> shows what
    every parsed service satisfies and how overriding works.
  \<^item> \<open>Service\<close> (\<open>service.cpp\<close>): a record for the class, one definition for each member function, the effects
    on the rest of the system in order.  \<open>Service_Control\<close> has the step relation over all operations, its
    invariant, and the behaviour of start, stop, reap, crash and exec.
  \<^item> \<open>Init_Main\<close> and \<open>Init_Loop\<close> (\<open>init.cpp\<close>): start-up of the second stage; the main loop beside the property
    thread as a step relation.  \<open>Init_Correct\<close> shows that no wake-up is lost, what waiting for a property
    means, and when the loop wakes.
  \<^item> \<open>Devices\<close> (\<open>devices.cpp\<close>) and \<open>Devices_Correct\<close>: device nodes, links and driver binding; the invariant of the
    handler, adding and removing a block device, binding and unbinding.

  \<^bold>\<open>Packages and tools.\<close>
  \<^item> \<open>Apex_Repository\<close> (\<open>afr.cpp\<close>, \<open>abl.cpp\<close>), \<open>Apexd_Mount\<close>, \<open>Apexd_Session\<close>, \<open>Apexd_Boot\<close>, \<open>Apexd_Start\<close>
    (\<open>apexd.cpp\<close>): the repository of packages, mounting, staged sessions, activation by worker threads, the
    start-up modes and installation.  The state \<open>apexd\<close> has the repository, the database of mounted
    packages, the sessions and the calls made.  \<open>Apex_Correct\<close> is about the repository and selection;
    \<open>Apexd_Frame\<close> has the contracts of the operations (locales \<open>quiet\<close>, \<open>verifying\<close>), \<open>Apexd_Workers\<close> the schedules
    of the workers, \<open>Apexd_Trust\<close> and \<open>Apexd_Devices\<close> carry two invariants through the whole daemon, and
    \<open>Apexd_Correct\<close> has the results: what is active at start-up was verified against a trusted key, failed
    mounts leave no device behind, temporary mounts are undone, minor numbers are found.
  \<^item> \<open>Cuttlefish\<close> (\<open>cf_super_image_mixer.cc\<close>, \<open>cf_boot_config.cc\<close>, \<open>pp.cc\<close>, \<open>acdc.cc\<close>) and \<open>Cuttlefish_Correct\<close>:
    which archive an image is taken from, the boot loader environment, the partitions of the disk.
  \<^item> \<open>Adbd\<close> (\<open>adbd_main.cpp\<close>): nothing is exposed before privileges are dropped.

  \<^bold>\<open>Fuel and bounds.\<close>  Loops of the sources that count down are functions with a termination proof.  Fuel
  appears where nothing in the code bounds a loop: the packets of a connection (any fuel beyond the length
  of the stream is shown to be enough), the import of property files and the chain of vbmeta partitions
  (running out is a value of its own, with examples that show it is reached for every fuel), the busy wait
  of the wrapper, and the turns of the APEX workers (enough turns finish the queue, lemma \<open>round_finishes\<close>).  The
  partial functions \<open>HandleUevent\<close>, \<open>read_ahead_loop\<close>, \<open>mount_loop\<close>, \<open>bow_walk\<close>, \<open>ma_loop\<close>, \<open>mount_rest\<close> and
  \<open>minor_loop\<close> have the value \<open>None\<close> when the code does not return.  Machine integers are words or carry their
  wrap-around.

  \<^bold>\<open>Parameters.\<close>  System calls, libselinux, libbase, libavb, libdm, bionic's property area, the tokenizer and
  headers that are not in the repository are parameters; the locales state the documented behaviour that
  the theorems use and are interpreted on concrete implementations, on which the instances evaluate.

  \<^bold>\<open>Not modelled.\<close>  Logging, thread creation and epoll dispatch, dumping of service state, serialization
  of property contexts; the wait of the APEX daemon for the end of the boot, its metrics and test getters;
  \<open>main_init.cpp\<close>, which only chooses the stage by its arguments; \<open>fstab.cpp\<close>, \<open>init_fresh.cpp\<close>, \<open>fsm.cpp\<close> and
  \<open>fsm2.cpp\<close>, which are identical copies of files that are modelled; the stub daemon (a sleep loop) and the
  build wrapper; the host application in Rust and TypeScript.
\<close>

section \<open>From configuration to running services\<close>




end
